(* ===== verification/Rust_Str.thy ===== *)
theory Rust_Str
  imports Main "HOL-Library.Sublist" "HOL-Library.Char_ord"
begin

text \<open>
  Rust's \<^verbatim>\<open>str\<close> for the model. A string is the list of the bytes of its UTF-8 text (a HOL
  \<^typ>\<open>char\<close> is a byte), which is what \<^verbatim>\<open>len\<close>, slicing, \<^verbatim>\<open>==\<close> and \<^verbatim>\<open>contains\<close> work on. A Rust
  \<^verbatim>\<open>char\<close> is the string of its one to four bytes, and \<open>chars\<close> is the iterator of the same name:
  \<^verbatim>\<open>trim\<close>, \<^verbatim>\<open>lines\<close>, \<^verbatim>\<open>to_lowercase\<close> and the counts of characters go through it. These are the
  standard-library functions that the modelled code calls; later theories use them under the
  names the source uses. The lower-casing table holds every code point whose lower case is
  another single code point (Unicode 14), as arithmetic runs; \<^verbatim>\<open>to_lowercase\<close>'s one
  context-dependent rule (a capital sigma at the end of a word) is not modelled.
\<close>

section \<open>Collections of facts\<close>

named_theorems str_simps \<open>rewrite rules for the string functions\<close>

section \<open>Characters\<close>

definition byte :: "char \<Rightarrow> nat" where
  "byte c = of_char c"

text \<open>The number of bytes of the character that starts with byte \<open>b\<close>.\<close>

definition utf8_len :: "char \<Rightarrow> nat" where
  "utf8_len b =
     (if byte b < 192 then 1 else if byte b < 224 then 2 else if byte b < 240 then 3 else 4)"

lemma utf8_len_pos [simp]: "0 < utf8_len b"
  by (simp add: utf8_len_def)

fun chars :: "string \<Rightarrow> string list" where
  "chars [] = []"
| "chars (b # bs) =
     (b # take (utf8_len b - 1) bs) # chars (drop (utf8_len b - 1) bs)"

lemma concat_chars [str_simps, simp]: "concat (chars s) = s"
  by (induction s rule: chars.induct) simp_all

lemma chars_nonempty: "c \<in> set (chars s) \<Longrightarrow> c \<noteq> []"
  by (induction s rule: chars.induct) auto

lemma chars_eq_Nil [str_simps, simp]: "chars s = [] \<longleftrightarrow> s = []"
  by (cases s) simp_all

lemma length_chars_le: "length (chars s) \<le> length s"
proof (induction s rule: chars.induct)
  case (2 b bs)
  then show ?case by simp
qed simp

text \<open>On ASCII text a character is a byte.\<close>

definition is_ascii :: "string \<Rightarrow> bool" where
  "is_ascii s = list_all (\<lambda>b. byte b < 128) s"

lemma chars_ascii: "is_ascii s \<Longrightarrow> chars s = map (\<lambda>b. [b]) s"
proof (induction s rule: chars.induct)
  case (2 b bs)
  then have "utf8_len b = 1" by (simp add: is_ascii_def utf8_len_def)
  with 2 show ?case by (simp add: is_ascii_def)
qed simp

text \<open>The code point of a character, and the bytes of a code point.\<close>

definition code_point :: "string \<Rightarrow> nat" where
  "code_point c =
     (case map byte c of
        [b0] \<Rightarrow> b0
      | [b0, b1] \<Rightarrow> (b0 mod 32) * 64 + b1 mod 64
      | [b0, b1, b2] \<Rightarrow> (b0 mod 16) * 4096 + (b1 mod 64) * 64 + b2 mod 64
      | [b0, b1, b2, b3] \<Rightarrow>
          (b0 mod 8) * 262144 + (b1 mod 64) * 4096 + (b2 mod 64) * 64 + b3 mod 64
      | _ \<Rightarrow> 65533)"

definition encode_utf8 :: "nat \<Rightarrow> string" where
  "encode_utf8 n =
     map char_of
       (if n < 128 then [n]
        else if n < 2048 then [192 + n div 64, 128 + n mod 64]
        else if n < 65536 then [224 + n div 4096, 128 + (n div 64) mod 64, 128 + n mod 64]
        else [240 + n div 262144, 128 + (n div 4096) mod 64, 128 + (n div 64) mod 64,
              128 + n mod 64])"

text \<open>\<^verbatim>\<open>char::is_whitespace\<close>: the code points with the White_Space property.\<close>

definition is_whitespace_cp :: "nat \<Rightarrow> bool" where
  "is_whitespace_cp n \<longleftrightarrow>
     n \<in> set [9, 10, 11, 12, 13, 32, 133, 160, 5760, 8232, 8233, 8239, 8287, 12288] \<or>
     (8192 \<le> n \<and> n \<le> 8202)"

definition is_whitespace :: "string \<Rightarrow> bool" where
  "is_whitespace c = is_whitespace_cp (code_point c)"

section \<open>Lower case\<close>

text \<open>
  Each run \<open>(lo, hi, step, delta)\<close> maps the code points \<open>lo, lo + step, \<dots>, hi\<close> to themselves plus
  \<open>delta\<close>.
\<close>

definition lower_runs :: "(nat \<times> nat \<times> nat \<times> int) list" where
  "lower_runs = [
    (192, 214, 1, 32), (216, 222, 1, 32), (256, 302, 2, 1), (306, 310, 2, 1), (313, 327, 2, 1),
    (330, 374, 2, 1), (376, 376, 1, -121), (377, 381, 2, 1), (385, 385, 1, 210),
    (386, 388, 2, 1), (390, 390, 1, 206), (391, 391, 1, 1), (393, 394, 1, 205),
    (395, 395, 1, 1), (398, 398, 1, 79), (399, 399, 1, 202), (400, 400, 1, 203),
    (401, 401, 1, 1), (403, 403, 1, 205), (404, 404, 1, 207), (406, 406, 1, 211),
    (407, 407, 1, 209), (408, 408, 1, 1), (412, 412, 1, 211), (413, 413, 1, 213),
    (415, 415, 1, 214), (416, 420, 2, 1), (422, 422, 1, 218), (423, 423, 1, 1),
    (425, 425, 1, 218), (428, 428, 1, 1), (430, 430, 1, 218), (431, 431, 1, 1),
    (433, 434, 1, 217), (435, 437, 2, 1), (439, 439, 1, 219), (440, 440, 1, 1),
    (444, 444, 1, 1), (452, 452, 1, 2), (453, 453, 1, 1), (455, 455, 1, 2), (456, 456, 1, 1),
    (458, 458, 1, 2), (459, 475, 2, 1), (478, 494, 2, 1), (497, 497, 1, 2), (498, 500, 2, 1),
    (502, 502, 1, -97), (503, 503, 1, -56), (504, 542, 2, 1), (544, 544, 1, -130),
    (546, 562, 2, 1), (570, 570, 1, 10795), (571, 571, 1, 1), (573, 573, 1, -163),
    (574, 574, 1, 10792), (577, 577, 1, 1), (579, 579, 1, -195), (580, 580, 1, 69),
    (581, 581, 1, 71), (582, 590, 2, 1), (880, 882, 2, 1), (886, 886, 1, 1), (895, 895, 1, 116),
    (902, 902, 1, 38), (904, 906, 1, 37), (908, 908, 1, 64), (910, 911, 1, 63),
    (913, 929, 1, 32), (931, 939, 1, 32), (975, 975, 1, 8), (984, 1006, 2, 1),
    (1012, 1012, 1, -60), (1015, 1015, 1, 1), (1017, 1017, 1, -7), (1018, 1018, 1, 1),
    (1021, 1023, 1, -130), (1024, 1039, 1, 80), (1040, 1071, 1, 32), (1120, 1152, 2, 1),
    (1162, 1214, 2, 1), (1216, 1216, 1, 15), (1217, 1229, 2, 1), (1232, 1326, 2, 1),
    (1329, 1366, 1, 48), (4256, 4293, 1, 7264), (4295, 4295, 1, 7264), (4301, 4301, 1, 7264),
    (5024, 5103, 1, 38864), (5104, 5109, 1, 8), (7312, 7354, 1, -3008), (7357, 7359, 1, -3008),
    (7680, 7828, 2, 1), (7838, 7838, 1, -7615), (7840, 7934, 2, 1), (7944, 7951, 1, -8),
    (7960, 7965, 1, -8), (7976, 7983, 1, -8), (7992, 7999, 1, -8), (8008, 8013, 1, -8),
    (8025, 8031, 2, -8), (8040, 8047, 1, -8), (8072, 8079, 1, -8), (8088, 8095, 1, -8),
    (8104, 8111, 1, -8), (8120, 8121, 1, -8), (8122, 8123, 1, -74), (8124, 8124, 1, -9),
    (8136, 8139, 1, -86), (8140, 8140, 1, -9), (8152, 8153, 1, -8), (8154, 8155, 1, -100),
    (8168, 8169, 1, -8), (8170, 8171, 1, -112), (8172, 8172, 1, -7), (8184, 8185, 1, -128),
    (8186, 8187, 1, -126), (8188, 8188, 1, -9), (8486, 8486, 1, -7517), (8490, 8490, 1, -8383),
    (8491, 8491, 1, -8262), (8498, 8498, 1, 28), (8544, 8559, 1, 16), (8579, 8579, 1, 1),
    (9398, 9423, 1, 26), (11264, 11311, 1, 48), (11360, 11360, 1, 1), (11362, 11362, 1, -10743),
    (11363, 11363, 1, -3814), (11364, 11364, 1, -10727), (11367, 11371, 2, 1),
    (11373, 11373, 1, -10780), (11374, 11374, 1, -10749), (11375, 11375, 1, -10783),
    (11376, 11376, 1, -10782), (11378, 11378, 1, 1), (11381, 11381, 1, 1),
    (11390, 11391, 1, -10815), (11392, 11490, 2, 1), (11499, 11501, 2, 1), (11506, 11506, 1, 1),
    (42560, 42604, 2, 1), (42624, 42650, 2, 1), (42786, 42798, 2, 1), (42802, 42862, 2, 1),
    (42873, 42875, 2, 1), (42877, 42877, 1, -35332), (42878, 42886, 2, 1), (42891, 42891, 1, 1),
    (42893, 42893, 1, -42280), (42896, 42898, 2, 1), (42902, 42920, 2, 1),
    (42922, 42922, 1, -42308), (42923, 42923, 1, -42319), (42924, 42924, 1, -42315),
    (42925, 42925, 1, -42305), (42926, 42926, 1, -42308), (42928, 42928, 1, -42258),
    (42929, 42929, 1, -42282), (42930, 42930, 1, -42261), (42931, 42931, 1, 928),
    (42932, 42946, 2, 1), (42948, 42948, 1, -48), (42949, 42949, 1, -42307),
    (42950, 42950, 1, -35384), (42951, 42953, 2, 1), (42960, 42960, 1, 1), (42966, 42968, 2, 1),
    (42997, 42997, 1, 1), (65313, 65338, 1, 32), (66560, 66599, 1, 40), (66736, 66771, 1, 40),
    (66928, 66964, 2, 39), (66929, 66937, 2, 39), (66941, 66953, 2, 39), (66957, 66961, 2, 39),
    (66965, 66965, 1, 39), (68736, 68786, 1, 64), (71840, 71871, 1, 32), (93760, 93791, 1, 32),
    (125184, 125217, 1, 34)]"

definition lower_cp :: "nat \<Rightarrow> nat list" where
  "lower_cp n =
     (if n < 128 then [if 65 \<le> n \<and> n \<le> 90 then n + 32 else n]
      else if n = 304 then [105, 775]
      else case List.find (\<lambda>(lo, hi, st, d). lo \<le> n \<and> n \<le> hi \<and> (n - lo) mod st = 0) lower_runs of
             None \<Rightarrow> [n]
           | Some (lo, hi, st, d) \<Rightarrow> [nat (int n + d)])"

definition char_to_lowercase :: "string \<Rightarrow> string" where
  "char_to_lowercase c = concat (map encode_utf8 (lower_cp (code_point c)))"

definition to_lowercase :: "string \<Rightarrow> string" where
  "to_lowercase s = concat (map char_to_lowercase (chars s))"

lemma to_lowercase_Nil [str_simps, simp]: "to_lowercase [] = []"
  by (simp add: to_lowercase_def)

definition ascii_lower :: "char \<Rightarrow> char" where
  "ascii_lower b = (if 65 \<le> byte b \<and> byte b \<le> 90 then char_of (byte b + 32) else b)"

lemma to_lowercase_ascii: "is_ascii s \<Longrightarrow> to_lowercase s = map ascii_lower s"
proof -
  have one: "char_to_lowercase [b] = [ascii_lower b]" if "byte b < 128" for b
    using that
    by (auto simp: char_to_lowercase_def code_point_def lower_cp_def encode_utf8_def
        ascii_lower_def byte_def)
  assume a: "is_ascii s"
  then have "map char_to_lowercase (chars s) = map (\<lambda>b. [ascii_lower b]) s"
    by (simp add: chars_ascii is_ascii_def list_all_iff one)
  then show ?thesis by (simp add: to_lowercase_def)
qed

text \<open>\<^verbatim>\<open>str::eq_ignore_ascii_case\<close>.\<close>

definition eq_ignore_ascii_case :: "string \<Rightarrow> string \<Rightarrow> bool" where
  "eq_ignore_ascii_case s t \<longleftrightarrow> map ascii_lower s = map ascii_lower t"

section \<open>Trimming\<close>

definition trim_start :: "string \<Rightarrow> string" where
  "trim_start s = concat (dropWhile is_whitespace (chars s))"

definition trim_end :: "string \<Rightarrow> string" where
  "trim_end s = concat (rev (dropWhile is_whitespace (rev (chars s))))"

definition trim :: "string \<Rightarrow> string" where
  "trim s =
     concat (rev (dropWhile is_whitespace (rev (dropWhile is_whitespace (chars s)))))"

lemma trim_Nil [str_simps, simp]: "trim [] = []"
  by (simp add: trim_def)

text \<open>Trimming ASCII text, by bytes.\<close>

lemma bit_one_0: "bit (Suc 0) 0"
  by (simp add: bit_0)

definition ascii_ws :: "char \<Rightarrow> bool" where
  "ascii_ws b \<longleftrightarrow> b \<in> {CHR 0x09, CHR 0x0A, CHR 0x0B, CHR 0x0C, CHR 0x0D, CHR 0x20}"

lemma is_whitespace_ascii: "byte b < 128 \<Longrightarrow> is_whitespace [b] \<longleftrightarrow> ascii_ws b"
proof -
  assume "byte b < 128"
  then have "is_whitespace [b] \<longleftrightarrow> byte b \<in> set [9, 10, 11, 12, 13, 32]"
    by (auto simp: is_whitespace_def is_whitespace_cp_def code_point_def)
  also have "\<dots> \<longleftrightarrow> b \<in> char_of ` {9, 10, 11, 12, 13, 32 :: nat}"
    by (auto simp: byte_def) (metis char_of_char)+
  finally show ?thesis by (simp add: ascii_ws_def char_of_def bit_one_0)
qed

lemma dropWhile_singletons:
  "list_all (\<lambda>b. byte b < 128) s \<Longrightarrow>
     dropWhile is_whitespace (map (\<lambda>b. [b]) s) = map (\<lambda>b. [b]) (dropWhile ascii_ws s)"
  by (induction s) (simp_all add: is_whitespace_ascii)

lemma trim_start_ascii: "is_ascii s \<Longrightarrow> trim_start s = dropWhile ascii_ws s"
  by (simp add: trim_start_def chars_ascii dropWhile_singletons is_ascii_def)

lemma trim_ascii: "is_ascii s \<Longrightarrow> trim s = rev (dropWhile ascii_ws (rev (dropWhile ascii_ws s)))"
proof -
  assume a: "is_ascii s"
  have b: "list_all (\<lambda>b. byte b < 128) (rev (dropWhile ascii_ws s))"
    using a by (auto simp: is_ascii_def list_all_iff dest: set_dropWhileD)
  have "trim s = concat (rev (dropWhile is_whitespace (map (\<lambda>b. [b]) (rev (dropWhile ascii_ws s)))))"
    using a by (simp add: trim_def chars_ascii dropWhile_singletons is_ascii_def rev_map)
  then show ?thesis by (simp add: dropWhile_singletons [OF b] rev_map)
qed

text \<open>Rules that evaluate trimming and lower case on ASCII literals.\<close>

lemmas str_eval = trim_start_ascii trim_ascii to_lowercase_ascii is_ascii_def byte_def
  ascii_lower_def ascii_ws_def char_of_def bit_one_0

lemma concat_sub_chars_eq_Nil:
  "set xs \<subseteq> set (chars s) \<Longrightarrow> concat (rev xs) = [] \<longleftrightarrow> xs = []"
  by (cases xs) (auto dest: chars_nonempty)

lemma trim_eq_Nil_iff: "trim s = [] \<longleftrightarrow> (\<forall>c \<in> set (chars s). is_whitespace c)"
proof -
  define ys where "ys = dropWhile is_whitespace (chars s)"
  define zs where "zs = dropWhile is_whitespace (rev ys)"
  have "set zs \<subseteq> set (chars s)"
    by (auto simp: ys_def zs_def dest!: set_dropWhileD)
  then have "trim s = [] \<longleftrightarrow> zs = []"
    unfolding trim_def ys_def [symmetric] zs_def [symmetric] by (rule concat_sub_chars_eq_Nil)
  also have "\<dots> \<longleftrightarrow> ys = []"
    unfolding zs_def dropWhile_eq_Nil_conv
    by (metis hd_dropWhile hd_in_set set_rev ys_def empty_iff empty_set)
  also have "\<dots> \<longleftrightarrow> (\<forall>c \<in> set (chars s). is_whitespace c)"
    by (simp add: ys_def)
  finally show ?thesis .
qed

section \<open>Searching\<close>

text \<open>\<^verbatim>\<open>starts_with\<close> and \<^verbatim>\<open>ends_with\<close> are \<open>prefix\<close> and \<open>suffix\<close> with the arguments swapped.\<close>

definition starts_with :: "string \<Rightarrow> string \<Rightarrow> bool" where
  "starts_with s p = prefix p s"

definition ends_with :: "string \<Rightarrow> string \<Rightarrow> bool" where
  "ends_with s p = suffix p s"

fun contains :: "string \<Rightarrow> string \<Rightarrow> bool" where
  "contains [] p \<longleftrightarrow> p = []"
| "contains (b # bs) p \<longleftrightarrow> prefix p (b # bs) \<or> contains bs p"

lemma contains_sublist: "contains s p \<longleftrightarrow> sublist p s"
  by (induction s) (auto simp: sublist_Cons_right)

lemma contains_trans: "contains s p \<Longrightarrow> contains p q \<Longrightarrow> contains s q"
  using sublist_order.order_trans by (auto simp: contains_sublist)

lemma starts_with_contains: "starts_with s p \<Longrightarrow> contains s p"
  by (simp add: contains_sublist starts_with_def prefix_imp_sublist)

lemma starts_with_refl [str_simps, simp]: "starts_with s s"
  by (simp add: starts_with_def)

lemma starts_with_Nil [str_simps, simp]: "starts_with s []"
  by (simp add: starts_with_def)

section \<open>Lines, replacement, prefixes in characters\<close>

text \<open>
  \<^verbatim>\<open>str::lines\<close>: the pieces between line feeds, without a trailing carriage return, and without
  the empty piece after a final line feed.
\<close>

fun split_lf :: "string \<Rightarrow> string \<Rightarrow> string list" where
  "split_lf acc [] = (if acc = [] then [] else [rev acc])"
| "split_lf acc (b # bs) =
     (if b = CHR 0x0A
      then rev (case acc of c # acc' \<Rightarrow> if c = CHR 0x0D then acc' else acc | [] \<Rightarrow> []) # split_lf [] bs
      else split_lf (b # acc) bs)"

definition str_lines :: "string \<Rightarrow> string list" where
  "str_lines s = split_lf [] s"

text \<open>\<^verbatim>\<open>str::replace\<close> with a non-empty pattern, left to right without overlaps.\<close>

function replace_str :: "string \<Rightarrow> string \<Rightarrow> string \<Rightarrow> string" where
  "replace_str pat t [] = []"
| "replace_str pat t (b # bs) =
     (if pat \<noteq> [] \<and> prefix pat (b # bs)
      then t @ replace_str pat t (drop (length pat - 1) bs)
      else b # replace_str pat t bs)"
  by pat_completeness auto
termination
  by (relation "measure (\<lambda>(pat, t, s). length s)") auto

text \<open>\<open>s.chars().take(n).collect()\<close> and \<open>s.chars().count()\<close>.\<close>

definition take_chars :: "nat \<Rightarrow> string \<Rightarrow> string" where
  "take_chars n s = concat (take n (chars s))"

definition count_chars :: "string \<Rightarrow> nat" where
  "count_chars s = length (chars s)"

lemma take_chars_all: "count_chars s \<le> n \<Longrightarrow> take_chars n s = s"
  by (simp add: take_chars_def count_chars_def)

lemma prefix_take_chars: "prefix (take_chars n s) s"
  by (metis append_take_drop_id concat_append concat_chars prefixI take_chars_def)

text \<open>\<^verbatim>\<open>split_whitespace\<close>: the maximal runs of characters that are not whitespace.\<close>

fun split_ws :: "string list \<Rightarrow> string \<Rightarrow> string list" where
  "split_ws [] cur = (if cur = [] then [] else [cur])"
| "split_ws (c # cs) cur =
     (if is_whitespace c then (if cur = [] then split_ws cs [] else cur # split_ws cs [])
      else split_ws cs (cur @ c))"

definition split_whitespace :: "string \<Rightarrow> string list" where
  "split_whitespace s = split_ws (chars s) []"

text \<open>Slicing \<^verbatim>\<open>s[n..]\<close>: none when it panics, off the end or inside a character.\<close>

definition is_char_boundary :: "string \<Rightarrow> nat \<Rightarrow> bool" where
  "is_char_boundary s n \<longleftrightarrow>
     n = 0 \<or> n = length s \<or> (n < length s \<and> (byte (s ! n) < 128 \<or> 192 \<le> byte (s ! n)))"

definition slice_from :: "string \<Rightarrow> nat \<Rightarrow> string option" where
  "slice_from s n = (if is_char_boundary s n then Some (drop n s) else None)"

text \<open>\<^verbatim>\<open>Debug\<close> of an optional string: quoted, with quotes, backslashes and control characters escaped.\<close>

definition debug_byte :: "char \<Rightarrow> string" where
  "debug_byte b =
     (if b = CHR 0x22 then [CHR 0x5C, CHR 0x22] else if b = CHR 0x5C then [CHR 0x5C, CHR 0x5C]
      else if b = CHR 0x0A then [CHR 0x5C, CHR 0x6E] else if b = CHR 0x0D then [CHR 0x5C, CHR 0x72]
      else if b = CHR 0x09 then [CHR 0x5C, CHR 0x74] else [b])"

definition debug_opt_str :: "string option \<Rightarrow> string" where
  "debug_opt_str os =
     (case os of None \<Rightarrow> ''None''
      | Some s \<Rightarrow> ''Some('' @ [CHR 0x22] @ concat (map debug_byte s) @ [CHR 0x22] @ '')'')"

section \<open>Numbers and quotes in formatted text\<close>

fun nat_digits :: "nat \<Rightarrow> string" where
  "nat_digits n =
     (if n < 10 then [char_of (48 + n)] else nat_digits (n div 10) @ [char_of (48 + n mod 10)])"

declare nat_digits.simps [simp del]

definition int_str :: "int \<Rightarrow> string" where
  "int_str i = (if i < 0 then CHR 0x2D # nat_digits (nat (- i)) else nat_digits (nat i))"

text \<open>A string between single quotes.\<close>

definition sq :: "string \<Rightarrow> string" where
  "sq s = [CHR 0x27] @ s @ [CHR 0x27]"

text \<open>The separator of \<^verbatim>\<open>join\<close>.\<close>

fun join :: "string \<Rightarrow> string list \<Rightarrow> string" where
  "join sep [] = []"
| "join sep [s] = s"
| "join sep (s # t # ts) = s @ sep @ join sep (t # ts)"

text \<open>\<open>opt.as_deref().map(str::trim).filter(|s| !s.is_empty())\<close>: an option that is present and not blank.\<close>

definition trimmed_nonempty :: "string option \<Rightarrow> string option" where
  "trimmed_nonempty os =
     (case os of None \<Rightarrow> None | Some s \<Rightarrow> if trim s = [] then None else Some (trim s))"

text \<open>The first eight bytes of an identifier, \<open>&id[..8.min(id.len())]\<close>.\<close>

definition short :: "string \<Rightarrow> string" where
  "short i = take 8 i"

end
