(* ===== verification/Timestamps.thy ===== *)
theory Timestamps
  imports Main "HOL-Library.Product_Lexorder"
begin

text \<open>
  Times. \<^verbatim>\<open>DateTime<Utc>\<close> is a number of nanoseconds since 1970. The database keeps times as TEXT,
  in two formats: \<^verbatim>\<open>Utc::now().to_rfc3339()\<close> writes \<^verbatim>\<open>2026-01-31T08:00:00.500+00:00\<close>, SQLite's
  \<^verbatim>\<open>datetime('now')\<close> writes \<^verbatim>\<open>2026-01-31 08:00:00\<close>. A \<open>stamp\<close> is such a text, given by its format,
  its day and its time of day; its order is the byte order of the texts, which is what
  \<^verbatim>\<open>ORDER BY\<close> and \<^verbatim>\<open><\<close> compare: first the ten characters of the date, then the separator, where the
  space is smaller than the \<^verbatim>\<open>T\<close>, then the time of day (chrono prints the fraction with 0, 3, 6 or 9
  digits, and \<^verbatim>\<open>+\<close>, \<^verbatim>\<open>.\<close> and the digits are in the order that keeps this chronological). Years are
  0000 to 9999.
\<close>

type_synonym DateTime = int

datatype stamp =
    Rfc3339 int int \<comment> \<open>day, nanosecond of the day\<close>
  | SqlDateTime int int \<comment> \<open>day, second of the day\<close>

fun stamp_key :: "stamp \<Rightarrow> int \<times> nat \<times> int" where
  "stamp_key (Rfc3339 d n) = (d, 1, n)"
| "stamp_key (SqlDateTime d s) = (d, 0, s)"

lemma stamp_key_inj: "stamp_key a = stamp_key b \<longleftrightarrow> a = b"
  by (cases a; cases b) auto

instantiation stamp :: linorder
begin

definition less_eq_stamp :: "stamp \<Rightarrow> stamp \<Rightarrow> bool" where
  "a \<le> b \<longleftrightarrow> stamp_key a \<le> stamp_key b"

definition less_stamp :: "stamp \<Rightarrow> stamp \<Rightarrow> bool" where
  "a < b \<longleftrightarrow> stamp_key a < stamp_key b"

instance
  by standard
    (auto simp: less_eq_stamp_def less_stamp_def less_le_not_le stamp_key_inj [symmetric])

end

definition nanos_per_day :: int where
  "nanos_per_day = 86400000000000"

definition to_rfc3339 :: "DateTime \<Rightarrow> stamp" where
  "to_rfc3339 t = Rfc3339 (t div nanos_per_day) (t mod nanos_per_day)"

text \<open>
  \<^verbatim>\<open>s.parse::<DateTime<Utc>>()\<close> wants an offset, which the SQLite format does not have.
\<close>

fun parse_datetime :: "stamp \<Rightarrow> DateTime option" where
  "parse_datetime (Rfc3339 d n) = Some (d * nanos_per_day + n)"
| "parse_datetime (SqlDateTime d s) = None"

definition sql_datetime_of_secs :: "int \<Rightarrow> stamp" where
  "sql_datetime_of_secs s = SqlDateTime (s div 86400) (s mod 86400)"

text \<open>\<^verbatim>\<open>datetime('now')\<close>.\<close>

definition sql_datetime_now :: "DateTime \<Rightarrow> stamp" where
  "sql_datetime_now now = sql_datetime_of_secs (now div 1000000000)"

text \<open>
  \<^verbatim>\<open>datetime('now', '-N seconds')\<close>: NULL before year 0, where SQLite's range ends.
\<close>

definition sql_datetime_now_minus :: "DateTime \<Rightarrow> int \<Rightarrow> stamp option" where
  "sql_datetime_now_minus now n =
     (let s = now div 1000000000 - n
      in if s < - 62167219200 then None else Some (sql_datetime_of_secs s))"

lemma parse_to_rfc3339 [simp]: "parse_datetime (to_rfc3339 t) = Some t"
  by (simp add: to_rfc3339_def)

text \<open>RFC 3339 texts are ordered as the times they stand for.\<close>

lemma to_rfc3339_less_iff: "to_rfc3339 s < to_rfc3339 t \<longleftrightarrow> s < t"
proof -
  have pos: "0 < nanos_per_day" by (simp add: nanos_per_day_def)
  show ?thesis
  proof (cases "s div nanos_per_day" "t div nanos_per_day" rule: linorder_cases)
    case less
    then have "s < t" using zdiv_mono1 [OF _ pos, of t s] by linarith
    with less show ?thesis by (simp add: less_stamp_def to_rfc3339_def less_prod_def)
  next
    case equal
    then have "s mod nanos_per_day < t mod nanos_per_day \<longleftrightarrow> s < t"
      by (metis add_less_cancel_left div_mult_mod_eq)
    with equal show ?thesis by (simp add: less_stamp_def to_rfc3339_def less_prod_def)
  next
    case greater
    then have "\<not> s < t" using zdiv_mono1 [OF _ pos, of s t] by linarith
    with greater show ?thesis by (simp add: less_stamp_def to_rfc3339_def less_prod_def)
  qed
qed

text \<open>A text of the day in SQLite's format is before every RFC 3339 text of the same day.\<close>

lemma rfc3339_less_sql_iff: "Rfc3339 d n < SqlDateTime e s \<longleftrightarrow> d < e"
  by (auto simp: less_stamp_def less_prod_def)

end
