(* ===== verification/Models.thy ===== *)
theory Models
  imports Rust_Str Timestamps "HOL-Library.Word"
begin

text \<open>
  The data of the pool: \<^verbatim>\<open>piscis-core/src/models.rs\<close> (todos, pools, messages, Koi) and the event and
  runtime types of \<^verbatim>\<open>piscis-core/src/host.rs\<close>. A record is polymorphic in its time fields: with
  \<^typ>\<open>DateTime\<close> it is the struct of the source, with \<^typ>\<open>stamp\<close> it is the row of its table. Field
  names carry a prefix per struct (\<open>td_\<close>, \<open>ps_\<close>, \<open>pm_\<close>, \<open>kd_\<close>), since HOL's selectors are global.
\<close>

type_synonym u32 = "32 word"

section \<open>Table data\<close>

record 't koi_todo =
  td_id :: string
  td_owner_id :: string
  td_title :: string
  td_description :: string
  td_status :: string
  td_priority :: string
  td_assigned_by :: string
  td_pool_session_id :: "string option"
  td_claimed_by :: "string option"
  td_claimed_at :: "'t option"
  td_depends_on :: "string option"
  td_blocked_reason :: "string option"
  td_git_branch :: "string option"
  td_integration_status :: "string option"
  td_result_message_id :: "int option"
  td_source_type :: string
  td_task_timeout_secs :: u32
  td_created_at :: 't
  td_updated_at :: 't

record 't pool_session =
  ps_id :: string
  ps_name :: string
  ps_org_spec :: string
  ps_status :: string
  ps_project_dir :: "string option"
  ps_task_timeout_secs :: u32
  ps_origin_im_binding_key :: "string option"
  ps_member_koi_ids :: "string list"
  ps_team_id :: "string option"
  ps_workflow_run_id :: "string option"
  ps_last_active_at :: "'t option"
  ps_created_at :: 't
  ps_updated_at :: 't

record 't pool_message =
  pm_id :: int
  pm_pool_session_id :: string
  pm_sender_id :: string
  pm_content :: string
  pm_msg_type :: string
  pm_metadata :: string
  pm_todo_id :: "string option"
  pm_reply_to_message_id :: "int option"
  pm_event_type :: "string option"
  pm_created_at :: 't

record 't koi_definition =
  kd_id :: string
  kd_name :: string
  kd_role :: string
  kd_icon :: string
  kd_color :: string
  kd_system_prompt :: string
  kd_description :: string
  kd_status :: string
  kd_created_at :: 't
  kd_updated_at :: 't
  kd_llm_provider_id :: "string option"
  kd_max_iterations :: u32
  kd_task_timeout_secs :: u32

type_synonym KoiTodo = "DateTime koi_todo"
type_synonym PoolSession = "DateTime pool_session"
type_synonym PoolMessage = "DateTime pool_message"
type_synonym KoiDefinition = "DateTime koi_definition"

section \<open>Snapshots\<close>

record TodoSnapshot =
  ts_id :: string
  ts_owner_id :: string
  ts_title :: string
  ts_description :: string
  ts_status :: string
  ts_priority :: string
  ts_assigned_by :: string
  ts_pool_session_id :: "string option"
  ts_claimed_by :: "string option"
  ts_depends_on :: "string option"
  ts_git_branch :: "string option"
  ts_integration_status :: "string option"
  ts_blocked_reason :: "string option"
  ts_result_message_id :: "int option"
  ts_source_type :: string
  ts_task_timeout_secs :: u32

definition todo_snapshot :: "KoiTodo \<Rightarrow> TodoSnapshot" where
  "todo_snapshot t = \<lparr>
     ts_id = td_id t,
     ts_owner_id = td_owner_id t,
     ts_title = td_title t,
     ts_description = td_description t,
     ts_status = td_status t,
     ts_priority = td_priority t,
     ts_assigned_by = td_assigned_by t,
     ts_pool_session_id = td_pool_session_id t,
     ts_claimed_by = td_claimed_by t,
     ts_depends_on = td_depends_on t,
     ts_git_branch = td_git_branch t,
     ts_integration_status = td_integration_status t,
     ts_blocked_reason = td_blocked_reason t,
     ts_result_message_id = td_result_message_id t,
     ts_source_type = td_source_type t,
     ts_task_timeout_secs = td_task_timeout_secs t \<rparr>"

record PoolSessionSnapshot =
  pss_id :: string
  pss_name :: string
  pss_status :: string
  pss_project_dir :: "string option"
  pss_task_timeout_secs :: u32
  pss_member_koi_ids :: "string list"

definition pool_snapshot :: "PoolSession \<Rightarrow> PoolSessionSnapshot" where
  "pool_snapshot p = \<lparr>
     pss_id = ps_id p,
     pss_name = ps_name p,
     pss_status = ps_status p,
     pss_project_dir = ps_project_dir p,
     pss_task_timeout_secs = ps_task_timeout_secs p,
     pss_member_koi_ids = ps_member_koi_ids p \<rparr>"

section \<open>JSON values\<close>

text \<open>
  \<^verbatim>\<open>serde_json::Value\<close>, as the \<^verbatim>\<open>json!\<close> macro builds it; an object is the list of its entries in
  the order written. A struct embedded in a value is the leaf that holds it: its derived
  \<^verbatim>\<open>Serialize\<close> is the identity on its fields and is not spelled out.
\<close>

datatype json =
    JNull
  | JBool bool
  | JInt int
  | JStr string
  | JArr "json list"
  | JObj "(string \<times> json) list"
  | JTodo TodoSnapshot
  | JPool PoolSessionSnapshot
  | JTodoStruct KoiTodo
  | JPoolStruct PoolSession
  | JMessageStruct PoolMessage
  | JKoiStruct KoiDefinition

definition jopt_str :: "string option \<Rightarrow> json" where
  "jopt_str os = (case os of None \<Rightarrow> JNull | Some s \<Rightarrow> JStr s)"

text \<open>\<^verbatim>\<open>Value::get\<close> on an object, \<^verbatim>\<open>as_str\<close>, \<^verbatim>\<open>as_bool\<close>, \<^verbatim>\<open>as_object\<close>; \<open>json_set\<close> is index assignment.\<close>

fun json_get :: "json \<Rightarrow> string \<Rightarrow> json option" where
  "json_get (JObj kvs) k = map_of kvs k"
| "json_get _ k = None"

fun json_as_str :: "json \<Rightarrow> string option" where
  "json_as_str (JStr s) = Some s"
| "json_as_str _ = None"

fun json_as_bool :: "json \<Rightarrow> bool option" where
  "json_as_bool (JBool b) = Some b"
| "json_as_bool _ = None"

fun json_is_object :: "json \<Rightarrow> bool" where
  "json_is_object (JObj kvs) = True"
| "json_is_object _ = False"

fun assoc_set :: "(string \<times> json) list \<Rightarrow> string \<Rightarrow> json \<Rightarrow> (string \<times> json) list" where
  "assoc_set [] k v = [(k, v)]"
| "assoc_set ((k', v') # kvs) k v =
     (if k' = k then (k, v) # kvs else (k', v') # assoc_set kvs k v)"

fun json_set :: "json \<Rightarrow> string \<Rightarrow> json \<Rightarrow> json" where
  "json_set (JObj kvs) k v = JObj (assoc_set kvs k v)"
| "json_set j k v = j"

lemma map_of_assoc_set [simp]: "map_of (assoc_set kvs k v) = (map_of kvs)(k \<mapsto> v)"
  by (induction kvs k v rule: assoc_set.induct) (auto simp: fun_upd_twist)

lemma json_get_set_same: "json_is_object j \<Longrightarrow> json_get (json_set j k v) k = Some v"
  by (cases j) simp_all

lemma json_get_set_other: "k \<noteq> k' \<Longrightarrow> json_get (json_set j k v) k' = json_get j k'"
  by (cases j) simp_all

lemma json_is_object_set [simp]: "json_is_object (json_set j k v) = json_is_object j"
  by (cases j) simp_all

section \<open>Events\<close>

datatype TodoChangeAction =
  Created | Updated | Claimed | Completed | Cancelled | Blocked | Resumed | Replaced | Deleted

record PoolMessageSnapshot =
  pms_id :: int
  pms_pool_session_id :: string
  pms_sender_id :: string
  pms_content :: string
  pms_msg_type :: string
  pms_metadata :: json
  pms_todo_id :: "string option"
  pms_reply_to_message_id :: "int option"
  pms_event_type :: "string option"
  pms_created_at :: DateTime

text \<open>The events that the pool services and the coordinator emit.\<close>

datatype PoolEvent =
    PoolCreated PoolSessionSnapshot
  | PoolUpdated PoolSessionSnapshot
  | PoolPaused PoolSessionSnapshot
  | PoolResumed PoolSessionSnapshot
  | PoolArchived string
  | MessageAppended string PoolMessageSnapshot
  | TodoChanged string TodoChangeAction TodoSnapshot
  | KoiAssigned string string string

section \<open>Turns\<close>

record KoiTurnRequest =
  rq_pool_id :: string
  rq_koi_id :: string
  rq_session_id :: string
  rq_todo_id :: "string option"
  rq_system_prompt :: string
  rq_user_prompt :: string
  rq_workspace :: "string option"
  rq_task_timeout_secs :: "u32 option"
  rq_extra_tool_profile :: "string list"
  rq_extra_system_context :: "string option"

record KoiTurnHandle =
  h_turn_id :: string
  h_pool_id :: string
  h_koi_id :: string

datatype KoiTurnExit = TurnCompleted | TurnCancelled | TurnTimedOut | TurnCrashed

record KoiTurnOutcome =
  oc_handle :: KoiTurnHandle
  oc_exit_kind :: KoiTurnExit
  oc_response_text :: string
  oc_error :: "string option"
  oc_exit_code :: "int option"

end
