(* ===== verification/World.thy ===== *)
theory World
  imports Models
begin

text \<open>
  How the model runs code. The state of the process that the pool code can see or change is a
  \<open>world\<close>: the database, the events handed to the host's sink, the background tasks handed to
  \<^verbatim>\<open>tokio::spawn\<close> and not yet run, the \<^verbatim>\<open>git\<close> commands issued, and a counter of the readings taken
  from the outside. A fallible function is a computation \<open>world \<Rightarrow> (error + 'a) \<times> world\<close>, where
  \<open>Inl\<close> is the \<^verbatim>\<open>Err\<close> of \<^verbatim>\<open>anyhow::Result\<close>; \<open>bindM\<close> is \<^verbatim>\<open>?\<close>. Code that is not in the repository (the
  clock, UUIDs, \<^verbatim>\<open>serde_json\<close>, \<^verbatim>\<open>git\<close>, the file system) is a field of the record \<open>ext\<close>, an argument of
  the definitions that use it; the n-th reading of it may have any value.

  The second half is the calculus the proofs use: \<open>wp\<close> computes what a computation does from one
  world, and the locale \<open>effect\<close> derives that a whole computation only changes the database
  along a given preorder from the same fact for its statements.
\<close>

section \<open>State\<close>

type_synonym koi_row = "stamp koi_definition"
type_synonym todo_row = "stamp koi_todo"
type_synonym pool_row = "stamp pool_session"
type_synonym message_row = "stamp pool_message"

record member_row =
  mb_pool_session_id :: string
  mb_koi_id :: string
  mb_joined_at :: stamp

text \<open>
  The tables of the pool, each in row order. Of the \<^verbatim>\<open>memories\<close> table the identifier and the owner
  are kept. \<open>tb_message_seq\<close> is the \<^verbatim>\<open>AUTOINCREMENT\<close> counter of the messages.
\<close>

record db =
  tb_kois :: "koi_row list"
  tb_koi_todos :: "todo_row list"
  tb_pool_sessions :: "pool_row list"
  tb_pool_messages :: "message_row list"
  tb_message_seq :: int
  tb_pool_members :: "member_row list"
  tb_memories :: "(string \<times> string) list"

record ExecuteTodoArgs =
  ea_koi_id :: string
  ea_todo_id :: string
  ea_assign_msg_id :: "int option"
  ea_session_id :: string
  ea_extra_tool_profile :: "string list"
  ea_extra_system_context :: "string option"

text \<open>
  The spawned closures: a plain \<^verbatim>\<open>execute_todo_turn\<close>, and the closure of \<^verbatim>\<open>assign_koi\<close>, which captures
  the new todo, the Koi's name and the pool and first checks the todo's dependency.
\<close>

datatype job =
    ExecuteJob ExecuteTodoArgs
  | AssignJob KoiTodo string string ExecuteTodoArgs

text \<open>
  What the in-memory runtime of \<^verbatim>\<open>pool/subagent.rs\<close> is told to produce for a turn (a delay is in
  milliseconds), and its slot for a turn. A \<^verbatim>\<open>Notify\<close> keeps no state for later waiters.
\<close>

datatype StubOutcome =
    StubCompleted string
  | StubExplicit KoiTurnExit string "string option"
  | StubDelayed nat string

record StubSlot =
  sl_handle :: KoiTurnHandle
  sl_outcome :: StubOutcome

record world =
  w_db :: db
  w_events :: "PoolEvent list"
  w_jobs :: "job list"
  w_git :: "(string \<times> string list) list"
  w_turns :: "(string \<times> StubSlot) list"
  w_tick :: nat

definition start_world :: "db \<Rightarrow> world" where
  "start_world d = \<lparr>w_db = d, w_events = [], w_jobs = [], w_git = [], w_turns = [], w_tick = 0\<rparr>"

lemma start_world_sel [simp]:
  "w_db (start_world d) = d" "w_events (start_world d) = []" "w_jobs (start_world d) = []"
  "w_git (start_world d) = []" "w_turns (start_world d) = []" "w_tick (start_world d) = 0"
  by (simp_all add: start_world_def)

datatype error =
    Anyhow string
  | ForeignKeyFailed \<comment> \<open>SQLite: FOREIGN KEY constraint failed\<close>
  | UniqueFailed \<comment> \<open>SQLite: UNIQUE constraint failed\<close>
  | Panicked \<comment> \<open>a panic, which unwinds the task\<close>

type_synonym 'a M = "world \<Rightarrow> (error + 'a) \<times> world"

record git_output =
  go_success :: bool
  go_stdout :: string
  go_stderr :: string

record ext =
  ex_now :: "nat \<Rightarrow> DateTime"
  ex_uuid :: "nat \<Rightarrow> string"
  ex_json_to_string :: "json \<Rightarrow> string"
  ex_json_from_str :: "string \<Rightarrow> json option"
  ex_git :: "nat \<Rightarrow> string \<Rightarrow> string list \<Rightarrow> error + git_output"
  ex_create_dir_all :: "nat \<Rightarrow> string \<Rightarrow> error + unit"
  ex_path_exists :: "nat \<Rightarrow> string \<Rightarrow> bool"
  ex_write_file :: "nat \<Rightarrow> string \<Rightarrow> string \<Rightarrow> error + unit"

section \<open>Computations\<close>

definition ret :: "'a \<Rightarrow> 'a M" where
  "ret x w = (Inr x, w)"

definition bail :: "error \<Rightarrow> 'a M" where
  "bail e w = (Inl e, w)"

definition bindM :: "'a M \<Rightarrow> ('a \<Rightarrow> 'b M) \<Rightarrow> 'b M" where
  "bindM m f w = (case m w of (Inl e, w') \<Rightarrow> (Inl e, w') | (Inr x, w') \<Rightarrow> f x w')"

text \<open>Running a computation for its \<^verbatim>\<open>Result\<close>, and dropping it (\<^verbatim>\<open>let _ = \<dots>\<close>).\<close>

definition attempt :: "'a M \<Rightarrow> (error + 'a) M" where
  "attempt m w = (case m w of (r, w') \<Rightarrow> (Inr r, w'))"

definition ignore :: "'a M \<Rightarrow> unit M" where
  "ignore m w = (case m w of (r, w') \<Rightarrow> (Inr (), w'))"

definition lift_result :: "error + 'a \<Rightarrow> 'a M" where
  "lift_result r w = (r, w)"

definition ok_or :: "'a option \<Rightarrow> error \<Rightarrow> 'a M" where
  "ok_or x e = (case x of None \<Rightarrow> bail e | Some y \<Rightarrow> ret y)"

definition guardM :: "bool \<Rightarrow> error \<Rightarrow> unit M" where
  "guardM b e = (if b then ret () else bail e)"

definition whenM :: "bool \<Rightarrow> unit M \<Rightarrow> unit M" where
  "whenM b m = (if b then m else ret ())"

fun forM :: "'a list \<Rightarrow> ('a \<Rightarrow> unit M) \<Rightarrow> unit M" where
  "forM [] f = ret ()"
| "forM (x # xs) f = bindM (f x) (\<lambda>_. forM xs f)"

fun collectM :: "'a list \<Rightarrow> ('a \<Rightarrow> 'b M) \<Rightarrow> 'b list M" where
  "collectM [] f = ret []"
| "collectM (x # xs) f = bindM (f x) (\<lambda>y. bindM (collectM xs f) (\<lambda>ys. ret (y # ys)))"

text \<open>Reading the database, executing a statement, emitting, spawning, and readings of the outside.\<close>

definition query :: "(db \<Rightarrow> 'a) \<Rightarrow> 'a M" where
  "query f w = (Inr (f (w_db w)), w)"

definition query_result :: "(db \<Rightarrow> error + 'a) \<Rightarrow> 'a M" where
  "query_result f w = (f (w_db w), w)"

text \<open>A statement that fails leaves the database as it was; one that succeeds yields its row count.\<close>

definition execute :: "(db \<Rightarrow> error + nat \<times> db) \<Rightarrow> nat M" where
  "execute f w =
     (case f (w_db w) of
        Inl e \<Rightarrow> (Inl e, w)
      | Inr (n, d) \<Rightarrow> (Inr n, w\<lparr>w_db := d\<rparr>))"

definition emit_pool :: "PoolEvent \<Rightarrow> unit M" where
  "emit_pool e w = (Inr (), w\<lparr>w_events := w_events w @ [e]\<rparr>)"

definition spawn :: "job \<Rightarrow> unit M" where
  "spawn j w = (Inr (), w\<lparr>w_jobs := w_jobs w @ [j]\<rparr>)"

definition reading :: "(nat \<Rightarrow> 'a) \<Rightarrow> 'a M" where
  "reading f w = (Inr (f (w_tick w)), w\<lparr>w_tick := Suc (w_tick w)\<rparr>)"

definition utc_now :: "ext \<Rightarrow> DateTime M" where
  "utc_now x = reading (ex_now x)"

definition uuid_new_v4 :: "ext \<Rightarrow> string M" where
  "uuid_new_v4 x = reading (ex_uuid x)"

text \<open>A \<^verbatim>\<open>git\<close> command is logged with the directory it runs in.\<close>

definition git_command :: "ext \<Rightarrow> string \<Rightarrow> string list \<Rightarrow> git_output M" where
  "git_command x dir args w =
     (ex_git x (w_tick w) dir args,
      w\<lparr>w_tick := Suc (w_tick w), w_git := w_git w @ [(dir, args)]\<rparr>)"

text \<open>\<^verbatim>\<open>to_string\<close> of an error.\<close>

fun error_text :: "error \<Rightarrow> string" where
  "error_text (Anyhow s) = s"
| "error_text ForeignKeyFailed = ''FOREIGN KEY constraint failed''"
| "error_text UniqueFailed = ''UNIQUE constraint failed''"
| "error_text Panicked = ''panicked''"

section \<open>What a computation does from one world\<close>

definition wp :: "'a M \<Rightarrow> (error + 'a \<Rightarrow> world \<Rightarrow> bool) \<Rightarrow> world \<Rightarrow> bool" where
  "wp m Q w = (case m w of (r, w') \<Rightarrow> Q r w')"

named_theorems wp_simps \<open>rewrite rules that run a computation\<close>

lemma wp_ret [wp_simps]: "wp (ret x) Q w = Q (Inr x) w"
  by (simp add: wp_def ret_def)

lemma wp_bail [wp_simps]: "wp (bail e) Q w = Q (Inl e) w"
  by (simp add: wp_def bail_def)

lemma wp_bindM [wp_simps]:
  "wp (bindM m f) Q w =
     wp m (\<lambda>r w'. case r of Inl e \<Rightarrow> Q (Inl e) w' | Inr x \<Rightarrow> wp (f x) Q w') w"
  by (simp add: wp_def bindM_def split: prod.split sum.split)

lemma wp_attempt [wp_simps]: "wp (attempt m) Q w = wp m (\<lambda>r. Q (Inr r)) w"
  by (simp add: wp_def attempt_def split: prod.split)

lemma wp_ignore [wp_simps]: "wp (ignore m) Q w = wp m (\<lambda>r. Q (Inr ())) w"
  by (simp add: wp_def ignore_def split: prod.split)

lemma wp_lift_result [wp_simps]: "wp (lift_result r) Q w = Q r w"
  by (simp add: wp_def lift_result_def)

lemma wp_ok_or [wp_simps]:
  "wp (ok_or x e) Q w = (case x of None \<Rightarrow> Q (Inl e) w | Some y \<Rightarrow> Q (Inr y) w)"
  by (simp add: ok_or_def wp_simps split: option.split)

lemma wp_guardM [wp_simps]: "wp (guardM b e) Q w = (if b then Q (Inr ()) w else Q (Inl e) w)"
  by (simp add: guardM_def wp_simps)

lemma wp_whenM [wp_simps]: "wp (whenM b m) Q w = (if b then wp m Q w else Q (Inr ()) w)"
  by (simp add: whenM_def wp_simps)

lemma wp_forM_Nil [wp_simps]: "wp (forM [] f) Q w = Q (Inr ()) w"
  by (simp add: wp_simps)

lemma wp_query [wp_simps]: "wp (query f) Q w = Q (Inr (f (w_db w))) w"
  by (simp add: wp_def query_def)

lemma wp_query_result [wp_simps]: "wp (query_result f) Q w = Q (f (w_db w)) w"
  by (simp add: wp_def query_result_def)

lemma wp_execute [wp_simps]:
  "wp (execute f) Q w =
     (case f (w_db w) of Inl e \<Rightarrow> Q (Inl e) w | Inr (n, d) \<Rightarrow> Q (Inr n) (w\<lparr>w_db := d\<rparr>))"
  by (simp add: wp_def execute_def split: sum.split prod.split)

lemma wp_emit_pool [wp_simps]:
  "wp (emit_pool e) Q w = Q (Inr ()) (w\<lparr>w_events := w_events w @ [e]\<rparr>)"
  by (simp add: wp_def emit_pool_def)

lemma wp_spawn [wp_simps]: "wp (spawn j) Q w = Q (Inr ()) (w\<lparr>w_jobs := w_jobs w @ [j]\<rparr>)"
  by (simp add: wp_def spawn_def)

lemma wp_reading [wp_simps]:
  "wp (reading f) Q w = Q (Inr (f (w_tick w))) (w\<lparr>w_tick := Suc (w_tick w)\<rparr>)"
  by (simp add: wp_def reading_def)

lemma wp_utc_now [wp_simps]:
  "wp (utc_now x) Q w = Q (Inr (ex_now x (w_tick w))) (w\<lparr>w_tick := Suc (w_tick w)\<rparr>)"
  by (simp add: utc_now_def wp_simps)

lemma wp_uuid_new_v4 [wp_simps]:
  "wp (uuid_new_v4 x) Q w = Q (Inr (ex_uuid x (w_tick w))) (w\<lparr>w_tick := Suc (w_tick w)\<rparr>)"
  by (simp add: uuid_new_v4_def wp_simps)

lemma wp_git_command [wp_simps]:
  "wp (git_command x dir args) Q w =
     Q (ex_git x (w_tick w) dir args)
       (w\<lparr>w_tick := Suc (w_tick w), w_git := w_git w @ [(dir, args)]\<rparr>)"
  by (simp add: wp_def git_command_def)

lemma wp_mono: "wp m Q w \<Longrightarrow> (\<And>r w'. Q r w' \<Longrightarrow> Q' r w') \<Longrightarrow> wp m Q' w"
  by (auto simp: wp_def split: prod.splits)

lemma wp_conj: "wp m (\<lambda>r w. Q r w \<and> Q' r w) w \<longleftrightarrow> wp m Q w \<and> wp m Q' w"
  by (auto simp: wp_def split: prod.splits)

text \<open>From a weakest precondition to a run of the computation, and back.\<close>

lemma wpD: "wp m Q w \<Longrightarrow> m w = (r, w') \<Longrightarrow> Q r w'"
  by (simp add: wp_def)

lemma wpI: "(\<And>r w'. m w = (r, w') \<Longrightarrow> Q r w') \<Longrightarrow> wp m Q w"
  by (cases "m w") (simp add: wp_def)

text \<open>The runs that return a value, through the combinators.\<close>

lemma bindM_Inr_iff:
  "bindM m f w = (Inr y, w') \<longleftrightarrow> (\<exists>x w1. m w = (Inr x, w1) \<and> f x w1 = (Inr y, w'))"
  by (auto simp: bindM_def split: prod.splits sum.splits)

lemma ret_Inr_iff [simp]: "ret x w = (Inr y, w') \<longleftrightarrow> y = x \<and> w' = w"
  by (auto simp: ret_def)

lemma bail_Inr [simp]: "bail e w \<noteq> (Inr y, w')"
  by (simp add: bail_def)

lemma guardM_Inr_iff [simp]: "guardM b e w = (Inr y, w') \<longleftrightarrow> b \<and> w' = w"
  by (auto simp: guardM_def ret_def bail_def)

lemma ok_or_Inr_iff [simp]: "ok_or x e w = (Inr y, w') \<longleftrightarrow> x = Some y \<and> w' = w"
  by (auto simp: ok_or_def split: option.split)

lemmas run_simps = bindM_Inr_iff ret_Inr_iff guardM_Inr_iff ok_or_Inr_iff

text \<open>A computation run forwards from a world.\<close>

named_theorems exec_simps \<open>rewrite rules that run a computation from a given world\<close>

lemmas exec_basic [exec_simps] = bindM_def ret_def bail_def attempt_def ignore_def lift_result_def
  ok_or_def guardM_def whenM_def query_def query_result_def execute_def emit_pool_def spawn_def
  reading_def utc_now_def uuid_new_v4_def

text \<open>A step that changes nothing but the clock.\<close>

definition quiet :: "world \<Rightarrow> world \<Rightarrow> bool" where
  "quiet w w' \<longleftrightarrow> w_db w' = w_db w \<and> w_events w' = w_events w \<and> w_jobs w' = w_jobs w \<and>
     w_git w' = w_git w \<and> w_turns w' = w_turns w"

lemma quiet_trans: "quiet a b \<Longrightarrow> quiet b c \<Longrightarrow> quiet a c"
  by (simp add: quiet_def)

section \<open>Effects on the database\<close>

text \<open>Every run of the computation, whatever it returns, changes the database along \<open>R\<close>.\<close>

definition effects :: "(db \<Rightarrow> db \<Rightarrow> bool) \<Rightarrow> 'a M \<Rightarrow> bool" where
  "effects R m \<longleftrightarrow> (\<forall>w. R (w_db w) (w_db (snd (m w))))"

lemma effectsD: "effects R m \<Longrightarrow> m w = (r, w') \<Longrightarrow> R (w_db w) (w_db w')"
  unfolding effects_def by (metis snd_conv)

lemma effects_execute_iff:
  "effects R (execute f) \<longleftrightarrow> (\<forall>d. case f d of Inl e \<Rightarrow> R d d | Inr (n, d') \<Rightarrow> R d d')"
proof
  assume e: "effects R (execute f)"
  show "\<forall>d. case f d of Inl e \<Rightarrow> R d d | Inr (n, d') \<Rightarrow> R d d'"
  proof
    fix d
    from e [unfolded effects_def, rule_format, of "start_world d"]
    show "case f d of Inl e \<Rightarrow> R d d | Inr (n, d') \<Rightarrow> R d d'"
      by (simp add: execute_def start_world_def split: sum.splits prod.splits)
  qed
next
  assume "\<forall>d. case f d of Inl e \<Rightarrow> R d d | Inr (n, d') \<Rightarrow> R d d'"
  then show "effects R (execute f)"
    by (auto simp: effects_def execute_def split: sum.split prod.split)
      (metis (mono_tags, lifting) case_prod_conv sum.case)+
qed

named_theorems effect_intros \<open>introduction rules for effects of composed computations\<close>

locale effect =
  fixes R :: "db \<Rightarrow> db \<Rightarrow> bool"
  assumes R_refl: "R d d"
    and R_trans: "R a b \<Longrightarrow> R b c \<Longrightarrow> R a c"
begin

lemma ret [effect_intros]: "effects R (ret x)"
  by (simp add: effects_def ret_def R_refl)

lemma bail [effect_intros]: "effects R (bail e)"
  by (simp add: effects_def bail_def R_refl)

lemma bind [effect_intros]:
  assumes "effects R m" "\<And>x. effects R (f x)"
  shows "effects R (bindM m f)"
  unfolding effects_def
proof
  fix w
  obtain r w1 where m: "m w = (r, w1)" by (cases "m w")
  have "R (w_db w) (w_db w1)" using assms(1) m by (rule effectsD)
  moreover have "R (w_db w1) (w_db (snd (f x w1)))" for x
    using assms(2) by (simp add: effects_def)
  ultimately show "R (w_db w) (w_db (snd (bindM m f w)))"
    by (auto simp: bindM_def m split: sum.split intro: R_trans)
qed

lemma attempt [effect_intros]: "effects R m \<Longrightarrow> effects R (attempt m)"
  by (simp add: effects_def attempt_def split: prod.splits) (metis snd_conv)

lemma ignore [effect_intros]: "effects R m \<Longrightarrow> effects R (ignore m)"
  by (simp add: effects_def ignore_def split: prod.splits) (metis snd_conv)

lemma lift_result [effect_intros]: "effects R (lift_result r)"
  by (simp add: effects_def lift_result_def R_refl)

lemma ok_or [effect_intros]: "effects R (ok_or x e)"
  by (simp add: effects_def ok_or_def ret_def bail_def R_refl split: option.split)

lemma guardM [effect_intros]: "effects R (guardM b e)"
  by (simp add: effects_def guardM_def ret_def bail_def R_refl)

lemma whenM [effect_intros]: "effects R m \<Longrightarrow> effects R (whenM b m)"
  by (simp add: effects_def whenM_def ret_def R_refl)

lemma forM [effect_intros]: "(\<And>x. effects R (f x)) \<Longrightarrow> effects R (forM xs f)"
  by (induction xs) (auto intro: ret bind)

lemma collectM [effect_intros]: "(\<And>x. effects R (f x)) \<Longrightarrow> effects R (collectM xs f)"
  by (induction xs) (auto intro: ret bind)

lemma query [effect_intros]: "effects R (query f)"
  by (simp add: effects_def query_def R_refl)

lemma query_result [effect_intros]: "effects R (query_result f)"
  by (simp add: effects_def query_result_def R_refl)

lemma emit_pool [effect_intros]: "effects R (emit_pool e)"
  by (simp add: effects_def emit_pool_def R_refl)

lemma spawn [effect_intros]: "effects R (spawn j)"
  by (simp add: effects_def spawn_def R_refl)

lemma reading [effect_intros]: "effects R (reading f)"
  by (simp add: effects_def reading_def R_refl)

lemma git_command [effect_intros]: "effects R (git_command x dir args)"
  by (simp add: effects_def git_command_def R_refl)

lemma utc_now [effect_intros]: "effects R (utc_now x)"
  by (simp add: utc_now_def reading)

lemma uuid_new_v4 [effect_intros]: "effects R (uuid_new_v4 x)"
  by (simp add: uuid_new_v4_def reading)

end

lemma effects_if [effect_intros]:
  "(b \<Longrightarrow> effects R m) \<Longrightarrow> (\<not> b \<Longrightarrow> effects R m') \<Longrightarrow> effects R (if b then m else m')"
  by simp

lemma effects_case_option [effect_intros]:
  "(x = None \<Longrightarrow> effects R m) \<Longrightarrow> (\<And>y. x = Some y \<Longrightarrow> effects R (f y)) \<Longrightarrow>
     effects R (case x of None \<Rightarrow> m | Some y \<Rightarrow> f y)"
  by (cases x) simp_all

lemma effects_case_sum [effect_intros]:
  "(\<And>e. x = Inl e \<Longrightarrow> effects R (f e)) \<Longrightarrow> (\<And>y. x = Inr y \<Longrightarrow> effects R (g y)) \<Longrightarrow>
     effects R (case x of Inl e \<Rightarrow> f e | Inr y \<Rightarrow> g y)"
  by (cases x) simp_all

lemma effects_case_prod [effect_intros]:
  "(\<And>a b. x = (a, b) \<Longrightarrow> effects R (f a b)) \<Longrightarrow> effects R (case x of (a, b) \<Rightarrow> f a b)"
  by (cases x) simp_all

lemma effects_let [effect_intros]: "effects R (f x) \<Longrightarrow> effects R (let y = x in f y)"
  by simp

text \<open>Computations that never touch the database have every effect that allows no change.\<close>

definition frame :: "db \<Rightarrow> db \<Rightarrow> bool" where
  "frame d d' \<longleftrightarrow> d' = d"

interpretation frame: effect frame
  by unfold_locales (simp_all add: frame_def)

lemma effects_frame: "effects frame m \<Longrightarrow> (\<And>d. R d d) \<Longrightarrow> effects R m"
  by (simp add: effects_def frame_def)

end
