(* ===== verification/Store_Schema.thy ===== *)
theory Store_Schema
  imports World "HOL-Library.Multiset"
begin

text \<open>
  The schema of the pool tables (\<^verbatim>\<open>Database::migrate\<close> in \<^verbatim>\<open>piscis-kernel/src/store/db.rs\<close>) and the
  generic statements on them. \<^verbatim>\<open>PRAGMA foreign_keys=ON\<close> is set when the database is opened, so a
  statement that would leave a dangling reference fails and a \<^verbatim>\<open>DELETE\<close> runs the \<^verbatim>\<open>ON DELETE\<close>
  actions. \<open>wf_db\<close> is the integrity the schema promises; the lemmas here show that the generic
  statements keep it, and every operation of the store is built from them.
\<close>

section \<open>Rows by key\<close>

definition find_row :: "('r \<Rightarrow> 'k) \<Rightarrow> 'k \<Rightarrow> 'r list \<Rightarrow> 'r option" where
  "find_row key k rs = List.find (\<lambda>r. key r = k) rs"

text \<open>\<^verbatim>\<open>UPDATE \<dots> SET f WHERE P\<close> on one table, with the number of rows it touches.\<close>

definition update_rows :: "('r \<Rightarrow> bool) \<Rightarrow> ('r \<Rightarrow> 'r) \<Rightarrow> 'r list \<Rightarrow> 'r list" where
  "update_rows P f rs = map (\<lambda>r. if P r then f r else r) rs"

definition count_rows :: "('r \<Rightarrow> bool) \<Rightarrow> 'r list \<Rightarrow> nat" where
  "count_rows P rs = length (filter P rs)"

lemma find_row_Nil [simp]: "find_row key k [] = None"
  by (simp add: find_row_def)

lemma find_row_Cons: "find_row key k (r # rs) = (if key r = k then Some r else find_row key k rs)"
  by (simp add: find_row_def)

lemma find_row_Some: "find_row key k rs = Some r \<Longrightarrow> r \<in> set rs \<and> key r = k"
  by (auto simp: find_row_def find_Some_iff)

lemma find_row_None_iff: "find_row key k rs = None \<longleftrightarrow> k \<notin> key ` set rs"
  by (auto simp: find_row_def find_None_iff)

lemma find_row_eq_Some_iff:
  "distinct (map key rs) \<Longrightarrow> find_row key k rs = Some r \<longleftrightarrow> r \<in> set rs \<and> key r = k"
  by (induction rs) (auto simp: find_row_Cons)

lemma find_row_append:
  "find_row key k (rs @ ss) = (case find_row key k rs of None \<Rightarrow> find_row key k ss | Some r \<Rightarrow> Some r)"
  by (induction rs) (auto simp: find_row_Cons)

text \<open>An update that keeps keys is seen through the lookup.\<close>

lemma find_row_update_rows:
  "(\<And>r. key (f r) = key r) \<Longrightarrow>
     find_row key k (update_rows P f rs) =
       map_option (\<lambda>r. if P r then f r else r) (find_row key k rs)"
  by (induction rs) (auto simp: find_row_Cons update_rows_def)

lemma map_key_update_rows:
  "(\<And>r. P r \<Longrightarrow> key (f r) = key r) \<Longrightarrow> map key (update_rows P f rs) = map key rs"
  by (simp add: update_rows_def)

lemma set_update_rows: "set (update_rows P f rs) = (\<lambda>r. if P r then f r else r) ` set rs"
  by (simp add: update_rows_def)

lemma ball_update_rows:
  "(\<forall>r \<in> set (update_rows P f rs). Q r) \<longleftrightarrow> (\<forall>r \<in> set rs. Q (if P r then f r else r))"
  by (induction rs) (simp_all add: update_rows_def)

lemma update_rows_Nil [simp]: "update_rows P f [] = []"
  by (simp add: update_rows_def)

lemma update_rows_none: "(\<And>r. r \<in> set rs \<Longrightarrow> \<not> P r) \<Longrightarrow> update_rows P f rs = rs"
  by (simp add: update_rows_def map_idI)

lemma count_rows_key:
  "distinct (map key rs) \<Longrightarrow>
     count_rows (\<lambda>r. key r = k \<and> P r) rs =
       (case find_row key k rs of None \<Rightarrow> 0 | Some r \<Rightarrow> if P r then 1 else 0)"
proof (induction rs)
  case Nil
  then show ?case by (simp add: count_rows_def)
next
  case (Cons r rs)
  then have "key r = k \<Longrightarrow> find_row key k rs = None" by (auto simp: find_row_None_iff)
  with Cons show ?case by (auto simp: count_rows_def find_row_Cons split: option.splits)
qed

text \<open>A stable sort in descending order: rows with equal keys stay in table order.\<close>

definition order_desc :: "('r \<Rightarrow> 'k::linorder) \<Rightarrow> 'r list \<Rightarrow> 'r list" where
  "order_desc key rs = rev (sort_key key (rev rs))"

lemma set_order_desc [simp]: "set (order_desc key rs) = set rs"
  by (simp add: order_desc_def)

lemma length_order_desc [simp]: "length (order_desc key rs) = length rs"
  by (simp add: order_desc_def)

lemma mset_order_desc [simp]: "mset (order_desc key rs) = mset rs"
  by (simp add: order_desc_def)

lemma sorted_order_desc: "sorted (map key (rev (order_desc key rs)))"
  by (simp add: order_desc_def)

lemma distinct_map_order_desc: "distinct (map f (order_desc key rs)) \<longleftrightarrow> distinct (map f rs)"
proof -
  have "mset (map f (order_desc key rs)) = mset (map f rs)" by simp
  then show ?thesis by (metis mset_eq_imp_distinct_iff)
qed

lemma filter_order_desc_length:
  "length (filter P (order_desc key rs)) = length (filter P rs)"
  by (metis mset_filter mset_order_desc size_mset)

section \<open>Foreign keys\<close>

definition koi_exists :: "db \<Rightarrow> string \<Rightarrow> bool" where
  "koi_exists d k \<longleftrightarrow> k \<in> set (map kd_id (tb_kois d))"

definition pool_exists :: "db \<Rightarrow> string \<Rightarrow> bool" where
  "pool_exists d p \<longleftrightarrow> p \<in> set (map ps_id (tb_pool_sessions d))"

definition todo_exists :: "db \<Rightarrow> string \<Rightarrow> bool" where
  "todo_exists d t \<longleftrightarrow> t \<in> set (map td_id (tb_koi_todos d))"

definition message_exists :: "db \<Rightarrow> int \<Rightarrow> bool" where
  "message_exists d m \<longleftrightarrow> m \<in> set (map pm_id (tb_pool_messages d))"

lemmas exists_defs = koi_exists_def pool_exists_def todo_exists_def message_exists_def

definition opt_exists :: "('k \<Rightarrow> bool) \<Rightarrow> 'k option \<Rightarrow> bool" where
  "opt_exists P ok \<longleftrightarrow> (case ok of None \<Rightarrow> True | Some k \<Rightarrow> P k)"

lemma opt_exists_simps [simp]: "opt_exists P None" "opt_exists P (Some k) = P k"
  by (simp_all add: opt_exists_def)

definition todo_refs :: "db \<Rightarrow> todo_row \<Rightarrow> bool" where
  "todo_refs d r \<longleftrightarrow> koi_exists d (td_owner_id r) \<and>
     opt_exists (pool_exists d) (td_pool_session_id r) \<and> opt_exists (koi_exists d) (td_claimed_by r)"

definition message_refs :: "db \<Rightarrow> message_row \<Rightarrow> bool" where
  "message_refs d r \<longleftrightarrow> pool_exists d (pm_pool_session_id r) \<and>
     opt_exists (todo_exists d) (pm_todo_id r) \<and>
     opt_exists (message_exists d) (pm_reply_to_message_id r)"

definition member_refs :: "db \<Rightarrow> member_row \<Rightarrow> bool" where
  "member_refs d r \<longleftrightarrow> pool_exists d (mb_pool_session_id r) \<and> koi_exists d (mb_koi_id r)"

definition member_key :: "member_row \<Rightarrow> string \<times> string" where
  "member_key r = (mb_pool_session_id r, mb_koi_id r)"

definition wf_db :: "db \<Rightarrow> bool" where
  "wf_db d \<longleftrightarrow>
     distinct (map kd_id (tb_kois d)) \<and>
     distinct (map td_id (tb_koi_todos d)) \<and>
     distinct (map ps_id (tb_pool_sessions d)) \<and>
     distinct (map pm_id (tb_pool_messages d)) \<and>
     distinct (map member_key (tb_pool_members d)) \<and>
     list_all (\<lambda>m. pm_id m \<le> tb_message_seq d) (tb_pool_messages d) \<and>
     list_all (todo_refs d) (tb_koi_todos d) \<and>
     list_all (message_refs d) (tb_pool_messages d) \<and>
     list_all (member_refs d) (tb_pool_members d)"

definition empty_db :: db where
  "empty_db = \<lparr> tb_kois = [], tb_koi_todos = [], tb_pool_sessions = [], tb_pool_messages = [],
     tb_message_seq = 0, tb_pool_members = [], tb_memories = [] \<rparr>"

lemma wf_empty_db [simp]: "wf_db empty_db"
  by (simp add: wf_db_def empty_db_def)

section \<open>Statements that keep the integrity\<close>

definition keeps_wf :: "db \<Rightarrow> db \<Rightarrow> bool" where
  "keeps_wf d d' \<longleftrightarrow> (wf_db d \<longrightarrow> wf_db d')"

interpretation wf: effect keeps_wf
  by unfold_locales (simp_all add: keeps_wf_def)

definition update_todos :: "(todo_row \<Rightarrow> bool) \<Rightarrow> (todo_row \<Rightarrow> todo_row) \<Rightarrow> db \<Rightarrow> db" where
  "update_todos P f d = d\<lparr>tb_koi_todos := update_rows P f (tb_koi_todos d)\<rparr>"

definition update_kois :: "(koi_row \<Rightarrow> bool) \<Rightarrow> (koi_row \<Rightarrow> koi_row) \<Rightarrow> db \<Rightarrow> db" where
  "update_kois P f d = d\<lparr>tb_kois := update_rows P f (tb_kois d)\<rparr>"

definition update_pools :: "(pool_row \<Rightarrow> bool) \<Rightarrow> (pool_row \<Rightarrow> pool_row) \<Rightarrow> db \<Rightarrow> db" where
  "update_pools P f d = d\<lparr>tb_pool_sessions := update_rows P f (tb_pool_sessions d)\<rparr>"

definition update_messages :: "(message_row \<Rightarrow> bool) \<Rightarrow> (message_row \<Rightarrow> message_row) \<Rightarrow> db \<Rightarrow> db" where
  "update_messages P f d = d\<lparr>tb_pool_messages := update_rows P f (tb_pool_messages d)\<rparr>"

lemmas update_defs = update_todos_def update_kois_def update_pools_def update_messages_def

lemma update_todos_sel [simp]:
  "tb_kois (update_todos P f d) = tb_kois d"
  "tb_koi_todos (update_todos P f d) = update_rows P f (tb_koi_todos d)"
  "tb_pool_sessions (update_todos P f d) = tb_pool_sessions d"
  "tb_pool_messages (update_todos P f d) = tb_pool_messages d"
  "tb_message_seq (update_todos P f d) = tb_message_seq d"
  "tb_pool_members (update_todos P f d) = tb_pool_members d"
  by (simp_all add: update_todos_def)

lemma update_kois_sel [simp]:
  "tb_kois (update_kois P f' d) = update_rows P f' (tb_kois d)"
  "tb_koi_todos (update_kois P f' d) = tb_koi_todos d"
  "tb_pool_sessions (update_kois P f' d) = tb_pool_sessions d"
  "tb_pool_messages (update_kois P f' d) = tb_pool_messages d"
  "tb_message_seq (update_kois P f' d) = tb_message_seq d"
  "tb_pool_members (update_kois P f' d) = tb_pool_members d"
  by (simp_all add: update_kois_def)

lemma update_pools_sel [simp]:
  "tb_kois (update_pools P f d) = tb_kois d"
  "tb_koi_todos (update_pools P f d) = tb_koi_todos d"
  "tb_pool_sessions (update_pools P f d) = update_rows P f (tb_pool_sessions d)"
  "tb_pool_messages (update_pools P f d) = tb_pool_messages d"
  "tb_message_seq (update_pools P f d) = tb_message_seq d"
  "tb_pool_members (update_pools P f d) = tb_pool_members d"
  by (simp_all add: update_pools_def)

lemma update_messages_sel [simp]:
  "tb_kois (update_messages P f d) = tb_kois d"
  "tb_koi_todos (update_messages P f d) = tb_koi_todos d"
  "tb_pool_sessions (update_messages P f d) = tb_pool_sessions d"
  "tb_pool_messages (update_messages P f d) = update_rows P f (tb_pool_messages d)"
  "tb_message_seq (update_messages P f d) = tb_message_seq d"
  "tb_pool_members (update_messages P f d) = tb_pool_members d"
  by (simp_all add: update_messages_def)

lemma refs_cong:
  assumes "map kd_id (tb_kois d') = map kd_id (tb_kois d)"
    and "map ps_id (tb_pool_sessions d') = map ps_id (tb_pool_sessions d)"
    and "map td_id (tb_koi_todos d') = map td_id (tb_koi_todos d)"
    and "map pm_id (tb_pool_messages d') = map pm_id (tb_pool_messages d)"
  shows "todo_refs d' = todo_refs d" "message_refs d' = message_refs d"
    "member_refs d' = member_refs d"
proof -
  have "koi_exists d' = koi_exists d" "pool_exists d' = pool_exists d"
    "todo_exists d' = todo_exists d" "message_exists d' = message_exists d"
    unfolding koi_exists_def pool_exists_def todo_exists_def message_exists_def fun_eq_iff assms
    by simp_all
  then show "todo_refs d' = todo_refs d" "message_refs d' = message_refs d"
    "member_refs d' = member_refs d"
    unfolding todo_refs_def [abs_def] message_refs_def [abs_def] member_refs_def [abs_def] by auto
qed

lemma wf_update_todos:
  assumes wf: "wf_db d"
    and keys: "\<And>r. P r \<Longrightarrow> td_id (f r) = td_id r"
    and refs: "\<And>r. r \<in> set (tb_koi_todos d) \<Longrightarrow> P r \<Longrightarrow> todo_refs d r \<Longrightarrow> todo_refs d (f r)"
  shows "wf_db (update_todos P f d)"
proof -
  have ids: "map td_id (update_rows P f (tb_koi_todos d)) = map td_id (tb_koi_todos d)"
    by (rule map_key_update_rows) (rule keys)
  have r: "todo_refs (update_todos P f d) = todo_refs d"
    "message_refs (update_todos P f d) = message_refs d"
    "member_refs (update_todos P f d) = member_refs d"
    by (rule refs_cong; simp only: update_todos_sel ids)+
  have "list_all (todo_refs d) (update_rows P f (tb_koi_todos d))"
    using wf refs by (auto simp: wf_db_def list_all_iff set_update_rows)
  with wf show ?thesis unfolding wf_db_def r update_todos_sel ids by blast
qed

lemma wf_update_kois:
  assumes wf: "wf_db d"
    and keys: "\<And>r. P r \<Longrightarrow> kd_id (f r) = kd_id r"
  shows "wf_db (update_kois P f d)"
proof -
  have ids: "map kd_id (update_rows P f (tb_kois d)) = map kd_id (tb_kois d)"
    by (rule map_key_update_rows) (rule keys)
  have r: "todo_refs (update_kois P f d) = todo_refs d"
    "message_refs (update_kois P f d) = message_refs d"
    "member_refs (update_kois P f d) = member_refs d"
    by (rule refs_cong; simp only: update_kois_sel ids)+
  from wf show ?thesis unfolding wf_db_def r update_kois_sel ids by blast
qed

lemma wf_update_pools:
  assumes wf: "wf_db d"
    and keys: "\<And>r. P r \<Longrightarrow> ps_id (f r) = ps_id r"
  shows "wf_db (update_pools P f d)"
proof -
  have ids: "map ps_id (update_rows P f (tb_pool_sessions d)) = map ps_id (tb_pool_sessions d)"
    by (rule map_key_update_rows) (rule keys)
  have r: "todo_refs (update_pools P f d) = todo_refs d"
    "message_refs (update_pools P f d) = message_refs d"
    "member_refs (update_pools P f d) = member_refs d"
    by (rule refs_cong; simp only: update_pools_sel ids)+
  from wf show ?thesis unfolding wf_db_def r update_pools_sel ids by blast
qed

lemma wf_update_messages:
  assumes wf: "wf_db d"
    and keys: "\<And>r. P r \<Longrightarrow> pm_id (f r) = pm_id r"
    and refs: "\<And>r. r \<in> set (tb_pool_messages d) \<Longrightarrow> P r \<Longrightarrow> message_refs d r \<Longrightarrow> message_refs d (f r)"
  shows "wf_db (update_messages P f d)"
proof -
  have ids: "map pm_id (update_rows P f (tb_pool_messages d)) = map pm_id (tb_pool_messages d)"
    by (rule map_key_update_rows) (rule keys)
  have r: "todo_refs (update_messages P f d) = todo_refs d"
    "message_refs (update_messages P f d) = message_refs d"
    "member_refs (update_messages P f d) = member_refs d"
    by (rule refs_cong; simp only: update_messages_sel ids)+
  have "list_all (message_refs d) (update_rows P f (tb_pool_messages d))"
    using wf refs by (auto simp: wf_db_def list_all_iff set_update_rows)
  moreover have "list_all (\<lambda>m. pm_id m \<le> tb_message_seq d) (update_rows P f (tb_pool_messages d))"
    using wf keys by (auto simp: wf_db_def list_all_iff set_update_rows)
  ultimately show ?thesis
    using wf unfolding wf_db_def r update_messages_sel ids by blast
qed

section \<open>Inserts and deletes\<close>

definition insert_todo :: "todo_row \<Rightarrow> db \<Rightarrow> error + nat \<times> db" where
  "insert_todo r d =
     (if todo_exists d (td_id r) then Inl UniqueFailed
      else if \<not> todo_refs d r then Inl ForeignKeyFailed
      else Inr (1, d\<lparr>tb_koi_todos := tb_koi_todos d @ [r]\<rparr>))"

definition insert_koi :: "koi_row \<Rightarrow> db \<Rightarrow> error + nat \<times> db" where
  "insert_koi r d =
     (if koi_exists d (kd_id r) then Inl UniqueFailed
      else Inr (1, d\<lparr>tb_kois := tb_kois d @ [r]\<rparr>))"

definition insert_or_ignore_koi :: "koi_row \<Rightarrow> db \<Rightarrow> error + nat \<times> db" where
  "insert_or_ignore_koi r d =
     (if koi_exists d (kd_id r) then Inr (0, d)
      else Inr (1, d\<lparr>tb_kois := tb_kois d @ [r]\<rparr>))"

definition insert_pool :: "pool_row \<Rightarrow> db \<Rightarrow> error + nat \<times> db" where
  "insert_pool r d =
     (if pool_exists d (ps_id r) then Inl UniqueFailed
      else Inr (1, d\<lparr>tb_pool_sessions := tb_pool_sessions d @ [r]\<rparr>))"

text \<open>
  The message is given without its identifier; \<^verbatim>\<open>AUTOINCREMENT\<close> assigns the next number. A reply
  may not refer to the message itself, since its identifier is not known before.
\<close>

definition insert_message :: "message_row \<Rightarrow> db \<Rightarrow> error + nat \<times> db" where
  "insert_message r d =
     (if \<not> message_refs d r then Inl ForeignKeyFailed
      else Inr (1, d\<lparr>tb_message_seq := tb_message_seq d + 1,
                     tb_pool_messages := tb_pool_messages d @ [r\<lparr>pm_id := tb_message_seq d + 1\<rparr>]\<rparr>))"

definition insert_or_ignore_member :: "member_row \<Rightarrow> db \<Rightarrow> error + nat \<times> db" where
  "insert_or_ignore_member r d =
     (if member_key r \<in> set (map member_key (tb_pool_members d)) then Inr (0, d)
      else if \<not> member_refs d r then Inl ForeignKeyFailed
      else Inr (1, d\<lparr>tb_pool_members := tb_pool_members d @ [r]\<rparr>))"

text \<open>\<^verbatim>\<open>DELETE FROM koi_todos WHERE P\<close>: the messages of a deleted todo lose their \<^verbatim>\<open>todo_id\<close>.\<close>

definition delete_todos :: "(todo_row \<Rightarrow> bool) \<Rightarrow> db \<Rightarrow> db" where
  "delete_todos P d =
     (let gone = map td_id (filter P (tb_koi_todos d))
      in d\<lparr>tb_koi_todos := filter (\<lambda>r. \<not> P r) (tb_koi_todos d),
           tb_pool_messages := update_rows (\<lambda>m. \<exists>t \<in> set gone. pm_todo_id m = Some t)
             (\<lambda>m. m\<lparr>pm_todo_id := None\<rparr>) (tb_pool_messages d)\<rparr>)"

text \<open>
  \<^verbatim>\<open>DELETE FROM kois WHERE id = k\<close>: the Koi's todos are deleted, its claims are cleared, its
  memberships are deleted.
\<close>

definition delete_koi_row :: "string \<Rightarrow> db \<Rightarrow> db" where
  "delete_koi_row k d =
     (let d1 = delete_todos (\<lambda>r. td_owner_id r = k \<and> koi_exists d k) d
      in d1\<lparr>tb_kois := filter (\<lambda>r. kd_id r \<noteq> k) (tb_kois d),
            tb_koi_todos := update_rows (\<lambda>r. td_claimed_by r = Some k \<and> koi_exists d k)
              (\<lambda>r. r\<lparr>td_claimed_by := None\<rparr>) (tb_koi_todos d1),
            tb_pool_members := filter (\<lambda>m. \<not> (mb_koi_id m = k \<and> koi_exists d k)) (tb_pool_members d)\<rparr>)"

lemma refs_mono:
  assumes "\<And>k. koi_exists d k \<Longrightarrow> koi_exists d' k" "\<And>k. pool_exists d k \<Longrightarrow> pool_exists d' k"
    "\<And>k. todo_exists d k \<Longrightarrow> todo_exists d' k" "\<And>k. message_exists d k \<Longrightarrow> message_exists d' k"
  shows "todo_refs d r \<Longrightarrow> todo_refs d' r" "message_refs d m \<Longrightarrow> message_refs d' m"
    "member_refs d b \<Longrightarrow> member_refs d' b"
  using assms
  by (auto simp: todo_refs_def message_refs_def member_refs_def opt_exists_def split: option.splits)

text \<open>A database that only grows keeps every reference; the new rows must be sound themselves.\<close>

lemma wf_insert_todo: "wf_db d \<Longrightarrow> insert_todo r d = Inr (n, d') \<Longrightarrow> wf_db d'"
proof -
  assume wf: "wf_db d" and ins: "insert_todo r d = Inr (n, d')"
  from ins have fresh: "\<not> todo_exists d (td_id r)" and refs: "todo_refs d r"
    and d': "d' = d\<lparr>tb_koi_todos := tb_koi_todos d @ [r]\<rparr>"
    by (auto simp: insert_todo_def split: if_splits)
  have "todo_refs d t \<Longrightarrow> todo_refs d' t" "message_refs d m \<Longrightarrow> message_refs d' m"
    "member_refs d b \<Longrightarrow> member_refs d' b" for t m b
    by (rule refs_mono [of d d']; simp add: exists_defs d'; blast)+
  with wf refs fresh show ?thesis by (auto simp: wf_db_def d' list_all_iff exists_defs)
qed

lemma wf_insert_koi: "wf_db d \<Longrightarrow> insert_koi r d = Inr (n, d') \<Longrightarrow> wf_db d'"
proof -
  assume wf: "wf_db d" and ins: "insert_koi r d = Inr (n, d')"
  from ins have fresh: "\<not> koi_exists d (kd_id r)" and d': "d' = d\<lparr>tb_kois := tb_kois d @ [r]\<rparr>"
    by (auto simp: insert_koi_def split: if_splits)
  have "todo_refs d t \<Longrightarrow> todo_refs d' t" "message_refs d m \<Longrightarrow> message_refs d' m"
    "member_refs d b \<Longrightarrow> member_refs d' b" for t m b
    by (rule refs_mono [of d d']; simp add: exists_defs d'; blast)+
  with wf fresh show ?thesis by (auto simp: wf_db_def d' list_all_iff exists_defs)
qed

lemma wf_insert_or_ignore_koi:
  "wf_db d \<Longrightarrow> insert_or_ignore_koi r d = Inr (n, d') \<Longrightarrow> wf_db d'"
  using wf_insert_koi [of d r n d']
  by (auto simp: insert_or_ignore_koi_def insert_koi_def split: if_splits)

lemma wf_insert_pool: "wf_db d \<Longrightarrow> insert_pool r d = Inr (n, d') \<Longrightarrow> wf_db d'"
proof -
  assume wf: "wf_db d" and ins: "insert_pool r d = Inr (n, d')"
  from ins have fresh: "\<not> pool_exists d (ps_id r)"
    and d': "d' = d\<lparr>tb_pool_sessions := tb_pool_sessions d @ [r]\<rparr>"
    by (auto simp: insert_pool_def split: if_splits)
  have "todo_refs d t \<Longrightarrow> todo_refs d' t" "message_refs d m \<Longrightarrow> message_refs d' m"
    "member_refs d b \<Longrightarrow> member_refs d' b" for t m b
    by (rule refs_mono [of d d']; simp add: exists_defs d'; blast)+
  with wf fresh show ?thesis by (auto simp: wf_db_def d' list_all_iff exists_defs)
qed

lemma wf_insert_message: "wf_db d \<Longrightarrow> insert_message r d = Inr (n, d') \<Longrightarrow> wf_db d'"
proof -
  assume wf: "wf_db d" and ins: "insert_message r d = Inr (n, d')"
  from ins have refs: "message_refs d r"
    and d': "d' = d\<lparr>tb_message_seq := tb_message_seq d + 1,
      tb_pool_messages := tb_pool_messages d @ [r\<lparr>pm_id := tb_message_seq d + 1\<rparr>]\<rparr>"
    by (auto simp: insert_message_def split: if_splits)
  have mono: "todo_refs d t \<Longrightarrow> todo_refs d' t" "message_refs d m \<Longrightarrow> message_refs d' m"
    "member_refs d b \<Longrightarrow> member_refs d' b" for t m b
    by (rule refs_mono [of d d']; simp add: exists_defs d'; blast)+
  have "message_refs d' (r\<lparr>pm_id := i\<rparr>)" for i
    using mono(2) [OF refs] by (simp add: message_refs_def)
  with wf mono show ?thesis by (force simp: wf_db_def d' list_all_iff)
qed

lemma wf_insert_or_ignore_member:
  "wf_db d \<Longrightarrow> insert_or_ignore_member r d = Inr (n, d') \<Longrightarrow> wf_db d'"
proof -
  assume wf: "wf_db d" and ins: "insert_or_ignore_member r d = Inr (n, d')"
  show ?thesis
  proof (cases "member_key r \<in> set (map member_key (tb_pool_members d))")
    case True
    with ins wf show ?thesis by (simp add: insert_or_ignore_member_def)
  next
    case False
    with ins have refs: "member_refs d r"
      and d': "d' = d\<lparr>tb_pool_members := tb_pool_members d @ [r]\<rparr>"
      by (auto simp: insert_or_ignore_member_def split: if_splits)
    have "todo_refs d' = todo_refs d" "message_refs d' = message_refs d"
      "member_refs d' = member_refs d"
      by (rule refs_cong; simp add: d')+
    with wf refs False show ?thesis by (auto simp: wf_db_def d')
  qed
qed

lemma delete_todos_sel [simp]:
  "tb_kois (delete_todos P d) = tb_kois d"
  "tb_koi_todos (delete_todos P d) = filter (\<lambda>r. \<not> P r) (tb_koi_todos d)"
  "tb_pool_sessions (delete_todos P d) = tb_pool_sessions d"
  "tb_message_seq (delete_todos P d) = tb_message_seq d"
  "tb_pool_members (delete_todos P d) = tb_pool_members d"
  by (simp_all add: delete_todos_def Let_def)

lemma delete_todos_messages:
  "tb_pool_messages (delete_todos P d) =
     update_rows (\<lambda>m. \<exists>t \<in> set (map td_id (filter P (tb_koi_todos d))). pm_todo_id m = Some t)
       (\<lambda>m. m\<lparr>pm_todo_id := None\<rparr>) (tb_pool_messages d)"
  by (simp add: delete_todos_def Let_def)

lemma delete_todos_message_ids [simp]:
  "map pm_id (tb_pool_messages (delete_todos P d)) = map pm_id (tb_pool_messages d)"
  unfolding delete_todos_messages by (rule map_key_update_rows) simp

lemma wf_delete_todos:
  assumes wf: "wf_db d"
  shows "wf_db (delete_todos P d)"
proof -
  let ?d = "delete_todos P d"
  have e: "koi_exists ?d = koi_exists d" "pool_exists ?d = pool_exists d"
    "message_exists ?d = message_exists d"
    unfolding koi_exists_def [abs_def] pool_exists_def [abs_def] message_exists_def [abs_def]
      delete_todos_message_ids by simp_all
  have left: "todo_exists ?d t"
    if "todo_exists d t" "t \<notin> set (map td_id (filter P (tb_koi_todos d)))" for t
    using that by (auto simp: todo_exists_def)
  have "message_refs ?d m" if "m \<in> set (tb_pool_messages ?d)" for m
  proof -
    from that obtain m0 where m0: "m0 \<in> set (tb_pool_messages d)"
      and m: "m = (if \<exists>t \<in> set (map td_id (filter P (tb_koi_todos d))). pm_todo_id m0 = Some t
                   then m0\<lparr>pm_todo_id := None\<rparr> else m0)"
      unfolding delete_todos_messages set_update_rows by blast
    from wf m0 have "message_refs d m0" by (simp add: wf_db_def list_all_iff)
    with left show ?thesis unfolding m message_refs_def e
      by (cases "pm_todo_id m0") auto
  qed
  moreover have "pm_id m \<le> tb_message_seq d" if "m \<in> set (tb_pool_messages ?d)" for m
    using that wf unfolding delete_todos_messages set_update_rows
    by (auto simp: wf_db_def list_all_iff)
  moreover have "todo_refs ?d = todo_refs d" "member_refs ?d = member_refs d"
    unfolding todo_refs_def [abs_def] member_refs_def [abs_def] e by simp_all
  ultimately show ?thesis
    using wf unfolding wf_db_def delete_todos_message_ids delete_todos_sel list_all_iff
    by (simp add: distinct_map_filter)
qed

end
