(* ===== verification/Store_Koi.thy ===== *)
theory Store_Koi
  imports Store_Schema
begin

text \<open>
  The \<^verbatim>\<open>kois\<close> table: the Koi operations of \<^verbatim>\<open>Database\<close> in \<^verbatim>\<open>piscis-kernel/src/store/db.rs\<close>. An
  operation reads the clock where the source calls \<^verbatim>\<open>Utc::now()\<close>; a query that has to replace
  unreadable time columns by the current time takes one reading for all of them.
\<close>

section \<open>Names\<close>

definition is_disallowed_koi_name_char :: "string \<Rightarrow> bool" where
  "is_disallowed_koi_name_char ch =
     (let cp = code_point ch
      in cp = 0x200D \<or> cp = 0xFE0F \<or> (0x1F1E6 \<le> cp \<and> cp \<le> 0x1F1FF) \<or>
         (0x1F300 \<le> cp \<and> cp \<le> 0x1FAFF) \<or> (0x2600 \<le> cp \<and> cp \<le> 0x27BF) \<or>
         (0x2300 \<le> cp \<and> cp \<le> 0x23FF))"

definition err_name_empty :: error where
  \<comment> \<open>a Koi's name must not be empty\<close>
  "err_name_empty = Anyhow (''Koi '' @
       [CHR 0xE5, CHR 0x90, CHR 0x8D, CHR 0xE7, CHR 0xA7, CHR 0xB0, CHR 0xE4, CHR 0xB8, CHR 0x8D,
       CHR 0xE8, CHR 0x83, CHR 0xBD, CHR 0xE4, CHR 0xB8, CHR 0xBA, CHR 0xE7, CHR 0xA9, CHR 0xBA])"

definition err_name_blank :: error where
  \<comment> \<open>a Koi's name must not contain whitespace\<close>
  "err_name_blank = Anyhow (''Koi '' @
       [CHR 0xE5, CHR 0x90, CHR 0x8D, CHR 0xE7, CHR 0xA7, CHR 0xB0, CHR 0xE4, CHR 0xB8, CHR 0x8D,
       CHR 0xE8, CHR 0x83, CHR 0xBD, CHR 0xE5, CHR 0x8C, CHR 0x85, CHR 0xE5, CHR 0x90, CHR 0xAB,
       CHR 0xE7, CHR 0xA9, CHR 0xBA, CHR 0xE6, CHR 0xA0, CHR 0xBC, CHR 0xE6, CHR 0x88, CHR 0x96,
       CHR 0xE5, CHR 0x85, CHR 0xB6, CHR 0xE4, CHR 0xBB, CHR 0x96, CHR 0xE7, CHR 0xA9, CHR 0xBA,
       CHR 0xE7, CHR 0x99, CHR 0xBD, CHR 0xE5, CHR 0xAD, CHR 0x97, CHR 0xE7, CHR 0xAC, CHR 0xA6])"

definition err_name_emoji :: error where
  \<comment> \<open>a Koi's name must not contain emoji\<close>
  "err_name_emoji = Anyhow (''Koi '' @
       [CHR 0xE5, CHR 0x90, CHR 0x8D, CHR 0xE7, CHR 0xA7, CHR 0xB0, CHR 0xE4, CHR 0xB8, CHR 0x8D,
       CHR 0xE8, CHR 0x83, CHR 0xBD, CHR 0xE5, CHR 0x8C, CHR 0x85, CHR 0xE5, CHR 0x90, CHR 0xAB] @
       '' emoji '' @
       [CHR 0xE6, CHR 0x88, CHR 0x96, CHR 0xE5, CHR 0x85, CHR 0xB6, CHR 0xE4, CHR 0xBB, CHR 0x96] @
       '' pictographic '' @
       [CHR 0xE5, CHR 0xAD, CHR 0x97, CHR 0xE7, CHR 0xAC, CHR 0xA6])"

definition normalize_koi_name :: "string \<Rightarrow> error + string" where
  "normalize_koi_name name =
     (let trimmed = trim name
      in if trimmed = [] then Inl err_name_empty
         else if list_ex is_whitespace (chars trimmed) then Inl err_name_blank
         else if list_ex is_disallowed_koi_name_char (chars trimmed) then Inl err_name_emoji
         else Inr trimmed)"

section \<open>Rows\<close>

text \<open>A time column that chrono cannot parse reads as the current time.\<close>

definition read_time :: "DateTime \<Rightarrow> stamp \<Rightarrow> DateTime" where
  "read_time now s = (case parse_datetime s of None \<Rightarrow> now | Some t \<Rightarrow> t)"

lemma read_time_rfc3339 [simp]: "read_time now (to_rfc3339 t) = t"
  by (simp add: read_time_def)

definition map_koi :: "DateTime \<Rightarrow> koi_row \<Rightarrow> KoiDefinition" where
  "map_koi now r = \<lparr>
     kd_id = kd_id r, kd_name = kd_name r, kd_role = kd_role r, kd_icon = kd_icon r,
     kd_color = kd_color r, kd_system_prompt = kd_system_prompt r,
     kd_description = kd_description r, kd_status = kd_status r,
     kd_created_at = read_time now (kd_created_at r),
     kd_updated_at = read_time now (kd_updated_at r),
     kd_llm_provider_id = kd_llm_provider_id r, kd_max_iterations = kd_max_iterations r,
     kd_task_timeout_secs = kd_task_timeout_secs r \<rparr>"

lemma map_koi_sel [simp]:
  "kd_id (map_koi now r) = kd_id r" "kd_name (map_koi now r) = kd_name r"
  "kd_status (map_koi now r) = kd_status r"
  "kd_task_timeout_secs (map_koi now r) = kd_task_timeout_secs r"
  by (simp_all add: map_koi_def)

section \<open>Creating\<close>

definition create_koi ::
  "ext \<Rightarrow> string \<Rightarrow> string \<Rightarrow> string \<Rightarrow> string \<Rightarrow> string \<Rightarrow> string \<Rightarrow> string option \<Rightarrow> u32 \<Rightarrow> u32 \<Rightarrow>
     KoiDefinition M" where
  "create_koi x name role icon color system_prompt description llm_provider_id max_iterations
     task_timeout_secs =
     bindM (lift_result (normalize_koi_name name)) (\<lambda>name.
     bindM (uuid_new_v4 x) (\<lambda>i.
     bindM (utc_now x) (\<lambda>now.
     bindM (execute (insert_koi \<lparr>
       kd_id = i, kd_name = name, kd_role = role, kd_icon = icon, kd_color = color,
       kd_system_prompt = system_prompt, kd_description = description, kd_status = ''idle'',
       kd_created_at = to_rfc3339 now, kd_updated_at = to_rfc3339 now,
       kd_llm_provider_id = llm_provider_id, kd_max_iterations = max_iterations,
       kd_task_timeout_secs = task_timeout_secs \<rparr>)) (\<lambda>_.
     ret \<lparr>
       kd_id = i, kd_name = name, kd_role = role, kd_icon = icon, kd_color = color,
       kd_system_prompt = system_prompt, kd_description = description, kd_status = ''idle'',
       kd_created_at = now, kd_updated_at = now,
       kd_llm_provider_id = llm_provider_id, kd_max_iterations = max_iterations,
       kd_task_timeout_secs = task_timeout_secs \<rparr>))))"

definition upsert_koi_with_id :: "ext \<Rightarrow> string \<Rightarrow> string \<Rightarrow> unit M" where
  "upsert_koi_with_id x i name =
     bindM (lift_result (normalize_koi_name name)) (\<lambda>name.
     bindM (utc_now x) (\<lambda>now.
     bindM (execute (insert_or_ignore_koi \<lparr>
       kd_id = i, kd_name = name, kd_role = [], kd_icon = [], kd_color = [],
       kd_system_prompt = [], kd_description = [], kd_status = ''idle'',
       kd_created_at = to_rfc3339 now, kd_updated_at = to_rfc3339 now,
       kd_llm_provider_id = None, kd_max_iterations = 0, kd_task_timeout_secs = 0 \<rparr>)) (\<lambda>_.
     ret ())))"

section \<open>Queries\<close>

text \<open>\<^verbatim>\<open>ORDER BY created_at ASC\<close>.\<close>

definition sel_kois :: "DateTime \<Rightarrow> db \<Rightarrow> KoiDefinition list" where
  "sel_kois now d = map (map_koi now) (sort_key kd_created_at (tb_kois d))"

definition list_kois :: "ext \<Rightarrow> KoiDefinition list M" where
  "list_kois x = bindM (utc_now x) (\<lambda>now. query (sel_kois now))"

text \<open>
  SQL \<^verbatim>\<open>LIKE\<close>, on characters: \<^verbatim>\<open>%\<close> matches any text, \<^verbatim>\<open>_\<close> any character, and ASCII letters match in
  either case.
\<close>

fun like_chars :: "string list \<Rightarrow> string list \<Rightarrow> bool" where
  "like_chars [] s = (s = [])"
| "like_chars (p # ps) [] = (p = ''%'' \<and> like_chars ps [])"
| "like_chars (p # ps) (c # cs) =
     (if p = ''%'' then like_chars ps (c # cs) \<or> like_chars (p # ps) cs
      else (p = ''_'' \<or> eq_ignore_ascii_case p c) \<and> like_chars ps cs)"

definition sql_like :: "string \<Rightarrow> string \<Rightarrow> bool" where
  "sql_like s pattern = like_chars (chars pattern) (chars s)"

definition sel_koi :: "DateTime \<Rightarrow> string \<Rightarrow> db \<Rightarrow> KoiDefinition option" where
  "sel_koi now i d =
     (case find_row kd_id i (tb_kois d) of
        Some r \<Rightarrow> Some (map_koi now r)
      | None \<Rightarrow>
          if 6 \<le> length i
          then case filter (\<lambda>r. sql_like (kd_id r) (i @ ''%'')) (tb_kois d) of
                 [r] \<Rightarrow> Some (map_koi now r)
               | _ \<Rightarrow> None
          else None)"

definition get_koi :: "ext \<Rightarrow> string \<Rightarrow> KoiDefinition option M" where
  "get_koi x i = bindM (utc_now x) (\<lambda>now. query (sel_koi now i))"

definition find_koi_by_name :: "ext \<Rightarrow> string \<Rightarrow> KoiDefinition option M" where
  "find_koi_by_name x name =
     bindM (utc_now x) (\<lambda>now.
     query (\<lambda>d. case sort_key kd_created_at (filter (\<lambda>r. kd_name r = name) (tb_kois d)) of
                  [] \<Rightarrow> None | r # _ \<Rightarrow> Some (map_koi now r)))"

definition sel_resolve_koi :: "DateTime \<Rightarrow> string \<Rightarrow> db \<Rightarrow> error + KoiDefinition option" where
  "sel_resolve_koi now v d =
     (let v = trim v
      in if v = [] then Inr None
         else case sel_koi now v d of
                Some koi \<Rightarrow> Inr (Some koi)
              | None \<Rightarrow>
                  (case filter (\<lambda>k. kd_name k = v) (sel_kois now d) of
                     [] \<Rightarrow> Inr None
                   | [k] \<Rightarrow> Inr (Some k)
                   | _ \<Rightarrow> Inl (Anyhow (''Koi identifier '' @ sq v @ '' is ambiguous''))))"

definition resolve_koi_identifier :: "ext \<Rightarrow> string \<Rightarrow> KoiDefinition option M" where
  "resolve_koi_identifier x v = bindM (utc_now x) (\<lambda>now. query_result (sel_resolve_koi now v))"

section \<open>Updating and deleting\<close>

definition coalesce :: "'a option \<Rightarrow> 'a \<Rightarrow> 'a" where
  "coalesce o' v = (case o' of None \<Rightarrow> v | Some u \<Rightarrow> u)"

definition update_koi ::
  "ext \<Rightarrow> string \<Rightarrow> string option \<Rightarrow> string option \<Rightarrow> string option \<Rightarrow> string option \<Rightarrow> string option \<Rightarrow>
     string option \<Rightarrow> string option option \<Rightarrow> u32 option \<Rightarrow> u32 option \<Rightarrow> unit M" where
  "update_koi x i name role icon color system_prompt description llm_provider_id max_iterations
     task_timeout_secs =
     bindM (case name of
              None \<Rightarrow> ret None
            | Some n \<Rightarrow> bindM (lift_result (normalize_koi_name n)) (\<lambda>n. ret (Some n))) (\<lambda>name.
     bindM (utc_now x) (\<lambda>now.
     bindM (execute (\<lambda>d. Inr (count_rows (\<lambda>r. kd_id r = i) (tb_kois d),
       update_kois (\<lambda>r. kd_id r = i)
         (\<lambda>r. r\<lparr>kd_name := coalesce name (kd_name r),
               kd_role := coalesce role (kd_role r),
               kd_icon := coalesce icon (kd_icon r),
               kd_color := coalesce color (kd_color r),
               kd_system_prompt := coalesce system_prompt (kd_system_prompt r),
               kd_description := coalesce description (kd_description r),
               kd_llm_provider_id :=
                 (case llm_provider_id of None \<Rightarrow> kd_llm_provider_id r | Some p \<Rightarrow> p),
               kd_max_iterations := coalesce max_iterations (kd_max_iterations r),
               kd_task_timeout_secs := coalesce task_timeout_secs (kd_task_timeout_secs r),
               kd_updated_at := to_rfc3339 now\<rparr>) d))) (\<lambda>_.
     ret ())))"

definition update_koi_status :: "ext \<Rightarrow> string \<Rightarrow> string \<Rightarrow> unit M" where
  "update_koi_status x i status =
     bindM (utc_now x) (\<lambda>now.
     bindM (execute (\<lambda>d. Inr (count_rows (\<lambda>r. kd_id r = i) (tb_kois d),
       update_kois (\<lambda>r. kd_id r = i)
         (\<lambda>r. r\<lparr>kd_status := status, kd_updated_at := to_rfc3339 now\<rparr>) d))) (\<lambda>_.
     ret ()))"

text \<open>
  \<^verbatim>\<open>delete_koi\<close>: three statements; the cascade of the first already removes the Koi's todos.
\<close>

definition delete_koi :: "string \<Rightarrow> unit M" where
  "delete_koi i =
     bindM (execute (\<lambda>d. Inr (count_rows (\<lambda>r. kd_id r = i) (tb_kois d), delete_koi_row i d))) (\<lambda>_.
     bindM (execute (\<lambda>d. Inr (count_rows (\<lambda>r. td_owner_id r = i) (tb_koi_todos d),
       delete_todos (\<lambda>r. td_owner_id r = i) d))) (\<lambda>_.
     bindM (execute (\<lambda>d. Inr (count_rows (\<lambda>m. snd m = i) (tb_memories d),
       d\<lparr>tb_memories := filter (\<lambda>m. snd m \<noteq> i) (tb_memories d)\<rparr>))) (\<lambda>_.
     ret ())))"

fun dedup_loop :: "KoiDefinition list \<Rightarrow> string list \<Rightarrow> nat \<Rightarrow> nat M" where
  "dedup_loop [] seen removed = ret removed"
| "dedup_loop (koi # rest) seen removed =
     (if kd_name koi \<in> set seen
      then bindM (delete_koi (kd_id koi)) (\<lambda>_. dedup_loop rest seen (Suc removed))
      else dedup_loop rest (kd_name koi # seen) removed)"

definition dedup_kois :: "ext \<Rightarrow> nat M" where
  "dedup_kois x = bindM (list_kois x) (\<lambda>all. dedup_loop all [] 0)"

definition recover_stale_koi_status :: "ext \<Rightarrow> nat M" where
  "recover_stale_koi_status x =
     bindM (utc_now x) (\<lambda>now.
     execute (\<lambda>d. Inr (count_rows (\<lambda>r. kd_status r = ''busy'') (tb_kois d),
       update_kois (\<lambda>r. kd_status r = ''busy'')
         (\<lambda>r. r\<lparr>kd_status := ''idle'', kd_updated_at := sql_datetime_now now\<rparr>) d)))"

definition stale_before :: "DateTime \<Rightarrow> int \<Rightarrow> stamp \<Rightarrow> bool" where
  "stale_before now max_age s =
     (max_age \<le> 0 \<or>
      (case sql_datetime_now_minus now max_age of None \<Rightarrow> False | Some cutoff \<Rightarrow> s < cutoff))"

definition recover_stale_busy_kois :: "ext \<Rightarrow> int \<Rightarrow> nat M" where
  "recover_stale_busy_kois x max_age_secs =
     bindM (utc_now x) (\<lambda>now.
     execute (\<lambda>d.
       let P = (\<lambda>r. kd_status r = ''busy'' \<and> stale_before now max_age_secs (kd_updated_at r))
       in Inr (count_rows P (tb_kois d),
            update_kois P
              (\<lambda>r. r\<lparr>kd_status := ''idle'', kd_updated_at := sql_datetime_now now\<rparr>) d)))"

section \<open>The operations keep the integrity\<close>

lemma wf_delete_koi_row:
  assumes wf: "wf_db d"
  shows "wf_db (delete_koi_row k d)"
proof (cases "koi_exists d k")
  case False
  then have "delete_koi_row k d = delete_todos (\<lambda>r. False) d"
    by (auto simp: delete_koi_row_def Let_def koi_exists_def update_rows_def delete_todos_def
        filter_id_conv intro!: db.equality)
  with wf show ?thesis by (simp add: wf_delete_todos)
next
  case True
  let ?d1 = "delete_todos (\<lambda>r. td_owner_id r = k) d"
  let ?d = "delete_koi_row k d"
  have sel: "tb_koi_todos ?d = update_rows (\<lambda>r. td_claimed_by r = Some k)
      (\<lambda>r. r\<lparr>td_claimed_by := None\<rparr>) (tb_koi_todos ?d1)"
    "tb_kois ?d = filter (\<lambda>r. kd_id r \<noteq> k) (tb_kois d)"
    "tb_pool_members ?d = filter (\<lambda>m. mb_koi_id m \<noteq> k) (tb_pool_members d)"
    "tb_pool_sessions ?d = tb_pool_sessions d"
    "tb_pool_messages ?d = tb_pool_messages ?d1"
    "tb_message_seq ?d = tb_message_seq ?d1"
    using True by (simp_all add: delete_koi_row_def Let_def)
  have ids: "map td_id (tb_koi_todos ?d) = map td_id (tb_koi_todos ?d1)"
    unfolding sel by (rule map_key_update_rows) simp
  have wf1: "wf_db ?d1" using wf by (rule wf_delete_todos)
  have koi: "koi_exists ?d j" if "koi_exists d j" "j \<noteq> k" for j
    using that by (auto simp: koi_exists_def sel)
  have koi1: "koi_exists ?d1 = koi_exists d" by (simp add: koi_exists_def [abs_def])
  have e: "pool_exists ?d = pool_exists ?d1" "todo_exists ?d = todo_exists ?d1"
    "message_exists ?d = message_exists ?d1"
    unfolding pool_exists_def [abs_def] todo_exists_def [abs_def] message_exists_def [abs_def] ids
    by (simp_all add: sel)
  have "todo_refs ?d r" if "r \<in> set (tb_koi_todos ?d)" for r
  proof -
    from that obtain r0 where r0: "r0 \<in> set (tb_koi_todos ?d1)"
      and r: "r = (if td_claimed_by r0 = Some k then r0\<lparr>td_claimed_by := None\<rparr> else r0)"
      unfolding sel set_update_rows by blast
    from r0 have "td_owner_id r0 \<noteq> k" by simp
    moreover from wf1 r0 have "todo_refs ?d1 r0" by (simp add: wf_db_def list_all_iff)
    ultimately show ?thesis
      unfolding r todo_refs_def e koi1 by (cases "td_claimed_by r0") (auto intro: koi)
  qed
  moreover have "message_refs ?d = message_refs ?d1" by (simp add: message_refs_def [abs_def] e)
  moreover have "member_refs ?d m" if "m \<in> set (tb_pool_members ?d)" for m
    using that wf koi by (auto simp: wf_db_def list_all_iff member_refs_def e sel pool_exists_def)
  ultimately show ?thesis
    using wf wf1 unfolding wf_db_def list_all_iff ids
    by (simp add: sel distinct_map_filter)
qed

lemma wf_execute_insert [effect_intros]:
  "effects keeps_wf (execute (insert_todo t))"
  "effects keeps_wf (execute (insert_koi k))"
  "effects keeps_wf (execute (insert_or_ignore_koi k))"
  "effects keeps_wf (execute (insert_pool p))"
  "effects keeps_wf (execute (insert_message m))"
  "effects keeps_wf (execute (insert_or_ignore_member b))"
  unfolding effects_execute_iff keeps_wf_def
  by (auto split: sum.split intro: wf_insert_todo wf_insert_koi wf_insert_or_ignore_koi
      wf_insert_pool wf_insert_message wf_insert_or_ignore_member)

lemma wf_execute_Inr:
  "(\<And>d. wf_db d \<Longrightarrow> wf_db (f d)) \<Longrightarrow> effects keeps_wf (execute (\<lambda>d. Inr (n d, f d)))"
  unfolding effects_execute_iff keeps_wf_def by simp

lemma wf_create_koi [effect_intros]: "effects keeps_wf (create_koi x a b c e f g h i j)"
  unfolding create_koi_def by (intro effect_intros)

lemma wf_upsert_koi_with_id [effect_intros]: "effects keeps_wf (upsert_koi_with_id x i n)"
  unfolding upsert_koi_with_id_def by (intro effect_intros)

lemma wf_koi_queries [effect_intros]:
  "effects keeps_wf (list_kois x)" "effects keeps_wf (get_koi x i)"
  "effects keeps_wf (find_koi_by_name x n)" "effects keeps_wf (resolve_koi_identifier x v)"
  unfolding list_kois_def get_koi_def find_koi_by_name_def resolve_koi_identifier_def
  by (intro effect_intros)+

lemma wf_update_koi [effect_intros]: "effects keeps_wf (update_koi x i a b c e f g h j k)"
  unfolding update_koi_def
  by (intro effect_intros wf_execute_Inr wf_update_kois) simp_all

lemma wf_update_koi_status [effect_intros]: "effects keeps_wf (update_koi_status x i s)"
  unfolding update_koi_status_def
  by (intro effect_intros wf_execute_Inr wf_update_kois) simp_all

lemma wf_memories: "wf_db d \<Longrightarrow> wf_db (d\<lparr>tb_memories := ms\<rparr>)"
proof -
  have "todo_refs (d\<lparr>tb_memories := ms\<rparr>) = todo_refs d"
    "message_refs (d\<lparr>tb_memories := ms\<rparr>) = message_refs d"
    "member_refs (d\<lparr>tb_memories := ms\<rparr>) = member_refs d"
    by (rule refs_cong; simp)+
  then show "wf_db d \<Longrightarrow> wf_db (d\<lparr>tb_memories := ms\<rparr>)" by (simp add: wf_db_def)
qed

lemma wf_delete_koi [effect_intros]: "effects keeps_wf (delete_koi i)"
  unfolding delete_koi_def
  by (intro effect_intros wf_execute_Inr wf_delete_koi_row wf_delete_todos wf_memories)

lemma wf_dedup_loop [effect_intros]: "effects keeps_wf (dedup_loop ks seen n)"
  by (induction ks seen n rule: dedup_loop.induct) (auto intro!: effect_intros)

lemma wf_dedup_kois [effect_intros]: "effects keeps_wf (dedup_kois x)"
  unfolding dedup_kois_def by (intro effect_intros)

lemma wf_recover_kois [effect_intros]:
  "effects keeps_wf (recover_stale_koi_status x)"
  "effects keeps_wf (recover_stale_busy_kois x n)"
  unfolding recover_stale_koi_status_def recover_stale_busy_kois_def Let_def
  by (intro effect_intros wf_execute_Inr wf_update_kois; simp)+

end
