(* ===== verification/Store_Todo.thy ===== *)
theory Store_Todo
  imports Store_Koi
begin

text \<open>
  The \<^verbatim>\<open>koi_todos\<close> table, the project board: the todo operations of \<^verbatim>\<open>Database\<close> in
  \<^verbatim>\<open>piscis-kernel/src/store/db.rs\<close>. Every operation is one statement, so what it does to a todo is
  a function on the row; \<open>todo_at\<close> is the row of an identifier, and the lemmas of the last
  section say what each statement does to it and that all of them keep the integrity.
\<close>

section \<open>Rows\<close>

definition map_koi_todo :: "DateTime \<Rightarrow> todo_row \<Rightarrow> KoiTodo" where
  "map_koi_todo now r = \<lparr>
     td_id = td_id r, td_owner_id = td_owner_id r, td_title = td_title r,
     td_description = td_description r, td_status = td_status r, td_priority = td_priority r,
     td_assigned_by = td_assigned_by r, td_pool_session_id = td_pool_session_id r,
     td_claimed_by = td_claimed_by r,
     td_claimed_at = Option.bind (td_claimed_at r) parse_datetime,
     td_depends_on = td_depends_on r, td_blocked_reason = td_blocked_reason r,
     td_git_branch = td_git_branch r, td_integration_status = td_integration_status r,
     td_result_message_id = td_result_message_id r, td_source_type = td_source_type r,
     td_task_timeout_secs = td_task_timeout_secs r,
     td_created_at = read_time now (td_created_at r),
     td_updated_at = read_time now (td_updated_at r) \<rparr>"

lemma map_koi_todo_sel [simp]:
  "td_id (map_koi_todo now r) = td_id r"
  "td_owner_id (map_koi_todo now r) = td_owner_id r"
  "td_title (map_koi_todo now r) = td_title r"
  "td_status (map_koi_todo now r) = td_status r"
  "td_pool_session_id (map_koi_todo now r) = td_pool_session_id r"
  "td_claimed_by (map_koi_todo now r) = td_claimed_by r"
  "td_depends_on (map_koi_todo now r) = td_depends_on r"
  "td_git_branch (map_koi_todo now r) = td_git_branch r"
  "td_integration_status (map_koi_todo now r) = td_integration_status r"
  "td_task_timeout_secs (map_koi_todo now r) = td_task_timeout_secs r"
  by (simp_all add: map_koi_todo_def)

definition todo_at :: "db \<Rightarrow> string \<Rightarrow> todo_row option" where
  "todo_at d i = find_row td_id i (tb_koi_todos d)"

text \<open>The row that both \<^verbatim>\<open>INSERT INTO koi_todos\<close> statements write; the other columns take their defaults.\<close>

definition new_todo_row ::
  "string \<Rightarrow> string \<Rightarrow> string \<Rightarrow> string \<Rightarrow> string \<Rightarrow> string \<Rightarrow> string option \<Rightarrow> string \<Rightarrow>
     string option \<Rightarrow> u32 \<Rightarrow> DateTime \<Rightarrow> todo_row" where
  "new_todo_row i owner_id title description priority assigned_by pool_session_id source_type
     depends_on task_timeout_secs now = \<lparr>
     td_id = i, td_owner_id = owner_id, td_title = title, td_description = description,
     td_status = ''todo'', td_priority = priority, td_assigned_by = assigned_by,
     td_pool_session_id = pool_session_id, td_claimed_by = None, td_claimed_at = None,
     td_depends_on = depends_on, td_blocked_reason = None, td_git_branch = None,
     td_integration_status = Some ''none'', td_result_message_id = None,
     td_source_type = source_type, td_task_timeout_secs = task_timeout_secs,
     td_created_at = to_rfc3339 now, td_updated_at = to_rfc3339 now \<rparr>"

section \<open>Creating and reading\<close>

definition create_koi_todo ::
  "ext \<Rightarrow> string \<Rightarrow> string \<Rightarrow> string \<Rightarrow> string \<Rightarrow> string \<Rightarrow> string option \<Rightarrow> string \<Rightarrow>
     string option \<Rightarrow> u32 \<Rightarrow> KoiTodo M" where
  "create_koi_todo x owner_id title description priority assigned_by pool_session_id source_type
     depends_on task_timeout_secs =
     bindM (uuid_new_v4 x) (\<lambda>i.
     bindM (utc_now x) (\<lambda>now.
     bindM (execute (insert_todo (new_todo_row i owner_id title description priority assigned_by
       pool_session_id source_type depends_on task_timeout_secs now))) (\<lambda>_.
     ret \<lparr>
       td_id = i, td_owner_id = owner_id, td_title = title, td_description = description,
       td_status = ''todo'', td_priority = priority, td_assigned_by = assigned_by,
       td_pool_session_id = pool_session_id, td_claimed_by = None, td_claimed_at = None,
       td_depends_on = depends_on, td_blocked_reason = None, td_git_branch = None,
       td_integration_status = Some ''none'', td_result_message_id = None,
       td_source_type = source_type, td_task_timeout_secs = task_timeout_secs,
       td_created_at = now, td_updated_at = now \<rparr>)))"

text \<open>\<^verbatim>\<open>ORDER BY created_at DESC\<close>.\<close>

definition sel_todos :: "DateTime \<Rightarrow> string option \<Rightarrow> db \<Rightarrow> KoiTodo list" where
  "sel_todos now owner_id d =
     map (map_koi_todo now)
       (order_desc td_created_at
         (case owner_id of None \<Rightarrow> tb_koi_todos d
          | Some oid \<Rightarrow> filter (\<lambda>r. td_owner_id r = oid) (tb_koi_todos d)))"

definition list_koi_todos :: "ext \<Rightarrow> string option \<Rightarrow> KoiTodo list M" where
  "list_koi_todos x owner_id = bindM (utc_now x) (\<lambda>now. query (sel_todos now owner_id))"

definition sel_todo :: "DateTime \<Rightarrow> string \<Rightarrow> db \<Rightarrow> KoiTodo option" where
  "sel_todo now i d = map_option (map_koi_todo now) (todo_at d i)"

definition get_koi_todo :: "ext \<Rightarrow> string \<Rightarrow> KoiTodo option M" where
  "get_koi_todo x i = bindM (utc_now x) (\<lambda>now. query (sel_todo now i))"

definition list_active_todos_by_pool :: "ext \<Rightarrow> string \<Rightarrow> KoiTodo list M" where
  "list_active_todos_by_pool x pool_session_id =
     bindM (utc_now x) (\<lambda>now.
     query (\<lambda>d. map (map_koi_todo now)
       (order_desc td_created_at
         (filter (\<lambda>r. td_pool_session_id r = Some pool_session_id \<and>
                      td_status r \<in> set [''todo'', ''in_progress'', ''blocked''])
           (tb_koi_todos d)))))"

section \<open>Updates\<close>

text \<open>\<^verbatim>\<open>UPDATE koi_todos SET f WHERE id = i\<close>, for columns without foreign keys.\<close>

definition set_todo :: "string \<Rightarrow> (todo_row \<Rightarrow> todo_row) \<Rightarrow> db \<Rightarrow> error + nat \<times> db" where
  "set_todo i f d =
     Inr (count_rows (\<lambda>r. td_id r = i) (tb_koi_todos d), update_todos (\<lambda>r. td_id r = i) f d)"

definition set_koi_todo_git_branch :: "ext \<Rightarrow> string \<Rightarrow> string \<Rightarrow> unit M" where
  "set_koi_todo_git_branch x i branch =
     bindM (utc_now x) (\<lambda>now.
     bindM (execute (set_todo i (\<lambda>r. r\<lparr>
       td_git_branch := Some branch,
       td_integration_status :=
         (if td_integration_status r \<in> set [Some ''merged'', Some ''conflict'']
          then td_integration_status r else Some ''none''),
       td_updated_at := to_rfc3339 now\<rparr>))) (\<lambda>_. ret ()))"

definition set_koi_todo_integration_status :: "ext \<Rightarrow> string \<Rightarrow> string \<Rightarrow> unit M" where
  "set_koi_todo_integration_status x i status =
     bindM (utc_now x) (\<lambda>now.
     bindM (execute (set_todo i (\<lambda>r. r\<lparr>
       td_integration_status := Some status, td_updated_at := to_rfc3339 now\<rparr>))) (\<lambda>_. ret ()))"

definition set_koi_todo_integration_status_by_branch ::
  "ext \<Rightarrow> string \<Rightarrow> string \<Rightarrow> string \<Rightarrow> nat M" where
  "set_koi_todo_integration_status_by_branch x pool_session_id branch status =
     bindM (utc_now x) (\<lambda>now.
     execute (\<lambda>d.
       let P = (\<lambda>r. td_pool_session_id r = Some pool_session_id \<and> td_git_branch r = Some branch)
       in Inr (count_rows P (tb_koi_todos d),
            update_todos P
              (\<lambda>r. r\<lparr>td_integration_status := Some status, td_updated_at := to_rfc3339 now\<rparr>) d)))"

definition update_koi_todo ::
  "ext \<Rightarrow> string \<Rightarrow> string option \<Rightarrow> string option \<Rightarrow> string option \<Rightarrow> string option \<Rightarrow> unit M" where
  "update_koi_todo x i title description status priority =
     bindM (utc_now x) (\<lambda>now.
     bindM (execute (set_todo i (\<lambda>r. r\<lparr>
       td_title := coalesce title (td_title r),
       td_description := coalesce description (td_description r),
       td_status := coalesce status (td_status r),
       td_blocked_reason :=
         (if coalesce status (td_status r) \<in> set [''blocked'', ''needs_review'']
          then td_blocked_reason r else None),
       td_priority := coalesce priority (td_priority r),
       td_updated_at := to_rfc3339 now\<rparr>))) (\<lambda>_. ret ()))"

definition claim_row :: "DateTime \<Rightarrow> string \<Rightarrow> todo_row \<Rightarrow> todo_row" where
  "claim_row now claimed_by r = r\<lparr>
     td_claimed_by := Some claimed_by, td_claimed_at := Some (to_rfc3339 now),
     td_status := ''in_progress'', td_blocked_reason := None,
     td_updated_at := to_rfc3339 now\<rparr>"

text \<open>
  An \<^verbatim>\<open>UPDATE\<close> that sets \<^verbatim>\<open>claimed_by\<close>: it fails when it touches a row and the claimant is no Koi.
\<close>

definition claim_where :: "(todo_row \<Rightarrow> bool) \<Rightarrow> DateTime \<Rightarrow> string \<Rightarrow> db \<Rightarrow> error + nat \<times> db" where
  "claim_where P now claimed_by d =
     (if list_ex P (tb_koi_todos d) \<and> \<not> koi_exists d claimed_by then Inl ForeignKeyFailed
      else Inr (count_rows P (tb_koi_todos d), update_todos P (claim_row now claimed_by) d))"

definition claim_koi_todo :: "ext \<Rightarrow> string \<Rightarrow> string \<Rightarrow> unit M" where
  "claim_koi_todo x i claimed_by =
     bindM (utc_now x) (\<lambda>now.
     bindM (execute (claim_where (\<lambda>r. td_id r = i) now claimed_by)) (\<lambda>_. ret ()))"

definition try_claim_koi_todo :: "ext \<Rightarrow> string \<Rightarrow> string \<Rightarrow> bool M" where
  "try_claim_koi_todo x i claimed_by =
     bindM (utc_now x) (\<lambda>now.
     bindM (execute (claim_where (\<lambda>r. td_id r = i \<and> td_status r \<noteq> ''in_progress'') now claimed_by))
       (\<lambda>affected. ret (affected = 1)))"

definition koi_has_other_in_progress_todo :: "string \<Rightarrow> string \<Rightarrow> bool M" where
  "koi_has_other_in_progress_todo koi_id except_todo_id =
     query (\<lambda>d. 0 < count_rows (\<lambda>r. td_owner_id r = koi_id \<and> td_status r = ''in_progress'' \<and>
                                     td_id r \<noteq> except_todo_id) (tb_koi_todos d))"

definition koi_has_in_progress_todo :: "string \<Rightarrow> bool M" where
  "koi_has_in_progress_todo koi_id =
     query (\<lambda>d. 0 < count_rows (\<lambda>r. td_owner_id r = koi_id \<and> td_status r = ''in_progress'')
                      (tb_koi_todos d))"

text \<open>The row update shared by blocking, sending to review and cancelling.\<close>

definition stop_row :: "string \<Rightarrow> string \<Rightarrow> DateTime \<Rightarrow> todo_row \<Rightarrow> todo_row" where
  "stop_row status reason now r = r\<lparr>
     td_status := status, td_blocked_reason := Some reason, td_updated_at := to_rfc3339 now\<rparr>"

definition block_koi_todo :: "ext \<Rightarrow> string \<Rightarrow> string \<Rightarrow> unit M" where
  "block_koi_todo x i reason =
     bindM (utc_now x) (\<lambda>now.
     bindM (execute (set_todo i (stop_row ''blocked'' reason now))) (\<lambda>_. ret ()))"

definition mark_koi_todo_needs_review :: "ext \<Rightarrow> string \<Rightarrow> string \<Rightarrow> unit M" where
  "mark_koi_todo_needs_review x i reason =
     bindM (utc_now x) (\<lambda>now.
     bindM (execute (set_todo i (stop_row ''needs_review'' reason now))) (\<lambda>_. ret ()))"

definition cancel_koi_todo :: "ext \<Rightarrow> string \<Rightarrow> string \<Rightarrow> unit M" where
  "cancel_koi_todo x i reason =
     bindM (utc_now x) (\<lambda>now.
     bindM (execute (set_todo i (stop_row ''cancelled'' reason now))) (\<lambda>_. ret ()))"

definition resume_koi_todo :: "ext \<Rightarrow> string \<Rightarrow> string \<Rightarrow> unit M" where
  "resume_koi_todo x i claimed_by =
     bindM (utc_now x) (\<lambda>now.
     bindM (execute (claim_where (\<lambda>r. td_id r = i) now claimed_by)) (\<lambda>_. ret ()))"

text \<open>
  \<^verbatim>\<open>replace_koi_todo\<close>: the new row and the cancellation of the original are one transaction, rolled
  back when a statement fails.
\<close>

definition replace_statements ::
  "todo_row \<Rightarrow> string \<Rightarrow> string \<Rightarrow> DateTime \<Rightarrow> db \<Rightarrow> error + nat \<times> db" where
  "replace_statements new_row original_id replacement_reason now d =
     (case insert_todo new_row d of
        Inl e \<Rightarrow> Inl e
      | Inr (_, d1) \<Rightarrow> set_todo original_id (stop_row ''cancelled'' replacement_reason now) d1)"

definition replace_koi_todo ::
  "ext \<Rightarrow> KoiTodo \<Rightarrow> string \<Rightarrow> string \<Rightarrow> string \<Rightarrow> string \<Rightarrow> string \<Rightarrow> string \<Rightarrow> u32 option \<Rightarrow>
     KoiTodo M" where
  "replace_koi_todo x original new_owner_id title description assigned_by source_type reason
     task_timeout_secs =
     bindM (uuid_new_v4 x) (\<lambda>i.
     bindM (utc_now x) (\<lambda>now.
     let replacement_reason = ''[Replaced by '' @ i @ ''] '' @ trim reason;
         timeout = coalesce task_timeout_secs (td_task_timeout_secs original)
     in bindM (execute (replace_statements
          (new_todo_row i new_owner_id title description (td_priority original) assigned_by
            (td_pool_session_id original) source_type (Some (td_id original)) timeout now)
          (td_id original) replacement_reason now)) (\<lambda>_.
        ret \<lparr>
          td_id = i, td_owner_id = new_owner_id, td_title = title, td_description = description,
          td_status = ''todo'', td_priority = td_priority original, td_assigned_by = assigned_by,
          td_pool_session_id = td_pool_session_id original, td_claimed_by = None,
          td_claimed_at = None, td_depends_on = Some (td_id original), td_blocked_reason = None,
          td_git_branch = None, td_integration_status = Some ''none'',
          td_result_message_id = None, td_source_type = source_type,
          td_task_timeout_secs = timeout, td_created_at = now, td_updated_at = now \<rparr>)))"

text \<open>SQL's \<^verbatim>\<open>TRIM\<close> removes spaces only.\<close>

definition sql_trim :: "string \<Rightarrow> string" where
  "sql_trim s = rev (dropWhile (\<lambda>c. c = CHR 0x20) (rev (dropWhile (\<lambda>c. c = CHR 0x20) s)))"

definition complete_row :: "int option \<Rightarrow> DateTime \<Rightarrow> todo_row \<Rightarrow> todo_row" where
  "complete_row result_message_id now r = r\<lparr>
     td_status := ''done'', td_blocked_reason := None,
     td_result_message_id :=
       (case result_message_id of None \<Rightarrow> td_result_message_id r | Some m \<Rightarrow> Some m),
     td_integration_status :=
       (case (td_git_branch r, td_integration_status r) of
          (Some b, Some s) \<Rightarrow>
            if sql_trim b \<noteq> [] \<and> s \<notin> set [''merged'', ''conflict''] then Some ''ready'' else Some s
        | _ \<Rightarrow> td_integration_status r),
     td_updated_at := to_rfc3339 now\<rparr>"

definition complete_koi_todo :: "ext \<Rightarrow> string \<Rightarrow> int option \<Rightarrow> unit M" where
  "complete_koi_todo x i result_message_id =
     bindM (utc_now x) (\<lambda>now.
     bindM (execute (set_todo i (complete_row result_message_id now))) (\<lambda>_. ret ()))"

definition delete_koi_todo :: "string \<Rightarrow> unit M" where
  "delete_koi_todo i =
     bindM (execute (\<lambda>d. Inr (count_rows (\<lambda>r. td_id r = i) (tb_koi_todos d),
       delete_todos (\<lambda>r. td_id r = i) d))) (\<lambda>_. ret ())"

definition delete_todos_by_pool :: "string \<Rightarrow> nat M" where
  "delete_todos_by_pool pool_session_id =
     execute (\<lambda>d. Inr (count_rows (\<lambda>r. td_pool_session_id r = Some pool_session_id) (tb_koi_todos d),
       delete_todos (\<lambda>r. td_pool_session_id r = Some pool_session_id) d))"

definition count_active_todos_for_member :: "string \<Rightarrow> string \<Rightarrow> nat M" where
  "count_active_todos_for_member pool_id koi_id =
     query (\<lambda>d. count_rows (\<lambda>r. td_pool_session_id r = Some pool_id \<and> td_owner_id r = koi_id \<and>
                                 td_status r \<notin> set [''done'', ''cancelled''])
                  (tb_koi_todos d))"

definition release_row :: "DateTime \<Rightarrow> todo_row \<Rightarrow> todo_row" where
  "release_row now r = r\<lparr>
     td_status := ''todo'', td_claimed_by := None, td_claimed_at := None,
     td_updated_at := sql_datetime_now now\<rparr>"

definition recover_stale_todos :: "ext \<Rightarrow> nat M" where
  "recover_stale_todos x =
     bindM (utc_now x) (\<lambda>now.
     execute (\<lambda>d. Inr (count_rows (\<lambda>r. td_status r = ''in_progress'') (tb_koi_todos d),
       update_todos (\<lambda>r. td_status r = ''in_progress'') (release_row now) d)))"

definition recover_stale_in_progress_todos :: "ext \<Rightarrow> int \<Rightarrow> nat M" where
  "recover_stale_in_progress_todos x max_age_secs =
     bindM (utc_now x) (\<lambda>now.
     execute (\<lambda>d.
       let P = (\<lambda>r. td_status r = ''in_progress'' \<and> stale_before now max_age_secs (td_updated_at r))
       in Inr (count_rows P (tb_koi_todos d), update_todos P (release_row now) d)))"

section \<open>What the statements do to a todo\<close>

lemmas todo_row_defs = claim_row_def stop_row_def complete_row_def release_row_def

lemma todo_row_keys [simp]:
  "td_id (claim_row now k r) = td_id r" "td_id (stop_row s m now r) = td_id r"
  "td_id (complete_row rm now r) = td_id r" "td_id (release_row now r) = td_id r"
  "td_owner_id (claim_row now k r) = td_owner_id r" "td_owner_id (stop_row s m now r) = td_owner_id r"
  "td_owner_id (complete_row rm now r) = td_owner_id r" "td_owner_id (release_row now r) = td_owner_id r"
  "td_pool_session_id (claim_row now k r) = td_pool_session_id r"
  "td_pool_session_id (stop_row s m now r) = td_pool_session_id r"
  "td_pool_session_id (complete_row rm now r) = td_pool_session_id r"
  "td_pool_session_id (release_row now r) = td_pool_session_id r"
  by (simp_all add: todo_row_defs)

lemma todo_row_status [simp]:
  "td_status (claim_row now k r) = ''in_progress''" "td_status (stop_row s m now r) = s"
  "td_status (complete_row rm now r) = ''done''" "td_status (release_row now r) = ''todo''"
  "td_claimed_by (claim_row now k r) = Some k" "td_claimed_by (stop_row s m now r) = td_claimed_by r"
  "td_claimed_by (complete_row rm now r) = td_claimed_by r" "td_claimed_by (release_row now r) = None"
  by (simp_all add: todo_row_defs)

lemma new_todo_row_sel [simp]:
  "td_id (new_todo_row i ow t de pr ab ps st dep tt now) = i"
  "td_owner_id (new_todo_row i ow t de pr ab ps st dep tt now) = ow"
  "td_status (new_todo_row i ow t de pr ab ps st dep tt now) = ''todo''"
  "td_claimed_by (new_todo_row i ow t de pr ab ps st dep tt now) = None"
  "td_pool_session_id (new_todo_row i ow t de pr ab ps st dep tt now) = ps"
  "td_depends_on (new_todo_row i ow t de pr ab ps st dep tt now) = dep"
  by (simp_all add: new_todo_row_def)

lemma todo_at_update_todos:
  "(\<And>r. td_id (f r) = td_id r) \<Longrightarrow>
     todo_at (update_todos P f d) i = map_option (\<lambda>r. if P r then f r else r) (todo_at d i)"
  by (simp add: todo_at_def find_row_update_rows)

lemma todo_at_id: "todo_at d i = Some r \<Longrightarrow> td_id r = i"
  by (auto simp: todo_at_def dest: find_row_Some)

lemma todo_at_mem: "todo_at d i = Some r \<Longrightarrow> r \<in> set (tb_koi_todos d)"
  by (auto simp: todo_at_def dest: find_row_Some)

lemma todo_at_None_iff: "todo_at d i = None \<longleftrightarrow> \<not> todo_exists d i"
  by (simp add: todo_at_def find_row_None_iff todo_exists_def)

lemma todo_at_set_todo:
  assumes "set_todo i f d = Inr (n, d')" and "\<And>r. td_id (f r) = td_id r"
  shows "todo_at d' j = (if j = i then map_option f (todo_at d i) else todo_at d j)"
  using assms
  by (cases "todo_at d j")
    (auto simp: set_todo_def todo_at_update_todos dest: todo_at_id)

lemma todo_at_insert_todo:
  assumes "insert_todo r d = Inr (n, d')"
  shows "todo_at d' j = (if j = td_id r then Some r else todo_at d j)"
proof -
  have "find_row td_id (td_id r) (tb_koi_todos d) = None"
    and "d' = d\<lparr>tb_koi_todos := tb_koi_todos d @ [r]\<rparr>"
    using assms by (auto simp: insert_todo_def find_row_None_iff todo_exists_def split: if_splits)
  then show ?thesis
    by (auto simp: todo_at_def find_row_append find_row_Cons split: option.split)
qed

lemma todo_at_not_todos [simp]:
  "todo_at (update_kois P' f' d) i = todo_at d i"
  "todo_at (update_pools P'' f'' d) i = todo_at d i"
  "todo_at (update_messages P''' f''' d) i = todo_at d i"
  by (simp_all add: todo_at_def)

lemma todo_at_insert_message:
  "insert_message m d = Inr (n, d') \<Longrightarrow> todo_at d' i = todo_at d i"
  by (auto simp: insert_message_def todo_at_def split: if_splits)

section \<open>The operations keep the integrity\<close>

lemma wf_set_todo [effect_intros]:
  assumes "\<And>r. td_id (f r) = td_id r" "\<And>r. td_owner_id (f r) = td_owner_id r"
    "\<And>r. td_pool_session_id (f r) = td_pool_session_id r"
    "\<And>r. td_claimed_by (f r) \<in> {td_claimed_by r, None}"
  shows "effects keeps_wf (execute (set_todo i f))"
proof -
  have "opt_exists P (td_claimed_by r) \<Longrightarrow> opt_exists P (td_claimed_by (f r))" for P r
    using assms(4) [of r] by (auto simp: opt_exists_def)
  with assms(1-3) show ?thesis
    unfolding set_todo_def by (intro wf_execute_Inr wf_update_todos) (auto simp: todo_refs_def)
qed

lemma wf_claim_where [effect_intros]: "effects keeps_wf (execute (claim_where P now k))"
  unfolding effects_execute_iff keeps_wf_def claim_where_def
  by (auto simp: list_ex_iff todo_refs_def intro!: wf_update_todos)

lemma wf_replace_statements [effect_intros]:
  "effects keeps_wf (execute (replace_statements r i m now))"
  unfolding effects_execute_iff keeps_wf_def replace_statements_def set_todo_def
  by (auto split: sum.split prod.split simp: todo_refs_def intro!: wf_update_todos
      dest: wf_insert_todo)

lemma wf_todo_queries [effect_intros]:
  "effects keeps_wf (list_koi_todos x o')" "effects keeps_wf (get_koi_todo x i)"
  "effects keeps_wf (list_active_todos_by_pool x p)"
  "effects keeps_wf (koi_has_other_in_progress_todo k i)"
  "effects keeps_wf (koi_has_in_progress_todo k)"
  "effects keeps_wf (count_active_todos_for_member p k)"
  unfolding list_koi_todos_def get_koi_todo_def list_active_todos_by_pool_def
    koi_has_other_in_progress_todo_def koi_has_in_progress_todo_def
    count_active_todos_for_member_def
  by (intro effect_intros)+

lemma wf_create_koi_todo [effect_intros]:
  "effects keeps_wf (create_koi_todo x a b c e f g h i j)"
  unfolding create_koi_todo_def by (intro effect_intros)

lemma wf_todo_updates [effect_intros]:
  "effects keeps_wf (set_koi_todo_git_branch x i b)"
  "effects keeps_wf (set_koi_todo_integration_status x i s)"
  "effects keeps_wf (update_koi_todo x i t de st pr)"
  "effects keeps_wf (block_koi_todo x i m)"
  "effects keeps_wf (mark_koi_todo_needs_review x i m)"
  "effects keeps_wf (cancel_koi_todo x i m)"
  "effects keeps_wf (complete_koi_todo x i rm)"
  unfolding set_koi_todo_git_branch_def set_koi_todo_integration_status_def update_koi_todo_def
    block_koi_todo_def mark_koi_todo_needs_review_def cancel_koi_todo_def complete_koi_todo_def
  by (intro effect_intros; simp add: todo_row_defs)+

lemma wf_todo_claims [effect_intros]:
  "effects keeps_wf (claim_koi_todo x i k)"
  "effects keeps_wf (try_claim_koi_todo x i k)"
  "effects keeps_wf (resume_koi_todo x i k)"
  unfolding claim_koi_todo_def try_claim_koi_todo_def resume_koi_todo_def
  by (intro effect_intros)+

lemma wf_replace_koi_todo [effect_intros]:
  "effects keeps_wf (replace_koi_todo x ori a b c e f g h)"
  unfolding replace_koi_todo_def Let_def by (intro effect_intros)

lemma wf_todo_deletes [effect_intros]:
  "effects keeps_wf (delete_koi_todo i)" "effects keeps_wf (delete_todos_by_pool p)"
  unfolding delete_koi_todo_def delete_todos_by_pool_def
  by (intro effect_intros wf_execute_Inr wf_delete_todos; assumption)+

lemma wf_todo_recovery [effect_intros]:
  "effects keeps_wf (set_koi_todo_integration_status_by_branch x p b s)"
  "effects keeps_wf (recover_stale_todos x)"
  "effects keeps_wf (recover_stale_in_progress_todos x n)"
  unfolding set_koi_todo_integration_status_by_branch_def recover_stale_todos_def
    recover_stale_in_progress_todos_def Let_def
  by (intro effect_intros wf_execute_Inr wf_update_todos; simp add: todo_refs_def release_row_def)+

end
