(* ===== verification/Store_Pool.thy ===== *)
theory Store_Pool
  imports Store_Todo
begin

text \<open>
  The tables \<^verbatim>\<open>pool_sessions\<close>, \<^verbatim>\<open>pool_members\<close> and \<^verbatim>\<open>pool_messages\<close>: the pool operations of
  \<^verbatim>\<open>Database\<close> in \<^verbatim>\<open>piscis-kernel/src/store/db.rs\<close>. A row of \<^verbatim>\<open>pool_sessions\<close> has no member list; the
  field of the record is filled by \<open>hydrate_members\<close> when a pool is read.
\<close>

section \<open>Members\<close>

text \<open>\<^verbatim>\<open>ORDER BY joined_at ASC\<close>.\<close>

definition member_rows :: "string \<Rightarrow> db \<Rightarrow> member_row list" where
  "member_rows pool_id d =
     sort_key mb_joined_at (filter (\<lambda>m. mb_pool_session_id m = pool_id) (tb_pool_members d))"

definition sel_pool_member_ids :: "string \<Rightarrow> db \<Rightarrow> string list" where
  "sel_pool_member_ids pool_id d = map mb_koi_id (member_rows pool_id d)"

definition list_pool_member_ids :: "string \<Rightarrow> string list M" where
  "list_pool_member_ids pool_id = query (sel_pool_member_ids pool_id)"

definition list_pool_members :: "ext \<Rightarrow> string \<Rightarrow> KoiDefinition list M" where
  "list_pool_members x pool_id =
     bindM (utc_now x) (\<lambda>now.
     query (\<lambda>d. map (map_koi now)
       (List.map_filter (\<lambda>m. find_row kd_id (mb_koi_id m) (tb_kois d)) (member_rows pool_id d))))"

definition is_pool_member :: "string \<Rightarrow> string \<Rightarrow> bool M" where
  "is_pool_member pool_id koi_id =
     query (\<lambda>d. 0 < count_rows (\<lambda>m. mb_pool_session_id m = pool_id \<and> mb_koi_id m = koi_id)
                      (tb_pool_members d))"

definition add_pool_member :: "ext \<Rightarrow> string \<Rightarrow> string \<Rightarrow> unit M" where
  "add_pool_member x pool_id koi_id =
     bindM (utc_now x) (\<lambda>now.
     bindM (execute (insert_or_ignore_member \<lparr>
       mb_pool_session_id = pool_id, mb_koi_id = koi_id, mb_joined_at = to_rfc3339 now \<rparr>)) (\<lambda>_.
     ret ()))"

definition delete_member :: "string \<Rightarrow> string \<Rightarrow> db \<Rightarrow> db" where
  "delete_member pool_id koi_id d =
     d\<lparr>tb_pool_members :=
         filter (\<lambda>m. \<not> (mb_pool_session_id m = pool_id \<and> mb_koi_id m = koi_id)) (tb_pool_members d)\<rparr>"

definition remove_pool_member :: "string \<Rightarrow> string \<Rightarrow> unit M" where
  "remove_pool_member pool_id koi_id =
     bindM (execute (\<lambda>d. Inr
       (count_rows (\<lambda>m. mb_pool_session_id m = pool_id \<and> mb_koi_id m = koi_id) (tb_pool_members d),
        delete_member pool_id koi_id d))) (\<lambda>_. ret ())"

section \<open>Pools\<close>

definition nonblank :: "string option \<Rightarrow> string option" where
  "nonblank os = (case os of None \<Rightarrow> None | Some s \<Rightarrow> if trim s = [] then None else Some s)"

definition create_pool_session_with_meta ::
  "ext \<Rightarrow> string \<Rightarrow> string option \<Rightarrow> u32 \<Rightarrow> string option \<Rightarrow> string option \<Rightarrow> PoolSession M" where
  "create_pool_session_with_meta x name project_dir task_timeout_secs team_id workflow_run_id =
     bindM (uuid_new_v4 x) (\<lambda>i.
     bindM (utc_now x) (\<lambda>now.
     bindM (execute (insert_pool \<lparr>
       ps_id = i, ps_name = name, ps_org_spec = [], ps_status = ''active'',
       ps_project_dir = project_dir, ps_task_timeout_secs = task_timeout_secs,
       ps_origin_im_binding_key = None, ps_member_koi_ids = [],
       ps_team_id = nonblank team_id, ps_workflow_run_id = nonblank workflow_run_id,
       ps_last_active_at = Some (to_rfc3339 now),
       ps_created_at = to_rfc3339 now, ps_updated_at = to_rfc3339 now \<rparr>)) (\<lambda>_.
     ret \<lparr>
       ps_id = i, ps_name = name, ps_org_spec = [], ps_status = ''active'',
       ps_project_dir = project_dir, ps_task_timeout_secs = task_timeout_secs,
       ps_origin_im_binding_key = None, ps_member_koi_ids = [],
       ps_team_id = nonblank team_id, ps_workflow_run_id = nonblank workflow_run_id,
       ps_last_active_at = Some now, ps_created_at = now, ps_updated_at = now \<rparr>)))"

definition create_pool_session_with_dir ::
  "ext \<Rightarrow> string \<Rightarrow> string option \<Rightarrow> u32 \<Rightarrow> PoolSession M" where
  "create_pool_session_with_dir x name project_dir task_timeout_secs =
     create_pool_session_with_meta x name project_dir task_timeout_secs None None"

definition create_pool_session :: "ext \<Rightarrow> string \<Rightarrow> u32 \<Rightarrow> PoolSession M" where
  "create_pool_session x name task_timeout_secs =
     create_pool_session_with_dir x name None task_timeout_secs"

definition map_pool_session :: "DateTime \<Rightarrow> pool_row \<Rightarrow> PoolSession" where
  "map_pool_session now r = \<lparr>
     ps_id = ps_id r, ps_name = ps_name r, ps_org_spec = ps_org_spec r, ps_status = ps_status r,
     ps_project_dir = ps_project_dir r, ps_task_timeout_secs = ps_task_timeout_secs r,
     ps_origin_im_binding_key = ps_origin_im_binding_key r, ps_member_koi_ids = [],
     ps_team_id = ps_team_id r, ps_workflow_run_id = ps_workflow_run_id r,
     ps_last_active_at = Option.bind (ps_last_active_at r) parse_datetime,
     ps_created_at = read_time now (ps_created_at r),
     ps_updated_at = read_time now (ps_updated_at r) \<rparr>"

definition hydrate_members :: "db \<Rightarrow> PoolSession \<Rightarrow> PoolSession" where
  "hydrate_members d session =
     session\<lparr>ps_member_koi_ids := sel_pool_member_ids (ps_id session) d\<rparr>"

definition read_pool :: "DateTime \<Rightarrow> db \<Rightarrow> pool_row \<Rightarrow> PoolSession" where
  "read_pool now d r = hydrate_members d (map_pool_session now r)"

lemma read_pool_sel [simp]:
  "ps_id (read_pool now d r) = ps_id r" "ps_name (read_pool now d r) = ps_name r"
  "ps_status (read_pool now d r) = ps_status r"
  "ps_project_dir (read_pool now d r) = ps_project_dir r"
  "ps_task_timeout_secs (read_pool now d r) = ps_task_timeout_secs r"
  "ps_member_koi_ids (read_pool now d r) = sel_pool_member_ids (ps_id r) d"
  by (simp_all add: read_pool_def hydrate_members_def map_pool_session_def)

definition pool_at :: "db \<Rightarrow> string \<Rightarrow> pool_row option" where
  "pool_at d i = find_row ps_id i (tb_pool_sessions d)"

text \<open>\<^verbatim>\<open>ORDER BY updated_at DESC\<close>.\<close>

definition sel_pools :: "DateTime \<Rightarrow> db \<Rightarrow> PoolSession list" where
  "sel_pools now d = map (read_pool now d) (order_desc ps_updated_at (tb_pool_sessions d))"

definition list_pool_sessions :: "ext \<Rightarrow> PoolSession list M" where
  "list_pool_sessions x = bindM (utc_now x) (\<lambda>now. query (sel_pools now))"

definition sel_pool :: "DateTime \<Rightarrow> string \<Rightarrow> db \<Rightarrow> PoolSession option" where
  "sel_pool now i d = map_option (read_pool now d) (pool_at d i)"

definition get_pool_session :: "ext \<Rightarrow> string \<Rightarrow> PoolSession option M" where
  "get_pool_session x i = bindM (utc_now x) (\<lambda>now. query (sel_pool now i))"

definition sel_pool_by_prefix :: "DateTime \<Rightarrow> string \<Rightarrow> db \<Rightarrow> error + PoolSession option" where
  "sel_pool_by_prefix now p d =
     (if trim p = [] then Inr None
      else case sel_pool now p d of
             Some session \<Rightarrow> Inr (Some session)
           | None \<Rightarrow>
               (case filter (\<lambda>r. sql_like (ps_id r) (p @ ''%''))
                       (order_desc ps_updated_at (tb_pool_sessions d)) of
                  [] \<Rightarrow> Inr None
                | [r] \<Rightarrow> Inr (Some (read_pool now d r))
                | _ \<Rightarrow> Inl (Anyhow (''Pool id prefix '' @ sq p @ '' is ambiguous''))))"

definition get_pool_session_by_prefix :: "ext \<Rightarrow> string \<Rightarrow> PoolSession option M" where
  "get_pool_session_by_prefix x p =
     bindM (utc_now x) (\<lambda>now. query_result (sel_pool_by_prefix now p))"

definition sel_resolve_pool :: "DateTime \<Rightarrow> string \<Rightarrow> db \<Rightarrow> error + PoolSession option" where
  "sel_resolve_pool now v d =
     (let v = trim v
      in if v = [] then Inr None
         else case sel_pool_by_prefix now v d of
                Inl e \<Rightarrow> Inl e
              | Inr (Some session) \<Rightarrow> Inr (Some session)
              | Inr None \<Rightarrow>
                  (case filter (\<lambda>p. ps_name p = v) (sel_pools now d) of
                     [] \<Rightarrow> Inr None
                   | [p] \<Rightarrow> Inr (Some p)
                   | _ \<Rightarrow> Inl (Anyhow (''Pool identifier '' @ sq v @ '' is ambiguous''))))"

definition resolve_pool_session_identifier :: "ext \<Rightarrow> string \<Rightarrow> PoolSession option M" where
  "resolve_pool_session_identifier x v =
     bindM (utc_now x) (\<lambda>now. query_result (sel_resolve_pool now v))"

definition find_active_pool ::
  "ext \<Rightarrow> string \<Rightarrow> string \<Rightarrow> string \<Rightarrow> PoolSession option M" where
  "find_active_pool x project_dir team_id team_name =
     (let dir = trim project_dir; tid = trim team_id; name = trim team_name
      in if dir = [] \<or> tid = [] then ret None
         else bindM (list_pool_sessions x) (\<lambda>all.
           let pools = filter (\<lambda>p. ps_status p \<noteq> ''archived'' \<and> ps_workflow_run_id p = None \<and>
                         (case ps_project_dir p of None \<Rightarrow> False | Some d \<Rightarrow> trim d = dir)) all
           in case List.find (\<lambda>p. ps_team_id p = Some tid) pools of
                Some p \<Rightarrow> ret (Some p)
              | None \<Rightarrow>
                  if name \<noteq> []
                  then ret (List.find (\<lambda>p. ps_team_id p = None \<and> ps_name p = name) pools)
                  else ret None))"

text \<open>\<^verbatim>\<open>find_related_pool_sessions\<close>: by the number of terms found, most first, ties in list order.\<close>

definition find_related_pool_sessions :: "ext \<Rightarrow> string \<Rightarrow> PoolSession list M" where
  "find_related_pool_sessions x keywords =
     (let terms = split_whitespace (to_lowercase keywords)
      in if terms = [] then list_pool_sessions x
         else bindM (list_pool_sessions x) (\<lambda>all.
           let score = (\<lambda>session.
                 let haystack = to_lowercase (ps_name session) @ '' '' @
                       to_lowercase (ps_org_spec session) @ '' '' @ ps_status session
                 in length (filter (\<lambda>t. contains haystack t) terms))
           in ret (order_desc score (filter (\<lambda>session. 0 < score session) all))))"

text \<open>\<^verbatim>\<open>UPDATE pool_sessions SET f WHERE id = i\<close>.\<close>

definition set_pool :: "string \<Rightarrow> (pool_row \<Rightarrow> pool_row) \<Rightarrow> db \<Rightarrow> error + nat \<times> db" where
  "set_pool i f d =
     Inr (count_rows (\<lambda>r. ps_id r = i) (tb_pool_sessions d), update_pools (\<lambda>r. ps_id r = i) f d)"

definition update_pool_session_status :: "ext \<Rightarrow> string \<Rightarrow> string \<Rightarrow> unit M" where
  "update_pool_session_status x i status =
     bindM (utc_now x) (\<lambda>now.
     bindM (execute (set_pool i (\<lambda>r. r\<lparr>ps_status := status, ps_updated_at := to_rfc3339 now\<rparr>)))
       (\<lambda>_. ret ()))"

definition touch_pool_session_active :: "ext \<Rightarrow> string \<Rightarrow> unit M" where
  "touch_pool_session_active x i =
     bindM (utc_now x) (\<lambda>now.
     bindM (execute (set_pool i (\<lambda>r. r\<lparr>
       ps_last_active_at := Some (to_rfc3339 now), ps_updated_at := to_rfc3339 now\<rparr>)))
       (\<lambda>_. ret ()))"

definition update_pool_org_spec :: "ext \<Rightarrow> string \<Rightarrow> string \<Rightarrow> unit M" where
  "update_pool_org_spec x i org_spec =
     bindM (utc_now x) (\<lambda>now.
     bindM (execute (set_pool i (\<lambda>r. r\<lparr>ps_org_spec := org_spec, ps_updated_at := to_rfc3339 now\<rparr>)))
       (\<lambda>_. ret ()))"

definition update_pool_session_name :: "ext \<Rightarrow> string \<Rightarrow> string \<Rightarrow> unit M" where
  "update_pool_session_name x i name =
     bindM (utc_now x) (\<lambda>now.
     bindM (execute (set_pool i (\<lambda>r. r\<lparr>ps_name := name, ps_updated_at := to_rfc3339 now\<rparr>)))
       (\<lambda>_. ret ()))"

definition update_pool_session_config :: "ext \<Rightarrow> string \<Rightarrow> u32 option \<Rightarrow> unit M" where
  "update_pool_session_config x i task_timeout_secs =
     bindM (utc_now x) (\<lambda>now.
     bindM (execute (set_pool i (\<lambda>r. r\<lparr>
       ps_task_timeout_secs := coalesce task_timeout_secs (ps_task_timeout_secs r),
       ps_updated_at := to_rfc3339 now\<rparr>))) (\<lambda>_. ret ()))"

definition update_pool_session_dir :: "ext \<Rightarrow> string \<Rightarrow> string \<Rightarrow> unit M" where
  "update_pool_session_dir x i project_dir =
     bindM (utc_now x) (\<lambda>now.
     bindM (execute (set_pool i (\<lambda>r. r\<lparr>
       ps_project_dir := Some project_dir, ps_updated_at := to_rfc3339 now\<rparr>))) (\<lambda>_. ret ()))"

definition set_pool_origin_im_binding :: "ext \<Rightarrow> string \<Rightarrow> string option \<Rightarrow> unit M" where
  "set_pool_origin_im_binding x pool_id binding_key =
     bindM (utc_now x) (\<lambda>now.
     bindM (execute (set_pool pool_id (\<lambda>r. r\<lparr>
       ps_origin_im_binding_key := binding_key, ps_updated_at := to_rfc3339 now\<rparr>))) (\<lambda>_. ret ()))"

section \<open>Messages\<close>

definition map_pool_message :: "DateTime \<Rightarrow> message_row \<Rightarrow> PoolMessage" where
  "map_pool_message now r = \<lparr>
     pm_id = pm_id r, pm_pool_session_id = pm_pool_session_id r, pm_sender_id = pm_sender_id r,
     pm_content = pm_content r, pm_msg_type = pm_msg_type r, pm_metadata = pm_metadata r,
     pm_todo_id = pm_todo_id r, pm_reply_to_message_id = pm_reply_to_message_id r,
     pm_event_type = pm_event_type r, pm_created_at = read_time now (pm_created_at r) \<rparr>"

text \<open>\<^verbatim>\<open>last_insert_rowid\<close> is the counter after the insert.\<close>

definition insert_pool_message_ext ::
  "ext \<Rightarrow> string \<Rightarrow> string \<Rightarrow> string \<Rightarrow> string \<Rightarrow> string \<Rightarrow> string option \<Rightarrow> int option \<Rightarrow>
     string option \<Rightarrow> PoolMessage M" where
  "insert_pool_message_ext x pool_session_id sender_id content msg_type metadata todo_id
     reply_to_message_id event_type =
     bindM (utc_now x) (\<lambda>now.
     bindM (execute (insert_message \<lparr>
       pm_id = 0, pm_pool_session_id = pool_session_id, pm_sender_id = sender_id,
       pm_content = content, pm_msg_type = msg_type, pm_metadata = metadata,
       pm_todo_id = todo_id, pm_reply_to_message_id = reply_to_message_id,
       pm_event_type = event_type, pm_created_at = to_rfc3339 now \<rparr>)) (\<lambda>_.
     bindM (query tb_message_seq) (\<lambda>i.
     bindM (execute (set_pool pool_session_id (\<lambda>r. r\<lparr>
       ps_updated_at := to_rfc3339 now, ps_last_active_at := Some (to_rfc3339 now)\<rparr>))) (\<lambda>_.
     ret \<lparr>
       pm_id = i, pm_pool_session_id = pool_session_id, pm_sender_id = sender_id,
       pm_content = content, pm_msg_type = msg_type, pm_metadata = metadata,
       pm_todo_id = todo_id, pm_reply_to_message_id = reply_to_message_id,
       pm_event_type = event_type, pm_created_at = now \<rparr>))))"

definition insert_pool_message ::
  "ext \<Rightarrow> string \<Rightarrow> string \<Rightarrow> string \<Rightarrow> string \<Rightarrow> string \<Rightarrow> PoolMessage M" where
  "insert_pool_message x pool_session_id sender_id content msg_type metadata =
     insert_pool_message_ext x pool_session_id sender_id content msg_type metadata None None None"

text \<open>
  The messages of a pool, newest first: the index on \<^verbatim>\<open>(pool_session_id, created_at)\<close> is read
  backwards, so of two messages with one time the later row comes first.
\<close>

definition newest_first :: "string \<Rightarrow> db \<Rightarrow> message_row list" where
  "newest_first pool_session_id d =
     rev (sort_key pm_created_at
       (filter (\<lambda>m. pm_pool_session_id m = pool_session_id) (tb_pool_messages d)))"

text \<open>A negative \<^verbatim>\<open>LIMIT\<close> is no limit, a negative \<^verbatim>\<open>OFFSET\<close> is zero.\<close>

definition sql_limit :: "int \<Rightarrow> 'a list \<Rightarrow> 'a list" where
  "sql_limit n xs = (if n < 0 then xs else take (nat n) xs)"

definition sel_pool_messages :: "DateTime \<Rightarrow> string \<Rightarrow> int \<Rightarrow> int \<Rightarrow> db \<Rightarrow> PoolMessage list" where
  "sel_pool_messages now pool_session_id limit offset d =
     map (map_pool_message now)
       (sort_key pm_created_at (sql_limit limit (drop (nat offset) (newest_first pool_session_id d))))"

definition get_pool_messages :: "ext \<Rightarrow> string \<Rightarrow> int \<Rightarrow> int \<Rightarrow> PoolMessage list M" where
  "get_pool_messages x pool_session_id limit offset =
     bindM (utc_now x) (\<lambda>now. query (sel_pool_messages now pool_session_id limit offset))"

definition get_latest_result_message :: "string \<Rightarrow> string \<Rightarrow> string option M" where
  "get_latest_result_message pool_session_id sender_id =
     query (\<lambda>d. map_option pm_content
       (List.find (\<lambda>m. pm_sender_id m = sender_id \<and> pm_msg_type m = ''result'')
         (newest_first pool_session_id d)))"

definition get_latest_unlinked_result_message_id :: "string \<Rightarrow> string \<Rightarrow> int option M" where
  "get_latest_unlinked_result_message_id pool_session_id sender_id =
     query (\<lambda>d. map_option pm_id
       (List.find (\<lambda>m. pm_sender_id m = sender_id \<and> pm_msg_type m = ''result'' \<and>
                       (pm_todo_id m = None \<or> pm_todo_id m = Some []))
         (newest_first pool_session_id d)))"

definition link_message :: "int \<Rightarrow> string \<Rightarrow> db \<Rightarrow> error + nat \<times> db" where
  "link_message message_id todo_id d =
     (if message_exists d message_id \<and> \<not> todo_exists d todo_id then Inl ForeignKeyFailed
      else Inr (count_rows (\<lambda>m. pm_id m = message_id) (tb_pool_messages d),
             update_messages (\<lambda>m. pm_id m = message_id) (\<lambda>m. m\<lparr>pm_todo_id := Some todo_id\<rparr>) d))"

definition link_pool_message_to_todo :: "int \<Rightarrow> string \<Rightarrow> unit M" where
  "link_pool_message_to_todo message_id todo_id =
     bindM (execute (link_message message_id todo_id)) (\<lambda>_. ret ())"

definition get_pool_message_by_id :: "ext \<Rightarrow> int \<Rightarrow> PoolMessage option M" where
  "get_pool_message_by_id x i =
     bindM (utc_now x) (\<lambda>now.
     query (\<lambda>d. map_option (map_pool_message now) (find_row pm_id i (tb_pool_messages d))))"

definition get_pool_messages_for_todo :: "ext \<Rightarrow> string \<Rightarrow> PoolMessage list M" where
  "get_pool_messages_for_todo x todo_id =
     bindM (utc_now x) (\<lambda>now.
     query (\<lambda>d. map (map_pool_message now)
       (sort_key pm_created_at (filter (\<lambda>m. pm_todo_id m = Some todo_id) (tb_pool_messages d)))))"

section \<open>What the statements do\<close>

lemma pool_at_set_pool:
  assumes "set_pool i f d = Inr (n, d')" and "\<And>r. ps_id (f r) = ps_id r"
  shows "pool_at d' j = (if j = i then map_option f (pool_at d i) else pool_at d j)"
  using assms
  by (cases "pool_at d j")
    (auto simp: set_pool_def pool_at_def find_row_update_rows dest: find_row_Some)

lemma pool_at_None_iff: "pool_at d i = None \<longleftrightarrow> \<not> pool_exists d i"
  by (simp add: pool_at_def find_row_None_iff pool_exists_def)

lemma set_pool_todos [simp]: "set_pool i f d = Inr (n, d') \<Longrightarrow> tb_koi_todos d' = tb_koi_todos d"
  by (auto simp: set_pool_def)

section \<open>The operations keep the integrity\<close>

lemma wf_set_pool [effect_intros]:
  "(\<And>r. ps_id (f r) = ps_id r) \<Longrightarrow> effects keeps_wf (execute (set_pool i f))"
  unfolding set_pool_def by (intro wf_execute_Inr wf_update_pools) simp_all

lemma wf_link_message [effect_intros]: "effects keeps_wf (execute (link_message m t))"
  unfolding effects_execute_iff keeps_wf_def link_message_def
  by (auto simp: message_refs_def message_exists_def intro!: wf_update_messages)

lemma wf_delete_member: "wf_db d \<Longrightarrow> wf_db (delete_member p k d)"
proof -
  assume "wf_db d"
  moreover have "todo_refs (delete_member p k d) = todo_refs d"
    "message_refs (delete_member p k d) = message_refs d"
    "member_refs (delete_member p k d) = member_refs d"
    by (rule refs_cong; simp add: delete_member_def)+
  ultimately show ?thesis
    unfolding wf_db_def by (auto simp: delete_member_def list_all_iff distinct_map_filter)
qed

lemma wf_member_ops [effect_intros]:
  "effects keeps_wf (list_pool_member_ids p)" "effects keeps_wf (list_pool_members x p)"
  "effects keeps_wf (is_pool_member p k)" "effects keeps_wf (add_pool_member x p k)"
  "effects keeps_wf (remove_pool_member p k)"
  unfolding list_pool_member_ids_def list_pool_members_def is_pool_member_def
    add_pool_member_def remove_pool_member_def
  by (intro effect_intros wf_execute_Inr wf_delete_member; assumption)+

lemma wf_create_pool_session [effect_intros]:
  "effects keeps_wf (create_pool_session_with_meta x n pd tt ti wi)"
  "effects keeps_wf (create_pool_session_with_dir x n pd tt)"
  "effects keeps_wf (create_pool_session x n tt)"
  unfolding create_pool_session_def create_pool_session_with_dir_def
    create_pool_session_with_meta_def
  by (intro effect_intros)+

lemma wf_list_pool_sessions [effect_intros]: "effects keeps_wf (list_pool_sessions x)"
  unfolding list_pool_sessions_def by (intro effect_intros)

lemma wf_pool_queries [effect_intros]:
  "effects keeps_wf (get_pool_session x i)"
  "effects keeps_wf (get_pool_session_by_prefix x i)"
  "effects keeps_wf (resolve_pool_session_identifier x v)"
  "effects keeps_wf (find_active_pool x pd ti tn)"
  "effects keeps_wf (find_related_pool_sessions x kw)"
  unfolding get_pool_session_def get_pool_session_by_prefix_def find_active_pool_def
    resolve_pool_session_identifier_def find_related_pool_sessions_def Let_def
  by (intro effect_intros)+

lemma wf_pool_updates [effect_intros]:
  "effects keeps_wf (update_pool_session_status x i s)"
  "effects keeps_wf (touch_pool_session_active x i)"
  "effects keeps_wf (update_pool_org_spec x i s)"
  "effects keeps_wf (update_pool_session_name x i s)"
  "effects keeps_wf (update_pool_session_config x i tt)"
  "effects keeps_wf (update_pool_session_dir x i s)"
  "effects keeps_wf (set_pool_origin_im_binding x i b)"
  unfolding update_pool_session_status_def touch_pool_session_active_def update_pool_org_spec_def
    update_pool_session_name_def update_pool_session_config_def update_pool_session_dir_def
    set_pool_origin_im_binding_def
  by (intro effect_intros; simp)+

lemma wf_message_ops [effect_intros]:
  "effects keeps_wf (insert_pool_message_ext x p s c mt md t r ev)"
  "effects keeps_wf (insert_pool_message x p s c mt md)"
  "effects keeps_wf (get_pool_messages x p l off)"
  "effects keeps_wf (get_latest_result_message p s)"
  "effects keeps_wf (get_latest_unlinked_result_message_id p s)"
  "effects keeps_wf (link_pool_message_to_todo m t')"
  "effects keeps_wf (get_pool_message_by_id x m)"
  "effects keeps_wf (get_pool_messages_for_todo x t')"
  unfolding insert_pool_message_def insert_pool_message_ext_def get_pool_messages_def
    get_latest_result_message_def get_latest_unlinked_result_message_id_def
    link_pool_message_to_todo_def get_pool_message_by_id_def get_pool_messages_for_todo_def
  by (intro effect_intros; simp)+

end
