(* ===== verification/Git.thy ===== *)
theory Git
  imports Store_Schema Rust_Alnum
begin

text \<open>
  \<^verbatim>\<open>piscis-kernel/src/pool/git.rs\<close>: repositories, worktrees and branch merges. The \<^verbatim>\<open>git\<close> program is
  an argument (\<open>ex_git\<close>); the model keeps the log of the commands issued. A path is its text, on
  a Unix host. \<open>cancel\<close> is the optional cancellation flag, read where the code loads it; that a
  running command is cancelled is one of the results \<open>ex_git\<close> may have.
\<close>

section \<open>Paths\<close>

definition path_join :: "string \<Rightarrow> string \<Rightarrow> string" where
  "path_join p q =
     (if starts_with q ''/'' then q
      else if p = [] \<or> ends_with p ''/'' then p @ q else p @ ''/'' @ q)"

text \<open>Without trailing separators and trailing \<^verbatim>\<open>.\<close> components; the argument is reversed.\<close>

fun strip_seps :: "string \<Rightarrow> string" where
  "strip_seps (a # b # cs) =
     (if a = CHR 0x2F then strip_seps (b # cs)
      else if a = CHR 0x2E \<and> b = CHR 0x2F then strip_seps cs else a # b # cs)"
| "strip_seps [a] = (if a = CHR 0x2F then [] else [a])"
| "strip_seps [] = []"

text \<open>\<^verbatim>\<open>Path::parent\<close>: none of the root and of the empty path.\<close>

definition path_parent :: "string \<Rightarrow> string option" where
  "path_parent p =
     (let r = strip_seps (rev p)
      in if r = [] then None
         else let up = rev (strip_seps (dropWhile (\<lambda>c. c \<noteq> CHR 0x2F) r))
              in Some (if up = [] \<and> starts_with p ''/'' then ''/'' else up))"

section \<open>Running git\<close>

definition UNQUOTED_PATHS :: "string list" where
  "UNQUOTED_PATHS = [''-c'', ''core.quotepath=false'']"

type_synonym cancel_flag = "(nat \<Rightarrow> bool) option"

definition is_cancelled :: "cancel_flag \<Rightarrow> bool M" where
  "is_cancelled cancel = (case cancel of None \<Rightarrow> ret False | Some f \<Rightarrow> reading f)"

definition cancelled_error :: error where
  "cancelled_error = Anyhow ''Operation cancelled by user''"

definition std_git :: "ext \<Rightarrow> string \<Rightarrow> string list \<Rightarrow> git_output M" where
  "std_git x dir args = git_command x dir (UNQUOTED_PATHS @ args)"

definition run_git :: "ext \<Rightarrow> string \<Rightarrow> string list \<Rightarrow> cancel_flag \<Rightarrow> git_output M" where
  "run_git x dir args cancel =
     bindM (is_cancelled cancel) (\<lambda>c.
     if c then bail cancelled_error else git_command x dir (UNQUOTED_PATHS @ args))"

section \<open>Repositories\<close>

datatype GitInitOutcome = Initialised | AlreadyInitialised

definition ensure_git_repo :: "ext \<Rightarrow> string \<Rightarrow> cancel_flag \<Rightarrow> GitInitOutcome M" where
  "ensure_git_repo x dir cancel =
     bindM (bindM (reading (\<lambda>n. ex_create_dir_all x n dir)) lift_result) (\<lambda>_.
     bindM (reading (\<lambda>n. ex_path_exists x n (path_join dir ''.git''))) (\<lambda>has_git.
     if has_git then ret AlreadyInitialised
     else bindM (run_git x dir [''init''] cancel) (\<lambda>init.
       if \<not> go_success init then bail (Anyhow (''git init failed: '' @ go_stderr init))
       else let gitignore = path_join dir ''.gitignore''
       in bindM (reading (\<lambda>n. ex_path_exists x n gitignore)) (\<lambda>has_ignore.
          bindM (whenM (\<not> has_ignore)
            (bindM (reading (\<lambda>n. ex_write_file x n gitignore (''.koi-worktrees/'' @ [CHR 0x0A])))
              lift_result)) (\<lambda>_.
          bindM (ignore (run_git x dir [''add'', ''.gitignore''] cancel)) (\<lambda>_.
          bindM (ignore (run_git x dir [''commit'', ''-m'', ''Initial commit'', ''--allow-empty''] cancel)) (\<lambda>_.
          ret Initialised)))))))"

section \<open>Branches\<close>

datatype MergeOutcome = Merged | Conflict string | MergeError string

record MergeBranchResult =
  mr_branch :: string
  mr_outcome :: MergeOutcome

definition safe_char :: "string \<Rightarrow> string" where
  "safe_char c = (if is_alphanumeric c \<or> c = ''-'' \<or> c = ''_'' then c else ''_'')"

definition safe_koi_name :: "string \<Rightarrow> string" where
  "safe_koi_name koi_name = concat (map safe_char (chars koi_name))"

definition koi_branch_name :: "string \<Rightarrow> string \<Rightarrow> string" where
  "koi_branch_name koi_name todo_id =
     ''koi/'' @ safe_koi_name koi_name @ ''-'' @ take_chars 8 todo_id"

text \<open>\<^verbatim>\<open>trim_start_matches\<close> with a non-empty text.\<close>

function trim_start_matches :: "string \<Rightarrow> string \<Rightarrow> string" where
  "trim_start_matches pat s =
     (if pat \<noteq> [] \<and> starts_with s pat then trim_start_matches pat (drop (length pat) s) else s)"
  by pat_completeness auto
termination
  by (relation "measure (\<lambda>(pat, s). length s)") (auto simp: starts_with_def prefix_def)

declare trim_start_matches.simps [simp del]

definition normalize_branch_list_line :: "string \<Rightarrow> string" where
  "normalize_branch_list_line line =
     trim_start_matches ''+ '' (trim_start_matches ''* '' (trim line))"

definition list_koi_branches :: "ext \<Rightarrow> string \<Rightarrow> cancel_flag \<Rightarrow> string list M" where
  "list_koi_branches x dir cancel =
     bindM (run_git x dir [''branch'', ''--list'', ''koi/*''] cancel) (\<lambda>out.
     if \<not> go_success out
     then bail (Anyhow (''Failed to list git branches: '' @ trim (go_stderr out)))
     else ret (filter (\<lambda>l. l \<noteq> []) (map normalize_branch_list_line (str_lines (go_stdout out)))))"

definition merge_args :: "string \<Rightarrow> string list" where
  "merge_args branch = [''merge'', ''--no-ff'', branch, ''-m'', ''Merge '' @ branch]"

definition merge_one :: "ext \<Rightarrow> string \<Rightarrow> cancel_flag \<Rightarrow> string \<Rightarrow> MergeBranchResult M" where
  "merge_one x dir cancel branch =
     bindM (is_cancelled cancel) (\<lambda>c.
     if c then bail cancelled_error
     else bindM (attempt (run_git x dir (merge_args branch) cancel)) (\<lambda>merge.
       bindM (case merge of
                Inr out \<Rightarrow>
                  if go_success out then ret Merged
                  else bindM (ignore (run_git x dir [''merge'', ''--abort''] cancel)) (\<lambda>_.
                       ret (Conflict (trim (go_stderr out))))
              | Inl e \<Rightarrow>
                  if contains (error_text e) ''Operation cancelled by user''
                  then bail cancelled_error
                  else ret (MergeError (error_text e))) (\<lambda>outcome.
       ret \<lparr>mr_branch = branch, mr_outcome = outcome\<rparr>)))"

definition checkout_main :: "ext \<Rightarrow> string \<Rightarrow> cancel_flag \<Rightarrow> unit M" where
  "checkout_main x dir cancel =
     bindM (attempt (run_git x dir [''checkout'', ''main''] cancel)) (\<lambda>checkout.
     bindM (is_cancelled cancel) (\<lambda>cancelled.
     whenM (isl checkout \<and> \<not> cancelled)
       (ignore (run_git x dir [''checkout'', ''master''] cancel))))"

definition merge_koi_branches ::
  "ext \<Rightarrow> string \<Rightarrow> cancel_flag \<Rightarrow> string option \<Rightarrow> MergeBranchResult list M" where
  "merge_koi_branches x dir cancel only_branch =
     bindM (list_koi_branches x dir cancel) (\<lambda>branches.
     bindM (case trimmed_nonempty only_branch of
              None \<Rightarrow> ret branches
            | Some want \<Rightarrow>
                (let branches = filter (\<lambda>b. b = want) branches
                 in if branches = []
                    then bail (Anyhow (''Branch '' @ sq want @ '' not found among koi/* branches''))
                    else ret branches)) (\<lambda>branches.
     if branches = [] then ret []
     else bindM (checkout_main x dir cancel) (\<lambda>_.
          collectM branches (merge_one x dir cancel))))"

section \<open>Worktrees\<close>

definition worktree_dir :: "string \<Rightarrow> string \<Rightarrow> string \<Rightarrow> string" where
  "worktree_dir project_dir koi_name todo_id =
     path_join
       (path_join (case path_parent project_dir of None \<Rightarrow> project_dir | Some p \<Rightarrow> p) ''.koi-worktrees'')
       (safe_koi_name koi_name @ ''-'' @ take_chars 8 todo_id)"

definition setup_worktree :: "ext \<Rightarrow> string \<Rightarrow> string \<Rightarrow> string \<Rightarrow> string option M" where
  "setup_worktree x project_dir koi_name todo_id =
     bindM (reading (\<lambda>n. ex_path_exists x n (path_join project_dir ''.git''))) (\<lambda>has_git.
     if \<not> has_git then ret None
     else let branch_name = koi_branch_name koi_name todo_id;
              wt_dir = worktree_dir project_dir koi_name todo_id
     in bindM (attempt (std_git x project_dir [''worktree'', ''add'', wt_dir, ''-b'', branch_name]))
          (\<lambda>output.
          case output of
            Inr out \<Rightarrow> if go_success out then ret (Some wt_dir) else ret None
          | Inl e \<Rightarrow> ret None))"

definition cleanup_worktree :: "ext \<Rightarrow> string \<Rightarrow> string \<Rightarrow> string \<Rightarrow> unit M" where
  "cleanup_worktree x worktree_path koi_name task =
     bindM (reading (\<lambda>n. ex_path_exists x n worktree_path)) (\<lambda>there.
     if \<not> there then ret ()
     else let task_preview = (if 72 < count_chars task then take_chars 72 task else task);
              commit_msg = ''koi/'' @ koi_name @ '': '' @ task_preview;
              parent = (case path_parent worktree_path of None \<Rightarrow> worktree_path | Some p \<Rightarrow> p)
     in bindM (ignore (std_git x worktree_path [''add'', ''-A''])) (\<lambda>_.
        bindM (ignore (std_git x worktree_path [''commit'', ''-m'', commit_msg, ''--allow-empty''])) (\<lambda>_.
        ignore (std_git x parent [''worktree'', ''remove'', worktree_path, ''--force'']))))"

section \<open>Effects\<close>

text \<open>Nothing here touches the database, so every operation has every effect.\<close>

context effect
begin

lemma is_cancelled [effect_intros]: "effects R (is_cancelled c)"
  unfolding is_cancelled_def by (intro effect_intros reading ret)

lemma std_git [effect_intros]: "effects R (std_git x dir args)"
  unfolding std_git_def by (rule git_command)

lemma run_git [effect_intros]: "effects R (run_git x dir args c)"
  unfolding run_git_def by (intro effect_intros bind is_cancelled bail git_command)

lemma ensure_git_repo [effect_intros]: "effects R (ensure_git_repo x dir c)"
  unfolding ensure_git_repo_def Let_def
  by (intro effect_intros bind reading lift_result ret bail run_git whenM ignore)

lemma list_koi_branches [effect_intros]: "effects R (list_koi_branches x dir c)"
  unfolding list_koi_branches_def by (intro effect_intros bind run_git bail ret)

lemma merge_one [effect_intros]: "effects R (merge_one x dir c b)"
  unfolding merge_one_def
  by (intro effect_intros bind is_cancelled bail ret attempt ignore run_git)

lemma checkout_main [effect_intros]: "effects R (checkout_main x dir c)"
  unfolding checkout_main_def
  by (intro effect_intros bind is_cancelled attempt ignore whenM run_git)

lemma merge_koi_branches [effect_intros]: "effects R (merge_koi_branches x dir c b)"
  unfolding merge_koi_branches_def Let_def
  by (intro effect_intros bind list_koi_branches bail ret checkout_main collectM merge_one)

lemma setup_worktree [effect_intros]: "effects R (setup_worktree x dir k t)"
  unfolding setup_worktree_def Let_def
  by (intro effect_intros bind reading ret attempt std_git)

lemma cleanup_worktree [effect_intros]: "effects R (cleanup_worktree x dir k t)"
  unfolding cleanup_worktree_def Let_def
  by (intro effect_intros bind reading ret ignore std_git)

end

section \<open>Merging\<close>

text \<open>The commands one merge issues, by its result.\<close>

definition merge_log :: "string \<Rightarrow> MergeBranchResult \<Rightarrow> (string \<times> string list) list" where
  "merge_log dir r =
     (dir, UNQUOTED_PATHS @ merge_args (mr_branch r)) #
     (case mr_outcome r of
        Conflict _ \<Rightarrow> [(dir, UNQUOTED_PATHS @ [''merge'', ''--abort''])] | _ \<Rightarrow> [])"

lemma is_cancelled_None [simp]: "is_cancelled None = ret False"
  by (simp add: is_cancelled_def)

lemma wp_run_git [wp_simps]:
  "wp (run_git x dir args None) Q w =
     Q (ex_git x (w_tick w) dir (UNQUOTED_PATHS @ args))
       (w\<lparr>w_tick := Suc (w_tick w), w_git := w_git w @ [(dir, UNQUOTED_PATHS @ args)]\<rparr>)"
  by (simp add: run_git_def wp_simps)

lemma merge_one_log:
  assumes "merge_one x dir None b w = (Inr r, w')"
  shows "mr_branch r = b \<and> w_git w' = w_git w @ merge_log dir r"
proof -
  have "wp (merge_one x dir None b)
      (\<lambda>res w'. \<forall>r. res = Inr r \<longrightarrow> mr_branch r = b \<and> w_git w' = w_git w @ merge_log dir r) w"
    by (auto simp: merge_one_def wp_simps merge_log_def split: sum.split)
  from wpD [OF this assms] show ?thesis by simp
qed

lemma merge_all_log:
  "collectM bs (merge_one x dir None) w = (Inr rs, w') \<Longrightarrow>
     map mr_branch rs = bs \<and> w_git w' = w_git w @ concat (map (merge_log dir) rs)"
proof (induction bs arbitrary: w rs)
  case Nil
  then show ?case by simp
next
  case (Cons b bs)
  then obtain r w1 rs' where "merge_one x dir None b w = (Inr r, w1)"
    and "collectM bs (merge_one x dir None) w1 = (Inr rs', w')" and "rs = r # rs'"
    by (auto simp: bindM_Inr_iff)
  with Cons.IH merge_one_log show ?case by fastforce
qed

lemma checkout_main_log:
  assumes "checkout_main x dir None w = (Inr u, w')"
  shows "w_git w' = w_git w @ (dir, UNQUOTED_PATHS @ [''checkout'', ''main'']) #
    (if isl (ex_git x (w_tick w) dir (UNQUOTED_PATHS @ [''checkout'', ''main'']))
     then [(dir, UNQUOTED_PATHS @ [''checkout'', ''master''])] else [])"
proof -
  have "wp (checkout_main x dir None)
      (\<lambda>res w'. w_git w' = w_git w @ (dir, UNQUOTED_PATHS @ [''checkout'', ''main'']) #
        (if isl (ex_git x (w_tick w) dir (UNQUOTED_PATHS @ [''checkout'', ''main'']))
         then [(dir, UNQUOTED_PATHS @ [''checkout'', ''master''])] else [])) w"
    by (simp add: checkout_main_def wp_simps)
  from wpD [OF this assms] show ?thesis .
qed

lemma list_koi_branches_log:
  assumes "list_koi_branches x dir None w = (Inr bs, w')"
  shows "w_git w' = w_git w @ [(dir, UNQUOTED_PATHS @ [''branch'', ''--list'', ''koi/*''])]
    \<and> w_tick w' = Suc (w_tick w)"
proof -
  have "wp (list_koi_branches x dir None)
      (\<lambda>res w'. w_git w' = w_git w @ [(dir, UNQUOTED_PATHS @ [''branch'', ''--list'', ''koi/*''])]
         \<and> w_tick w' = Suc (w_tick w)) w"
    by (simp add: list_koi_branches_def wp_simps split: sum.split)
  from wpD [OF this assms] show ?thesis .
qed

text \<open>
  What the merges of a list of branches answer and issue when the first of them is the \<open>n\<close>-th interaction
  with the outside: a merge that fails is aborted at once, one that cannot be run is not.
\<close>

fun merges_from :: "ext \<Rightarrow> string \<Rightarrow> nat \<Rightarrow> string list \<Rightarrow> MergeBranchResult list \<times> (string \<times> string list) list" where
  "merges_from x dir n [] = ([], [])"
| "merges_from x dir n (b # bs) =
     (let command = UNQUOTED_PATHS @ [''merge'', ''--no-ff'', b, ''-m'', ''Merge '' @ b];
          abort = UNQUOTED_PATHS @ [''merge'', ''--abort''];
          next = (\<lambda>outcome issued. case merges_from x dir (n + length issued) bs of (rs, log) \<Rightarrow>
            (\<lparr>mr_branch = b, mr_outcome = outcome\<rparr> # rs, map (Pair dir) issued @ log))
      in case ex_git x n dir command of
           Inl e \<Rightarrow> next (MergeError (error_text e)) [command]
         | Inr out \<Rightarrow> if go_success out then next Merged [command]
                      else next (Conflict (trim (go_stderr out))) [command, abort])"

definition listed_branches :: "git_output \<Rightarrow> string list" where
  "listed_branches out = filter (\<lambda>l. l \<noteq> []) (map normalize_branch_list_line (str_lines (go_stdout out)))"

lemma merge_one_from:
  assumes "merge_one x dir None b w = (Inr r, w')"
  shows "merges_from x dir (w_tick w) (b # bs) =
    (case merges_from x dir (w_tick w') bs of (rs, log) \<Rightarrow> (r # rs, merge_log dir r @ log))"
proof -
  have "wp (merge_one x dir None b)
      (\<lambda>res w'. \<forall>r. res = Inr r \<longrightarrow> merges_from x dir (w_tick w) (b # bs) =
        (case merges_from x dir (w_tick w') bs of (rs, log) \<Rightarrow> (r # rs, merge_log dir r @ log))) w"
    by (auto simp: merge_one_def wp_simps merge_log_def merge_args_def Let_def split: sum.split prod.split)
  from wpD [OF this assms] show ?thesis by simp
qed

lemma merge_all_from:
  "collectM bs (merge_one x dir None) w = (Inr rs, w') \<Longrightarrow>
     merges_from x dir (w_tick w) bs = (rs, concat (map (merge_log dir) rs))"
proof (induction bs arbitrary: w rs)
  case (Cons b bs)
  then obtain r w1 rs' where one: "merge_one x dir None b w = (Inr r, w1)"
    and "collectM bs (merge_one x dir None) w1 = (Inr rs', w')" and "rs = r # rs'"
    by (auto simp: bindM_Inr_iff)
  with Cons.IH show ?case by (simp add: merge_one_from [OF one] del: merges_from.simps)
qed simp

lemma checkout_main_tick:
  assumes "checkout_main x dir None w = (Inr u, w')"
  shows "w_tick w' = (if isl (ex_git x (w_tick w) dir (UNQUOTED_PATHS @ [''checkout'', ''main'']))
     then Suc (Suc (w_tick w)) else Suc (w_tick w))"
proof -
  have "wp (checkout_main x dir None)
      (\<lambda>res w'. w_tick w' = (if isl (ex_git x (w_tick w) dir (UNQUOTED_PATHS @ [''checkout'', ''main'']))
        then Suc (Suc (w_tick w)) else Suc (w_tick w))) w"
    by (simp add: checkout_main_def wp_simps)
  from wpD [OF this assms] show ?thesis .
qed

lemma list_koi_branches_answer:
  assumes "list_koi_branches x dir None w = (Inr bs, w')"
  shows "\<exists>out. ex_git x (w_tick w) dir (UNQUOTED_PATHS @ [''branch'', ''--list'', ''koi/*'']) = Inr out \<and>
    go_success out \<and> bs = listed_branches out"
proof -
  have "wp (list_koi_branches x dir None)
      (\<lambda>res w'. \<forall>bs. res = Inr bs \<longrightarrow>
        (\<exists>out. ex_git x (w_tick w) dir (UNQUOTED_PATHS @ [''branch'', ''--list'', ''koi/*'']) = Inr out \<and>
         go_success out \<and> bs = listed_branches out)) w"
    by (simp add: list_koi_branches_def wp_simps listed_branches_def split: sum.split)
  from wpD [OF this assms] show ?thesis by simp
qed

text \<open>Which of the listed branches are merged, and how the main branch is reached.\<close>

definition wanted :: "string option \<Rightarrow> string list \<Rightarrow> string list" where
  "wanted only_branch listed =
     (case trimmed_nonempty only_branch of None \<Rightarrow> listed | Some want \<Rightarrow> filter (\<lambda>b. b = want) listed)"

definition to_main :: "ext \<Rightarrow> string \<Rightarrow> nat \<Rightarrow> (string \<times> string list) list" where
  "to_main x dir n = (dir, UNQUOTED_PATHS @ [''checkout'', ''main'']) #
     (if isl (ex_git x n dir (UNQUOTED_PATHS @ [''checkout'', ''main'']))
      then [(dir, UNQUOTED_PATHS @ [''checkout'', ''master''])] else [])"

lemma merge_koi_branches_run:
  assumes "merge_koi_branches x dir None only_branch w = (Inr rs, w')"
  obtains out log where
    "ex_git x (w_tick w) dir (UNQUOTED_PATHS @ [''branch'', ''--list'', ''koi/*'']) = Inr out" "go_success out"
    "\<not> (trimmed_nonempty only_branch \<noteq> None \<and> wanted only_branch (listed_branches out) = [])"
    "log = (if wanted only_branch (listed_branches out) = [] then [] else to_main x dir (Suc (w_tick w)))"
    "rs = fst (merges_from x dir (Suc (w_tick w) + length log) (wanted only_branch (listed_branches out)))"
    "w_git w' = w_git w @ (dir, UNQUOTED_PATHS @ [''branch'', ''--list'', ''koi/*'']) # log @
       snd (merges_from x dir (Suc (w_tick w) + length log) (wanted only_branch (listed_branches out)))"
    "snd (merges_from x dir (Suc (w_tick w) + length log) (wanted only_branch (listed_branches out))) =
       concat (map (merge_log dir) rs)"
proof -
  from assms obtain all w1 where l: "list_koi_branches x dir None w = (Inr all, w1)"
    by (auto simp: merge_koi_branches_def bindM_Inr_iff)
  obtain out where out: "ex_git x (w_tick w) dir (UNQUOTED_PATHS @ [''branch'', ''--list'', ''koi/*'']) = Inr out"
    "go_success out" "all = listed_branches out"
    using list_koi_branches_answer [OF l] by blast
  define bs where "bs = wanted only_branch all"
  have ne: "\<not> (trimmed_nonempty only_branch \<noteq> None \<and> bs = [])"
    using assms l
    by (auto simp: merge_koi_branches_def bindM_Inr_iff bs_def wanted_def Let_def split: if_splits)
  have rest: "(if bs = [] then ret [] else bindM (checkout_main x dir None) (\<lambda>_.
      collectM bs (merge_one x dir None))) w1 = (Inr rs, w')"
    using assms l
    by (auto simp: merge_koi_branches_def bindM_Inr_iff bs_def wanted_def Let_def split: if_splits option.splits)
  note first = list_koi_branches_log [OF l]
  show thesis
  proof (cases "bs = []")
    case True
    with rest first out ne show thesis
      by (intro that [of out "[]"]) (simp_all add: bs_def)
  next
    case False
    with rest obtain u w2 where c: "checkout_main x dir None w1 = (Inr u, w2)"
      and m: "collectM bs (merge_one x dir None) w2 = (Inr rs, w')"
      by (auto simp: bindM_Inr_iff)
    have log: "w_git w2 = w_git w1 @ to_main x dir (Suc (w_tick w))"
      using checkout_main_log [OF c] first by (simp add: to_main_def)
    have tick: "w_tick w2 = Suc (w_tick w) + length (to_main x dir (Suc (w_tick w)))"
      using checkout_main_tick [OF c] first by (simp add: to_main_def)
    from merge_all_from [OF m] merge_all_log [OF m] have
      "merges_from x dir (Suc (w_tick w) + length (to_main x dir (Suc (w_tick w)))) bs = (rs, concat (map (merge_log dir) rs))"
      "w_git w' = w_git w2 @ concat (map (merge_log dir) rs)"
      by (simp_all add: tick)
    with False log first out ne show thesis
      by (intro that [of out "to_main x dir (Suc (w_tick w))"]) (simp_all add: bs_def)
  qed
qed

text \<open>A \<^verbatim>\<open>git\<close> with one branch in conflict, where every command runs and no branch is called main.\<close>

definition master_git :: "nat \<Rightarrow> string \<Rightarrow> string list \<Rightarrow> error + git_output" where
  "master_git n dir args = Inr
     (if args = UNQUOTED_PATHS @ [''branch'', ''--list'', ''koi/*'']
      then \<lparr> go_success = True, go_stdout = ''  koi/A-1'' @ [CHR 0x0A], go_stderr = [] \<rparr>
      else if args = UNQUOTED_PATHS @ [''checkout'', ''main'']
      then \<lparr> go_success = False, go_stdout = [], go_stderr = ''no such branch'' \<rparr>
      else if args = UNQUOTED_PATHS @ merge_args ''koi/A-1''
      then \<lparr> go_success = False, go_stdout = [], go_stderr = ''CONFLICT'' \<rparr>
      else \<lparr> go_success = True, go_stdout = [], go_stderr = [] \<rparr>)"

definition sample_ext :: ext where
  "sample_ext = \<lparr>
     ex_now = (\<lambda>n. 1000000000 * int n), ex_uuid = (\<lambda>n. ''u'' @ nat_digits n),
     ex_json_to_string = (\<lambda>j. ''{}''), ex_json_from_str = (\<lambda>s. Some (JObj [])),
     ex_git = master_git, ex_create_dir_all = (\<lambda>n d. Inr ()), ex_path_exists = (\<lambda>n p. False),
     ex_write_file = (\<lambda>n p s. Inr ()) \<rparr>"

lemma sample_ext_sel [simp]:
  "ex_now sample_ext n = 1000000000 * int n" "ex_uuid sample_ext n = ''u'' @ nat_digits n"
  "ex_json_to_string sample_ext j = ''{}''" "ex_git sample_ext = master_git"
  "ex_path_exists sample_ext n p = False" "ex_json_from_str sample_ext s = Some (JObj [])"
  by (simp_all add: sample_ext_def)


lemma sample_merge:
  "merge_koi_branches sample_ext ''/p'' None (Some ''koi/A-1'') (start_world empty_db) =
     (Inr [\<lparr>mr_branch = ''koi/A-1'', mr_outcome = Conflict ''CONFLICT''\<rparr>],
      (start_world empty_db)\<lparr>w_tick := 4, w_git :=
         [(''/p'', UNQUOTED_PATHS @ [''branch'', ''--list'', ''koi/*'']),
          (''/p'', UNQUOTED_PATHS @ [''checkout'', ''main'']),
          (''/p'', UNQUOTED_PATHS @ merge_args ''koi/A-1''),
          (''/p'', UNQUOTED_PATHS @ [''merge'', ''--abort''])]\<rparr>)"
  by (simp add: merge_koi_branches_def list_koi_branches_def checkout_main_def merge_one_def
      run_git_def git_command_def bindM_def ret_def bail_def attempt_def ignore_def whenM_def
      start_world_def master_git_def UNQUOTED_PATHS_def merge_args_def trimmed_nonempty_def
      str_lines_def normalize_branch_list_line_def trim_start_matches.simps starts_with_def
      str_eval Let_def)

section \<open>Properties\<close>



text \<open>
  When every \<^verbatim>\<open>git\<close> command can be run, as on a host where git is installed, a merge never tries
  \<^verbatim>\<open>master\<close>, also where \<^verbatim>\<open>checkout main\<close> is refused because the repository has no such branch: the
  branches are then merged into whatever branch is checked out.
\<close>

theorem merge_never_tries_master:
  assumes "\<And>n d args. \<not> isl (ex_git x n d args)"
    and "merge_koi_branches x dir None only_branch w = (Inr rs, w')"
    and "(dir, UNQUOTED_PATHS @ [''checkout'', ''master'']) \<notin> set (w_git w)"
  shows "(dir, UNQUOTED_PATHS @ [''checkout'', ''master'']) \<notin> set (w_git w')"
proof -
  have "(dir, UNQUOTED_PATHS @ [''checkout'', ''master'']) \<notin> set (merge_log dir r)" for r
    by (auto simp: merge_log_def merge_args_def UNQUOTED_PATHS_def split: MergeOutcome.splits)
  then have "(dir, UNQUOTED_PATHS @ [''checkout'', ''master'']) \<notin> set (concat (map (merge_log dir) rs))" by simp
  moreover have "(dir, UNQUOTED_PATHS @ [''checkout'', ''master'']) \<notin> set (to_main x dir n)" for n
    using assms(1) by (auto simp: to_main_def UNQUOTED_PATHS_def)
  moreover from assms(2) obtain log n where "w_git w' = w_git w @ (dir, UNQUOTED_PATHS @ [''branch'', ''--list'', ''koi/*'']) #
      log @ concat (map (merge_log dir) rs)" "log = [] \<or> log = to_main x dir n"
    by (rule merge_koi_branches_run) metis
  ultimately show ?thesis using assms(3) by (auto simp: UNQUOTED_PATHS_def)
qed

theorem merge_never_tries_master_witness:
  "(''/p'', UNQUOTED_PATHS @ [''checkout'', ''master'']) \<notin>
     set (w_git (snd (merge_koi_branches sample_ext ''/p'' None (Some ''koi/A-1'') (start_world empty_db)))) \<and>
   map mr_outcome (case fst (merge_koi_branches sample_ext ''/p'' None (Some ''koi/A-1'')
     (start_world empty_db)) of Inr rs \<Rightarrow> rs) = [Conflict ''CONFLICT'']"
proof -
  have "\<not> isl (ex_git sample_ext n d args)" for n d args by (simp add: master_git_def)
  from merge_never_tries_master [OF this sample_merge] show ?thesis
    by (simp add: sample_merge)
qed

end
