(* ===== verification/Subagent.thy ===== *)
theory Subagent
  imports Store_Pool Git
begin

text \<open>
  How the coordinator runs a Koi turn: the trait \<^verbatim>\<open>SubagentRuntime\<close> of \<^verbatim>\<open>piscis-core/src/host.rs\<close> as a
  record of operations, the contract of a runtime as the locale \<open>subagent_runtime\<close>,
  \<^verbatim>\<open>run_subagent_turn\<close> of \<^verbatim>\<open>pool/coordinator.rs\<close>, and the in-memory \<^verbatim>\<open>StubSubagentRuntime\<close> of
  \<^verbatim>\<open>pool/subagent.rs\<close>, which interprets the contract. A subagent works on the shared database while
  the turn waits for it, so \<open>rt_wait\<close> may change anything; its result \<open>None\<close> says that the timer of
  \<^verbatim>\<open>tokio::select!\<close> fired first.
\<close>

record runtime =
  rt_spawn :: "KoiTurnRequest \<Rightarrow> KoiTurnHandle M"
  rt_cancel :: "KoiTurnHandle \<Rightarrow> unit M"
  rt_wait :: "KoiTurnHandle \<Rightarrow> u32 \<Rightarrow> KoiTurnOutcome option M"

definition run_subagent_turn :: "runtime \<Rightarrow> KoiTurnRequest \<Rightarrow> u32 \<Rightarrow> KoiTurnOutcome M" where
  "run_subagent_turn rt request timeout_secs =
     bindM (rt_spawn rt request) (\<lambda>handle.
     bindM (rt_wait rt handle timeout_secs) (\<lambda>res.
     case res of
       Some outcome \<Rightarrow> ret outcome
     | None \<Rightarrow>
         bindM (ignore (rt_cancel rt handle)) (\<lambda>_.
         ret \<lparr> oc_handle = handle, oc_exit_kind = TurnTimedOut, oc_response_text = [],
               oc_error = Some (''host timeout after '' @ nat_digits (unat timeout_secs) @ ''s''),
               oc_exit_code = None \<rparr>)))"

section \<open>The contract\<close>

text \<open>
  A runtime reaches the database only through operations of the store, so it keeps the integrity,
  and a turn reports for the handle it was spawned with.
\<close>

locale subagent_runtime =
  fixes rt :: runtime
  assumes spawn_wf: "effects keeps_wf (rt_spawn rt request)"
    and cancel_wf: "effects keeps_wf (rt_cancel rt handle)"
    and wait_wf: "effects keeps_wf (rt_wait rt handle timeout)"
    and wait_handle: "rt_wait rt handle timeout w = (Inr (Some outcome), w') \<Longrightarrow>
      rt_spawn rt request w0 = (Inr handle, w) \<Longrightarrow> oc_handle outcome = handle"
begin

lemma run_wf: "effects keeps_wf (run_subagent_turn rt request timeout)"
  unfolding run_subagent_turn_def by (intro effect_intros spawn_wf cancel_wf wait_wf)

text \<open>Every turn that returns an outcome returns one for the handle that was spawned.\<close>

lemma run_handle:
  assumes "run_subagent_turn rt request timeout w = (Inr outcome, w')"
  obtains handle w1 where "rt_spawn rt request w = (Inr handle, w1)" "oc_handle outcome = handle"
proof -
  from assms obtain handle w1 where sp: "rt_spawn rt request w = (Inr handle, w1)"
    by (auto simp: run_subagent_turn_def bindM_def split: prod.splits sum.splits)
  with assms obtain res w2 where wt: "rt_wait rt handle timeout w1 = (Inr res, w2)"
    by (auto simp: run_subagent_turn_def bindM_def split: prod.splits sum.splits)
  have "oc_handle outcome = handle"
  proof (cases res)
    case None
    with assms sp wt show ?thesis
      by (auto simp: run_subagent_turn_def bindM_def ignore_def ret_def split: prod.splits)
  next
    case (Some oc)
    with assms sp wt show ?thesis
      by (auto simp: run_subagent_turn_def bindM_def ret_def intro: wait_handle)
  qed
  with sp show thesis by (rule that)
qed

end

section \<open>The in-memory runtime\<close>

definition stub_spawn ::
  "ext \<Rightarrow> (KoiTurnRequest \<Rightarrow> StubOutcome) \<Rightarrow> KoiTurnRequest \<Rightarrow> KoiTurnHandle M" where
  "stub_spawn x builder request =
     bindM (uuid_new_v4 x) (\<lambda>turn_id.
     let handle = \<lparr> h_turn_id = turn_id, h_pool_id = rq_pool_id request, h_koi_id = rq_koi_id request \<rparr>;
         slot = \<lparr> sl_handle = handle, sl_outcome = builder request \<rparr>
     in (\<lambda>w. (Inr handle, w\<lparr>w_turns := (turn_id, slot) # w_turns w\<rparr>)))"

text \<open>Cancelling notifies the current waiters only.\<close>

definition stub_cancel :: "KoiTurnHandle \<Rightarrow> unit M" where
  "stub_cancel handle = ret ()"

definition stub_result :: "KoiTurnHandle \<Rightarrow> StubOutcome \<Rightarrow> KoiTurnOutcome" where
  "stub_result handle out =
     (case out of
        StubCompleted text \<Rightarrow>
          \<lparr> oc_handle = handle, oc_exit_kind = TurnCompleted, oc_response_text = text,
            oc_error = None, oc_exit_code = Some 0 \<rparr>
      | StubExplicit exit_kind response_text err \<Rightarrow>
          \<lparr> oc_handle = handle, oc_exit_kind = exit_kind, oc_response_text = response_text,
            oc_error = err, oc_exit_code = Some 0 \<rparr>
      | StubDelayed delay response_text \<Rightarrow>
          \<lparr> oc_handle = handle, oc_exit_kind = TurnCompleted, oc_response_text = response_text,
            oc_error = None, oc_exit_code = Some 0 \<rparr>)"

text \<open>
  The race against the host's timer: a delayed outcome loses when its delay is longer than the
  timeout, and the slot stays in the map.
\<close>

definition stub_in_time :: "StubOutcome \<Rightarrow> u32 \<Rightarrow> bool" where
  "stub_in_time out timeout_secs =
     (case out of StubDelayed delay _ \<Rightarrow> delay < 1000 * unat timeout_secs | _ \<Rightarrow> True)"

definition stub_wait :: "KoiTurnHandle \<Rightarrow> u32 \<Rightarrow> KoiTurnOutcome option M" where
  "stub_wait handle timeout_secs w =
     (case map_of (w_turns w) (h_turn_id handle) of
        None \<Rightarrow> (Inl (Anyhow (''stub: no turn registered for '' @ h_turn_id handle)), w)
      | Some slot \<Rightarrow>
          if stub_in_time (sl_outcome slot) timeout_secs
          then (Inr (Some (stub_result (sl_handle slot) (sl_outcome slot))),
                w\<lparr>w_turns := filter (\<lambda>e. fst e \<noteq> h_turn_id handle) (w_turns w)\<rparr>)
          else (Inr None, w))"

definition stub_runtime :: "ext \<Rightarrow> (KoiTurnRequest \<Rightarrow> StubOutcome) \<Rightarrow> runtime" where
  "stub_runtime x builder =
     \<lparr> rt_spawn = stub_spawn x builder, rt_cancel = stub_cancel, rt_wait = stub_wait \<rparr>"

text \<open>\<^verbatim>\<open>always_complete\<close> and \<^verbatim>\<open>always_fail\<close>.\<close>

definition always_complete :: "string \<Rightarrow> KoiTurnRequest \<Rightarrow> StubOutcome" where
  "always_complete response_text = (\<lambda>_. StubCompleted response_text)"

definition always_fail :: "string \<Rightarrow> KoiTurnRequest \<Rightarrow> StubOutcome" where
  "always_fail message = (\<lambda>_. StubExplicit TurnCrashed [] (Some message))"

lemma stub_runtime_sel [simp]:
  "rt_spawn (stub_runtime x b) = stub_spawn x b" "rt_cancel (stub_runtime x b) = stub_cancel"
  "rt_wait (stub_runtime x b) = stub_wait"
  by (simp_all add: stub_runtime_def)

lemma wp_stub_spawn [wp_simps]:
  "wp (stub_spawn x b req) Q w =
     (let h = \<lparr> h_turn_id = ex_uuid x (w_tick w), h_pool_id = rq_pool_id req, h_koi_id = rq_koi_id req \<rparr>
      in Q (Inr h) (w\<lparr>w_tick := Suc (w_tick w),
             w_turns := (h_turn_id h, \<lparr> sl_handle = h, sl_outcome = b req \<rparr>) # w_turns w\<rparr>))"
  by (simp add: stub_spawn_def wp_simps Let_def) (simp add: wp_def)

lemma wp_stub_wait [wp_simps]:
  "wp (stub_wait h t) Q w =
     (case map_of (w_turns w) (h_turn_id h) of
        None \<Rightarrow> Q (Inl (Anyhow (''stub: no turn registered for '' @ h_turn_id h))) w
      | Some slot \<Rightarrow>
          if stub_in_time (sl_outcome slot) t
          then Q (Inr (Some (stub_result (sl_handle slot) (sl_outcome slot))))
                 (w\<lparr>w_turns := filter (\<lambda>e. fst e \<noteq> h_turn_id h) (w_turns w)\<rparr>)
          else Q (Inr None) w)"
  by (simp add: wp_def stub_wait_def split: option.split)

lemma stub_frame: "effects frame (stub_spawn x b req)" "effects frame (stub_cancel h)"
  "effects frame (stub_wait h t)"
  by (auto simp: effects_def frame_def stub_spawn_def stub_cancel_def stub_wait_def Let_def
      uuid_new_v4_def reading_def bindM_def ret_def split: option.split)

interpretation stub: subagent_runtime "stub_runtime x builder" for x builder
proof
  show "effects keeps_wf (rt_spawn (stub_runtime x builder) request)" for request
    by (simp add: keeps_wf_def effects_frame [OF stub_frame(1)])
  show "effects keeps_wf (rt_cancel (stub_runtime x builder) handle)" for handle
    by (simp add: keeps_wf_def effects_frame [OF stub_frame(2)])
  show "effects keeps_wf (rt_wait (stub_runtime x builder) handle timeout)" for handle timeout
    by (simp add: keeps_wf_def effects_frame [OF stub_frame(3)])
  show "oc_handle outcome = handle"
    if "rt_wait (stub_runtime x builder) handle timeout w = (Inr (Some outcome), w')"
      "rt_spawn (stub_runtime x builder) request w0 = (Inr handle, w)"
    for handle timeout w outcome w' request w0
    using that
    by (auto simp: stub_spawn_def stub_wait_def stub_result_def Let_def uuid_new_v4_def reading_def
        bindM_def split: if_splits StubOutcome.splits)
qed

end
