(* ===== verification/Integration.thy ===== *)
theory Integration
  imports Models
begin

text \<open>
  \<^verbatim>\<open>piscis-core/src/integration.rs\<close>: the dependency gate of the board and its merge backlog, pure
  functions of a list of todos. The lemmas characterise the gate.
\<close>

definition todo_id_is :: "string \<Rightarrow> KoiTodo \<Rightarrow> bool" where
  "todo_id_is i t \<longleftrightarrow> td_id t = i"

definition dep_hint_matches :: "string \<Rightarrow> KoiTodo \<Rightarrow> bool" where
  "dep_hint_matches hint t \<longleftrightarrow>
     starts_with (td_id t) hint \<or> starts_with hint (take (min 8 (length (td_id t))) (td_id t))"

definition resolve_todo_dependency :: "string \<Rightarrow> KoiTodo list \<Rightarrow> KoiTodo option" where
  "resolve_todo_dependency dep_hint todos =
     (let hint = trim dep_hint
      in if hint = [] then None
         else case List.find (todo_id_is hint) todos of
                Some exact \<Rightarrow> Some exact
              | None \<Rightarrow> (case filter (dep_hint_matches hint) todos of [t] \<Rightarrow> Some t | _ \<Rightarrow> None))"

definition has_branch :: "KoiTodo \<Rightarrow> bool" where
  "has_branch t = (case td_git_branch t of None \<Rightarrow> False | Some b \<Rightarrow> trim b \<noteq> [])"

definition dependency_produces_branch :: "KoiTodo \<Rightarrow> bool" where
  "dependency_produces_branch dep = has_branch dep"

definition integration_is_merged :: "KoiTodo \<Rightarrow> bool" where
  "integration_is_merged t =
     (case td_integration_status t of
        None \<Rightarrow> False | Some s \<Rightarrow> eq_ignore_ascii_case (trim s) ''merged'')"

definition is_todo_dependency_satisfied :: "KoiTodo \<Rightarrow> KoiTodo list \<Rightarrow> bool" where
  "is_todo_dependency_satisfied t todos =
     (case trimmed_nonempty (td_depends_on t) of
        None \<Rightarrow> True
      | Some dep_hint \<Rightarrow>
          (case resolve_todo_dependency dep_hint todos of
             None \<Rightarrow> False
           | Some dep \<Rightarrow>
               if td_status dep \<noteq> ''done'' then False
               else if dependency_produces_branch dep \<and> \<not> integration_is_merged dep then False
               else True))"

definition integration_ready :: "KoiTodo \<Rightarrow> bool" where
  "integration_ready t \<longleftrightarrow>
     has_branch t \<and> td_status t \<in> set [''done'', ''needs_review''] \<and> \<not> integration_is_merged t"

definition count_integration_ready :: "KoiTodo list \<Rightarrow> nat" where
  "count_integration_ready todos = length (filter integration_ready todos)"

definition dependency_blocked :: "KoiTodo list \<Rightarrow> KoiTodo \<Rightarrow> bool" where
  "dependency_blocked todos t \<longleftrightarrow>
     td_status t = ''todo'' \<and> td_claimed_by t = None \<and> trimmed_nonempty (td_depends_on t) \<noteq> None \<and>
     \<not> is_todo_dependency_satisfied t todos"

definition count_dependency_blocked :: "KoiTodo list \<Rightarrow> nat" where
  "count_dependency_blocked todos = length (filter (dependency_blocked todos) todos)"

section \<open>The gate\<close>

lemma find_Some: "List.find P xs = Some x \<Longrightarrow> x \<in> set xs \<and> P x"
  by (auto simp: find_Some_iff)

lemma trimmed_nonempty_Some:
  "trimmed_nonempty os = Some h \<Longrightarrow> h \<noteq> [] \<and> (\<exists>s. os = Some s \<and> h = trim s)"
  by (auto simp: trimmed_nonempty_def split: option.splits if_splits)

lemma resolve_todo_dependency_mem: "resolve_todo_dependency h todos = Some t \<Longrightarrow> t \<in> set todos"
  by (auto simp: resolve_todo_dependency_def Let_def split: if_splits option.splits list.splits
      dest!: find_Some) (metis filter_is_subset list.set_intros(1) subsetD)

text \<open>A hint that is the identifier of a todo of a list with distinct identifiers resolves to it.\<close>

lemma find_id:
  "distinct (map td_id todos) \<Longrightarrow> t \<in> set todos \<Longrightarrow> List.find (todo_id_is (td_id t)) todos = Some t"
  by (induction todos) (auto simp: todo_id_is_def)

lemma resolve_exact:
  assumes "distinct (map td_id todos)" "t \<in> set todos" "trim h = td_id t" "td_id t \<noteq> []"
  shows "resolve_todo_dependency h todos = Some t"
  using assms find_id [OF assms(1,2)] by (simp add: resolve_todo_dependency_def)

lemma dependency_gate:
  "is_todo_dependency_satisfied t todos \<longleftrightarrow>
     trimmed_nonempty (td_depends_on t) = None \<or>
     (\<exists>h dep. trimmed_nonempty (td_depends_on t) = Some h \<and>
        resolve_todo_dependency h todos = Some dep \<and> td_status dep = ''done'' \<and>
        (has_branch dep \<longrightarrow> integration_is_merged dep))"
  by (auto simp: is_todo_dependency_satisfied_def dependency_produces_branch_def
      split: option.split)

lemma dependency_satisfied_done:
  "is_todo_dependency_satisfied t todos \<Longrightarrow> trimmed_nonempty (td_depends_on t) = Some h \<Longrightarrow>
     \<exists>dep \<in> set todos. resolve_todo_dependency h todos = Some dep \<and> td_status dep = ''done''"
  by (auto simp: dependency_gate dest: resolve_todo_dependency_mem)

end
