(* ===== verification/Coordinator.thy ===== *)
theory Coordinator
  imports Subagent Integration
begin

text \<open>
  \<^verbatim>\<open>piscis-kernel/src/pool/coordinator.rs\<close>: claiming a todo, running a Koi's turn on it and recording
  its outcome, resuming and replacing todos, delegated mentions, and the patrols. A closure passed
  to \<^verbatim>\<open>PoolStore::read\<close> or \<^verbatim>\<open>write\<close> runs under the database lock; here its statements follow each
  other in the same computation. \<^verbatim>\<open>tokio::spawn\<close> queues a job. The log output is not modelled.
\<close>

section \<open>Configuration and results\<close>

definition DEFAULT_TASK_TIMEOUT_SECS :: u32 where
  "DEFAULT_TASK_TIMEOUT_SECS = 600"

record CoordinatorConfig =
  cc_default_task_timeout_secs :: u32
  cc_use_worktrees :: bool

definition default_config :: CoordinatorConfig where
  "default_config =
     \<lparr> cc_default_task_timeout_secs = DEFAULT_TASK_TIMEOUT_SECS, cc_use_worktrees = True \<rparr>"

record KoiExecResult =
  er_success :: bool
  er_reply :: string
  er_result_message_id :: "int option"
  er_exit_kind :: KoiTurnExit

definition skipped :: "string \<Rightarrow> KoiExecResult" where
  "skipped reason = \<lparr> er_success = False, er_reply = reason, er_result_message_id = None,
     er_exit_kind = TurnCancelled \<rparr>"

definition exec_result_to_json :: "KoiExecResult \<Rightarrow> json" where
  "exec_result_to_json r = JObj [
     (''success'', JBool (er_success r)),
     (''reply'', JStr (er_reply r)),
     (''result_message_id'', case er_result_message_id r of None \<Rightarrow> JNull | Some i \<Rightarrow> JInt i),
     (''exit_kind'', JStr (case er_exit_kind r of
        TurnCompleted \<Rightarrow> ''completed'' | TurnCancelled \<Rightarrow> ''cancelled''
      | TurnTimedOut \<Rightarrow> ''timed_out'' | TurnCrashed \<Rightarrow> ''crashed''))]"

definition KOI_EXECUTE_TODO_PROMPT :: string where
  "KOI_EXECUTE_TODO_PROMPT =
     (''{task}'' @
       [CHR 0x0A, CHR 0x0A] @
       ''[System: You are {name}. Your todo ID for this task is '' @
       [CHR 0x60] @
       ''{todo_id}'' @
       [CHR 0x60] @
       ''.'' @
       [CHR 0x0A] @
       ''Project dir: {project_dir}'' @
       [CHR 0x0A, CHR 0x0A] @
       ''IMPORTANT '' @
       [CHR 0xE2, CHR 0x80, CHR 0x94] @
       '' your plain assistant reply is NOT visible to the pool. Nothing you produce reaches '' @
       ''teammates or counts as a deliverable until you make the corresponding tool call. '' @
       ''Treat every turn as tool-driven: if you did not call pool_chat / pool_org, you did '' @
       ''nothing.'' @
       [CHR 0x0A, CHR 0x0A] @
       ''Project context (board state, pool_chat, org spec) has been pre-injected into your '' @
       ''session. Review it, then proceed directly to execute the task above. Do NOT re-read '' @
       ''the board or pool_chat unless you need specific details not already provided.'' @
       [CHR 0x0A, CHR 0x0A] @
       ''Key collaboration surfaces:'' @
       [CHR 0x0A] @
       ''- pool_chat(action='' @
       [CHR 0x22] @
       ''send'' @
       [CHR 0x22] @
       '') '' @
       [CHR 0xE2, CHR 0x80, CHR 0x94] @
       '' post results, hand off work, or @!mention a teammate.'' @
       [CHR 0x0A] @
       ''- pool_org(action='' @
       [CHR 0x22] @
       ''get_todos'' @
       [CHR 0x22] @
       '') '' @
       [CHR 0xE2, CHR 0x80, CHR 0x94] @
       '' check board details (required before exit '' @
       [CHR 0xE2, CHR 0x80, CHR 0x94] @
       '' see Stop Gate in system prompt).'' @
       [CHR 0x0A] @
       ''- kb/ directory '' @
       [CHR 0xE2, CHR 0x80, CHR 0x94] @
       '' read and write **shared project knowledge ONLY** (architecture decisions, '' @
       ''patterns, conventions, pitfalls). Do NOT put source code, reports, or deliverable '' @
       ''files in kb/.'' @
       [CHR 0x0A, CHR 0x0A] @
       ''Your workspace is a Git worktree '' @
       [CHR 0xE2, CHR 0x80, CHR 0x94] @
       '' always use RELATIVE paths for all file operations. NEVER use absolute paths '' @
       ''pointing to the main project directory.'' @
       [CHR 0x0A, CHR 0x0A] @
       ''File organization rules:'' @
       [CHR 0x0A] @
       ''- kb/ '' @
       [CHR 0xE2, CHR 0x86, CHR 0x92] @
       '' shared knowledge only (decisions, patterns, best practices, conventions learned '' @
       ''during development)'' @
       [CHR 0x0A] @
       ''- Project workspace '' @
       [CHR 0xE2, CHR 0x86, CHR 0x92] @
       '' all actual deliverables (source code, documents, reports, config files, assets, '' @
       ''output files, etc.)'' @
       [CHR 0x0A] @
       ''Do not confuse the two: save knowledge to kb/, save work products to the project '' @
       ''directory.'' @
       [CHR 0x0A, CHR 0x0A] @
       ''Mark this todo done ONLY after the actual deliverable is complete and verifiable '' @
       ''(code written, file created, review posted, etc.). Writing a plan or having a '' @
       ''discussion does NOT count as done.'' @
       [CHR 0x0A, CHR 0x0A] @
       ''Deliverable delivery rule:'' @
       [CHR 0x0A] @
       ''- If your deliverable is short (~500 words or less), post it as the pool_chat '' @
       ''message body.'' @
       [CHR 0x0A] @
       ''- If it is longer, write it to a file and post ONLY the file path + a brief summary '' @
       ''to pool_chat.'' @
       [CHR 0x0A, CHR 0x0A] @
       ''Coordination protocol:'' @
       [CHR 0x0A] @
       ''- If your output should be handed to another teammate, explicitly post '' @
       [CHR 0x60] @
       ''[ProjectStatus] follow_up_needed'' @
       [CHR 0x60] @
       '' and @!mention that teammate in pool_chat.'' @
       [CHR 0x0A] @
       ''- Only use '' @
       [CHR 0x60] @
       ''[ProjectStatus] ready_for_piscis_review'' @
       [CHR 0x60] @
       '' when your work no longer needs another teammate and is ready for Piscis to assess '' @
       [CHR 0xE2, CHR 0x80, CHR 0x94] @
       '' and only AFTER '' @
       [CHR 0x60] @
       ''complete_todo'' @
       [CHR 0x60] @
       '' succeeds.'' @
       [CHR 0x0A] @
       ''- When you changed code, include this integration block in pool_chat before '' @
       ''complete_todo:'' @
       [CHR 0x0A] @
       ''  Branch: koi/{name}-{todo_id}'' @
       [CHR 0x0A] @
       ''  Touches: <relative/paths you edited>'' @
       [CHR 0x0A] @
       ''  Depends-on: <upstream todo/branch or none>'' @
       [CHR 0x0A] @
       ''  Verify: <command you ran>'' @
       [CHR 0x0A] @
       ''  Ready-for-merge: yes'' @
       [CHR 0x0A, CHR 0x0A] @
       ''End-of-run checklist (do ALL before stopping; missing any one triggers '' @
       [CHR 0x60] @
       ''needs_review'' @
       [CHR 0x60] @
       '' / protocol_reminder):'' @
       [CHR 0x0A] @
       ''1. Called pool_chat with the deliverable (or file path + summary for long results).'' @
       [CHR 0x0A] @
       ''2. If handing off: included '' @
       [CHR 0x60] @
       ''[ProjectStatus] follow_up_needed'' @
       [CHR 0x60] @
       '' and the @!Name delegated mention in that same pool_chat message.'' @
       [CHR 0x0A] @
       ''3. Called pool_org(action='' @
       [CHR 0x22] @
       ''complete_todo'' @
       [CHR 0x22] @
       '', todo_id='' @
       [CHR 0x22] @
       ''{todo_id}'' @
       [CHR 0x22] @
       '', summary='' @
       [CHR 0x22] @
       ''<what you accomplished>'' @
       [CHR 0x22] @
       '') '' @
       [CHR 0xE2, CHR 0x80, CHR 0x94] @
       '' this is mandatory; chat posts alone do NOT close the todo.'' @
       [CHR 0x0A, CHR 0x0A] @
       ''When you learn something important about the project (decisions, architecture, '' @
       ''patterns, pitfalls), write it to the kb/ directory so other agents can benefit.]'' @
       [CHR 0x0A])"

text \<open>\<^verbatim>\<open>From<&PoolMessage> for PoolMessageSnapshot\<close>.\<close>

definition message_snapshot :: "ext \<Rightarrow> PoolMessage \<Rightarrow> PoolMessageSnapshot" where
  "message_snapshot x m = \<lparr>
     pms_id = pm_id m, pms_pool_session_id = pm_pool_session_id m, pms_sender_id = pm_sender_id m,
     pms_content = pm_content m, pms_msg_type = pm_msg_type m,
     pms_metadata =
       (if trim (pm_metadata m) = [] then JNull
        else case ex_json_from_str x (pm_metadata m) of None \<Rightarrow> JNull | Some j \<Rightarrow> j),
     pms_todo_id = pm_todo_id m, pms_reply_to_message_id = pm_reply_to_message_id m,
     pms_event_type = pm_event_type m, pms_created_at = pm_created_at m \<rparr>"

section \<open>Before a turn\<close>

definition resolve_turn_context ::
  "ext \<Rightarrow> ExecuteTodoArgs \<Rightarrow> (KoiDefinition \<times> KoiTodo \<times> PoolSession option) M" where
  "resolve_turn_context x args =
     bindM (resolve_koi_identifier x (ea_koi_id args)) (\<lambda>koi_opt.
     bindM (get_koi_todo x (ea_todo_id args)) (\<lambda>todo_opt.
     bindM (ok_or todo_opt (Anyhow (''Todo '' @ sq (ea_todo_id args) @ '' not found''))) (\<lambda>todo.
     bindM (case koi_opt of
              Some k \<Rightarrow> ret k
            | None \<Rightarrow>
                bindM (resolve_koi_identifier x (td_owner_id todo)) (\<lambda>owner.
                ok_or owner (Anyhow (''Koi '' @ sq (ea_koi_id args) @ '' not found'')))) (\<lambda>koi.
     bindM (case td_pool_session_id todo of
              Some pid \<Rightarrow> resolve_pool_session_identifier x pid
            | None \<Rightarrow> ret None) (\<lambda>pool_session.
     ret (koi, todo, pool_session))))))"

definition ensure_pool_allows_runtime_work :: "PoolSession \<Rightarrow> string \<Rightarrow> unit M" where
  "ensure_pool_allows_runtime_work pool action =
     guardM (ps_status pool = ''active'')
       (Anyhow (''Pool '' @ sq (ps_name pool) @ '' is '' @ ps_status pool @ '' and cannot '' @
          action @ '' until it is resumed''))"

text \<open>The write closure of \<^verbatim>\<open>execute_todo_turn\<close> that takes the todo and the Koi together.\<close>

definition claim_fence :: "ext \<Rightarrow> string \<Rightarrow> string \<Rightarrow> bool M" where
  "claim_fence x claim_id claim_owner =
     bindM (koi_has_other_in_progress_todo claim_owner claim_id) (\<lambda>other.
     if other then ret False
     else bindM (try_claim_koi_todo x claim_id claim_owner) (\<lambda>claimed.
       bindM (whenM claimed (update_koi_status x claim_owner ''busy'')) (\<lambda>_.
       ret claimed)))"

definition announce_claim ::
  "ext \<Rightarrow> KoiDefinition \<Rightarrow> KoiTodo \<Rightarrow> string option \<Rightarrow> int option \<Rightarrow> unit M" where
  "announce_claim x koi todo pool_id assign_msg_id =
     bindM (get_koi_todo x (td_id todo)) (\<lambda>refreshed.
     bindM (case refreshed of
              None \<Rightarrow> ret ()
            | Some t \<Rightarrow> emit_pool (TodoChanged (case pool_id of None \<Rightarrow> [] | Some p \<Rightarrow> p) Claimed
                (todo_snapshot t))) (\<lambda>_.
     case pool_id of
       None \<Rightarrow> ret ()
     | Some psid \<Rightarrow>
         bindM (insert_pool_message_ext x psid (kd_id koi)
           (kd_name koi @ ('' '' @
       [CHR 0xE6, CHR 0x8E, CHR 0xA5, CHR 0xE5, CHR 0x8F, CHR 0x97, CHR 0xE4, CHR 0xBA, CHR 0x86,
       CHR 0xE4, CHR 0xBB, CHR 0xBB, CHR 0xE5, CHR 0x8A, CHR 0xA1] @
       '': '') @ td_title todo) ''task_claimed'' ''{}''
           (Some (td_id todo)) assign_msg_id (Some ''task_claimed'')) (\<lambda>msg.
         emit_pool (MessageAppended psid (message_snapshot x msg)))))"

definition maybe_setup_worktree ::
  "ext \<Rightarrow> CoordinatorConfig \<Rightarrow> string option \<Rightarrow> KoiDefinition \<Rightarrow> KoiTodo \<Rightarrow> string option M" where
  "maybe_setup_worktree x cfg pool_id koi todo =
     (if \<not> cc_use_worktrees cfg then ret None
      else case pool_id of
        None \<Rightarrow> ret None
      | Some psid \<Rightarrow>
          bindM (attempt (get_pool_session x psid)) (\<lambda>r.
          case r of
            Inr (Some s) \<Rightarrow>
              (case ps_project_dir s of
                 None \<Rightarrow> ret None
               | Some dir \<Rightarrow> setup_worktree x dir (kd_name koi) (td_id todo))
          | _ \<Rightarrow> ret None))"

definition render_execute_prompt :: "KoiDefinition \<Rightarrow> KoiTodo \<Rightarrow> string option \<Rightarrow> string" where
  "render_execute_prompt koi todo project_dir =
     (let short_id = take_chars 8 (td_id todo);
          project_dir_str = (case project_dir of Some d \<Rightarrow> d
            | None \<Rightarrow> (''(not set '' @
       [CHR 0xE2, CHR 0x80, CHR 0x94] @
       '' this is a global pool without a project directory)''))
      in replace_str ''{project_dir}'' project_dir_str
           (replace_str ''{todo_id}'' short_id
             (replace_str ''{name}'' (kd_name koi)
               (replace_str ''{task}'' (td_title todo) KOI_EXECUTE_TODO_PROMPT))))"

definition koi_timeout_for_todo :: "KoiDefinition \<Rightarrow> u32 \<Rightarrow> u32 \<Rightarrow> u32" where
  "koi_timeout_for_todo koi todo_timeout_secs default_secs =
     (if todo_timeout_secs > 0 then todo_timeout_secs
      else if kd_task_timeout_secs koi > 0 then kd_task_timeout_secs koi
      else default_secs)"

section \<open>Recording the outcome\<close>

text \<open>Board states that already satisfy the stop gate.\<close>

definition is_todo_board_reconciled :: "string \<Rightarrow> bool" where
  "is_todo_board_reconciled status \<longleftrightarrow>
     status \<in> set [''done'', ''blocked'', ''cancelled'', ''needs_review'']"

definition refresh_todo :: "ext \<Rightarrow> string \<Rightarrow> KoiTodo option M" where
  "refresh_todo x todo_id = get_koi_todo x todo_id"

definition status_is :: "string \<Rightarrow> KoiTodo option \<Rightarrow> bool" where
  "status_is s current = (case current of None \<Rightarrow> False | Some t \<Rightarrow> td_status t = s)"

definition reconciled :: "KoiTodo option \<Rightarrow> bool" where
  "reconciled current =
     (case current of None \<Rightarrow> False | Some t \<Rightarrow> is_todo_board_reconciled (td_status t))"

definition first_chars :: "string \<Rightarrow> nat \<Rightarrow> string" where
  "first_chars s n = (if count_chars s \<le> n then s else take_chars n s)"

definition insert_ext_message ::
  "ext \<Rightarrow> string \<Rightarrow> string \<Rightarrow> string \<Rightarrow> string \<Rightarrow> string \<Rightarrow> string option \<Rightarrow> int option \<Rightarrow>
     string option \<Rightarrow> PoolMessage M" where
  "insert_ext_message x pool_id sender_id content msg_type metadata todo_id reply_to event_type =
     insert_pool_message_ext x pool_id sender_id content msg_type metadata todo_id reply_to event_type"

text \<open>A message followed by its \<open>MessageAppended\<close>; the message's identifier.\<close>

definition post_message ::
  "ext \<Rightarrow> string \<Rightarrow> string \<Rightarrow> string \<Rightarrow> string \<Rightarrow> string \<Rightarrow> string option \<Rightarrow> int option \<Rightarrow>
     string option \<Rightarrow> int option M" where
  "post_message x psid sender_id content msg_type metadata todo_id reply_to event_type =
     bindM (insert_ext_message x psid sender_id content msg_type metadata todo_id reply_to event_type)
       (\<lambda>msg.
     bindM (emit_pool (MessageAppended psid (message_snapshot x msg))) (\<lambda>_.
     ret (Some (pm_id msg))))"

text \<open>
  The Koi posted a result without completing the todo: the latest unlinked result is linked, and a
  todo in progress is completed with it. Yields the message, the todo as read last, and whether the
  completion is recorded. The flags \<^verbatim>\<open>todo_already_done\<close> and \<^verbatim>\<open>todo_already_reconciled\<close> of the
  source are always those of the todo read last, and are computed from it here.
\<close>

definition close_with_unlinked_result ::
  "ext \<Rightarrow> string \<Rightarrow> KoiDefinition \<Rightarrow> KoiTodo \<Rightarrow> KoiTodo option \<Rightarrow> bool \<Rightarrow>
     (int option \<times> KoiTodo option \<times> bool) M" where
  "close_with_unlinked_result x psid koi todo current completion_recorded =
     bindM (get_latest_unlinked_result_message_id psid (kd_id koi)) (\<lambda>existing.
     case existing of
       None \<Rightarrow> ret (None, current, completion_recorded)
     | Some msg_id \<Rightarrow>
         bindM (ignore (link_pool_message_to_todo msg_id (td_id todo))) (\<lambda>_.
         bindM (if status_is ''in_progress'' current
                then bindM (complete_koi_todo x (td_id todo) (Some msg_id)) (\<lambda>_.
                     bindM (refresh_todo x (td_id todo)) (\<lambda>current.
                     ret (current, True)))
                else ret (current, completion_recorded)) (\<lambda>(current, completion_recorded).
         bindM (attempt (get_pool_message_by_id x msg_id)) (\<lambda>r.
         bindM (case r of
                  Inr (Some msg) \<Rightarrow> emit_pool (MessageAppended psid (message_snapshot x msg))
                | _ \<Rightarrow> ret ()) (\<lambda>_.
         ret (Some msg_id, current, completion_recorded))))))"

definition post_failure ::
  "ext \<Rightarrow> string \<Rightarrow> KoiDefinition \<Rightarrow> KoiTodo \<Rightarrow> int option \<Rightarrow> string \<Rightarrow> int option M" where
  "post_failure x psid koi todo assign_msg_id raw_reply =
     post_message x psid (kd_id koi) (first_chars raw_reply 5000) ''status_update''
       (ex_json_to_string x (JObj [(''todo_id'', JStr (td_id todo)), (''success'', JBool False)]))
       (Some (td_id todo)) assign_msg_id (Some ''task_failed'')"

definition post_reminder ::
  "ext \<Rightarrow> string \<Rightarrow> KoiDefinition \<Rightarrow> KoiTodo \<Rightarrow> int option \<Rightarrow> string \<Rightarrow> int option M" where
  "post_reminder x psid koi todo assign_msg_id raw_reply =
     (let koi_output =
        (if 5000 < count_chars raw_reply then first_chars raw_reply 5000 @ ''...'' else raw_reply)
      in bindM (whenM (trim koi_output \<noteq> [])
           (bindM (post_message x psid (kd_id koi) koi_output ''status_update''
              (ex_json_to_string x (JObj [(''todo_id'', JStr (td_id todo)),
                 (''auto_captured'', JBool True)]))
              (Some (td_id todo)) assign_msg_id (Some ''task_progress'')) (\<lambda>_. ret ()))) (\<lambda>_.
         post_message x psid ''system''
           (''[ProtocolReminder] '' @ kd_name koi @ '' finished executing on '' @ sq (td_title todo) @
            '' without calling complete_todo. The task output has been captured above. '' @
            ''Todo status set to needs_review.'') ''status_update''
           (ex_json_to_string x (JObj [(''todo_id'', JStr (td_id todo)),
              (''protocol_reminder'', JStr ''missing_complete_todo'')]))
           (Some (td_id todo)) assign_msg_id (Some ''protocol_reminder'')))"

text \<open>The write closure of the safety net.\<close>

definition apply_safety_net ::
  "ext \<Rightarrow> KoiTodo \<Rightarrow> bool \<Rightarrow> bool \<Rightarrow> bool \<Rightarrow> string \<Rightarrow> int option \<Rightarrow> unit M" where
  "apply_safety_net x todo run_success test_mode_completed completion_recorded raw_reply rmid =
     (if \<not> run_success then block_koi_todo x (td_id todo) raw_reply
      else if test_mode_completed then complete_koi_todo x (td_id todo) rmid
      else if \<not> completion_recorded
      then mark_koi_todo_needs_review x (td_id todo) ''Agent finished without calling complete_todo''
      else ret ())"

definition outcome_action :: "KoiTodo option \<Rightarrow> bool \<Rightarrow> bool \<Rightarrow> TodoChangeAction" where
  "outcome_action current completion_recorded run_success =
     (if status_is ''done'' current \<or> completion_recorded then Completed
      else if \<not> run_success \<or> status_is ''blocked'' current then Blocked
      else Updated)"

text \<open>The message of the turn, by its outcome; none without a pool.\<close>

definition record_message ::
  "ext \<Rightarrow> string option \<Rightarrow> KoiDefinition \<Rightarrow> KoiTodo \<Rightarrow> int option \<Rightarrow> bool \<Rightarrow> string \<Rightarrow>
     KoiTodo option \<Rightarrow> bool \<Rightarrow> bool \<Rightarrow> (int option \<times> KoiTodo option \<times> bool) M" where
  "record_message x pool_id koi todo assign_msg_id run_success raw_reply current
     explicitly_completed completion_recorded =
     (case pool_id of
        None \<Rightarrow> ret (None, current, completion_recorded)
      | Some psid \<Rightarrow>
          if run_success \<and> trim raw_reply = [] \<and> explicitly_completed
          then close_with_unlinked_result x psid koi todo current completion_recorded
          else if \<not> run_success
          then bindM (post_failure x psid koi todo assign_msg_id raw_reply) (\<lambda>i.
               ret (i, current, completion_recorded))
          else if \<not> status_is ''done'' current \<and> \<not> completion_recorded \<and> \<not> reconciled current
          then bindM (post_reminder x psid koi todo assign_msg_id raw_reply) (\<lambda>i.
               ret (i, current, completion_recorded))
          else ret (None, current, completion_recorded))"

definition record_turn_outcome ::
  "ext \<Rightarrow> string option \<Rightarrow> KoiDefinition \<Rightarrow> KoiTodo \<Rightarrow> int option \<Rightarrow> bool \<Rightarrow> string \<Rightarrow>
     int option M" where
  "record_turn_outcome x pool_id koi todo assign_msg_id run_success raw_reply =
     bindM (refresh_todo x (td_id todo)) (\<lambda>current.
     bindM (case pool_id of
              Some psid \<Rightarrow>
                if run_success \<and> trim raw_reply = []
                then bindM (get_latest_unlinked_result_message_id psid (kd_id koi)) (\<lambda>i. ret (i \<noteq> None))
                else ret False
            | None \<Rightarrow> ret False) (\<lambda>explicitly_completed.
     let test_mode_completed =
           (run_success \<and> pool_id = None \<and> starts_with raw_reply ''[TestMode]'');
         completion_recorded = (explicitly_completed \<or> test_mode_completed)
     in bindM (record_message x pool_id koi todo assign_msg_id run_success raw_reply current
          explicitly_completed completion_recorded)
          (\<lambda>(result_msg_id, current, completion_recorded).
        bindM (if \<not> reconciled current then refresh_todo x (td_id todo) else ret current) (\<lambda>current.
        bindM (whenM (\<not> status_is ''done'' current \<and> \<not> reconciled current)
          (apply_safety_net x todo run_success test_mode_completed completion_recorded raw_reply
             result_msg_id)) (\<lambda>_.
        bindM (get_koi_todo x (td_id todo)) (\<lambda>refreshed.
        bindM (case refreshed of
                 None \<Rightarrow> ret ()
               | Some t \<Rightarrow> emit_pool (TodoChanged (case pool_id of None \<Rightarrow> [] | Some p \<Rightarrow> p)
                   (outcome_action current completion_recorded run_success) (todo_snapshot t))) (\<lambda>_.
        ret result_msg_id)))))))"

section \<open>A turn\<close>

text \<open>The run's success and the reply it is recorded with.\<close>

definition turn_reply :: "KoiDefinition \<Rightarrow> string \<Rightarrow> u32 \<Rightarrow> KoiTurnOutcome \<Rightarrow> bool \<times> string" where
  "turn_reply koi task timeout_secs outcome =
     (case oc_exit_kind outcome of
        TurnCompleted \<Rightarrow> (True, oc_response_text outcome)
      | TurnCancelled \<Rightarrow>
          (False, case oc_error outcome of Some e \<Rightarrow> e | None \<Rightarrow> ''Koi turn cancelled'')
      | TurnTimedOut \<Rightarrow>
          (False, ''Koi '' @ sq (kd_name koi) @ '' timed out after '' @ nat_digits (unat timeout_secs) @
             '' seconds on task: '' @ task)
      | TurnCrashed \<Rightarrow>
          (False, case oc_error outcome of Some e \<Rightarrow> e
                  | None \<Rightarrow> ''Koi '' @ sq (kd_name koi) @ '' subagent crashed''))"

definition turn_timeout :: "CoordinatorConfig \<Rightarrow> KoiDefinition \<Rightarrow> KoiTodo \<Rightarrow> u32" where
  "turn_timeout cfg koi todo =
     max (cc_default_task_timeout_secs cfg)
       (koi_timeout_for_todo koi (td_task_timeout_secs todo) (cc_default_task_timeout_secs cfg))"

definition execute_todo_turn_inner ::
  "ext \<Rightarrow> runtime \<Rightarrow> CoordinatorConfig \<Rightarrow> KoiDefinition \<Rightarrow> KoiTodo \<Rightarrow> PoolSession option \<Rightarrow>
     ExecuteTodoArgs \<Rightarrow> KoiExecResult M" where
  "execute_todo_turn_inner x rt cfg koi todo pool_session args =
     (let canonical_pool_id = map_option ps_id pool_session
      in bindM (maybe_setup_worktree x cfg canonical_pool_id koi todo) (\<lambda>worktree.
      let workspace = (case worktree of Some wt \<Rightarrow> Some wt
            | None \<Rightarrow> nonblank (Option.bind pool_session ps_project_dir))
      in bindM (whenM (workspace \<noteq> None)
           (ignore (set_koi_todo_git_branch x (td_id todo)
              (koi_branch_name (kd_name koi) (td_id todo))))) (\<lambda>_.
      let task = td_title todo;
          timeout_secs = turn_timeout cfg koi todo;
          request = \<lparr>
            rq_pool_id = (case canonical_pool_id of None \<Rightarrow> [] | Some p \<Rightarrow> p),
            rq_koi_id = kd_id koi, rq_session_id = ea_session_id args,
            rq_todo_id = Some (td_id todo), rq_system_prompt = kd_system_prompt koi,
            rq_user_prompt =
              render_execute_prompt koi todo (Option.bind pool_session ps_project_dir),
            rq_workspace = workspace, rq_task_timeout_secs = Some timeout_secs,
            rq_extra_tool_profile = ea_extra_tool_profile args,
            rq_extra_system_context = ea_extra_system_context args \<rparr>
      in bindM (run_subagent_turn rt request timeout_secs) (\<lambda>outcome.
      let (success, raw_reply) = turn_reply koi task timeout_secs outcome
      in bindM (record_turn_outcome x canonical_pool_id koi todo (ea_assign_msg_id args) success
           raw_reply) (\<lambda>result_msg_id.
      bindM (case workspace of
               Some wt \<Rightarrow> whenM (cc_use_worktrees cfg) (cleanup_worktree x wt (kd_name koi) task)
             | None \<Rightarrow> ret ()) (\<lambda>_.
      ret \<lparr> er_success = success, er_reply = raw_reply, er_result_message_id = result_msg_id,
            er_exit_kind = oc_exit_kind outcome \<rparr>))))))"

text \<open>The write closure that sets the Koi idle again.\<close>

definition restore_idle :: "ext \<Rightarrow> string \<Rightarrow> unit M" where
  "restore_idle x koi_id =
     bindM (koi_has_in_progress_todo koi_id) (\<lambda>busy.
     whenM (\<not> busy) (update_koi_status x koi_id ''idle''))"

definition execute_todo_turn ::
  "ext \<Rightarrow> runtime \<Rightarrow> CoordinatorConfig \<Rightarrow> ExecuteTodoArgs \<Rightarrow> KoiExecResult M" where
  "execute_todo_turn x rt cfg args =
     bindM (resolve_turn_context x args) (\<lambda>(koi, todo, pool_session).
     bindM (case pool_session of
              None \<Rightarrow> ret ()
            | Some pool \<Rightarrow> ensure_pool_allows_runtime_work pool ''run Koi work'') (\<lambda>_.
     bindM (list_koi_todos x None) (\<lambda>todos.
     bindM (guardM (is_todo_dependency_satisfied todo todos)
       (Anyhow (''Todo '' @ sq (short (td_id todo)) @ '' cannot start yet: depends_on '' @
          debug_opt_str (td_depends_on todo) @ '' is not satisfied (upstream must be done '' @
          ''and merged when it produced a git branch).''))) (\<lambda>_.
     bindM (claim_fence x (td_id todo) (kd_id koi)) (\<lambda>won_claim.
     if \<not> won_claim
     then ret (skipped ''duplicate dispatch skipped: todo already in progress or Koi busy'')
     else bindM (announce_claim x koi todo (map_option ps_id pool_session) (ea_assign_msg_id args))
       (\<lambda>_.
     bindM (attempt (execute_todo_turn_inner x rt cfg koi todo pool_session args)) (\<lambda>result.
     bindM (ignore (restore_idle x (kd_id koi))) (\<lambda>_.
     lift_result result))))))))"

section \<open>Resuming and replacing\<close>

definition task_session_id :: "string \<Rightarrow> string \<Rightarrow> string" where
  "task_session_id koi_id todo_id = ''koi_task_'' @ koi_id @ ''_'' @ short todo_id"

text \<open>The arguments of the turns that the coordinator starts itself.\<close>

definition turn_args :: "string \<Rightarrow> string \<Rightarrow> ExecuteTodoArgs" where
  "turn_args koi_id todo_id = \<lparr>
     ea_koi_id = koi_id, ea_todo_id = todo_id, ea_assign_msg_id = None,
     ea_session_id = task_session_id koi_id todo_id, ea_extra_tool_profile = [],
     ea_extra_system_context = None \<rparr>"

text \<open>The pool of a todo that is to be worked on: it must exist and be active.\<close>

definition workable_pool :: "ext \<Rightarrow> KoiTodo \<Rightarrow> string \<Rightarrow> PoolSession option M" where
  "workable_pool x todo action =
     (case td_pool_session_id todo of
        None \<Rightarrow> ret None
      | Some pid \<Rightarrow>
          bindM (resolve_pool_session_identifier x pid) (\<lambda>p.
          bindM (ok_or p (Anyhow (''Pool '' @ sq pid @ '' not found''))) (\<lambda>pool.
          bindM (ensure_pool_allows_runtime_work pool action) (\<lambda>_.
          ret (Some pool)))))"

definition pool_id_or_empty :: "PoolSession option \<Rightarrow> string" where
  "pool_id_or_empty pool_session = (case pool_session of None \<Rightarrow> [] | Some p \<Rightarrow> ps_id p)"

definition resume_blocked_todo :: "ext \<Rightarrow> string \<Rightarrow> string \<Rightarrow> KoiTodo M" where
  "resume_blocked_todo x todo_id triggered_by =
     bindM (get_koi_todo x todo_id) (\<lambda>t.
     bindM (ok_or t (Anyhow (''Todo '' @ sq todo_id @ '' not found''))) (\<lambda>todo.
     bindM (guardM (td_status todo \<in> set [''blocked'', ''needs_review''])
       (Anyhow (''Todo '' @ sq (td_id todo) @ '' is '' @ sq (td_status todo) @
          '' and cannot be resumed. Only blocked/needs_review todos are resumable.''))) (\<lambda>_.
     bindM (resolve_koi_identifier x (td_owner_id todo)) (\<lambda>o'.
     bindM (ok_or o' (Anyhow (''Owner '' @ sq (td_owner_id todo) @ '' not found''))) (\<lambda>owner.
     bindM (workable_pool x todo ''resume Koi work'') (\<lambda>pool_session.
     bindM (case pool_session of
              None \<Rightarrow> ret ()
            | Some pool \<Rightarrow>
                bindM (post_message x (ps_id pool) triggered_by
                  (''[Task Resumed] '' @ triggered_by @ '' resumed '' @ sq (td_title todo) @ '' for '' @
                     kd_name owner @ ''.'') ''status_update''
                  (ex_json_to_string x (JObj [(''todo_id'', JStr (td_id todo)),
                     (''resumed_by'', JStr triggered_by), (''owner_id'', JStr (kd_id owner))]))
                  (Some (td_id todo)) None (Some ''task_resumed'')) (\<lambda>_. ret ())) (\<lambda>_.
     bindM (utc_now x) (\<lambda>claimed_at.
     bindM (utc_now x) (\<lambda>updated_at.
     bindM (emit_pool (TodoChanged (pool_id_or_empty pool_session) Resumed
       (todo_snapshot (todo\<lparr>td_status := ''in_progress'', td_claimed_by := Some (kd_id owner),
          td_claimed_at := Some claimed_at, td_blocked_reason := None,
          td_updated_at := updated_at\<rparr>)))) (\<lambda>_.
     bindM (spawn (ExecuteJob (turn_args (kd_id owner) (td_id todo)))) (\<lambda>_.
     bindM (get_koi_todo x (td_id todo)) (\<lambda>t.
     ok_or t (Anyhow (''Todo '' @ sq (td_id todo) @ '' disappeared after resume''))))))))))))))"

definition todo_source_type :: "string \<Rightarrow> string" where
  "todo_source_type actor =
     (if actor = ''piscis'' then ''piscis'' else if actor = ''user'' then ''user''
      else if actor = ''system'' then ''system'' else ''koi'')"

definition replace_blocked_todo ::
  "ext \<Rightarrow> string \<Rightarrow> string \<Rightarrow> string \<Rightarrow> string \<Rightarrow> string \<Rightarrow> u32 option \<Rightarrow> KoiTodo M" where
  "replace_blocked_todo x todo_id new_owner_id task reason triggered_by task_timeout_secs =
     (let task = trim task; reason = trim reason
      in bindM (guardM (task \<noteq> []) (Anyhow ''Replacement task cannot be empty.'')) (\<lambda>_.
         bindM (guardM (reason \<noteq> []) (Anyhow ''Replacement reason cannot be empty.'')) (\<lambda>_.
         bindM (get_koi_todo x todo_id) (\<lambda>t.
         bindM (ok_or t (Anyhow (''Todo '' @ sq todo_id @ '' not found''))) (\<lambda>original.
         bindM (guardM (td_status original \<notin> set [''done'', ''cancelled''])
           (Anyhow (''Todo '' @ sq (td_id original) @ '' is '' @ sq (td_status original) @
              '' and cannot be replaced.''))) (\<lambda>_.
         bindM (resolve_koi_identifier x new_owner_id) (\<lambda>o'.
         bindM (ok_or o' (Anyhow (''Koi '' @ sq new_owner_id @ '' not found''))) (\<lambda>new_owner.
         bindM (workable_pool x original ''replace Koi todo'') (\<lambda>pool_session.
         bindM (replace_koi_todo x original (kd_id new_owner) task
           (''Replacement for '' @ sq (td_title original) @ '' because: '' @ reason) triggered_by
           (todo_source_type triggered_by) reason task_timeout_secs) (\<lambda>replacement.
         bindM (emit_pool (TodoChanged (pool_id_or_empty pool_session) Cancelled
           (todo_snapshot original))) (\<lambda>_.
         bindM (emit_pool (TodoChanged (pool_id_or_empty pool_session) Replaced
           (todo_snapshot replacement))) (\<lambda>_.
         bindM (case pool_session of
                  None \<Rightarrow> ret ()
                | Some pool \<Rightarrow>
                    bindM (post_message x (ps_id pool) triggered_by
                      (''[Task Replaced] '' @ sq (td_title original) @ '' was replaced by '' @
                         sq (td_title replacement) @ '' for '' @ kd_name new_owner @ ''. Reason: '' @
                         reason) ''status_update''
                      (ex_json_to_string x (JObj [(''todo_id'', JStr (td_id original)),
                         (''replacement_todo_id'', JStr (td_id replacement)),
                         (''new_owner_id'', JStr (kd_id new_owner))]))
                      (Some (td_id original)) None (Some ''task_replaced'')) (\<lambda>_. ret ())) (\<lambda>_.
         bindM (spawn (ExecuteJob (turn_args (kd_id new_owner) (td_id replacement)))) (\<lambda>_.
         ret replacement))))))))))))))"

section \<open>Mentions\<close>

definition is_mention_delimiter :: "string \<Rightarrow> bool" where
  "is_mention_delimiter ch \<longleftrightarrow>
     is_whitespace ch \<or>
     ch \<in> set ['':'', [CHR 0xEF, CHR 0xBC, CHR 0x9A], ''-'', [CHR 0xE2, CHR 0x80, CHR 0x94], '','', [CHR 0xEF, CHR 0xBC, CHR 0x8C], ''.'']"

text \<open>
  The closure on one line; the slice is taken at the byte length of the needle in the line as it is,
  and panics when that is no character boundary.
\<close>

definition line_delegates :: "string \<Rightarrow> string \<Rightarrow> bool option" where
  "line_delegates needle line =
     (let line = trim_start line
      in if \<not> starts_with (to_lowercase line) (to_lowercase needle) then Some False
         else map_option (\<lambda>rest. case chars rest of [] \<Rightarrow> True | ch # _ \<Rightarrow> is_mention_delimiter ch)
                (slice_from line (length needle)))"

text \<open>\<^verbatim>\<open>Iterator::any\<close>, with a closure that may panic.\<close>

fun any_opt :: "('a \<Rightarrow> bool option) \<Rightarrow> 'a list \<Rightarrow> bool option" where
  "any_opt f [] = Some False"
| "any_opt f (a # as) =
     (case f a of None \<Rightarrow> None | Some b \<Rightarrow> if b then Some True else any_opt f as)"

definition has_live_delegated_mention :: "string \<Rightarrow> string \<Rightarrow> bool option" where
  "has_live_delegated_mention content name =
     any_opt (line_delegates (''@!'' @ name)) (str_lines content)"

fun mention_loop :: "bool \<Rightarrow> string \<Rightarrow> KoiDefinition list \<Rightarrow> KoiDefinition list option" where
  "mention_loop delegate_all content [] = Some []"
| "mention_loop delegate_all content (koi # kois) =
     (case if delegate_all then Some True else has_live_delegated_mention content (kd_name koi) of
        None \<Rightarrow> None
      | Some delegate \<Rightarrow>
          map_option (\<lambda>rest. if delegate then koi # rest else rest)
            (mention_loop delegate_all content kois))"

definition parse_mention_targets ::
  "KoiDefinition list \<Rightarrow> string \<Rightarrow> string \<Rightarrow> KoiDefinition list option" where
  "parse_mention_targets kois sender_id content =
     Option.bind (has_live_delegated_mention content ''all'') (\<lambda>delegate_all.
     mention_loop delegate_all content
       (filter (\<lambda>koi. kd_status koi \<noteq> ''offline'' \<and> kd_id koi \<noteq> sender_id) kois))"

definition create_mention_todo ::
  "ext \<Rightarrow> string \<Rightarrow> string \<Rightarrow> string \<Rightarrow> string \<Rightarrow> KoiTodo M" where
  "create_mention_todo x owner sender_id pool_session_id content =
     create_koi_todo x owner (take_chars 120 content) content ''medium'' sender_id
       (Some pool_session_id) ''mention'' None 0"

definition dispatch_mention ::
  "ext \<Rightarrow> string \<Rightarrow> string \<Rightarrow> string \<Rightarrow> KoiDefinition \<Rightarrow> unit M" where
  "dispatch_mention x sender_id pool_session_id content koi =
     bindM (create_mention_todo x (kd_id koi) sender_id pool_session_id content) (\<lambda>todo.
     bindM (emit_pool (TodoChanged pool_session_id Created (todo_snapshot todo))) (\<lambda>_.
     if kd_status koi \<noteq> ''idle'' then ret ()
     else spawn (ExecuteJob (turn_args (kd_id koi) (td_id todo)))))"

definition handle_mention :: "ext \<Rightarrow> string \<Rightarrow> string \<Rightarrow> string \<Rightarrow> unit M" where
  "handle_mention x sender_id pool_session_id content =
     bindM (attempt (list_kois x)) (\<lambda>r.
     let kois = (case r of Inr ks \<Rightarrow> ks | Inl _ \<Rightarrow> [])
     in bindM (if sender_id \<noteq> ''piscis''
               then ok_or (has_live_delegated_mention content ''Piscis'') Panicked
               else ret False) (\<lambda>to_piscis.
        bindM (whenM to_piscis
          (bindM (ignore (upsert_koi_with_id x ''piscis'' ''Piscis'')) (\<lambda>_.
           bindM (create_mention_todo x ''piscis'' sender_id pool_session_id content) (\<lambda>todo.
           emit_pool (TodoChanged pool_session_id Created (todo_snapshot todo)))))) (\<lambda>_.
        bindM (ok_or (parse_mention_targets kois sender_id content) Panicked) (\<lambda>targets.
        forM targets (dispatch_mention x sender_id pool_session_id content)))))"

section \<open>Patrols\<close>

definition is_pending :: "string option \<Rightarrow> string list \<Rightarrow> KoiTodo \<Rightarrow> bool" where
  "is_pending pool_session_id active_pool_ids t =
     (if td_status t \<noteq> ''todo'' \<or> td_claimed_by t \<noteq> None then False
      else case pool_session_id of
             Some psid \<Rightarrow> td_pool_session_id t = Some psid \<and> psid \<in> set active_pool_ids
           | None \<Rightarrow> td_pool_session_id t = None)"

definition activate_one ::
  "ext \<Rightarrow> runtime \<Rightarrow> CoordinatorConfig \<Rightarrow> KoiTodo list \<Rightarrow> KoiTodo \<Rightarrow> bool M" where
  "activate_one x rt cfg todos todo =
     (if \<not> is_todo_dependency_satisfied todo todos then ret False
      else bindM (attempt (get_koi x (td_owner_id todo))) (\<lambda>r.
        let koi_status = (case r of Inr (Some k) \<Rightarrow> kd_status k | _ \<Rightarrow> ''offline'')
        in if koi_status \<noteq> ''idle'' then ret False
           else bindM (attempt (execute_todo_turn x rt cfg (turn_args (td_owner_id todo) (td_id todo))))
             (\<lambda>r. ret (\<not> isl r))))"

definition activate_pending_todos ::
  "ext \<Rightarrow> runtime \<Rightarrow> CoordinatorConfig \<Rightarrow> string option \<Rightarrow> nat M" where
  "activate_pending_todos x rt cfg pool_session_id =
     bindM (list_koi_todos x None) (\<lambda>todos.
     bindM (list_pool_sessions x) (\<lambda>pools.
     let active_pool_ids = map ps_id (filter (\<lambda>p. ps_status p = ''active'') pools);
         pending = filter (is_pending pool_session_id active_pool_ids) todos
     in bindM (collectM pending (activate_one x rt cfg todos)) (\<lambda>activated.
        ret (length (filter id activated)))))"

definition watchdog_recover :: "ext \<Rightarrow> int \<Rightarrow> (nat \<times> nat) M" where
  "watchdog_recover x max_busy_secs =
     bindM (attempt (recover_stale_busy_kois x max_busy_secs)) (\<lambda>k.
     bindM (attempt (recover_stale_in_progress_todos x max_busy_secs)) (\<lambda>t.
     ret (case k of Inr n \<Rightarrow> n | Inl _ \<Rightarrow> 0, case t of Inr n \<Rightarrow> n | Inl _ \<Rightarrow> 0)))"

definition assign_and_execute ::
  "ext \<Rightarrow> runtime \<Rightarrow> CoordinatorConfig \<Rightarrow> string \<Rightarrow> string \<Rightarrow> string \<Rightarrow> string \<Rightarrow> u32 option \<Rightarrow>
     KoiExecResult M" where
  "assign_and_execute x rt cfg koi_id task assigned_by priority task_timeout_secs =
     bindM (resolve_koi_identifier x koi_id) (\<lambda>k.
     bindM (ok_or k (Anyhow (''Koi '' @ sq koi_id @ '' not found''))) (\<lambda>koi_def.
     bindM (create_koi_todo x (kd_id koi_def) task [] priority assigned_by None assigned_by None
       (case task_timeout_secs of None \<Rightarrow> 0 | Some s \<Rightarrow> s)) (\<lambda>todo.
     execute_todo_turn x rt cfg (turn_args (kd_id koi_def) (td_id todo)))))"

definition find_active_todo_for_koi :: "ext \<Rightarrow> string \<Rightarrow> string \<Rightarrow> KoiTodo option M" where
  "find_active_todo_for_koi x koi_id pool_session_id =
     bindM (attempt (list_koi_todos x (Some koi_id))) (\<lambda>r.
     case r of
       Inl _ \<Rightarrow> ret None
     | Inr todos \<Rightarrow> ret (List.find (\<lambda>t. td_pool_session_id t = Some pool_session_id \<and>
         td_status t \<in> set [''todo'', ''in_progress'']) todos))"

section \<open>The operations keep the integrity\<close>

lemma wf_resolve_turn_context [effect_intros]: "effects keeps_wf (resolve_turn_context x a)"
  unfolding resolve_turn_context_def by (intro effect_intros)

lemma wf_ensure_pool [effect_intros]: "effects keeps_wf (ensure_pool_allows_runtime_work p a)"
  unfolding ensure_pool_allows_runtime_work_def by (intro effect_intros)

lemma wf_claim_fence [effect_intros]: "effects keeps_wf (claim_fence x i k)"
  unfolding claim_fence_def by (intro effect_intros)

lemma wf_announce_claim [effect_intros]: "effects keeps_wf (announce_claim x k t p m)"
  unfolding announce_claim_def by (intro effect_intros)

lemma wf_maybe_setup_worktree [effect_intros]: "effects keeps_wf (maybe_setup_worktree x c p k t)"
  unfolding maybe_setup_worktree_def by (intro effect_intros)

lemma wf_refresh_todo [effect_intros]: "effects keeps_wf (refresh_todo x i)"
  unfolding refresh_todo_def by (intro effect_intros)

lemma wf_post_message [effect_intros]: "effects keeps_wf (post_message x p s c mt md t r e)"
  unfolding post_message_def insert_ext_message_def by (intro effect_intros)

lemma wf_record_parts [effect_intros]:
  "effects keeps_wf (close_with_unlinked_result x p k t c b)"
  "effects keeps_wf (post_failure x p k t m r)"
  "effects keeps_wf (post_reminder x p k t m r)"
  "effects keeps_wf (apply_safety_net x t b1 b2 b3 r i)"
  unfolding close_with_unlinked_result_def post_failure_def post_reminder_def apply_safety_net_def
    Let_def
  by (intro effect_intros)+

lemma wf_record_message [effect_intros]:
  "effects keeps_wf (record_message x p k t m b r c e cr)"
  unfolding record_message_def by (intro effect_intros)

lemma wf_record_turn_outcome [effect_intros]:
  "effects keeps_wf (record_turn_outcome x p k t m b r)"
  unfolding record_turn_outcome_def Let_def by (intro effect_intros)

lemma wf_restore_idle [effect_intros]: "effects keeps_wf (restore_idle x k)"
  unfolding restore_idle_def by (intro effect_intros)

lemma wf_resume_replace [effect_intros]:
  "effects keeps_wf (workable_pool x t a)"
  "effects keeps_wf (resume_blocked_todo x i b)"
  "effects keeps_wf (replace_blocked_todo x i k tk rs b tt)"
  unfolding resume_blocked_todo_def replace_blocked_todo_def workable_pool_def Let_def
  by (intro effect_intros)+

lemma wf_mentions [effect_intros]:
  "effects keeps_wf (create_mention_todo x ow s p c)"
  "effects keeps_wf (dispatch_mention x s p c k)"
  "effects keeps_wf (handle_mention x s p c)"
  unfolding handle_mention_def dispatch_mention_def create_mention_todo_def Let_def
  by (intro effect_intros)+

lemma wf_watchdog_recover [effect_intros]: "effects keeps_wf (watchdog_recover x n)"
  unfolding watchdog_recover_def by (intro effect_intros)

context subagent_runtime
begin

lemma inner_wf: "effects keeps_wf (execute_todo_turn_inner x rt c k t p a)"
  unfolding execute_todo_turn_inner_def Let_def
  by (intro effect_intros run_wf)

lemma execute_wf: "effects keeps_wf (execute_todo_turn x rt c a)"
  unfolding execute_todo_turn_def by (intro effect_intros inner_wf)

lemma activate_wf: "effects keeps_wf (activate_pending_todos x rt c p)"
  unfolding activate_pending_todos_def activate_one_def Let_def
  by (intro effect_intros execute_wf)

lemma assign_wf: "effects keeps_wf (assign_and_execute x rt c k tk b pr tt)"
  unfolding assign_and_execute_def by (intro effect_intros execute_wf)

end

end
