(* ===== verification/Board.thy ===== *)
theory Board
  imports Store_Pool Git
begin

text \<open>
  The todo board seen through the store: what the store's operations do to the row of one todo.
  Two effects separate the operations: \<open>same_todos\<close> (the table of the todos is untouched) and
  \<open>only_todo i\<close> (at most the row of \<open>i\<close> changes). For the operations that write one todo,
  \<open>wp\<close> rules give the new row. The board's abstract state is \<open>board_status\<close>, the status of every
  identifier, and the last section shows that the operations refine its transitions.
\<close>

section \<open>Operations that leave the todos alone\<close>

definition same_todos :: "db \<Rightarrow> db \<Rightarrow> bool" where
  "same_todos d d' \<longleftrightarrow> tb_koi_todos d' = tb_koi_todos d"

interpretation same_todos: effect same_todos
  by unfold_locales (simp_all add: same_todos_def)

lemma same_todos_at: "same_todos d d' \<Longrightarrow> todo_at d' i = todo_at d i"
  by (simp add: same_todos_def todo_at_def)

lemma same_todos_execute:
  "(\<And>d n d'. f d = Inr (n, d') \<Longrightarrow> tb_koi_todos d' = tb_koi_todos d) \<Longrightarrow>
     effects same_todos (execute f)"
  unfolding effects_execute_iff same_todos_def by (auto split: sum.split)

lemma same_todos_statements [effect_intros]:
  "effects same_todos (execute (insert_message m))"
  "effects same_todos (execute (insert_koi k))"
  "effects same_todos (execute (insert_or_ignore_koi k))"
  "effects same_todos (execute (insert_pool p))"
  "effects same_todos (execute (insert_or_ignore_member b))"
  "effects same_todos (execute (set_pool i f))"
  "effects same_todos (execute (link_message j t))"
  unfolding effects_execute_iff same_todos_def insert_message_def insert_koi_def
    insert_or_ignore_koi_def insert_pool_def insert_or_ignore_member_def set_pool_def link_message_def
  by (simp_all split: if_split)

lemma same_todos_koi_status [effect_intros]: "effects same_todos (update_koi_status x i s)"
  unfolding update_koi_status_def by (intro effect_intros same_todos_execute) auto

lemma same_todos_messages [effect_intros]:
  "effects same_todos (insert_pool_message_ext x p s c mt md t r ev)"
  "effects same_todos (link_pool_message_to_todo m i)"
  "effects same_todos (get_pool_message_by_id x m)"
  "effects same_todos (get_latest_unlinked_result_message_id p s)"
  unfolding insert_pool_message_ext_def link_pool_message_to_todo_def get_pool_message_by_id_def
    get_latest_unlinked_result_message_id_def
  by (intro effect_intros)+

lemma same_todos_queries [effect_intros]:
  "effects same_todos (get_koi_todo x i)" "effects same_todos (list_koi_todos x ow)"
  "effects same_todos (koi_has_in_progress_todo k)"
  "effects same_todos (koi_has_other_in_progress_todo k i)"
  "effects same_todos (resolve_koi_identifier x v)" "effects same_todos (get_koi x v)"
  "effects same_todos (get_pool_session x v)"
  "effects same_todos (resolve_pool_session_identifier x v)"
  unfolding get_koi_todo_def list_koi_todos_def koi_has_in_progress_todo_def
    koi_has_other_in_progress_todo_def resolve_koi_identifier_def get_koi_def
    get_pool_session_def resolve_pool_session_identifier_def
  by (intro effect_intros)+

section \<open>Operations on one todo\<close>

definition only_todo :: "string \<Rightarrow> db \<Rightarrow> db \<Rightarrow> bool" where
  "only_todo i d d' \<longleftrightarrow> (\<forall>j. j \<noteq> i \<longrightarrow> todo_at d' j = todo_at d j)"

interpretation only_todo: effect "only_todo i" for i
  by unfold_locales (simp_all add: only_todo_def)

lemma only_todo_same: "effects same_todos m \<Longrightarrow> effects (only_todo i) m"
  by (simp add: effects_def only_todo_def same_todos_at)

lemma only_todo_set_todo [effect_intros]:
  "(\<And>r. td_id (f r) = td_id r) \<Longrightarrow> effects (only_todo i) (execute (set_todo i f))"
  unfolding effects_execute_iff only_todo_def
  by (auto split: sum.split simp: todo_at_set_todo)

lemma todo_at_update_other:
  assumes "\<And>r. P r \<Longrightarrow> td_id r = i" and "\<And>r. td_id (f r) = td_id r" and "j \<noteq> i"
  shows "todo_at (update_todos P f d) j = todo_at d j"
proof (cases "todo_at d j")
  case None
  then show ?thesis by (simp add: todo_at_update_todos assms(2))
next
  case (Some r)
  then have "\<not> P r" using assms(1,3) todo_at_id by blast
  with Some show ?thesis by (simp add: todo_at_update_todos assms(2))
qed

lemma only_todo_claim_where [effect_intros]:
  "(\<And>r. P r \<Longrightarrow> td_id r = i) \<Longrightarrow> effects (only_todo i) (execute (claim_where P now k))"
  unfolding effects_execute_iff only_todo_def claim_where_def
  by (simp add: todo_at_update_other)

lemma only_todo_updates [effect_intros]:
  "effects (only_todo i) (set_koi_todo_git_branch x i b)"
  "effects (only_todo i) (set_koi_todo_integration_status x i s)"
  "effects (only_todo i) (update_koi_todo x i t de st pr)"
  "effects (only_todo i) (block_koi_todo x i m)"
  "effects (only_todo i) (mark_koi_todo_needs_review x i m)"
  "effects (only_todo i) (cancel_koi_todo x i m)"
  "effects (only_todo i) (complete_koi_todo x i rm)"
  "effects (only_todo i) (claim_koi_todo x i k)"
  "effects (only_todo i) (try_claim_koi_todo x i k)"
  unfolding set_koi_todo_git_branch_def set_koi_todo_integration_status_def update_koi_todo_def
    block_koi_todo_def mark_koi_todo_needs_review_def cancel_koi_todo_def complete_koi_todo_def
    claim_koi_todo_def try_claim_koi_todo_def
  by (intro effect_intros; simp)+

section \<open>What the operations return and write\<close>

lemma wp_get_koi_todo [wp_simps]:
  "wp (get_koi_todo x i) Q w =
     Q (Inr (sel_todo (ex_now x (w_tick w)) i (w_db w))) (w\<lparr>w_tick := Suc (w_tick w)\<rparr>)"
  by (simp add: get_koi_todo_def wp_simps)

lemma wp_set_todo [wp_simps]:
  "wp (execute (set_todo i f)) Q w =
     Q (Inr (count_rows (\<lambda>r. td_id r = i) (tb_koi_todos (w_db w))))
       (w\<lparr>w_db := update_todos (\<lambda>r. td_id r = i) f (w_db w)\<rparr>)"
  by (simp add: wp_simps set_todo_def)

lemma get_koi_todo_run:
  "get_koi_todo x i w = (Inr c, w') \<longleftrightarrow>
     c = sel_todo (ex_now x (w_tick w)) i (w_db w) \<and> w' = w\<lparr>w_tick := Suc (w_tick w)\<rparr>"
  by (auto simp: get_koi_todo_def bindM_def utc_now_def reading_def query_def)

definition set_todo_op :: "ext \<Rightarrow> string \<Rightarrow> (DateTime \<Rightarrow> todo_row \<Rightarrow> todo_row) \<Rightarrow> unit M" where
  "set_todo_op x i f = bindM (utc_now x) (\<lambda>now. bindM (execute (set_todo i (f now))) (\<lambda>_. ret ()))"

lemma todo_ops_set:
  "block_koi_todo x i m = set_todo_op x i (stop_row ''blocked'' m)"
  "mark_koi_todo_needs_review x i m = set_todo_op x i (stop_row ''needs_review'' m)"
  "cancel_koi_todo x i m = set_todo_op x i (stop_row ''cancelled'' m)"
  "complete_koi_todo x i rm = set_todo_op x i (complete_row rm)"
  by (simp_all add: set_todo_op_def block_koi_todo_def mark_koi_todo_needs_review_def
      cancel_koi_todo_def complete_koi_todo_def)

lemma set_todo_op_run:
  "set_todo_op x i f w =
     (Inr (), w\<lparr>w_tick := Suc (w_tick w),
        w_db := update_todos (\<lambda>r. td_id r = i) (f (ex_now x (w_tick w))) (w_db w)\<rparr>)"
  by (simp add: set_todo_op_def bindM_def utc_now_def reading_def execute_def set_todo_def ret_def)

lemma todo_at_updated:
  "(\<And>r. td_id (f r) = td_id r) \<Longrightarrow>
     todo_at (update_todos (\<lambda>r. td_id r = i) f d) j =
       (if j = i then map_option f (todo_at d i) else todo_at d j)"
  by (cases "todo_at d j") (auto simp: todo_at_update_todos dest: todo_at_id)

section \<open>The abstract board\<close>

text \<open>The board as its users see it: the status of each todo, none where there is no todo.\<close>

definition board_status :: "db \<Rightarrow> string \<Rightarrow> string option" where
  "board_status d i = map_option td_status (todo_at d i)"

lemma board_status_same: "same_todos d d' \<Longrightarrow> board_status d' = board_status d"
  by (simp add: board_status_def fun_eq_iff same_todos_at)

lemma board_status_only: "only_todo i d d' \<Longrightarrow> j \<noteq> i \<Longrightarrow> board_status d' j = board_status d j"
  by (simp add: board_status_def only_todo_def)

lemma sel_todo_status:
  "map_option td_status (sel_todo now i d) = board_status d i"
  by (cases "todo_at d i") (simp_all add: sel_todo_def board_status_def)

text \<open>An operation that writes a fixed status refines the assignment on the board.\<close>

lemma set_todo_op_refines:
  assumes "\<And>now r. td_id (f now r) = td_id r" and "\<And>now r. td_status (f now r) = s"
    and "set_todo_op x i f w = (u, w')"
  shows "board_status (w_db w') =
    (board_status (w_db w))(i := (if board_status (w_db w) i = None then None else Some s))"
  using assms(3)
  by (auto simp: set_todo_op_run board_status_def todo_at_updated assms(1,2) fun_eq_iff
      split: option.split)

end
