(* ===== verification/Samples.thy ===== *)
theory Samples
  imports Coordinator Board "HOL-Library.Code_Target_Nat"
begin

text \<open>
  A small database and runs on it, for the instances of the properties: two Koi and Piscis, an
  active pool with Alpha as its member, and a todo of Alpha on which a second one depends.
\<close>

definition koi_row_of :: "string \<Rightarrow> string \<Rightarrow> koi_row" where
  "koi_row_of i name = \<lparr>
     kd_id = i, kd_name = name, kd_role = [], kd_icon = [], kd_color = [], kd_system_prompt = [],
     kd_description = [], kd_status = ''idle'', kd_created_at = Rfc3339 0 0,
     kd_updated_at = Rfc3339 0 0, kd_llm_provider_id = None, kd_max_iterations = 0,
     kd_task_timeout_secs = 0 \<rparr>"

definition pool_row_of :: "string \<Rightarrow> string \<Rightarrow> string \<Rightarrow> pool_row" where
  "pool_row_of i name status = \<lparr>
     ps_id = i, ps_name = name, ps_org_spec = [], ps_status = status, ps_project_dir = None,
     ps_task_timeout_secs = 0, ps_origin_im_binding_key = None, ps_member_koi_ids = [],
     ps_team_id = None, ps_workflow_run_id = None, ps_last_active_at = None,
     ps_created_at = Rfc3339 0 0, ps_updated_at = Rfc3339 0 0 \<rparr>"

definition todo_row_of ::
  "string \<Rightarrow> string \<Rightarrow> string \<Rightarrow> string option \<Rightarrow> string option \<Rightarrow> todo_row" where
  "todo_row_of i owner status pool dep = \<lparr>
     td_id = i, td_owner_id = owner, td_title = ''Build'', td_description = [],
     td_status = status, td_priority = ''medium'', td_assigned_by = ''piscis'',
     td_pool_session_id = pool, td_claimed_by = None, td_claimed_at = None,
     td_depends_on = dep, td_blocked_reason = None, td_git_branch = None,
     td_integration_status = Some ''none'', td_result_message_id = None,
     td_source_type = ''user'', td_task_timeout_secs = 0,
     td_created_at = Rfc3339 0 0, td_updated_at = Rfc3339 0 0 \<rparr>"

definition sample_db :: db where
  "sample_db = \<lparr>
     tb_kois = [koi_row_of ''k1'' ''Alpha'', koi_row_of ''k2'' ''Beta'', koi_row_of ''piscis'' ''Piscis''],
     tb_koi_todos = [todo_row_of ''t1'' ''k1'' ''todo'' (Some ''p1'') None,
                     todo_row_of ''t2'' ''k1'' ''todo'' (Some ''p1'') (Some ''t1'')],
     tb_pool_sessions = [pool_row_of ''p1'' ''Pool'' ''active''],
     tb_pool_messages = [], tb_message_seq = 0,
     tb_pool_members = [\<lparr>mb_pool_session_id = ''p1'', mb_koi_id = ''k1'', mb_joined_at = Rfc3339 0 0\<rparr>],
     tb_memories = [] \<rparr>"

lemma wf_sample_db [simp]: "wf_db sample_db"
  by (simp add: wf_db_def sample_db_def koi_row_of_def pool_row_of_def todo_row_of_def
      todo_refs_def member_refs_def exists_defs member_key_def)

definition sample_cfg :: CoordinatorConfig where
  "sample_cfg = \<lparr> cc_default_task_timeout_secs = 600, cc_use_worktrees = False \<rparr>"

lemmas row_defs = koi_row_of_def pool_row_of_def todo_row_of_def

section \<open>A turn, step by step\<close>

definition sample_koi :: KoiDefinition where
  "sample_koi = map_koi 0 (koi_row_of ''k1'' ''Alpha'')"

definition sample_todo :: KoiTodo where
  "sample_todo = map_koi_todo 0 (todo_row_of ''t1'' ''k1'' ''todo'' (Some ''p1'') None)"

definition sample_pool :: PoolSession where
  "sample_pool = read_pool 0 sample_db (pool_row_of ''p1'' ''Pool'' ''active'')"

definition sample_args :: ExecuteTodoArgs where
  "sample_args = turn_args ''k1'' ''t1''"

definition world_at :: "nat \<Rightarrow> world" where
  "world_at n = (start_world sample_db)\<lparr>w_tick := n\<rparr>"

definition world_claimed :: world where
  "world_claimed = snd (claim_fence sample_ext ''t1'' ''k1'' (world_at 4))"

definition world_announced :: world where
  "world_announced = snd (announce_claim sample_ext sample_koi sample_todo (Some ''p1'') None world_claimed)"

lemma sample_resolve:
  "resolve_turn_context sample_ext sample_args (world_at 0) =
     (Inr (sample_koi, sample_todo, Some sample_pool), world_at 3)"
  by code_simp

lemma sample_list:
  "list_koi_todos sample_ext None (world_at 3) = (Inr (sel_todos 0 None sample_db), world_at 4)"
  by code_simp

lemma sample_satisfied: "is_todo_dependency_satisfied sample_todo (sel_todos 0 None sample_db)"
  by code_simp

lemma sample_claim: "claim_fence sample_ext ''t1'' ''k1'' (world_at 4) = (Inr True, world_claimed)"
  by code_simp

lemma sample_announce:
  "announce_claim sample_ext sample_koi sample_todo (Some ''p1'') None world_claimed =
     (Inr (), world_announced)"
  by code_simp

text \<open>The in-memory runtime answers at once and leaves no slot; the prompt does not matter to it.\<close>

lemma stub_answers:
  "run_subagent_turn (stub_runtime x (always_complete s)) req t w =
     (Inr \<lparr> oc_handle = \<lparr> h_turn_id = ex_uuid x (w_tick w), h_pool_id = rq_pool_id req,
              h_koi_id = rq_koi_id req \<rparr>,
            oc_exit_kind = TurnCompleted, oc_response_text = s, oc_error = None, oc_exit_code = Some 0 \<rparr>,
      w\<lparr>w_tick := Suc (w_tick w), w_turns := filter (\<lambda>e. fst e \<noteq> ex_uuid x (w_tick w)) (w_turns w)\<rparr>)"
  by (simp add: run_subagent_turn_def stub_spawn_def stub_wait_def stub_in_time_def stub_result_def
      always_complete_def uuid_new_v4_def reading_def bindM_def ret_def Let_def)

definition sample_runtime :: runtime where
  "sample_runtime = stub_runtime sample_ext (always_complete ''fine'')"

definition world_answered :: world where
  "world_answered = world_announced\<lparr>w_tick := Suc (w_tick world_announced),
     w_turns := filter (\<lambda>e. fst e \<noteq> ex_uuid sample_ext (w_tick world_announced)) (w_turns world_announced)\<rparr>"

definition world_recorded :: world where
  "world_recorded = snd (record_turn_outcome sample_ext (Some ''p1'') sample_koi sample_todo None True
     ''fine'' world_answered)"

definition world_done :: world where
  "world_done = snd (ignore (restore_idle sample_ext ''k1'') world_recorded)"

lemma sample_record:
  "record_turn_outcome sample_ext (Some ''p1'') sample_koi sample_todo None True ''fine'' world_answered =
     (Inr (Some 3), world_recorded)"
  by code_simp

lemma sample_restore: "ignore (restore_idle sample_ext ''k1'') world_recorded = (Inr (), world_done)"
  by code_simp

lemma sample_sel:
  "kd_id sample_koi = ''k1''" "td_id sample_todo = ''t1''" "ps_id sample_pool = ''p1''"
  "ps_status sample_pool = ''active''" "ps_project_dir sample_pool = None"
  "ea_assign_msg_id sample_args = None"
  by code_simp+

definition sample_result :: KoiExecResult where
  "sample_result = \<lparr> er_success = True, er_reply = ''fine'', er_result_message_id = Some 3,
     er_exit_kind = TurnCompleted \<rparr>"

lemma sample_inner:
  "execute_todo_turn_inner sample_ext sample_runtime sample_cfg sample_koi sample_todo
     (Some sample_pool) sample_args world_announced = (Inr sample_result, world_recorded)"
  by (simp add: Let_def execute_todo_turn_inner_def maybe_setup_worktree_def sample_cfg_def bindM_def
      ret_def whenM_def nonblank_def sample_sel sample_runtime_def stub_answers turn_reply_def
      world_answered_def [symmetric] sample_record sample_result_def del: sample_ext_sel)

lemma sample_turn:
  "execute_todo_turn sample_ext sample_runtime sample_cfg sample_args (start_world sample_db) =
     (Inr sample_result, world_done)"
proof -
  have "start_world sample_db = world_at 0" by (simp add: world_at_def)
  then show ?thesis
    by (simp add: execute_todo_turn_def bindM_def sample_resolve ensure_pool_allows_runtime_work_def
        guardM_def ret_def sample_sel sample_list sample_satisfied sample_claim sample_announce
        attempt_def sample_inner sample_restore lift_result_def)
qed

end
