(* ===== verification/Turns.thy ===== *)
theory Turns
  imports Samples
begin

text \<open>
  What a turn does: the claim fence, the status a turn leaves its todo in, and the execution of a
  whole turn. The effects of \<open>Board\<close> separate the steps that only post messages from those that
  write the todo.
\<close>

section \<open>Effects of the steps\<close>

lemma same_todos_posts [effect_intros]:
  "effects same_todos (post_message x p s c mt md t r e)"
  "effects same_todos (refresh_todo x i)"
  unfolding post_message_def insert_ext_message_def refresh_todo_def by (intro effect_intros)+

lemma same_todos_reports [effect_intros]:
  "effects same_todos (post_failure x p k t m r)"
  "effects same_todos (post_reminder x p k t m r)"
  "effects same_todos (announce_claim x k t pi m)"
  "effects same_todos (maybe_setup_worktree x c pi k t)"
  "effects same_todos (restore_idle x ki)"
  unfolding post_failure_def post_reminder_def announce_claim_def maybe_setup_worktree_def
    restore_idle_def Let_def
  by (intro effect_intros)+

lemma only_todo_messages [effect_intros]:
  "effects (only_todo i) (post_failure x p k t m r)"
  "effects (only_todo i) (post_reminder x p k t m r)"
  "effects (only_todo i) (announce_claim x k t pi m)"
  "effects (only_todo i) (refresh_todo x j)"
  "effects (only_todo i) (get_koi_todo x j)"
  "effects (only_todo i) (link_pool_message_to_todo mi j)"
  "effects (only_todo i) (get_pool_message_by_id x mi)"
  "effects (only_todo i) (get_latest_unlinked_result_message_id ps s)"
  "effects (only_todo i) (koi_has_other_in_progress_todo ki j)"
  "effects (only_todo i) (update_koi_status x ki st)"
  "effects (only_todo i) (restore_idle x ki)"
  "effects (only_todo i) (maybe_setup_worktree x c pi k t)"
  by (rule only_todo_same; intro effect_intros)+

lemma only_todo_record_parts [effect_intros]:
  "effects (only_todo (td_id t)) (close_with_unlinked_result x p k t c b)"
  "effects (only_todo (td_id t)) (apply_safety_net x t b1 b2 b3 r i)"
  "effects (only_todo j) (claim_fence x j ki)"
  unfolding close_with_unlinked_result_def apply_safety_net_def claim_fence_def
  by (intro effect_intros)+

lemma only_todo_record_message [effect_intros]:
  "effects (only_todo (td_id t)) (record_message x p k t m b r c e cr)"
  unfolding record_message_def by (intro effect_intros)

lemma only_todo_record [effect_intros]:
  "effects (only_todo (td_id t)) (record_turn_outcome x p k t m b r)"
  unfolding record_turn_outcome_def Let_def by (intro effect_intros)

section \<open>The claim fence\<close>

definition in_progress_of :: "string \<Rightarrow> todo_row \<Rightarrow> bool" where
  "in_progress_of koi_id r \<longleftrightarrow> td_owner_id r = koi_id \<and> td_status r = ''in_progress''"

text \<open>Whether the fence is free for a todo and a Koi.\<close>

definition fence_free :: "string \<Rightarrow> string \<Rightarrow> db \<Rightarrow> bool" where
  "fence_free i k d \<longleftrightarrow>
     (\<forall>r \<in> set (tb_koi_todos d). in_progress_of k r \<longrightarrow> td_id r = i) \<and>
     (\<exists>r. todo_at d i = Some r \<and> td_status r \<noteq> ''in_progress'')"

lemma count_rows_pos: "0 < count_rows P rs \<longleftrightarrow> (\<exists>r \<in> set rs. P r)"
  by (auto simp: count_rows_def filter_empty_conv)

lemma count_claimable:
  "wf_db d \<Longrightarrow>
     count_rows (\<lambda>r. td_id r = i \<and> td_status r \<noteq> ''in_progress'') (tb_koi_todos d) =
       (if \<exists>r. todo_at d i = Some r \<and> td_status r \<noteq> ''in_progress'' then 1 else 0)"
  by (auto simp: count_rows_key wf_db_def todo_at_def split: option.split)

text \<open>The database after a fence was taken.\<close>

definition claimed_db :: "DateTime \<Rightarrow> DateTime \<Rightarrow> string \<Rightarrow> string \<Rightarrow> db \<Rightarrow> db" where
  "claimed_db t1 t2 i k d =
     update_kois (\<lambda>r. kd_id r = k)
       (\<lambda>r. r\<lparr>kd_status := ''busy'', kd_updated_at := to_rfc3339 t2\<rparr>)
       (update_todos (\<lambda>r. td_id r = i \<and> td_status r \<noteq> ''in_progress'') (claim_row t1 k) d)"

lemma claim_fence_wp:
  assumes wf: "wf_db (w_db w)"
  shows "wp (claim_fence x i k) (\<lambda>res w'.
    if \<not> fence_free i k (w_db w) then res = Inr False \<and> quiet w w'
    else if \<not> koi_exists (w_db w) k then res = Inl ForeignKeyFailed \<and> quiet w w'
    else res = Inr True \<and> (\<exists>t1 t2. w_db w' = claimed_db t1 t2 i k (w_db w)) \<and>
           w_events w' = w_events w) w"
proof (cases "\<exists>r \<in> set (tb_koi_todos (w_db w)). in_progress_of k r \<and> td_id r \<noteq> i")
  case True
  then show ?thesis
    by (auto simp: claim_fence_def koi_has_other_in_progress_todo_def wp_simps count_rows_pos
        fence_free_def in_progress_of_def quiet_def)
next
  let ?P = "\<lambda>r. td_id r = i \<and> td_status r \<noteq> ''in_progress''"
  case free: False
  show ?thesis
  proof (cases "\<exists>r. todo_at (w_db w) i = Some r \<and> td_status r \<noteq> ''in_progress''")
    case True
    then have ex: "list_ex ?P (tb_koi_todos (w_db w))"
      by (auto simp: list_ex_iff dest: todo_at_id todo_at_mem)
    from True free have "fence_free i k (w_db w)" by (auto simp: fence_free_def)
    with free ex count_claimable [OF wf, of i] True show ?thesis
      by (auto simp: claim_fence_def koi_has_other_in_progress_todo_def try_claim_koi_todo_def
          update_koi_status_def claim_where_def wp_simps count_rows_pos in_progress_of_def
          claimed_db_def quiet_def split: sum.split)
  next
    case False
    then have none: "\<not> list_ex ?P (tb_koi_todos (w_db w))"
      using wf by (auto simp: list_ex_iff todo_at_def wf_db_def find_row_eq_Some_iff)
    then have "update_todos ?P f (w_db w) = w_db w" for f
      by (auto simp: update_todos_def list_ex_iff intro!: db.equality update_rows_none)
    moreover from False have "\<not> fence_free i k (w_db w)" by (auto simp: fence_free_def)
    ultimately show ?thesis
      using free none count_claimable [OF wf, of i] False
      by (auto simp: claim_fence_def koi_has_other_in_progress_todo_def try_claim_koi_todo_def
          claim_where_def wp_simps count_rows_pos in_progress_of_def quiet_def split: sum.split)
  qed
qed

lemma claim_fence_run:
  assumes "wf_db (w_db w)" and "claim_fence x i k w = (Inr b, w')"
  shows "b \<longleftrightarrow> fence_free i k (w_db w)"
    and "b \<Longrightarrow> koi_exists (w_db w) k \<and>
           (\<exists>t1 t2. w_db w' = claimed_db t1 t2 i k (w_db w))"
    and "\<not> b \<Longrightarrow> w_db w' = w_db w"
  using wpD [OF claim_fence_wp [OF assms(1)] assms(2)]
  by (auto simp: quiet_def split: if_splits)

text \<open>A fence that is not free is left as it is.\<close>

lemma claim_fence_refused:
  assumes "wf_db (w_db w)" and "\<not> fence_free i k (w_db w)" and "claim_fence x i k w = (b, w')"
  shows "quiet w w' \<and> b = Inr False"
  using wpD [OF claim_fence_wp [OF assms(1)] assms(3)] assms(2) by simp

lemma claimed_db_todos:
  "tb_koi_todos (claimed_db t1 t2 i k d) =
     update_rows (\<lambda>r. td_id r = i \<and> td_status r \<noteq> ''in_progress'') (claim_row t1 k) (tb_koi_todos d)"
  by (simp add: claimed_db_def)

lemma todo_at_claimed_db:
  "todo_at (claimed_db t1 t2 i k d) j =
     map_option (\<lambda>r. if j = i \<and> td_status r \<noteq> ''in_progress'' then claim_row t1 k r else r) (todo_at d j)"
  by (cases "todo_at d j") (auto simp: claimed_db_def todo_at_update_todos dest: todo_at_id)

section \<open>The status after a turn\<close>

definition unlinked_result :: "db \<Rightarrow> string \<Rightarrow> string \<Rightarrow> int option" where
  "unlinked_result d pool_session_id sender_id = map_option pm_id
     (List.find (\<lambda>m. pm_sender_id m = sender_id \<and> pm_msg_type m = ''result'' \<and>
                     (pm_todo_id m = None \<or> pm_todo_id m = Some []))
       (newest_first pool_session_id d))"

lemma get_latest_unlinked_run:
  "get_latest_unlinked_result_message_id p s w = (Inr i, w') \<longleftrightarrow>
     i = unlinked_result (w_db w) p s \<and> w' = w"
  by (auto simp: get_latest_unlinked_result_message_id_def query_def unlinked_result_def)

text \<open>
  The specification: a reconciled todo keeps its status; a failed run blocks; a test-mode reply
  without a pool completes; a result posted without completing closes a todo in progress; any other
  successful run goes to review.
\<close>

definition outcome_status ::
  "string option \<Rightarrow> bool \<Rightarrow> bool \<Rightarrow> string \<Rightarrow> string \<Rightarrow> string" where
  "outcome_status pool_id posted run_success raw_reply s =
     (if is_todo_board_reconciled s then s
      else if \<not> run_success then ''blocked''
      else if pool_id = None \<and> starts_with raw_reply ''[TestMode]'' then ''done''
      else if pool_id \<noteq> None \<and> trim raw_reply = [] \<and> posted
      then (if s = ''in_progress'' then ''done'' else s)
      else ''needs_review'')"

text \<open>
  The specification of the whole row, at the time \<open>now\<close> of its last change; \<open>posted\<close> is the result message
  that nobody linked to a todo yet. A todo that is closed takes that message as its result, and its branch
  becomes ready for integration unless it was merged or in conflict before.
\<close>

definition closed_row :: "int option \<Rightarrow> stamp \<Rightarrow> todo_row \<Rightarrow> todo_row" where
  "closed_row result now r = r\<lparr>td_status := ''done'', td_blocked_reason := None,
     td_result_message_id := (if result = None then td_result_message_id r else result),
     td_integration_status :=
       (if td_integration_status r \<in> {None, Some ''merged'', Some ''conflict''} \<or>
           (case td_git_branch r of None \<Rightarrow> True | Some b \<Rightarrow> sql_trim b = [])
        then td_integration_status r else Some ''ready''),
     td_updated_at := now\<rparr>"

definition outcome_row ::
  "string option \<Rightarrow> int option \<Rightarrow> bool \<Rightarrow> string \<Rightarrow> stamp \<Rightarrow> todo_row \<Rightarrow> todo_row" where
  "outcome_row pool_id posted run_success raw_reply now r =
     (if td_status r \<in> {''done'', ''blocked'', ''cancelled'', ''needs_review''} then r
      else if \<not> run_success
      then r\<lparr>td_status := ''blocked'', td_blocked_reason := Some raw_reply, td_updated_at := now\<rparr>
      else if pool_id = None \<and> starts_with raw_reply ''[TestMode]'' then closed_row None now r
      else if pool_id \<noteq> None \<and> trim raw_reply = [] \<and> posted \<noteq> None
      then (if td_status r = ''in_progress'' then closed_row posted now r else r)
      else r\<lparr>td_status := ''needs_review'',
             td_blocked_reason := Some ''Agent finished without calling complete_todo'', td_updated_at := now\<rparr>)"

definition result_of_turn :: "db \<Rightarrow> string option \<Rightarrow> string \<Rightarrow> int option" where
  "result_of_turn d pool_id koi_id = Option.bind pool_id (\<lambda>p. unlinked_result d p koi_id)"

lemma closed_row_complete: "closed_row result (to_rfc3339 now) r = complete_row result now r"
  by (auto simp: closed_row_def complete_row_def split: option.split)

lemma reconciled_set: "is_todo_board_reconciled s \<longleftrightarrow> s \<in> {''done'', ''blocked'', ''cancelled'', ''needs_review''}"
  by (auto simp: is_todo_board_reconciled_def)

lemma outcome_row_status:
  "td_status (outcome_row p posted ok reply now r) =
     outcome_status p (posted \<noteq> None) ok reply (td_status r)"
  unfolding outcome_row_def outcome_status_def reconciled_set by (cases p; cases posted) (simp_all add: closed_row_def)

lemma is_todo_board_reconciled_simps [simp]:
  "is_todo_board_reconciled ''done''" "is_todo_board_reconciled ''blocked''"
  "is_todo_board_reconciled ''cancelled''" "is_todo_board_reconciled ''needs_review''"
  "\<not> is_todo_board_reconciled ''in_progress''" "\<not> is_todo_board_reconciled ''todo''"
  by (simp_all add: is_todo_board_reconciled_def)

text \<open>The specification in the order in which the code decides.\<close>

lemma outcome_row_steps:
  assumes "e \<longleftrightarrow> ok \<and> trim reply = [] \<and> p \<noteq> None \<and> posted \<noteq> None"
    and "tm \<longleftrightarrow> ok \<and> p = None \<and> starts_with reply ''[TestMode]''"
    and "r3 = (if e \<and> td_status r = ''in_progress'' then complete_row posted now r else r)"
    and "r4 = (if is_todo_board_reconciled (td_status r3) then r3
       else if \<not> ok then stop_row ''blocked'' reply now' r3
       else if tm then complete_row None now' r3
       else if \<not> (e \<or> tm) then stop_row ''needs_review'' ''Agent finished without calling complete_todo'' now' r3
       else r3)"
  shows "\<exists>u. r4 = outcome_row p posted ok reply u r"
proof (cases "e \<and> td_status r = ''in_progress''")
  case True
  then have "r3 = complete_row posted now r" using assms(3) by simp
  then have "r4 = complete_row posted now r" using assms(4) by (simp add: complete_row_def is_todo_board_reconciled_def)
  then have "r4 = outcome_row p posted ok reply (to_rfc3339 now) r"
    using True assms(1) by (cases p) (simp_all add: outcome_row_def closed_row_complete)
  then show ?thesis ..
next
  case False
  then have "r3 = r" using assms(3) by argo
  then have "r4 = outcome_row p posted ok reply (to_rfc3339 now') r"
    using False assms(1,2,4) unfolding outcome_row_def closed_row_complete reconciled_set stop_row_def by auto
  then show ?thesis ..
qed

lemma status_is_iff: "status_is s c \<longleftrightarrow> map_option td_status c = Some s"
  by (simp add: status_is_def split: option.split)

lemma reconciled_iff:
  "reconciled c \<longleftrightarrow> (\<exists>s. map_option td_status c = Some s \<and> is_todo_board_reconciled s)"
  by (auto simp: reconciled_def split: option.split)

lemma refresh_status:
  "refresh_todo x i w = (Inr c, w') \<Longrightarrow>
     map_option td_status c = board_status (w_db w) i \<and> w_db w' = w_db w"
  by (auto simp: refresh_todo_def get_koi_todo_run sel_todo_status)

text \<open>The operations of the outcome, on the row of the todo.\<close>

lemma row_after:
  "block_koi_todo x i m w = (u, w') \<Longrightarrow> todo_at (w_db w) i = Some r \<Longrightarrow>
     \<exists>now. todo_at (w_db w') i = Some (stop_row ''blocked'' m now r)"
  "mark_koi_todo_needs_review x i m w = (u, w') \<Longrightarrow> todo_at (w_db w) i = Some r \<Longrightarrow>
     \<exists>now. todo_at (w_db w') i = Some (stop_row ''needs_review'' m now r)"
  "complete_koi_todo x i rm w = (u, w') \<Longrightarrow> todo_at (w_db w) i = Some r \<Longrightarrow>
     \<exists>now. todo_at (w_db w') i = Some (complete_row rm now r)"
  unfolding todo_ops_set by (auto simp: set_todo_op_run todo_at_updated)

lemma same_rows:
  "effects same_todos m \<Longrightarrow> m w = (r, w') \<Longrightarrow> todo_at (w_db w') = todo_at (w_db w)"
  by (drule effectsD) (auto simp: fun_eq_iff same_todos_at)

lemma same_status:
  "effects same_todos m \<Longrightarrow> m w = (r, w') \<Longrightarrow> board_status (w_db w') = board_status (w_db w)"
  by (drule effectsD) (auto dest: board_status_same)

lemma close_with_unlinked_row:
  assumes "close_with_unlinked_result x p k t c cr w = (Inr (mi, c', cr'), w')"
    and "map_option td_status c = Some (td_status r)"
    and "todo_at (w_db w) (td_id t) = Some r"
    and "unlinked_result (w_db w) p (kd_id k) = Some posted"
  shows "\<exists>now r'. r' = (if td_status r = ''in_progress'' then complete_row (Some posted) now r else r) \<and>
    map_option td_status c' = Some (td_status r') \<and> todo_at (w_db w') (td_id t) = Some r' \<and> (cr \<longrightarrow> cr')"
proof -
  from assms(1,4) obtain w1 v w2 where
    link: "ignore (link_pool_message_to_todo posted (td_id t)) w = (Inr (), w1)"
    and upd: "(if status_is ''in_progress'' c
         then bindM (complete_koi_todo x (td_id t) (Some posted)) (\<lambda>_.
              bindM (refresh_todo x (td_id t)) (\<lambda>current. ret (current, True)))
         else ret (c, cr)) w1 = (Inr (c', cr'), w2)"
    and rest: "(bindM (attempt (get_pool_message_by_id x posted)) (\<lambda>r.
         bindM (case r of Inr (Some msg) \<Rightarrow> emit_pool (MessageAppended p (message_snapshot x msg))
                | _ \<Rightarrow> ret ()) (\<lambda>_. ret (Some posted, c', cr')))) w2 = (Inr v, w')"
    by (auto simp: close_with_unlinked_result_def bindM_Inr_iff get_latest_unlinked_run
        split: option.splits prod.splits if_splits)
  have s1: "todo_at (w_db w1) = todo_at (w_db w)"
    using link by (rule same_rows [rotated]) (intro effect_intros)
  have s2: "todo_at (w_db w') = todo_at (w_db w2)"
    using rest by (rule same_rows [rotated]) (intro effect_intros)
  show ?thesis
  proof (cases "td_status r = ''in_progress''")
    case True
    with assms(2) upd obtain u w3 where
      comp: "complete_koi_todo x (td_id t) (Some posted) w1 = (Inr u, w3)"
      and ref: "refresh_todo x (td_id t) w3 = (Inr c', w2)" and cr': "cr'"
      by (auto simp: status_is_iff bindM_Inr_iff)
    from row_after(3) [OF comp] s1 assms(3) obtain now
      where "todo_at (w_db w3) (td_id t) = Some (complete_row (Some posted) now r)" by auto
    with refresh_status [OF ref] cr' s2 True show ?thesis by (auto simp: board_status_def)
  next
    case False
    with assms(2) upd have "c' = c" "cr' = cr" "w2 = w1" by (auto simp: status_is_iff)
    with False assms(2,3) s1 s2 show ?thesis by simp
  qed
qed

lemma record_message_row:
  assumes "record_message x p k t am ok reply c e cr w = (Inr (mi, c', cr'), w')"
    and "map_option td_status c = Some (td_status r)"
    and "todo_at (w_db w) (td_id t) = Some r"
    and "e \<Longrightarrow> result_of_turn (w_db w) p (kd_id k) \<noteq> None"
  shows "\<exists>now r'. r' = (if ok \<and> trim reply = [] \<and> e \<and> td_status r = ''in_progress''
        then complete_row (result_of_turn (w_db w) p (kd_id k)) now r else r) \<and>
    map_option td_status c' = Some (td_status r') \<and> todo_at (w_db w') (td_id t) = Some r' \<and>
    (if e then cr \<longrightarrow> cr' else cr' = cr)"
proof (cases "p \<noteq> None \<and> ok \<and> trim reply = [] \<and> e")
  case True
  with assms(4) obtain ps posted where ps: "p = Some ps" "unlinked_result (w_db w) ps (kd_id k) = Some posted"
    by (auto simp: result_of_turn_def)
  with assms(1) True have "close_with_unlinked_result x ps k t c cr w = (Inr (mi, c', cr'), w')"
    by (simp add: record_message_def)
  from close_with_unlinked_row [OF this assms(2,3) ps(2)] obtain now r' where
    r': "r' = (if td_status r = ''in_progress'' then complete_row (Some posted) now r else r)"
    and rest: "map_option td_status c' = Some (td_status r')" "todo_at (w_db w') (td_id t) = Some r'" "cr \<longrightarrow> cr'"
    by blast
  from r' True ps have "r' = (if ok \<and> trim reply = [] \<and> e \<and> td_status r = ''in_progress''
      then complete_row (result_of_turn (w_db w) p (kd_id k)) now r else r)"
    by (simp add: result_of_turn_def)
  with rest True show ?thesis by (intro exI conjI) (assumption, simp_all)
next
  case False
  note post = same_rows [OF same_todos_reports(1)] same_rows [OF same_todos_reports(2)]
  from False assms(1) have "c' = c \<and> cr' = cr \<and> todo_at (w_db w') = todo_at (w_db w)"
    by (auto simp: record_message_def bindM_Inr_iff split: option.splits if_splits dest: post)
  moreover have "p \<noteq> None" if e using assms(4) [OF that] by (cases p) (simp_all add: result_of_turn_def)
  ultimately show ?thesis using False assms by auto
qed

lemma safety_net_row:
  assumes "apply_safety_net x t ok tm cr reply mi w = (Inr u, w')"
    and "todo_at (w_db w) (td_id t) = Some r"
  shows "\<exists>now. todo_at (w_db w') (td_id t) = Some
    (if \<not> ok then stop_row ''blocked'' reply now r
     else if tm then complete_row mi now r
     else if \<not> cr then stop_row ''needs_review'' ''Agent finished without calling complete_todo'' now r else r)"
  using assms by (auto simp: apply_safety_net_def dest: row_after split: if_splits)

lemma record_message_none: "record_message x None k t am ok reply c e cr w = (Inr (mi, c', cr'), w') \<Longrightarrow> mi = None"
  by (simp add: record_message_def)

lemma record_turn_outcome_row:
  assumes run: "record_turn_outcome x p k t am ok reply w = (Inr mi, w')"
    and s: "todo_at (w_db w) (td_id t) = Some r"
  shows "\<exists>now. todo_at (w_db w') (td_id t) =
    Some (outcome_row p (result_of_turn (w_db w) p (kd_id k)) ok reply now r)"
proof -
  let ?posted = "result_of_turn (w_db w) p (kd_id k)"
  define tm where "tm = (ok \<and> p = None \<and> starts_with reply ''[TestMode]'')"
  from run obtain c w1 e w2 c1 cr1 w3 c2 w4 u w5 v w6 where
    c: "refresh_todo x (td_id t) w = (Inr c, w1)"
    and e: "(case p of Some psid \<Rightarrow>
               if ok \<and> trim reply = []
               then bindM (get_latest_unlinked_result_message_id psid (kd_id k)) (\<lambda>i. ret (i \<noteq> None))
               else ret False
             | None \<Rightarrow> ret False) w1 = (Inr e, w2)"
    and m: "record_message x p k t am ok reply c e (e \<or> tm) w2 = (Inr (mi, c1, cr1), w3)"
    and c2: "(if \<not> reconciled c1 then refresh_todo x (td_id t) else ret c1) w3 = (Inr c2, w4)"
    and net: "whenM (\<not> status_is ''done'' c2 \<and> \<not> reconciled c2)
      (apply_safety_net x t ok tm cr1 reply mi) w4 = (Inr u, w5)"
    and last: "bindM (get_koi_todo x (td_id t)) (\<lambda>refreshed.
        bindM (case refreshed of
                 None \<Rightarrow> ret ()
               | Some t \<Rightarrow> emit_pool (TodoChanged (case p of None \<Rightarrow> [] | Some p \<Rightarrow> p)
                   (outcome_action c2 cr1 ok) (todo_snapshot t))) (\<lambda>_. ret mi)) w5 = (Inr v, w')"
    unfolding record_turn_outcome_def Let_def bindM_Inr_iff tm_def
    by (auto simp: bindM_Inr_iff split: prod.splits)
  note s1 = refresh_status [OF c]
  have e': "e = (ok \<and> trim reply = [] \<and> p \<noteq> None \<and> ?posted \<noteq> None) \<and> w_db w2 = w_db w"
    using e s1 by (auto simp: bindM_Inr_iff get_latest_unlinked_run result_of_turn_def split: option.splits if_splits)
  have c': "map_option td_status c = Some (td_status r)" using s1 s by (simp add: board_status_def)
  obtain now r3 where r3: "r3 = (if ok \<and> trim reply = [] \<and> e \<and> td_status r = ''in_progress''
        then complete_row ?posted now r else r)"
    and m': "map_option td_status c1 = Some (td_status r3)" "todo_at (w_db w3) (td_id t) = Some r3"
      "if e then e \<or> tm \<longrightarrow> cr1 else cr1 = (e \<or> tm)"
    using record_message_row [OF m c', unfolded e' [THEN conjunct2]] s e' by blast
  have cr: "cr1 = (e \<or> tm)" using m'(3) by (cases e) simp_all
  have c2': "map_option td_status c2 = Some (td_status r3)" "todo_at (w_db w4) (td_id t) = Some r3"
    using c2 m' by (auto simp: board_status_def split: if_splits dest: refresh_status)
  have s5: "todo_at (w_db w') = todo_at (w_db w5)"
    using last by (rule same_rows [rotated]) (intro effect_intros)
  have st: "status_is ''done'' c2 \<longleftrightarrow> td_status r3 = ''done''" "reconciled c2 \<longleftrightarrow> is_todo_board_reconciled (td_status r3)"
    unfolding status_is_iff reconciled_iff c2' by simp_all
  have tm_mi: "mi = None" if tm using m that unfolding tm_def by (auto dest: record_message_none)
  have "\<exists>now'. todo_at (w_db w5) (td_id t) = Some
      (if is_todo_board_reconciled (td_status r3) then r3 else if \<not> ok then stop_row ''blocked'' reply now' r3
       else if tm then complete_row None now' r3
       else if \<not> cr1 then stop_row ''needs_review'' ''Agent finished without calling complete_todo'' now' r3
       else r3)"
  proof (cases "is_todo_board_reconciled (td_status r3)")
    case True
    with net st c2' show ?thesis by (simp add: whenM_def)
  next
    case False
    then have "td_status r3 \<noteq> ''done''" by auto
    with False net st have "apply_safety_net x t ok tm cr1 reply mi w4 = (Inr u, w5)"
      by (simp add: whenM_def)
    from safety_net_row [OF this c2'(2)] False tm_mi show ?thesis by auto
  qed
  then obtain now' r4 where b5: "todo_at (w_db w5) (td_id t) = Some r4" and r4: "r4 =
      (if is_todo_board_reconciled (td_status r3) then r3 else if \<not> ok then stop_row ''blocked'' reply now' r3
       else if tm then complete_row None now' r3
       else if \<not> (e \<or> tm) then stop_row ''needs_review'' ''Agent finished without calling complete_todo'' now' r3
       else r3)"
    unfolding cr by blast
  have "r3 = (if e \<and> td_status r = ''in_progress'' then complete_row ?posted now r else r)"
    using r3 e' by auto
  moreover have "e \<longleftrightarrow> ok \<and> trim reply = [] \<and> p \<noteq> None \<and> ?posted \<noteq> None"
    "tm \<longleftrightarrow> ok \<and> p = None \<and> starts_with reply ''[TestMode]''"
    using e' by (auto simp: tm_def)
  ultimately obtain u where "r4 = outcome_row p ?posted ok reply u r"
    using outcome_row_steps [of e ok reply p ?posted tm r3 r now r4 now'] r4 by blast
  with b5 s5 show ?thesis by auto
qed

lemma record_turn_outcome_board:
  assumes run: "record_turn_outcome x p k t am ok reply w = (Inr mi, w')"
    and s: "board_status (w_db w) (td_id t) = Some s"
  shows "board_status (w_db w') (td_id t) = Some (outcome_status p
    (\<exists>ps. p = Some ps \<and> unlinked_result (w_db w) ps (kd_id k) \<noteq> None) ok reply s)"
proof -
  from s obtain r where r: "todo_at (w_db w) (td_id t) = Some r" "td_status r = s" by (auto simp: board_status_def)
  have "(result_of_turn (w_db w) p (kd_id k) \<noteq> None) = (\<exists>ps. p = Some ps \<and> unlinked_result (w_db w) ps (kd_id k) \<noteq> None)"
    by (cases p) (simp_all add: result_of_turn_def)
  moreover obtain now where "todo_at (w_db w') (td_id t) =
      Some (outcome_row p (result_of_turn (w_db w) p (kd_id k)) ok reply now r)"
    using record_turn_outcome_row [OF run r(1)] by blast
  ultimately show ?thesis using r(2) by (simp only: board_status_def option.map outcome_row_status)
qed

section \<open>A todo that is gone stays gone\<close>

definition stays_gone :: "string \<Rightarrow> db \<Rightarrow> db \<Rightarrow> bool" where
  "stays_gone i d d' \<longleftrightarrow> (board_status d i = None \<longrightarrow> board_status d' i = None)"

interpretation stays_gone: effect "stays_gone i" for i
  by unfold_locales (simp_all add: stays_gone_def)

lemma stays_gone_same: "effects same_todos m \<Longrightarrow> effects (stays_gone i) m"
  unfolding effects_def stays_gone_def by (metis board_status_same)

lemma stays_gone_set [effect_intros]:
  "effects (stays_gone i) (block_koi_todo x j m)"
  "effects (stays_gone i) (mark_koi_todo_needs_review x j m)"
  "effects (stays_gone i) (complete_koi_todo x j rm)"
  unfolding todo_ops_set effects_def stays_gone_def
  by (simp_all add: set_todo_op_run board_status_def todo_at_updated)

lemma stays_gone_messages [effect_intros]:
  "effects (stays_gone i) (post_failure x p k t m r)"
  "effects (stays_gone i) (post_reminder x p k t m r)"
  "effects (stays_gone i) (refresh_todo x j)"
  "effects (stays_gone i) (get_koi_todo x j)"
  "effects (stays_gone i) (link_pool_message_to_todo mi j)"
  "effects (stays_gone i) (get_pool_message_by_id x mi)"
  "effects (stays_gone i) (get_latest_unlinked_result_message_id ps s)"
  by (rule stays_gone_same; intro effect_intros)+

lemma stays_gone_record_message [effect_intros]:
  "effects (stays_gone i) (record_message x p k t m b r c e cr)"
  unfolding record_message_def close_with_unlinked_result_def by (intro effect_intros)

lemma stays_gone_record [effect_intros]:
  "effects (stays_gone i) (record_turn_outcome x p k t m b r)"
  unfolding record_turn_outcome_def apply_safety_net_def Let_def by (intro effect_intros)

lemma outcome_not_in_progress: "outcome_status p posted ok reply s \<noteq> ''in_progress''"
  by (auto simp: outcome_status_def is_todo_board_reconciled_def)

lemma record_not_in_progress:
  assumes "record_turn_outcome x p k t am ok reply w = (Inr mi, w')"
  shows "board_status (w_db w') (td_id t) \<noteq> Some ''in_progress''"
proof (cases "board_status (w_db w) (td_id t)")
  case None
  with effectsD [OF stays_gone_record assms] show ?thesis by (simp add: stays_gone_def)
next
  case (Some s)
  from record_turn_outcome_board [OF assms this] show ?thesis
    by (simp add: outcome_not_in_progress)
qed

section \<open>The whole turn\<close>

text \<open>A turn that returns a result has either lost the fence or run to its end.\<close>

lemma execute_todo_turn_cases:
  assumes "execute_todo_turn x rt cfg args w = (Inr r, w')"
  obtains (skipped) koi todo ps w1 w2 w3 where
      "resolve_turn_context x args w = (Inr (koi, todo, ps), w1)"
      "list_koi_todos x None w1 = (Inr w2, w3)"
      "claim_fence x (td_id todo) (kd_id koi) w3 = (Inr False, w')"
      "r = skipped ''duplicate dispatch skipped: todo already in progress or Koi busy''"
    | (run) koi todo ps w1 todos w3 w4 u w5 w6 v where
      "resolve_turn_context x args w = (Inr (koi, todo, ps), w1)"
      "\<And>p. ps = Some p \<Longrightarrow> ps_status p = ''active''"
      "list_koi_todos x None w1 = (Inr todos, w3)"
      "is_todo_dependency_satisfied todo todos"
      "claim_fence x (td_id todo) (kd_id koi) w3 = (Inr True, w4)"
      "announce_claim x koi todo (map_option ps_id ps) (ea_assign_msg_id args) w4 = (Inr u, w5)"
      "execute_todo_turn_inner x rt cfg koi todo ps args w5 = (Inr r, w6)"
      "ignore (restore_idle x (kd_id koi)) w6 = (Inr v, w')"
proof -
  have pool: "(case ps of None \<Rightarrow> ret () | Some pool \<Rightarrow> ensure_pool_allows_runtime_work pool a) w = (Inr u, w') \<longleftrightarrow>
      (\<forall>p. ps = Some p \<longrightarrow> ps_status p = ''active'') \<and> w' = w" for ps a w u w'
    by (auto simp: ensure_pool_allows_runtime_work_def split: option.split)
  from assms obtain koi todo ps w1 todos w3 won w4 where
    1: "resolve_turn_context x args w = (Inr (koi, todo, ps), w1)"
       "\<And>p. ps = Some p \<Longrightarrow> ps_status p = ''active''"
       "list_koi_todos x None w1 = (Inr todos, w3)"
       "is_todo_dependency_satisfied todo todos"
       "claim_fence x (td_id todo) (kd_id koi) w3 = (Inr won, w4)"
    and 2: "(if \<not> won
      then ret (skipped ''duplicate dispatch skipped: todo already in progress or Koi busy'')
      else bindM (announce_claim x koi todo (map_option ps_id ps) (ea_assign_msg_id args)) (\<lambda>_.
        bindM (attempt (execute_todo_turn_inner x rt cfg koi todo ps args)) (\<lambda>result.
        bindM (ignore (restore_idle x (kd_id koi))) (\<lambda>_. lift_result result)))) w4 = (Inr r, w')"
    unfolding execute_todo_turn_def bindM_Inr_iff
    by (auto simp: pool bindM_Inr_iff split: prod.splits)
  show thesis
  proof (cases won)
    case False
    with 1 2 show thesis by (intro skipped) auto
  next
    case True
    with 2 obtain u w5 res w6 v where
      "announce_claim x koi todo (map_option ps_id ps) (ea_assign_msg_id args) w4 = (Inr u, w5)"
      "attempt (execute_todo_turn_inner x rt cfg koi todo ps args) w5 = (Inr res, w6)"
      "ignore (restore_idle x (kd_id koi)) w6 = (Inr v, w')" "res = Inr r"
      by (auto simp: bindM_Inr_iff lift_result_def)
    with 1 True show thesis
      by (intro run) (auto simp: attempt_def split: prod.splits)
  qed
qed

lemma resolve_turn_context_sel:
  assumes "resolve_turn_context x args w = (Inr (koi, todo, ps), w')"
  obtains now where "w_db w' = w_db w" "sel_todo now (ea_todo_id args) (w_db w) = Some todo"
proof -
  have wp: "wp (resolve_turn_context x args) (\<lambda>res w'. \<forall>koi todo ps. res = Inr (koi, todo, ps) \<longrightarrow>
      w_db w' = w_db w \<and> (\<exists>now. sel_todo now (ea_todo_id args) (w_db w) = Some todo)) w"
    by (auto simp: resolve_turn_context_def resolve_koi_identifier_def
        resolve_pool_session_identifier_def wp_simps split: option.splits sum.splits)
  from wpD [OF wp assms] that show thesis by blast
qed

lemma resolve_turn_context_run:
  assumes "resolve_turn_context x args w = (Inr (koi, todo, ps), w')"
  shows "w_db w' = w_db w \<and> td_id todo = ea_todo_id args \<and>
    board_status (w_db w) (td_id todo) = Some (td_status todo)"
proof -
  from assms obtain now where "w_db w' = w_db w"
    and t: "sel_todo now (ea_todo_id args) (w_db w) = Some todo" by (rule resolve_turn_context_sel)
  moreover have "td_id todo = ea_todo_id args"
    using t by (auto simp: sel_todo_def dest: todo_at_id)
  moreover have "board_status (w_db w) (ea_todo_id args) = Some (td_status todo)"
    using t by (metis option.map(2) sel_todo_status)
  ultimately show ?thesis by simp
qed

lemma list_koi_todos_run:
  "list_koi_todos x ow w = (Inr ts, w') \<longleftrightarrow>
     ts = sel_todos (ex_now x (w_tick w)) ow (w_db w) \<and> w' = w\<lparr>w_tick := Suc (w_tick w)\<rparr>"
  by (auto simp: list_koi_todos_def bindM_def utc_now_def reading_def query_def)

lemma inner_records:
  assumes "execute_todo_turn_inner x rt cfg koi todo ps args w = (Inr r, w')"
  obtains p ok reply am mi w1 w2 where
    "record_turn_outcome x p koi todo am ok reply w1 = (Inr mi, w2)"
    "w_db w' = w_db w2" "er_success r = ok" "er_reply r = reply"
proof -
  have frame: "w_db w2 = w_db w1"
    if "(case ws of None \<Rightarrow> ret () | Some wt \<Rightarrow> whenM b (cleanup_worktree x wt n tk)) w1 = (Inr u, w2)"
    for ws b n tk w1 w2 u
    using that effectsD [OF frame.cleanup_worktree]
    by (auto simp: whenM_def frame_def split: option.splits if_splits)
  from assms show thesis
    by (auto simp: execute_todo_turn_inner_def Let_def bindM_Inr_iff case_prod_beta
        dest!: frame intro: that)
qed

lemma restore_idle_run:
  assumes "ignore (restore_idle x k) w = (Inr u, w')"
  shows "tb_koi_todos (w_db w') = tb_koi_todos (w_db w) \<and>
    ((\<forall>r \<in> set (tb_koi_todos (w_db w)). \<not> in_progress_of k r) \<longrightarrow>
      (\<forall>r \<in> set (tb_kois (w_db w')). kd_id r = k \<longrightarrow> kd_status r = ''idle''))"
proof (cases "\<exists>r \<in> set (tb_koi_todos (w_db w)). in_progress_of k r")
  case True
  have "wp (ignore (restore_idle x k)) (\<lambda>_ w'. w_db w' = w_db w) w"
    using True by (auto simp: restore_idle_def koi_has_in_progress_todo_def wp_simps count_rows_pos
        in_progress_of_def)
  from wpD [OF this assms] True show ?thesis by auto
next
  case False
  have "wp (ignore (restore_idle x k)) (\<lambda>_ w'. \<exists>f. w_db w' = update_kois (\<lambda>r. kd_id r = k) f (w_db w)
      \<and> (\<forall>r. kd_status (f r) = ''idle'')) w"
    using False by (auto simp: restore_idle_def koi_has_in_progress_todo_def update_koi_status_def
        wp_simps count_rows_pos in_progress_of_def)
  from wpD [OF this assms] obtain f where "w_db w' = update_kois (\<lambda>r. kd_id r = k) f (w_db w)"
    and "\<And>r. kd_status (f r) = ''idle''" by blast
  then show ?thesis by (auto simp: set_update_rows)
qed

lemma resolve_quiet: "resolve_turn_context x args w = (r, w') \<Longrightarrow> quiet w w'"
proof -
  have "wp (resolve_turn_context x args) (\<lambda>_ w'. quiet w w') w"
    by (auto simp: resolve_turn_context_def resolve_koi_identifier_def quiet_def
        resolve_pool_session_identifier_def wp_simps split: option.splits sum.splits)
  then show "resolve_turn_context x args w = (r, w') \<Longrightarrow> quiet w w'" by (rule wpD)
qed

lemma turn_without_effect:
  assumes "wf_db (w_db w)"
    and "resolve_turn_context x args w = (Inr (koi, todo, ps), w1)"
    and "list_koi_todos x None w1 = (Inr todos, w2)"
    and "(\<exists>p. ps = Some p \<and> ps_status p \<noteq> ''active'') \<or> \<not> is_todo_dependency_satisfied todo todos \<or>
         \<not> fence_free (td_id todo) (kd_id koi) (w_db w)"
  shows "quiet w (snd (execute_todo_turn x rt cfg args w))"
proof -
  have q1: "quiet w w1" using assms(2) by (rule resolve_quiet)
  have q2: "quiet w w2" using q1 assms(3) by (auto simp: quiet_def list_koi_todos_run)
  show ?thesis
  proof (cases "(\<exists>p. ps = Some p \<and> ps_status p \<noteq> ''active'') \<or> \<not> is_todo_dependency_satisfied todo todos")
    case True
    with q1 q2 show ?thesis
      by (auto simp: execute_todo_turn_def bindM_def assms(2,3) ensure_pool_allows_runtime_work_def
          guardM_def ret_def bail_def split: option.split)
  next
    case False
    with assms(4) have "\<not> fence_free (td_id todo) (kd_id koi) (w_db w)" by blast
    with q2 have nf: "\<not> fence_free (td_id todo) (kd_id koi) (w_db w2)" by (simp add: quiet_def)
    have wf2: "wf_db (w_db w2)" using assms(1) q2 by (simp add: quiet_def)
    obtain b w3 where c: "claim_fence x (td_id todo) (kd_id koi) w2 = (b, w3)"
      by (cases "claim_fence x (td_id todo) (kd_id koi) w2")
    from claim_fence_refused [OF wf2 nf c] q2 have "quiet w w3" "b = Inr False"
      by (auto intro: quiet_trans)
    with False c show ?thesis
      by (auto simp: execute_todo_turn_def bindM_def assms(2,3) ensure_pool_allows_runtime_work_def
          guardM_def ret_def bail_def split: option.split sum.splits)
  qed
qed

section \<open>Properties\<close>

text \<open>
  C2. A turn that returns a result leaves its todo settled: either another dispatcher had the todo or
  the Koi (the skipped result, and the database is as before), or the todo is not \<^verbatim>\<open>in_progress\<close> any
  more and its Koi is idle unless the board shows other work in progress for it. This holds for
  every runtime, whatever the subagent did to the database meanwhile.
\<close>

theorem turn_settles:
  assumes "wf_db (w_db w)"
    and "resolve_turn_context x args w = (Inr (koi, todo, ps), w1)"
    and "execute_todo_turn x rt cfg args w = (Inr r, w')"
  shows "(r = skipped ''duplicate dispatch skipped: todo already in progress or Koi busy'' \<and>
           w_db w' = w_db w) \<or>
         (board_status (w_db w') (td_id todo) \<noteq> Some ''in_progress'' \<and>
          ((\<forall>t \<in> set (tb_koi_todos (w_db w')). \<not> in_progress_of (kd_id koi) t) \<longrightarrow>
             (\<forall>k \<in> set (tb_kois (w_db w')). kd_id k = kd_id koi \<longrightarrow> kd_status k = ''idle'')))"
  using assms(3)
proof (cases rule: execute_todo_turn_cases)
  case (skipped koi' todo' ps' w1' ts w3)
  then have "w_db w3 = w_db w"
    by (auto simp: list_koi_todos_run dest: resolve_turn_context_run)
  with skipped assms(1) claim_fence_run(3) [of w3 x _ _ False w'] show ?thesis by auto
next
  case (run koi' todo' ps' w1' todos w3 w4 u w5 w6 v)
  from run(1) assms(2) have same: "koi' = koi" "todo' = todo" by simp_all
  note restored = restore_idle_run [OF run(8)]
  from run(7) obtain p ok reply am mi w1'' w2 where
    "record_turn_outcome x p koi' todo' am ok reply w1'' = (Inr mi, w2)" "w_db w6 = w_db w2"
    by (rule inner_records)
  with record_not_in_progress have "board_status (w_db w6) (td_id todo) \<noteq> Some ''in_progress''"
    unfolding same by metis
  with restored show ?thesis
    unfolding same by (simp add: board_status_def todo_at_def)
qed

theorem turn_settles_witness:
  "board_status (w_db world_done) ''t1'' \<noteq> Some ''in_progress'' \<and>
   {k \<in> set (tb_kois (w_db world_done)). kd_id k = ''k1'' \<and> kd_status k \<noteq> ''idle''} = {}"
proof -
  have w: "start_world sample_db = world_at 0" by (simp add: world_at_def)
  have "sample_result \<noteq> skipped m" for m by (simp add: sample_result_def skipped_def)
  moreover have "\<forall>t \<in> set (tb_koi_todos (w_db world_done)). \<not> in_progress_of ''k1'' t" by code_simp
  ultimately show ?thesis
    using turn_settles [OF _ sample_resolve [folded w] sample_turn] by (simp add: sample_sel)
qed

text \<open>
  A turn is refused without any effect when its pool is not active, the dependency of its todo is
  not satisfied, or the fence is not free: the database, the events, the queued jobs, the git
  commands and the subagent turns stay as they are.
\<close>

theorem turn_refused:
  assumes "wf_db (w_db w)"
    and "resolve_turn_context x args w = (Inr (koi, todo, ps), w1)"
    and "list_koi_todos x None w1 = (Inr todos, w2)"
    and "(\<exists>p. ps = Some p \<and> ps_status p \<noteq> ''active'') \<or> \<not> is_todo_dependency_satisfied todo todos \<or>
         \<not> fence_free (td_id todo) (kd_id koi) (w_db w)"
  shows "quiet w (snd (execute_todo_turn x rt cfg args w))"
  by (rule turn_without_effect [OF assms])

theorem turn_refused_witness:
  "quiet (start_world sample_db)
     (snd (execute_todo_turn sample_ext sample_runtime sample_cfg (turn_args ''k1'' ''t2'') (start_world sample_db)))"
proof -
  have w: "start_world sample_db = world_at 0" by (simp add: world_at_def)
  have "resolve_turn_context sample_ext (turn_args ''k1'' ''t2'') (start_world sample_db) =
      (Inr (sample_koi, map_koi_todo 0 (todo_row_of ''t2'' ''k1'' ''todo'' (Some ''p1'') (Some ''t1'')),
        Some sample_pool), world_at 3)" by code_simp
  moreover have "\<not> is_todo_dependency_satisfied
      (map_koi_todo 0 (todo_row_of ''t2'' ''k1'' ''todo'' (Some ''p1'') (Some ''t1'')))
      (sel_todos 0 None sample_db)" by code_simp
  ultimately show ?thesis
    using turn_refused [OF _ _ sample_list disjI2 [OF disjI1]] wf_sample_db start_world_sel(1)
    by metis
qed

text \<open>
  C3. What a turn's outcome does to its todo, on every branch and in every column. A todo that the subagent
  already closed, blocked, cancelled or sent to review keeps its row. A failed run blocks it with the reply
  as the reason. A test-mode reply outside a pool closes it; an empty reply after a posted result closes it
  with that message as its result when it was in progress. Anything else sends it to review with a reason.
  Closing clears the reason and makes its branch ready for integration. Who claimed it never changes, and
  neither does any other todo.
\<close>

theorem record_turn_outcome_status:
  assumes "record_turn_outcome x p koi todo am ok reply w = (Inr mi, w')"
    and "todo_at (w_db w) (td_id todo) = Some r"
  shows "\<exists>now. todo_at (w_db w') = (todo_at (w_db w))(td_id todo :=
    Some (outcome_row p (result_of_turn (w_db w) p (kd_id koi)) ok reply now r))"
proof -
  have "todo_at (w_db w') j = todo_at (w_db w) j" if "j \<noteq> td_id todo" for j
    using effectsD [OF only_todo_record assms(1)] that by (simp add: only_todo_def)
  with record_turn_outcome_row [OF assms] show ?thesis by (auto simp: fun_eq_iff)
qed

theorem record_turn_outcome_status_witness:
  "\<exists>r'. todo_at (w_db world_recorded) ''t1'' = Some r' \<and> td_status r' = ''needs_review'' \<and>
     td_blocked_reason r' = Some ''Agent finished without calling complete_todo''"
proof -
  have "case todo_at (w_db world_answered) ''t1'' of None \<Rightarrow> False | Some r \<Rightarrow> td_status r = ''in_progress''" by code_simp
  then obtain r where r: "todo_at (w_db world_answered) ''t1'' = Some r" "td_status r = ''in_progress''"
    by (auto split: option.splits)
  with record_turn_outcome_status [OF sample_record, of r] show ?thesis
    by (auto simp: sample_sel outcome_row_def str_eval)
qed

end
