(* ===== verification/Dispatch.thy ===== *)
theory Dispatch
  imports Turns
begin

text \<open>
  Many dispatchers on one board. \<^verbatim>\<open>PoolStore::read\<close> and \<^verbatim>\<open>write\<close> run a closure under the database
  lock, so concurrent turns are an interleaving of their closures. \<open>board_step\<close> is one closure of
  \<^verbatim>\<open>pool/coordinator.rs\<close> run by some dispatcher, and \<open>board_run\<close> any interleaving of them; the
  invariant is that no Koi has two todos in progress.
\<close>

definition one_turn_per_koi :: "db \<Rightarrow> bool" where
  "one_turn_per_koi d \<longleftrightarrow>
     (\<forall>k. \<forall>r \<in> set (tb_koi_todos d). \<forall>s \<in> set (tb_koi_todos d).
        in_progress_of k r \<and> in_progress_of k s \<longrightarrow> td_id r = td_id s)"

text \<open>
  The closures: the fence, taken for the owner of a todo as \<^verbatim>\<open>activate_pending_todos\<close>,
  \<^verbatim>\<open>resume_blocked_todo\<close>, \<^verbatim>\<open>replace_blocked_todo\<close> and \<^verbatim>\<open>handle_mention\<close> do; the writes of an outcome; the
  Koi's restoration; creating todos; posting and linking messages; the watchdog.
\<close>

inductive board_step :: "ext \<Rightarrow> world \<Rightarrow> world \<Rightarrow> bool" for x where
  fence: "todo_at (w_db w) i = Some t \<Longrightarrow> claim_fence x i (td_owner_id t) w = (r, w') \<Longrightarrow>
    board_step x w w'"
| block: "block_koi_todo x i m w = (r, w') \<Longrightarrow> board_step x w w'"
| review: "mark_koi_todo_needs_review x i m w = (r, w') \<Longrightarrow> board_step x w w'"
| complete: "complete_koi_todo x i rm w = (r, w') \<Longrightarrow> board_step x w w'"
| branch: "set_koi_todo_git_branch x i b w = (r, w') \<Longrightarrow> board_step x w w'"
| restore: "restore_idle x k w = (r, w') \<Longrightarrow> board_step x w w'"
| create: "create_koi_todo x ow ti de pr ab ps st dep tt w = (r, w') \<Longrightarrow> board_step x w w'"
| replace: "replace_koi_todo x ori ow ti de ab st rs tt w = (r, w') \<Longrightarrow> board_step x w w'"
| message: "insert_pool_message_ext x p s c mt md t' re ev w = (r, w') \<Longrightarrow> board_step x w w'"
| link: "link_pool_message_to_todo mi i w = (r, w') \<Longrightarrow> board_step x w w'"
| sentinel: "upsert_koi_with_id x i n w = (r, w') \<Longrightarrow> board_step x w w'"
| watchdog_kois: "recover_stale_busy_kois x n w = (r, w') \<Longrightarrow> board_step x w w'"
| watchdog_todos: "recover_stale_in_progress_todos x n w = (r, w') \<Longrightarrow> board_step x w w'"

inductive_cases board_stepE: "board_step x w w'"

inductive board_run :: "ext \<Rightarrow> world \<Rightarrow> world \<Rightarrow> bool" for x where
  start: "board_run x w w"
| step: "board_run x w w' \<Longrightarrow> board_step x w' w'' \<Longrightarrow> board_run x w w''"

section \<open>Closures that start no work\<close>

text \<open>
  An effect: every row in progress afterwards was in progress before, with the same identifier and
  the same owner. All closures but the fence have it.
\<close>

definition starts_nothing :: "db \<Rightarrow> db \<Rightarrow> bool" where
  "starts_nothing d d' \<longleftrightarrow>
     (\<forall>r' \<in> set (tb_koi_todos d'). td_status r' = ''in_progress'' \<longrightarrow>
        (\<exists>r \<in> set (tb_koi_todos d). td_status r = ''in_progress'' \<and> td_id r = td_id r' \<and>
           td_owner_id r = td_owner_id r'))"

interpretation starts_nothing: effect starts_nothing
  by unfold_locales (auto simp: starts_nothing_def, metis)

lemma starts_nothing_same: "effects same_todos m \<Longrightarrow> effects starts_nothing m"
  by (auto simp: effects_def same_todos_def starts_nothing_def)

lemma starts_nothing_update:
  assumes "\<And>r. td_id (f r) = td_id r" "\<And>r. td_owner_id (f r) = td_owner_id r"
    "\<And>r. td_status (f r) = ''in_progress'' \<Longrightarrow> td_status r = ''in_progress''"
  shows "starts_nothing d (update_todos P f d)"
  unfolding starts_nothing_def
proof (intro ballI impI)
  fix r' assume "r' \<in> set (tb_koi_todos (update_todos P f d))" "td_status r' = ''in_progress''"
  then obtain r where "r \<in> set (tb_koi_todos d)" "r' = r \<or> r' = f r"
    by (auto simp: set_update_rows)
  with \<open>td_status r' = _\<close> assms show "\<exists>r \<in> set (tb_koi_todos d). td_status r = ''in_progress'' \<and>
      td_id r = td_id r' \<and> td_owner_id r = td_owner_id r'" by metis
qed

lemma starts_nothing_insert:
  "insert_todo r d = Inr (n, d') \<Longrightarrow> td_status r \<noteq> ''in_progress'' \<Longrightarrow> starts_nothing d d'"
  by (auto simp: insert_todo_def starts_nothing_def split: if_splits)

lemma starts_nothing_execute [effect_intros]:
  "(\<And>r. td_id (f r) = td_id r) \<Longrightarrow> (\<And>r. td_owner_id (f r) = td_owner_id r) \<Longrightarrow>
     (\<And>r. td_status (f r) = ''in_progress'' \<Longrightarrow> td_status r = ''in_progress'') \<Longrightarrow>
     effects starts_nothing (execute (set_todo i f))"
  "td_status t \<noteq> ''in_progress'' \<Longrightarrow> effects starts_nothing (execute (insert_todo t))"
  unfolding effects_execute_iff set_todo_def
  by (auto split: sum.split intro: starts_nothing_update starts_nothing_insert
      starts_nothing.R_refl)

lemma starts_nothing_replace [effect_intros]:
  assumes "td_status t \<noteq> ''in_progress''"
  shows "effects starts_nothing (execute (replace_statements t i m now))"
proof -
  have "starts_nothing d (update_todos (\<lambda>r. td_id r = i) (stop_row ''cancelled'' m now) d1)"
    if "insert_todo t d = Inr (n, d1)" for d n d1
    by (rule starts_nothing.R_trans [OF starts_nothing_insert [OF that assms]])
      (rule starts_nothing_update; simp)
  then show ?thesis
    unfolding effects_execute_iff replace_statements_def set_todo_def
    by (auto split: sum.split intro: starts_nothing.R_refl)
qed

lemma starts_nothing_ops [effect_intros]:
  "effects starts_nothing (block_koi_todo x i m)"
  "effects starts_nothing (mark_koi_todo_needs_review x i m)"
  "effects starts_nothing (complete_koi_todo x i rm)"
  "effects starts_nothing (set_koi_todo_git_branch x i b)"
  "effects starts_nothing (create_koi_todo x ow ti de pr ab ps st dep tt)"
  "effects starts_nothing (replace_koi_todo x ori ow ti de ab st rs to)"
  unfolding block_koi_todo_def mark_koi_todo_needs_review_def complete_koi_todo_def
    set_koi_todo_git_branch_def create_koi_todo_def replace_koi_todo_def Let_def
  by (intro effect_intros; simp)+

lemma starts_nothing_recover [effect_intros]:
  "effects starts_nothing (recover_stale_in_progress_todos x n)"
  unfolding recover_stale_in_progress_todos_def Let_def
  by (intro effect_intros)
    (auto simp: effects_execute_iff release_row_def intro!: starts_nothing_update)

lemma same_todos_dispatch [effect_intros]:
  "effects same_todos (upsert_koi_with_id x i n)"
  "effects same_todos (recover_stale_busy_kois x s)"
  unfolding upsert_koi_with_id_def
   apply (intro effect_intros)
  unfolding recover_stale_busy_kois_def Let_def
  apply (intro effect_intros)
  apply (simp add: effects_execute_iff same_todos_def)
  done

lemma starts_nothing_others [effect_intros]:
  "effects starts_nothing (restore_idle x k)"
  "effects starts_nothing (insert_pool_message_ext x p s c mt md t' r ev)"
  "effects starts_nothing (link_pool_message_to_todo mi i)"
  "effects starts_nothing (upsert_koi_with_id x i n)"
  "effects starts_nothing (recover_stale_busy_kois x se)"
  by (rule starts_nothing_same; intro effect_intros)+

lemma starts_nothing_one_turn:
  assumes "starts_nothing d d'" and "one_turn_per_koi d"
  shows "one_turn_per_koi d'"
  unfolding one_turn_per_koi_def
proof (intro allI ballI impI)
  fix k r s
  assume "r \<in> set (tb_koi_todos d')" "s \<in> set (tb_koi_todos d')"
    and "in_progress_of k r \<and> in_progress_of k s"
  with assms(1) obtain r0 s0 where "r0 \<in> set (tb_koi_todos d)" "s0 \<in> set (tb_koi_todos d)"
    "in_progress_of k r0" "in_progress_of k s0" "td_id r0 = td_id r" "td_id s0 = td_id s"
    unfolding starts_nothing_def in_progress_of_def by metis
  with assms(2) show "td_id r = td_id s" unfolding one_turn_per_koi_def by metis
qed

section \<open>The fence\<close>

lemma claimed_mem:
  assumes "r \<in> set (tb_koi_todos (claimed_db t1 t2 i k d))"
  obtains r0 where "r0 \<in> set (tb_koi_todos d)" "td_id r = td_id r0" "td_owner_id r = td_owner_id r0"
    "r = r0 \<or> td_id r0 = i"
  using assms by (auto simp: claimed_db_todos set_update_rows split: if_splits)

lemma fence_one_turn:
  assumes "wf_db d" "one_turn_per_koi d" "todo_at d i = Some t" "fence_free i (td_owner_id t) d"
  shows "one_turn_per_koi (claimed_db t1 t2 i (td_owner_id t) d)"
proof -
  let ?k = "td_owner_id t"
  have own: "td_owner_id r = ?k" if "r \<in> set (tb_koi_todos d)" "td_id r = i" for r
  proof -
    have "todo_at d i = Some r"
      using that assms(1) by (simp add: todo_at_def wf_db_def find_row_eq_Some_iff)
    with assms(3) show ?thesis by simp
  qed
  have old: "td_id r = i \<or> (r \<in> set (tb_koi_todos d))"
    if "r \<in> set (tb_koi_todos (claimed_db t1 t2 i ?k d))" for r
    using that by (rule claimed_mem) auto
  have k: "k = ?k"
    if r: "r \<in> set (tb_koi_todos (claimed_db t1 t2 i ?k d))" and "in_progress_of k r" "td_id r = i"
    for k r
    using r
  proof (rule claimed_mem)
    fix r0 assume "r0 \<in> set (tb_koi_todos d)" "td_id r = td_id r0" "td_owner_id r = td_owner_id r0"
    with own [of r0] that(2,3) show "k = ?k" by (simp add: in_progress_of_def)
  qed
  from assms(4) have free: "td_id r = i" if "r \<in> set (tb_koi_todos d)" "in_progress_of ?k r" for r
    using that by (auto simp: fence_free_def)
  show ?thesis
    unfolding one_turn_per_koi_def
  proof (intro allI ballI impI)
    fix k r s
    assume r: "r \<in> set (tb_koi_todos (claimed_db t1 t2 i ?k d))"
      and s: "s \<in> set (tb_koi_todos (claimed_db t1 t2 i ?k d))"
      and ip: "in_progress_of k r \<and> in_progress_of k s"
    show "td_id r = td_id s"
    proof (cases "td_id r = i \<or> td_id s = i")
      case True
      with k [OF r] k [OF s] ip have "k = ?k" by blast
      with old [OF r] old [OF s] free ip show ?thesis by metis
    next
      case False
      with old [OF r] old [OF s] ip assms(2) show ?thesis unfolding one_turn_per_koi_def by metis
    qed
  qed
qed

definition board_inv :: "db \<Rightarrow> bool" where
  "board_inv d \<longleftrightarrow> wf_db d \<and> one_turn_per_koi d"

lemma board_step_inv:
  assumes "board_step x w w'" and "board_inv (w_db w)"
  shows "board_inv (w_db w')"
proof -
  have wf: "wf_db (w_db w)" and one: "one_turn_per_koi (w_db w)"
    using assms(2) by (simp_all add: board_inv_def)
  have step: "board_inv (w_db w')"
    if "effects keeps_wf m" "effects starts_nothing m" "m w = (r, w')" for m :: "'a M" and r
    using effectsD [OF that(1,3)] effectsD [OF that(2,3)] wf one
    by (simp add: board_inv_def keeps_wf_def starts_nothing_one_turn)
  show ?thesis
    using assms(1)
  proof cases
    case (fence i t r)
    from claim_fence_wp [OF wf, THEN wpD, OF fence(2)]
    have "w_db w' = w_db w \<or>
        (fence_free i (td_owner_id t) (w_db w) \<and> (\<exists>t1 t2. w_db w' = claimed_db t1 t2 i (td_owner_id t) (w_db w)))"
      by (auto simp: quiet_def split: if_splits)
    moreover have "wf_db (w_db w')"
      using effectsD [OF wf_claim_fence fence(2)] wf by (simp add: keeps_wf_def)
    ultimately show ?thesis
      using one fence_one_turn [OF wf one fence(1)] by (auto simp: board_inv_def)
  qed (erule step [rotated 2]; intro effect_intros)+
qed

lemma board_run_inv: "board_run x w w' \<Longrightarrow> board_inv (w_db w) \<Longrightarrow> board_inv (w_db w')"
  by (induction rule: board_run.induct) (auto dest: board_step_inv)

lemma claimed_status:
  assumes "wf_db d" "fence_free i k d"
  shows "board_status (claimed_db t1 t2 i k d) = (board_status d)(i := Some ''in_progress'')"
  using assms(2)
  by (auto simp: board_status_def fun_eq_iff todo_at_claimed_db fence_free_def option.map_ident)

section \<open>Properties\<close>

text \<open>
  C1. Under any interleaving of the coordinator's closures, run by any number of dispatchers, no Koi
  ever has two todos in progress, and the database keeps its integrity.
\<close>

theorem one_turn_per_koi_invariant:
  assumes "board_run x w w'" and "board_inv (w_db w)"
  shows "one_turn_per_koi (w_db w') \<and> wf_db (w_db w')"
  using board_run_inv [OF assms] by (simp add: board_inv_def)

theorem one_turn_per_koi_invariant_witness: "one_turn_per_koi (w_db world_claimed)"
proof -
  have t: "todo_at (w_db (world_at 4)) ''t1'' = Some (todo_row_of ''t1'' ''k1'' ''todo'' (Some ''p1'') None)"
    and k: "td_owner_id (todo_row_of ''t1'' ''k1'' ''todo'' (Some ''p1'') None) = ''k1''"
    by code_simp+
  have "board_step sample_ext (world_at 4) world_claimed"
    by (rule board_step.fence [OF t, unfolded k, OF sample_claim])
  then have "board_run sample_ext (world_at 4) world_claimed" by (rule board_run.step [OF board_run.start])
  moreover have "board_inv (w_db (world_at 4))"
    by (simp add: board_inv_def world_at_def one_turn_per_koi_def in_progress_of_def sample_db_def
        row_defs wf_sample_db [unfolded sample_db_def row_defs])
  ultimately show ?thesis using one_turn_per_koi_invariant by blast
qed

text \<open>
  The fence decides exactly: it is won when, and only when, the todo exists and is not in progress
  and the Koi has no other todo in progress. Winning it sets this todo, and no other, in progress,
  claimed by the Koi, and the Koi busy; losing it changes nothing.
\<close>

theorem claim_fence_decides:
  assumes "wf_db (w_db w)" and "claim_fence x i k w = (Inr won, w')"
  shows "(won \<longleftrightarrow> fence_free i k (w_db w)) \<and>
    board_status (w_db w') =
      (if won then (board_status (w_db w))(i := Some ''in_progress'') else board_status (w_db w)) \<and>
    (won \<longrightarrow> map_option td_claimed_by (todo_at (w_db w') i) = Some (Some k) \<and>
       (\<forall>r \<in> set (tb_kois (w_db w')). kd_id r = k \<longrightarrow> kd_status r = ''busy''))"
proof (cases won)
  case False
  with claim_fence_run [OF assms] show ?thesis by simp
next
  case True
  with claim_fence_run [OF assms] obtain t1 t2 where free: "fence_free i k (w_db w)"
    and d: "w_db w' = claimed_db t1 t2 i k (w_db w)" by auto
  from free obtain r where "todo_at (w_db w) i = Some r" "td_status r \<noteq> ''in_progress''"
    by (auto simp: fence_free_def)
  then have "map_option td_claimed_by (todo_at (w_db w') i) = Some (Some k)"
    by (simp add: d todo_at_claimed_db)
  moreover have "\<forall>r \<in> set (tb_kois (w_db w')). kd_id r = k \<longrightarrow> kd_status r = ''busy''"
    unfolding d claimed_db_def update_kois_sel ball_update_rows by (simp split: if_split)
  ultimately show ?thesis
    using True free claimed_status [OF assms(1) free] unfolding d by simp
qed

theorem claim_fence_decides_witness:
  "map_option td_claimed_by (todo_at (w_db world_claimed) ''t1'') = Some (Some ''k1'') \<and>
   board_status (w_db world_claimed) ''t2'' = board_status sample_db ''t2''"
proof -
  have "wf_db (w_db (world_at 4))" by (simp add: world_at_def)
  from claim_fence_decides [OF this sample_claim] show ?thesis by (simp add: world_at_def)
qed

text \<open>
  The fence does not ask whether the todo is still open: a todo that was completed or cancelled
  after a dispatcher read it as pending is set in progress again, and its turn runs once more.
\<close>

theorem fence_reruns_settled_todo:
  assumes "wf_db (w_db w)" and "todo_at (w_db w) i = Some t"
    and "td_status t \<in> {''done'', ''cancelled''}" and "koi_exists (w_db w) k"
    and "\<forall>r \<in> set (tb_koi_todos (w_db w)). \<not> in_progress_of k r"
  shows "\<exists>w'. claim_fence x i k w = (Inr True, w') \<and> board_status (w_db w') i = Some ''in_progress''"
proof -
  have free: "fence_free i k (w_db w)" using assms(2,3,5) by (auto simp: fence_free_def)
  obtain r w' where c: "claim_fence x i k w = (r, w')" by (cases "claim_fence x i k w")
  from wpD [OF claim_fence_wp [OF assms(1)] c] free assms(4) obtain t1 t2 where
    "r = Inr True" "w_db w' = claimed_db t1 t2 i k (w_db w)" by auto
  with c claimed_status [OF assms(1) free] show ?thesis by simp
qed

theorem fence_reruns_settled_todo_witness:
  "\<exists>w'. claim_fence sample_ext ''t1'' ''k1''
     (start_world (sample_db\<lparr>tb_koi_todos := [todo_row_of ''t1'' ''k1'' ''cancelled'' None None]\<rparr>)) =
       (Inr True, w') \<and> board_status (w_db w') ''t1'' = Some ''in_progress''"
  by (rule fence_reruns_settled_todo [where t = "todo_row_of ''t1'' ''k1'' ''cancelled'' None None"])
    (simp_all add: wf_db_def sample_db_def row_defs todo_refs_def member_refs_def exists_defs
      member_key_def todo_at_def find_row_Cons in_progress_of_def)

end
