(* ===== verification/Project_State.thy ===== *)
theory Project_State
  imports Integration "HOL-Library.AList" "HOL-Library.Multiset"
begin

text \<open>
  \<^verbatim>\<open>piscis-core/src/project_state.rs\<close>: the coordination signals in pool messages, the metadata that
  carries them, the event digest, and the assessment that decides what the supervisor does next.
  \<open>parse\<close> is \<^verbatim>\<open>serde_json::from_str\<close> and \<open>fmt\<close> chrono's \<^verbatim>\<open>format("%m-%d %H:%M")\<close>, both arguments. A
  \<^verbatim>\<open>HashMap\<close> is an association list; only counts and maxima are taken of it.
\<close>

section \<open>Signals\<close>

definition STATUS_FOLLOW_UP :: string where
  "STATUS_FOLLOW_UP = ''[projectstatus] follow_up_needed''"

definition STATUS_WAITING :: string where
  "STATUS_WAITING = ''[projectstatus] waiting''"

definition STATUS_READY :: string where
  "STATUS_READY = ''[projectstatus] ready_for_piscis_review''"

lemmas status_defs = STATUS_FOLLOW_UP_def STATUS_WAITING_def STATUS_READY_def

datatype ProjectDecision =
  Continue | SupervisorDecisionRequired | EscalateToHuman | ReadyForPiscisReview

datatype CoordinationSignalKind = SigFollowUpNeeded | SigWaiting | SigReadyForPiscisReview

fun as_status_str :: "CoordinationSignalKind \<Rightarrow> string" where
  "as_status_str SigFollowUpNeeded = STATUS_FOLLOW_UP"
| "as_status_str SigWaiting = STATUS_WAITING"
| "as_status_str SigReadyForPiscisReview = STATUS_READY"

record SenderState =
  ss_signal :: CoordinationSignalKind
  ss_mentions_piscis :: bool

definition detect_coordination_signal :: "string \<Rightarrow> CoordinationSignalKind option" where
  "detect_coordination_signal content =
     (let lower = to_lowercase (trim content)
      in if starts_with lower STATUS_FOLLOW_UP then Some SigFollowUpNeeded
         else if starts_with lower STATUS_WAITING then Some SigWaiting
         else if starts_with lower STATUS_READY then Some SigReadyForPiscisReview
         else None)"

definition extract_project_status_signal :: "string \<Rightarrow> string option" where
  "extract_project_status_signal content =
     map_option as_status_str (detect_coordination_signal content)"

definition is_mention_end :: "string \<Rightarrow> bool" where
  "is_mention_end ch \<longleftrightarrow>
     is_whitespace ch \<or>
     ch \<in> set ['':'', [CHR 0xEF, CHR 0xBC, CHR 0x9A], ''-'', [CHR 0xE2, CHR 0x80, CHR 0x94], '','', [CHR 0xEF, CHR 0xBC, CHR 0x8C], ''.'']"

text \<open>The first eight bytes of a line whose lower case starts with \<^verbatim>\<open>@!piscis\<close> are ASCII.\<close>

definition delegates_to_piscis :: "string \<Rightarrow> bool" where
  "delegates_to_piscis line =
     (let needle = ''@!piscis'';
          trimmed = trim_start line;
          lower = to_lowercase trimmed
      in if \<not> starts_with lower needle then False
         else case chars (drop (length needle) trimmed) of
                [] \<Rightarrow> True
              | ch # _ \<Rightarrow> is_mention_end ch)"

definition contains_delegated_piscis_mention :: "string \<Rightarrow> bool" where
  "contains_delegated_piscis_mention content = list_ex delegates_to_piscis (str_lines content)"

definition contains_piscis_mention :: "string \<Rightarrow> bool" where
  "contains_piscis_mention content =
     (if contains_delegated_piscis_mention content then True
      else contains (to_lowercase content) ''@piscis'')"

section \<open>Signals in the metadata\<close>

definition coordination_signal_from_metadata ::
  "(string \<Rightarrow> json option) \<Rightarrow> string \<Rightarrow> SenderState option" where
  "coordination_signal_from_metadata parse metadata =
     Option.bind (parse metadata) (\<lambda>metadata.
     Option.bind (json_get metadata ''coordination'') (\<lambda>coordination.
     Option.bind
       (case Option.bind (json_get coordination ''signal'') json_as_str of
          None \<Rightarrow> None
        | Some s \<Rightarrow>
            if s = STATUS_FOLLOW_UP then Some SigFollowUpNeeded
            else if s = STATUS_WAITING then Some SigWaiting
            else if s = STATUS_READY then Some SigReadyForPiscisReview
            else None) (\<lambda>signal.
     let mentions_piscis =
           (case Option.bind (json_get coordination ''mentions_piscis'') json_as_bool of
              Some b \<Rightarrow> b
            | None \<Rightarrow>
                (case Option.bind (Option.bind (json_get metadata ''mentions'')
                        (\<lambda>mentions. json_get mentions ''piscis'')) json_as_bool of
                   Some b \<Rightarrow> b
                 | None \<Rightarrow> False))
     in Some \<lparr>ss_signal = signal, ss_mentions_piscis = mentions_piscis\<rparr>)))"

definition extract_sender_state ::
  "(string \<Rightarrow> json option) \<Rightarrow> PoolMessage \<Rightarrow> SenderState option" where
  "extract_sender_state parse msg =
     (case coordination_signal_from_metadata parse (pm_metadata msg) of
        Some s \<Rightarrow> Some s
      | None \<Rightarrow>
          map_option (\<lambda>signal. \<lparr>ss_signal = signal,
              ss_mentions_piscis = contains_piscis_mention (pm_content msg)\<rparr>)
            (detect_coordination_signal (pm_content msg)))"

definition enrich_pool_message_metadata :: "json \<Rightarrow> string \<Rightarrow> json" where
  "enrich_pool_message_metadata base content =
     (let metadata = (if json_is_object base then base else JObj []);
          metadata =
            (if contains_piscis_mention content
             then let metadata =
                        (case json_get metadata ''mentions'' of
                           Some m \<Rightarrow> if json_is_object m then metadata
                                     else json_set metadata ''mentions'' (JObj [])
                         | None \<Rightarrow> json_set metadata ''mentions'' (JObj []))
                  in json_set metadata ''mentions''
                       (json_set (case json_get metadata ''mentions'' of Some m \<Rightarrow> m | None \<Rightarrow> JNull)
                          ''piscis'' (JBool True))
             else metadata)
      in case detect_coordination_signal content of
           None \<Rightarrow> metadata
         | Some signal \<Rightarrow> json_set metadata ''coordination'' (JObj [
             (''protocol'', JStr ''project_status_v1''),
             (''signal'', JStr (as_status_str signal)),
             (''mentions_piscis'', JBool (contains_piscis_mention content))]))"

definition coordination_event_type_for_content :: "string \<Rightarrow> string option" where
  "coordination_event_type_for_content content =
     map_option (\<lambda>_. ''coordination_signal'') (detect_coordination_signal content)"

section \<open>The event digest\<close>

datatype EventDigestMode = DigestOff | CoordinationOnly | CoordinationPlusFailures

definition truncate_chars :: "string \<Rightarrow> nat \<Rightarrow> string" where
  "truncate_chars content max_chars =
     (if max_chars = 0 \<or> count_chars content \<le> max_chars then content
      else take_chars max_chars content @ ''...'')"

definition text_mentions_any :: "string \<Rightarrow> string list \<Rightarrow> bool" where
  "text_mentions_any content targets =
     (if targets = [] then False
      else let lower = to_lowercase content
           in list_ex (\<lambda>target.
                let trimmed = to_lowercase (dropWhile (\<lambda>b. b = CHR 0x40) (trim target))
                in trimmed \<noteq> [] \<and> contains lower (''@'' @ trimmed)) targets)"

definition is_coordination ::
  "(string \<Rightarrow> json option) \<Rightarrow> PoolMessage \<Rightarrow> bool" where
  "is_coordination parse msg \<longleftrightarrow>
     pm_event_type msg \<in> set [Some ''coordination_signal'', Some ''task_completed'',
       Some ''task_blocked'', Some ''task_claimed'', Some ''task_cancelled'',
       Some ''protocol_warning'', Some ''protocol_reminder''] \<or>
     extract_sender_state parse msg \<noteq> None"

definition digest_keep ::
  "(string \<Rightarrow> json option) \<Rightarrow> EventDigestMode \<Rightarrow> string list \<Rightarrow> PoolMessage \<Rightarrow> bool" where
  "digest_keep parse mode target_mentions msg =
     (let is_failure = (pm_event_type msg = Some ''task_failed'');
          mentions_target = text_mentions_any (pm_content msg) target_mentions
      in case mode of
           DigestOff \<Rightarrow> False
         | CoordinationOnly \<Rightarrow> is_coordination parse msg \<or> mentions_target
         | CoordinationPlusFailures \<Rightarrow> is_coordination parse msg \<or> is_failure \<or> mentions_target)"

definition digest_line ::
  "(DateTime \<Rightarrow> string) \<Rightarrow> string list \<Rightarrow> nat \<Rightarrow> PoolMessage \<Rightarrow> string" where
  "digest_line fmt target_mentions preview_chars msg =
     (let event_type = (case pm_event_type msg of Some e \<Rightarrow> e | None \<Rightarrow> pm_msg_type msg);
          content = truncate_chars (replace_str [CHR 0x0A] '' '' (pm_content msg)) preview_chars;
          mention_tag = (if text_mentions_any (pm_content msg) target_mentions
                         then '' target'' else [])
      in ''- ['' @ fmt (pm_created_at msg) @ ''] '' @ pm_sender_id msg @ '' ['' @ event_type @
         mention_tag @ '']: '' @ content)"

text \<open>The loop: newest message first, until \<open>limit\<close> lines are kept; \<open>lines\<close> is in push order.\<close>

fun digest_loop ::
  "(string \<Rightarrow> json option) \<Rightarrow> (DateTime \<Rightarrow> string) \<Rightarrow> EventDigestMode \<Rightarrow> string list \<Rightarrow> nat \<Rightarrow> nat \<Rightarrow>
     PoolMessage list \<Rightarrow> string list \<Rightarrow> string list" where
  "digest_loop parse fmt mode targets limit preview [] lines = lines"
| "digest_loop parse fmt mode targets limit preview (msg # rest) lines =
     (if \<not> digest_keep parse mode targets msg
      then digest_loop parse fmt mode targets limit preview rest lines
      else let lines = lines @ [digest_line fmt targets preview msg]
           in if limit \<le> length lines then lines
              else digest_loop parse fmt mode targets limit preview rest lines)"

definition build_coordination_event_digest ::
  "(string \<Rightarrow> json option) \<Rightarrow> (DateTime \<Rightarrow> string) \<Rightarrow> PoolMessage list \<Rightarrow> EventDigestMode \<Rightarrow>
     string list \<Rightarrow> nat \<Rightarrow> nat \<Rightarrow> string list" where
  "build_coordination_event_digest parse fmt messages mode target_mentions limit preview_chars =
     (if mode = DigestOff \<or> limit = 0 then []
      else rev (digest_loop parse fmt mode target_mentions limit preview_chars (rev messages) []))"

section \<open>The assessment\<close>

record ProjectAssessment =
  pa_decision :: ProjectDecision
  pa_active_todo_count :: nat
  pa_blocked_todo_count :: nat
  pa_needs_review_count :: nat
  pa_task_failed_count :: nat
  pa_follow_up_signal_count :: nat
  pa_ready_signal_count :: nat
  pa_explicit_piscis_handoff_count :: nat
  pa_integration_ready_count :: nat
  pa_dependency_blocked_count :: nat
  pa_attention_reasons :: "string list"
  pa_summary :: string

definition build_attention_reasons ::
  "nat \<Rightarrow> nat \<Rightarrow> nat \<Rightarrow> nat \<Rightarrow> bool \<Rightarrow> nat \<Rightarrow> nat \<Rightarrow> nat \<Rightarrow> nat \<Rightarrow> nat \<Rightarrow> string list" where
  "build_attention_reasons unfinished_work_count blocked_todo_count needs_review_count
     task_failed_count task_failed_still_blocks follow_up_signal_count ready_signal_count
     explicit_piscis_handoff_count integration_ready_count dependency_blocked_count =
     (if unfinished_work_count > 0
      then [nat_digits unfinished_work_count @ '' unfinished todo(s) remain''] else []) @
     (if blocked_todo_count > 0
      then [nat_digits blocked_todo_count @ '' todo(s) are blocked''] else []) @
     (if needs_review_count > 0
      then [nat_digits needs_review_count @ '' todo(s) are waiting for review''] else []) @
     (if task_failed_count > 0
      then [nat_digits task_failed_count @ '' task_failed event(s) were observed'' @
            (if task_failed_still_blocks then '' without a later resolution signal''
             else '' (superseded by a later resolution signal)'')] else []) @
     (if task_failed_still_blocks
      then [''an unresolved failure requires human judgment before the project can continue'']
      else []) @
     (if follow_up_signal_count > 0
      then [nat_digits follow_up_signal_count @ '' follow-up/waiting signal(s) request more work'']
      else []) @
     (if ready_signal_count > 0 \<and> explicit_piscis_handoff_count = 0
      then [nat_digits ready_signal_count @
            '' ready-for-review signal(s) did not explicitly hand off to @piscis''] else []) @
     (if integration_ready_count > 0
      then [nat_digits integration_ready_count @
            ('' branch(es) are done on the board but not merged into main '' @
       [CHR 0xE2, CHR 0x80, CHR 0x94] @
       '' prefer incremental merge_branches, not end-of-project batch merge'')]
      else []) @
     (if dependency_blocked_count > 0
      then [nat_digits dependency_blocked_count @
            '' todo(s) are waiting on an upstream branch merge (depends_on gate)''] else []) @
     (if unfinished_work_count = 0 \<and> blocked_todo_count = 0 \<and> needs_review_count = 0 \<and>
         \<not> task_failed_still_blocks \<and> follow_up_signal_count = 0 \<and>
         explicit_piscis_handoff_count = 0 \<and> integration_ready_count = 0
      then [''worker-visible work appears exhausted; Piscis must make the next global decision'']
      else [])"

definition max_opt :: "'a::linorder list \<Rightarrow> 'a option" where
  "max_opt xs = (case xs of [] \<Rightarrow> None | y # ys \<Rightarrow> Some (fold max ys y))"

definition ordered_messages :: "PoolMessage list \<Rightarrow> PoolMessage list" where
  "ordered_messages messages = sort_key (\<lambda>m. (pm_created_at m, pm_id m)) messages"

text \<open>The loop that keeps, per sender, the last signal and its time.\<close>

fun signal_loop ::
  "(string \<Rightarrow> json option) \<Rightarrow> PoolMessage list \<Rightarrow>
     (string \<times> SenderState) list \<times> (string \<times> DateTime) list \<Rightarrow>
     (string \<times> SenderState) list \<times> (string \<times> DateTime) list" where
  "signal_loop parse [] acc = acc"
| "signal_loop parse (msg # rest) (latest_signals, latest_signal_times) =
     signal_loop parse rest
       (case extract_sender_state parse msg of
          None \<Rightarrow> (latest_signals, latest_signal_times)
        | Some state \<Rightarrow>
            (AList.update (pm_sender_id msg) state latest_signals,
             AList.update (pm_sender_id msg) (pm_created_at msg) latest_signal_times))"

definition is_task_failed :: "PoolMessage \<Rightarrow> bool" where
  "is_task_failed m \<longleftrightarrow> pm_event_type m = Some ''task_failed''"

definition is_ready :: "string \<times> SenderState \<Rightarrow> bool" where
  "is_ready e \<longleftrightarrow> ss_signal (snd e) = SigReadyForPiscisReview"

definition is_handoff :: "string \<times> SenderState \<Rightarrow> bool" where
  "is_handoff e \<longleftrightarrow> is_ready e \<and> ss_mentions_piscis (snd e)"

definition is_later :: "DateTime option \<Rightarrow> DateTime \<Rightarrow> bool" where
  "is_later t failed_at = (case t of None \<Rightarrow> False | Some t \<Rightarrow> failed_at < t)"

definition task_failed_still_blocks ::
  "DateTime option \<Rightarrow> DateTime option \<Rightarrow> DateTime option \<Rightarrow> bool" where
  "task_failed_still_blocks latest_task_failed_at latest_explicit_handoff_at latest_needs_review_at =
     (case latest_task_failed_at of
        None \<Rightarrow> False
      | Some failed_at \<Rightarrow>
          \<not> (is_later latest_explicit_handoff_at failed_at \<or>
             is_later latest_needs_review_at failed_at))"

definition unfinished_summary :: "nat \<Rightarrow> nat \<Rightarrow> nat \<Rightarrow> nat \<Rightarrow> string" where
  "unfinished_summary unfinished_work_count blocked_todo_count needs_review_count
     recent_task_failed_count =
     (let hints =
        (if blocked_todo_count > 0 then [nat_digits blocked_todo_count @ '' blocked''] else []) @
        (if needs_review_count > 0 then [nat_digits needs_review_count @ '' needs_review''] else []) @
        (if recent_task_failed_count > 0
         then [nat_digits recent_task_failed_count @
               ('' task_failed event(s) '' @
       [CHR 0xE9, CHR 0x88, CHR 0xA5] @
       ''?a Koi may have timed out or crashed'')] else [])
      in if hints = []
         then ''Project state shows '' @ nat_digits unfinished_work_count @
              '' unfinished todo(s). More work is still in progress.''
         else ''Project state shows '' @ nat_digits unfinished_work_count @
              '' unfinished todo(s) ('' @ join '', '' hints @ ''). More work is still in progress.'')"

definition assess_project_state ::
  "(string \<Rightarrow> json option) \<Rightarrow> PoolMessage list \<Rightarrow> KoiTodo list \<Rightarrow> string list \<Rightarrow>
     ProjectAssessment" where
  "assess_project_state parse messages todos koi_ids =
     (if messages = [] \<and> todos = []
      then \<lparr> pa_decision = Continue, pa_active_todo_count = 0, pa_blocked_todo_count = 0,
        pa_needs_review_count = 0, pa_task_failed_count = 0, pa_follow_up_signal_count = 0,
        pa_ready_signal_count = 0, pa_explicit_piscis_handoff_count = 0,
        pa_integration_ready_count = 0, pa_dependency_blocked_count = 0,
        pa_attention_reasons = [],
        pa_summary =
          (''Project state is fully quiescent: no todos, no signals, and no observed '' @
       ''coordination pressure.'') \<rparr>
      else
      let active_todos =
            filter (\<lambda>t. td_status t \<in> set [''todo'', ''in_progress'', ''blocked'', ''needs_review''])
              todos;
          unfinished_work_count = length
            (filter (\<lambda>t. td_status t \<in> set [''todo'', ''in_progress'', ''blocked'']) todos);
          blocked_todo_count = length (filter (\<lambda>t. td_status t = ''blocked'') active_todos);
          needs_review_count = length (filter (\<lambda>t. td_status t = ''needs_review'') active_todos);
          active_todo_count = length active_todos;
          integration_ready_count = count_integration_ready todos;
          dependency_blocked_count = count_dependency_blocked todos;
          recent_task_failed_count = length (filter is_task_failed messages);
          latest_task_failed_at = max_opt (map pm_created_at (filter is_task_failed messages));
          latest_needs_review_at =
            max_opt (map td_updated_at (filter (\<lambda>t. td_status t = ''needs_review'') todos));
          (latest_signals, latest_signal_times) =
            signal_loop parse (ordered_messages messages) ([], []);
          follow_up_signal_count = length
            (filter (\<lambda>(_, s). ss_signal s \<in> set [SigFollowUpNeeded, SigWaiting]) latest_signals);
          ready_states = filter is_ready latest_signals;
          ready_signal_count = length ready_states;
          handoffs = filter (\<lambda>(_, s). ss_mentions_piscis s) ready_states;
          explicit_piscis_handoff_count = length handoffs;
          latest_explicit_handoff_at = max_opt
            (List.map_filter (\<lambda>(sender, _). map_of latest_signal_times sender) handoffs);
          still_blocks = task_failed_still_blocks latest_task_failed_at
            latest_explicit_handoff_at latest_needs_review_at;
          attention_reasons = build_attention_reasons unfinished_work_count blocked_todo_count
            needs_review_count recent_task_failed_count still_blocks follow_up_signal_count
            ready_signal_count explicit_piscis_handoff_count integration_ready_count
            dependency_blocked_count;
          result = (\<lambda>decision summary. \<lparr>
            pa_decision = decision, pa_active_todo_count = active_todo_count,
            pa_blocked_todo_count = blocked_todo_count, pa_needs_review_count = needs_review_count,
            pa_task_failed_count = recent_task_failed_count,
            pa_follow_up_signal_count = follow_up_signal_count,
            pa_ready_signal_count = ready_signal_count,
            pa_explicit_piscis_handoff_count = explicit_piscis_handoff_count,
            pa_integration_ready_count = integration_ready_count,
            pa_dependency_blocked_count = dependency_blocked_count,
            pa_attention_reasons = attention_reasons, pa_summary = summary \<rparr>)
      in if unfinished_work_count > 0
         then result Continue (unfinished_summary unfinished_work_count blocked_todo_count
                needs_review_count recent_task_failed_count)
         else if still_blocks
         then result EscalateToHuman (''Project state shows no unfinished todos, but '' @
                nat_digits recent_task_failed_count @
                ('' task_failed event(s) still have no later resolution signal. This should be '' @
       ''escalated to the user for a human decision.''))
         else if needs_review_count > 0
         then result ReadyForPiscisReview (''Project state shows '' @ nat_digits needs_review_count @
                '' todo(s) waiting for review and no unfinished implementation work.'')
         else if explicit_piscis_handoff_count > 0
         then result ReadyForPiscisReview (''Project state shows '' @
                nat_digits explicit_piscis_handoff_count @
                '' ready-for-review handoff(s) to @piscis and no unfinished todos.'')
         else if follow_up_signal_count > 0
         then result Continue (''Project state shows no unfinished todos, but '' @
                nat_digits follow_up_signal_count @
                '' sender(s) are still asking for follow-up or waiting.'')
         else if integration_ready_count > 0
         then result ReadyForPiscisReview (''Project state shows '' @
                nat_digits integration_ready_count @
                ('' completed branch(es) awaiting merge into main. Piscis should review and merge '' @
       ''incrementally (pool_org merge_branches), not wait for a final batch.''))
         else if ready_signal_count > 0
         then result SupervisorDecisionRequired (''Project state shows '' @
                nat_digits ready_signal_count @
                ('' ready-for-review signal(s), but there is still no explicit ready-for-review '' @
       ''handoff to @piscis. Piscis must inspect the pool and make the next global decision.''))
         else result SupervisorDecisionRequired
                (''Project state shows no unfinished todos, but there is still no explicit '' @
       ''ready-for-review handoff to @piscis. Piscis must inspect the pool and decide what '' @
       ''happens next.''))"

section \<open>The loops\<close>

text \<open>The last message of a sender that carries a signal.\<close>

definition latest_signal ::
  "(string \<Rightarrow> json option) \<Rightarrow> PoolMessage list \<Rightarrow> string \<Rightarrow> PoolMessage option" where
  "latest_signal parse messages sender =
     List.find (\<lambda>m. pm_sender_id m = sender \<and> extract_sender_state parse m \<noteq> None)
       (rev (ordered_messages messages))"

lemma find_append: "List.find P (xs @ ys) = (case List.find P xs of None \<Rightarrow> List.find P ys | r \<Rightarrow> r)"
  by (induction xs) auto

lemma signal_loop_map_of:
  "signal_loop parse ms (ls, ts) = (ls', ts') \<Longrightarrow>
     map_of ls' s = (case List.find (\<lambda>m. pm_sender_id m = s \<and> extract_sender_state parse m \<noteq> None)
                            (rev ms) of
                       None \<Rightarrow> map_of ls s | Some m \<Rightarrow> extract_sender_state parse m) \<and>
     map_of ts' s = (case List.find (\<lambda>m. pm_sender_id m = s \<and> extract_sender_state parse m \<noteq> None)
                            (rev ms) of
                       None \<Rightarrow> map_of ts s | Some m \<Rightarrow> Some (pm_created_at m))"
proof (induction ms arbitrary: ls ts)
  case Nil
  then show ?case by simp
next
  case (Cons m ms)
  show ?case
  proof (cases "extract_sender_state parse m")
    case None
    with Cons.prems have "signal_loop parse ms (ls, ts) = (ls', ts')" by simp
    from Cons.IH [OF this] None show ?thesis by (simp add: find_append split: option.split)
  next
    case (Some st)
    with Cons.prems have "signal_loop parse ms (AList.update (pm_sender_id m) st ls,
        AList.update (pm_sender_id m) (pm_created_at m) ts) = (ls', ts')" by simp
    from Cons.IH [OF this] Some show ?thesis
      by (auto simp: find_append update_conv' split: option.split)
  qed
qed

lemma signal_loop_distinct:
  "signal_loop parse ms (ls, ts) = (ls', ts') \<Longrightarrow> distinct (map fst ls) \<Longrightarrow> distinct (map fst ls')"
proof (induction ms arbitrary: ls ts)
  case (Cons m ms)
  then show ?case by (auto split: option.splits intro: distinct_update)
qed simp

lemma max_opt_None [simp]: "max_opt xs = None \<longleftrightarrow> xs = []"
  by (simp add: max_opt_def split: list.split)

lemma max_opt_Some: "max_opt xs = Some m \<longleftrightarrow> xs \<noteq> [] \<and> m = Max (set xs)"
  by (cases xs) (auto simp: max_opt_def Max.set_eq_fold [symmetric] simp del: list.set)

lemma max_opt_Nil [simp]: "max_opt [] = None"
  by simp

lemma is_later_max_opt: "is_later (max_opt xs) t \<longleftrightarrow> (\<exists>u \<in> set xs. t < u)"
  by (cases "max_opt xs") (auto simp: is_later_def max_opt_Some Max_gr_iff split: option.split)

text \<open>A failure blocks when no handoff and no review is later than it.\<close>

lemma task_failed_still_blocks_iff:
  "task_failed_still_blocks (max_opt fs) (max_opt hs) (max_opt rs) \<longleftrightarrow>
     (\<exists>f \<in> set fs. (\<forall>h \<in> set hs. h \<le> f) \<and> (\<forall>r \<in> set rs. r \<le> f))"
proof (cases "max_opt fs")
  case None
  then have "fs = []" by simp
  then show ?thesis by (simp add: task_failed_still_blocks_def)
next
  case (Some f)
  then have f: "f \<in> set fs" "\<And>g. g \<in> set fs \<Longrightarrow> g \<le> f" by (auto simp: max_opt_Some)
  have "task_failed_still_blocks (max_opt fs) (max_opt hs) (max_opt rs) \<longleftrightarrow>
      (\<forall>h \<in> set hs. h \<le> f) \<and> (\<forall>r \<in> set rs. r \<le> f)"
    by (auto simp: Some task_failed_still_blocks_def is_later_max_opt not_less)
  with f show ?thesis by (meson order_trans)
qed

definition unfinished :: "KoiTodo \<Rightarrow> bool" where
  "unfinished t \<longleftrightarrow> td_status t \<in> set [''todo'', ''in_progress'', ''blocked'']"

text \<open>An explicit handoff: the latest signal of its sender says ready and mentions Piscis.\<close>

definition explicit_handoff ::
  "(string \<Rightarrow> json option) \<Rightarrow> PoolMessage list \<Rightarrow> PoolMessage \<Rightarrow> bool" where
  "explicit_handoff parse messages m \<longleftrightarrow>
     latest_signal parse messages (pm_sender_id m) = Some m \<and>
     (\<exists>st. extract_sender_state parse m = Some st \<and> ss_signal st = SigReadyForPiscisReview \<and>
        ss_mentions_piscis st)"

lemma handoff_times:
  assumes "signal_loop parse (ordered_messages messages) ([], []) = (ls, ts)"
  shows "set (List.map_filter (\<lambda>(sender, _). map_of ts sender)
            (filter (\<lambda>(_, s). ss_mentions_piscis s) (filter is_ready ls))) =
         {pm_created_at m |m. explicit_handoff parse messages m}" (is "?L = ?R")
proof -
  have maps: "map_of ls s = Option.bind (latest_signal parse messages s) (extract_sender_state parse)"
    "map_of ts s = map_option pm_created_at (latest_signal parse messages s)" for s
    using signal_loop_map_of [OF assms, of s]
    by (auto simp: latest_signal_def split: option.splits)
  have mem: "(s, st) \<in> set ls \<longleftrightarrow> map_of ls s = Some st" for s st
    using signal_loop_distinct [OF assms] by (simp add: map_of_eq_Some_iff)
  have sender: "pm_sender_id m = s" if "latest_signal parse messages s = Some m" for s m
    using that by (auto simp: latest_signal_def dest: find_Some)
  have "t \<in> ?L \<longleftrightarrow> (\<exists>s st. map_of ls s = Some st \<and> ss_signal st = SigReadyForPiscisReview \<and>
      ss_mentions_piscis st \<and> map_of ts s = Some t)" for t
    by (auto simp: List.map_filter_def is_ready_def mem image_iff split: prod.splits) force+
  also have "\<dots> t \<longleftrightarrow> t \<in> ?R" for t
    by (auto simp: maps explicit_handoff_def bind_eq_Some_conv dest: sender) (metis sender)
  finally show ?thesis by blast
qed

lemma explicit_handoff_mem: "explicit_handoff parse messages m \<Longrightarrow> m \<in> set messages"
  by (auto simp: explicit_handoff_def latest_signal_def ordered_messages_def dest: find_Some)

lemma filter_empty_iff: "filter P xs = [] \<longleftrightarrow> (\<forall>x \<in> set xs. \<not> P x)"
  by (simp add: filter_empty_conv)

lemma max_opt_cong:
  assumes "mset xs = mset ys"
  shows "max_opt xs = max_opt ys"
proof -
  have "max_opt zs = (if zs = [] then None else Some (Max (set zs)))" for zs :: "'a list"
    by (simp add: max_opt_Some)
  moreover have "set xs = set ys" and "xs = [] \<longleftrightarrow> ys = []"
    using assms by (auto dest: mset_eq_setD)
  ultimately show ?thesis by simp
qed

text \<open>A parsed object whose \<^verbatim>\<open>coordination\<close> entry is the one that enriching writes.\<close>

lemma signal_from_coordination:
  assumes "parse md = Some j"
    and "json_get j ''coordination'' = Some (JObj [(''protocol'', p),
           (''signal'', JStr (as_status_str sig)), (''mentions_piscis'', JBool b)])"
  shows "coordination_signal_from_metadata parse md = Some \<lparr>ss_signal = sig, ss_mentions_piscis = b\<rparr>"
  using assms
  by (cases sig) (simp_all add: coordination_signal_from_metadata_def status_defs)

lemma enrich_object [simp]: "json_is_object (enrich_pool_message_metadata base content)"
  by (simp add: enrich_pool_message_metadata_def Let_def split: option.split)

lemma enrich_coordination:
  "detect_coordination_signal content = Some sig \<Longrightarrow>
     json_get (enrich_pool_message_metadata base content) ''coordination'' =
       Some (JObj [(''protocol'', JStr ''project_status_v1''),
         (''signal'', JStr (as_status_str sig)),
         (''mentions_piscis'', JBool (contains_piscis_mention content))])"
  by (simp add: enrich_pool_message_metadata_def Let_def json_get_set_same split: option.split)

lemma enrich_other:
  "k \<noteq> ''mentions'' \<Longrightarrow> k \<noteq> ''coordination'' \<Longrightarrow>
     json_get (enrich_pool_message_metadata base content) k =
       (if json_is_object base then json_get base k else None)"
  by (auto simp: enrich_pool_message_metadata_def Let_def json_get_set_other split: option.split)

text \<open>Messages for the instances.\<close>

definition message_of :: "int \<Rightarrow> string \<Rightarrow> string \<Rightarrow> string option \<Rightarrow> DateTime \<Rightarrow> PoolMessage" where
  "message_of i sender content event_type t = \<lparr>
     pm_id = i, pm_pool_session_id = ''pool'', pm_sender_id = sender, pm_content = content,
     pm_msg_type = ''text'', pm_metadata = ''{}'', pm_todo_id = None,
     pm_reply_to_message_id = None, pm_event_type = event_type, pm_created_at = t \<rparr>"

section \<open>Properties\<close>

text \<open>
  C4. The assessment escalates to the human exactly when no todo is unfinished and some
  \<^verbatim>\<open>task_failed\<close> message is the last word: no explicit handoff to Piscis (a sender's latest signal,
  ready and mentioning Piscis) and no todo waiting for review is more recent than it.
\<close>

theorem assess_escalates_iff:
  "pa_decision (assess_project_state parse messages todos kois) = EscalateToHuman \<longleftrightarrow>
     (\<forall>t \<in> set todos. \<not> unfinished t) \<and>
     (\<exists>f \<in> set messages. pm_event_type f = Some ''task_failed'' \<and>
        (\<forall>m. explicit_handoff parse messages m \<longrightarrow> pm_created_at m \<le> pm_created_at f) \<and>
        (\<forall>t \<in> set todos. td_status t = ''needs_review'' \<longrightarrow> td_updated_at t \<le> pm_created_at f))"
proof -
  obtain ls ts where loop: "signal_loop parse (ordered_messages messages) ([], []) = (ls, ts)"
    by (cases "signal_loop parse (ordered_messages messages) ([], [])")
  let ?hs = "List.map_filter (\<lambda>(sender, _). map_of ts sender)
      (filter (\<lambda>(_, s). ss_mentions_piscis s) (filter is_ready ls))"
  let ?fs = "map pm_created_at (filter is_task_failed messages)"
  let ?rs = "map td_updated_at (filter (\<lambda>t. td_status t = ''needs_review'') todos)"
  have "pa_decision (assess_project_state parse messages todos kois) = EscalateToHuman \<longleftrightarrow>
      (\<forall>t \<in> set todos. \<not> unfinished t) \<and>
      task_failed_still_blocks (max_opt ?fs) (max_opt ?hs) (max_opt ?rs)"
    by (cases "messages = [] \<and> todos = []")
      (simp_all add: assess_project_state_def Let_def loop filter_empty_iff unfinished_def
        task_failed_still_blocks_def [of None] if_distrib [of pa_decision] del: filter_filter)
  then show ?thesis
    unfolding task_failed_still_blocks_iff handoff_times [OF loop]
    by (auto simp: is_task_failed_def) blast+
qed

theorem assess_escalates_iff_witness:
  "pa_decision (assess_project_state (\<lambda>_. None)
     [message_of 1 ''a'' ''boom'' (Some ''task_failed'') 5,
      message_of 2 ''b'' ''[ProjectStatus] ready_for_piscis_review @piscis'' None 3] [] []) =
   EscalateToHuman"
proof -
  let ?f = "message_of 1 ''a'' ''boom'' (Some ''task_failed'') 5"
  let ?h = "message_of 2 ''b'' ''[ProjectStatus] ready_for_piscis_review @piscis'' None 3"
  have "pm_created_at m \<le> 5" if "explicit_handoff (\<lambda>_. None) [?f, ?h] m" for m
    using explicit_handoff_mem [OF that] by (auto simp: message_of_def)
  then show ?thesis
    unfolding assess_escalates_iff by (auto simp: message_of_def)
qed

text \<open>
  The assessment does not depend on the order in which the messages are listed, as long as no
  two have the same identifier.
\<close>

theorem assess_permutation:
  assumes "mset messages = mset messages'" and "distinct (map pm_id messages)"
  shows "assess_project_state parse messages todos kois =
         assess_project_state parse messages' todos kois"
proof -
  have "inj_on (\<lambda>m. (pm_created_at m, pm_id m)) (set messages)"
    using assms(2) by (auto simp: distinct_map inj_on_def)
  then have ord: "ordered_messages messages = ordered_messages messages'"
    unfolding ordered_messages_def
    by (intro sort_key_inj_key_eq) (simp_all add: assms(1))
  have failed: "mset (map pm_created_at (filter is_task_failed messages)) =
      mset (map pm_created_at (filter is_task_failed messages'))"
    by (simp add: assms(1))
  have "max_opt (map pm_created_at (filter is_task_failed messages)) =
      max_opt (map pm_created_at (filter is_task_failed messages'))"
    using failed by (rule max_opt_cong)
  moreover have "length (filter is_task_failed messages) = length (filter is_task_failed messages')"
    by (metis assms(1) mset_filter size_mset)
  moreover have "messages = [] \<longleftrightarrow> messages' = []"
    by (metis assms(1) mset_zero_iff)
  ultimately show ?thesis
    unfolding assess_project_state_def by (simp only: ord)
qed

theorem assess_permutation_witness:
  "assess_project_state (\<lambda>_. None)
     [message_of 1 ''a'' ''boom'' (Some ''task_failed'') 5, message_of 2 ''b'' ''fine'' None 5] [] [] =
   assess_project_state (\<lambda>_. None)
     [message_of 2 ''b'' ''fine'' None 5, message_of 1 ''a'' ''boom'' (Some ''task_failed'') 5] [] []"
  by (rule assess_permutation) (simp_all add: message_of_def add_mset_commute)

text \<open>
  C5. What enriching writes is what assessing reads: when the content of a message carries a signal
  and the message's metadata is the text of the enriched metadata, the state extracted from the
  message is that signal with the mention of Piscis in the content; every other entry of the
  metadata that was passed in is kept.
\<close>

theorem enrich_extract_roundtrip:
  assumes "detect_coordination_signal content = Some sig"
    and "parse (pm_metadata msg) = Some (enrich_pool_message_metadata base content)"
  shows "extract_sender_state parse msg =
           Some \<lparr>ss_signal = sig, ss_mentions_piscis = contains_piscis_mention content\<rparr> \<and>
         (\<forall>k. k \<noteq> ''mentions'' \<longrightarrow> k \<noteq> ''coordination'' \<longrightarrow>
            json_get (enrich_pool_message_metadata base content) k =
              (if json_is_object base then json_get base k else None))"
  using signal_from_coordination
      [where parse = parse, OF assms(2) enrich_coordination [OF assms(1), where base = base]]
  by (simp add: extract_sender_state_def enrich_other)

theorem enrich_extract_roundtrip_witness:
  "extract_sender_state
     (\<lambda>_. Some (enrich_pool_message_metadata (JObj [(''k'', JInt 1)]) ''[ProjectStatus] waiting''))
     (message_of 1 ''a'' ''[ProjectStatus] waiting'' None 5) =
   Some \<lparr>ss_signal = SigWaiting, ss_mentions_piscis = contains_piscis_mention ''[ProjectStatus] waiting''\<rparr>"
proof -
  have "detect_coordination_signal ''[ProjectStatus] waiting'' = Some SigWaiting"
    by (simp add: detect_coordination_signal_def starts_with_def status_defs str_eval)
  then show ?thesis by (rule enrich_extract_roundtrip [THEN conjunct1]) (rule refl)
qed

end
