(* ===== verification/Services.thy ===== *)
theory Services
  imports Coordinator Board Project_State
begin

text \<open>
  \<^verbatim>\<open>piscis-kernel/src/pool/services.rs\<close>, first half: the callers, the permission and state checks,
  and the services on pools, their members, their status and their messages. A service returns the
  JSON value that the tool layer formats. An absent \<^verbatim>\<open>SubagentRuntime\<close> is the flag \<open>False\<close>; the
  turns that a present one would run are the queued jobs.
\<close>

section \<open>Callers\<close>

record CallerContext =
  cx_memory_owner_id :: string
  cx_session_id :: string
  cx_session_source :: "string option"
  cx_pool_session_id :: "string option"
  cx_cancel :: cancel_flag

definition is_piscis :: "CallerContext \<Rightarrow> bool" where
  "is_piscis caller \<longleftrightarrow> cx_memory_owner_id caller = ''piscis''"

definition caller_is_cancelled :: "CallerContext \<Rightarrow> bool M" where
  "caller_is_cancelled caller = is_cancelled (cx_cancel caller)"

text \<open>\<^verbatim>\<open>session_source::is_heartbeat_like\<close>.\<close>

definition is_heartbeat_like :: "string \<Rightarrow> bool" where
  "is_heartbeat_like source \<longleftrightarrow>
     source \<in> set [''piscis_inbox_global'', ''piscis_pool'', ''piscis_inbox_pool'',
       ''piscis_heartbeat_global'', ''piscis_heartbeat_pool'']"

record CreatePoolArgs =
  cp_name :: string
  cp_project_dir :: "string option"
  cp_org_spec :: "string option"
  cp_task_timeout_secs :: u32
  cp_origin_im_binding_key :: "string option"

record UpdateOrgSpecArgs =
  uo_pool_id :: string
  uo_org_spec :: "string option"
  uo_task_timeout_secs :: "u32 option"

record SendPoolMessageArgs =
  sm_pool_id :: string
  sm_sender_id :: string
  sm_content :: string
  sm_reply_to_message_id :: "int option"

record PostStatusArgs =
  po_pool_id :: string
  po_content :: string
  po_event_type :: "string option"

text \<open>
  A \<^verbatim>\<open>Result\<close> matched in the source catches an \<^verbatim>\<open>Err\<close>, and not a panic, which unwinds the caller too.
\<close>

definition catch_err :: "'a M \<Rightarrow> (error + 'a) M" where
  "catch_err m = bindM (attempt m) (\<lambda>r. if r = Inl Panicked then bail Panicked else ret r)"

section \<open>Helpers\<close>

definition resolve_pool :: "ext \<Rightarrow> CallerContext \<Rightarrow> string \<Rightarrow> string \<Rightarrow> PoolSession M" where
  "resolve_pool x caller pool_id_hint action =
     (let requested =
        (if trim pool_id_hint \<noteq> [] \<and> trim pool_id_hint \<noteq> ''current'' then Some (trim pool_id_hint)
         else cx_pool_session_id caller)
      in bindM (ok_or requested (Anyhow (([CHR 0x27] @ ''pool_id'' @ [CHR 0x27] @ '' is required for action '') @ sq action))) (\<lambda>i.
         bindM (resolve_pool_session_identifier x i) (\<lambda>s.
         ok_or s (Anyhow (''Pool '' @ sq pool_id_hint @ '' not found'')))))"

definition ensure_accepts_new_work :: "PoolSession \<Rightarrow> string \<Rightarrow> unit M" where
  "ensure_accepts_new_work pool action =
     guardM (ps_status pool = ''active'')
       (Anyhow (''Pool '' @ sq (ps_name pool) @ '' is '' @ ps_status pool @ ''. Action '' @ sq action @
          '' is disabled until the pool is resumed.''))"

definition find_todo_by_prefix :: "ext \<Rightarrow> string \<Rightarrow> KoiTodo option M" where
  "find_todo_by_prefix x p =
     bindM (list_koi_todos x None) (\<lambda>todos.
     ret (List.find (\<lambda>t. starts_with (td_id t) p) todos))"

definition emit_todo :: "string option \<Rightarrow> TodoChangeAction \<Rightarrow> KoiTodo \<Rightarrow> unit M" where
  "emit_todo pool_id action todo =
     emit_pool (TodoChanged
       (case pool_id of
          Some p \<Rightarrow> p
        | None \<Rightarrow> (case td_pool_session_id todo of Some p \<Rightarrow> p | None \<Rightarrow> []))
       action (todo_snapshot todo))"

definition emit_message :: "ext \<Rightarrow> PoolMessage \<Rightarrow> unit M" where
  "emit_message x msg = emit_pool (MessageAppended (pm_pool_session_id msg) (message_snapshot x msg))"

definition check_todo_ownership :: "KoiTodo \<Rightarrow> CallerContext \<Rightarrow> unit M" where
  "check_todo_ownership todo caller =
     guardM (is_piscis caller \<or> td_owner_id todo = cx_memory_owner_id caller)
       (Anyhow (''Permission denied. You can only manage your own todos. This todo belongs to '' @
          sq (td_owner_id todo) @ ''. '' @
          (''To cancel or modify another agent'' @
       [CHR 0x27] @
       ''s task, @piscis in pool_chat to request it.'')))"

definition check_piscis_only :: "CallerContext \<Rightarrow> string \<Rightarrow> unit M" where
  "check_piscis_only caller action =
     guardM (is_piscis caller)
       (Anyhow (''Permission denied. Action '' @ sq action @ '' is restricted to piscis because '' @
          ''it permanently deletes shared board history.''))"

text \<open>\<^verbatim>\<open>metadata::enrich_as_json_string\<close>.\<close>

definition enrich_as_json_string :: "ext \<Rightarrow> json \<Rightarrow> string \<Rightarrow> string" where
  "enrich_as_json_string x base content =
     ex_json_to_string x (enrich_pool_message_metadata base content)"

text \<open>\<^verbatim>\<open>get_pool_session(..)?.unwrap_or(session)\<close>, and the same for a todo.\<close>

definition fresh_pool :: "ext \<Rightarrow> PoolSession \<Rightarrow> PoolSession M" where
  "fresh_pool x session =
     bindM (get_pool_session x (ps_id session)) (\<lambda>s.
     ret (case s of None \<Rightarrow> session | Some p \<Rightarrow> p))"

definition fresh_todo :: "ext \<Rightarrow> KoiTodo \<Rightarrow> KoiTodo M" where
  "fresh_todo x todo =
     bindM (get_koi_todo x (td_id todo)) (\<lambda>t. ret (case t of None \<Rightarrow> todo | Some t \<Rightarrow> t))"

section \<open>Pools\<close>

definition init_project_dir :: "ext \<Rightarrow> CallerContext \<Rightarrow> string option \<Rightarrow> string M" where
  "init_project_dir x caller project_dir =
     (case project_dir of
        None \<Rightarrow> ret []
      | Some dir \<Rightarrow>
          bindM (attempt (ensure_git_repo x dir (cx_cancel caller))) (\<lambda>r.
          case r of
            Inr Initialised \<Rightarrow> ret (([CHR 0x0A] @ ''Git: initialized at '') @ dir)
          | Inr AlreadyInitialised \<Rightarrow> ret (([CHR 0x0A] @ ''Git: existing repo at '') @ dir)
          | Inl e \<Rightarrow>
              if contains (error_text e) ''Operation cancelled'' then bail (Anyhow [CHR 0xE5, CHR 0xB7, CHR 0xB2, CHR 0xE8, CHR 0xA2, CHR 0xAB, CHR 0xE7, CHR 0x94, CHR 0xA8,
       CHR 0xE6, CHR 0x88, CHR 0xB7, CHR 0xE5, CHR 0x8F, CHR 0x96, CHR 0xE6, CHR 0xB6, CHR 0x88])
              else bail (Anyhow (''Failed to initialise git: '' @ error_text e))))"

definition create_pool :: "ext \<Rightarrow> CallerContext \<Rightarrow> CreatePoolArgs \<Rightarrow> json M" where
  "create_pool x caller args =
     (let name = trim (cp_name args);
          project_dir = trimmed_nonempty (cp_project_dir args);
          org_spec = trim (case cp_org_spec args of None \<Rightarrow> [] | Some s \<Rightarrow> s)
      in bindM (guardM (name \<noteq> []) (Anyhow ([CHR 0x27] @
       ''name'' @
       [CHR 0x27] @
       '' is required for action '' @
       [CHR 0x27] @
       ''create'' @
       [CHR 0x27]))) (\<lambda>_.
         bindM (init_project_dir x caller project_dir) (\<lambda>git_info.
         bindM (create_pool_session_with_dir x name project_dir (cp_task_timeout_secs args)) (\<lambda>session.
         bindM (whenM (org_spec \<noteq> []) (update_pool_org_spec x (ps_id session) org_spec)) (\<lambda>_.
         bindM (case trimmed_nonempty (cp_origin_im_binding_key args) of
                  None \<Rightarrow> ret ()
                | Some key \<Rightarrow> set_pool_origin_im_binding x (ps_id session) (Some key)) (\<lambda>_.
         bindM (insert_pool_message_ext x (ps_id session) ''piscis''
           ([CHR 0xE9, CHR 0xA1, CHR 0xB9, CHR 0xE7, CHR 0x9B, CHR 0xAE, CHR 0xE6, CHR 0xB1, CHR 0xA0,
       CHR 0xE3, CHR 0x80, CHR 0x8C] @ name @ [CHR 0xE3, CHR 0x80, CHR 0x8D, CHR 0xE5, CHR 0xB7, CHR 0xB2, CHR 0xE5, CHR 0x88, CHR 0x9B,
       CHR 0xE5, CHR 0xBB, CHR 0xBA, CHR 0xE3, CHR 0x80, CHR 0x82] @
            (if org_spec = [] then [CHR 0xE5, CHR 0xB0, CHR 0x9A, CHR 0xE6, CHR 0x9C, CHR 0xAA, CHR 0xE8, CHR 0xAE, CHR 0xBE,
       CHR 0xE5, CHR 0xAE, CHR 0x9A, CHR 0xE7, CHR 0xBB, CHR 0x84, CHR 0xE7, CHR 0xBB, CHR 0x87,
       CHR 0xE8, CHR 0xA7, CHR 0x84, CHR 0xE8, CHR 0x8C, CHR 0x83, CHR 0xE3, CHR 0x80, CHR 0x82] else [CHR 0xE7, CHR 0xBB, CHR 0x84, CHR 0xE7, CHR 0xBB, CHR 0x87, CHR 0xE8, CHR 0xA7, CHR 0x84,
       CHR 0xE8, CHR 0x8C, CHR 0x83, CHR 0xE5, CHR 0xB7, CHR 0xB2, CHR 0xE5, CHR 0xB0, CHR 0xB1,
       CHR 0xE7, CHR 0xBB, CHR 0xAA, CHR 0xE3, CHR 0x80, CHR 0x82]) @
            (if project_dir \<noteq> None then ('' Git '' @
       [CHR 0xE4, CHR 0xBB, CHR 0x93, CHR 0xE5, CHR 0xBA, CHR 0x93, CHR 0xE5, CHR 0xB7, CHR 0xB2,
       CHR 0xE5, CHR 0x88, CHR 0x9D, CHR 0xE5, CHR 0xA7, CHR 0x8B, CHR 0xE5, CHR 0x8C, CHR 0x96,
       CHR 0xEF, CHR 0xBC, CHR 0x8C] @
       ''Koi '' @
       [CHR 0xE5, CHR 0xB0, CHR 0x86, CHR 0xE4, CHR 0xBD, CHR 0xBF, CHR 0xE7, CHR 0x94, CHR 0xA8,
       CHR 0xE7, CHR 0x8B, CHR 0xAC, CHR 0xE7, CHR 0xAB, CHR 0x8B] @
       '' worktree '' @
       [CHR 0xE5, CHR 0xB7, CHR 0xA5, CHR 0xE4, CHR 0xBD, CHR 0x9C, CHR 0xE3, CHR 0x80, CHR 0x82]) else []))
           ''status_update'' (ex_json_to_string x (JObj [(''event'', JStr ''pool_created'')]))
           None None (Some ''pool_created'')) (\<lambda>welcome.
         bindM (emit_pool (PoolCreated (pool_snapshot session))) (\<lambda>_.
         bindM (emit_message x welcome) (\<lambda>_.
         ret (JObj [
           (''pool'', JPool (pool_snapshot session)), (''git_info'', JStr git_info),
           (''summary'', JStr ((''Project pool created.'' @ [CHR 0x0A] @ ''ID: '') @ ps_id session @ ([CHR 0x0A] @ ''Name: '') @ name @
              ([CHR 0x0A] @ ''Org Spec: '') @
              (if org_spec = [] then (''not set (use '' @ [CHR 0x27] @ ''update'' @ [CHR 0x27] @ '' to add one)'') else ''set'') @
              git_info))]))))))))))"

definition read_org_spec :: "ext \<Rightarrow> CallerContext \<Rightarrow> string \<Rightarrow> json M" where
  "read_org_spec x caller pool_id_hint =
     bindM (resolve_pool x caller pool_id_hint ''read'') (\<lambda>session.
     ret (JObj [(''pool_id'', JStr (ps_id session)), (''name'', JStr (ps_name session)),
       (''org_spec'', JStr (ps_org_spec session))]))"

definition update_org_spec :: "ext \<Rightarrow> CallerContext \<Rightarrow> UpdateOrgSpecArgs \<Rightarrow> json M" where
  "update_org_spec x caller args =
     (let spec = (case uo_org_spec args of None \<Rightarrow> [] | Some s \<Rightarrow> trim s);
          timeout = uo_task_timeout_secs args
      in bindM (guardM (\<not> (spec = [] \<and> timeout = None))
           (Anyhow (''Provide at least one field to update: '' @
       [CHR 0x27] @
       ''org_spec'' @
       [CHR 0x27] @
       '' and/or '' @
       [CHR 0x27] @
       ''task_timeout_secs'' @
       [CHR 0x27] @
       ''.''))) (\<lambda>_.
         bindM (resolve_pool x caller (uo_pool_id args) ''update'') (\<lambda>session.
         bindM (whenM (spec \<noteq> []) (update_pool_org_spec x (ps_id session) spec)) (\<lambda>_.
         bindM (whenM (timeout \<noteq> None) (update_pool_session_config x (ps_id session) timeout)) (\<lambda>_.
         bindM (insert_pool_message_ext x (ps_id session) ''piscis'' [CHR 0xE7, CHR 0xBB, CHR 0x84, CHR 0xE7, CHR 0xBB, CHR 0x87, CHR 0xE8, CHR 0xA7, CHR 0x84,
       CHR 0xE8, CHR 0x8C, CHR 0x83, CHR 0xE5, CHR 0xB7, CHR 0xB2, CHR 0xE6, CHR 0x9B, CHR 0xB4,
       CHR 0xE6, CHR 0x96, CHR 0xB0, CHR 0xE3, CHR 0x80, CHR 0x82] ''status_update''
           (ex_json_to_string x (JObj [(''event'', JStr ''org_spec_updated'')])) None None
           (Some ''org_spec_updated'')) (\<lambda>msg.
         bindM (fresh_pool x session) (\<lambda>fresh.
         bindM (emit_pool (PoolUpdated (pool_snapshot fresh))) (\<lambda>_.
         bindM (emit_message x msg) (\<lambda>_.
         ret (JObj [(''pool'', JPool (pool_snapshot fresh)),
           (''summary'', JStr (''Pool '' @ sq (ps_name fresh) @ '' ('' @ ps_id fresh @ '') updated.''))]))))))))))"

definition list_pools :: "ext \<Rightarrow> json M" where
  "list_pools x =
     bindM (list_pool_sessions x) (\<lambda>sessions.
     bindM (attempt (list_kois x)) (\<lambda>r.
     ret (JObj [(''sessions'', JArr (map (\<lambda>s. JPool (pool_snapshot s)) sessions)),
       (''raw_sessions'', JArr (map JPoolStruct sessions)),
       (''kois'', JArr (map JKoiStruct (case r of Inr ks \<Rightarrow> ks | Inl _ \<Rightarrow> [])))])))"

definition find_related :: "ext \<Rightarrow> string \<Rightarrow> json M" where
  "find_related x keywords =
     bindM (guardM (trim keywords \<noteq> []) (Anyhow ([CHR 0x27] @
       ''keywords'' @
       [CHR 0x27] @
       '' is required for action '' @
       [CHR 0x27] @
       ''find_related'' @
       [CHR 0x27]))) (\<lambda>_.
     bindM (find_related_pool_sessions x (trim keywords)) (\<lambda>results.
     ret (JObj [(''sessions'', JArr (map JPoolStruct results))])))"

section \<open>Members\<close>

definition ensure_pool_member :: "string \<Rightarrow> string \<Rightarrow> unit M" where
  "ensure_pool_member pool_id koi_id =
     bindM (is_pool_member pool_id koi_id) (\<lambda>is_member.
     guardM is_member
       (Anyhow (''Koi is not a member of this project. Add it first with '' @
          (''pool_org(action='' @
       [CHR 0x22] @
       ''add_member'' @
       [CHR 0x22] @
       '', koi_id=...) before assigning work.''))))"

definition list_members :: "ext \<Rightarrow> CallerContext \<Rightarrow> string \<Rightarrow> json M" where
  "list_members x caller pool_id_hint =
     bindM (resolve_pool x caller pool_id_hint ''list_members'') (\<lambda>session.
     bindM (list_pool_members x (ps_id session)) (\<lambda>members.
     ret (JObj [(''pool_id'', JStr (ps_id session)), (''members'', JArr (map JKoiStruct members)),
       (''summary'', JStr (''Project has '' @ nat_digits (length members) @ '' member Koi.''))])))"

definition emit_pool_membership_changed :: "ext \<Rightarrow> string \<Rightarrow> unit M" where
  "emit_pool_membership_changed x pool_id =
     bindM (attempt (get_pool_session x pool_id)) (\<lambda>r.
     case r of
       Inr (Some session) \<Rightarrow> emit_pool (PoolUpdated (pool_snapshot session))
     | _ \<Rightarrow> ret ())"

definition membership_reply :: "PoolSession \<Rightarrow> KoiDefinition \<Rightarrow> string \<Rightarrow> json" where
  "membership_reply session koi what =
     JObj [(''pool_id'', JStr (ps_id session)), (''koi_id'', JStr (kd_id koi)),
       (''koi_name'', JStr (kd_name koi)), (''summary'', JStr (kd_name koi @ what))]"

definition add_member :: "ext \<Rightarrow> CallerContext \<Rightarrow> string \<Rightarrow> string \<Rightarrow> json M" where
  "add_member x caller pool_id_hint koi_id =
     bindM (resolve_pool x caller pool_id_hint ''add_member'') (\<lambda>session.
     let raw = trim koi_id
     in bindM (guardM (raw \<noteq> []) (Anyhow ([CHR 0x27] @
       ''koi_id'' @
       [CHR 0x27] @
       '' is required for action '' @
       [CHR 0x27] @
       ''add_member'' @
       [CHR 0x27]))) (\<lambda>_.
        bindM (resolve_koi_identifier x raw) (\<lambda>found.
        bindM (case found of Some k \<Rightarrow> is_pool_member (ps_id session) (kd_id k) | None \<Rightarrow> ret False) (\<lambda>already.
        bindM (ok_or found (Anyhow (''Koi '' @ sq raw @ '' was not found. Create it first.''))) (\<lambda>koi.
        bindM (guardM (\<not> already)
          (Anyhow (''Koi '' @ sq (kd_name koi) @ '' is already a member of this project.''))) (\<lambda>_.
        bindM (add_pool_member x (ps_id session) (kd_id koi)) (\<lambda>_.
        bindM (emit_pool_membership_changed x (ps_id session)) (\<lambda>_.
        ret (membership_reply session koi '' added to the project.'')))))))))"

definition remove_member :: "ext \<Rightarrow> CallerContext \<Rightarrow> string \<Rightarrow> string \<Rightarrow> json M" where
  "remove_member x caller pool_id_hint koi_id =
     bindM (resolve_pool x caller pool_id_hint ''remove_member'') (\<lambda>session.
     let raw = trim koi_id
     in bindM (guardM (raw \<noteq> []) (Anyhow ([CHR 0x27] @
       ''koi_id'' @
       [CHR 0x27] @
       '' is required for action '' @
       [CHR 0x27] @
       ''remove_member'' @
       [CHR 0x27]))) (\<lambda>_.
        bindM (resolve_koi_identifier x raw) (\<lambda>found.
        bindM (case found of
                 Some k \<Rightarrow> count_active_todos_for_member (ps_id session) (kd_id k)
               | None \<Rightarrow> ret 0) (\<lambda>active.
        bindM (ok_or found (Anyhow (''Koi '' @ sq raw @ '' was not found.''))) (\<lambda>koi.
        bindM (guardM (\<not> 0 < active)
          (Anyhow (''Cannot remove '' @ kd_name koi @ '': it still has '' @ nat_digits active @
             '' active todo(s) in this project. Reassign or finish them first.''))) (\<lambda>_.
        bindM (remove_pool_member (ps_id session) (kd_id koi)) (\<lambda>_.
        bindM (emit_pool_membership_changed x (ps_id session)) (\<lambda>_.
        ret (membership_reply session koi '' removed from the project.'')))))))))"

section \<open>Status transitions\<close>

text \<open>The todos of a pool that keep it from being archived.\<close>

definition pool_open_todos :: "string \<Rightarrow> KoiTodo list \<Rightarrow> KoiTodo list" where
  "pool_open_todos pool_id todos =
     filter (\<lambda>t. td_pool_session_id t = Some pool_id \<and> td_status t \<notin> set [''done'', ''cancelled'']) todos"

definition may_archive :: "ext \<Rightarrow> CallerContext \<Rightarrow> PoolSession \<Rightarrow> unit M" where
  "may_archive x caller session =
     bindM (guardM (case cx_session_source caller of None \<Rightarrow> True | Some src \<Rightarrow> \<not> is_heartbeat_like src)
       (Anyhow (''Heartbeat sessions may not archive projects automatically. '' @
          ''Leave the pool active and wait for explicit user confirmation.''))) (\<lambda>_.
     bindM (list_koi_todos x None) (\<lambda>todos.
     let active = pool_open_todos (ps_id session) todos
     in guardM (active = [])
          (Anyhow (''Pool '' @ sq (ps_name session) @ '' still has '' @ nat_digits (length active) @
             '' active todo(s): '' @
             join '', '' (map (\<lambda>t. short (td_id t) @ '' ['' @ td_status t @ '']'') (take 3 active)) @
             ''. Finish, block, or cancel them first.''))))"

definition status_event :: "string \<Rightarrow> PoolSession \<Rightarrow> PoolEvent" where
  "status_event new_status fresh =
     (if new_status = ''paused'' then PoolPaused (pool_snapshot fresh)
      else if new_status = ''active'' then PoolResumed (pool_snapshot fresh)
      else if new_status = ''archived'' then PoolArchived (ps_id fresh)
      else PoolUpdated (pool_snapshot fresh))"

definition status_label :: "string \<Rightarrow> string" where
  "status_label new_status =
     (if new_status = ''paused'' then [CHR 0xE5, CHR 0xB7, CHR 0xB2, CHR 0xE6, CHR 0x9A, CHR 0x82, CHR 0xE5, CHR 0x81, CHR 0x9C]
      else if new_status = ''archived'' then [CHR 0xE5, CHR 0xB7, CHR 0xB2, CHR 0xE5, CHR 0xBD, CHR 0x92, CHR 0xE6, CHR 0xA1, CHR 0xA3]
      else if new_status = ''active'' then [CHR 0xE5, CHR 0xB7, CHR 0xB2, CHR 0xE6, CHR 0x81, CHR 0xA2, CHR 0xE5, CHR 0xA4, CHR 0x8D]
      else new_status)"

definition status_action :: "string \<Rightarrow> string option" where
  "status_action new_status =
     (if new_status = ''paused'' then Some ''pause''
      else if new_status = ''active'' then Some ''resume''
      else if new_status = ''archived'' then Some ''archive'' else None)"

definition set_pool_status :: "ext \<Rightarrow> CallerContext \<Rightarrow> string \<Rightarrow> string \<Rightarrow> json M" where
  "set_pool_status x caller pool_id_hint new_status =
     bindM (ok_or (status_action new_status)
       (Anyhow (''unsupported status transition: '' @ new_status))) (\<lambda>action.
     bindM (resolve_pool x caller pool_id_hint action) (\<lambda>session.
     if ps_status session = new_status
     then ret (JObj [(''pool'', JPool (pool_snapshot session)), (''no_op'', JBool True),
       (''summary'', JStr (''Project '' @ sq (ps_name session) @ '' is already '' @ new_status @ ''.''))])
     else
       bindM (whenM (new_status = ''archived'') (may_archive x caller session)) (\<lambda>_.
       let old_status = ps_status session
       in bindM (update_pool_session_status x (ps_id session) new_status) (\<lambda>_.
          bindM (insert_pool_message_ext x (ps_id session) ''piscis''
            (([CHR 0xE9, CHR 0xA1, CHR 0xB9, CHR 0xE7, CHR 0x9B, CHR 0xAE, CHR 0xE7, CHR 0x8A, CHR 0xB6,
       CHR 0xE6, CHR 0x80, CHR 0x81, CHR 0xE5, CHR 0x8F, CHR 0x98, CHR 0xE6, CHR 0x9B, CHR 0xB4] @
       '': '') @ old_status @ ('' '' @ [CHR 0xE2, CHR 0x86, CHR 0x92] @ '' '') @ new_status) ''status_update''
            (ex_json_to_string x (JObj [(''event'', JStr ''status_changed''), (''old'', JStr old_status),
               (''new'', JStr new_status)]))
            None None (Some ''status_changed'')) (\<lambda>msg.
          bindM (fresh_pool x session) (\<lambda>fresh.
          bindM (emit_pool (status_event new_status fresh)) (\<lambda>_.
          bindM (emit_message x msg) (\<lambda>_.
          ret (JObj [(''pool'', JPool (pool_snapshot fresh)), (''old_status'', JStr old_status),
            (''new_status'', JStr new_status),
            (''summary'', JStr (''Project '' @ sq (ps_name fresh) @ '' '' @ status_label new_status @
               '' (status: '' @ old_status @ ('' '' @ [CHR 0xE2, CHR 0x86, CHR 0x92] @ '' '') @ new_status @ '').''))])))))))))"

section \<open>Messages\<close>

definition send_pool_message ::
  "ext \<Rightarrow> bool \<Rightarrow> CallerContext \<Rightarrow> SendPoolMessageArgs \<Rightarrow> PoolMessage M" where
  "send_pool_message x subagent caller args =
     bindM (resolve_pool x caller (sm_pool_id args) ''send'') (\<lambda>session.
     bindM (guardM (ps_status session = ''active'')
       (Anyhow (''Pool '' @ sq (ps_name session) @ '' is '' @ ps_status session @
          ''. Messages are disabled until it is resumed.''))) (\<lambda>_.
     let content = trim (sm_content args)
     in bindM (guardM (content \<noteq> []) (Anyhow ([CHR 0x27] @ ''content'' @ [CHR 0x27] @ '' must not be empty''))) (\<lambda>_.
        bindM (insert_pool_message_ext x (ps_id session) (sm_sender_id args) content ''text''
          (enrich_as_json_string x (JObj []) content) None (sm_reply_to_message_id args)
          (coordination_event_type_for_content content)) (\<lambda>msg.
        bindM (emit_message x msg) (\<lambda>_.
        bindM (whenM (contains content ''@'' \<and> subagent)
          (bindM (catch_err (handle_mention x (sm_sender_id args) (ps_id session) content))
             (\<lambda>_. ret ()))) (\<lambda>_.
        ret msg))))))"

definition read_pool_messages :: "ext \<Rightarrow> CallerContext \<Rightarrow> string \<Rightarrow> int \<Rightarrow> json M" where
  "read_pool_messages x caller pool_id_hint limit =
     bindM (resolve_pool x caller pool_id_hint ''read'') (\<lambda>session.
     let limit = (if limit \<le> 0 then 20 else limit)
     in bindM (get_pool_messages x (ps_id session) limit 0) (\<lambda>messages.
        bindM (attempt (list_kois x)) (\<lambda>r.
        ret (JObj [(''pool'', JPool (pool_snapshot session)),
          (''messages'', JArr (map JMessageStruct messages)),
          (''kois'', JArr (map JKoiStruct (case r of Inr ks \<Rightarrow> ks | Inl _ \<Rightarrow> [])))]))))"

definition service_get_pool_messages :: "ext \<Rightarrow> CallerContext \<Rightarrow> string \<Rightarrow> int \<Rightarrow> json M" where
  "service_get_pool_messages x caller pool_id_hint limit = read_pool_messages x caller pool_id_hint limit"

text \<open>The \<^verbatim>\<open>HashMap\<close> of Koi statuses is written in the order of the Kois.\<close>

definition get_pool_todos :: "ext \<Rightarrow> CallerContext \<Rightarrow> string \<Rightarrow> json M" where
  "get_pool_todos x caller pool_id_hint =
     bindM (resolve_pool x caller pool_id_hint ''get_todos'') (\<lambda>session.
     bindM (list_koi_todos x None) (\<lambda>all.
     bindM (list_kois x) (\<lambda>kois.
     ret (JObj [(''pool_id'', JStr (ps_id session)),
       (''todos'', JArr (map JTodoStruct
          (filter (\<lambda>t. td_pool_session_id t = Some (ps_id session)) all))),
       (''koi_status'', JObj (map (\<lambda>k. (kd_id k, JStr (kd_status k))) kois))]))))"

definition post_status :: "ext \<Rightarrow> CallerContext \<Rightarrow> PostStatusArgs \<Rightarrow> json M" where
  "post_status x caller args =
     bindM (guardM (is_piscis caller)
       (Anyhow ''Only Piscis may publish supervisor status through post_status.'')) (\<lambda>_.
     bindM (resolve_pool x caller (po_pool_id args) ''post_status'') (\<lambda>session.
     let content = trim (po_content args);
         event_type = (case trimmed_nonempty (po_event_type args) of
                         None \<Rightarrow> ''piscis_status'' | Some s \<Rightarrow> s)
     in bindM (guardM (content \<noteq> []) (Anyhow ([CHR 0x27] @
       ''content'' @
       [CHR 0x27] @
       '' is required for action '' @
       [CHR 0x27] @
       ''post_status'' @
       [CHR 0x27]))) (\<lambda>_.
        bindM (insert_pool_message_ext x (ps_id session) ''piscis'' content ''status_update''
          (ex_json_to_string x (JObj [(''event'', JStr event_type),
             (''controlled_by'', JStr ''pool_org.post_status'')]))
          None None (Some event_type)) (\<lambda>msg.
        bindM (emit_message x msg) (\<lambda>_.
        ret (JObj [(''pool_id'', JStr (ps_id session)), (''message'', JMessageStruct msg),
          (''summary'', JStr
             ''Piscis status posted through pool_org without mention fan-out.'')]))))))"

section \<open>The services keep the integrity\<close>

lemma catch_err_run:
  "catch_err m w =
     (case m w of (r, w') \<Rightarrow> (if r = Inl Panicked then Inl Panicked else Inr r, w'))"
  by (simp add: catch_err_def bindM_def attempt_def bail_def ret_def split: prod.split)

lemma wp_catch_err [wp_simps]:
  "wp (catch_err m) Q w =
     wp m (\<lambda>r. Q (if r = Inl Panicked then Inl Panicked else Inr r)) w"
  by (simp add: wp_def catch_err_run split: prod.split)

lemma effects_catch_err [effect_intros]: "effects R m \<Longrightarrow> effects R (catch_err m)"
  by (auto simp: effects_def catch_err_run split: prod.split) (metis snd_conv)

text \<open>What the services do before they write anything changes nothing.\<close>

context effect
begin

lemma is_cancelled_caller [effect_intros]: "effects R (caller_is_cancelled c)"
  unfolding caller_is_cancelled_def is_cancelled_def by (intro effect_intros ret reading)

lemma resolve_pool [effect_intros]: "effects R (resolve_pool x c p a)"
  unfolding resolve_pool_def resolve_pool_session_identifier_def Let_def
  by (intro bind ok_or utc_now query_result)

lemma ensure_accepts_new_work [effect_intros]: "effects R (ensure_accepts_new_work p a)"
  unfolding ensure_accepts_new_work_def by (intro guardM)

lemma find_todo_by_prefix [effect_intros]: "effects R (find_todo_by_prefix x p)"
  unfolding find_todo_by_prefix_def list_koi_todos_def by (intro bind ret utc_now query)

lemma emit_todo [effect_intros]: "effects R (emit_todo p a t)"
  unfolding emit_todo_def by (intro emit_pool)

lemma emit_message [effect_intros]: "effects R (emit_message x m)"
  unfolding emit_message_def by (intro emit_pool)

lemma checks [effect_intros]:
  "effects R (check_todo_ownership t c)" "effects R (check_piscis_only c a)"
  "effects R (ensure_pool_member p k)" "effects R (may_archive x c s)"
  unfolding check_todo_ownership_def check_piscis_only_def ensure_pool_member_def is_pool_member_def
    may_archive_def list_koi_todos_def Let_def
  by (intro bind guardM query utc_now)+

lemma fresh [effect_intros]: "effects R (fresh_pool x s)" "effects R (fresh_todo x t)"
  unfolding fresh_pool_def fresh_todo_def get_pool_session_def get_koi_todo_def
  by (intro bind ret query utc_now)+

lemma emit_pool_membership_changed [effect_intros]: "effects R (emit_pool_membership_changed x p)"
  unfolding emit_pool_membership_changed_def get_pool_session_def
  by (intro effect_intros bind ret query utc_now attempt emit_pool)

lemma init_project_dir [effect_intros]: "effects R (init_project_dir x c d)"
  unfolding init_project_dir_def
  by (intro effect_intros bind ret bail attempt ensure_git_repo)
    (auto split: GitInitOutcome.split intro: ret)

end


lemma wf_services_pool:
  "effects keeps_wf (create_pool x c cp)" "effects keeps_wf (read_org_spec x c p)"
  "effects keeps_wf (update_org_spec x c uo)" "effects keeps_wf (list_pools x)"
  "effects keeps_wf (find_related x kw)" "effects keeps_wf (list_members x c p)"
  "effects keeps_wf (add_member x c p k)" "effects keeps_wf (remove_member x c p k)"
  "effects keeps_wf (set_pool_status x c p s)"
  unfolding create_pool_def read_org_spec_def update_org_spec_def list_pools_def find_related_def
    list_members_def add_member_def remove_member_def set_pool_status_def Let_def
  by (intro effect_intros)+

lemma wf_services_messages:
  "effects keeps_wf (send_pool_message x b c sm)" "effects keeps_wf (read_pool_messages x c p l)"
  "effects keeps_wf (get_pool_todos x c p)" "effects keeps_wf (post_status x c po)"
  unfolding send_pool_message_def read_pool_messages_def get_pool_todos_def post_status_def Let_def
  by (intro effect_intros)+

end
