(* ===== verification/Service_Todos.thy ===== *)
theory Service_Todos
  imports Services
begin

text \<open>
  \<^verbatim>\<open>piscis-kernel/src/pool/services.rs\<close>, second half: waiting for a Koi, assigning work, the services
  on todos and the merge of branches.
\<close>

section \<open>Arguments\<close>

record AssignKoiArgs =
  as_pool_id :: string
  as_koi_id :: string
  as_task :: string
  as_priority :: string
  as_timeout_secs :: u32
  as_context :: "string option"
  as_depends_on :: "string option"

record MergeBranchesArgs =
  mg_pool_id :: string
  mg_branch :: "string option"

record WaitForKoiArgs =
  wk_pool_id :: string
  wk_koi_id :: "string option"
  wk_todo_id :: "string option"
  wk_min_wait_secs :: nat
  wk_timeout_secs :: nat
  wk_initial_backoff_ms :: nat
  wk_max_backoff_ms :: nat

record CreateTodoArgs =
  ct_pool_id :: string
  ct_title :: string
  ct_description :: string
  ct_priority :: string
  ct_timeout_secs :: u32
  ct_depends_on :: "string option"

record ReplaceTodoArgs =
  rp_todo_id :: string
  rp_new_owner_id :: string
  rp_task :: string
  rp_reason :: string
  rp_timeout_secs :: "u32 option"

record DeleteTodoArgs =
  dt_todo_id :: "string option"
  dt_pool_id :: "string option"
  dt_status :: "string option"
  dt_owner_id :: "string option"

record UpdateTodoStatusArgs =
  us_todo_id :: string
  us_new_status :: string

section \<open>Waiting\<close>

definition todo_is_wait_terminal :: "string \<Rightarrow> bool" where
  "todo_is_wait_terminal status \<longleftrightarrow>
     status \<in> set [''done'', ''needs_review'', ''blocked'', ''cancelled'']"

definition wait_backoff_ms :: "nat \<Rightarrow> nat \<Rightarrow> nat \<Rightarrow> nat \<Rightarrow> nat" where
  "wait_backoff_ms value default_ms lo hi = (if value = 0 then default_ms else max lo (min value hi))"

definition wait_matches :: "string \<Rightarrow> string option \<Rightarrow> string option \<Rightarrow> KoiTodo \<Rightarrow> bool" where
  "wait_matches pool_id koi_id todo_id t \<longleftrightarrow>
     td_pool_session_id t = Some pool_id \<and>
     (case koi_id of None \<Rightarrow> True | Some k \<Rightarrow> td_owner_id t = k \<or> starts_with (td_owner_id t) k) \<and>
     (case todo_id of None \<Rightarrow> True | Some i \<Rightarrow> td_id t = i \<or> starts_with (td_id t) i)"

definition status_counts :: "KoiTodo list \<Rightarrow> json" where
  "status_counts todos =
     JObj (map (\<lambda>s. (s, JInt (int (length (filter (\<lambda>t. td_status t = s) todos)))))
       [''todo'', ''in_progress'', ''blocked'', ''needs_review'', ''done'', ''cancelled''])"

definition wait_snapshot ::
  "ext \<Rightarrow> string \<Rightarrow> string option \<Rightarrow> string option \<Rightarrow> (KoiTodo list \<times> json) M" where
  "wait_snapshot x pool_id koi_id todo_id =
     bindM (list_koi_todos x None) (\<lambda>all.
     let todos = filter (wait_matches pool_id koi_id todo_id) all
     in ret (todos, status_counts todos))"

text \<open>
  The loop, in milliseconds. What the loop cannot see is a parameter: \<open>others n\<close> is what the other
  tasks do to the world during its n-th sleep, and \<open>clock n e s\<close> is the time elapsed at the poll after
  that sleep, when \<open>e\<close> was elapsed before and the loop asked to sleep for \<open>s\<close>.
\<close>

record surroundings =
  sr_others :: "nat \<Rightarrow> world \<Rightarrow> world"
  sr_clock :: "nat \<Rightarrow> nat \<Rightarrow> nat \<Rightarrow> nat"

definition wait_reply :: "PoolSession \<Rightarrow> WaitForKoiArgs \<Rightarrow> nat \<Rightarrow> bool \<Rightarrow> bool \<Rightarrow> KoiTodo list \<Rightarrow> json \<Rightarrow> json" where
  "wait_reply session args elapsed timed_out terminal todos counts =
     JObj [(''pool_id'', JStr (ps_id session)), (''koi_id'', jopt_str (wk_koi_id args)),
       (''todo_id'', jopt_str (wk_todo_id args)), (''elapsed_ms'', JInt (int elapsed)),
       (''timed_out'', JBool (timed_out \<and> \<not> terminal)), (''terminal_reached'', JBool terminal),
       (''matched_todo_count'', JInt (int (length todos))), (''status_counts'', counts),
       (''terminal_todos'', JArr (map
          (\<lambda>t. JObj [(''todo_id'', JStr (td_id t)), (''owner_id'', JStr (td_owner_id t)),
             (''status'', JStr (td_status t)), (''title'', JStr (td_title t))])
          (filter (\<lambda>t. todo_is_wait_terminal (td_status t)) todos))),
       (''summary'', JStr (if terminal then ''Koi work reached a reviewable or terminal state.''
          else ''Timed out while waiting for Koi work to reach a terminal state.''))]"

text \<open>One turn of the loop: its answer, or nothing when it goes on sleeping.\<close>

definition wait_poll ::
  "ext \<Rightarrow> CallerContext \<Rightarrow> WaitForKoiArgs \<Rightarrow> PoolSession \<Rightarrow> nat \<Rightarrow> nat \<Rightarrow> nat \<Rightarrow> json option M" where
  "wait_poll x caller args session min_wait timeout elapsed =
     bindM (caller_is_cancelled caller) (\<lambda>cancelled.
     bindM (guardM (\<not> cancelled) (Anyhow [CHR 0xE5, CHR 0xB7, CHR 0xB2, CHR 0xE8, CHR 0xA2, CHR 0xAB, CHR 0xE7, CHR 0x94, CHR 0xA8,
       CHR 0xE6, CHR 0x88, CHR 0xB7, CHR 0xE5, CHR 0x8F, CHR 0x96, CHR 0xE6, CHR 0xB6, CHR 0x88])) (\<lambda>_.
     bindM (wait_snapshot x (ps_id session) (wk_koi_id args) (wk_todo_id args)) (\<lambda>(todos, counts).
     let terminal = list_ex (\<lambda>t. todo_is_wait_terminal (td_status t)) todos;
         timed_out = timeout \<le> elapsed;
         waited_minimum = min_wait \<le> elapsed
     in if (waited_minimum \<and> terminal) \<or> timed_out
        then ret (Some (wait_reply session args elapsed timed_out terminal todos counts))
        else ret None)))"

partial_function (option) wait_loop ::
  "surroundings \<Rightarrow> (nat \<Rightarrow> json option M) \<Rightarrow> nat \<Rightarrow> nat \<Rightarrow> nat \<Rightarrow> nat \<Rightarrow> nat \<Rightarrow> world \<Rightarrow>
     ((error + json) \<times> world) option" where
  "wait_loop sr poll timeout max_backoff n elapsed backoff w =
     (case poll elapsed w of
        (Inl e, w') \<Rightarrow> Some (Inl e, w')
      | (Inr (Some j), w') \<Rightarrow> Some (Inr j, w')
      | (Inr None, w') \<Rightarrow>
          (let remaining = timeout - elapsed;
               sleep_for = max (min backoff remaining) 1
           in wait_loop sr poll timeout max_backoff (Suc n) (sr_clock sr n elapsed sleep_for)
                (min (backoff * 2) max_backoff) (sr_others sr n w')))"

definition wait_min :: "WaitForKoiArgs \<Rightarrow> nat" where
  "wait_min args = 1000 * min (wk_min_wait_secs args) 300"

definition wait_timeout :: "WaitForKoiArgs \<Rightarrow> nat" where
  "wait_timeout args = 1000 * (if wk_timeout_secs args = 0 then 60 else min (wk_timeout_secs args) 1800)"

definition wait_for_koi ::
  "ext \<Rightarrow> surroundings \<Rightarrow> CallerContext \<Rightarrow> WaitForKoiArgs \<Rightarrow> world \<Rightarrow> ((error + json) \<times> world) option" where
  "wait_for_koi x sr caller args w =
     (case (bindM (guardM (is_piscis caller)
             (Anyhow ''Only Piscis may wait on Koi execution through wait_for_koi.'')) (\<lambda>_.
           resolve_pool x caller (wk_pool_id args) ''wait_for_koi'')) w of
        (Inl e, w') \<Rightarrow> Some (Inl e, w')
      | (Inr session, w') \<Rightarrow>
          wait_loop sr (wait_poll x caller args session (wait_min args) (wait_timeout args))
            (wait_timeout args) (wait_backoff_ms (wk_max_backoff_ms args) 2000 25 10000) 0 0
            (wait_backoff_ms (wk_initial_backoff_ms args) 250 25 5000) w')"

section \<open>Assigning\<close>

definition nonblank_context :: "string option \<Rightarrow> string option" where
  "nonblank_context c = (case c of None \<Rightarrow> None | Some s \<Rightarrow> if trim s = [] then None else Some s)"

definition priority_or_medium :: "string \<Rightarrow> string" where
  "priority_or_medium p = (if trim p = [] then ''medium'' else p)"

definition resolve_assignee :: "ext \<Rightarrow> string \<Rightarrow> KoiDefinition M" where
  "resolve_assignee x koi_id =
     bindM (resolve_koi_identifier x koi_id) (\<lambda>found.
     bindM (list_kois x) (\<lambda>kois.
     let available = map (\<lambda>k. kd_name k @ '' ('' @ short (kd_id k) @ '')'') kois;
         hint = (if available = []
                 then ''No Kois are registered. Create one from the Koi settings page first.''
                 else ''Available Kois: '' @ join '', '' available @ ''.'')
     in ok_or found (Anyhow (''Cannot assign_koi: Koi '' @ sq koi_id @
          '' was not found in the kois table. '' @ hint))))"

definition assign_mention :: "string \<Rightarrow> string \<Rightarrow> string \<Rightarrow> AssignKoiArgs \<Rightarrow> string" where
  "assign_mention koi_name priority task args =
     ''@!'' @ koi_name @ '' [Priority: '' @ priority @ ''] '' @
     (if 0 < as_timeout_secs args
      then ''[Execution timeout: '' @ nat_digits (unat (as_timeout_secs args)) @ ''s] '' else []) @
     task @
     (case nonblank_context (as_context args) of
        None \<Rightarrow> [] | Some ctx \<Rightarrow> ([CHR 0x0A, CHR 0x0A] @ ''## Task Background'' @ [CHR 0x0A]) @ ctx)"

definition assign_description :: "string \<Rightarrow> AssignKoiArgs \<Rightarrow> string" where
  "assign_description task args =
     task @ (case nonblank_context (as_context args) of
               None \<Rightarrow> [] | Some ctx \<Rightarrow> ([CHR 0x0A, CHR 0x0A] @ ''[Background]'' @ [CHR 0x0A]) @ ctx)"

definition assign_koi :: "ext \<Rightarrow> bool \<Rightarrow> CallerContext \<Rightarrow> AssignKoiArgs \<Rightarrow> json M" where
  "assign_koi x subagent caller args =
     bindM (resolve_pool x caller (as_pool_id args) ''assign_koi'') (\<lambda>session.
     bindM (ensure_accepts_new_work session ''assign_koi'') (\<lambda>_.
     let koi_id = trim (as_koi_id args); task = trim (as_task args);
         priority = priority_or_medium (as_priority args)
     in bindM (guardM (koi_id \<noteq> []) (Anyhow ([CHR 0x27] @
       ''koi_id'' @
       [CHR 0x27] @
       '' is required for action '' @
       [CHR 0x27] @
       ''assign_koi'' @
       [CHR 0x27]))) (\<lambda>_.
        bindM (guardM (task \<noteq> []) (Anyhow ([CHR 0x27] @
       ''task'' @
       [CHR 0x27] @
       '' is required for action '' @
       [CHR 0x27] @
       ''assign_koi'' @
       [CHR 0x27]))) (\<lambda>_.
        bindM (resolve_assignee x koi_id) (\<lambda>koi.
        bindM (ensure_pool_member (ps_id session) (kd_id koi)) (\<lambda>_.
        bindM (create_koi_todo x (kd_id koi) (take_chars 120 task) (assign_description task args) priority
          ''piscis'' (Some (ps_id session)) ''koi'' (as_depends_on args) (as_timeout_secs args)) (\<lambda>todo.
        bindM (emit_todo (Some (ps_id session)) Created todo) (\<lambda>_.
        bindM (insert_pool_message x (ps_id session) ''piscis''
          (assign_mention (kd_name koi) priority task args) ''mention''
          (ex_json_to_string x (JObj [(''target_koi'', JStr (kd_id koi)), (''priority'', JStr priority),
             (''timeout_secs'', JInt (uint (as_timeout_secs args))), (''todo_id'', JStr (td_id todo))]))) (\<lambda>msg.
        bindM (emit_message x msg) (\<lambda>_.
        bindM (emit_pool (KoiAssigned (ps_id session) (kd_id koi) (td_id todo))) (\<lambda>_.
        bindM (whenM subagent (spawn (AssignJob todo (kd_name koi) (ps_id session)
          ((turn_args (kd_id koi) (td_id todo))\<lparr>ea_assign_msg_id := Some (pm_id msg)\<rparr>)))) (\<lambda>_.
        ret (JObj [(''pool_id'', JStr (ps_id session)), (''koi_id'', JStr (kd_id koi)),
          (''koi_name'', JStr (kd_name koi)), (''todo'', JTodo (todo_snapshot todo)),
          (''mention_message'', JMessageStruct msg),
          (''next_required_action'', JObj [(''tool'', JStr ''pool_org''), (''action'', JStr ''get_todos''),
             (''pool_id'', JStr (ps_id session)),
             (''note'', JStr (kd_name koi @ '' will report results to pool_chat when done. '' @
                ''Check progress with get_todos/get_messages.''))]),
          (''summary'', JStr (''Task posted to pool, kanban todo created, and '' @ kd_name koi @
             '' has been delegated work. The Koi will report results to pool_chat when done '' @
             ([CHR 0xE2, CHR 0x80, CHR 0x94] @
       '' check with pool_org(action='' @
       [CHR 0x22] @
       ''get_todos'' @
       [CHR 0x22] @
       '') or pool_org(action='' @
       [CHR 0x22] @
       ''get_messages'' @
       [CHR 0x22] @
       '') later.'')))])))))))))))))"

text \<open>The spawned closure.\<close>

definition run_assign_job ::
  "ext \<Rightarrow> runtime \<Rightarrow> CoordinatorConfig \<Rightarrow> KoiTodo \<Rightarrow> string \<Rightarrow> string \<Rightarrow> ExecuteTodoArgs \<Rightarrow> unit M" where
  "run_assign_job x rt cfg todo koi_name pool_id args =
     bindM (attempt (list_koi_todos x None)) (\<lambda>r.
     let todos = (case r of Inr ts \<Rightarrow> ts | Inl _ \<Rightarrow> [])
     in if \<not> is_todo_dependency_satisfied todo todos then
          bindM (emit_pool (TodoChanged pool_id Updated (todo_snapshot todo))) (\<lambda>_.
          ignore (insert_pool_message_ext x pool_id ''piscis''
            (''Waiting for upstream todo '' @ (case td_depends_on todo of None \<Rightarrow> [] | Some d \<Rightarrow> d) @
               '' before dispatching '' @ koi_name)
            ''system'' ''{}'' (Some (td_id todo)) None (Some ''dependency_waiting'')))
        else ignore (execute_todo_turn x rt cfg args))"

fun run_job :: "ext \<Rightarrow> runtime \<Rightarrow> CoordinatorConfig \<Rightarrow> job \<Rightarrow> unit M" where
  "run_job x rt cfg (ExecuteJob args) = ignore (execute_todo_turn x rt cfg args)"
| "run_job x rt cfg (AssignJob todo koi_name pool_id args) = run_assign_job x rt cfg todo koi_name pool_id args"

section \<open>Todos\<close>

definition todo_reply :: "KoiTodo \<Rightarrow> string \<Rightarrow> json" where
  "todo_reply todo summary = JObj [(''todo'', JTodo (todo_snapshot todo)), (''summary'', JStr summary)]"

definition no_op_reply :: "KoiTodo \<Rightarrow> string \<Rightarrow> json" where
  "no_op_reply todo what =
     JObj [(''no_op'', JBool True), (''summary'', JStr (''Todo '' @ sq (short (td_id todo)) @ what))]"

definition named_todo :: "ext \<Rightarrow> string \<Rightarrow> KoiTodo M" where
  "named_todo x todo_id =
     bindM (find_todo_by_prefix x todo_id) (\<lambda>t.
     ok_or t (Anyhow (''Todo '' @ sq todo_id @ '' not found'')))"

text \<open>A message about a todo, posted when the todo has a pool; that it cannot be stored is ignored.\<close>

definition note_on_pool ::
  "ext \<Rightarrow> KoiTodo \<Rightarrow> string \<Rightarrow> string \<Rightarrow> string \<Rightarrow> string \<Rightarrow> string \<Rightarrow> int option M" where
  "note_on_pool x todo sender content msg_type metadata event_type =
     (case td_pool_session_id todo of
        None \<Rightarrow> ret None
      | Some psid \<Rightarrow>
          bindM (attempt (insert_pool_message_ext x psid sender content msg_type metadata
            (Some (td_id todo)) None (Some event_type))) (\<lambda>r.
          case r of
            Inr msg \<Rightarrow> bindM (emit_message x msg) (\<lambda>_. ret (Some (pm_id msg)))
          | Inl _ \<Rightarrow> ret None))"

definition create_todo :: "ext \<Rightarrow> CallerContext \<Rightarrow> CreateTodoArgs \<Rightarrow> json M" where
  "create_todo x caller args =
     bindM (resolve_pool x caller (ct_pool_id args) ''create_todo'') (\<lambda>session.
     bindM (ensure_accepts_new_work session ''create_todo'') (\<lambda>_.
     let title = trim (ct_title args); owner = cx_memory_owner_id caller
     in bindM (guardM (title \<noteq> []) (Anyhow ([CHR 0x27] @
       ''title'' @
       [CHR 0x27] @
       '' is required for action '' @
       [CHR 0x27] @
       ''create_todo'' @
       [CHR 0x27]))) (\<lambda>_.
        bindM (create_koi_todo x owner title (ct_description args) (priority_or_medium (ct_priority args))
          owner (Some (ps_id session)) ''koi'' (ct_depends_on args) (ct_timeout_secs args)) (\<lambda>todo.
        bindM (emit_todo (Some (ps_id session)) Created todo) (\<lambda>_.
        ret (todo_reply todo (''Todo '' @ sq (td_title todo) @ ('' created with ID '' @ [CHR 0x60]) @
          short (td_id todo) @ ([CHR 0x60] @ ''.''))))))))"

text \<open>The loser of the claim may still be the holder, which is then a second claim of the same todo.\<close>

definition claim_or_holder :: "ext \<Rightarrow> CallerContext \<Rightarrow> KoiTodo \<Rightarrow> unit M" where
  "claim_or_holder x caller todo =
     bindM (try_claim_koi_todo x (td_id todo) (cx_memory_owner_id caller)) (\<lambda>won.
     whenM (\<not> won)
       (bindM (get_koi_todo x (td_id todo)) (\<lambda>current.
        let holder = Option.bind current td_claimed_by
        in guardM (holder = Some (cx_memory_owner_id caller))
             (Anyhow (''Todo '' @ sq (short (td_id todo)) @ '' is already in progress (claimed by '' @
                sq (case holder of None \<Rightarrow> ''unknown'' | Some h \<Rightarrow> h) @
                ''). Do not retry; pick another todo.'')))))"

definition claim_todo :: "ext \<Rightarrow> CallerContext \<Rightarrow> string \<Rightarrow> json M" where
  "claim_todo x caller todo_id =
     bindM (named_todo x todo_id) (\<lambda>todo.
     bindM (guardM (td_status todo \<notin> set [''done'', ''cancelled''])
       (Anyhow (''Cannot claim a todo with status '' @ sq (td_status todo) @ ''.''))) (\<lambda>_.
     bindM (guardM (td_claimed_by todo \<in> set [None, Some (cx_memory_owner_id caller)])
       (Anyhow (''Todo '' @ sq (short (td_id todo)) @ '' is already claimed by '' @
          sq (case td_claimed_by todo of None \<Rightarrow> ''unknown'' | Some h \<Rightarrow> h) @ ''.''))) (\<lambda>_.
     bindM (guardM (is_piscis caller \<or> td_owner_id todo = cx_memory_owner_id caller)
       (Anyhow (''Permission denied. You can only claim your own todos. This todo belongs to '' @
          sq (td_owner_id todo) @ ''.''))) (\<lambda>_.
     bindM (claim_or_holder x caller todo) (\<lambda>_.
     bindM (note_on_pool x todo (cx_memory_owner_id caller) (([CHR 0xE6, CHR 0x8E, CHR 0xA5, CHR 0xE5, CHR 0x8F, CHR 0x97, CHR 0xE4, CHR 0xBA, CHR 0x86,
       CHR 0xE4, CHR 0xBB, CHR 0xBB, CHR 0xE5, CHR 0x8A, CHR 0xA1] @
       '': '') @ td_title todo)
       ''task_claimed'' ''{}'' ''task_claimed'') (\<lambda>_.
     bindM (fresh_todo x todo) (\<lambda>refreshed.
     bindM (emit_todo (td_pool_session_id refreshed) Claimed refreshed) (\<lambda>_.
     ret (todo_reply refreshed (''Todo '' @ sq (short (td_id refreshed)) @ '' ('' @ td_title refreshed @
       '') claimed. Status is now in_progress.''))))))))))"

definition todo_meta :: "KoiTodo \<Rightarrow> string \<Rightarrow> (string \<times> json) list \<Rightarrow> json" where
  "todo_meta todo status extra =
     JObj [(''todo'', JObj ([(''id'', JStr (td_id todo)), (''owner_id'', JStr (td_owner_id todo)),
       (''status'', JStr status)] @ extra))]"

definition complete_todo :: "ext \<Rightarrow> CallerContext \<Rightarrow> string \<Rightarrow> string \<Rightarrow> json M" where
  "complete_todo x caller todo_id summary =
     bindM (guardM (trim summary \<noteq> []) (Anyhow ([CHR 0x27] @
       ''summary'' @
       [CHR 0x27] @
       '' is required for action '' @
       [CHR 0x27] @
       ''complete_todo'' @
       [CHR 0x27]))) (\<lambda>_.
     bindM (named_todo x todo_id) (\<lambda>todo.
     if td_status todo = ''done'' then ret (no_op_reply todo '' is already completed.'')
     else
       bindM (guardM (td_status todo \<noteq> ''cancelled'') (Anyhow ''Cannot complete a cancelled todo.'')) (\<lambda>_.
       bindM (check_todo_ownership todo caller) (\<lambda>_.
       bindM (note_on_pool x todo (cx_memory_owner_id caller) summary ''result''
         (enrich_as_json_string x (todo_meta todo ''done'' []) summary) ''task_completed'') (\<lambda>result_msg_id.
       bindM (complete_koi_todo x (td_id todo) result_msg_id) (\<lambda>_.
       bindM (ignore (update_koi_status x (td_owner_id todo) ''idle'')) (\<lambda>_.
       bindM (fresh_todo x todo) (\<lambda>refreshed.
       bindM (emit_todo (td_pool_session_id refreshed) Completed refreshed) (\<lambda>_.
       ret (todo_reply refreshed (''Todo '' @ sq (short (td_id refreshed)) @ '' ('' @ td_title refreshed @
         '') marked as completed.'')))))))))))"

definition cancel_todo :: "ext \<Rightarrow> CallerContext \<Rightarrow> string \<Rightarrow> string \<Rightarrow> json M" where
  "cancel_todo x caller todo_id reason =
     bindM (named_todo x todo_id) (\<lambda>todo.
     if td_status todo = ''cancelled'' then ret (no_op_reply todo '' is already cancelled.'')
     else
       bindM (guardM (td_status todo \<noteq> ''done'') (Anyhow ''Cannot cancel a completed todo.'')) (\<lambda>_.
       bindM (check_todo_ownership todo caller) (\<lambda>_.
       let reason = (if trim reason = [] then ''Cancelled'' else reason)
       in bindM (cancel_koi_todo x (td_id todo) reason) (\<lambda>_.
          bindM (note_on_pool x todo (cx_memory_owner_id caller)
            ((''[Task Cancelled] '' @ [CHR 0x22]) @ td_title todo @ ([CHR 0x22] @ '' '' @ [CHR 0xE2, CHR 0x80, CHR 0x94] @ '' '') @ reason) ''system''
            (ex_json_to_string x (todo_meta todo ''cancelled'' [(''reason'', JStr reason)]))
            ''task_cancelled'') (\<lambda>_.
          bindM (fresh_todo x todo) (\<lambda>refreshed.
          bindM (emit_todo (td_pool_session_id refreshed) Cancelled refreshed) (\<lambda>_.
          ret (todo_reply refreshed (''Todo '' @ sq (short (td_id refreshed)) @ '' ('' @
            td_title refreshed @ '') cancelled. Reason: '' @ reason)))))))))"

definition deleted_reply :: "KoiTodo list \<Rightarrow> string \<Rightarrow> json" where
  "deleted_reply todos summary =
     JObj [(''deleted_count'', JInt (int (length todos))),
       (''deleted_todos'', JArr (map (\<lambda>t. JTodo (todo_snapshot t)) todos)), (''summary'', JStr summary)]"

definition delete_matches :: "string \<Rightarrow> string option \<Rightarrow> string option \<Rightarrow> KoiTodo \<Rightarrow> bool" where
  "delete_matches pool_id status owner t \<longleftrightarrow>
     td_pool_session_id t = Some pool_id \<and>
     (case status of None \<Rightarrow> True | Some s \<Rightarrow> td_status t = s) \<and>
     (case owner of None \<Rightarrow> True | Some k \<Rightarrow> td_owner_id t = k)"

definition delete_batch ::
  "ext \<Rightarrow> CallerContext \<Rightarrow> string \<Rightarrow> string option \<Rightarrow> string option \<Rightarrow> json M" where
  "delete_batch x caller pool_id_hint status_filter owner_hint =
     bindM (guardM (\<not> (status_filter = None \<and> owner_hint = None))
       (Anyhow (''Batch delete requires at least one filter. '' @
          (''Provide '' @
       [CHR 0x27] @
       ''delete_status'' @
       [CHR 0x27] @
       '' and/or '' @
       [CHR 0x27] @
       ''delete_owner_id'' @
       [CHR 0x27] @
       ''.'')))) (\<lambda>_.
     bindM (case owner_hint of
              None \<Rightarrow> ret None
            | Some hint \<Rightarrow>
                bindM (resolve_koi_identifier x hint) (\<lambda>k.
                ret (Some (case k of None \<Rightarrow> hint | Some koi \<Rightarrow> kd_id koi)))) (\<lambda>owner_filter.
     bindM (resolve_pool x caller pool_id_hint ''delete_todo'') (\<lambda>session.
     bindM (list_koi_todos x None) (\<lambda>all.
     let todos = filter (delete_matches (ps_id session) status_filter owner_filter) all
     in if todos = []
        then ret (deleted_reply [] (''No todos matched the delete filter in pool '' @
               sq (short (ps_id session)) @ ''.''))
        else
          bindM (forM (map td_id todos) delete_koi_todo) (\<lambda>_.
          bindM (forM todos (\<lambda>t. emit_todo (td_pool_session_id t) Deleted t)) (\<lambda>_.
          ret (deleted_reply todos
            (''Deleted '' @ nat_digits (length todos) @ '' todo(s) from pool '' @ sq (ps_name session) @
             (case status_filter of None \<Rightarrow> [] | Some s \<Rightarrow> '' with status '' @ sq s) @
             (case owner_filter of None \<Rightarrow> [] | Some k \<Rightarrow> '' for owner '' @ sq k) @ ''.''))))))))"

definition delete_todo :: "ext \<Rightarrow> CallerContext \<Rightarrow> DeleteTodoArgs \<Rightarrow> json M" where
  "delete_todo x caller args =
     bindM (check_piscis_only caller ''delete_todo'') (\<lambda>_.
     case trimmed_nonempty (dt_todo_id args) of
       Some todo_id \<Rightarrow>
         bindM (named_todo x todo_id) (\<lambda>todo.
         bindM (delete_koi_todo (td_id todo)) (\<lambda>_.
         bindM (emit_todo (td_pool_session_id todo) Deleted todo) (\<lambda>_.
         ret (deleted_reply [todo] (''Deleted todo '' @ sq (short (td_id todo)) @ '' ('' @
           td_title todo @ '').'')))))
     | None \<Rightarrow>
         bindM (ok_or (trimmed_nonempty (dt_pool_id args))
           (Anyhow ([CHR 0x27] @
       ''todo_id'' @
       [CHR 0x27] @
       '' is required for single delete, or provide '' @
       [CHR 0x27] @
       ''pool_id'' @
       [CHR 0x27] @
       '' for batch delete.'')))
           (\<lambda>hint. delete_batch x caller hint (trimmed_nonempty (dt_status args))
             (trimmed_nonempty (dt_owner_id args))))"

definition update_todo_status :: "ext \<Rightarrow> CallerContext \<Rightarrow> UpdateTodoStatusArgs \<Rightarrow> json M" where
  "update_todo_status x caller args =
     (let new_status = us_new_status args
      in bindM (guardM (new_status \<in> set [''todo'', ''in_progress'', ''blocked''])
           (Anyhow (([CHR 0x27] @ ''status'' @ [CHR 0x27] @ '' must be one of: todo, in_progress, blocked. '') @
              (''Use '' @
       [CHR 0x27] @
       ''complete_todo'' @
       [CHR 0x27] @
       '' or '' @
       [CHR 0x27] @
       ''cancel_todo'' @
       [CHR 0x27] @
       '' for terminal states.'')))) (\<lambda>_.
         bindM (named_todo x (us_todo_id args)) (\<lambda>todo.
         bindM (guardM (td_status todo \<notin> set [''done'', ''cancelled''])
           (Anyhow (''Cannot update status of a '' @ td_status todo @ '' todo.''))) (\<lambda>_.
         bindM (check_todo_ownership todo caller) (\<lambda>_.
         bindM (update_koi_todo x (td_id todo) None None (Some new_status) None) (\<lambda>_.
         bindM (note_on_pool x todo (cx_memory_owner_id caller)
           (''[Task Status] '' @ sq (td_title todo) @ '' is now '' @ new_status @ ''.'') ''status_update''
           (ex_json_to_string x (todo_meta todo new_status []))
           (if new_status = ''blocked'' then ''task_blocked'' else ''task_status_changed'')) (\<lambda>_.
         bindM (fresh_todo x todo) (\<lambda>refreshed.
         bindM (emit_todo (td_pool_session_id refreshed)
           (if new_status = ''blocked'' then Blocked else Updated) refreshed) (\<lambda>_.
         ret (todo_reply refreshed (''Todo '' @ sq (short (td_id refreshed)) @ '' ('' @
           td_title refreshed @ '') status changed to '' @ sq new_status @ ''.'')))))))))))"

definition resume_todo :: "ext \<Rightarrow> CallerContext \<Rightarrow> string \<Rightarrow> json M" where
  "resume_todo x caller todo_id =
     bindM (guardM (is_piscis caller)
       (Anyhow ''Only Piscis may decide whether a blocked task should be resumed.'')) (\<lambda>_.
     bindM (named_todo x todo_id) (\<lambda>todo.
     bindM (resume_blocked_todo x (td_id todo) (cx_memory_owner_id caller)) (\<lambda>refreshed.
     ret (todo_reply refreshed (''Resume requested for todo '' @ sq (short (td_id refreshed)) @ '' ('' @
       td_title refreshed @ '').'')))))"

definition replace_todo :: "ext \<Rightarrow> CallerContext \<Rightarrow> ReplaceTodoArgs \<Rightarrow> json M" where
  "replace_todo x caller args =
     bindM (guardM (is_piscis caller) (Anyhow ''Only Piscis may replace a task owner.'')) (\<lambda>_.
     bindM (guardM (trim (rp_new_owner_id args) \<noteq> [])
       (Anyhow ([CHR 0x27] @
       ''new_owner_id'' @
       [CHR 0x27] @
       '' is required for action '' @
       [CHR 0x27] @
       ''replace_todo'' @
       [CHR 0x27]))) (\<lambda>_.
     bindM (guardM (trim (rp_task args) \<noteq> [])
       (Anyhow ([CHR 0x27] @
       ''task'' @
       [CHR 0x27] @
       '' is required for action '' @
       [CHR 0x27] @
       ''replace_todo'' @
       [CHR 0x27]))) (\<lambda>_.
     bindM (guardM (trim (rp_reason args) \<noteq> [])
       (Anyhow ([CHR 0x27] @
       ''reason'' @
       [CHR 0x27] @
       '' is required for action '' @
       [CHR 0x27] @
       ''replace_todo'' @
       [CHR 0x27]))) (\<lambda>_.
     bindM (named_todo x (rp_todo_id args)) (\<lambda>original.
     bindM (replace_blocked_todo x (td_id original) (trim (rp_new_owner_id args)) (trim (rp_task args))
       (trim (rp_reason args)) (cx_memory_owner_id caller) (rp_timeout_secs args)) (\<lambda>replacement.
     ret (JObj [(''original'', JTodo (todo_snapshot original)),
       (''replacement'', JTodo (todo_snapshot replacement)),
       (''summary'', JStr (''Todo '' @ sq (short (td_id original)) @ '' ('' @ td_title original @
          '') was replaced by '' @ sq (short (td_id replacement)) @ '' ('' @ td_title replacement @
          '').''))])))))))"

section \<open>Branches\<close>

definition merge_status :: "MergeOutcome \<Rightarrow> string" where
  "merge_status out = (case out of Merged \<Rightarrow> ''merged'' | Conflict _ \<Rightarrow> ''conflict'' | MergeError _ \<Rightarrow> ''conflict'')"

definition render_merge :: "MergeBranchResult \<Rightarrow> string" where
  "render_merge r = ''  '' @ mr_branch r @
     (case mr_outcome r of
        Merged \<Rightarrow> ('' '' @ [CHR 0xE2, CHR 0x80, CHR 0x94] @ '' merged OK'')
      | Conflict message \<Rightarrow> ('' '' @ [CHR 0xE2, CHR 0x80, CHR 0x94] @ '' CONFLICT (aborted): '') @ message
      | MergeError message \<Rightarrow> ('' '' @ [CHR 0xE2, CHR 0x80, CHR 0x94] @ '' error: '') @ message)"

definition merge_json :: "MergeBranchResult \<Rightarrow> json" where
  "merge_json r = JObj [(''branch'', JStr (mr_branch r)), (''outcome'',
     case mr_outcome r of
       Merged \<Rightarrow> JObj [(''kind'', JStr ''merged'')]
     | Conflict message \<Rightarrow> JObj [(''kind'', JStr ''conflict''), (''message'', JStr message)]
     | MergeError message \<Rightarrow> JObj [(''kind'', JStr ''error''), (''message'', JStr message)])]"

definition merge_branches :: "ext \<Rightarrow> CallerContext \<Rightarrow> MergeBranchesArgs \<Rightarrow> json M" where
  "merge_branches x caller args =
     bindM (resolve_pool x caller (mg_pool_id args) ''merge_branches'') (\<lambda>session.
     bindM (ok_or (ps_project_dir session)
       (Anyhow ''This pool has no project_dir. merge_branches requires a git-backed project.'')) (\<lambda>dir.
     bindM (reading (\<lambda>n. ex_path_exists x n (path_join dir ''.git''))) (\<lambda>has_git.
     bindM (guardM has_git (Anyhow (''No Git repo found at '' @ sq dir))) (\<lambda>_.
     bindM (merge_koi_branches x dir (cx_cancel caller) (trimmed_nonempty (mg_branch args))) (\<lambda>results.
     bindM (forM results (\<lambda>r. ignore (set_koi_todo_integration_status_by_branch x (ps_id session)
       (mr_branch r) (merge_status (mr_outcome r))))) (\<lambda>_.
     ret (JObj [(''pool_id'', JStr (ps_id session)), (''branches'', JArr (map merge_json results)),
       (''summary'', JStr (if results = [] then ''No koi/* branches to merge.''
          else ''Merge results for '' @ sq (ps_name session) @ '' ('' @ nat_digits (length results) @
            ('' branches):'' @ [CHR 0x0A]) @ join [CHR 0x0A] (map render_merge results)))])))))))"

section \<open>The services keep the integrity\<close>

context effect
begin

lemma named_todo [effect_intros]: "effects R (named_todo x i)"
  unfolding named_todo_def by (intro bind find_todo_by_prefix ok_or)

lemma wait_poll [effect_intros]: "effects R (wait_poll x c args s lo hi e)"
  unfolding wait_poll_def wait_snapshot_def list_koi_todos_def Let_def
  by (intro effect_intros bind is_cancelled_caller guardM ret utc_now query)

end

lemma wf_note_on_pool [effect_intros]: "effects keeps_wf (note_on_pool x t s c mt md e)"
  unfolding note_on_pool_def by (intro effect_intros)

lemma wf_assign_koi: "effects keeps_wf (assign_koi x b c args)"
  unfolding assign_koi_def resolve_assignee_def Let_def by (intro effect_intros)

lemma wf_services_todos:
  "effects keeps_wf (create_todo x c ct)" "effects keeps_wf (claim_todo x c i)"
  "effects keeps_wf (complete_todo x c i s)" "effects keeps_wf (cancel_todo x c i s)"
  "effects keeps_wf (delete_todo x c dt)" "effects keeps_wf (update_todo_status x c us)"
  "effects keeps_wf (resume_todo x c i)" "effects keeps_wf (replace_todo x c rp)"
  unfolding create_todo_def claim_todo_def complete_todo_def cancel_todo_def delete_todo_def
    delete_batch_def update_todo_status_def resume_todo_def replace_todo_def claim_or_holder_def Let_def
  by (intro effect_intros)+

lemma wf_merge_branches: "effects keeps_wf (merge_branches x c mg)"
  unfolding merge_branches_def by (intro effect_intros)

context subagent_runtime
begin

lemma run_job_wf: "effects keeps_wf (run_job x rt cfg j)"
  by (cases j) (auto simp: run_assign_job_def Let_def intro!: effect_intros execute_wf)

end

end
