(* ===== verification/Permissions.thy ===== *)
theory Permissions
  imports Service_Todos Turns
begin

text \<open>
  Who may change which todo through the services of \<^verbatim>\<open>pool/services.rs\<close>. The effect \<open>kept Q\<close> says that
  the rows for which \<open>Q\<close> holds stay exactly as they are; a service has it when the todos it names are
  checked against \<open>Q\<close> before they are written.
\<close>

section \<open>Rows that are kept\<close>

definition kept :: "(todo_row \<Rightarrow> bool) \<Rightarrow> db \<Rightarrow> db \<Rightarrow> bool" where
  "kept Q d d' \<longleftrightarrow> (wf_db d \<longrightarrow> wf_db d' \<and> (\<forall>i r. todo_at d i = Some r \<and> Q r \<longrightarrow> todo_at d' i = Some r))"

interpretation kept: effect "kept Q" for Q
  by unfold_locales (auto simp: kept_def)

lemma kept_mono: "effects (kept Q') m \<Longrightarrow> (\<And>r. Q r \<Longrightarrow> Q' r) \<Longrightarrow> effects (kept Q) m"
  unfolding effects_def kept_def by blast

lemma kept_same: "effects same_todos m \<Longrightarrow> effects keeps_wf m \<Longrightarrow> effects (kept Q) m"
  unfolding effects_def kept_def keeps_wf_def by (metis same_todos_at)

lemma kept_frame: "effects frame m \<Longrightarrow> effects (kept Q) m"
  by (erule effects_frame) (simp add: kept_def)

lemma kept_only:
  "effects (only_todo i) m \<Longrightarrow> effects keeps_wf m \<Longrightarrow> effects (kept (\<lambda>r. td_id r \<noteq> i)) m"
  unfolding effects_def kept_def keeps_wf_def only_todo_def by (metis todo_at_id)

lemma kept_insert [effect_intros]: "effects (kept Q) (execute (insert_todo r))"
  unfolding effects_execute_iff kept_def
  by (auto split: sum.split dest: wf_insert_todo simp: todo_at_insert_todo)
    (metis insert_todo_def old.sum.exhaust todo_at_None_iff option.distinct(1) Inl_Inr_False)

lemma same_todos_inserts [effect_intros]:
  "effects same_todos (insert_pool_message x p s c mt md)"
  "effects same_todos (upsert_koi_with_id x k n)"
  unfolding insert_pool_message_def upsert_koi_with_id_def by (intro effect_intros)+

lemma kept_posts [effect_intros]:
  "effects (kept Q) (insert_pool_message_ext x p s c mt md t r ev)"
  "effects (kept Q) (insert_pool_message x p s c mt md)"
  "effects (kept Q) (get_koi_todo x i)" "effects (kept Q) (list_koi_todos x ow)"
  "effects (kept Q) (resolve_koi_identifier x v)" "effects (kept Q) (update_koi_status x k st)"
  "effects (kept Q) (post_message x p s c mt md t r ev)"
  "effects (kept Q) (upsert_koi_with_id x k n)"
  "effects (kept Q) (resolve_pool_session_identifier x v)"
  by (rule kept_same; intro effect_intros)+

lemma kept_create [effect_intros]: "effects (kept Q) (create_koi_todo x a b c e f g h i j)"
  unfolding create_koi_todo_def by (intro effect_intros)


section \<open>Services that name a todo\<close>

text \<open>A lookup changes nothing, and the todo it returns is a row of the board.\<close>

definition finds :: "KoiTodo M \<Rightarrow> bool" where
  "finds m \<longleftrightarrow> effects frame m \<and>
     (\<forall>w t w'. m w = (Inr t, w') \<longrightarrow> (\<exists>now. \<exists>r \<in> set (tb_koi_todos (w_db w)). t = map_koi_todo now r))"

lemma list_koi_todos_mem:
  "list_koi_todos x ow w = (Inr ts, w') \<Longrightarrow> t \<in> set ts \<Longrightarrow>
     \<exists>now. \<exists>r \<in> set (tb_koi_todos (w_db w)). t = map_koi_todo now r"
  by (auto simp: list_koi_todos_def bindM_def utc_now_def reading_def query_def sel_todos_def
      split: option.splits) blast+

lemma finds_named_todo: "finds (named_todo x i)"
proof -
  have "\<exists>now. \<exists>r \<in> set (tb_koi_todos (w_db w)). t = map_koi_todo now r"
    if n: "named_todo x i w = (Inr t, w')" for w t w'
  proof -
    from n obtain ts w1 where "list_koi_todos x None w = (Inr ts, w1)" "t \<in> set ts"
      by (auto simp: named_todo_def find_todo_by_prefix_def run_simps find_Some_iff2)
    then show ?thesis by (rule list_koi_todos_mem)
  qed
  then show ?thesis unfolding finds_def by (auto intro: effect_intros)
qed

lemma finds_get_koi_todo: "finds (bindM (get_koi_todo x i) (\<lambda>t. ok_or t e))"
  unfolding finds_def
  by (auto simp: run_simps get_koi_todo_run sel_todo_def intro!: effect_intros dest: todo_at_mem)
    (auto simp: get_koi_todo_def intro: effect_intros)

text \<open>The rule: the service writes at most the named todo, and nothing when the todo is protected.\<close>

lemma kept_named:
  assumes m: "finds m"
    and only: "\<And>t. effects (kept (\<lambda>r. td_id r \<noteq> td_id t)) (rest t)"
    and keep: "\<And>now r. Q r \<Longrightarrow> effects (kept Q) (rest (map_koi_todo now r))"
  shows "effects (kept Q) (bindM m rest)"
  unfolding effects_def
proof
  fix w
  obtain res w1 where run: "m w = (res, w1)" by (cases "m w")
  from m run have db: "w_db w1 = w_db w"
    by (auto simp: finds_def frame_def dest: effectsD)
  show "kept Q (w_db w) (w_db (snd (bindM m rest w)))"
  proof (cases res)
    case (Inl e)
    with run db show ?thesis by (simp add: bindM_def kept.R_refl)
  next
    case (Inr t)
    with m run obtain now r where r: "r \<in> set (tb_koi_todos (w_db w))" "t = map_koi_todo now r"
      unfolding finds_def by blast
    have res: "snd (bindM m rest w) = snd (rest t w1)" using run Inr by (simp add: bindM_def)
    show ?thesis
    proof (cases "Q r")
      case True
      with keep r(2) have "effects (kept Q) (rest t)" by simp
      then show ?thesis unfolding effects_def res db [symmetric] by blast
    next
      case False
      have "\<not> Q r'" if "wf_db (w_db w)" "todo_at (w_db w) i = Some r'" "td_id r' = td_id r" for i r'
        using that r(1) False todo_at_mem [OF that(2)]
        by (auto simp: wf_db_def distinct_map inj_on_def)
      moreover have "kept (\<lambda>r'. td_id r' \<noteq> td_id r) (w_db w) (w_db (snd (rest t w1)))"
        using only [of t] r(2) unfolding effects_def db [symmetric] by simp
      ultimately show ?thesis unfolding res kept_def by blast
    qed
  qed
qed


section \<open>The services on todos\<close>

lemma bindM_simps [simp]:
  "bindM (bail e) f = bail e" "bindM (ret v) g = g v"
  "guardM False e = bail e" "guardM True e = ret ()"
  by (simp_all add: fun_eq_iff bindM_def bail_def ret_def guardM_def)

lemma same_todos_notes [effect_intros]: "effects same_todos (note_on_pool x t s c mt md e)"
  unfolding note_on_pool_def by (intro effect_intros)

lemma only_todo_notes [effect_intros]: "effects (only_todo i) (note_on_pool x t s c mt md e)"
  by (rule only_todo_same) (intro effect_intros)

text \<open>What the services do with the todo they have found.\<close>

lemma only_named:
  "effects (only_todo (td_id t)) (claim_or_holder x c t)"
  unfolding claim_or_holder_def Let_def by (intro effect_intros)

lemma wf_claim_or_holder [effect_intros]: "effects keeps_wf (claim_or_holder x c t)"
  unfolding claim_or_holder_def Let_def by (intro effect_intros)

definition protected :: "CallerContext \<Rightarrow> todo_row \<Rightarrow> bool" where
  "protected caller r \<longleftrightarrow>
     td_status r \<in> {''done'', ''cancelled''} \<or>
     (\<not> is_piscis caller \<and> td_owner_id r \<noteq> cx_memory_owner_id caller)"

lemma protected_cases:
  assumes "protected c r"
  obtains "td_status r = ''done''" | "td_status r = ''cancelled''"
  | "is_piscis c = False" "td_owner_id r \<noteq> cx_memory_owner_id c"
  using assms by (auto simp: protected_def)

lemma kept_claim_todo: "effects (kept (protected c)) (claim_todo x c i)"
  unfolding claim_todo_def
  apply (rule kept_named [OF finds_named_todo])
   apply (rule kept_only; intro effect_intros only_named)
  apply (erule protected_cases; simp; intro conjI impI effect_intros)
  done

lemma kept_complete_todo: "effects (kept (protected c)) (complete_todo x c i s)"
  unfolding complete_todo_def check_todo_ownership_def
  apply (rule kept.bind, rule kept.guardM)
  apply (rule kept_named [OF finds_named_todo])
   apply (rule kept_only; intro effect_intros)
  apply (erule protected_cases; simp; intro conjI impI effect_intros)
  done

lemma kept_cancel_todo: "effects (kept (protected c)) (cancel_todo x c i s)"
  unfolding cancel_todo_def check_todo_ownership_def Let_def
  apply (rule kept_named [OF finds_named_todo])
   apply (rule kept_only; intro effect_intros)
  apply (erule protected_cases; simp; intro conjI impI effect_intros)
  done

lemma kept_update_todo_status: "effects (kept (protected c)) (update_todo_status x c us)"
  unfolding update_todo_status_def check_todo_ownership_def Let_def
  apply (rule kept.bind, rule kept.guardM)
  apply (rule kept_named [OF finds_named_todo])
   apply (rule kept_only; intro effect_intros)
  apply (erule protected_cases; simp; intro conjI impI effect_intros)
  done


lemma kept_replace_statements [effect_intros]:
  "effects (kept (\<lambda>r. td_id r \<noteq> i)) (execute (replace_statements t i m now))"
proof -
  have "todo_at d' j = Some r"
    if wf: "wf_db d" and rep: "replace_statements t i m now d = Inr (n, d')"
      and r: "todo_at d j = Some r" "td_id r \<noteq> i" for d n d' j r
  proof -
    from rep obtain k d1 where ins: "insert_todo t d = Inr (k, d1)"
      and set: "set_todo i (stop_row ''cancelled'' m now) d1 = Inr (n, d')"
      by (auto simp: replace_statements_def split: sum.splits)
    from ins have "td_id t \<noteq> j" using r todo_at_None_iff [of d "td_id t"]
      by (auto simp: insert_todo_def split: if_splits)
    with r have "todo_at d1 j = Some r" by (simp add: todo_at_insert_todo [OF ins])
    with r todo_at_id [OF r(1)] show ?thesis by (simp add: todo_at_set_todo [OF set])
  qed
  with wf_replace_statements [of t i m now] show ?thesis
    unfolding effects_execute_iff kept_def keeps_wf_def by (fastforce split: sum.splits)
qed

lemma kept_replace_koi_todo [effect_intros]:
  "effects (kept (\<lambda>r. td_id r \<noteq> td_id ori)) (replace_koi_todo x ori a b c e f g h)"
  unfolding replace_koi_todo_def Let_def by (intro effect_intros)

lemma bindM_assoc: "bindM (bindM m f) g = bindM m (\<lambda>v. bindM (f v) g)"
  by (simp add: fun_eq_iff bindM_def split: prod.split sum.split)

lemmas kept_lookup = kept_named [OF finds_get_koi_todo, unfolded bindM_assoc]

lemma same_todos_workable [effect_intros]:
  "effects same_todos (workable_pool x t a)"
  "effects same_todos (resume_blocked_todo x i b)"
  unfolding resume_blocked_todo_def workable_pool_def ensure_pool_allows_runtime_work_def Let_def
  by (intro effect_intros)+

lemma kept_workable [effect_intros]:
  "effects (kept Q) (workable_pool x t a)" "effects (kept Q) (resume_blocked_todo x i b)"
  by (rule kept_same; intro effect_intros)+

lemma kept_replace_blocked:
  "effects (kept (\<lambda>r. td_status r \<in> {''done'', ''cancelled''}))
     (replace_blocked_todo x i k tk rs b tt)"
  unfolding replace_blocked_todo_def Let_def
  apply (rule kept.bind, rule kept.guardM)
  apply (rule kept.bind, rule kept.guardM)
  apply (rule kept_lookup)
   apply (intro effect_intros)
  apply (erule insertE; simp; intro effect_intros)
  done


lemma kept_resume_todo: "effects (kept Q) (resume_todo x c i)"
  unfolding resume_todo_def by (intro effect_intros)

lemma kept_replace_todo: "effects (kept (protected c)) (replace_todo x c rp)"
proof (cases "is_piscis c")
  case True
  then have "protected c r \<Longrightarrow> td_status r \<in> {''done'', ''cancelled''}" for r
    by (simp add: protected_def)
  note kept_mono [OF kept_replace_blocked this]
  then show ?thesis
    unfolding replace_todo_def by (intro effect_intros)
next
  case False
  then show ?thesis unfolding replace_todo_def by simp (rule kept.bail)
qed

lemma kept_delete_todo: "\<not> is_piscis c \<Longrightarrow> effects (kept Q) (delete_todo x c dt)"
  unfolding delete_todo_def check_piscis_only_def by simp (rule kept.bail)

lemma kept_create_services:
  "effects (kept Q) (create_todo x c ct)" "effects (kept Q) (assign_koi x b c args)"
  unfolding create_todo_def assign_koi_def resolve_assignee_def ensure_accepts_new_work_def Let_def
    list_kois_def
  by (intro effect_intros)+

lemma kept_send_pool_message: "effects (kept Q) (send_pool_message x b c sm)"
  unfolding send_pool_message_def handle_mention_def dispatch_mention_def create_mention_todo_def
    list_kois_def Let_def
  by (intro effect_intros)

text \<open>The services that create, claim, close or reopen todos; deleting is not among them.\<close>

inductive todo_service :: "ext \<Rightarrow> CallerContext \<Rightarrow> json M \<Rightarrow> bool" for x c where
  create: "todo_service x c (create_todo x c ct)"
| assign: "todo_service x c (assign_koi x b c args)"
| claim: "todo_service x c (claim_todo x c i)"
| complete: "todo_service x c (complete_todo x c i s)"
| cancel: "todo_service x c (cancel_todo x c i s)"
| update: "todo_service x c (update_todo_status x c us)"
| resume: "todo_service x c (resume_todo x c i)"
| replace: "todo_service x c (replace_todo x c rp)"

lemma todo_service_kept: "todo_service x c m \<Longrightarrow> effects (kept (protected c)) m"
  by (induction rule: todo_service.induct)
    (rule kept_create_services kept_claim_todo kept_complete_todo kept_cancel_todo
      kept_update_todo_status kept_resume_todo kept_replace_todo)+

section \<open>Properties\<close>

text \<open>
  C7. A Koi can change its own todos only. Whatever service on todos a caller other than Piscis
  invokes, deleting included, and whatever it answers, every todo that another Koi owns is afterwards
  exactly as it was.
\<close>

theorem koi_changes_own_todos_only:
  assumes "todo_service x c m \<or> m = delete_todo x c dt" and "\<not> is_piscis c"
    and "m w = (r, w')" and "wf_db (w_db w)"
    and "todo_at (w_db w) i = Some t" and "td_owner_id t \<noteq> cx_memory_owner_id c"
  shows "todo_at (w_db w') i = Some t"
proof -
  have "effects (kept (protected c)) m"
    using assms(1,2) by (auto intro: todo_service_kept kept_delete_todo)
  from effectsD [OF this assms(3)] assms(2,4-6) show ?thesis
    by (auto simp: kept_def protected_def)
qed

definition beta :: CallerContext where
  "beta = \<lparr>cx_memory_owner_id = ''k2'', cx_session_id = [], cx_session_source = None,
     cx_pool_session_id = Some ''p1'', cx_cancel = None\<rparr>"

theorem koi_changes_own_todos_only_witness:
  "todo_at (w_db (snd (cancel_todo sample_ext beta ''t1'' ''no'' (start_world sample_db)))) ''t1'' =
     todo_at sample_db ''t1'' \<and>
   fst (cancel_todo sample_ext beta ''t1'' ''no'' (start_world sample_db)) = Inl (Anyhow
     (''Permission denied. You can only manage your own todos. This todo belongs to '' @ sq ''k1'' @
      ''. To cancel or modify another agent'' @ [CHR 0x27] @
      ''s task, @piscis in pool_chat to request it.''))"
proof -
  obtain r w' where run: "cancel_todo sample_ext beta ''t1'' ''no'' (start_world sample_db) = (r, w')"
    by (cases "cancel_todo sample_ext beta ''t1'' ''no'' (start_world sample_db)")
  have t: "todo_at sample_db ''t1'' = Some (todo_row_of ''t1'' ''k1'' ''todo'' (Some ''p1'') None)"
    by code_simp
  have s: "todo_service sample_ext beta (cancel_todo sample_ext beta ''t1'' ''no'')
      \<or> cancel_todo sample_ext beta ''t1'' ''no'' = delete_todo sample_ext beta undefined"
    by (intro disjI1 todo_service.intros)
  have "todo_at (w_db w') ''t1'' = Some (todo_row_of ''t1'' ''k1'' ''todo'' (Some ''p1'') None)"
    by (rule koi_changes_own_todos_only [OF s _ run])
      (simp_all add: t beta_def is_piscis_def, code_simp)
  moreover have "fst (cancel_todo sample_ext beta ''t1'' ''no'' (start_world sample_db)) = Inl (Anyhow
     (''Permission denied. You can only manage your own todos. This todo belongs to '' @ sq ''k1'' @
      ''. To cancel or modify another agent'' @ [CHR 0x27] @
      ''s task, @piscis in pool_chat to request it.''))"
    by code_simp
  ultimately show ?thesis using t run by simp
qed

text \<open>
  C8. A settled todo stays settled: whoever calls, no service that creates, claims, completes, cancels,
  updates, resumes, replaces or assigns a todo changes a todo that is done or cancelled.
\<close>

theorem settled_todos_are_final:
  assumes "todo_service x c m" and "m w = (r, w')" and "wf_db (w_db w)"
    and "todo_at (w_db w) i = Some t" and "td_status t \<in> {''done'', ''cancelled''}"
  shows "todo_at (w_db w') i = Some t"
  using effectsD [OF todo_service_kept [OF assms(1)] assms(2)] assms(3-5)
  by (auto simp: kept_def protected_def)

definition settled_db :: db where
  "settled_db = sample_db\<lparr>tb_koi_todos := [todo_row_of ''t1'' ''k1'' ''done'' (Some ''p1'') None]\<rparr>"

lemma wf_settled_db [simp]: "wf_db settled_db"
  by (simp add: wf_db_def settled_db_def sample_db_def row_defs todo_refs_def member_refs_def
      exists_defs member_key_def)

definition piscis_caller :: CallerContext where
  "piscis_caller = \<lparr>cx_memory_owner_id = ''piscis'', cx_session_id = [], cx_session_source = None,
     cx_pool_session_id = Some ''p1'', cx_cancel = None\<rparr>"

theorem settled_todos_are_final_witness:
  "todo_at (w_db (snd (cancel_todo sample_ext piscis_caller ''t1'' ''no'' (start_world settled_db)))) ''t1'' =
     todo_at settled_db ''t1''"
proof -
  obtain r w' where run: "cancel_todo sample_ext piscis_caller ''t1'' ''no'' (start_world settled_db) = (r, w')"
    by (cases "cancel_todo sample_ext piscis_caller ''t1'' ''no'' (start_world settled_db)")
  have t: "todo_at settled_db ''t1'' = Some (todo_row_of ''t1'' ''k1'' ''done'' (Some ''p1'') None)"
    by code_simp
  have "todo_at (w_db w') ''t1'' = Some (todo_row_of ''t1'' ''k1'' ''done'' (Some ''p1'') None)"
    by (rule settled_todos_are_final [OF todo_service.cancel run])
      (simp_all add: t, simp add: row_defs)
  then show ?thesis using t run by simp
qed

end
