(* ===== verification/Runs.thy ===== *)
theory Runs
  imports Services
begin

text \<open>
  What the steps that the services share do to a world: rewrite rules of the collection \<open>exec_simps\<close>,
  with which a service is run forwards, and what the identifiers of pools and Kois resolve to.
\<close>

section \<open>Finding the pool and the Koi\<close>

lemma filter_single: "filter P xs = [r] \<Longrightarrow> r \<in> set xs"
  by (metis filter_is_subset list.set_intros(1) subsetD)

lemma sel_pool_by_prefix_mem:
  "sel_pool_by_prefix now p d = Inr (Some s) \<Longrightarrow>
     \<exists>r \<in> set (tb_pool_sessions d). s = read_pool now d r"
  by (auto simp: sel_pool_by_prefix_def sel_pool_def pool_at_def
      split: if_splits option.splits list.splits dest!: find_row_Some filter_single)

lemma sel_resolve_pool_mem:
  "sel_resolve_pool now v d = Inr (Some s) \<Longrightarrow>
     \<exists>r \<in> set (tb_pool_sessions d). s = read_pool now d r"
  by (auto simp: sel_resolve_pool_def Let_def sel_pools_def
      split: if_splits sum.splits option.splits list.splits
      dest!: sel_pool_by_prefix_mem filter_single)

lemma pool_at_mem:
  "wf_db d \<Longrightarrow> r \<in> set (tb_pool_sessions d) \<Longrightarrow> pool_at d (ps_id r) = Some r"
  by (simp add: pool_at_def wf_db_def find_row_eq_Some_iff)

lemma resolve_pool_run:
  assumes "resolve_pool x c h a w = (Inr s, w')" and "wf_db (w_db w)"
  obtains r now where "pool_at (w_db w) (ps_id s) = Some r" "s = read_pool now (w_db w) r"
    "quiet w w'" "w' = w\<lparr>w_tick := Suc (w_tick w)\<rparr>"
proof -
  from assms(1) obtain v where "sel_resolve_pool (ex_now x (w_tick w)) v (w_db w) = Inr (Some s)"
    and w': "w' = w\<lparr>w_tick := Suc (w_tick w)\<rparr>"
    by (auto simp: resolve_pool_def run_simps Let_def resolve_pool_session_identifier_def utc_now_def
        reading_def query_result_def)
  then obtain r where r: "r \<in> set (tb_pool_sessions (w_db w))"
    and s: "s = read_pool (ex_now x (w_tick w)) (w_db w) r"
    by (auto dest: sel_resolve_pool_mem)
  from pool_at_mem [OF assms(2) r] s w' show thesis by (intro that) (simp_all add: quiet_def)
qed

lemma pool_exists_at: "pool_at d p = Some r \<Longrightarrow> pool_exists d p"
  using pool_at_None_iff [of d p] by (cases "pool_exists d p") simp_all

text \<open>The status of a pool, none where there is no pool.\<close>

definition pool_status :: "db \<Rightarrow> string \<Rightarrow> string option" where
  "pool_status d p = map_option ps_status (pool_at d p)"

lemma pool_exists_update_pools [simp]:
  assumes "\<And>r. ps_id (f r) = ps_id r"
  shows "pool_exists (update_pools P f d) p = pool_exists d p"
proof -
  have "ps_id ` set (update_rows P f (tb_pool_sessions d)) = ps_id ` set (tb_pool_sessions d)"
    using map_key_update_rows [of P ps_id f] assms by (metis list.set_map)
  then show ?thesis by (simp add: pool_exists_def)
qed

lemma pool_at_update_pools:
  "(\<And>r. ps_id (f r) = ps_id r) \<Longrightarrow>
     pool_at (update_pools (\<lambda>r. ps_id r = i) f d) j =
       (if j = i then map_option f (pool_at d i) else pool_at d j)"
  using pool_at_set_pool [of i f d _ _ j] by (simp add: set_pool_def)

section \<open>Posting\<close>

text \<open>The row that posting writes, but for its number, and the database afterwards.\<close>

definition message_draft ::
  "DateTime \<Rightarrow> string \<Rightarrow> string \<Rightarrow> string \<Rightarrow> string \<Rightarrow> string \<Rightarrow> string option \<Rightarrow> int option \<Rightarrow>
     string option \<Rightarrow> message_row" where
  "message_draft now p s c mt md t r ev = \<lparr>
     pm_id = 0, pm_pool_session_id = p, pm_sender_id = s, pm_content = c, pm_msg_type = mt,
     pm_metadata = md, pm_todo_id = t, pm_reply_to_message_id = r, pm_event_type = ev,
     pm_created_at = to_rfc3339 now \<rparr>"

definition message_posted :: "DateTime \<Rightarrow> message_row \<Rightarrow> db \<Rightarrow> db" where
  "message_posted now m d =
     update_pools (\<lambda>r. ps_id r = pm_pool_session_id m)
       (\<lambda>r. r\<lparr>ps_updated_at := to_rfc3339 now, ps_last_active_at := Some (to_rfc3339 now)\<rparr>)
       (d\<lparr>tb_message_seq := tb_message_seq d + 1,
          tb_pool_messages := tb_pool_messages d @ [m\<lparr>pm_id := tb_message_seq d + 1\<rparr>]\<rparr>)"

definition posted_message :: "DateTime \<Rightarrow> message_row \<Rightarrow> db \<Rightarrow> PoolMessage" where
  "posted_message now m d = \<lparr>
     pm_id = tb_message_seq d + 1, pm_pool_session_id = pm_pool_session_id m,
     pm_sender_id = pm_sender_id m, pm_content = pm_content m, pm_msg_type = pm_msg_type m,
     pm_metadata = pm_metadata m, pm_todo_id = pm_todo_id m,
     pm_reply_to_message_id = pm_reply_to_message_id m, pm_event_type = pm_event_type m,
     pm_created_at = now \<rparr>"

lemma message_draft_sel [simp]:
  "pm_pool_session_id (message_draft now p s c mt md t r ev) = p"
  "pm_sender_id (message_draft now p s c mt md t r ev) = s"
  "pm_content (message_draft now p s c mt md t r ev) = c"
  "pm_msg_type (message_draft now p s c mt md t r ev) = mt"
  "message_refs d (message_draft now p s c mt md None None ev) = pool_exists d p"
  by (simp_all add: message_draft_def message_refs_def opt_exists_def)

lemma message_posted_sel [simp]:
  "tb_kois (message_posted now m d) = tb_kois d"
  "tb_koi_todos (message_posted now m d) = tb_koi_todos d"
  "tb_pool_members (message_posted now m d) = tb_pool_members d"
  "tb_memories (message_posted now m d) = tb_memories d"
  "tb_message_seq (message_posted now m d) = tb_message_seq d + 1"
  "tb_pool_messages (message_posted now m d) =
     tb_pool_messages d @ [m\<lparr>pm_id := tb_message_seq d + 1\<rparr>]"
  by (simp_all add: message_posted_def update_pools_def)

lemma pool_status_message_posted [simp]:
  "pool_status (message_posted now m d) j = pool_status d j"
proof -
  have "pool_at (d\<lparr>tb_message_seq := i, tb_pool_messages := ms\<rparr>) k = pool_at d k" for i ms k
    by (simp add: pool_at_def)
  then show ?thesis
    by (simp add: message_posted_def pool_status_def pool_at_update_pools option.map_comp o_def)
qed

lemma insert_pool_message_ext_run [exec_simps]:
  "insert_pool_message_ext x p s c mt md t r ev w =
     (let now = ex_now x (w_tick w); m = message_draft now p s c mt md t r ev
      in if message_refs (w_db w) m
         then (Inr (posted_message now m (w_db w)),
               w\<lparr>w_tick := Suc (w_tick w), w_db := message_posted now m (w_db w)\<rparr>)
         else (Inl ForeignKeyFailed, w\<lparr>w_tick := Suc (w_tick w)\<rparr>))"
  by (simp add: insert_pool_message_ext_def exec_simps insert_message_def set_pool_def Let_def
      message_draft_def message_posted_def posted_message_def)

lemma pool_exists_message_posted [simp]: "pool_exists (message_posted now m d) p = pool_exists d p"
  unfolding message_posted_def by (subst pool_exists_update_pools) (simp_all add: pool_exists_def)

section \<open>Reading back and resolving\<close>

lemma fresh_pool_run [exec_simps]:
  "fresh_pool x s w =
     (Inr (case sel_pool (ex_now x (w_tick w)) (ps_id s) (w_db w) of None \<Rightarrow> s | Some p \<Rightarrow> p),
      w\<lparr>w_tick := Suc (w_tick w)\<rparr>)"
  by (simp add: fresh_pool_def get_pool_session_def exec_simps)

lemma fresh_pool_id [simp]:
  "ps_id (case sel_pool now (ps_id s) d of None \<Rightarrow> s | Some p \<Rightarrow> p) = ps_id s"
  by (auto simp: sel_pool_def pool_at_def split: option.split dest: find_row_Some)

text \<open>What an identifier resolves to does not depend on the clock or on the other tables.\<close>

lemma resolve_pool_ids:
  assumes "tb_pool_sessions d' = tb_pool_sessions d"
    and "sel_resolve_pool now v d = Inr (Some s)" and "sel_resolve_pool now' v d' = Inr (Some s')"
  shows "ps_id s' = ps_id s"
proof -
  have p: "case (sel_pool_by_prefix now u d, sel_pool_by_prefix now' u d') of
      (Inr (Some a), Inr (Some b)) \<Rightarrow> ps_id b = ps_id a
    | (Inr None, Inr None) \<Rightarrow> True | (Inl _, Inl _) \<Rightarrow> True | _ \<Rightarrow> False" for u
    using assms(1)
    by (auto simp: sel_pool_by_prefix_def sel_pool_def pool_at_def split: option.split list.split)
  show ?thesis
    using assms(2,3) p [of "trim v"]
    by (auto simp: sel_resolve_pool_def Let_def sel_pools_def filter_map o_def assms(1)
        split: if_splits sum.splits option.splits list.splits)
qed

lemma sel_resolve_koi_mem:
  "sel_resolve_koi now v d = Inr (Some k) \<Longrightarrow> \<exists>r \<in> set (tb_kois d). k = map_koi now r"
  by (auto simp: sel_resolve_koi_def Let_def sel_koi_def sel_kois_def
      split: if_splits option.splits list.splits dest!: find_row_Some filter_single)

lemma resolve_koi_ids:
  assumes "tb_kois d' = tb_kois d"
    and "sel_resolve_koi now v d = Inr (Some k)" and "sel_resolve_koi now' v d' = Inr (Some k')"
  shows "kd_id k' = kd_id k"
  using assms
  by (auto simp: sel_resolve_koi_def Let_def sel_koi_def sel_kois_def filter_map o_def
      split: if_splits option.splits list.splits)

lemma resolve_koi_run [exec_simps]:
  "resolve_koi_identifier x v w =
     (sel_resolve_koi (ex_now x (w_tick w)) v (w_db w), w\<lparr>w_tick := Suc (w_tick w)\<rparr>)"
  by (simp add: resolve_koi_identifier_def exec_basic)

lemma resolve_pool_sel:
  assumes "resolve_pool x c h a w = (Inr s, w')"
  shows "\<exists>v. (v = trim h \<or> cx_pool_session_id c = Some v) \<and>
    (v = (if trim h \<noteq> [] \<and> trim h \<noteq> ''current'' then trim h else the (cx_pool_session_id c))) \<and>
    sel_resolve_pool (ex_now x (w_tick w)) v (w_db w) = Inr (Some s) \<and> w' = w\<lparr>w_tick := Suc (w_tick w)\<rparr>"
  using assms
  by (auto simp: resolve_pool_def run_simps Let_def resolve_pool_session_identifier_def utc_now_def
      reading_def query_result_def split: if_splits)

text \<open>Two resolutions of one hint on the same pools find the same pool.\<close>

lemma resolve_pool_stable:
  assumes "resolve_pool x c h a w = (Inr s, w1)" and "resolve_pool x c h a' u = (Inr s', u1)"
    and "tb_pool_sessions (w_db u) = tb_pool_sessions (w_db w)"
  shows "ps_id s' = ps_id s"
  using resolve_pool_sel [OF assms(1)] resolve_pool_sel [OF assms(2)] assms(3)
  by (metis resolve_pool_ids)

end
