(* ===== verification/Pool_Lifecycle.thy ===== *)
theory Pool_Lifecycle
  imports Permissions Runs
begin

text \<open>
  The life of a pool through the services of \<^verbatim>\<open>pool/services.rs\<close>: when it may be archived, and who
  joins and leaves it.
\<close>

section \<open>Archiving\<close>

text \<open>When a caller may archive a pool.\<close>

definition archivable :: "CallerContext \<Rightarrow> string \<Rightarrow> db \<Rightarrow> bool" where
  "archivable c p d \<longleftrightarrow>
     (case cx_session_source c of None \<Rightarrow> True | Some src \<Rightarrow> \<not> is_heartbeat_like src) \<and>
     list_all (\<lambda>t. td_pool_session_id t = Some p \<longrightarrow> td_status t \<in> set [''done'', ''cancelled''])
       (tb_koi_todos d)"

lemma pool_open_todos_Nil:
  "pool_open_todos p (sel_todos now None d) = [] \<longleftrightarrow>
     list_all (\<lambda>t. td_pool_session_id t = Some p \<longrightarrow> td_status t \<in> set [''done'', ''cancelled''])
       (tb_koi_todos d)"
  by (auto simp: pool_open_todos_def sel_todos_def filter_empty_conv list_all_iff)

lemma may_archive_wp:
  "wp (may_archive x c s) (\<lambda>r w'. (r = Inr () \<longleftrightarrow> archivable c (ps_id s) (w_db w)) \<and> quiet w w' \<and>
      r \<noteq> Inl Panicked) w"
  by (auto simp: may_archive_def list_koi_todos_def wp_simps Let_def pool_open_todos_Nil archivable_def
      quiet_def split: option.splits)

section \<open>The status of a pool\<close>

definition set_status :: "string \<Rightarrow> string \<Rightarrow> DateTime \<Rightarrow> db \<Rightarrow> db" where
  "set_status p st now =
     update_pools (\<lambda>r. ps_id r = p) (\<lambda>r. r\<lparr>ps_status := st, ps_updated_at := to_rfc3339 now\<rparr>)"

lemma update_pool_session_status_run [exec_simps]:
  "update_pool_session_status x p st w =
     (Inr (), w\<lparr>w_tick := Suc (w_tick w), w_db := set_status p st (ex_now x (w_tick w)) (w_db w)\<rparr>)"
  by (simp add: update_pool_session_status_def exec_basic set_pool_def set_status_def)

lemma set_status_sel [simp]:
  "pool_exists (set_status p st now d) i = pool_exists d i"
  "tb_koi_todos (set_status p st now d) = tb_koi_todos d"
  "pool_status (set_status p st now d) i =
     (if i = p then map_option (\<lambda>_. st) (pool_status d i) else pool_status d i)"
  by (simp_all add: set_status_def pool_status_def pool_at_update_pools option.map_comp o_def)

lemma archive_run:
  assumes run: "set_pool_status x c h ''archived'' w = (res, w')"
    and found: "resolve_pool x c h ''archive'' w = (Inr s, w1)"
    and wf: "wf_db (w_db w)" and open_pool: "ps_status s \<noteq> ''archived''"
  shows "if archivable c (ps_id s) (w_db w)
    then (\<exists>j m. res = Inr j \<and> w_events w' = w_events w @ [PoolArchived (ps_id s), m]) \<and>
      same_todos (w_db w) (w_db w') \<and> w_jobs w' = w_jobs w \<and>
      pool_status (w_db w') (ps_id s) = Some ''archived'' \<and>
      (\<forall>p. p \<noteq> ps_id s \<longrightarrow>
        pool_status (w_db w') p = pool_status (w_db w) p)
    else isl res \<and> quiet w w'" (is "?claim res w'")
proof -
  from found wf obtain r where r: "pool_at (w_db w) (ps_id s) = Some r" and q: "quiet w w1"
    by (rule resolve_pool_run)
  then have st: "pool_status (w_db w) (ps_id s) = Some (ps_status r)" by (simp add: pool_status_def)
  from r have ex: "pool_exists (w_db w) (ps_id s)" by (simp add: pool_exists_at)
  obtain a w2 where m: "may_archive x c s w1 = (a, w2)" by (cases "may_archive x c s w1")
  with wpD [OF may_archive_wp m] q have a: "a = Inr () \<longleftrightarrow> archivable c (ps_id s) (w_db w)"
    and q2: "quiet w w2" by (auto simp: quiet_def)
  show ?thesis
  proof (cases a)
    case (Inl e)
    with a q2 open_pool run show ?thesis
      by (auto simp: set_pool_status_def status_action_def exec_simps found m)
  next
    case (Inr u)
    with a have "archivable c (ps_id s) (w_db w)" by simp
    from q2 ex have ex2: "pool_exists (w_db w2) (ps_id s)" by (simp add: quiet_def)
    from Inr st open_pool ex2 run \<open>archivable c (ps_id s) (w_db w)\<close> q2 show ?thesis
      by (auto simp: set_pool_status_def status_action_def found m exec_simps Let_def
          emit_message_def status_event_def quiet_def same_todos_def)
  qed
qed

section \<open>Members\<close>

definition active_todos_of :: "string \<Rightarrow> string \<Rightarrow> db \<Rightarrow> todo_row list" where
  "active_todos_of p k d =
     filter (\<lambda>r. td_pool_session_id r = Some p \<and> td_owner_id r = k \<and>
                 td_status r \<notin> set [''done'', ''cancelled'']) (tb_koi_todos d)"

lemma count_active_run [exec_simps]:
  "count_active_todos_for_member p k w = (Inr (length (active_todos_of p k (w_db w))), w)"
  by (simp add: count_active_todos_for_member_def query_def count_rows_def active_todos_of_def)

lemma remove_pool_member_run [exec_simps]:
  "remove_pool_member p k w = (Inr (), w\<lparr>w_db := delete_member p k (w_db w)\<rparr>)"
  by (simp add: remove_pool_member_def exec_basic)

lemma emit_membership_run [exec_simps]:
  "emit_pool_membership_changed x p w =
     (Inr (), w\<lparr>w_tick := Suc (w_tick w), w_events := w_events w @
        (case sel_pool (ex_now x (w_tick w)) p (w_db w) of
           None \<Rightarrow> [] | Some s \<Rightarrow> [PoolUpdated (pool_snapshot s)])\<rparr>)"
  by (auto simp: emit_pool_membership_changed_def get_pool_session_def exec_basic split: option.split)

lemma remove_member_run:
  assumes run: "remove_member x c h k w = (res, w')"
    and pool: "resolve_pool x c h ''remove_member'' w = (Inr s, w1)"
    and koi: "sel_resolve_koi (ex_now x (w_tick w1)) (trim k) (w_db w1) = Inr (Some koi)"
    and q: "quiet w w1"
  shows "if active_todos_of (ps_id s) (kd_id koi) (w_db w) = []
    then \<not> isl res \<and> w_db w' = delete_member (ps_id s) (kd_id koi) (w_db w)
    else isl res \<and> quiet w w'"
proof -
  have ne: "trim k \<noteq> []" using koi by (auto simp: sel_resolve_koi_def)
  show ?thesis
  proof (cases "active_todos_of (ps_id s) (kd_id koi) (w_db w) = []")
    case False
    then show ?thesis using run q ne
      by (auto simp: remove_member_def exec_simps pool koi Let_def quiet_def)
  next
    case True
    then show ?thesis using run q ne
      by (auto simp: remove_member_def exec_simps pool koi Let_def quiet_def)
  qed
qed

definition is_member :: "string \<Rightarrow> string \<Rightarrow> db \<Rightarrow> bool" where
  "is_member p k d \<longleftrightarrow> (p, k) \<in> set (map member_key (tb_pool_members d))"

lemma is_pool_member_run [exec_simps]: "is_pool_member p k w = (Inr (is_member p k (w_db w)), w)"
  by (auto simp: is_pool_member_def query_def count_rows_def is_member_def member_key_def filter_empty_conv
      image_iff)

definition new_member :: "string \<Rightarrow> string \<Rightarrow> DateTime \<Rightarrow> member_row" where
  "new_member p k now = \<lparr>mb_pool_session_id = p, mb_koi_id = k, mb_joined_at = to_rfc3339 now\<rparr>"

lemma add_pool_member_run [exec_simps]:
  "add_pool_member x p k w =
     (if is_member p k (w_db w) then (Inr (), w\<lparr>w_tick := Suc (w_tick w)\<rparr>)
      else if \<not> pool_exists (w_db w) p \<or> \<not> koi_exists (w_db w) k
      then (Inl ForeignKeyFailed, w\<lparr>w_tick := Suc (w_tick w)\<rparr>)
      else (Inr (), w\<lparr>w_tick := Suc (w_tick w), w_db := (w_db w)\<lparr>tb_pool_members :=
              tb_pool_members (w_db w) @ [new_member p k (ex_now x (w_tick w))]\<rparr>\<rparr>))"
  by (simp add: add_pool_member_def exec_basic insert_or_ignore_member_def is_member_def new_member_def
      member_key_def member_refs_def)

lemma add_member_run:
  assumes run: "add_member x c h k w = (Inr j, w')"
  obtains s w1 koi now where "resolve_pool x c h ''add_member'' w = (Inr s, w1)"
    "sel_resolve_koi (ex_now x (w_tick w1)) (trim k) (w_db w1) = Inr (Some koi)"
    "\<not> is_member (ps_id s) (kd_id koi) (w_db w)"
    "w_db w' = (w_db w)\<lparr>tb_pool_members :=
       tb_pool_members (w_db w) @ [new_member (ps_id s) (kd_id koi) now]\<rparr>"
proof -
  from run obtain s w1 where pool: "resolve_pool x c h ''add_member'' w = (Inr s, w1)"
    unfolding add_member_def bindM_Inr_iff by blast
  then have w1: "w1 = w\<lparr>w_tick := Suc (w_tick w)\<rparr>" by (blast dest: resolve_pool_sel)
  from run have ne: "trim k \<noteq> []"
    by (auto simp: add_member_def pool bindM_Inr_iff Let_def)
  from run ne obtain koi where koi: "sel_resolve_koi (ex_now x (w_tick w1)) (trim k) (w_db w1) = Inr (Some koi)"
    by (auto simp: add_member_def exec_simps pool Let_def split: sum.splits option.splits)
  note koi' = koi [unfolded w1, simplified]
  from run ne show thesis
    by (auto simp: add_member_def exec_simps pool koi' w1 Let_def split: if_splits
        intro!: that [OF pool koi])
qed

lemma remove_member_inv:
  assumes run: "remove_member x c h k w = (Inr j, w')"
  obtains s w1 koi where "resolve_pool x c h ''remove_member'' w = (Inr s, w1)" "quiet w w1"
    "sel_resolve_koi (ex_now x (w_tick w1)) (trim k) (w_db w1) = Inr (Some koi)"
proof -
  from run obtain s w1 where pool: "resolve_pool x c h ''remove_member'' w = (Inr s, w1)"
    unfolding remove_member_def bindM_Inr_iff by blast
  from run have ne: "trim k \<noteq> []"
    by (auto simp: remove_member_def pool bindM_Inr_iff Let_def)
  from run ne obtain koi where koi: "sel_resolve_koi (ex_now x (w_tick w1)) (trim k) (w_db w1) = Inr (Some koi)"
    by (auto simp: remove_member_def exec_simps pool Let_def split: sum.splits option.splits)
  show thesis by (rule that [OF pool _ koi]) (use resolve_pool_sel [OF pool] in \<open>auto simp: quiet_def\<close>)
qed

lemma delete_added_member:
  "\<not> is_member p k d \<Longrightarrow>
     delete_member p k (d\<lparr>tb_pool_members := tb_pool_members d @ [new_member p k now]\<rparr>) = d"
  by (auto simp: delete_member_def is_member_def new_member_def member_key_def intro!: db.equality
      filter_True)

section \<open>Properties\<close>

text \<open>
  Archiving a pool that is not archived yet succeeds exactly when the caller is no heartbeat or
  inbox session and every todo of the pool is done or cancelled. It then archives this pool and no
  other, changes no todo, queues no work and announces it; a refusal leaves everything as it was.
\<close>

theorem archive_decides:
  assumes "set_pool_status x c h ''archived'' w = (res, w')"
    and "resolve_pool x c h ''archive'' w = (Inr s, w1)"
    and "wf_db (w_db w)" and "ps_status s \<noteq> ''archived''"
  shows "if archivable c (ps_id s) (w_db w)
    then (\<exists>j m. res = Inr j \<and> w_events w' = w_events w @ [PoolArchived (ps_id s), m]) \<and>
      same_todos (w_db w) (w_db w') \<and> w_jobs w' = w_jobs w \<and>
      pool_status (w_db w') (ps_id s) = Some ''archived'' \<and>
      (\<forall>p. p \<noteq> ps_id s \<longrightarrow> pool_status (w_db w') p = pool_status (w_db w) p)
    else isl res \<and> quiet w w'"
  by (rule archive_run [OF assms])

theorem archive_decides_witness:
  "pool_status (w_db (snd (set_pool_status sample_ext piscis_caller ''p1'' ''archived''
     (start_world settled_db)))) ''p1'' = Some ''archived'' \<and>
   isl (fst (set_pool_status sample_ext piscis_caller ''p1'' ''archived'' (start_world sample_db)))"
proof -
  have "fst (resolve_pool sample_ext piscis_caller ''p1'' ''archive'' (start_world settled_db)) = Inr sample_pool"
    "fst (resolve_pool sample_ext piscis_caller ''p1'' ''archive'' (start_world sample_db)) = Inr sample_pool"
    by code_simp+
  then obtain u v where res:
    "resolve_pool sample_ext piscis_caller ''p1'' ''archive'' (start_world settled_db) = (Inr sample_pool, u)"
    "resolve_pool sample_ext piscis_caller ''p1'' ''archive'' (start_world sample_db) = (Inr sample_pool, v)"
    by (metis prod.collapse)
  have ar: "archivable piscis_caller ''p1'' settled_db" "\<not> archivable piscis_caller ''p1'' sample_db"
    by code_simp+
  obtain r1 w1 r2 w2 where run:
    "set_pool_status sample_ext piscis_caller ''p1'' ''archived'' (start_world settled_db) = (r1, w1)"
    "set_pool_status sample_ext piscis_caller ''p1'' ''archived'' (start_world sample_db) = (r2, w2)"
    by (metis prod.exhaust)
  from archive_decides [OF run(1) res(1)] ar(1) have "pool_status (w_db w1) ''p1'' = Some ''archived''"
    by (simp add: sample_sel)
  moreover from archive_decides [OF run(2) res(2)] ar(2) have "isl r2" by (simp add: sample_sel)
  ultimately show ?thesis by (simp add: run)
qed

text \<open>
  A Koi that joins a pool and leaves it again leaves no trace: after a successful \<^verbatim>\<open>add_member\<close> and a
  successful \<^verbatim>\<open>remove_member\<close> with the same arguments the database is the one before, whatever clock
  readings and events lie between.
\<close>

theorem add_then_remove_member:
  assumes "add_member x c h k w = (Inr j, w1)" and "remove_member x c h k w1 = (Inr j', w2)"
  shows "w_db w2 = w_db w"
proof -
  from assms(1) obtain s u koi now where add: "resolve_pool x c h ''add_member'' w = (Inr s, u)"
    "sel_resolve_koi (ex_now x (w_tick u)) (trim k) (w_db u) = Inr (Some koi)"
    "\<not> is_member (ps_id s) (kd_id koi) (w_db w)"
    "w_db w1 = (w_db w)\<lparr>tb_pool_members :=
       tb_pool_members (w_db w) @ [new_member (ps_id s) (kd_id koi) now]\<rparr>"
    by (rule add_member_run)
  from assms(2) obtain s' u' koi' where rem: "resolve_pool x c h ''remove_member'' w1 = (Inr s', u')"
    "quiet w1 u'" "sel_resolve_koi (ex_now x (w_tick u')) (trim k) (w_db u') = Inr (Some koi')"
    by (rule remove_member_inv)
  have "ps_id s' = ps_id s" by (rule resolve_pool_stable [OF add(1) rem(1)]) (simp add: add(4))
  moreover have "kd_id koi' = kd_id koi"
    by (rule resolve_koi_ids [OF _ add(2) rem(3)])
      (use rem(2) add(4) resolve_pool_sel [OF add(1)] in \<open>auto simp: quiet_def\<close>)
  moreover have "w_db w2 = delete_member (ps_id s') (kd_id koi') (w_db w1)"
    using remove_member_run [OF assms(2) rem(1,3,2)] by (simp split: if_splits)
  ultimately show ?thesis using add(3,4) by (simp add: delete_added_member)
qed

theorem add_then_remove_member_witness:
  "w_db (snd (remove_member sample_ext piscis_caller ''p1'' ''Beta''
     (snd (add_member sample_ext piscis_caller ''p1'' ''Beta'' (start_world sample_db))))) = sample_db"
proof -
  let ?a = "add_member sample_ext piscis_caller ''p1'' ''Beta'' (start_world sample_db)"
  let ?r = "remove_member sample_ext piscis_caller ''p1'' ''Beta'' (snd ?a)"
  have "\<not> isl (fst ?a)" "\<not> isl (fst ?r)" by code_simp+
  then obtain j j' where "?a = (Inr j, snd ?a)" "?r = (Inr j', snd ?r)"
    by (metis prod.collapse sum.collapse(2))
  from add_then_remove_member [OF this] show ?thesis by simp
qed

text \<open>
  A Koi leaves a pool only when none of its todos there is open. The service refuses without any
  effect while the Koi owns a todo of the pool that is not done or cancelled; otherwise it removes this
  one membership and changes nothing else in the database.
\<close>

theorem remove_member_decides:
  assumes "remove_member x c h k w = (res, w')"
    and "resolve_pool x c h ''remove_member'' w = (Inr s, w1)"
    and "resolve_koi_identifier x (trim k) w1 = (Inr (Some koi), w2)"
  shows "if active_todos_of (ps_id s) (kd_id koi) (w_db w) = []
    then \<not> isl res \<and> w_db w' = delete_member (ps_id s) (kd_id koi) (w_db w)
    else isl res \<and> quiet w w'"
  by (rule remove_member_run [OF assms(1,2)])
    (use assms(3) resolve_pool_sel [OF assms(2)] in \<open>auto simp: resolve_koi_run quiet_def\<close>)

theorem remove_member_decides_witness:
  "isl (fst (remove_member sample_ext piscis_caller ''p1'' ''k1'' (start_world sample_db)))"
proof -
  let ?r = "remove_member sample_ext piscis_caller ''p1'' ''k1'' (start_world sample_db)"
  let ?p = "resolve_pool sample_ext piscis_caller ''p1'' ''remove_member'' (start_world sample_db)"
  have "fst ?p = Inr sample_pool" "active_todos_of (ps_id sample_pool) ''k1'' sample_db \<noteq> []"
    "fst (resolve_koi_identifier sample_ext (trim ''k1'') (snd ?p)) = Inr (Some sample_koi)"
    by code_simp+
  with remove_member_decides [of sample_ext piscis_caller "''p1''" "''k1''" "start_world sample_db" "fst ?r" "snd ?r"]
  show ?thesis by (simp add: prod_eq_iff sample_sel)
qed

end
