(* ===== verification/Assignment.thy ===== *)
theory Assignment
  imports Pool_Lifecycle Dispatch
begin

text \<open>
  Giving work to a Koi through \<^verbatim>\<open>pool/services.rs\<close>: assigning, creating and claiming todos, and the
  closure that \<^verbatim>\<open>assign_koi\<close> queues.
\<close>

section \<open>Steps\<close>

definition created_todo :: "DateTime \<Rightarrow> todo_row \<Rightarrow> KoiTodo" where
  "created_todo now r = (map_koi_todo now r)\<lparr>td_created_at := now, td_updated_at := now\<rparr>"

lemma created_todo_sel [simp]:
  "td_id (created_todo now r) = td_id r" "td_pool_session_id (created_todo now r) = td_pool_session_id r"
  "td_depends_on (created_todo now r) = td_depends_on r" "td_status (created_todo now r) = td_status r"
  by (simp_all add: created_todo_def)

lemma new_todo_row_task [simp]:
  "td_title (new_todo_row i ow ti de pr ab ps st dep tt now) = ti"
  "td_task_timeout_secs (new_todo_row i ow ti de pr ab ps st dep tt now) = tt"
  by (simp_all add: new_todo_row_def)

lemma create_koi_todo_run [exec_simps]:
  "create_koi_todo x ow ti de pr ab ps st dep tt w =
     (let now = ex_now x (Suc (w_tick w));
          r = new_todo_row (ex_uuid x (w_tick w)) ow ti de pr ab ps st dep tt now
      in case insert_todo r (w_db w) of
           Inl e \<Rightarrow> (Inl e, w\<lparr>w_tick := Suc (Suc (w_tick w))\<rparr>)
         | Inr (n, d) \<Rightarrow> (Inr (created_todo now r), w\<lparr>w_tick := Suc (Suc (w_tick w)), w_db := d\<rparr>))"
  by (simp add: create_koi_todo_def exec_basic Let_def created_todo_def map_koi_todo_def new_todo_row_def
      split: sum.split)

lemma list_kois_run [exec_simps]:
  "list_kois x w = (Inr (sel_kois (ex_now x (w_tick w)) (w_db w)), w\<lparr>w_tick := Suc (w_tick w)\<rparr>)"
  by (simp add: list_kois_def exec_basic)

lemma list_koi_todos_exec [exec_simps]:
  "list_koi_todos x ow w =
     (Inr (sel_todos (ex_now x (w_tick w)) ow (w_db w)), w\<lparr>w_tick := Suc (w_tick w)\<rparr>)"
  by (simp add: list_koi_todos_def exec_basic)

lemma get_koi_todo_exec [exec_simps]:
  "get_koi_todo x i w =
     (Inr (sel_todo (ex_now x (w_tick w)) i (w_db w)), w\<lparr>w_tick := Suc (w_tick w)\<rparr>)"
  by (simp add: get_koi_todo_def exec_basic)

lemma quiet_tick [simp]: "quiet w (w\<lparr>w_tick := n\<rparr>)" "quiet w w"
  by (simp_all add: quiet_def)

lemma resolve_pool_quiet: "resolve_pool x c h a w = (r, w') \<Longrightarrow> quiet w w'"
  by (auto simp: resolve_pool_def Let_def exec_basic resolve_pool_session_identifier_def
      split: if_splits option.splits sum.splits)

lemma exists_table_updates [simp]:
  "pool_exists (d\<lparr>tb_koi_todos := ts\<rparr>) p = pool_exists d p"
  "koi_exists (d\<lparr>tb_koi_todos := ts\<rparr>) k = koi_exists d k"
  by (simp_all add: exists_defs)

lemma insert_todo_cases:
  obtains (err) e where "insert_todo r d = Inl e"
  | (ok) "insert_todo r d = Inr (1, d\<lparr>tb_koi_todos := tb_koi_todos d @ [r]\<rparr>)"
    "\<not> todo_exists d (td_id r)" "todo_refs d r"
  by (cases "todo_exists d (td_id r)"; cases "todo_refs d r") (simp_all add: insert_todo_def)

section \<open>Assigning\<close>

text \<open>What an assignment leaves behind: one open todo, one mention, and the queued closure.\<close>

definition assigned ::
  "bool \<Rightarrow> AssignKoiArgs \<Rightarrow> string \<Rightarrow> string \<Rightarrow> world \<Rightarrow> world \<Rightarrow> bool" where
  "assigned runtime args p k w w' \<longleftrightarrow>
     (\<exists>row msg.
        tb_koi_todos (w_db w') = tb_koi_todos (w_db w) @ [row] \<and>
        td_owner_id row = k \<and> td_pool_session_id row = Some p \<and> td_status row = ''todo'' \<and>
        td_claimed_by row = None \<and> td_depends_on row = as_depends_on args \<and>
        td_task_timeout_secs row = as_timeout_secs args \<and>
        td_title row = take_chars 120 (trim (as_task args)) \<and>
        tb_pool_messages (w_db w') = tb_pool_messages (w_db w) @ [msg] \<and>
        pm_pool_session_id msg = p \<and> pm_msg_type msg = ''mention'' \<and>
        tb_kois (w_db w') = tb_kois (w_db w) \<and> tb_pool_members (w_db w') = tb_pool_members (w_db w) \<and>
        (if runtime
         then \<exists>now name. w_jobs w' = w_jobs w @ [AssignJob (created_todo now row) name p
                ((turn_args k (td_id row))\<lparr>ea_assign_msg_id := Some (pm_id msg)\<rparr>)]
         else w_jobs w' = w_jobs w))"

lemma assign_koi_run:
  assumes run: "assign_koi x sub c args w = (res, w')"
    and pool: "resolve_pool x c (as_pool_id args) ''assign_koi'' w = (Inr s, w1)"
    and wf: "wf_db (w_db w)"
  shows "(isl res \<and> quiet w w') \<or>
    (\<not> isl res \<and> pool_status (w_db w) (ps_id s) = Some ''active'' \<and>
      (\<exists>k. is_member (ps_id s) k (w_db w) \<and> assigned sub args (ps_id s) k w w'))"
proof -
  from pool wf obtain r where r: "pool_at (w_db w) (ps_id s) = Some r" and q: "quiet w w1"
    and st: "ps_status s = ps_status r"
    by (rule resolve_pool_run) simp
  show ?thesis
  proof (cases "ps_status s = ''active'' \<and> trim (as_koi_id args) \<noteq> [] \<and> trim (as_task args) \<noteq> []")
    case False
    with run q show ?thesis
      by (auto simp: assign_koi_def exec_basic pool ensure_accepts_new_work_def Let_def split: if_splits)
  next
    case True
    note params = True
    let ?k = "sel_resolve_koi (ex_now x (w_tick w1)) (trim (as_koi_id args)) (w_db w1)"
    show ?thesis
    proof (cases "\<exists>koi. ?k = Inr (Some koi) \<and> is_member (ps_id s) (kd_id koi) (w_db w1)")
      case False
      with run q params show ?thesis
        by (auto simp: assign_koi_def exec_simps pool ensure_accepts_new_work_def Let_def
            resolve_assignee_def ensure_pool_member_def quiet_def
            split: sum.splits option.splits if_splits)
    next
      case True
      then obtain koi where koi: "?k = Inr (Some koi)" and mem: "is_member (ps_id s) (kd_id koi) (w_db w1)"
        by blast
      define new where "new = new_todo_row (ex_uuid x (Suc (Suc (w_tick w1)))) (kd_id koi)
        (take_chars 120 (trim (as_task args))) (assign_description (trim (as_task args)) args)
        (priority_or_medium (as_priority args)) ''piscis'' (Some (ps_id s)) ''koi'' (as_depends_on args)
        (as_timeout_secs args) (ex_now x (Suc (Suc (Suc (w_tick w1)))))"
      show ?thesis
      proof (cases rule: insert_todo_cases [of new "w_db w"])
        case (err e)
        with run q params koi mem show ?thesis
          by (auto simp: assign_koi_def exec_simps pool ensure_accepts_new_work_def Let_def
              resolve_assignee_def ensure_pool_member_def quiet_def new_def)
      next
        case ok
        have ex: "pool_exists (w_db w) (ps_id s)" using r by (simp add: pool_exists_at)
        have "pool_status (w_db w) (ps_id s) = Some ''active''"
          using r st params by (simp add: pool_status_def)
        moreover have "\<not> isl res \<and> assigned sub args (ps_id s) (kd_id koi) w w'"
          using ok ex run q params koi mem
          by (cases sub) (auto simp: assign_koi_def exec_simps pool ensure_accepts_new_work_def Let_def
              resolve_assignee_def ensure_pool_member_def quiet_def new_def insert_pool_message_def
              emit_todo_def emit_message_def assigned_def posted_message_def)
        ultimately show ?thesis using mem q by (auto simp: quiet_def)
      qed
    qed
  qed
qed

section \<open>Claiming through the service\<close>

lemma note_on_pool_run:
  assumes run: "note_on_pool x t s c mt md ev w = (r, w')"
  shows "(\<exists>m. r = Inr m) \<and> tb_koi_todos (w_db w') = tb_koi_todos (w_db w)"
proof -
  have "\<exists>m. r = Inr m"
    using run by (auto simp: note_on_pool_def exec_simps Let_def emit_message_def
        split: option.splits if_splits)
  with effectsD [OF same_todos_notes run] show ?thesis by (simp add: same_todos_def)
qed

lemma named_todo_run:
  assumes "named_todo x i w = (Inr t, w')" and "wf_db (w_db w)"
  obtains now r where "todo_at (w_db w) (td_id t) = Some r" "t = map_koi_todo now r" "quiet w w'"
proof -
  from assms(1) have q: "quiet w w'"
    by (auto simp: named_todo_def find_todo_by_prefix_def exec_simps split: option.splits)
  from finds_named_todo [of x i] assms(1) obtain now r where
    "r \<in> set (tb_koi_todos (w_db w))" "t = map_koi_todo now r" unfolding finds_def by blast
  moreover from this assms(2) have "todo_at (w_db w) (td_id t) = Some r"
    by (simp add: todo_at_def wf_db_def find_row_eq_Some_iff)
  ultimately show thesis using q that by blast
qed

lemma claim_or_holder_run:
  assumes "todo_at (w_db w) (td_id t) = Some r" and "td_status r \<noteq> ''in_progress''"
    and "koi_exists (w_db w) (cx_memory_owner_id c)" and wf: "wf_db (w_db w)"
  obtains now where "claim_or_holder x c t w = (Inr (), w\<lparr>w_tick := Suc (w_tick w),
    w_db := update_todos (\<lambda>r. td_id r = td_id t \<and> td_status r \<noteq> ''in_progress'')
      (claim_row now (cx_memory_owner_id c)) (w_db w)\<rparr>)"
  using that assms(1-3) count_claimable [OF wf, of "td_id t"]
  by (auto simp: claim_or_holder_def try_claim_koi_todo_def claim_where_def exec_simps)

lemma fresh_todo_run [exec_simps]:
  "fresh_todo x t w = (Inr (case sel_todo (ex_now x (w_tick w)) (td_id t) (w_db w) of None \<Rightarrow> t | Some u \<Rightarrow> u),
     w\<lparr>w_tick := Suc (w_tick w)\<rparr>)"
  by (simp add: fresh_todo_def exec_simps)

lemma claim_todo_run:
  assumes "wf_db (w_db w)" and named: "named_todo x i w = (Inr t, w1)"
    and "td_status t \<notin> {''done'', ''cancelled'', ''in_progress''}"
    and "td_claimed_by t = None" and "td_owner_id t = cx_memory_owner_id c"
  shows "\<exists>j w'. claim_todo x c i w = (Inr j, w') \<and>
    (\<exists>now. tb_koi_todos (w_db w') = update_rows (\<lambda>r. td_id r = td_id t \<and> td_status r \<noteq> ''in_progress'')
       (claim_row now (cx_memory_owner_id c)) (tb_koi_todos (w_db w)))"
proof -
  from named assms(1) obtain now r where r: "todo_at (w_db w) (td_id t) = Some r"
    "t = map_koi_todo now r" and q: "quiet w w1" by (rule named_todo_run)
  have "todo_refs (w_db w) r" using assms(1) todo_at_mem [OF r(1)] by (simp add: wf_db_def list_all_iff)
  then have ex: "koi_exists (w_db w) (cx_memory_owner_id c)" using r(2) assms(5) by (simp add: todo_refs_def)
  have db: "w_db w1 = w_db w" using q by (simp add: quiet_def)
  obtain at where c: "claim_or_holder x c t w1 = (Inr (), w1\<lparr>w_tick := Suc (w_tick w1),
    w_db := update_todos (\<lambda>r. td_id r = td_id t \<and> td_status r \<noteq> ''in_progress'')
      (claim_row at (cx_memory_owner_id c)) (w_db w1)\<rparr>)" (is "_ = (_, ?w2)")
    by (rule claim_or_holder_run [of w1 t r c x]) (use r ex assms(1,3) db in auto)
  have ok: "td_status t \<noteq> ''done''" "td_status t \<noteq> ''cancelled''" using assms(3) by simp_all
  obtain res w' where run: "claim_todo x c i w = (res, w')" by (cases "claim_todo x c i w")
  then have "\<exists>j. res = Inr j" and "tb_koi_todos (w_db w') = tb_koi_todos (w_db ?w2)"
    using ok assms(4,5)
    by (auto simp: claim_todo_def exec_simps named c emit_todo_def split: prod.splits sum.splits
        dest!: note_on_pool_run)
  with run db show ?thesis by auto
qed

section \<open>The queued closure\<close>

lemma run_assign_job_waits:
  assumes "\<not> is_todo_dependency_satisfied todo (sel_todos (ex_now x (w_tick w)) None (w_db w))"
    and "run_assign_job x rt cfg todo name p args w = (r, w')"
  shows "r = Inr () \<and> same_todos (w_db w) (w_db w') \<and> w_jobs w' = w_jobs w \<and>
    w_turns w' = w_turns w \<and> w_git w' = w_git w"
  using assms
  by (auto simp: run_assign_job_def exec_simps Let_def same_todos_def split: if_splits)

section \<open>Properties\<close>

text \<open>
  C9. Assigning is all or nothing. Either \<^verbatim>\<open>assign_koi\<close> fails and nothing has happened, or the pool is
  active, the Koi is a member of it, and exactly one todo in state \<^verbatim>\<open>todo\<close> and one mention were added,
  with the closure for this todo queued when there is a runtime. No step can fail after the todo was
  written, so no todo is created without its mention and its closure.
\<close>

theorem assign_koi_all_or_nothing:
  assumes "assign_koi x sub c args w = (res, w')" and "wf_db (w_db w)"
  shows "(isl res \<and> quiet w w') \<or>
    (\<not> isl res \<and> (\<exists>p k. pool_status (w_db w) p = Some ''active'' \<and> is_member p k (w_db w) \<and>
       assigned sub args p k w w'))"
proof (cases "resolve_pool x c (as_pool_id args) ''assign_koi'' w")
  case (Pair r w1)
  show ?thesis
  proof (cases r)
    case (Inl e)
    with Pair assms(1) have "res = Inl e" "w' = w1" by (simp_all add: assign_koi_def bindM_def)
    with resolve_pool_quiet [OF Pair] show ?thesis by simp
  next
    case (Inr s)
    from assign_koi_run [OF assms(1) Pair [unfolded Inr] assms(2)] show ?thesis by blast
  qed
qed

definition sample_assign :: AssignKoiArgs where
  "sample_assign = \<lparr>as_pool_id = ''p1'', as_koi_id = ''Alpha'', as_task = ''Test it'', as_priority = [],
     as_timeout_secs = 0, as_context = None, as_depends_on = Some ''t1''\<rparr>"

theorem assign_koi_all_or_nothing_witness:
  "map td_owner_id (tb_koi_todos (w_db (snd (assign_koi sample_ext True piscis_caller sample_assign
     (start_world sample_db))))) = [''k1'', ''k1'', ''k1'']"
proof -
  let ?r = "assign_koi sample_ext True piscis_caller sample_assign (start_world sample_db)"
  have ok: "\<not> isl (fst ?r)" by code_simp
  have "is_member p k sample_db \<Longrightarrow> k = ''k1''" for p k
    by (simp add: is_member_def sample_db_def member_key_def)
  with assign_koi_all_or_nothing [of sample_ext True piscis_caller sample_assign
      "start_world sample_db" "fst ?r" "snd ?r"] ok
  have "\<exists>row. tb_koi_todos (w_db (snd ?r)) = tb_koi_todos sample_db @ [row] \<and> td_owner_id row = ''k1''"
    by (auto simp: assigned_def)
  then show ?thesis by (auto simp: sample_db_def row_defs)
qed

text \<open>
  The closure that an assignment queued starts nothing while the todo's dependency is not met: it
  posts a notice, changes no todo, queues no job, runs no git command and starts no subagent turn.
\<close>

theorem assigned_job_waits_for_dependency:
  assumes "\<not> is_todo_dependency_satisfied todo (sel_todos (ex_now x (w_tick w)) None (w_db w))"
    and "run_job x rt cfg (AssignJob todo name p args) w = (r, w')"
  shows "r = Inr () \<and> same_todos (w_db w) (w_db w') \<and> w_jobs w' = w_jobs w \<and>
    w_turns w' = w_turns w \<and> w_git w' = w_git w"
  by (rule run_assign_job_waits) (use assms in simp_all)

theorem assigned_job_waits_for_dependency_witness:
  "tb_koi_todos (w_db (snd (run_job sample_ext sample_runtime sample_cfg
     (AssignJob (created_todo 0 (todo_row_of ''t2'' ''k1'' ''todo'' (Some ''p1'') (Some ''t1''))) ''Alpha'' ''p1''
       (turn_args ''k1'' ''t2'')) (start_world sample_db)))) = tb_koi_todos sample_db"
proof -
  let ?t = "created_todo 0 (todo_row_of ''t2'' ''k1'' ''todo'' (Some ''p1'') (Some ''t1''))"
  have "\<not> is_todo_dependency_satisfied ?t (sel_todos (ex_now sample_ext (w_tick (start_world sample_db)))
      None (w_db (start_world sample_db)))" by code_simp
  from assigned_job_waits_for_dependency [OF this prod.collapse [symmetric]] show ?thesis
    by (simp add: same_todos_def)
qed

text \<open>
  The claim service goes around the dispatch fence: a Koi that claims one of its open, unclaimed
  todos gets it even while another of its todos is in progress, and then has two in progress.
\<close>

theorem claim_todo_bypasses_fence:
  assumes "wf_db (w_db w)" and "named_todo x i w = (Inr t, w1)" and "td_status t = ''todo''"
    and "td_claimed_by t = None" and "td_owner_id t = cx_memory_owner_id c"
    and "r \<in> set (tb_koi_todos (w_db w))" and "in_progress_of (cx_memory_owner_id c) r"
  shows "\<exists>j w'. claim_todo x c i w = (Inr j, w') \<and> \<not> one_turn_per_koi (w_db w')"
proof -
  from claim_todo_run [OF assms(1,2)] assms(3-5) obtain j w' now where
    run: "claim_todo x c i w = (Inr j, w')"
    and todos: "tb_koi_todos (w_db w') = update_rows (\<lambda>r. td_id r = td_id t \<and> td_status r \<noteq> ''in_progress'')
       (claim_row now (cx_memory_owner_id c)) (tb_koi_todos (w_db w))" by fastforce
  from assms(2,1) obtain at s where s: "todo_at (w_db w) (td_id t) = Some s" "t = map_koi_todo at s"
    by (rule named_todo_run)
  then have s': "s \<in> set (tb_koi_todos (w_db w))" "td_id s = td_id t" "td_status s = ''todo''"
    using assms(3) by (auto dest: todo_at_mem todo_at_id)
  have "td_id r \<noteq> td_id t"
  proof
    assume "td_id r = td_id t"
    then have "todo_at (w_db w) (td_id t) = Some r"
      using assms(1,6) by (simp add: todo_at_def wf_db_def find_row_eq_Some_iff)
    with s assms(3,7) show False by (simp add: in_progress_of_def)
  qed
  moreover have "claim_row now (cx_memory_owner_id c) s \<in> set (tb_koi_todos (w_db w'))"
    "r \<in> set (tb_koi_todos (w_db w'))"
    unfolding todos set_update_rows using s' assms(6) \<open>td_id r \<noteq> td_id t\<close>
    by (force intro: rev_image_eqI)+
  moreover have "in_progress_of (cx_memory_owner_id c) (claim_row now (cx_memory_owner_id c) s)"
    using assms(5) s(2) by (simp add: in_progress_of_def)
  ultimately have "\<not> one_turn_per_koi (w_db w')"
    using assms(7) s'(2) unfolding one_turn_per_koi_def by force
  with run show ?thesis by blast
qed

definition busy_db :: db where
  "busy_db = sample_db\<lparr>tb_koi_todos := [todo_row_of ''t1'' ''k1'' ''in_progress'' (Some ''p1'') None,
     todo_row_of ''t2'' ''k1'' ''todo'' (Some ''p1'') None]\<rparr>"

lemma wf_busy_db: "wf_db busy_db"
  by (simp add: wf_db_def busy_db_def sample_db_def row_defs todo_refs_def member_refs_def
      exists_defs member_key_def)

theorem claim_todo_bypasses_fence_witness:
  "\<exists>j w'. claim_todo sample_ext (beta\<lparr>cx_memory_owner_id := ''k1''\<rparr>) ''t2'' (start_world busy_db) = (Inr j, w') \<and>
     \<not> one_turn_per_koi (w_db w')"
proof -
  let ?t = "map_koi_todo 0 (todo_row_of ''t2'' ''k1'' ''todo'' (Some ''p1'') None)"
  have "fst (named_todo sample_ext ''t2'' (start_world busy_db)) = Inr ?t" by code_simp
  then have "named_todo sample_ext ''t2'' (start_world busy_db) =
      (Inr ?t, snd (named_todo sample_ext ''t2'' (start_world busy_db)))" by (metis prod.collapse)
  then show ?thesis
    by (rule claim_todo_bypasses_fence [rotated, where r = "todo_row_of ''t1'' ''k1'' ''in_progress'' (Some ''p1'') None"])
      (simp_all add: wf_busy_db [unfolded busy_db_def row_defs] row_defs busy_db_def in_progress_of_def beta_def)
qed

end
