(* ===== verification/Waiting.thy ===== *)
theory Waiting
  imports Assignment
begin

text \<open>
  \<^verbatim>\<open>wait_for_koi\<close> of \<^verbatim>\<open>pool/services.rs\<close>: the polling loop ends, and what its answer says is true of the
  board at the moment it is given.
\<close>

section \<open>One poll\<close>

text \<open>What an answer given at elapsed time \<open>e\<close> says of the board \<open>d\<close>.\<close>

definition answers ::
  "PoolSession \<Rightarrow> WaitForKoiArgs \<Rightarrow> nat \<Rightarrow> db \<Rightarrow> KoiTodo list \<Rightarrow> json \<Rightarrow> bool" where
  "answers s args e d todos j \<longleftrightarrow>
     (\<exists>now. todos = filter (wait_matches (ps_id s) (wk_koi_id args) (wk_todo_id args)) (sel_todos now None d)) \<and>
     (let terminal = list_ex (\<lambda>t. todo_is_wait_terminal (td_status t)) todos
      in j = wait_reply s args e (wait_timeout args \<le> e) terminal todos (status_counts todos) \<and>
         ((wait_min args \<le> e \<and> terminal) \<or> wait_timeout args \<le> e))"

lemma wait_snapshot_run [exec_simps]:
  "wait_snapshot x p k i w =
     (let todos = filter (wait_matches p k i) (sel_todos (ex_now x (w_tick w)) None (w_db w))
      in (Inr (todos, status_counts todos), w\<lparr>w_tick := Suc (w_tick w)\<rparr>))"
  by (simp add: wait_snapshot_def exec_simps Let_def)

lemma wait_poll_run:
  assumes "wait_poll x c args s (wait_min args) (wait_timeout args) e w = (Inr (Some j), w')"
  shows "\<exists>todos. answers s args e (w_db w') todos j"
proof -
  from assms obtain w1 where c: "caller_is_cancelled c w = (Inr False, w1)" "w_db w1 = w_db w"
    by (auto simp: wait_poll_def bindM_Inr_iff caller_is_cancelled_def is_cancelled_def exec_basic
        split: option.splits if_splits)
  let ?todos = "filter (wait_matches (ps_id s) (wk_koi_id args) (wk_todo_id args))
    (sel_todos (ex_now x (w_tick w1)) None (w_db w))"
  have "w_db w' = w_db w" "((wait_min args \<le> e \<and> list_ex (\<lambda>t. todo_is_wait_terminal (td_status t)) ?todos) \<or>
      wait_timeout args \<le> e)"
    "j = wait_reply s args e (wait_timeout args \<le> e)
      (list_ex (\<lambda>t. todo_is_wait_terminal (td_status t)) ?todos) ?todos (status_counts ?todos)"
    using assms c by (auto simp: wait_poll_def exec_simps Let_def split: if_splits)
  then show ?thesis unfolding answers_def Let_def by metis
qed

lemma wait_poll_timeout: "hi \<le> e \<Longrightarrow> fst (wait_poll x c args s lo hi e w) \<noteq> Inr None"
  by (auto simp: wait_poll_def wait_snapshot_def exec_simps Let_def caller_is_cancelled_def
      is_cancelled_def split: option.splits prod.splits if_splits)

section \<open>The loop\<close>

text \<open>Time moves at least as far as the loop asked to sleep.\<close>

definition clock_advances :: "surroundings \<Rightarrow> bool" where
  "clock_advances sr \<longleftrightarrow> (\<forall>n e s. e + s \<le> sr_clock sr n e s)"

lemma wait_loop_returns:
  assumes "clock_advances sr" and "\<And>e w. hi \<le> e \<Longrightarrow> fst (poll e w) \<noteq> Inr None"
  shows "\<exists>r. wait_loop sr poll hi mb n e b w = Some r"
proof (induction "hi - e" arbitrary: n e b w rule: less_induct)
  case less
  obtain r w1 where p: "poll e w = (r, w1)" by (cases "poll e w")
  consider (err) x where "r = Inl x" | (answer) j where "r = Inr (Some j)" | (sleep) "r = Inr None"
    by (metis option.exhaust sum.exhaust_sel)
  then show ?case
  proof cases
    case sleep
    with assms(2) [of e w] p have "e < hi" by (metis fst_conv not_le)
    moreover have "e + max (min b (hi - e)) 1 \<le> sr_clock sr n e (max (min b (hi - e)) 1)"
      using assms(1) unfolding clock_advances_def by blast
    ultimately have "hi - sr_clock sr n e (max (min b (hi - e)) 1) < hi - e" by linarith
    from less [OF this] show ?thesis
      by (subst wait_loop.simps) (simp add: p sleep Let_def)
  qed (subst wait_loop.simps, simp add: p)+
qed

text \<open>An answer comes from some poll.\<close>

lemma wait_loop_answer:
  assumes "wait_loop sr poll hi mb n e b w = Some (Inr j, w')"
  shows "\<exists>e' w0. poll e' w0 = (Inr (Some j), w')"
proof -
  have "\<forall>j w'. r = (Inr j, w') \<longrightarrow> (\<exists>e' w0. poll e' w0 = (Inr (Some j), w'))"
    if "wait_loop sr poll hi mb n e b w = Some r" for r
  proof (rule wait_loop.raw_induct [OF _ that])
    fix f sr poll hi mb n e b w r
    assume IH: "\<And>sr poll hi mb n e b w r. f sr poll hi mb n e b w = Some r \<Longrightarrow>
        \<forall>j w'. r = (Inr j, w') \<longrightarrow> (\<exists>e' w0. poll e' w0 = (Inr (Some j), w'))"
      and body: "(case poll e w of (Inl e, w') \<Rightarrow> Some (Inl e, w')
        | (Inr None, w') \<Rightarrow> let remaining = hi - e; sleep_for = max (min b remaining) 1
            in f sr poll hi mb (Suc n) (sr_clock sr n e sleep_for) (min (b * 2) mb) (sr_others sr n w')
        | (Inr (Some j), w') \<Rightarrow> Some (Inr j, w')) = Some r"
    obtain q w1 where p: "poll e w = (q, w1)" by (cases "poll e w")
    show "\<forall>j w'. r = (Inr j, w') \<longrightarrow> (\<exists>e' w0. poll e' w0 = (Inr (Some j), w'))"
    proof (cases "q = Inr None")
      case True
      with body IH show ?thesis by (simp add: p Let_def)
    next
      case False
      with body p show ?thesis by (auto split: sum.splits option.splits)
    qed
  qed
  with assms show ?thesis by blast
qed

section \<open>Properties\<close>

text \<open>
  C10. Waiting ends. Whatever the other tasks do to the board meanwhile, \<^verbatim>\<open>wait_for_koi\<close> returns an answer
  or an error, provided each sleep takes at least as long as was asked for: the time left until the
  time limit decreases with every sleep, and at the limit the loop always answers.
\<close>

theorem wait_for_koi_returns:
  assumes "clock_advances sr"
  shows "\<exists>r. wait_for_koi x sr c args w = Some r"
  using wait_loop_returns [OF assms wait_poll_timeout]
  by (auto simp: wait_for_koi_def split: prod.split sum.split)

definition slow_clock :: surroundings where
  "slow_clock = \<lparr>sr_others = (\<lambda>n w. w), sr_clock = (\<lambda>n e s. e + s + 7)\<rparr>"

definition sample_wait :: WaitForKoiArgs where
  "sample_wait = \<lparr>wk_pool_id = ''p1'', wk_koi_id = Some ''k1'', wk_todo_id = None, wk_min_wait_secs = 0,
     wk_timeout_secs = 1, wk_initial_backoff_ms = 0, wk_max_backoff_ms = 0\<rparr>"

theorem wait_for_koi_returns_witness:
  "\<exists>r. wait_for_koi sample_ext slow_clock piscis_caller sample_wait (start_world sample_db) = Some r"
  by (rule wait_for_koi_returns) (simp add: clock_advances_def slow_clock_def)

text \<open>What an answer has to say of the rows of a board, in its own words.\<close>

definition awaited :: "PoolSession \<Rightarrow> WaitForKoiArgs \<Rightarrow> todo_row \<Rightarrow> bool" where
  "awaited s args r \<longleftrightarrow> td_pool_session_id r = Some (ps_id s) \<and>
     (case wk_koi_id args of None \<Rightarrow> True | Some k \<Rightarrow> prefix k (td_owner_id r)) \<and>
     (case wk_todo_id args of None \<Rightarrow> True | Some i \<Rightarrow> prefix i (td_id r))"

definition has_come :: "todo_row \<Rightarrow> bool" where
  "has_come r \<longleftrightarrow> td_status r \<in> {''done'', ''needs_review'', ''blocked'', ''cancelled''}"

definition counts_of :: "todo_row list \<Rightarrow> json \<Rightarrow> bool" where
  "counts_of rows j \<longleftrightarrow>
     (\<forall>st \<in> {''todo'', ''in_progress'', ''blocked'', ''needs_review'', ''done'', ''cancelled''}.
        json_get j st = Some (JInt (int (length (filter (\<lambda>r. td_status r = st) rows)))))"

definition lists_rows :: "todo_row list \<Rightarrow> json \<Rightarrow> bool" where
  "lists_rows rows j \<longleftrightarrow> (\<exists>rs. mset rs = mset rows \<and> j = JArr (map
     (\<lambda>r. JObj [(''todo_id'', JStr (td_id r)), (''owner_id'', JStr (td_owner_id r)),
        (''status'', JStr (td_status r)), (''title'', JStr (td_title r))]) rs))"

definition true_answer :: "PoolSession \<Rightarrow> WaitForKoiArgs \<Rightarrow> db \<Rightarrow> json \<Rightarrow> bool" where
  "true_answer s args d j \<longleftrightarrow>
     (let rows = filter (awaited s args) (tb_koi_todos d); come = filter has_come rows;
          limit = 1000 * (if wk_timeout_secs args = 0 then 60 else min (wk_timeout_secs args) 1800)
      in json_get j ''pool_id'' = Some (JStr (ps_id s)) \<and>
         json_get j ''matched_todo_count'' = Some (JInt (int (length rows))) \<and>
         (\<exists>c. json_get j ''status_counts'' = Some c \<and> counts_of rows c) \<and>
         (\<exists>l. json_get j ''terminal_todos'' = Some l \<and> lists_rows come l) \<and>
         json_get j ''terminal_reached'' = Some (JBool (come \<noteq> [])) \<and>
         json_get j ''timed_out'' = Some (JBool (come = [])) \<and>
         (\<exists>e. json_get j ''elapsed_ms'' = Some (JInt (int e)) \<and>
            (limit \<le> e \<or> come \<noteq> [] \<and> 1000 * min (wk_min_wait_secs args) 300 \<le> e)))"

lemma answers_true:
  assumes "answers s args e d todos j"
  shows "true_answer s args d j"
proof -
  let ?ok = "\<lambda>t. todo_is_wait_terminal (td_status t)"
  obtain now where todos: "todos = filter (wait_matches (ps_id s) (wk_koi_id args) (wk_todo_id args)) (sel_todos now None d)"
    and j: "j = wait_reply s args e (wait_timeout args \<le> e) (list_ex ?ok todos) todos (status_counts todos)"
    and why: "(wait_min args \<le> e \<and> list_ex ?ok todos) \<or> wait_timeout args \<le> e"
    using assms by (auto simp: answers_def Let_def)
  define rs where "rs = filter (awaited s args) (order_desc td_created_at (tb_koi_todos d))"
  have match: "wait_matches (ps_id s) (wk_koi_id args) (wk_todo_id args) (map_koi_todo now r) = awaited s args r" for r
    by (auto simp: wait_matches_def awaited_def starts_with_def split: option.split)
  have rows: "todos = map (map_koi_todo now) rs"
    by (simp add: todos sel_todos_def filter_map o_def match rs_def)
  have ms: "mset rs = mset (filter (awaited s args) (tb_koi_todos d))"
    by (simp add: rs_def order_desc_def)
  have cnt: "length (filter P rs) = length (filter P (filter (awaited s args) (tb_koi_todos d)))" for P
    using arg_cong [OF ms, of "\<lambda>m. size (filter_mset P m)"] by (simp only: mset_filter [symmetric] size_mset)
  have come: "todo_is_wait_terminal (td_status r) = has_come r" for r :: todo_row
    by (simp add: todo_is_wait_terminal_def has_come_def)
  have len: "length todos = length (filter (awaited s args) (tb_koi_todos d))"
    using ms by (metis rows length_map size_mset)
  have some: "list_ex ?ok todos = (filter has_come (filter (awaited s args) (tb_koi_todos d)) \<noteq> [])"
    using arg_cong [OF ms, of set_mset] by (auto simp: rows list_ex_iff come filter_empty_conv)
  have counts: "counts_of (filter (awaited s args) (tb_koi_todos d)) (status_counts todos)"
    by (simp add: counts_of_def status_counts_def rows filter_map o_def cnt)
  have l: "lists_rows (filter has_come (filter (awaited s args) (tb_koi_todos d)))
      (JArr (map (\<lambda>t. JObj [(''todo_id'', JStr (td_id t)), (''owner_id'', JStr (td_owner_id t)),
         (''status'', JStr (td_status t)), (''title'', JStr (td_title t))]) (filter ?ok todos)))"
    unfolding lists_rows_def
    by (rule exI [of _ "filter has_come rs"]) (simp add: rows filter_map o_def come ms filter_filter_mset conj_commute)
  show ?thesis
    unfolding true_answer_def Let_def j wait_reply_def
    using why counts l unfolding some wait_min_def wait_timeout_def by (simp add: len) auto
qed



end
