(* ===== verification/Merging.thy ===== *)
theory Merging
  imports Assignment
begin

text \<open>
  Merging the branches of a pool and deleting its todos through \<^verbatim>\<open>pool/services.rs\<close>: what the results
  of the merge write on the board and what they do to the dependency gate, and which todos a batch
  delete removes.
\<close>

section \<open>Recording the results of a merge\<close>

text \<open>The last result for the branch of a todo decides its integration status.\<close>

definition last_result :: "string \<Rightarrow> MergeBranchResult list \<Rightarrow> todo_row \<Rightarrow> MergeBranchResult option" where
  "last_result p rs t =
     (if td_pool_session_id t = Some p
      then List.find (\<lambda>r. td_git_branch t = Some (mr_branch r)) (rev rs) else None)"

definition integration_after :: "string \<Rightarrow> MergeBranchResult list \<Rightarrow> todo_row \<Rightarrow> string option" where
  "integration_after p rs t =
     (case last_result p rs t of
        None \<Rightarrow> td_integration_status t
      | Some r \<Rightarrow> Some (if mr_outcome r = Merged then ''merged'' else ''conflict''))"

lemma merge_status_eq: "merge_status out = (if out = Merged then ''merged'' else ''conflict'')"
  by (simp add: merge_status_def split: MergeOutcome.split)

lemma find_in_append:
  "List.find P (xs @ ys) = (case List.find P xs of None \<Rightarrow> List.find P ys | Some x \<Rightarrow> Some x)"
  by (induction xs) auto

text \<open>What the recording does to a row: nothing without a result, and otherwise its status and its time.\<close>

definition recorded :: "string \<Rightarrow> MergeBranchResult list \<Rightarrow> todo_row \<Rightarrow> todo_row \<Rightarrow> bool" where
  "recorded p rs t t' \<longleftrightarrow>
     (if last_result p rs t = None then t' = t
      else \<exists>u. t' = t\<lparr>td_integration_status := integration_after p rs t, td_updated_at := u\<rparr>)"

lemma recorded_Nil: "recorded p [] t t"
  by (simp add: recorded_def last_result_def)

lemma set_by_branch_run:
  "set_koi_todo_integration_status_by_branch x p b st w =
     (Inr (count_rows (\<lambda>r. td_pool_session_id r = Some p \<and> td_git_branch r = Some b) (tb_koi_todos (w_db w))),
      w\<lparr>w_tick := Suc (w_tick w), w_db := update_todos (\<lambda>r. td_pool_session_id r = Some p \<and> td_git_branch r = Some b)
         (\<lambda>r. r\<lparr>td_integration_status := Some st, td_updated_at := to_rfc3339 (ex_now x (w_tick w))\<rparr>) (w_db w)\<rparr>)"
  by (simp add: set_koi_todo_integration_status_by_branch_def exec_basic Let_def)

lemma last_result_Cons:
  "last_result p (r # rs) t = (case last_result p rs t of Some x \<Rightarrow> Some x | None \<Rightarrow>
     if td_pool_session_id t = Some p \<and> td_git_branch t = Some (mr_branch r) then Some r else None)"
  by (auto simp: last_result_def find_in_append split: option.splits)

lemma last_result_update [simp]:
  "last_result p rs (t\<lparr>td_integration_status := s, td_updated_at := u\<rparr>) = last_result p rs t"
  by (simp add: last_result_def)

lemma recorded_Cons:
  assumes "recorded p rs (if td_pool_session_id t = Some p \<and> td_git_branch t = Some (mr_branch r)
      then t\<lparr>td_integration_status := Some (merge_status (mr_outcome r)), td_updated_at := u\<rparr> else t) t'"
  shows "recorded p (r # rs) t t'"
proof (cases "td_pool_session_id t = Some p \<and> td_git_branch t = Some (mr_branch r)")
  case True
  then have one: "last_result p (r # rs) t = Some (case last_result p rs t of Some x \<Rightarrow> x | None \<Rightarrow> r)"
    by (simp add: last_result_Cons split: option.split)
  from True assms have rec: "recorded p rs
      (t\<lparr>td_integration_status := Some (merge_status (mr_outcome r)), td_updated_at := u\<rparr>) t'" by simp
  show ?thesis
  proof (cases "last_result p rs t")
    case None
    with rec one show ?thesis by (auto simp: recorded_def integration_after_def merge_status_eq)
  next
    case (Some x)
    with rec one show ?thesis by (auto simp: recorded_def integration_after_def)
  qed
next
  case False
  then have "last_result p (r # rs) t = last_result p rs t" by (auto simp: last_result_Cons split: option.split)
  with False assms show ?thesis by (auto simp: recorded_def integration_after_def)
qed

lemma bindM_ignore: "bindM (ignore m) f w = f () (snd (m w))"
  by (simp add: bindM_def ignore_def split: prod.split)

lemma record_results:
  "forM rs (\<lambda>r. ignore (set_koi_todo_integration_status_by_branch x p (mr_branch r)
       (merge_status (mr_outcome r)))) w = (u, w') \<Longrightarrow>
     list_all2 (recorded p rs) (tb_koi_todos (w_db w)) (tb_koi_todos (w_db w')) \<and> u = Inr () \<and>
     w_db w' = (w_db w)\<lparr>tb_koi_todos := tb_koi_todos (w_db w')\<rparr>"
proof (induction rs arbitrary: w)
  case Nil
  then show ?case by (auto simp: ret_def recorded_Nil intro: list.rel_refl)
next
  case (Cons r rs)
  from Cons.prems have "forM rs (\<lambda>r. ignore (set_koi_todo_integration_status_by_branch x p (mr_branch r)
       (merge_status (mr_outcome r)))) (snd (set_koi_todo_integration_status_by_branch x p (mr_branch r)
       (merge_status (mr_outcome r)) w)) = (u, w')"
    by (simp add: bindM_ignore)
  from Cons.IH [OF this] show ?case
    by (auto simp: set_by_branch_run update_rows_def update_todos_def list_all2_map1 elim!: list_all2_mono
        intro: recorded_Cons)
qed

lemma merge_branches_run:
  assumes "merge_branches x c args w = (Inr j, w')"
  obtains s rs a where "json_get j ''branches'' = Some (JArr (map merge_json rs))"
    "resolve_pool x c (mg_pool_id args) ''merge_branches'' w = (Inr s, a)"
    "list_all2 (recorded (ps_id s) rs) (tb_koi_todos (w_db w)) (tb_koi_todos (w_db w'))"
    "w_db w' = (w_db w)\<lparr>tb_koi_todos := tb_koi_todos (w_db w')\<rparr>"
proof -
  from assms obtain s a b dir d rs e u where
    pool: "resolve_pool x c (mg_pool_id args) ''merge_branches'' w = (Inr s, a)"
    and git: "reading (\<lambda>n. ex_path_exists x n (path_join dir ''.git'')) a = (Inr b, d)"
    and merge: "merge_koi_branches x dir (cx_cancel c) (trimmed_nonempty (mg_branch args)) d = (Inr rs, e)"
    and rec: "forM rs (\<lambda>r. ignore (set_koi_todo_integration_status_by_branch x (ps_id s)
       (mr_branch r) (merge_status (mr_outcome r)))) e = (Inr u, w')"
    and j: "json_get j ''branches'' = Some (JArr (map merge_json rs))"
    unfolding merge_branches_def bindM_Inr_iff by (auto simp: bindM_Inr_iff)
  have "w_db e = w_db w"
    using effectsD [OF frame.merge_koi_branches merge] resolve_pool_quiet [OF pool] git
    by (auto simp: frame_def quiet_def reading_def)
  with record_results [OF rec] that [OF j pool] show thesis by simp
qed

lemma find_row_list_all2:
  "list_all2 R xs ys \<Longrightarrow> (\<And>a b. R a b \<Longrightarrow> key b = key a) \<Longrightarrow>
     rel_option R (find_row key k xs) (find_row key k ys)"
  by (induction xs ys rule: list_all2_induct) (auto simp: find_row_Cons)

lemma recorded_sel:
  "recorded p rs t t' \<Longrightarrow> td_id t' = td_id t"
  "recorded p rs t t' \<Longrightarrow> td_status t' = td_status t"
  "recorded p rs t t' \<Longrightarrow> td_git_branch t' = td_git_branch t"
  "recorded p rs t t' \<Longrightarrow> td_integration_status t' = integration_after p rs t"
  unfolding recorded_def by (auto simp: integration_after_def split: if_splits)

lemma recorded_at:
  assumes "list_all2 (recorded p rs) (tb_koi_todos d) (tb_koi_todos d')" and "todo_at d i = Some t"
  obtains t' where "todo_at d' i = Some t'" "recorded p rs t t'"
  using find_row_list_all2 [OF assms(1), of td_id i] assms(2)
  by (auto simp: todo_at_def option_rel_Some1 recorded_sel(1) intro: that)

lemma sel_todos_find:
  "wf_db d \<Longrightarrow> todo_at d i = Some t \<Longrightarrow>
     List.find (todo_id_is i) (sel_todos now None d) = Some (map_koi_todo now t)"
  using find_id [of "sel_todos now None d" "map_koi_todo now t"] todo_at_mem [of d i t] todo_at_id [of d i t]
  by (auto simp: sel_todos_def wf_db_def o_def distinct_map_order_desc)

lemma merged_status: "integration_is_merged (map_koi_todo now t) \<longleftrightarrow>
    (case td_integration_status t of None \<Rightarrow> False | Some s \<Rightarrow> eq_ignore_ascii_case (trim s) ''merged'')"
  by (simp add: integration_is_merged_def)

lemma merge_status_merged:
  "eq_ignore_ascii_case (trim (merge_status out)) ''merged'' \<longleftrightarrow> out = Merged"
proof -
  have "eq_ignore_ascii_case ''merged'' ''merged''" "\<not> eq_ignore_ascii_case ''conflict'' ''merged''"
    by code_simp+
  then show ?thesis by (cases out) (simp_all add: merge_status_def str_eval)
qed

text \<open>A pool with a project directory, a finished todo with a branch, and a \<^verbatim>\<open>git\<close> that merges it.\<close>

definition merge_row :: todo_row where
  "merge_row = (todo_row_of ''t1'' ''k1'' ''done'' (Some ''p1'') None)\<lparr>td_git_branch := Some ''koi/A-1''\<rparr>"

definition merge_db :: db where
  "merge_db = sample_db\<lparr>
     tb_koi_todos := [merge_row, todo_row_of ''t2'' ''k1'' ''todo'' (Some ''p1'') (Some ''t1'')],
     tb_pool_sessions := [(pool_row_of ''p1'' ''Pool'' ''active'')\<lparr>ps_project_dir := Some ''/p''\<rparr>]\<rparr>"

definition merge_ext :: ext where
  "merge_ext = sample_ext\<lparr>ex_path_exists := \<lambda>n p. True, ex_git := \<lambda>n dir args. Inr
     \<lparr>go_success = True, go_stdout = ''  koi/A-1'' @ [CHR 0x0A], go_stderr = []\<rparr>\<rparr>"

definition sample_merge_args :: MergeBranchesArgs where
  "sample_merge_args = \<lparr>mg_pool_id = ''p1'', mg_branch = None\<rparr>"

lemma wf_merge_db: "wf_db merge_db"
  by (simp add: wf_db_def merge_db_def sample_db_def row_defs todo_refs_def member_refs_def
      exists_defs member_key_def merge_row_def)

lemma merge_json_merged:
  "merge_json m = JObj [(''branch'', JStr b), (''outcome'', JObj [(''kind'', JStr ''merged'')])] \<longleftrightarrow>
     mr_branch m = b \<and> mr_outcome m = Merged"
  by (cases "mr_outcome m") (simp_all add: merge_json_def)

lemma sample_merge_service:
  "json_get (projr (fst (merge_branches merge_ext piscis_caller sample_merge_args (start_world merge_db))))
     ''branches'' = Some (JArr [JObj [(''branch'', JStr ''koi/A-1''), (''outcome'', JObj [(''kind'', JStr ''merged'')])]])"
  "\<not> isl (fst (merge_branches merge_ext piscis_caller sample_merge_args (start_world merge_db)))"
  by code_simp+

section \<open>Deleting\<close>

lemma delete_koi_todo_run [exec_simps]:
  "delete_koi_todo i w = (Inr (), w\<lparr>w_db := delete_todos (\<lambda>r. td_id r = i) (w_db w)\<rparr>)"
  by (simp add: delete_koi_todo_def exec_basic)

lemma bindM_run: "m w = (Inr y, w1) \<Longrightarrow> bindM m f w = f y w1"
  by (simp add: bindM_def)

lemma delete_all_run:
  "forM is delete_koi_todo w = (u, w') \<Longrightarrow>
     u = Inr () \<and> tb_koi_todos (w_db w') = filter (\<lambda>r. td_id r \<notin> set is) (tb_koi_todos (w_db w))"
proof (induction "is" arbitrary: w)
  case Nil
  then show ?case by (simp add: ret_def)
next
  case (Cons i "is")
  then have "forM is delete_koi_todo (w\<lparr>w_db := delete_todos (\<lambda>r. td_id r = i) (w_db w)\<rparr>) = (u, w')"
    by (simp add: bindM_run [OF delete_koi_todo_run])
  from Cons.IH [OF this] show ?case by simp
qed

lemma emits_run: "forM ts (\<lambda>t. emit_todo (f t) a t) w = (u, w') \<Longrightarrow> u = Inr () \<and> w_db w' = w_db w"
  by (induction ts arbitrary: w) (auto simp: exec_basic emit_todo_def)

lemma delete_matches_row:
  "delete_matches p st ow (map_koi_todo now r) \<longleftrightarrow>
     td_pool_session_id r = Some p \<and> (case st of None \<Rightarrow> True | Some s \<Rightarrow> td_status r = s) \<and>
     (case ow of None \<Rightarrow> True | Some k \<Rightarrow> td_owner_id r = k)"
  by (simp add: delete_matches_def split: option.split)

lemma matching_ids:
  assumes "wf_db d" and "r \<in> set (tb_koi_todos d)"
  shows "td_id r \<in> td_id ` set (filter (delete_matches p st ow) (sel_todos now None d)) \<longleftrightarrow>
    delete_matches p st ow (map_koi_todo now r)"
proof -
  let ?P = "\<lambda>r. delete_matches p st ow (map_koi_todo now r)"
  have "td_id r \<in> td_id ` set (filter (delete_matches p st ow) (sel_todos now None d)) \<longleftrightarrow>
      (\<exists>r' \<in> set (tb_koi_todos d). td_id r' = td_id r \<and> ?P r')"
    by (auto simp: sel_todos_def image_iff)
  also have "\<dots> \<longleftrightarrow> ?P r"
  proof
    assume "\<exists>r' \<in> set (tb_koi_todos d). td_id r' = td_id r \<and> ?P r'"
    then obtain r' where r': "r' \<in> set (tb_koi_todos d)" "td_id r' = td_id r" "?P r'" by blast
    with assms have "r' = r" by (auto simp: wf_db_def distinct_map dest: inj_onD)
    with r'(3) show "?P r" by simp
  qed (use assms(2) in blast)
  finally show ?thesis .
qed

lemma delete_batch_run:
  assumes "delete_batch x c h st ow w = (Inr j, w')" and wf: "wf_db (w_db w)"
  obtains s a b k where "\<not> (st = None \<and> ow = None)" "k = None \<longleftrightarrow> ow = None"
    "resolve_pool x c h ''delete_todo'' a = (Inr s, b)" "w_db a = w_db w"
    "tb_koi_todos (w_db w') = filter (\<lambda>r. \<not> delete_matches (ps_id s) st k (map_koi_todo now r)) (tb_koi_todos (w_db w))"
proof -
  from assms(1) obtain k a s b all e where f: "\<not> (st = None \<and> ow = None)"
    and owner: "(case ow of None \<Rightarrow> ret None
            | Some hint \<Rightarrow> bindM (resolve_koi_identifier x hint) (\<lambda>k.
                ret (Some (case k of None \<Rightarrow> hint | Some koi \<Rightarrow> kd_id koi)))) w = (Inr k, a)"
    and pool: "resolve_pool x c h ''delete_todo'' a = (Inr s, b)"
    and all: "list_koi_todos x None b = (Inr all, e)"
    and rest: "(let todos = filter (delete_matches (ps_id s) st k) all
     in if todos = []
        then ret (deleted_reply [] (''No todos matched the delete filter in pool '' @
               sq (short (ps_id s)) @ ''.''))
        else
          bindM (forM (map td_id todos) delete_koi_todo) (\<lambda>_.
          bindM (forM todos (\<lambda>t. emit_todo (td_pool_session_id t) Deleted t)) (\<lambda>_.
          ret (deleted_reply todos
            (''Deleted '' @ nat_digits (length todos) @ '' todo(s) from pool '' @ sq (ps_name s) @
             (case st of None \<Rightarrow> [] | Some s \<Rightarrow> '' with status '' @ sq s) @
             (case k of None \<Rightarrow> [] | Some k \<Rightarrow> '' for owner '' @ sq k) @ ''.''))))) e = (Inr j, w')"
    unfolding delete_batch_def bindM_Inr_iff guardM_Inr_iff by blast
  have k: "k = None \<longleftrightarrow> ow = None" and a: "w_db a = w_db w"
    using owner by (auto simp: exec_simps split: option.splits sum.splits)
  let ?todos = "filter (delete_matches (ps_id s) st k) all"
  have db: "w_db e = w_db w" "all = sel_todos (ex_now x (w_tick b)) None (w_db w)"
    using all a resolve_pool_quiet [OF pool] by (auto simp: list_koi_todos_run quiet_def)
  have "tb_koi_todos (w_db w') = filter (\<lambda>r. td_id r \<notin> td_id ` set ?todos) (tb_koi_todos (w_db w))"
  proof (cases "?todos = []")
    case True
    with rest db show ?thesis by (simp add: Let_def)
  next
    case False
    with rest db show ?thesis
      by (auto simp: Let_def bindM_Inr_iff dest!: delete_all_run emits_run)
  qed
  also have "\<dots> = filter (\<lambda>r. \<not> delete_matches (ps_id s) st k (map_koi_todo now r)) (tb_koi_todos (w_db w))"
    using matching_ids [OF wf] db(2) by (intro filter_cong) (simp_all add: delete_matches_row)
  finally show thesis by (rule that [OF f k pool a])
qed

section \<open>Properties\<close>

text \<open>
  C12. A merge writes its results on the board: every todo of the pool for whose branch there is a result gets
  the integration status of the last one, \<^verbatim>\<open>merged\<close> for a merge and \<^verbatim>\<open>conflict\<close> for a conflict or an error, in
  the order of the results the service answers, and a new time of its last change. No other field of these
  todos, no other todo and nothing else in the database changes.
\<close>

theorem merge_branches_records:
  assumes "merge_branches x c args w = (Inr j, w')"
  shows "\<exists>s a rs. resolve_pool x c (mg_pool_id args) ''merge_branches'' w = (Inr s, a) \<and>
    json_get j ''branches'' = Some (JArr (map merge_json rs)) \<and>
    list_all2 (recorded (ps_id s) rs) (tb_koi_todos (w_db w)) (tb_koi_todos (w_db w')) \<and>
    w_db w' = (w_db w)\<lparr>tb_koi_todos := tb_koi_todos (w_db w')\<rparr>"
  using assms by (rule merge_branches_run) blast

theorem merge_branches_records_witness:
  "\<exists>p rs. list_all2 (recorded p rs) (tb_koi_todos merge_db)
     (tb_koi_todos (w_db (snd (merge_branches merge_ext piscis_caller sample_merge_args (start_world merge_db)))))"
proof -
  obtain r w' where run: "merge_branches merge_ext piscis_caller sample_merge_args (start_world merge_db) = (r, w')"
    by (cases "merge_branches merge_ext piscis_caller sample_merge_args (start_world merge_db)")
  with sample_merge_service(2) obtain j where "r = Inr j" by (cases r) simp_all
  from merge_branches_records [OF run [unfolded this]] run show ?thesis by auto
qed

text \<open>
  C13. What a merge does to the gate for dependents. A todo that depends on a done todo with a branch may
  start after the merge if and only if the last result for that branch is a merge; when this merge has no
  result for the branch, if and only if it had been merged before. A conflict or an error closes the gate,
  also behind a branch that had been merged.
\<close>

theorem merge_opens_gate:
  assumes "merge_branches x c args w = (Inr j, w')" and "wf_db (w_db w)"
    and "todo_at (w_db w) i = Some dep" and "td_status dep = ''done''"
    and "td_git_branch dep = Some b" and "trim b \<noteq> []"
    and "trimmed_nonempty (td_depends_on t) = Some i" and "trim i = i"
  shows "\<exists>s a rs. resolve_pool x c (mg_pool_id args) ''merge_branches'' w = (Inr s, a) \<and>
    json_get j ''branches'' = Some (JArr (map merge_json rs)) \<and>
    (is_todo_dependency_satisfied t (sel_todos now None (w_db w')) \<longleftrightarrow>
      (case last_result (ps_id s) rs dep of
         None \<Rightarrow> integration_is_merged (map_koi_todo now dep) | Some r \<Rightarrow> mr_outcome r = Merged))"
proof -
  from assms(1) obtain s rs a where j: "json_get j ''branches'' = Some (JArr (map merge_json rs))"
    and pool: "resolve_pool x c (mg_pool_id args) ''merge_branches'' w = (Inr s, a)"
    and rec: "list_all2 (recorded (ps_id s) rs) (tb_koi_todos (w_db w)) (tb_koi_todos (w_db w'))"
    by (rule merge_branches_run)
  from rec assms(3) obtain dep' where at: "todo_at (w_db w') i = Some dep'"
    and dep': "recorded (ps_id s) rs dep dep'" by (rule recorded_at)
  have wf: "wf_db (w_db w')"
    using effectsD [OF wf_merge_branches assms(1)] assms(2) by (simp add: keeps_wf_def)
  have "resolve_todo_dependency i (sel_todos now None (w_db w')) = Some (map_koi_todo now dep')"
    using sel_todos_find [OF wf at] trimmed_nonempty_Some [OF assms(7)] assms(8)
    by (simp add: resolve_todo_dependency_def)
  then have "is_todo_dependency_satisfied t (sel_todos now None (w_db w')) \<longleftrightarrow>
      integration_is_merged (map_koi_todo now dep')"
    using assms(4-7) recorded_sel [OF dep']
    by (simp add: is_todo_dependency_satisfied_def dependency_produces_branch_def has_branch_def)
  also have "\<dots> \<longleftrightarrow> (case last_result (ps_id s) rs dep of
      None \<Rightarrow> integration_is_merged (map_koi_todo now dep) | Some r \<Rightarrow> mr_outcome r = Merged)"
    unfolding merged_status recorded_sel [OF dep'] integration_after_def merge_status_eq [symmetric]
    by (simp add: merge_status_merged split: option.split)
  finally show ?thesis using j pool by blast
qed

theorem merge_opens_gate_witness:
  "is_todo_dependency_satisfied (map_koi_todo 0 (todo_row_of ''t2'' ''k1'' ''todo'' (Some ''p1'') (Some ''t1'')))
     (sel_todos 0 None (w_db (snd (merge_branches merge_ext piscis_caller sample_merge_args (start_world merge_db)))))"
proof -
  let ?t = "map_koi_todo 0 (todo_row_of ''t2'' ''k1'' ''todo'' (Some ''p1'') (Some ''t1''))"
  obtain r w' where run: "merge_branches merge_ext piscis_caller sample_merge_args (start_world merge_db) = (r, w')"
    by (cases "merge_branches merge_ext piscis_caller sample_merge_args (start_world merge_db)")
  with sample_merge_service(2) obtain j where r: "r = Inr j" by (cases r) simp_all
  have t: "todo_at merge_db ''t1'' = Some merge_row" "td_status merge_row = ''done''"
    "td_git_branch merge_row = Some ''koi/A-1''" "trim ''koi/A-1'' \<noteq> []" "trim ''t1'' = ''t1''"
    "trimmed_nonempty (td_depends_on ?t) = Some ''t1''"
    by code_simp+
  from merge_opens_gate [OF run [unfolded r] _ _ t(2,3,4,6,5), of 0] t(1) wf_merge_db
  obtain s a rs where pool: "resolve_pool merge_ext piscis_caller (mg_pool_id sample_merge_args) ''merge_branches''
      (start_world merge_db) = (Inr s, a)"
    and b: "json_get j ''branches'' = Some (JArr (map merge_json rs))"
    and gate: "is_todo_dependency_satisfied ?t (sel_todos 0 None (w_db w')) \<longleftrightarrow>
      (case last_result (ps_id s) rs merge_row of
         None \<Rightarrow> integration_is_merged (map_koi_todo 0 merge_row) | Some r \<Rightarrow> mr_outcome r = Merged)"
    by (simp add: start_world_sel) metis
  have "ps_id (projr (fst (resolve_pool merge_ext piscis_caller (mg_pool_id sample_merge_args) ''merge_branches''
      (start_world merge_db)))) = ''p1''" by code_simp
  with pool have s: "ps_id s = ''p1''" by simp
  from b sample_merge_service(1) run r
  have "map merge_json rs = [JObj [(''branch'', JStr ''koi/A-1''), (''outcome'', JObj [(''kind'', JStr ''merged'')])]]"
    by simp
  then obtain m where m: "rs = [m]" "mr_branch m = ''koi/A-1''" "mr_outcome m = Merged"
    by (auto simp: merge_json_merged map_eq_Cons_conv)
  with gate s t(3) run show ?thesis by (simp add: last_result_def merge_row_def row_defs)
qed

text \<open>
  A batch delete removes exactly what its filters say. It needs a status or an owner (so it never
  empties a pool), runs for Piscis only, and when it succeeds the todos left are those of other pools
  and those that one of the given filters does not match.
\<close>

theorem delete_batch_exact:
  assumes "delete_todo x c args w = (Inr j, w')" and "wf_db (w_db w)"
    and "trimmed_nonempty (dt_todo_id args) = None"
  shows "is_piscis c \<and>
    \<not> (trimmed_nonempty (dt_status args) = None \<and> trimmed_nonempty (dt_owner_id args) = None) \<and>
    (\<exists>h a s b owner. trimmed_nonempty (dt_pool_id args) = Some h \<and> w_db a = w_db w \<and>
       resolve_pool x c h ''delete_todo'' a = (Inr s, b) \<and>
       (owner = None \<longleftrightarrow> trimmed_nonempty (dt_owner_id args) = None) \<and>
       tb_koi_todos (w_db w') =
         filter (\<lambda>r. \<not> delete_matches (ps_id s) (trimmed_nonempty (dt_status args)) owner (map_koi_todo now r))
           (tb_koi_todos (w_db w)))"
proof -
  from assms(1,3) obtain h where p: "is_piscis c" and h: "trimmed_nonempty (dt_pool_id args) = Some h"
    and b: "delete_batch x c h (trimmed_nonempty (dt_status args)) (trimmed_nonempty (dt_owner_id args)) w = (Inr j, w')"
    by (auto simp: delete_todo_def bindM_Inr_iff check_piscis_only_def)
  from b assms(2) obtain s a b k where r:
    "\<not> (trimmed_nonempty (dt_status args) = None \<and> trimmed_nonempty (dt_owner_id args) = None)"
    "k = None \<longleftrightarrow> trimmed_nonempty (dt_owner_id args) = None"
    "resolve_pool x c h ''delete_todo'' a = (Inr s, b)" "w_db a = w_db w"
    "tb_koi_todos (w_db w') = filter (\<lambda>r. \<not> delete_matches (ps_id s) (trimmed_nonempty (dt_status args)) k
       (map_koi_todo now r)) (tb_koi_todos (w_db w))"
    by (rule delete_batch_run [where now = now])
  show ?thesis by (intro conjI exI) (rule p h r)+
qed

definition sample_delete :: DeleteTodoArgs where
  "sample_delete = \<lparr>dt_todo_id = None, dt_pool_id = Some ''p1'', dt_status = Some ''done'', dt_owner_id = None\<rparr>"

theorem delete_batch_exact_witness:
  "map td_id (tb_koi_todos (w_db (snd (delete_todo sample_ext piscis_caller sample_delete (start_world merge_db))))) =
     [''t2'']"
proof -
  let ?r = "delete_todo sample_ext piscis_caller sample_delete (start_world merge_db)"
  obtain r w' where run: "?r = (r, w')" by (cases ?r)
  have "\<not> isl (fst ?r)" by code_simp
  with run obtain j where r: "r = Inr j" by (cases r) simp_all
  have n: "trimmed_nonempty (dt_todo_id sample_delete) = None" "trimmed_nonempty (dt_owner_id sample_delete) = None"
    "trimmed_nonempty (dt_status sample_delete) = Some ''done''"
    by code_simp+
  from delete_batch_exact [OF run [unfolded r] _ n(1), of 0] wf_merge_db n
  obtain h a s b where pool: "w_db a = merge_db" "resolve_pool sample_ext piscis_caller h ''delete_todo'' a = (Inr s, b)"
    and left: "tb_koi_todos (w_db w') =
      filter (\<lambda>r. \<not> delete_matches (ps_id s) (Some ''done'') None (map_koi_todo 0 r)) (tb_koi_todos merge_db)"
    by auto
  obtain q where "pool_at merge_db (ps_id s) = Some q"
    by (rule resolve_pool_run [OF pool(2)]) (simp_all add: pool(1) wf_merge_db)
  then have "ps_id s = ''p1''"
    by (simp add: pool_at_def merge_db_def row_defs find_row_Cons split: if_splits)
  with left run show ?thesis
    by (simp add: merge_db_def merge_row_def row_defs delete_matches_row)
qed

end
