(* ===== verification/Coordination.thy ===== *)
theory Coordination
  imports Assignment
begin

text \<open>
  The coordinator beyond single turns: a subagent that cannot be started, the watchdog, resuming and
  replacing todos, and mentions.
\<close>

section \<open>A runtime that cannot start a subagent\<close>

definition cannot_spawn :: "runtime \<Rightarrow> bool" where
  "cannot_spawn rt \<longleftrightarrow> (\<forall>req w. \<exists>e. rt_spawn rt req w = (Inl e, w))"

text \<open>An effect: every todo keeps its owner and its status.\<close>

definition board_key :: "todo_row \<Rightarrow> string \<times> string \<times> string" where
  "board_key r = (td_id r, td_owner_id r, td_status r)"

definition same_board :: "db \<Rightarrow> db \<Rightarrow> bool" where
  "same_board d d' \<longleftrightarrow> map board_key (tb_koi_todos d') = map board_key (tb_koi_todos d)"

interpretation same_board: effect same_board
  by unfold_locales (simp_all add: same_board_def)

lemma same_board_same: "effects same_todos m \<Longrightarrow> effects same_board m"
  by (simp add: effects_def same_board_def same_todos_def)

lemma find_map_key: "List.find P (map f xs) = map_option f (List.find (P \<circ> f) xs)"
  by (induction xs) simp_all

lemma board_status_keys:
  "board_status d i = map_option (\<lambda>(_, _, s). s) (List.find (\<lambda>(j, _, _). j = i) (map board_key (tb_koi_todos d)))"
proof -
  have "(\<lambda>(j, _, _). j = i) \<circ> board_key = (\<lambda>r. td_id r = i)" by (auto simp: board_key_def)
  then show ?thesis
    by (simp add: board_status_def todo_at_def find_row_def find_map_key option.map_comp o_def board_key_def)
qed

lemma in_progress_keys:
  "(\<exists>r \<in> set (tb_koi_todos d). in_progress_of k r) \<longleftrightarrow>
     (\<exists>(_, ow, s) \<in> set (map board_key (tb_koi_todos d)). ow = k \<and> s = ''in_progress'')"
  by (auto simp: board_key_def in_progress_of_def)

lemma same_boardD:
  assumes "same_board d d'"
  shows "board_status d' = board_status d"
    and "(\<exists>r \<in> set (tb_koi_todos d'). in_progress_of k r) \<longleftrightarrow> (\<exists>r \<in> set (tb_koi_todos d). in_progress_of k r)"
  using assms unfolding same_board_def in_progress_keys by (auto simp: board_status_keys fun_eq_iff)

lemma same_board_branch [effect_intros]: "effects same_board (set_koi_todo_git_branch x i b)"
  unfolding set_koi_todo_git_branch_def
  by (intro effect_intros)
    (simp add: effects_execute_iff set_todo_def same_board_def board_key_def map_key_update_rows)

text \<open>A computation that always fails, having changed the database along \<open>R\<close> only.\<close>

definition fails :: "(db \<Rightarrow> db \<Rightarrow> bool) \<Rightarrow> 'a M \<Rightarrow> bool" where
  "fails R m \<longleftrightarrow> (\<forall>w r w'. m w = (r, w') \<longrightarrow> isl r \<and> R (w_db w) (w_db w'))"

lemma fails_bind: "fails R m \<Longrightarrow> fails R (bindM m f)"
  by (auto simp: fails_def bindM_def split: prod.splits sum.splits)
    (metis sum.disc(2))+

context effect
begin

lemma fails_after:
  assumes "effects R m" and "\<And>v. fails R (f v)"
  shows "fails R (bindM m f)"
  unfolding fails_def
proof (intro allI impI)
  fix w r w' assume run: "bindM m f w = (r, w')"
  obtain r1 w1 where m: "m w = (r1, w1)" by (cases "m w")
  from effectsD [OF assms(1) m] have R: "R (w_db w) (w_db w1)" .
  show "isl r \<and> R (w_db w) (w_db w')"
  proof (cases r1)
    case (Inl e)
    with run m R show ?thesis by (auto simp: bindM_def)
  next
    case (Inr v)
    with run m have "f v w1 = (r, w')" by (simp add: bindM_def)
    with assms(2) R show ?thesis unfolding fails_def by (blast intro: R_trans)
  qed
qed

lemma fails_spawn: "cannot_spawn rt \<Longrightarrow> fails R (run_subagent_turn rt req t)"
  unfolding fails_def run_subagent_turn_def cannot_spawn_def bindM_def
  by (metis (mono_tags, lifting) R_refl case_prod_conv old.sum.simps(5) prod.inject sum.disc(1))

end

lemma inner_fails:
  assumes "cannot_spawn rt"
  shows "fails same_board (execute_todo_turn_inner x rt cfg koi todo ps args)"
  unfolding execute_todo_turn_inner_def Let_def
  apply (rule same_board.fails_after)
   apply (rule same_board_same, rule same_todos_reports)
  apply (rule same_board.fails_after)
   apply (intro effect_intros)
  apply (rule fails_bind)
  apply (rule same_board.fails_spawn [OF assms])
  done

text \<open>The fence is won, the announcement succeeds, and the runtime refuses.\<close>

lemma stranded:
  assumes wf: "wf_db (w_db w)" and rt: "cannot_spawn rt"
    and res: "resolve_turn_context x args w = (Inr (koi, todo, ps), w1)"
    and active: "\<And>p. ps = Some p \<Longrightarrow> ps_status p = ''active''"
    and todos: "list_koi_todos x None w1 = (Inr todos, w2)"
    and sat: "is_todo_dependency_satisfied todo todos"
    and free: "fence_free (td_id todo) (kd_id koi) (w_db w)" "koi_exists (w_db w) (kd_id koi)"
    and run: "execute_todo_turn x rt cfg args w = (r, w')"
  shows "isl r \<and> board_status (w_db w') (td_id todo) = Some ''in_progress''"
proof -
  have pool: "(case ps of None \<Rightarrow> ret () | Some p \<Rightarrow> ensure_pool_allows_runtime_work p a) u = (Inr (), u)" for u a
    using active by (cases ps) (simp_all add: ensure_pool_allows_runtime_work_def guardM_def ret_def)
  have db: "w_db w2 = w_db w"
    using todos resolve_quiet [OF res] by (auto simp: list_koi_todos_run quiet_def)
  obtain b w3 where c: "claim_fence x (td_id todo) (kd_id koi) w2 = (b, w3)"
    by (cases "claim_fence x (td_id todo) (kd_id koi) w2")
  from wpD [OF claim_fence_wp [OF wf [folded db]] c] free db obtain t1 t2 where
    b: "b = Inr True" and d3: "w_db w3 = claimed_db t1 t2 (td_id todo) (kd_id koi) (w_db w)" by auto
  from claimed_status [OF wf free(1)] d3 have s3: "board_status (w_db w3) (td_id todo) = Some ''in_progress''"
    by simp
  obtain a w4 where an: "announce_claim x koi todo (map_option ps_id ps) (ea_assign_msg_id args) w3 = (a, w4)"
    by (cases "announce_claim x koi todo (map_option ps_id ps) (ea_assign_msg_id args) w3")
  from same_status [OF same_todos_reports(3) an] s3
  have s4: "board_status (w_db w4) (td_id todo) = Some ''in_progress''" by simp
  show ?thesis
  proof (cases a)
    case (Inl e)
    with run active sat s4 show ?thesis
      by (auto simp: execute_todo_turn_def bindM_def res pool todos c b an guardM_def ret_def)
  next
    case (Inr u)
    obtain i w5 where inner: "execute_todo_turn_inner x rt cfg koi todo ps args w4 = (i, w5)"
      by (cases "execute_todo_turn_inner x rt cfg koi todo ps args w4")
    with inner_fails [OF rt] have "isl i" "same_board (w_db w4) (w_db w5)" unfolding fails_def by blast+
    moreover obtain v w6 where re: "ignore (restore_idle x (kd_id koi)) w5 = (v, w6)"
      by (cases "ignore (restore_idle x (kd_id koi)) w5")
    moreover have "effects same_todos (ignore (restore_idle x (kd_id koi)))" by (intro effect_intros)
    then have "board_status (w_db w6) = board_status (w_db w5)" using re by (rule same_status)
    moreover have "r = i \<and> w' = w6"
      using run active sat Inr re \<open>isl i\<close>
      by (auto simp: execute_todo_turn_def bindM_def res pool todos c b an guardM_def ret_def
          attempt_def inner lift_result_def ignore_def split: prod.splits)
    ultimately show ?thesis using s4 same_boardD(1) by metis
  qed
qed

section \<open>The watchdog\<close>

text \<open>
  The cut-off is written in SQLite's format and compared as text with RFC 3339 stamps, so a stamp is
  older than it exactly when its day is earlier.
\<close>

lemma stale_before_rfc3339:
  assumes "0 < n" and "- 62167219200 \<le> now div 1000000000 - n"
  shows "stale_before now n (to_rfc3339 t) \<longleftrightarrow>
    t div nanos_per_day < (now div 1000000000 - n) div 86400"
  using assms
  by (simp add: stale_before_def sql_datetime_now_minus_def Let_def sql_datetime_of_secs_def to_rfc3339_def
      rfc3339_less_sql_iff)

lemma recover_todos_run:
  "recover_stale_in_progress_todos x n w =
     (let now = ex_now x (w_tick w); P = (\<lambda>r. td_status r = ''in_progress'' \<and> stale_before now n (td_updated_at r))
      in (Inr (count_rows P (tb_koi_todos (w_db w))),
          w\<lparr>w_tick := Suc (w_tick w), w_db := update_todos P (release_row now) (w_db w)\<rparr>))"
  by (simp add: recover_stale_in_progress_todos_def exec_basic Let_def)

section \<open>Resuming and replacing\<close>

text \<open>A todo whose dependency is cancelled cannot be started, by whatever job.\<close>

lemma sel_todos_find_id:
  assumes "wf_db d" and "todo_at d i = Some t"
  shows "List.find (todo_id_is i) (sel_todos now None d) = Some (map_koi_todo now t)"
  using find_id [of "sel_todos now None d" "map_koi_todo now t"] assms(1) todo_at_mem [OF assms(2)] todo_at_id [OF assms(2)]
  by (simp add: sel_todos_def wf_db_def o_def distinct_map_order_desc)

lemma cancelled_dependency:
  assumes "wf_db d" and "board_status d i = Some ''cancelled''" and "td_depends_on t = Some i"
    and "trim i = i" and "i \<noteq> []"
  shows "\<not> is_todo_dependency_satisfied t (sel_todos now None d)"
proof -
  from assms(2) obtain r where r: "todo_at d i = Some r" "td_status r = ''cancelled''"
    by (auto simp: board_status_def)
  from sel_todos_find_id [OF assms(1) r(1)] r(2) assms(3-5) show ?thesis
    by (simp add: is_todo_dependency_satisfied_def trimmed_nonempty_def resolve_todo_dependency_def)
qed

lemma cancelled_dependency_blocks:
  assumes wf: "wf_db (w_db u)" and can: "board_status (w_db u) i = Some ''cancelled''"
    and dep: "map_option td_depends_on (todo_at (w_db u) j) = Some (Some i)" and i: "trim i = i" "i \<noteq> []"
  shows "quiet u (snd (run_job x rt cfg (ExecuteJob (turn_args k j)) u))"
proof -
  obtain r u1 where res: "resolve_turn_context x (turn_args k j) u = (r, u1)"
    by (cases "resolve_turn_context x (turn_args k j) u")
  have "quiet u (snd (execute_todo_turn x rt cfg (turn_args k j) u))"
  proof (cases r)
    case (Inl e)
    with res resolve_quiet [OF res] show ?thesis by (simp add: execute_todo_turn_def bindM_def)
  next
    case (Inr v)
    obtain koi todo ps where v: "v = (koi, todo, ps)" by (cases v)
    from res Inr v obtain now where "sel_todo now j (w_db u) = Some todo"
      by (auto simp: turn_args_def elim: resolve_turn_context_sel)
    with dep have "td_depends_on todo = Some i" by (auto simp: sel_todo_def)
    moreover obtain ts u2 where l: "list_koi_todos x None u1 = (Inr ts, u2)"
      by (cases "list_koi_todos x None u1") (auto simp: list_koi_todos_exec)
    moreover have "ts = sel_todos (ex_now x (w_tick u1)) None (w_db u)"
      using l resolve_quiet [OF res] by (simp add: list_koi_todos_run quiet_def)
    ultimately have "\<not> is_todo_dependency_satisfied todo ts"
      using cancelled_dependency [OF wf can _ i] by simp
    with turn_without_effect [OF wf res [unfolded Inr v] l] show ?thesis by blast
  qed
  then show ?thesis by (cases "execute_todo_turn x rt cfg (turn_args k j) u") (simp add: ignore_def)
qed

lemma replace_koi_todo_run:
  assumes "replace_koi_todo x ori ow ti de ab st rs tt w = (Inr rep, w')"
    and "todo_at (w_db w) (td_id ori) = Some t"
  shows "board_status (w_db w') (td_id ori) = Some ''cancelled'' \<and> td_depends_on rep = Some (td_id ori) \<and>
    map_option td_depends_on (todo_at (w_db w') (td_id rep)) = Some (Some (td_id ori)) \<and> w_jobs w' = w_jobs w"
proof -
  have "wp (replace_koi_todo x ori ow ti de ab st rs tt) (\<lambda>r w'. \<forall>rep. r = Inr rep \<longrightarrow>
      w_jobs w' = w_jobs w \<and> td_depends_on rep = Some (td_id ori) \<and>
      (\<exists>new m now k d1 n. insert_todo new (w_db w) = Inr (k, d1) \<and>
         set_todo (td_id ori) (stop_row ''cancelled'' m now) d1 = Inr (n, w_db w') \<and>
         td_id new = td_id rep \<and> td_depends_on new = Some (td_id ori))) w"
    by (auto simp: replace_koi_todo_def wp_simps Let_def replace_statements_def split: sum.splits prod.splits)
      (fastforce simp: set_todo_def)
  from wpD [OF this assms(1)] obtain new m now k d1 n where ins: "insert_todo new (w_db w) = Inr (k, d1)"
    and set: "set_todo (td_id ori) (stop_row ''cancelled'' m now) d1 = Inr (n, w_db w')"
    and new: "td_id new = td_id rep" "td_depends_on new = Some (td_id ori)"
    and rest: "w_jobs w' = w_jobs w" "td_depends_on rep = Some (td_id ori)" by blast
  have "td_id rep \<noteq> td_id ori"
    using ins assms(2) todo_at_None_iff [of "w_db w" "td_id ori"]
    by (auto simp: insert_todo_def new(1) [symmetric] split: if_splits)
  then show ?thesis
    using assms(2) new rest
    by (simp add: board_status_def todo_at_set_todo [OF set] todo_at_insert_todo [OF ins] stop_row_def)
qed

text \<open>The steps that resuming and replacing share.\<close>

lemma resolve_pool_identifier_run [exec_simps]:
  "resolve_pool_session_identifier x v w =
     (sel_resolve_pool (ex_now x (w_tick w)) v (w_db w), w\<lparr>w_tick := Suc (w_tick w)\<rparr>)"
  by (simp add: resolve_pool_session_identifier_def exec_basic)

lemma workable_pool_quiet: "workable_pool x t a w = (v, w') \<Longrightarrow> quiet w w'"
  by (auto simp: workable_pool_def ensure_pool_allows_runtime_work_def exec_simps
      split: option.splits sum.splits if_splits)

lemma post_message_run:
  assumes "post_message x p s c mt md t r e w = (v, w')"
  shows "w_jobs w' = w_jobs w \<and> tb_koi_todos (w_db w') = tb_koi_todos (w_db w)"
  using assms
  by (auto simp: post_message_def insert_ext_message_def exec_simps Let_def split: if_splits)

lemma optional_post:
  assumes "(case ps of None \<Rightarrow> ret () | Some p \<Rightarrow>
      bindM (post_message x (ps_id p) s c mt md t r e) (\<lambda>_. ret ())) w = (Inr u, w')"
  shows "w_jobs w' = w_jobs w \<and> tb_koi_todos (w_db w') = tb_koi_todos (w_db w)"
  using assms by (cases ps) (auto simp: run_simps dest: post_message_run)

lemma resume_run:
  assumes "resume_blocked_todo x i by w = (Inr t, w')"
  obtains r koi where "todo_at (w_db w) i = Some r" "td_status r \<in> {''blocked'', ''needs_review''}"
    "sel_resolve_koi (ex_now x (Suc (w_tick w))) (td_owner_id r) (w_db w) = Inr (Some koi)"
    "tb_koi_todos (w_db w') = tb_koi_todos (w_db w)" "w_jobs w' = w_jobs w @ [ExecuteJob (turn_args (kd_id koi) i)]"
proof -
  from assms obtain r where r: "todo_at (w_db w) i = Some r"
    by (auto simp: resume_blocked_todo_def run_simps get_koi_todo_exec sel_todo_def)
  then have i: "td_id r = i" by (rule todo_at_id)
  from assms show thesis
    by (auto simp: resume_blocked_todo_def run_simps get_koi_todo_exec resolve_koi_run sel_todo_def r i
        utc_now_def reading_def emit_pool_def spawn_def quiet_def intro!: that [OF r]
        dest!: workable_pool_quiet optional_post)
qed

lemma replace_run:
  assumes "replace_blocked_todo x i k task reason by tt w = (Inr rep, w')"
  obtains r and koi :: KoiDefinition and now de st rs w1 w2 where "todo_at (w_db w) i = Some r"
    "replace_koi_todo x (map_koi_todo now r) (kd_id koi) (trim task) de by st rs tt w1 = (Inr rep, w2)"
    "w_db w1 = w_db w" "w_jobs w1 = w_jobs w" "tb_koi_todos (w_db w') = tb_koi_todos (w_db w2)" "w_jobs w' = w_jobs w2 @ [ExecuteJob (turn_args (kd_id koi) (td_id rep))]"
proof -
  from assms obtain r where r: "todo_at (w_db w) i = Some r"
    by (auto simp: replace_blocked_todo_def run_simps Let_def get_koi_todo_exec sel_todo_def)
  from assms show thesis
    by (auto simp: replace_blocked_todo_def run_simps Let_def get_koi_todo_exec resolve_koi_run sel_todo_def r
        emit_pool_def spawn_def quiet_def intro: that [OF r] dest!: workable_pool_quiet optional_post)
qed

section \<open>Properties\<close>

text \<open>
  When the runtime cannot start the subagent, the turn fails after it has won the todo: the error
  is returned, and the todo stays in progress although nothing works on it.
\<close>

theorem spawn_failure_strands_todo:
  assumes "wf_db (w_db w)" and "cannot_spawn rt"
    and "resolve_turn_context x args w = (Inr (koi, todo, ps), w1)"
    and "\<forall>p. ps = Some p \<longrightarrow> ps_status p = ''active''"
    and "list_koi_todos x None w1 = (Inr todos, w2)" and "is_todo_dependency_satisfied todo todos"
    and "fence_free (td_id todo) (kd_id koi) (w_db w)" and "koi_exists (w_db w) (kd_id koi)"
    and "execute_todo_turn x rt cfg args w = (r, w')"
  shows "isl r \<and> board_status (w_db w') (td_id todo) = Some ''in_progress''"
  by (rule stranded [OF assms(1-3) _ assms(5-9)]) (use assms(4) in blast)

definition dead_runtime :: runtime where
  "dead_runtime = sample_runtime\<lparr>rt_spawn := \<lambda>req w. (Inl (Anyhow ''no such file''), w)\<rparr>"

theorem spawn_failure_strands_todo_witness:
  "board_status (w_db (snd (execute_todo_turn sample_ext dead_runtime sample_cfg sample_args (world_at 0)))) ''t1'' =
     Some ''in_progress''"
proof -
  have "wf_db (w_db (world_at 0))" "koi_exists (w_db (world_at 0)) (kd_id sample_koi)"
    "fence_free (td_id sample_todo) (kd_id sample_koi) (w_db (world_at 0))"
    by (simp_all add: world_at_def sample_sel fence_free_def todo_at_def find_row_Cons sample_db_def row_defs
        koi_exists_def in_progress_of_def wf_sample_db [unfolded sample_db_def row_defs])
  moreover have "cannot_spawn dead_runtime" by (simp add: cannot_spawn_def dead_runtime_def)
  ultimately show ?thesis
    using spawn_failure_strands_todo [OF _ _ sample_resolve _ sample_list sample_satisfied _ _ prod.collapse [symmetric],
        of dead_runtime sample_cfg] sample_sel
    by simp
qed

text \<open>
  The watchdog works by whole days: it puts back a todo in progress exactly when the todo was last
  written on a UTC day before the day of the cut-off, however short the allowed time is.
\<close>

theorem watchdog_counts_days:
  assumes "0 < n" and "now = ex_now x (w_tick w)"
    and "- 62167219200 \<le> now div 1000000000 - n"
    and "recover_stale_in_progress_todos x n w = (r, w')"
    and "todo_at (w_db w) i = Some t" and "td_status t = ''in_progress''" and "td_updated_at t = to_rfc3339 at"
  shows "board_status (w_db w') i =
    Some (if at div nanos_per_day < (now div 1000000000 - n) div 86400 then ''todo'' else ''in_progress'')"
proof -
  let ?P = "\<lambda>r. td_status r = ''in_progress'' \<and> stale_before now n (td_updated_at r)"
  from assms(2,4) have d: "w_db w' = update_todos ?P (release_row now) (w_db w)"
    by (auto simp: recover_todos_run Let_def)
  have "todo_at (w_db w') i = Some (if ?P t then release_row now t else t)"
    using assms(5) by (simp add: d todo_at_update_todos)
  then show ?thesis
    using assms(6) stale_before_rfc3339 [OF assms(1,3), of at]
    by (simp add: board_status_def assms(7) release_row_def)
qed

text \<open>Both stamps are of one day, two hours apart; a minute is allowed.\<close>

theorem watchdog_counts_days_witness:
  "board_status (w_db (snd (recover_stale_in_progress_todos (sample_ext\<lparr>ex_now := \<lambda>_. 86400000000000 + 10800000000000\<rparr>) 60
     (start_world (sample_db\<lparr>tb_koi_todos := [(todo_row_of ''t1'' ''k1'' ''in_progress'' None None)
        \<lparr>td_updated_at := to_rfc3339 (86400000000000 + 3600000000000)\<rparr>]\<rparr>))))) ''t1'' = Some ''in_progress''"
  by (subst watchdog_counts_days [OF _ refl _ prod.collapse [symmetric],
        where at = "86400000000000 + 3600000000000"
        and t = "(todo_row_of ''t1'' ''k1'' ''in_progress'' None None)\<lparr>td_updated_at := to_rfc3339 (86400000000000 + 3600000000000)\<rparr>"])
    (simp_all add: todo_at_def find_row_Cons row_defs nanos_per_day_def)

text \<open>
  A replacement never starts while the todo it replaces stays cancelled: it is made to depend on
  that todo, which replacing cancels, and a dependency must be done.
\<close>

theorem replacement_never_starts:
  assumes "replace_blocked_todo x i k task reason by tt w = (Inr rep, w')" and "trim i = i" and "i \<noteq> []"
  shows "board_status (w_db w') i = Some ''cancelled'' \<and>
    map_option td_depends_on (todo_at (w_db w') (td_id rep)) = Some (Some i) \<and>
    (\<exists>k. w_jobs w' = w_jobs w @ [ExecuteJob (turn_args k (td_id rep))]) \<and>
    (\<forall>rt cfg k u. wf_db (w_db u) \<and> board_status (w_db u) i = Some ''cancelled'' \<and>
       map_option td_depends_on (todo_at (w_db u) (td_id rep)) = Some (Some i) \<longrightarrow>
       quiet u (snd (run_job x rt cfg (ExecuteJob (turn_args k (td_id rep))) u)))"
proof -
  from assms(1) obtain r now de st rs w1 w2 and koi :: KoiDefinition where r: "todo_at (w_db w) i = Some r"
    and run: "replace_koi_todo x (map_koi_todo now r) (kd_id koi) (trim task) de by st rs tt w1 = (Inr rep, w2)"
    and w1: "w_db w1 = w_db w" "w_jobs w1 = w_jobs w" and w': "tb_koi_todos (w_db w') = tb_koi_todos (w_db w2)"
    "w_jobs w' = w_jobs w2 @ [ExecuteJob (turn_args (kd_id koi) (td_id rep))]" by (rule replace_run)
  from todo_at_id [OF r] have i: "td_id (map_koi_todo now r) = i" by simp
  have at: "todo_at (w_db w') j = todo_at (w_db w2) j" for j by (simp add: todo_at_def w'(1))
  from replace_koi_todo_run [OF run, unfolded i w1, OF r] w'(2) w1(2)
  show ?thesis
    using cancelled_dependency_blocks [OF _ _ _ assms(2,3)] by (simp add: board_status_def at del: run_job.simps) blast
qed

theorem replacement_never_starts_witness:
  "\<exists>rep w'. replace_blocked_todo sample_ext ''t1'' ''k2'' ''Retry'' ''stuck'' ''piscis'' None (start_world sample_db) =
       (Inr rep, w') \<and> w_jobs w' = [ExecuteJob (turn_args ''k2'' (td_id rep))] \<and>
     w_db (snd (run_job sample_ext sample_runtime sample_cfg (ExecuteJob (turn_args ''k2'' (td_id rep))) w')) = w_db w'"
proof -
  let ?m = "replace_blocked_todo sample_ext ''t1'' ''k2'' ''Retry'' ''stuck'' ''piscis'' None"
  obtain res w' where r: "?m (start_world sample_db) = (res, w')" by (cases "?m (start_world sample_db)")
  have "\<not> isl (fst (?m (start_world sample_db)))"
    "map ea_koi_id (concat (map (\<lambda>j. case j of ExecuteJob a \<Rightarrow> [a] | _ \<Rightarrow> []) (w_jobs (snd (?m (start_world sample_db)))))) = [''k2'']"
    by code_simp+
  then obtain rep where rep: "res = Inr rep"
    and jobs: "map ea_koi_id (concat (map (\<lambda>j. case j of ExecuteJob a \<Rightarrow> [a] | _ \<Rightarrow> []) (w_jobs w'))) = [''k2'']"
    by (cases res) (simp_all add: r)
  have t1: "trim ''t1'' = ''t1''" "''t1'' \<noteq> []" by (simp_all add: str_eval)
  note p = replacement_never_starts [OF r [unfolded rep] t1]
  then obtain k where k: "w_jobs w' = [ExecuteJob (turn_args k (td_id rep))]" by auto
  with jobs have "k = ''k2''" by (simp add: turn_args_def)
  have "effects keeps_wf ?m" by (intro effect_intros)
  from effectsD [OF this r] have "wf_db (w_db w')" by (simp add: keeps_wf_def)
  with p have "quiet w' (snd (run_job sample_ext sample_runtime sample_cfg (ExecuteJob (turn_args ''k2'' (td_id rep))) w'))"
    by blast
  with r rep k \<open>k = ''k2''\<close> show ?thesis unfolding quiet_def by blast
qed

text \<open>
  A todo is resumed only when it is blocked or in need of a review; no todo is changed by it, and
  exactly one turn is queued, of the Koi that the owner's identifier stands for.
\<close>

theorem resume_queues_turn:
  assumes "resume_blocked_todo x i by w = (Inr t, w')"
  shows "board_status (w_db w) i \<in> {Some ''blocked'', Some ''needs_review''} \<and>
    tb_koi_todos (w_db w') = tb_koi_todos (w_db w) \<and>
    (\<exists>koi ow now. map_option td_owner_id (todo_at (w_db w) i) = Some ow \<and>
       sel_resolve_koi now ow (w_db w) = Inr (Some koi) \<and>
       w_jobs w' = w_jobs w @ [ExecuteJob (turn_args (kd_id koi) i)])"
  using assms
proof (rule resume_run)
  fix r koi
  assume r: "todo_at (w_db w) i = Some r" "td_status r \<in> {''blocked'', ''needs_review''}"
    and k: "sel_resolve_koi (ex_now x (Suc (w_tick w))) (td_owner_id r) (w_db w) = Inr (Some koi)"
    and w': "tb_koi_todos (w_db w') = tb_koi_todos (w_db w)"
      "w_jobs w' = w_jobs w @ [ExecuteJob (turn_args (kd_id koi) i)]"
  from r have "board_status (w_db w) i \<in> {Some ''blocked'', Some ''needs_review''}"
    "map_option td_owner_id (todo_at (w_db w) i) = Some (td_owner_id r)" by (auto simp: board_status_def)
  with k w' show ?thesis by blast
qed

theorem resume_queues_turn_witness:
  "w_jobs (snd (resume_blocked_todo sample_ext ''t1'' ''k1''
     (start_world (sample_db\<lparr>tb_koi_todos := [todo_row_of ''t1'' ''k1'' ''blocked'' (Some ''p1'') None]\<rparr>)))) =
   [ExecuteJob (turn_args ''k1'' ''t1'')]"
proof -
  let ?w = "start_world (sample_db\<lparr>tb_koi_todos := [todo_row_of ''t1'' ''k1'' ''blocked'' (Some ''p1'') None]\<rparr>)"
  obtain res w' where r: "resume_blocked_todo sample_ext ''t1'' ''k1'' ?w = (res, w')"
    by (cases "resume_blocked_todo sample_ext ''t1'' ''k1'' ?w")
  have "\<not> isl (fst (resume_blocked_todo sample_ext ''t1'' ''k1'' ?w))" by code_simp
  then obtain t where "res = Inr t" by (cases res) (simp_all add: r)
  from resume_queues_turn [OF r [unfolded this]] obtain koi now
    where "sel_resolve_koi now ''k1'' (w_db ?w) = Inr (Some koi)"
      "w_jobs w' = [ExecuteJob (turn_args (kd_id koi) ''t1'')]"
    by (auto simp: todo_at_def find_row_Cons row_defs)
  moreover have "map_option kd_id (projr (sel_resolve_koi 0 ''k1'' (w_db ?w))) = Some ''k1''"
    "\<not> isl (sel_resolve_koi 0 ''k1'' (w_db ?w))" by code_simp+
  ultimately show ?thesis using r
    by (cases "sel_resolve_koi 0 ''k1'' (w_db ?w)") (auto dest: resolve_koi_ids [OF refl])
qed

end
