(* ===== verification/Mentions.thy ===== *)
theory Mentions
  imports Assignment
begin

text \<open>
  Mentions in pool messages: which text dispatches work, to whom, and the text on which the parser
  panics.
\<close>

section \<open>Text that mentions nobody\<close>

lemma any_opt_False: "(\<And>a. a \<in> set xs \<Longrightarrow> f a = Some False) \<Longrightarrow> any_opt f xs = Some False"
  by (induction xs) simp_all

lemma lower_marker: "to_lowercase (''@!'' @ n) = ''@!'' @ to_lowercase n"
  by (simp add: to_lowercase_def utf8_len_def byte_def char_to_lowercase_def code_point_def lower_cp_def
      encode_utf8_def char_of_def bit_one_0)

lemma ascii_lower_marker: "ascii_lower b = CHR 0x40 \<longleftrightarrow> b = CHR 0x40" "ascii_lower b = CHR 0x21 \<longleftrightarrow> b = CHR 0x21"
proof -
  have "char_of (byte b + 32) \<noteq> (c :: char)" if "65 \<le> byte b" "byte b \<le> 90" "of_char c < (97 :: nat)" for c
  proof
    assume "char_of (byte b + 32) = c"
    then have "of_char c = byte b + 32" using that(2) by auto
    with that show False by simp
  qed
  then show "ascii_lower b = CHR 0x40 \<longleftrightarrow> b = CHR 0x40" "ascii_lower b = CHR 0x21 \<longleftrightarrow> b = CHR 0x21"
    by (auto simp: ascii_lower_def byte_def)
qed

lemma line_delegates_plain:
  assumes "is_ascii line" and "\<not> prefix ''@!'' (trim_start line)"
  shows "line_delegates (''@!'' @ n) line = Some False"
proof -
  have a: "is_ascii (trim_start line)"
    using assms(1) by (auto simp: trim_start_ascii is_ascii_def list_all_iff dest: set_dropWhileD)
  have "\<not> prefix (''@!'' @ m) (to_lowercase (trim_start line))" for m
    unfolding to_lowercase_ascii [OF a] using assms(2)
    by (cases "trim_start line"; cases "tl (trim_start line)") (auto simp: ascii_lower_marker eq_commute [of "CHR 0x40"] eq_commute [of "CHR 0x21"])
  then show ?thesis by (simp add: line_delegates_def Let_def lower_marker [simplified] starts_with_def)
qed

lemma split_lf_ascii: "is_ascii s \<Longrightarrow> is_ascii acc \<Longrightarrow> l \<in> set (split_lf acc s) \<Longrightarrow> is_ascii l"
  by (induction acc s rule: split_lf.induct) (auto simp: is_ascii_def split: if_splits list.splits)

definition plain_text :: "string \<Rightarrow> bool" where
  "plain_text c \<longleftrightarrow> is_ascii c \<and> list_all (\<lambda>l. \<not> prefix ''@!'' (trim_start l)) (str_lines c)"

lemma plain_text_delegates:
  assumes "plain_text c"
  shows "has_live_delegated_mention c n = Some False"
proof -
  have "l \<in> set (str_lines c) \<Longrightarrow> line_delegates (''@!'' @ n) l = Some False" for l
    using assms split_lf_ascii [of c "[]" l]
    by (intro line_delegates_plain) (auto simp: plain_text_def str_lines_def list_all_iff is_ascii_def)
  then show ?thesis by (simp add: has_live_delegated_mention_def any_opt_False)
qed

lemma mention_loop_plain: "plain_text c \<Longrightarrow> mention_loop False c kois = Some []"
  by (induction kois) (simp_all add: plain_text_delegates)

lemma parse_plain: "plain_text c \<Longrightarrow> parse_mention_targets kois s c = Some []"
  by (simp add: parse_mention_targets_def plain_text_delegates mention_loop_plain)

section \<open>Text that makes the parser panic\<close>

text \<open>The Kelvin sign (U+212A) is three bytes long, its lower case one.\<close>

definition kelvin_mention :: string where
  "kelvin_mention = ''@!'' @ [CHR 0xE2, CHR 0x84, CHR 0xAA]"

lemma mention_loop_None:
  "k \<in> set kois \<Longrightarrow> has_live_delegated_mention c (kd_name k) = None \<Longrightarrow> mention_loop False c kois = None"
  by (induction kois) (auto split: option.split)

lemma kelvin:
  "has_live_delegated_mention kelvin_mention ''K'' = None"
  "has_live_delegated_mention kelvin_mention ''all'' = Some False"
  "has_live_delegated_mention kelvin_mention ''Piscis'' = Some False"
  "trim kelvin_mention = kelvin_mention" "contains kelvin_mention ''@''" "kelvin_mention \<noteq> []"
  by code_simp+

lemma sel_kois_mem: "k \<in> set (sel_kois now d) \<longleftrightarrow> (\<exists>r \<in> set (tb_kois d). k = map_koi now r)"
  by (auto simp: sel_kois_def)

lemma parse_kelvin:
  assumes "r \<in> set (tb_kois d)" and "kd_name r = ''K''" and "kd_status r \<noteq> ''offline''" and "kd_id r \<noteq> s"
  shows "parse_mention_targets (sel_kois now d) s kelvin_mention = None"
  unfolding parse_mention_targets_def kelvin
  using assms by (auto intro!: mention_loop_None [of "map_koi now r"] simp: kelvin sel_kois_mem)

section \<open>Properties\<close>

text \<open>
  A message dispatches nothing unless one of its lines starts with the marker \<^verbatim>\<open>@!\<close>: handling
  any other (ASCII) text creates no todo, posts nothing, emits nothing and queues no turn.
\<close>

theorem plain_text_dispatches_nothing:
  assumes "is_ascii content" and "\<forall>l \<in> set (str_lines content). \<not> starts_with (trim_start l) ''@!''"
    and "handle_mention x s p content w = (r, w')"
  shows "r = Inr () \<and> quiet w w'"
proof -
  from assms(1,2) have "plain_text content" by (simp add: plain_text_def list_all_iff starts_with_def)
  with assms(3) show ?thesis
    by (auto simp: handle_mention_def exec_simps Let_def parse_plain plain_text_delegates split: if_splits)
qed

theorem plain_text_dispatches_nothing_witness:
  "\<exists>w'. handle_mention sample_ext ''user'' ''p1'' ''Ask @Alpha, not @!Beta'' (start_world sample_db) = (Inr (), w') \<and>
     quiet (start_world sample_db) w'"
proof -
  have "is_ascii ''Ask @Alpha, not @!Beta''" by code_simp
  moreover have "list_all (\<lambda>l. \<not> starts_with (trim_start l) ''@!'') (str_lines ''Ask @Alpha, not @!Beta'')" by code_simp
  moreover obtain r w' where r: "handle_mention sample_ext ''user'' ''p1'' ''Ask @Alpha, not @!Beta'' (start_world sample_db) = (r, w')"
    by (cases "handle_mention sample_ext ''user'' ''p1'' ''Ask @Alpha, not @!Beta'' (start_world sample_db)")
  ultimately show ?thesis
    using plain_text_dispatches_nothing [OF _ _ r] by (simp add: list_all_iff)
qed

text \<open>
  One message can make the parser panic: when a Koi is called K and the text mentions the Kelvin
  sign, the slice after the name cuts a character. The message is stored by then, and no answer is given.
\<close>

theorem kelvin_mention_panics:
  assumes "resolve_pool x c (sm_pool_id args) ''send'' w = (Inr s, w1)" and "wf_db (w_db w)"
    and "ps_status s = ''active''" and "sm_content args = kelvin_mention" and "sm_reply_to_message_id args = None"
    and "k \<in> set (tb_kois (w_db w))" and "kd_name k = ''K''" and "kd_status k \<noteq> ''offline''"
    and "kd_id k \<noteq> sm_sender_id args"
  shows "\<exists>w'. send_pool_message x True c args w = (Inl Panicked, w') \<and>
    length (tb_pool_messages (w_db w')) = Suc (length (tb_pool_messages (w_db w)))"
proof -
  from assms(1,2) obtain r where "pool_at (w_db w) (ps_id s) = Some r" and q: "quiet w w1"
    by (rule resolve_pool_run)
  then have "pool_exists (w_db w1) (ps_id s)" by (auto simp: quiet_def intro: pool_exists_at)
  then show ?thesis
    using assms(1,3-9) q
    by (auto simp: send_pool_message_def exec_simps kelvin message_refs_def opt_exists_def Let_def emit_message_def
        quiet_def handle_mention_def catch_err_def message_draft_def parse_kelvin)
qed

text \<open>The sample with a Koi called K, and a message to the pool.\<close>

definition k_db :: db where
  "k_db = sample_db\<lparr>tb_kois := koi_row_of ''k3'' ''K'' # tb_kois sample_db\<rparr>"

definition k_message :: SendPoolMessageArgs where
  "k_message = \<lparr>sm_pool_id = ''p1'', sm_sender_id = ''user'', sm_content = kelvin_mention,
     sm_reply_to_message_id = None\<rparr>"

theorem kelvin_mention_panics_witness:
  "\<exists>w'. send_pool_message sample_ext True piscis_caller k_message (start_world k_db) = (Inl Panicked, w') \<and>
     length (tb_pool_messages (w_db w')) = 1"
proof -
  let ?m = "resolve_pool sample_ext piscis_caller ''p1'' ''send'' (start_world k_db)"
  have "map_sum id ps_status (fst ?m) = Inr ''active''" by code_simp
  then obtain s w1 where s: "?m = (Inr s, w1)" "ps_status s = ''active''" by (cases ?m; cases "fst ?m") auto
  have wf: "wf_db k_db"
    by (simp add: wf_db_def k_db_def sample_db_def row_defs todo_refs_def member_refs_def exists_defs member_key_def)
  show ?thesis
    using kelvin_mention_panics [of sample_ext piscis_caller k_message "start_world k_db" s w1 "koi_row_of ''k3'' ''K''"] s wf
    by (simp add: k_message_def k_db_def koi_row_of_def) (simp add: sample_db_def)
qed

end
