(* ===== verification/Llm_Messages.thy ===== *)
theory Llm_Messages
  imports Models
begin

text \<open>
  The messages of the agent loop (\<^verbatim>\<open>llm/mod.rs\<close>), the estimates of their size, and the helpers of
  \<^verbatim>\<open>agent/message_utils.rs\<close> and \<^verbatim>\<open>agent/tool_receipt.rs\<close> that rewrite a message log. \<^verbatim>\<open>serde_json\<close>'s
  rendering of a value is the parameter \<open>js\<close>.
\<close>

section \<open>Messages\<close>

record ImageSource =
  is_source_type :: string
  is_media_type :: string
  is_data :: string

datatype ContentBlock =
    TextBlock string
  | Image ImageSource
  | ToolUse string string json
  | ToolResult string string bool

datatype MessageContent = Text string | Blocks "ContentBlock list"

record LlmMessage =
  lm_role :: string
  lm_content :: MessageContent

record ToolDef =
  tool_name :: string
  tool_description :: string
  tool_input_schema :: json

record ToolCall =
  tc_id :: string
  tc_name :: string
  tc_input :: json

record LlmRequest =
  rq_messages :: "LlmMessage list"
  rq_system :: "string option"
  rq_tools :: "ToolDef list"
  rq_model :: string
  rq_max_tokens :: u32
  rq_stream :: bool
  rq_vision_override :: "bool option"

record LlmResponse =
  rs_content :: string
  rs_tool_calls :: "ToolCall list"
  rs_input_tokens :: u32
  rs_output_tokens :: u32

text \<open>The blocks of a message; plain text has none.\<close>

fun blocks_of :: "MessageContent \<Rightarrow> ContentBlock list" where
  "blocks_of (Text t) = []"
| "blocks_of (Blocks bs) = bs"

abbreviation blocks :: "LlmMessage \<Rightarrow> ContentBlock list" where
  "blocks m \<equiv> blocks_of (lm_content m)"

fun block_text :: "ContentBlock \<Rightarrow> string option" where
  "block_text (TextBlock t) = Some t"
| "block_text _ = None"

fun as_text :: "MessageContent \<Rightarrow> string" where
  "as_text (Text t) = t"
| "as_text (Blocks bs) = join [CHR 0x0A] (List.map_filter block_text bs)"

text \<open>\<^verbatim>\<open>matches!\<close> on the kind of a block.\<close>

fun is_tool_result :: "ContentBlock \<Rightarrow> bool" where
  "is_tool_result (ToolResult i c e) = True"
| "is_tool_result _ = False"

fun is_tool_use :: "ContentBlock \<Rightarrow> bool" where
  "is_tool_use (ToolUse i n j) = True"
| "is_tool_use _ = False"

section \<open>Estimating tokens\<close>

definition is_cjk :: "nat \<Rightarrow> bool" where
  "is_cjk cp \<longleftrightarrow>
     (0x4E00 \<le> cp \<and> cp \<le> 0x9FFF) \<or> (0x3400 \<le> cp \<and> cp \<le> 0x4DBF) \<or> (0xF900 \<le> cp \<and> cp \<le> 0xFAFF) \<or>
     (0x3000 \<le> cp \<and> cp \<le> 0x303F) \<or> (0xFF00 \<le> cp \<and> cp \<le> 0xFFEF)"

definition estimate_tokens :: "string \<Rightarrow> nat" where
  "estimate_tokens text =
     (if text = [] then 0
      else let cps = map code_point (chars text);
               cjk_count = length (filter is_cjk cps);
               ascii_count = length (filter (\<lambda>cp. \<not> is_cjk cp) cps)
           in cjk_count + max (ascii_count div 4) 1)"

fun block_tokens :: "(json \<Rightarrow> string) \<Rightarrow> ContentBlock \<Rightarrow> nat" where
  "block_tokens js (TextBlock text) = estimate_tokens text"
| "block_tokens js (ToolUse i name input) = 8 + estimate_tokens name + estimate_tokens (js input)"
| "block_tokens js (ToolResult i content e) = 4 + estimate_tokens content"
| "block_tokens js (Image s) = 256"

definition estimate_message_tokens :: "(json \<Rightarrow> string) \<Rightarrow> LlmMessage \<Rightarrow> nat" where
  "estimate_message_tokens js msg =
     (case lm_content msg of
        Text t \<Rightarrow> estimate_tokens t
      | Blocks bs \<Rightarrow> sum_list (map (block_tokens js) bs)) + 8"

definition estimate_tool_def_tokens :: "(json \<Rightarrow> string) \<Rightarrow> ToolDef \<Rightarrow> nat" where
  "estimate_tool_def_tokens js tool =
     16 + estimate_tokens (tool_name tool) + estimate_tokens (tool_description tool) +
       estimate_tokens (js (tool_input_schema tool))"

definition estimate_request_overhead_tokens ::
  "(json \<Rightarrow> string) \<Rightarrow> string option \<Rightarrow> ToolDef list \<Rightarrow> nat" where
  "estimate_request_overhead_tokens js system tools =
     24 + (case system of None \<Rightarrow> 0 | Some s \<Rightarrow> estimate_tokens s) +
       sum_list (map (estimate_tool_def_tokens js) tools)"

definition estimate_request_input_tokens ::
  "(json \<Rightarrow> string) \<Rightarrow> LlmMessage list \<Rightarrow> string option \<Rightarrow> ToolDef list \<Rightarrow> nat" where
  "estimate_request_input_tokens js messages system tools =
     estimate_request_overhead_tokens js system tools +
       sum_list (map (estimate_message_tokens js) messages)"

text \<open>
  The product with the \<^verbatim>\<open>f64\<close> constant 0.85, truncated: on the range of \<^verbatim>\<open>u32\<close> it is the exact product
  rounded down, as the rounding errors are far below the twentieth between two products.
\<close>

definition compute_total_input_budget :: "u32 \<Rightarrow> u32 \<Rightarrow> nat" where
  "compute_total_input_budget context_window max_tokens =
     (let window = (if 0 < context_window then unat context_window
                    else if 8192 \<le> max_tokens then 128000
                    else if 4096 \<le> max_tokens then 64000 else 32000);
          reserved = min (unat max_tokens) (window div 4);
          usable = window - reserved
      in usable * 85 div 100)"

definition compute_context_budget :: "u32 \<Rightarrow> u32 \<Rightarrow> nat" where
  "compute_context_budget context_window max_tokens =
     compute_total_input_budget context_window max_tokens - 3000"

section \<open>Receipts\<close>

definition RECEIPT_MAX_CHARS :: nat where "RECEIPT_MAX_CHARS = 200"

definition truncate_receipt :: "string \<Rightarrow> nat \<Rightarrow> string" where
  "truncate_receipt s n =
     (if n = 0 then []
      else if count_chars s \<le> n then s
      else take_chars (max (n - 1) 1) s @ [CHR 0xE2, CHR 0x80, CHR 0xA6])"

definition recall_hint :: "string \<Rightarrow> string" where
  "recall_hint tool_use_id = '' [recall:'' @ tool_use_id @ '']''"

definition with_recall_hint :: "string \<Rightarrow> string \<Rightarrow> string" where
  "with_recall_hint body tool_use_id =
     (if tool_use_id = [] then body
      else if contains body ''[recall:'' then body
      else let hint = recall_hint tool_use_id;
               hint_chars = count_chars hint
           in if count_chars body + hint_chars \<le> RECEIPT_MAX_CHARS then body @ hint
              else truncate_receipt body (RECEIPT_MAX_CHARS - hint_chars - 1) @ hint)"

section \<open>Message helpers\<close>

definition SUPERSEDE_RETRY_WINDOW_MSGS :: nat where "SUPERSEDE_RETRY_WINDOW_MSGS = 6"

definition is_send_marker :: "string \<Rightarrow> bool" where
  "is_send_marker line \<longleftrightarrow>
     (let t = trim line in starts_with t ''SEND_FILE:'' \<or> starts_with t ''SEND_IMAGE:'')"

definition strip_send_markers :: "string \<Rightarrow> string" where
  "strip_send_markers text =
     (if \<not> contains text ''SEND_FILE:'' \<and> \<not> contains text ''SEND_IMAGE:'' then text
      else trim (join [CHR 0x0A] (filter (\<lambda>line. \<not> is_send_marker line) (str_lines text))))"

definition rolling_summary_message :: "string \<Rightarrow> LlmMessage" where
  "rolling_summary_message summary = \<lparr>
     lm_role = ''user'',
     lm_content = Text ((''['' @
       [CHR 0xE4, CHR 0xBC, CHR 0x9A, CHR 0xE8, CHR 0xAF, CHR 0x9D, CHR 0xE6, CHR 0xBB, CHR 0x9A,
       CHR 0xE5, CHR 0x8A, CHR 0xA8, CHR 0xE6, CHR 0x91, CHR 0x98, CHR 0xE8, CHR 0xA6, CHR 0x81] @
       '']'') @ [CHR 0x0A] @ trim summary @ [CHR 0x0A, CHR 0x0A] @
       (''['' @
       [CHR 0xE7, CHR 0xB3, CHR 0xBB, CHR 0xE7, CHR 0xBB, CHR 0x9F, CHR 0xE6, CHR 0x8F, CHR 0x90,
       CHR 0xE7, CHR 0xA4, CHR 0xBA] @
       ''] '' @
       [CHR 0xE4, CHR 0xB8, CHR 0x8A, CHR 0xE8, CHR 0xBF, CHR 0xB0, CHR 0xE6, CHR 0x91, CHR 0x98,
       CHR 0xE8, CHR 0xA6, CHR 0x81, CHR 0xE8, CHR 0xA6, CHR 0x86, CHR 0xE7, CHR 0x9B, CHR 0x96,
       CHR 0xE4, CHR 0xBA, CHR 0x86, CHR 0xE6, CHR 0x9B, CHR 0xB4, CHR 0xE6, CHR 0x97, CHR 0xA9,
       CHR 0xE7, CHR 0x9A, CHR 0x84, CHR 0xE5, CHR 0xAF, CHR 0xB9, CHR 0xE8, CHR 0xAF, CHR 0x9D,
       CHR 0xE5, CHR 0x8E, CHR 0x86, CHR 0xE5, CHR 0x8F, CHR 0xB2, CHR 0xEF, CHR 0xBC, CHR 0x8C,
       CHR 0xE8, CHR 0xAF, CHR 0xB7, CHR 0xE7, CHR 0xBB, CHR 0x93, CHR 0xE5, CHR 0x90, CHR 0x88,
       CHR 0xE5, CHR 0x90, CHR 0x8E, CHR 0xE7, CHR 0xBB, CHR 0xAD, CHR 0xE7, CHR 0x9C, CHR 0x9F,
       CHR 0xE5, CHR 0xAE, CHR 0x9E, CHR 0xE6, CHR 0xB6, CHR 0x88, CHR 0xE6, CHR 0x81, CHR 0xAF,
       CHR 0xE7, CHR 0xBB, CHR 0xA7, CHR 0xE7, CHR 0xBB, CHR 0xAD, CHR 0xE4, CHR 0xBB, CHR 0xBB,
       CHR 0xE5, CHR 0x8A, CHR 0xA1, CHR 0xEF, CHR 0xBC, CHR 0x8C, CHR 0xE4, CHR 0xB8, CHR 0x8D,
       CHR 0xE8, CHR 0xA6, CHR 0x81, CHR 0xE9, CHR 0x87, CHR 0x8D, CHR 0xE5, CHR 0xA4, CHR 0x8D,
       CHR 0xE5, CHR 0xB7, CHR 0xB2, CHR 0xE5, CHR 0xAE, CHR 0x8C, CHR 0xE6, CHR 0x88, CHR 0x90,
       CHR 0xE7, CHR 0x9A, CHR 0x84, CHR 0xE5, CHR 0xB7, CHR 0xA5, CHR 0xE4, CHR 0xBD, CHR 0x9C,
       CHR 0xE3, CHR 0x80, CHR 0x82])) \<rparr>"

definition is_ephemeral_tool_call :: "string \<Rightarrow> json \<Rightarrow> bool" where
  "is_ephemeral_tool_call name input \<longleftrightarrow>
     name = ''pool_org'' \<and> Option.bind (json_get input ''action'') json_as_str = Some ''wait_for_koi''"

text \<open>\<^verbatim>\<open>Map::remove\<close> on an object.\<close>

fun json_remove :: "json \<Rightarrow> string \<Rightarrow> json" where
  "json_remove (JObj kvs) k = JObj (filter (\<lambda>(k', v). k' \<noteq> k) kvs)"
| "json_remove j k = j"

definition tool_call_signature :: "(json \<Rightarrow> string) \<Rightarrow> string \<Rightarrow> json \<Rightarrow> string" where
  "tool_call_signature js name input = name @ ''::'' @ js (json_remove input ''_trace_id'')"

definition is_tool_result_carrier :: "LlmMessage \<Rightarrow> bool" where
  "is_tool_result_carrier msg \<longleftrightarrow> list_ex is_tool_result (blocks msg)"

definition has_real_user_turn_between :: "LlmMessage list \<Rightarrow> nat \<Rightarrow> nat \<Rightarrow> bool" where
  "has_real_user_turn_between msgs start_idx end_idx \<longleftrightarrow>
     list_ex (\<lambda>msg. lm_role msg = ''user'' \<and> \<not> is_tool_result_carrier msg)
       (take (end_idx - (start_idx + 1)) (drop (start_idx + 1) msgs))"

definition is_retryable_tool_failure :: "string \<Rightarrow> bool" where
  "is_retryable_tool_failure content \<longleftrightarrow>
     (let lower = to_lowercase content; c = contains lower
      in contains content ''[schema_correction tool='' \<or>
         c (''schema '' @
       [CHR 0xE4, CHR 0xB8, CHR 0x8D, CHR 0xE5, CHR 0x8C, CHR 0xB9, CHR 0xE9, CHR 0x85, CHR 0x8D]) \<or> c ''missing field'' \<or> c ''missing required'' \<or> c ''invalid type'' \<or>
         c ''invalid value'' \<or> c ''unknown field'' \<or> c ''unknown variant'' \<or>
         c ''did not match any variant'' \<or> c ''additional properties are not allowed'' \<or>
         c (''tool '' @ [CHR 0x27]) \<and> c ''does not exist. available tools:'' \<or>
         c ([CHR 0xE5, CHR 0xB7, CHR 0xA5, CHR 0xE5, CHR 0x85, CHR 0xB7] @ '' '' @ [CHR 0x27]) \<and> (c [CHR 0xE6, CHR 0x9C, CHR 0xAA, CHR 0xE6, CHR 0x89, CHR 0xBE, CHR 0xE5, CHR 0x88, CHR 0xB0] \<or> c [CHR 0xE5, CHR 0xBD, CHR 0x93, CHR 0xE5, CHR 0x89, CHR 0x8D, CHR 0xE5, CHR 0x8F, CHR 0xAF,
       CHR 0xE7, CHR 0x94, CHR 0xA8, CHR 0xE5, CHR 0xB7, CHR 0xA5, CHR 0xE5, CHR 0x85, CHR 0xB7]))"

section \<open>Failed calls that a later call made good\<close>

text \<open>
  What the first pass of \<^verbatim>\<open>collapse_superseded_tool_failures\<close> knows: of every call the message it is in,
  its signature and its tool; of every signature the last message with a successful call; of every
  tool the messages with successful calls.
\<close>

record call_log =
  tool_use_meta :: "string \<rightharpoonup> nat \<times> string \<times> string"
  last_success_pos :: "(string \<times> nat) list"
  success_by_tool_name :: "string \<Rightarrow> nat list"

definition empty_log :: call_log where
  "empty_log = \<lparr>tool_use_meta = Map.empty, last_success_pos = [], success_by_tool_name = (\<lambda>_. [])\<rparr>"

fun log_use :: "(json \<Rightarrow> string) \<Rightarrow> nat \<Rightarrow> ContentBlock \<Rightarrow> call_log \<Rightarrow> call_log" where
  "log_use js i (ToolUse k name input) l =
     l\<lparr>tool_use_meta := (tool_use_meta l)(k \<mapsto> (i, tool_call_signature js name input, name))\<rparr>"
| "log_use js i _ l = l"

fun log_success :: "ContentBlock \<Rightarrow> call_log \<Rightarrow> call_log" where
  "log_success (ToolResult k content is_error) l =
     (if is_error then l
      else case tool_use_meta l k of
             None \<Rightarrow> l
           | Some (i, sig, name) \<Rightarrow>
               l\<lparr>last_success_pos :=
                   (sig, case map_of (last_success_pos l) sig of None \<Rightarrow> i | Some p \<Rightarrow> max p i) #
                     last_success_pos l,
                 success_by_tool_name := (success_by_tool_name l)(name := success_by_tool_name l name @ [i])\<rparr>)"
| "log_success _ l = l"

definition log_message :: "(json \<Rightarrow> string) \<Rightarrow> nat \<times> LlmMessage \<Rightarrow> call_log \<Rightarrow> call_log" where
  "log_message js = (\<lambda>(i, msg) l. fold log_success (blocks msg) (fold (log_use js i) (blocks msg) l))"

definition call_log_of :: "(json \<Rightarrow> string) \<Rightarrow> LlmMessage list \<Rightarrow> call_log" where
  "call_log_of js msgs = fold (log_message js) (enumerate 0 msgs) empty_log"

text \<open>Whether a failed result is superseded, by the second pass.\<close>

fun superseded :: "LlmMessage list \<Rightarrow> call_log \<Rightarrow> ContentBlock \<Rightarrow> string option" where
  "superseded msgs l (ToolResult k content is_error) =
     (if \<not> is_error then None
      else case tool_use_meta l k of
             None \<Rightarrow> None
           | Some (i, sig, name) \<Rightarrow>
               if (case map_of (last_success_pos l) sig of
                     None \<Rightarrow> False
                   | Some p \<Rightarrow> i < p \<and> \<not> has_real_user_turn_between msgs i p)
               then Some k
               else if \<not> is_retryable_tool_failure content then None
               else if list_ex (\<lambda>p. i < p \<and> p - i \<le> SUPERSEDE_RETRY_WINDOW_MSGS \<and>
                          \<not> has_real_user_turn_between msgs i p) (success_by_tool_name l name)
               then Some k else None)"
| "superseded msgs l _ = None"

definition superseded_ids :: "LlmMessage list \<Rightarrow> call_log \<Rightarrow> string list" where
  "superseded_ids msgs l = List.map_filter (superseded msgs l) (concat (map blocks msgs))"

text \<open>\<^verbatim>\<open>blocks.retain\<close> in every message, and the \<^verbatim>\<open>retain\<close> of the messages that are not empty.\<close>

definition retain_blocks :: "(ContentBlock \<Rightarrow> bool) \<Rightarrow> LlmMessage \<Rightarrow> LlmMessage" where
  "retain_blocks keep msg =
     (case lm_content msg of
        Text t \<Rightarrow> msg
      | Blocks bs \<Rightarrow> msg\<lparr>lm_content := Blocks (filter keep bs)\<rparr>)"

definition is_empty_message :: "LlmMessage \<Rightarrow> bool" where
  "is_empty_message msg \<longleftrightarrow>
     (case lm_content msg of Blocks bs \<Rightarrow> bs = [] | Text t \<Rightarrow> trim t = [])"

definition drop_empty :: "LlmMessage list \<Rightarrow> LlmMessage list" where
  "drop_empty msgs = filter (\<lambda>msg. \<not> is_empty_message msg) msgs"

definition prune :: "(ContentBlock \<Rightarrow> bool) \<Rightarrow> LlmMessage list \<Rightarrow> LlmMessage list" where
  "prune keep msgs = drop_empty (map (retain_blocks keep) msgs)"

fun not_superseded :: "string list \<Rightarrow> ContentBlock \<Rightarrow> bool" where
  "not_superseded ids (ToolUse k n j) = (k \<notin> set ids)"
| "not_superseded ids (ToolResult k c is_error) = (\<not> (is_error \<and> k \<in> set ids))"
| "not_superseded ids _ = True"

definition collapse_superseded_tool_failures ::
  "(json \<Rightarrow> string) \<Rightarrow> LlmMessage list \<Rightarrow> LlmMessage list" where
  "collapse_superseded_tool_failures js msgs =
     (let l = call_log_of js msgs
      in if last_success_pos l = [] then msgs
         else let ids = superseded_ids msgs l
              in if ids = [] then msgs else prune (not_superseded ids) msgs)"

section \<open>Polling calls\<close>

fun ephemeral_id :: "ContentBlock \<Rightarrow> string option" where
  "ephemeral_id (ToolUse k name input) = (if is_ephemeral_tool_call name input then Some k else None)"
| "ephemeral_id _ = None"

fun without_ids :: "string list \<Rightarrow> ContentBlock \<Rightarrow> bool" where
  "without_ids ids (ToolUse k n j) = (k \<notin> set ids)"
| "without_ids ids (ToolResult k c e) = (k \<notin> set ids)"
| "without_ids ids _ = True"

definition ephemeral_ids :: "LlmMessage list \<Rightarrow> string list" where
  "ephemeral_ids msgs = List.map_filter ephemeral_id (concat (map blocks msgs))"

definition strip_ephemeral_tool_exchanges :: "LlmMessage list \<Rightarrow> LlmMessage list" where
  "strip_ephemeral_tool_exchanges msgs =
     (let ids = ephemeral_ids msgs in if ids = [] then msgs else prune (without_ids ids) msgs)"

section \<open>Calls without a result\<close>

fun use_id :: "ContentBlock \<Rightarrow> string option" where
  "use_id (ToolUse k n j) = Some k"
| "use_id _ = None"

fun result_id :: "ContentBlock \<Rightarrow> string option" where
  "result_id (ToolResult k c e) = Some k"
| "result_id _ = None"

definition collect_tool_use_ids :: "LlmMessage \<Rightarrow> string list" where
  "collect_tool_use_ids msg = List.map_filter use_id (blocks msg)"

definition result_ids :: "LlmMessage \<Rightarrow> string list" where
  "result_ids msg = List.map_filter result_id (blocks msg)"

text \<open>The carriers that follow, up to the first message that is none.\<close>

definition collect_satisfied_tool_ids :: "LlmMessage list \<Rightarrow> string list" where
  "collect_satisfied_tool_ids rest = concat (map result_ids (takeWhile is_tool_result_carrier rest))"

fun use_retained :: "string list \<Rightarrow> ContentBlock \<Rightarrow> bool" where
  "use_retained retained (ToolUse k n j) = (k \<in> set retained)"
| "use_retained retained _ = True"

fun result_retained :: "string list \<Rightarrow> ContentBlock \<Rightarrow> bool" where
  "result_retained retained (ToolResult k c e) = (k \<in> set retained)"
| "result_retained retained _ = True"

text \<open>The inner loop: the carriers that follow lose the results that are not retained.\<close>

fun strip_carriers :: "string list \<Rightarrow> LlmMessage list \<Rightarrow> LlmMessage list" where
  "strip_carriers retained [] = []"
| "strip_carriers retained (msg # rest) =
     (if \<not> is_tool_result_carrier msg then msg # rest
      else let msg' = retain_blocks (result_retained retained) msg
           in if lm_content msg' = Blocks [] then strip_carriers retained rest
              else msg' # strip_carriers retained rest)"

lemma length_strip_carriers: "length (strip_carriers r ms) \<le> length ms"
  by (induction ms) (auto simp: Let_def)

text \<open>What the outer loop does with an assistant message that has calls, and the messages after it.\<close>

definition sanitize_one :: "LlmMessage \<Rightarrow> LlmMessage list \<Rightarrow> LlmMessage \<times> LlmMessage list" where
  "sanitize_one msg rest =
     (let ids = collect_tool_use_ids msg;
          satisfied = collect_satisfied_tool_ids rest;
          retained = filter (\<lambda>k. k \<in> set satisfied) ids
      in if length (remdups retained) \<noteq> length ids
         then (retain_blocks (use_retained retained) msg, strip_carriers retained rest)
         else (msg, rest))"

lemma length_sanitize_one: "length (snd (sanitize_one m ms)) \<le> length ms"
  by (simp add: sanitize_one_def Let_def length_strip_carriers)

text \<open>The outer loop, on the messages from index \<^verbatim>\<open>i\<close>; those before it are not looked at again.\<close>

function sanitize_loop :: "LlmMessage list \<Rightarrow> LlmMessage list" where
  "sanitize_loop [] = []"
| "sanitize_loop (msg # rest) =
     (if lm_role msg \<noteq> ''assistant'' \<or> collect_tool_use_ids msg = [] then msg # sanitize_loop rest
      else let msg' = fst (sanitize_one msg rest); rest' = snd (sanitize_one msg rest)
           in if is_empty_message msg' then sanitize_loop rest' else msg' # sanitize_loop rest')"
  by pat_completeness auto
termination
  by (relation "measure length") (auto intro: le_imp_less_Suc length_sanitize_one)

definition sanitize_tool_use_result_pairing :: "LlmMessage list \<Rightarrow> LlmMessage list" where
  "sanitize_tool_use_result_pairing msgs = drop_empty (sanitize_loop msgs)"

definition ensure_tool_results_complete ::
  "(string \<times> string \<times> json) list \<Rightarrow> ContentBlock list \<Rightarrow> string \<Rightarrow> ContentBlock list" where
  "ensure_tool_results_complete tool_calls bs missing_message =
     (let existing = List.map_filter result_id bs
      in bs @ map (\<lambda>(k, n, j). ToolResult k missing_message True)
           (filter (\<lambda>(k, n, j). k \<notin> set existing) tool_calls))"

end
