(* ===== verification/Request_View.thy ===== *)
theory Request_View
  imports Llm_Messages
begin

text \<open>
  The request the agent loop sends for a message log (\<^verbatim>\<open>agent/loop_.rs\<close>): polls and unanswered calls
  are removed, old results are replaced by their receipts, oversized results trimmed, repeated rounds
  collapsed. The log itself is never changed. The properties say what the provider is promised.
\<close>

section \<open>Trimming results\<close>

definition CTX_TRIM_HEAD :: nat where "CTX_TRIM_HEAD = 1000"
definition CTX_TRIM_TAIL :: nat where "CTX_TRIM_TAIL = 300"

text \<open>The closure \<^verbatim>\<open>candidate\<close>, on the characters of the content.\<close>

definition trim_candidate :: "string list \<Rightarrow> nat \<Rightarrow> string" where
  "trim_candidate cs keep_chars =
     (let keep_chars = min keep_chars (length cs - 1);
          ratio_total = CTX_TRIM_HEAD + CTX_TRIM_TAIL;
          head_chars = min (if keep_chars = 0 then 0
                            else (keep_chars * CTX_TRIM_HEAD + ratio_total - 1) div ratio_total) keep_chars;
          tail_chars = keep_chars - head_chars;
          removed = length cs - keep_chars
      in concat (take head_chars cs) @ ([CHR 0x0A] @ ''... ['') @ nat_digits removed @ ('' chars removed] ...'' @ [CHR 0x0A]) @
           concat (drop (length cs - tail_chars) cs))"

text \<open>The binary search for the largest view that fits.\<close>

function trim_search :: "string list \<Rightarrow> nat \<Rightarrow> nat \<Rightarrow> nat \<Rightarrow> string \<Rightarrow> string" where
  "trim_search cs token_limit low high best =
     (if high < low then best
      else let keep_chars = low + (high - low) div 2; probe = trim_candidate cs keep_chars
           in if estimate_tokens probe \<le> token_limit
              then trim_search cs token_limit (keep_chars + 1) high probe
              else if keep_chars = 0 then best
              else trim_search cs token_limit low (keep_chars - 1) best)"
  by pat_completeness auto
termination
proof (relation "measure (\<lambda>(cs, limit, low, high, best). Suc high - low)", goal_cases)
  case (3 cs limit low high best keep_chars probe)
  then have "low \<le> keep_chars" "keep_chars \<le> high" by simp_all
  with 3 show ?case by simp
qed auto

declare trim_search.simps [simp del]

definition trim_tool_result_to_token_limit :: "string \<Rightarrow> nat \<Rightarrow> string" where
  "trim_tool_result_to_token_limit content token_limit =
     (let cs = chars content
      in if cs = [] \<or> token_limit = 0 then []
         else let marker_only = trim_candidate cs 0
              in if token_limit < estimate_tokens marker_only then []
                 else trim_search cs token_limit 0 (length cs - 1) marker_only)"

fun trim_block :: "nat \<Rightarrow> ContentBlock \<Rightarrow> ContentBlock" where
  "trim_block limit (ToolResult k content e) =
     (if limit < estimate_tokens content
      then ToolResult k (trim_tool_result_to_token_limit content limit) e
      else ToolResult k content e)"
| "trim_block limit b = b"

text \<open>\<^verbatim>\<open>iter_mut\<close> over the blocks of a message.\<close>

definition map_blocks :: "(ContentBlock \<Rightarrow> ContentBlock) \<Rightarrow> LlmMessage \<Rightarrow> LlmMessage" where
  "map_blocks f msg =
     (case lm_content msg of Text t \<Rightarrow> msg | Blocks bs \<Rightarrow> msg\<lparr>lm_content := Blocks (map f bs)\<rparr>)"

definition compact_trim_tool_results :: "LlmMessage list \<Rightarrow> nat \<Rightarrow> LlmMessage list" where
  "compact_trim_tool_results messages single_limit_tokens =
     map (\<lambda>msg. if lm_role msg \<noteq> ''user'' then msg
                else map_blocks (trim_block single_limit_tokens) msg) messages"

section \<open>Where the recent messages start\<close>

definition is_compaction_summary_text :: "string \<Rightarrow> bool" where
  "is_compaction_summary_text text \<longleftrightarrow>
     starts_with text (''['' @
       [CHR 0xE4, CHR 0xBC, CHR 0x9A, CHR 0xE8, CHR 0xAF, CHR 0x9D, CHR 0xE6, CHR 0xBB, CHR 0x9A,
       CHR 0xE5, CHR 0x8A, CHR 0xA8, CHR 0xE6, CHR 0x91, CHR 0x98, CHR 0xE8, CHR 0xA6, CHR 0x81] @
       '']'') \<or> starts_with text (''['' @
       [CHR 0xE5, CHR 0xAF, CHR 0xB9, CHR 0xE8, CHR 0xAF, CHR 0x9D, CHR 0xE6, CHR 0x91, CHR 0x98,
       CHR 0xE8, CHR 0xA6, CHR 0x81] @
       '']'')"

definition is_user_text_boundary :: "LlmMessage \<Rightarrow> bool" where
  "is_user_text_boundary msg \<longleftrightarrow>
     lm_role msg = ''user'' \<and>
     (case lm_content msg of Text t \<Rightarrow> t \<noteq> [] \<and> \<not> is_compaction_summary_text t | Blocks bs \<Rightarrow> False)"

fun turn_loop :: "nat \<Rightarrow> (nat \<times> LlmMessage) list \<Rightarrow> nat \<Rightarrow> nat \<Rightarrow> nat" where
  "turn_loop n [] recent_start turns_seen = recent_start"
| "turn_loop n ((i, msg) # ms) recent_start turns_seen =
     (if is_user_text_boundary msg then
        if Suc turns_seen = n then turn_loop n ms i (Suc turns_seen)
        else if n < Suc turns_seen then recent_start
        else turn_loop n ms recent_start (Suc turns_seen)
      else turn_loop n ms recent_start turns_seen)"

definition turn_based_recent_start :: "LlmMessage list \<Rightarrow> nat \<Rightarrow> nat" where
  "turn_based_recent_start messages recent_full_turns =
     (if recent_full_turns = 0 then length messages
      else turn_loop recent_full_turns (rev (enumerate 0 messages)) 0 0)"

fun carrier_loop :: "nat \<Rightarrow> (nat \<times> LlmMessage) list \<Rightarrow> nat \<Rightarrow> nat" where
  "carrier_loop keep [] carriers_seen = 0"
| "carrier_loop keep ((i, msg) # ms) carriers_seen =
     (if is_tool_result_carrier msg then
        if keep \<le> Suc carriers_seen then i else carrier_loop keep ms (Suc carriers_seen)
      else carrier_loop keep ms carriers_seen)"

definition tool_carrier_recent_start :: "LlmMessage list \<Rightarrow> nat \<Rightarrow> nat" where
  "tool_carrier_recent_start messages keep =
     (if keep = 0 then length messages else carrier_loop keep (rev (enumerate 0 messages)) 0)"

text \<open>The stricter \<^verbatim>\<open>is_tool_result_carrier\<close> of \<^verbatim>\<open>loop_.rs\<close>.\<close>

fun is_result_or_image :: "ContentBlock \<Rightarrow> bool" where
  "is_result_or_image (ToolResult k c e) = True"
| "is_result_or_image (Image s) = True"
| "is_result_or_image _ = False"

definition is_result_message :: "LlmMessage \<Rightarrow> bool" where
  "is_result_message msg \<longleftrightarrow>
     lm_role msg = ''user'' \<and> is_tool_result_carrier msg \<and> list_all is_result_or_image (blocks msg)"

definition has_tool_use :: "LlmMessage \<Rightarrow> bool" where
  "has_tool_use msg \<longleftrightarrow> list_ex is_tool_use (blocks msg)"

text \<open>The walk back; the first argument is what is left of its 16 steps.\<close>

fun snap_loop :: "nat \<Rightarrow> LlmMessage list \<Rightarrow> nat \<Rightarrow> nat" where
  "snap_loop 0 messages start = start"
| "snap_loop (Suc steps) messages start =
     (if start = 0 then start
      else if is_result_message (messages ! start) \<or> has_tool_use (messages ! (start - 1))
      then snap_loop steps messages (start - 1)
      else start)"

definition snap_to_pair_boundary :: "LlmMessage list \<Rightarrow> nat \<Rightarrow> nat" where
  "snap_to_pair_boundary messages start =
     (if start = 0 \<or> length messages \<le> start then start else snap_loop 16 messages start)"

section \<open>The request view\<close>

fun demote_block :: "(string \<rightharpoonup> string) \<Rightarrow> ContentBlock \<Rightarrow> ContentBlock" where
  "demote_block tool_minimals (ToolResult k content e) =
     (case tool_minimals k of
        None \<Rightarrow> ToolResult k content e
      | Some m \<Rightarrow> ToolResult k (with_recall_hint m k) e)"
| "demote_block tool_minimals b = b"

definition recent_start_of :: "LlmMessage list \<Rightarrow> nat \<Rightarrow> nat \<Rightarrow> nat" where
  "recent_start_of messages recent_full_turns recent_tool_carriers =
     snap_to_pair_boundary messages
       (min (turn_based_recent_start messages recent_full_turns)
          (tool_carrier_recent_start messages recent_tool_carriers))"

definition build_request_messages ::
  "LlmMessage list \<Rightarrow> (string \<rightharpoonup> string) \<Rightarrow> nat \<Rightarrow> nat \<Rightarrow> LlmMessage list" where
  "build_request_messages messages tool_minimals recent_full_turns recent_tool_carriers =
     (let messages = sanitize_tool_use_result_pairing (strip_ephemeral_tool_exchanges messages);
          recent_start = recent_start_of messages recent_full_turns recent_tool_carriers
      in map (\<lambda>(i, msg). if recent_start \<le> i then msg else map_blocks (demote_block tool_minimals) msg)
           (enumerate 0 messages))"

text \<open>One round: a message with a single call and the message with its single result.\<close>

fun use_of :: "ContentBlock \<Rightarrow> (string \<times> string \<times> json) option" where
  "use_of (ToolUse k name input) = Some (k, name, input)"
| "use_of _ = None"

fun single_tool_round :: "(json \<Rightarrow> string) \<Rightarrow> LlmMessage list \<Rightarrow> (string \<times> string) option" where
  "single_tool_round js (a # b # ms) =
     (if lm_role a \<noteq> ''assistant'' \<or> lm_role b \<noteq> ''user'' then None
      else case (List.map_filter use_of (blocks a), result_ids b) of
             ([(k, name, input)], [k']) \<Rightarrow> if k' = k then Some (name, js input) else None
           | _ \<Rightarrow> None)"
| "single_tool_round js _ = None"

fun rounds :: "(json \<Rightarrow> string) \<Rightarrow> string \<times> string \<Rightarrow> LlmMessage list \<Rightarrow> nat" where
  "rounds js sig (a # b # ms) =
     (if single_tool_round js (a # b # ms) = Some sig then Suc (rounds js sig ms) else 0)"
| "rounds js sig _ = 0"

fun note_block :: "nat \<Rightarrow> ContentBlock \<Rightarrow> ContentBlock" where
  "note_block n (ToolResult k content e) =
     ToolResult k (content @ ([CHR 0x0A] @ ''[Note: this identical call was made '') @ nat_digits n @
       ('' times in a row; earlier repeats were omitted. Change the arguments or approach '' @
       ''instead of repeating it.]'')) e"
| "note_block n b = b"

text \<open>Of a run of equal rounds the last is kept, with a note when there were others.\<close>

function collapse_repeated_tool_rounds :: "(json \<Rightarrow> string) \<Rightarrow> LlmMessage list \<Rightarrow> LlmMessage list" where
  "collapse_repeated_tool_rounds js [] = []"
| "collapse_repeated_tool_rounds js (m # ms) =
     (case single_tool_round js (m # ms) of
        None \<Rightarrow> m # collapse_repeated_tool_rounds js ms
      | Some sig \<Rightarrow>
          let n = rounds js sig (m # ms); k = 2 * (n - 1); result = (m # ms) ! (k + 1)
          in (m # ms) ! k # (if 2 \<le> n then map_blocks (note_block n) result else result) #
               collapse_repeated_tool_rounds js (drop (k + 2) (m # ms)))"
  by pat_completeness auto
termination
  by (relation "measure (\<lambda>(js, ms). length ms)") auto

declare collapse_repeated_tool_rounds.simps [simp del]

definition build_request_view_messages ::
  "(json \<Rightarrow> string) \<Rightarrow> LlmMessage list \<Rightarrow> (string \<rightharpoonup> string) \<Rightarrow> nat \<Rightarrow> nat \<Rightarrow> nat \<Rightarrow> nat \<Rightarrow> LlmMessage list" where
  "build_request_view_messages js messages tool_minimals recent_full_turns recent_tool_carriers
       message_budget_tokens max_tool_result_tokens =
     (let out = build_request_messages messages tool_minimals recent_full_turns recent_tool_carriers;
          out = (if max_tool_result_tokens \<noteq> 0
                 then compact_trim_tool_results out (min (message_budget_tokens div 2) max_tool_result_tokens)
                 else out)
      in collapse_repeated_tool_rounds js out)"

section \<open>Windows of recent messages\<close>

definition starts_with_tool_result :: "LlmMessage \<Rightarrow> bool" where
  "starts_with_tool_result msg \<longleftrightarrow> (case blocks msg of [] \<Rightarrow> False | b # bs \<Rightarrow> is_tool_result b)"

text \<open>The scan from the newest message back: the index after which everything fits.\<close>

fun window_loop :: "(json \<Rightarrow> string) \<Rightarrow> nat \<Rightarrow> nat \<Rightarrow> (nat \<times> LlmMessage) list \<Rightarrow> nat \<Rightarrow> nat \<Rightarrow> nat" where
  "window_loop js n keep_tokens [] acc cut_idx = cut_idx"
| "window_loop js n keep_tokens ((idx, msg) # ms) acc cut_idx =
     (let cost = estimate_message_tokens js msg
      in if keep_tokens < acc + cost \<and> idx + 1 < n then idx + 1
         else window_loop js n keep_tokens ms (acc + cost) idx)"

fun skip_results :: "LlmMessage list \<Rightarrow> nat" where
  "skip_results [] = 0"
| "skip_results (m # ms) = (if starts_with_tool_result m then Suc (skip_results ms) else 0)"

definition select_recent_window :: "(json \<Rightarrow> string) \<Rightarrow> LlmMessage list \<Rightarrow> nat \<Rightarrow> nat" where
  "select_recent_window js messages keep_tokens =
     (let cut_idx = window_loop js (length messages) keep_tokens (rev (enumerate 0 messages)) 0 (length messages)
      in cut_idx + skip_results (drop cut_idx messages))"

fun split_loop :: "(json \<Rightarrow> string) \<Rightarrow> nat \<Rightarrow> (nat \<times> LlmMessage) list \<Rightarrow> nat \<Rightarrow> nat \<Rightarrow> nat" where
  "split_loop js keep_tokens [] accumulated split_idx = split_idx"
| "split_loop js keep_tokens ((index, msg) # ms) accumulated split_idx =
     (let accumulated = accumulated + estimate_message_tokens js msg
      in if keep_tokens \<le> accumulated \<and> 0 < index then index
         else split_loop js keep_tokens ms accumulated split_idx)"

definition summary_split_index :: "(json \<Rightarrow> string) \<Rightarrow> LlmMessage list \<Rightarrow> nat \<Rightarrow> nat" where
  "summary_split_index js messages keep_tokens =
     snap_to_pair_boundary messages
       (split_loop js keep_tokens (rev (enumerate 0 messages)) 0 (length messages - 6))"

definition is_context_overflow_error :: "string \<Rightarrow> bool" where
  "is_context_overflow_error msg \<longleftrightarrow>
     (let lower = to_lowercase msg
      in list_ex (contains lower)
           [''context length exceeded'', ''maximum context length'', ''prompt is too long'',
            ''exceeds model context window'', ''context_window_exceeded'', ''request_too_large'',
            [CHR 0xE4, CHR 0xB8, CHR 0x8A, CHR 0xE4, CHR 0xB8, CHR 0x8B, CHR 0xE6, CHR 0x96, CHR 0x87,
       CHR 0xE8, CHR 0xBF, CHR 0x87, CHR 0xE9, CHR 0x95, CHR 0xBF], ''input is too long'', ''reduce the length''])"

end
