(* ===== verification/Requests.thy ===== *)
theory Requests
  imports Request_View "HOL-Library.Code_Target_Nat"
begin

text \<open>
  What the provider is promised: in every request the tool calls and the tool results match. The log
  invariant \<open>log_ok\<close> is what the agent loop keeps; \<open>paired\<close> is what the provider demands.
\<close>

section \<open>Calls and results of a log\<close>

definition msg_key :: "LlmMessage \<Rightarrow> string \<times> string list \<times> string list" where
  "msg_key m = (lm_role m, collect_tool_use_ids m, result_ids m)"

text \<open>Every call of an assistant message is answered by the carriers that follow it.\<close>

fun paired :: "LlmMessage list \<Rightarrow> bool" where
  "paired [] \<longleftrightarrow> True"
| "paired (m # ms) \<longleftrightarrow>
     (lm_role m = ''assistant'' \<longrightarrow> set (collect_tool_use_ids m) \<subseteq> set (collect_satisfied_tool_ids ms)) \<and>
     paired ms"

text \<open>Every carrier directly follows the assistant message whose calls it answers.\<close>

definition answers_call :: "LlmMessage option \<Rightarrow> LlmMessage \<Rightarrow> bool" where
  "answers_call p m \<longleftrightarrow> lm_role m \<noteq> ''assistant'' \<and>
     (case p of None \<Rightarrow> False
      | Some a \<Rightarrow> lm_role a = ''assistant'' \<and> result_ids a = [] \<and>
          set (result_ids m) \<subseteq> set (collect_tool_use_ids a))"

fun log_ok :: "LlmMessage option \<Rightarrow> LlmMessage list \<Rightarrow> bool" where
  "log_ok p [] \<longleftrightarrow> True"
| "log_ok p (m # ms) \<longleftrightarrow> (result_ids m \<noteq> [] \<longrightarrow> answers_call p m) \<and> log_ok (Some m) ms"

text \<open>A weaker condition: carriers are no assistant messages, and one that holds more than results is the last of its run.\<close>

fun tidy :: "LlmMessage list \<Rightarrow> bool" where
  "tidy [] \<longleftrightarrow> True"
| "tidy (m # ms) \<longleftrightarrow>
     (is_tool_result_carrier m \<longrightarrow> lm_role m \<noteq> ''assistant'' \<and>
        (list_all is_tool_result (blocks m) \<or> collect_satisfied_tool_ids ms = [])) \<and> tidy ms"

section \<open>Blocks, kept and dropped\<close>

lemma set_map_filter: "y \<in> set (List.map_filter f xs) \<longleftrightarrow> (\<exists>x \<in> set xs. f x = Some y)"
  by (force simp: List.map_filter_def)

lemma use_id_Some [simp]: "use_id b = Some k \<longleftrightarrow> (\<exists>n j. b = ToolUse k n j)"
  by (cases b) auto

lemma result_id_Some [simp]: "result_id b = Some k \<longleftrightarrow> (\<exists>c e. b = ToolResult k c e)"
  by (cases b) auto

lemma is_tool_result_iff: "is_tool_result b \<longleftrightarrow> (\<exists>k c e. b = ToolResult k c e)"
  by (cases b) auto

lemma carrier_iff: "is_tool_result_carrier m \<longleftrightarrow> result_ids m \<noteq> []"
proof -
  have "result_ids m = [] \<longleftrightarrow> (\<forall>b \<in> set (blocks m). \<not> is_tool_result b)"
    unfolding result_ids_def List.map_filter_def is_tool_result_iff
    by (auto simp: filter_empty_conv)
  then show ?thesis by (simp add: is_tool_result_carrier_def list_ex_iff)
qed

lemma blocks_retain [simp]: "blocks (retain_blocks keep m) = filter keep (blocks m)"
  by (cases "lm_content m") (simp_all add: retain_blocks_def)

lemma role_retain [simp]: "lm_role (retain_blocks keep m) = lm_role m"
  by (cases "lm_content m") (simp_all add: retain_blocks_def)

lemma set_use_ids: "k \<in> set (collect_tool_use_ids m) \<longleftrightarrow> (\<exists>n j. ToolUse k n j \<in> set (blocks m))"
  by (auto simp: collect_tool_use_ids_def set_map_filter)

lemma set_result_ids: "k \<in> set (result_ids m) \<longleftrightarrow> (\<exists>c e. ToolResult k c e \<in> set (blocks m))"
  by (auto simp: result_ids_def set_map_filter)

lemma satisfied_Cons:
  "collect_satisfied_tool_ids (m # ms) =
     (if result_ids m = [] then [] else result_ids m @ collect_satisfied_tool_ids ms)"
  by (simp add: collect_satisfied_tool_ids_def carrier_iff)

lemma satisfied_Nil [simp]: "collect_satisfied_tool_ids [] = []"
  by (simp add: collect_satisfied_tool_ids_def)

lemma empty_no_ids: "is_empty_message m \<Longrightarrow> collect_tool_use_ids m = [] \<and> result_ids m = []"
  by (auto simp: is_empty_message_def collect_tool_use_ids_def result_ids_def List.map_filter_simps
      split: MessageContent.splits)

section \<open>Sanitizing\<close>

lemma satisfied_drop_empty:
  "set (collect_satisfied_tool_ids ms) \<subseteq> set (collect_satisfied_tool_ids (drop_empty ms))"
  by (induction ms) (auto simp: satisfied_Cons drop_empty_def dest: empty_no_ids)

lemma paired_drop_empty: "paired ms \<Longrightarrow> paired (drop_empty ms)"
proof (induction ms)
  case (Cons m ms)
  then show ?case using satisfied_drop_empty [of ms] by (auto simp: drop_empty_def)
qed (simp add: drop_empty_def)

lemma satisfied_strip:
  assumes "tidy ms" and "k \<in> set retained" and "k \<in> set (collect_satisfied_tool_ids ms)"
  shows "k \<in> set (collect_satisfied_tool_ids (strip_carriers retained ms))"
  using assms
proof (induction ms)
  case (Cons m ms)
  let ?m = "retain_blocks (result_retained retained) m"
  from Cons.prems have carrier: "is_tool_result_carrier m" by (auto simp: carrier_iff satisfied_Cons split: if_splits)
  show ?case
  proof (cases "k \<in> set (result_ids m)")
    case True
    then obtain c e where "ToolResult k c e \<in> set (blocks ?m)" using Cons.prems(2) by (auto simp: set_result_ids)
    then have "k \<in> set (result_ids ?m)" "blocks ?m \<noteq> []"
      unfolding set_result_ids by (auto simp del: blocks_retain)
    then have "k \<in> set (result_ids ?m)" "lm_content ?m \<noteq> Blocks []" by (metis blocks_of.simps(2))+
    with carrier show ?thesis by (auto simp: Let_def satisfied_Cons)
  next
    case False
    with Cons.prems carrier have k: "k \<in> set (collect_satisfied_tool_ids ms)" and pure: "list_all is_tool_result (blocks m)"
      by (auto simp: satisfied_Cons split: if_splits)
    have "is_tool_result_carrier ?m" if "lm_content ?m \<noteq> Blocks []"
    proof -
      from carrier have "lm_content m = Blocks (blocks m)"
        by (cases "lm_content m") (simp_all add: is_tool_result_carrier_def)
      with that have "filter (result_retained retained) (blocks m) \<noteq> []"
        by (cases "lm_content m") (auto simp: retain_blocks_def)
      with pure show ?thesis
        by (auto simp: is_tool_result_carrier_def list_ex_iff list_all_iff filter_empty_conv)
    qed
    with carrier Cons k show ?thesis by (auto simp: Let_def satisfied_Cons carrier_iff)
  qed
qed simp

lemma tidy_strip: "tidy ms \<Longrightarrow> tidy (strip_carriers retained ms)"
proof (induction ms)
  case (Cons m ms)
  let ?m = "retain_blocks (result_retained retained) m"
  have sub: "b \<in> set (blocks ?m) \<Longrightarrow> b \<in> set (blocks m)" for b by simp
  show ?case
  proof (cases "is_tool_result_carrier m")
    case True
    with Cons.prems have m: "lm_role m \<noteq> ''assistant''"
      "list_all is_tool_result (blocks m) \<or> collect_satisfied_tool_ids ms = []" by simp_all
    have none: "collect_satisfied_tool_ids ms = [] \<Longrightarrow> strip_carriers retained ms = ms"
      by (cases ms) (auto simp: satisfied_Cons carrier_iff split: if_splits)
    from m(2) none have "list_all is_tool_result (blocks ?m) \<or> collect_satisfied_tool_ids (strip_carriers retained ms) = []"
      by (auto simp: list_all_iff)
    with True m(1) Cons show ?thesis by (simp add: Let_def)
  next
    case False
    with Cons.prems show ?thesis by simp
  qed
qed simp

lemma satisfied_sanitize_loop:
  "tidy ms \<Longrightarrow> set (collect_satisfied_tool_ids ms) \<subseteq> set (collect_satisfied_tool_ids (sanitize_loop ms))"
proof (induction ms)
  case (Cons m ms)
  show ?case
  proof (cases "is_tool_result_carrier m")
    case True
    with Cons show ?thesis by (auto simp: Let_def satisfied_Cons)
  next
    case False
    then show ?thesis by (simp add: satisfied_Cons carrier_iff)
  qed
qed simp

lemma use_ids_retained:
  "set (collect_tool_use_ids (retain_blocks (use_retained r) m)) = set (collect_tool_use_ids m) \<inter> set r"
proof -
  have "k \<in> set (collect_tool_use_ids (retain_blocks (use_retained r) m)) \<longleftrightarrow>
      k \<in> set (collect_tool_use_ids m) \<inter> set r" for k
    unfolding set_use_ids Int_iff by auto
  then show ?thesis by blast
qed

lemma filter_all: "length (filter P xs) = length xs \<Longrightarrow> x \<in> set xs \<Longrightarrow> P x"
  by (metis length_filter_less less_irrefl)

text \<open>After one step the calls left are answered by what follows.\<close>

lemma sanitize_one_satisfied:
  assumes "tidy rest"
  shows "tidy (snd (sanitize_one m rest))"
    and "set (collect_tool_use_ids (fst (sanitize_one m rest))) \<subseteq>
      set (collect_satisfied_tool_ids (snd (sanitize_one m rest)))"
proof -
  let ?ids = "collect_tool_use_ids m"
  let ?kept = "filter (\<lambda>k. k \<in> set (collect_satisfied_tool_ids rest)) ?ids"
  show "tidy (snd (sanitize_one m rest))" using assms tidy_strip by (simp add: sanitize_one_def Let_def)
  show "set (collect_tool_use_ids (fst (sanitize_one m rest))) \<subseteq>
      set (collect_satisfied_tool_ids (snd (sanitize_one m rest)))"
  proof (cases "length (remdups ?kept) = length ?ids")
    case True
    then have "length ?kept = length ?ids"
      using length_remdups_leq [of ?kept] length_filter_le [of "\<lambda>k. k \<in> set (collect_satisfied_tool_ids rest)" ?ids]
      by linarith
    with True show ?thesis by (auto simp: sanitize_one_def Let_def dest: filter_all)
  next
    case False
    then show ?thesis
      using satisfied_strip [OF assms, of _ ?kept] by (auto simp: sanitize_one_def Let_def use_ids_retained)
  qed
qed

lemma paired_sanitize_loop: "tidy ms \<Longrightarrow> paired (sanitize_loop ms)"
proof (induction ms rule: sanitize_loop.induct)
  case (2 m rest)
  show ?case
  proof (cases "lm_role m \<noteq> ''assistant'' \<or> collect_tool_use_ids m = []")
    case True
    with 2 show ?thesis by auto
  next
    case False
    from 2(4) have "tidy rest" by simp
    note one = sanitize_one_satisfied [OF this, of m]
    from False one(1) 2(2,3) have "paired (sanitize_loop (snd (sanitize_one m rest)))" by auto
    with False one(2) satisfied_sanitize_loop [OF one(1)] show ?thesis by (auto simp: Let_def)
  qed
qed simp

lemma paired_sanitize: "tidy ms \<Longrightarrow> paired (sanitize_tool_use_result_pairing ms)"
  by (simp add: sanitize_tool_use_result_pairing_def paired_drop_empty paired_sanitize_loop)

section \<open>The log invariant\<close>

lemma result_ids_Nil_carrier [simp]: "result_ids m = [] \<Longrightarrow> log_ok q (m # ms) \<longleftrightarrow> log_ok (Some m) ms"
  by simp

lemma log_ok_tidy: "log_ok p ms \<Longrightarrow> tidy ms"
proof (induction ms arbitrary: p)
  case (Cons m ms)
  have "collect_satisfied_tool_ids ms = []" if "result_ids m \<noteq> []"
    using Cons.prems that by (cases ms) (auto simp: satisfied_Cons answers_call_def)
  with Cons show ?case by (auto simp: carrier_iff answers_call_def)
qed simp

lemma msg_keyD:
  assumes "msg_key m = msg_key m'"
  shows "lm_role m = lm_role m'" "collect_tool_use_ids m = collect_tool_use_ids m'" "result_ids m = result_ids m'"
  using assms by (simp_all add: msg_key_def)

lemma answers_call_key:
  "msg_key m = msg_key m' \<Longrightarrow> map_option msg_key p = map_option msg_key p' \<Longrightarrow> answers_call p m = answers_call p' m'"
  by (cases p; cases p'; auto simp: answers_call_def msg_keyD [of m m'] dest: msg_keyD)
    (metis msg_keyD(2) subsetD)+

lemma log_ok_keys:
  "map msg_key ms = map msg_key ms' \<Longrightarrow> map_option msg_key p = map_option msg_key p' \<Longrightarrow> log_ok p ms = log_ok p' ms'"
proof (induction ms arbitrary: ms' p p')
  case (Cons m ms)
  then obtain m2 ms2 where ms': "ms' = m2 # ms2" "msg_key m = msg_key m2" "map msg_key ms = map msg_key ms2"
    by (cases ms') auto
  with Cons.IH [of ms2 "Some m" "Some m2"] have "log_ok (Some m) ms = log_ok (Some m2) ms2" by simp
  with ms'(1) answers_call_key [OF ms'(2) Cons.prems(2)] msg_keyD(3) [OF ms'(2)] show ?case by simp
qed simp

lemma satisfied_keys:
  "map msg_key ms = map msg_key ms' \<Longrightarrow> collect_satisfied_tool_ids ms = collect_satisfied_tool_ids ms'"
proof (induction ms arbitrary: ms')
  case (Cons m ms)
  then obtain m2 ms2 where ms': "ms' = m2 # ms2" "msg_key m = msg_key m2" "map msg_key ms = map msg_key ms2"
    by (cases ms') auto
  with Cons.IH [OF ms'(3)] msg_keyD(3) [OF ms'(2)] show ?case by (simp add: satisfied_Cons)
qed simp

lemma paired_keys: "map msg_key ms = map msg_key ms' \<Longrightarrow> paired ms = paired ms'"
proof (induction ms arbitrary: ms')
  case (Cons m ms)
  then obtain m2 ms2 where ms': "ms' = m2 # ms2" "msg_key m = msg_key m2" "map msg_key ms = map msg_key ms2"
    by (cases ms') auto
  with Cons.IH [OF ms'(3)] satisfied_keys [OF ms'(3)] msg_keyD [OF ms'(2)] show ?case by simp
qed simp

text \<open>Removing calls together with their results keeps the invariant.\<close>

lemma use_ids_without: "set (collect_tool_use_ids (retain_blocks (without_ids ids) m)) = set (collect_tool_use_ids m) - set ids"
proof -
  have "k \<in> set (collect_tool_use_ids (retain_blocks (without_ids ids) m)) \<longleftrightarrow>
      k \<in> set (collect_tool_use_ids m) - set ids" for k
    unfolding set_use_ids Diff_iff by auto
  then show ?thesis by blast
qed

lemma result_ids_without: "set (result_ids (retain_blocks (without_ids ids) m)) = set (result_ids m) - set ids"
proof -
  have "k \<in> set (result_ids (retain_blocks (without_ids ids) m)) \<longleftrightarrow> k \<in> set (result_ids m) - set ids" for k
    unfolding set_result_ids Diff_iff by auto
  then show ?thesis by blast
qed

lemma prune_log_ok:
  assumes "log_ok p ms"
    and "\<And>a. p = Some a \<Longrightarrow> \<not> is_empty_message (retain_blocks (without_ids ids) a) \<Longrightarrow>
      q = Some (retain_blocks (without_ids ids) a)"
  shows "log_ok q (prune (without_ids ids) ms)"
  using assms
proof (induction ms arbitrary: p q)
  case Nil
  then show ?case by (simp add: prune_def drop_empty_def)
next
  case (Cons m ms)
  let ?r = "retain_blocks (without_ids ids)"
  from Cons.prems(1) have tl: "log_ok (Some m) ms" by simp
  show ?case
  proof (cases "is_empty_message (?r m)")
    case True
    with Cons.IH [OF tl, of q] show ?thesis by (simp add: prune_def drop_empty_def)
  next
    case False
    have "answers_call q (?r m)" if ne: "result_ids (?r m) \<noteq> []"
    proof -
      from ne obtain k where k: "k \<in> set (result_ids (?r m))" by (meson last_in_set)
      then have "k \<in> set (result_ids m)" "k \<notin> set ids" by (simp_all add: result_ids_without)
      with Cons.prems(1) have "answers_call p m" by auto
      then obtain a where a: "p = Some a" "lm_role a = ''assistant''" "result_ids a = []"
        "set (result_ids m) \<subseteq> set (collect_tool_use_ids a)" "lm_role m \<noteq> ''assistant''"
        by (auto simp: answers_call_def split: option.splits)
      with \<open>k \<in> set (result_ids m)\<close> \<open>k \<notin> set ids\<close> have "k \<in> set (collect_tool_use_ids (?r a))"
        by (auto simp: use_ids_without)
      with empty_no_ids have "\<not> is_empty_message (?r a)" by fastforce
      with Cons.prems(2) a(1) have "q = Some (?r a)" by blast
      moreover from a(3) have "set (result_ids (?r a)) = {}" unfolding result_ids_without by simp
      ultimately show ?thesis
        using a by (auto simp: answers_call_def use_ids_without result_ids_without simp flip: set_empty)
    qed
    with False Cons.IH [OF tl, of "Some (?r m)"] show ?thesis by (simp add: prune_def drop_empty_def)
  qed
qed

lemma log_ok_strip_ephemeral: "log_ok None ms \<Longrightarrow> log_ok None (strip_ephemeral_tool_exchanges ms)"
  by (auto simp: strip_ephemeral_tool_exchanges_def Let_def intro: prune_log_ok)

text \<open>In such a log nothing but unanswered calls is removed.\<close>

lemma result_ids_use_retained [simp]: "result_ids (retain_blocks (use_retained r) m) = result_ids m"
proof -
  have "List.map_filter result_id (filter (use_retained r) bs) = List.map_filter result_id bs" for bs
  proof (induction bs)
    case (Cons b bs)
    then show ?case by (cases b) (simp_all add: List.map_filter_simps)
  qed simp
  then show ?thesis by (simp add: result_ids_def)
qed

lemma satisfied_log:
  assumes "log_ok (Some c) cs" and "result_ids c \<noteq> []"
  shows "collect_satisfied_tool_ids cs = []"
  using assms by (cases cs) (auto simp: satisfied_Cons answers_call_def)

lemma strip_carriers_none: "collect_satisfied_tool_ids cs = [] \<Longrightarrow> strip_carriers r cs = cs"
  by (cases cs) (auto simp: satisfied_Cons carrier_iff split: if_splits)

lemma strip_carriers_log:
  assumes "log_ok (Some m) rest" and "set r = set (collect_tool_use_ids m) \<inter> set (collect_satisfied_tool_ids rest)"
  shows "strip_carriers r rest = rest"
proof (cases "collect_satisfied_tool_ids rest = []")
  case False
  then obtain c cs where rest: "rest = c # cs" and c: "result_ids c \<noteq> []"
    by (cases rest) (auto simp: satisfied_Cons split: if_splits)
  with assms(1) have cs: "collect_satisfied_tool_ids cs = []" "set (result_ids c) \<subseteq> set (collect_tool_use_ids m)"
    by (auto simp: satisfied_log answers_call_def)
  with assms(2) rest c have "set r = set (result_ids c)" by (auto simp: satisfied_Cons)
  then have "filter (result_retained r) (blocks c) = blocks c"
    by (intro filter_True ballI) (metis result_retained.elims(3) set_result_ids)
  moreover from c have "lm_content c = Blocks (blocks c)" "blocks c \<noteq> []"
    by (cases "lm_content c", auto simp: result_ids_def List.map_filter_simps)+
  ultimately have "retain_blocks (result_retained r) c = c" "lm_content c \<noteq> Blocks []"
    by (auto simp: retain_blocks_def split: MessageContent.splits)
  with rest c strip_carriers_none [OF cs(1)] show ?thesis by (simp add: carrier_iff Let_def)
qed (rule strip_carriers_none)

lemma log_ok_switch:
  assumes "log_ok (Some m) rest" and "set (collect_satisfied_tool_ids rest) \<inter> set (collect_tool_use_ids m) \<subseteq> X"
    and "X \<noteq> {} \<Longrightarrow> q = Some m' \<and> lm_role m' = lm_role m \<and> result_ids m' = result_ids m \<and> X \<subseteq> set (collect_tool_use_ids m')"
  shows "log_ok q rest"
proof (cases rest)
  case (Cons c cs)
  have "answers_call q c" if c: "result_ids c \<noteq> []"
  proof -
    from assms(1) Cons c have a: "answers_call (Some m) c" by simp
    with assms(2) Cons c have X: "set (result_ids c) \<subseteq> X" by (auto simp: answers_call_def satisfied_Cons)
    with c have "X \<noteq> {}" by auto
    with assms(3) a X show ?thesis by (auto simp: answers_call_def)
  qed
  with assms(1) Cons show ?thesis by auto
qed simp

lemma log_ok_sanitize_loop: "log_ok p ms \<Longrightarrow> log_ok p (sanitize_loop ms)"
proof (induction ms arbitrary: p rule: sanitize_loop.induct)
  case (2 m rest)
  show ?case
  proof (cases "lm_role m \<noteq> ''assistant'' \<or> collect_tool_use_ids m = []")
    case True
    with 2 show ?thesis by auto
  next
    case False
    let ?ids = "collect_tool_use_ids m"
    let ?r = "filter (\<lambda>k. k \<in> set (collect_satisfied_tool_ids rest)) ?ids"
    let ?m = "fst (sanitize_one m rest)"
    from 2(4) have rest: "log_ok (Some m) rest" and m: "result_ids m = []"
      using False by (auto simp: answers_call_def)
    have snd: "snd (sanitize_one m rest) = rest"
      using strip_carriers_log [OF rest, of ?r] by (auto simp: sanitize_one_def Let_def)
    have fst: "lm_role ?m = lm_role m \<and> result_ids ?m = result_ids m \<and> set ?r \<subseteq> set (collect_tool_use_ids ?m)"
      by (auto simp: sanitize_one_def Let_def use_ids_retained)
    have ne: "set ?r \<noteq> {} \<Longrightarrow> \<not> is_empty_message ?m" using fst empty_no_ids [of ?m] by fastforce
    show ?thesis
    proof (cases "is_empty_message ?m")
      case True
      with ne have "log_ok p rest" by (intro log_ok_switch [OF rest, of "set ?r"]) auto
      with 2(2) False True snd show ?thesis by (simp add: Let_def)
    next
      case False
      have "log_ok (Some ?m) rest" using fst by (intro log_ok_switch [OF rest, of "set ?r" _ ?m]) auto
      with 2(3) False \<open>\<not> (lm_role m \<noteq> ''assistant'' \<or> ?ids = [])\<close> snd fst m show ?thesis by (simp add: Let_def)
    qed
  qed
qed simp

lemma log_ok_drop_empty: "log_ok None ms \<Longrightarrow> log_ok None (drop_empty ms)"
proof -
  have "without_ids [] b" for b by (cases b) simp_all
  then have "retain_blocks (without_ids []) m = m" for m
    by (cases m) (simp add: retain_blocks_def split: MessageContent.split)
  then show "log_ok None ms \<Longrightarrow> log_ok None (drop_empty ms)"
    using prune_log_ok [of None ms "[]" None] by (simp add: prune_def map_idI)
qed

lemma log_ok_sanitize: "log_ok None ms \<Longrightarrow> log_ok None (sanitize_tool_use_result_pairing ms)"
  by (simp add: sanitize_tool_use_result_pairing_def log_ok_drop_empty log_ok_sanitize_loop)

section \<open>Rewriting contents\<close>

lemma map_filter_map_key:
  "(\<And>b. g (f b) = g b) \<Longrightarrow> List.map_filter g (map f bs) = List.map_filter g bs"
  by (induction bs) (simp_all add: List.map_filter_simps split: option.split)

lemma msg_key_map_blocks:
  assumes "\<And>b. use_id (f b) = use_id b" and "\<And>b. result_id (f b) = result_id b"
  shows "msg_key (map_blocks f m) = msg_key m"
  using assms
  by (cases m; cases "lm_content m")
    (auto simp: msg_key_def map_blocks_def collect_tool_use_ids_def result_ids_def map_filter_map_key
      List.map_filter_simps)

lemma msg_key_rewrites [simp]:
  "msg_key (map_blocks (demote_block tm) m) = msg_key m"
  "msg_key (map_blocks (trim_block n) m) = msg_key m"
  "msg_key (map_blocks (note_block n) m) = msg_key m"
proof -
  have d: "use_id (demote_block tm b) = use_id b" "result_id (demote_block tm b) = result_id b" for b
    by (cases b; simp split: option.split)+
  have t: "use_id (trim_block n b) = use_id b" "result_id (trim_block n b) = result_id b" for b
    by (cases b; simp)+
  have o: "use_id (note_block n b) = use_id b" "result_id (note_block n b) = result_id b" for b
    by (cases b; simp)+
  show "msg_key (map_blocks (demote_block tm) m) = msg_key m"
    "msg_key (map_blocks (trim_block n) m) = msg_key m" "msg_key (map_blocks (note_block n) m) = msg_key m"
    using d t o by (simp_all add: msg_key_map_blocks)
qed

lemma keys_build_request:
  "map msg_key (build_request_messages ms tm ft tc) =
     map msg_key (sanitize_tool_use_result_pairing (strip_ephemeral_tool_exchanges ms))"
proof -
  have "map (\<lambda>(i, m). msg_key (if r \<le> i then m else map_blocks (demote_block tm) m)) (enumerate n xs) = map msg_key xs"
    for r n xs
    by (induction xs arbitrary: n) simp_all
  then show ?thesis by (simp add: build_request_messages_def Let_def o_def case_prod_beta')
qed

lemma keys_compact_trim: "map msg_key (compact_trim_tool_results ms n) = map msg_key ms"
  by (simp add: compact_trim_tool_results_def)

section \<open>Collapsing rounds\<close>

lemma single_roundD:
  assumes "single_tool_round js ms = Some sig"
  obtains a b rest k where "ms = a # b # rest" "lm_role a = ''assistant''" "lm_role b = ''user''"
    "collect_tool_use_ids a = [k]" "result_ids b = [k]"
proof -
  have use: "map fst (List.map_filter use_of bs) = List.map_filter use_id bs" for bs
  proof (induction bs)
    case (Cons b bs)
    then show ?case by (cases b) (simp_all add: List.map_filter_simps)
  qed (simp add: List.map_filter_simps)
  from assms obtain a b rest where ms: "ms = a # b # rest"
    by (cases ms; cases "tl ms") auto
  from assms ms obtain k n j where "List.map_filter use_of (blocks a) = [(k, n, j)]" "result_ids b = [k]"
    "lm_role a = ''assistant''" "lm_role b = ''user''"
    by (auto split: if_splits list.splits prod.splits)
  moreover from this(1) use [of "blocks a"] have "collect_tool_use_ids a = [k]" by (simp add: collect_tool_use_ids_def)
  ultimately show thesis using ms that by blast
qed

lemma rounds_nth:
  "i < rounds js sig ms \<Longrightarrow> single_tool_round js (drop (2 * i) ms) = Some sig"
proof (induction js sig ms arbitrary: i rule: rounds.induct)
  case (1 js sig a b ms)
  then show ?case by (cases i) (auto split: if_splits)
qed simp_all

lemma drop_two:
  assumes "drop i xs = a # b # rest"
  shows "xs ! i = a" "xs ! (i + 1) = b" "drop (i + 2) xs = rest"
proof -
  from assms have "drop (Suc i) xs = b # rest" by (metis list.sel(3) tl_drop drop_Suc)
  moreover from this have "drop (Suc (Suc i)) xs = rest" by (metis list.sel(3) tl_drop drop_Suc)
  ultimately show "xs ! i = a" "xs ! (i + 1) = b" "drop (i + 2) xs = rest"
    using assms by (simp_all add: nth_via_drop)
qed

lemma log_ok_drop: "log_ok p ms \<Longrightarrow> \<exists>q. log_ok q (drop i ms)"
proof (induction ms arbitrary: p i)
  case (Cons m ms)
  then show ?case by (cases i) (auto intro: exI [of _ p])
qed auto

text \<open>What \<^verbatim>\<open>collapse_repeated_tool_rounds\<close> does at one message.\<close>

lemma collapse_step:
  assumes "log_ok p (m # ms)"
  obtains (keep) "collapse_repeated_tool_rounds js (m # ms) = m # collapse_repeated_tool_rounds js ms"
  | (round) a b b' rest k i where
      "collapse_repeated_tool_rounds js (m # ms) = a # b' # collapse_repeated_tool_rounds js rest"
      "rest = drop i ms" "result_ids m = []" "msg_key b' = msg_key b" "lm_role a = ''assistant''" "lm_role b = ''user''"
      "collect_tool_use_ids a = [k]" "result_ids b = [k]" "result_ids a = []" "log_ok (Some b) rest"
proof (cases "single_tool_round js (m # ms)")
  case None
  then show thesis by (intro keep) (simp add: collapse_repeated_tool_rounds.simps)
next
  case (Some sig)
  let ?n = "rounds js sig (m # ms)" and ?L = "m # ms"
  from Some obtain c ms' where ms: "ms = c # ms'" and "lm_role m = ''assistant''" by (rule single_roundD) auto
  with assms have m: "result_ids m = []" by (auto simp: answers_call_def)
  from Some ms have n: "0 < ?n" by simp
  then have "single_tool_round js (drop (2 * (?n - 1)) ?L) = Some sig" by (intro rounds_nth) simp
  then obtain a b rest k where d: "drop (2 * (?n - 1)) ?L = a # b # rest" and r: "lm_role a = ''assistant''"
    "lm_role b = ''user''" "collect_tool_use_ids a = [k]" "result_ids b = [k]" by (rule single_roundD)
  from log_ok_drop [OF assms, of "2 * (?n - 1)"] obtain q where q: "log_ok q (a # b # rest)" unfolding d by blast
  then have a: "result_ids a = []" "log_ok (Some b) rest" using r by (auto simp: answers_call_def)
  have "rest = drop (2 * (?n - 1) + 1) ms" using drop_two(3) [OF d] by simp
  moreover have "collapse_repeated_tool_rounds js ?L =
      a # (if 2 \<le> ?n then map_blocks (note_block ?n) b else b) # collapse_repeated_tool_rounds js rest"
    unfolding collapse_repeated_tool_rounds.simps Some option.case Let_def drop_two [OF d] by (rule refl)
  ultimately show thesis using r a m
    by (intro round [of a "if 2 \<le> ?n then map_blocks (note_block ?n) b else b" rest "2 * (?n - 1) + 1" b k]) simp_all
qed

lemma paired_drop: "paired ms \<Longrightarrow> paired (drop i ms)"
  by (induction ms arbitrary: i) (simp_all add: drop_Cons split: nat.split)

lemma satisfied_collapse:
  "log_ok p ms \<Longrightarrow> set (collect_satisfied_tool_ids ms) \<subseteq>
     set (collect_satisfied_tool_ids (collapse_repeated_tool_rounds js ms))"
proof (induction ms arbitrary: p)
  case (Cons m ms)
  from Cons.prems show ?case
  proof (cases rule: collapse_step [of _ _ _ js])
    case keep
    with Cons show ?thesis by (auto simp: satisfied_Cons)
  next
    case round
    then show ?thesis by (simp add: satisfied_Cons)
  qed
qed simp

lemma collapse_pairs:
  "log_ok p ms \<Longrightarrow> paired ms \<Longrightarrow>
     log_ok p (collapse_repeated_tool_rounds js ms) \<and> paired (collapse_repeated_tool_rounds js ms)"
proof (induction "length ms" arbitrary: ms p rule: less_induct)
  case less
  show ?case
  proof (cases ms)
    case (Cons m rest)
    with less.prems have log: "log_ok p (m # rest)" by simp
    then show ?thesis
    proof (cases rule: collapse_step [of _ _ _ js])
      case keep
      with less.hyps [of rest "Some m"] less.prems Cons satisfied_collapse [of "Some m" rest js] show ?thesis
        by auto
    next
      case (round a b b' rest' k i)
      have "paired rest'" using less.prems(2) Cons round(2) paired_drop by simp
      have "log_ok (Some b') rest'" using round(4,10) log_ok_keys [OF refl, of "Some b'" "Some b" rest'] by simp
      with less.hyps [of rest' "Some b'"] round Cons \<open>paired rest'\<close> show ?thesis
        by (auto simp: satisfied_Cons answers_call_def dest: msg_keyD)
    qed
  qed (simp add: collapse_repeated_tool_rounds.simps)
qed

section \<open>Sizes and recency\<close>

lemma trim_search_bound:
  "estimate_tokens best \<le> limit \<Longrightarrow> estimate_tokens (trim_search cs limit low high best) \<le> limit"
proof (induction cs limit low high best rule: trim_search.induct)
  case (1 cs limit low high best)
  show ?case
    by (subst trim_search.simps) (use 1 in \<open>auto simp: Let_def\<close>)
qed

lemma trim_result_bound: "estimate_tokens (trim_tool_result_to_token_limit content limit) \<le> limit"
  by (auto simp: trim_tool_result_to_token_limit_def Let_def estimate_tokens_def [of "[]"] intro!: trim_search_bound)

lemma carrier_loop_count:
  "keep \<le> c + length (filter is_tool_result_carrier (drop (carrier_loop keep (rev (enumerate 0 ms)) c) ms)) \<or>
     carrier_loop keep (rev (enumerate 0 ms)) c = 0"
proof (induction ms arbitrary: c rule: rev_induct)
  case (snoc m ms)
  have "drop i (ms @ [m]) = drop i ms @ drop (i - length ms) [m]" for i by simp
  moreover have le: "carrier_loop keep (rev (enumerate 0 ms)) c' \<le> length ms" for c'
  proof -
    have xs: "set xs \<subseteq> {0..length ms} \<times> UNIV \<Longrightarrow> carrier_loop keep xs c' \<le> length ms" for xs :: "(nat \<times> LlmMessage) list"
      by (induction keep xs c' rule: carrier_loop.induct) auto
    show ?thesis by (rule xs) (auto simp: in_set_enumerate_eq)
  qed
  ultimately show ?case
    using snoc.IH [of c] snoc.IH [of "Suc c"] le [of c] le [of "Suc c"] by (auto simp: enumerate_append_eq)
qed simp

lemma snap_loop_le: "snap_loop n ms i \<le> i"
  by (induction n ms i rule: snap_loop.induct) (auto intro: le_trans)

lemma recent_start_le: "recent_start_of ms ft tc \<le> tool_carrier_recent_start ms tc"
proof -
  have "snap_to_pair_boundary ms i \<le> i" for i
    by (simp add: snap_to_pair_boundary_def snap_loop_le)
  then show ?thesis unfolding recent_start_of_def using min.bounded_iff by blast
qed

lemma nth_build_request:
  fixes ms tm ft tc
  defines "kept \<equiv> sanitize_tool_use_result_pairing (strip_ephemeral_tool_exchanges ms)"
  shows "length (build_request_messages ms tm ft tc) = length kept"
    and "i < length kept \<Longrightarrow> recent_start_of kept ft tc \<le> i \<Longrightarrow> build_request_messages ms tm ft tc ! i = kept ! i"
  by (simp_all add: build_request_messages_def Let_def kept_def nth_enumerate_eq)

lemma request_view_ok:
  assumes "log_ok None messages"
  shows "paired (build_request_view_messages js messages tm ft tc budget cap) \<and>
    log_ok None (build_request_view_messages js messages tm ft tc budget cap)"
proof -
  let ?kept = "sanitize_tool_use_result_pairing (strip_ephemeral_tool_exchanges messages)"
  let ?out = "build_request_messages messages tm ft tc"
  let ?cut = "if cap \<noteq> 0 then compact_trim_tool_results ?out (min (budget div 2) cap) else ?out"
  from log_ok_strip_ephemeral [OF assms] have strip: "log_ok None (strip_ephemeral_tool_exchanges messages)" .
  have keys: "map msg_key ?cut = map msg_key ?kept" by (simp add: keys_compact_trim keys_build_request)
  have "paired ?cut" "log_ok None ?cut"
    using paired_sanitize [OF log_ok_tidy [OF strip]] log_ok_sanitize [OF strip]
      paired_keys [OF keys] log_ok_keys [OF keys, of None None] by simp_all
  then show ?thesis unfolding build_request_view_messages_def Let_def using collapse_pairs by blast
qed

section \<open>Properties\<close>

text \<open>
  Every request matches its tool calls and its tool results: when in the log each message with
  results directly follows the assistant message whose calls it answers, then in the request every
  call has a result in the message after it and every result answers a call of the message before it,
  whatever calls were left unanswered, polled or repeated, and whatever was demoted or trimmed.
\<close>

theorem request_view_matches:
  assumes "log_ok None messages"
  shows "paired (build_request_view_messages js messages tm ft tc budget cap) \<and>
    log_ok None (build_request_view_messages js messages tm ft tc budget cap)"
  by (rule request_view_ok [OF assms])

definition said :: "string \<Rightarrow> LlmMessage" where
  "said t = \<lparr>lm_role = ''user'', lm_content = Text t\<rparr>"

definition called :: "(string \<times> string) list \<Rightarrow> LlmMessage" where
  "called cs = \<lparr>lm_role = ''assistant'', lm_content = Blocks (map (\<lambda>(k, n). ToolUse k n (JObj [])) cs)\<rparr>"

definition answered :: "string list \<Rightarrow> LlmMessage" where
  "answered ks = \<lparr>lm_role = ''user'', lm_content = Blocks (map (\<lambda>k. ToolResult k ''done'' False) ks)\<rparr>"

text \<open>A call without an answer, and one call made twice in a row.\<close>

definition sample_log :: "LlmMessage list" where
  "sample_log = [said ''Go on'', called [(''c1'', ''shell''), (''c2'', ''shell'')], answered [''c1''],
     called [(''c3'', ''read'')], answered [''c3''], called [(''c4'', ''read'')], answered [''c4'']]"

theorem request_view_matches_witness:
  "paired (build_request_view_messages (\<lambda>_. ''{}'') sample_log Map.empty 3 8 1000 100) \<and>
   map collect_tool_use_ids (build_request_view_messages (\<lambda>_. ''{}'') sample_log Map.empty 3 8 1000 100) =
     [[], [''c1''], [], [''c4''], []]"
proof -
  have "log_ok None sample_log" by code_simp
  moreover have "map collect_tool_use_ids (build_request_view_messages (\<lambda>_. ''{}'') sample_log Map.empty 3 8 1000 100) =
      [[], [''c1''], [], [''c4''], []]" by code_simp
  ultimately show ?thesis using request_view_matches by blast
qed

text \<open>
  Trimming respects its limit: afterwards no tool result in a message of the user is estimated at
  more tokens than allowed, be the limit as small as it may.
\<close>

theorem trimmed_results_fit:
  assumes "m \<in> set (compact_trim_tool_results messages limit)" and "lm_role m = ''user''"
    and "ToolResult k content e \<in> set (blocks m)"
  shows "estimate_tokens content \<le> limit"
proof -
  from assms(1,2) obtain n where m: "m = map_blocks (trim_block limit) n"
    by (auto simp: compact_trim_tool_results_def map_blocks_def split: if_splits MessageContent.splits)
  with assms(3) obtain b where "ToolResult k content e = trim_block limit b"
    by (cases "lm_content n") (auto simp: map_blocks_def)
  then show ?thesis
    by (cases b) (auto simp: trim_result_bound not_less split: if_splits)
qed

definition long_result :: LlmMessage where
  "long_result = \<lparr>lm_role = ''user'', lm_content = Blocks [ToolResult ''c2'' (replicate 120 CHR 0x61) False]\<rparr>"

theorem trimmed_results_fit_witness:
  "set (map (\<lambda>m. list_ex (\<lambda>b. case b of ToolResult k c e \<Rightarrow> 20 < estimate_tokens c | _ \<Rightarrow> False) (blocks m))
     (compact_trim_tool_results [answered [''c1''], long_result] 20)) = {False}"
proof -
  have "estimate_tokens c \<le> 20" if "m \<in> set (compact_trim_tool_results [answered [''c1''], long_result] 20)"
    "ToolResult k c e \<in> set (blocks m)" for m k c e
  proof -
    have "lm_role m = ''user''"
      using that(1) by (auto simp: compact_trim_tool_results_def map_blocks_def answered_def long_result_def)
    with that show ?thesis using trimmed_results_fit by blast
  qed
  then show ?thesis by (force simp: list_ex_iff compact_trim_tool_results_def not_less split: ContentBlock.splits)
qed

text \<open>
  The newest results reach the model as they are: a message after which fewer than the given number
  of messages with results follow is sent unchanged, however old its turn is.
\<close>

theorem newest_results_verbatim:
  assumes "kept = sanitize_tool_use_result_pairing (strip_ephemeral_tool_exchanges messages)"
    and "i < length kept" and "length (filter is_tool_result_carrier (drop (Suc i) kept)) < tc"
  shows "build_request_messages messages tm ft tc ! i = kept ! i"
proof -
  let ?r = "tool_carrier_recent_start kept tc"
  have "?r \<le> i"
  proof (rule ccontr)
    assume "\<not> ?r \<le> i"
    then have "?r \<noteq> 0" and "Suc i \<le> ?r" by simp_all
    then have "tc \<le> length (filter is_tool_result_carrier (drop ?r kept))"
      using carrier_loop_count [of tc 0 kept] assms(3) by (auto simp: tool_carrier_recent_start_def split: if_splits)
    also have "\<dots> \<le> length (filter is_tool_result_carrier (drop (Suc i) kept))"
    proof -
      have "drop ?r kept = drop (?r - Suc i) (drop (Suc i) kept)" using \<open>Suc i \<le> ?r\<close> by simp
      then have "drop (Suc i) kept = take (?r - Suc i) (drop (Suc i) kept) @ drop ?r kept"
        by (metis append_take_drop_id)
      then show ?thesis by (metis filter_append le_add2 length_append)
    qed
    finally show False using assms(3) by simp
  qed
  with recent_start_le [of kept ft tc] nth_build_request(2) [of i messages ft tc tm] assms(1,2) show ?thesis
    by (simp add: le_trans)
qed

theorem newest_results_verbatim_witness:
  "build_request_messages sample_log (\<lambda>_. Some ''ran'') 1 2 ! 6 = answered [''c4'']"
proof -
  let ?kept = "sanitize_tool_use_result_pairing (strip_ephemeral_tool_exchanges sample_log)"
  have k: "?kept ! 6 = answered [''c4'']" "length ?kept = 7"
    "length (filter is_tool_result_carrier (drop (Suc 6) ?kept)) = 0" by code_simp+
  show ?thesis by (subst newest_results_verbatim [OF refl, of 6]) (simp_all add: k)
qed

end
