(* ===== verification/Loop_Guard.thy ===== *)
theory Loop_Guard
  imports Llm_Messages
begin

text \<open>
  The guards of the agent loop (\<^verbatim>\<open>agent/loop_.rs\<close>): the detectors of repeated tool calls with their
  history, the time limits, the retry bounds, and the limit on the size of a result. What a platform
  decides at compile time and what Rust does not specify is a parameter: whether the target is Windows,
  the algorithm of \<^verbatim>\<open>DefaultHasher\<close> on the bytes it is fed, the rendering of JSON.
\<close>

type_synonym u64 = "64 word"

record platform =
  windows :: bool
  hasher :: "string \<Rightarrow> u64"
  json_string :: "json \<Rightarrow> string"

section \<open>Time limits and retries\<close>

definition TOOL_TIMEOUT_SECS :: nat where "TOOL_TIMEOUT_SECS = 120"
definition TOOL_TIMEOUT_SLACK_SECS :: nat where "TOOL_TIMEOUT_SLACK_SECS = 30"
definition TOOL_TIMEOUT_MAX_SECS :: nat where "TOOL_TIMEOUT_MAX_SECS = 3600"

fun json_as_u64 :: "json \<Rightarrow> nat option" where
  "json_as_u64 (JInt i) = (if 0 \<le> i \<and> i < 2 ^ 64 then Some (nat i) else None)"
| "json_as_u64 _ = None"

definition tool_timeout_for :: "json \<Rightarrow> nat" where
  "tool_timeout_for input =
     (let field = (\<lambda>k. Option.bind (json_get input k) json_as_u64);
          own = (case field ''timeout'' of
                   Some s \<Rightarrow> Some s
                 | None \<Rightarrow>
                     (case field ''timeout_secs'' of
                        Some s \<Rightarrow> Some s
                      | None \<Rightarrow> map_option (\<lambda>ms. (ms + 999) div 1000) (field ''timeout_ms'')))
      in case own of
           Some s \<Rightarrow> max (min s TOOL_TIMEOUT_MAX_SECS + TOOL_TIMEOUT_SLACK_SECS) TOOL_TIMEOUT_SECS
         | None \<Rightarrow> TOOL_TIMEOUT_SECS + TOOL_TIMEOUT_SLACK_SECS)"

definition MAX_SAME_MODEL_ATTEMPTS :: nat where "MAX_SAME_MODEL_ATTEMPTS = 5"
definition MAX_MODEL_CANDIDATES :: nat where "MAX_MODEL_CANDIDATES = 4"
definition MAX_MAIN_CALLS_PER_ITERATION :: nat where "MAX_MAIN_CALLS_PER_ITERATION = 12"

text \<open>In seconds; the shift never overflows, as it is by three at most.\<close>

definition retry_backoff :: "u32 \<Rightarrow> nat" where
  "retry_backoff attempt = min (2 ^ min (unat attempt) 3) 8"

fun add_candidates :: "string list \<Rightarrow> string list \<Rightarrow> string list" where
  "add_candidates candidates [] = candidates"
| "add_candidates candidates (fallback # fallbacks) =
     (if length candidates = MAX_MODEL_CANDIDATES then candidates
      else add_candidates (if fallback \<in> set candidates then candidates else candidates @ [fallback]) fallbacks)"

definition bounded_model_candidates :: "string \<Rightarrow> string list \<Rightarrow> string list" where
  "bounded_model_candidates primary fallbacks = add_candidates [primary] fallbacks"

text \<open>Whether a reply asks the user: the last 400 characters decide.\<close>

definition WAITING :: "string list" where
  "WAITING =
     [[CHR 0xE7, CHR 0xAD, CHR 0x89, CHR 0xE4, CHR 0xBD, CHR 0xA0], [CHR 0xE7, CHR 0xAD, CHR 0x89, CHR 0xE6, CHR 0x82, CHR 0xA8], [CHR 0xE8, CHR 0xAF, CHR 0xB7, CHR 0xE7, CHR 0xA1, CHR 0xAE, CHR 0xE8, CHR 0xAE, CHR 0xA4], [CHR 0xE8, CHR 0xAF, CHR 0xB7, CHR 0xE4, CHR 0xBD, CHR 0xA0, CHR 0xE7, CHR 0xA1, CHR 0xAE,
       CHR 0xE8, CHR 0xAE, CHR 0xA4],
      [CHR 0xE9, CHR 0x9C, CHR 0x80, CHR 0xE8, CHR 0xA6, CHR 0x81, CHR 0xE4, CHR 0xBD, CHR 0xA0,
       CHR 0xE7, CHR 0xA1, CHR 0xAE, CHR 0xE8, CHR 0xAE, CHR 0xA4], [CHR 0xE9, CHR 0x9C, CHR 0x80, CHR 0xE8, CHR 0xA6, CHR 0x81, CHR 0xE6, CHR 0x82, CHR 0xA8,
       CHR 0xE7, CHR 0xA1, CHR 0xAE, CHR 0xE8, CHR 0xAE, CHR 0xA4],
      [CHR 0xE6, CHR 0x98, CHR 0xAF, CHR 0xE5, CHR 0x90, CHR 0xA6, CHR 0xE7, CHR 0xBB, CHR 0xA7,
       CHR 0xE7, CHR 0xBB, CHR 0xAD], [CHR 0xE8, CHR 0xA6, CHR 0x81, CHR 0xE4, CHR 0xB8, CHR 0x8D, CHR 0xE8, CHR 0xA6, CHR 0x81], [CHR 0xE8, CHR 0xA6, CHR 0x81, CHR 0xE6, CHR 0x88, CHR 0x91, CHR 0xE7, CHR 0xBB, CHR 0xA7,
       CHR 0xE7, CHR 0xBB, CHR 0xAD],
      [CHR 0xE4, CHR 0xBD, CHR 0xA0, CHR 0xE5, CHR 0x86, CHR 0xB3, CHR 0xE5, CHR 0xAE, CHR 0x9A], [CHR 0xE6, CHR 0x82, CHR 0xA8, CHR 0xE5, CHR 0x86, CHR 0xB3, CHR 0xE5, CHR 0xAE, CHR 0x9A], [CHR 0xE7, CHR 0xAD, CHR 0x89, CHR 0xE5, CHR 0xBE, CHR 0x85, CHR 0xE4, CHR 0xBD, CHR 0xA0],
      [CHR 0xE7, CHR 0xAD, CHR 0x89, CHR 0xE5, CHR 0xBE, CHR 0x85, CHR 0xE6, CHR 0x82, CHR 0xA8], [CHR 0xE6, CHR 0x98, CHR 0x8E, CHR 0xE7, CHR 0xA1, CHR 0xAE, CHR 0xE5, CHR 0x90, CHR 0x8C,
       CHR 0xE6, CHR 0x84, CHR 0x8F],
      ''waiting for your'', ''wait for your'', ''let me know'', ''should i '', ''shall i '',
      ''do you want'', ''would you like'', ''please confirm'', ''your approval'']"

definition awaits_user :: "string \<Rightarrow> bool" where
  "awaits_user text =
     (let cs = chars (trim_end text);
          tail = concat (drop (length cs - 400) cs)
      in if contains tail [CHR 0xEF, CHR 0xBC, CHR 0x9F] \<or> ends_with (trim_end tail) ''?'' then True
         else list_ex (contains (to_lowercase tail)) WAITING)"

section \<open>Thresholds and kinds of tools\<close>

definition TOOL_CALL_HISTORY_SIZE :: nat where "TOOL_CALL_HISTORY_SIZE = 128"
definition WARNING_THRESHOLD :: nat where "WARNING_THRESHOLD = 64"
definition CRITICAL_THRESHOLD :: nat where "CRITICAL_THRESHOLD = 128"
definition CIRCUIT_BREAKER_THRESHOLD :: nat where "CIRCUIT_BREAKER_THRESHOLD = 64"
definition RESEARCH_WARNING_THRESHOLD :: nat where "RESEARCH_WARNING_THRESHOLD = 64"
definition RESEARCH_CRITICAL_THRESHOLD :: nat where "RESEARCH_CRITICAL_THRESHOLD = 128"
definition RESEARCH_RECENT_WINDOW :: nat where "RESEARCH_RECENT_WINDOW = 64"
definition PING_PONG_WARNING :: nat where "PING_PONG_WARNING = 64"
definition PING_PONG_CRITICAL :: nat where "PING_PONG_CRITICAL = 128"
definition TOOL_RESULT_HARD_MAX_CHARS :: nat where "TOOL_RESULT_HARD_MAX_CHARS = 48000"

definition VISION_LOOP_CONSECUTIVE_THRESHOLD :: "platform \<Rightarrow> nat" where
  "VISION_LOOP_CONSECUTIVE_THRESHOLD p = (if windows p then 8 else 15)"

definition KNOWN_POLL_TOOLS :: "string list" where
  "KNOWN_POLL_TOOLS = [''process_control'', ''shell'', ''powershell_query'']"

definition KNOWLEDGE_GATHERING_TOOLS :: "string list" where
  "KNOWLEDGE_GATHERING_TOOLS = [''web_search'', ''browser'']"

definition VISION_LOOP_KEYWORDS :: "string list" where
  "VISION_LOOP_KEYWORDS = [''screenshot'', ''screen_analyze'', ''vision_analyze'', ''screen_capture'', ''vision_context'']"

definition SUBSTANTIVE_DESKTOP_ACTIONS :: "string list" where
  "SUBSTANTIVE_DESKTOP_ACTIONS =
     [''click'', ''double_click'', ''right_click'', ''type_text'', ''hotkey'', ''drag'', ''drag_to'',
      ''scroll'', ''launch_app'', ''activate_window'']"

definition is_vision_tool :: "string \<Rightarrow> bool" where
  "is_vision_tool name \<longleftrightarrow> list_ex (contains (to_lowercase name)) VISION_LOOP_KEYWORDS"

definition desktop_action :: "string \<Rightarrow> json \<Rightarrow> string option" where
  "desktop_action name input =
     (if name = ''desktop_automation'' then Option.bind (json_get input ''action'') json_as_str else None)"

definition is_substantive_desktop_action :: "platform \<Rightarrow> string \<Rightarrow> json \<Rightarrow> bool" where
  "is_substantive_desktop_action p name input \<longleftrightarrow>
     (case desktop_action name input of
        Some action \<Rightarrow> action \<in> set SUBSTANTIVE_DESKTOP_ACTIONS
      | None \<Rightarrow> windows p \<and> name = ''uia'')"

definition is_calibration_move :: "platform \<Rightarrow> string \<Rightarrow> json \<Rightarrow> bool" where
  "is_calibration_move p name input \<longleftrightarrow>
     \<not> windows p \<and>
     (case desktop_action name input of
        Some action \<Rightarrow> action = ''move_mouse'' \<or> action = ''get_cursor_position''
      | None \<Rightarrow> False)"

definition vision_loop_warning :: "nat \<Rightarrow> string" where
  "vision_loop_warning threshold =
     (''['' @
       [CHR 0xE8, CHR 0xA7, CHR 0x86, CHR 0xE8, CHR 0xA7, CHR 0x89, CHR 0xE5, CHR 0xBE, CHR 0xAA,
       CHR 0xE7, CHR 0x8E, CHR 0xAF, CHR 0xE6, CHR 0xA3, CHR 0x80, CHR 0xE6, CHR 0xB5, CHR 0x8B] @
       ''] '' @
       [CHR 0xE5, CHR 0xB7, CHR 0xB2, CHR 0xE8, CHR 0xBF, CHR 0x9E, CHR 0xE7, CHR 0xBB, CHR 0xAD]) @ nat_digits threshold @
     ([CHR 0xE8, CHR 0xBD, CHR 0xAE, CHR 0xE4, CHR 0xBB, CHR 0x85, CHR 0xE6, CHR 0x89, CHR 0xA7,
       CHR 0xE8, CHR 0xA1, CHR 0x8C, CHR 0xE6, CHR 0x88, CHR 0xAA, CHR 0xE5, CHR 0x9B, CHR 0xBE] @
       ''/'' @
       [CHR 0xE8, CHR 0xA7, CHR 0x86, CHR 0xE8, CHR 0xA7, CHR 0x89, CHR 0xE5, CHR 0x88, CHR 0x86,
       CHR 0xE6, CHR 0x9E, CHR 0x90, CHR 0xEF, CHR 0xBC, CHR 0x8C, CHR 0xE6, CHR 0x9C, CHR 0xAA,
       CHR 0xE6, CHR 0x89, CHR 0xA7, CHR 0xE8, CHR 0xA1, CHR 0x8C, CHR 0xE4, CHR 0xBB, CHR 0xBB,
       CHR 0xE4, CHR 0xBD, CHR 0x95, CHR 0xE5, CHR 0xAE, CHR 0x9E, CHR 0xE8, CHR 0xB4, CHR 0xA8,
       CHR 0xE6, CHR 0x80, CHR 0xA7, CHR 0xE5, CHR 0x8A, CHR 0xA8, CHR 0xE4, CHR 0xBD, CHR 0x9C,
       CHR 0xEF, CHR 0xBC, CHR 0x88, CHR 0xE7, CHR 0x82, CHR 0xB9, CHR 0xE5, CHR 0x87, CHR 0xBB,
       CHR 0xE8, CHR 0xBE, CHR 0x93, CHR 0xE5, CHR 0x85, CHR 0xA5, CHR 0xE6, CHR 0xA1, CHR 0x86,
       CHR 0xE3, CHR 0x80, CHR 0x81, CHR 0xE8, CHR 0xBE, CHR 0x93, CHR 0xE5, CHR 0x85, CHR 0xA5,
       CHR 0xE6, CHR 0x96, CHR 0x87, CHR 0xE5, CHR 0xAD, CHR 0x97, CHR 0xE3, CHR 0x80, CHR 0x81,
       CHR 0xE6, CHR 0x8C, CHR 0x89, CHR 0xE5, CHR 0x9B, CHR 0x9E, CHR 0xE8, CHR 0xBD, CHR 0xA6,
       CHR 0xE7, CHR 0xAD, CHR 0x89, CHR 0xEF, CHR 0xBC, CHR 0x89, CHR 0xE3, CHR 0x80, CHR 0x82,
       CHR 0xE8, CHR 0xAF, CHR 0xB7, CHR 0xE7, CHR 0xAB, CHR 0x8B, CHR 0xE5, CHR 0x8D, CHR 0xB3,
       CHR 0xE6, CHR 0x89, CHR 0xA7, CHR 0xE8, CHR 0xA1, CHR 0x8C, CHR 0xE4, CHR 0xBB, CHR 0xA5,
       CHR 0xE4, CHR 0xB8, CHR 0x8B, CHR 0xE6, CHR 0x93, CHR 0x8D, CHR 0xE4, CHR 0xBD, CHR 0x9C,
       CHR 0xEF, CHR 0xBC, CHR 0x9A] @
       ''(1) '' @
       [CHR 0xE7, CHR 0x82, CHR 0xB9, CHR 0xE5, CHR 0x87, CHR 0xBB, CHR 0xE8, CHR 0xBE, CHR 0x93,
       CHR 0xE5, CHR 0x85, CHR 0xA5, CHR 0xE6, CHR 0xA1, CHR 0x86, CHR 0xE8, CHR 0x8E, CHR 0xB7,
       CHR 0xE5, CHR 0xBE, CHR 0x97, CHR 0xE7, CHR 0x84, CHR 0xA6, CHR 0xE7, CHR 0x82, CHR 0xB9,
       CHR 0xEF, CHR 0xBC, CHR 0x88, CHR 0xE4, CHR 0xB8, CHR 0x80, CHR 0xE6, CHR 0xAC, CHR 0xA1] @
       '' click'' @
       [CHR 0xEF, CHR 0xBC, CHR 0x89, CHR 0xEF, CHR 0xBC, CHR 0x9B] @
       ''(2) '' @
       [CHR 0xE5, CHR 0x9C, CHR 0xA8, CHR 0xE5, CHR 0x90, CHR 0x8C, CHR 0xE4, CHR 0xB8, CHR 0x80,
       CHR 0xE5, CHR 0x9B, CHR 0x9E, CHR 0xE5, CHR 0x90, CHR 0x88, CHR 0xE5, CHR 0x86, CHR 0x85,
       CHR 0xE7, CHR 0x9B, CHR 0xB4, CHR 0xE6, CHR 0x8E, CHR 0xA5, CHR 0xE8, CHR 0xBE, CHR 0x93,
       CHR 0xE5, CHR 0x85, CHR 0xA5, CHR 0xE7, CHR 0x9B, CHR 0xAE, CHR 0xE6, CHR 0xA0, CHR 0x87,
       CHR 0xE6, CHR 0x96, CHR 0x87, CHR 0xE6, CHR 0x9C, CHR 0xAC, CHR 0xEF, CHR 0xBC, CHR 0x9B] @
       ''(3) '' @
       [CHR 0xE6, CHR 0x8C, CHR 0x89, CHR 0xE5, CHR 0x9B, CHR 0x9E, CHR 0xE8, CHR 0xBD, CHR 0xA6,
       CHR 0xE5, CHR 0x8F, CHR 0x91, CHR 0xE9, CHR 0x80, CHR 0x81, CHR 0xE3, CHR 0x80, CHR 0x82,
       CHR 0xE4, CHR 0xB8, CHR 0x8D, CHR 0xE8, CHR 0xA6, CHR 0x81, CHR 0xE5, CHR 0x86, CHR 0x8D,
       CHR 0xE6, CHR 0x88, CHR 0xAA, CHR 0xE5, CHR 0x9B, CHR 0xBE, CHR 0xE9, CHR 0xAA, CHR 0x8C,
       CHR 0xE8, CHR 0xAF, CHR 0x81, CHR 0xEF, CHR 0xBC, CHR 0x8C, CHR 0xE4, CHR 0xB8, CHR 0x8D,
       CHR 0xE8, CHR 0xA6, CHR 0x81, CHR 0xE5, CHR 0x86, CHR 0x8D, CHR 0xE7, CHR 0xA7, CHR 0xBB,
       CHR 0xE5, CHR 0x8A, CHR 0xA8, CHR 0xE9, CHR 0xBC, CHR 0xA0, CHR 0xE6, CHR 0xA0, CHR 0x87,
       CHR 0xE7, CHR 0xA1, CHR 0xAE, CHR 0xE8, CHR 0xAE, CHR 0xA4, CHR 0xE4, CHR 0xBD, CHR 0x8D,
       CHR 0xE7, CHR 0xBD, CHR 0xAE, CHR 0xE3, CHR 0x80, CHR 0x82])"

section \<open>The history of calls\<close>

datatype LoopLevel = LevelOk | Warning | Critical

datatype LoopDetector = GenericRepeat | KnownPollNoProgress | PingPong | GlobalCircuitBreaker | VisionLoop

record LoopDetectionResult =
  level :: LoopLevel
  detector :: "LoopDetector option"
  loop_count :: nat
  loop_message :: string

definition loop_ok :: LoopDetectionResult where
  "loop_ok = \<lparr>level = LevelOk, detector = None, loop_count = 0, loop_message = []\<rparr>"

record ToolCallRecord =
  rec_name :: string
  input_hash :: u64
  result_hash :: u64
  norm_hash :: u64

record LoopDetectorState =
  history :: "ToolCallRecord list"
  consecutive_vision_only_turns :: nat
  warned :: "u64 \<rightharpoonup> nat"

text \<open>Hashing a string feeds its bytes and 0xFF; hashing a character feeds its four bytes.\<close>

definition stable_hash_input :: "platform \<Rightarrow> string \<Rightarrow> json \<Rightarrow> u64" where
  "stable_hash_input p name input =
     hasher p (name @ [CHR 0xFF] @ json_string p (json_remove input ''_trace_id'') @ [CHR 0xFF])"

definition stable_hash_result :: "platform \<Rightarrow> string \<Rightarrow> u64" where
  "stable_hash_result p content = hasher p (content @ [CHR 0xFF])"

definition char_bytes :: "string \<Rightarrow> string" where
  "char_bytes c = map (\<lambda>i. char_of (code_point c div 256 ^ i mod 256)) [0, 1, 2, 3]"

definition is_ascii_digit :: "string \<Rightarrow> bool" where
  "is_ascii_digit c \<longleftrightarrow> 48 \<le> code_point c \<and> code_point c \<le> 57"

text \<open>\<^verbatim>\<open>split(pat).next()\<close>: what stands before the first occurrence.\<close>

fun before_first :: "string \<Rightarrow> string \<Rightarrow> string" where
  "before_first pat [] = []"
| "before_first pat (b # bs) = (if prefix pat (b # bs) then [] else b # before_first pat bs)"

definition stable_hash_normalized :: "platform \<Rightarrow> string \<Rightarrow> u64" where
  "stable_hash_normalized p content =
     hasher p (concat (map char_bytes
       (filter (\<lambda>c. \<not> is_ascii_digit c) (chars (before_first ''[recovery_v1]'' content)))))"

definition same_call :: "string \<Rightarrow> u64 \<Rightarrow> ToolCallRecord \<Rightarrow> bool" where
  "same_call name hash r \<longleftrightarrow> rec_name r = name \<and> input_hash r = hash"

definition record_call ::
  "platform \<Rightarrow> string \<Rightarrow> json \<Rightarrow> u64 \<Rightarrow> u64 \<Rightarrow> LoopDetectorState \<Rightarrow> LoopDetectorState" where
  "record_call p name input rh nh st =
     (let h = history st @ [\<lparr>rec_name = name, input_hash = stable_hash_input p name input,
                             result_hash = rh, norm_hash = nh\<rparr>]
      in st\<lparr>history := if TOOL_CALL_HISTORY_SIZE < length h then tl h else h\<rparr>)"

text \<open>What the loop does with a result: polls of \<^verbatim>\<open>wait_for_koi\<close> are not recorded.\<close>

definition note_result :: "platform \<Rightarrow> string \<Rightarrow> json \<Rightarrow> string \<Rightarrow> LoopDetectorState \<Rightarrow> LoopDetectorState" where
  "note_result p name input content st =
     (if is_ephemeral_tool_call name input then st
      else record_call p name input (stable_hash_result p content) (stable_hash_normalized p content) st)"

fun seed_block ::
  "platform \<Rightarrow> ContentBlock \<Rightarrow> (string \<rightharpoonup> string \<times> json) \<times> LoopDetectorState \<Rightarrow>
     (string \<rightharpoonup> string \<times> json) \<times> LoopDetectorState" where
  "seed_block p (ToolUse k name input) (calls, st) = (calls(k \<mapsto> (name, input)), st)"
| "seed_block p (ToolResult k content e) (calls, st) =
     (case calls k of
        None \<Rightarrow> (calls, st)
      | Some (name, input) \<Rightarrow>
          (calls, record_call p name input (stable_hash_result p content) (stable_hash_normalized p content) st))"
| "seed_block p _ (calls, st) = (calls, st)"

definition seed_from_messages :: "platform \<Rightarrow> LlmMessage list \<Rightarrow> LoopDetectorState \<Rightarrow> LoopDetectorState" where
  "seed_from_messages p messages st =
     snd (fold (seed_block p) (concat (map blocks messages)) (Map.empty, st))"

section \<open>Counting\<close>

fun no_progress :: "string \<Rightarrow> u64 \<Rightarrow> u64 option \<Rightarrow> ToolCallRecord list \<Rightarrow> nat" where
  "no_progress name hash last_result [] = 0"
| "no_progress name hash last_result (r # rs) =
     (if same_call name hash r \<and> (last_result = None \<or> last_result = Some (result_hash r))
      then Suc (no_progress name hash (Some (result_hash r)) rs) else 0)"

definition count_no_progress_streak :: "LoopDetectorState \<Rightarrow> string \<Rightarrow> u64 \<Rightarrow> nat" where
  "count_no_progress_streak st name hash = no_progress name hash None (rev (history st))"

definition count_same_tool_streak :: "LoopDetectorState \<Rightarrow> string \<Rightarrow> u64 \<Rightarrow> nat" where
  "count_same_tool_streak st name hash = length (takeWhile (same_call name hash) (rev (history st)))"

definition count_same_tool_total :: "LoopDetectorState \<Rightarrow> string \<Rightarrow> u64 \<Rightarrow> nat" where
  "count_same_tool_total st name hash = length (filter (same_call name hash) (history st))"

definition same_tool_family :: "string \<Rightarrow> string \<Rightarrow> bool" where
  "same_tool_family a b \<longleftrightarrow> a = b \<or>
     list_ex (contains a) KNOWLEDGE_GATHERING_TOOLS \<and> list_ex (contains b) KNOWLEDGE_GATHERING_TOOLS"

definition count_recent_tool_family_same_input ::
  "LoopDetectorState \<Rightarrow> string \<Rightarrow> u64 \<Rightarrow> nat \<Rightarrow> nat" where
  "count_recent_tool_family_same_input st name hash window =
     length (filter (\<lambda>r. same_tool_family (rec_name r) name \<and> input_hash r = hash)
       (take window (rev (history st))))"

text \<open>The walk back through alternating calls; the first flag is \<^verbatim>\<open>expect_b\<close>.\<close>

fun alternations :: "bool \<Rightarrow> (ToolCallRecord \<Rightarrow> bool) \<Rightarrow> (ToolCallRecord \<Rightarrow> bool) \<Rightarrow> ToolCallRecord list \<Rightarrow> nat" where
  "alternations expect_b is_a is_b [] = 0"
| "alternations expect_b is_a is_b (r # rs) =
     (if expect_b \<and> is_b r then Suc (alternations False is_a is_b rs)
      else if \<not> expect_b \<and> is_a r then alternations True is_a is_b rs
      else 0)"

definition detect_ping_pong :: "LoopDetectorState \<Rightarrow> string \<Rightarrow> u64 \<Rightarrow> nat" where
  "detect_ping_pong st name hash =
     (if length (history st) < 2 then 0
      else let l = last (history st)
           in if same_call name hash l then 0
              else alternations True (same_call name hash) (same_call (rec_name l) (input_hash l))
                     (rev (history st)))"

definition count_recent_vision_density :: "LoopDetectorState \<Rightarrow> nat \<Rightarrow> nat \<times> nat" where
  "count_recent_vision_density st window =
     (let s = drop (length (history st) - window) (history st)
      in (length (filter (\<lambda>r. is_vision_tool (rec_name r)) s), length s))"

section \<open>The detectors\<close>

definition found :: "LoopLevel \<Rightarrow> LoopDetector \<Rightarrow> nat \<Rightarrow> string \<Rightarrow> LoopDetectionResult option" where
  "found l d n msg = Some \<lparr>level = l, detector = Some d, loop_count = n, loop_message = msg\<rparr>"

definition circuit_breaker :: "LoopDetectorState \<Rightarrow> string \<Rightarrow> u64 \<Rightarrow> LoopDetectionResult option" where
  "circuit_breaker st name hash =
     (let streak = count_no_progress_streak st name hash
      in if CIRCUIT_BREAKER_THRESHOLD \<le> streak then
           found Critical GlobalCircuitBreaker streak
             (([CHR 0xE5, CHR 0x85, CHR 0xA8, CHR 0xE5, CHR 0xB1, CHR 0x80, CHR 0xE7, CHR 0x86, CHR 0x94,
       CHR 0xE6, CHR 0x96, CHR 0xAD, CHR 0xEF, CHR 0xBC, CHR 0x9A, CHR 0xE5, CHR 0xB7, CHR 0xA5,
       CHR 0xE5, CHR 0x85, CHR 0xB7] @
       '' '' @
       [CHR 0x27]) @ name @ ([CHR 0x27] @
       '' '' @
       [CHR 0xE5, CHR 0xB7, CHR 0xB2, CHR 0xE8, CHR 0xBF, CHR 0x9E, CHR 0xE7, CHR 0xBB, CHR 0xAD]) @ nat_digits streak @
              [CHR 0xE6, CHR 0xAC, CHR 0xA1, CHR 0xE8, CHR 0xB0, CHR 0x83, CHR 0xE7, CHR 0x94, CHR 0xA8,
       CHR 0xE4, CHR 0xB8, CHR 0x94, CHR 0xE7, CHR 0xBB, CHR 0x93, CHR 0xE6, CHR 0x9E, CHR 0x9C,
       CHR 0xE6, CHR 0x97, CHR 0xA0, CHR 0xE5, CHR 0x8F, CHR 0x98, CHR 0xE5, CHR 0x8C, CHR 0x96,
       CHR 0xEF, CHR 0xBC, CHR 0x8C, CHR 0xE5, CHR 0xBC, CHR 0xBA, CHR 0xE5, CHR 0x88, CHR 0xB6,
       CHR 0xE7, CHR 0xBB, CHR 0x88, CHR 0xE6, CHR 0xAD, CHR 0xA2, CHR 0xE8, CHR 0xAF, CHR 0xA5,
       CHR 0xE5, CHR 0xB7, CHR 0xA5, CHR 0xE5, CHR 0x85, CHR 0xB7, CHR 0xE8, CHR 0xB0, CHR 0x83,
       CHR 0xE7, CHR 0x94, CHR 0xA8, CHR 0xE3, CHR 0x80, CHR 0x82, CHR 0xE8, CHR 0xAF, CHR 0xB7,
       CHR 0xE6, CHR 0x8D, CHR 0xA2, CHR 0xE4, CHR 0xB8, CHR 0x80, CHR 0xE7, CHR 0xA7, CHR 0x8D,
       CHR 0xE6, CHR 0x96, CHR 0xB9, CHR 0xE6, CHR 0xB3, CHR 0x95, CHR 0xE3, CHR 0x80, CHR 0x82])
         else None)"

definition poll_check :: "LoopDetectorState \<Rightarrow> string \<Rightarrow> u64 \<Rightarrow> LoopDetectionResult option" where
  "poll_check st name hash =
     (if list_ex (contains name) KNOWN_POLL_TOOLS then
        let streak = count_same_tool_streak st name hash
        in if CRITICAL_THRESHOLD \<le> streak then
             found Critical KnownPollNoProgress streak
               (([CHR 0xE8, CHR 0xBD, CHR 0xAE, CHR 0xE8, CHR 0xAF, CHR 0xA2, CHR 0xE5, CHR 0xB7, CHR 0xA5,
       CHR 0xE5, CHR 0x85, CHR 0xB7] @
       '' '' @
       [CHR 0x27]) @ name @ ([CHR 0x27] @
       '' '' @
       [CHR 0xE5, CHR 0xB7, CHR 0xB2, CHR 0xE8, CHR 0xBF, CHR 0x9E, CHR 0xE7, CHR 0xBB, CHR 0xAD,
       CHR 0xE8, CHR 0xB0, CHR 0x83, CHR 0xE7, CHR 0x94, CHR 0xA8]) @ nat_digits streak @
                [CHR 0xE6, CHR 0xAC, CHR 0xA1, CHR 0xE4, CHR 0xB8, CHR 0x94, CHR 0xE6, CHR 0x97, CHR 0xA0,
       CHR 0xE8, CHR 0xBF, CHR 0x9B, CHR 0xE5, CHR 0xB1, CHR 0x95, CHR 0xEF, CHR 0xBC, CHR 0x8C,
       CHR 0xE5, CHR 0xBC, CHR 0xBA, CHR 0xE5, CHR 0x88, CHR 0xB6, CHR 0xE7, CHR 0xBB, CHR 0x88,
       CHR 0xE6, CHR 0xAD, CHR 0xA2, CHR 0xE3, CHR 0x80, CHR 0x82, CHR 0xE8, CHR 0xAF, CHR 0xB7,
       CHR 0xE6, CHR 0xA3, CHR 0x80, CHR 0xE6, CHR 0x9F, CHR 0xA5, CHR 0xE7, CHR 0x9B, CHR 0xAE,
       CHR 0xE6, CHR 0xA0, CHR 0x87, CHR 0xE7, CHR 0x8A, CHR 0xB6, CHR 0xE6, CHR 0x80, CHR 0x81,
       CHR 0xE6, CHR 0x88, CHR 0x96, CHR 0xE6, CHR 0x8D, CHR 0xA2, CHR 0xE4, CHR 0xB8, CHR 0x80,
       CHR 0xE7, CHR 0xA7, CHR 0x8D, CHR 0xE6, CHR 0x96, CHR 0xB9, CHR 0xE6, CHR 0xB3, CHR 0x95,
       CHR 0xE3, CHR 0x80, CHR 0x82])
           else if WARNING_THRESHOLD \<le> streak then
             found Warning KnownPollNoProgress streak
               (([CHR 0xE8, CHR 0xBD, CHR 0xAE, CHR 0xE8, CHR 0xAF, CHR 0xA2, CHR 0xE5, CHR 0xB7, CHR 0xA5,
       CHR 0xE5, CHR 0x85, CHR 0xB7] @
       '' '' @
       [CHR 0x27]) @ name @ ([CHR 0x27] @
       '' '' @
       [CHR 0xE5, CHR 0xB7, CHR 0xB2, CHR 0xE8, CHR 0xBF, CHR 0x9E, CHR 0xE7, CHR 0xBB, CHR 0xAD,
       CHR 0xE8, CHR 0xB0, CHR 0x83, CHR 0xE7, CHR 0x94, CHR 0xA8]) @ nat_digits streak @
                [CHR 0xE6, CHR 0xAC, CHR 0xA1, CHR 0xEF, CHR 0xBC, CHR 0x8C, CHR 0xE7, CHR 0xBB, CHR 0x93,
       CHR 0xE6, CHR 0x9E, CHR 0x9C, CHR 0xE6, CHR 0x97, CHR 0xA0, CHR 0xE5, CHR 0x8F, CHR 0x98,
       CHR 0xE5, CHR 0x8C, CHR 0x96, CHR 0xE3, CHR 0x80, CHR 0x82, CHR 0xE5, CHR 0xBB, CHR 0xBA,
       CHR 0xE8, CHR 0xAE, CHR 0xAE, CHR 0xE6, CHR 0xA3, CHR 0x80, CHR 0xE6, CHR 0x9F, CHR 0xA5,
       CHR 0xE6, CHR 0x98, CHR 0xAF, CHR 0xE5, CHR 0x90, CHR 0xA6, CHR 0xE9, CHR 0x9C, CHR 0x80,
       CHR 0xE8, CHR 0xA6, CHR 0x81, CHR 0xE6, CHR 0x8D, CHR 0xA2, CHR 0xE4, CHR 0xB8, CHR 0x80,
       CHR 0xE7, CHR 0xA7, CHR 0x8D, CHR 0xE6, CHR 0x96, CHR 0xB9, CHR 0xE6, CHR 0xB3, CHR 0x95,
       CHR 0xE6, CHR 0x88, CHR 0x96, CHR 0xE5, CHR 0xA2, CHR 0x9E, CHR 0xE5, CHR 0x8A, CHR 0xA0,
       CHR 0xE7, CHR 0xAD, CHR 0x89, CHR 0xE5, CHR 0xBE, CHR 0x85, CHR 0xE6, CHR 0x97, CHR 0xB6,
       CHR 0xE9, CHR 0x97, CHR 0xB4, CHR 0xE3, CHR 0x80, CHR 0x82])
           else None
      else None)"

definition research_check :: "LoopDetectorState \<Rightarrow> string \<Rightarrow> u64 \<Rightarrow> LoopDetectionResult option" where
  "research_check st name hash =
     (if list_ex (contains name) KNOWLEDGE_GATHERING_TOOLS then
        let same_input_count = count_recent_tool_family_same_input st name hash RESEARCH_RECENT_WINDOW + 1
        in if RESEARCH_CRITICAL_THRESHOLD \<le> same_input_count then
             found Critical GenericRepeat same_input_count
               (([CHR 0xE8, CHR 0xB0, CHR 0x83, CHR 0xE7, CHR 0xA0, CHR 0x94, CHR 0xE5, CHR 0xB7, CHR 0xA5,
       CHR 0xE5, CHR 0x85, CHR 0xB7] @
       '' '' @
       [CHR 0x27]) @ name @ ([CHR 0x27] @
       '' '' @
       [CHR 0xE5, CHR 0x9C, CHR 0xA8, CHR 0xE6, CHR 0x9C, CHR 0x80, CHR 0xE8, CHR 0xBF, CHR 0x91,
       CHR 0xE6, CHR 0xAD, CHR 0xA5, CHR 0xE9, CHR 0xAA, CHR 0xA4, CHR 0xE4, CHR 0xB8, CHR 0xAD,
       CHR 0xE5, CHR 0xB7, CHR 0xB2, CHR 0xE7, CHR 0xB4, CHR 0xAF, CHR 0xE8, CHR 0xAE, CHR 0xA1,
       CHR 0xE8, CHR 0xB0, CHR 0x83, CHR 0xE7, CHR 0x94, CHR 0xA8]) @ nat_digits same_input_count @
                [CHR 0xE6, CHR 0xAC, CHR 0xA1, CHR 0xE3, CHR 0x80, CHR 0x82, CHR 0xE8, CHR 0xAF, CHR 0xB7,
       CHR 0xE5, CHR 0x81, CHR 0x9C, CHR 0xE6, CHR 0xAD, CHR 0xA2, CHR 0xE7, CHR 0xBB, CHR 0xA7,
       CHR 0xE7, CHR 0xBB, CHR 0xAD, CHR 0xE6, CHR 0x90, CHR 0x9C, CHR 0xE9, CHR 0x9B, CHR 0x86,
       CHR 0xEF, CHR 0xBC, CHR 0x8C, CHR 0xE5, CHR 0x85, CHR 0x88, CHR 0xE5, CHR 0x9F, CHR 0xBA,
       CHR 0xE4, CHR 0xBA, CHR 0x8E, CHR 0xE7, CHR 0x8E, CHR 0xB0, CHR 0xE6, CHR 0x9C, CHR 0x89,
       CHR 0xE8, CHR 0xAF, CHR 0x81, CHR 0xE6, CHR 0x8D, CHR 0xAE, CHR 0xE6, CHR 0x80, CHR 0xBB,
       CHR 0xE7, CHR 0xBB, CHR 0x93, CHR 0xE7, CHR 0xBB, CHR 0x93, CHR 0xE8, CHR 0xAE, CHR 0xBA,
       CHR 0xE3, CHR 0x80, CHR 0x81, CHR 0xE6, CHR 0x98, CHR 0x8E, CHR 0xE7, CHR 0xA1, CHR 0xAE,
       CHR 0xE4, CHR 0xB8, CHR 0x8D, CHR 0xE7, CHR 0xA1, CHR 0xAE, CHR 0xE5, CHR 0xAE, CHR 0x9A,
       CHR 0xE6, CHR 0x80, CHR 0xA7, CHR 0xEF, CHR 0xBC, CHR 0x8C, CHR 0xE5, CHR 0x86, CHR 0x8D,
       CHR 0xE5, CHR 0x86, CHR 0xB3, CHR 0xE5, CHR 0xAE, CHR 0x9A, CHR 0xE6, CHR 0x98, CHR 0xAF,
       CHR 0xE5, CHR 0x90, CHR 0xA6, CHR 0xE8, CHR 0xBF, CHR 0x98, CHR 0xE9, CHR 0x9C, CHR 0x80,
       CHR 0xE8, CHR 0xA6, CHR 0x81, CHR 0xE8, CHR 0xA1, CHR 0xA5, CHR 0xE5, CHR 0x85, CHR 0x85,
       CHR 0xE4, CHR 0xB8, CHR 0x80, CHR 0xE8, CHR 0xBD, CHR 0xAE, CHR 0xE6, CHR 0x9F, CHR 0xA5,
       CHR 0xE8, CHR 0xAF, CHR 0xA2, CHR 0xE3, CHR 0x80, CHR 0x82])
           else if RESEARCH_WARNING_THRESHOLD \<le> same_input_count then
             found Warning GenericRepeat same_input_count
               (([CHR 0xE8, CHR 0xB0, CHR 0x83, CHR 0xE7, CHR 0xA0, CHR 0x94, CHR 0xE5, CHR 0xB7, CHR 0xA5,
       CHR 0xE5, CHR 0x85, CHR 0xB7] @
       '' '' @
       [CHR 0x27]) @ name @ ([CHR 0x27] @
       '' '' @
       [CHR 0xE5, CHR 0x9C, CHR 0xA8, CHR 0xE6, CHR 0x9C, CHR 0x80, CHR 0xE8, CHR 0xBF, CHR 0x91,
       CHR 0xE6, CHR 0xAD, CHR 0xA5, CHR 0xE9, CHR 0xAA, CHR 0xA4, CHR 0xE4, CHR 0xB8, CHR 0xAD,
       CHR 0xE5, CHR 0xB7, CHR 0xB2, CHR 0xE7, CHR 0xB4, CHR 0xAF, CHR 0xE8, CHR 0xAE, CHR 0xA1,
       CHR 0xE8, CHR 0xB0, CHR 0x83, CHR 0xE7, CHR 0x94, CHR 0xA8]) @ nat_digits same_input_count @
                [CHR 0xE6, CHR 0xAC, CHR 0xA1, CHR 0xE3, CHR 0x80, CHR 0x82, CHR 0xE8, CHR 0xAF, CHR 0xB7,
       CHR 0xE4, CHR 0xBC, CHR 0x98, CHR 0xE5, CHR 0x85, CHR 0x88, CHR 0xE6, CHR 0x94, CHR 0xB6,
       CHR 0xE6, CHR 0x9D, CHR 0x9F, CHR 0xEF, CHR 0xBC, CHR 0x9A, CHR 0xE6, CHR 0x80, CHR 0xBB,
       CHR 0xE7, CHR 0xBB, CHR 0x93, CHR 0xE5, CHR 0xB7, CHR 0xB2, CHR 0xE6, CHR 0x9C, CHR 0x89,
       CHR 0xE5, CHR 0x8F, CHR 0x91, CHR 0xE7, CHR 0x8E, CHR 0xB0, CHR 0xE3, CHR 0x80, CHR 0x81,
       CHR 0xE5, CHR 0x88, CHR 0x97, CHR 0xE5, CHR 0x87, CHR 0xBA, CHR 0xE5, CHR 0x88, CHR 0x86,
       CHR 0xE6, CHR 0xAD, CHR 0xA7, CHR 0xE7, CHR 0x82, CHR 0xB9, CHR 0xEF, CHR 0xBC, CHR 0x8C,
       CHR 0xE5, CHR 0x8F, CHR 0xAA, CHR 0xE5, CHR 0x9C, CHR 0xA8, CHR 0xE7, CHR 0xA1, CHR 0xAE,
       CHR 0xE6, CHR 0x9C, CHR 0x89, CHR 0xE4, CHR 0xBF, CHR 0xA1, CHR 0xE6, CHR 0x81, CHR 0xAF,
       CHR 0xE7, CHR 0xBC, CHR 0xBA, CHR 0xE5, CHR 0x8F, CHR 0xA3, CHR 0xE6, CHR 0x97, CHR 0xB6,
       CHR 0xE5, CHR 0x86, CHR 0x8D, CHR 0xE8, CHR 0xA1, CHR 0xA5, CHR 0xE5, CHR 0x85, CHR 0x85,
       CHR 0xE6, CHR 0x90, CHR 0x9C, CHR 0xE7, CHR 0xB4, CHR 0xA2, CHR 0xE3, CHR 0x80, CHR 0x82])
           else None
      else None)"

definition ping_pong_check :: "LoopDetectorState \<Rightarrow> string \<Rightarrow> u64 \<Rightarrow> LoopDetectionResult option" where
  "ping_pong_check st name hash =
     (let n = detect_ping_pong st name hash
      in if PING_PONG_CRITICAL \<le> n then
           found Critical PingPong n
             (([CHR 0xE6, CHR 0xA3, CHR 0x80, CHR 0xE6, CHR 0xB5, CHR 0x8B, CHR 0xE5, CHR 0x88, CHR 0xB0,
       CHR 0xE5, CHR 0xB7, CHR 0xA5, CHR 0xE5, CHR 0x85, CHR 0xB7, CHR 0xE4, CHR 0xBA, CHR 0xA4,
       CHR 0xE6, CHR 0x9B, CHR 0xBF, CHR 0xE8, CHR 0xB0, CHR 0x83, CHR 0xE7, CHR 0x94, CHR 0xA8,
       CHR 0xE5, CHR 0xBE, CHR 0xAA, CHR 0xE7, CHR 0x8E, CHR 0xAF, CHR 0xEF, CHR 0xBC, CHR 0x88] @
       ''ping-pong'' @
       [CHR 0xEF, CHR 0xBC, CHR 0x89, CHR 0xEF, CHR 0xBC, CHR 0x8C, CHR 0xE5, CHR 0xB7, CHR 0xB2,
       CHR 0xE6, CHR 0x8C, CHR 0x81, CHR 0xE7, CHR 0xBB, CHR 0xAD]) @ nat_digits n @
              [CHR 0xE6, CHR 0xAC, CHR 0xA1, CHR 0xE3, CHR 0x80, CHR 0x82, CHR 0xE5, CHR 0xBC, CHR 0xBA,
       CHR 0xE5, CHR 0x88, CHR 0xB6, CHR 0xE7, CHR 0xBB, CHR 0x88, CHR 0xE6, CHR 0xAD, CHR 0xA2,
       CHR 0xEF, CHR 0xBC, CHR 0x8C, CHR 0xE8, CHR 0xAF, CHR 0xB7, CHR 0xE5, CHR 0x88, CHR 0x86,
       CHR 0xE6, CHR 0x9E, CHR 0x90, CHR 0xE5, CHR 0x8E, CHR 0x9F, CHR 0xE5, CHR 0x9B, CHR 0xA0,
       CHR 0xE5, CHR 0xB9, CHR 0xB6, CHR 0xE6, CHR 0x8D, CHR 0xA2, CHR 0xE4, CHR 0xB8, CHR 0x80,
       CHR 0xE7, CHR 0xA7, CHR 0x8D, CHR 0xE6, CHR 0x96, CHR 0xB9, CHR 0xE6, CHR 0xB3, CHR 0x95,
       CHR 0xE3, CHR 0x80, CHR 0x82])
         else if PING_PONG_WARNING \<le> n then
           found Warning PingPong n
             ([CHR 0xE6, CHR 0xA3, CHR 0x80, CHR 0xE6, CHR 0xB5, CHR 0x8B, CHR 0xE5, CHR 0x88, CHR 0xB0,
       CHR 0xE5, CHR 0xB7, CHR 0xA5, CHR 0xE5, CHR 0x85, CHR 0xB7, CHR 0xE4, CHR 0xBA, CHR 0xA4,
       CHR 0xE6, CHR 0x9B, CHR 0xBF, CHR 0xE8, CHR 0xB0, CHR 0x83, CHR 0xE7, CHR 0x94, CHR 0xA8,
       CHR 0xE6, CHR 0xA8, CHR 0xA1, CHR 0xE5, CHR 0xBC, CHR 0x8F, CHR 0xEF, CHR 0xBC, CHR 0x8C,
       CHR 0xE5, CHR 0xB7, CHR 0xB2, CHR 0xE6, CHR 0x8C, CHR 0x81, CHR 0xE7, CHR 0xBB, CHR 0xAD] @ nat_digits n @
              [CHR 0xE6, CHR 0xAC, CHR 0xA1, CHR 0xE3, CHR 0x80, CHR 0x82, CHR 0xE8, CHR 0xAF, CHR 0xB7,
       CHR 0xE6, CHR 0xA3, CHR 0x80, CHR 0xE6, CHR 0x9F, CHR 0xA5, CHR 0xE6, CHR 0x98, CHR 0xAF,
       CHR 0xE5, CHR 0x90, CHR 0xA6, CHR 0xE9, CHR 0x99, CHR 0xB7, CHR 0xE5, CHR 0x85, CHR 0xA5,
       CHR 0xE4, CHR 0xBA, CHR 0x86, CHR 0xE5, CHR 0xBE, CHR 0xAA, CHR 0xE7, CHR 0x8E, CHR 0xAF,
       CHR 0xEF, CHR 0xBC, CHR 0x8C, CHR 0xE8, CHR 0x80, CHR 0x83, CHR 0xE8, CHR 0x99, CHR 0x91,
       CHR 0xE6, CHR 0x8D, CHR 0xA2, CHR 0xE4, CHR 0xB8, CHR 0x80, CHR 0xE7, CHR 0xA7, CHR 0x8D,
       CHR 0xE6, CHR 0x96, CHR 0xB9, CHR 0xE6, CHR 0xB3, CHR 0x95, CHR 0xE3, CHR 0x80, CHR 0x82])
         else None)"

definition is_vision_only_turn ::
  "platform \<Rightarrow> string \<Rightarrow> json \<Rightarrow> (string \<times> string \<times> json) list \<Rightarrow> bool" where
  "is_vision_only_turn p name input batch \<longleftrightarrow>
     is_vision_tool name \<and>
     \<not> list_ex (\<lambda>(_, n, inp). n \<noteq> name \<or> inp \<noteq> input) batch \<and>
     \<not> is_substantive_desktop_action p name input \<and>
     \<not> list_ex (\<lambda>(_, n, inp). \<not> is_vision_tool n \<or> is_substantive_desktop_action p n inp) batch \<and>
     \<not> list_ex (\<lambda>(_, n, inp). is_calibration_move p n inp) batch"

definition code_run_check :: "LoopDetectorState \<Rightarrow> string \<Rightarrow> u64 \<Rightarrow> LoopDetectionResult option" where
  "code_run_check st name hash =
     (if name \<noteq> ''code_run'' then None
      else case find (same_call name hash) (rev (history st)) of
             None \<Rightarrow> None
           | Some l \<Rightarrow>
               let same = length (filter (\<lambda>r. same_call name hash r \<and> norm_hash r = norm_hash l) (history st))
               in if 8 \<le> same then
                    found Critical GlobalCircuitBreaker same
                      (''Tool '' @ sq name @ '' was run '' @ nat_digits same @
                       ('' times with the same outcome and no progress. Stop retrying: report to the user '' @
       ''what is failing and ask for direction.''))
                  else if 4 \<le> same then
                    found Warning GenericRepeat same
                      (''Tool '' @ sq name @ '' has produced the same outcome '' @ nat_digits same @
                       ('' times. Rerunning without a real change will not help; change the approach or '' @
       ''report the blocker.''))
                  else None)"

definition early_nudge :: "LoopDetectorState \<Rightarrow> string \<Rightarrow> u64 \<Rightarrow> LoopDetectionResult option" where
  "early_nudge st name hash =
     (if name \<in> set KNOWN_POLL_TOOLS then None
      else let streak = count_same_tool_streak st name hash
           in if 2 \<le> streak then
                found Warning GenericRepeat (streak + 1)
                  (''Tool '' @ sq name @ '' was called with identical arguments '' @ nat_digits (streak + 1) @
                   '' times in a row. Change the arguments or approach, or report what is blocking you.'')
              else None)"

definition repeat_check :: "LoopDetectorState \<Rightarrow> string \<Rightarrow> u64 \<Rightarrow> LoopDetectionResult option" where
  "repeat_check st name hash =
     (let n = count_same_tool_total st name hash
      in if CRITICAL_THRESHOLD \<le> n then
           found Critical GenericRepeat n
             (([CHR 0xE5, CHR 0xB7, CHR 0xA5, CHR 0xE5, CHR 0x85, CHR 0xB7] @ '' '' @ [CHR 0x27]) @ name @ ([CHR 0x27] @
       '' '' @
       [CHR 0xE4, CHR 0xBB, CHR 0xA5, CHR 0xE7, CHR 0x9B, CHR 0xB8, CHR 0xE5, CHR 0x90, CHR 0x8C,
       CHR 0xE5, CHR 0x8F, CHR 0x82, CHR 0xE6, CHR 0x95, CHR 0xB0, CHR 0xE8, CHR 0xA2, CHR 0xAB,
       CHR 0xE8, CHR 0xB0, CHR 0x83, CHR 0xE7, CHR 0x94, CHR 0xA8, CHR 0xE4, CHR 0xBA, CHR 0x86]) @ nat_digits n @
              [CHR 0xE6, CHR 0xAC, CHR 0xA1, CHR 0xEF, CHR 0xBC, CHR 0x8C, CHR 0xE5, CHR 0xBC, CHR 0xBA,
       CHR 0xE5, CHR 0x88, CHR 0xB6, CHR 0xE7, CHR 0xBB, CHR 0x88, CHR 0xE6, CHR 0xAD, CHR 0xA2,
       CHR 0xE3, CHR 0x80, CHR 0x82, CHR 0xE8, CHR 0xAF, CHR 0xB7, CHR 0xE6, CHR 0x8D, CHR 0xA2,
       CHR 0xE4, CHR 0xB8, CHR 0x80, CHR 0xE7, CHR 0xA7, CHR 0x8D, CHR 0xE6, CHR 0x96, CHR 0xB9,
       CHR 0xE6, CHR 0xB3, CHR 0x95, CHR 0xE8, CHR 0xA7, CHR 0xA3, CHR 0xE5, CHR 0x86, CHR 0xB3,
       CHR 0xE9, CHR 0x97, CHR 0xAE, CHR 0xE9, CHR 0xA2, CHR 0x98, CHR 0xE3, CHR 0x80, CHR 0x82])
         else if WARNING_THRESHOLD \<le> n then
           found Warning GenericRepeat n
             (([CHR 0xE5, CHR 0xB7, CHR 0xA5, CHR 0xE5, CHR 0x85, CHR 0xB7] @ '' '' @ [CHR 0x27]) @ name @ ([CHR 0x27] @
       '' '' @
       [CHR 0xE4, CHR 0xBB, CHR 0xA5, CHR 0xE7, CHR 0x9B, CHR 0xB8, CHR 0xE5, CHR 0x90, CHR 0x8C,
       CHR 0xE5, CHR 0x8F, CHR 0x82, CHR 0xE6, CHR 0x95, CHR 0xB0, CHR 0xE5, CHR 0xB7, CHR 0xB2,
       CHR 0xE8, CHR 0xA2, CHR 0xAB, CHR 0xE8, CHR 0xB0, CHR 0x83, CHR 0xE7, CHR 0x94, CHR 0xA8]) @ nat_digits n @
              [CHR 0xE6, CHR 0xAC, CHR 0xA1, CHR 0xE3, CHR 0x80, CHR 0x82, CHR 0xE8, CHR 0xAF, CHR 0xB7,
       CHR 0xE6, CHR 0xA3, CHR 0x80, CHR 0xE6, CHR 0x9F, CHR 0xA5, CHR 0xE6, CHR 0x98, CHR 0xAF,
       CHR 0xE5, CHR 0x90, CHR 0xA6, CHR 0xE9, CHR 0x9C, CHR 0x80, CHR 0xE8, CHR 0xA6, CHR 0x81,
       CHR 0xE6, CHR 0x8D, CHR 0xA2, CHR 0xE4, CHR 0xB8, CHR 0x80, CHR 0xE7, CHR 0xA7, CHR 0x8D,
       CHR 0xE6, CHR 0x96, CHR 0xB9, CHR 0xE6, CHR 0xB3, CHR 0x95, CHR 0xEF, CHR 0xBC, CHR 0x8C,
       CHR 0xE9, CHR 0x81, CHR 0xBF, CHR 0xE5, CHR 0x85, CHR 0x8D, CHR 0xE6, CHR 0x97, CHR 0xA0,
       CHR 0xE6, CHR 0x95, CHR 0x88, CHR 0xE9, CHR 0x87, CHR 0x8D, CHR 0xE5, CHR 0xA4, CHR 0x8D,
       CHR 0xE3, CHR 0x80, CHR 0x82])
         else None)"

text \<open>The first detector that reports decides; the vision detector also moves its counter.\<close>

fun first_found :: "LoopDetectionResult option list \<Rightarrow> LoopDetectionResult option" where
  "first_found [] = None"
| "first_found (None # rs) = first_found rs"
| "first_found (Some r # rs) = Some r"

definition before_vision :: "LoopDetectorState \<Rightarrow> string \<Rightarrow> u64 \<Rightarrow> LoopDetectionResult option" where
  "before_vision st name hash =
     first_found [circuit_breaker st name hash, poll_check st name hash, research_check st name hash,
       ping_pong_check st name hash]"

definition after_vision :: "LoopDetectorState \<Rightarrow> string \<Rightarrow> u64 \<Rightarrow> LoopDetectionResult option" where
  "after_vision st name hash =
     first_found [code_run_check st name hash, early_nudge st name hash, repeat_check st name hash]"

definition detect_inner ::
  "platform \<Rightarrow> string \<Rightarrow> json \<Rightarrow> (string \<times> string \<times> json) list \<Rightarrow> LoopDetectorState \<Rightarrow>
     LoopDetectionResult \<times> LoopDetectorState" where
  "detect_inner p name input batch st =
     (let hash = stable_hash_input p name input; t = VISION_LOOP_CONSECUTIVE_THRESHOLD p
      in case before_vision st name hash of
           Some r \<Rightarrow> (r, st)
         | None \<Rightarrow>
             let turns = (if is_vision_only_turn p name input batch
                          then consecutive_vision_only_turns st + 1 else 0)
             in if t \<le> turns then
                  (\<lparr>level = Warning, detector = Some VisionLoop, loop_count = t,
                    loop_message = vision_loop_warning t\<rparr>, st\<lparr>consecutive_vision_only_turns := 0\<rparr>)
                else (case after_vision st name hash of Some r \<Rightarrow> r | None \<Rightarrow> loop_ok,
                      st\<lparr>consecutive_vision_only_turns := turns\<rparr>))"

definition ignored_warnings :: "string \<Rightarrow> string" where
  "ignored_warnings name =
     ''Tool '' @ sq name @
     ('' was blocked: repeated warnings about this identical call were ignored. Do not '' @
       ''retry it. Tell the user what is failing and ask how to proceed.'')"

definition detect ::
  "platform \<Rightarrow> string \<Rightarrow> json \<Rightarrow> (string \<times> string \<times> json) list \<Rightarrow> LoopDetectorState \<Rightarrow>
     LoopDetectionResult \<times> LoopDetectorState" where
  "detect p name input batch st =
     (let (r, st) = detect_inner p name input batch st; hash = stable_hash_input p name input
      in if level r = Warning \<and> detector r \<noteq> Some VisionLoop then
           let n = (case warned st hash of None \<Rightarrow> 0 | Some n \<Rightarrow> n) + 1;
               st = st\<lparr>warned := (warned st)(hash \<mapsto> n)\<rparr>
           in if 3 < n then (r\<lparr>level := Critical, loop_message := ignored_warnings name\<rparr>, st) else (r, st)
         else (r, st))"

section \<open>The size of a result\<close>

definition guard_tool_result_content :: "string \<Rightarrow> nat \<Rightarrow> string" where
  "guard_tool_result_content content max_chars =
     (let limit = min max_chars TOOL_RESULT_HARD_MAX_CHARS;
          cs = chars content; char_count = length cs
      in if char_count \<le> limit then content
         else let head_size = limit * 3 div 4; tail_size = limit div 4
              in concat (take head_size cs) @
                 ([CHR 0x0A, CHR 0x0A] @ ''[... truncated '') @ nat_digits (char_count - head_size - tail_size) @
                 '' chars (limit: '' @ nat_digits limit @ ('') ...]'' @ [CHR 0x0A, CHR 0x0A]) @
                 concat (drop (char_count - tail_size) cs))"

text \<open>The share is one half, exact in \<^verbatim>\<open>f64\<close> below 2^53.\<close>

definition dynamic_result_limit :: "nat \<Rightarrow> nat" where
  "dynamic_result_limit context_window_tokens =
     min (max (context_window_tokens * 4 div 2) 4000) TOOL_RESULT_HARD_MAX_CHARS"

end
