(* ===== verification/Loop_Bounds.thy ===== *)
theory Loop_Bounds
  imports Loop_Guard "HOL-Library.Code_Target_Nat"
begin

text \<open>
  What the guards of the agent loop achieve: a call that is repeated without end is stopped after a few
  executions, whatever it returns, and which of the detectors can block at all.
\<close>

lemmas thresholds =
  TOOL_CALL_HISTORY_SIZE_def WARNING_THRESHOLD_def CRITICAL_THRESHOLD_def CIRCUIT_BREAKER_THRESHOLD_def
  RESEARCH_WARNING_THRESHOLD_def RESEARCH_CRITICAL_THRESHOLD_def RESEARCH_RECENT_WINDOW_def
  PING_PONG_WARNING_def PING_PONG_CRITICAL_def

section \<open>Counts\<close>

lemma length_filter_all: "length xs \<le> length (filter P xs) \<Longrightarrow> x \<in> set xs \<Longrightarrow> P x"
  by (metis length_filter_less not_less)

lemma alternations_le:
  "2 * alternations True A B rs \<le> length rs + 1" "2 * alternations False A B rs \<le> length rs"
  by (induction rs) auto

lemma no_progress_le: "no_progress name hash l rs \<le> length (takeWhile (same_call name hash) rs)"
  by (induction rs arbitrary: l) auto

lemma streak_all:
  assumes "\<And>r. r \<in> set (history st) \<Longrightarrow> same_call name hash r"
  shows "count_same_tool_streak st name hash = length (history st)"
proof -
  have "takeWhile (same_call name hash) (rev (history st)) = rev (history st)"
    by (simp only: takeWhile_eq_all_conv) (simp add: assms)
  then show ?thesis unfolding count_same_tool_streak_def by (metis length_rev)
qed

lemma streak_record:
  assumes "s = stable_hash_input p name input"
  shows "min (Suc (count_same_tool_streak st name s)) TOOL_CALL_HISTORY_SIZE
    \<le> count_same_tool_streak (record_call p name input rh nh st) name s"
proof -
  let ?P = "same_call name s" and ?h = "history st"
  let ?r = "\<lparr>rec_name = name, input_hash = s, result_hash = rh, norm_hash = nh\<rparr>"
  have r: "?P ?r" by (simp add: same_call_def)
  show ?thesis
  proof (cases "TOOL_CALL_HISTORY_SIZE < length (?h @ [?r])")
    case False
    then show ?thesis
      using r by (simp add: record_call_def count_same_tool_streak_def assms Let_def)
  next
    case True
    then obtain x xs where h: "?h = x # xs" by (cases ?h) (auto simp: thresholds)
    show ?thesis
    proof (cases "\<forall>y \<in> set (rev xs). ?P y")
      case all: True
      then have "length (takeWhile ?P (rev xs)) = length xs" by (metis length_rev takeWhile_eq_all_conv)
      with r True h show ?thesis
        by (simp add: record_call_def count_same_tool_streak_def assms Let_def thresholds)
    next
      case False
      then have "takeWhile ?P (rev xs @ [x]) = takeWhile ?P (rev xs)" by (auto simp: takeWhile_append1)
      with r True h show ?thesis
        by (simp add: record_call_def count_same_tool_streak_def assms Let_def)
    qed
  qed
qed

section \<open>What the detectors report\<close>

lemma first_found_Some: "first_found rs = Some r \<Longrightarrow> Some r \<in> set rs"
  by (induction rs rule: first_found.induct) auto

lemma first_found_None [simp]: "first_found rs = None \<longleftrightarrow> (\<forall>r \<in> set rs. r = None)"
  by (induction rs rule: first_found.induct) auto

lemmas checks = circuit_breaker_def poll_check_def research_check_def ping_pong_check_def
  code_run_check_def early_nudge_def repeat_check_def found_def

lemma no_detector_vision:
  "before_vision st name s = Some r \<Longrightarrow> detector r \<noteq> Some VisionLoop"
  "after_vision st name s = Some r \<Longrightarrow> detector r \<noteq> Some VisionLoop"
  by (auto simp: before_vision_def after_vision_def checks Let_def dest!: first_found_Some
      split: if_splits option.splits)

lemma found_not_ok:
  "before_vision st name s = Some r \<Longrightarrow> level r \<noteq> LevelOk"
  "after_vision st name s = Some r \<Longrightarrow> level r \<noteq> LevelOk"
  by (auto simp: before_vision_def after_vision_def checks Let_def dest!: first_found_Some
      split: if_splits option.splits)

text \<open>A call that is let pass without a warning has a short streak.\<close>

definition patience :: "string \<Rightarrow> nat" where
  "patience name = (if name \<in> set KNOWN_POLL_TOOLS then 64 else 2)"

lemma quiet_streak:
  assumes "before_vision st name s = None" and "after_vision st name s = None"
  shows "count_same_tool_streak st name s < patience name"
proof (cases "name \<in> set KNOWN_POLL_TOOLS")
  case True
  then have "list_ex (contains name) KNOWN_POLL_TOOLS"
    by (auto simp: list_ex_iff contains_sublist)
  with assms(1) True show ?thesis
    by (auto simp: before_vision_def poll_check_def found_def Let_def patience_def thresholds split: if_splits)
next
  case False
  with assms(2) show ?thesis
    by (auto simp: after_vision_def early_nudge_def found_def Let_def patience_def split: if_splits)
qed

lemma history_detect [simp]: "history (snd (detect p name input batch st)) = history st"
  by (auto simp: detect_def detect_inner_def Let_def split: option.splits)

definition warnings :: "u64 \<Rightarrow> LoopDetectorState \<Rightarrow> nat" where
  "warnings s st = (case warned st s of None \<Rightarrow> 0 | Some n \<Rightarrow> n)"

lemma detect_cases:
  assumes "\<not> is_vision_tool name" and "s = stable_hash_input p name input"
    and "detect p name input batch st = (r, st')"
  shows "level r = LevelOk \<and> count_same_tool_streak st name s < patience name \<and> warnings s st' = warnings s st
    \<or> level r = Warning \<and> warnings s st < 3 \<and> warnings s st' = Suc (warnings s st)
    \<or> level r = Critical \<and> warnings s st \<le> warnings s st'"
proof -
  have turn: "\<not> is_vision_only_turn p name input batch" by (simp add: is_vision_only_turn_def assms(1))
  have t: "\<not> VISION_LOOP_CONSECUTIVE_THRESHOLD p \<le> 0" by (simp add: VISION_LOOP_CONSECUTIVE_THRESHOLD_def)
  consider (before) q where "before_vision st name s = Some q"
    | (after) q where "before_vision st name s = None" "after_vision st name s = Some q"
    | (quiet) "before_vision st name s = None" "after_vision st name s = None" by fastforce
  then show ?thesis
  proof cases
    case before
    then show ?thesis
      using assms(3) no_detector_vision(1) [OF before] found_not_ok(1) [OF before]
      by (cases "level q") (auto simp: detect_def detect_inner_def Let_def warnings_def simp flip: assms(2) split: if_splits option.splits)
  next
    case after
    then show ?thesis
      using assms(3) no_detector_vision(2) [OF after(2)] found_not_ok(2) [OF after(2)] turn t
      by (cases "level q") (auto simp: detect_def detect_inner_def Let_def warnings_def simp flip: assms(2) split: if_splits option.splits)
  next
    case quiet
    then show ?thesis
      using assms(3) turn t quiet_streak [OF quiet]
      by (auto simp: detect_def detect_inner_def Let_def warnings_def loop_ok_def simp flip: assms(2))
  qed
qed
section \<open>Properties\<close>

text \<open>The levels reported when the model makes one call turn after turn; a turn has an identifier and a result.\<close>

fun repeat_calls ::
  "platform \<Rightarrow> string \<Rightarrow> json \<Rightarrow> (string \<times> string) list \<Rightarrow> LoopDetectorState \<Rightarrow> LoopLevel list" where
  "repeat_calls p name input [] st = []"
| "repeat_calls p name input ((k, content) # turns) st =
     (let (r, st) = detect p name input [(k, name, input)] st
      in level r # repeat_calls p name input turns (note_result p name input content st))"

lemma streak_note:
  assumes "\<not> is_ephemeral_tool_call name input" and "s = stable_hash_input p name input"
    and "history st' = history st"
  shows "min (Suc (count_same_tool_streak st name s)) 128
    \<le> count_same_tool_streak (note_result p name input content st') name s"
proof -
  have "count_same_tool_streak st' name s = count_same_tool_streak st name s"
    by (simp add: count_same_tool_streak_def assms(3))
  then show ?thesis
    using streak_record [OF assms(2), of st'] assms(1) by (simp add: note_result_def thresholds)
qed

lemma warnings_note [simp]: "warnings s (note_result p name input content st) = warnings s st"
  by (simp add: note_result_def record_call_def warnings_def Let_def)

lemma let_pass_bound:
  assumes "\<not> is_vision_tool name" and "\<not> is_ephemeral_tool_call name input"
    and s: "s = stable_hash_input p name input"
  shows "length (filter (\<lambda>l. l \<noteq> Critical) (repeat_calls p name input turns st))
    \<le> (patience name - count_same_tool_streak st name s) + (3 - warnings s st)"
proof (induction turns arbitrary: st)
  case (Cons t turns)
  obtain k content where t: "t = (k, content)" by force
  obtain r st1 where d: "detect p name input [(k, name, input)] st = (r, st1)" by force
  let ?st = "note_result p name input content st1"
  have "history st1 = history st" using history_detect [of p name input "[(k, name, input)]" st] d by simp
  note grow = streak_note [OF assms(2) s this, of content]
  have "patience name \<le> 64" by (simp add: patience_def)
  with detect_cases [OF assms(1) s d] grow Cons.IH [of ?st] show ?case
    by (auto simp: t d)
qed simp

definition plain_platform :: platform where
  "plain_platform = \<lparr>windows = False, hasher = (\<lambda>bs. of_nat (length bs)), json_string = (\<lambda>j. ''{}'')\<rparr>"

definition fresh_detector :: LoopDetectorState where
  "fresh_detector = \<lparr>history = [], consecutive_vision_only_turns = 0, warned = Map.empty\<rparr>"

lemma detect_fresh:
  assumes "\<not> is_vision_tool name"
  shows "level (fst (detect p name input batch fresh_detector)) = LevelOk \<and>
    snd (detect p name input batch fresh_detector) = fresh_detector"
proof -
  have turn: "\<not> is_vision_only_turn p name input batch" by (simp add: is_vision_only_turn_def assms)
  have t: "\<not> VISION_LOOP_CONSECUTIVE_THRESHOLD p \<le> 0" by (simp add: VISION_LOOP_CONSECUTIVE_THRESHOLD_def)
  have h: "history fresh_detector = []" by (simp add: fresh_detector_def)
  have "count_same_tool_streak fresh_detector name s = 0" "count_same_tool_total fresh_detector name s = 0"
    "count_recent_tool_family_same_input fresh_detector name s n = 0"
    "detect_ping_pong fresh_detector name s = 0" "count_no_progress_streak fresh_detector name s = 0" for s n
    by (simp_all add: count_same_tool_streak_def count_same_tool_total_def count_recent_tool_family_same_input_def
        detect_ping_pong_def count_no_progress_streak_def h)
  then have "before_vision fresh_detector name s = None" "after_vision fresh_detector name s = None" for s
    by (auto simp: before_vision_def after_vision_def checks Let_def thresholds h)
  then show ?thesis using turn t
    by (auto simp: detect_def detect_inner_def Let_def loop_ok_def fresh_detector_def)
qed



text \<open>The states of the detector in a run: seeded from the stored messages, then checks and results.\<close>

inductive detector_state :: "platform \<Rightarrow> LoopDetectorState \<Rightarrow> bool" for p where
  start: "detector_state p (seed_from_messages p messages fresh_detector)"
| checked: "detector_state p st \<Longrightarrow> detector_state p (snd (detect p name input batch st))"
| noted: "detector_state p st \<Longrightarrow> detector_state p (note_result p name input content st)"

lemma record_bounded:
  "length (history st) \<le> TOOL_CALL_HISTORY_SIZE \<Longrightarrow>
    length (history (record_call p name input rh nh st)) \<le> TOOL_CALL_HISTORY_SIZE"
  by (simp add: record_call_def Let_def)

lemma seed_bounded:
  "length (history (snd (fold (seed_block p) bs (calls, st)))) \<le> TOOL_CALL_HISTORY_SIZE"
  if "length (history st) \<le> TOOL_CALL_HISTORY_SIZE"
  using that
proof (induction bs arbitrary: calls st)
  case (Cons b bs)
  then show ?case by (cases b) (auto split: option.splits intro: record_bounded)
qed simp

lemma history_bounded: "detector_state p st \<Longrightarrow> length (history st) \<le> TOOL_CALL_HISTORY_SIZE"
proof (induction rule: detector_state.induct)
  case (start messages)
  then show ?case by (simp add: seed_from_messages_def fresh_detector_def seed_bounded)
qed (auto simp: note_result_def record_bounded)

lemma research_never_blocks: "research_check st name s = Some r \<Longrightarrow> level r \<noteq> Critical"
proof -
  have "length (filter P (take 64 xs)) \<le> 64" for P and xs :: "ToolCallRecord list"
    by (rule order_trans [OF length_filter_le]) simp
  then have "\<not> 128 \<le> count_recent_tool_family_same_input st name s 64 + 1"
    unfolding count_recent_tool_family_same_input_def not_le by (rule order.strict_trans1 [OF add_right_mono]) simp
  then show "research_check st name s = Some r \<Longrightarrow> level r \<noteq> Critical"
    by (auto simp: research_check_def found_def Let_def thresholds split: if_splits)
qed

lemma ping_pong_never_blocks:
  assumes "length (history st) \<le> 128" and "ping_pong_check st name s = Some r"
  shows "level r \<noteq> Critical"
proof -
  have "\<not> 128 \<le> detect_ping_pong st name s"
    using alternations_le(1) [of "same_call name s"
        "same_call (rec_name (last (history st))) (input_hash (last (history st)))" "rev (history st)"] assms(1)
    by (simp add: detect_ping_pong_def Let_def)
  with assms(2) show ?thesis
    by (auto simp: ping_pong_check_def found_def Let_def thresholds split: if_splits)
qed

lemma repeat_never_blocks:
  assumes "length (history st) \<le> 128" and "before_vision st name s = None"
    and "early_nudge st name s = None" and "repeat_check st name s = Some r"
  shows "level r \<noteq> Critical"
proof
  assume "level r = Critical"
  with assms(4) have n: "128 \<le> length (filter (same_call name s) (history st))"
    by (auto simp: repeat_check_def found_def Let_def thresholds count_same_tool_total_def split: if_splits)
  with assms(1) length_filter_all [of "history st" "same_call name s"] have "count_same_tool_streak st name s = length (history st)"
    by (intro streak_all) simp
  moreover have "128 \<le> length (history st)" using n length_filter_le order_trans by blast
  ultimately have "128 \<le> count_same_tool_streak st name s" by simp
  moreover have "count_same_tool_streak st name s < 64"
    using assms(2,3)
    by (auto simp: before_vision_def early_nudge_def poll_check_def found_def Let_def thresholds list_ex_iff
        contains_sublist split: if_splits)
  ultimately show False by simp
qed

lemma circuit_breaker_detector: "circuit_breaker st name s = Some r \<Longrightarrow> detector r = Some GlobalCircuitBreaker"
  by (auto simp: circuit_breaker_def found_def Let_def split: if_splits)

lemma poll_check_detector: "poll_check st name s = Some r \<Longrightarrow> detector r = Some KnownPollNoProgress"
  by (auto simp: poll_check_def found_def Let_def split: if_splits)

lemma code_run_detector: "code_run_check st name s = Some r \<Longrightarrow> level r = Critical \<Longrightarrow> detector r = Some GlobalCircuitBreaker"
  by (auto simp: code_run_check_def found_def Let_def split: if_splits option.splits)

lemma early_nudge_level: "early_nudge st name s = Some r \<Longrightarrow> level r = Warning"
  by (auto simp: early_nudge_def found_def Let_def split: if_splits)

lemma first_found_Cons: "first_found (x # xs) = (case x of None \<Rightarrow> first_found xs | Some r \<Rightarrow> Some r)"
  by (cases x) auto

lemma before_blocks:
  assumes "length (history st) \<le> 128" and "before_vision st name s = Some r" and "level r = Critical"
  shows "detector r \<in> {Some GlobalCircuitBreaker, Some KnownPollNoProgress}"
  using assms(2,3) research_never_blocks ping_pong_never_blocks [OF assms(1)]
  by (auto simp: before_vision_def first_found_Cons circuit_breaker_detector poll_check_detector
      simp del: first_found.simps(2,3) split: option.splits)

lemma after_blocks:
  assumes "length (history st) \<le> 128" and "before_vision st name s = None"
    and "after_vision st name s = Some r" and "level r = Critical"
  shows "detector r = Some GlobalCircuitBreaker"
  using assms(3,4) repeat_never_blocks [OF assms(1,2)]
  by (auto simp: after_vision_def first_found_Cons code_run_detector dest: early_nudge_level
      simp del: first_found.simps(2,3) split: option.splits)

lemma who_blocks:
  assumes "length (history st) \<le> 128" and "level (fst (detect_inner p name input batch st)) = Critical"
  shows "detector (fst (detect_inner p name input batch st)) \<in> {Some GlobalCircuitBreaker, Some KnownPollNoProgress}"
  using assms(2) before_blocks [OF assms(1)] after_blocks [OF assms(1)]
  by (auto simp: detect_inner_def Let_def loop_ok_def split: option.splits if_splits)

text \<open>
  C15. Only two detectors ever block a call on their own: the one for results that do not change and the
  one for known polling tools. Everything else is blocked by the fourth ignored warning only: the
  critical thresholds for research, for alternating calls and for repeats in the window cannot be
  reached, as the window of 128 calls is too short for them.
\<close>

theorem who_blocks_a_call:
  assumes "detector_state p st" and "detect p name input batch st = (r, st')" and "level r = Critical"
  shows "detector r \<in> {Some GlobalCircuitBreaker, Some KnownPollNoProgress} \<or>
    (\<exists>n. warned st' (stable_hash_input p name input) = Some n \<and> 3 < n)"
  using who_blocks [of st p name input batch] history_bounded [OF assms(1)] assms(2,3)
  by (auto simp: detect_def Let_def thresholds split: prod.splits if_splits)

definition failed_runs :: "LlmMessage list" where
  "failed_runs =
     [\<lparr>lm_role = ''assistant'', lm_content = Blocks [ToolUse ''k'' ''code_run'' (JObj [])]\<rparr>,
      \<lparr>lm_role = ''user'', lm_content = Blocks (replicate 8 (ToolResult ''k'' ''failed'' True))\<rparr>]"

theorem who_blocks_a_call_witness:
  "\<exists>r st'. detect plain_platform ''code_run'' (JObj []) [] (seed_from_messages plain_platform failed_runs fresh_detector) = (r, st') \<and>
     level r = Critical \<and>
     (detector r \<in> {Some GlobalCircuitBreaker, Some KnownPollNoProgress} \<or>
      (\<exists>n. warned st' (stable_hash_input plain_platform ''code_run'' (JObj [])) = Some n \<and> 3 < n))"
proof -
  let ?st = "seed_from_messages plain_platform failed_runs fresh_detector"
  obtain r st' where d: "detect plain_platform ''code_run'' (JObj []) [] ?st = (r, st')" by force
  have "level (fst (detect plain_platform ''code_run'' (JObj []) [] ?st)) = Critical" by code_simp
  with d have l: "level r = Critical" by simp
  from who_blocks_a_call [OF start d l] d l show ?thesis by blast
qed

end
