(* ===== verification/Vision.thy ===== *)
theory Vision
  imports Request_View
begin

text \<open>
  Images in a conversation: the store of captured images with its selection (\<^verbatim>\<open>agent/vision.rs\<close>), their
  delegation to a separate vision model, and the request that goes on the wire (\<^verbatim>\<open>agent/loop_.rs\<close>).
  Identifiers come from outside, as do the answers of the vision model.
\<close>

section \<open>The store of images\<close>

definition MAX_ARTIFACTS_PER_SESSION :: nat where "MAX_ARTIFACTS_PER_SESSION = 16"
definition MAX_SELECTED_PER_SESSION :: nat where "MAX_SELECTED_PER_SESSION = 4"

record ImageData =
  img_base64 :: string
  img_media_type :: string

record VisionArtifactSummary =
  vs_id :: string
  vs_label :: string
  vs_source_tool :: string
  vs_media_type :: string
  vs_selected :: bool

record VisionArtifact =
  va_id :: string
  va_label :: string
  va_source_tool :: string
  va_image :: ImageData

record SessionVisionState =
  artifacts :: "VisionArtifact list"
  selected_ids :: "string list"

type_synonym VisionStore = "string \<rightharpoonup> SessionVisionState"

definition no_images :: SessionVisionState where
  "no_images = \<lparr>artifacts = [], selected_ids = []\<rparr>"

text \<open>\<^verbatim>\<open>entry().or_default()\<close>.\<close>

definition session_of :: "VisionStore \<Rightarrow> string \<Rightarrow> SessionVisionState" where
  "session_of store session_id = (case store session_id of None \<Rightarrow> no_images | Some s \<Rightarrow> s)"

definition prune_session :: "SessionVisionState \<Rightarrow> SessionVisionState" where
  "prune_session session =
     (if length (artifacts session) \<le> MAX_ARTIFACTS_PER_SESSION then session
      else let remove_count = length (artifacts session) - MAX_ARTIFACTS_PER_SESSION;
               removed_ids = map va_id (take remove_count (artifacts session))
           in session\<lparr>artifacts := drop remove_count (artifacts session),
                selected_ids := filter (\<lambda>i. i \<notin> set removed_ids) (selected_ids session)\<rparr>)"

definition summary_of :: "bool \<Rightarrow> VisionArtifact \<Rightarrow> VisionArtifactSummary" where
  "summary_of sel a = \<lparr>vs_id = va_id a, vs_label = va_label a, vs_source_tool = va_source_tool a,
     vs_media_type = img_media_type (va_image a), vs_selected = sel\<rparr>"

definition to_summaries :: "SessionVisionState \<Rightarrow> VisionArtifactSummary list" where
  "to_summaries session =
     map (\<lambda>a. summary_of (va_id a \<in> set (selected_ids session)) a) (artifacts session)"

text \<open>The first eight digits of a fresh identifier name the image.\<close>

definition store_tool_image ::
  "string \<Rightarrow> string \<Rightarrow> string option \<Rightarrow> ImageData \<Rightarrow> string \<Rightarrow> VisionStore \<Rightarrow>
     VisionArtifactSummary \<times> VisionStore" where
  "store_tool_image session_id source_tool label img uuid store =
     (let session = session_of store session_id;
          artifact = \<lparr>va_id = ''img_'' @ take 8 uuid,
            va_label = (case label of Some l \<Rightarrow> l | None \<Rightarrow> source_tool @ '' capture''),
            va_source_tool = source_tool, va_image = img\<rparr>
      in (summary_of False artifact,
          store(session_id \<mapsto> prune_session (session\<lparr>artifacts := artifacts session @ [artifact]\<rparr>))))"

definition list_artifacts :: "VisionStore \<Rightarrow> string \<Rightarrow> VisionArtifactSummary list" where
  "list_artifacts store session_id =
     (case store session_id of None \<Rightarrow> [] | Some session \<Rightarrow> to_summaries session)"

text \<open>A failure leaves the selection as it was, but enters an unknown session.\<close>

definition select_artifacts ::
  "string \<Rightarrow> string list \<Rightarrow> bool \<Rightarrow> VisionStore \<Rightarrow> (string + VisionArtifactSummary list) \<times> VisionStore" where
  "select_artifacts session_id artifact_ids merge store =
     (let session = session_of store session_id; store = store(session_id \<mapsto> session)
      in case find (\<lambda>i. i \<notin> va_id ` set (artifacts session)) artifact_ids of
           Some i \<Rightarrow> (Inl (''Vision artifact '' @ sq i @ '' not found''), store)
         | None \<Rightarrow>
             let next = fold (\<lambda>i next. if i \<in> set next then next else next @ [i]) artifact_ids
                          (if merge then selected_ids session else [])
             in if MAX_SELECTED_PER_SESSION < length next then
                  (Inl (''At most '' @ nat_digits MAX_SELECTED_PER_SESSION @
                     '' vision artifacts can be selected at once''), store)
                else let session = session\<lparr>selected_ids := next\<rparr>
                     in (Inr (filter vs_selected (to_summaries session)), store(session_id \<mapsto> session)))"

definition clear_selection :: "string \<Rightarrow> VisionStore \<Rightarrow> VisionStore" where
  "clear_selection session_id store =
     (case store session_id of
        None \<Rightarrow> store
      | Some session \<Rightarrow> store(session_id \<mapsto> session\<lparr>selected_ids := []\<rparr>))"

definition clear_session :: "string \<Rightarrow> VisionStore \<Rightarrow> VisionStore" where
  "clear_session session_id store = store(session_id := None)"

text \<open>The message with the selected images, when there are any.\<close>

definition selected_artifacts :: "VisionStore \<Rightarrow> string \<Rightarrow> VisionArtifact list" where
  "selected_artifacts store session_id =
     (case store session_id of
        None \<Rightarrow> []
      | Some session \<Rightarrow> filter (\<lambda>a. va_id a \<in> set (selected_ids session)) (artifacts session))"

definition image_block :: "VisionArtifact \<Rightarrow> ContentBlock" where
  "image_block a = Image \<lparr>is_source_type = ''base64'', is_media_type = img_media_type (va_image a),
     is_data = img_base64 (va_image a)\<rparr>"

definition selected_message :: "VisionArtifact list \<Rightarrow> LlmMessage" where
  "selected_message selected =
     \<lparr>lm_role = ''user'', lm_content = Blocks
       (TextBlock ((''Agent-selected visual context for the next step. Analyze only these selected images '' @
       ''unless you decide to change the selection via vision_context.'' @
       [CHR 0x0A]) @
          join [CHR 0x0A] (map (\<lambda>a. ''- '' @ va_label a @ '' ('' @ va_source_tool a @ '', id='' @ va_id a @ '')'') selected)) #
        map image_block selected)\<rparr>"

definition inject_selected_context :: "LlmMessage list \<Rightarrow> string \<Rightarrow> VisionStore \<Rightarrow> LlmMessage list" where
  "inject_selected_context messages session_id store =
     (let selected = selected_artifacts store session_id
      in if selected = [] then messages else messages @ [selected_message selected])"

section \<open>Delegation to a vision model\<close>

fun is_image :: "ContentBlock \<Rightarrow> bool" where
  "is_image (Image s) = True"
| "is_image _ = False"

definition user_image :: "LlmMessage \<Rightarrow> bool" where
  "user_image m \<longleftrightarrow> lm_role m = ''user'' \<and> list_ex is_image (blocks m)"

definition rposition :: "('a \<Rightarrow> bool) \<Rightarrow> 'a list \<Rightarrow> nat option" where
  "rposition P xs =
     (case filter (\<lambda>i. P (xs ! i)) [0..<length xs] of [] \<Rightarrow> None | i # js \<Rightarrow> Some (last (i # js)))"

definition VISION_INSTRUCTION :: string where
  "VISION_INSTRUCTION =
     (''Describe what you see in this image in detail. Focus on UI elements, text content, '' @
       ''layout, and any actionable information. Respond in the same language as the '' @
       ''original text.'' @
       [CHR 0x0A, CHR 0x0A] @
       ''## CRITICAL RULES '' @
       [CHR 0xE2, CHR 0x80, CHR 0x94] @
       '' Anti-hallucination'' @
       [CHR 0x0A] @
       ''1. If the image is completely black, blank, corrupted, or unreadable, respond ONLY '' @
       ''with: '' @
       [CHR 0x22] @
       ''['' @
       [CHR 0xE6, CHR 0x97, CHR 0xA0, CHR 0xE6, CHR 0xB3, CHR 0x95, CHR 0xE8, CHR 0xAF, CHR 0x86,
       CHR 0xE5, CHR 0x88, CHR 0xAB] @
       '': '' @
       [CHR 0xE5, CHR 0x9B, CHR 0xBE, CHR 0xE7, CHR 0x89, CHR 0x87, CHR 0xE4, CHR 0xB8, CHR 0xBA,
       CHR 0xE5, CHR 0x85, CHR 0xA8, CHR 0xE9, CHR 0xBB, CHR 0x91] @
       ''/'' @
       [CHR 0xE7, CHR 0xA9, CHR 0xBA, CHR 0xE7, CHR 0x99, CHR 0xBD] @
       ''/'' @
       [CHR 0xE6, CHR 0x8D, CHR 0x9F, CHR 0xE5, CHR 0x9D, CHR 0x8F, CHR 0xEF, CHR 0xBC, CHR 0x8C,
       CHR 0xE6, CHR 0x97, CHR 0xA0, CHR 0xE6, CHR 0xB3, CHR 0x95, CHR 0xE8, CHR 0x8E, CHR 0xB7,
       CHR 0xE5, CHR 0x8F, CHR 0x96, CHR 0xE6, CHR 0x9C, CHR 0x89, CHR 0xE6, CHR 0x95, CHR 0x88,
       CHR 0xE8, CHR 0xA7, CHR 0x86, CHR 0xE8, CHR 0xA7, CHR 0x89, CHR 0xE4, CHR 0xBF, CHR 0xA1,
       CHR 0xE6, CHR 0x81, CHR 0xAF] @
       '']'' @
       [CHR 0x22, CHR 0x0A] @
       ''2. NEVER fabricate, guess, or invent visual content that is not clearly visible in '' @
       ''the image.'' @
       [CHR 0x0A] @
       ''3. If the requested task (e.g. '' @
       [CHR 0x22] @
       ''find the button'' @
       [CHR 0x22] @
       '') cannot be completed from what is visible, explicitly state: '' @
       [CHR 0x22] @
       ''['' @
       [CHR 0xE6, CHR 0x97, CHR 0xA0, CHR 0xE6, CHR 0xB3, CHR 0x95, CHR 0xE5, CHR 0xAE, CHR 0x8C,
       CHR 0xE6, CHR 0x88, CHR 0x90, CHR 0xE4, CHR 0xBB, CHR 0xBB, CHR 0xE5, CHR 0x8A, CHR 0xA1] @
       '': <reason>]'' @
       [CHR 0x22] @
       '' and explain why.'' @
       [CHR 0x0A] @
       ''4. Only describe elements you can CONFIDENTLY identify in the image. When uncertain '' @
       ''about an element, use hedging language ('' @
       [CHR 0x22] @
       ''appears to be'' @
       [CHR 0x22] @
       '', '' @
       [CHR 0x22] @
       ''may be'' @
       [CHR 0x22] @
       '') rather than asserting it as fact.'' @
       [CHR 0x0A] @
       ''5. Under no circumstances pretend you can see content that is not there.'')"

definition VISION_SYSTEM :: string where
  "VISION_SYSTEM =
     (''You are a visual analysis assistant. Your ONLY job is to describe images '' @
       ''ACCURATELY. You MUST NEVER fabricate, hallucinate, or invent any visual content. If '' @
       ''an image is blank, black, corrupted, or otherwise unreadable, say so honestly. If a '' @
       ''user'' @
       [CHR 0x27] @
       ''s question cannot be answered from the visible content, say it cannot be '' @
       ''determined. Honesty and accuracy are absolute priorities over completeness.'')"

definition vision_request :: "string \<Rightarrow> ContentBlock \<Rightarrow> LlmRequest" where
  "vision_request vision_model img =
     \<lparr>rq_messages = [\<lparr>lm_role = ''user'', lm_content = Blocks [TextBlock VISION_INSTRUCTION, img]\<rparr>],
      rq_system = Some VISION_SYSTEM, rq_tools = [], rq_model = vision_model, rq_max_tokens = 2048,
      rq_stream = False, rq_vision_override = Some True\<rparr>"

fun analysis_section :: "string + LlmResponse \<Rightarrow> string" where
  "analysis_section (Inr resp) =
     (if rs_content resp \<noteq> [] then trim (rs_content resp)
      else (''['' @
       [CHR 0xE8, CHR 0xA7, CHR 0x86, CHR 0xE8, CHR 0xA7, CHR 0x89, CHR 0xE6, CHR 0xA8, CHR 0xA1,
       CHR 0xE5, CHR 0x9E, CHR 0x8B, CHR 0xE5, CHR 0x88, CHR 0x86, CHR 0xE6, CHR 0x9E, CHR 0x90,
       CHR 0xE5, CHR 0xA4, CHR 0xB1, CHR 0xE8, CHR 0xB4, CHR 0xA5] @
       '': '' @
       [CHR 0xE8, CHR 0xA7, CHR 0x86, CHR 0xE8, CHR 0xA7, CHR 0x89, CHR 0xE6, CHR 0xA8, CHR 0xA1,
       CHR 0xE5, CHR 0x9E, CHR 0x8B, CHR 0xE8, CHR 0xBF, CHR 0x94, CHR 0xE5, CHR 0x9B, CHR 0x9E,
       CHR 0xE4, CHR 0xBA, CHR 0x86, CHR 0xE7, CHR 0xA9, CHR 0xBA, CHR 0xE5, CHR 0x93, CHR 0x8D,
       CHR 0xE5, CHR 0xBA, CHR 0x94, CHR 0xEF, CHR 0xBC, CHR 0x8C, CHR 0xE6, CHR 0x9C, CHR 0xAA,
       CHR 0xE8, CHR 0x83, CHR 0xBD, CHR 0xE8, CHR 0x8E, CHR 0xB7, CHR 0xE5, CHR 0x8F, CHR 0x96,
       CHR 0xE4, CHR 0xBB, CHR 0xBB, CHR 0xE4, CHR 0xBD, CHR 0x95, CHR 0xE8, CHR 0xA7, CHR 0x86,
       CHR 0xE8, CHR 0xA7, CHR 0x89, CHR 0xE4, CHR 0xBF, CHR 0xA1, CHR 0xE6, CHR 0x81, CHR 0xAF] @
       '']''))"
| "analysis_section (Inl e) = (''['' @
       [CHR 0xE8, CHR 0xA7, CHR 0x86, CHR 0xE8, CHR 0xA7, CHR 0x89, CHR 0xE6, CHR 0xA8, CHR 0xA1,
       CHR 0xE5, CHR 0x9E, CHR 0x8B, CHR 0xE5, CHR 0x88, CHR 0x86, CHR 0xE6, CHR 0x9E, CHR 0x90,
       CHR 0xE5, CHR 0xA4, CHR 0xB1, CHR 0xE8, CHR 0xB4, CHR 0xA5] @
       '': '') @ e @ '']''"

definition analysis_block :: "string \<Rightarrow> ContentBlock" where
  "analysis_block section = TextBlock (([CHR 0x0A] @
       ''['' @
       [CHR 0xE8, CHR 0xA7, CHR 0x86, CHR 0xE8, CHR 0xA7, CHR 0x89, CHR 0xE6, CHR 0xA8, CHR 0xA1,
       CHR 0xE5, CHR 0x9E, CHR 0x8B, CHR 0xE5, CHR 0x88, CHR 0x86, CHR 0xE6, CHR 0x9E, CHR 0x90,
       CHR 0xE7, CHR 0xBB, CHR 0x93, CHR 0xE6, CHR 0x9E, CHR 0x9C] @
       '']'' @
       [CHR 0x0A]) @ section)"

text \<open>The answer of the vision model to the n-th request is what \<open>complete\<close> gives for n.\<close>

definition delegate_vision_analysis ::
  "(nat \<Rightarrow> LlmRequest \<Rightarrow> string + LlmResponse) \<Rightarrow> string \<Rightarrow> LlmMessage list \<Rightarrow> LlmMessage list" where
  "delegate_vision_analysis complete vision_model messages =
     (case rposition user_image messages of
        None \<Rightarrow> messages
      | Some idx \<Rightarrow>
          let bs = blocks (messages ! idx);
              text_parts = List.map_filter block_text bs;
              sections = map (\<lambda>(n, img). analysis_section (complete n (vision_request vision_model img)))
                           (enumerate 0 (filter is_image bs))
          in messages[idx := \<lparr>lm_role = ''user'', lm_content = Blocks
               (map TextBlock text_parts @ map analysis_block sections)\<rparr>])"

section \<open>The request on the wire\<close>

definition CTX_PRESERVE_RECENT_TURNS :: nat where "CTX_PRESERVE_RECENT_TURNS = 3"
definition CTX_KEEP_RECENT_TOOL_CARRIERS :: nat where "CTX_KEEP_RECENT_TOOL_CARRIERS = 8"

record wire_config =
  wc_js :: "json \<Rightarrow> string"
  wc_message_budget :: nat
  wc_max_tool_result_tokens :: nat
  wc_vision_delegate :: "((nat \<Rightarrow> LlmRequest \<Rightarrow> string + LlmResponse) \<times> string) option"
  wc_transform_context :: "LlmMessage list \<Rightarrow> LlmMessage list"

definition wire_view :: "wire_config \<Rightarrow> (string \<rightharpoonup> string) \<Rightarrow> string \<Rightarrow> LlmMessage list \<Rightarrow> VisionStore \<Rightarrow> LlmMessage list" where
  "wire_view c tool_minimals session_id messages store =
     inject_selected_context
       (build_request_view_messages (wc_js c) messages tool_minimals CTX_PRESERVE_RECENT_TURNS
          CTX_KEEP_RECENT_TOOL_CARRIERS (wc_message_budget c) (wc_max_tool_result_tokens c))
       session_id store"

definition wire_messages ::
  "wire_config \<Rightarrow> (string \<rightharpoonup> string) \<Rightarrow> string \<Rightarrow> LlmMessage list \<Rightarrow> VisionStore \<Rightarrow> LlmMessage list \<times> VisionStore" where
  "wire_messages c tool_minimals session_id messages store =
     (let view = wire_view c tool_minimals session_id messages store;
          req_messages =
            (case wc_vision_delegate c of
               None \<Rightarrow> view
             | Some (complete, vision_model) \<Rightarrow>
                 map (retain_blocks (\<lambda>b. \<not> is_image b)) (delegate_vision_analysis complete vision_model view))
      in (wc_transform_context c req_messages, clear_selection session_id store))"

end
