(* ===== verification/Receipts.thy ===== *)
theory Receipts
  imports Llm_Messages
begin

text \<open>
  The receipts of \<^verbatim>\<open>agent/tool_receipt.rs\<close>: what stands for a tool result once it is old.
\<close>

section \<open>Scanning\<close>

text \<open>\<^verbatim>\<open>char::is_numeric\<close> above ASCII: the runs of the categories Nd, Nl and No (Unicode 15).\<close>

definition numeric_runs :: "(nat \<times> nat) list" where
  "numeric_runs = [
     (178, 179), (185, 185), (188, 190), (1632, 1641), (1776, 1785), (1984, 1993), (2406, 2415),
     (2534, 2543), (2548, 2553), (2662, 2671), (2790, 2799), (2918, 2927), (2930, 2935),
     (3046, 3058), (3174, 3183), (3192, 3198), (3302, 3311), (3416, 3422), (3430, 3448),
     (3558, 3567), (3664, 3673), (3792, 3801), (3872, 3891), (4160, 4169), (4240, 4249),
     (4969, 4988), (5870, 5872), (6112, 6121), (6128, 6137), (6160, 6169), (6470, 6479),
     (6608, 6618), (6784, 6793), (6800, 6809), (6992, 7001), (7088, 7097), (7232, 7241),
     (7248, 7257), (8304, 8304), (8308, 8313), (8320, 8329), (8528, 8578), (8581, 8585),
     (9312, 9371), (9450, 9471), (10102, 10131), (11517, 11517), (12295, 12295), (12321, 12329),
     (12344, 12346), (12690, 12693), (12832, 12841), (12872, 12879), (12881, 12895),
     (12928, 12937), (12977, 12991), (42528, 42537), (42726, 42735), (43056, 43061),
     (43216, 43225), (43264, 43273), (43472, 43481), (43504, 43513), (43600, 43609),
     (44016, 44025), (65296, 65305), (65799, 65843), (65856, 65912), (65930, 65931),
     (66273, 66299), (66336, 66339), (66369, 66369), (66378, 66378), (66513, 66517),
     (66720, 66729), (67672, 67679), (67705, 67711), (67751, 67759), (67835, 67839),
     (67862, 67867), (68028, 68029), (68032, 68047), (68050, 68095), (68160, 68168),
     (68221, 68222), (68253, 68255), (68331, 68335), (68440, 68447), (68472, 68479),
     (68521, 68527), (68858, 68863), (68912, 68921), (69216, 69246), (69405, 69414),
     (69457, 69460), (69573, 69579), (69714, 69743), (69872, 69881), (69942, 69951),
     (70096, 70105), (70113, 70132), (70384, 70393), (70736, 70745), (70864, 70873),
     (71248, 71257), (71360, 71369), (71472, 71483), (71904, 71922), (72016, 72025),
     (72784, 72812), (73040, 73049), (73120, 73129), (73664, 73684), (74752, 74862),
     (92768, 92777), (92864, 92873), (93008, 93017), (93019, 93025), (93824, 93846),
     (119488, 119507), (119520, 119539), (119648, 119672), (120782, 120831), (123200, 123209),
     (123632, 123641), (124144, 124153), (125127, 125135), (125264, 125273), (126065, 126123),
     (126125, 126127), (126129, 126132), (126209, 126253), (126255, 126269), (127232, 127244),
     (130032, 130041)]"

definition is_numeric :: "string \<Rightarrow> bool" where
  "is_numeric c =
     (let n = code_point c
      in if n < 128 then 48 \<le> n \<and> n \<le> 57 else list_ex (\<lambda>(lo, hi). lo \<le> n \<and> n \<le> hi) numeric_runs)"

fun json_as_array :: "json \<Rightarrow> json list option" where
  "json_as_array (JArr vs) = Some vs"
| "json_as_array _ = None"

definition field_str :: "json \<Rightarrow> string \<Rightarrow> string option" where
  "field_str input k = Option.bind (json_get input k) json_as_str"

text \<open>The first of several fields that is a string.\<close>

fun first_field :: "json \<Rightarrow> string list \<Rightarrow> string" where
  "first_field input [] = []"
| "first_field input (k # ks) = (case field_str input k of Some s \<Rightarrow> s | None \<Rightarrow> first_field input ks)"

definition string_or :: "string option \<Rightarrow> string \<Rightarrow> string" where
  "string_or s d = (case s of Some x \<Rightarrow> x | None \<Rightarrow> d)"

text \<open>\<^verbatim>\<open>find\<close>: where a text first occurs.\<close>

fun find_str :: "string \<Rightarrow> string \<Rightarrow> nat option" where
  "find_str pat [] = (if pat = [] then Some 0 else None)"
| "find_str pat (b # bs) = (if prefix pat (b # bs) then Some 0 else map_option Suc (find_str pat bs))"

text \<open>\<^verbatim>\<open>str::parse::<i32>\<close>, of a text of digits and minus signs.\<close>

definition ascii_digit :: "char \<Rightarrow> bool" where
  "ascii_digit b \<longleftrightarrow> 48 \<le> byte b \<and> byte b \<le> 57"

definition digits_value :: "string \<Rightarrow> int" where
  "digits_value s = foldl (\<lambda>n b. 10 * n + int (byte b) - 48) 0 s"

definition parse_i32 :: "string \<Rightarrow> int option" where
  "parse_i32 s =
     (let (neg, ds) = (case s of [] \<Rightarrow> (False, []) | b # bs \<Rightarrow> if b = CHR 0x2D then (True, bs) else (False, s));
          v = (if neg then - digits_value ds else digits_value ds)
      in if ds \<noteq> [] \<and> list_all ascii_digit ds \<and> - (2 ^ 31) \<le> v \<and> v < 2 ^ 31 then Some v else None)"

definition exit_patterns :: "string list" where
  "exit_patterns = [''exit code:'', ''exitcode:'', ''exit='', ''ExitCode:'']"

text \<open>What a line says after a pattern; lower-casing ASCII keeps the offsets.\<close>

definition exit_in_line :: "string \<Rightarrow> string \<Rightarrow> int option" where
  "exit_in_line l pat =
     (case find_str (map ascii_lower pat) (map ascii_lower l) of
        None \<Rightarrow> None
      | Some idx \<Rightarrow>
          let rest = chars (drop (idx + length pat) l);
              rest = dropWhile (\<lambda>c. is_whitespace c \<or> c = ''='') rest
          in parse_i32 (concat (takeWhile (\<lambda>c. c = ''-'' \<or> length c = 1 \<and> ascii_digit (hd c)) rest)))"

fun first_some :: "('a \<Rightarrow> 'b option) \<Rightarrow> 'a list \<Rightarrow> 'b option" where
  "first_some f [] = None"
| "first_some f (x # xs) = (case f x of Some y \<Rightarrow> Some y | None \<Rightarrow> first_some f xs)"

definition parse_exit_code :: "string \<Rightarrow> int option" where
  "parse_exit_code full =
     first_some (\<lambda>line. first_some (exit_in_line (trim line)) exit_patterns) (take 10 (rev (str_lines full)))"

definition parse_diff_counts :: "string \<Rightarrow> (nat \<times> nat) option" where
  "parse_diff_counts full =
     (let ls = filter (\<lambda>l. \<not> starts_with l ''+++'' \<and> \<not> starts_with l ''---'') (str_lines full);
          plus = length (filter (\<lambda>l. starts_with l ''+'') ls);
          minus = length (filter (\<lambda>l. starts_with l ''-'') ls)
      in if plus = 0 \<and> minus = 0 then None else Some (plus, minus))"

text \<open>\<^verbatim>\<open>split\<close> at a text that is not empty; the first argument is the part so far, in reverse.\<close>

function split_str :: "string \<Rightarrow> string \<Rightarrow> string \<Rightarrow> string list" where
  "split_str acc pat [] = [rev acc]"
| "split_str acc pat (b # bs) =
     (if pat \<noteq> [] \<and> prefix pat (b # bs) then rev acc # split_str [] pat (drop (length pat) (b # bs))
      else split_str (b # acc) pat bs)"
  by pat_completeness auto
termination
  by (relation "measure (\<lambda>(acc, pat, s). length s)") auto

definition starts_numeric :: "string \<Rightarrow> bool" where
  "starts_numeric t \<longleftrightarrow> (case chars t of [] \<Rightarrow> False | c # cs \<Rightarrow> is_numeric c)"

definition is_list_entry :: "string \<Rightarrow> bool" where
  "is_list_entry l \<longleftrightarrow>
     (let t = trim_start l
      in starts_numeric t \<and> contains t ''. '' \<or> starts_with t ''- '' \<or> starts_with t ''* '')"

definition count_search_results :: "string \<Rightarrow> nat" where
  "count_search_results full =
     (let heading_count = length (filter (\<lambda>l. starts_with (trim_start l) ''###'') (str_lines full));
          list_count = length (filter is_list_entry (str_lines full))
      in if 0 < heading_count then heading_count
         else if 0 < list_count then list_count
         else length (filter (\<lambda>b. trim b \<noteq> []) (split_str [] [CHR 0x0A, CHR 0x0A] full)))"

definition artifact_id_in_line :: "string \<Rightarrow> string option" where
  "artifact_id_in_line line =
     (let trimmed = trim line
      in if \<not> starts_with trimmed ''[vision_artifact]'' then None
         else let rest = trim_start (drop 17 trimmed)
              in if \<not> starts_with rest ''id='' then None
                 else let k = concat (takeWhile (\<lambda>c. \<not> is_whitespace c) (chars (drop 3 rest)))
                      in if k = [] then None else Some k)"

definition extract_vision_artifact_id :: "string \<Rightarrow> string option" where
  "extract_vision_artifact_id full = first_some artifact_id_in_line (str_lines full)"

definition first_non_empty_line :: "string \<Rightarrow> string" where
  "first_non_empty_line full = string_or (find (\<lambda>l. l \<noteq> []) (map trim (str_lines full))) []"

definition nonblank_lines :: "string \<Rightarrow> nat" where
  "nonblank_lines full = length (filter (\<lambda>l. trim l \<noteq> []) (str_lines full))"

definition tail_path :: "string \<Rightarrow> nat \<Rightarrow> string" where
  "tail_path path n =
     (let cs = chars path; keep = n - 3
      in if length cs \<le> n then path else ''...'' @ concat (drop (length cs - keep) cs))"

definition looks_like_error :: "string \<Rightarrow> bool" where
  "looks_like_error l \<longleftrightarrow>
     (let lower = map ascii_lower l
      in l \<noteq> [] \<and> list_ex (starts_with lower)
           [''error'', ''err '', ''err:'', ''exception'', ''panic'', ''fatal'', ''failed''])"

definition append_error_hint :: "string \<Rightarrow> string \<Rightarrow> string" where
  "append_error_hint base full =
     (let hint = (case find looks_like_error (map trim (str_lines full)) of
                    Some l \<Rightarrow> l
                  | None \<Rightarrow> first_non_empty_line full);
          available = RECEIPT_MAX_CHARS - count_chars base - 6
      in if hint = [] then base
         else if available < 10 then base
         else base @ '' ERR: '' @ truncate_receipt hint available)"

section \<open>The renderers\<close>

definition chars_str :: "string \<Rightarrow> string" where
  "chars_str full = nat_digits (count_chars full)"

definition with_hint :: "bool \<Rightarrow> string \<Rightarrow> string \<Rightarrow> string" where
  "with_hint is_error full base = (if is_error then append_error_hint base full else base)"

definition render_shell :: "json \<Rightarrow> string \<Rightarrow> bool \<Rightarrow> string" where
  "render_shell input full is_error =
     (let cmd = string_or (field_str input ''command'') [];
          status = (case (is_error, parse_exit_code full) of
                      (True, Some c) \<Rightarrow> ''ERR exit='' @ int_str c
                    | (True, None) \<Rightarrow> ''ERR''
                    | (False, Some c) \<Rightarrow> ''exit='' @ int_str c
                    | (False, None) \<Rightarrow> ''ok'')
      in with_hint is_error full
           (''ran: '' @ truncate_receipt (trim cmd) 60 @ ''; '' @ status @ ''; out='' @ chars_str full @ '' chars''))"

definition render_query :: "string \<Rightarrow> json \<Rightarrow> string \<Rightarrow> bool \<Rightarrow> string" where
  "render_query tool input full is_error =
     with_hint is_error full
       (tool @ '': '' @ truncate_receipt (trim (first_field input [''query'', ''command''])) 60 @ ''; '' @
        (if is_error then ''ERR'' else ''ok'') @ ''; out='' @ chars_str full @ '' chars'')"

definition render_file_read :: "json \<Rightarrow> string \<Rightarrow> bool \<Rightarrow> string" where
  "render_file_read input full is_error =
     (let path_tail = tail_path (string_or (field_str input ''path'') []) 50
      in if is_error then append_error_hint (''read file FAIL: '' @ path_tail) full
         else ''read file: '' @ path_tail @ '' ('' @ nat_digits (length (str_lines full)) @ '' lines, '' @
              chars_str full @ '' chars)'')"

definition render_file_write :: "json \<Rightarrow> string \<Rightarrow> bool \<Rightarrow> string" where
  "render_file_write input full is_error =
     (let path_tail = tail_path (string_or (field_str input ''path'') []) 50;
          content_chars = (case field_str input ''content'' of None \<Rightarrow> 0 | Some s \<Rightarrow> count_chars s)
      in if is_error then append_error_hint (''write file FAIL: '' @ path_tail) full
         else ''wrote file: '' @ path_tail @ '' ('' @ nat_digits content_chars @ '' chars)'')"

definition render_file_edit :: "string \<Rightarrow> json \<Rightarrow> string \<Rightarrow> bool \<Rightarrow> string" where
  "render_file_edit tool input full is_error =
     (let path_tail = tail_path (string_or (field_str input ''path'') []) 45
      in if is_error then append_error_hint (tool @ '' FAIL: '' @ path_tail) full
         else case parse_diff_counts full of
                Some (p, m) \<Rightarrow> ''edited '' @ path_tail @ '': +'' @ nat_digits p @ ''/-'' @ nat_digits m
              | None \<Rightarrow> ''edited '' @ path_tail)"

definition render_file_listing :: "string \<Rightarrow> json \<Rightarrow> string \<Rightarrow> bool \<Rightarrow> string" where
  "render_file_listing tool input full is_error =
     (let target_short = truncate_receipt (first_field input [''path'', ''query'', ''pattern'']) 50
      in if is_error then append_error_hint (tool @ '' FAIL: '' @ target_short) full
         else tool @ '': '' @ target_short @ '' ('' @ nat_digits (nonblank_lines full) @ '' entries)'')"

definition render_web_search :: "json \<Rightarrow> string \<Rightarrow> bool \<Rightarrow> string" where
  "render_web_search input full is_error =
     (let q_short = truncate_receipt (trim (string_or (field_str input ''query'') [])) 60
      in if is_error then append_error_hint (''searched FAIL: '' @ q_short) full
         else ''searched: '' @ q_short @ ''; '' @ nat_digits (count_search_results full) @ '' results'')"

definition render_browser :: "json \<Rightarrow> string \<Rightarrow> bool \<Rightarrow> string" where
  "render_browser input full is_error =
     (let action = string_or (field_str input ''action'') ''?'';
          target_short = truncate_receipt (first_field input [''url'', ''selector'']) 55
      in if is_error then append_error_hint (''browser '' @ action @ '' FAIL: '' @ target_short) full
         else ''browser '' @ action @ '' '' @ target_short @ '': '' @ chars_str full @ '' chars'')"

definition field_len :: "json \<Rightarrow> string \<Rightarrow> nat option" where
  "field_len input k = map_option length (Option.bind (json_get input k) json_as_array)"

definition render_plan :: "json \<Rightarrow> string" where
  "render_plan input =
     (let n = (case field_len input ''items'' of
                 Some n \<Rightarrow> n
               | None \<Rightarrow> (case field_len input ''todos'' of Some n \<Rightarrow> n | None \<Rightarrow> 0))
      in ''planned '' @ nat_digits n @ '' todos'')"

definition render_memory :: "string \<Rightarrow> json \<Rightarrow> string \<Rightarrow> bool \<Rightarrow> string" where
  "render_memory tool input full is_error =
     (let hint = first_field input [''key'', ''query'', ''id'']
      in if is_error then append_error_hint (tool @ '' FAIL'') full
         else if hint = [] then tool @ '': '' @ chars_str full @ '' chars''
         else tool @ '': '' @ truncate_receipt hint 60)"

definition render_skill_list :: "string \<Rightarrow> string" where
  "render_skill_list full = ''skill_list: '' @ nat_digits (nonblank_lines full) @ '' entries''"

definition render_vision :: "json \<Rightarrow> string \<Rightarrow> string" where
  "render_vision input full =
     (let action = string_or (field_str input ''action'') ''list'';
          n = (case field_len input ''ids'' of
                 Some n \<Rightarrow> n
               | None \<Rightarrow> length (filter (\<lambda>l. starts_with (trim l) ''- '') (str_lines full)))
      in ''vision_context '' @ action @ '': '' @ nat_digits n)"

definition render_chat_ui :: "bool \<Rightarrow> string" where
  "render_chat_ui is_error =
     (if is_error then ''chat_ui FAIL'' else ''opened chat_ui form (awaits user response)'')"

definition render_screen_capture :: "json \<Rightarrow> bool \<Rightarrow> string" where
  "render_screen_capture input is_error =
     (let mode = string_or (field_str input ''mode'') ''fullscreen''
      in if is_error then ''screen_capture FAIL ('' @ mode @ '')''
         else ''screen_capture '' @ mode @ ('' '' @ [CHR 0xE2, CHR 0x86, CHR 0x92] @ '' image''))"

definition render_subagent :: "string \<Rightarrow> json \<Rightarrow> string \<Rightarrow> bool \<Rightarrow> string" where
  "render_subagent tool input full is_error =
     (let target = truncate_receipt (first_field input [''fish_id'', ''koi_id'', ''name'', ''target'']) 30;
          head_short = truncate_receipt (first_non_empty_line full) 80
      in if is_error then append_error_hint (tool @ '' '' @ target @ '' FAIL'') full
         else tool @ '' '' @ target @ '': '' @ head_short)"

definition render_external :: "string \<Rightarrow> string \<Rightarrow> bool \<Rightarrow> string" where
  "render_external tool full is_error =
     with_hint is_error full (''invoked '' @ truncate_receipt tool 60 @ '': '' @ chars_str full @ '' chars'')"

definition render_fallback :: "string \<Rightarrow> string \<Rightarrow> bool \<Rightarrow> string" where
  "render_fallback tool full is_error =
     with_hint is_error full
       (''called '' @ truncate_receipt tool 50 @ '': '' @ chars_str full @ '' chars'' @
        (if is_error then '' (ERR)'' else []))"

definition receipt_body :: "string \<Rightarrow> json \<Rightarrow> string \<Rightarrow> bool \<Rightarrow> string" where
  "receipt_body tool input full is_error =
     (let named = (\<lambda>ns. tool \<in> set ns)
      in if named [''shell'', ''powershell''] then render_shell input full is_error
         else if named [''powershell_query'', ''wmi''] then render_query tool input full is_error
         else if named [''file_read''] then render_file_read input full is_error
         else if named [''file_write''] then render_file_write input full is_error
         else if named [''file_edit'', ''file_diff''] then render_file_edit tool input full is_error
         else if named [''file_list'', ''file_search''] then render_file_listing tool input full is_error
         else if named [''web_search''] then render_web_search input full is_error
         else if named [''browser''] then render_browser input full is_error
         else if named [''plan_update'', ''plan_todo'', ''plan_write''] then render_plan input
         else if named [''memory_store'', ''memory_recall'', ''memory_search'', ''memory_list'']
              then render_memory tool input full is_error
         else if named [''skill_list'', ''skills_list''] then render_skill_list full
         else if named [''vision_context''] then render_vision input full
         else if named [''chat_ui''] then render_chat_ui is_error
         else if named [''chat_ui_patch'']
              then (if is_error then ''chat_ui_patch FAIL'' else ''patched live chat_ui card'')
         else if named [''chat_ui_listen''] then render_chat_ui is_error
         else if named [''screen_capture''] then render_screen_capture input is_error
         else if named [''call_fish'', ''call_koi'', ''pool_chat'', ''pool_org'']
              then render_subagent tool input full is_error
         else if starts_with tool ''mcp_'' \<or> starts_with tool ''user_tool:''
              then render_external tool full is_error
         else render_fallback tool full is_error)"

definition render_receipt :: "string \<Rightarrow> json \<Rightarrow> string \<Rightarrow> bool \<Rightarrow> string option \<Rightarrow> string" where
  "render_receipt tool input full is_error image_artifact_id =
     (let artifact = (case image_artifact_id of Some i \<Rightarrow> Some i | None \<Rightarrow> extract_vision_artifact_id full);
          out = receipt_body tool input full is_error;
          out = (case artifact of
                   None \<Rightarrow> out
                 | Some i \<Rightarrow> out @ (if out = [] then [] else '' '') @ ''+image(id='' @ truncate_receipt i 16 @ '')'')
      in truncate_receipt out RECEIPT_MAX_CHARS)"

section \<open>Receipts of a log\<close>

text \<open>\<^verbatim>\<open>rebuild_tool_receipts_from_messages\<close> of \<^verbatim>\<open>loop_.rs\<close>: the calls, the receipts and the names seen.\<close>

type_synonym receipt_maps = "(string \<rightharpoonup> string \<times> json) \<times> (string \<rightharpoonup> string) \<times> (string \<rightharpoonup> string)"

fun receipt_block :: "ContentBlock \<Rightarrow> receipt_maps \<Rightarrow> receipt_maps" where
  "receipt_block (ToolUse k name input) (calls, minimals, names) =
     (calls(k \<mapsto> (name, input)), minimals, names(k \<mapsto> name))"
| "receipt_block (ToolResult k content is_error) (calls, minimals, names) =
     (let (name, input) = (case calls k of Some c \<Rightarrow> c | None \<Rightarrow> (''unknown'', JNull))
      in if is_ephemeral_tool_call name input then (calls, minimals, names)
         else (calls, minimals(k \<mapsto> render_receipt name input content is_error None), names))"
| "receipt_block _ maps = maps"

definition rebuild_tool_receipts_from_messages :: "LlmMessage list \<Rightarrow> (string \<rightharpoonup> string) \<times> (string \<rightharpoonup> string)" where
  "rebuild_tool_receipts_from_messages messages =
     snd (fold receipt_block (concat (map blocks messages)) (Map.empty, Map.empty, Map.empty))"

end
