(* ===== verification/Compaction.thy ===== *)
theory Compaction
  imports Vision Receipts
begin

text \<open>
  Keeping a conversation within the budget of a model: the tiers (\<^verbatim>\<open>harness/budget.rs\<close>), the answer of
  the summariser (\<^verbatim>\<open>agent/summary_worker.rs\<close>), and the strategies of \<^verbatim>\<open>agent/loop_.rs\<close> that replace old
  messages by a summary or drop them. The client that answers, the parser of JSON and the printer of
  JSON are parameters.
\<close>

section \<open>Products with constants of floating point\<close>

text \<open>
  \<^verbatim>\<open>(n as f64 * c) as usize\<close> for \<open>c = m / 2 ^ k\<close>: the product is rounded to 53 bits, ties to even, and
  then truncated.
\<close>

fun bit_count :: "nat \<Rightarrow> nat" where
  "bit_count n = (if n = 0 then 0 else Suc (bit_count (n div 2)))"

definition round_53 :: "nat \<Rightarrow> nat" where
  "round_53 p =
     (let s = bit_count p - 53; q = p div 2 ^ s; r = 2 * (p mod 2 ^ s)
      in (if 2 ^ s < r \<or> (r = 2 ^ s \<and> odd q) then Suc q else q) * 2 ^ s)"

definition mul_f64 :: "nat \<Rightarrow> nat \<times> nat \<Rightarrow> nat" where
  "mul_f64 n = (\<lambda>(m, k). round_53 (n * m) div 2 ^ k)"

definition half_f64 :: "nat \<times> nat \<Rightarrow> nat \<times> nat" where
  "half_f64 = (\<lambda>(m, k). (m, Suc k))"

text \<open>0.6 and 0.35.\<close>

definition SUMMARY_KEEP_RECENT_RATIO :: "nat \<times> nat" where
  "SUMMARY_KEEP_RECENT_RATIO = (5404319552844595, 53)"

definition MIN_THRESHOLD_RATIO :: "nat \<times> nat" where
  "MIN_THRESHOLD_RATIO = (3152519739159347, 53)"

section \<open>Tiers\<close>

datatype CompactionTier = NoTier | Micro | Auto | Full

record LayeredBudget =
  bg_total :: u32
  bg_trigger_micro :: u32
  bg_trigger_auto :: u32
  bg_trigger_full :: u32
  bg_max_tool_result_tokens :: u32

definition percent_of :: "u32 \<Rightarrow> nat \<Rightarrow> u32" where
  "percent_of budget_total pct = word_of_nat (unat budget_total * pct div 100)"

definition with_total :: "u32 \<Rightarrow> LayeredBudget" where
  "with_total budget_total = \<lparr>
     bg_total = budget_total,
     bg_trigger_micro = percent_of budget_total 60,
     bg_trigger_auto = percent_of budget_total 80,
     bg_trigger_full = percent_of budget_total 95,
     bg_max_tool_result_tokens = 8000 \<rparr>"

definition from_context_window :: "u32 \<Rightarrow> u32 \<Rightarrow> LayeredBudget" where
  "from_context_window context_window max_tokens =
     with_total (word_of_nat (compute_total_input_budget context_window max_tokens))"

text \<open>\<^verbatim>\<open>Ord::clamp\<close> panics when its bounds are out of order.\<close>

definition clamp :: "nat \<Rightarrow> nat \<Rightarrow> nat \<Rightarrow> nat option" where
  "clamp x lo hi = (if lo \<le> hi then Some (if x < lo then lo else if hi < x then hi else x) else None)"

definition normalize_tier_percents :: "nat \<Rightarrow> nat \<Rightarrow> nat \<Rightarrow> (nat \<times> nat \<times> nat) option" where
  "normalize_tier_percents micro auto full =
     (let micro = min micro 99
      in Option.bind (clamp auto (micro + 1) 99) (\<lambda>auto.
         Option.bind (clamp full (auto + 1) 100) (\<lambda>full. Some (micro, auto, full))))"

definition with_tier_percents :: "LayeredBudget \<Rightarrow> nat \<Rightarrow> nat \<Rightarrow> nat \<Rightarrow> LayeredBudget option" where
  "with_tier_percents b micro auto full =
     map_option (\<lambda>(micro, auto, full). b\<lparr>
       bg_trigger_micro := percent_of (bg_total b) micro,
       bg_trigger_auto := percent_of (bg_total b) auto,
       bg_trigger_full := percent_of (bg_total b) full \<rparr>) (normalize_tier_percents micro auto full)"

definition with_max_tool_result_tokens :: "LayeredBudget \<Rightarrow> u32 \<Rightarrow> LayeredBudget" where
  "with_max_tool_result_tokens b v =
     b\<lparr>bg_max_tool_result_tokens := (if v = 0 then 0 else max 1000 (min v 64000))\<rparr>"

definition classify :: "LayeredBudget \<Rightarrow> u32 \<Rightarrow> CompactionTier" where
  "classify b estimated_input_tokens =
     (if bg_total b = 0 then NoTier
      else if bg_trigger_full b \<le> estimated_input_tokens then Full
      else if bg_trigger_auto b \<le> estimated_input_tokens then Auto
      else if bg_trigger_micro b \<le> estimated_input_tokens then Micro
      else NoTier)"

section \<open>The answer of the summariser\<close>

record StructuredSummary =
  ss_summary :: string
  ss_active_plan_items :: "string list"
  ss_next_step_hint :: "string option"

definition structured_from_prose :: "string \<Rightarrow> StructuredSummary" where
  "structured_from_prose s = \<lparr>ss_summary = trim s, ss_active_plan_items = [], ss_next_step_hint = None\<rparr>"

definition strip_prefix :: "string \<Rightarrow> string \<Rightarrow> string option" where
  "strip_prefix p s = (if starts_with s p then Some (drop (length p) s) else None)"

definition strip_suffix_or_all :: "string \<Rightarrow> string \<Rightarrow> string" where
  "strip_suffix_or_all p s = (if ends_with s p then take (length s - length p) s else s)"

definition strip_code_fence :: "string \<Rightarrow> string" where
  "strip_code_fence input =
     (let s = trim input
      in case strip_prefix ([CHR 0x60, CHR 0x60, CHR 0x60] @ ''json'') s of
           Some rest \<Rightarrow> trim (strip_suffix_or_all [CHR 0x60, CHR 0x60, CHR 0x60] rest)
         | None \<Rightarrow>
             (case strip_prefix [CHR 0x60, CHR 0x60, CHR 0x60] s of
                Some rest \<Rightarrow> trim (strip_suffix_or_all [CHR 0x60, CHR 0x60, CHR 0x60] rest)
              | None \<Rightarrow> s))"

text \<open>
  The scan from an opening bracket: how many bytes reach to the bracket that closes it. Brackets in
  strings do not count.
\<close>

fun scan_brackets :: "char \<Rightarrow> char \<Rightarrow> nat \<Rightarrow> bool \<Rightarrow> bool \<Rightarrow> string \<Rightarrow> nat option" where
  "scan_brackets op cl depth in_string escape [] = None"
| "scan_brackets op cl depth in_string escape (b # bs) =
     (if in_string then
        map_option Suc
          (if escape then scan_brackets op cl depth True False bs
           else if b = CHR 0x5C then scan_brackets op cl depth True True bs
           else scan_brackets op cl depth (b \<noteq> CHR 0x22) False bs)
      else if b = CHR 0x22 then map_option Suc (scan_brackets op cl depth True False bs)
      else if b = op then map_option Suc (scan_brackets op cl (Suc depth) False False bs)
      else if b = cl then
        (if depth = 1 then Some 1 else map_option Suc (scan_brackets op cl (depth - 1) False False bs))
      else map_option Suc (scan_brackets op cl depth False False bs))"

definition extract_brackets :: "char \<Rightarrow> char \<Rightarrow> string \<Rightarrow> string option" where
  "extract_brackets op cl s =
     (let rest = dropWhile (\<lambda>b. b \<noteq> op) s
      in map_option (\<lambda>n. take n rest) (scan_brackets op cl 0 False False rest))"

definition extract_json_object :: "string \<Rightarrow> string option" where
  "extract_json_object = extract_brackets (CHR 0x7B) (CHR 0x7D)"

definition extract_json_array :: "string \<Rightarrow> string option" where
  "extract_json_array s = extract_brackets (CHR 0x5B) (CHR 0x5D) (strip_code_fence s)"

definition nonempty_trimmed :: "json \<Rightarrow> string option" where
  "nonempty_trimmed item =
     (case json_as_str item of None \<Rightarrow> None | Some s \<Rightarrow> (if trim s = [] then None else Some (trim s)))"

definition structured_of_json :: "json \<Rightarrow> StructuredSummary" where
  "structured_of_json v = \<lparr>
     ss_summary = (case field_str v ''summary'' of None \<Rightarrow> [] | Some s \<Rightarrow> trim s),
     ss_active_plan_items =
       (case Option.bind (json_get v ''active_plan_items'') json_as_array of
          None \<Rightarrow> [] | Some arr \<Rightarrow> List.map_filter nonempty_trimmed arr),
     ss_next_step_hint = Option.bind (json_get v ''next_step_hint'') nonempty_trimmed \<rparr>"

definition parse_structured_summary :: "(string \<Rightarrow> json option) \<Rightarrow> string \<Rightarrow> StructuredSummary" where
  "parse_structured_summary parse_json raw =
     (let trimmed = trim raw
      in if trimmed = [] then structured_from_prose []
         else case Option.bind (extract_json_object (strip_code_fence trimmed)) parse_json of
                None \<Rightarrow> structured_from_prose trimmed
              | Some v \<Rightarrow>
                  let s = structured_of_json v
                  in if ss_summary s \<noteq> [] \<or> ss_active_plan_items s \<noteq> [] then s
                     else structured_from_prose trimmed)"

definition STRUCTURED_SUMMARY_PROMPT_SUFFIX :: string where
  "STRUCTURED_SUMMARY_PROMPT_SUFFIX =
     ([CHR 0x0A, CHR 0x0A, CHR 0xE8, CHR 0xAF, CHR 0xB7, CHR 0xE4, CHR 0xBB, CHR 0xA5, CHR 0xE5,
       CHR 0xA6, CHR 0x82, CHR 0xE4, CHR 0xB8, CHR 0x8B] @
       '' JSON '' @
       [CHR 0xE5, CHR 0xAF, CHR 0xB9, CHR 0xE8, CHR 0xB1, CHR 0xA1, CHR 0xE8, CHR 0xBF, CHR 0x94,
       CHR 0xE5, CHR 0x9B, CHR 0x9E, CHR 0xEF, CHR 0xBC, CHR 0x88, CHR 0xE5, CHR 0x8D, CHR 0x95,
       CHR 0xE4, CHR 0xB8, CHR 0xAA, CHR 0xE4, CHR 0xBB, CHR 0xA3, CHR 0xE7, CHR 0xA0, CHR 0x81,
       CHR 0xE5, CHR 0x9B, CHR 0xB4, CHR 0xE6, CHR 0xA0, CHR 0x8F, CHR 0xE5, CHR 0x8F, CHR 0xAF,
       CHR 0xE9, CHR 0x80, CHR 0x89, CHR 0xEF, CHR 0xBC, CHR 0x8C, CHR 0xE4, CHR 0xB9, CHR 0x9F,
       CHR 0xE5, CHR 0x8F, CHR 0xAF, CHR 0xE4, CHR 0xBB, CHR 0xA5, CHR 0xE7, CHR 0x9B, CHR 0xB4,
       CHR 0xE6, CHR 0x8E, CHR 0xA5, CHR 0xE8, CHR 0xA3, CHR 0xB8, CHR 0xE8, CHR 0xBE, CHR 0x93,
       CHR 0xE5, CHR 0x87, CHR 0xBA, CHR 0xEF, CHR 0xBC, CHR 0x89, CHR 0xEF, CHR 0xBC, CHR 0x9A,
       CHR 0x0A] @
       ''{'' @
       [CHR 0x0A, CHR 0x22] @
       ''summary'' @
       [CHR 0x22] @
       '': '' @
       [CHR 0x22, CHR 0xE5, CHR 0x90, CHR 0x88, CHR 0xE5, CHR 0xB9, CHR 0xB6, CHR 0xE5, CHR 0x90,
       CHR 0x8E, CHR 0xE7, CHR 0x9A, CHR 0x84, CHR 0xE6, CHR 0xBB, CHR 0x9A, CHR 0xE5, CHR 0x8A,
       CHR 0xA8, CHR 0xE6, CHR 0x91, CHR 0x98, CHR 0xE8, CHR 0xA6, CHR 0x81, CHR 0xE6, CHR 0xAD,
       CHR 0xA3, CHR 0xE6, CHR 0x96, CHR 0x87, CHR 0x22] @
       '','' @
       [CHR 0x0A, CHR 0x22] @
       ''active_plan_items'' @
       [CHR 0x22] @
       '': ['' @
       [CHR 0x22, CHR 0xE6, CHR 0x9C, CHR 0xAA, CHR 0xE5, CHR 0xAE, CHR 0x8C, CHR 0xE6, CHR 0x88,
       CHR 0x90, CHR 0xE7, CHR 0x9A, CHR 0x84] @
       '' todo/handoff '' @
       [CHR 0xE8, CHR 0xA6, CHR 0x81, CHR 0xE7, CHR 0x82, CHR 0xB9, CHR 0xEF, CHR 0xBC, CHR 0x8C,
       CHR 0xE6, CHR 0xAF, CHR 0x8F, CHR 0xE9, CHR 0xA1, CHR 0xB9] @
       '' '' @
       [CHR 0xE2, CHR 0x89, CHR 0xA4] @
       '' 80 '' @
       [CHR 0xE5, CHR 0xAD, CHR 0x97, CHR 0x22] @
       ''],'' @
       [CHR 0x0A, CHR 0x22] @
       ''next_step_hint'' @
       [CHR 0x22] @
       '': '' @
       [CHR 0x22, CHR 0xE5, CHR 0xBB, CHR 0xBA, CHR 0xE8, CHR 0xAE, CHR 0xAE, CHR 0xE7, CHR 0x9A,
       CHR 0x84, CHR 0xE4, CHR 0xB8, CHR 0x8B, CHR 0xE4, CHR 0xB8, CHR 0x80, CHR 0xE6, CHR 0xAD,
       CHR 0xA5, CHR 0xEF, CHR 0xBC, CHR 0x8C, CHR 0xE2, CHR 0x89, CHR 0xA4] @
       '' 80 '' @
       [CHR 0xE5, CHR 0xAD, CHR 0x97, CHR 0xEF, CHR 0xBC, CHR 0x8C, CHR 0xE5, CHR 0x8F, CHR 0xAF,
       CHR 0xE4, CHR 0xB8, CHR 0xBA, CHR 0xE7, CHR 0xA9, CHR 0xBA, CHR 0x22, CHR 0x0A] @
       ''}'' @
       [CHR 0x0A, CHR 0xE5, CHR 0xA6, CHR 0x82, CHR 0xE6, CHR 0x9E, CHR 0x9C, CHR 0xE6, CHR 0x97,
       CHR 0xA0, CHR 0xE6, CHR 0xB3, CHR 0x95, CHR 0xE4, CHR 0xBA, CHR 0xA7, CHR 0xE5, CHR 0x87,
       CHR 0xBA] @
       '' JSON'' @
       [CHR 0xEF, CHR 0xBC, CHR 0x8C, CHR 0xE5, CHR 0x8F, CHR 0xAF, CHR 0xE7, CHR 0x9B, CHR 0xB4,
       CHR 0xE6, CHR 0x8E, CHR 0xA5, CHR 0xE8, CHR 0xBE, CHR 0x93, CHR 0xE5, CHR 0x87, CHR 0xBA,
       CHR 0xE7, CHR 0xBA, CHR 0xAF, CHR 0xE6, CHR 0x91, CHR 0x98, CHR 0xE8, CHR 0xA6, CHR 0x81,
       CHR 0xE6, CHR 0x96, CHR 0x87, CHR 0xE6, CHR 0x9C, CHR 0xAC, CHR 0xE3, CHR 0x80, CHR 0x82])"

section \<open>Summaries of old messages\<close>

record CompactionOutcome =
  oc_messages :: "LlmMessage list"
  oc_summary :: string
  oc_input_tokens :: u32
  oc_output_tokens :: u32
  oc_plan_items :: "string list"
  oc_next_step_hint :: "string option"

fun block_preview :: "(json \<Rightarrow> string) \<Rightarrow> ContentBlock \<Rightarrow> string option" where
  "block_preview js (TextBlock text) = (if text = [] then None else Some text)"
| "block_preview js (ToolUse i name input) =
     Some (([CHR 0xE8, CHR 0xB0, CHR 0x83, CHR 0xE7, CHR 0x94, CHR 0xA8, CHR 0xE5, CHR 0xB7, CHR 0xA5,
       CHR 0xE5, CHR 0x85, CHR 0xB7] @
       '' '') @ name @ '': '' @ take_chars 200 (js input))"
| "block_preview js (ToolResult i content e) = Some (([CHR 0xE5, CHR 0xB7, CHR 0xA5, CHR 0xE5, CHR 0x85, CHR 0xB7, CHR 0xE7, CHR 0xBB, CHR 0x93,
       CHR 0xE6, CHR 0x9E, CHR 0x9C] @
       '': '') @ take_chars 200 content)"
| "block_preview js (Image s) = None"

definition history_line :: "(json \<Rightarrow> string) \<Rightarrow> LlmMessage \<Rightarrow> string" where
  "history_line js m =
     (let role = (if lm_role m = ''user'' then ([CHR 0xE7, CHR 0x94, CHR 0xA8, CHR 0xE6, CHR 0x88, CHR 0xB7] @
       ''/'' @
       [CHR 0xE5, CHR 0xB7, CHR 0xA5, CHR 0xE5, CHR 0x85, CHR 0xB7, CHR 0xE7, CHR 0xBB, CHR 0x93,
       CHR 0xE6, CHR 0x9E, CHR 0x9C]) else [CHR 0xE6, CHR 0x99, CHR 0xBA, CHR 0xE8, CHR 0x83, CHR 0xBD, CHR 0xE4, CHR 0xBD, CHR 0x93]);
          text = (case lm_content m of
                    Text t \<Rightarrow> t
                  | Blocks bs \<Rightarrow> join [CHR 0x0A] (List.map_filter (block_preview js) bs))
      in if text = [] \<or> is_compaction_summary_text text then []
         else ''['' @ role @ '']: '' @
           (if 500 < count_chars text then take_chars 500 text @ ''...'' else text))"

definition summary_prompt :: "string option \<Rightarrow> string \<Rightarrow> string" where
  "summary_prompt existing_summary history_text =
     ([CHR 0xE8, CHR 0xAF, CHR 0xB7, CHR 0xE5, CHR 0xB0, CHR 0x86, CHR 0xE4, CHR 0xBB, CHR 0xA5,
       CHR 0xE4, CHR 0xB8, CHR 0x8B, CHR 0xE5, CHR 0x86, CHR 0x85, CHR 0xE5, CHR 0xAE, CHR 0xB9,
       CHR 0xE5, CHR 0x90, CHR 0x88, CHR 0xE5, CHR 0xB9, CHR 0xB6, CHR 0xE4, CHR 0xB8, CHR 0xBA,
       CHR 0xE4, CHR 0xB8, CHR 0x80, CHR 0xE6, CHR 0x9D, CHR 0xA1, CHR 0xE6, CHR 0x96, CHR 0xB0,
       CHR 0xE7, CHR 0x9A, CHR 0x84, CHR 0xE6, CHR 0xBB, CHR 0x9A, CHR 0xE5, CHR 0x8A, CHR 0xA8,
       CHR 0xE6, CHR 0x91, CHR 0x98, CHR 0xE8, CHR 0xA6, CHR 0x81, CHR 0xE3, CHR 0x80, CHR 0x82,
       CHR 0x0A, CHR 0xE6, CHR 0x91, CHR 0x98, CHR 0xE8, CHR 0xA6, CHR 0x81, CHR 0xE5, CHR 0xBF,
       CHR 0x85, CHR 0xE9, CHR 0xA1, CHR 0xBB, CHR 0xE8, CHR 0xA6, CHR 0x86, CHR 0xE7, CHR 0x9B,
       CHR 0x96, CHR 0xE4, CHR 0xBA, CHR 0x94, CHR 0xE9, CHR 0x83, CHR 0xA8, CHR 0xE5, CHR 0x88,
       CHR 0x86, CHR 0xEF, CHR 0xBC, CHR 0x9A, CHR 0xE5, CHR 0xBD, CHR 0x93, CHR 0xE5, CHR 0x89,
       CHR 0x8D, CHR 0xE4, CHR 0xBB, CHR 0xBB, CHR 0xE5, CHR 0x8A, CHR 0xA1, CHR 0xE5, CHR 0xA5,
       CHR 0x91, CHR 0xE7, CHR 0xBA, CHR 0xA6] @
       ''/'' @
       [CHR 0xE7, CHR 0x94, CHR 0xA8, CHR 0xE6, CHR 0x88, CHR 0xB7, CHR 0xE7, CHR 0x9B, CHR 0xAE,
       CHR 0xE6, CHR 0xA0, CHR 0x87, CHR 0xE3, CHR 0x80, CHR 0x81, CHR 0xE5, CHR 0xB7, CHR 0xB2,
       CHR 0xE5, CHR 0xAE, CHR 0x8C, CHR 0xE6, CHR 0x88, CHR 0x90, CHR 0xE5, CHR 0xB7, CHR 0xA5,
       CHR 0xE4, CHR 0xBD, CHR 0x9C, CHR 0xE3, CHR 0x80, CHR 0x81, CHR 0xE5, CHR 0xBD, CHR 0x93,
       CHR 0xE5, CHR 0x89, CHR 0x8D, CHR 0xE7, CHR 0x8A, CHR 0xB6, CHR 0xE6, CHR 0x80, CHR 0x81,
       CHR 0xE3, CHR 0x80, CHR 0x81, CHR 0xE6, CHR 0x9C, CHR 0xAA, CHR 0xE5, CHR 0xAE, CHR 0x8C,
       CHR 0xE6, CHR 0x88, CHR 0x90, CHR 0xE6, CHR 0x88, CHR 0x96, CHR 0xE5, CHR 0xBE, CHR 0x85,
       CHR 0xE4, CHR 0xBA, CHR 0xA4, CHR 0xE6, CHR 0x8E, CHR 0xA5, CHR 0xE4, CHR 0xBA, CHR 0x8B,
       CHR 0xE9, CHR 0xA1, CHR 0xB9, CHR 0xE3, CHR 0x80, CHR 0x81, CHR 0xE5, CHR 0x85, CHR 0xB3,
       CHR 0xE9, CHR 0x94, CHR 0xAE, CHR 0xE6, CHR 0x96, CHR 0x87, CHR 0xE4, CHR 0xBB, CHR 0xB6] @
       ''/'' @
       [CHR 0xE5, CHR 0x91, CHR 0xBD, CHR 0xE4, CHR 0xBB, CHR 0xA4] @
       ''/'' @
       [CHR 0xE7, CHR 0xBB, CHR 0x93, CHR 0xE6, CHR 0x9E, CHR 0x9C, CHR 0xE3, CHR 0x80, CHR 0x82,
       CHR 0x0A, CHR 0xE5, CHR 0xBF, CHR 0x85, CHR 0xE9, CHR 0xA1, CHR 0xBB, CHR 0xE4, CHR 0xBF,
       CHR 0x9D, CHR 0xE7, CHR 0x95, CHR 0x99, CHR 0xE4, CHR 0xBB, CHR 0x8D, CHR 0xE7, CHR 0x84,
       CHR 0xB6, CHR 0xE6, CHR 0x9C, CHR 0x89, CHR 0xE6, CHR 0x95, CHR 0x88, CHR 0xE7, CHR 0x9A,
       CHR 0x84, CHR 0xE4, CHR 0xBB, CHR 0xBB, CHR 0xE5, CHR 0x8A, CHR 0xA1, CHR 0xE7, CHR 0x9B,
       CHR 0xAE, CHR 0xE6, CHR 0xA0, CHR 0x87, CHR 0xE3, CHR 0x80, CHR 0x81] @
       ''todo id'' @
       [CHR 0xE3, CHR 0x80, CHR 0x81, CHR 0xE6, CHR 0x98, CHR 0xBE, CHR 0xE5, CHR 0xBC, CHR 0x8F] @
       '' handoff '' @
       [CHR 0xE7, CHR 0x9B, CHR 0xAE, CHR 0xE6, CHR 0xA0, CHR 0x87, CHR 0xEF, CHR 0xBC, CHR 0x88,
       CHR 0xE5, CHR 0xA6, CHR 0x82] @
       '' @Reviewer'' @
       [CHR 0xEF, CHR 0xBC, CHR 0x89, CHR 0xE3, CHR 0x80, CHR 0x81, CHR 0x60] @
       ''[ProjectStatus]'' @
       [CHR 0x60] @
       '' '' @
       [CHR 0xE4, CHR 0xBF, CHR 0xA1, CHR 0xE5, CHR 0x8F, CHR 0xB7, CHR 0xE3, CHR 0x80, CHR 0x81,
       CHR 0xE9, CHR 0x98, CHR 0xBB, CHR 0xE5, CHR 0xA1, CHR 0x9E, CHR 0xE5, CHR 0x8E, CHR 0x9F,
       CHR 0xE5, CHR 0x9B, CHR 0xA0, CHR 0xE3, CHR 0x80, CHR 0x81, CHR 0xE5, CHR 0x85, CHR 0xB3,
       CHR 0xE9, CHR 0x94, CHR 0xAE, CHR 0xE8, CHR 0xB7, CHR 0xAF, CHR 0xE5, CHR 0xBE, CHR 0x84,
       CHR 0xE3, CHR 0x80, CHR 0x81, CHR 0xE9, CHR 0x94, CHR 0x99, CHR 0xE8, CHR 0xAF, CHR 0xAF,
       CHR 0xE5, CHR 0x92, CHR 0x8C, CHR 0xE7, CHR 0xBB, CHR 0x93, CHR 0xE8, CHR 0xAE, CHR 0xBA,
       CHR 0xEF, CHR 0xBC, CHR 0x8C, CHR 0xE7, CHR 0x9C, CHR 0x81, CHR 0xE7, CHR 0x95, CHR 0xA5,
       CHR 0xE9, CHR 0x87, CHR 0x8D, CHR 0xE5, CHR 0xA4, CHR 0x8D, CHR 0xE4, CHR 0xB8, CHR 0xAD,
       CHR 0xE9, CHR 0x97, CHR 0xB4, CHR 0xE6, CHR 0xAD, CHR 0xA5, CHR 0xE9, CHR 0xAA, CHR 0xA4,
       CHR 0xE3, CHR 0x80, CHR 0x82, CHR 0x0A, CHR 0xE5, CHR 0xA6, CHR 0x82, CHR 0xE6, CHR 0x9E,
       CHR 0x9C, CHR 0xE5, CHR 0x8E, CHR 0x86, CHR 0xE5, CHR 0x8F, CHR 0xB2, CHR 0xE9, CHR 0x87,
       CHR 0x8C, CHR 0xE5, CHR 0x87, CHR 0xBA, CHR 0xE7, CHR 0x8E, CHR 0xB0, CHR 0xE4, CHR 0xBA,
       CHR 0x86, CHR 0xE6, CHR 0x98, CHR 0x8E, CHR 0xE7, CHR 0xA1, CHR 0xAE, CHR 0xE7, CHR 0x9A,
       CHR 0x84, CHR 0xE4, CHR 0xB8, CHR 0x8B, CHR 0xE4, CHR 0xB8, CHR 0x80, CHR 0xE4, CHR 0xBD,
       CHR 0x8D, CHR 0xE6, CHR 0x89, CHR 0xA7, CHR 0xE8, CHR 0xA1, CHR 0x8C, CHR 0xE8, CHR 0x80,
       CHR 0x85, CHR 0xE3, CHR 0x80, CHR 0x81, CHR 0xE5, CHR 0xAE, CHR 0x8C, CHR 0xE6, CHR 0x88,
       CHR 0x90, CHR 0xE6, CHR 0x9D, CHR 0xA1, CHR 0xE4, CHR 0xBB, CHR 0xB6, CHR 0xE6, CHR 0x88,
       CHR 0x96, CHR 0xE5, CHR 0xBE, CHR 0x85, CHR 0xE9, CHR 0xAA, CHR 0x8C, CHR 0xE8, CHR 0xAF,
       CHR 0x81, CHR 0xE9, CHR 0xA1, CHR 0xB9, CHR 0xEF, CHR 0xBC, CHR 0x8C, CHR 0xE9, CHR 0x99,
       CHR 0xA4, CHR 0xE9, CHR 0x9D, CHR 0x9E, CHR 0xE5, CHR 0x90, CHR 0x8E, CHR 0xE7, CHR 0xBB,
       CHR 0xAD, CHR 0xE5, CHR 0x86, CHR 0x85, CHR 0xE5, CHR 0xAE, CHR 0xB9, CHR 0xE5, CHR 0xB7,
       CHR 0xB2, CHR 0xE7, CHR 0xBB, CHR 0x8F, CHR 0xE6, CHR 0x98, CHR 0x8E, CHR 0xE7, CHR 0xA1,
       CHR 0xAE, CHR 0xE8, CHR 0xA6, CHR 0x86, CHR 0xE7, CHR 0x9B, CHR 0x96, CHR 0xEF, CHR 0xBC,
       CHR 0x8C, CHR 0xE5, CHR 0x90, CHR 0xA6, CHR 0xE5, CHR 0x88, CHR 0x99, CHR 0xE4, CHR 0xB8,
       CHR 0x8D, CHR 0xE8, CHR 0xA6, CHR 0x81, CHR 0xE4, CHR 0xB8, CHR 0xA2, CHR 0xE5, CHR 0xA4,
       CHR 0xB1, CHR 0xE8, CHR 0xBF, CHR 0x99, CHR 0xE4, CHR 0xBA, CHR 0x9B, CHR 0xE4, CHR 0xBF,
       CHR 0xA1, CHR 0xE6, CHR 0x81, CHR 0xAF, CHR 0xE3, CHR 0x80, CHR 0x82, CHR 0x0A, CHR 0x0A]) @
     (case trimmed_nonempty existing_summary of
        None \<Rightarrow> []
      | Some summary \<Rightarrow> [CHR 0xE5, CHR 0xB7, CHR 0xB2, CHR 0xE6, CHR 0x9C, CHR 0x89, CHR 0xE6, CHR 0xBB, CHR 0x9A,
       CHR 0xE5, CHR 0x8A, CHR 0xA8, CHR 0xE6, CHR 0x91, CHR 0x98, CHR 0xE8, CHR 0xA6, CHR 0x81,
       CHR 0xEF, CHR 0xBC, CHR 0x9A, CHR 0x0A] @ summary @ [CHR 0x0A, CHR 0x0A]) @
     [CHR 0xE6, CHR 0x96, CHR 0xB0, CHR 0xE8, CHR 0xBF, CHR 0x91, CHR 0xE5, CHR 0xBE, CHR 0x85,
       CHR 0xE5, CHR 0x8E, CHR 0x8B, CHR 0xE7, CHR 0xBC, CHR 0xA9, CHR 0xE7, CHR 0x9A, CHR 0x84,
       CHR 0xE5, CHR 0xAF, CHR 0xB9, CHR 0xE8, CHR 0xAF, CHR 0x9D, CHR 0xE5, CHR 0x8E, CHR 0x86,
       CHR 0xE5, CHR 0x8F, CHR 0xB2, CHR 0xEF, CHR 0xBC, CHR 0x9A, CHR 0x0A] @ history_text @ STRUCTURED_SUMMARY_PROMPT_SUFFIX"

definition summary_request :: "string \<Rightarrow> u32 \<Rightarrow> string \<Rightarrow> LlmRequest" where
  "summary_request model max_tokens prompt = \<lparr>
     rq_messages = [\<lparr>lm_role = ''user'', lm_content = Text prompt\<rparr>],
     rq_system = None, rq_tools = [], rq_model = model,
     rq_max_tokens = max 512 (min max_tokens 1024),
     rq_stream = False, rq_vision_override = Some False \<rparr>"

definition summarised :: "(string \<Rightarrow> json option) \<Rightarrow> LlmMessage list \<Rightarrow> nat \<Rightarrow> LlmResponse \<Rightarrow> CompactionOutcome" where
  "summarised parse_json messages split_idx resp =
     (let structured = parse_structured_summary parse_json (rs_content resp);
          merged = (if ss_summary structured = [] then trim (rs_content resp) else ss_summary structured)
      in \<lparr> oc_messages = rolling_summary_message merged # drop split_idx messages,
           oc_summary = merged,
           oc_input_tokens = rs_input_tokens resp,
           oc_output_tokens = rs_output_tokens resp,
           oc_plan_items = ss_active_plan_items structured,
           oc_next_step_hint = ss_next_step_hint structured \<rparr>)"

text \<open>What a strategy needs from outside.\<close>

record compaction_env =
  ce_complete :: "LlmRequest \<Rightarrow> string + LlmResponse"
  ce_parse :: "string \<Rightarrow> json option"
  ce_js :: "json \<Rightarrow> string"

definition compact_summarise ::
  "compaction_env \<Rightarrow> LlmMessage list \<Rightarrow> nat \<Rightarrow> string \<Rightarrow> u32 \<Rightarrow> string option \<Rightarrow> CompactionOutcome option" where
  "compact_summarise e messages keep_tokens model max_tokens existing_summary =
     (let split_idx = summary_split_index (ce_js e) messages keep_tokens;
          history_text = join [CHR 0x0A, CHR 0x0A]
            (filter (\<lambda>s. s \<noteq> []) (map (history_line (ce_js e)) (take split_idx messages)))
      in if length messages < 2 \<or> split_idx = 0 then None
         else if trim history_text = [] \<and> trimmed_nonempty existing_summary = None then None
         else case ce_complete e (summary_request model max_tokens (summary_prompt existing_summary history_text)) of
                Inl err \<Rightarrow> None
              | Inr resp \<Rightarrow>
                  if rs_content resp = [] then None else Some (summarised (ce_parse e) messages split_idx resp))"

section \<open>Strategies\<close>

datatype CompactionTrigger = Proactive | Overflow

record CompactionRequest =
  cr_trigger :: CompactionTrigger
  cr_budget :: LayeredBudget
  cr_messages :: "LlmMessage list"
  cr_rolling_summary :: string
  cr_system_prompt :: string
  cr_model :: string
  cr_max_tokens :: u32
  cr_tool_defs :: "ToolDef list"
  cr_tool_minimals :: "string \<rightharpoonup> string"
  cr_session_id :: string
  cr_images :: VisionStore
  cr_cumulative_input_tokens :: int
  cr_next_auto_compact_threshold :: int
  cr_threshold_step :: int

record CompactionResult =
  cs_changed :: bool
  cs_messages :: "LlmMessage list"
  cs_rolling_summary :: string
  cs_input_tokens :: u32
  cs_output_tokens :: u32
  cs_next_auto_compact_threshold :: int
  cs_plan_items :: "string list"
  cs_next_step_hint :: "string option"

definition unchanged :: "CompactionRequest \<Rightarrow> CompactionResult" where
  "unchanged req = \<lparr>
     cs_changed = False,
     cs_messages = cr_messages req,
     cs_rolling_summary = cr_rolling_summary req,
     cs_input_tokens = 0,
     cs_output_tokens = 0,
     cs_next_auto_compact_threshold = cr_next_auto_compact_threshold req,
     cs_plan_items = [],
     cs_next_step_hint = None \<rparr>"

definition dropped_to :: "CompactionRequest \<Rightarrow> LlmMessage list \<Rightarrow> CompactionResult" where
  "dropped_to req kept = (unchanged req)\<lparr>cs_changed := True, cs_messages := kept\<rparr>"

definition compacted_to :: "CompactionRequest \<Rightarrow> CompactionOutcome \<Rightarrow> int \<Rightarrow> CompactionResult" where
  "compacted_to req c threshold = \<lparr>
     cs_changed = True,
     cs_messages = oc_messages c,
     cs_rolling_summary = oc_summary c,
     cs_input_tokens = oc_input_tokens c,
     cs_output_tokens = oc_output_tokens c,
     cs_next_auto_compact_threshold = threshold,
     cs_plan_items = oc_plan_items c,
     cs_next_step_hint = oc_next_step_hint c \<rparr>"

definition message_budget_of :: "compaction_env \<Rightarrow> CompactionRequest \<Rightarrow> nat" where
  "message_budget_of e req =
     unat (bg_total (cr_budget req)) -
       estimate_request_overhead_tokens (ce_js e) (Some (cr_system_prompt req)) (cr_tool_defs req)"

definition estimated_of :: "compaction_env \<Rightarrow> CompactionRequest \<Rightarrow> LlmMessage list \<Rightarrow> nat" where
  "estimated_of e req messages =
     estimate_request_input_tokens (ce_js e) messages (Some (cr_system_prompt req)) (cr_tool_defs req)"

text \<open>\<^verbatim>\<open>saturating_add\<close> on \<^verbatim>\<open>i64\<close>.\<close>

definition sat_add :: "int \<Rightarrow> int \<Rightarrow> int" where
  "sat_add x y = max (- (2 ^ 63)) (min (2 ^ 63 - 1) (x + y))"

definition next_threshold :: "CompactionRequest \<Rightarrow> nat \<Rightarrow> CompactionOutcome \<Rightarrow> int" where
  "next_threshold req estimated c =
     (if 0 < cr_threshold_step req \<and>
         cr_next_auto_compact_threshold req \<le> cr_cumulative_input_tokens req \<and>
         mul_f64 (unat (bg_total (cr_budget req))) MIN_THRESHOLD_RATIO \<le> estimated
      then let step = max 1 (cr_threshold_step req);
               cumulative = sat_add (cr_cumulative_input_tokens req) (int (unat (oc_input_tokens c)))
           in max (sat_add (cr_next_auto_compact_threshold req) step) (sat_add cumulative step)
      else cr_next_auto_compact_threshold req)"

definition existing_summary_of :: "CompactionRequest \<Rightarrow> string option" where
  "existing_summary_of req =
     (if trim (cr_rolling_summary req) = [] then None else Some (cr_rolling_summary req))"

definition summarise_to :: "compaction_env \<Rightarrow> CompactionRequest \<Rightarrow> nat \<times> nat \<Rightarrow> CompactionOutcome option" where
  "summarise_to e req ratio =
     compact_summarise e (cr_messages req) (mul_f64 (message_budget_of e req) ratio) (cr_model req)
       (cr_max_tokens req) (existing_summary_of req)"

definition compact_proactive :: "compaction_env \<Rightarrow> CompactionRequest \<Rightarrow> CompactionResult" where
  "compact_proactive e req =
     (let demoted = build_request_view_messages (ce_js e) (cr_messages req) (cr_tool_minimals req)
            CTX_PRESERVE_RECENT_TURNS CTX_KEEP_RECENT_TOOL_CARRIERS (message_budget_of e req)
            (unat (bg_max_tool_result_tokens (cr_budget req)));
          estimated = estimated_of e req (inject_selected_context demoted (cr_session_id req) (cr_images req));
          tier = classify (cr_budget req) (word_of_nat (min estimated (2 ^ 32 - 1)))
      in if tier = NoTier \<or> tier = Micro then unchanged req
         else case summarise_to e req
                (if tier = Auto then SUMMARY_KEEP_RECENT_RATIO else half_f64 SUMMARY_KEEP_RECENT_RATIO) of
                None \<Rightarrow> unchanged req
              | Some c \<Rightarrow> compacted_to req c (next_threshold req estimated c))"

definition compact_overflow :: "compaction_env \<Rightarrow> CompactionRequest \<Rightarrow> CompactionResult" where
  "compact_overflow e req =
     (case summarise_to e req SUMMARY_KEEP_RECENT_RATIO of
        None \<Rightarrow> unchanged req
      | Some c \<Rightarrow> compacted_to req c (cr_next_auto_compact_threshold req))"

definition default_compact :: "compaction_env \<Rightarrow> CompactionRequest \<Rightarrow> CompactionResult" where
  "default_compact e req =
     (case cr_trigger req of Proactive \<Rightarrow> compact_proactive e req | Overflow \<Rightarrow> compact_overflow e req)"

definition below_micro :: "compaction_env \<Rightarrow> CompactionRequest \<Rightarrow> bool" where
  "below_micro e req \<longleftrightarrow> cr_trigger req = Proactive \<and>
     estimated_of e req (cr_messages req) < unat (bg_trigger_micro (cr_budget req))"

definition sliding_window_compact :: "nat \<times> nat \<Rightarrow> compaction_env \<Rightarrow> CompactionRequest \<Rightarrow> CompactionResult" where
  "sliding_window_compact keep_ratio e req =
     (let ratio = (case cr_trigger req of Proactive \<Rightarrow> keep_ratio | Overflow \<Rightarrow> half_f64 keep_ratio);
          cut_idx = select_recent_window (ce_js e) (cr_messages req) (mul_f64 (message_budget_of e req) ratio)
      in if below_micro e req \<or> cut_idx = 0 then unchanged req
         else dropped_to req (drop cut_idx (cr_messages req)))"

text \<open>
  Retrieval puts back the dropped messages of plain text that are most similar to the newest message of
  the user. The similarity, a cosine of \<^verbatim>\<open>f32\<close> vectors, is a parameter: a number for each pair of texts.
\<close>

definition is_plain_text_message :: "LlmMessage \<Rightarrow> bool" where
  "is_plain_text_message m \<longleftrightarrow>
     (case lm_content m of
        Text t \<Rightarrow> True
      | Blocks bs \<Rightarrow> list_all (\<lambda>b. \<not> is_tool_use b \<and> \<not> is_tool_result b) bs)"

definition query_of :: "LlmMessage list \<Rightarrow> string" where
  "query_of messages =
     (case find (\<lambda>m. lm_role m = ''user'') (rev messages) of
        None \<Rightarrow> [] | Some m \<Rightarrow> as_text (lm_content m))"

definition retrieved ::
  "(string \<Rightarrow> string \<Rightarrow> int) \<Rightarrow> nat \<Rightarrow> string \<Rightarrow> LlmMessage list \<Rightarrow> nat list" where
  "retrieved similarity top_k query old =
     (let scored = filter (\<lambda>(i, s). 0 < s)
            (map (\<lambda>(i, m). (i, similarity query (as_text (lm_content m))))
              (filter (\<lambda>(i, m). is_plain_text_message m) (enumerate 0 old)))
      in sort (map fst (take top_k (sort_key (\<lambda>(i, s). - s) scored))))"

definition vector_retrieval_compact ::
  "(string \<Rightarrow> string \<Rightarrow> int) \<Rightarrow> nat \<times> nat \<Rightarrow> nat \<Rightarrow> compaction_env \<Rightarrow> CompactionRequest \<Rightarrow> CompactionResult" where
  "vector_retrieval_compact similarity keep_ratio top_k e req =
     (let messages = cr_messages req;
          cut_idx = select_recent_window (ce_js e) messages (mul_f64 (message_budget_of e req) keep_ratio)
      in if below_micro e req \<or> cut_idx = 0 then unchanged req
         else dropped_to req
                (map (\<lambda>i. messages ! i) (retrieved similarity top_k (query_of messages) (take cut_idx messages)) @
                 drop cut_idx messages))"

text \<open>Selecting a strategy by name; hosts register further ones.\<close>

definition resolve_compaction_strategy ::
  "(string \<Rightarrow> string \<Rightarrow> int) \<Rightarrow> (string \<Rightarrow> (compaction_env \<Rightarrow> CompactionRequest \<Rightarrow> CompactionResult) option) \<Rightarrow>
     string \<Rightarrow> (compaction_env \<Rightarrow> CompactionRequest \<Rightarrow> CompactionResult) option" where
  "resolve_compaction_strategy similarity contrib name =
     (if name \<in> set ['''', ''default'', ''summary_based''] then Some default_compact
      else if name = ''sliding_window'' then Some (sliding_window_compact SUMMARY_KEEP_RECENT_RATIO)
      else if name = ''vector_retrieval'' then
        Some (vector_retrieval_compact similarity (half_f64 SUMMARY_KEEP_RECENT_RATIO) 4)
      else contrib name)"

end
