(* ===== verification/Llm_Calls.thy ===== *)
theory Llm_Calls
  imports Loop_Guard
begin

text \<open>
  Calls to a model: how errors are classified (\<^verbatim>\<open>llm/error_class.rs\<close>), which models are tried and how often
  (\<^verbatim>\<open>agent/loop_.rs\<close>), the ceilings of providers (\<^verbatim>\<open>harness/request_builder.rs\<close>), and how the chunks of a
  stream become a response.
\<close>

section \<open>Errors\<close>

datatype ErrorClass =
    ModelUnavailable
  | ToolArgsInvalid
  | ProtocolError
  | RateLimited
  | AuthFailed
  | QuotaExceeded
  | UpstreamTransient
  | ReasoningReplayRequired
  | UnknownError

fun error_code :: "ErrorClass \<Rightarrow> string" where
  "error_code ModelUnavailable = ''model_unavailable''"
| "error_code ToolArgsInvalid = ''tool_args_invalid''"
| "error_code ProtocolError = ''protocol_error''"
| "error_code RateLimited = ''rate_limited''"
| "error_code AuthFailed = ''auth_failed''"
| "error_code QuotaExceeded = ''quota_exceeded''"
| "error_code UpstreamTransient = ''upstream_transient''"
| "error_code ReasoningReplayRequired = ''reasoning_replay_required''"
| "error_code UnknownError = ''unknown''"

definition is_retryable :: "ErrorClass \<Rightarrow> bool" where
  "is_retryable c \<longleftrightarrow> c = UpstreamTransient"

definition is_fallback_eligible :: "ErrorClass \<Rightarrow> bool" where
  "is_fallback_eligible c \<longleftrightarrow> c = ModelUnavailable \<or> c = RateLimited"

text \<open>The text after the first occurrence of a needle.\<close>

fun after_first :: "string \<Rightarrow> string \<Rightarrow> string option" where
  "after_first needle [] = (if needle = [] then Some [] else None)"
| "after_first needle (c # cs) =
     (if starts_with (c # cs) needle then Some (drop (length needle) (c # cs)) else after_first needle cs)"

definition status_digit :: "char \<Rightarrow> bool" where
  "status_digit c \<longleftrightarrow> 48 \<le> byte c \<and> byte c \<le> 57"

definition status_value :: "string \<Rightarrow> nat" where
  "status_value s = foldl (\<lambda>n c. 10 * n + (byte c - 48)) 0 s"

definition extract_http_status :: "string \<Rightarrow> nat option" where
  "extract_http_status lower_msg =
     (case after_first ''error '' lower_msg of
        None \<Rightarrow> None
      | Some rest \<Rightarrow>
          let digits = takeWhile status_digit rest
          in if length digits = 3 then Some (status_value digits) else None)"

definition mentions :: "string \<Rightarrow> string list \<Rightarrow> bool" where
  "mentions lower phrases \<longleftrightarrow> list_ex (contains lower) phrases"

definition is_reasoning_replay_error :: "string \<Rightarrow> bool" where
  "is_reasoning_replay_error text \<longleftrightarrow>
     (let lower = to_lowercase text
      in contains lower ''reasoning_content'' \<and> mentions lower [''passed back'', ''must be'', ''missing''])"

definition classify_error :: "string \<Rightarrow> ErrorClass" where
  "classify_error msg =
     (let lower = to_lowercase msg; status = extract_http_status lower
      in if mentions lower [''auth_failed'', ''unauthorized'', ''invalid api key'', ''incorrect api key''] \<or>
            status = Some 401 \<or> status = Some 403 then AuthFailed
         else if status = Some 402 \<or>
            mentions lower [''insufficient_quota'', ''billing_hard_limit_reached'', ''insufficient_balance'',
              ''insufficient balance'', ''credit balance is too low'', ''credits exhausted'', ''payment_required'']
            then QuotaExceeded
         else if contains lower ''tool_args_invalid'' then ToolArgsInvalid
         else if is_reasoning_replay_error msg then ReasoningReplayRequired
         else if (case status of None \<Rightarrow> False | Some n \<Rightarrow> 500 \<le> n \<and> n \<le> 599) then UpstreamTransient
         else if mentions lower [''model_not_found'', ''model not found'', ''model_unavailable'', ''does not exist'',
              ''not supported by any configured account'', ''not in the catalogue'', ''not in the catalog''] \<or>
            (status = Some 404 \<and> contains lower ''model'') then ModelUnavailable
         else if mentions lower [''rate_limit'', ''rate limit''] \<or> status = Some 429 then RateLimited
         else if mentions lower [''protocol_error'', (''missing '' @ [CHR 0x27] @ ''choices'' @ [CHR 0x27]), ''returned empty choices'',
              ''json decode error'', ''response json decode error''] then ProtocolError
         else if status \<noteq> None then UnknownError
         else if mentions lower [''timeout'', ''connection'', ''overloaded'', ''error decoding response body'',
              ''incomplete message'', ''unexpected eof'', ''broken pipe''] then UpstreamTransient
         else UnknownError)"

section \<open>Providers\<close>

datatype ProviderKind = Anthropic | OpenAi | Other

definition from_model_id :: "string \<Rightarrow> ProviderKind" where
  "from_model_id model =
     (let lower = map ascii_lower model
      in if mentions lower [''claude'', ''anthropic''] then Anthropic
         else if mentions lower [''gpt'', ''openai'', ''o1''] then OpenAi
         else Other)"

definition cap_max_tokens :: "u32 \<Rightarrow> ProviderKind \<Rightarrow> u32" where
  "cap_max_tokens max_tokens provider =
     min max_tokens (case provider of Anthropic \<Rightarrow> 8192 | OpenAi \<Rightarrow> 16384 | Other \<Rightarrow> 8192)"

definition build_for ::
  "LlmMessage list \<Rightarrow> string option \<Rightarrow> ToolDef list \<Rightarrow> string \<Rightarrow> u32 \<Rightarrow> bool \<Rightarrow> bool option \<Rightarrow> ProviderKind \<Rightarrow> LlmRequest" where
  "build_for messages system tools model max_tokens stream vision_override provider = \<lparr>
     rq_messages = messages, rq_system = system, rq_tools = tools, rq_model = model,
     rq_max_tokens = cap_max_tokens max_tokens provider, rq_stream = stream,
     rq_vision_override = vision_override \<rparr>"

section \<open>Streams\<close>

datatype LlmChunk =
    ChunkText string
  | ChunkToolUse string string json
  | ChunkDone u32 u32
  | ChunkError string

fun fold_chunk :: "LlmChunk \<Rightarrow> LlmResponse \<times> string option \<Rightarrow> LlmResponse \<times> string option" where
  "fold_chunk (ChunkText delta) (r, e) = (r\<lparr>rs_content := rs_content r @ delta\<rparr>, e)"
| "fold_chunk (ChunkToolUse i name input) (r, e) =
     (r\<lparr>rs_tool_calls := rs_tool_calls r @ [\<lparr>tc_id = i, tc_name = name, tc_input = input\<rparr>]\<rparr>, e)"
| "fold_chunk (ChunkDone it ot) (r, e) = (r\<lparr>rs_input_tokens := it, rs_output_tokens := ot\<rparr>, e)"
| "fold_chunk (ChunkError err) (r, e) = (r, Some err)"

definition no_response :: LlmResponse where
  "no_response = \<lparr>rs_content = [], rs_tool_calls = [], rs_input_tokens = 0, rs_output_tokens = 0\<rparr>"

fun chunk_delta :: "LlmChunk \<Rightarrow> string option" where
  "chunk_delta (ChunkText delta) = Some delta"
| "chunk_delta _ = None"

definition deltas :: "LlmChunk list \<Rightarrow> string list" where
  "deltas cs = List.map_filter chunk_delta cs"

text \<open>The result of a stream: \<open>failure\<close> is the error of the call itself.\<close>

definition stream_result :: "LlmChunk list \<Rightarrow> string option \<Rightarrow> string + LlmResponse" where
  "stream_result cs failure =
     (let (r, e) = fold fold_chunk cs (no_response, None)
      in case failure of
           Some err \<Rightarrow> Inl err
         | None \<Rightarrow> (case e of Some err \<Rightarrow> Inl err | None \<Rightarrow> Inr r))"

text \<open>
  What a call to the client gives: an answer, a stream, or the chunks received when the user cancels it.
  The result is \<open>None\<close> for a cancelled call; the texts are the deltas that were shown.
\<close>

datatype call_answer =
    Whole "string + LlmResponse"
  | Streamed "LlmChunk list" "string option"
  | CutOff "LlmChunk list"

fun llm_call_unified :: "bool \<Rightarrow> call_answer \<Rightarrow> (string + LlmResponse) option \<times> string list" where
  "llm_call_unified enable_streaming (Whole r) = (Some r, [])"
| "llm_call_unified enable_streaming (Streamed cs failure) =
     (Some (stream_result cs failure), (if enable_streaming then deltas cs else []))"
| "llm_call_unified enable_streaming (CutOff cs) = (None, (if enable_streaming then deltas cs else []))"

end
