(* ===== verification/State_Frame.thy ===== *)
theory State_Frame
  imports Receipts
begin

text \<open>
  The state frame of a session (\<^verbatim>\<open>agent/state_frame.rs\<close>): where the conversation stands, derived from its
  last messages after each compaction. The time of the update comes from outside.
\<close>

record StateFrame =
  sf_active_plan_items :: "string list"
  sf_recent_tool_calls :: "string list"
  sf_last_error :: "string option"
  sf_cwd :: "string option"
  sf_next_step_hint :: "string option"
  sf_updated_at :: "string option"

definition frame_is_empty :: "StateFrame \<Rightarrow> bool" where
  "frame_is_empty f \<longleftrightarrow>
     sf_active_plan_items f = [] \<and> sf_recent_tool_calls f = [] \<and> sf_last_error f = None \<and>
     sf_cwd f = None \<and> sf_next_step_hint f = None"

text \<open>What is stored: nothing for an empty frame. The JSON text of a frame stands for the frame.\<close>

definition frame_to_json :: "StateFrame \<Rightarrow> StateFrame option" where
  "frame_to_json f = (if frame_is_empty f then None else Some f)"

definition frame_section :: "string \<Rightarrow> string list \<Rightarrow> string" where
  "frame_section title items =
     (if items = [] then [] else title @ concat (map (\<lambda>item. ''  - '' @ item @ [CHR 0x0A]) items))"

definition frame_line :: "string \<Rightarrow> string option \<Rightarrow> string" where
  "frame_line label v = (case v of None \<Rightarrow> [] | Some s \<Rightarrow> label @ s @ [CHR 0x0A])"

definition frame_render_text :: "StateFrame \<Rightarrow> string" where
  "frame_render_text f =
     (''['' @
       [CHR 0xE4, CHR 0xBC, CHR 0x9A, CHR 0xE8, CHR 0xAF, CHR 0x9D, CHR 0xE7, CHR 0x8A, CHR 0xB6,
       CHR 0xE6, CHR 0x80, CHR 0x81, CHR 0xE5, CHR 0xB8, CHR 0xA7] @
       '' / session state frame]'' @
       [CHR 0x0A]) @
     frame_line ([CHR 0xE5, CHR 0xB7, CHR 0xA5, CHR 0xE4, CHR 0xBD, CHR 0x9C, CHR 0xE7, CHR 0x9B, CHR 0xAE,
       CHR 0xE5, CHR 0xBD, CHR 0x95] @
       '' cwd: '') (sf_cwd f) @
     frame_section ([CHR 0xE5, CHR 0xBD, CHR 0x93, CHR 0xE5, CHR 0x89, CHR 0x8D, CHR 0xE5, CHR 0xBE, CHR 0x85,
       CHR 0xE5, CHR 0x8A, CHR 0x9E] @
       '' / active plan:'' @
       [CHR 0x0A]) (sf_active_plan_items f) @
     frame_section ([CHR 0xE8, CHR 0xBF, CHR 0x91, CHR 0xE6, CHR 0x9C, CHR 0x9F, CHR 0xE5, CHR 0xB7, CHR 0xA5,
       CHR 0xE5, CHR 0x85, CHR 0xB7] @
       '' / recent tool calls:'' @
       [CHR 0x0A]) (sf_recent_tool_calls f) @
     frame_line ([CHR 0xE4, CHR 0xB8, CHR 0x8A, CHR 0xE6, CHR 0xAC, CHR 0xA1, CHR 0xE9, CHR 0x94, CHR 0x99,
       CHR 0xE8, CHR 0xAF, CHR 0xAF] @
       '' / last error: '') (sf_last_error f) @
     frame_line ([CHR 0xE4, CHR 0xB8, CHR 0x8B, CHR 0xE4, CHR 0xB8, CHR 0x80, CHR 0xE6, CHR 0xAD, CHR 0xA5,
       CHR 0xE6, CHR 0x8F, CHR 0x90, CHR 0xE7, CHR 0xA4, CHR 0xBA] @
       '' / next step: '') (sf_next_step_hint f) @
     ([CHR 0x0A] @
       ''['' @
       [CHR 0xE7, CHR 0xB3, CHR 0xBB, CHR 0xE7, CHR 0xBB, CHR 0x9F, CHR 0xE6, CHR 0x8F, CHR 0x90,
       CHR 0xE7, CHR 0xA4, CHR 0xBA] @
       ''] '' @
       [CHR 0xE4, CHR 0xBB, CHR 0xA5, CHR 0xE4, CHR 0xB8, CHR 0x8A, CHR 0xE6, CHR 0x98, CHR 0xAF,
       CHR 0xE4, CHR 0xBC, CHR 0x9A, CHR 0xE8, CHR 0xAF, CHR 0x9D, CHR 0xE6, CHR 0x81, CHR 0xA2,
       CHR 0xE5, CHR 0xA4, CHR 0x8D, CHR 0xE6, CHR 0x97, CHR 0xB6, CHR 0xE7, CHR 0x9A, CHR 0x84,
       CHR 0xE7, CHR 0x8A, CHR 0xB6, CHR 0xE6, CHR 0x80, CHR 0x81, CHR 0xE5, CHR 0xBF, CHR 0xAB,
       CHR 0xE7, CHR 0x85, CHR 0xA7, CHR 0xEF, CHR 0xBC, CHR 0x8C, CHR 0xE8, CHR 0xAF, CHR 0xB7,
       CHR 0xE5, CHR 0x9F, CHR 0xBA, CHR 0xE4, CHR 0xBA, CHR 0x8E, CHR 0xE6, CHR 0xAD, CHR 0xA4,
       CHR 0xE7, CHR 0xBB, CHR 0xA7, CHR 0xE7, CHR 0xBB, CHR 0xAD, CHR 0xE4, CHR 0xBB, CHR 0xBB,
       CHR 0xE5, CHR 0x8A, CHR 0xA1, CHR 0xEF, CHR 0xBC, CHR 0x8C, CHR 0xE4, CHR 0xB8, CHR 0x8D,
       CHR 0xE8, CHR 0xA6, CHR 0x81, CHR 0xE9, CHR 0x87, CHR 0x8D, CHR 0xE5, CHR 0xA4, CHR 0x8D,
       CHR 0xE5, CHR 0xB7, CHR 0xB2, CHR 0xE5, CHR 0xAE, CHR 0x8C, CHR 0xE6, CHR 0x88, CHR 0x90,
       CHR 0xE7, CHR 0x9A, CHR 0x84, CHR 0xE5, CHR 0xB7, CHR 0xA5, CHR 0xE4, CHR 0xBD, CHR 0x9C,
       CHR 0xE3, CHR 0x80, CHR 0x82])"

definition state_frame_message :: "StateFrame \<Rightarrow> LlmMessage" where
  "state_frame_message f = \<lparr>lm_role = ''user'', lm_content = Text (frame_render_text f)\<rparr>"

fun first_present :: "json \<Rightarrow> string list \<Rightarrow> string option" where
  "first_present input [] = None"
| "first_present input (k # ks) = (case field_str input k of Some s \<Rightarrow> Some s | None \<Rightarrow> first_present input ks)"

definition short_input_hint :: "json \<Rightarrow> string" where
  "short_input_hint input =
     (case first_present input [''command'', ''path'', ''query'', ''url'', ''action''] of
        None \<Rightarrow> []
      | Some raw \<Rightarrow>
          let trimmed = trim raw
          in if count_chars trimmed \<le> 60 then trimmed else take_chars 57 trimmed @ [CHR 0xE2, CHR 0x80, CHR 0xA6])"

definition first_line :: "string \<Rightarrow> string" where
  "first_line s = (case str_lines s of [] \<Rightarrow> [] | l # ls \<Rightarrow> l)"

text \<open>The scan from the newest block back: the calls found so far, newest first, and the last error.\<close>

fun frame_block :: "ContentBlock \<Rightarrow> string list \<times> string option \<Rightarrow> string list \<times> string option" where
  "frame_block (ToolUse i name input) (calls, err) =
     (if length calls < 5
      then (calls @ [if short_input_hint input = [] then name else name @ '': '' @ short_input_hint input], err)
      else (calls, err))"
| "frame_block (ToolResult i content is_error) (calls, err) =
     (if is_error \<and> err = None
      then let l = take_chars 160 (first_line content) in (calls, if l = [] then None else Some l)
      else (calls, err))"
| "frame_block _ found = found"

fun frame_scan :: "LlmMessage list \<Rightarrow> string list \<times> string option \<Rightarrow> string list \<times> string option" where
  "frame_scan [] found = found"
| "frame_scan (m # ms) found =
     (if 5 \<le> length (fst found) \<and> snd found \<noteq> None then found
      else frame_scan ms (fold frame_block (rev (blocks m)) found))"

definition derive_frame_from_tail :: "string \<Rightarrow> LlmMessage list \<Rightarrow> nat \<Rightarrow> StateFrame" where
  "derive_frame_from_tail now messages scan_window =
     (let tail = drop (length messages - max scan_window 1) messages;
          (calls, err) = frame_scan (rev tail) ([], None)
      in \<lparr> sf_active_plan_items = [], sf_recent_tool_calls = rev calls, sf_last_error = err,
           sf_cwd = None, sf_next_step_hint = None, sf_updated_at = Some now \<rparr>)"

end
