(* ===== verification/Tools.thy ===== *)
theory Tools
  imports Receipts Vision Loop_Guard
begin

text \<open>
  Tools and their registry (\<^verbatim>\<open>agent/tool.rs\<close>), what the loop tells the model about a failed call
  (\<^verbatim>\<open>agent/loop_.rs\<close>), and the cleaning of a tool's output (\<^verbatim>\<open>tools/output.rs\<close>).
\<close>

section \<open>Schemas without documentation\<close>

definition PRESERVED_SCHEMA_KEYS :: "string list" where
  "PRESERVED_SCHEMA_KEYS =
     [''type'', ''required'', ''enum'', ''const'', ''additionalProperties'', ''minimum'', ''maximum'',
      ''exclusiveMinimum'', ''exclusiveMaximum'', ''minItems'', ''maxItems'', ''minLength'', ''maxLength'',
      ''pattern'', ''format'', ''multipleOf'', ''minProperties'', ''maxProperties'', ''uniqueItems'',
      ''$ref'', ''nullable'']"

definition RECURSIVE_SCHEMA_KEYS_SINGLE :: "string list" where
  "RECURSIVE_SCHEMA_KEYS_SINGLE = [''items'', ''not'', ''contains'', ''propertyNames'', ''if'', ''then'', ''else'']"

definition RECURSIVE_SCHEMA_KEYS_ARRAY :: "string list" where
  "RECURSIVE_SCHEMA_KEYS_ARRAY = [''oneOf'', ''anyOf'', ''allOf'', ''prefixItems'']"

definition RECURSIVE_SCHEMA_KEYS_MAP :: "string list" where
  "RECURSIVE_SCHEMA_KEYS_MAP = [''properties'', ''$defs'', ''definitions'', ''dependentSchemas'', ''patternProperties'']"

definition DROP_SCHEMA_KEYS :: "string list" where
  "DROP_SCHEMA_KEYS =
     [''description'', ''examples'', ''title'', ''$comment'', ''default'', ''deprecated'', ''readOnly'',
      ''writeOnly'', ''example'']"

text \<open>
  An array of schemas is stripped element by element, which is also what stripping any array does, so
  the branch for the keys with arrays is the one for single schemas.
\<close>

fun strip_schema_to_minimal :: "json \<Rightarrow> json"
  and strip_array :: "json list \<Rightarrow> json list"
  and strip_object_map :: "(string \<times> json) list \<Rightarrow> (string \<times> json) list"
  and strip_values :: "(string \<times> json) list \<Rightarrow> (string \<times> json) list" where
  "strip_schema_to_minimal (JObj kvs) = JObj (strip_object_map kvs)"
| "strip_schema_to_minimal (JArr vs) = JArr (strip_array vs)"
| "strip_schema_to_minimal v = v"
| "strip_array [] = []"
| "strip_array (v # vs) = strip_schema_to_minimal v # strip_array vs"
| "strip_object_map [] = []"
| "strip_object_map ((k, v) # kvs) =
     (if k \<in> set DROP_SCHEMA_KEYS then strip_object_map kvs
      else if k \<in> set RECURSIVE_SCHEMA_KEYS_MAP then
        (k, case v of JObj inner \<Rightarrow> JObj (strip_values inner) | _ \<Rightarrow> strip_schema_to_minimal v) # strip_object_map kvs
      else if k \<in> set RECURSIVE_SCHEMA_KEYS_SINGLE then (k, strip_schema_to_minimal v) # strip_object_map kvs
      else if k \<in> set RECURSIVE_SCHEMA_KEYS_ARRAY then (k, strip_schema_to_minimal v) # strip_object_map kvs
      else if k \<in> set PRESERVED_SCHEMA_KEYS then (k, v) # strip_object_map kvs
      else strip_object_map kvs)"
| "strip_values [] = []"
| "strip_values ((k, v) # kvs) = (k, strip_schema_to_minimal v) # strip_values kvs"

section \<open>The registry\<close>

datatype ToolDefMode = MinimalDef | FullDef

text \<open>A tool, with what it overrides of the defaults of the trait.\<close>

record Tool =
  name_of :: string
  description_of :: string
  input_schema_of :: json
  description_minimal_override :: "string option"
  input_schema_minimal_override :: "json option"
  is_read_only :: bool
  needs_confirmation :: "json \<Rightarrow> bool"
  manages_own_timeout :: bool

definition description_minimal :: "Tool \<Rightarrow> string" where
  "description_minimal t =
     (case description_minimal_override t of None \<Rightarrow> description_of t | Some d \<Rightarrow> d)"

definition input_schema_minimal :: "Tool \<Rightarrow> json" where
  "input_schema_minimal t =
     (case input_schema_minimal_override t of
        None \<Rightarrow> strip_schema_to_minimal (input_schema_of t) | Some s \<Rightarrow> s)"

type_synonym ToolRegistry = "Tool list"

definition register_tool :: "ToolRegistry \<Rightarrow> Tool \<Rightarrow> ToolRegistry" where
  "register_tool r t = r @ [t]"

definition unregister_tool :: "ToolRegistry \<Rightarrow> string \<Rightarrow> ToolRegistry" where
  "unregister_tool r n = filter (\<lambda>t. name_of t \<noteq> n) r"

definition retain_tools :: "ToolRegistry \<Rightarrow> (Tool \<Rightarrow> bool) \<Rightarrow> ToolRegistry" where
  "retain_tools r predicate = filter predicate r"

definition get_tool :: "ToolRegistry \<Rightarrow> string \<Rightarrow> Tool option" where
  "get_tool r n = find (\<lambda>t. name_of t = n) r"

fun tool_def_for :: "Tool \<Rightarrow> ToolDefMode \<Rightarrow> ToolDef" where
  "tool_def_for t MinimalDef =
     \<lparr>tool_name = name_of t, tool_description = description_minimal t, tool_input_schema = input_schema_minimal t\<rparr>"
| "tool_def_for t FullDef =
     \<lparr>tool_name = name_of t, tool_description = description_of t, tool_input_schema = input_schema_of t\<rparr>"

definition to_tool_defs :: "ToolRegistry \<Rightarrow> ToolDefMode \<Rightarrow> ToolDef list" where
  "to_tool_defs r mode = map (\<lambda>t. tool_def_for t mode) r"

definition to_tool_defs_for :: "ToolRegistry \<Rightarrow> string \<Rightarrow> ToolDefMode \<Rightarrow> ToolDef option" where
  "to_tool_defs_for r n mode = map_option (\<lambda>t. tool_def_for t mode) (get_tool r n)"

section \<open>Failures as the model sees them\<close>

definition is_structural_schema_error :: "string \<Rightarrow> bool" where
  "is_structural_schema_error raw_error \<longleftrightarrow>
     list_ex (contains (to_lowercase raw_error))
       [''missing field'', ''missing required'', ''invalid type'', ''invalid value'', ''unknown field'',
        ''unknown variant'', ''did not match any variant'', ''no variant of enum'',
        ''additional properties are not allowed'', ''additionalproperties'', ''expected u'', ''expected i'',
        ''expected a string'', ''expected a boolean'', ''expected an array'', ''expected a map'', ''expected struct'']"

definition maybe_schema_correction_envelope ::
  "(json \<Rightarrow> string) \<Rightarrow> ToolRegistry \<Rightarrow> string \<Rightarrow> string \<Rightarrow> string option" where
  "maybe_schema_correction_envelope js r tool raw_error =
     (if \<not> is_structural_schema_error raw_error then None
      else map_option (\<lambda>d. ''[schema_correction tool='' @ tool @ '']'' @ [CHR 0x0A] @ js (tool_input_schema d) @
             [CHR 0x0A] @ ''[/schema_correction]'') (to_tool_defs_for r tool FullDef))"

definition explained :: "string \<Rightarrow> string \<Rightarrow> string \<Rightarrow> string" where
  "explained tool advice raw_error = ''['' @ tool @ ''] '' @ advice @ [CHR 0x0A, CHR 0xE8, CHR 0xAF, CHR 0xA6, CHR 0xE6, CHR 0x83, CHR 0x85, CHR 0xEF, CHR 0xBC,
       CHR 0x9A] @ raw_error"

definition friendly_tool_error :: "string \<Rightarrow> string \<Rightarrow> string" where
  "friendly_tool_error tool raw_error =
     (let c = contains (to_lowercase raw_error); say = (\<lambda>advice. explained tool advice raw_error)
      in if is_structural_schema_error raw_error then
           say ([CHR 0xE5, CHR 0xB7, CHR 0xA5, CHR 0xE5, CHR 0x85, CHR 0xB7, CHR 0xE8, CHR 0xBE, CHR 0x93,
       CHR 0xE5, CHR 0x85, CHR 0xA5, CHR 0xE4, CHR 0xB8, CHR 0x8E] @
       '' schema '' @
       [CHR 0xE4, CHR 0xB8, CHR 0x8D, CHR 0xE5, CHR 0x8C, CHR 0xB9, CHR 0xE9, CHR 0x85, CHR 0x8D,
       CHR 0xE3, CHR 0x80, CHR 0x82, CHR 0xE8, CHR 0xAF, CHR 0xB7, CHR 0xE6, CHR 0xA0, CHR 0xB9,
       CHR 0xE6, CHR 0x8D, CHR 0xAE, CHR 0xE4, CHR 0xB8, CHR 0x8B, CHR 0xE6, CHR 0x96, CHR 0xB9] @
       '' schema_correction '' @
       [CHR 0xE4, CHR 0xBF, CHR 0xAE, CHR 0xE6, CHR 0xAD, CHR 0xA3, CHR 0xE5, CHR 0x8F, CHR 0x82,
       CHR 0xE6, CHR 0x95, CHR 0xB0, CHR 0xEF, CHR 0xBC, CHR 0x8C, CHR 0xE4, CHR 0xBB, CHR 0x85,
       CHR 0xE9, CHR 0x87, CHR 0x8D, CHR 0xE8, CHR 0xAF, CHR 0x95, CHR 0xE8, CHR 0xBF, CHR 0x99,
       CHR 0xE4, CHR 0xB8, CHR 0xAA, CHR 0xE5, CHR 0xB7, CHR 0xA5, CHR 0xE5, CHR 0x85, CHR 0xB7,
       CHR 0xE4, CHR 0xB8, CHR 0x80, CHR 0xE6, CHR 0xAC, CHR 0xA1, CHR 0xE3, CHR 0x80, CHR 0x82])
         else if c ''no such file'' \<or> c ''not found'' \<or> c ''cannot find'' then
           say ([CHR 0xE6, CHR 0x96, CHR 0x87, CHR 0xE4, CHR 0xBB, CHR 0xB6, CHR 0xE6, CHR 0x88, CHR 0x96,
       CHR 0xE8, CHR 0xB7, CHR 0xAF, CHR 0xE5, CHR 0xBE, CHR 0x84, CHR 0xE4, CHR 0xB8, CHR 0x8D,
       CHR 0xE5, CHR 0xAD, CHR 0x98, CHR 0xE5, CHR 0x9C, CHR 0xA8, CHR 0xE3, CHR 0x80, CHR 0x82,
       CHR 0xE8, CHR 0xAF, CHR 0xB7, CHR 0xE7, CHR 0xA1, CHR 0xAE, CHR 0xE8, CHR 0xAE, CHR 0xA4,
       CHR 0xE8, CHR 0xB7, CHR 0xAF, CHR 0xE5, CHR 0xBE, CHR 0x84, CHR 0xE6, CHR 0xAD, CHR 0xA3,
       CHR 0xE7, CHR 0xA1, CHR 0xAE, CHR 0xEF, CHR 0xBC, CHR 0x8C, CHR 0xE6, CHR 0x88, CHR 0x96,
       CHR 0xE5, CHR 0x85, CHR 0x88, CHR 0xE7, CHR 0x94, CHR 0xA8] @
       '' file_write '' @
       [CHR 0xE5, CHR 0x88, CHR 0x9B, CHR 0xE5, CHR 0xBB, CHR 0xBA, CHR 0xE6, CHR 0x96, CHR 0x87,
       CHR 0xE4, CHR 0xBB, CHR 0xB6, CHR 0xE3, CHR 0x80, CHR 0x82])
         else if c ''permission denied'' \<or> c ''access is denied'' \<or> c [CHR 0xE6, CHR 0x8B, CHR 0x92, CHR 0xE7, CHR 0xBB, CHR 0x9D, CHR 0xE8, CHR 0xAE, CHR 0xBF,
       CHR 0xE9, CHR 0x97, CHR 0xAE] \<or> c ''0x80070005'' then
           (if tool = ''shell'' \<or> tool = ''file_write'' then
              say ([CHR 0xE6, CHR 0x9D, CHR 0x83, CHR 0xE9, CHR 0x99, CHR 0x90, CHR 0xE4, CHR 0xB8, CHR 0x8D,
       CHR 0xE8, CHR 0xB6, CHR 0xB3, CHR 0xEF, CHR 0xBC, CHR 0x88] @
       ''Access Denied'' @
       [CHR 0xEF, CHR 0xBC, CHR 0x89, CHR 0xE3, CHR 0x80, CHR 0x82, CHR 0xE5, CHR 0xA6, CHR 0x82,
       CHR 0xE9, CHR 0x9C, CHR 0x80, CHR 0xE7, CHR 0xAE, CHR 0xA1, CHR 0xE7, CHR 0x90, CHR 0x86,
       CHR 0xE5, CHR 0x91, CHR 0x98, CHR 0xE6, CHR 0x9D, CHR 0x83, CHR 0xE9, CHR 0x99, CHR 0x90,
       CHR 0xEF, CHR 0xBC, CHR 0x8C, CHR 0xE8, CHR 0xAF, CHR 0xB7, CHR 0xE5, CHR 0xAF, CHR 0xB9] @
       '' shell '' @
       [CHR 0xE5, CHR 0xB7, CHR 0xA5, CHR 0xE5, CHR 0x85, CHR 0xB7, CHR 0xE4, CHR 0xBD, CHR 0xBF,
       CHR 0xE7, CHR 0x94, CHR 0xA8] @
       '' elevated: true '' @
       [CHR 0xE5, CHR 0x8F, CHR 0x82, CHR 0xE6, CHR 0x95, CHR 0xB0, CHR 0xEF, CHR 0xBC, CHR 0x8C] @
       ''Windows '' @
       [CHR 0xE4, CHR 0xBC, CHR 0x9A, CHR 0xE5, CHR 0xBC, CHR 0xB9, CHR 0xE5, CHR 0x87, CHR 0xBA] @
       '' UAC '' @
       [CHR 0xE5, CHR 0xAF, CHR 0xB9, CHR 0xE8, CHR 0xAF, CHR 0x9D, CHR 0xE6, CHR 0xA1, CHR 0x86,
       CHR 0xE8, CHR 0xAF, CHR 0xB7, CHR 0xE7, CHR 0x94, CHR 0xA8, CHR 0xE6, CHR 0x88, CHR 0xB7,
       CHR 0xE7, CHR 0xA1, CHR 0xAE, CHR 0xE8, CHR 0xAE, CHR 0xA4, CHR 0xE3, CHR 0x80, CHR 0x82])
            else say ([CHR 0xE6, CHR 0x9D, CHR 0x83, CHR 0xE9, CHR 0x99, CHR 0x90, CHR 0xE4, CHR 0xB8, CHR 0x8D,
       CHR 0xE8, CHR 0xB6, CHR 0xB3, CHR 0xEF, CHR 0xBC, CHR 0x8C, CHR 0xE6, CHR 0x97, CHR 0xA0,
       CHR 0xE6, CHR 0xB3, CHR 0x95, CHR 0xE8, CHR 0xAE, CHR 0xBF, CHR 0xE9, CHR 0x97, CHR 0xAE,
       CHR 0xE8, CHR 0xAF, CHR 0xA5, CHR 0xE6, CHR 0x96, CHR 0x87, CHR 0xE4, CHR 0xBB, CHR 0xB6] @
       ''/'' @
       [CHR 0xE7, CHR 0x9B, CHR 0xAE, CHR 0xE5, CHR 0xBD, CHR 0x95, CHR 0xE3, CHR 0x80, CHR 0x82,
       CHR 0xE5, CHR 0xA6, CHR 0x82, CHR 0xE9, CHR 0x9C, CHR 0x80, CHR 0xE7, CHR 0xAE, CHR 0xA1,
       CHR 0xE7, CHR 0x90, CHR 0x86, CHR 0xE5, CHR 0x91, CHR 0x98, CHR 0xE6, CHR 0x9D, CHR 0x83,
       CHR 0xE9, CHR 0x99, CHR 0x90, CHR 0xEF, CHR 0xBC, CHR 0x8C, CHR 0xE8, CHR 0xAF, CHR 0xB7,
       CHR 0xE4, CHR 0xBD, CHR 0xBF, CHR 0xE7, CHR 0x94, CHR 0xA8] @
       '' shell '' @
       [CHR 0xE5, CHR 0xB7, CHR 0xA5, CHR 0xE5, CHR 0x85, CHR 0xB7, CHR 0xE5, CHR 0xB9, CHR 0xB6,
       CHR 0xE8, CHR 0xAE, CHR 0xBE, CHR 0xE7, CHR 0xBD, CHR 0xAE] @
       '' elevated: true'' @
       [CHR 0xE3, CHR 0x80, CHR 0x82]))
         else if c ''already exists'' then
           say ([CHR 0xE6, CHR 0x96, CHR 0x87, CHR 0xE4, CHR 0xBB, CHR 0xB6, CHR 0xE6, CHR 0x88, CHR 0x96,
       CHR 0xE7, CHR 0x9B, CHR 0xAE, CHR 0xE5, CHR 0xBD, CHR 0x95, CHR 0xE5, CHR 0xB7, CHR 0xB2,
       CHR 0xE5, CHR 0xAD, CHR 0x98, CHR 0xE5, CHR 0x9C, CHR 0xA8, CHR 0xE3, CHR 0x80, CHR 0x82,
       CHR 0xE5, CHR 0xA6, CHR 0x82, CHR 0xE9, CHR 0x9C, CHR 0x80, CHR 0xE8, CHR 0xA6, CHR 0x86,
       CHR 0xE7, CHR 0x9B, CHR 0x96, CHR 0xEF, CHR 0xBC, CHR 0x8C, CHR 0xE8, CHR 0xAF, CHR 0xB7,
       CHR 0xE4, CHR 0xBD, CHR 0xBF, CHR 0xE7, CHR 0x94, CHR 0xA8] @
       '' file_write'' @
       [CHR 0xEF, CHR 0xBC, CHR 0x88, CHR 0xE4, CHR 0xBC, CHR 0x9A, CHR 0xE8, CHR 0x87, CHR 0xAA,
       CHR 0xE5, CHR 0x8A, CHR 0xA8, CHR 0xE8, CHR 0xA6, CHR 0x86, CHR 0xE7, CHR 0x9B, CHR 0x96,
       CHR 0xEF, CHR 0xBC, CHR 0x89, CHR 0xE3, CHR 0x80, CHR 0x82])
         else if c ''connection refused'' \<or> c ''connection reset'' then
           say [CHR 0xE7, CHR 0xBD, CHR 0x91, CHR 0xE7, CHR 0xBB, CHR 0x9C, CHR 0xE8, CHR 0xBF, CHR 0x9E,
       CHR 0xE6, CHR 0x8E, CHR 0xA5, CHR 0xE5, CHR 0xA4, CHR 0xB1, CHR 0xE8, CHR 0xB4, CHR 0xA5,
       CHR 0xE3, CHR 0x80, CHR 0x82, CHR 0xE8, CHR 0xAF, CHR 0xB7, CHR 0xE6, CHR 0xA3, CHR 0x80,
       CHR 0xE6, CHR 0x9F, CHR 0xA5, CHR 0xE7, CHR 0xBD, CHR 0x91, CHR 0xE7, CHR 0xBB, CHR 0x9C,
       CHR 0xE8, CHR 0xBF, CHR 0x9E, CHR 0xE6, CHR 0x8E, CHR 0xA5, CHR 0xE6, CHR 0x88, CHR 0x96,
       CHR 0xE7, CHR 0x9B, CHR 0xAE, CHR 0xE6, CHR 0xA0, CHR 0x87, CHR 0xE6, CHR 0x9C, CHR 0x8D,
       CHR 0xE5, CHR 0x8A, CHR 0xA1, CHR 0xE6, CHR 0x98, CHR 0xAF, CHR 0xE5, CHR 0x90, CHR 0xA6,
       CHR 0xE5, CHR 0x8F, CHR 0xAF, CHR 0xE7, CHR 0x94, CHR 0xA8, CHR 0xE3, CHR 0x80, CHR 0x82]
         else if c ''timeout'' \<or> c ''timed out'' then
           say [CHR 0xE7, CHR 0xBD, CHR 0x91, CHR 0xE7, CHR 0xBB, CHR 0x9C, CHR 0xE8, CHR 0xAF, CHR 0xB7,
       CHR 0xE6, CHR 0xB1, CHR 0x82, CHR 0xE8, CHR 0xB6, CHR 0x85, CHR 0xE6, CHR 0x97, CHR 0xB6,
       CHR 0xE3, CHR 0x80, CHR 0x82, CHR 0xE8, CHR 0xAF, CHR 0xB7, CHR 0xE6, CHR 0xA3, CHR 0x80,
       CHR 0xE6, CHR 0x9F, CHR 0xA5, CHR 0xE7, CHR 0xBD, CHR 0x91, CHR 0xE7, CHR 0xBB, CHR 0x9C,
       CHR 0xE7, CHR 0x8A, CHR 0xB6, CHR 0xE6, CHR 0x80, CHR 0x81, CHR 0xEF, CHR 0xBC, CHR 0x8C,
       CHR 0xE6, CHR 0x88, CHR 0x96, CHR 0xE7, CHR 0xA8, CHR 0x8D, CHR 0xE5, CHR 0x90, CHR 0x8E,
       CHR 0xE9, CHR 0x87, CHR 0x8D, CHR 0xE8, CHR 0xAF, CHR 0x95, CHR 0xE3, CHR 0x80, CHR 0x82]
         else if c ''dns'' \<or> c ''resolve'' \<or> c ''no route'' then
           say (''DNS '' @
       [CHR 0xE8, CHR 0xA7, CHR 0xA3, CHR 0xE6, CHR 0x9E, CHR 0x90, CHR 0xE5, CHR 0xA4, CHR 0xB1,
       CHR 0xE8, CHR 0xB4, CHR 0xA5, CHR 0xEF, CHR 0xBC, CHR 0x8C, CHR 0xE6, CHR 0x97, CHR 0xA0,
       CHR 0xE6, CHR 0xB3, CHR 0x95, CHR 0xE8, CHR 0xAE, CHR 0xBF, CHR 0xE9, CHR 0x97, CHR 0xAE,
       CHR 0xE7, CHR 0x9B, CHR 0xAE, CHR 0xE6, CHR 0xA0, CHR 0x87, CHR 0xE5, CHR 0x9C, CHR 0xB0,
       CHR 0xE5, CHR 0x9D, CHR 0x80, CHR 0xE3, CHR 0x80, CHR 0x82, CHR 0xE8, CHR 0xAF, CHR 0xB7,
       CHR 0xE6, CHR 0xA3, CHR 0x80, CHR 0xE6, CHR 0x9F, CHR 0xA5, CHR 0xE7, CHR 0xBD, CHR 0x91,
       CHR 0xE7, CHR 0xBB, CHR 0x9C, CHR 0xE8, CHR 0xBF, CHR 0x9E, CHR 0xE6, CHR 0x8E, CHR 0xA5,
       CHR 0xE3, CHR 0x80, CHR 0x82])
         else if tool \<in> set [''shell'', ''powershell_query''] \<and> (c ''not recognized'' \<or> c ''not found'') then
           say ([CHR 0xE5, CHR 0x91, CHR 0xBD, CHR 0xE4, CHR 0xBB, CHR 0xA4, CHR 0xE6, CHR 0x9C, CHR 0xAA,
       CHR 0xE6, CHR 0x89, CHR 0xBE, CHR 0xE5, CHR 0x88, CHR 0xB0, CHR 0xE3, CHR 0x80, CHR 0x82,
       CHR 0xE8, CHR 0xAF, CHR 0xB7, CHR 0xE7, CHR 0xA1, CHR 0xAE, CHR 0xE8, CHR 0xAE, CHR 0xA4,
       CHR 0xE5, CHR 0x91, CHR 0xBD, CHR 0xE4, CHR 0xBB, CHR 0xA4, CHR 0xE5, CHR 0x90, CHR 0x8D,
       CHR 0xE7, CHR 0xA7, CHR 0xB0, CHR 0xE6, CHR 0xAD, CHR 0xA3, CHR 0xE7, CHR 0xA1, CHR 0xAE,
       CHR 0xEF, CHR 0xBC, CHR 0x8C, CHR 0xE6, CHR 0x88, CHR 0x96, CHR 0xE8, CHR 0xAF, CHR 0xA5,
       CHR 0xE7, CHR 0xA8, CHR 0x8B, CHR 0xE5, CHR 0xBA, CHR 0x8F, CHR 0xE5, CHR 0xB7, CHR 0xB2,
       CHR 0xE5, CHR 0xAE, CHR 0x89, CHR 0xE8, CHR 0xA3, CHR 0x85, CHR 0xE5, CHR 0xB9, CHR 0xB6,
       CHR 0xE5, CHR 0x9C, CHR 0xA8] @
       '' PATH '' @
       [CHR 0xE4, CHR 0xB8, CHR 0xAD, CHR 0xE3, CHR 0x80, CHR 0x82])
         else if tool \<in> set [''shell'', ''powershell_query''] \<and> c ''exit code'' then
           say [CHR 0xE5, CHR 0x91, CHR 0xBD, CHR 0xE4, CHR 0xBB, CHR 0xA4, CHR 0xE6, CHR 0x89, CHR 0xA7,
       CHR 0xE8, CHR 0xA1, CHR 0x8C, CHR 0xE5, CHR 0xA4, CHR 0xB1, CHR 0xE8, CHR 0xB4, CHR 0xA5,
       CHR 0xEF, CHR 0xBC, CHR 0x88, CHR 0xE9, CHR 0x9D, CHR 0x9E, CHR 0xE9, CHR 0x9B, CHR 0xB6,
       CHR 0xE9, CHR 0x80, CHR 0x80, CHR 0xE5, CHR 0x87, CHR 0xBA, CHR 0xE7, CHR 0xA0, CHR 0x81,
       CHR 0xEF, CHR 0xBC, CHR 0x89, CHR 0xE3, CHR 0x80, CHR 0x82, CHR 0xE8, CHR 0xAF, CHR 0xB7,
       CHR 0xE6, CHR 0xA3, CHR 0x80, CHR 0xE6, CHR 0x9F, CHR 0xA5, CHR 0xE5, CHR 0x91, CHR 0xBD,
       CHR 0xE4, CHR 0xBB, CHR 0xA4, CHR 0xE8, CHR 0xAF, CHR 0xAD, CHR 0xE6, CHR 0xB3, CHR 0x95,
       CHR 0xE5, CHR 0x92, CHR 0x8C, CHR 0xE5, CHR 0x8F, CHR 0x82, CHR 0xE6, CHR 0x95, CHR 0xB0,
       CHR 0xE3, CHR 0x80, CHR 0x82]
         else if tool = ''browser'' \<and> (c ''chrome'' \<or> c ''browser'' \<or> c ''cdp'') then
           say ([CHR 0xE6, CHR 0xB5, CHR 0x8F, CHR 0xE8, CHR 0xA7, CHR 0x88, CHR 0xE5, CHR 0x99, CHR 0xA8,
       CHR 0xE8, CHR 0xBF, CHR 0x9E, CHR 0xE6, CHR 0x8E, CHR 0xA5, CHR 0xE5, CHR 0xA4, CHR 0xB1,
       CHR 0xE8, CHR 0xB4, CHR 0xA5, CHR 0xE3, CHR 0x80, CHR 0x82, CHR 0xE8, CHR 0xAF, CHR 0xB7,
       CHR 0xE7, CHR 0xA1, CHR 0xAE, CHR 0xE8, CHR 0xAE, CHR 0xA4] @
       '' Chrome '' @
       [CHR 0xE5, CHR 0xB7, CHR 0xB2, CHR 0xE5, CHR 0xAE, CHR 0x89, CHR 0xE8, CHR 0xA3, CHR 0x85,
       CHR 0xEF, CHR 0xBC, CHR 0x8C, CHR 0xE6, CHR 0x88, CHR 0x96, CHR 0xE5, CHR 0x9C, CHR 0xA8,
       CHR 0xE8, CHR 0xAE, CHR 0xBE, CHR 0xE7, CHR 0xBD, CHR 0xAE, CHR 0xE4, CHR 0xB8, CHR 0xAD,
       CHR 0xE6, CHR 0xA3, CHR 0x80, CHR 0xE6, CHR 0x9F, CHR 0xA5, CHR 0xE6, CHR 0xB5, CHR 0x8F,
       CHR 0xE8, CHR 0xA7, CHR 0x88, CHR 0xE5, CHR 0x99, CHR 0xA8, CHR 0xE9, CHR 0x85, CHR 0x8D,
       CHR 0xE7, CHR 0xBD, CHR 0xAE, CHR 0xE3, CHR 0x80, CHR 0x82])
         else if tool = ''browser'' \<and> (c ''element'' \<or> c ''selector'') then
           say [CHR 0xE9, CHR 0xA1, CHR 0xB5, CHR 0xE9, CHR 0x9D, CHR 0xA2, CHR 0xE5, CHR 0x85, CHR 0x83,
       CHR 0xE7, CHR 0xB4, CHR 0xA0, CHR 0xE6, CHR 0x9C, CHR 0xAA, CHR 0xE6, CHR 0x89, CHR 0xBE,
       CHR 0xE5, CHR 0x88, CHR 0xB0, CHR 0xE3, CHR 0x80, CHR 0x82, CHR 0xE9, CHR 0xA1, CHR 0xB5,
       CHR 0xE9, CHR 0x9D, CHR 0xA2, CHR 0xE5, CHR 0x8F, CHR 0xAF, CHR 0xE8, CHR 0x83, CHR 0xBD,
       CHR 0xE5, CHR 0xB0, CHR 0x9A, CHR 0xE6, CHR 0x9C, CHR 0xAA, CHR 0xE5, CHR 0x8A, CHR 0xA0,
       CHR 0xE8, CHR 0xBD, CHR 0xBD, CHR 0xE5, CHR 0xAE, CHR 0x8C, CHR 0xE6, CHR 0x88, CHR 0x90,
       CHR 0xEF, CHR 0xBC, CHR 0x8C, CHR 0xE6, CHR 0x88, CHR 0x96, CHR 0xE9, CHR 0x80, CHR 0x89,
       CHR 0xE6, CHR 0x8B, CHR 0xA9, CHR 0xE5, CHR 0x99, CHR 0xA8, CHR 0xE6, CHR 0x9C, CHR 0x89,
       CHR 0xE8, CHR 0xAF, CHR 0xAF, CHR 0xE3, CHR 0x80, CHR 0x82, CHR 0xE5, CHR 0xBB, CHR 0xBA,
       CHR 0xE8, CHR 0xAE, CHR 0xAE, CHR 0xE5, CHR 0x85, CHR 0x88, CHR 0xE6, CHR 0x88, CHR 0xAA,
       CHR 0xE5, CHR 0x9B, CHR 0xBE, CHR 0xE7, CHR 0xA1, CHR 0xAE, CHR 0xE8, CHR 0xAE, CHR 0xA4,
       CHR 0xE9, CHR 0xA1, CHR 0xB5, CHR 0xE9, CHR 0x9D, CHR 0xA2, CHR 0xE7, CHR 0x8A, CHR 0xB6,
       CHR 0xE6, CHR 0x80, CHR 0x81, CHR 0xE3, CHR 0x80, CHR 0x82]
         else if tool \<in> set [''wmi'', ''com''] \<and> (c ''wmi'' \<or> c ''com'' \<or> c ''dispatch'') then
           say (''Windows '' @
       [CHR 0xE7, CHR 0xB3, CHR 0xBB, CHR 0xE7, CHR 0xBB, CHR 0x9F, CHR 0xE6, CHR 0x8E, CHR 0xA5,
       CHR 0xE5, CHR 0x8F, CHR 0xA3, CHR 0xE8, CHR 0xB0, CHR 0x83, CHR 0xE7, CHR 0x94, CHR 0xA8,
       CHR 0xE5, CHR 0xA4, CHR 0xB1, CHR 0xE8, CHR 0xB4, CHR 0xA5, CHR 0xE3, CHR 0x80, CHR 0x82,
       CHR 0xE8, CHR 0xAF, CHR 0xB7, CHR 0xE7, CHR 0xA1, CHR 0xAE, CHR 0xE8, CHR 0xAE, CHR 0xA4,
       CHR 0xE4, CHR 0xBB, CHR 0xA5, CHR 0xE7, CHR 0xAE, CHR 0xA1, CHR 0xE7, CHR 0x90, CHR 0x86,
       CHR 0xE5, CHR 0x91, CHR 0x98, CHR 0xE6, CHR 0x9D, CHR 0x83, CHR 0xE9, CHR 0x99, CHR 0x90,
       CHR 0xE8, CHR 0xBF, CHR 0x90, CHR 0xE8, CHR 0xA1, CHR 0x8C, CHR 0xEF, CHR 0xBC, CHR 0x8C,
       CHR 0xE6, CHR 0x88, CHR 0x96, CHR 0xE8, CHR 0xAF, CHR 0xA5, CHR 0xE5, CHR 0x8A, CHR 0x9F,
       CHR 0xE8, CHR 0x83, CHR 0xBD, CHR 0xE5, CHR 0x9C, CHR 0xA8, CHR 0xE5, CHR 0xBD, CHR 0x93,
       CHR 0xE5, CHR 0x89, CHR 0x8D, CHR 0xE7, CHR 0xB3, CHR 0xBB, CHR 0xE7, CHR 0xBB, CHR 0x9F,
       CHR 0xE7, CHR 0x89, CHR 0x88, CHR 0xE6, CHR 0x9C, CHR 0xAC, CHR 0xE5, CHR 0x8F, CHR 0xAF,
       CHR 0xE7, CHR 0x94, CHR 0xA8, CHR 0xE3, CHR 0x80, CHR 0x82])
         else if tool = ''com_invoke'' \<and> (c ''regdb_e_classnotreg'' \<or> c ''0x80040154'') then
           say (''COM '' @
       [CHR 0xE5, CHR 0xAF, CHR 0xB9, CHR 0xE8, CHR 0xB1, CHR 0xA1, CHR 0xE6, CHR 0x9C, CHR 0xAA,
       CHR 0xE6, CHR 0xB3, CHR 0xA8, CHR 0xE5, CHR 0x86, CHR 0x8C, CHR 0xEF, CHR 0xBC, CHR 0x88] @
       ''REGDB_E_CLASSNOTREG'' @
       [CHR 0xEF, CHR 0xBC, CHR 0x89, CHR 0xE3, CHR 0x80, CHR 0x82, CHR 0xE6, CHR 0x9C, CHR 0x80,
       CHR 0xE5, CHR 0xB8, CHR 0xB8, CHR 0xE8, CHR 0xA7, CHR 0x81, CHR 0xE5, CHR 0x8E, CHR 0x9F,
       CHR 0xE5, CHR 0x9B, CHR 0xA0, CHR 0xEF, CHR 0xBC, CHR 0x9A, CHR 0xE8, CHR 0xAF, CHR 0xA5] @
       '' COM '' @
       [CHR 0xE5, CHR 0xAF, CHR 0xB9, CHR 0xE8, CHR 0xB1, CHR 0xA1, CHR 0xE6, CHR 0x98, CHR 0xAF] @
       '' 32 '' @
       [CHR 0xE4, CHR 0xBD, CHR 0x8D, CHR 0xE7, CHR 0xBB, CHR 0x84, CHR 0xE4, CHR 0xBB, CHR 0xB6,
       CHR 0xEF, CHR 0xBC, CHR 0x8C, CHR 0xE9, CHR 0x9C, CHR 0x80, CHR 0xE8, CHR 0xA6, CHR 0x81,
       CHR 0xE7, CHR 0x94, CHR 0xA8] @
       '' arch=x86 '' @
       [CHR 0xE5, CHR 0x8F, CHR 0x82, CHR 0xE6, CHR 0x95, CHR 0xB0, CHR 0xE3, CHR 0x80, CHR 0x82,
       CHR 0xE8, CHR 0xAF, CHR 0xB7, CHR 0xE9, CHR 0x87, CHR 0x8D, CHR 0xE8, CHR 0xAF, CHR 0x95,
       CHR 0xE5, CHR 0xB9, CHR 0xB6, CHR 0xE6, CHR 0xB7, CHR 0xBB, CHR 0xE5, CHR 0x8A, CHR 0xA0] @
       '' arch: '' @
       [CHR 0x22] @
       ''x86'' @
       [CHR 0x22, CHR 0xE3, CHR 0x80, CHR 0x82])
         else if tool = ''com_invoke'' \<and> (c ''0x80020009'' \<or> c ''disp_e_exception'') then
           say (''COM '' @
       [CHR 0xE6, CHR 0x96, CHR 0xB9, CHR 0xE6, CHR 0xB3, CHR 0x95, CHR 0xE8, CHR 0xB0, CHR 0x83,
       CHR 0xE7, CHR 0x94, CHR 0xA8, CHR 0xE6, CHR 0x8A, CHR 0x9B, CHR 0xE5, CHR 0x87, CHR 0xBA,
       CHR 0xE5, CHR 0xBC, CHR 0x82, CHR 0xE5, CHR 0xB8, CHR 0xB8, CHR 0xE3, CHR 0x80, CHR 0x82,
       CHR 0xE8, CHR 0xAF, CHR 0xB7, CHR 0xE6, CHR 0xA3, CHR 0x80, CHR 0xE6, CHR 0x9F, CHR 0xA5,
       CHR 0xE6, CHR 0x96, CHR 0xB9, CHR 0xE6, CHR 0xB3, CHR 0x95, CHR 0xE5, CHR 0x90, CHR 0x8D,
       CHR 0xE7, CHR 0xA7, CHR 0xB0, CHR 0xE5, CHR 0x92, CHR 0x8C, CHR 0xE5, CHR 0x8F, CHR 0x82,
       CHR 0xE6, CHR 0x95, CHR 0xB0, CHR 0xE6, CHR 0x98, CHR 0xAF, CHR 0xE5, CHR 0x90, CHR 0xA6,
       CHR 0xE6, CHR 0xAD, CHR 0xA3, CHR 0xE7, CHR 0xA1, CHR 0xAE, CHR 0xE3, CHR 0x80, CHR 0x82])
         else if tool = ''com_invoke'' \<and> (c ''0x80070005'' \<or> c ''e_accessdenied'') then
           say (''COM '' @
       [CHR 0xE5, CHR 0xAF, CHR 0xB9, CHR 0xE8, CHR 0xB1, CHR 0xA1, CHR 0xE8, CHR 0xAE, CHR 0xBF,
       CHR 0xE9, CHR 0x97, CHR 0xAE, CHR 0xE8, CHR 0xA2, CHR 0xAB, CHR 0xE6, CHR 0x8B, CHR 0x92,
       CHR 0xE7, CHR 0xBB, CHR 0x9D, CHR 0xE3, CHR 0x80, CHR 0x82, CHR 0xE5, CHR 0x8F, CHR 0xAF,
       CHR 0xE8, CHR 0x83, CHR 0xBD, CHR 0xE9, CHR 0x9C, CHR 0x80, CHR 0xE8, CHR 0xA6, CHR 0x81,
       CHR 0xE7, CHR 0xAE, CHR 0xA1, CHR 0xE7, CHR 0x90, CHR 0x86, CHR 0xE5, CHR 0x91, CHR 0x98,
       CHR 0xE6, CHR 0x9D, CHR 0x83, CHR 0xE9, CHR 0x99, CHR 0x90, CHR 0xEF, CHR 0xBC, CHR 0x8C,
       CHR 0xE6, CHR 0x88, CHR 0x96, CHR 0xE8, CHR 0xAF, CHR 0xA5, CHR 0xE5, CHR 0xAF, CHR 0xB9,
       CHR 0xE8, CHR 0xB1, CHR 0xA1, CHR 0xE4, CHR 0xB8, CHR 0x8D, CHR 0xE5, CHR 0x85, CHR 0x81,
       CHR 0xE8, CHR 0xAE, CHR 0xB8, CHR 0xE5, CHR 0xA4, CHR 0x96, CHR 0xE9, CHR 0x83, CHR 0xA8,
       CHR 0xE8, CHR 0xB0, CHR 0x83, CHR 0xE7, CHR 0x94, CHR 0xA8, CHR 0xE3, CHR 0x80, CHR 0x82])
         else if tool = ''com_invoke'' \<and> (c ''progid'' \<or> c ''new-object'') then
           say ([CHR 0xE6, CHR 0x97, CHR 0xA0, CHR 0xE6, CHR 0xB3, CHR 0x95, CHR 0xE5, CHR 0x88, CHR 0x9B,
       CHR 0xE5, CHR 0xBB, CHR 0xBA] @
       '' COM '' @
       [CHR 0xE5, CHR 0xAF, CHR 0xB9, CHR 0xE8, CHR 0xB1, CHR 0xA1, CHR 0xE3, CHR 0x80, CHR 0x82,
       CHR 0xE8, CHR 0xAF, CHR 0xB7, CHR 0xE7, CHR 0xA1, CHR 0xAE, CHR 0xE8, CHR 0xAE, CHR 0xA4] @
       '' ProgID '' @
       [CHR 0xE6, CHR 0xAD, CHR 0xA3, CHR 0xE7, CHR 0xA1, CHR 0xAE, CHR 0xEF, CHR 0xBC, CHR 0x8C,
       CHR 0xE8, CHR 0xBD, CHR 0xAF, CHR 0xE4, CHR 0xBB, CHR 0xB6, CHR 0xE5, CHR 0xB7, CHR 0xB2,
       CHR 0xE5, CHR 0xAE, CHR 0x89, CHR 0xE8, CHR 0xA3, CHR 0x85, CHR 0xEF, CHR 0xBC, CHR 0x8C,
       CHR 0xE5, CHR 0xB9, CHR 0xB6, CHR 0xE5, CHR 0xB0, CHR 0x9D, CHR 0xE8, CHR 0xAF, CHR 0x95] @
       '' arch=x86'' @
       [CHR 0xEF, CHR 0xBC, CHR 0x88] @
       ''32'' @
       [CHR 0xE4, CHR 0xBD, CHR 0x8D, CHR 0xE8, CHR 0xBD, CHR 0xAF, CHR 0xE4, CHR 0xBB, CHR 0xB6,
       CHR 0xEF, CHR 0xBC, CHR 0x89, CHR 0xE3, CHR 0x80, CHR 0x82])
         else ''['' @ tool @ (''] '' @
       [CHR 0xE5, CHR 0xB7, CHR 0xA5, CHR 0xE5, CHR 0x85, CHR 0xB7, CHR 0xE6, CHR 0x89, CHR 0xA7,
       CHR 0xE8, CHR 0xA1, CHR 0x8C, CHR 0xE5, CHR 0xA4, CHR 0xB1, CHR 0xE8, CHR 0xB4, CHR 0xA5,
       CHR 0xEF, CHR 0xBC, CHR 0x9A]) @ raw_error)"

definition is_requirement :: "string \<Rightarrow> bool" where
  "is_requirement lower \<longleftrightarrow>
     list_ex (contains lower) [''missing required parameter'', '' requires '', (''requires '' @ [CHR 0x27]), (''requires '' @ [CHR 0x22])]"

definition is_missing_path :: "string \<Rightarrow> bool" where
  "is_missing_path lower \<longleftrightarrow>
     list_ex (contains lower)
       [''working directory does not exist'', ''file not found'', ''path_a not found'', ''path_b not found'']"

definition is_refusal :: "string \<Rightarrow> bool" where
  "is_refusal lower \<longleftrightarrow>
     list_ex (contains lower) [''permission denied'', ''access is denied'', ''denied by policy'']"

definition is_disabled :: "string \<Rightarrow> bool" where
  "is_disabled lower \<longleftrightarrow> list_ex (contains lower) [''not configured'', ''tool is disabled'']"

definition suggestions :: "string \<Rightarrow> string list" where
  "suggestions lower =
     (let found = (if is_requirement lower then [[CHR 0xE8, CHR 0xA1, CHR 0xA5, CHR 0xE9, CHR 0xBD, CHR 0x90, CHR 0xE5, CHR 0xB7, CHR 0xA5,
       CHR 0xE5, CHR 0x85, CHR 0xB7, CHR 0xE8, CHR 0xA6, CHR 0x81, CHR 0xE6, CHR 0xB1, CHR 0x82,
       CHR 0xE7, CHR 0x9A, CHR 0x84, CHR 0xE5, CHR 0xBF, CHR 0x85, CHR 0xE5, CHR 0xA1, CHR 0xAB,
       CHR 0xE5, CHR 0x8F, CHR 0x82, CHR 0xE6, CHR 0x95, CHR 0xB0, CHR 0xE5, CHR 0x90, CHR 0x8E,
       CHR 0xE9, CHR 0x87, CHR 0x8D, CHR 0xE8, CHR 0xAF, CHR 0x95]] else []) @
        (if is_disabled lower then [([CHR 0xE5, CHR 0x85, CHR 0x88, CHR 0xE5, CHR 0x9C, CHR 0xA8] @
       '' Settings '' @
       [CHR 0xE4, CHR 0xB8, CHR 0xAD, CHR 0xE5, CHR 0x90, CHR 0xAF, CHR 0xE7, CHR 0x94, CHR 0xA8,
       CHR 0xE6, CHR 0x88, CHR 0x96, CHR 0xE9, CHR 0x85, CHR 0x8D, CHR 0xE7, CHR 0xBD, CHR 0xAE,
       CHR 0xE8, CHR 0xAF, CHR 0xA5, CHR 0xE5, CHR 0xB7, CHR 0xA5, CHR 0xE5, CHR 0x85, CHR 0xB7])] else []) @
        (if is_missing_path lower then [[CHR 0xE5, CHR 0x85, CHR 0x88, CHR 0xE7, CHR 0xA1, CHR 0xAE, CHR 0xE8, CHR 0xAE, CHR 0xA4,
       CHR 0xE8, CHR 0xB7, CHR 0xAF, CHR 0xE5, CHR 0xBE, CHR 0x84, CHR 0xE5, CHR 0xAD, CHR 0x98,
       CHR 0xE5, CHR 0x9C, CHR 0xA8, CHR 0xEF, CHR 0xBC, CHR 0x8C, CHR 0xE5, CHR 0xBF, CHR 0x85,
       CHR 0xE8, CHR 0xA6, CHR 0x81, CHR 0xE6, CHR 0x97, CHR 0xB6, CHR 0xE5, CHR 0x85, CHR 0x88,
       CHR 0xE5, CHR 0x88, CHR 0x97, CHR 0xE7, CHR 0x9B, CHR 0xAE, CHR 0xE5, CHR 0xBD, CHR 0x95,
       CHR 0xE6, CHR 0x88, CHR 0x96, CHR 0xE5, CHR 0x88, CHR 0x9B, CHR 0xE5, CHR 0xBB, CHR 0xBA,
       CHR 0xE7, CHR 0x9B, CHR 0xAE, CHR 0xE6, CHR 0xA0, CHR 0x87]] else []) @
        (if contains lower ''too large'' then [([CHR 0xE6, CHR 0x94, CHR 0xB9, CHR 0xE7, CHR 0x94, CHR 0xA8] @
       '' offset/limit'' @
       [CHR 0xE3, CHR 0x80, CHR 0x81, CHR 0xE5, CHR 0x88, CHR 0x86, CHR 0xE9, CHR 0xA1, CHR 0xB5,
       CHR 0xE3, CHR 0x80, CHR 0x81, CHR 0xE5, CHR 0x88, CHR 0x86, CHR 0xE5, CHR 0x9D, CHR 0x97,
       CHR 0xE6, CHR 0x88, CHR 0x96, CHR 0xE6, CHR 0x9B, CHR 0xB4, CHR 0xE5, CHR 0xB0, CHR 0x8F,
       CHR 0xE8, CHR 0x8C, CHR 0x83, CHR 0xE5, CHR 0x9B, CHR 0xB4, CHR 0xE5, CHR 0x8F, CHR 0x82,
       CHR 0xE6, CHR 0x95, CHR 0xB0])] else []) @
        (if is_refusal lower then [([CHR 0xE6, CHR 0x94, CHR 0xB9, CHR 0xE7, CHR 0x94, CHR 0xA8, CHR 0xE5, CHR 0x85, CHR 0x81,
       CHR 0xE8, CHR 0xAE, CHR 0xB8, CHR 0xE7, CHR 0x9A, CHR 0x84, CHR 0xE8, CHR 0xB7, CHR 0xAF,
       CHR 0xE5, CHR 0xBE, CHR 0x84] @
       ''/'' @
       [CHR 0xE5, CHR 0x91, CHR 0xBD, CHR 0xE4, CHR 0xBB, CHR 0xA4, CHR 0xEF, CHR 0xBC, CHR 0x8C,
       CHR 0xE6, CHR 0x88, CHR 0x96, CHR 0xE8, CHR 0xAF, CHR 0xB7, CHR 0xE6, CHR 0xB1, CHR 0x82,
       CHR 0xE7, CHR 0x94, CHR 0xA8, CHR 0xE6, CHR 0x88, CHR 0xB7, CHR 0xE7, CHR 0xA1, CHR 0xAE,
       CHR 0xE8, CHR 0xAE, CHR 0xA4, CHR 0xE5, CHR 0x90, CHR 0x8E, CHR 0xE5, CHR 0x86, CHR 0x8D,
       CHR 0xE9, CHR 0x87, CHR 0x8D, CHR 0xE8, CHR 0xAF, CHR 0x95])] else [])
      in if found = [] then [[CHR 0xE4, CHR 0xBF, CHR 0xAE, CHR 0xE6, CHR 0xAD, CHR 0xA3, CHR 0xE8, CHR 0xBE, CHR 0x93,
       CHR 0xE5, CHR 0x85, CHR 0xA5, CHR 0xE6, CHR 0x88, CHR 0x96, CHR 0xE5, CHR 0x85, CHR 0x88,
       CHR 0xE6, CHR 0xBB, CHR 0xA1, CHR 0xE8, CHR 0xB6, CHR 0xB3, CHR 0xE5, CHR 0x89, CHR 0x8D,
       CHR 0xE7, CHR 0xBD, CHR 0xAE, CHR 0xE6, CHR 0x9D, CHR 0xA1, CHR 0xE4, CHR 0xBB, CHR 0xB6,
       CHR 0xE5, CHR 0x90, CHR 0x8E, CHR 0xE5, CHR 0x86, CHR 0x8D, CHR 0xE9, CHR 0x87, CHR 0x8D,
       CHR 0xE8, CHR 0xAF, CHR 0x95]] else found)"

definition decorate_tool_failure_for_agent ::
  "(json \<Rightarrow> string) \<Rightarrow> string \<Rightarrow> json \<Rightarrow> string \<Rightarrow> bool \<Rightarrow> string" where
  "decorate_tool_failure_for_agent js tool input content is_error =
     (if \<not> is_error \<or> contains content ''[ConstraintViolation]'' then content
      else let lower = to_lowercase content
           in if \<not> (is_requirement lower \<or> contains lower ''unknown action'' \<or> is_disabled lower \<or>
                     is_missing_path lower \<or> contains lower ''too large'' \<or> is_refusal lower)
              then content
              else (''[ConstraintViolation] '' @
       [CHR 0xE5, CHR 0xB7, CHR 0xA5, CHR 0xE5, CHR 0x85, CHR 0xB7] @
       '' '' @
       [CHR 0x60]) @ tool @
                   ([CHR 0x60] @
       '' '' @
       [CHR 0xE6, CHR 0x9C, CHR 0xAC, CHR 0xE6, CHR 0xAC, CHR 0xA1, CHR 0xE8, CHR 0xB0, CHR 0x83,
       CHR 0xE7, CHR 0x94, CHR 0xA8, CHR 0xE6, CHR 0x9C, CHR 0xAA, CHR 0xE7, CHR 0x94, CHR 0x9F,
       CHR 0xE6, CHR 0x95, CHR 0x88, CHR 0xE3, CHR 0x80, CHR 0x82, CHR 0xE8, CHR 0xAF, CHR 0xB7,
       CHR 0xE4, CHR 0xB8, CHR 0x8D, CHR 0xE8, CHR 0xA6, CHR 0x81, CHR 0xE9, CHR 0x87, CHR 0x8D,
       CHR 0xE5, CHR 0xA4, CHR 0x8D, CHR 0xE7, CHR 0x9B, CHR 0xB8, CHR 0xE5, CHR 0x90, CHR 0x8C,
       CHR 0xE8, CHR 0xB0, CHR 0x83, CHR 0xE7, CHR 0x94, CHR 0xA8, CHR 0xEF, CHR 0xBC, CHR 0x8C,
       CHR 0xE5, CHR 0x85, CHR 0x88, CHR 0xE6, CHR 0x8C, CHR 0x89, CHR 0xE6, CHR 0x8F, CHR 0x90,
       CHR 0xE7, CHR 0xA4, CHR 0xBA, CHR 0xE8, CHR 0xB0, CHR 0x83, CHR 0xE6, CHR 0x95, CHR 0xB4,
       CHR 0xE5, CHR 0x90, CHR 0x8E, CHR 0xE5, CHR 0x86, CHR 0x8D, CHR 0xE8, CHR 0xAF, CHR 0x95,
       CHR 0xE3, CHR 0x80, CHR 0x82, CHR 0x0A, CHR 0xE5, CHR 0xBB, CHR 0xBA, CHR 0xE8, CHR 0xAE,
       CHR 0xAE, CHR 0xEF, CHR 0xBC, CHR 0x9A]) @
                   join [CHR 0xEF, CHR 0xBC, CHR 0x9B] (suggestions lower) @ [CHR 0x0A, CHR 0xE8, CHR 0xBE, CHR 0x93, CHR 0xE5, CHR 0x85, CHR 0xA5, CHR 0xEF, CHR 0xBC,
       CHR 0x9A] @ js input @ [CHR 0x0A, CHR 0xE5, CHR 0x8E, CHR 0x9F, CHR 0xE5, CHR 0xA7, CHR 0x8B, CHR 0xE7, CHR 0xBB,
       CHR 0x93, CHR 0xE6, CHR 0x9E, CHR 0x9C, CHR 0xEF, CHR 0xBC, CHR 0x9A] @ content)"

definition truncate_str :: "string \<Rightarrow> nat \<Rightarrow> string" where
  "truncate_str s n = (if count_chars s \<le> n then s else take_chars n s @ ''...'')"

definition summarize_tool_input :: "(json \<Rightarrow> string) \<Rightarrow> string \<Rightarrow> json \<Rightarrow> string" where
  "summarize_tool_input js tool input =
     (if tool = ''browser'' then
        let part = (\<lambda>k. case field_str input k of None \<Rightarrow> [] | Some v \<Rightarrow> [k @ ''='' @ v])
        in join '', '' ([''action='' @ string_or (field_str input ''action'') ''unknown''] @
             part ''url'' @ part ''selector'' @ part ''tab_id'' @ part ''wait_condition'')
      else js input)"

definition clip :: "string \<Rightarrow> nat \<Rightarrow> string" where
  "clip s n = (if count_chars s \<le> n then s else take_chars n s @ [CHR 0xE2, CHR 0x80, CHR 0xA6])"

definition generic_label :: "string \<Rightarrow> json \<Rightarrow> string" where
  "generic_label tool input =
     (case input of
        JObj kvs \<Rightarrow>
          (case find (\<lambda>s. s \<noteq> []) (List.map_filter (\<lambda>(k, v). json_as_str v) (take 3 kvs)) of
             None \<Rightarrow> tool
           | Some s \<Rightarrow> clip s 60)
      | _ \<Rightarrow> tool)"

definition audit_action_label :: "string \<Rightarrow> json \<Rightarrow> string" where
  "audit_action_label tool input =
     (let str = (\<lambda>k. string_or (field_str input k) [])
      in if tool = ''shell'' \<or> tool = ''powershell'' then clip (str ''command'') 60
         else if tool = ''powershell_query'' then clip (first_field input [''command'', ''query'']) 60
         else if tool = ''file_read'' then ''read '' @ clip (str ''path'') 55
         else if tool = ''file_write'' then ''write '' @ clip (str ''path'') 54
         else if tool = ''web_search'' then clip (str ''query'') 60
         else if tool = ''browser'' then
           (let action = string_or (field_str input ''action'') ''?''
            in case field_str input ''url'' of
                 Some url \<Rightarrow> action @ '' '' @ clip url 50
               | None \<Rightarrow>
                   (case field_str input ''selector'' of
                      Some sel \<Rightarrow> action @ '' '' @ clip sel 50
                    | None \<Rightarrow> action))
         else if tool = ''screen_capture'' then string_or (field_str input ''mode'') ''fullscreen''
         else if tool = ''uia'' then
           (case field_str input ''name'' of
              Some name \<Rightarrow> str ''action'' @ '' '' @ clip name 50
            | None \<Rightarrow> str ''action'')
         else if tool = ''wmi'' then clip (str ''query'') 60
         else if tool = ''com'' then
           (if str ''prog_id'' = [] then str ''method'' else str ''prog_id'' @ ''.'' @ str ''method'')
         else if tool = ''office'' then str ''action'' @ '' '' @ clip (str ''path'') 50
         else generic_label tool input)"

section \<open>Cleaning the output of a tool\<close>

text \<open>On the characters of a text: control characters, and carriage returns without a line feed.\<close>

definition is_control :: "string \<Rightarrow> bool" where
  "is_control c \<longleftrightarrow>
     (let n = code_point c in n < 32 \<and> n \<noteq> 10 \<and> n \<noteq> 9 \<and> n \<noteq> 13 \<or> n = 127)"

fun needs_cleaning :: "bool \<Rightarrow> string list \<Rightarrow> bool" where
  "needs_cleaning prev_cr [] = prev_cr"
| "needs_cleaning prev_cr (c # cs) \<longleftrightarrow>
     prev_cr \<and> c \<noteq> [CHR 0x0A] \<or> is_control c \<or> needs_cleaning (c = [CHR 0x0D]) cs"

text \<open>What follows an escape sequence: up to a final byte, up to BEL or ESC backslash, or one character.\<close>

fun skip_csi :: "string list \<Rightarrow> string list" where
  "skip_csi [] = []"
| "skip_csi (c # cs) = (if 64 \<le> code_point c \<and> code_point c \<le> 126 then cs else skip_csi cs)"

fun skip_osc :: "string list \<Rightarrow> string list" where
  "skip_osc [] = []"
| "skip_osc (c # cs) =
     (if c = [CHR 0x07] then cs
      else if c = [CHR 0x1B] \<and> cs \<noteq> [] \<and> hd cs = [CHR 0x5C] then tl cs
      else skip_osc cs)"

fun skip_escape :: "string list \<Rightarrow> string list" where
  "skip_escape [] = []"
| "skip_escape (c # cs) = (if c = ''['' then skip_csi cs else if c = '']'' then skip_osc cs else cs)"

lemma length_skip_csi: "length (skip_csi cs) \<le> length cs"
  by (induction cs) auto

lemma length_skip_osc: "length (skip_osc cs) \<le> length cs"
  by (induction cs rule: skip_osc.induct) auto

lemma length_skip_escape: "length (skip_escape cs) \<le> length cs"
  using length_skip_csi length_skip_osc by (cases cs) (auto intro: le_SucI)

text \<open>The output so far is kept in reverse; a redrawn line is dropped back to the last line feed.\<close>

function clean_chars :: "string list \<Rightarrow> string list \<Rightarrow> string list" where
  "clean_chars out [] = rev out"
| "clean_chars out (c # cs) =
     (if c = [CHR 0x1B] then clean_chars out (skip_escape cs)
      else if c = [CHR 0x0D] then
        (if cs \<noteq> [] \<and> hd cs = [CHR 0x0A] then clean_chars (c # out) cs
         else if cs \<noteq> [] then clean_chars (dropWhile (\<lambda>d. d \<noteq> [CHR 0x0A]) out) cs
         else clean_chars out cs)
      else if is_control c then clean_chars out cs
      else clean_chars (c # out) cs)"
  by pat_completeness auto
termination
  by (relation "measure (\<lambda>(out, cs). length cs)") (auto simp: le_imp_less_Suc length_skip_escape)

declare clean_chars.simps [simp del]

definition sanitize_tool_text :: "string \<Rightarrow> string" where
  "sanitize_tool_text s =
     (if needs_cleaning False (chars s) then concat (clean_chars [] (chars s)) else s)"

end
