(* ===== verification/Plan.thy ===== *)
theory Plan
  imports Llm_Messages
begin

text \<open>The visible plan of a session (\<^verbatim>\<open>agent/plan.rs\<close>) and the tool that edits it (\<^verbatim>\<open>tools/plan_todo.rs\<close>).\<close>

record PlanTodoItem =
  pi_id :: string
  pi_content :: string
  pi_status :: string

type_synonym PlanState = "string \<rightharpoonup> PlanTodoItem list"

definition normalized :: "PlanTodoItem \<Rightarrow> PlanTodoItem" where
  "normalized item = \<lparr>pi_id = trim (pi_id item), pi_content = trim (pi_content item), pi_status = trim (pi_status item)\<rparr>"

text \<open>The loop over the items, with the identifiers seen and the number in progress.\<close>

fun validate_loop :: "string list \<Rightarrow> nat \<Rightarrow> PlanTodoItem list \<Rightarrow> string + unit" where
  "validate_loop seen in_progress_count [] =
     (if 1 < in_progress_count then Inl ([CHR 0xE5, CHR 0x90, CHR 0x8C, CHR 0xE4, CHR 0xB8, CHR 0x80, CHR 0xE6, CHR 0x97, CHR 0xB6,
       CHR 0xE9, CHR 0x97, CHR 0xB4, CHR 0xE6, CHR 0x9C, CHR 0x80, CHR 0xE5, CHR 0xA4, CHR 0x9A,
       CHR 0xE5, CHR 0x8F, CHR 0xAA, CHR 0xE8, CHR 0x83, CHR 0xBD, CHR 0xE6, CHR 0x9C, CHR 0x89] @
       '' 1 '' @
       [CHR 0xE4, CHR 0xB8, CHR 0xAA] @
       '' todo '' @
       [CHR 0xE5, CHR 0xA4, CHR 0x84, CHR 0xE4, CHR 0xBA, CHR 0x8E] @
       '' in_progress'') else Inr ())"
| "validate_loop seen in_progress_count (raw # items) =
     (let item = normalized raw
      in if pi_id item = [] then Inl (''todo.id '' @
       [CHR 0xE4, CHR 0xB8, CHR 0x8D, CHR 0xE8, CHR 0x83, CHR 0xBD, CHR 0xE4, CHR 0xB8, CHR 0xBA,
       CHR 0xE7, CHR 0xA9, CHR 0xBA])
         else if pi_content item = [] then Inl ((''todo '' @ [CHR 0x27]) @ pi_id item @ ([CHR 0x27] @
       '' '' @
       [CHR 0xE7, CHR 0x9A, CHR 0x84] @
       '' content '' @
       [CHR 0xE4, CHR 0xB8, CHR 0x8D, CHR 0xE8, CHR 0x83, CHR 0xBD, CHR 0xE4, CHR 0xB8, CHR 0xBA,
       CHR 0xE7, CHR 0xA9, CHR 0xBA]))
         else if pi_status item \<notin> set [''pending'', ''in_progress'', ''completed'', ''cancelled''] then
           Inl ((''todo '' @ [CHR 0x27]) @ pi_id item @ ([CHR 0x27] @ '' '' @ [CHR 0xE7, CHR 0x9A, CHR 0x84] @ '' status '' @ [CHR 0x27]) @ pi_status item @
                ([CHR 0x27] @
       '' '' @
       [CHR 0xE6, CHR 0x97, CHR 0xA0, CHR 0xE6, CHR 0x95, CHR 0x88, CHR 0xEF, CHR 0xBC, CHR 0x8C,
       CHR 0xE5, CHR 0xBF, CHR 0x85, CHR 0xE9, CHR 0xA1, CHR 0xBB, CHR 0xE6, CHR 0x98, CHR 0xAF] @
       '' pending / in_progress / completed / cancelled''))
         else if pi_id item \<in> set seen then Inl ((''todo id '' @ [CHR 0x27]) @ pi_id item @ ([CHR 0x27] @ '' '' @ [CHR 0xE9, CHR 0x87, CHR 0x8D, CHR 0xE5, CHR 0xA4, CHR 0x8D]))
         else validate_loop (pi_id item # seen)
                (if pi_status item = ''in_progress'' then Suc in_progress_count else in_progress_count) items)"

definition validate_todos :: "PlanTodoItem list \<Rightarrow> string + unit" where
  "validate_todos items =
     (if items = [] then Inl ([CHR 0xE8, CHR 0x87, CHR 0xB3, CHR 0xE5, CHR 0xB0, CHR 0x91, CHR 0xE9, CHR 0x9C, CHR 0x80,
       CHR 0xE8, CHR 0xA6, CHR 0x81] @
       '' 1 '' @
       [CHR 0xE4, CHR 0xB8, CHR 0xAA] @
       '' todo '' @
       [CHR 0xE9, CHR 0xA1, CHR 0xB9]) else validate_loop [] 0 items)"

text \<open>The first item with the identifier is replaced; an item with a new one is appended.\<close>

fun merge_todo :: "PlanTodoItem \<Rightarrow> PlanTodoItem list \<Rightarrow> PlanTodoItem list" where
  "merge_todo update [] = [update]"
| "merge_todo update (item # items) =
     (if pi_id item = pi_id update then update # items else item # merge_todo update items)"

definition merge_todos :: "PlanTodoItem list \<Rightarrow> PlanTodoItem list \<Rightarrow> PlanTodoItem list" where
  "merge_todos existing updates = fold merge_todo updates existing"

definition summarize_todos :: "PlanTodoItem list \<Rightarrow> string" where
  "summarize_todos items =
     join [CHR 0x0A] (map (\<lambda>i. ''- ['' @ pi_status i @ ''] '' @ pi_content i @ '' ('' @ pi_id i @ '')'') items)"

section \<open>The tool\<close>

text \<open>A struct is read from an object or from the sequence of its fields.\<close>

fun todo_of_json :: "json \<Rightarrow> PlanTodoItem option" where
  "todo_of_json (JObj kvs) =
     (case (map_of kvs ''id'', map_of kvs ''content'', map_of kvs ''status'') of
        (Some (JStr i), Some (JStr c), Some (JStr s)) \<Rightarrow> Some \<lparr>pi_id = i, pi_content = c, pi_status = s\<rparr>
      | _ \<Rightarrow> None)"
| "todo_of_json (JArr vs) =
     (case vs of
        [JStr i, JStr c, JStr s] \<Rightarrow> Some \<lparr>pi_id = i, pi_content = c, pi_status = s\<rparr>
      | _ \<Rightarrow> None)"
| "todo_of_json _ = None"

fun all_some :: "'a option list \<Rightarrow> 'a list option" where
  "all_some [] = Some []"
| "all_some (None # xs) = None"
| "all_some (Some x # xs) = map_option ((#) x) (all_some xs)"

definition todos_of_json :: "json option \<Rightarrow> PlanTodoItem list option" where
  "todos_of_json v = (case v of Some (JArr vs) \<Rightarrow> all_some (map todo_of_json vs) | _ \<Rightarrow> None)"

text \<open>What \<^verbatim>\<open>serde_json\<close> says of todos that do not parse is the parameter \<open>serde\<close>; the result is an error or a text.\<close>

definition plan_todo ::
  "(json option \<Rightarrow> string) \<Rightarrow> string \<Rightarrow> string option \<Rightarrow> json \<Rightarrow> PlanState \<Rightarrow> (string + string) \<times> PlanState" where
  "plan_todo serde session_id pool_session_id input state =
     (let merge = (case Option.bind (json_get input ''merge'') json_as_bool of Some b \<Rightarrow> b | None \<Rightarrow> False)
      in case todos_of_json (json_get input ''todos'') of
           None \<Rightarrow> (Inl (([CHR 0x27] @
       ''todos'' @
       [CHR 0x27] @
       '' '' @
       [CHR 0xE6, CHR 0xA0, CHR 0xBC, CHR 0xE5, CHR 0xBC, CHR 0x8F, CHR 0xE6, CHR 0x97, CHR 0xA0,
       CHR 0xE6, CHR 0x95, CHR 0x88] @
       '': '') @ serde (json_get input ''todos'')), state)
         | Some todos \<Rightarrow>
             (case validate_todos todos of
                Inl e \<Rightarrow> (Inl e, state)
              | Inr _ \<Rightarrow>
                  let current = (case state session_id of None \<Rightarrow> [] | Some items \<Rightarrow> items);
                      next = (if merge then merge_todos current todos else todos)
                  in case validate_todos next of
                       Inl e \<Rightarrow> (Inl e, state)
                     | Inr _ \<Rightarrow>
                         (Inr ([CHR 0xE8, CHR 0xAE, CHR 0xA1, CHR 0xE5, CHR 0x88, CHR 0x92, CHR 0xE5, CHR 0xB7, CHR 0xB2,
       CHR 0xE6, CHR 0x9B, CHR 0xB4, CHR 0xE6, CHR 0x96, CHR 0xB0, CHR 0xEF, CHR 0xBC, CHR 0x88] @ nat_digits (length next) @ ('' '' @
       [CHR 0xE9, CHR 0xA1, CHR 0xB9, CHR 0xEF, CHR 0xBC, CHR 0x89] @
       '':'' @
       [CHR 0x0A]) @ summarize_todos next @
                            (if pool_session_id \<noteq> None
                             then ([CHR 0x0A, CHR 0x0A, CHR 0xE6, CHR 0xB3, CHR 0xA8, CHR 0xE6, CHR 0x84, CHR 0x8F, CHR 0xEF,
       CHR 0xBC, CHR 0x9A, CHR 0xE8, CHR 0xBF, CHR 0x99, CHR 0xE5, CHR 0x8F, CHR 0xAA, CHR 0xE6,
       CHR 0x9B, CHR 0xB4, CHR 0xE6, CHR 0x96, CHR 0xB0, CHR 0xE4, CHR 0xBD, CHR 0xA0, CHR 0xE7,
       CHR 0x9A, CHR 0x84, CHR 0xE5, CHR 0x86, CHR 0x85, CHR 0xE9, CHR 0x83, CHR 0xA8, CHR 0xE8,
       CHR 0xAE, CHR 0xA1, CHR 0xE5, CHR 0x88, CHR 0x92, CHR 0xE6, CHR 0x9D, CHR 0xBF, CHR 0xEF,
       CHR 0xBC, CHR 0x8C, CHR 0xE4, CHR 0xB8, CHR 0x8D, CHR 0xE4, CHR 0xBC, CHR 0x9A, CHR 0xE6,
       CHR 0x8A, CHR 0x8A, CHR 0xE7, CHR 0xBB, CHR 0x93, CHR 0xE6, CHR 0x9E, CHR 0x9C, CHR 0xE5,
       CHR 0x8F, CHR 0x91, CHR 0xE9, CHR 0x80, CHR 0x81, CHR 0xE5, CHR 0x88, CHR 0xB0] @
       '' '' @
       [CHR 0x60] @
       ''pool_chat'' @
       [CHR 0x60, CHR 0xEF, CHR 0xBC, CHR 0x8C, CHR 0xE4, CHR 0xB9, CHR 0x9F, CHR 0xE4, CHR 0xB8,
       CHR 0x8D, CHR 0xE4, CHR 0xBC, CHR 0x9A, CHR 0xE5, CHR 0x88, CHR 0x9B, CHR 0xE5, CHR 0xBB,
       CHR 0xBA, CHR 0xE3, CHR 0x80, CHR 0x81, CHR 0xE8, CHR 0xAE, CHR 0xA4, CHR 0xE9, CHR 0xA2,
       CHR 0x86, CHR 0xE6, CHR 0x88, CHR 0x96, CHR 0xE5, CHR 0xAE, CHR 0x8C, CHR 0xE6, CHR 0x88,
       CHR 0x90] @
       '' '' @
       [CHR 0x60] @
       ''pool_org'' @
       [CHR 0x60] @
       '' '' @
       [CHR 0xE7, CHR 0x9A, CHR 0x84, CHR 0xE5, CHR 0x8D, CHR 0x8F, CHR 0xE4, CHR 0xBD, CHR 0x9C] @
       '' todo'' @
       [CHR 0xE3, CHR 0x80, CHR 0x82, CHR 0xE5, CHR 0xA6, CHR 0x82, CHR 0xE6, CHR 0x9E, CHR 0x9C,
       CHR 0xE4, CHR 0xBD, CHR 0xA0, CHR 0xE5, CHR 0x9C, CHR 0xA8, CHR 0xE5, CHR 0x8D, CHR 0x8F,
       CHR 0xE4, CHR 0xBD, CHR 0x9C, CHR 0xE6, CHR 0xB1, CHR 0xA0, CHR 0xE4, CHR 0xB8, CHR 0xAD,
       CHR 0xE5, CHR 0xB7, CHR 0xA5, CHR 0xE4, CHR 0xBD, CHR 0x9C, CHR 0xEF, CHR 0xBC, CHR 0x8C,
       CHR 0xE6, CHR 0x9B, CHR 0xB4, CHR 0xE6, CHR 0x96, CHR 0xB0, CHR 0xE8, CHR 0xAE, CHR 0xA1,
       CHR 0xE5, CHR 0x88, CHR 0x92, CHR 0xE5, CHR 0x90, CHR 0x8E, CHR 0xE4, CHR 0xBB, CHR 0x8D,
       CHR 0xE9, CHR 0x9C, CHR 0x80, CHR 0xE8, CHR 0xA6, CHR 0x81, CHR 0xE7, CHR 0x94, CHR 0xA8,
       CHR 0xE5, CHR 0xAE, CHR 0x9E, CHR 0xE9, CHR 0x99, CHR 0x85, CHR 0xE6, CHR 0x89, CHR 0xA7,
       CHR 0xE8, CHR 0xA1, CHR 0x8C, CHR 0xE5, CHR 0xB7, CHR 0xA5, CHR 0xE5, CHR 0x85, CHR 0xB7,
       CHR 0xE6, CHR 0x8E, CHR 0xA8, CHR 0xE8, CHR 0xBF, CHR 0x9B, CHR 0xE4, CHR 0xBA, CHR 0xA4,
       CHR 0xE4, CHR 0xBB, CHR 0x98, CHR 0xEF, CHR 0xBC, CHR 0x8C, CHR 0xE5, CHR 0xB9, CHR 0xB6,
       CHR 0xE5, CHR 0x9C, CHR 0xA8, CHR 0xE9, CHR 0x9C, CHR 0x80, CHR 0xE8, CHR 0xA6, CHR 0x81,
       CHR 0xE6, CHR 0x97, CHR 0xB6, CHR 0xE6, CHR 0x98, CHR 0xBE, CHR 0xE5, CHR 0xBC, CHR 0x8F] @
       '' handoff '' @
       [CHR 0xE6, CHR 0x88, CHR 0x96, CHR 0xE6, CHR 0xB1, CHR 0x87, CHR 0xE6, CHR 0x8A, CHR 0xA5,
       CHR 0xE7, CHR 0x8A, CHR 0xB6, CHR 0xE6, CHR 0x80, CHR 0x81, CHR 0xE3, CHR 0x80, CHR 0x82])
                             else [CHR 0x0A, CHR 0x0A, CHR 0xE6, CHR 0xB3, CHR 0xA8, CHR 0xE6, CHR 0x84, CHR 0x8F, CHR 0xEF,
       CHR 0xBC, CHR 0x9A, CHR 0xE8, CHR 0xBF, CHR 0x99, CHR 0xE5, CHR 0x8F, CHR 0xAA, CHR 0xE6,
       CHR 0x9B, CHR 0xB4, CHR 0xE6, CHR 0x96, CHR 0xB0, CHR 0xE8, CHR 0xAE, CHR 0xA1, CHR 0xE5,
       CHR 0x88, CHR 0x92, CHR 0xE6, CHR 0x9D, CHR 0xBF, CHR 0xEF, CHR 0xBC, CHR 0x8C, CHR 0xE4,
       CHR 0xB8, CHR 0x8D, CHR 0xE4, CHR 0xBC, CHR 0x9A, CHR 0xE7, CHR 0x9B, CHR 0xB4, CHR 0xE6,
       CHR 0x8E, CHR 0xA5, CHR 0xE5, CHR 0xAE, CHR 0x8C, CHR 0xE6, CHR 0x88, CHR 0x90, CHR 0xE4,
       CHR 0xBB, CHR 0xBB, CHR 0xE5, CHR 0x8A, CHR 0xA1, CHR 0xE3, CHR 0x80, CHR 0x82, CHR 0xE6,
       CHR 0x9B, CHR 0xB4, CHR 0xE6, CHR 0x96, CHR 0xB0, CHR 0xE8, CHR 0xAE, CHR 0xA1, CHR 0xE5,
       CHR 0x88, CHR 0x92, CHR 0xE5, CHR 0x90, CHR 0x8E, CHR 0xE4, CHR 0xBB, CHR 0x8D, CHR 0xE9,
       CHR 0x9C, CHR 0x80, CHR 0xE8, CHR 0xA6, CHR 0x81, CHR 0xE8, CHR 0xB0, CHR 0x83, CHR 0xE7,
       CHR 0x94, CHR 0xA8, CHR 0xE5, CHR 0xAE, CHR 0x9E, CHR 0xE9, CHR 0x99, CHR 0x85, CHR 0xE5,
       CHR 0xB7, CHR 0xA5, CHR 0xE5, CHR 0x85, CHR 0xB7, CHR 0xE6, CHR 0x88, CHR 0x96, CHR 0xE7,
       CHR 0x9B, CHR 0xB4, CHR 0xE6, CHR 0x8E, CHR 0xA5, CHR 0xE4, CHR 0xBA, CHR 0xA7, CHR 0xE5,
       CHR 0x87, CHR 0xBA, CHR 0xE7, CHR 0xBB, CHR 0x93, CHR 0xE6, CHR 0x9E, CHR 0x9C, CHR 0xE3,
       CHR 0x80, CHR 0x82])),
                          state(session_id \<mapsto> next))))"

end
