(* ===== verification/Tool_Phase.thy ===== *)
theory Tool_Phase
  imports Tools Plan
begin

text \<open>
  The half of an iteration of the agent loop that runs tools (\<^verbatim>\<open>AgentLoop::execute_single_tool\<close>, the
  rate limit, and the part of \<^verbatim>\<open>AgentLoop::run\<close> after the model has answered with tool calls). What
  happens outside is read from \<open>outside\<close>, which says what each interaction gives: the interactions are
  numbered by the field \<open>tick\<close>, so that an answer may differ from one to the next.
\<close>

type_synonym call = "string \<times> string \<times> json"

datatype PolicyDecision = Allow | Deny string | Warn string

section \<open>The state\<close>

record tool_output =
  out_content :: string
  out_is_error :: bool
  out_image :: "ImageData option"

text \<open>A call may return, fail, exceed its time limit, or be dropped after a cancellation.\<close>

datatype call_outcome = Returned tool_output | CallFailed string | TimedOut | Dropped

record outside =
  cancelled :: "nat \<Rightarrow> bool"
  instant_ms :: "nat \<Rightarrow> nat"
  fresh_uuid :: "nat \<Rightarrow> string"
  fresh_simple_uuid :: "nat \<Rightarrow> string"
  approves :: "nat \<Rightarrow> bool"
  hook_denies :: "nat \<Rightarrow> string \<Rightarrow> string \<Rightarrow> json \<Rightarrow> string option"
  call_tool :: "nat \<Rightarrow> string \<Rightarrow> json \<Rightarrow> call_outcome"

record context_usage =
  cu_estimated_input_tokens :: u32
  cu_total_input_budget :: u32
  cu_trigger_threshold :: u32
  cu_cumulative_input_tokens :: u32
  cu_cumulative_output_tokens :: u32
  cu_rolling_summary_version :: u32
  cu_auto_compact_threshold :: u32

datatype AgentEvent =
    TextSegmentStart nat
  | TextDelta string
  | ContextUsage context_usage
  | Notice string "string option" "json option"
  | ErrorEvent string "string option"
  | ToolStart string string json
  | ToolEnd string string string bool
  | PermissionRequest string string json string

record audit_entry =
  au_tool :: string
  au_action :: string
  au_input :: string
  au_result :: string
  au_is_error :: bool

text \<open>\<open>started\<close> are the calls handed to a tool, with its time limit.\<close>

record run_state =
  tick :: nat
  rate :: "string \<rightharpoonup> nat list"
  vision_store :: VisionStore
  events :: "AgentEvent list"
  started :: "(string \<times> string \<times> json \<times> nat) list"
  audits :: "audit_entry list"

record AgentLoop =
  registry :: ToolRegistry
  check_tool_call :: "string \<Rightarrow> json \<Rightarrow> PolicyDecision"
  redact_text :: "string \<Rightarrow> string"
  tool_rate_limit_per_minute :: nat
  system_prompt :: string
  al_max_tokens :: u32
  al_context_window :: u32
  has_db :: bool
  has_confirmations :: bool
  confirm_shell :: bool
  confirm_file_write :: bool
  al_platform :: platform

definition js_of :: "AgentLoop \<Rightarrow> json \<Rightarrow> string" where
  "js_of a = json_string (al_platform a)"

definition next_tick :: "run_state \<Rightarrow> run_state" where
  "next_tick st = st\<lparr>tick := Suc (tick st)\<rparr>"

definition emit :: "AgentEvent \<Rightarrow> run_state \<Rightarrow> run_state" where
  "emit e st = st\<lparr>events := events st @ [e]\<rparr>"

section \<open>A single call\<close>

definition check_tool_rate_limit ::
  "AgentLoop \<Rightarrow> outside \<Rightarrow> string \<Rightarrow> run_state \<Rightarrow> string option \<times> run_state" where
  "check_tool_rate_limit a out session_id st =
     (let limit = tool_rate_limit_per_minute a
      in if limit = 0 then (None, st)
         else let now = instant_ms out (tick st); st = next_tick st;
                  entries = (case rate st session_id of None \<Rightarrow> [] | Some ts \<Rightarrow> ts);
                  entries = filter (\<lambda>t. (now - t) div 1000 < 60) entries
              in if limit \<le> length entries then
                   (Some (''Tool rate limit exceeded for session '' @ sq session_id @ '' ('' @ nat_digits limit @ '' calls/min)''),
                    st\<lparr>rate := (rate st)(session_id \<mapsto> entries)\<rparr>)
                 else (None, st\<lparr>rate := (rate st)(session_id \<mapsto> entries @ [now])\<rparr>))"

text \<open>A call that is refused: the event and the result that say why.\<close>

definition refuse :: "string \<Rightarrow> string \<Rightarrow> string \<Rightarrow> string \<Rightarrow> run_state \<Rightarrow> ContentBlock list \<times> run_state" where
  "refuse i name event_text content st =
     ([ToolResult i content True], emit (ToolEnd i name event_text True) st)"

definition user_disabled :: "AgentLoop \<Rightarrow> string \<Rightarrow> bool" where
  "user_disabled a name \<longleftrightarrow>
     (if name \<in> set [''shell'', ''bash'', ''powershell'', ''powershell_query''] then \<not> confirm_shell a
      else if name \<in> set [''file_write'', ''file_edit''] then \<not> confirm_file_write a else False)"

definition wants_confirmation :: "AgentLoop \<Rightarrow> string \<Rightarrow> json \<Rightarrow> bool" where
  "wants_confirmation a name input \<longleftrightarrow>
     (case get_tool (registry a) name of None \<Rightarrow> False | Some t \<Rightarrow> needs_confirmation t input)"

text \<open>Why a call the policy warns about is not allowed, when the user has to be asked.\<close>

definition ask_user ::
  "AgentLoop \<Rightarrow> outside \<Rightarrow> string \<Rightarrow> json \<Rightarrow> string \<Rightarrow> run_state \<Rightarrow> string option \<times> run_state" where
  "ask_user a out name input msg st =
     (if wants_confirmation a name input \<and> \<not> user_disabled a name \<and> has_confirmations a then
        let st = emit (PermissionRequest (fresh_uuid out (tick st)) name input msg) (next_tick st);
            approved = approves out (tick st); st = next_tick st
        in if approved then (None, st)
           else (Some (if cancelled out (tick st) then [CHR 0xE5, CHR 0xB7, CHR 0xB2, CHR 0xE8, CHR 0xA2, CHR 0xAB, CHR 0xE7, CHR 0x94, CHR 0xA8,
       CHR 0xE6, CHR 0x88, CHR 0xB7, CHR 0xE5, CHR 0x8F, CHR 0x96, CHR 0xE6, CHR 0xB6, CHR 0x88] else ''User denied this operation''), next_tick st)
      else (None, st))"

text \<open>The tool itself; its text is cleaned, its errors are explained.\<close>

definition time_limit :: "Tool \<Rightarrow> json \<Rightarrow> nat" where
  "time_limit t input = (if manages_own_timeout t then TOOL_TIMEOUT_MAX_SECS else tool_timeout_for input)"

definition failed_output :: "string \<Rightarrow> tool_output" where
  "failed_output msg = \<lparr>out_content = msg, out_is_error = True, out_image = None\<rparr>"

fun output_of :: "AgentLoop \<Rightarrow> string \<Rightarrow> nat \<Rightarrow> call_outcome \<Rightarrow> tool_output \<times> string option" where
  "output_of a name limit (Returned r) = (r\<lparr>out_content := sanitize_tool_text (out_content r)\<rparr>, None)"
| "output_of a name limit (CallFailed e) =
     (failed_output (friendly_tool_error name e), maybe_schema_correction_envelope (js_of a) (registry a) name e)"
| "output_of a name limit TimedOut =
     (failed_output (([CHR 0xE5, CHR 0xB7, CHR 0xA5, CHR 0xE5, CHR 0x85, CHR 0xB7] @ '' '' @ [CHR 0x27]) @ name @ ([CHR 0x27] @
       '' '' @
       [CHR 0xE6, CHR 0x89, CHR 0xA7, CHR 0xE8, CHR 0xA1, CHR 0x8C, CHR 0xE8, CHR 0xB6, CHR 0x85,
       CHR 0xE6, CHR 0x97, CHR 0xB6, CHR 0xEF, CHR 0xBC, CHR 0x88]) @ nat_digits limit @
        [CHR 0xE7, CHR 0xA7, CHR 0x92, CHR 0xEF, CHR 0xBC, CHR 0x89, CHR 0xE3, CHR 0x80, CHR 0x82,
       CHR 0xE5, CHR 0x8F, CHR 0xAF, CHR 0xE8, CHR 0x83, CHR 0xBD, CHR 0xE5, CHR 0x8E, CHR 0x9F,
       CHR 0xE5, CHR 0x9B, CHR 0xA0, CHR 0xEF, CHR 0xBC, CHR 0x9A, CHR 0xE5, CHR 0x91, CHR 0xBD,
       CHR 0xE4, CHR 0xBB, CHR 0xA4, CHR 0xE9, CHR 0x98, CHR 0xBB, CHR 0xE5, CHR 0xA1, CHR 0x9E,
       CHR 0xE3, CHR 0x80, CHR 0x81, CHR 0xE7, CHR 0xBD, CHR 0x91, CHR 0xE7, CHR 0xBB, CHR 0x9C,
       CHR 0xE8, CHR 0xB6, CHR 0x85, CHR 0xE6, CHR 0x97, CHR 0xB6, CHR 0xE6, CHR 0x88, CHR 0x96,
       CHR 0xE8, CHR 0xBF, CHR 0x9B, CHR 0xE7, CHR 0xA8, CHR 0x8B, CHR 0xE6, CHR 0x8C, CHR 0x82,
       CHR 0xE8, CHR 0xB5, CHR 0xB7, CHR 0xE3, CHR 0x80, CHR 0x82, CHR 0xE8, CHR 0xAF, CHR 0xB7,
       CHR 0xE5, CHR 0xB0, CHR 0x9D, CHR 0xE8, CHR 0xAF, CHR 0x95, CHR 0xE7, CHR 0xAE, CHR 0x80,
       CHR 0xE5, CHR 0x8C, CHR 0x96, CHR 0xE5, CHR 0x91, CHR 0xBD, CHR 0xE4, CHR 0xBB, CHR 0xA4,
       CHR 0xE6, CHR 0x88, CHR 0x96, CHR 0xE5, CHR 0x88, CHR 0x86, CHR 0xE6, CHR 0xAD, CHR 0xA5,
       CHR 0xE6, CHR 0x89, CHR 0xA7, CHR 0xE8, CHR 0xA1, CHR 0x8C, CHR 0xE3, CHR 0x80, CHR 0x82]), None)"
| "output_of a name limit Dropped = (failed_output [CHR 0xE5, CHR 0xB7, CHR 0xB2, CHR 0xE8, CHR 0xA2, CHR 0xAB, CHR 0xE7, CHR 0x94, CHR 0xA8,
       CHR 0xE6, CHR 0x88, CHR 0xB7, CHR 0xE5, CHR 0x8F, CHR 0x96, CHR 0xE6, CHR 0xB6, CHR 0x88], None)"

definition unknown_tool :: "AgentLoop \<Rightarrow> string \<Rightarrow> tool_output" where
  "unknown_tool a name =
     failed_output (''Tool '' @ sq name @ '' does not exist. Available tools: '' @
       join '', '' (map name_of (registry a)) @ ''.'')"

text \<open>\<open>None\<close>: the run was cancelled before the tool started.\<close>

definition run_tool ::
  "AgentLoop \<Rightarrow> outside \<Rightarrow> string \<Rightarrow> string \<Rightarrow> json \<Rightarrow> run_state \<Rightarrow>
     (tool_output \<times> string option) option \<times> run_state" where
  "run_tool a out i name input st =
     (let denied = hook_denies out (tick st) i name input; st = next_tick st
      in case denied of
           Some reason \<Rightarrow> (Some (failed_output reason, None), st)
         | None \<Rightarrow>
             (case get_tool (registry a) name of
                None \<Rightarrow> (Some (unknown_tool a name, None), st)
              | Some t \<Rightarrow>
                  if cancelled out (tick st) then (None, next_tick st)
                  else let st = next_tick st; limit = time_limit t input;
                           outcome = call_tool out (tick st) name input
                       in (Some (output_of a name limit outcome),
                           next_tick (st\<lparr>started := started st @ [(i, name, input, limit)]\<rparr>))))"

definition result_limit :: "AgentLoop \<Rightarrow> nat" where
  "result_limit a =
     dynamic_result_limit (compute_total_input_budget (al_context_window a) (al_max_tokens a) -
       estimate_request_overhead_tokens (js_of a) (Some (system_prompt a)) (to_tool_defs (registry a) MinimalDef))"

definition audit_of :: "AgentLoop \<Rightarrow> string \<Rightarrow> json \<Rightarrow> string \<Rightarrow> string \<Rightarrow> bool \<Rightarrow> audit_entry" where
  "audit_of a name input trace_id content is_error = \<lparr>
     au_tool = name,
     au_action = audit_action_label name input @ '' [trace:'' @ trace_id @ '']'',
     au_input = truncate_str (redact_text a (summarize_tool_input (js_of a) name input)) 300,
     au_result = truncate_str (redact_text a content) 200,
     au_is_error = is_error \<rparr>"

definition decorated :: "AgentLoop \<Rightarrow> string \<Rightarrow> json \<Rightarrow> tool_output \<Rightarrow> string option \<Rightarrow> string" where
  "decorated a name input r envelope =
     (let content = decorate_tool_failure_for_agent (js_of a) name input (out_content r) (out_is_error r)
      in case envelope of
           None \<Rightarrow> content
         | Some e \<Rightarrow> content @ (if content = [] then [] else [CHR 0x0A, CHR 0x0A]) @ e)"

definition image_note :: "VisionArtifactSummary \<Rightarrow> string" where
  "image_note s =
     ([CHR 0x0A, CHR 0x0A] @ ''[vision_artifact] id='') @ vs_id s @ ('' label='' @ [CHR 0x22]) @ vs_label s @ ([CHR 0x22] @ '' media_type='') @ vs_media_type s @
     ([CHR 0x0A] @
       ''Use vision_context to list/select reusable images for a later reasoning step.'')"

text \<open>The blocks of a finished call: its result, and its image when there is one.\<close>

definition finish_call ::
  "AgentLoop \<Rightarrow> outside \<Rightarrow> string \<Rightarrow> string \<Rightarrow> string \<Rightarrow> string \<Rightarrow> json \<Rightarrow> tool_output \<Rightarrow> string option \<Rightarrow>
     run_state \<Rightarrow> ContentBlock list \<times> run_state" where
  "finish_call a out session_id trace_id i name input r envelope st =
     (let content = decorated a name input r envelope;
          st = emit (ToolEnd i name (''[trace_id:'' @ trace_id @ ''] '' @ content) (out_is_error r)) st;
          st = (if has_db a then st\<lparr>audits := audits st @ [audit_of a name input trace_id content (out_is_error r)]\<rparr> else st);
          guarded = guard_tool_result_content content (result_limit a)
      in case out_image r of
           None \<Rightarrow> ([ToolResult i guarded (out_is_error r)], st)
         | Some img \<Rightarrow>
             let (artifact, store) = store_tool_image session_id name None img (fresh_simple_uuid out (tick st)) (vision_store st);
                 st = next_tick (st\<lparr>vision_store := store\<rparr>)
             in ([ToolResult i (guarded @ image_note artifact) (out_is_error r),
                  Image \<lparr>is_source_type = ''base64'', is_media_type = img_media_type img, is_data = img_base64 img\<rparr>], st))"

definition run_allowed ::
  "AgentLoop \<Rightarrow> outside \<Rightarrow> string \<Rightarrow> string \<Rightarrow> call \<Rightarrow> run_state \<Rightarrow> ContentBlock list \<times> run_state" where
  "run_allowed a out session_id trace_id = (\<lambda>(i, name, input) st.
     let input_with_trace = (if json_is_object input then json_set input ''_trace_id'' (JStr trace_id) else input);
         st = emit (ToolStart i name input_with_trace) st
     in case run_tool a out i name input st of
          (None, st) \<Rightarrow> refuse i name [CHR 0xE5, CHR 0xB7, CHR 0xB2, CHR 0xE5, CHR 0x8F, CHR 0x96, CHR 0xE6, CHR 0xB6, CHR 0x88] [CHR 0xE5, CHR 0xB7, CHR 0xB2, CHR 0xE5, CHR 0x8F, CHR 0x96, CHR 0xE6, CHR 0xB6, CHR 0x88] st
        | (Some (r, envelope), st) \<Rightarrow> finish_call a out session_id trace_id i name input r envelope st)"

definition execute_single_tool ::
  "AgentLoop \<Rightarrow> outside \<Rightarrow> string \<Rightarrow> call \<Rightarrow> run_state \<Rightarrow> ContentBlock list \<times> run_state" where
  "execute_single_tool a out session_id = (\<lambda>(i, name, input) st.
     let trace_id = fresh_simple_uuid out (tick st); st = next_tick st
     in case check_tool_rate_limit a out session_id st of
          (Some reason, st) \<Rightarrow> refuse i name reason reason st
        | (None, st) \<Rightarrow>
            (case check_tool_call a name input of
               Deny reason \<Rightarrow> refuse i name (''Denied by policy: '' @ reason) (''Error: '' @ reason) st
             | Warn msg \<Rightarrow>
                 (case ask_user a out name input msg st of
                    (Some reason, st) \<Rightarrow> refuse i name reason reason st
                  | (None, st) \<Rightarrow> run_allowed a out session_id trace_id (i, name, input) st)
             | Allow \<Rightarrow> run_allowed a out session_id trace_id (i, name, input) st))"

section \<open>All calls of a turn\<close>

fun run_each ::
  "AgentLoop \<Rightarrow> outside \<Rightarrow> string \<Rightarrow> call list \<Rightarrow> run_state \<Rightarrow> ContentBlock list \<times> run_state" where
  "run_each a out session_id [] st = ([], st)"
| "run_each a out session_id (c # cs) st =
     (let (bs, st) = execute_single_tool a out session_id c st;
          (bs', st) = run_each a out session_id cs st
      in (bs @ bs', st))"

definition READ_TOOL_MAX_CONCURRENCY :: nat where "READ_TOOL_MAX_CONCURRENCY = 4"

text \<open>
  Calls that only read run in batches of four at a time. The calls of a batch run concurrently and
  their results are taken in order; the model runs them in order.
\<close>

function run_reads ::
  "AgentLoop \<Rightarrow> outside \<Rightarrow> string \<Rightarrow> call list \<Rightarrow> run_state \<Rightarrow> ContentBlock list \<times> run_state" where
  "run_reads a out session_id [] st = ([], st)"
| "run_reads a out session_id (c # cs) st =
     (if cancelled out (tick st) then ([], next_tick st)
      else let (bs, st) = run_each a out session_id (take READ_TOOL_MAX_CONCURRENCY (c # cs)) (next_tick st);
               (bs', st) = run_reads a out session_id (drop READ_TOOL_MAX_CONCURRENCY (c # cs)) st
           in (bs @ bs', st))"
  by pat_completeness auto
termination
  by (relation "measure (\<lambda>(a, out, s, cs, st). length cs)") (auto simp: READ_TOOL_MAX_CONCURRENCY_def)

declare run_reads.simps [simp del]

fun run_writes ::
  "AgentLoop \<Rightarrow> outside \<Rightarrow> string \<Rightarrow> call list \<Rightarrow> run_state \<Rightarrow> ContentBlock list \<times> run_state" where
  "run_writes a out session_id [] st = ([], st)"
| "run_writes a out session_id (c # cs) st =
     (if cancelled out (tick st) then ([], next_tick st)
      else let (bs, st) = execute_single_tool a out session_id c (next_tick st);
               (bs', st) = run_writes a out session_id cs st
           in (bs @ bs', st))"

text \<open>The checks of the detectors: the calls that are blocked and the warnings, in order.\<close>

fun detect_calls ::
  "platform \<Rightarrow> call list \<Rightarrow> call list \<Rightarrow> LoopDetectorState \<Rightarrow> (string list \<times> string list) \<times> LoopDetectorState" where
  "detect_calls p batch [] d = (([], []), d)"
| "detect_calls p batch ((i, name, input) # cs) d =
     (let (r, d) = detect p name input batch d;
          ((blocked, warns), d) = detect_calls p batch cs d
      in (((if level r = Critical then i # blocked else blocked),
           (if level r = LevelOk then warns else loop_message r # warns)), d))"

definition blocked_text :: "string list \<Rightarrow> string \<Rightarrow> string" where
  "blocked_text warning_messages name =
     (''['' @
       [CHR 0xE5, CHR 0xBE, CHR 0xAA, CHR 0xE7, CHR 0x8E, CHR 0xAF, CHR 0xE6, CHR 0xA3, CHR 0x80,
       CHR 0xE6, CHR 0xB5, CHR 0x8B] @
       ''] '') @
     (case find (\<lambda>m. contains m name) warning_messages of
        Some m \<Rightarrow> m
      | None \<Rightarrow> ([CHR 0xE5, CHR 0xB7, CHR 0xA5, CHR 0xE5, CHR 0x85, CHR 0xB7] @ '' '' @ [CHR 0x27]) @ name @ ([CHR 0x27] @
       '' '' @
       [CHR 0xE8, CHR 0xA2, CHR 0xAB, CHR 0xE5, CHR 0xBE, CHR 0xAA, CHR 0xE7, CHR 0x8E, CHR 0xAF,
       CHR 0xE6, CHR 0xA3, CHR 0x80, CHR 0xE6, CHR 0xB5, CHR 0x8B, CHR 0xE5, CHR 0x99, CHR 0xA8,
       CHR 0xE9, CHR 0x98, CHR 0xBB, CHR 0xE6, CHR 0x96, CHR 0xAD, CHR 0xE3, CHR 0x80, CHR 0x82]))"

definition is_read_call :: "AgentLoop \<Rightarrow> call \<Rightarrow> bool" where
  "is_read_call a = (\<lambda>(i, name, input).
     case get_tool (registry a) name of None \<Rightarrow> False | Some t \<Rightarrow> is_read_only t)"

definition run_calls ::
  "AgentLoop \<Rightarrow> outside \<Rightarrow> string \<Rightarrow> call list \<Rightarrow> string list \<Rightarrow> string list \<Rightarrow> run_state \<Rightarrow>
     ContentBlock list \<times> run_state" where
  "run_calls a out session_id tool_calls blocked_ids warning_messages st =
     (let active = filter (\<lambda>(i, name, input). i \<notin> set blocked_ids) tool_calls;
          blocked = filter (\<lambda>(i, name, input). i \<in> set blocked_ids) tool_calls;
          blocked_results = map (\<lambda>(i, name, input). ToolResult i (blocked_text warning_messages name) True) blocked;
          st = fold (\<lambda>(i, name, input). emit (ToolEnd i name (blocked_text warning_messages name) True)) blocked st;
          (read_results, st) = run_reads a out session_id (filter (is_read_call a) active) st;
          (write_results, st) = run_writes a out session_id (filter (\<lambda>c. \<not> is_read_call a c) active) st
      in (ensure_tool_results_complete tool_calls (blocked_results @ read_results @ write_results)
            ''Tool execution was cancelled or interrupted before completion.'', st))"

section \<open>The iteration\<close>

record loop_state =
  log :: "LlmMessage list"
  new_messages :: "LlmMessage list"
  persisted :: "LlmMessage list"
  loop_detector :: LoopDetectorState
  tool_minimals :: "string \<rightharpoonup> string"
  tool_names_by_id :: "string \<rightharpoonup> string"
  effects_of :: run_state

definition call_with :: "call list \<Rightarrow> string \<Rightarrow> (string \<times> json) option" where
  "call_with tool_calls k = map_option snd (find (\<lambda>(i, name, input). i = k) tool_calls)"

text \<open>Recording one result: the detectors and the receipts.\<close>

fun note_block_result :: "platform \<Rightarrow> call list \<Rightarrow> ContentBlock \<Rightarrow> loop_state \<Rightarrow> loop_state" where
  "note_block_result p tool_calls (ToolResult k content is_error) s =
     (case call_with tool_calls k of
        Some (name, input) \<Rightarrow>
          if is_ephemeral_tool_call name input then s
          else s\<lparr>loop_detector := note_result p name input content (loop_detector s),
                 tool_minimals := (tool_minimals s)(k \<mapsto> render_receipt name input content is_error None),
                 tool_names_by_id := (tool_names_by_id s)(k \<mapsto> name)\<rparr>
      | None \<Rightarrow>
          s\<lparr>tool_minimals := (tool_minimals s)(k \<mapsto> render_receipt ''unknown'' JNull content is_error None)\<rparr>)"
| "note_block_result p tool_calls _ s = s"

definition push_message :: "LlmMessage \<Rightarrow> loop_state \<Rightarrow> loop_state" where
  "push_message m s =
     s\<lparr>log := log s @ [m], new_messages := new_messages s @ [m],
       persisted := persisted s @ strip_ephemeral_tool_exchanges [m]\<rparr>"

definition assistant_message :: "string \<Rightarrow> call list \<Rightarrow> LlmMessage" where
  "assistant_message text_buf tool_calls = \<lparr>lm_role = ''assistant'', lm_content = Blocks
     ((if text_buf = [] then [] else [TextBlock text_buf]) @
      map (\<lambda>(i, name, input). ToolUse i name input) tool_calls)\<rparr>"

definition warning_reminder :: "call list \<Rightarrow> string list \<Rightarrow> string list \<Rightarrow> string option" where
  "warning_reminder tool_calls blocked_ids warning_messages =
     (if blocked_ids \<noteq> [] \<and> length blocked_ids = length tool_calls then
        Some ((''['' @
       [CHR 0xE7, CHR 0xB3, CHR 0xBB, CHR 0xE7, CHR 0xBB, CHR 0x9F, CHR 0xE6, CHR 0x8F, CHR 0x90,
       CHR 0xE9, CHR 0x86, CHR 0x92] @
       '']'' @
       [CHR 0x0A]) @ join [CHR 0x0A] warning_messages @
          [CHR 0x0A, CHR 0xE6, CHR 0x9C, CHR 0xAC, CHR 0xE8, CHR 0xBD, CHR 0xAE, CHR 0xE6, CHR 0x89,
       CHR 0x80, CHR 0xE6, CHR 0x9C, CHR 0x89, CHR 0xE5, CHR 0xB7, CHR 0xA5, CHR 0xE5, CHR 0x85,
       CHR 0xB7, CHR 0xE8, CHR 0xB0, CHR 0x83, CHR 0xE7, CHR 0x94, CHR 0xA8, CHR 0xE9, CHR 0x83,
       CHR 0xBD, CHR 0xE5, CHR 0xB7, CHR 0xB2, CHR 0xE8, CHR 0xA2, CHR 0xAB, CHR 0xE5, CHR 0xBE,
       CHR 0xAA, CHR 0xE7, CHR 0x8E, CHR 0xAF, CHR 0xE6, CHR 0xA3, CHR 0x80, CHR 0xE6, CHR 0xB5,
       CHR 0x8B, CHR 0xE5, CHR 0x99, CHR 0xA8, CHR 0xE9, CHR 0x98, CHR 0xBB, CHR 0xE6, CHR 0x96,
       CHR 0xAD, CHR 0xE3, CHR 0x80, CHR 0x82, CHR 0xE7, CHR 0x8E, CHR 0xB0, CHR 0xE5, CHR 0x9C,
       CHR 0xA8, CHR 0xE5, CHR 0xBF, CHR 0x85, CHR 0xE9, CHR 0xA1, CHR 0xBB, CHR 0xE5, CHR 0x81,
       CHR 0x9C, CHR 0xE6, CHR 0xAD, CHR 0xA2, CHR 0xE7, CHR 0xBB, CHR 0xA7, CHR 0xE7, CHR 0xBB,
       CHR 0xAD, CHR 0xE6, CHR 0xB2, CHR 0xBF, CHR 0xE7, CHR 0x94, CHR 0xA8, CHR 0xE5, CHR 0x88,
       CHR 0x9A, CHR 0xE6, CHR 0x89, CHR 0x8D, CHR 0xE7, CHR 0x9A, CHR 0x84, CHR 0xE5, CHR 0xB7,
       CHR 0xA5, CHR 0xE5, CHR 0x85, CHR 0xB7, CHR 0xE8, CHR 0xB7, CHR 0xAF, CHR 0xE5, CHR 0xBE,
       CHR 0x84, CHR 0xEF, CHR 0xBC, CHR 0x8C, CHR 0xE7, CHR 0x9B, CHR 0xB4, CHR 0xE6, CHR 0x8E,
       CHR 0xA5, CHR 0xE5, CHR 0x9F, CHR 0xBA, CHR 0xE4, CHR 0xBA, CHR 0x8E, CHR 0xE5, CHR 0xB7,
       CHR 0xB2, CHR 0xE6, CHR 0x9C, CHR 0x89, CHR 0xE8, CHR 0xAF, CHR 0x81, CHR 0xE6, CHR 0x8D,
       CHR 0xAE, CHR 0xE7, CHR 0xBB, CHR 0x99, CHR 0xE5, CHR 0x87, CHR 0xBA, CHR 0xE5, CHR 0xBD,
       CHR 0x93, CHR 0xE5, CHR 0x89, CHR 0x8D, CHR 0xE6, CHR 0x9C, CHR 0x80, CHR 0xE4, CHR 0xBD,
       CHR 0xB3, CHR 0xE7, CHR 0xAD, CHR 0x94, CHR 0xE5, CHR 0xA4, CHR 0x8D, CHR 0xEF, CHR 0xBC,
       CHR 0x9B, CHR 0xE5, CHR 0xA6, CHR 0x82, CHR 0xE6, CHR 0x9E, CHR 0x9C, CHR 0xE4, CHR 0xBF,
       CHR 0xA1, CHR 0xE6, CHR 0x81, CHR 0xAF, CHR 0xE4, CHR 0xBB, CHR 0x8D, CHR 0xE6, CHR 0x9C,
       CHR 0x89, CHR 0xE7, CHR 0xBC, CHR 0xBA, CHR 0xE5, CHR 0x8F, CHR 0xA3, CHR 0xEF, CHR 0xBC,
       CHR 0x8C, CHR 0xE8, CHR 0xAF, CHR 0xB7, CHR 0xE6, CHR 0x98, CHR 0x8E, CHR 0xE7, CHR 0xA1,
       CHR 0xAE, CHR 0xE5, CHR 0x88, CHR 0x97, CHR 0xE5, CHR 0x87, CHR 0xBA, CHR 0xE4, CHR 0xB8,
       CHR 0x8D, CHR 0xE7, CHR 0xA1, CHR 0xAE, CHR 0xE5, CHR 0xAE, CHR 0x9A, CHR 0xE9, CHR 0xA1,
       CHR 0xB9, CHR 0xE3, CHR 0x80, CHR 0x81, CHR 0xE7, CHR 0x8E, CHR 0xB0, CHR 0xE6, CHR 0x9C,
       CHR 0x89, CHR 0xE5, CHR 0x88, CHR 0xA4, CHR 0xE6, CHR 0x96, CHR 0xAD, CHR 0xE4, CHR 0xBE,
       CHR 0x9D, CHR 0xE6, CHR 0x8D, CHR 0xAE, CHR 0xE4, CHR 0xB8, CHR 0x8E, CHR 0xE5, CHR 0x90,
       CHR 0x8E, CHR 0xE7, CHR 0xBB, CHR 0xAD, CHR 0xE5, CHR 0xBB, CHR 0xBA, CHR 0xE8, CHR 0xAE,
       CHR 0xAE, CHR 0xEF, CHR 0xBC, CHR 0x8C, CHR 0xE4, CHR 0xB8, CHR 0x8D, CHR 0xE8, CHR 0xA6,
       CHR 0x81, CHR 0xE7, CHR 0xBB, CHR 0xA7, CHR 0xE7, CHR 0xBB, CHR 0xAD, CHR 0xE8, CHR 0xB0,
       CHR 0x83, CHR 0xE7, CHR 0x94, CHR 0xA8, CHR 0xE5, CHR 0xB7, CHR 0xA5, CHR 0xE5, CHR 0x85,
       CHR 0xB7, CHR 0xE3, CHR 0x80, CHR 0x82])
      else if warning_messages \<noteq> [] \<and> blocked_ids = [] then
        Some ((''['' @
       [CHR 0xE7, CHR 0xB3, CHR 0xBB, CHR 0xE7, CHR 0xBB, CHR 0x9F, CHR 0xE6, CHR 0x8F, CHR 0x90,
       CHR 0xE9, CHR 0x86, CHR 0x92] @
       '']'' @
       [CHR 0x0A]) @ join [CHR 0x0A] warning_messages @
          [CHR 0x0A, CHR 0xE8, CHR 0xAF, CHR 0xB7, CHR 0xE5, CHR 0x85, CHR 0x88, CHR 0xE5, CHR 0x9F,
       CHR 0xBA, CHR 0xE4, CHR 0xBA, CHR 0x8E, CHR 0xE7, CHR 0x8E, CHR 0xB0, CHR 0xE6, CHR 0x9C,
       CHR 0x89, CHR 0xE7, CHR 0xBB, CHR 0x93, CHR 0xE6, CHR 0x9E, CHR 0x9C, CHR 0xE6, CHR 0x94,
       CHR 0xB6, CHR 0xE6, CHR 0x9D, CHR 0x9F, CHR 0xE3, CHR 0x80, CHR 0x81, CHR 0xE6, CHR 0x80,
       CHR 0xBB, CHR 0xE7, CHR 0xBB, CHR 0x93, CHR 0xE6, CHR 0x88, CHR 0x96, CHR 0xE5, CHR 0x88,
       CHR 0x87, CHR 0xE6, CHR 0x8D, CHR 0xA2, CHR 0xE6, CHR 0x96, CHR 0xB9, CHR 0xE6, CHR 0xB3,
       CHR 0x95, CHR 0xEF, CHR 0xBC, CHR 0x8C, CHR 0xE4, CHR 0xB8, CHR 0x8D, CHR 0xE8, CHR 0xA6,
       CHR 0x81, CHR 0xE6, CHR 0x9C, CHR 0xBA, CHR 0xE6, CHR 0xA2, CHR 0xB0, CHR 0xE9, CHR 0x87,
       CHR 0x8D, CHR 0xE5, CHR 0xA4, CHR 0x8D, CHR 0xE5, CHR 0x88, CHR 0x9A, CHR 0xE6, CHR 0x89,
       CHR 0x8D, CHR 0xE7, CHR 0x9A, CHR 0x84, CHR 0xE5, CHR 0xB7, CHR 0xA5, CHR 0xE5, CHR 0x85,
       CHR 0xB7, CHR 0xE8, CHR 0xB7, CHR 0xAF, CHR 0xE5, CHR 0xBE, CHR 0x84, CHR 0xE3, CHR 0x80,
       CHR 0x82])
      else None)"

definition repair_log :: "(json \<Rightarrow> string) \<Rightarrow> LlmMessage list \<Rightarrow> LlmMessage list" where
  "repair_log js messages =
     strip_ephemeral_tool_exchanges
       (sanitize_tool_use_result_pairing (collapse_superseded_tool_failures js messages))"

text \<open>
  What the loop does with an answer that has tool calls; the flag is whether it goes on, which a
  cancellation or the host may forbid.
\<close>

definition tool_turn ::
  "AgentLoop \<Rightarrow> outside \<Rightarrow> string \<Rightarrow> bool \<Rightarrow> string \<Rightarrow> call list \<Rightarrow> loop_state \<Rightarrow> bool \<times> loop_state" where
  "tool_turn a out session_id halted text_buf tool_calls s =
     (let p = al_platform a;
          ((blocked_ids, warning_messages), d) = detect_calls p tool_calls tool_calls (loop_detector s);
          st = effects_of s;
          st = (if blocked_ids \<noteq> [] \<and> length blocked_ids = length tool_calls
                then emit (TextDelta (([CHR 0x0A, CHR 0x0A] @
       ''['' @
       [CHR 0xE7, CHR 0xB3, CHR 0xBB, CHR 0xE7, CHR 0xBB, CHR 0x9F] @
       ''] '') @ join [CHR 0x0A] warning_messages @ [CHR 0x0A])) st else st);
          s = push_message (assistant_message text_buf tool_calls) (s\<lparr>loop_detector := d\<rparr>);
          (results, st) = run_calls a out session_id tool_calls blocked_ids warning_messages st;
          s = fold (note_block_result p tool_calls) results s;
          s = push_message \<lparr>lm_role = ''user'', lm_content = Blocks results\<rparr> s;
          s = s\<lparr>log := repair_log (js_of a) (log s), new_messages := strip_ephemeral_tool_exchanges (new_messages s)\<rparr>;
          is_cancelled = cancelled out (tick st); st = next_tick st
      in if is_cancelled \<or> halted then (False, s\<lparr>effects_of := st\<rparr>)
         else case warning_reminder tool_calls blocked_ids warning_messages of
                None \<Rightarrow> (True, s\<lparr>effects_of := st\<rparr>)
              | Some reminder \<Rightarrow>
                  let m = \<lparr>lm_role = ''user'', lm_content = Text reminder\<rparr>
                  in (True, s\<lparr>effects_of := emit (TextDelta ([CHR 0x0A, CHR 0x0A] @ reminder @ [CHR 0x0A])) st,
                       log := log s @ [m], new_messages := new_messages s @ [m], persisted := persisted s @ [m]\<rparr>))"

section \<open>Answers without tool calls\<close>

definition TODO_REMINDER_MAX :: nat where "TODO_REMINDER_MAX = 2"

definition unfinished_todos :: "PlanState option \<Rightarrow> string \<Rightarrow> string list" where
  "unfinished_todos plan_state session_id =
     (case plan_state of
        None \<Rightarrow> []
      | Some ps \<Rightarrow>
          (case ps session_id of
             None \<Rightarrow> []
           | Some todos \<Rightarrow>
               map (\<lambda>t. ''- ['' @ pi_status t @ ''] '' @ pi_content t)
                 (filter (\<lambda>t. pi_status t = ''in_progress'' \<or> pi_status t = ''pending'') todos)))"

definition todo_reminder :: "string list \<Rightarrow> string" where
  "todo_reminder unfinished =
     ([CHR 0xE2, CHR 0x9A, CHR 0xA0, CHR 0xEF, CHR 0xB8, CHR 0x8F] @
       '' '' @
       [CHR 0xE4, CHR 0xBD, CHR 0xA0, CHR 0xE7, CHR 0x9A, CHR 0x84, CHR 0xE8, CHR 0xAE, CHR 0xA1,
       CHR 0xE5, CHR 0x88, CHR 0x92, CHR 0xE4, CHR 0xB8, CHR 0xAD, CHR 0xE8, CHR 0xBF, CHR 0x98,
       CHR 0xE6, CHR 0x9C, CHR 0x89, CHR 0xE6, CHR 0x9C, CHR 0xAA, CHR 0xE5, CHR 0xAE, CHR 0x8C,
       CHR 0xE6, CHR 0x88, CHR 0x90, CHR 0xE7, CHR 0x9A, CHR 0x84, CHR 0xE6, CHR 0xAD, CHR 0xA5,
       CHR 0xE9, CHR 0xAA, CHR 0xA4, CHR 0xEF, CHR 0xBC, CHR 0x8C, CHR 0xE8, CHR 0xAF, CHR 0xB7,
       CHR 0xE7, CHR 0xBB, CHR 0xA7, CHR 0xE7, CHR 0xBB, CHR 0xAD, CHR 0xE6, CHR 0x89, CHR 0xA7,
       CHR 0xE8, CHR 0xA1, CHR 0x8C, CHR 0xE6, CHR 0x88, CHR 0x96, CHR 0xE5, CHR 0xB0, CHR 0x86,
       CHR 0xE5, CHR 0x85, CHR 0xB6, CHR 0xE6, CHR 0xA0, CHR 0x87, CHR 0xE8, CHR 0xAE, CHR 0xB0,
       CHR 0xE4, CHR 0xB8, CHR 0xBA] @
       '' cancelled'' @
       [CHR 0xEF, CHR 0xBC, CHR 0x9A, CHR 0x0A]) @ join [CHR 0x0A] unfinished @
     ([CHR 0x0A, CHR 0x0A, CHR 0x60] @
       ''plan_todo'' @
       [CHR 0x60] @
       '' '' @
       [CHR 0xE5, CHR 0x8F, CHR 0xAA, CHR 0xE6, CHR 0x9B, CHR 0xB4, CHR 0xE6, CHR 0x96, CHR 0xB0,
       CHR 0xE8, CHR 0xAE, CHR 0xA1, CHR 0xE5, CHR 0x88, CHR 0x92, CHR 0xE6, CHR 0x9D, CHR 0xBF,
       CHR 0xEF, CHR 0xBC, CHR 0x8C, CHR 0xE6, CHR 0x9C, CHR 0xAC, CHR 0xE8, CHR 0xBA, CHR 0xAB,
       CHR 0xE4, CHR 0xB8, CHR 0x8D, CHR 0xE7, CHR 0xAE, CHR 0x97, CHR 0xE5, CHR 0xAE, CHR 0x9E,
       CHR 0xE9, CHR 0x99, CHR 0x85, CHR 0xE8, CHR 0xBF, CHR 0x9B, CHR 0xE5, CHR 0xB1, CHR 0x95,
       CHR 0xE3, CHR 0x80, CHR 0x82, CHR 0xE8, CHR 0xAF, CHR 0xB7, CHR 0xE7, CHR 0xBB, CHR 0xA7,
       CHR 0xE7, CHR 0xBB, CHR 0xAD, CHR 0xE4, CHR 0xBD, CHR 0xBF, CHR 0xE7, CHR 0x94, CHR 0xA8,
       CHR 0xE8, CHR 0x83, CHR 0xBD, CHR 0xE7, CHR 0x9C, CHR 0x9F, CHR 0xE6, CHR 0xAD, CHR 0xA3,
       CHR 0xE6, CHR 0x8E, CHR 0xA8, CHR 0xE8, CHR 0xBF, CHR 0x9B, CHR 0xE4, CHR 0xBB, CHR 0xBB,
       CHR 0xE5, CHR 0x8A, CHR 0xA1, CHR 0xE7, CHR 0x9A, CHR 0x84, CHR 0xE5, CHR 0xB7, CHR 0xA5,
       CHR 0xE5, CHR 0x85, CHR 0xB7, CHR 0xEF, CHR 0xBC, CHR 0x8C, CHR 0xE6, CHR 0x88, CHR 0x96,
       CHR 0xE7, CHR 0x9B, CHR 0xB4, CHR 0xE6, CHR 0x8E, CHR 0xA5, CHR 0xE4, CHR 0xBA, CHR 0xA7,
       CHR 0xE5, CHR 0x87, CHR 0xBA, CHR 0xE5, CHR 0x8F, CHR 0xAF, CHR 0xE4, CHR 0xBA, CHR 0xA4,
       CHR 0xE4, CHR 0xBB, CHR 0x98, CHR 0xE7, CHR 0xBB, CHR 0x93, CHR 0xE6, CHR 0x9E, CHR 0x9C,
       CHR 0xEF, CHR 0xBC, CHR 0x9B, CHR 0xE5, CHR 0xA6, CHR 0x82, CHR 0xE6, CHR 0x9E, CHR 0x9C,
       CHR 0xE8, CHR 0xBF, CHR 0x99, CHR 0xE4, CHR 0xBA, CHR 0x9B, CHR 0xE6, CHR 0xAD, CHR 0xA5,
       CHR 0xE9, CHR 0xAA, CHR 0xA4, CHR 0xE6, CHR 0x97, CHR 0xA0, CHR 0xE6, CHR 0xB3, CHR 0x95,
       CHR 0xE5, CHR 0xAE, CHR 0x8C, CHR 0xE6, CHR 0x88, CHR 0x90, CHR 0xEF, CHR 0xBC, CHR 0x8C,
       CHR 0xE5, CHR 0x86, CHR 0x8D, CHR 0xE7, CHR 0x94, CHR 0xA8] @
       '' '' @
       [CHR 0x60] @
       ''plan_todo'' @
       [CHR 0x60] @
       '' '' @
       [CHR 0xE6, CHR 0xA0, CHR 0x87, CHR 0xE8, CHR 0xAE, CHR 0xB0, CHR 0xE4, CHR 0xB8, CHR 0xBA] @
       '' cancelled '' @
       [CHR 0xE5, CHR 0xB9, CHR 0xB6, CHR 0xE8, CHR 0xAF, CHR 0xB4, CHR 0xE6, CHR 0x98, CHR 0x8E,
       CHR 0xE5, CHR 0x8E, CHR 0x9F, CHR 0xE5, CHR 0x9B, CHR 0xA0, CHR 0xE3, CHR 0x80, CHR 0x82,
       CHR 0x0A, CHR 0x0A, CHR 0xE5, CHR 0xA6, CHR 0x82, CHR 0xE6, CHR 0x9E, CHR 0x9C, CHR 0xE4,
       CHR 0xB8, CHR 0x8B, CHR 0xE4, CHR 0xB8, CHR 0x80, CHR 0xE6, CHR 0xAD, CHR 0xA5, CHR 0xE9,
       CHR 0x9C, CHR 0x80, CHR 0xE8, CHR 0xA6, CHR 0x81, CHR 0xE7, CHR 0x94, CHR 0xA8, CHR 0xE6,
       CHR 0x88, CHR 0xB7, CHR 0xE5, CHR 0x86, CHR 0xB3, CHR 0xE5, CHR 0xAE, CHR 0x9A, CHR 0xE3,
       CHR 0x80, CHR 0x81, CHR 0xE7, CHR 0xA1, CHR 0xAE, CHR 0xE8, CHR 0xAE, CHR 0xA4, CHR 0xE6,
       CHR 0x88, CHR 0x96, CHR 0xE6, CHR 0x8E, CHR 0x88, CHR 0xE6, CHR 0x9D, CHR 0x83, CHR 0xEF,
       CHR 0xBC, CHR 0x88, CHR 0xE4, CHR 0xBE, CHR 0x8B, CHR 0xE5, CHR 0xA6, CHR 0x82, CHR 0xE5,
       CHR 0x88, CHR 0xA0, CHR 0xE9, CHR 0x99, CHR 0xA4, CHR 0xE6, CHR 0x96, CHR 0x87, CHR 0xE4,
       CHR 0xBB, CHR 0xB6, CHR 0xE3, CHR 0x80, CHR 0x81, CHR 0xE6, CHR 0x94, CHR 0xB9, CHR 0xE5,
       CHR 0x8F, CHR 0x98, CHR 0xE8, CHR 0x8C, CHR 0x83, CHR 0xE5, CHR 0x9B, CHR 0xB4, CHR 0xEF,
       CHR 0xBC, CHR 0x89, CHR 0xEF, CHR 0xBC, CHR 0x8C, CHR 0xE4, CHR 0xB8, CHR 0x8D, CHR 0xE8,
       CHR 0xA6, CHR 0x81, CHR 0xE8, CHR 0x87, CHR 0xAA, CHR 0xE8, CHR 0xA1, CHR 0x8C, CHR 0xE7,
       CHR 0xBB, CHR 0xA7, CHR 0xE7, CHR 0xBB, CHR 0xAD, CHR 0xEF, CHR 0xBC, CHR 0x9A, CHR 0xE7,
       CHR 0x9B, CHR 0xB4, CHR 0xE6, CHR 0x8E, CHR 0xA5, CHR 0xE5, CHR 0x90, CHR 0x91, CHR 0xE7,
       CHR 0x94, CHR 0xA8, CHR 0xE6, CHR 0x88, CHR 0xB7, CHR 0xE6, CHR 0x8F, CHR 0x90, CHR 0xE9,
       CHR 0x97, CHR 0xAE, CHR 0xE5, CHR 0xB9, CHR 0xB6, CHR 0xE7, CHR 0xBB, CHR 0x93, CHR 0xE6,
       CHR 0x9D, CHR 0x9F, CHR 0xE6, CHR 0x9C, CHR 0xAC, CHR 0xE8, CHR 0xBD, CHR 0xAE, CHR 0xE3,
       CHR 0x80, CHR 0x82])"

definition text_message :: "string \<Rightarrow> string \<Rightarrow> LlmMessage" where
  "text_message role t = \<lparr>lm_role = role, lm_content = Text t\<rparr>"

text \<open>
  The whole of an iteration after the answer: the number of reminders so far goes in and comes out. An
  answer that is reminded of unfinished todos goes on into the part for tool calls, without any.
\<close>

definition answer_turn ::
  "AgentLoop \<Rightarrow> outside \<Rightarrow> string \<Rightarrow> bool \<Rightarrow> PlanState option \<Rightarrow> string \<Rightarrow> call list \<Rightarrow> nat \<Rightarrow> loop_state \<Rightarrow>
     bool \<times> nat \<times> loop_state" where
  "answer_turn a out session_id halted plan_state text_buf tool_calls reminders s =
     (if tool_calls = [] then
        let unfinished = unfinished_todos plan_state session_id;
            s = push_message (text_message ''assistant'' text_buf) s
        in if unfinished \<noteq> [] \<and> reminders < TODO_REMINDER_MAX \<and> \<not> awaits_user text_buf then
             let s = push_message (text_message ''user'' (todo_reminder unfinished)) s;
                 (continues, s) = tool_turn a out session_id halted text_buf [] s
             in (continues, Suc reminders, s)
           else (False, reminders, s)
      else let (continues, s) = tool_turn a out session_id halted text_buf tool_calls s
           in (continues, reminders, s))"

end
