(* ===== verification/Agent_Run.thy ===== *)
theory Agent_Run
  imports Compaction Llm_Calls State_Frame Tool_Phase
begin

text \<open>
  \<^verbatim>\<open>AgentLoop::run\<close> (\<^verbatim>\<open>agent/loop_.rs\<close>): a run resumes from a checkpoint, and then each iteration reads
  notifications, compacts the conversation, calls a model with retries and fallbacks, and acts on the
  answer. The interactions with the outside are numbered by the field \<open>tick\<close>, as in \<open>Tool_Phase\<close>. The
  messages of the log, the new messages and those written to the database are in \<open>loop_state\<close>; the other
  writes to the database are the list \<open>writes\<close>.
\<close>

section \<open>The agent and what is outside\<close>

record agent =
  tools_of :: AgentLoop
  model_of :: string
  fallback_models :: "string list"
  budget_of :: LayeredBudget
  vision_override :: "bool option"
  vision_delegate :: "string option"
  auto_compact_threshold :: u32
  enable_streaming :: bool
  same_model_transient_retries :: u32
  compaction_strategy_of :: "compaction_env \<Rightarrow> CompactionRequest \<Rightarrow> CompactionResult"
  prepare_next_turn :: "nat \<Rightarrow> bool \<Rightarrow> string \<Rightarrow> string option"
  transform_context :: "LlmMessage list \<Rightarrow> LlmMessage list"
  should_stop_after_turn :: "nat \<Rightarrow> bool \<Rightarrow> string \<Rightarrow> bool"
  memory_retrieval_prompt :: "string option"

record checkpoint =
  cp_hash :: u64
  cp_count :: nat
  cp_messages :: "LlmMessage list"
  cp_history :: "ToolCallRecord list"
  cp_seen :: "string list"

text \<open>What \<^verbatim>\<open>load_checkpoint\<close> gives: nothing, a payload, or text that is none.\<close>

datatype stored_checkpoint = NoCheckpoint | Payload checkpoint | InvalidCheckpoint

record model_outside =
  tool_side :: outside
  ask_model :: "nat \<Rightarrow> LlmRequest \<Rightarrow> call_answer"
  ask_summariser :: "nat \<Rightarrow> LlmRequest \<Rightarrow> string + LlmResponse"
  ask_vision :: "nat \<Rightarrow> nat \<Rightarrow> LlmRequest \<Rightarrow> string + LlmResponse"
  parse_json :: "string \<Rightarrow> json option"
  pending_notifications :: "nat \<Rightarrow> string list"
  plan_at :: "nat \<Rightarrow> PlanState option"
  halted_at :: "nat \<Rightarrow> bool"
  now_rfc3339 :: "nat \<Rightarrow> string"
  hash_messages :: "LlmMessage list \<Rightarrow> u64"
  checkpoint_bytes :: "checkpoint \<Rightarrow> nat"

datatype db_write =
    RollingSummary string int
  | SaveFrame "StateFrame option"
  | UsageTotals u32 u32
  | ModelUsage string u32 u32
  | UpsertCheckpoint nat checkpoint
  | FinishCheckpoint string
  | PruneCheckpoints nat

record agent_state =
  conv :: loop_state
  requests :: "LlmRequest list"
  writes :: "db_write list"
  total_input :: u32
  total_output :: u32
  cumulative_input :: int
  cumulative_output :: int
  compact_threshold :: int
  rolling_summary :: string
  rolling_version :: int
  seen_notifications :: "string list"
  reminder_count :: nat
  last_had_tools :: bool
  last_text :: string

section \<open>The system prompt\<close>

text \<open>
  \<^verbatim>\<open>compose_system_prompt\<close>: the project context that was found, and the memories found for the newest
  message of the user. \<open>None\<close> for the context means that none is configured, and so for the search.
\<close>

definition memory_block :: "string option \<Rightarrow> string list \<Rightarrow> string" where
  "memory_block template hits =
     (let rendered = join [CHR 0x0A] (map (\<lambda>h. ''- '' @ h) hits)
      in case template of
           None \<Rightarrow> (''## Relevant Memories'' @ [CHR 0x0A]) @ rendered
         | Some tpl \<Rightarrow>
             if contains tpl ''{memories}'' then replace_str tpl ''{memories}'' rendered
             else tpl @ [CHR 0x0A] @ rendered)"

definition compose_system_prompt ::
  "agent \<Rightarrow> string option \<Rightarrow> (string \<Rightarrow> string list option) option \<Rightarrow> LlmMessage list \<Rightarrow> string" where
  "compose_system_prompt a context search messages =
     (let base = system_prompt (tools_of a)
      in if context = None \<and> search = None then base
         else (case context of
                 None \<Rightarrow> []
               | Some rendered \<Rightarrow> if trim rendered = [] then [] else trim_end rendered @ [CHR 0x0A, CHR 0x0A]) @ base @
              (case search of
                 None \<Rightarrow> []
               | Some f \<Rightarrow>
                   let query = query_of messages
                   in if trim query = [] then []
                      else case f query of
                             None \<Rightarrow> []
                           | Some hits \<Rightarrow>
                               if hits = [] then [] else [CHR 0x0A, CHR 0x0A] @ memory_block (memory_retrieval_prompt a) hits))"

section \<open>Small steps\<close>

definition ticks :: "agent_state \<Rightarrow> nat" where
  "ticks st = tick (effects_of (conv st))"

definition on_effects :: "(run_state \<Rightarrow> run_state) \<Rightarrow> agent_state \<Rightarrow> agent_state" where
  "on_effects f st = st\<lparr>conv := (conv st)\<lparr>effects_of := f (effects_of (conv st))\<rparr>\<rparr>"

definition step_tick :: "agent_state \<Rightarrow> agent_state" where
  "step_tick st = on_effects next_tick st"

definition emit_event :: "AgentEvent \<Rightarrow> agent_state \<Rightarrow> agent_state" where
  "emit_event e st = on_effects (emit e) st"

definition push :: "LlmMessage \<Rightarrow> agent_state \<Rightarrow> agent_state" where
  "push m st = st\<lparr>conv := push_message m (conv st)\<rparr>"

definition write_db :: "agent \<Rightarrow> db_write \<Rightarrow> agent_state \<Rightarrow> agent_state" where
  "write_db a w st = (if has_db (tools_of a) then st\<lparr>writes := writes st @ [w]\<rparr> else st)"

definition tool_defs_of :: "agent \<Rightarrow> ToolDef list" where
  "tool_defs_of a = to_tool_defs (registry (tools_of a)) MinimalDef"

definition js_for :: "agent \<Rightarrow> json \<Rightarrow> string" where
  "js_for a = js_of (tools_of a)"

definition message_budget :: "agent \<Rightarrow> string \<Rightarrow> nat" where
  "message_budget a prompt =
     unat (bg_total (budget_of a)) - estimate_request_overhead_tokens (js_for a) (Some prompt) (tool_defs_of a)"

text \<open>Notifications: each is shown to the model once, and is not among the new messages.\<close>

definition note_notification :: "string \<Rightarrow> agent_state \<Rightarrow> agent_state" where
  "note_notification msg st =
     (if msg \<in> set (seen_notifications st) then st
      else st\<lparr>seen_notifications := seen_notifications st @ [msg],
              conv := (conv st)\<lparr>log := log (conv st) @ [text_message ''user'' msg]\<rparr>\<rparr>)"

section \<open>Compaction\<close>

definition compaction_env_of :: "agent \<Rightarrow> model_outside \<Rightarrow> nat \<Rightarrow> compaction_env" where
  "compaction_env_of a out t =
     \<lparr>ce_complete = ask_summariser out t, ce_parse = parse_json out, ce_js = js_for a\<rparr>"

definition compaction_request :: "agent \<Rightarrow> string \<Rightarrow> string \<Rightarrow> string \<Rightarrow> CompactionTrigger \<Rightarrow> agent_state \<Rightarrow> CompactionRequest" where
  "compaction_request a session_id prompt model trigger st = \<lparr>
     cr_trigger = trigger,
     cr_budget = budget_of a,
     cr_messages = log (conv st),
     cr_rolling_summary = rolling_summary st,
     cr_system_prompt = prompt,
     cr_model = model,
     cr_max_tokens = al_max_tokens (tools_of a),
     cr_tool_defs = tool_defs_of a,
     cr_tool_minimals = tool_minimals (conv st),
     cr_session_id = session_id,
     cr_images = vision_store (effects_of (conv st)),
     cr_cumulative_input_tokens = cumulative_input st,
     cr_next_auto_compact_threshold = compact_threshold st,
     cr_threshold_step = int (unat (auto_compact_threshold a)) \<rparr>"

text \<open>\<^verbatim>\<open>saturating_add\<close> on \<^verbatim>\<open>u32\<close>.\<close>

definition sat_add_u32 :: "u32 \<Rightarrow> u32 \<Rightarrow> u32" where
  "sat_add_u32 x y = word_of_nat (min (2 ^ 32 - 1) (unat x + unat y))"

definition frame_after :: "string \<Rightarrow> CompactionResult \<Rightarrow> StateFrame" where
  "frame_after now r =
     (let frame = derive_frame_from_tail now (cs_messages r) 24;
          frame = (if cs_plan_items r = [] then frame else frame\<lparr>sf_active_plan_items := cs_plan_items r\<rparr>)
      in if cs_next_step_hint r = None then frame else frame\<lparr>sf_next_step_hint := cs_next_step_hint r\<rparr>)"

text \<open>What the loop does with a compaction that changed something.\<close>

definition apply_compaction :: "agent \<Rightarrow> model_outside \<Rightarrow> CompactionResult \<Rightarrow> agent_state \<Rightarrow> agent_state" where
  "apply_compaction a out r st =
     (let st = st\<lparr>
            total_input := sat_add_u32 (total_input st) (cs_input_tokens r),
            total_output := sat_add_u32 (total_output st) (cs_output_tokens r),
            cumulative_input := sat_add (cumulative_input st) (int (unat (cs_input_tokens r))),
            cumulative_output := sat_add (cumulative_output st) (int (unat (cs_output_tokens r))),
            compact_threshold := cs_next_auto_compact_threshold r,
            rolling_summary := cs_rolling_summary r,
            rolling_version := rolling_version st + 1,
            conv := (conv st)\<lparr>log := cs_messages r\<rparr>\<rparr>;
          st = write_db a (RollingSummary (rolling_summary st) (rolling_version st)) st;
          st = write_db a (SaveFrame (frame_to_json (frame_after (now_rfc3339 out (ticks st)) r))) st
      in step_tick st)"

definition wire_config_of :: "agent \<Rightarrow> model_outside \<Rightarrow> string \<Rightarrow> agent_state \<Rightarrow> wire_config" where
  "wire_config_of a out prompt st = \<lparr>
     wc_js = js_for a,
     wc_message_budget = message_budget a prompt,
     wc_max_tool_result_tokens = unat (bg_max_tool_result_tokens (budget_of a)),
     wc_vision_delegate = map_option (\<lambda>m. (ask_vision out (ticks st), m)) (vision_delegate a),
     wc_transform_context = transform_context a \<rparr>"

definition clamp_u32 :: "int \<Rightarrow> u32" where
  "clamp_u32 i = word_of_int (max 0 (min i (2 ^ 32 - 1)))"

definition usage_event :: "agent \<Rightarrow> model_outside \<Rightarrow> string \<Rightarrow> string \<Rightarrow> agent_state \<Rightarrow> AgentEvent" where
  "usage_event a out session_id prompt st =
     (let view = wire_view (wire_config_of a out prompt st) (tool_minimals (conv st)) session_id (log (conv st))
                   (vision_store (effects_of (conv st)));
          estimated = estimate_request_input_tokens (js_for a) view (Some prompt) (tool_defs_of a)
      in ContextUsage \<lparr>
           cu_estimated_input_tokens = clamp_u32 (int estimated),
           cu_total_input_budget = bg_total (budget_of a),
           cu_trigger_threshold = bg_trigger_micro (budget_of a),
           cu_cumulative_input_tokens = clamp_u32 (cumulative_input st),
           cu_cumulative_output_tokens = clamp_u32 (cumulative_output st),
           cu_rolling_summary_version = clamp_u32 (rolling_version st),
           cu_auto_compact_threshold = auto_compact_threshold a \<rparr>)"

definition proactive_compaction :: "agent \<Rightarrow> model_outside \<Rightarrow> string \<Rightarrow> string \<Rightarrow> agent_state \<Rightarrow> agent_state" where
  "proactive_compaction a out session_id prompt st =
     (let r = compaction_strategy_of a (compaction_env_of a out (ticks st))
                (compaction_request a session_id prompt (model_of a) Proactive st);
          st = step_tick st;
          st = (if cs_changed r then apply_compaction a out r st else st)
      in emit_event (usage_event a out session_id prompt st) st)"

section \<open>Calling a model\<close>

record call_state =
  agent_st :: agent_state
  calls_left :: nat
  overflow_attempted :: bool
  last_err :: "string option"
  cancelled_partial :: "string option"

datatype verdict = Answered LlmResponse | StopModels | NextModel | SameModel

definition request_for :: "agent \<Rightarrow> model_outside \<Rightarrow> string \<Rightarrow> string \<Rightarrow> string \<Rightarrow> agent_state \<Rightarrow> LlmRequest \<times> agent_state" where
  "request_for a out session_id prompt model st =
     (let (req_messages, store) = wire_messages (wire_config_of a out prompt st) (tool_minimals (conv st)) session_id
            (log (conv st)) (vision_store (effects_of (conv st)));
          st = step_tick (on_effects (\<lambda>e. e\<lparr>vision_store := store\<rparr>) st)
      in (build_for req_messages (Some prompt) (tool_defs_of a) model (al_max_tokens (tools_of a))
            (enable_streaming a) (vision_override a) (from_model_id model), st))"

definition budget_exhausted :: string where
  "budget_exhausted = ''primary agent request budget exhausted (maximum 12 logical calls per iteration)''"

definition partial_of :: "bool \<Rightarrow> string list \<Rightarrow> string option \<Rightarrow> string option" where
  "partial_of streaming texts old =
     (if streaming \<and> trim (concat texts) \<noteq> [] then Some (concat texts) else old)"

text \<open>One call: what it gives, and the state after it.\<close>

definition one_call :: "agent \<Rightarrow> model_outside \<Rightarrow> LlmRequest \<Rightarrow> call_state \<Rightarrow> (string + LlmResponse) option \<times> call_state" where
  "one_call a out req v =
     (let (result, texts) = llm_call_unified (enable_streaming a) (ask_model out (ticks (agent_st v)) req);
          st = fold (\<lambda>d. emit_event (TextDelta d)) texts
                 (step_tick ((agent_st v)\<lparr>requests := requests (agent_st v) @ [req]\<rparr>));
          cut_off = (result = None \<or> cancelled (tool_side out) (ticks st))
      in (result, v\<lparr>agent_st := step_tick st, calls_left := calls_left v - 1,
            cancelled_partial := (if cut_off then partial_of (enable_streaming a) texts (cancelled_partial v)
                                  else cancelled_partial v)\<rparr>))"

text \<open>What is done after an error; \<open>left\<close> is how many attempts remain.\<close>

definition after_error ::
  "agent \<Rightarrow> model_outside \<Rightarrow> string \<Rightarrow> string \<Rightarrow> string \<Rightarrow> string \<Rightarrow> nat \<Rightarrow> call_state \<Rightarrow> verdict option \<times> call_state" where
  "after_error a out session_id prompt model err left v =
     (let c = classify_error err; st = agent_st v
      in if c = AuthFailed \<or> c = QuotaExceeded then (Some StopModels, v\<lparr>last_err := Some err\<rparr>)
         else if is_context_overflow_error err \<and> \<not> overflow_attempted v \<and> 0 < calls_left v then
           let r = compaction_strategy_of a (compaction_env_of a out (ticks st))
                     (compaction_request a session_id prompt model Overflow st);
               v = v\<lparr>overflow_attempted := True, last_err := Some err, agent_st := step_tick st\<rparr>
           in if cs_changed r then (Some SameModel, v\<lparr>agent_st := apply_compaction a out r (agent_st v)\<rparr>)
              else (Some StopModels, v)
         else if is_fallback_eligible c then (Some NextModel, v\<lparr>last_err := Some err\<rparr>)
         else if \<not> is_retryable c \<or> left = 0 \<or> calls_left v = 0 then (Some StopModels, v\<lparr>last_err := Some err\<rparr>)
         else if cancelled (tool_side out) (ticks st) then (Some StopModels, v\<lparr>agent_st := step_tick st\<rparr>)
         else (None, v\<lparr>agent_st := step_tick st, last_err := Some err\<rparr>))"

text \<open>The attempts with one model; the argument is how many remain.\<close>

fun try_model ::
  "agent \<Rightarrow> model_outside \<Rightarrow> string \<Rightarrow> string \<Rightarrow> string \<Rightarrow> LlmRequest \<Rightarrow> nat \<Rightarrow> call_state \<Rightarrow> verdict \<times> call_state" where
  "try_model a out session_id prompt model req 0 v = (NextModel, v)"
| "try_model a out session_id prompt model req (Suc left) v =
     (let stop = cancelled (tool_side out) (ticks (agent_st v)); v = v\<lparr>agent_st := step_tick (agent_st v)\<rparr>
      in if stop then (StopModels, v)
         else if calls_left v = 0 then (StopModels, v\<lparr>last_err := Some budget_exhausted\<rparr>)
         else case one_call a out req v of
                (None, v) \<Rightarrow> (StopModels, v)
              | (Some (Inr r), v) \<Rightarrow> (Answered r, v)
              | (Some (Inl err), v) \<Rightarrow>
                  (case after_error a out session_id prompt model err left v of
                     (Some verdict, v) \<Rightarrow> (verdict, v)
                   | (None, v) \<Rightarrow> try_model a out session_id prompt model req left v))"

definition attempts_of :: "agent \<Rightarrow> nat" where
  "attempts_of a = max 1 (min (unat (same_model_transient_retries a)) MAX_SAME_MODEL_ATTEMPTS)"

lemma calls_left_one_call: "snd (one_call a out req v) = v' \<Longrightarrow> calls_left v' = calls_left v - 1"
  by (auto simp: one_call_def Let_def split: prod.splits)

lemma calls_left_after_error: "after_error a out s p m err left v = (r, v') \<Longrightarrow> calls_left v' = calls_left v"
  by (auto simp: after_error_def Let_def split: if_splits)

lemma calls_left_try:
  "try_model a out s p m req n v = (r, v') \<Longrightarrow> calls_left v' \<le> calls_left v \<and> (r = SameModel \<longrightarrow> calls_left v' < calls_left v)"
proof (induction n arbitrary: v)
  case (Suc n)
  let ?v = "v\<lparr>agent_st := step_tick (agent_st v)\<rparr>"
  show ?case
  proof (cases "cancelled (tool_side out) (ticks (agent_st v)) \<or> calls_left v = 0")
    case True
    with Suc.prems show ?thesis by (auto simp: Let_def split: if_splits)
  next
    case False
    obtain res v1 where c: "one_call a out req ?v = (res, v1)" by force
    then have left: "calls_left v1 = calls_left v - 1" using calls_left_one_call by (metis call_state.select_convs(2) call_state.surjective call_state.update_convs(1) snd_conv)
    show ?thesis
    proof (cases res)
      case (Some x)
      show ?thesis
      proof (cases x)
        case (Inl err)
        obtain vd v2 where e: "after_error a out s p m err n v1 = (vd, v2)" by force
        note l2 = calls_left_after_error [OF e]
        show ?thesis
        proof (cases vd)
          case None
          with Suc.prems False c Some Inl e have "try_model a out s p m req n v2 = (r, v')" by simp
          from Suc.IH [OF this] left l2 False show ?thesis by auto
        qed (use Suc.prems False c Some Inl e left l2 in auto)
      qed (use Suc.prems False c Some left in auto)
    qed (use Suc.prems False c left in auto)
  qed
qed auto

text \<open>The models in order. After a compaction the same model is tried again.\<close>

function try_models ::
  "agent \<Rightarrow> model_outside \<Rightarrow> string \<Rightarrow> string \<Rightarrow> string list \<Rightarrow> call_state \<Rightarrow> (LlmResponse \<times> string) option \<times> call_state" where
  "try_models a out session_id prompt [] v = (None, v)"
| "try_models a out session_id prompt (model # models) v =
     (let (req, st) = request_for a out session_id prompt model (agent_st v);
          (verdict, v) = try_model a out session_id prompt model req (attempts_of a) (v\<lparr>agent_st := st\<rparr>)
      in case verdict of
           Answered r \<Rightarrow> (Some (r, model), v)
         | StopModels \<Rightarrow> (None, v)
         | NextModel \<Rightarrow> try_models a out session_id prompt models v
         | SameModel \<Rightarrow> try_models a out session_id prompt (model # models) v)"
  by pat_completeness auto
termination
proof (relation "measures [\<lambda>(a, out, s, p, ms, v). calls_left v, \<lambda>(a, out, s, p, ms, v). length ms]", goal_cases)
  case 1
  then show ?case by simp
next
  case (2 a out s p m ms v x req st y vd v')
  from calls_left_try [of a out s p m req "attempts_of a" "v\<lparr>agent_st := st\<rparr>" vd v'] 2 show ?case by force
next
  case (3 a out s p m ms v x req st y vd v')
  from calls_left_try [of a out s p m req "attempts_of a" "v\<lparr>agent_st := st\<rparr>" vd v'] 3 show ?case by force
qed

declare try_models.simps [simp del]

section \<open>The answer of an iteration\<close>

datatype reply = Replied LlmResponse string | Cancelled | Failed string

definition MAX_CORRECTIONS :: nat where "MAX_CORRECTIONS = 2"

definition corrective_text :: "nat \<Rightarrow> string" where
  "corrective_text tool_args_corrections =
     (if tool_args_corrections = 1 then
        ([CHR 0xE7, CHR 0xB3, CHR 0xBB, CHR 0xE7, CHR 0xBB, CHR 0x9F, CHR 0xE6, CHR 0x8F, CHR 0x90,
       CHR 0xE7, CHR 0xA4, CHR 0xBA, CHR 0xEF, CHR 0xBC, CHR 0x9A, CHR 0xE4, CHR 0xBD, CHR 0xA0,
       CHR 0xE4, CHR 0xB8, CHR 0x8A, CHR 0xE4, CHR 0xB8, CHR 0x80, CHR 0xE6, CHR 0xAC, CHR 0xA1,
       CHR 0xE7, CHR 0x9A, CHR 0x84, CHR 0xE5, CHR 0xB7, CHR 0xA5, CHR 0xE5, CHR 0x85, CHR 0xB7,
       CHR 0xE8, CHR 0xB0, CHR 0x83, CHR 0xE7, CHR 0x94, CHR 0xA8, CHR 0xE5, CHR 0x8F, CHR 0x82,
       CHR 0xE6, CHR 0x95, CHR 0xB0] @
       ''(arguments) JSON '' @
       [CHR 0xE4, CHR 0xB8, CHR 0x8D, CHR 0xE5, CHR 0xAE, CHR 0x8C, CHR 0xE6, CHR 0x95, CHR 0xB4,
       CHR 0xE6, CHR 0x88, CHR 0x96, CHR 0xE6, CHR 0x97, CHR 0xA0, CHR 0xE6, CHR 0xB3, CHR 0x95,
       CHR 0xE8, CHR 0xA7, CHR 0xA3, CHR 0xE6, CHR 0x9E, CHR 0x90, CHR 0xEF, CHR 0xBC, CHR 0x8C,
       CHR 0xE5, CHR 0x9B, CHR 0xA0, CHR 0xE6, CHR 0xAD, CHR 0xA4, CHR 0xE6, CHR 0x9C, CHR 0xAA,
       CHR 0xE8, CHR 0xA2, CHR 0xAB, CHR 0xE6, CHR 0x89, CHR 0xA7, CHR 0xE8, CHR 0xA1, CHR 0x8C,
       CHR 0xEF, CHR 0xBC, CHR 0x8C, CHR 0xE4, CHR 0xB9, CHR 0x9F, CHR 0xE6, CHR 0xB2, CHR 0xA1,
       CHR 0xE6, CHR 0x9C, CHR 0x89, CHR 0xE4, CHR 0xBA, CHR 0xA7, CHR 0xE7, CHR 0x94, CHR 0x9F,
       CHR 0xE4, CHR 0xBB, CHR 0xBB, CHR 0xE4, CHR 0xBD, CHR 0x95, CHR 0xE5, CHR 0x89, CHR 0xAF,
       CHR 0xE4, CHR 0xBD, CHR 0x9C, CHR 0xE7, CHR 0x94, CHR 0xA8, CHR 0xE3, CHR 0x80, CHR 0x82,
       CHR 0xE8, CHR 0xAF, CHR 0xB7, CHR 0xE9, CHR 0x87, CHR 0x8D, CHR 0xE6, CHR 0x96, CHR 0xB0,
       CHR 0xE5, CHR 0xAE, CHR 0x8C, CHR 0xE6, CHR 0x95, CHR 0xB4, CHR 0xE8, CHR 0xBE, CHR 0x93,
       CHR 0xE5, CHR 0x87, CHR 0xBA, CHR 0xE8, CHR 0xBF, CHR 0x99, CHR 0xE6, CHR 0xAC, CHR 0xA1,
       CHR 0xE5, CHR 0xB7, CHR 0xA5, CHR 0xE5, CHR 0x85, CHR 0xB7, CHR 0xE8, CHR 0xB0, CHR 0x83,
       CHR 0xE7, CHR 0x94, CHR 0xA8, CHR 0xEF, CHR 0xBC, CHR 0x88, CHR 0xE4, CHR 0xB8, CHR 0x8D,
       CHR 0xE8, CHR 0xA6, CHR 0x81, CHR 0xE6, CHR 0x88, CHR 0xAA, CHR 0xE6, CHR 0x96, CHR 0xAD,
       CHR 0xE3, CHR 0x80, CHR 0x81, CHR 0xE4, CHR 0xB8, CHR 0x8D, CHR 0xE8, CHR 0xA6, CHR 0x81,
       CHR 0xE7, CHR 0x9C, CHR 0x81, CHR 0xE7, CHR 0x95, CHR 0xA5, CHR 0xE5, CHR 0xAD, CHR 0x97,
       CHR 0xE6, CHR 0xAE, CHR 0xB5, CHR 0xEF, CHR 0xBC, CHR 0x89, CHR 0xEF, CHR 0xBC, CHR 0x9B,
       CHR 0xE5, CHR 0xA6, CHR 0x82, CHR 0xE5, CHR 0x86, CHR 0x85, CHR 0xE5, CHR 0xAE, CHR 0xB9,
       CHR 0xE8, CHR 0xBE, CHR 0x83, CHR 0xE9, CHR 0x95, CHR 0xBF, CHR 0xEF, CHR 0xBC, CHR 0x8C,
       CHR 0xE5, CHR 0x8F, CHR 0xAF, CHR 0xE8, CHR 0x80, CHR 0x83, CHR 0xE8, CHR 0x99, CHR 0x91,
       CHR 0xE6, CHR 0x8B, CHR 0x86, CHR 0xE5, CHR 0x88, CHR 0x86, CHR 0xE4, CHR 0xB8, CHR 0xBA,
       CHR 0xE5, CHR 0xA4, CHR 0x9A, CHR 0xE6, CHR 0xAC, CHR 0xA1, CHR 0xE6, CHR 0x9B, CHR 0xB4,
       CHR 0xE7, CHR 0x9F, CHR 0xAD, CHR 0xE7, CHR 0x9A, CHR 0x84, CHR 0xE8, CHR 0xB0, CHR 0x83,
       CHR 0xE7, CHR 0x94, CHR 0xA8, CHR 0xE3, CHR 0x80, CHR 0x82])
      else
        ([CHR 0xE7, CHR 0xB3, CHR 0xBB, CHR 0xE7, CHR 0xBB, CHR 0x9F, CHR 0xE6, CHR 0x8F, CHR 0x90,
       CHR 0xE7, CHR 0xA4, CHR 0xBA, CHR 0xEF, CHR 0xBC, CHR 0x9A, CHR 0xE5, CHR 0xB7, CHR 0xA5,
       CHR 0xE5, CHR 0x85, CHR 0xB7, CHR 0xE8, CHR 0xB0, CHR 0x83, CHR 0xE7, CHR 0x94, CHR 0xA8,
       CHR 0xE5, CHR 0x8F, CHR 0x82, CHR 0xE6, CHR 0x95, CHR 0xB0] @
       '' JSON '' @
       [CHR 0xE5, CHR 0x86, CHR 0x8D, CHR 0xE6, CHR 0xAC, CHR 0xA1, CHR 0xE6, CHR 0x97, CHR 0xA0,
       CHR 0xE6, CHR 0xB3, CHR 0x95, CHR 0xE8, CHR 0xA7, CHR 0xA3, CHR 0xE6, CHR 0x9E, CHR 0x90,
       CHR 0xEF, CHR 0xBC, CHR 0x8C, CHR 0xE4, CHR 0xBB, CHR 0x8D, CHR 0xE6, CHR 0x9C, CHR 0xAA,
       CHR 0xE6, CHR 0x89, CHR 0xA7, CHR 0xE8, CHR 0xA1, CHR 0x8C, CHR 0xE3, CHR 0x80, CHR 0x82,
       CHR 0xE5, CHR 0xAD, CHR 0x97, CHR 0xE7, CHR 0xAC, CHR 0xA6, CHR 0xE4, CHR 0xB8, CHR 0xB2,
       CHR 0xE4, CHR 0xB8, CHR 0xAD, CHR 0xE7, CHR 0x9A, CHR 0x84, CHR 0xE5, CHR 0x8F, CHR 0x8C,
       CHR 0xE5, CHR 0xBC, CHR 0x95, CHR 0xE5, CHR 0x8F, CHR 0xB7, CHR 0xE5, CHR 0xBF, CHR 0x85,
       CHR 0xE9, CHR 0xA1, CHR 0xBB, CHR 0xE5, CHR 0x86, CHR 0x99, CHR 0xE6, CHR 0x88, CHR 0x90] @
       '' '' @
       [CHR 0x5C, CHR 0x22, CHR 0xEF, CHR 0xBC, CHR 0x8C, CHR 0xE5, CHR 0x8F, CHR 0x8D, CHR 0xE6,
       CHR 0x96, CHR 0x9C, CHR 0xE6, CHR 0x9D, CHR 0xA0, CHR 0xE5, CHR 0x86, CHR 0x99, CHR 0xE6,
       CHR 0x88, CHR 0x90] @
       '' '' @
       [CHR 0x5C, CHR 0x5C, CHR 0xEF, CHR 0xBC, CHR 0x8C, CHR 0xE6, CHR 0x8D, CHR 0xA2, CHR 0xE8,
       CHR 0xA1, CHR 0x8C, CHR 0xE5, CHR 0x86, CHR 0x99, CHR 0xE6, CHR 0x88, CHR 0x90] @
       '' '' @
       [CHR 0x5C] @
       ''n'' @
       [CHR 0xE3, CHR 0x80, CHR 0x82, CHR 0xE8, CHR 0xAF, CHR 0xB7, CHR 0xE6, CHR 0x8A, CHR 0x8A,
       CHR 0xE5, CHR 0xA4, CHR 0xA7, CHR 0xE6, CHR 0xAE, CHR 0xB5, CHR 0xE4, CHR 0xBB, CHR 0xA3,
       CHR 0xE7, CHR 0xA0, CHR 0x81, CHR 0xE6, CHR 0x8B, CHR 0x86, CHR 0xE6, CHR 0x88, CHR 0x90,
       CHR 0xE5, CHR 0xA4, CHR 0x9A, CHR 0xE6, CHR 0xAC, CHR 0xA1, CHR 0xE8, CHR 0xBE, CHR 0x83,
       CHR 0xE7, CHR 0x9F, CHR 0xAD, CHR 0xE7, CHR 0x9A, CHR 0x84] @
       '' file_write/file_edit '' @
       [CHR 0xE8, CHR 0xB0, CHR 0x83, CHR 0xE7, CHR 0x94, CHR 0xA8, CHR 0xEF, CHR 0xBC, CHR 0x8C,
       CHR 0xE4, CHR 0xB8, CHR 0x8D, CHR 0xE8, CHR 0xA6, CHR 0x81, CHR 0xE5, CHR 0x9C, CHR 0xA8,
       CHR 0xE4, CHR 0xB8, CHR 0x80, CHR 0xE6, CHR 0xAC, CHR 0xA1, CHR 0xE8, CHR 0xB0, CHR 0x83,
       CHR 0xE7, CHR 0x94, CHR 0xA8, CHR 0xE9, CHR 0x87, CHR 0x8C, CHR 0xE6, CHR 0x94, CHR 0xBE,
       CHR 0xE5, CHR 0x85, CHR 0xA5, CHR 0xE6, CHR 0x95, CHR 0xB4, CHR 0xE4, CHR 0xBB, CHR 0xBD,
       CHR 0xE9, CHR 0x95, CHR 0xBF, CHR 0xE6, CHR 0x96, CHR 0x87, CHR 0xE4, CHR 0xBB, CHR 0xB6,
       CHR 0xE3, CHR 0x80, CHR 0x82]))"

definition fallback_notice :: "string \<Rightarrow> string \<Rightarrow> AgentEvent" where
  "fallback_notice primary used =
     Notice ([CHR 0xE4, CHR 0xB8, CHR 0xBB, CHR 0xE6, CHR 0xA8, CHR 0xA1, CHR 0xE5, CHR 0x9E, CHR 0x8B,
       CHR 0xE3, CHR 0x80, CHR 0x8C] @ primary @ [CHR 0xE3, CHR 0x80, CHR 0x8D, CHR 0xE5, CHR 0xBD, CHR 0x93, CHR 0xE5, CHR 0x89, CHR 0x8D,
       CHR 0xE4, CHR 0xB8, CHR 0x8D, CHR 0xE5, CHR 0x8F, CHR 0xAF, CHR 0xE7, CHR 0x94, CHR 0xA8,
       CHR 0xEF, CHR 0xBC, CHR 0x8C, CHR 0xE5, CHR 0xB7, CHR 0xB2, CHR 0xE8, CHR 0x87, CHR 0xAA,
       CHR 0xE5, CHR 0x8A, CHR 0xA8, CHR 0xE5, CHR 0x88, CHR 0x87, CHR 0xE6, CHR 0x8D, CHR 0xA2,
       CHR 0xE5, CHR 0x88, CHR 0xB0, CHR 0xE5, CHR 0xA4, CHR 0x87, CHR 0xE9, CHR 0x80, CHR 0x89,
       CHR 0xE6, CHR 0xA8, CHR 0xA1, CHR 0xE5, CHR 0x9E, CHR 0x8B, CHR 0xE3, CHR 0x80, CHR 0x8C] @ used @ [CHR 0xE3, CHR 0x80, CHR 0x8D, CHR 0xE7, CHR 0xBB, CHR 0xA7, CHR 0xE7, CHR 0xBB, CHR 0xAD,
       CHR 0xE4, CHR 0xB8, CHR 0xBA, CHR 0xE4, CHR 0xBD, CHR 0xA0, CHR 0xE5, CHR 0xA4, CHR 0x84,
       CHR 0xE7, CHR 0x90, CHR 0x86, CHR 0xE3, CHR 0x80, CHR 0x82])
       (Some ''model_fallback'') (Some (JObj [(''from'', JStr primary), (''to'', JStr used)]))"

definition correction_notice :: "string \<Rightarrow> AgentEvent" where
  "correction_notice err =
     Notice (([CHR 0xE5, CHR 0xB7, CHR 0xA5, CHR 0xE5, CHR 0x85, CHR 0xB7, CHR 0xE8, CHR 0xB0, CHR 0x83,
       CHR 0xE7, CHR 0x94, CHR 0xA8, CHR 0xE5, CHR 0x8F, CHR 0x82, CHR 0xE6, CHR 0x95, CHR 0xB0,
       CHR 0xE4, CHR 0xB8, CHR 0x8D, CHR 0xE5, CHR 0xAE, CHR 0x8C, CHR 0xE6, CHR 0x95, CHR 0xB4,
       CHR 0xEF, CHR 0xBC, CHR 0x8C, CHR 0xE5, CHR 0xB7, CHR 0xB2, CHR 0xE8, CHR 0xAF, CHR 0xB7,
       CHR 0xE6, CHR 0xB1, CHR 0x82, CHR 0xE6, CHR 0xA8, CHR 0xA1, CHR 0xE5, CHR 0x9E, CHR 0x8B,
       CHR 0xE9, CHR 0x87, CHR 0x8D, CHR 0xE6, CHR 0x96, CHR 0xB0, CHR 0xE8, CHR 0xBE, CHR 0x93,
       CHR 0xE5, CHR 0x87, CHR 0xBA, CHR 0xEF, CHR 0xBC, CHR 0x88, CHR 0xE8, CHR 0x87, CHR 0xAA,
       CHR 0xE5, CHR 0x8A, CHR 0xA8, CHR 0xE7, CHR 0xBA, CHR 0xA0, CHR 0xE5, CHR 0x81, CHR 0x8F] @
       '' 1 '' @
       [CHR 0xE6, CHR 0xAC, CHR 0xA1, CHR 0xEF, CHR 0xBC, CHR 0x89, CHR 0xEF, CHR 0xBC, CHR 0x9A]) @ err) (Some (error_code ToolArgsInvalid)) None"

text \<open>A round of calls; \<open>left\<close> is how many corrections may still be asked for.\<close>

fun ask_with_correction ::
  "agent \<Rightarrow> model_outside \<Rightarrow> string \<Rightarrow> string \<Rightarrow> nat \<Rightarrow> nat \<Rightarrow> call_state \<Rightarrow> reply \<times> call_state" where
  "ask_with_correction a out session_id prompt iteration left v =
     (let st = agent_st v;
          primary = (case prepare_next_turn a iteration (last_had_tools st) (last_text st) of
                       Some m \<Rightarrow> m | None \<Rightarrow> model_of a);
          (answer, v) = try_models a out session_id prompt
            (bounded_model_candidates primary (fallback_models a)) (v\<lparr>last_err := None\<rparr>)
      in case answer of
           Some (r, used) \<Rightarrow>
             (Replied r used,
              if used = primary then v else v\<lparr>agent_st := emit_event (fallback_notice primary used) (agent_st v)\<rparr>)
         | None \<Rightarrow>
             let stop = cancelled (tool_side out) (ticks (agent_st v)); v = v\<lparr>agent_st := step_tick (agent_st v)\<rparr>
             in if stop then
                  (Cancelled,
                   case cancelled_partial v of
                     None \<Rightarrow> v
                   | Some partial \<Rightarrow> v\<lparr>agent_st := push (text_message ''assistant'' partial) (agent_st v), cancelled_partial := None\<rparr>)
                else let err = (case last_err v of Some e \<Rightarrow> e | None \<Rightarrow> ''LLM call failed'')
                     in if 0 < left \<and> classify_error err = ToolArgsInvalid then
                          ask_with_correction a out session_id prompt iteration (left - 1)
                            (v\<lparr>agent_st := emit_event (correction_notice err)
                               (push (text_message ''user'' (corrective_text (Suc MAX_CORRECTIONS - left))) (agent_st v))\<rparr>)
                        else (Failed err, v\<lparr>agent_st :=
                               emit_event (ErrorEvent err (Some (error_code (classify_error err)))) (agent_st v)\<rparr>))"

declare ask_with_correction.simps [simp del]

definition ask :: "agent \<Rightarrow> model_outside \<Rightarrow> string \<Rightarrow> string \<Rightarrow> nat \<Rightarrow> agent_state \<Rightarrow> reply \<times> agent_state" where
  "ask a out session_id prompt iteration st =
     (let (r, v) = ask_with_correction a out session_id prompt iteration MAX_CORRECTIONS
            \<lparr>agent_st = st, calls_left = MAX_MAIN_CALLS_PER_ITERATION, overflow_attempted = False,
             last_err = None, cancelled_partial = None\<rparr>
      in (r, agent_st v))"

section \<open>Iterations\<close>

text \<open>The token counts of the model that answered. The totals of a run are kept at 32 bits.\<close>

definition account :: "agent \<Rightarrow> LlmResponse \<Rightarrow> string \<Rightarrow> agent_state \<Rightarrow> agent_state" where
  "account a r used st =
     (let st = st\<lparr>
            total_input := total_input st + rs_input_tokens r,
            total_output := total_output st + rs_output_tokens r,
            cumulative_input := cumulative_input st + int (unat (rs_input_tokens r)),
            cumulative_output := cumulative_output st + int (unat (rs_output_tokens r))\<rparr>
      in write_db a (ModelUsage used (rs_input_tokens r) (rs_output_tokens r))
           (write_db a (UsageTotals (rs_input_tokens r) (rs_output_tokens r)) st))"

definition calls_of :: "LlmResponse \<Rightarrow> call list" where
  "calls_of r = map (\<lambda>tc. (tc_id tc, tc_name tc, tc_input tc)) (rs_tool_calls r)"

definition CHECKPOINT_MAX_BYTES :: nat where "CHECKPOINT_MAX_BYTES = 8000000"

definition write_checkpoint :: "agent \<Rightarrow> model_outside \<Rightarrow> u64 \<times> nat \<Rightarrow> nat \<Rightarrow> agent_state \<Rightarrow> agent_state" where
  "write_checkpoint a out base iteration st =
     (let payload = \<lparr>cp_hash = fst base, cp_count = snd base, cp_messages = log (conv st),
            cp_history = history (loop_detector (conv st)), cp_seen = seen_notifications st\<rparr>
      in if CHECKPOINT_MAX_BYTES < checkpoint_bytes out payload then write_db a (FinishCheckpoint ''oversized'') st
         else write_db a (UpsertCheckpoint iteration payload) st)"

datatype outcome = Continues | Finishes | Aborts string

text \<open>What is done with an answer.\<close>

definition act ::
  "agent \<Rightarrow> model_outside \<Rightarrow> string \<Rightarrow> u64 \<times> nat \<Rightarrow> nat \<Rightarrow> LlmResponse \<Rightarrow> agent_state \<Rightarrow> outcome \<times> agent_state" where
  "act a out session_id base iteration r st =
     (let st = (if \<not> enable_streaming a \<and> rs_content r \<noteq> [] then emit_event (TextDelta (rs_content r)) st else st);
          (continues, n, s) = answer_turn (tools_of a) (tool_side out) session_id (halted_at out (ticks st))
            (plan_at out (ticks st)) (rs_content r) (calls_of r) (reminder_count st) (conv st);
          st = st\<lparr>conv := s, reminder_count := n\<rparr>
      in if \<not> continues then (Finishes, st)
         else let st = write_checkpoint a out base iteration st;
                  st = st\<lparr>last_had_tools := (calls_of r \<noteq> []), last_text := rs_content r\<rparr>
              in (if should_stop_after_turn a iteration (last_had_tools st) (last_text st) then Finishes else Continues, st))"

definition iterate ::
  "agent \<Rightarrow> model_outside \<Rightarrow> string \<Rightarrow> string \<Rightarrow> u64 \<times> nat \<Rightarrow> nat \<Rightarrow> agent_state \<Rightarrow> outcome \<times> agent_state" where
  "iterate a out session_id prompt base iteration st =
     (if cancelled (tool_side out) (ticks st) then (Finishes, step_tick st)
      else let st = step_tick st;
               st = step_tick (fold note_notification (pending_notifications out (ticks st)) st);
               st = proactive_compaction a out session_id prompt st;
               st = emit_event (TextSegmentStart (iteration + 1)) st
           in case ask a out session_id prompt iteration st of
                (Replied r used, st) \<Rightarrow> act a out session_id base iteration r (account a r used st)
              | (Cancelled, st) \<Rightarrow> (Finishes, st)
              | (Failed err, st) \<Rightarrow> (Aborts err, st))"

fun iterations ::
  "agent \<Rightarrow> model_outside \<Rightarrow> string \<Rightarrow> string \<Rightarrow> u64 \<times> nat \<Rightarrow> nat \<Rightarrow> nat \<Rightarrow> agent_state \<Rightarrow> string option \<times> agent_state" where
  "iterations a out session_id prompt base iteration 0 st = (None, st)"
| "iterations a out session_id prompt base iteration (Suc left) st =
     (case iterate a out session_id prompt base iteration st of
        (Continues, st) \<Rightarrow> iterations a out session_id prompt base (Suc iteration) left st
      | (Finishes, st) \<Rightarrow> (None, st)
      | (Aborts err, st) \<Rightarrow> (Some err, st))"

section \<open>A run\<close>

record session_context =
  sc_rolling_summary :: string
  sc_rolling_version :: int
  sc_input_tokens :: int
  sc_output_tokens :: int

text \<open>What a run starts from: the messages or those of a fitting checkpoint, and how the checkpoint is closed.\<close>

definition resumed ::
  "model_outside \<Rightarrow> stored_checkpoint \<Rightarrow> LlmMessage list \<Rightarrow> (LlmMessage list \<times> (ToolCallRecord list \<times> string list) option) \<times> string option" where
  "resumed out stored messages =
     (case stored of
        NoCheckpoint \<Rightarrow> ((messages, None), None)
      | InvalidCheckpoint \<Rightarrow> ((messages, None), Some ''invalid'')
      | Payload c \<Rightarrow>
          if cp_messages c \<noteq> [] \<and> cp_hash c = hash_messages out messages \<and> cp_count c = length messages
          then ((cp_messages c, Some (cp_history c, remdups (cp_seen c))), Some ''resumed'')
          else ((messages, None), Some ''stale''))"

definition first_threshold :: "u32 \<Rightarrow> int \<Rightarrow> int" where
  "first_threshold step cumulative =
     (if step \<noteq> 0 then (cumulative div int (unat step) + 1) * int (unat step) else 2 ^ 63 - 1)"

definition start_run ::
  "agent \<Rightarrow> model_outside \<Rightarrow> stored_checkpoint \<Rightarrow> session_context option \<Rightarrow> LlmMessage list \<Rightarrow> run_state \<Rightarrow> agent_state" where
  "start_run a out stored context messages effects =
     (let ((msgs, restored), closed) = (if has_db (tools_of a) then resumed out stored messages else ((messages, None), None));
          (minimals, names) = rebuild_tool_receipts_from_messages msgs;
          detector = \<lparr>history = (case restored of None \<Rightarrow> [] | Some (h, seen) \<Rightarrow> h),
                      consecutive_vision_only_turns = 0, warned = Map.empty\<rparr>;
          detector = (if restored = None then seed_from_messages (al_platform (tools_of a)) msgs detector else detector);
          ctx = (if has_db (tools_of a) then context else None);
          cumulative = (case ctx of None \<Rightarrow> 0 | Some c \<Rightarrow> sc_input_tokens c)
      in \<lparr> conv = \<lparr>log = msgs, new_messages = [], persisted = [], loop_detector = detector, tool_minimals = minimals,
                   tool_names_by_id = names, effects_of = effects\<rparr>,
           requests = [],
           writes = (case closed of None \<Rightarrow> [] | Some status \<Rightarrow> [FinishCheckpoint status]),
           total_input = 0, total_output = 0,
           cumulative_input = cumulative,
           cumulative_output = (case ctx of None \<Rightarrow> 0 | Some c \<Rightarrow> sc_output_tokens c),
           compact_threshold = first_threshold (auto_compact_threshold a) cumulative,
           rolling_summary = (case ctx of None \<Rightarrow> [] | Some c \<Rightarrow> sc_rolling_summary c),
           rolling_version = (case ctx of None \<Rightarrow> 0 | Some c \<Rightarrow> sc_rolling_version c),
           seen_notifications = (case restored of None \<Rightarrow> [] | Some (h, seen) \<Rightarrow> seen),
           reminder_count = 0, last_had_tools = False, last_text = [] \<rparr>)"

definition DEFAULT_MAX_ITERATIONS :: nat where "DEFAULT_MAX_ITERATIONS = 50"

text \<open>A run gives the new messages and the token counts, or the error it stopped at.\<close>

definition run ::
  "agent \<Rightarrow> model_outside \<Rightarrow> string \<Rightarrow> u32 option \<Rightarrow> string option \<Rightarrow> (string \<Rightarrow> string list option) option \<Rightarrow>
     stored_checkpoint \<Rightarrow> session_context option \<Rightarrow> LlmMessage list \<Rightarrow> run_state \<Rightarrow>
     (string + LlmMessage list \<times> u32 \<times> u32) \<times> agent_state" where
  "run a out session_id max_iterations project_context search stored context messages effects =
     (let st = start_run a out stored context messages effects;
          prompt = compose_system_prompt a project_context search (log (conv st));
          n = (case max_iterations of None \<Rightarrow> DEFAULT_MAX_ITERATIONS | Some m \<Rightarrow> unat m);
          (err, st) = iterations a out session_id prompt (hash_messages out messages, length messages) 0 n st
      in case err of
           Some e \<Rightarrow> (Inl e, st)
         | None \<Rightarrow>
             let st = write_db a (PruneCheckpoints 24) (write_db a (FinishCheckpoint ''completed'') st)
             in (Inr (new_messages (conv st), total_input st, total_output st), st))"

end
