(* ===== verification/Tool_Turns.thy ===== *)
theory Tool_Turns
  imports Tool_Phase Requests "HOL-Library.Multiset"
begin

text \<open>
  What a turn with tool calls keeps and respects: the message log stays such that every request built
  from it matches, and no call starts that the detectors, the policy or the user refuse.
\<close>

section \<open>The results of calls\<close>

abbreviation ids :: "ContentBlock list \<Rightarrow> string list" where
  "ids bs \<equiv> List.map_filter result_id bs"

lemma ids_append [simp]: "ids (bs @ bs') = ids bs @ ids bs'"
  by (simp add: List.map_filter_def)

lemma ids_result [simp]: "ids (ToolResult k c e # bs) = k # ids bs" "ids [] = []" "ids (Image s # bs) = ids bs"
  by (simp_all add: List.map_filter_simps)

lemma started_emit [simp]: "started (emit e st) = started st" "started (next_tick st) = started st"
  by (simp_all add: emit_def next_tick_def)

lemma events_mono [simp]: "events (next_tick st) = events st" "events (emit e st) = events st @ [e]"
  by (simp_all add: emit_def next_tick_def)

text \<open>Time passes and events are added.\<close>

definition progress :: "run_state \<Rightarrow> run_state \<Rightarrow> bool" where
  "progress st st' \<longleftrightarrow> tick st \<le> tick st' \<and> set (events st) \<subseteq> set (events st')"

lemma progress_simps [simp]:
  "progress st st" "progress st (next_tick st)" "progress st (emit e st)"
  by (auto simp: progress_def emit_def next_tick_def)

lemma progress_updates [simp]:
  "progress st (st'\<lparr>audits := x\<rparr>) \<longleftrightarrow> progress st st'"
  "progress st (st'\<lparr>vision_store := v\<rparr>) \<longleftrightarrow> progress st st'"
  "progress st (st'\<lparr>started := ss\<rparr>) \<longleftrightarrow> progress st st'"
  "progress st (st'\<lparr>rate := rr\<rparr>) \<longleftrightarrow> progress st st'"
  by (simp_all add: progress_def)

lemma progress_steps [simp]:
  "progress st st' \<Longrightarrow> progress st (next_tick st')" "progress st st' \<Longrightarrow> progress st (emit e st')"
  by (auto simp: progress_def emit_def next_tick_def)

lemma progress_trans: "progress st st1 \<Longrightarrow> progress st1 st2 \<Longrightarrow> progress st st2"
  by (auto simp: progress_def)

lemma progress_from: "progress (next_tick st) st' \<Longrightarrow> progress st st'" "progress (emit e st) st' \<Longrightarrow> progress st st'"
  by (auto simp: progress_def emit_def next_tick_def)

text \<open>
  What has to hold for a call to be started; \<open>evs\<close> are the events so far. Where the policy warns about a
  call that has to be confirmed, the user was asked about this call and has agreed.
\<close>

definition may_start ::
  "AgentLoop \<Rightarrow> outside \<Rightarrow> AgentEvent list \<Rightarrow> string \<times> string \<times> json \<times> nat \<Rightarrow> bool" where
  "may_start a out evs = (\<lambda>(i, name, input, limit).
     (\<exists>t. get_tool (registry a) name = Some t \<and> limit = time_limit t input) \<and>
     (\<exists>n. hook_denies out n i name input = None) \<and>
     (case check_tool_call a name input of
        Allow \<Rightarrow> True
      | Deny r \<Rightarrow> False
      | Warn m \<Rightarrow> wants_confirmation a name input \<and> \<not> user_disabled a name \<and> has_confirmations a \<longrightarrow>
          (\<exists>n. PermissionRequest (fresh_uuid out n) name input m \<in> set evs \<and> approves out (Suc n))))"

lemma may_start_mono: "may_start a out evs x \<Longrightarrow> set evs \<subseteq> set evs' \<Longrightarrow> may_start a out evs' x"
  by (cases x) (auto simp: may_start_def split: PolicyDecision.splits)

lemma refuse_simps [simp]:
  "ids (fst (refuse i name t c st)) = [i]" "started (snd (refuse i name t c st)) = started st"
  "progress st (snd (refuse i name t c st))"
  by (simp_all add: refuse_def)

lemma finish_call_simps [simp]:
  "ids (fst (finish_call a out s tr i name input r env st)) = [i]"
  "started (snd (finish_call a out s tr i name input r env st)) = started st"
  "progress st (snd (finish_call a out s tr i name input r env st))"
  by (auto simp: finish_call_def Let_def split: option.splits prod.splits)

lemma rate_limit_started:
  "check_tool_rate_limit a out s st = (r, st') \<Longrightarrow> started st' = started st \<and> progress st st'"
  by (auto simp: check_tool_rate_limit_def Let_def split: if_splits)

lemma ask_user_started:
  "ask_user a out name input m st = (r, st') \<Longrightarrow>
     started st' = started st \<and> progress st st' \<and>
     (r = None \<longrightarrow> wants_confirmation a name input \<and> \<not> user_disabled a name \<and> has_confirmations a \<longrightarrow>
        (\<exists>n. PermissionRequest (fresh_uuid out n) name input m \<in> set (events st') \<and> approves out (Suc n)))"
  by (auto simp: ask_user_def Let_def next_tick_def emit_def progress_def split: if_splits)

text \<open>What a single call may start.\<close>

definition starts_one :: "AgentLoop \<Rightarrow> outside \<Rightarrow> call \<Rightarrow> run_state \<Rightarrow> run_state \<Rightarrow> bool" where
  "starts_one a out c st st' \<longleftrightarrow> progress st st' \<and>
     (started st' = started st \<or>
      (\<exists>t n. get_tool (registry a) (fst (snd c)) = Some t \<and>
         hook_denies out n (fst c) (fst (snd c)) (snd (snd c)) = None \<and>
         started st' = started st @ [(fst c, fst (snd c), snd (snd c), time_limit t (snd (snd c)))]))"

lemma run_tool_started: "run_tool a out i name input st = (r, st') \<Longrightarrow> starts_one a out (i, name, input) st st'"
  by (auto simp: run_tool_def Let_def next_tick_def starts_one_def progress_def split: option.splits if_splits)

lemma run_allowed_ids: "ids (fst (run_allowed a out s tr (i, name, input) st)) = [i]"
  by (simp add: run_allowed_def Let_def split: prod.split option.split)

lemma starts_one_trans:
  assumes "progress st st1" and "started st1 = started st"
    and "starts_one a out c st1 st2" and "progress st2 st'" and "started st' = started st2"
  shows "starts_one a out c st st'"
proof -
  have "progress st st'"
    using assms(1,3,4) progress_trans unfolding starts_one_def by blast
  then show ?thesis using assms(3) unfolding starts_one_def assms(2,5) by blast
qed

lemma run_allowed_started:
  assumes "run_allowed a out s tr (i, name, input) st = (bs, st')"
  shows "starts_one a out (i, name, input) st st'"
proof -
  let ?st = "emit (ToolStart i name (if json_is_object input then json_set input ''_trace_id'' (JStr tr) else input)) st"
  obtain r st1 where t: "run_tool a out i name input ?st = (r, st1)" by force
  have "started st' = started st1 \<and> progress st1 st'"
  proof (cases r)
    case None
    with assms t have "st' = snd (refuse i name ([CHR 0xE5, CHR 0xB7, CHR 0xB2, CHR 0xE5, CHR 0x8F, CHR 0x96, CHR 0xE6, CHR 0xB6, CHR 0x88]) ([CHR 0xE5, CHR 0xB7, CHR 0xB2, CHR 0xE5, CHR 0x8F, CHR 0x96, CHR 0xE6, CHR 0xB6, CHR 0x88]) st1)"
      by (simp add: run_allowed_def)
    then show ?thesis by simp
  next
    case (Some q)
    with assms t have "st' = snd (finish_call a out s tr i name input (fst q) (snd q) st1)"
      by (cases q) (simp add: run_allowed_def)
    then show ?thesis by simp
  qed
  then show ?thesis by (intro starts_one_trans [OF _ _ run_tool_started [OF t]]) auto
qed

lemma exec_ids: "ids (fst (execute_single_tool a out s c st)) = [fst c]"
  by (cases c) (auto simp: execute_single_tool_def Let_def run_allowed_ids
      split: prod.splits option.splits PolicyDecision.splits)

lemma starts_oneD:
  assumes "starts_one a out (i, name, input) st st'"
    and "case check_tool_call a name input of Allow \<Rightarrow> True | Deny r \<Rightarrow> False
      | Warn m \<Rightarrow> wants_confirmation a name input \<and> \<not> user_disabled a name \<and> has_confirmations a \<longrightarrow>
          (\<exists>n. PermissionRequest (fresh_uuid out n) name input m \<in> set (events st) \<and> approves out (Suc n))"
  shows "progress st st' \<and> (started st' = started st \<or>
    (\<exists>limit. started st' = started st @ [(i, name, input, limit)] \<and>
       may_start a out (events st') (i, name, input, limit)))"
proof -
  have p: "progress st st'" "set (events st) \<subseteq> set (events st')"
    using assms(1) by (simp_all add: starts_one_def progress_def)
  show ?thesis
  proof (cases "started st' = started st")
    case False
    with assms(1) obtain t n where t: "get_tool (registry a) name = Some t" "hook_denies out n i name input = None"
      "started st' = started st @ [(i, name, input, time_limit t input)]"
      by (auto simp: starts_one_def)
    with assms(2) have "may_start a out (events st) (i, name, input, time_limit t input)"
      by (auto simp: may_start_def split: PolicyDecision.splits)
    from may_start_mono [OF this p(2)] t(3) p(1) show ?thesis by blast
  qed (use p in simp)
qed

lemma exec_started:
  assumes "execute_single_tool a out s (i, name, input) st = (bs, st')"
  shows "progress st st' \<and> (started st' = started st \<or>
    (\<exists>limit. started st' = started st @ [(i, name, input, limit)] \<and>
       may_start a out (events st') (i, name, input, limit)))"
proof -
  let ?st = "next_tick st" and ?tr = "fresh_simple_uuid out (tick st)"
  obtain r st1 where rate: "check_tool_rate_limit a out s ?st = (r, st1)" by force
  from rate_limit_started [OF rate] have st1: "started st1 = started st" "progress st st1"
    using progress_from(1) by simp_all
  note d = execute_single_tool_def and t = progress_trans [OF st1(2)]
  show ?thesis
  proof (cases r)
    case (Some reason)
    with assms rate have "st' = snd (refuse i name reason reason st1)" by (simp add: d)
    with st1 t show ?thesis by simp
  next
    case None
    show ?thesis
    proof (cases "check_tool_call a name input")
      case Allow
      with assms rate None have "run_allowed a out s ?tr (i, name, input) st1 = (bs, st')" by (simp add: d)
      from starts_oneD [OF run_allowed_started [OF this]] Allow st1 t show ?thesis by auto
    next
      case (Deny reason)
      with assms rate None have "st' = snd (refuse i name (''Denied by policy: '' @ reason) (''Error: '' @ reason) st1)"
        by (simp add: d)
      with st1 t show ?thesis by simp
    next
      case (Warn m)
      obtain q st2 where ask: "ask_user a out name input m st1 = (q, st2)" by force
      note a = ask_user_started [OF ask]
      show ?thesis
      proof (cases q)
        case (Some reason)
        with assms rate None Warn ask have "st' = snd (refuse i name reason reason st2)" by (simp add: d)
        with a st1 t progress_trans show ?thesis by (metis refuse_simps(2,3))
      next
        case q: None
        with assms rate None Warn ask have "run_allowed a out s ?tr (i, name, input) st2 = (bs, st')" by (simp add: d)
        from starts_oneD [OF run_allowed_started [OF this]] a q Warn st1 t progress_trans show ?thesis by auto
      qed
    qed
  qed
qed

section \<open>All calls of a turn\<close>

text \<open>Runs of calls: what they start is among the calls, each at most once, and allowed.\<close>

definition starts_among :: "AgentLoop \<Rightarrow> outside \<Rightarrow> call list \<Rightarrow> run_state \<Rightarrow> run_state \<Rightarrow> bool" where
  "starts_among a out cs st st' \<longleftrightarrow>
     progress st st' \<and>
     (\<exists>new. started st' = started st @ new \<and> (\<forall>x \<in> set new. may_start a out (events st') x) \<and>
        mset (map (\<lambda>(i, n, j, l). (i, n, j)) new) \<subseteq># mset cs)"

lemma starts_none:
  "started st' = started st \<Longrightarrow> progress st st' \<Longrightarrow> starts_among a out cs st st'"
  by (auto simp: starts_among_def intro: exI [of _ "[]"])

lemma starts_refl [simp]: "starts_among a out cs st (next_tick st)"
  by (simp add: starts_none)

lemma starts_exec: "starts_among a out [c] st (snd (execute_single_tool a out s c st))"
proof -
  obtain i name input where c: "c = (i, name, input)" by (cases c)
  obtain bs st' where e: "execute_single_tool a out s c st = (bs, st')" by force
  note x = exec_started [OF e [unfolded c]]
  show ?thesis
  proof (cases "started st' = started st")
    case True
    with x show ?thesis by (simp add: e starts_none)
  next
    case False
    with x obtain limit where l: "started st' = started st @ [(i, name, input, limit)]"
      "may_start a out (events st') (i, name, input, limit)" by blast
    with x show ?thesis
      unfolding starts_among_def c e [unfolded c] snd_conv
      by (intro conjI exI [of _ "[(i, name, input, limit)]"]) simp_all
  qed
qed

lemma starts_trans:
  assumes "starts_among a out cs st st1" and "starts_among a out ds st1 st2"
  shows "starts_among a out (cs @ ds) st st2"
proof -
  let ?f = "\<lambda>(i, n, j, l). (i, n, j)"
  have e: "progress st st1" "progress st1 st2"
    using assms by (simp_all add: starts_among_def)
  obtain u where u: "started st1 = started st @ u" "\<forall>x \<in> set u. may_start a out (events st1) x" "mset (map ?f u) \<subseteq># mset cs"
    using assms(1) by (auto simp: starts_among_def)
  obtain v where v: "started st2 = started st1 @ v" "\<forall>x \<in> set v. may_start a out (events st2) x" "mset (map ?f v) \<subseteq># mset ds"
    using assms(2) by (auto simp: starts_among_def)
  have "mset (map ?f (u @ v)) \<subseteq># mset (cs @ ds)"
    using u(3) v(3) by (simp add: subset_mset.add_mono)
  moreover have "\<forall>x \<in> set (u @ v). may_start a out (events st2) x"
    using u(2) v(2) e(2) may_start_mono unfolding progress_def by (metis UnE set_append)
  ultimately show ?thesis
    unfolding starts_among_def using u(1) v(1) progress_trans [OF e] by (intro conjI exI [of _ "u @ v"]) auto
qed

lemma starts_next: "starts_among a out cs (next_tick st) st' \<Longrightarrow> starts_among a out cs st st'"
  by (auto simp: starts_among_def dest: progress_from)

lemma starts_mono: "starts_among a out cs st st' \<Longrightarrow> mset cs \<subseteq># mset ds \<Longrightarrow> starts_among a out ds st st'"
  unfolding starts_among_def by (blast intro: subset_mset.order_trans)

lemma run_each:
  "ids (fst (run_each a out s cs st)) = map fst cs \<and> starts_among a out cs st (snd (run_each a out s cs st))"
proof (induction cs arbitrary: st)
  case Nil
  then show ?case by (simp add: starts_none)
next
  case (Cons c cs)
  obtain bs st1 where e: "execute_single_tool a out s c st = (bs, st1)" by force
  obtain bs' st2 where r: "run_each a out s cs st1 = (bs', st2)" by force
  from exec_ids [of a out s c st] starts_exec [of a out c st s] e
  have one: "ids bs = [fst c]" "starts_among a out [c] st st1" by simp_all
  from Cons.IH [of st1] r have rest: "ids bs' = map fst cs" "starts_among a out cs st1 st2" by simp_all
  from one rest starts_trans [OF one(2) rest(2)] show ?case by (simp add: e r)
qed

lemma run_reads:
  "prefix (ids (fst (run_reads a out s cs st))) (map fst cs) \<and>
   starts_among a out cs st (snd (run_reads a out s cs st))"
proof (induction a out s cs st rule: run_reads.induct)
  case (1 a out s st)
  then show ?case by (simp add: run_reads.simps starts_none)
next
  case (2 a out s c cs st)
  let ?n = READ_TOOL_MAX_CONCURRENCY
  show ?case
  proof (cases "cancelled out (tick st)")
    case True
    then show ?thesis by (simp add: run_reads.simps)
  next
    case False
    obtain bs st1 where e: "run_each a out s (take ?n (c # cs)) (next_tick st) = (bs, st1)" by force
    obtain bs' st2 where r: "run_reads a out s (drop ?n (c # cs)) st1 = (bs', st2)" by force
    from run_each [of a out s "take ?n (c # cs)" "next_tick st"] e
    have one: "ids bs = map fst (take ?n (c # cs))" "starts_among a out (take ?n (c # cs)) st st1"
      by (auto intro: starts_next)
    from 2 [OF False refl e [symmetric]] r
    have rest: "prefix (ids bs') (map fst (drop ?n (c # cs)))" "starts_among a out (drop ?n (c # cs)) st1 st2"
      by simp_all
    have "prefix (map fst (take ?n (c # cs)) @ ids bs') (map fst (take ?n (c # cs)) @ map fst (drop ?n (c # cs)))"
      using rest(1) by simp
    then have "prefix (ids (bs @ bs')) (map fst (c # cs))"
      using one(1) by (metis append_take_drop_id ids_append map_append)
    moreover have "starts_among a out (c # cs) st st2"
      using starts_trans [OF one(2) rest(2)] by (metis append_take_drop_id)
    moreover have "run_reads a out s (c # cs) st = (bs @ bs', st2)"
      using False e r by (simp add: run_reads.simps)
    ultimately show ?thesis by simp
  qed
qed

lemma run_writes:
  "prefix (ids (fst (run_writes a out s cs st))) (map fst cs) \<and>
   starts_among a out cs st (snd (run_writes a out s cs st))"
proof (induction cs arbitrary: st)
  case Nil
  then show ?case by (simp add: starts_none)
next
  case (Cons c cs)
  show ?case
  proof (cases "cancelled out (tick st)")
    case False
    obtain bs st1 where e: "execute_single_tool a out s c (next_tick st) = (bs, st1)" by force
    obtain bs' st2 where r: "run_writes a out s cs st1 = (bs', st2)" by force
    from exec_ids [of a out s c "next_tick st"] starts_exec [of a out c "next_tick st" s] e
    have one: "ids bs = [fst c]" "starts_among a out [c] st st1" by (auto intro: starts_next)
    from Cons.IH [of st1] r have rest: "prefix (ids bs') (map fst cs)" "starts_among a out cs st1 st2" by simp_all
    from False one rest starts_trans [OF one(2) rest(2)] show ?thesis by (simp add: e r)
  qed simp
qed

text \<open>The parts of \<open>run_calls\<close>: what is blocked, and what runs.\<close>

abbreviation active_calls :: "string list \<Rightarrow> call list \<Rightarrow> call list" where
  "active_calls blocked cs \<equiv> filter (\<lambda>(i, n, j). i \<notin> set blocked) cs"

lemma run_calls_cases:
  obtains st0 rs ws st1 st2 where
    "started st0 = started st" "progress st st0"
    "run_reads a out s (filter (is_read_call a) (active_calls blocked cs)) st0 = (rs, st1)"
    "run_writes a out s (filter (\<lambda>c. \<not> is_read_call a c) (active_calls blocked cs)) st1 = (ws, st2)"
    "run_calls a out s cs blocked warns st =
       (ensure_tool_results_complete cs
          (map (\<lambda>(i, n, j). ToolResult i (blocked_text warns n) True) (filter (\<lambda>(i, n, j). i \<in> set blocked) cs) @ rs @ ws)
          ''Tool execution was cancelled or interrupted before completion.'', st2)"
proof -
  let ?B = "filter (\<lambda>(i, n, j). i \<in> set blocked) cs"
  let ?st = "fold (\<lambda>(i, n, j). emit (ToolEnd i n (blocked_text warns n) True)) ?B st"
  have keep: "started (fold (\<lambda>(i, n, j). emit (ToolEnd i n (blocked_text warns n) True)) xs st') = started st'" for xs st'
    by (induction xs arbitrary: st') auto
  obtain rs st1 where r: "run_reads a out s (filter (is_read_call a) (active_calls blocked cs)) ?st = (rs, st1)" by force
  obtain ws st2 where w: "run_writes a out s (filter (\<lambda>c. \<not> is_read_call a c) (active_calls blocked cs)) st1 = (ws, st2)"
    by force
  have more: "progress st' (fold (\<lambda>(i, n, j). emit (ToolEnd i n (blocked_text warns n) True)) xs st')" for xs st'
  proof (induction xs arbitrary: st')
    case (Cons x xs)
    obtain i n j where "x = (i, n, j)" by (cases x)
    with Cons [of "emit (ToolEnd i n (blocked_text warns n) True) st'"] show ?case by (auto dest: progress_from(2))
  qed simp
  show ?thesis by (rule that [OF keep more r w]) (simp only: run_calls_def Let_def r w split)
qed

lemma ids_complete:
  "ids (ensure_tool_results_complete cs bs m) = ids bs @ filter (\<lambda>k. k \<notin> set (ids bs)) (map fst cs)"
proof -
  have "ids (map (\<lambda>(k, n, j). ToolResult k m True) xs) = map fst xs" for xs :: "call list"
    by (induction xs) auto
  moreover have "map fst (filter (\<lambda>(k, n, j). k \<notin> X) cs) = filter (\<lambda>k. k \<notin> X) (map fst cs)" for X
    by (induction cs) auto
  ultimately show ?thesis by (simp add: ensure_tool_results_complete_def Let_def)
qed

lemma distinct_three:
  "distinct bs \<Longrightarrow> distinct rs \<Longrightarrow> distinct ws \<Longrightarrow> set rs \<subseteq> R \<Longrightarrow> set ws \<subseteq> W \<Longrightarrow> R \<inter> W = {} \<Longrightarrow> R \<union> W \<subseteq> A \<Longrightarrow>
     set bs \<inter> A = {} \<Longrightarrow> distinct (bs @ rs @ ws)"
  by auto

lemma distinct_parts:
  assumes "distinct (map fst cs)"
  shows "set (map fst (filter P cs)) \<inter> set (map fst (filter (\<lambda>c. \<not> P c) cs)) = {}"
  using assms by (auto simp: distinct_map inj_on_def)

lemma run_calls_ids:
  assumes "distinct (map fst cs)"
  shows "distinct (ids (fst (run_calls a out s cs blocked warns st)))"
    and "set (ids (fst (run_calls a out s cs blocked warns st))) = set (map fst cs)"
proof -
  obtain st0 rs ws st1 st2 where
    r: "run_reads a out s (filter (is_read_call a) (active_calls blocked cs)) st0 = (rs, st1)"
    and w: "run_writes a out s (filter (\<lambda>c. \<not> is_read_call a c) (active_calls blocked cs)) st1 = (ws, st2)"
    and e: "run_calls a out s cs blocked warns st =
       (ensure_tool_results_complete cs
          (map (\<lambda>(i, n, j). ToolResult i (blocked_text warns n) True) (filter (\<lambda>(i, n, j). i \<in> set blocked) cs) @ rs @ ws)
          ''Tool execution was cancelled or interrupted before completion.'', st2)"
    by (rule run_calls_cases)
  let ?A = "active_calls blocked cs" and ?B = "filter (\<lambda>(i, n, j). i \<in> set blocked) cs"
  let ?b = "map (\<lambda>(i, n, j). ToolResult i (blocked_text warns n) True) ?B"
  have b: "ids ?b = map fst ?B"
  proof -
    have "ids (map (\<lambda>(i, n, j). ToolResult i (blocked_text warns n) True) xs) = map fst xs" for xs :: "call list"
      by (induction xs) auto
    then show ?thesis by simp
  qed
  have pr: "prefix (ids rs) (map fst (filter (is_read_call a) ?A))"
    using run_reads [of a out s "filter (is_read_call a) ?A" st0] r by simp
  have pw: "prefix (ids ws) (map fst (filter (\<lambda>c. \<not> is_read_call a c) ?A))"
    using run_writes [of a out s "filter (\<lambda>c. \<not> is_read_call a c) ?A" st1] w by simp
  have dA: "distinct (map fst (filter P cs))" for P using assms by (rule distinct_map_filter)
  then have dA': "distinct (map fst (filter Q ?A))" for Q by (rule distinct_map_filter)
  have dr: "distinct (ids rs)" and dw: "distinct (ids ws)"
    using pr pw dA' distinct_append by (metis prefixE)+
  have d: "distinct (ids (?b @ rs @ ws))"
    unfolding ids_append b
  proof (rule distinct_three [OF dA dr dw set_mono_prefix [OF pr] set_mono_prefix [OF pw]])
    show "set (map fst (filter (is_read_call a) ?A)) \<inter> set (map fst (filter (\<lambda>c. \<not> is_read_call a c) ?A)) = {}"
      using dA by (rule distinct_parts)
    show "set (map fst (filter (is_read_call a) ?A)) \<union> set (map fst (filter (\<lambda>c. \<not> is_read_call a c) ?A)) \<subseteq> fst ` set ?A"
      by auto
    show "set (map fst ?B) \<inter> fst ` set ?A = {}" by auto
  qed
  have sub: "set (ids (?b @ rs @ ws)) \<subseteq> set (map fst cs)"
    using set_mono_prefix [OF pr] set_mono_prefix [OF pw] unfolding ids_append b by auto
  show "distinct (ids (fst (run_calls a out s cs blocked warns st)))"
    using d assms by (auto simp only: e fst_conv ids_complete distinct_append set_filter distinct_filter)
  show "set (ids (fst (run_calls a out s cs blocked warns st))) = set (map fst cs)"
    using sub by (auto simp only: e fst_conv ids_complete set_append set_filter)
qed

lemma run_calls_starts:
  "starts_among a out (active_calls blocked cs) st (snd (run_calls a out s cs blocked warns st))"
proof -
  obtain st0 rs ws st1 st2 where
    s0: "started st0 = started st" and e0: "progress st st0" and
    r: "run_reads a out s (filter (is_read_call a) (active_calls blocked cs)) st0 = (rs, st1)"
    and w: "run_writes a out s (filter (\<lambda>c. \<not> is_read_call a c) (active_calls blocked cs)) st1 = (ws, st2)"
    and e: "run_calls a out s cs blocked warns st =
       (ensure_tool_results_complete cs
          (map (\<lambda>(i, n, j). ToolResult i (blocked_text warns n) True) (filter (\<lambda>(i, n, j). i \<in> set blocked) cs) @ rs @ ws)
          ''Tool execution was cancelled or interrupted before completion.'', st2)"
    by (rule run_calls_cases)
  let ?A = "active_calls blocked cs"
  have "starts_among a out (filter (is_read_call a) ?A) st0 st1"
    "starts_among a out (filter (\<lambda>c. \<not> is_read_call a c) ?A) st1 st2"
    using run_reads [of a out s "filter (is_read_call a) ?A" st0] r
      run_writes [of a out s "filter (\<lambda>c. \<not> is_read_call a c) ?A" st1] w by simp_all
  from starts_trans [OF this]
  have both: "starts_among a out (filter (is_read_call a) ?A @ filter (\<lambda>c. \<not> is_read_call a c) ?A) st st2"
    unfolding starts_among_def s0 using e0 progress_trans by blast
  have "mset (filter (is_read_call a) ?A @ filter (\<lambda>c. \<not> is_read_call a c) ?A) \<subseteq># mset ?A"
    unfolding mset_append mset_filter multiset_partition [symmetric] by simp
  with both have "starts_among a out ?A st st2" by (rule starts_mono)
  then show ?thesis unfolding e snd_conv .
qed

text \<open>The blocks that calls give are results and images.\<close>

abbreviation results_only :: "ContentBlock list \<Rightarrow> bool" where
  "results_only bs \<equiv> list_all is_result_or_image bs"

lemma only_refuse: "results_only (fst (refuse i name t c st))"
  by (simp add: refuse_def)

lemma only_finish: "results_only (fst (finish_call a out s tr i name input r env st))"
  by (auto simp: finish_call_def Let_def split: option.splits prod.splits)

lemma only_exec: "results_only (fst (execute_single_tool a out s c st))"
  by (cases c) (auto simp: execute_single_tool_def run_allowed_def Let_def only_refuse only_finish
      split: prod.splits option.splits PolicyDecision.splits)

lemma only_each: "results_only (fst (run_each a out s cs st))"
proof (induction cs arbitrary: st)
  case (Cons c cs)
  obtain bs st1 where e: "execute_single_tool a out s c st = (bs, st1)" by force
  obtain bs' st2 where r: "run_each a out s cs st1 = (bs', st2)" by force
  from only_exec [of a out s c st] Cons.IH [of st1] show ?case by (simp add: e r)
qed simp

lemma only_reads: "results_only (fst (run_reads a out s cs st))"
proof (induction a out s cs st rule: run_reads.induct)
  case (1 a out s st)
  then show ?case by (simp add: run_reads.simps)
next
  case (2 a out s c cs st)
  show ?case
  proof (cases "cancelled out (tick st)")
    case False
    obtain bs st1 where e: "run_each a out s (take READ_TOOL_MAX_CONCURRENCY (c # cs)) (next_tick st) = (bs, st1)" by force
    obtain bs' st2 where r: "run_reads a out s (drop READ_TOOL_MAX_CONCURRENCY (c # cs)) st1 = (bs', st2)" by force
    have "results_only bs" using only_each [of a out s "take READ_TOOL_MAX_CONCURRENCY (c # cs)" "next_tick st"] by (simp add: e)
    moreover have "results_only bs'" using 2 [OF False refl e [symmetric]] by (simp add: r)
    moreover have "run_reads a out s (c # cs) st = (bs @ bs', st2)"
      using False e r by (simp add: run_reads.simps)
    ultimately show ?thesis by simp
  qed (simp add: run_reads.simps)
qed

lemma only_writes: "results_only (fst (run_writes a out s cs st))"
proof (induction cs arbitrary: st)
  case (Cons c cs)
  obtain bs st1 where e: "execute_single_tool a out s c (next_tick st) = (bs, st1)" by force
  obtain bs' st2 where r: "run_writes a out s cs st1 = (bs', st2)" by force
  from only_exec [of a out s c "next_tick st"] Cons.IH [of st1] show ?case by (simp add: e r)
qed simp

lemma only_calls: "results_only (fst (run_calls a out s cs blocked warns st))"
proof -
  obtain st0 rs ws st1 st2 where
    r: "run_reads a out s (filter (is_read_call a) (active_calls blocked cs)) st0 = (rs, st1)"
    and w: "run_writes a out s (filter (\<lambda>c. \<not> is_read_call a c) (active_calls blocked cs)) st1 = (ws, st2)"
    and e: "run_calls a out s cs blocked warns st =
       (ensure_tool_results_complete cs
          (map (\<lambda>(i, n, j). ToolResult i (blocked_text warns n) True) (filter (\<lambda>(i, n, j). i \<in> set blocked) cs) @ rs @ ws)
          ''Tool execution was cancelled or interrupted before completion.'', st2)"
    by (rule run_calls_cases)
  have "results_only rs" "results_only ws"
    using only_reads [of a out s "filter (is_read_call a) (active_calls blocked cs)" st0]
      only_writes [of a out s "filter (\<lambda>c. \<not> is_read_call a c) (active_calls blocked cs)" st1]
    unfolding r w fst_conv by simp_all
  moreover have "results_only (map (\<lambda>(i, n, j). ToolResult i (f n) True) xs)" for f and xs :: "call list"
    by (induction xs) auto
  ultimately show ?thesis by (simp add: e ensure_tool_results_complete_def Let_def)
qed

lemma only_no_uses: "results_only bs \<Longrightarrow> List.map_filter use_id bs = []"
proof (induction bs)
  case (Cons b bs)
  then show ?case by (cases b) (simp_all add: List.map_filter_simps)
qed (simp add: List.map_filter_simps)

section \<open>The turn\<close>

lemma effects_push [simp]: "effects_of (push_message m s) = effects_of s" "log (push_message m s) = log s @ [m]"
  "loop_detector (push_message m s) = loop_detector s"
  by (simp_all add: push_message_def)

lemma note_one_keeps: "log (note_block_result p cs b s) = log s"
  by (cases b) (simp_all split: option.splits prod.splits)

lemma note_keeps [simp]: "log (fold (note_block_result p cs) bs s) = log s"
  by (induction bs arbitrary: s) (simp_all add: note_one_keeps)

abbreviation blocked_calls :: "AgentLoop \<Rightarrow> call list \<Rightarrow> loop_state \<Rightarrow> string list" where
  "blocked_calls a cs s \<equiv> fst (fst (detect_calls (al_platform a) cs cs (loop_detector s)))"

definition user_blocks :: "ContentBlock list \<Rightarrow> LlmMessage" where
  "user_blocks bs = \<lparr>lm_role = ''user'', lm_content = Blocks bs\<rparr>"

lemma tool_turn_cases:
  obtains st0 warns results st1 tail where
    "started st0 = started (effects_of s)" "progress (effects_of s) st0"
    "run_calls a out sid cs (blocked_calls a cs s) warns st0 = (results, st1)"
    "started (effects_of (snd (tool_turn a out sid halted t cs s))) = started st1"
    "progress st1 (effects_of (snd (tool_turn a out sid halted t cs s)))"
    "log (snd (tool_turn a out sid halted t cs s)) =
       repair_log (js_of a) (log s @ [assistant_message t cs, user_blocks results]) @ tail"
    "tail = [] \<or> (\<exists>r. tail = [text_message ''user'' r])"
proof -
  obtain blocked warns d where d: "detect_calls (al_platform a) cs cs (loop_detector s) = ((blocked, warns), d)"
    by (metis prod.collapse)
  let ?st0 = "if blocked \<noteq> [] \<and> length blocked = length cs
    then emit (TextDelta (([CHR 0x0A, CHR 0x0A] @ ''['' @
       [CHR 0xE7, CHR 0xB3, CHR 0xBB, CHR 0xE7, CHR 0xBB, CHR 0x9F] @ ''] '') @ join [CHR 0x0A] warns @ [CHR 0x0A])) (effects_of s) else effects_of s"
  obtain results st1 where r: "run_calls a out sid cs blocked warns ?st0 = (results, st1)" by force
  let ?s = "snd (tool_turn a out sid halted t cs s)"
  have s: "started (effects_of ?s) = started st1 \<and> progress st1 (effects_of ?s) \<and>
    (\<exists>tail. log ?s = repair_log (js_of a) (log s @ [assistant_message t cs, user_blocks results]) @ tail \<and>
       (tail = [] \<or> (\<exists>r. tail = [text_message ''user'' r])))"
    unfolding tool_turn_def Let_def d r split user_blocks_def text_message_def
    by (auto split: option.split)
  show ?thesis
    by (rule exE [OF conjunct2 [OF conjunct2 [OF s]]], rule that [of ?st0 warns results st1])
      (use s r in \<open>auto simp: d\<close>)
qed

section \<open>Repairing the log\<close>

text \<open>All results of a log, in order. In a good log no call has two, and only the assistant calls tools.\<close>

definition result_log :: "LlmMessage list \<Rightarrow> string list" where
  "result_log ms = concat (map result_ids ms)"

definition calls_ok :: "LlmMessage \<Rightarrow> bool" where
  "calls_ok m \<longleftrightarrow> collect_tool_use_ids m = [] \<or> lm_role m = ''assistant''"

definition good_log :: "LlmMessage list \<Rightarrow> bool" where
  "good_log ms \<longleftrightarrow> log_ok None ms \<and> distinct (result_log ms) \<and> list_all calls_ok ms"

lemma calls_ok_retain: "calls_ok m \<Longrightarrow> calls_ok (retain_blocks keep m)"
  unfolding calls_ok_def collect_tool_use_ids_def blocks_retain role_retain List.map_filter_def
  by (auto simp: filter_empty_conv)

lemma calls_ok_drop_empty: "list_all calls_ok ms \<Longrightarrow> list_all calls_ok (drop_empty ms)"
  by (auto simp: drop_empty_def list_all_iff)

lemma calls_ok_prune: "list_all calls_ok ms \<Longrightarrow> list_all calls_ok (prune keep ms)"
  unfolding prune_def by (rule calls_ok_drop_empty) (auto simp: list_all_iff calls_ok_retain)

lemma calls_ok_strip: "list_all calls_ok ms \<Longrightarrow> list_all calls_ok (strip_carriers r ms)"
  by (induction ms) (auto simp: Let_def calls_ok_retain)

lemma calls_ok_sanitize_loop: "list_all calls_ok ms \<Longrightarrow> list_all calls_ok (sanitize_loop ms)"
proof (induction ms rule: sanitize_loop.induct)
  case (2 m rest)
  show ?case
  proof (cases "lm_role m \<noteq> ''assistant'' \<or> collect_tool_use_ids m = []")
    case True
    with 2 show ?thesis by auto
  next
    case False
    have "calls_ok (fst (sanitize_one m rest))" "list_all calls_ok (snd (sanitize_one m rest))"
      using 2(4) by (simp_all add: sanitize_one_def Let_def calls_ok_retain calls_ok_strip)
    with False 2(2,3) show ?thesis by (auto simp: Let_def)
  qed
qed simp

lemma result_log_simps [simp]:
  "result_log [] = []" "result_log (m # ms) = result_ids m @ result_log ms"
  "result_log (ms @ ns) = result_log ms @ result_log ns"
  by (simp_all add: result_log_def)

lemma result_log_blocks: "result_log ms = ids (concat (map blocks ms))"
  by (induction ms) (simp_all add: result_ids_def)

lemma subseq_map_filter: "subseq xs ys \<Longrightarrow> subseq (List.map_filter f xs) (List.map_filter f ys)"
  by (induction rule: list_emb.induct) (auto simp: List.map_filter_simps split: option.split)

lemma subseq_distinct: "subseq xs ys \<Longrightarrow> distinct ys \<Longrightarrow> distinct xs"
  by (metis distinct_nthsI subseq_conv_nths)

lemma subseq_set: "subseq xs ys \<Longrightarrow> set xs \<subseteq> set ys"
  by (induction rule: list_emb.induct) auto

lemma subseq_retain: "subseq (result_ids (retain_blocks keep m)) (result_ids m)"
  unfolding result_ids_def blocks_retain by (intro subseq_map_filter) simp

lemma subseq_drop_empty: "subseq (result_log (drop_empty ms)) (result_log ms)"
  by (induction ms) (auto simp: drop_empty_def intro: list_emb_append_mono)

lemma subseq_prune: "subseq (result_log (prune keep ms)) (result_log ms)"
proof -
  have "subseq (result_log (map (retain_blocks keep) ms)) (result_log ms)"
    by (induction ms) (auto intro: list_emb_append_mono subseq_retain)
  with subseq_drop_empty show ?thesis unfolding prune_def by (rule subseq_order.trans)
qed

lemma subseq_strip: "subseq (result_log (strip_carriers r ms)) (result_log ms)"
  by (induction ms) (auto simp: Let_def intro: list_emb_append_mono subseq_retain)

lemma subseq_sanitize_one:
  "subseq (result_ids (fst (sanitize_one m ms))) (result_ids m)"
  "subseq (result_log (snd (sanitize_one m ms))) (result_log ms)"
  by (simp_all add: sanitize_one_def Let_def subseq_strip)

lemma subseq_sanitize_loop: "subseq (result_log (sanitize_loop ms)) (result_log ms)"
proof (induction ms rule: sanitize_loop.induct)
  case (2 m rest)
  show ?case
  proof (cases "lm_role m \<noteq> ''assistant'' \<or> collect_tool_use_ids m = []")
    case True
    with 2 show ?thesis by (auto intro: list_emb_append_mono)
  next
    case False
    note one = subseq_sanitize_one [of m rest]
    let ?r = "sanitize_loop (snd (sanitize_one m rest))"
    have r: "subseq (result_log ?r) (result_log rest)"
      using 2(2,3) False one(2) by (metis subseq_order.trans)
    have "subseq (result_ids (fst (sanitize_one m rest)) @ result_log ?r) (result_ids m @ result_log rest)"
      using one(1) r by (rule list_emb_append_mono)
    with r False show ?thesis by (auto simp: Let_def)
  qed
qed simp

lemma ids_unique:
  "distinct (List.map_filter f bs) \<Longrightarrow> b \<in> set bs \<Longrightarrow> c \<in> set bs \<Longrightarrow> f b = Some k \<Longrightarrow> f c = Some k \<Longrightarrow> b = c"
  by (induction bs) (auto simp: List.map_filter_simps set_map_filter split: option.splits)

lemma superseded_is_error: "superseded ms l b = Some k \<Longrightarrow> \<exists>c. b = ToolResult k c True"
  by (cases b) (auto split: if_splits option.splits prod.splits)

lemma collapse_prunes:
  assumes "distinct (result_log ms)"
  shows "collapse_superseded_tool_failures js ms = ms \<or>
    (\<exists>gone. collapse_superseded_tool_failures js ms = prune (without_ids gone) ms)"
proof -
  let ?gone = "superseded_ids ms (call_log_of js ms)"
  have same: "not_superseded ?gone b = without_ids ?gone b" if b: "b \<in> set (concat (map blocks ms))" for b
  proof (cases b)
    case (ToolResult k c e)
    have "e" if "k \<in> set ?gone"
    proof -
      from that obtain b' where b': "b' \<in> set (concat (map blocks ms))" "superseded ms (call_log_of js ms) b' = Some k"
        unfolding superseded_ids_def set_map_filter by blast
      then obtain c' where c': "b' = ToolResult k c' True" using superseded_is_error by blast
      with ids_unique [OF assms [unfolded result_log_blocks] b b'(1), of k] ToolResult show "e" by simp
    qed
    with ToolResult show ?thesis by auto
  qed simp_all
  have "retain_blocks (not_superseded ?gone) m = retain_blocks (without_ids ?gone) m" if m: "m \<in> set ms" for m
  proof (cases "lm_content m")
    case (Blocks bs)
    have "not_superseded ?gone b = without_ids ?gone b" if "b \<in> set bs" for b
    proof (rule same)
      from that Blocks have "b \<in> set (blocks m)" by simp
      with m show "b \<in> set (concat (map blocks ms))" by auto
    qed
    then have "filter (not_superseded ?gone) bs = filter (without_ids ?gone) bs"
      by (intro filter_cong refl)
    with Blocks show ?thesis by (simp add: retain_blocks_def)
  qed (simp add: retain_blocks_def)
  then have "prune (not_superseded ?gone) ms = prune (without_ids ?gone) ms"
    unfolding prune_def by (simp cong: map_cong)
  then show ?thesis by (auto simp: collapse_superseded_tool_failures_def Let_def)
qed

lemma good_prune: "good_log ms \<Longrightarrow> good_log (prune (without_ids gone) ms)"
  unfolding good_log_def using subseq_prune subseq_distinct by (blast intro: prune_log_ok calls_ok_prune)

lemma good_repair: "good_log ms \<Longrightarrow> good_log (repair_log js ms)"
proof -
  assume g: "good_log ms"
  then have c: "good_log (collapse_superseded_tool_failures js ms)"
    using collapse_prunes [of ms js] good_prune by (auto simp: good_log_def)
  have "good_log (sanitize_tool_use_result_pairing ns)" if "good_log ns" for ns
    using that subseq_drop_empty [of "sanitize_loop ns"] subseq_sanitize_loop [of ns]
    by (auto simp: good_log_def log_ok_sanitize sanitize_tool_use_result_pairing_def intro: log_ok_drop_empty
        log_ok_sanitize_loop subseq_distinct calls_ok_drop_empty calls_ok_sanitize_loop)
  from this [OF c] show ?thesis
    unfolding repair_log_def strip_ephemeral_tool_exchanges_def Let_def by (auto intro: good_prune)
qed

section \<open>The log after a turn\<close>

lemma log_ok_snoc: "log_ok p (ms @ [m]) \<longleftrightarrow>
   log_ok p ms \<and> (result_ids m \<noteq> [] \<longrightarrow> answers_call (if ms = [] then p else Some (last ms)) m)"
  by (induction ms arbitrary: p) auto

lemma good_text [simp]: "good_log (ms @ [text_message r t]) \<longleftrightarrow> good_log ms"
  by (simp add: good_log_def log_ok_snoc text_message_def result_ids_def collect_tool_use_ids_def calls_ok_def
      List.map_filter_simps)

lemma assistant_ids [simp]:
  "collect_tool_use_ids (assistant_message t cs) = map fst cs" "result_ids (assistant_message t cs) = []"
  "lm_role (assistant_message t cs) = ''assistant''"
proof -
  have "List.map_filter use_id (map (\<lambda>(i, n, j). ToolUse i n j) cs) = map fst cs"
    "List.map_filter result_id (map (\<lambda>(i, n, j). ToolUse i n j) cs) = []"
    by (induction cs) (auto simp: List.map_filter_simps)
  then show "collect_tool_use_ids (assistant_message t cs) = map fst cs" "result_ids (assistant_message t cs) = []"
    by (simp_all add: assistant_message_def collect_tool_use_ids_def result_ids_def List.map_filter_simps)
qed (simp add: assistant_message_def)

lemma good_exchange:
  assumes "good_log ms" and "distinct (ids bs)" and "set (ids bs) = set (map fst cs)"
    and "set (map fst cs) \<inter> set (result_log ms) = {}" and "List.map_filter use_id bs = []"
  shows "good_log (ms @ [assistant_message t cs, user_blocks bs])"
proof -
  have r: "result_ids (user_blocks bs) = ids bs" by (simp add: result_ids_def user_blocks_def)
  have "log_ok None ((ms @ [assistant_message t cs]) @ [user_blocks bs])"
    using assms(1,3) unfolding log_ok_snoc good_log_def
    by (simp add: r answers_call_def) (simp add: user_blocks_def)
  moreover have "calls_ok (user_blocks bs)" "calls_ok (assistant_message t cs)"
    using assms(5) by (simp_all add: calls_ok_def collect_tool_use_ids_def user_blocks_def)
  ultimately show ?thesis using assms by (auto simp: good_log_def r)
qed

text \<open>A turn keeps a good log good, when its calls have ids of their own.\<close>

lemma tool_turn_good:
  assumes "good_log (log s)" and "distinct (map fst cs)" and "set (map fst cs) \<inter> set (result_log (log s)) = {}"
  shows "good_log (log (snd (tool_turn a out sid halted t cs s)))"
proof -
  obtain st0 warns results st1 tail where
    r: "run_calls a out sid cs (blocked_calls a cs s) warns st0 = (results, st1)" and
    l: "log (snd (tool_turn a out sid halted t cs s)) =
       repair_log (js_of a) (log s @ [assistant_message t cs, user_blocks results]) @ tail" and
    tail: "tail = [] \<or> (\<exists>r. tail = [text_message ''user'' r])"
    by (rule tool_turn_cases)
  have "distinct (ids results)" "set (ids results) = set (map fst cs)"
    using run_calls_ids [OF assms(2), of a out sid "blocked_calls a cs s" warns st0] by (simp_all add: r)
  moreover have "List.map_filter use_id results = []"
    using only_calls [of a out sid cs "blocked_calls a cs s" warns st0] by (simp add: r only_no_uses)
  ultimately have "good_log (log s @ [assistant_message t cs, user_blocks results])"
    using assms(1,3) by (intro good_exchange)
  from good_repair [OF this] tail show ?thesis by (auto simp: l)
qed

lemma tool_turn_starts:
  "starts_among a out (active_calls (blocked_calls a cs s) cs) (effects_of s)
     (effects_of (snd (tool_turn a out sid halted t cs s)))"
proof -
  obtain st0 warns results st1 tail where
    s0: "started st0 = started (effects_of s)" "progress (effects_of s) st0" and
    r: "run_calls a out sid cs (blocked_calls a cs s) warns st0 = (results, st1)" and
    s1: "started (effects_of (snd (tool_turn a out sid halted t cs s))) = started st1"
      "progress st1 (effects_of (snd (tool_turn a out sid halted t cs s)))"
    by (rule tool_turn_cases)
  have run: "starts_among a out (active_calls (blocked_calls a cs s) cs) st0 st1"
    using run_calls_starts [of a out "blocked_calls a cs s" cs st0 sid warns] by (simp add: r)
  have "starts_among a out [] (effects_of s) st0" by (rule starts_none [OF s0])
  from starts_trans [OF starts_trans [OF this run] starts_none [OF s1, of a out "[]"]] show ?thesis by simp
qed

text \<open>The results of the log after a turn are results it had or those of the turn.\<close>

lemma subseq_collapse: "subseq (result_log (collapse_superseded_tool_failures js ms)) (result_log ms)"
  by (simp add: collapse_superseded_tool_failures_def Let_def subseq_prune)

lemma subseq_repair: "subseq (result_log (repair_log js ms)) (result_log ms)"
proof -
  let ?c = "collapse_superseded_tool_failures js ms" and ?s = "sanitize_tool_use_result_pairing"
  have "subseq (result_log (strip_ephemeral_tool_exchanges (?s ?c))) (result_log (?s ?c))"
    by (simp add: strip_ephemeral_tool_exchanges_def Let_def subseq_prune)
  also have "subseq (result_log (?s ?c)) (result_log (sanitize_loop ?c))"
    by (simp add: sanitize_tool_use_result_pairing_def subseq_drop_empty)
  also have "subseq (result_log (sanitize_loop ?c)) (result_log ?c)" by (rule subseq_sanitize_loop)
  also have "subseq (result_log ?c) (result_log ms)" by (rule subseq_collapse)
  finally show ?thesis by (simp add: repair_log_def)
qed

lemma text_result_log [simp]: "result_ids (text_message r t) = []"
  by (simp add: text_message_def result_ids_def List.map_filter_simps)

lemma tool_turn_results:
  assumes "distinct (map fst cs)"
  shows "set (result_log (log (snd (tool_turn a out sid halted t cs s)))) \<subseteq> set (result_log (log s)) \<union> set (map fst cs)"
proof -
  obtain st0 warns results st1 tail where
    r: "run_calls a out sid cs (blocked_calls a cs s) warns st0 = (results, st1)" and
    l: "log (snd (tool_turn a out sid halted t cs s)) =
       repair_log (js_of a) (log s @ [assistant_message t cs, user_blocks results]) @ tail" and
    tail: "tail = [] \<or> (\<exists>r. tail = [text_message ''user'' r])"
    by (rule tool_turn_cases)
  have ids: "result_ids (user_blocks results) = ids results" by (simp add: result_ids_def user_blocks_def)
  have res: "set (ids results) = set (map fst cs)"
    using run_calls_ids(2) [OF assms, of a out sid "blocked_calls a cs s" warns st0] by (simp add: r)
  have "set (result_log (repair_log (js_of a) (log s @ [assistant_message t cs, user_blocks results])))
      \<subseteq> set (result_log (log s @ [assistant_message t cs, user_blocks results]))"
    using subseq_repair by (rule subseq_set)
  also have "\<dots> \<subseteq> set (result_log (log s)) \<union> set (map fst cs)" using res by (simp add: ids)
  finally show ?thesis using tail by (auto simp: l)
qed

text \<open>The turn of an answer.\<close>

lemma answer_turn_cases:
  assumes "answer_turn a out sid halted plan t cs n s = (c, n', s')"
  obtains (finished) "cs = []" "s' = push_message (text_message ''assistant'' t) s" "\<not> c"
  | (reminded) "cs = []" "s' = snd (tool_turn a out sid halted t [] (push_message
        (text_message ''user'' (todo_reminder (unfinished_todos plan sid))) (push_message (text_message ''assistant'' t) s)))"
  | (calls) "cs \<noteq> []" "s' = snd (tool_turn a out sid halted t cs s)"
proof (cases "cs = []")
  case True
  with assms that(1,2) show ?thesis
    by (cases "unfinished_todos plan sid \<noteq> [] \<and> n < TODO_REMINDER_MAX \<and> \<not> awaits_user t")
      (auto simp: answer_turn_def split: prod.splits)
next
  case False
  with assms that(3) show ?thesis by (auto simp: answer_turn_def split: prod.splits)
qed

lemma answer_turn_good:
  assumes "answer_turn a out sid halted plan t cs n s = (c, n', s')"
    and "good_log (log s)" and "distinct (map fst cs)" and "set (map fst cs) \<inter> set (result_log (log s)) = {}"
  shows "good_log (log s')" and "set (result_log (log s')) \<subseteq> set (result_log (log s)) \<union> set (map fst cs)"
proof -
  have both: "good_log (log s') \<and> set (result_log (log s')) \<subseteq> set (result_log (log s)) \<union> set (map fst cs)"
    using assms(1)
  proof (cases rule: answer_turn_cases)
    case finished
    with assms(2) show ?thesis by simp
  next
    case reminded
    let ?s = "push_message (text_message ''user'' (todo_reminder (unfinished_todos plan sid))) (push_message (text_message ''assistant'' t) s)"
    have "good_log (log ?s)" "result_log (log ?s) = result_log (log s)"
      using assms(2) good_text [of "log s @ [text_message ''assistant'' t]"] by simp_all
    with reminded tool_turn_good [of ?s "[]"] tool_turn_results [of "[]" a out sid halted t ?s] show ?thesis by simp
  next
    case calls
    with assms tool_turn_good tool_turn_results show ?thesis by blast
  qed
  then show "good_log (log s')" and "set (result_log (log s')) \<subseteq> set (result_log (log s)) \<union> set (map fst cs)"
    by simp_all
qed

lemma answer_turn_starts:
  assumes "answer_turn a out sid halted plan t cs n s = (c, n', s')"
  shows "starts_among a out cs (effects_of s) (effects_of s')"
  using assms
proof (cases rule: answer_turn_cases)
  case finished
  then show ?thesis by (simp add: starts_none)
next
  case reminded
  let ?s = "push_message (text_message ''user'' (todo_reminder (unfinished_todos plan sid))) (push_message (text_message ''assistant'' t) s)"
  from tool_turn_starts [of a out "[]" ?s sid halted t] reminded show ?thesis by simp
next
  case calls
  have "mset (active_calls (blocked_calls a cs s) cs) \<subseteq># mset cs" by (simp add: multiset_filter_subset)
  from starts_mono [OF tool_turn_starts this] calls show ?thesis by simp
qed

end
