(* ===== verification/Wire.thy ===== *)
theory Wire
  imports Requests Vision
begin

text \<open>
  What reaches the provider: when the images are delegated to a separate vision model, the results in
  the message that carries them are lost, and then the request does not match.
\<close>

section \<open>Replacing one message\<close>

lemma satisfied_update:
  "i < length ms \<Longrightarrow> result_ids (ms ! i) = [] \<Longrightarrow> result_ids m = [] \<Longrightarrow>
     collect_satisfied_tool_ids (ms[i := m]) = collect_satisfied_tool_ids ms"
proof (induction ms arbitrary: i)
  case (Cons a ms)
  then show ?case by (cases i) (auto simp: satisfied_Cons)
qed simp

lemma paired_update:
  "i < length ms \<Longrightarrow> result_ids (ms ! i) = [] \<Longrightarrow> result_ids m = [] \<Longrightarrow>
     lm_role (ms ! i) \<noteq> ''assistant'' \<Longrightarrow> lm_role m \<noteq> ''assistant'' \<Longrightarrow>
     paired (ms[i := m]) = paired ms"
proof (induction ms arbitrary: i)
  case (Cons a ms)
  then show ?case by (cases i) (auto simp: satisfied_update)
qed simp

lemma satisfied_append:
  "result_ids m = [] \<Longrightarrow> collect_satisfied_tool_ids (ms @ [m]) = collect_satisfied_tool_ids ms"
  by (induction ms) (auto simp: satisfied_Cons)

lemma paired_append:
  "result_ids m = [] \<Longrightarrow> lm_role m \<noteq> ''assistant'' \<Longrightarrow> paired (ms @ [m]) = paired ms"
  by (induction ms) (auto simp: satisfied_append)

lemma paired_nth:
  assumes "paired ms" and "i < length ms" and "lm_role (ms ! i) = ''assistant''"
  shows "set (collect_tool_use_ids (ms ! i)) \<subseteq> set (collect_satisfied_tool_ids (drop (Suc i) ms))"
  using assms
proof (induction ms arbitrary: i)
  case (Cons a ms)
  then show ?case by (cases i) auto
qed simp

lemma log_ok_nth:
  assumes "log_ok p ms" and "i < length ms" and "result_ids (ms ! i) \<noteq> []"
  shows "answers_call (if i = 0 then p else Some (ms ! (i - 1))) (ms ! i)"
  using assms
proof (induction ms arbitrary: i p)
  case (Cons a ms)
  show ?case
  proof (cases i)
    case 0
    with Cons.prems show ?thesis by simp
  next
    case (Suc j)
    with Cons.prems Cons.IH [of "Some a" j] show ?thesis by (cases j) auto
  qed
qed simp

section \<open>Images\<close>

lemma rposition_Some:
  assumes "rposition P xs = Some i"
  shows "i < length xs" and "P (xs ! i)"
proof -
  obtain j js where f: "filter (\<lambda>i. P (xs ! i)) [0..<length xs] = j # js" and i: "i = last (j # js)"
    using assms by (auto simp: rposition_def split: list.splits)
  have "i \<in> set (filter (\<lambda>i. P (xs ! i)) [0..<length xs])"
    unfolding f i by (rule last_in_set) simp
  then show "i < length xs" "P (xs ! i)" by auto
qed

lemma no_ids_selected [simp]:
  "result_ids (selected_message as) = []" "lm_role (selected_message as) = ''user''"
  by (auto simp: selected_message_def result_ids_def List.map_filter_def image_block_def filter_empty_conv)

lemma text_blocks [simp]:
  "result_ids \<lparr>lm_role = r, lm_content = Blocks (map TextBlock ts @ map analysis_block ss)\<rparr> = []"
  by (auto simp: result_ids_def List.map_filter_def filter_empty_conv analysis_block_def)

lemma map_filter_no_images:
  "(\<And>b. is_image b \<Longrightarrow> f b = None) \<Longrightarrow> List.map_filter f (filter (\<lambda>b. \<not> is_image b) bs) = List.map_filter f bs"
  by (induction bs) (auto simp: List.map_filter_simps split: option.splits)

lemma no_image_ids: "is_image b \<Longrightarrow> use_id b = None" "is_image b \<Longrightarrow> result_id b = None"
  by (cases b; simp)+

lemma key_without_images: "msg_key (retain_blocks (\<lambda>b. \<not> is_image b) m) = msg_key m"
  by (simp add: msg_key_def collect_tool_use_ids_def result_ids_def map_filter_no_images no_image_ids)

lemma paired_without_images: "paired (map (retain_blocks (\<lambda>b. \<not> is_image b)) ms) = paired ms"
  by (rule paired_keys) (simp add: key_without_images)

lemma wire_view_ok:
  assumes "log_ok None messages"
  shows "paired (wire_view c tm s messages store)" and "log_ok None (wire_view c tm s messages store)"
proof -
  have "log_ok p (ms @ [selected_message as])" if "log_ok p ms" for p ms as
    using that by (induction ms arbitrary: p) auto
  then show "paired (wire_view c tm s messages store)" "log_ok None (wire_view c tm s messages store)"
    using request_view_ok [OF assms]
    by (auto simp: wire_view_def inject_selected_context_def Let_def paired_append)
qed

section \<open>Properties\<close>

text \<open>
  C16. A request matches its tool calls and results exactly when no result is lost to the vision model:
  without a vision delegate always, with one if and only if the last message with images carries no
  tool result. A tool that returns an image puts it into the message of its result, so with a separate
  vision model the request after a screenshot does not match, unless images are selected.
\<close>

theorem wire_request_matches_iff:
  assumes "log_ok None messages" and "wc_transform_context c = id"
  shows "paired (fst (wire_messages c tm s messages store)) \<longleftrightarrow>
    wc_vision_delegate c = None \<or>
    (case rposition user_image (wire_view c tm s messages store) of
       None \<Rightarrow> True | Some i \<Rightarrow> result_ids (wire_view c tm s messages store ! i) = [])"
proof (cases "wc_vision_delegate c")
  case None
  with wire_view_ok(1) [OF assms(1)] assms(2) show ?thesis by (simp add: wire_messages_def)
next
  case (Some d)
  obtain complete model where d: "d = (complete, model)" by force
  let ?v = "wire_view c tm s messages store"
  let ?d = "delegate_vision_analysis complete model ?v"
  have wire: "paired (fst (wire_messages c tm s messages store)) = paired ?d"
    using Some d assms(2) by (simp add: wire_messages_def paired_without_images)
  show ?thesis
  proof (cases "rposition user_image ?v")
    case None
    with wire_view_ok(1) [OF assms(1)] wire Some show ?thesis by (simp add: delegate_vision_analysis_def)
  next
    case (Some i)
    note i = rposition_Some [OF Some]
    then have user: "lm_role (?v ! i) \<noteq> ''assistant''" by (simp add: user_image_def)
    obtain m where m: "?d = ?v[i := m]" "result_ids m = []" "lm_role m = ''user''"
    proof
      show "?d = ?v[i := \<lparr>lm_role = ''user'', lm_content =
          Blocks (map TextBlock (List.map_filter block_text (blocks (?v ! i))) @
            map analysis_block (map (\<lambda>(n, img). analysis_section (complete n (vision_request model img)))
              (enumerate 0 (filter is_image (blocks (?v ! i))))))\<rparr>]"
        using Some by (simp only: delegate_vision_analysis_def Let_def option.simps)
    qed (simp_all only: text_blocks LlmMessage.select_convs)
    show ?thesis
    proof (cases "result_ids (?v ! i) = []")
      case True
      then have "paired ?d = paired ?v" using i user m by (simp add: paired_update)
      with True Some wire \<open>wc_vision_delegate c = Some d\<close> wire_view_ok(1) [OF assms(1)] show ?thesis by simp
    next
      case False
      from log_ok_nth [OF wire_view_ok(2) [OF assms(1)] i(1) False] have a: "i \<noteq> 0"
        "lm_role (?v ! (i - 1)) = ''assistant''" "set (result_ids (?v ! i)) \<subseteq> set (collect_tool_use_ids (?v ! (i - 1)))"
        by (auto simp: answers_call_def split: if_splits)
      have "\<not> paired ?d"
      proof
        assume "paired ?d"
        from paired_nth [OF this, of "i - 1"] a i(1) m(1)
        have "set (collect_tool_use_ids (?v ! (i - 1))) \<subseteq> set (collect_satisfied_tool_ids (drop i ?d))"
          by simp
        moreover have "drop i ?d = m # drop (Suc i) ?d"
          using i(1) m(1) by (simp flip: Cons_nth_drop_Suc)
        ultimately have "collect_tool_use_ids (?v ! (i - 1)) = []" using m(2) by (simp add: satisfied_Cons)
        with a(3) False show False by simp
      qed
      with False Some wire \<open>wc_vision_delegate c = Some d\<close> show ?thesis by simp
    qed
  qed
qed

definition screenshot :: "LlmMessage list" where
  "screenshot = [said ''Look'', called [(''c1'', ''screen_capture'')],
     \<lparr>lm_role = ''user'', lm_content = Blocks [ToolResult ''c1'' ''captured'' False,
        Image \<lparr>is_source_type = ''base64'', is_media_type = ''image/png'', is_data = ''AA==''\<rparr>]\<rparr>]"

definition delegating :: wire_config where
  "delegating = \<lparr>wc_js = (\<lambda>_. ''{}''), wc_message_budget = 1000, wc_max_tool_result_tokens = 100,
     wc_vision_delegate = Some (\<lambda>_ _. Inr \<lparr>rs_content = ''A window'', rs_tool_calls = [], rs_input_tokens = 1,
       rs_output_tokens = 1\<rparr>, ''v''), wc_transform_context = id\<rparr>"

theorem wire_request_matches_iff_witness:
  "\<not> paired (fst (wire_messages delegating Map.empty ''s'' screenshot Map.empty)) \<and>
   paired (fst (wire_messages (delegating\<lparr>wc_vision_delegate := None\<rparr>) Map.empty ''s'' screenshot Map.empty))"
proof
  have log: "log_ok None screenshot" by code_simp
  have "rposition user_image (wire_view delegating Map.empty ''s'' screenshot Map.empty) = Some 2"
    "result_ids (wire_view delegating Map.empty ''s'' screenshot Map.empty ! 2) = [''c1'']" by code_simp+
  with wire_request_matches_iff [OF log, of delegating Map.empty "''s''" Map.empty]
  show "\<not> paired (fst (wire_messages delegating Map.empty ''s'' screenshot Map.empty))"
    by (simp add: delegating_def)
  show "paired (fst (wire_messages (delegating\<lparr>wc_vision_delegate := None\<rparr>) Map.empty ''s'' screenshot Map.empty))"
    using wire_request_matches_iff [OF log, of "delegating\<lparr>wc_vision_delegate := None\<rparr>"] by (simp add: delegating_def)
qed

end
