(* ===== verification/Compaction_Logs.thy ===== *)
theory Compaction_Logs
  imports Compaction Tool_Turns Wire
begin

text \<open>
  What compaction does to the message log. A summary leaves a good log good, which is the contract
  \<open>compaction_strategy\<close> that the agent loop relies on; dropping messages may leave nothing at all.
\<close>

section \<open>Cutting a log\<close>

lemma answersD:
  assumes "good_log ms" and "i < length ms" and "result_ids (ms ! i) \<noteq> []"
  shows "0 < i" "result_ids (ms ! (i - 1)) = []" "has_tool_use (ms ! (i - 1))"
proof -
  have a: "answers_call (if i = 0 then None else Some (ms ! (i - 1))) (ms ! i)"
    using assms log_ok_nth by (simp add: good_log_def)
  then show "0 < i" by (cases "i = 0") (simp_all add: answers_call_def)
  with a have b: "result_ids (ms ! (i - 1)) = []" "set (result_ids (ms ! i)) \<subseteq> set (collect_tool_use_ids (ms ! (i - 1)))"
    by (simp_all add: answers_call_def)
  then show "result_ids (ms ! (i - 1)) = []" by simp
  from b(2) assms(3) obtain k where "k \<in> set (collect_tool_use_ids (ms ! (i - 1)))"
    by (metis last_in_set subsetD)
  then show "has_tool_use (ms ! (i - 1))" unfolding set_use_ids has_tool_use_def list_ex_iff by force
qed

lemma tool_use_no_result:
  assumes "good_log ms" and "i < length ms" and "has_tool_use (ms ! i)"
  shows "result_ids (ms ! i) = []"
proof (rule ccontr)
  assume r: "result_ids (ms ! i) \<noteq> []"
  have "answers_call (if i = 0 then None else Some (ms ! (i - 1))) (ms ! i)"
    using assms r log_ok_nth by (simp add: good_log_def)
  then have "lm_role (ms ! i) \<noteq> ''assistant''" by (simp add: answers_call_def)
  moreover have "calls_ok (ms ! i)" using assms(1,2) by (simp add: good_log_def list_all_length)
  moreover from assms(3) have "collect_tool_use_ids (ms ! i) \<noteq> []"
    unfolding has_tool_use_def list_ex_iff by (metis empty_iff is_tool_use.elims(2) list.set(1) set_use_ids)
  ultimately show False by (simp add: calls_ok_def)
qed

lemma snap_no_result:
  "good_log ms \<Longrightarrow> i < length ms \<Longrightarrow> n \<noteq> 0 \<or> result_ids (ms ! i) = [] \<Longrightarrow> result_ids (ms ! snap_loop n ms i) = []"
proof (induction n ms i rule: snap_loop.induct)
  case (2 n ms i)
  show ?case
  proof (cases "i \<noteq> 0 \<and> (is_result_message (ms ! i) \<or> has_tool_use (ms ! (i - 1)))")
    case True
    have "result_ids (ms ! (i - 1)) = []"
    proof (cases "has_tool_use (ms ! (i - 1))")
      case True
      with "2.prems" show ?thesis by (intro tool_use_no_result) auto
    next
      case False
      with True have "result_ids (ms ! i) \<noteq> []" by (simp add: is_result_message_def carrier_iff)
      with answersD "2.prems" show ?thesis by blast
    qed
    with True 2 show ?thesis by auto
  next
    case False
    then have "result_ids (ms ! i) = []" using answersD [OF "2.prems"(1,2)] by blast
    with False show ?thesis by auto
  qed
qed simp

lemma good_drop:
  assumes "good_log ms" and "i < length ms \<longrightarrow> result_ids (ms ! i) = []"
  shows "good_log (drop i ms)"
proof -
  obtain q where q: "log_ok q (drop i ms)"
    using assms(1) log_ok_drop unfolding good_log_def by blast
  have "log_ok None (drop i ms)"
  proof (cases "i < length ms")
    case True
    with q assms(2) show ?thesis by (simp add: Cons_nth_drop_Suc [symmetric])
  qed simp
  moreover have "distinct (result_log (drop i ms))"
    using assms(1) unfolding good_log_def by (metis append_take_drop_id distinct_append result_log_simps(3))
  moreover have "list_all calls_ok (drop i ms)"
    using assms(1) unfolding good_log_def list_all_iff by (meson in_set_dropD)
  ultimately show ?thesis by (simp add: good_log_def)
qed

lemma good_Cons:
  assumes "good_log ms" and "result_ids m = []" and "collect_tool_use_ids m = []"
    and "ms = [] \<or> result_ids (hd ms) = []"
  shows "good_log (m # ms)"
  using assms by (cases ms) (auto simp: good_log_def calls_ok_def)

lemma split_loop_less: "(\<forall>(j, m) \<in> set xs. j < n) \<Longrightarrow> i < n \<Longrightarrow> split_loop js k xs acc i < n"
  by (induction js k xs acc i rule: split_loop.induct) (auto simp: Let_def)

lemma split_no_result:
  assumes "good_log ms" and "ms \<noteq> []"
  shows "result_ids (ms ! summary_split_index js ms k) = []" and "summary_split_index js ms k < length ms"
proof -
  let ?i = "split_loop js k (rev (enumerate 0 ms)) 0 (length ms - 6)"
  have i: "?i < length ms"
    by (rule split_loop_less) (use assms(2) in \<open>auto simp: in_set_enumerate_eq\<close>)
  have le: "snap_loop 16 ms ?i \<le> ?i" by (rule snap_loop_le)
  have zero: "result_ids (ms ! 0) = []" using answersD [OF assms(1), of 0] assms(2) by blast
  show "result_ids (ms ! summary_split_index js ms k) = []"
    unfolding summary_split_index_def snap_to_pair_boundary_def
    using zero i snap_no_result [OF assms(1) i, of 16] by auto
  show "summary_split_index js ms k < length ms"
    unfolding summary_split_index_def snap_to_pair_boundary_def using i le by auto
qed

section \<open>Summaries\<close>

lemma good_summarised:
  assumes "good_log ms" and "ms \<noteq> []"
  shows "good_log (oc_messages (summarised parse ms (summary_split_index js ms k) resp))"
proof -
  let ?i = "summary_split_index js ms k"
  note s = split_no_result [OF assms, of js k]
  have "hd (drop ?i ms) = ms ! ?i" using s(2) by (rule hd_drop_conv_nth)
  moreover have "good_log (drop ?i ms)" using assms(1) s by (intro good_drop) simp_all
  ultimately have "good_log (rolling_summary_message x # drop ?i ms)" for x
    using s by (intro good_Cons)
      (simp_all add: rolling_summary_message_def result_ids_def collect_tool_use_ids_def List.map_filter_simps)
  then show ?thesis by (simp add: summarised_def Let_def)
qed

lemma compact_summarise_good:
  assumes "compact_summarise e ms k model mt old = Some c" and "good_log ms"
  shows "good_log (oc_messages c)"
proof -
  have "ms \<noteq> []" using assms(1) by (auto simp: compact_summarise_def)
  moreover have "\<exists>resp. c = summarised (ce_parse e) ms (summary_split_index (ce_js e) ms k) resp"
    using assms(1) by (auto simp: compact_summarise_def Let_def split: if_splits sum.splits)
  ultimately show ?thesis using good_summarised [OF assms(2)] by auto
qed

lemma compact_summarise_results:
  assumes "compact_summarise e ms k model mt old = Some c"
  shows "set (result_log (oc_messages c)) \<subseteq> set (result_log ms)"
proof -
  have "set (result_log (drop i ms)) \<subseteq> set (result_log ms)" for i
    by (metis append_take_drop_id inf_sup_ord(4) result_log_simps(3) set_append)
  moreover have "result_ids (rolling_summary_message x) = []" for x
    by (simp add: rolling_summary_message_def result_ids_def List.map_filter_simps)
  moreover have "\<exists>i x. oc_messages c = rolling_summary_message x # drop i ms"
    using assms by (auto simp: compact_summarise_def Let_def summarised_def split: if_splits sum.splits)
  ultimately show ?thesis by (metis append_Nil result_log_simps(2))
qed

text \<open>What the agent loop relies on: a good log stays good, and no results appear in it.\<close>

locale compaction_strategy =
  fixes compact :: "compaction_env \<Rightarrow> CompactionRequest \<Rightarrow> CompactionResult"
  assumes keeps_log: "good_log (cr_messages req) \<Longrightarrow> good_log (cs_messages (compact e req))"
    and keeps_results: "set (result_log (cs_messages (compact e req))) \<subseteq> set (result_log (cr_messages req))"

lemma summarise_to_good:
  "summarise_to e req ratio = Some c \<Longrightarrow> good_log (cr_messages req) \<Longrightarrow> good_log (oc_messages c)"
  unfolding summarise_to_def by (rule compact_summarise_good)

lemma summarise_to_results:
  "summarise_to e req ratio = Some c \<Longrightarrow> set (result_log (oc_messages c)) \<subseteq> set (result_log (cr_messages req))"
  unfolding summarise_to_def by (rule compact_summarise_results)

lemma summarise_or_not:
  "cs_messages (if b then unchanged req
     else case summarise_to e req r of None \<Rightarrow> unchanged req | Some c \<Rightarrow> compacted_to req c (f c)) = cr_messages req \<or>
   (\<exists>r' c. summarise_to e req r' = Some c \<and> cs_messages (if b then unchanged req
     else case summarise_to e req r of None \<Rightarrow> unchanged req | Some c \<Rightarrow> compacted_to req c (f c)) = oc_messages c)"
proof (cases "\<not> b \<and> summarise_to e req r \<noteq> None")
  case True
  then obtain c where "summarise_to e req r = Some c" "\<not> b" by auto
  then show ?thesis by (intro disjI2 exI [of _ r] exI [of _ c]) (simp add: compacted_to_def)
next
  case False
  then have "summarise_to e req r = None \<or> b" by auto
  then show ?thesis by (auto simp: unchanged_def)
qed

lemma default_compact_cases:
  obtains "cs_messages (default_compact e req) = cr_messages req"
  | ratio c where "summarise_to e req ratio = Some c" "cs_messages (default_compact e req) = oc_messages c"
proof (cases "cr_trigger req")
  case Proactive
  have "cs_messages (compact_proactive e req) = cr_messages req \<or>
      (\<exists>r c. summarise_to e req r = Some c \<and> cs_messages (compact_proactive e req) = oc_messages c)"
    unfolding compact_proactive_def Let_def by (rule summarise_or_not)
  with Proactive that show ?thesis by (auto simp: default_compact_def)
next
  case Overflow
  then show ?thesis
    using that by (cases "summarise_to e req SUMMARY_KEEP_RECENT_RATIO")
      (auto simp: default_compact_def compact_overflow_def unchanged_def compacted_to_def)
qed

interpretation default_strategy: compaction_strategy default_compact
proof unfold_locales
  fix e req
  show "good_log (cr_messages req) \<Longrightarrow> good_log (cs_messages (default_compact e req))"
    by (rule default_compact_cases [of e req]) (simp_all add: summarise_to_good)
  show "set (result_log (cs_messages (default_compact e req))) \<subseteq> set (result_log (cr_messages req))"
    by (rule default_compact_cases [of e req]) (simp_all add: summarise_to_results)
qed

section \<open>Dropping messages\<close>

lemma window_two:
  assumes "keep_tokens < estimate_message_tokens js a + estimate_message_tokens js r" and "starts_with_tool_result r"
  shows "select_recent_window js (ms @ [a, r]) keep_tokens = length (ms @ [a, r])"
  using assms by (auto simp: select_recent_window_def enumerate_append_eq Let_def)

end
