(* ===== verification/Agent_Runs.thy ===== *)
theory Agent_Runs
  imports Agent_Run Compaction_Logs
begin

text \<open>
  What holds of whole runs: how many calls to a model a run makes, that its log stays good through
  compaction, failures and corrections, so that every request matches, and which calls may start.
\<close>

section \<open>What small steps keep\<close>

lemma tick_next [simp]: "tick (next_tick e) = Suc (tick e)"
  by (simp add: next_tick_def)

lemma ticks_requests [simp]: "ticks (st\<lparr>requests := rs\<rparr>) = ticks st"
  by (simp add: ticks_def)

lemma on_effects_sel [simp]:
  "log (conv (on_effects f st)) = log (conv st)" "requests (on_effects f st) = requests st"
  "effects_of (conv (on_effects f st)) = f (effects_of (conv st))"
  by (simp_all add: on_effects_def)

lemma step_tick_sel [simp]:
  "log (conv (step_tick st)) = log (conv st)" "requests (step_tick st) = requests st"
  "effects_of (conv (step_tick st)) = next_tick (effects_of (conv st))" "ticks (step_tick st) = Suc (ticks st)"
  by (simp_all add: step_tick_def ticks_def next_tick_def)

lemma emit_event_sel [simp]:
  "log (conv (emit_event e st)) = log (conv st)" "requests (emit_event e st) = requests st"
  "effects_of (conv (emit_event e st)) = emit e (effects_of (conv st))" "ticks (emit_event e st) = ticks st"
  by (simp_all add: emit_event_def ticks_def emit_def)

lemma write_db_sel [simp]: "conv (write_db a w st) = conv st" "requests (write_db a w st) = requests st"
  by (simp_all add: write_db_def)

lemma push_sel [simp]: "log (conv (push m st)) = log (conv st) @ [m]" "requests (push m st) = requests st"
  "effects_of (conv (push m st)) = effects_of (conv st)" "ticks (push m st) = ticks st"
  by (simp_all add: push_def ticks_def)

lemma ticks_write [simp]: "ticks (write_db a w st) = ticks st"
  by (simp add: ticks_def)

lemma apply_compaction_sel [simp]:
  "log (conv (apply_compaction a out r st)) = cs_messages r" "requests (apply_compaction a out r st) = requests st"
  "effects_of (conv (apply_compaction a out r st)) = next_tick (effects_of (conv st))"
  "ticks (apply_compaction a out r st) = Suc (ticks st)"
  by (simp_all add: apply_compaction_def Let_def ticks_def)

lemma emits_sel [simp]:
  "log (conv (fold (\<lambda>d. emit_event (f d)) ds st)) = log (conv st)"
  "requests (fold (\<lambda>d. emit_event (f d)) ds st) = requests st"
  "ticks (fold (\<lambda>d. emit_event (f d)) ds st) = ticks st"
  by (induction ds arbitrary: st) simp_all

text \<open>A quiet step starts no tool.\<close>

definition quiet_step :: "agent_state \<Rightarrow> agent_state \<Rightarrow> bool" where
  "quiet_step st st' \<longleftrightarrow>
     started (effects_of (conv st')) = started (effects_of (conv st)) \<and>
     progress (effects_of (conv st)) (effects_of (conv st'))"

lemma quiet_refl [simp]: "quiet_step st st"
  by (simp add: quiet_step_def)

lemma quiet_step_trans: "quiet_step st st1 \<Longrightarrow> quiet_step st1 st2 \<Longrightarrow> quiet_step st st2"
  by (auto simp: quiet_step_def intro: progress_trans)

lemma quiet_simps [simp]:
  "quiet_step st st' \<Longrightarrow> quiet_step st (step_tick st')"
  "quiet_step st st' \<Longrightarrow> quiet_step st (emit_event e st')"
  "quiet_step st st' \<Longrightarrow> quiet_step st (write_db a w st')"
  "quiet_step st st' \<Longrightarrow> quiet_step st (push m st')"
  "quiet_step st st' \<Longrightarrow> quiet_step st (apply_compaction a out r st')"
  "quiet_step st st' \<Longrightarrow> quiet_step st (st'\<lparr>requests := rs\<rparr>)"
  by (simp_all add: quiet_step_def)

lemma quiet_from: "quiet_step (step_tick st) st' \<Longrightarrow> quiet_step st st'" "quiet_step (emit_event e st) st' \<Longrightarrow> quiet_step st st'"
  "quiet_step (push m st) st' \<Longrightarrow> quiet_step st st'"
  by (auto simp: quiet_step_def dest: progress_from)

lemma quiet_emits [simp]: "quiet_step st st' \<Longrightarrow> quiet_step st (fold (\<lambda>d. emit_event (f d)) ds st')"
  by (induction ds arbitrary: st') simp_all

lemma quiet_ticks: "quiet_step st st' \<Longrightarrow> ticks st \<le> ticks st'"
  by (simp add: quiet_step_def progress_def ticks_def)

section \<open>One model\<close>

lemma one_call_sel:
  assumes "one_call a out req v = (r, v')"
  shows "quiet_step (agent_st v) (agent_st v')" "log (conv (agent_st v')) = log (conv (agent_st v))"
    "requests (agent_st v') = requests (agent_st v) @ [req]" "calls_left v' = calls_left v - 1"
    "r = fst (llm_call_unified (enable_streaming a) (ask_model out (ticks (agent_st v)) req))"
    "ticks (agent_st v) < ticks (agent_st v')"
  using assms by (auto simp: one_call_def Let_def split: prod.splits)

lemma after_error_sel:
  assumes "after_error a out s p m err left v = (r, v')"
  shows "quiet_step (agent_st v) (agent_st v')" "requests (agent_st v') = requests (agent_st v)"
    "calls_left v' = calls_left v" "\<forall>x. r \<noteq> Some (Answered x)"
  using assms by (auto simp: after_error_def Let_def split: if_splits)

text \<open>The ways an attempt can go.\<close>

lemma try_model_cases:
  assumes "try_model a out s p m req (Suc n) v = (r, v')"
  obtains (stop) "r = StopModels" "quiet_step (agent_st v) (agent_st v')" "requests (agent_st v') = requests (agent_st v)"
      "log (conv (agent_st v')) = log (conv (agent_st v))" "calls_left v' = calls_left v"
  | (called) res v1 where "one_call a out req (v\<lparr>agent_st := step_tick (agent_st v)\<rparr>) = (res, v1)" "0 < calls_left v"
      "case res of None \<Rightarrow> r = StopModels \<and> v' = v1 | Some (Inr x) \<Rightarrow> r = Answered x \<and> v' = v1
       | Some (Inl err) \<Rightarrow> (case after_error a out s p m err n v1 of
            (Some verdict, v2) \<Rightarrow> r = verdict \<and> v' = v2
          | (None, v2) \<Rightarrow> try_model a out s p m req n v2 = (r, v'))"
proof (cases "cancelled (tool_side out) (ticks (agent_st v)) \<or> calls_left v = 0")
  case True
  with assms stop show ?thesis by (auto simp: Let_def split: if_splits)
next
  case False
  obtain res v1 where c: "one_call a out req (v\<lparr>agent_st := step_tick (agent_st v)\<rparr>) = (res, v1)" by force
  with assms False have "case res of None \<Rightarrow> r = StopModels \<and> v' = v1 | Some (Inr x) \<Rightarrow> r = Answered x \<and> v' = v1
       | Some (Inl err) \<Rightarrow> (case after_error a out s p m err n v1 of
            (Some verdict, v2) \<Rightarrow> r = verdict \<and> v' = v2
          | (None, v2) \<Rightarrow> try_model a out s p m req n v2 = (r, v'))"
    by (auto split: option.splits sum.splits prod.splits)
  from called [OF c _ this] False show ?thesis by simp
qed

text \<open>The calls are counted, and each sends the same request.\<close>

lemma try_model_counts:
  "try_model a out s p m req n v = (r, v') \<Longrightarrow> quiet_step (agent_st v) (agent_st v') \<and>
     (\<exists>k. requests (agent_st v') = requests (agent_st v) @ replicate k req \<and> k + calls_left v' = calls_left v)"
proof (induction n arbitrary: v)
  case 0
  then show ?case by (auto intro: exI [of _ 0])
next
  case (Suc n)
  from Suc.prems show ?case
  proof (cases rule: try_model_cases)
    case stop
    then show ?thesis by (auto intro: exI [of _ 0])
  next
    case (called res v1)
    note c = one_call_sel [OF called(1)]
    have q: "quiet_step (agent_st v) (agent_st v1)" using c(1) by (auto dest: quiet_from)
    have one: "requests (agent_st v1) = requests (agent_st v) @ replicate 1 req" "1 + calls_left v1 = calls_left v"
      using c(3,4) called(2) by simp_all
    show ?thesis
    proof (cases res)
      case (Some x)
      show ?thesis
      proof (cases x)
        case (Inl err)
        obtain vd v2 where e: "after_error a out s p m err n v1 = (vd, v2)" by force
        note a = after_error_sel [OF e]
        show ?thesis
        proof (cases vd)
          case None
          with called(3) Some Inl e have "try_model a out s p m req n v2 = (r, v')" by simp
          from Suc.IH [OF this] obtain k where k: "quiet_step (agent_st v2) (agent_st v')"
            "requests (agent_st v') = requests (agent_st v2) @ replicate k req" "k + calls_left v' = calls_left v2" by blast
          with q a one show ?thesis
            by (intro conjI exI [of _ "Suc k"]) (auto intro: quiet_step_trans)
        qed (use called(3) Some Inl e a q one in \<open>auto intro: quiet_step_trans intro!: exI [of _ 1]\<close>)
      qed (use called(3) Some q one in \<open>auto intro!: exI [of _ 1]\<close>)
    qed (use called(3) q one in \<open>auto intro!: exI [of _ 1]\<close>)
  qed
qed

section \<open>All models, with corrections\<close>

lemma request_for_sel:
  assumes "request_for a out s p m st = (req, st')"
  shows "quiet_step st st'" "log (conv st') = log (conv st)" "requests st' = requests st"
    "rq_messages req = fst (wire_messages (wire_config_of a out p st) (tool_minimals (conv st)) s (log (conv st))
       (vision_store (effects_of (conv st))))"
  using assms by (auto simp: request_for_def Let_def quiet_step_def build_for_def split: prod.splits)

lemma try_models_cases:
  assumes "try_models a out s p (m # ms) v = (r, v')"
  obtains req st verdict v1 where "request_for a out s p m (agent_st v) = (req, st)"
    "try_model a out s p m req (attempts_of a) (v\<lparr>agent_st := st\<rparr>) = (verdict, v1)"
    "case verdict of Answered x \<Rightarrow> r = Some (x, m) \<and> v' = v1 | StopModels \<Rightarrow> r = None \<and> v' = v1
     | NextModel \<Rightarrow> try_models a out s p ms v1 = (r, v') | SameModel \<Rightarrow> try_models a out s p (m # ms) v1 = (r, v')"
proof -
  obtain req st where q: "request_for a out s p m (agent_st v) = (req, st)" by force
  obtain verdict v1 where m: "try_model a out s p m req (attempts_of a) (v\<lparr>agent_st := st\<rparr>) = (verdict, v1)" by force
  from that [OF q m] assms q m show ?thesis by (simp add: try_models.simps split: verdict.splits)
qed

lemma try_models_counts:
  "try_models a out s p ms v = (r, v') \<Longrightarrow> quiet_step (agent_st v) (agent_st v') \<and>
     length (requests (agent_st v')) + calls_left v' = length (requests (agent_st v)) + calls_left v"
proof (induction a out s p ms v arbitrary: r v' rule: try_models.induct)
  case (1 a out s p v)
  then show ?case by (simp add: try_models.simps)
next
  case (2 a out s p m ms v)
  from "2.prems" show ?case
  proof (cases rule: try_models_cases)
    case (1 req st verdict v1)
    note q = request_for_sel [OF 1(1)] and c = try_model_counts [OF 1(2)]
    have one: "quiet_step (agent_st v) (agent_st v1)"
      "length (requests (agent_st v1)) + calls_left v1 = length (requests (agent_st v)) + calls_left v"
      using q c quiet_step_trans by auto
    show ?thesis
    proof (cases verdict)
      case NextModel
      with 1(3) have "try_models a out s p ms v1 = (r, v')" by simp
      from "2.IH"(1) [OF 1(1) [symmetric] refl 1(2) [symmetric] refl NextModel this] one show ?thesis
        by (auto intro: quiet_step_trans)
    next
      case SameModel
      with 1(3) have "try_models a out s p (m # ms) v1 = (r, v')" by simp
      from "2.IH"(2) [OF 1(1) [symmetric] refl 1(2) [symmetric] refl SameModel this] one show ?thesis
        by (auto intro: quiet_step_trans)
    qed (use 1(3) one in auto)
  qed
qed

text \<open>The ways a round of calls can go.\<close>

lemma correction_cases:
  assumes "ask_with_correction a out s p i left v = (r, v')"
  obtains answer v1 primary where
    "try_models a out s p (bounded_model_candidates primary (fallback_models a)) (v\<lparr>last_err := None\<rparr>) = (answer, v1)"
    "(\<exists>x used. answer = Some (x, used) \<and> r = Replied x used \<and>
        (v' = v1 \<or> (\<exists>e. v' = v1\<lparr>agent_st := emit_event e (agent_st v1)\<rparr>))) \<or>
     (answer = None \<and> r = Cancelled \<and> (v' = v1\<lparr>agent_st := step_tick (agent_st v1)\<rparr> \<or>
        (\<exists>t o'. v' = v1\<lparr>agent_st := push (text_message ''assistant'' t) (step_tick (agent_st v1)), cancelled_partial := o'\<rparr>))) \<or>
     (\<exists>err e. answer = None \<and> r = Failed err \<and> v' = v1\<lparr>agent_st := emit_event e (step_tick (agent_st v1))\<rparr>) \<or>
     (\<exists>e t. answer = None \<and> 0 < left \<and> ask_with_correction a out s p i (left - 1)
        (v1\<lparr>agent_st := emit_event e (push (text_message ''user'' t) (step_tick (agent_st v1)))\<rparr>) = (r, v'))"
proof -
  let ?primary = "case prepare_next_turn a i (last_had_tools (agent_st v)) (last_text (agent_st v)) of
    Some m \<Rightarrow> m | None \<Rightarrow> model_of a"
  obtain answer v1 where m: "try_models a out s p (bounded_model_candidates ?primary (fallback_models a))
      (v\<lparr>last_err := None\<rparr>) = (answer, v1)" by force
  show ?thesis
  proof (cases answer)
    case (Some q)
    with assms m show ?thesis
      by (intro that [OF m] disjI1) (auto simp: ask_with_correction.simps Let_def split: prod.splits if_splits)
  next
    case None
    note d = assms [unfolded ask_with_correction.simps [of a out s p i left v] Let_def m split None option.simps]
    show ?thesis
    proof (cases "cancelled (tool_side out) (ticks (agent_st v1))")
      case True
      with d None show ?thesis
        by (intro that [OF m] disjI2 disjI1) (auto split: option.splits)
    next
      case stop: False
      show ?thesis
      proof (cases "0 < left \<and> classify_error (case last_err v1 of Some e \<Rightarrow> e | None \<Rightarrow> ''LLM call failed'') = ToolArgsInvalid")
        case True
        with d stop None show ?thesis by (intro that [OF m] disjI2 disjI2) auto
      next
        case False
        with d stop None show ?thesis by (intro that [OF m] disjI2 disjI2 disjI1) (auto simp: Let_def)
      qed
    qed
  qed
qed

lemma correction_counts:
  "ask_with_correction a out s p i left v = (r, v') \<Longrightarrow> quiet_step (agent_st v) (agent_st v') \<and>
     length (requests (agent_st v')) + calls_left v' = length (requests (agent_st v)) + calls_left v"
proof (induction left arbitrary: v)
  case 0
  from 0 show ?case
  proof (cases rule: correction_cases)
    case (1 answer v1 primary)
    from try_models_counts [OF 1(1)] 1(2) show ?thesis by auto
  qed
next
  case (Suc left)
  from Suc.prems show ?case
  proof (cases rule: correction_cases)
    case (1 answer v1 primary)
    note c = try_models_counts [OF 1(1)]
    from 1(2) show ?thesis
    proof (elim disjE)
      assume "\<exists>e t. answer = None \<and> 0 < Suc left \<and> ask_with_correction a out s p i (Suc left - 1)
        (v1\<lparr>agent_st := emit_event e (push (text_message ''user'' t) (step_tick (agent_st v1)))\<rparr>) = (r, v')"
      then obtain e t where "ask_with_correction a out s p i left
        (v1\<lparr>agent_st := emit_event e (push (text_message ''user'' t) (step_tick (agent_st v1)))\<rparr>) = (r, v')" by auto
      from Suc.IH [OF this] c show ?thesis by (auto dest!: quiet_from intro: quiet_step_trans)
    qed (use c in auto)
  qed
qed

lemma ask_counts:
  assumes "ask a out s p i st = (r, st')"
  shows "quiet_step st st'" "length (requests st') \<le> length (requests st) + MAX_MAIN_CALLS_PER_ITERATION"
  using assms correction_counts unfolding ask_def Let_def
  by (fastforce split: prod.splits)+


section \<open>Iterations and runs\<close>

lemma note_sel [simp]:
  "requests (note_notification msg st) = requests st" "ticks (note_notification msg st) = ticks st"
  "effects_of (conv (note_notification msg st)) = effects_of (conv st)"
  by (simp_all add: note_notification_def ticks_def)

lemma notes_sel [simp]:
  "requests (fold note_notification ms st) = requests st" "ticks (fold note_notification ms st) = ticks st"
  "effects_of (conv (fold note_notification ms st)) = effects_of (conv st)"
  by (induction ms arbitrary: st) simp_all

lemma proactive_sel [simp]:
  "requests (proactive_compaction a out s p st) = requests st"
  "quiet_step st (proactive_compaction a out s p st)"
  by (simp_all add: proactive_compaction_def Let_def)

lemma account_sel [simp]:
  "requests (account a r used st) = requests st" "conv (account a r used st) = conv st"
  "ticks (account a r used st) = ticks st"
  by (simp_all add: account_def Let_def ticks_def)

lemma write_checkpoint_sel [simp]:
  "requests (write_checkpoint a out b i st) = requests st" "conv (write_checkpoint a out b i st) = conv st"
  by (simp_all add: write_checkpoint_def Let_def)

text \<open>The state an iteration asks the model in.\<close>

definition prepared :: "agent \<Rightarrow> model_outside \<Rightarrow> string \<Rightarrow> string \<Rightarrow> nat \<Rightarrow> agent_state \<Rightarrow> agent_state" where
  "prepared a out s p i st =
     emit_event (TextSegmentStart (i + 1)) (proactive_compaction a out s p
       (step_tick (fold note_notification (pending_notifications out (ticks (step_tick st))) (step_tick st))))"

lemma prepared_sel [simp]: "requests (prepared a out s p i st) = requests st" "quiet_step st (prepared a out s p i st)"
proof -
  let ?st = "step_tick (fold note_notification (pending_notifications out (ticks (step_tick st))) (step_tick st))"
  have "quiet_step st ?st" by (simp add: quiet_step_def)
  from quiet_step_trans [OF this proactive_sel(2) [of ?st a out s p]] show "quiet_step st (prepared a out s p i st)"
    by (simp add: prepared_def)
qed (simp add: prepared_def)

lemma iterate_cases:
  assumes "iterate a out s p b i st = (oc, st')"
  obtains (stopped) "oc = Finishes" "st' = step_tick st"
  | (replied) r used st1 where "ask a out s p i (prepared a out s p i st) = (Replied r used, st1)"
      "act a out s b i r (account a r used st1) = (oc, st')"
  | (ended) r where "ask a out s p i (prepared a out s p i st) = (r, st')" "oc \<noteq> Continues"
  using assms by (auto simp: iterate_def prepared_def Let_def split: if_splits prod.splits reply.splits)

text \<open>What is done with an answer.\<close>

lemma act_turn:
  assumes "act a out s b i r st = (oc, st')"
  obtains st0 c n s' where "quiet_step st st0" "log (conv st0) = log (conv st)" "requests st' = requests st"
    "answer_turn (tools_of a) (tool_side out) s (halted_at out (ticks st0)) (plan_at out (ticks st0)) (rs_content r)
       (calls_of r) (reminder_count st0) (conv st0) = (c, n, s')" "conv st' = s'"
proof -
  let ?st = "if \<not> enable_streaming a \<and> rs_content r \<noteq> [] then emit_event (TextDelta (rs_content r)) st else st"
  obtain c n s' where t: "answer_turn (tools_of a) (tool_side out) s (halted_at out (ticks ?st)) (plan_at out (ticks ?st))
      (rs_content r) (calls_of r) (reminder_count ?st) (conv ?st) = (c, n, s')" by (metis prod_cases3)
  from assms t have "conv st' = s'" "requests st' = requests st"
    by (auto simp: act_def Let_def split: if_splits)
  from that [OF _ _ this(2) t this(1)] show ?thesis by simp
qed

lemma iterate_requests:
  assumes "iterate a out s p b i st = (oc, st')"
  shows "length (requests st') \<le> length (requests st) + MAX_MAIN_CALLS_PER_ITERATION"
  using assms
proof (cases rule: iterate_cases)
  case (replied r used st1)
  from replied(2) have "requests st' = requests st1" by (auto elim: act_turn)
  with ask_counts(2) [OF replied(1)] show ?thesis by simp
next
  case (ended r)
  from ask_counts(2) [OF ended(1)] show ?thesis by simp
qed simp

lemma iterations_requests:
  "iterations a out s p b i n st = (r, st') \<Longrightarrow>
     length (requests st') \<le> length (requests st) + n * MAX_MAIN_CALLS_PER_ITERATION"
proof (induction n arbitrary: i st)
  case (Suc n)
  obtain oc st1 where s: "iterate a out s p b i st = (oc, st1)" by force
  note l = iterate_requests [OF this]
  show ?case
  proof (cases oc)
    case Continues
    with Suc.prems s have "iterations a out s p b (Suc i) n st1 = (r, st')" by simp
    from Suc.IH [OF this] l show ?thesis by simp
  qed (use Suc.prems s l in auto)
qed simp

text \<open>A run is its iterations from the state it starts in.\<close>

lemma run_iterations:
  obtains prompt b r st where
    "iterations a out sid prompt b 0 (case mi of None \<Rightarrow> DEFAULT_MAX_ITERATIONS | Some m \<Rightarrow> unat m)
       (start_run a out stored ctx ms e) = (r, st)"
    "conv (snd (run a out sid mi pc search stored ctx ms e)) = conv st"
    "requests (snd (run a out sid mi pc search stored ctx ms e)) = requests st"
proof -
  let ?st = "start_run a out stored ctx ms e"
  obtain r st where "iterations a out sid (compose_system_prompt a pc search (log (conv ?st))) (hash_messages out ms, length ms) 0
      (case mi of None \<Rightarrow> DEFAULT_MAX_ITERATIONS | Some m \<Rightarrow> unat m) ?st = (r, st)" by force
  from that [OF this] this show ?thesis
    by (auto simp: run_def Let_def split: option.splits)
qed

lemma start_run_sel [simp]: "requests (start_run a out stored ctx ms e) = []"
  "effects_of (conv (start_run a out stored ctx ms e)) = e"
  by (simp_all add: start_run_def Let_def split: prod.splits)

lemma run_requests:
  "length (requests (snd (run a out sid mi pc search stored ctx ms e))) \<le>
     (case mi of None \<Rightarrow> DEFAULT_MAX_ITERATIONS | Some m \<Rightarrow> unat m) * MAX_MAIN_CALLS_PER_ITERATION"
  by (rule run_iterations [of a out sid mi stored ctx ms e pc search]) (auto dest!: iterations_requests)

section \<open>Which calls start\<close>

definition starts_allowed :: "agent \<Rightarrow> model_outside \<Rightarrow> run_state \<Rightarrow> run_state \<Rightarrow> bool" where
  "starts_allowed a out e e' \<longleftrightarrow> progress e e' \<and>
     (\<exists>new. started e' = started e @ new \<and> (\<forall>x \<in> set new. may_start (tools_of a) (tool_side out) (events e') x))"

lemma starts_allowed_quiet: "quiet_step st st' \<Longrightarrow> starts_allowed a out (effects_of (conv st)) (effects_of (conv st'))"
  by (simp add: starts_allowed_def quiet_step_def)

lemma starts_allowed_trans:
  assumes "starts_allowed a out e e1" and "starts_allowed a out e1 e2"
  shows "starts_allowed a out e e2"
proof -
  from assms obtain new new' where n: "started e1 = started e @ new" "started e2 = started e1 @ new'"
    "\<forall>x \<in> set new. may_start (tools_of a) (tool_side out) (events e1) x"
    "\<forall>x \<in> set new'. may_start (tools_of a) (tool_side out) (events e2) x"
    and p: "progress e e1" "progress e1 e2" by (auto simp: starts_allowed_def)
  from p(2) have "set (events e1) \<subseteq> set (events e2)" by (simp add: progress_def)
  with n(3,4) have "\<forall>x \<in> set (new @ new'). may_start (tools_of a) (tool_side out) (events e2) x"
    using may_start_mono by auto
  with n(1,2) progress_trans [OF p] show ?thesis by (auto simp: starts_allowed_def intro!: exI [of _ "new @ new'"])
qed

lemma starts_among_allowed: "starts_among (tools_of a) (tool_side out) cs e e' \<Longrightarrow> starts_allowed a out e e'"
  by (auto simp: starts_among_def starts_allowed_def)

lemma act_starts:
  assumes "act a out s b i r st = (oc, st')"
  shows "starts_allowed a out (effects_of (conv st)) (effects_of (conv st'))"
proof (rule act_turn [OF assms])
  fix st0 c n s'
  assume q: "quiet_step st st0" and t: "answer_turn (tools_of a) (tool_side out) s (halted_at out (ticks st0))
    (plan_at out (ticks st0)) (rs_content r) (calls_of r) (reminder_count st0) (conv st0) = (c, n, s')" and "conv st' = s'"
  then show ?thesis
    using starts_allowed_trans [OF starts_allowed_quiet [OF q] starts_among_allowed [OF answer_turn_starts [OF t]]] by simp
qed

lemma iterate_starts:
  assumes "iterate a out s p b i st = (oc, st')"
  shows "starts_allowed a out (effects_of (conv st)) (effects_of (conv st'))"
  using assms
proof (cases rule: iterate_cases)
  case (replied r used st1)
  from quiet_step_trans [OF prepared_sel(2) ask_counts(1) [OF replied(1)]] act_starts [OF replied(2)]
  show ?thesis by (auto intro: starts_allowed_trans starts_allowed_quiet)
next
  case (ended r)
  from quiet_step_trans [OF prepared_sel(2) ask_counts(1) [OF ended(1)]] show ?thesis by (rule starts_allowed_quiet)
qed (simp add: starts_allowed_def)

lemma iterations_starts:
  "iterations a out s p b i n st = (r, st') \<Longrightarrow> starts_allowed a out (effects_of (conv st)) (effects_of (conv st'))"
proof (induction n arbitrary: i st)
  case (Suc n)
  obtain oc st1 where s: "iterate a out s p b i st = (oc, st1)" by force
  note l = iterate_starts [OF this]
  show ?case
  proof (cases oc)
    case Continues
    with Suc.prems s have "iterations a out s p b (Suc i) n st1 = (r, st')" by simp
    from starts_allowed_trans [OF l Suc.IH [OF this]] show ?thesis .
  qed (use Suc.prems s l in auto)
qed (simp add: starts_allowed_def)


section \<open>Logs that stay good\<close>

text \<open>
  The ids of the calls of an answer are new: an answer given at the interaction \<open>t\<close> has ids that no
  answer of another interaction has. \<open>owner\<close> gives the interaction an id belongs to.
\<close>

definition stamped :: "(string \<Rightarrow> nat) \<Rightarrow> agent \<Rightarrow> model_outside \<Rightarrow> bool" where
  "stamped owner a out \<longleftrightarrow>
     (\<forall>t req r. fst (llm_call_unified (enable_streaming a) (ask_model out t req)) = Some (Inr r) \<longrightarrow>
        distinct (map tc_id (rs_tool_calls r)) \<and> (\<forall>c \<in> set (rs_tool_calls r). owner (tc_id c) = Suc t))"

definition plain_view :: "agent \<Rightarrow> bool" where
  "plain_view a \<longleftrightarrow> vision_delegate a = None \<and> transform_context a = id"

definition log_fits :: "(string \<Rightarrow> nat) \<Rightarrow> nat \<Rightarrow> LlmMessage list \<Rightarrow> bool" where
  "log_fits owner t ms \<longleftrightarrow> good_log ms \<and> (\<forall>i \<in> set (result_log ms). owner i \<le> t)"

text \<open>The log fits, and each request so far matches.\<close>

definition healthy :: "(string \<Rightarrow> nat) \<Rightarrow> agent_state \<Rightarrow> bool" where
  "healthy owner st \<longleftrightarrow> log_fits owner (ticks st) (log (conv st)) \<and> (\<forall>req \<in> set (requests st). paired (rq_messages req))"

definition fresh_answer :: "(string \<Rightarrow> nat) \<Rightarrow> LlmResponse \<Rightarrow> agent_state \<Rightarrow> bool" where
  "fresh_answer owner r st \<longleftrightarrow> distinct (map tc_id (rs_tool_calls r)) \<and>
     (\<forall>c \<in> set (rs_tool_calls r). owner (tc_id c) \<le> ticks st \<and> tc_id c \<notin> set (result_log (log (conv st))))"

lemma log_fits_mono: "log_fits owner t ms \<Longrightarrow> t \<le> t' \<Longrightarrow> log_fits owner t' ms"
  by (auto simp: log_fits_def intro: le_trans)

lemma log_fits_Suc [simp]: "log_fits owner t ms \<Longrightarrow> log_fits owner (Suc t) ms"
  by (erule log_fits_mono) simp

lemma log_fits_text [simp]: "log_fits owner t (ms @ [text_message r x]) \<longleftrightarrow> log_fits owner t ms"
  by (simp add: log_fits_def)

lemma healthy_log:
  assumes "healthy owner st" and "ticks st \<le> ticks st'" and "log (conv st') = log (conv st)"
    and "set (requests st') \<subseteq> set (requests st)"
  shows "healthy owner st'"
  using assms by (auto simp: healthy_def intro: log_fits_mono)

lemma healthy_simps [simp]:
  "healthy owner st \<Longrightarrow> healthy owner (step_tick st)"
  "healthy owner (emit_event e st) \<longleftrightarrow> healthy owner st"
  "healthy owner (write_db a w st) \<longleftrightarrow> healthy owner st"
  "healthy owner (push (text_message r x) st) \<longleftrightarrow> healthy owner st"
  "healthy owner (note_notification msg st) \<longleftrightarrow> healthy owner st"
  by (auto simp: healthy_def note_notification_def ticks_def emit_def)

lemma fresh_simps [simp]:
  "fresh_answer owner r (emit_event e st) \<longleftrightarrow> fresh_answer owner r st"
  by (simp add: fresh_answer_def)

lemma healthy_notes [simp]: "healthy owner (fold note_notification ms st) \<longleftrightarrow> healthy owner st"
  by (induction ms arbitrary: st) simp_all

lemma request_healthy:
  assumes "request_for a out s p m st = (req, st')" and "healthy owner st" and "plain_view a"
  shows "healthy owner st'" and "paired (rq_messages req)"
proof -
  note q = request_for_sel [OF assms(1)]
  from assms(2) q show "healthy owner st'" by (auto intro: healthy_log quiet_ticks)
  have "log_ok None (log (conv st))" using assms(2) by (simp add: healthy_def log_fits_def good_log_def)
  from wire_view_ok(1) [OF this] q(4) assms(3) show "paired (rq_messages req)"
    by (simp add: wire_messages_def wire_config_of_def plain_view_def)
qed

lemma one_call_healthy:
  assumes "one_call a out req v = (r, v')" and "healthy owner (agent_st v)" and "paired (rq_messages req)"
    and "stamped owner a out"
  shows "healthy owner (agent_st v')" and "r = Some (Inr x) \<Longrightarrow> fresh_answer owner x (agent_st v')"
proof -
  note c = one_call_sel [OF assms(1)]
  from c assms(2,3) show "healthy owner (agent_st v')"
    by (auto simp: healthy_def intro: log_fits_mono)
  assume "r = Some (Inr x)"
  with c(5) assms(4) have "distinct (map tc_id (rs_tool_calls x))"
    "\<forall>tc \<in> set (rs_tool_calls x). owner (tc_id tc) = Suc (ticks (agent_st v))"
    by (metis stamped_def)+
  with c(2,6) assms(2) show "fresh_answer owner x (agent_st v')"
    by (fastforce simp: fresh_answer_def healthy_def log_fits_def)
qed

context compaction_strategy begin

lemma apply_healthy:
  assumes "healthy owner st" and "st' = st \<or> st' = step_tick st"
  shows "healthy owner (apply_compaction a out (compact e (compaction_request a s p m tr st)) st')"
proof -
  let ?r = "compact e (compaction_request a s p m tr st)"
  have "good_log (cs_messages ?r)"
    by (rule keeps_log) (use assms(1) in \<open>simp add: compaction_request_def healthy_def log_fits_def\<close>)
  moreover have "set (result_log (cs_messages ?r)) \<subseteq> set (result_log (log (conv st)))"
    using keeps_results [of e "compaction_request a s p m tr st"] by (simp add: compaction_request_def)
  ultimately show ?thesis using assms by (fastforce simp: healthy_def log_fits_def)
qed

lemma after_error_healthy:
  assumes "after_error a out s p m err left v = (r, v')" and "compaction_strategy_of a = compact"
    and "healthy owner (agent_st v)"
  shows "healthy owner (agent_st v')"
  using assms(1) [unfolded after_error_def Let_def assms(2)] assms(3) by (auto simp: apply_healthy split: if_splits)

lemma try_model_healthy:
  "try_model a out s p m req n v = (r, v') \<Longrightarrow> compaction_strategy_of a = compact \<Longrightarrow> stamped owner a out \<Longrightarrow>
     paired (rq_messages req) \<Longrightarrow> healthy owner (agent_st v) \<Longrightarrow>
     healthy owner (agent_st v') \<and> (\<forall>x. r = Answered x \<longrightarrow> fresh_answer owner x (agent_st v'))"
proof (induction n arbitrary: v)
  case (Suc n)
  from Suc.prems(1) show ?case
  proof (cases rule: try_model_cases)
    case stop
    then show ?thesis using Suc.prems by (auto intro: healthy_log quiet_ticks)
  next
    case (called res v1)
    have h: "healthy owner (agent_st v1)" "\<And>x. res = Some (Inr x) \<Longrightarrow> fresh_answer owner x (agent_st v1)"
      using one_call_healthy [OF called(1) _ Suc.prems(4,3)] Suc.prems(5) by simp_all
    show ?thesis
    proof (cases res)
      case (Some x)
      show ?thesis
      proof (cases x)
        case (Inl err)
        obtain vd v2 where e: "after_error a out s p m err n v1 = (vd, v2)" by force
        note k = after_error_healthy [OF e Suc.prems(2) h(1)]
        show ?thesis
        proof (cases vd)
          case None
          with called(3) Some Inl e have "try_model a out s p m req n v2 = (r, v')" by simp
          from Suc.IH [OF this Suc.prems(2-4) k] show ?thesis .
        qed (use called(3) Some Inl e k after_error_sel(4) [OF e] in auto)
      qed (use called(3) Some h in auto)
    qed (use called(3) h in auto)
  qed
qed simp

lemma try_models_healthy:
  "try_models a out s p ms v = (r, v') \<Longrightarrow> compaction_strategy_of a = compact \<Longrightarrow> stamped owner a out \<Longrightarrow>
     plain_view a \<Longrightarrow> healthy owner (agent_st v) \<Longrightarrow>
     healthy owner (agent_st v') \<and> (\<forall>x m. r = Some (x, m) \<longrightarrow> fresh_answer owner x (agent_st v'))"
proof (induction a out s p ms v arbitrary: r v' rule: try_models.induct)
  case (1 a out s p v)
  then show ?case by (simp add: try_models.simps)
next
  case (2 a out s p m ms v)
  from "2.prems"(1) show ?case
  proof (cases rule: try_models_cases)
    case (1 req st verdict v1)
    note q = request_healthy [OF 1(1) "2.prems"(5,4)]
    have h: "healthy owner (agent_st v1)" "\<And>x. verdict = Answered x \<Longrightarrow> fresh_answer owner x (agent_st v1)"
      using try_model_healthy [OF 1(2) "2.prems"(2,3) q(2)] q(1) by simp_all
    show ?thesis
    proof (cases verdict)
      case NextModel
      with 1(3) have "try_models a out s p ms v1 = (r, v')" by simp
      from "2.IH"(1) [OF 1(1) [symmetric] refl 1(2) [symmetric] refl NextModel this "2.prems"(2-4) h(1)] show ?thesis .
    next
      case SameModel
      with 1(3) have "try_models a out s p (m # ms) v1 = (r, v')" by simp
      from "2.IH"(2) [OF 1(1) [symmetric] refl 1(2) [symmetric] refl SameModel this "2.prems"(2-4) h(1)] show ?thesis .
    qed (use 1(3) h in auto)
  qed
qed

lemma correction_healthy:
  "ask_with_correction a out s p i left v = (r, v') \<Longrightarrow> compaction_strategy_of a = compact \<Longrightarrow> stamped owner a out \<Longrightarrow>
     plain_view a \<Longrightarrow> healthy owner (agent_st v) \<Longrightarrow>
     healthy owner (agent_st v') \<and> (\<forall>x m. r = Replied x m \<longrightarrow> fresh_answer owner x (agent_st v'))"
proof (induction left arbitrary: v)
  case 0
  from 0(1) show ?case
  proof (cases rule: correction_cases)
    case (1 answer v1 primary)
    from try_models_healthy [OF 1(1) 0(2-4)] 0(5)
    have "healthy owner (agent_st v1)" "\<And>x m. answer = Some (x, m) \<Longrightarrow> fresh_answer owner x (agent_st v1)" by auto
    with 1(2) show ?thesis by auto
  qed
next
  case (Suc left)
  from Suc.prems(1) show ?case
  proof (cases rule: correction_cases)
    case (1 answer v1 primary)
    from try_models_healthy [OF 1(1) Suc.prems(2-4)] Suc.prems(5)
    have h: "healthy owner (agent_st v1)" "\<And>x m. answer = Some (x, m) \<Longrightarrow> fresh_answer owner x (agent_st v1)" by auto
    from 1(2) show ?thesis
    proof (elim disjE)
      assume "\<exists>e t. answer = None \<and> 0 < Suc left \<and> ask_with_correction a out s p i (Suc left - 1)
        (v1\<lparr>agent_st := emit_event e (push (text_message ''user'' t) (step_tick (agent_st v1)))\<rparr>) = (r, v')"
      then obtain e t where "ask_with_correction a out s p i left
        (v1\<lparr>agent_st := emit_event e (push (text_message ''user'' t) (step_tick (agent_st v1)))\<rparr>) = (r, v')" by auto
      from Suc.IH [OF this Suc.prems(2-4)] h(1) show ?thesis by simp
    qed (use h in auto)
  qed
qed

lemma ask_healthy:
  assumes "ask a out s p i st = (r, st')" and "compaction_strategy_of a = compact" and "stamped owner a out"
    and "plain_view a" and "healthy owner st"
  shows "healthy owner st'" and "r = Replied x m \<Longrightarrow> fresh_answer owner x st'"
  using assms correction_healthy [OF _ assms(2-4)] unfolding ask_def Let_def
  by (fastforce split: prod.splits)+

lemma prepared_healthy:
  assumes "compaction_strategy_of a = compact" and "healthy owner st"
  shows "healthy owner (prepared a out s p i st)"
  using assms(2) by (simp add: prepared_def proactive_compaction_def Let_def assms(1) apply_healthy)

lemma act_healthy:
  assumes "act a out s b i r st = (oc, st')" and "healthy owner st" and "fresh_answer owner r st"
  shows "healthy owner st'"
proof (rule act_turn [OF assms(1)])
  fix st0 c n s'
  assume st0: "quiet_step st st0" "log (conv st0) = log (conv st)" and same: "requests st' = requests st"
    and t: "answer_turn (tools_of a) (tool_side out) s (halted_at out (ticks st0)) (plan_at out (ticks st0))
      (rs_content r) (calls_of r) (reminder_count st0) (conv st0) = (c, n, s')" and s': "conv st' = s'"
  have cs: "map fst (calls_of r) = map tc_id (rs_tool_calls r)" by (simp add: calls_of_def comp_def)
  have "starts_among (tools_of a) (tool_side out) (calls_of r) (effects_of (conv st0)) (effects_of s')"
    by (rule answer_turn_starts [OF t])
  then have ticks: "ticks st \<le> ticks st'"
    using quiet_ticks [OF st0(1)] s' by (auto simp: starts_among_def progress_def ticks_def)
  have "good_log (log (conv st0))" "distinct (map fst (calls_of r))"
    "set (map fst (calls_of r)) \<inter> set (result_log (log (conv st0))) = {}"
    using assms(2,3) st0(2) by (auto simp: healthy_def log_fits_def fresh_answer_def cs)
  from answer_turn_good [OF t this] s' have good: "good_log (log (conv st'))"
    "set (result_log (log (conv st'))) \<subseteq> set (result_log (log (conv st))) \<union> set (map tc_id (rs_tool_calls r))"
    using st0(2) cs by auto
  have "owner k \<le> ticks st'" if "k \<in> set (result_log (log (conv st')))" for k
  proof -
    have "owner k \<le> ticks st"
      using that good(2) assms(2,3) by (auto simp: healthy_def log_fits_def fresh_answer_def)
    with ticks show ?thesis by simp
  qed
  with good(1) assms(2) same show ?thesis by (auto simp: healthy_def log_fits_def)
qed

lemma iterate_healthy:
  assumes "iterate a out s p b i st = (oc, st')" and "compaction_strategy_of a = compact" and "stamped owner a out"
    and "plain_view a" and "healthy owner st"
  shows "healthy owner st'"
  using assms(1)
proof (cases rule: iterate_cases)
  case (replied r used st1)
  note k = ask_healthy [OF replied(1) assms(2-4) prepared_healthy [OF assms(2,5)]]
  have "healthy owner (account a r used st1)" by (rule healthy_log [OF k(1)]) simp_all
  moreover have "fresh_answer owner r (account a r used st1)" using k(2) [OF refl] by (simp add: fresh_answer_def)
  ultimately show ?thesis by (rule act_healthy [OF replied(2)])
next
  case (ended r)
  show ?thesis by (rule ask_healthy(1) [OF ended(1) assms(2-4) prepared_healthy [OF assms(2,5)]])
qed (use assms(5) in simp)

lemma iterations_healthy:
  "iterations a out s p b i n st = (r, st') \<Longrightarrow> compaction_strategy_of a = compact \<Longrightarrow> stamped owner a out \<Longrightarrow>
     plain_view a \<Longrightarrow> healthy owner st \<Longrightarrow> healthy owner st'"
proof (induction n arbitrary: i st)
  case (Suc n)
  obtain oc st1 where s: "iterate a out s p b i st = (oc, st1)" by force
  note l = iterate_healthy [OF this Suc.prems(2-)]
  show ?case
  proof (cases oc)
    case Continues
    with Suc.prems(1) s have "iterations a out s p b (Suc i) n st1 = (r, st')" by simp
    from Suc.IH [OF this Suc.prems(2-4) l] show ?thesis .
  qed (use Suc.prems s l in auto)
qed simp

end

text \<open>The messages a run starts from: those it is given, or those of the checkpoint.\<close>

lemma start_log:
  "log (conv (start_run a out stored ctx ms e)) = ms \<or>
   (\<exists>c. stored = Payload c \<and> log (conv (start_run a out stored ctx ms e)) = cp_messages c)"
  by (auto simp: start_run_def resumed_def Let_def split: prod.splits stored_checkpoint.splits if_splits)

lemma start_healthy:
  assumes "log_fits owner (tick e) ms" and "case stored of Payload c \<Rightarrow> log_fits owner (tick e) (cp_messages c) | _ \<Rightarrow> True"
  shows "healthy owner (start_run a out stored ctx ms e)"
  using start_log [of a out stored ctx ms e] assms by (auto simp: healthy_def ticks_def split: stored_checkpoint.splits)

end
