(* ===== verification/Run_Properties.thy ===== *)
theory Run_Properties
  imports Agent_Runs Loop_Bounds
begin

text \<open>
  The properties of whole runs of the agent loop, and a small agent for the witnesses: a model that
  always calls one tool, which reads.
\<close>

section \<open>A small agent\<close>

definition small_tool :: "string \<Rightarrow> bool \<Rightarrow> Tool" where
  "small_tool name reads = \<lparr>name_of = name, description_of = ''tool'', input_schema_of = JObj [],
     description_minimal_override = None, input_schema_minimal_override = None, is_read_only = reads,
     needs_confirmation = (\<lambda>_. False), manages_own_timeout = False\<rparr>"

definition small_agent :: agent where
  "small_agent = \<lparr>
     tools_of = \<lparr>registry = [small_tool ''file_read'' True, small_tool ''file_write'' False],
       check_tool_call = (\<lambda>name _. if name = ''file_write'' then Deny ''outside the workspace'' else Allow),
       redact_text = (\<lambda>t. t), tool_rate_limit_per_minute = 30, system_prompt = ''Help'', al_max_tokens = 100,
       al_context_window = 1000, has_db = False, has_confirmations = False, confirm_shell = False,
       confirm_file_write = False, al_platform = plain_platform\<rparr>,
     model_of = ''m'', fallback_models = [], budget_of = with_total 1000, vision_override = None,
     vision_delegate = None, auto_compact_threshold = 0, enable_streaming = False,
     same_model_transient_retries = 1, compaction_strategy_of = default_compact,
     prepare_next_turn = (\<lambda>_ _ _. None), transform_context = id, should_stop_after_turn = (\<lambda>_ _ _. False),
     memory_retrieval_prompt = None \<rparr>"

text \<open>The ids of the calls of an answer have the length of its interaction.\<close>

definition small_answer :: "nat \<Rightarrow> LlmRequest \<Rightarrow> call_answer" where
  "small_answer t req = Whole (Inr \<lparr>rs_content = ''Reading'', rs_tool_calls =
      [\<lparr>tc_id = replicate t CHR ''r'' @ ''r'', tc_name = ''file_read'', tc_input = JObj []\<rparr>],
      rs_input_tokens = 9, rs_output_tokens = 5\<rparr>)"

definition small_outside :: model_outside where
  "small_outside = \<lparr>
     tool_side = \<lparr>cancelled = (\<lambda>_. False), instant_ms = (\<lambda>t. t), fresh_uuid = (\<lambda>_. ''u''), fresh_simple_uuid = (\<lambda>_. ''u''),
       approves = (\<lambda>_. False), hook_denies = (\<lambda>_ _ _ _. None),
       call_tool = (\<lambda>_ _ _. Returned \<lparr>out_content = ''ok'', out_is_error = False, out_image = None\<rparr>)\<rparr>,
     ask_model = small_answer, ask_summariser = (\<lambda>_ _. Inl ''none''), ask_vision = (\<lambda>_ _ _. Inl ''none''),
     parse_json = (\<lambda>_. None), pending_notifications = (\<lambda>_. []), plan_at = (\<lambda>_. None), halted_at = (\<lambda>_. False),
     now_rfc3339 = (\<lambda>_. ''now''), hash_messages = (\<lambda>_. 0), checkpoint_bytes = (\<lambda>_. 0) \<rparr>"

definition small_effects :: run_state where
  "small_effects = \<lparr>tick = 2, rate = Map.empty, vision_store = Map.empty, events = [], started = [], audits = []\<rparr>"

text \<open>The run starts after an earlier exchange.\<close>

definition small_log :: "LlmMessage list" where
  "small_log = [text_message ''user'' ''Look'', assistant_message [] [(''c1'', ''file_read'', JObj [])],
     user_blocks [ToolResult ''c1'' ''text'' False]]"

definition small_run :: "(string + LlmMessage list \<times> u32 \<times> u32) \<times> agent_state" where
  "small_run = run small_agent small_outside ''s'' (Some 1) None None NoCheckpoint None small_log small_effects"

lemma small_requests: "length (requests (snd small_run)) = 1"
  by code_simp

lemma small_fits: "log_fits List.length 2 small_log"
  by code_simp

lemma small_stamped: "stamped List.length small_agent small_outside"
  by (simp add: stamped_def small_agent_def small_outside_def small_answer_def)

lemma small_plain: "plain_view small_agent" "compaction_strategy_of small_agent = default_compact"
  by (simp_all add: plain_view_def small_agent_def)

section \<open>Properties\<close>

text \<open>
  C17. The requests of a run to its main models match: each tool call in them has its result, and the log at
  the end of the run is again one a run can start from. It takes four things: the compaction is the default
  one, images are not delegated to a vision model and no transform of the context is installed, the log the run
  starts from is good, and every call the models make in the run has an id that no call before it had. The
  last is not so with \<^verbatim>\<open>openai.rs\<close>'s own \<^verbatim>\<open>call_synth_0, call_synth_1, ...\<close>, which it gives in each answer
  anew to calls that came without an id. Then it holds however often the log is summarised, through failures,
  retries with other models, corrections and cancellations.
\<close>

theorem run_requests_match:
  assumes "compaction_strategy_of a = default_compact" and "plain_view a" and "stamped owner a out"
    and "log_fits owner (tick e) messages"
    and "case stored of Payload c \<Rightarrow> log_fits owner (tick e) (cp_messages c) | _ \<Rightarrow> True"
  shows "list_all (\<lambda>req. paired (rq_messages req))
      (requests (snd (run a out sid max_iterations project search stored ctx messages e))) \<and>
    good_log (log (conv (snd (run a out sid max_iterations project search stored ctx messages e))))"
proof (rule run_iterations [of a out sid max_iterations stored ctx messages e project search])
  fix prompt b r st
  assume "iterations a out sid prompt b 0 (case max_iterations of None \<Rightarrow> DEFAULT_MAX_ITERATIONS | Some m \<Rightarrow> unat m)
      (start_run a out stored ctx messages e) = (r, st)"
    and same: "conv (snd (run a out sid max_iterations project search stored ctx messages e)) = conv st"
      "requests (snd (run a out sid max_iterations project search stored ctx messages e)) = requests st"
  then have "healthy owner st"
    using default_strategy.iterations_healthy [OF _ assms(1,3,2) start_healthy [OF assms(4,5)]] by blast
  with same show ?thesis by (simp add: healthy_def log_fits_def list_all_iff)
qed

theorem run_requests_match_witness:
  "list_all (\<lambda>req. paired (rq_messages req)) (requests (snd small_run)) \<and> length (requests (snd small_run)) = 1 \<and>
   good_log (log (conv (snd small_run)))"
proof -
  have "log_fits List.length (tick small_effects) small_log" using small_fits by (simp add: small_effects_def)
  from run_requests_match [OF small_plain(2,1) small_stamped this, of NoCheckpoint] show ?thesis
    by (simp add: small_requests) (simp add: small_run_def)
qed

text \<open>
  C18. In a run only calls start that may: the tool is registered and gets its own time limit, the hook
  did not deny the call, the policy gate did not deny it, and where it warns about a call that needs the
  confirmation of the user, the user was asked for this very call and approved it.
\<close>

theorem run_starts_allowed_calls:
  "\<exists>new. started (effects_of (conv (snd (run a out sid max_iterations project search stored ctx messages e)))) = started e @ new \<and>
     list_all (may_start (tools_of a) (tool_side out)
       (events (effects_of (conv (snd (run a out sid max_iterations project search stored ctx messages e)))))) new"
  by (rule run_iterations [of a out sid max_iterations stored ctx messages e project search])
    (auto dest!: iterations_starts simp: starts_allowed_def list_all_iff)


end
