(* ===== verification/Utf8.thy ===== *)
theory Utf8
  imports Rust_Str
begin

text \<open>
  Bytes that need not be text: \<^verbatim>\<open>str::from_utf8\<close>, which accepts only well-formed UTF-8, and
  \<^verbatim>\<open>String::from_utf8_lossy\<close>, which writes U+FFFD for each maximal part that is not.
\<close>

text \<open>How many bytes a character with this first byte takes; no character starts with the others.\<close>

definition utf8_width :: "char \<Rightarrow> nat" where
  "utf8_width c =
     (let b = byte c
      in if b < 128 then 1 else if 194 \<le> b \<and> b \<le> 223 then 2 else if 224 \<le> b \<and> b \<le> 239 then 3
         else if 240 \<le> b \<and> b \<le> 244 then 4 else 0)"

definition continues :: "char \<Rightarrow> bool" where
  "continues c \<longleftrightarrow> 128 \<le> byte c \<and> byte c \<le> 191"

text \<open>Which bytes may follow; the second one is restricted for some first bytes.\<close>

definition follows :: "char \<Rightarrow> nat \<times> char \<Rightarrow> bool" where
  "follows c = (\<lambda>(i, d). continues d \<and>
     (i = 1 \<longrightarrow> (byte c = 224 \<longrightarrow> 160 \<le> byte d) \<and> (byte c = 237 \<longrightarrow> byte d \<le> 159) \<and>
       (byte c = 240 \<longrightarrow> 144 \<le> byte d) \<and> (byte c = 244 \<longrightarrow> byte d \<le> 143)))"

text \<open>How many bytes the head of a text takes, and whether they are a character.\<close>

definition utf8_head :: "string \<Rightarrow> nat \<times> bool" where
  "utf8_head s =
     (let w = utf8_width (hd s); n = length (takeWhile (follows (hd s)) (zip [1..<w] (tl s)))
      in if w = 0 then (1, False) else if Suc n = w then (w, True) else (Suc n, False))"

lemma utf8_head_pos [simp]: "0 < fst (utf8_head s)"
  by (simp add: utf8_head_def Let_def)

lemma utf8_rest_shorter [simp]: "s \<noteq> [] \<Longrightarrow> length s - fst (utf8_head s) < length s"
  by (simp add: diff_less)

function valid_utf8 :: "string \<Rightarrow> bool" where
  "valid_utf8 s \<longleftrightarrow> (if s = [] then True else snd (utf8_head s) \<and> valid_utf8 (drop (fst (utf8_head s)) s))"
  by pat_completeness auto
termination
  by (relation "measure length") auto

function from_utf8_lossy :: "string \<Rightarrow> string" where
  "from_utf8_lossy s =
     (if s = [] then []
      else (if snd (utf8_head s) then take (fst (utf8_head s)) s else [CHR 0xEF, CHR 0xBF, CHR 0xBD]) @
        from_utf8_lossy (drop (fst (utf8_head s)) s))"
  by pat_completeness auto
termination
  by (relation "measure length") auto

declare valid_utf8.simps [simp del] from_utf8_lossy.simps [simp del]

text \<open>Text is read as it is.\<close>

lemma lossy_valid: "valid_utf8 s \<Longrightarrow> from_utf8_lossy s = s"
proof (induction s rule: valid_utf8.induct)
  case (1 s)
  show ?case
  proof (cases "s = []")
    case False
    with "1.prems" have "snd (utf8_head s)" "valid_utf8 (drop (fst (utf8_head s)) s)"
      by (subst (asm) valid_utf8.simps; simp)+
    with False "1.IH" show ?thesis
      by (subst from_utf8_lossy.simps) (simp add: append_take_drop_id)
  qed (simp add: from_utf8_lossy.simps)
qed

lemma valid_ascii: "list_all (\<lambda>c. byte c < 128) s \<Longrightarrow> valid_utf8 s"
proof (induction s)
  case (Cons c s)
  then show ?case
    by (subst valid_utf8.simps) (simp add: utf8_head_def utf8_width_def Let_def)
qed (simp add: valid_utf8.simps)

section \<open>Characters of a text\<close>

lemma utf8_head_iff:
  assumes "s \<noteq> []"
  shows "snd (utf8_head s) \<longleftrightarrow> 0 < utf8_width (hd s) \<and> utf8_width (hd s) \<le> length s \<and>
      (\<forall>i. 0 < i \<longrightarrow> i < utf8_width (hd s) \<longrightarrow> follows (hd s) (i, s ! i))"
    and "snd (utf8_head s) \<Longrightarrow> fst (utf8_head s) = utf8_width (hd s)"
proof -
  define w where "w = utf8_width (hd s)"
  define z where "z = zip [1..<w] (tl s)"
  have len: "length z = min (w - 1) (length s - 1)" by (simp add: z_def)
  have nth: "z ! j = (Suc j, s ! Suc j)" if "j < length z" for j
    using that nth_upt [of 1 j w] by (simp add: z_def nth_tl less_diff_conv)
  have "snd (utf8_head s) \<longleftrightarrow> 0 < w \<and> Suc (length (takeWhile (follows (hd s)) z)) = w"
    by (simp add: utf8_head_def w_def z_def Let_def)
  also have "\<dots> \<longleftrightarrow> 0 < w \<and> w \<le> length s \<and> (\<forall>x \<in> set z. follows (hd s) x)"
  proof -
    have "length (takeWhile (follows (hd s)) z) \<le> length z" by (rule length_takeWhile_le)
    moreover have "length (takeWhile (follows (hd s)) z) = length z \<longleftrightarrow> (\<forall>x \<in> set z. follows (hd s) x)"
      by (metis takeWhile_eq_all_conv takeWhile_eq_take take_all_iff order.refl)
    ultimately show ?thesis using len assms by (cases s) auto
  qed
  also have "\<dots> \<longleftrightarrow> 0 < w \<and> w \<le> length s \<and> (\<forall>i. 0 < i \<longrightarrow> i < w \<longrightarrow> follows (hd s) (i, s ! i))"
  proof -
    have "(\<forall>x \<in> set z. follows (hd s) x) \<longleftrightarrow> (\<forall>i. 0 < i \<longrightarrow> i < w \<longrightarrow> follows (hd s) (i, s ! i))" if "w \<le> length s"
    proof -
      have "(\<forall>x \<in> set z. follows (hd s) x) \<longleftrightarrow> (\<forall>j < w - 1. follows (hd s) (Suc j, s ! Suc j))"
        using that len nth by (simp add: all_set_conv_all_nth)
      also have "\<dots> \<longleftrightarrow> (\<forall>i. 0 < i \<longrightarrow> i < w \<longrightarrow> follows (hd s) (i, s ! i))"
        by (metis Suc_less_eq Suc_pred gr0_conv_Suc less_Suc_eq_0_disj less_diff_conv plus_1_eq_Suc add.commute)
      finally show ?thesis .
    qed
    then show ?thesis by blast
  qed
  finally show "snd (utf8_head s) \<longleftrightarrow> 0 < utf8_width (hd s) \<and> utf8_width (hd s) \<le> length s \<and>
      (\<forall>i. 0 < i \<longrightarrow> i < utf8_width (hd s) \<longrightarrow> follows (hd s) (i, s ! i))" by (simp add: w_def)
  show "snd (utf8_head s) \<Longrightarrow> fst (utf8_head s) = utf8_width (hd s)"
    by (simp add: utf8_head_def Let_def split: if_splits)
qed

lemma follows_continues: "follows c (i, d) \<Longrightarrow> continues d"
  by (simp add: follows_def)

lemma width_no_continuation: "0 < utf8_width c \<Longrightarrow> \<not> continues c"
  by (auto simp: utf8_width_def continues_def Let_def split: if_splits)

lemma utf8_head_append:
  assumes "s \<noteq> []" and "snd (utf8_head s)"
  shows "utf8_head (s @ t) = utf8_head s"
proof -
  have "snd (utf8_head (s @ t))"
    using assms by (auto simp: utf8_head_iff nth_append)
  with assms utf8_head_iff(2) [of s] utf8_head_iff(2) [of "s @ t"] show ?thesis
    by (simp add: prod_eq_iff)
qed

lemma utf8_head_valid:
  assumes "s \<noteq> []" and "snd (utf8_head s)"
  shows "fst (utf8_head s) \<le> length s" and "\<not> continues (hd s)"
    and "0 < i \<Longrightarrow> i < fst (utf8_head s) \<Longrightarrow> continues (s ! i)"
proof -
  note h = utf8_head_iff [OF assms(1)]
  have w: "0 < utf8_width (hd s)" "fst (utf8_head s) = utf8_width (hd s)" using h assms(2) by auto
  show "fst (utf8_head s) \<le> length s" using h(1) assms(2) w by simp
  show "\<not> continues (hd s)" using w(1) by (rule width_no_continuation)
  assume i: "0 < i" "i < fst (utf8_head s)"
  with h(1) assms(2) w have "follows (hd s) (i, s ! i)" by simp
  then show "continues (s ! i)" by (rule follows_continues)
qed

lemma valid_Nil [simp]: "valid_utf8 []"
  by (simp add: valid_utf8.simps)

lemma valid_head: "valid_utf8 s \<Longrightarrow> s \<noteq> [] \<Longrightarrow> snd (utf8_head s) \<and> valid_utf8 (drop (fst (utf8_head s)) s)"
  by (subst (asm) valid_utf8.simps) simp

lemma valid_step: "s \<noteq> [] \<Longrightarrow> snd (utf8_head s) \<Longrightarrow> valid_utf8 (drop (fst (utf8_head s)) s) \<Longrightarrow> valid_utf8 s"
  by (subst valid_utf8.simps) simp

lemma valid_append: "valid_utf8 s \<Longrightarrow> valid_utf8 t \<Longrightarrow> valid_utf8 (s @ t)"
proof (induction s rule: valid_utf8.induct)
  case (1 s)
  show ?case
  proof (cases "s = []")
    case False
    note h = valid_head [OF "1.prems"(1) False]
    with False "1" have rest: "valid_utf8 (drop (fst (utf8_head s)) s @ t)" by simp
    have "utf8_head (s @ t) = utf8_head s" using False h by (simp add: utf8_head_append)
    moreover have "drop (fst (utf8_head s)) (s @ t) = drop (fst (utf8_head s)) s @ t"
      using False h by (simp add: utf8_head_valid(1))
    ultimately show ?thesis using False h rest by (intro valid_step [of "s @ t"]) simp_all
  qed (use "1.prems" in simp)
qed

lemma valid_split:
  "valid_utf8 (s @ t) \<Longrightarrow> t = [] \<or> \<not> continues (hd t) \<Longrightarrow> valid_utf8 s \<and> valid_utf8 t"
proof (induction s rule: length_induct)
  case (1 s)
  show ?case
  proof (cases "s = []")
    case False
    then have ne: "s @ t \<noteq> []" by simp
    define n where "n = fst (utf8_head (s @ t))"
    have h: "snd (utf8_head (s @ t))" "valid_utf8 (drop n (s @ t))"
      using valid_head [OF "1.prems"(1) ne] by (simp_all add: n_def)
    note v = utf8_head_valid [OF ne h(1), folded n_def]
    have n: "n \<le> length s"
    proof (rule ccontr)
      assume "\<not> n \<le> length s"
      with v(1) v(3) [of "length s"] False have "t \<noteq> []" "continues ((s @ t) ! length s)" by auto
      with "1.prems"(2) show False by (simp add: nth_append hd_conv_nth)
    qed
    then have "valid_utf8 (drop n s @ t)" using h(2) by simp
    moreover have "length (drop n s) < length s" using False utf8_head_pos [of "s @ t"] by (simp add: n_def)
    ultimately have rest: "valid_utf8 (drop n s) \<and> valid_utf8 t" using "1.IH" "1.prems"(2) by blast
    have "snd (utf8_head s)"
      using h(1) n False utf8_head_iff [OF ne] by (auto simp: utf8_head_iff n_def nth_append)
    moreover from this False have "fst (utf8_head s) = n" by (simp add: n_def utf8_head_append)
    ultimately have "valid_utf8 s" using rest False by (intro valid_step [of s]) simp_all
    with rest show ?thesis by blast
  qed (use "1.prems" in simp)
qed

lemma valid_prefix: "valid_utf8 (s @ t) \<Longrightarrow> valid_utf8 s \<Longrightarrow> valid_utf8 t"
proof (induction s rule: valid_utf8.induct)
  case (1 s)
  show ?case
  proof (cases "s = []")
    case False
    note h = valid_head [OF "1.prems"(2) False]
    have "valid_utf8 (drop (fst (utf8_head (s @ t))) (s @ t))" using valid_head [OF "1.prems"(1)] False by simp
    then have "valid_utf8 (drop (fst (utf8_head s)) s @ t)"
      using h False utf8_head_append utf8_head_valid(1) by simp
    with "1.IH" False h show ?thesis by blast
  qed (use "1.prems" in simp)
qed

lemma valid_hd: "valid_utf8 s \<Longrightarrow> s \<noteq> [] \<Longrightarrow> \<not> continues (hd s)"
  using valid_head utf8_head_valid(2) by blast

text \<open>A text that occurs in a text begins and ends between characters.\<close>

lemma valid_around:
  assumes "valid_utf8 (s @ t @ u)" and "valid_utf8 t" and "t \<noteq> []"
  shows "valid_utf8 s" and "valid_utf8 u"
proof -
  have "hd (t @ u) = hd t" using assms(3) by simp
  with valid_split [OF assms(1)] valid_hd [OF assms(2,3)] show "valid_utf8 s" "valid_utf8 u"
    using valid_prefix [OF _ assms(2)] by auto
qed

lemma boundary_between: "valid_utf8 t \<Longrightarrow> is_char_boundary (s @ t) (length s)"
  using valid_hd [of t] by (cases t) (auto simp: is_char_boundary_def nth_append continues_def)

end
