(* ===== verification/Files.thy ===== *)
theory Files
  imports Models Utf8
begin

text \<open>
  Paths and files as the sources use them, on Unix: \<^verbatim>\<open>std::path\<close>, the calls of \<^verbatim>\<open>std::fs\<close>, and the texts
  of paths for people and models (\<^verbatim>\<open>path_text.rs\<close>). A path is its text split at the slashes, and whether
  it starts with one. A file system has directories, files and symbolic links; a location is the list of
  names that leads to an entry from the root.
\<close>

section \<open>Paths\<close>

fun split_when :: "(char \<Rightarrow> bool) \<Rightarrow> string \<Rightarrow> string list" where
  "split_when P [] = [[]]"
| "split_when P (c # cs) =
     (if P c then [] # split_when P cs
      else case split_when P cs of [] \<Rightarrow> [[c]] | w # ws \<Rightarrow> (c # w) # ws)"

type_synonym path = "bool \<times> string list"

definition is_absolute :: "path \<Rightarrow> bool" where
  "is_absolute p = fst p"

definition parse_path :: "string \<Rightarrow> path" where
  "parse_path s = (case s of c # cs \<Rightarrow> if c = CHR ''/'' then (True, split_when (\<lambda>b. b = CHR ''/'') cs)
      else (False, split_when (\<lambda>b. b = CHR ''/'') s) | [] \<Rightarrow> (False, [[]]))"

definition path_str :: "path \<Rightarrow> string" where
  "path_str p = (if fst p then ''/'' else []) @ join ''/'' (snd p)"

definition join_path :: "path \<Rightarrow> path \<Rightarrow> path" where
  "join_path p q =
     (if fst q then q
      else (fst p, (if snd p \<noteq> [] \<and> last (snd p) = [] then butlast (snd p) else snd p) @ snd q))"

text \<open>\<^verbatim>\<open>Path::components\<close>: repeated slashes and dots in the middle do not count.\<close>

datatype component = RootDir | CurDir | ParentDir | Normal string

definition component_of :: "string \<Rightarrow> component" where
  "component_of s = (if s = ''..'' then ParentDir else Normal s)"

definition components :: "path \<Rightarrow> component list" where
  "components p =
     (let segs = filter (\<lambda>s. s \<noteq> []) (snd p)
      in (if fst p then [RootDir] else if segs \<noteq> [] \<and> hd segs = ''.'' then [CurDir] else []) @
         map component_of (filter (\<lambda>s. s \<noteq> ''.'') segs))"

definition path_starts_with :: "path \<Rightarrow> path \<Rightarrow> bool" where
  "path_starts_with p q \<longleftrightarrow> prefix (components q) (components p)"

fun component_str :: "component \<Rightarrow> string" where
  "component_str RootDir = []"
| "component_str CurDir = ''.''"
| "component_str ParentDir = ''..''"
| "component_str (Normal s) = s"

definition of_components :: "component list \<Rightarrow> path" where
  "of_components cs = (RootDir \<in> set cs, map component_str (filter (\<lambda>c. c \<noteq> RootDir) cs))"

definition parent :: "path \<Rightarrow> path option" where
  "parent p =
     (let cs = components p
      in if cs = [] \<or> last cs = RootDir then None else Some (of_components (butlast cs)))"

definition file_name :: "path \<Rightarrow> string option" where
  "file_name p =
     (let cs = components p
      in if cs = [] then None else case last cs of Normal s \<Rightarrow> Some s | _ \<Rightarrow> None)"

section \<open>The file system\<close>

datatype node = Directory | File string | Link path

datatype io_error = NotFound | NotADirectory | IsADirectory | AlreadyExists | NoParent | FilesystemLoop

record disk =
  nodes :: "string list \<rightharpoonup> node"
  cwd :: "string list"

text \<open>
  The walk of the system along a path: each step needs a directory to stand in, and a link on the way is
  replaced by what it holds, at most as often as \<open>n\<close> says. A link at the end of the path is followed when
  \<open>follow\<close> is set. The result is a location and how many links could still have been followed.
\<close>

function walk ::
  "(string list \<rightharpoonup> node) \<Rightarrow> bool \<Rightarrow> nat \<Rightarrow> string list \<Rightarrow> string list \<Rightarrow> io_error + string list \<times> nat" where
  "walk ns follow n pos [] = Inr (pos, n)"
| "walk ns follow n pos (s # segs) =
     (if ns pos = None then Inl NotFound
      else if ns pos \<noteq> Some Directory then Inl NotADirectory
      else if s = [] \<or> s = ''.'' then walk ns follow n pos segs
      else if s = ''..'' then walk ns follow n (butlast pos) segs
      else case ns (pos @ [s]) of
             Some (Link q) \<Rightarrow>
               if segs = [] \<and> \<not> follow then Inr (pos @ [s], n)
               else if n = 0 then Inl FilesystemLoop
               else walk ns follow (n - 1) (if fst q then [] else pos) (snd q @ segs)
           | _ \<Rightarrow> walk ns follow n (pos @ [s]) segs)"
  by pat_completeness auto
termination
  by (relation "measures [\<lambda>(ns, f, n, pos, segs). n, \<lambda>(ns, f, n, pos, segs). length segs]") auto

text \<open>What Linux allows.\<close>

definition MAX_LINKS :: nat where "MAX_LINKS = 40"

definition locate :: "disk \<Rightarrow> bool \<Rightarrow> path \<Rightarrow> io_error + string list" where
  "locate d follow p =
     (if p = (False, [[]]) \<or> p = (False, []) then Inl NotFound
      else map_sum id fst (walk (nodes d) follow MAX_LINKS (if fst p then [] else cwd d) (snd p)))"

text \<open>The location a path leads to; the last name need not exist. An empty path leads nowhere.\<close>

abbreviation resolve :: "disk \<Rightarrow> path \<Rightarrow> io_error + string list" where
  "resolve d p \<equiv> locate d True p"

definition node_at :: "disk \<Rightarrow> path \<Rightarrow> node option" where
  "node_at d p = (case resolve d p of Inl e \<Rightarrow> None | Inr l \<Rightarrow> nodes d l)"

definition exists :: "disk \<Rightarrow> path \<Rightarrow> bool" where
  "exists d p \<longleftrightarrow> node_at d p \<noteq> None"

definition is_dir :: "disk \<Rightarrow> path \<Rightarrow> bool" where
  "is_dir d p \<longleftrightarrow> node_at d p = Some Directory"

definition canonicalize :: "disk \<Rightarrow> path \<Rightarrow> path option" where
  "canonicalize d p =
     (case resolve d p of Inl e \<Rightarrow> None | Inr l \<Rightarrow> if nodes d l = None then None else Some (True, l))"

definition read_file :: "disk \<Rightarrow> path \<Rightarrow> io_error + string" where
  "read_file d p =
     (case resolve d p of
        Inl e \<Rightarrow> Inl e
      | Inr l \<Rightarrow> (case nodes d l of
            None \<Rightarrow> Inl NotFound | Some Directory \<Rightarrow> Inl IsADirectory | Some (Link q) \<Rightarrow> Inl FilesystemLoop
          | Some (File t) \<Rightarrow> Inr t))"

definition write_bytes :: "disk \<Rightarrow> path \<Rightarrow> string \<Rightarrow> io_error + disk" where
  "write_bytes d p t =
     (case resolve d p of
        Inl e \<Rightarrow> Inl e
      | Inr l \<Rightarrow> if nodes d l = Some Directory then Inl IsADirectory
                else Inr (d\<lparr>nodes := (nodes d)(l \<mapsto> File t)\<rparr>))"

text \<open>A directory is not made in the place of a link, even of one that leads nowhere.\<close>

definition mkdir :: "disk \<Rightarrow> path \<Rightarrow> io_error + disk" where
  "mkdir d p =
     (case locate d False p of
        Inl e \<Rightarrow> Inl e
      | Inr l \<Rightarrow> if nodes d l \<noteq> None then Inl AlreadyExists
                else Inr (d\<lparr>nodes := (nodes d)(l \<mapsto> Directory)\<rparr>))"

text \<open>\<^verbatim>\<open>create_dir_all\<close>, on the components of its path, the last one first.\<close>

fun create_dirs :: "disk \<Rightarrow> component list \<Rightarrow> (io_error option) \<times> disk" where
  "create_dirs d [] = (None, d)"
| "create_dirs d (c # cs) =
     (let p = of_components (rev (c # cs)); again = (\<lambda>d.
        case mkdir d p of Inr d' \<Rightarrow> (None, d') | Inl e \<Rightarrow> (if is_dir d p then None else Some e, d))
      in case mkdir d p of
           Inr d' \<Rightarrow> (None, d')
         | Inl e \<Rightarrow>
             if e = NotFound then
               if c = RootDir then (Some NoParent, d)
               else case create_dirs d cs of (None, d') \<Rightarrow> again d' | (Some e', d') \<Rightarrow> (Some e', d')
             else (if is_dir d p then None else Some e, d))"

definition create_dir_all :: "disk \<Rightarrow> path \<Rightarrow> (io_error option) \<times> disk" where
  "create_dir_all d p = create_dirs d (rev (components p))"

text \<open>A change that removes no directory and touches no link leads paths to where they led before.\<close>

definition extends :: "(string list \<rightharpoonup> node) \<Rightarrow> (string list \<rightharpoonup> node) \<Rightarrow> bool" where
  "extends ns ns' \<longleftrightarrow> (\<forall>l. (ns l = Some Directory \<longrightarrow> ns' l = Some Directory) \<and>
     (\<forall>q. ns' l = Some (Link q) \<longleftrightarrow> ns l = Some (Link q)))"

lemma walk_extends: "walk ns follow n pos segs = Inr r \<Longrightarrow> extends ns ns' \<Longrightarrow> walk ns' follow n pos segs = Inr r"
proof (induction ns follow n pos segs rule: walk.induct)
  case (2 ns follow n pos s segs)
  have dir: "ns pos = Some Directory" "ns' pos = Some Directory"
    using "2.prems" by (auto simp: extends_def split: if_splits)
  show ?case
  proof (cases "\<exists>q. ns (pos @ [s]) = Some (Link q)")
    case True
    then obtain q where "ns (pos @ [s]) = Some (Link q)" "ns' (pos @ [s]) = Some (Link q)"
      using "2.prems"(2) by (auto simp: extends_def)
    with 2 dir show ?thesis by (auto split: if_splits)
  next
    case False
    then have "\<nexists>q. ns' (pos @ [s]) = Some (Link q)" using "2.prems"(2) by (auto simp: extends_def)
    with 2 dir False show ?thesis by (auto split: if_splits option.splits node.splits)
  qed
qed simp

lemma locate_extends:
  "locate d follow p = Inr l \<Longrightarrow> extends (nodes d) (nodes d') \<Longrightarrow> cwd d' = cwd d \<Longrightarrow> locate d' follow p = Inr l"
  by (auto simp: locate_def map_sum_def split: if_splits sum.splits dest: walk_extends)

section \<open>Texts of paths\<close>

definition ascii_alphabetic :: "char \<Rightarrow> bool" where
  "ascii_alphabetic b \<longleftrightarrow> 65 \<le> byte b \<and> byte b \<le> 90 \<or> 97 \<le> byte b \<and> byte b \<le> 122"

definition strip_verbatim :: "string \<Rightarrow> string" where
  "strip_verbatim text =
     (let b = CHR 0x5C; q = CHR 0x3F
      in if starts_with text [b, b, q, b, CHR ''U'', CHR ''N'', CHR ''C'', b] then [b, b] @ drop 8 text
         else if starts_with text [b, b, q, b] then
           let rest = drop 4 text
           in if 3 \<le> length rest \<and> ascii_alphabetic (rest ! 0) \<and> rest ! 1 = CHR 0x3A \<and> rest ! 2 = b then rest
              else text
         else text)"

definition display_path :: "path \<Rightarrow> string" where
  "display_path p = strip_verbatim (path_str p)"

definition path_parts :: "path \<Rightarrow> string list" where
  "path_parts p = filter (\<lambda>s. s \<noteq> []) (split_when (\<lambda>b. b = CHR ''/'' \<or> b = CHR 0x5C) (display_path p))"

definition relative_under :: "path \<Rightarrow> path \<Rightarrow> string option" where
  "relative_under p root =
     (let ps = path_parts p; rs = path_parts root
      in if rs = [] \<or> length ps < length rs then None
         else if list_all (\<lambda>(a, b). eq_ignore_ascii_case a b) (zip ps rs)
         then Some (join ''/'' (drop (length rs) ps)) else None)"

definition display_path_under :: "path \<Rightarrow> path \<Rightarrow> string" where
  "display_path_under p root =
     (case relative_under p root of None \<Rightarrow> display_path p | Some rel \<Rightarrow> if rel = [] then ''.'' else rel)"

definition display_path_for_tool :: "path \<Rightarrow> path \<Rightarrow> string" where
  "display_path_for_tool p root =
     (let rel = display_path_under p root in if rel = ''.'' then display_path p else rel)"

section \<open>Well-formed file systems\<close>

text \<open>The root is a directory, and so is what contains something; the process stands in a directory.\<close>

definition wf_disk :: "disk \<Rightarrow> bool" where
  "wf_disk d \<longleftrightarrow> nodes d [] = Some Directory \<and> nodes d (cwd d) = Some Directory \<and>
     (\<forall>l n. nodes d (l @ [n]) \<noteq> None \<longrightarrow> nodes d l = Some Directory)"

end
