(* ===== verification/Policy_Gate.thy ===== *)
theory Policy_Gate
  imports Files Tool_Phase
begin

text \<open>
  The policy gate (\<^verbatim>\<open>policy/gate.rs\<close>) and the detection of injected prompts (\<^verbatim>\<open>security/injection.rs\<close>):
  which tool calls are allowed, denied or warned about. The regular expressions are matched by the
  \<^verbatim>\<open>regex\<close> crate, and base64 is decoded by another: both are parameters. The file system is that of
  \<open>Files\<close>.
\<close>

section \<open>Patterns\<close>

text \<open>What the crates decide: whether a pattern occurs in a text, and the text with all its matches replaced.\<close>

record crates =
  is_match :: "string \<Rightarrow> string \<Rightarrow> bool"
  replace_matches :: "string \<Rightarrow> string \<Rightarrow> string \<Rightarrow> string"
  base64_decode :: "string \<Rightarrow> string option"

definition BLOCKED_PATTERNS :: "string list" where
  "BLOCKED_PATTERNS = [
     (''(?i)^'' @ [CHR 0x5C] @ ''s*format'' @ [CHR 0x5C] @ ''s+[a-z]:''),
     (''(?i)del'' @ [CHR 0x5C] @ ''s+/[fsq]+'' @ [CHR 0x5C] @ ''s+[a-z]:'' @ [CHR 0x5C, CHR 0x5C]),
     (''(?i)rd'' @ [CHR 0x5C] @ ''s+/[sq]+'' @ [CHR 0x5C] @ ''s+[a-z]:'' @ [CHR 0x5C, CHR 0x5C]),
     (''(?i)reg'' @
       [CHR 0x5C] @
       ''s+(delete|add)'' @
       [CHR 0x5C] @
       ''s+HKLM'' @
       [CHR 0x5C, CHR 0x5C] @
       ''SYSTEM''),
     (''(?i)shutdown'' @ [CHR 0x5C] @ ''s+(/s|/r|-h|-r)''),
     (''(?i)rm'' @ [CHR 0x5C] @ ''s+-rf'' @ [CHR 0x5C] @ ''s+/''),
     (''(?i)dd'' @ [CHR 0x5C] @ ''s+if=.*of=/dev/(sd|hd|nvme)''),
     (''(?i)mkfs'' @ [CHR 0x5C] @ ''s+''),
     (''(?i):'' @
       [CHR 0x5C] @
       ''('' @
       [CHR 0x5C] @
       '')'' @
       [CHR 0x5C] @
       ''s*'' @
       [CHR 0x5C] @
       ''{.*'' @
       [CHR 0x5C] @
       ''};'' @
       [CHR 0x5C] @
       ''s*:'')]"

definition WARN_PATTERNS :: "string list" where
  "WARN_PATTERNS = [
     (''(?i)pip'' @ [CHR 0x5C] @ ''s+install''),
     (''(?i)npm'' @ [CHR 0x5C] @ ''s+install'' @ [CHR 0x5C] @ ''s+-g''),
     (''(?i)curl'' @
       [CHR 0x5C] @
       ''s+.*'' @
       [CHR 0x5C] @
       ''|'' @
       [CHR 0x5C] @
       ''s*(bash|sh|powershell)''),
     (''(?i)powershell'' @ [CHR 0x5C] @ ''s+-EncodedCommand''),
     ''(?i)Invoke-Expression'',
     (''(?i)iex'' @ [CHR 0x5C] @ ''s+''),
     (''(?i)Set-ExecutionPolicy'' @ [CHR 0x5C] @ ''s+Unrestricted'')]"

definition BLOCKED_URL_PATTERNS :: "string list" where
  "BLOCKED_URL_PATTERNS = [
     ''(?i)^chrome://'',
     ''(?i)^chrome-extension://'',
     ''(?i)^edge://'',
     ''(?i)^about:'',
     ''(?i)^file://'',
     (''(?i)^https?://(localhost|127'' @
       [CHR 0x5C] @
       ''.0'' @
       [CHR 0x5C] @
       ''.0'' @
       [CHR 0x5C] @
       ''.1|0'' @
       [CHR 0x5C] @
       ''.0'' @
       [CHR 0x5C] @
       ''.0'' @
       [CHR 0x5C] @
       ''.0)(:|/)''),
     (''(?i)^https?://10'' @
       [CHR 0x5C] @
       ''.'' @
       [CHR 0x5C] @
       ''d+'' @
       [CHR 0x5C] @
       ''.'' @
       [CHR 0x5C] @
       ''d+'' @
       [CHR 0x5C] @
       ''.'' @
       [CHR 0x5C] @
       ''d+''),
     (''(?i)^https?://192'' @
       [CHR 0x5C] @
       ''.168'' @
       [CHR 0x5C] @
       ''.'' @
       [CHR 0x5C] @
       ''d+'' @
       [CHR 0x5C] @
       ''.'' @
       [CHR 0x5C] @
       ''d+''),
     (''(?i)^https?://172'' @
       [CHR 0x5C] @
       ''.(1[6-9]|2'' @
       [CHR 0x5C] @
       ''d|3[01])'' @
       [CHR 0x5C] @
       ''.'' @
       [CHR 0x5C] @
       ''d+'' @
       [CHR 0x5C] @
       ''.'' @
       [CHR 0x5C] @
       ''d+'')]"

definition WARN_URL_PATTERNS :: "string list" where
  "WARN_URL_PATTERNS = [
     ''(?i)(bank|paypal|stripe|payment|checkout)'',
     ''(?i)(login|signin|auth|oauth|password)'']"

definition SENSITIVE_UIA_CLASSES :: "string list" where
  "SENSITIVE_UIA_CLASSES = [''PasswordBox'', ''PasswordEdit'', ''Credential Dialog Xaml Host'', ''TaskManagerWindow'']"

definition BLOCKED_PROCESS_TITLES :: "string list" where
  "BLOCKED_PROCESS_TITLES = [
     ''(?i)Registry Editor'',
     ''(?i)User Account Control'',
     ''(?i)Windows Security'',
     ''(?i)BitLocker'']"

definition SECRET_PATTERNS :: "string list" where
  "SECRET_PATTERNS = [
     (''(?i)(api[_-]?key|token|secret|password)'' @
       [CHR 0x5C] @
       ''s*[:=]'' @
       [CHR 0x5C] @
       ''s*['' @
       [CHR 0x27, CHR 0x22] @
       '']?[A-Za-z0-9_'' @
       [CHR 0x5C] @
       ''-'' @
       [CHR 0x5C] @
       ''.]{8,}''),
     (''(?i)Bearer'' @ [CHR 0x5C] @ ''s+[A-Za-z0-9_'' @ [CHR 0x5C] @ ''-'' @ [CHR 0x5C] @ ''.]+'')]"

section \<open>Injected prompts\<close>

definition INJECTION_PATTERNS :: "(string \<times> string \<times> nat) list" where
  "INJECTION_PATTERNS = [
     ((''(?i)ignore'' @
       [CHR 0x5C] @
       ''s+(all'' @
       [CHR 0x5C] @
       ''s+)?previous'' @
       [CHR 0x5C] @
       ''s+instructions''), ''instruction_override'', 30),
     ((''(?i)forget'' @ [CHR 0x5C] @ ''s+(everything|all|your'' @ [CHR 0x5C] @ ''s+instructions)''), ''memory_wipe'', 30),
     ((''(?i)(do'' @
       [CHR 0x5C] @
       ''s+not|don'' @
       [CHR 0x27] @
       ''?t)'' @
       [CHR 0x5C] @
       ''s+follow'' @
       [CHR 0x5C] @
       ''s+(your|the)'' @
       [CHR 0x5C] @
       ''s+(rules|instructions|guidelines)''), ''rule_bypass'', 25),
     ((''(?i)you'' @
       [CHR 0x5C] @
       ''s+are'' @
       [CHR 0x5C] @
       ''s+now'' @
       [CHR 0x5C] @
       ''s+(a|an)'' @
       [CHR 0x5C] @
       ''s+''), ''role_hijack'', 25),
     ((''(?i)act'' @
       [CHR 0x5C] @
       ''s+as'' @
       [CHR 0x5C] @
       ''s+(if'' @
       [CHR 0x5C] @
       ''s+you'' @
       [CHR 0x5C] @
       ''s+(are|were)'' @
       [CHR 0x5C] @
       ''s+)?a(n)?'' @
       [CHR 0x5C] @
       ''s+''), ''persona_switch'', 20),
     ((''(?i)pretend'' @
       [CHR 0x5C] @
       ''s+(you'' @
       [CHR 0x5C] @
       ''s+are|to'' @
       [CHR 0x5C] @
       ''s+be)'' @
       [CHR 0x5C] @
       ''s+''), ''persona_switch'', 20),
     ((''(?i)system'' @ [CHR 0x5C] @ ''s*:'' @ [CHR 0x5C] @ ''s*''), ''system_prompt_injection'', 20),
     ((''(?i)'' @
       [CHR 0x5C] @
       ''[SYSTEM'' @
       [CHR 0x5C] @
       '']|'' @
       [CHR 0x5C] @
       ''[INST'' @
       [CHR 0x5C] @
       '']|<'' @
       [CHR 0x5C] @
       ''|im_start'' @
       [CHR 0x5C] @
       ''|>|<'' @
       [CHR 0x5C] @
       ''|system'' @
       [CHR 0x5C] @
       ''|'') @ ''>'', ''format_injection'', 20),
     ((''(?i)base64'' @ [CHR 0x5C] @ ''s*:'' @ [CHR 0x5C] @ ''s*[A-Za-z0-9+/=]{20,}''), ''base64_bypass'', 15),
     ((''(?i)rot13'' @ [CHR 0x5C] @ ''s*['' @ [CHR 0x5C] @ ''(:]''), ''rot13_bypass'', 15),
     (''(?:[A-Za-z0-9+/]{60,})={0,2}'', ''long_base64_blob'', 10),
     (([CHR 0x5C] @
       ''p{Cf}|'' @
       [CHR 0x5C] @
       ''u{200B}|'' @
       [CHR 0x5C] @
       ''u{200C}|'' @
       [CHR 0x5C] @
       ''u{200D}|'' @
       [CHR 0x5C] @
       ''u{FEFF}''), ''zero_width_chars'', 15),
     ((''(?i)<'' @ [CHR 0x5C] @ ''s*script'' @ [CHR 0x5C] @ ''s*'') @ ''>'', ''script_tag'', 10),
     ((''(?i)javascript'' @ [CHR 0x5C] @ ''s*:''), ''js_protocol'', 10),
     ((''(?i)'' @ [CHR 0x5C] @ ''bprompt'' @ [CHR 0x5C] @ ''s+injection'' @ [CHR 0x5C] @ ''b''), ''self_reference'', 10),
     ((''(?i)(send|email|post|exfiltrate|leak)'' @
       [CHR 0x5C] @
       ''s+(my'' @
       [CHR 0x5C] @
       ''s+)?(api[_ ]?key|password|secret|token|credential)''), ''exfiltration_attempt'', 20),
     ((''(?i)(reveal|print|show|output|display)'' @
       [CHR 0x5C] @
       ''s+(your'' @
       [CHR 0x5C] @
       ''s+)?(system'' @
       [CHR 0x5C] @
       ''s+)?prompt''), ''prompt_extraction'', 25)]"

definition DETECTION_THRESHOLD :: nat where "DETECTION_THRESHOLD = 20"
definition MAX_SCORE :: nat where "MAX_SCORE = 100"

record InjectionDetection =
  ij_detected :: bool
  ij_patterns :: "string list"
  ij_score :: nat
  ij_severity :: string

definition score_to_severity :: "nat \<Rightarrow> string" where
  "score_to_severity score =
     (if score \<le> 9 then ''none'' else if score \<le> 19 then ''low'' else if score \<le> 39 then ''medium''
      else if score \<le> 69 then ''high'' else ''critical'')"

definition base64_char :: "char \<Rightarrow> bool" where
  "base64_char b \<longleftrightarrow> ascii_alphabetic b \<or> 48 \<le> byte b \<and> byte b \<le> 57 \<or> b \<in> set ''+/=''"

definition decode_common_encodings :: "crates \<Rightarrow> string \<Rightarrow> string option" where
  "decode_common_encodings x text =
     (if length text < 40 then None
      else let cleaned = filter base64_char text
           in if length cleaned < 32 then None
              else case base64_decode x cleaned of
                     None \<Rightarrow> None
                   | Some b \<Rightarrow> if valid_utf8 b then Some b else None)"

definition compute_density_bonus :: "string \<Rightarrow> nat" where
  "compute_density_bonus text =
     (let lower = to_lowercase text;
          hits = length (filter (contains lower) [''ignore'', ''override'', ''bypass'', ''jailbreak'', ''forget'',
            ''disregard'', ''disable'', ''pretend'', ''roleplay'', ''sudo''])
      in if hits \<le> 1 then 0 else if hits = 2 then 5 else if hits \<le> 4 then 10 else 15)"

definition injection_hits :: "crates \<Rightarrow> string \<Rightarrow> (string \<times> string \<times> nat) list" where
  "injection_hits x text =
     (let haystack = (case decode_common_encodings x text of None \<Rightarrow> text | Some d \<Rightarrow> d)
      in filter (\<lambda>(p, name, score). is_match x p text \<or> is_match x p haystack) INJECTION_PATTERNS)"

definition detect_injection :: "crates \<Rightarrow> string \<Rightarrow> InjectionDetection" where
  "detect_injection x text =
     (let hits = injection_hits x text;
          score = min (sum_list (map (snd \<circ> snd) hits) + compute_density_bonus text) MAX_SCORE
      in \<lparr>ij_detected = (DETECTION_THRESHOLD \<le> score), ij_patterns = map (fst \<circ> snd) hits, ij_score = score,
          ij_severity = score_to_severity score\<rparr>)"

section \<open>The gate\<close>

datatype PolicyMode = Strict | Balanced | Dev

definition parse_mode :: "string \<Rightarrow> PolicyMode" where
  "parse_mode mode =
     (let m = to_lowercase mode in if m = ''strict'' then Strict else if m = ''dev'' then Dev else Balanced)"

record PolicyGate =
  pg_workspace_root :: path
  pg_mode :: PolicyMode
  pg_tool_rate_limit_per_minute :: u32
  pg_allow_outside_workspace :: bool
  pg_extra_read_roots :: "path list"

definition new_gate :: "path \<Rightarrow> PolicyGate" where
  "new_gate root = \<lparr>pg_workspace_root = root, pg_mode = Balanced, pg_tool_rate_limit_per_minute = 120,
     pg_allow_outside_workspace = False, pg_extra_read_roots = []\<rparr>"

definition with_profile_and_flags :: "path \<Rightarrow> string \<Rightarrow> u32 \<Rightarrow> bool \<Rightarrow> PolicyGate" where
  "with_profile_and_flags root mode limit outside_ok = \<lparr>pg_workspace_root = root, pg_mode = parse_mode mode,
     pg_tool_rate_limit_per_minute = limit, pg_allow_outside_workspace = outside_ok, pg_extra_read_roots = []\<rparr>"

definition with_profile :: "path \<Rightarrow> string \<Rightarrow> u32 \<Rightarrow> PolicyGate" where
  "with_profile root mode limit = with_profile_and_flags root mode limit False"

definition canonical_or_self :: "disk \<Rightarrow> path \<Rightarrow> path" where
  "canonical_or_self d p = (case canonicalize d p of Some c \<Rightarrow> c | None \<Rightarrow> p)"

definition with_extra_read_roots :: "disk \<Rightarrow> path list \<Rightarrow> PolicyGate \<Rightarrow> PolicyGate" where
  "with_extra_read_roots d roots g = g\<lparr>pg_extra_read_roots := map (canonical_or_self d) roots\<rparr>"

definition checked_path :: "disk \<Rightarrow> path \<Rightarrow> path" where
  "checked_path d p =
     (case canonicalize d p of
        Some c \<Rightarrow> c
      | None \<Rightarrow>
          (case canonicalize d (case parent p of Some q \<Rightarrow> q | None \<Rightarrow> p) of
             Some c \<Rightarrow> join_path c (parse_path (case file_name p of Some n \<Rightarrow> n | None \<Rightarrow> []))
           | None \<Rightarrow> p))"

definition check_path :: "PolicyGate \<Rightarrow> disk \<Rightarrow> string \<Rightarrow> PolicyDecision" where
  "check_path g d path =
     (let canonical = checked_path d (join_path (pg_workspace_root g) (parse_path path));
          ws = canonical_or_self d (pg_workspace_root g)
      in if path_starts_with canonical ws \<or> list_ex (path_starts_with canonical) (pg_extra_read_roots g) then Allow
         else if pg_allow_outside_workspace g then
           Warn (([CHR 0xE2, CHR 0x9A, CHR 0xA0, CHR 0xEF, CHR 0xB8, CHR 0x8F] @
       '' Path '' @
       [CHR 0x27]) @ path @ ([CHR 0x27] @ '' is outside the workspace root '' @ [CHR 0x27]) @ display_path ws @
             ([CHR 0x27] @
       '' '' @
       [CHR 0xE2, CHR 0x80, CHR 0x94] @
       '' proceeding because '' @
       [CHR 0x22] @
       ''Allow outside workspace'' @
       [CHR 0x22] @
       '' is enabled.''))
         else Deny ((''Path '' @ [CHR 0x27]) @ path @ ([CHR 0x27] @ '' is outside the workspace root '' @ [CHR 0x27]) @ display_path ws @
             ([CHR 0x27] @
       ''. Enable '' @
       [CHR 0x22] @
       ''Allow outside workspace'' @
       [CHR 0x22] @
       '' in Settings to access files outside the workspace.'')))"

definition check_command :: "PolicyGate \<Rightarrow> crates \<Rightarrow> string \<Rightarrow> PolicyDecision" where
  "check_command g x command =
     (if pg_mode g = Dev then Allow
      else case find (\<lambda>p. is_match x p command) BLOCKED_PATTERNS of
             Some p \<Rightarrow> Deny (''Command matches blocked pattern: '' @ p)
           | None \<Rightarrow>
               (case find (\<lambda>p. is_match x p command) WARN_PATTERNS of
                  Some p \<Rightarrow> if pg_mode g = Strict then Deny (''Command denied in strict mode: '' @ p)
                            else Warn (''Command matches warning pattern: '' @ p)
                | None \<Rightarrow> Allow))"

definition check_url :: "PolicyGate \<Rightarrow> crates \<Rightarrow> string \<Rightarrow> PolicyDecision" where
  "check_url g x url =
     (if pg_mode g = Dev then Allow
      else case find (\<lambda>p. is_match x p url) BLOCKED_URL_PATTERNS of
             Some p \<Rightarrow> Deny ((''URL blocked by policy: '' @ [CHR 0x27]) @ url @ ([CHR 0x27] @ '' matches pattern '' @ [CHR 0x27]) @ p @ [CHR 0x27])
           | None \<Rightarrow>
               if list_ex (\<lambda>p. is_match x p url) WARN_URL_PATTERNS then
                 if pg_mode g = Strict then Deny (''Sensitive URL denied in strict mode: '' @ url)
                 else Warn (''Navigating to potentially sensitive URL: '' @ url)
               else Allow)"

text \<open>\<^verbatim>\<open>input[key].as_str()\<close>, and the first of several keys that is text.\<close>

definition str_at :: "json \<Rightarrow> string \<Rightarrow> string option" where
  "str_at input k = Option.bind (json_get input k) json_as_str"

definition str_or :: "json \<Rightarrow> string list \<Rightarrow> string option" where
  "str_or input ks = (case List.map_filter (str_at input) ks of [] \<Rightarrow> None | s # ss \<Rightarrow> Some s)"

definition check_uia_action :: "crates \<Rightarrow> string \<Rightarrow> json \<Rightarrow> PolicyDecision" where
  "check_uia_action x action input =
     (let title = str_or input [''window_title'', ''name'']; class_name = str_at input ''class_name''
      in if title \<noteq> None \<and> list_ex (\<lambda>p. is_match x p (the title)) BLOCKED_PROCESS_TITLES then
           Deny ((''UIA action '' @ [CHR 0x27]) @ action @ ([CHR 0x27] @ '' blocked on sensitive window: '' @ [CHR 0x27]) @ the title @ [CHR 0x27])
         else if action = ''type'' \<and> class_name \<noteq> None \<and>
             list_ex (eq_ignore_ascii_case (the class_name)) SENSITIVE_UIA_CLASSES then
           Warn ((''Typing into potentially sensitive control class: '' @ [CHR 0x27]) @ the class_name @ [CHR 0x27])
         else Allow)"

definition check_com_action :: "PolicyGate \<Rightarrow> crates \<Rightarrow> string \<Rightarrow> json \<Rightarrow> PolicyDecision" where
  "check_com_action g x action input =
     (if action = ''clipboard_write'' then
        Warn (''Writing to clipboard '' @
       [CHR 0xE2, CHR 0x80, CHR 0x94] @
       '' this will replace current clipboard content'')
      else if action = ''shell_run'' then
        (case str_at input ''command'' of Some cmd \<Rightarrow> check_command g x cmd | None \<Rightarrow> Allow)
      else Allow)"

definition check_browser_js :: "PolicyGate \<Rightarrow> string \<Rightarrow> PolicyDecision" where
  "check_browser_js g js =
     (if pg_mode g = Strict then Deny ''Executing JavaScript in browser is disabled in strict mode''
      else Warn (''Executing JavaScript in browser '' @
       [CHR 0xE2, CHR 0x80, CHR 0x94] @
       '' ensure the code is safe''))"

definition check_user_input :: "PolicyGate \<Rightarrow> crates \<Rightarrow> string \<Rightarrow> PolicyDecision" where
  "check_user_input g x text =
     (let detection = detect_injection x text; names = join '', '' (ij_patterns detection)
      in if \<not> ij_detected detection then Allow
         else if pg_mode g = Strict then Deny (''Potential prompt injection detected (patterns: '' @ names @ '').'')
         else Warn (''Potential prompt injection detected (patterns: '' @ names @ ''). Proceeding with caution.''))"

definition check_browser :: "PolicyGate \<Rightarrow> crates \<Rightarrow> json \<Rightarrow> PolicyDecision" where
  "check_browser g x input =
     (let action = (case str_at input ''action'' of Some s \<Rightarrow> s | None \<Rightarrow> [])
      in if action = ''navigate'' then
           (case str_at input ''url'' of Some url \<Rightarrow> check_url g x url | None \<Rightarrow> Allow)
         else if action = ''eval_js'' then
           (case str_at input ''js'' of Some js \<Rightarrow> check_browser_js g js | None \<Rightarrow> Allow)
         else if action \<in> {''get_cookies'', ''set_cookie'', ''clear_cookies''} then
           Warn (''Cookie operation in browser '' @
       [CHR 0xE2, CHR 0x80, CHR 0x94] @
       '' may affect authentication/session state'')
         else Allow)"

definition check_search :: "crates \<Rightarrow> json \<Rightarrow> PolicyDecision" where
  "check_search x input =
     (case str_at input ''query'' of
        None \<Rightarrow> Allow
      | Some query \<Rightarrow>
          let injection = detect_injection x query
          in if ij_detected injection then
               Warn (''Search query may contain injected content ('' @ join '', '' (ij_patterns injection) @ '')'')
             else Allow)"

definition gate_tool_call :: "PolicyGate \<Rightarrow> crates \<Rightarrow> disk \<Rightarrow> string \<Rightarrow> json \<Rightarrow> PolicyDecision" where
  "gate_tool_call g x d tool input =
     (if tool \<in> {''file_read'', ''file_write'', ''file_edit''} then
        (case str_or input [''path'', ''file_path''] of Some p \<Rightarrow> check_path g d p | None \<Rightarrow> Allow)
      else if tool \<in> {''shell'', ''bash'', ''powershell'', ''powershell_query''} then
        (case str_or input [''command'', ''cmd'', ''ps_command''] of Some c \<Rightarrow> check_command g x c | None \<Rightarrow> Allow)
      else if tool = ''browser'' then check_browser g x input
      else if tool = ''web_search'' then check_search x input
      else if tool = ''uia'' then
        check_uia_action x (case str_at input ''action'' of Some s \<Rightarrow> s | None \<Rightarrow> []) input
      else if tool = ''com'' then
        check_com_action g x (case str_at input ''action'' of Some s \<Rightarrow> s | None \<Rightarrow> []) input
      else Allow)"

definition gate_redact_text :: "crates \<Rightarrow> string \<Rightarrow> string" where
  "gate_redact_text x text = fold (\<lambda>p t. replace_matches x p t ''[REDACTED]'') SECRET_PATTERNS text"

end
