(* ===== verification/File_Tools.thy ===== *)
theory File_Tools
  imports Policy_Gate
begin

text \<open>
  The file tools (\<^verbatim>\<open>tools/file_read.rs\<close>, \<^verbatim>\<open>tools/file_write.rs\<close>): reading with line numbers, writing a whole
  file, and editing by exact replacement. The encodings other than UTF-8 are decoded by \<^verbatim>\<open>encoding_rs\<close> and
  the texts of system errors come from the system: both are parameters. A panic is \<open>None\<close>.
\<close>

section \<open>Results\<close>

record file_env =
  workspace_root :: path
  io_text :: "io_error \<Rightarrow> string"
  utf16_le :: "string \<Rightarrow> string option"
  utf16_be :: "string \<Rightarrow> string option"
  gbk_decode :: "string \<Rightarrow> string option"
  gbk_encode :: "string \<Rightarrow> string"
  base64_encode :: "string \<Rightarrow> string"

definition tool_ok :: "string \<Rightarrow> call_outcome" where
  "tool_ok s = Returned \<lparr>out_content = s, out_is_error = False, out_image = None\<rparr>"

definition tool_err :: "string \<Rightarrow> call_outcome" where
  "tool_err s = Returned (failed_output s)"

definition format_err :: "string \<Rightarrow> string \<Rightarrow> string \<Rightarrow> string" where
  "format_err code message hint =
     ''[error: '' @ code @ '']'' @ [CHR 0x0A] @ trim message @
     (if trim hint \<noteq> [] then [CHR 0x0A, CHR 0x0A] @ ''hint: '' @ trim hint else [])"

definition tool_path :: "file_env \<Rightarrow> string \<Rightarrow> path" where
  "tool_path env s = join_path (workspace_root env) (parse_path s)"

definition shown :: "file_env \<Rightarrow> path \<Rightarrow> string" where
  "shown env p = display_path_for_tool p (workspace_root env)"

section \<open>Encodings\<close>

definition UTF8_BOM :: string where "UTF8_BOM = [CHR 0xEF, CHR 0xBB, CHR 0xBF]"
definition UTF16_LE_BOM :: string where "UTF16_LE_BOM = [CHR 0xFF, CHR 0xFE]"
definition UTF16_BE_BOM :: string where "UTF16_BE_BOM = [CHR 0xFE, CHR 0xFF]"

definition decode_bytes :: "file_env \<Rightarrow> string \<Rightarrow> string \<times> string" where
  "decode_bytes env bytes =
     (let le = (if starts_with bytes UTF16_LE_BOM then utf16_le env (drop 2 bytes) else None);
          be = (if starts_with bytes UTF16_BE_BOM then utf16_be env (drop 2 bytes) else None);
          bom = starts_with bytes UTF8_BOM;
          payload = (if bom then drop 3 bytes else bytes)
      in case le of
           Some s \<Rightarrow> (s, ''utf-16-le'')
         | None \<Rightarrow>
             (case be of
                Some s \<Rightarrow> (s, ''utf-16-be'')
              | None \<Rightarrow>
                  if valid_utf8 payload then (payload, if bom then ''utf-8-bom'' else ''utf-8'')
                  else case gbk_decode env bytes of
                         Some s \<Rightarrow> (s, ''gbk'')
                       | None \<Rightarrow> (from_utf8_lossy bytes, ''utf-8-lossy'')))"

definition file_has_utf8_bom :: "disk \<Rightarrow> path \<Rightarrow> bool" where
  "file_has_utf8_bom d p = (case read_file d p of Inl e \<Rightarrow> False | Inr bytes \<Rightarrow> starts_with bytes UTF8_BOM)"

definition write_with_bom_policy :: "disk \<Rightarrow> path \<Rightarrow> string \<Rightarrow> bool \<Rightarrow> io_error + disk" where
  "write_with_bom_policy d p content preserve_bom =
     write_bytes d p (if preserve_bom then UTF8_BOM @ content else content)"

definition write_preserving_encoding ::
  "file_env \<Rightarrow> disk \<Rightarrow> path \<Rightarrow> string \<Rightarrow> string \<Rightarrow> bool \<Rightarrow> io_error + disk" where
  "write_preserving_encoding env d p content encoding preserve_bom =
     (if encoding = ''gbk'' then write_bytes d p (gbk_encode env content)
      else write_with_bom_policy d p content preserve_bom)"

section \<open>Reading\<close>

definition MAX_TEXT_BYTES :: nat where "MAX_TEXT_BYTES = 256 * 1024"
definition MAX_IMAGE_BYTES :: nat where "MAX_IMAGE_BYTES = 4 * 1024 * 1024"

text \<open>Numbers written to a width, with blanks on the left.\<close>

definition pad_nat :: "nat \<Rightarrow> nat \<Rightarrow> string" where
  "pad_nat w n = replicate (w - length (nat_digits n)) CHR 0x20 @ nat_digits n"

definition numbered_from :: "nat \<Rightarrow> string list \<Rightarrow> string" where
  "numbered_from start ls =
     join [CHR 0x0A] (map (\<lambda>(i, l). pad_nat 6 (i + 1) @ ''|'' @ l) (enumerate start ls))"

definition outline_starts :: "string list" where
  "outline_starts = [''pub fn'', ''fn '', ''async fn'', ''pub async fn'', ''pub struct'', ''struct '', ''pub enum'', ''enum '',
     ''impl '', ''pub trait'', ''trait '', ''class '', ''export class'', ''export function'', ''function '', ''def '', ''type '',
     ''interface '']"

definition is_symbol :: "string \<Rightarrow> bool" where
  "is_symbol trimmed \<longleftrightarrow> trimmed \<noteq> [] \<and> \<not> starts_with trimmed ''//'' \<and> \<not> starts_with trimmed ''#'' \<and>
     list_ex (starts_with trimmed) outline_starts"

definition build_file_outline :: "string \<Rightarrow> string" where
  "build_file_outline content =
     (let found = filter (is_symbol \<circ> snd) (map (\<lambda>(i, l). (i, trim l)) (enumerate 0 (str_lines content)))
      in if found = [] then (''  (no outline symbols detected '' @
       [CHR 0xE2, CHR 0x80, CHR 0x94] @
       '' use offset/limit to read content)'')
         else join [CHR 0x0A] (map (\<lambda>(i, l). pad_nat 6 (i + 1) @ ''|'' @ l) found))"

text \<open>\<^verbatim>\<open>Path::extension\<close>: what follows the last dot of the name, unless the name begins with it.\<close>

definition path_extension :: "path \<Rightarrow> string option" where
  "path_extension p =
     (case file_name p of
        None \<Rightarrow> None
      | Some n \<Rightarrow>
          let after = takeWhile (\<lambda>c. c \<noteq> CHR ''.'') (rev n); before = length n - length after
          in if length after = length n \<or> before = 1 then None else Some (rev after))"

definition image_media_type :: "string \<Rightarrow> string" where
  "image_media_type ext =
     (if ext = ''jpg'' \<or> ext = ''jpeg'' then ''image/jpeg'' else if ext = ''gif'' then ''image/gif''
      else if ext = ''webp'' then ''image/webp'' else ''image/png'')"

definition read_image :: "file_env \<Rightarrow> disk \<Rightarrow> path \<Rightarrow> string \<Rightarrow> call_outcome" where
  "read_image env d p ext =
     (case read_file d p of
        Inl e \<Rightarrow> CallFailed (io_text env e)
      | Inr bytes \<Rightarrow>
          if MAX_IMAGE_BYTES < length bytes then
            tool_err (''Image too large ('' @ nat_digits (length bytes) @ '' bytes, max '' @
              nat_digits MAX_IMAGE_BYTES @ '' bytes)'')
          else tool_ok (''Image file: '' @ shown env p @ '' ('' @ nat_digits (length bytes) @ '' bytes)'' @ [CHR 0x0A] @
            ''base64:'' @ image_media_type ext @ '';'' @ base64_encode env bytes))"

text \<open>The lines shown; the end is computed at 64 bits, and a slice that ends before it starts panics.\<close>

definition read_lines :: "file_env \<Rightarrow> path \<Rightarrow> string \<Rightarrow> string \<Rightarrow> nat \<Rightarrow> nat option \<Rightarrow> call_outcome option" where
  "read_lines env p content encoding_note offset limit =
     (let ls = str_lines content; count = length ls; start = min (offset - 1) count;
          end = (case limit of None \<Rightarrow> count | Some l \<Rightarrow> min ((start + l) mod 2 ^ 64) count)
      in if end < start then None
         else Some (tool_ok (''File: '' @ shown env p @ encoding_note @ '' ('' @ nat_digits count @
           '' lines total, showing lines '' @ nat_digits (start + 1) @ ''-'' @ nat_digits end @ '')'' @
           [CHR 0x0A, CHR 0x0A] @ numbered_from start (take (end - start) (drop start ls)))))"

definition read_large :: "string \<Rightarrow> nat \<Rightarrow> call_outcome" where
  "read_large content file_bytes =
     (let ls = str_lines content; preview_end = min 100 (length ls)
      in tool_ok (''File too large for full read ('' @ nat_digits file_bytes @ '' bytes). Outline + first '' @
           nat_digits preview_end @ '' lines:'' @ [CHR 0x0A, CHR 0x0A] @ ''--- outline ---'' @ [CHR 0x0A] @
           build_file_outline content @ [CHR 0x0A, CHR 0x0A] @ ''--- preview ---'' @ [CHR 0x0A] @
           numbered_from 0 (take preview_end ls)))"

definition u64_at :: "json \<Rightarrow> string \<Rightarrow> nat option" where
  "u64_at input k = Option.bind (json_get input k) json_as_u64"

definition file_read :: "file_env \<Rightarrow> disk \<Rightarrow> json \<Rightarrow> call_outcome option" where
  "file_read env d input =
     (case str_at input ''path'' of
        None \<Rightarrow> Some (tool_err ''Missing required parameter: path'')
      | Some s \<Rightarrow>
          let p = tool_path env s; ext = (case path_extension p of None \<Rightarrow> [] | Some e \<Rightarrow> to_lowercase e)
          in if \<not> exists d p then
               Some (tool_err (format_err ''file_not_found'' (''File not found: '' @ shown env p)
                 ''Use file_list or file_search glob to verify the path.''))
             else if ext \<in> {''png'', ''jpg'', ''jpeg'', ''gif'', ''webp'', ''bmp''} then Some (read_image env d p ext)
             else case read_file d p of
                    Inl e \<Rightarrow> Some (CallFailed (''Failed to read file: '' @ io_text env e))
                  | Inr raw \<Rightarrow>
                      let offset = max 1 (case u64_at input ''offset'' of None \<Rightarrow> 1 | Some n \<Rightarrow> n);
                          limit = u64_at input ''limit'';
                          mode = (case str_at input ''mode'' of None \<Rightarrow> ''content'' | Some m \<Rightarrow> m);
                          (content, encoding) = decode_bytes env raw;
                          note = (if encoding \<noteq> ''utf-8'' then '' [encoding: '' @ encoding @ '']'' else [])
                      in if mode = ''outline'' then
                           Some (tool_ok (''Outline: '' @ shown env p @ note @ '' ('' @ nat_digits (length raw) @ '' bytes)'' @
                             [CHR 0x0A, CHR 0x0A] @ build_file_outline content))
                         else if MAX_TEXT_BYTES < length raw \<and> limit = None \<and> offset \<le> 1 then
                           Some (read_large content (length raw))
                         else read_lines env p content note offset limit)"

section \<open>Writing\<close>

definition MAX_FILE_WRITE_CONTENT_CHARS :: nat where "MAX_FILE_WRITE_CONTENT_CHARS = 200000"

definition too_large_error :: "nat \<Rightarrow> string" where
  "too_large_error n = format_err ''content_too_large''
     (''content is '' @ nat_digits n @ '' characters, which exceeds the '' @ nat_digits MAX_FILE_WRITE_CONTENT_CHARS @
        '' character limit for a single file_write call'')
     (''Split the write into smaller pieces: create the file with an initial chunk via '' @
       ''file_write, then use file_edit to append/replace the remaining sections '' @
       [CHR 0xE2, CHR 0x80, CHR 0x94] @
       '' or write it in multiple file_write calls to different files and combine them via '' @
       ''shell if appropriate.'')"

definition write_to :: "file_env \<Rightarrow> path \<Rightarrow> string \<Rightarrow> disk \<Rightarrow> call_outcome \<times> disk" where
  "write_to env p content d =
     (let existed = exists d p; preserve_bom = (existed \<and> file_has_utf8_bom d p)
      in case write_with_bom_policy d p content preserve_bom of
           Inl e \<Rightarrow> (CallFailed (io_text env e), d)
         | Inr d' \<Rightarrow>
             (tool_ok ((if existed then ''Updated'' else ''Created'') @ '' file: '' @ shown env p @ '' ('' @
                nat_digits (length content) @ '' bytes)''), d'))"

definition file_write :: "file_env \<Rightarrow> json \<Rightarrow> disk \<Rightarrow> call_outcome \<times> disk" where
  "file_write env input d =
     (case str_at input ''path'' of
        None \<Rightarrow> (tool_err ''Missing required parameter: path'', d)
      | Some s \<Rightarrow>
          (case str_at input ''content'' of
             None \<Rightarrow> (tool_err ''Missing required parameter: content'', d)
           | Some content \<Rightarrow>
               if MAX_FILE_WRITE_CONTENT_CHARS < count_chars content then
                 (tool_err (too_large_error (count_chars content)), d)
               else let p = tool_path env s
                    in case parent p of
                         None \<Rightarrow> write_to env p content d
                       | Some q \<Rightarrow>
                           (case create_dir_all d q of
                              (Some e, d') \<Rightarrow> (CallFailed (io_text env e), d')
                            | (None, d') \<Rightarrow> write_to env p content d')))"

section \<open>Editing\<close>

definition CRLF :: string where "CRLF = [CHR 0x0D, CHR 0x0A]"

definition adapt_eol :: "string \<Rightarrow> bool \<Rightarrow> string" where
  "adapt_eol s crlf =
     (let lf = replace_str CRLF [CHR 0x0A] s in if crlf then replace_str [CHR 0x0A] CRLF lf else lf)"

text \<open>Where a text occurs, from left to right without overlaps.\<close>

function match_positions :: "string \<Rightarrow> nat \<Rightarrow> string \<Rightarrow> nat list" where
  "match_positions pat i [] = []"
| "match_positions pat i (b # bs) =
     (if pat \<noteq> [] \<and> prefix pat (b # bs)
      then i # match_positions pat (i + length pat) (drop (length pat - 1) bs)
      else match_positions pat (Suc i) bs)"
  by pat_completeness auto
termination
  by (relation "measure (\<lambda>(pat, i, s). length s)") auto

definition find_ambiguous_match_lines :: "string \<Rightarrow> string \<Rightarrow> nat \<Rightarrow> nat list" where
  "find_ambiguous_match_lines content needle max_samples =
     map (\<lambda>pos. Suc (length (filter (\<lambda>b. b = CHR 0x0A) (take pos content))))
       (take max_samples (match_positions needle 0 content))"

text \<open>What one line of the needle scores in a window: 3 for an equal line, 1 for a similar one.\<close>

fun line_score :: "string \<Rightarrow> string list \<Rightarrow> nat" where
  "line_score nl [] = 0"
| "line_score nl (cl # cls) =
     (if trim cl = nl then 3
      else if 4 \<le> length nl \<and> (contains (trim cl) nl \<or> contains nl (trim cl) \<and> 4 \<le> length (trim cl)) then 1
      else line_score nl cls)"

definition window_score :: "string list \<Rightarrow> string list \<Rightarrow> nat \<Rightarrow> nat \<Rightarrow> nat" where
  "window_score content_lines needle_lines window_len start =
     (if trim (content_lines ! start) = hd needle_lines then 2 else 0) +
     sum_list (map (\<lambda>nl. line_score nl (take (Suc window_len) (drop start content_lines))) needle_lines)"

definition best_window :: "(nat \<Rightarrow> nat) \<Rightarrow> nat \<Rightarrow> nat \<times> nat" where
  "best_window score n =
     fold (\<lambda>start (best_idx, best_score). if best_score < score start then (start, score start) else (best_idx, best_score))
       [0..<n] (0, 0)"

definition find_closest_context_hint :: "string \<Rightarrow> string \<Rightarrow> string" where
  "find_closest_context_hint content needle =
     (let default_hint = ''Re-read the file with file_read and copy an exact unique snippet.'';
          content_lines = str_lines content; n = length content_lines;
          needle_lines = filter (\<lambda>l. l \<noteq> []) (map trim (str_lines needle));
          window_len = max 1 (length (str_lines needle));
          (best_idx, best_score) = best_window (window_score content_lines needle_lines window_len) n;
          ctx_start = best_idx - 2;
          ctx_end = min (min (best_idx + window_len + 3) n) (ctx_start + 20);
          snippet = concat (map (\<lambda>(i, line). pad_nat 4 (i + 1) @ ''| '' @ line @ [CHR 0x0A])
            (enumerate ctx_start (take (ctx_end - ctx_start) (drop ctx_start content_lines))))
      in if content_lines = [] \<or> needle_lines = [] \<or> best_score = 0 then default_hint
         else ''Copy the exact text (including indentation) from the closest match around line '' @
           nat_digits (best_idx + 1) @ '':'' @ [CHR 0x0A] @ trim_end snippet)"

text \<open>The pairs of an input: an array of edits, or a single one.\<close>

definition edit_of :: "nat \<Rightarrow> json \<Rightarrow> string + (string \<times> string)" where
  "edit_of i edit =
     (let at = ''edits['' @ nat_digits i @ '']''
      in case str_at edit ''old_string'' of
           None \<Rightarrow> Inl (at @ '' missing old_string'')
         | Some old \<Rightarrow>
             if old = [] then Inl (at @ ''.old_string cannot be empty'')
             else case str_at edit ''new_string'' of None \<Rightarrow> Inl (at @ '' missing new_string'') | Some new \<Rightarrow> Inr (old, new))"

fun edits_from :: "nat \<Rightarrow> json list \<Rightarrow> string + (string \<times> string) list" where
  "edits_from i [] = Inr []"
| "edits_from i (e # es) =
     (case edit_of i e of
        Inl err \<Rightarrow> Inl err
      | Inr pair \<Rightarrow> (case edits_from (Suc i) es of Inl err \<Rightarrow> Inl err | Inr pairs \<Rightarrow> Inr (pair # pairs)))"

definition single_edit :: "json \<Rightarrow> string + (string \<times> string) list" where
  "single_edit input =
     (case str_at input ''old_string'' of
        None \<Rightarrow> Inl ''Missing required parameter: old_string (or use edits array)''
      | Some old \<Rightarrow>
          if old = [] then Inl (''old_string cannot be empty '' @
       [CHR 0xE2, CHR 0x80, CHR 0x94] @
       '' provide the exact text you want to replace'')
          else case str_at input ''new_string'' of
                 None \<Rightarrow> Inl ''Missing required parameter: new_string''
               | Some new \<Rightarrow> Inr [(old, new)])"

definition pairs_of :: "json \<Rightarrow> string + (string \<times> string) list" where
  "pairs_of input =
     (case Option.bind (json_get input ''edits'') json_as_array of
        None \<Rightarrow> single_edit input
      | Some edits \<Rightarrow> if edits = [] then Inl ''edits array is empty'' else edits_from 0 edits)"

definition adapt_pair :: "string \<Rightarrow> string \<times> string \<Rightarrow> string \<times> string" where
  "adapt_pair content = (\<lambda>(old, new).
     if contains content old then (old, new)
     else let crlf = contains content CRLF; adapted_old = adapt_eol old crlf
          in if adapted_old \<noteq> old \<and> contains content adapted_old then (adapted_old, adapt_eol new crlf) else (old, new))"

definition pair_label :: "nat \<Rightarrow> nat \<Rightarrow> string" where
  "pair_label n i = (if n = 1 then ''old_string'' else ''edits['' @ nat_digits i @ ''].old_string'')"

definition match_error :: "string \<Rightarrow> string \<Rightarrow> string \<Rightarrow> string \<Rightarrow> string option" where
  "match_error content where_shown label old =
     (let count = length (match_positions old 0 content)
      in if count = 0 then
           Some (format_err ''match_not_found'' (label @ '' not found in file: '' @ where_shown)
             (find_closest_context_hint content old))
         else if 1 < count then
           Some (format_err ''match_ambiguous''
             (label @ '' appears '' @ nat_digits count @ '' times in file (must appear exactly once): '' @ where_shown)
             (''Matches found at line(s): '' @ join '', '' (map nat_digits (find_ambiguous_match_lines content old 8)) @
              ''. Include more surrounding lines in old_string to make it unique.''))
         else None)"

definition first_match_error :: "string \<Rightarrow> string \<Rightarrow> (string \<times> string) list \<Rightarrow> string option" where
  "first_match_error content where_shown pairs =
     first_some (\<lambda>(i, old, new). match_error content where_shown (pair_label (length pairs) i) old) (enumerate 0 pairs)"

definition same_old_error :: "(string \<times> string) list \<Rightarrow> string option" where
  "same_old_error pairs =
     (let n = length pairs;
          clashes = filter (\<lambda>(i, j). fst (pairs ! i) = fst (pairs ! j)) (concat (map (\<lambda>i. map (Pair i) [Suc i..<n]) [0..<n]))
      in case clashes of
           [] \<Rightarrow> None
         | (i, j) # _ \<Rightarrow> Some (''edits['' @ nat_digits i @ ''] and edits['' @ nat_digits j @
             (''] have the same old_string '' @
       [CHR 0xE2, CHR 0x80, CHR 0x94] @
       '' each must be unique'')))"

definition replace_range :: "string \<Rightarrow> nat \<Rightarrow> nat \<Rightarrow> string \<Rightarrow> string option" where
  "replace_range s i j t =
     (if is_char_boundary s i \<and> is_char_boundary s j then Some (take i s @ t @ drop j s) else None)"

text \<open>The replacements, from the last position to the first, each at its position in the original.\<close>

definition edit_offsets :: "string \<Rightarrow> (string \<times> string) list \<Rightarrow> (nat \<times> string \<times> string) list" where
  "edit_offsets content pairs =
     sort_key (\<lambda>(pos, pair). - int pos)
       (List.map_filter (\<lambda>(old, new). map_option (\<lambda>pos. (pos, old, new)) (find_str old content)) pairs)"

fun apply_offsets :: "(nat \<times> string \<times> string) list \<Rightarrow> string \<Rightarrow> string option" where
  "apply_offsets [] s = Some s"
| "apply_offsets ((pos, old, new) # offs) s =
     Option.bind (replace_range s pos (pos + length old) new) (apply_offsets offs)"

definition apply_edits :: "string \<Rightarrow> (string \<times> string) list \<Rightarrow> string option" where
  "apply_edits content pairs = apply_offsets (edit_offsets content pairs) content"

definition edited_message :: "string \<Rightarrow> string \<Rightarrow> string \<Rightarrow> string \<Rightarrow> (string \<times> string) list \<Rightarrow> string" where
  "edited_message where_shown content result encoding pairs =
     (let after = length (str_lines result); delta = int after - int (length (str_lines content));
          tail = nat_digits after @ '' lines '' @ (if 0 \<le> delta then ''+'' else []) @ int_str delta @
            '', encoding: '' @ encoding @ '')''
      in ''Edited file: '' @ where_shown @ '' ('' @
         (if length pairs = 1 then
            nat_digits (length (fst (hd pairs))) @ ('' chars '' @ [CHR 0xE2, CHR 0x86, CHR 0x92] @ '' '') @ nat_digits (length (snd (hd pairs))) @ '' chars, '' @ tail
          else nat_digits (length pairs) @ '' replacements applied, '' @ tail))"

definition edit_file :: "file_env \<Rightarrow> path \<Rightarrow> (string \<times> string) list \<Rightarrow> disk \<Rightarrow> call_outcome option \<times> disk" where
  "edit_file env p pairs d =
     (case read_file d p of
        Inl e \<Rightarrow> (Some (CallFailed (io_text env e)), d)
      | Inr raw \<Rightarrow>
          let preserve_bom = starts_with raw UTF8_BOM;
              (content, encoding) = decode_bytes env raw;
              pairs = map (adapt_pair content) pairs
          in case first_match_error content (shown env p) pairs of
               Some err \<Rightarrow> (Some (tool_err err), d)
             | None \<Rightarrow>
                 (case same_old_error pairs of
                    Some err \<Rightarrow> (Some (tool_err err), d)
                  | None \<Rightarrow>
                      (case apply_edits content pairs of
                         None \<Rightarrow> (None, d)
                       | Some result \<Rightarrow>
                           (case write_preserving_encoding env d p result encoding preserve_bom of
                              Inl e \<Rightarrow> (Some (CallFailed (io_text env e)), d)
                            | Inr d' \<Rightarrow>
                                (Some (tool_ok (edited_message (shown env p) content result encoding pairs)), d')))))"

definition file_edit :: "file_env \<Rightarrow> json \<Rightarrow> disk \<Rightarrow> call_outcome option \<times> disk" where
  "file_edit env input d =
     (case str_at input ''path'' of
        None \<Rightarrow> (Some (tool_err ''Missing required parameter: path''), d)
      | Some s \<Rightarrow>
          let p = tool_path env s
          in if \<not> exists d p then
               (Some (tool_err (format_err ''file_not_found'' (''File not found: '' @ shown env p)
                  ''Verify the path with file_list or file_search.'')), d)
             else case pairs_of input of
                    Inl err \<Rightarrow> (Some (tool_err err), d)
                  | Inr pairs \<Rightarrow> edit_file env p pairs d)"

section \<open>A small file system\<close>

text \<open>A small file system with a workspace, and a gate for it, on which the witnesses evaluate.\<close>

definition home_disk :: disk where
  "home_disk = \<lparr>nodes = [[] \<mapsto> Directory, [''home''] \<mapsto> Directory, [''home'', ''ws''] \<mapsto> Directory,
     [''home'', ''ws'', ''a.txt''] \<mapsto> File ''one two three'', [''home'', ''keys''] \<mapsto> File ''secret''], cwd = []\<rparr>"

definition home_root :: path where
  "home_root = (True, [''home'', ''ws''])"

definition home_env :: file_env where
  "home_env = \<lparr>workspace_root = home_root, io_text = (\<lambda>e. ''error''), utf16_le = (\<lambda>_. None), utf16_be = (\<lambda>_. None),
     gbk_decode = (\<lambda>_. None), gbk_encode = (\<lambda>s. s), base64_encode = (\<lambda>s. s)\<rparr>"

definition home_gate :: PolicyGate where
  "home_gate = new_gate home_root"

definition no_crates :: crates where
  "no_crates = \<lparr>is_match = (\<lambda>p t. False), replace_matches = (\<lambda>p t r. t), base64_decode = (\<lambda>_. None)\<rparr>"

lemma home_wf: "wf_disk home_disk"
  by (auto simp: wf_disk_def home_disk_def append_eq_Cons_conv split: if_splits)

lemma home_read: "read_file home_disk (True, [''home'', ''ws'', ''a.txt'']) = Inr ''one two three''"
  by code_simp

lemma home_decode: "decode_bytes home_env ''one two three'' = (''one two three'', ''utf-8'')"
  by code_simp

definition write_input :: "string \<Rightarrow> string \<Rightarrow> json" where
  "write_input p c = JObj [(''path'', JStr p), (''content'', JStr c)]"

end
