(* ===== verification/Edits.thy ===== *)
theory Edits
  imports File_Tools
begin

text \<open>
  What \<^verbatim>\<open>file_edit\<close> does to a text. The code replaces from the last position to the first, in place; the
  specification replaces all matches at once, in one pass over the original.
\<close>

section \<open>Simultaneous replacement\<close>

text \<open>The text from position \<open>k\<close> of the original on, with the edits in the order of their positions.\<close>

fun substitute :: "(nat \<times> string \<times> string) list \<Rightarrow> nat \<Rightarrow> string \<Rightarrow> string" where
  "substitute [] k s = s"
| "substitute ((pos, old, new) # offs) k s =
     take (pos - k) s @ new @ substitute offs (pos + length old) (drop (pos + length old - k) s)"

text \<open>No edit begins before the one before it has ended.\<close>

fun spaced :: "nat \<Rightarrow> (nat \<times> string \<times> string) list \<Rightarrow> bool" where
  "spaced k [] \<longleftrightarrow> True"
| "spaced k ((pos, old, new) # offs) \<longleftrightarrow> k \<le> pos \<and> spaced (pos + length old) offs"

definition occurs_at :: "string \<Rightarrow> nat \<times> string \<times> string \<Rightarrow> bool" where
  "occurs_at s = (\<lambda>(pos, old, new). old \<noteq> [] \<and> valid_utf8 old \<and> valid_utf8 new \<and>
     prefix old (drop pos s) \<and> pos \<le> length s)"

lemma occurs_parts:
  assumes "occurs_at s (pos, old, new)" and "k \<le> pos" and "valid_utf8 (drop k s)"
  shows "drop k s = take (pos - k) (drop k s) @ old @ drop (pos + length old) s"
    and "valid_utf8 (take (pos - k) (drop k s))" and "valid_utf8 (drop (pos + length old) s)"
    and "pos + length old \<le> length s"
proof -
  from assms(1) obtain r where r: "drop pos s = old @ r" and o: "old \<noteq> []" "valid_utf8 old" "pos \<le> length s"
    by (auto simp: occurs_at_def prefix_def)
  have "r = drop (length old) (drop pos s)" by (simp add: r)
  then have rest: "r = drop (pos + length old) s" by (simp add: add.commute)
  have "drop k s = take (pos - k) (drop k s) @ drop (pos - k) (drop k s)" by (rule append_take_drop_id [symmetric])
  also have "drop (pos - k) (drop k s) = drop pos s" using assms(2) by simp
  finally show split: "drop k s = take (pos - k) (drop k s) @ old @ drop (pos + length old) s"
    by (simp only: r rest)
  have "valid_utf8 (take (pos - k) (drop k s) @ old @ drop (pos + length old) s)"
    using assms(3) by (subst (asm) split)
  from valid_around [OF this o(2,1)]
  show "valid_utf8 (take (pos - k) (drop k s))" "valid_utf8 (drop (pos + length old) s)" by blast+
  have "length (drop pos s) = length old + length r" by (simp add: r)
  with o(3) show "pos + length old \<le> length s" by simp
qed

lemma substitute_valid:
  "spaced k offs \<Longrightarrow> \<forall>x \<in> set offs. occurs_at s x \<Longrightarrow> valid_utf8 (drop k s) \<Longrightarrow>
     valid_utf8 (substitute offs k (drop k s))"
proof (induction offs arbitrary: k)
  case (Cons x offs)
  obtain pos old new where x: "x = (pos, old, new)" by (cases x)
  with Cons.prems have o: "occurs_at s (pos, old, new)" "k \<le> pos" "valid_utf8 new"
    by (auto simp: occurs_at_def)
  note p = occurs_parts [OF o(1,2) Cons.prems(3)]
  have "drop (pos + length old - k) (drop k s) = drop (pos + length old) s" using o(2) by simp
  moreover have "valid_utf8 (substitute offs (pos + length old) (drop (pos + length old) s))"
    by (rule Cons.IH) (use Cons.prems x p in auto)
  ultimately show ?case using x p(2) o(3) by (simp add: valid_append)
qed simp

lemma apply_offsets_append:
  "apply_offsets (a @ b) s = Option.bind (apply_offsets a s) (apply_offsets b)"
proof (induction a arbitrary: s)
  case (Cons x a)
  then show ?case by (cases x; cases "replace_range s (fst x) (fst x + length (fst (snd x))) (snd (snd x))") simp_all
qed simp

text \<open>In place from the end, the edits give the same, and no slice panics.\<close>

lemma apply_offsets_substitute:
  "spaced k offs \<Longrightarrow> \<forall>x \<in> set offs. occurs_at s x \<Longrightarrow> valid_utf8 (take k s) \<Longrightarrow> valid_utf8 (drop k s) \<Longrightarrow> k \<le> length s \<Longrightarrow>
     apply_offsets (rev offs) s = Some (take k s @ substitute offs k (drop k s))"
proof (induction offs arbitrary: k)
  case (Cons x offs)
  obtain pos old new where x: "x = (pos, old, new)" by (cases x)
  with Cons.prems have o: "occurs_at s (pos, old, new)" "k \<le> pos" by auto
  note p = occurs_parts [OF o Cons.prems(4)]
  let ?m = "pos + length old" and ?t = "take (pos - k) (drop k s)"
  let ?rest = "substitute offs ?m (drop ?m s)"
  have old: "valid_utf8 old" "old \<noteq> []" using o(1) by (auto simp: occurs_at_def)
  have take: "take ?m s = take k s @ ?t @ old"
  proof -
    have "take ?m s = take k s @ take (?m - k) (drop k s)" using o(2) by (metis le_add_diff_inverse take_add trans_le_add1)
    also have "take (?m - k) (drop k s) = take (?m - k) (?t @ old @ drop ?m s)" using p(1) by simp
    also have "\<dots> = ?t @ old" using p(4) o(2) by simp
    finally show ?thesis .
  qed
  have lens: "length (take k s @ ?t) = pos" using p(4) o(2) by simp
  have "apply_offsets (rev offs) s = Some (take ?m s @ ?rest)"
  proof (rule Cons.IH)
    show "valid_utf8 (take ?m s)" unfolding take using Cons.prems(3) p(2) old by (simp add: valid_append)
  qed (use Cons.prems x p in auto)
  moreover have "replace_range (take ?m s @ ?rest) pos ?m new = Some (take k s @ ?t @ new @ ?rest)"
  proof -
    have rest: "valid_utf8 ?rest" by (rule substitute_valid) (use Cons.prems x p in auto)
    have "is_char_boundary ((take k s @ ?t) @ (old @ ?rest)) (length (take k s @ ?t))"
      by (rule boundary_between) (simp add: valid_append old rest)
    then have "is_char_boundary (take ?m s @ ?rest) pos" unfolding take lens by simp
    moreover have "is_char_boundary (take ?m s @ ?rest) (length (take ?m s))" by (rule boundary_between) (rule rest)
    then have "is_char_boundary (take ?m s @ ?rest) ?m" using p(4) by simp
    moreover have "take pos (take ?m s @ ?rest) = take k s @ ?t"
    proof -
      define a where "a = take k s @ ?t"
      have "take (length a) (a @ old @ ?rest) = a" by simp
      then have "take pos (a @ old @ ?rest) = a" by (simp only: lens [folded a_def])
      then show ?thesis by (simp only: take a_def append_assoc)
    qed
    moreover have "drop ?m (take ?m s @ ?rest) = ?rest" using p(4) by simp
    ultimately show ?thesis by (simp add: replace_range_def)
  qed
  moreover have "drop (?m - k) (drop k s) = drop ?m s" using o(2) by simp
  ultimately show ?case using x by (simp add: apply_offsets_append)
qed simp

lemma find_str_prefix: "find_str pat s = Some i \<Longrightarrow> prefix pat (drop i s) \<and> i \<le> length s"
  by (induction s arbitrary: i) (auto split: if_splits)

lemma offsets_occur:
  assumes "\<forall>(old, new) \<in> set pairs. old \<noteq> [] \<and> valid_utf8 old \<and> valid_utf8 new"
  shows "\<forall>x \<in> set (edit_offsets content pairs). occurs_at content x"
  using assms find_str_prefix
  by (fastforce simp: edit_offsets_def occurs_at_def List.map_filter_def)

lemma apply_edits_substitute:
  assumes "valid_utf8 content" and "\<forall>(old, new) \<in> set pairs. old \<noteq> [] \<and> valid_utf8 old \<and> valid_utf8 new"
    and "spaced 0 (rev (edit_offsets content pairs))"
  shows "apply_edits content pairs = Some (substitute (rev (edit_offsets content pairs)) 0 content)"
  using apply_offsets_substitute [OF assms(3), of content] offsets_occur [OF assms(2)] assms(1)
  by (simp add: apply_edits_def)

section \<open>Files\<close>

lemma read_resolve: "read_file d p = Inr t \<Longrightarrow> \<exists>l. resolve d p = Inr l \<and> nodes d l = Some (File t)"
  by (auto simp: read_file_def split: sum.splits option.splits node.splits)

lemma write_then_read:
  assumes "read_file d p = Inr t"
  shows "\<exists>d'. write_bytes d p u = Inr d' \<and> read_file d' p = Inr u \<and>
    (\<forall>l. resolve d p \<noteq> Inr l \<longrightarrow> nodes d' l = nodes d l)"
proof -
  obtain l where l: "resolve d p = Inr l" "nodes d l = Some (File t)" using read_resolve [OF assms] by blast
  define d' where "d' = d\<lparr>nodes := (nodes d)(l \<mapsto> File u)\<rparr>"
  have "extends (nodes d) (nodes d')" using l(2) by (auto simp: extends_def d'_def)
  then have "resolve d' p = Inr l" by (rule locate_extends [OF l(1)]) (simp add: d'_def)
  moreover have "write_bytes d p u = Inr d'" using l by (simp add: write_bytes_def d'_def)
  ultimately show ?thesis using l by (auto simp: read_file_def d'_def)
qed

lemma decode_utf8:
  assumes "decode_bytes env raw = (content, enc)" and "enc = ''utf-8'' \<or> enc = ''utf-8-bom''"
  shows "valid_utf8 content" and "raw = (if starts_with raw UTF8_BOM then UTF8_BOM else []) @ content"
  using assms
  by (auto simp: decode_bytes_def Let_def starts_with_def prefix_def UTF8_BOM_def split: option.splits if_splits)


section \<open>Properties\<close>

text \<open>
  C21. \<^verbatim>\<open>file_edit\<close> refines simultaneous replacement. When each \<^verbatim>\<open>old_string\<close> occurs exactly once in a file
  of UTF-8 text and no two of the matches overlap, the call succeeds without a panic and the file then
  holds the text in which every match is replaced at once, with its byte order mark if it had one, and
  no other file changes.
\<close>

theorem file_edit_refines_substitution:
  assumes "read_file d p = Inr raw" and "decode_bytes env raw = (content, enc)" and "enc = ''utf-8'' \<or> enc = ''utf-8-bom''"
    and "pairs' = map (adapt_pair content) pairs"
    and "list_all (\<lambda>(old, new). old \<noteq> [] \<and> valid_utf8 old \<and> valid_utf8 new) pairs'"
    and "first_match_error content (shown env p) pairs' = None" and "same_old_error pairs' = None"
    and "spaced 0 (rev (edit_offsets content pairs'))"
  defines "edited \<equiv> substitute (rev (edit_offsets content pairs')) 0 content"
  shows "\<exists>d'. edit_file env p pairs d = (Some (tool_ok (edited_message (shown env p) content edited enc pairs')), d') \<and>
    read_file d' p = Inr ((if starts_with raw UTF8_BOM then UTF8_BOM else []) @ edited) \<and>
    (\<forall>l. resolve d p \<noteq> Inr l \<longrightarrow> nodes d' l = nodes d l)"
proof -
  note u = decode_utf8 [OF assms(2,3)]
  have e: "apply_edits content pairs' = Some edited"
    unfolding edited_def by (rule apply_edits_substitute [OF u(1) _ assms(8)]) (use assms(5) in \<open>simp add: list_all_iff\<close>)
  obtain d' where d': "write_bytes d p ((if starts_with raw UTF8_BOM then UTF8_BOM else []) @ edited) = Inr d'"
    "read_file d' p = Inr ((if starts_with raw UTF8_BOM then UTF8_BOM else []) @ edited)"
    "\<forall>l. resolve d p \<noteq> Inr l \<longrightarrow> nodes d' l = nodes d l"
    using write_then_read [OF assms(1)] by blast
  have "write_preserving_encoding env d p edited enc (starts_with raw UTF8_BOM) = Inr d'"
    using d'(1) assms(3) by (auto simp: write_preserving_encoding_def write_with_bom_policy_def)
  with d' e assms(1,2,6,7) show ?thesis by (simp add: edit_file_def Let_def flip: assms(4))
qed

theorem file_edit_refines_substitution_witness:
  "\<exists>d'. edit_file home_env (True, [''home'', ''ws'', ''a.txt'']) [(''one'', ''1''), (''three'', ''3'')] home_disk =
     (Some (tool_ok (edited_message ''a.txt'' ''one two three'' ''1 two 3'' ''utf-8'' [(''one'', ''1''), (''three'', ''3'')])), d') \<and>
   read_file d' (True, [''home'', ''ws'', ''a.txt'']) = Inr ''1 two 3''"
proof -
  let ?p = "(True, [''home'', ''ws'', ''a.txt''])" and ?c = "''one two three''" and ?ps = "[(''one'', ''1''), (''three'', ''3'')]"
  have pairs: "?ps = map (adapt_pair ?c) ?ps" by code_simp
  have "list_all (\<lambda>(old, new). old \<noteq> [] \<and> valid_utf8 old \<and> valid_utf8 new) ?ps"
    "first_match_error ?c (shown home_env ?p) ?ps = None" "same_old_error ?ps = None"
    "spaced 0 (rev (edit_offsets ?c ?ps))" by code_simp+
  from file_edit_refines_substitution [OF home_read home_decode _ pairs this]
  have "\<exists>d'. edit_file home_env ?p ?ps home_disk = (Some (tool_ok (edited_message (shown home_env ?p) ?c
      (substitute (rev (edit_offsets ?c ?ps)) 0 ?c) ''utf-8'' ?ps)), d') \<and>
    read_file d' ?p = Inr ((if starts_with ?c UTF8_BOM then UTF8_BOM else []) @ substitute (rev (edit_offsets ?c ?ps)) 0 ?c)"
    by blast
  moreover have "substitute (rev (edit_offsets ?c ?ps)) 0 ?c = ''1 two 3''" "shown home_env ?p = ''a.txt''"
    "starts_with ?c UTF8_BOM = False" by code_simp+
  ultimately show ?thesis by simp
qed

lemma found_first: "pat \<noteq> [] \<Longrightarrow> match_positions pat i s = j # js \<Longrightarrow> i \<le> j \<and> find_str pat s = Some (j - i)"
proof (induction pat i s arbitrary: j js rule: match_positions.induct)
  case (2 pat i b bs)
  show ?case
  proof (cases "prefix pat (b # bs)")
    case False
    with 2 have "Suc i \<le> j \<and> find_str pat bs = Some (j - Suc i)" by simp
    with False show ?thesis by (simp add: Suc_diff_Suc)
  qed (use "2.prems" in simp)
qed simp

lemma apply_overlapping:
  assumes "content = u @ x @ y @ z @ v" and "is_ascii (content @ n1 @ n2)" and "x \<noteq> []"
    and "find_str (x @ y) content = Some (length u)" and "find_str (y @ z) content = Some (length (u @ x))"
  shows "apply_edits content [(x @ y, n1), (y @ z, n2)] =
    (if length y \<le> length (n2 @ v) then Some (u @ n1 @ drop (length y) (n2 @ v)) else None)"
proof -
  have ascii: "is_char_boundary s i \<longleftrightarrow> i \<le> length s" if "is_ascii s" for s i
    using that by (auto simp: is_char_boundary_def is_ascii_def list_all_length)
  have "edit_offsets content [(x @ y, n1), (y @ z, n2)] = [(length (u @ x), y @ z, n2), (length u, x @ y, n1)]"
    using assms(3-5) by (simp add: edit_offsets_def List.map_filter_simps)
  moreover have "replace_range content (length (u @ x)) (length (u @ x) + length (y @ z)) n2 = Some (u @ x @ n2 @ v)"
    using assms(1,2) by (simp add: replace_range_def ascii is_ascii_def)
  moreover have "replace_range (u @ x @ n2 @ v) (length u) (length u + length (x @ y)) n1 =
      (if length y \<le> length (n2 @ v) then Some (u @ n1 @ drop (length y) (n2 @ v)) else None)"
    using assms(1,2) by (simp add: replace_range_def ascii is_ascii_def)
  ultimately show ?thesis by (simp add: apply_edits_def)
qed

text \<open>
  C22. Overlapping edits are not refused: when a call of \<^verbatim>\<open>file_edit\<close> on a file of ASCII text has two edits
  whose matches, each found exactly once, share the text \<open>y\<close>, the edit of the first one also removes as
  much of what the second one wrote, or of the text behind it. The call reports success, and the file holds
  the spoilt text; when there is not that much left, the tool panics.
\<close>

theorem overlapping_edits_lose_text:
  assumes "str_at input ''path'' = Some s" and "pairs_of input = Inr [(x @ y, n1), (y @ z, n2)]"
    and "read_file d (tool_path env s) = Inr raw" and "decode_bytes env raw = (content, ''utf-8'')"
    and "content = u @ x @ y @ z @ v" and "is_ascii (content @ n1 @ n2)" and "x \<noteq> []" and "y \<noteq> []"
    and "match_positions (x @ y) 0 content = [length u]" and "match_positions (y @ z) 0 content = [length (u @ x)]"
  shows "if length y \<le> length (n2 @ v)
    then \<exists>msg d'. file_edit env input d = (Some (tool_ok msg), d') \<and>
      read_file d' (tool_path env s) =
        Inr ((if starts_with raw UTF8_BOM then UTF8_BOM else []) @ u @ n1 @ drop (length y) (n2 @ v))
    else file_edit env input d = (None, d)"
proof -
  let ?p = "tool_path env s" and ?pairs = "[(x @ y, n1), (y @ z, n2)]"
  have found: "find_str (x @ y) content = Some (length u)" "find_str (y @ z) content = Some (length (u @ x))"
    using found_first [of "x @ y" 0 content] found_first [of "y @ z" 0 content] assms(7-10) by simp_all
  have there: "exists d ?p" using read_resolve [OF assms(3)] by (auto simp: exists_def node_at_def)
  have "contains content (x @ y)" "contains content (y @ z)"
    using sublist_appendI [of "x @ y" u "z @ v"] sublist_appendI [of "y @ z" "u @ x" v]
    by (simp_all add: contains_sublist assms(5))
  then have pairs: "map (adapt_pair content) ?pairs = ?pairs" by (simp add: adapt_pair_def)
  have unique: "first_match_error content (shown env ?p) ?pairs = None"
    using assms(9,10) by (simp add: first_match_error_def match_error_def)
  have "x @ y \<noteq> y @ z"
  proof
    assume "x @ y = y @ z"
    then have "[length u] = [length (u @ x)]" using assms(9,10) by metis
    with assms(7) show False by simp
  qed
  then have "same_old_error ?pairs = None" by (simp add: same_old_error_def)
  then have edit: "file_edit env input d =
      (case apply_edits content ?pairs of None \<Rightarrow> (None, d)
       | Some result \<Rightarrow> (case write_preserving_encoding env d ?p result ''utf-8'' (starts_with raw UTF8_BOM) of
             Inl e \<Rightarrow> (Some (CallFailed (io_text env e)), d)
           | Inr d' \<Rightarrow> (Some (tool_ok (edited_message (shown env ?p) content result ''utf-8'' ?pairs)), d')))"
    using assms(1-4) there pairs unique by (simp add: file_edit_def edit_file_def Let_def split: option.split sum.split)
  note applied = apply_overlapping [OF assms(5,6,7) found]
  show ?thesis
  proof (cases "length y \<le> length (n2 @ v)")
    case True
    let ?r = "u @ n1 @ drop (length y) (n2 @ v)"
    let ?t = "(if starts_with raw UTF8_BOM then UTF8_BOM else []) @ ?r"
    obtain d' where "write_bytes d ?p ?t = Inr d'" "read_file d' ?p = Inr ?t" using write_then_read [OF assms(3)] by blast
    then show ?thesis
      using True edit applied by (auto simp: write_preserving_encoding_def write_with_bom_policy_def)
  next
    case False
    with edit applied show ?thesis by simp
  qed
qed

definition overlapping_input :: "string \<Rightarrow> json" where
  "overlapping_input new = JObj [(''path'', JStr ''a.txt''), (''edits'', JArr
     [JObj [(''old_string'', JStr ''one two''), (''new_string'', JStr ''1'')],
      JObj [(''old_string'', JStr ''two three''), (''new_string'', JStr new)]])]"

theorem overlapping_edits_lose_text_witness:
  "(\<exists>msg d'. file_edit home_env (overlapping_input ''2 and 3'') home_disk = (Some (tool_ok msg), d') \<and>
     read_file d' (tool_path home_env ''a.txt'') = Inr ''1nd 3'') \<and>
   file_edit home_env (overlapping_input ''3'') home_disk = (None, home_disk)"
proof -
  have path: "str_at (overlapping_input n) ''path'' = Some ''a.txt''" for n by (simp add: overlapping_input_def str_at_def)
  have pairs: "pairs_of (overlapping_input n) = Inr [(''one '' @ ''two'', ''1''), (''two'' @ '' three'', n)]" for n
    by (simp add: overlapping_input_def pairs_of_def edit_of_def str_at_def)
  have read: "read_file home_disk (tool_path home_env ''a.txt'') = Inr ''one two three''" by code_simp
  have once: "match_positions (''one '' @ ''two'') 0 ''one two three'' = [length ([] :: string)]"
    "match_positions (''two'' @ '' three'') 0 ''one two three'' = [length ([] @ ''one '')]" by code_simp+
  have ascii: "is_ascii (''one two three'' @ ''1'' @ ''2 and 3'')" "is_ascii (''one two three'' @ ''1'' @ ''3'')" by code_simp+
  have whole: "''one two three'' = [] @ ''one '' @ ''two'' @ '' three'' @ []" by simp
  have bom: "\<not> starts_with ''one two three'' UTF8_BOM" by code_simp
  show ?thesis
    using overlapping_edits_lose_text [OF path pairs read home_decode whole ascii(1) _ _ once]
      overlapping_edits_lose_text [OF path pairs read home_decode whole ascii(2) _ _ once] bom by simp
qed

text \<open>
  An edit is all or nothing: unless the call reports success, it leaves the file system as it was,
  whether an argument is missing, a text is not found or not unique, the file cannot be read or written,
  or the tool panics.
\<close>

theorem file_edit_all_or_nothing:
  "snd (file_edit env input d) = d \<or> (\<exists>msg. fst (file_edit env input d) = Some (tool_ok msg))"
  by (auto simp: file_edit_def edit_file_def Let_def split: option.splits sum.splits prod.splits)

end
