(* ===== verification/File_Safety.thy ===== *)
theory File_Safety
  imports File_Tools
begin

text \<open>
  What the path check of the policy gate guarantees for the file tools, symbolic links included: a write it
  allows stays below the workspace when the directory it goes to exists and its name is no dangling link; and
  how it escapes when it is one, or when the directory does not exist.
\<close>

section \<open>Walking\<close>

definition dull :: "string \<Rightarrow> bool" where
  "dull s \<longleftrightarrow> s = [] \<or> s = ''.''"

definition names :: "path \<Rightarrow> string list" where
  "names p = filter (\<lambda>s. \<not> dull s) (snd p)"

text \<open>The names a location can have.\<close>

definition clean :: "string list \<Rightarrow> bool" where
  "clean l \<longleftrightarrow> (\<forall>s \<in> set l. \<not> dull s \<and> s \<noteq> ''..'')"

lemma walk_dull:
  "walk ns follow n pos (s # segs) =
     (if ns pos = None then Inl NotFound
      else if ns pos \<noteq> Some Directory then Inl NotADirectory
      else if dull s then walk ns follow n pos segs
      else if s = ''..'' then walk ns follow n (butlast pos) segs
      else case ns (pos @ [s]) of
             Some (Link q) \<Rightarrow>
               if segs = [] \<and> \<not> follow then Inr (pos @ [s], n)
               else if n = 0 then Inl FilesystemLoop
               else walk ns follow (n - 1) (if fst q then [] else pos) (snd q @ segs)
           | _ \<Rightarrow> walk ns follow n (pos @ [s]) segs)"
  by (simp add: dull_def)

declare walk.simps(2) [simp del]

text \<open>Only the last name of a path may be a link that is not followed.\<close>

lemma walk_append:
  "walk ns follow n pos (a @ b) =
     (case walk ns (follow \<or> b \<noteq> []) n pos a of Inl e \<Rightarrow> Inl e | Inr (l, m) \<Rightarrow> walk ns follow m l b)"
proof (induction ns "follow \<or> b \<noteq> []" n pos a rule: walk.induct)
  case (2 ns n pos s segs)
  show ?case
  proof (cases "\<exists>q. ns (pos @ [s]) = Some (Link q)")
    case True
    then obtain q where "ns (pos @ [s]) = Some (Link q)" by blast
    with 2 show ?thesis by (auto simp: walk_dull dull_def)
  next
    case False
    with 2 show ?thesis by (auto simp: walk_dull dull_def split: option.splits node.splits)
  qed
qed simp

lemma walk_fuel: "walk ns follow n pos segs = Inr (l, m) \<Longrightarrow> m \<le> n"
proof (induction ns follow n pos segs rule: walk.induct)
  case (2 ns follow n pos s segs)
  then show ?case by (auto simp: walk_dull dull_def split: if_splits option.splits node.splits)
qed simp

lemma walk_names: "walk ns True n pos segs = Inr r \<Longrightarrow> walk ns True n pos (filter (\<lambda>s. \<not> dull s) segs) = Inr r"
proof (induction "(n, segs)" arbitrary: n pos segs rule: wf_induct_rule [OF wf_lex_prod [OF wf_less_than wf_measure [of length]]])
  case (1 n segs)
  show ?case
  proof (cases segs)
    case (Cons s rest)
    note IH = "1.hyps" [of n rest] "1.hyps" [of m rest for m]
    show ?thesis
    proof (cases "\<exists>q. ns (pos @ [s]) = Some (Link q) \<and> \<not> dull s \<and> s \<noteq> ''..''")
      case True
      then obtain q where q: "ns (pos @ [s]) = Some (Link q)" "\<not> dull s" "s \<noteq> ''..''" by blast
      with "1.prems" Cons have n: "n \<noteq> 0" "ns pos = Some Directory"
        and w: "walk ns True (n - 1) (if fst q then [] else pos) (snd q @ rest) = Inr r"
        by (auto simp: walk_dull split: if_splits)
      from w obtain l m where lm: "walk ns True (n - 1) (if fst q then [] else pos) (snd q) = Inr (l, m)"
        "walk ns True m l rest = Inr r" by (auto simp: walk_append split: sum.splits)
      have "m < n" using walk_fuel [OF lm(1)] n(1) by simp
      then have "walk ns True m l (filter (\<lambda>s. \<not> dull s) rest) = Inr r" using "1.hyps" [of m rest] lm(2) by simp
      then have "walk ns True (n - 1) (if fst q then [] else pos) (snd q @ filter (\<lambda>s. \<not> dull s) rest) = Inr r"
        using lm(1) by (simp add: walk_append)
      with Cons q n show ?thesis by (simp add: walk_dull)
    next
      case False
      with "1.prems" "1.hyps" [of n rest] Cons show ?thesis
        by (auto simp: walk_dull split: if_splits option.splits node.splits)
    qed
  qed (use "1.prems" in simp)
qed

lemma clean_simps [simp]: "clean []" "clean (l @ m) \<longleftrightarrow> clean l \<and> clean m" "clean [s] \<longleftrightarrow> \<not> dull s \<and> s \<noteq> ''..''"
  by (auto simp: clean_def)

lemma clean_butlast [simp]: "clean l \<Longrightarrow> clean (butlast l)"
  by (auto simp: clean_def dest: in_set_butlastD)

lemma walk_clean: "walk ns follow n pos segs = Inr (l, m) \<Longrightarrow> clean pos \<Longrightarrow> clean l"
proof (induction ns follow n pos segs rule: walk.induct)
  case (2 ns follow n pos s segs)
  then show ?case by (auto simp: walk_dull dull_def split: if_splits option.splits node.splits)
qed simp

text \<open>Where something is when links are followed, there is something when they are not.\<close>

lemma walk_nofollow:
  "walk ns True n pos segs = Inr (l, m) \<Longrightarrow> ns l \<noteq> None \<Longrightarrow>
     \<exists>l' m'. walk ns False n pos segs = Inr (l', m') \<and> ns l' \<noteq> None"
proof (induction ns True n pos segs rule: walk.induct)
  case (2 ns n pos s segs)
  then show ?case by (auto simp: walk_dull dull_def split: if_splits option.splits node.splits)
qed simp

lemma names_clean [simp]: "clean l \<Longrightarrow> names (True, l) = l"
  by (auto simp: names_def clean_def intro!: filter_True)

section \<open>Absolute paths\<close>

lemma component_str_of [simp]: "component_str (component_of s) = s" "component_of s \<noteq> RootDir"
  by (simp_all add: component_of_def)

lemma component_of_inj: "component_of s = component_of t \<longleftrightarrow> s = t"
  by (auto simp: component_of_def)

lemma names_not_dull: "t \<in> set (names p) \<Longrightarrow> \<not> dull t"
  by (simp add: names_def)

lemma components_abs: "fst p \<Longrightarrow> components p = RootDir # map component_of (names p)"
  by (simp add: components_def names_def dull_def conj_commute)

lemma of_components_abs [simp]: "of_components (RootDir # map component_of ss) = (True, ss)"
  by (simp add: of_components_def comp_def filter_map)

lemma parent_abs: "fst p \<Longrightarrow> parent p = (if names p = [] then None else Some (True, butlast (names p)))"
  by (simp add: parent_def components_abs Let_def last_map map_butlast [symmetric])

lemma file_name_abs:
  "fst p \<Longrightarrow> file_name p = (if names p = [] \<or> last (names p) = ''..'' then None else Some (last (names p)))"
  by (simp add: file_name_def components_abs Let_def last_map component_of_def)

lemma starts_with_abs: "fst p \<Longrightarrow> fst q \<Longrightarrow> path_starts_with p q \<longleftrightarrow> prefix (names q) (names p)"
proof -
  have "prefix (map component_of a) (map component_of b) \<longleftrightarrow> prefix a b" for a b
  proof (induction a arbitrary: b)
    case (Cons s a)
    then show ?case by (cases b) (auto simp: component_of_inj)
  qed simp
  then show "fst p \<Longrightarrow> fst q \<Longrightarrow> path_starts_with p q \<longleftrightarrow> prefix (names q) (names p)"
    by (simp add: path_starts_with_def components_abs)
qed

lemma resolve_abs: "fst p \<Longrightarrow> locate d follow p = map_sum id fst (walk (nodes d) follow MAX_LINKS [] (snd p))"
  by (auto simp: locate_def)

lemma resolve_walk: "fst p \<Longrightarrow> locate d follow p = Inr l \<longleftrightarrow> (\<exists>m. walk (nodes d) follow MAX_LINKS [] (snd p) = Inr (l, m))"
  by (cases "walk (nodes d) follow MAX_LINKS [] (snd p)") (auto simp: resolve_abs)

lemma resolve_names: "fst p \<Longrightarrow> resolve d p = Inr l \<Longrightarrow> \<exists>m. walk (nodes d) True MAX_LINKS [] (names p) = Inr (l, m)"
  by (auto simp: resolve_walk names_def dest: walk_names)

lemma resolve_clean: "fst p \<Longrightarrow> resolve d p = Inr l \<Longrightarrow> clean l"
  by (auto simp: resolve_walk dest: walk_clean)

lemma canonicalize_SomeD: "canonicalize d p = Some c \<Longrightarrow> \<exists>l. c = (True, l) \<and> resolve d p = Inr l \<and> nodes d l \<noteq> None"
  by (auto simp: canonicalize_def split: sum.splits if_splits)

lemma joined_abs [simp]: "fst p \<Longrightarrow> fst (join_path p q)"
  by (simp add: join_path_def)

section \<open>Where a path without slashes in its names leads\<close>

lemma split_whole: "\<forall>c \<in> set s. \<not> P c \<Longrightarrow> split_when P s = [s]"
  by (induction s) auto

lemma split_no_sep: "\<forall>t \<in> set (split_when P s). \<forall>c \<in> set t. \<not> P c"
  by (induction s) (auto split: list.splits)

definition slash_free :: "path \<Rightarrow> bool" where
  "slash_free p \<longleftrightarrow> (\<forall>s \<in> set (snd p). CHR ''/'' \<notin> set s)"

lemma parse_slash_free: "slash_free (parse_path s)"
proof -
  have "\<forall>t \<in> set (split_when (\<lambda>b. b = CHR ''/'') u). CHR ''/'' \<notin> set t" for u
    using split_no_sep [of "\<lambda>b. b = CHR ''/''" u] by blast
  then show ?thesis by (simp add: slash_free_def parse_path_def del: split_when.simps split: list.split)
qed

lemma join_slash_free: "slash_free p \<Longrightarrow> slash_free q \<Longrightarrow> slash_free (join_path p q)"
  by (auto simp: slash_free_def join_path_def dest: in_set_butlastD)

lemma parse_name: "CHR ''/'' \<notin> set s \<Longrightarrow> parse_path s = (False, [s])"
proof (cases s)
  case (Cons c cs)
  moreover assume "CHR ''/'' \<notin> set s"
  then have "split_when (\<lambda>b. b = CHR ''/'') s = [s]" by (intro split_whole) auto
  ultimately show ?thesis using \<open>CHR ''/'' \<notin> set s\<close> by (auto simp: parse_path_def simp del: split_when.simps)
qed (simp add: parse_path_def)

fun is_link :: "node option \<Rightarrow> bool" where
  "is_link (Some (Link q)) \<longleftrightarrow> True"
| "is_link _ \<longleftrightarrow> False"

lemma is_link_iff: "is_link x \<longleftrightarrow> (\<exists>q. x = Some (Link q))"
  by (cases x rule: is_link.cases) auto

text \<open>The last name of a path is a link to a place where there is nothing.\<close>

definition dangling :: "disk \<Rightarrow> path \<Rightarrow> bool" where
  "dangling d p \<longleftrightarrow> \<not> exists d p \<and>
     (case (parent p, file_name p) of
        (Some q, Some s) \<Rightarrow>
          (case canonicalize d q of None \<Rightarrow> False | Some (b, l) \<Rightarrow> is_link (nodes d (l @ [s])))
      | _ \<Rightarrow> False)"

text \<open>What the check compares is where the path leads, when the directory exists.\<close>

lemma checked_location:
  assumes "wf_disk d" and "fst p" and "slash_free p" and "resolve d p = Inr l" and "\<not> dangling d p"
  shows "checked_path d p = (True, l)"
proof (cases "nodes d l = None")
  case False
  with assms(4) show ?thesis by (auto simp: checked_path_def canonicalize_def)
next
  case True
  obtain k where r: "walk (nodes d) True MAX_LINKS [] (names p) = Inr (l, k)" using resolve_names [OF assms(2,4)] by blast
  have root: "nodes d [] = Some Directory" using assms(1) by (simp add: wf_disk_def)
  have ne: "names p \<noteq> []" using r root True by auto
  then obtain ss s where ss: "names p = ss @ [s]" by (metis rev_exhaust)
  have par: "parent p = Some (True, ss)" using ss ne by (simp add: parent_abs assms(2))
  from r ss obtain q m where q: "walk (nodes d) True MAX_LINKS [] ss = Inr (q, m)" "walk (nodes d) True m q [s] = Inr (l, k)"
    by (auto simp: walk_append split: sum.splits)
  have dir: "nodes d q = Some Directory" using q(2) by (auto simp: walk_dull split: if_splits)
  have "s \<in> set (names p)" using ss by simp
  then have s: "\<not> dull s" and s_in: "s \<in> set (snd p)" by (auto simp: names_def)
  have "s \<noteq> ''..''"
  proof
    assume "s = ''..''"
    with q(2) dir s have "l = butlast q" by (simp add: walk_dull)
    moreover have "nodes d (butlast q) = Some Directory"
      using assms(1) dir by (cases q rule: rev_cases) (auto simp: wf_disk_def)
    ultimately show False using True by simp
  qed
  have c: "canonicalize d p = None" using assms(4) True by (simp add: canonicalize_def)
  have cp: "canonicalize d (True, ss) = Some (True, q)" using q(1) dir by (simp add: canonicalize_def resolve_abs)
  have fn: "file_name p = Some s" using ss \<open>s \<noteq> ''..''\<close> by (simp add: file_name_abs assms(2))
  have "\<nexists>t. nodes d (q @ [s]) = Some (Link t)"
    using assms(4,5) True par fn cp by (auto simp: dangling_def exists_def node_at_def is_link_iff)
  with q(2) dir s \<open>s \<noteq> ''..''\<close> have l: "l = q @ [s]" by (auto simp: walk_dull split: option.splits node.splits)
  have "CHR ''/'' \<notin> set s" using assms(3) s_in by (simp add: slash_free_def)
  moreover have "clean q" using q(1) by (auto dest: walk_clean)
  then have "q = [] \<or> last q \<noteq> []" by (cases q rule: rev_cases) (auto simp: dull_def)
  ultimately show ?thesis
    using c cp par fn l by (auto simp: checked_path_def parse_name join_path_def)
qed


section \<open>What the tools change\<close>

definition changed_at :: "disk \<Rightarrow> disk \<Rightarrow> string list set" where
  "changed_at d d' = {l. nodes d' l \<noteq> nodes d l}"

lemma changed_same [simp]: "changed_at d d = {}"
  by (simp add: changed_at_def)

lemma write_bytes_changes:
  "write_bytes d p t = Inr d' \<Longrightarrow> \<exists>l. resolve d p = Inr l \<and> changed_at d d' \<subseteq> {l}"
  by (auto simp: write_bytes_def changed_at_def split: sum.splits if_splits)

lemma write_to_changes:
  assumes "write_to env p content d = (r, d')"
  shows "d' = d \<or> (\<exists>l. resolve d p = Inr l \<and> changed_at d d' \<subseteq> {l})"
  using assms write_bytes_changes
  by (fastforce simp: write_to_def write_with_bom_policy_def Let_def split: sum.splits)

lemma mkdir_exists: "exists d (True, ss) \<Longrightarrow> mkdir d (True, ss) = Inl AlreadyExists"
  by (auto simp: exists_def node_at_def mkdir_def resolve_walk dest!: walk_nofollow split: sum.splits)
    (auto simp: resolve_abs)

lemma create_dir_all_exists:
  assumes "exists d (True, ss)" and "\<forall>s \<in> set ss. \<not> dull s"
  shows "create_dir_all d (True, ss) = (if is_dir d (True, ss) then None else Some AlreadyExists, d)"
proof -
  have "names (True, ss) = ss" using assms(2) by (auto simp: names_def)
  then have c: "components (True, ss) = RootDir # map component_of ss" by (simp add: components_abs)
  show ?thesis
  proof (cases ss rule: rev_cases)
    case Nil
    with assms(1) c show ?thesis by (simp add: create_dir_all_def mkdir_exists of_components_def)
  next
    case (snoc ts s)
    have "of_components (rev (component_of s # rev (RootDir # map component_of ts))) = (True, ss)"
      using snoc of_components_abs [of ss] by simp
    with assms(1) c snoc show ?thesis
      by (simp add: create_dir_all_def mkdir_exists Let_def del: of_components_abs)
  qed
qed

lemma parent_exists:
  assumes "fst p" and "resolve d p = Inr l"
  shows "case parent p of None \<Rightarrow> True | Some q \<Rightarrow> exists d q"
proof (cases "names p" rule: rev_cases)
  case (snoc ss s)
  with resolve_names [OF assms] obtain q m k where "walk (nodes d) True MAX_LINKS [] ss = Inr (q, m)"
    "walk (nodes d) True m q [s] = Inr (l, k)"
    by (auto simp: walk_append split: sum.splits)
  then have "exists d (True, ss)"
    by (auto simp: exists_def node_at_def resolve_abs walk_dull split: if_splits)
  with snoc show ?thesis by (simp add: parent_abs assms(1))
qed (simp add: parent_abs assms(1))

text \<open>An allowed path that leads somewhere leads below the workspace.\<close>

lemma allowed_location:
  assumes "wf_disk d" and "fst (pg_workspace_root g)" and "slash_free (pg_workspace_root g)"
    and "canonicalize d (pg_workspace_root g) = Some (True, w)" and "pg_extra_read_roots g = []"
    and "check_path g d s = Allow"
    and "p = join_path (pg_workspace_root g) (parse_path s)"
    and "resolve d p = Inr l" and "\<not> dangling d p"
  shows "prefix w l"
proof -
  have p: "fst p" "slash_free p" using assms(2,3,7) by (simp_all add: join_slash_free parse_slash_free)
  note loc = checked_location [OF assms(1) p assms(8,9)]
  have "path_starts_with (True, l) (True, w)"
    using assms(4-7) loc by (auto simp: check_path_def Let_def canonical_or_self_def split: if_splits)
  moreover have "clean l" "clean w"
    using resolve_clean [OF p(1) assms(8)] canonicalize_SomeD [OF assms(4)] resolve_clean [OF assms(2)] by auto
  ultimately show ?thesis by (simp add: starts_with_abs)
qed

text \<open>Without the directory the texts of the paths are compared.\<close>

lemma allowed_below:
  assumes "wf_disk d" and "fst (pg_workspace_root g)" and "slash_free (pg_workspace_root g)"
    and "canonicalize d (pg_workspace_root g) = Some (True, w)" and "pg_extra_read_roots g = []"
    and "check_path g d s = Allow"
    and "p = join_path (pg_workspace_root g) (parse_path s)"
    and "\<not> (case parent p of None \<Rightarrow> True | Some q \<Rightarrow> exists d q)"
  shows "prefix w (names p)"
proof -
  have p: "fst p" using assms(2,7) by simp
  have none: "canonicalize d q = None" if "\<not> exists d q" for q
    using that by (auto simp: canonicalize_def exists_def node_at_def split: sum.splits)
  have "\<not> exists d p" using parent_exists [OF p] assms(8) by (auto simp: exists_def node_at_def split: sum.splits)
  moreover obtain q where "parent p = Some q" "\<not> exists d q" using assms(8) by (auto split: option.splits)
  ultimately have "checked_path d p = p" by (simp add: checked_path_def none)
  then have "path_starts_with p (True, w)"
    using assms(4-7) by (auto simp: check_path_def Let_def canonical_or_self_def split: if_splits)
  moreover have "clean w" using canonicalize_SomeD [OF assms(4)] resolve_clean [OF assms(2)] by auto
  ultimately show ?thesis using p by (simp add: starts_with_abs)
qed

lemma file_write_changes:
  assumes "file_write env input d = (r, d')" and "str_at input ''path'' = Some s" and "fst (tool_path env s)"
    and "case parent (tool_path env s) of None \<Rightarrow> True | Some q \<Rightarrow> exists d q"
  shows "d' = d \<or> (\<exists>l. resolve d (tool_path env s) = Inr l \<and> changed_at d d' \<subseteq> {l})"
proof (cases "parent (tool_path env s)")
  case None
  with assms(1,2) show ?thesis
    by (auto simp: file_write_def split: option.splits if_splits dest!: write_to_changes)
next
  case (Some q)
  then obtain ss where q: "q = (True, ss)" "\<forall>t \<in> set ss. \<not> dull t"
    using assms(3) that [of "butlast (names (tool_path env s))"]
    by (auto simp: parent_abs split: if_splits dest: in_set_butlastD names_not_dull)
  have "create_dir_all d q = (if is_dir d q then None else Some AlreadyExists, d)"
    using create_dir_all_exists q assms(4) Some by simp
  with Some assms(1,2) show ?thesis
    by (auto simp: file_write_def Let_def split: option.splits if_splits dest!: write_to_changes)
qed

lemma edit_file_changes:
  assumes "edit_file env p pairs d = (r, d')"
  shows "d' = d \<or> (\<exists>l. resolve d p = Inr l \<and> changed_at d d' \<subseteq> {l})"
  using assms write_bytes_changes
  by (fastforce simp: edit_file_def write_preserving_encoding_def write_with_bom_policy_def Let_def
      split: sum.splits option.splits prod.splits if_splits)

lemma file_edit_changes:
  assumes "file_edit env input d = (r, d')" and "str_at input ''path'' = Some s"
  shows "d' = d \<or> (exists d (tool_path env s) \<and> (\<exists>l. resolve d (tool_path env s) = Inr l \<and> changed_at d d' \<subseteq> {l}))"
  using assms by (auto simp: file_edit_def Let_def split: sum.splits if_splits dest!: edit_file_changes)


section \<open>A directory that does not exist yet\<close>

lemma walk_to:
  assumes "wf_disk d" and "clean l" and "nodes d l = Some Directory"
  shows "walk (nodes d) follow n [] l = Inr (l, n)"
  using assms(2,3)
proof (induction l arbitrary: follow rule: rev_induct)
  case (snoc s l)
  with assms(1) have "nodes d l = Some Directory" by (auto simp: wf_disk_def)
  with snoc show ?case by (auto simp: walk_append walk_dull)
qed simp

definition create_at :: "disk \<Rightarrow> string list \<Rightarrow> io_error option \<times> disk" where
  "create_at d ss = create_dirs d (rev (RootDir # map component_of ss))"

lemma create_at_snoc:
  "create_at d (ss @ [s]) =
     (case mkdir d (True, ss @ [s]) of
        Inr d' \<Rightarrow> (None, d')
      | Inl e \<Rightarrow>
          if e = NotFound then
            (case create_at d ss of
               (None, d') \<Rightarrow>
                 (case mkdir d' (True, ss @ [s]) of
                    Inr d'' \<Rightarrow> (None, d'')
                  | Inl e' \<Rightarrow> (if is_dir d' (True, ss @ [s]) then None else Some e', d'))
             | (Some e', d') \<Rightarrow> (Some e', d'))
          else (if is_dir d (True, ss @ [s]) then None else Some e, d))"
  using of_components_abs [of "ss @ [s]"]
  by (simp add: create_at_def Let_def del: of_components_abs split: sum.splits prod.splits option.splits)

lemma create_dir_all_at: "\<forall>s \<in> set ss. \<not> dull s \<Longrightarrow> create_dir_all d (True, ss) = create_at d ss"
  by (simp add: create_dir_all_def create_at_def components_abs names_def)

lemma walk_from:
  "wf_disk d \<Longrightarrow> clean l \<Longrightarrow> nodes d l = Some Directory \<Longrightarrow>
     walk (nodes d) follow n [] (l @ segs) = walk (nodes d) follow n l segs"
  by (simp add: walk_append walk_to)

lemma not_dull_dots [simp]: "\<not> dull ''..''"
  by (simp add: dull_def)

text \<open>A file system in which \<open>n\<close> is missing below \<open>w @ [x]\<close>.\<close>

lemma climbing_out:
  assumes "wf_disk d" and "clean (w @ [x])" and "nodes d (w @ [x]) = Some Directory"
    and "nodes d (w @ [x, n]) = None" and "clean [n]"
  defines "d' \<equiv> d\<lparr>nodes := (nodes d)(w @ [x, n] \<mapsto> Directory)\<rparr>"
  shows "create_at d (w @ [x, n, ''..'', ''..'']) = (None, d')"
    and "resolve d (True, w @ [x, n, ''..'', ''..'', f]) = Inl NotFound"
    and "canonicalize d (True, w @ [x, n, ''..'', ''..'']) = None"
    and "clean [f] \<Longrightarrow> nodes d (w @ [f]) = None \<or> (\<exists>t. nodes d (w @ [f]) = Some (File t)) \<Longrightarrow>
      resolve d' (True, w @ [x, n, ''..'', ''..'', f]) = Inr (w @ [f])"
proof -
  have up: "nodes d w = Some Directory" using assms(1,3) by (auto simp: wf_disk_def)
  have walks: "walk (nodes d) follow k [] (w @ x # segs) = walk (nodes d) follow k (w @ [x]) segs" for follow k segs
    using walk_from [OF assms(1,2), of follow k segs] assms(3) by simp
  have wf': "wf_disk d'"
    using assms(1,3,4) by (auto simp: d'_def wf_disk_def Cons_eq_append_conv append_eq_append_conv2)
  have walks': "walk (nodes d') follow k [] (w @ x # segs) = walk (nodes d') follow k (w @ [x]) segs" for follow k segs
    using walk_from [OF wf' assms(2), of follow k segs] assms(3) by (simp add: d'_def)
  have n: "\<not> dull n" "n \<noteq> ''..''" using assms(5) by simp_all
  have r: "locate d follow (True, w @ x # n # ''..'' # segs) = Inl NotFound" for follow segs
    using assms(3,4) n by (simp add: resolve_abs walks walk_dull)
  show "resolve d (True, w @ [x, n, ''..'', ''..'', f]) = Inl NotFound"
    "canonicalize d (True, w @ [x, n, ''..'', ''..'']) = None"
    using r by (simp_all add: canonicalize_def)
  have d': "nodes d' (w @ [x]) = Some Directory" "nodes d' (w @ [x, n]) = Some Directory" "nodes d' w = Some Directory"
    using assms(3) up by (simp_all add: d'_def)
  have r': "locate d' follow (True, w @ x # n # ''..'' # segs) =
      map_sum id fst (walk (nodes d') follow MAX_LINKS (w @ [x]) segs)" for follow segs
    using d' n by (simp add: resolve_abs walks' walk_dull butlast_append)
  have "locate d False (True, w @ [x, n]) = Inr (w @ [x, n])"
    using assms(3,4) n by (simp add: resolve_abs walks walk_dull)
  then have c1: "create_at d (w @ [x, n]) = (None, d')"
    using create_at_snoc [of d "w @ [x]" n] assms(4) by (simp add: mkdir_def d'_def)
  have c2: "create_at d (w @ [x, n, ''..'']) = (None, d')"
    using create_at_snoc [of d "w @ [x, n]" "''..''"] c1 r [of _ "[]"] r' [of _ "[]"] d'
    by (simp add: mkdir_def is_dir_def node_at_def)
  show "create_at d (w @ [x, n, ''..'', ''..'']) = (None, d')"
    using create_at_snoc [of d "w @ [x, n, ''..'']" "''..''"] c2 r [of _ "[''..'']"] r' [of _ "[''..'']"] d'
    by (simp add: mkdir_def is_dir_def node_at_def walk_dull)
  assume f: "clean [f]" "nodes d (w @ [f]) = None \<or> (\<exists>t. nodes d (w @ [f]) = Some (File t))"
  then have "nodes d' (w @ [f]) = None \<or> (\<exists>t. nodes d' (w @ [f]) = Some (File t))" by (auto simp: d'_def)
  with f(1) show "resolve d' (True, w @ [x, n, ''..'', ''..'', f]) = Inr (w @ [f])"
    using r' [of True "[''..'', f]"] d' by (auto simp: walk_dull)
qed

lemma split_at_sep: "\<forall>c \<in> set a. \<not> P c \<Longrightarrow> P c \<Longrightarrow> split_when P (a @ c # b) = a # split_when P b"
  by (induction a) auto

lemma parse_climb:
  assumes "clean [n]" and "CHR ''/'' \<notin> set n" and "CHR ''/'' \<notin> set f"
  shows "parse_path (n @ ''/../../'' @ f) = (False, [n, ''..'', ''..'', f])"
proof -
  have "split_when (\<lambda>b. b = CHR ''/'') f = [f]" using assms(3) by (intro split_whole) auto
  then have "split_when (\<lambda>b. b = CHR ''/'') (n @ ''/../../'' @ f) = [n, ''..'', ''..'', f]"
    using split_at_sep [of n "\<lambda>b. b = CHR ''/''" "CHR ''/''" "''../../'' @ f"] assms(2) by auto
  moreover have "n \<noteq> []" using assms(1) by (auto simp: dull_def)
  ultimately show ?thesis using assms(2) by (cases n) (auto simp: parse_path_def simp del: split_when.simps)
qed


section \<open>Paths without steps up\<close>

lemma names_clean_path: "''..'' \<notin> set (snd p) \<Longrightarrow> clean (names p)"
  by (auto simp: names_def clean_def)

text \<open>No name on the way is a link.\<close>

definition unlinked :: "disk \<Rightarrow> string list \<Rightarrow> bool" where
  "unlinked d l \<longleftrightarrow> list_all (\<lambda>u. \<not> is_link (nodes d u)) (prefixes l)"

lemma unlinkedD: "unlinked d l \<Longrightarrow> prefix u l \<Longrightarrow> nodes d u \<noteq> Some (Link q)"
  by (cases q) (auto simp: unlinked_def list_all_iff is_link_iff)

lemma walk_clean_path:
  "walk ns follow n pos segs = Inr (l, m) \<Longrightarrow> clean segs \<Longrightarrow> \<forall>u q. prefix u segs \<longrightarrow> ns (pos @ u) \<noteq> Some (Link q) \<Longrightarrow>
     l = pos @ segs"
proof (induction segs arbitrary: pos)
  case (Cons s segs)
  have s: "\<not> dull s" "s \<noteq> ''..''" "clean segs" using Cons.prems(2) by (auto simp: clean_def)
  have "\<forall>q. ns (pos @ [s]) \<noteq> Some (Link q)" using Cons.prems(3) by (auto dest: spec [of _ "[s]"])
  with Cons.prems(1) s have "walk ns follow n (pos @ [s]) segs = Inr (l, m)"
    by (auto simp: walk_dull split: if_splits option.splits node.splits)
  moreover have "\<forall>u q. prefix u segs \<longrightarrow> ns ((pos @ [s]) @ u) \<noteq> Some (Link q)"
    using Cons.prems(3) by (metis append.assoc append_Cons append_Nil Cons_prefix_Cons)
  ultimately show ?case using Cons.IH s(3) by fastforce
qed simp

lemma locate_unlinked:
  "locate d follow (True, ss) = Inr l \<Longrightarrow> clean ss \<Longrightarrow> unlinked d ss \<Longrightarrow> l = ss"
  using walk_clean_path [of "nodes d" follow MAX_LINKS "[]" ss l] by (auto simp: resolve_walk dest: unlinkedD)

lemma changed_trans: "changed_at d d2 \<subseteq> changed_at d d1 \<union> changed_at d1 d2"
  by (auto simp: changed_at_def)

text \<open>Creating directories makes directories where there was nothing, and nothing else.\<close>

definition only_new :: "disk \<Rightarrow> disk \<Rightarrow> bool" where
  "only_new d d' \<longleftrightarrow> cwd d' = cwd d \<and> (\<forall>l \<in> changed_at d d'. nodes d l = None \<and> nodes d' l = Some Directory)"

lemma only_new_refl [simp]: "only_new d d"
  by (simp add: only_new_def)

lemma only_new_iff: "only_new d d' \<longleftrightarrow> cwd d' = cwd d \<and>
    (\<forall>l. nodes d' l = nodes d l \<or> nodes d l = None \<and> nodes d' l = Some Directory)"
  by (auto simp: only_new_def changed_at_def)

lemma only_new_trans: "only_new d1 d2 \<Longrightarrow> only_new d2 d3 \<Longrightarrow> only_new d1 d3"
  unfolding only_new_iff by (metis option.distinct(1))

lemma only_new_extends: "only_new d d' \<Longrightarrow> extends (nodes d) (nodes d')"
proof -
  assume new: "only_new d d'"
  then have "nodes d' l = nodes d l \<or> nodes d l = None \<and> nodes d' l = Some Directory" for l
    by (simp add: only_new_iff)
  then have "(nodes d l = Some Directory \<longrightarrow> nodes d' l = Some Directory) \<and>
      (\<forall>q. nodes d' l = Some (Link q) \<longleftrightarrow> nodes d l = Some (Link q))" for l
    by (metis node.distinct(3) option.distinct(1) option.inject)
  then show "extends (nodes d) (nodes d')" by (simp add: extends_def)
qed

lemma mkdir_new: "mkdir d p = Inr d' \<Longrightarrow> only_new d d' \<and> (\<exists>l. locate d False p = Inr l \<and> changed_at d d' = {l})"
  by (auto simp: mkdir_def only_new_def changed_at_def split: sum.splits if_splits)

lemma create_dirs_new: "create_dirs d cs = (e, d') \<Longrightarrow> only_new d d'"
proof (induction cs arbitrary: e d')
  case (Cons c cs)
  obtain e1 d1 where r: "create_dirs d cs = (e1, d1)" by force
  from Cons.prems consider "d' = d" | "mkdir d (of_components (rev (c # cs))) = Inr d'" | "d' = d1"
    | "mkdir d1 (of_components (rev (c # cs))) = Inr d'"
    unfolding create_dirs.simps Let_def r by (auto split: sum.splits option.splits if_splits)
  then show ?case
    using Cons.IH [OF r] mkdir_new only_new_trans by cases (simp, blast+)
qed simp

lemma only_new_unlinked: "only_new d d' \<Longrightarrow> unlinked d ss \<Longrightarrow> unlinked d' ss"
  using only_new_extends [of d d'] unfolding unlinked_def extends_def
  by (simp add: list_all_iff is_link_iff)

lemma create_at_changes:
  "create_at d ss = (e, d') \<Longrightarrow> clean ss \<Longrightarrow> unlinked d ss \<Longrightarrow> changed_at d d' \<subseteq> {l. prefix l ss \<and> nodes d l = None}"
proof (induction ss arbitrary: e d' rule: rev_induct)
  case Nil
  then show ?case
    by (auto simp: create_at_def Let_def of_components_def mkdir_def resolve_abs changed_at_def split: if_splits)
next
  case (snoc s ss)
  have c: "clean ss" "unlinked d ss" using snoc.prems(2,3) by (simp_all add: unlinked_def)
  obtain e1 d1 where r: "create_at d ss = (e1, d1)" by force
  note IH = snoc.IH [OF r c]
  have new: "only_new d d1" "only_new d d'"
    using create_dirs_new [OF r [unfolded create_at_def]] create_dirs_new [OF snoc.prems(1) [unfolded create_at_def]] by blast+
  have one: "changed_at d2 d3 \<subseteq> {ss @ [s]}" if "mkdir d2 (True, ss @ [s]) = Inr d3" "only_new d d2" for d2 d3
    using mkdir_new [OF that(1)] locate_unlinked [OF _ snoc.prems(2) only_new_unlinked [OF that(2) snoc.prems(3)]] by blast
  from snoc.prems(1) consider "d' = d" | "mkdir d (True, ss @ [s]) = Inr d'" | "d' = d1"
    | "mkdir d1 (True, ss @ [s]) = Inr d'"
    unfolding create_at_snoc r by (auto split: sum.splits option.splits if_splits)
  then have "changed_at d d' \<subseteq> {l. prefix l (ss @ [s])}"
  proof cases
    case 2
    with one show ?thesis by fastforce
  next
    case 4
    from one [OF this new(1)] IH changed_trans [of d d' d1] show ?thesis by (auto intro: prefix_order.trans)
  qed (use IH in \<open>auto intro: prefix_order.trans\<close>)
  with new(2) show ?case by (auto simp: only_new_def)
qed

text \<open>What is missing below a directory is missing below it only.\<close>

lemma missing_below:
  assumes "wf_disk d" and "nodes d w \<noteq> None" and "prefix w ss" and "prefix l ss" and "nodes d l = None"
  shows "prefix w l"
proof -
  have up: "nodes d u \<noteq> None" if "prefix u v" "nodes d v \<noteq> None" for u v
    using that
  proof (induction v rule: rev_induct)
    case (snoc n v)
    with assms(1) have "nodes d v = Some Directory" by (auto simp: wf_disk_def)
    with snoc show ?case by auto
  qed simp
  from assms(3,4) have "prefix w l \<or> prefix l w" by (rule prefix_same_cases)
  with up assms(2,5) show ?thesis by blast
qed

lemma file_write_below:
  assumes "wf_disk d" and "fst (tool_path env s)" and "''..'' \<notin> set (snd (tool_path env s))"
    and "unlinked d (names (tool_path env s))"
    and "nodes d w \<noteq> None" and "prefix w (names (tool_path env s))"
    and "str_at input ''path'' = Some s"
  shows "changed_at d (snd (file_write env input d)) \<subseteq> {l. prefix w l}"
proof -
  let ?p = "tool_path env s"
  note c = names_clean_path [OF assms(3)]
  have at: "l = names ?p" if r: "resolve d' ?p = Inr l" and "only_new d d'" for d' l
  proof -
    have "locate d' True (True, names ?p) = Inr l" using resolve_names [OF assms(2) r] by (simp add: resolve_walk)
    then show ?thesis using locate_unlinked c only_new_unlinked [OF that(2) assms(4)] by blast
  qed
  have to: "changed_at d' (snd (write_to env ?p content d')) \<subseteq> {l. prefix w l}" if "only_new d d'" for content d'
    using write_to_changes [OF surjective_pairing, of env ?p content d'] at [of d'] assms(6) that by auto
  have dirs: "changed_at d (snd (create_dir_all d q)) \<subseteq> {l. prefix w l}" "only_new d (snd (create_dir_all d q))"
    if "parent ?p = Some q" for q
  proof -
    have q: "q = (True, butlast (names ?p))" using that by (auto simp: parent_abs assms(2) split: if_splits)
    then have at: "create_dir_all d q = create_at d (butlast (names ?p))"
      using c by (simp add: create_dir_all_at clean_def in_set_butlastD)
    then show "only_new d (snd (create_dir_all d q))" using create_dirs_new [OF surjective_pairing] by (simp add: create_at_def)
    have "unlinked d (butlast (names ?p))"
      using assms(4) prefixeq_butlast [of "names ?p"] by (auto simp: unlinked_def list_all_iff dest: prefix_order.trans)
    then have "changed_at d (snd (create_dir_all d q)) \<subseteq> {l. prefix l (butlast (names ?p)) \<and> nodes d l = None}"
      using create_at_changes [OF surjective_pairing] c at by simp
    with missing_below [OF assms(1,5,6)] show "changed_at d (snd (create_dir_all d q)) \<subseteq> {l. prefix w l}"
      by (auto dest: prefix_order.trans [OF _ prefixeq_butlast])
  qed
  have both: "changed_at d d2 \<subseteq> {l. prefix w l}"
    if "changed_at d d1 \<subseteq> {l. prefix w l}" "changed_at d1 d2 \<subseteq> {l. prefix w l}" for d1 d2
    using that changed_trans [of d d2 d1] by blast
  show ?thesis
  proof (cases "parent ?p")
    case None
    with to [of d] assms(7) show ?thesis by (auto simp: file_write_def split: option.splits)
  next
    case (Some q)
    obtain e1 d1 where d1: "create_dir_all d q = (e1, d1)" by force
    note new = dirs [OF Some, unfolded d1, simplified]
    from new both to [OF new(2)] Some d1 assms(7) show ?thesis
      by (auto simp: file_write_def Let_def split: option.splits)
  qed
qed

lemma not_dangling:
  assumes "fst p" and "''..'' \<notin> set (snd p)" and "unlinked d (names p)"
  shows "\<not> dangling d p"
proof
  assume dangling: "dangling d p"
  then obtain ss s where ss: "names p = ss @ [s]"
    by (cases "names p" rule: rev_cases) (auto simp: dangling_def parent_abs assms(1))
  have c: "clean (ss @ [s])" using names_clean_path [OF assms(2)] ss by simp
  have "unlinked d ss" using assms(3) ss by (simp add: unlinked_def)
  moreover obtain l b t where l: "canonicalize d (True, ss) = Some (b, l)" "nodes d (l @ [s]) = Some (Link t)"
    using dangling c by (auto simp: dangling_def parent_abs file_name_abs assms(1) ss is_link_iff split: option.splits if_splits)
  moreover from l(1) have "locate d True (True, ss) = Inr l" by (auto dest: canonicalize_SomeD)
  ultimately have "l = ss" using locate_unlinked c by simp
  with l(2) assms(3) ss show False using unlinkedD [of d "ss @ [s]" "ss @ [s]" t] by simp
qed

section \<open>Properties\<close>



text \<open>
  C25. A path that climbs out through a directory that does not exist is allowed and leaves the workspace:
  the check compares its text, as neither it nor its parent exists, and then \<^verbatim>\<open>file_write\<close> creates the
  missing directory and writes next to the workspace, over a file that is there.
\<close>

theorem missing_directory_escapes:
  assumes "wf_disk d" and "pg_workspace_root g = (True, w @ [x])" and "clean (w @ [x])"
    and "nodes d (w @ [x]) = Some Directory" and "nodes d (w @ [x, n]) = None"
    and "clean [n]" and "clean [f]" and "CHR ''/'' \<notin> set n" and "CHR ''/'' \<notin> set f"
    and "nodes d (w @ [f]) = None \<or> (\<exists>t. nodes d (w @ [f]) = Some (File t))"
    and "workspace_root env = pg_workspace_root g" and "count_chars content \<le> 200000"
  defines "input \<equiv> JObj [(''path'', JStr (n @ ''/../../'' @ f)), (''content'', JStr content)]"
  shows "gate_tool_call g c d ''file_write'' input = Allow \<and>
    (\<exists>bom. nodes (snd (file_write env input d)) (w @ [f]) = Some (File (bom @ content)))"
proof -
  let ?s = "n @ ''/../../'' @ f" and ?p = "(True, w @ [x, n, ''..'', ''..'', f])"
  define d' where "d' = d\<lparr>nodes := (nodes d)(w @ [x, n] \<mapsto> Directory)\<rparr>"
  have "\<not> dull x" using assms(3) by simp
  then have join: "join_path (True, w @ [x]) (parse_path ?s) = ?p"
    using parse_climb [OF assms(6,8,9)] by (simp add: join_path_def dull_def)
  note climb = climbing_out [OF assms(1,3-6)]
  have names: "names ?p = w @ [x, n, ''..'', ''..'', f]"
    using assms(3,6,7) by (auto simp: names_def clean_def intro!: filter_True)
  then have par: "parent ?p = Some (True, w @ [x, n, ''..'', ''..''])" by (simp add: parent_abs butlast_append)
  have "canonicalize d (True, w @ [x]) = Some (True, w @ [x])"
    using walk_to [OF assms(1,3)] assms(4) by (simp add: canonicalize_def resolve_abs)
  moreover have "checked_path d ?p = ?p"
    using climb(2,3) par by (simp add: checked_path_def canonicalize_def)
  ultimately have "check_path g d ?s = Allow"
    using assms(2,3) join names by (simp add: check_path_def Let_def canonical_or_self_def starts_with_abs)
  then have gate: "gate_tool_call g c d ''file_write'' input = Allow"
    by (simp add: gate_tool_call_def str_or_def input_def str_at_def List.map_filter_simps)
  have "create_dir_all d (True, w @ [x, n, ''..'', ''..'']) = (None, d')"
    using climb(1) assms(3,6) by (subst create_dir_all_at) (auto simp: d'_def clean_def)
  then have "file_write env input d = write_to env ?p content d'"
    using join par assms(2,11,12)
    by (simp add: file_write_def input_def str_at_def tool_path_def MAX_FILE_WRITE_CONTENT_CHARS_def Let_def)
  moreover have "resolve d' ?p = Inr (w @ [f])" using climb(4) [OF assms(7,10)] by (simp add: d'_def)
  moreover have "nodes d' (w @ [f]) \<noteq> Some Directory" using assms(10) by (auto simp: d'_def)
  ultimately have "\<exists>bom. nodes (snd (file_write env input d)) (w @ [f]) = Some (File (bom @ content))"
    by (auto simp: write_to_def write_with_bom_policy_def write_bytes_def Let_def intro: exI [of _ "[]"])
  with gate show ?thesis by blast
qed


theorem missing_directory_escapes_witness:
  "gate_tool_call home_gate no_crates home_disk ''file_write'' (write_input ''none/../../keys'' ''mine'') = Allow \<and>
   (\<exists>bom. nodes (snd (file_write home_env (write_input ''none/../../keys'' ''mine'') home_disk)) [''home'', ''keys''] =
      Some (File (bom @ ''mine'')))"
proof -
  have root: "pg_workspace_root home_gate = (True, [''home''] @ [''ws''])" "workspace_root home_env = pg_workspace_root home_gate"
    by (simp_all add: home_gate_def new_gate_def with_profile_def home_root_def home_env_def)
  have names: "clean ([''home''] @ [''ws''])" "clean [''none'']" "clean [''keys'']" "CHR ''/'' \<notin> set ''none''" "CHR ''/'' \<notin> set ''keys''"
    by (simp_all add: clean_def dull_def)
  have disk: "nodes home_disk ([''home''] @ [''ws'']) = Some Directory" "nodes home_disk ([''home''] @ [''ws'', ''none'']) = None"
    "nodes home_disk ([''home''] @ [''keys'']) = None \<or> (\<exists>t. nodes home_disk ([''home''] @ [''keys'']) = Some (File t))"
    by (simp_all add: home_disk_def)
  have "count_chars ''mine'' = 4" by code_simp
  then have short: "count_chars ''mine'' \<le> 200000" by simp
  note escape = missing_directory_escapes [OF home_wf root(1) names(1) disk(1,2) names(2-5) disk(3) root(2) short]
  from escape [of no_crates] show ?thesis by (simp add: write_input_def)
qed

text \<open>
  And what \<open>dangling\<close> excludes does escape: when a name in the workspace is a link to a place outside where there is
  nothing yet, the check looks at the name, as the place cannot be canonicalised, and the write goes to the place.
\<close>

theorem dangling_link_escapes:
  assumes "wf_disk d" and "pg_workspace_root g = (True, w)" and "clean w" and "nodes d w = Some Directory"
    and "clean [n]" and "CHR ''/'' \<notin> set n" and "nodes d (w @ [n]) = Some (Link (True, v @ [f]))"
    and "clean (v @ [f])" and "nodes d v = Some Directory" and "nodes d (v @ [f]) = None"
    and "workspace_root env = pg_workspace_root g" and "count_chars content \<le> 200000"
  defines "input \<equiv> JObj [(''path'', JStr n), (''content'', JStr content)]"
  shows "gate_tool_call g c d ''file_write'' input = Allow \<and>
    nodes (snd (file_write env input d)) (v @ [f]) = Some (File content)"
proof -
  let ?p = "(True, w @ [n])"
  have "w = [] \<or> last w \<noteq> []" using assms(3) by (cases w rule: rev_cases) (auto simp: dull_def)
  then have join: "join_path (True, w) (parse_path n) = ?p" using assms(6) by (auto simp: join_path_def parse_name)
  have names: "names ?p = w @ [n]" using assms(3,5) by simp
  have par: "parent ?p = Some (True, w)" "file_name ?p = Some n"
    using names assms(5) by (simp_all add: parent_abs file_name_abs)
  have at: "resolve d ?p = Inr (v @ [f])"
    using walk_from [OF assms(1,3,4), of True MAX_LINKS "[n]"] walk_from [OF assms(1) _ assms(9), of True "MAX_LINKS - 1" "[f]"]
      assms(4,5,7-10) by (simp add: resolve_abs walk_dull MAX_LINKS_def)
  have root: "canonicalize d (True, w) = Some (True, w)"
    using walk_to [OF assms(1,3,4)] assms(4) by (simp add: canonicalize_def resolve_abs)
  moreover have "checked_path d ?p = ?p"
    using at par root assms(10) join by (simp add: checked_path_def canonicalize_def)
  ultimately have "check_path g d n = Allow"
    using assms(2,3) join names by (simp add: check_path_def Let_def canonical_or_self_def starts_with_abs)
  then have gate: "gate_tool_call g c d ''file_write'' input = Allow"
    by (simp add: gate_tool_call_def str_or_def input_def str_at_def List.map_filter_simps)
  have "exists d (True, w)" "is_dir d (True, w)"
    using walk_to [OF assms(1,3,4)] assms(4) by (simp_all add: exists_def is_dir_def node_at_def resolve_abs)
  then have "create_dir_all d (True, w) = (None, d)"
    using create_dir_all_exists [of d w] assms(3) by (simp add: clean_def)
  then have "file_write env input d = write_to env ?p content d"
    using join par assms(2,11,12)
    by (simp add: file_write_def input_def str_at_def tool_path_def MAX_FILE_WRITE_CONTENT_CHARS_def Let_def)
  with gate at assms(10) show ?thesis
    by (simp add: write_to_def write_with_bom_policy_def write_bytes_def Let_def exists_def node_at_def)
qed

definition linked_disk :: disk where
  "linked_disk = home_disk\<lparr>nodes := (nodes home_disk)([''home'', ''ws'', ''out''] \<mapsto> Link (True, [''home'', ''new'']))\<rparr>"

theorem dangling_link_escapes_witness:
  "gate_tool_call home_gate no_crates linked_disk ''file_write'' (write_input ''out'' ''mine'') = Allow \<and>
   nodes (snd (file_write home_env (write_input ''out'' ''mine'') linked_disk)) [''home'', ''new''] = Some (File ''mine'')"
proof -
  have wf: "wf_disk linked_disk"
    using home_wf by (auto simp: linked_disk_def wf_disk_def home_disk_def append_eq_Cons_conv)
  have root: "pg_workspace_root home_gate = (True, [''home'', ''ws''])" "workspace_root home_env = pg_workspace_root home_gate"
    by (simp_all add: home_gate_def new_gate_def with_profile_def home_root_def home_env_def)
  have names: "clean [''home'', ''ws'']" "clean [''out'']" "CHR ''/'' \<notin> set ''out''" "clean ([''home''] @ [''new''])"
    by (simp_all add: clean_def dull_def)
  have disk: "nodes linked_disk [''home'', ''ws''] = Some Directory"
    "nodes linked_disk ([''home'', ''ws''] @ [''out'']) = Some (Link (True, [''home''] @ [''new'']))"
    "nodes linked_disk [''home''] = Some Directory" "nodes linked_disk ([''home''] @ [''new'']) = None"
    by (simp_all add: linked_disk_def home_disk_def)
  have "count_chars ''mine'' = 4" by code_simp
  then have short: "count_chars ''mine'' \<le> 200000" by simp
  from dangling_link_escapes [OF wf root(1) names(1) disk(1) names(2,3) disk(2) names(4) disk(3,4) root(2) short]
  show ?thesis by (simp add: write_input_def)
qed

end
