(* ===== verification/File_Modes.thy ===== *)
theory File_Modes
  imports File_Safety
begin

text \<open>What writing a file does to the file system, and how the modes of the gate are ordered.\<close>

section \<open>The file system stays a tree\<close>

lemma directory_above: "wf_disk d \<Longrightarrow> nodes d l = Some Directory \<Longrightarrow> nodes d (butlast l) = Some Directory"
  by (cases l rule: rev_cases) (auto simp: wf_disk_def)

lemma walk_lands:
  assumes "wf_disk d"
  shows "walk (nodes d) follow n pos segs = Inr (l, m) \<Longrightarrow> nodes d (butlast pos) = Some Directory \<Longrightarrow>
    \<not> is_link (nodes d pos) \<Longrightarrow> nodes d (butlast l) = Some Directory \<and> (follow \<longrightarrow> \<not> is_link (nodes d l))"
proof (induction "nodes d" follow n pos segs rule: walk.induct)
  case (2 follow n pos s segs)
  have dir: "nodes d pos = Some Directory" using "2.prems"(1) by (auto simp: walk_dull split: if_splits)
  then have up: "nodes d (butlast (butlast pos)) = Some Directory" "nodes d (butlast pos) = Some Directory"
    using directory_above [OF assms] by blast+
  have root: "nodes d [] = Some Directory" using assms by (simp add: wf_disk_def)
  show ?case
  proof (cases "\<exists>q. nodes d (pos @ [s]) = Some (Link q)")
    case True
    then obtain q where "nodes d (pos @ [s]) = Some (Link q)" by blast
    with 2 dir up root show ?thesis by (auto simp: walk_dull dull_def split: if_splits)
  next
    case False
    with 2 dir up show ?thesis by (auto simp: walk_dull dull_def is_link_iff split: if_splits option.splits node.splits)
  qed
qed simp

lemma locate_lands:
  assumes "wf_disk d" and "locate d follow p = Inr l"
  shows "nodes d (butlast l) = Some Directory" and "follow \<Longrightarrow> \<not> is_link (nodes d l)"
proof -
  have start: "nodes d (butlast (cwd d)) = Some Directory" "nodes d (cwd d) = Some Directory" "nodes d [] = Some Directory"
    using assms(1) directory_above by (auto simp: wf_disk_def)
  obtain m where m: "walk (nodes d) follow MAX_LINKS (if fst p then [] else cwd d) (snd p) = Inr (l, m)"
    using assms(2) by (cases "walk (nodes d) follow MAX_LINKS (if fst p then [] else cwd d) (snd p)")
      (auto simp: locate_def split: if_splits)
  from walk_lands [OF assms(1) m] start
  show "nodes d (butlast l) = Some Directory" "follow \<Longrightarrow> \<not> is_link (nodes d l)" by (cases "fst p"; simp)+
qed

lemma wf_put:
  assumes "wf_disk d" and "nodes d (butlast l) = Some Directory" and "nodes d l \<noteq> Some Directory"
    and "nodes d l = None \<or> (\<exists>t. n = File t)"
  shows "wf_disk (d\<lparr>nodes := (nodes d)(l \<mapsto> n)\<rparr>)"
  using assms by (fastforce simp: wf_disk_def)

lemma write_bytes_wf: "wf_disk d \<Longrightarrow> write_bytes d p t = Inr d' \<Longrightarrow> wf_disk d'"
  by (auto simp: write_bytes_def dest: locate_lands(1) intro!: wf_put split: sum.splits if_splits)

lemma mkdir_wf: "wf_disk d \<Longrightarrow> mkdir d p = Inr d' \<Longrightarrow> wf_disk d'"
  by (auto simp: mkdir_def dest: locate_lands(1) intro!: wf_put split: sum.splits if_splits)

lemma create_dirs_wf: "create_dirs d cs = (e, d') \<Longrightarrow> wf_disk d \<Longrightarrow> wf_disk d'"
proof (induction cs arbitrary: e d')
  case (Cons c cs)
  then show ?case
    by (auto simp: Let_def dest: mkdir_wf split: sum.splits if_splits prod.splits option.splits)
qed simp

lemma write_to_wf: "wf_disk d \<Longrightarrow> wf_disk (snd (write_to env p content d))"
  by (auto simp: write_to_def write_with_bom_policy_def Let_def dest: write_bytes_wf split: sum.splits)

lemma file_write_wf: "wf_disk d \<Longrightarrow> wf_disk (snd (file_write env input d))"
  by (auto simp: file_write_def create_dir_all_def Let_def write_to_wf dest: create_dirs_wf
      split: option.splits prod.splits)

lemma edit_file_wf: "wf_disk d \<Longrightarrow> wf_disk (snd (edit_file env p pairs d))"
  by (auto simp: edit_file_def write_preserving_encoding_def write_with_bom_policy_def Let_def dest: write_bytes_wf
      split: sum.splits option.splits prod.splits if_splits)

lemma file_edit_wf: "wf_disk d \<Longrightarrow> wf_disk (snd (file_edit env input d))"
  by (auto simp: file_edit_def Let_def edit_file_wf split: option.splits sum.splits)

section \<open>What a write changes\<close>

definition successful :: "call_outcome \<Rightarrow> bool" where
  "successful r \<longleftrightarrow> (case r of Returned out \<Rightarrow> \<not> out_is_error out | _ \<Rightarrow> False)"

definition kept_mark :: "node option \<Rightarrow> string" where
  "kept_mark before = (case before of Some (File t) \<Rightarrow> if starts_with t UTF8_BOM then UTF8_BOM else [] | _ \<Rightarrow> [])"

text \<open>The path leads to \<open>l\<close>, and the content is there, as the answer says.\<close>

definition wrote :: "file_env \<Rightarrow> path \<Rightarrow> string \<Rightarrow> disk \<Rightarrow> disk \<Rightarrow> call_outcome \<Rightarrow> string list \<Rightarrow> bool" where
  "wrote env p c d d' r l \<longleftrightarrow> resolve d' p = Inr l \<and> nodes d l \<noteq> Some Directory \<and>
     nodes d' l = Some (File (kept_mark (nodes d l) @ c)) \<and>
     r = tool_ok ((if nodes d l = None then ''Created'' else ''Updated'') @ '' file: '' @ shown env p @ '' ('' @
       nat_digits (length c) @ '' bytes)'')"

text \<open>A directory that the path goes through, where there was nothing before.\<close>

definition new_directory :: "disk \<Rightarrow> disk \<Rightarrow> path \<Rightarrow> string list \<Rightarrow> bool" where
  "new_directory d d' p l \<longleftrightarrow> nodes d l = None \<and> nodes d' l = Some Directory \<and>
     (\<exists>i. locate d' False (True, take i (names p)) = Inr l)"

lemma locate_new:
  assumes "locate d follow p = Inr l" and "only_new d d'"
  shows "locate d' follow p = Inr l"
  by (rule locate_extends [OF assms(1) only_new_extends [OF assms(2)]]) (use assms(2) in \<open>simp add: only_new_iff\<close>)

lemma create_at_makes:
  "create_at d ss = (e, d') \<Longrightarrow> l \<in> changed_at d d' \<Longrightarrow> \<exists>i. locate d' False (True, take i ss) = Inr l"
proof (induction ss arbitrary: e d' rule: rev_induct)
  case Nil
  then show ?case
    by (auto simp: create_at_def Let_def of_components_def mkdir_def resolve_abs changed_at_def split: if_splits)
next
  case (snoc s ss)
  obtain e1 d1 where r: "create_at d ss = (e1, d1)" by force
  have mk: "\<exists>i. locate d3 False (True, take i (ss @ [s])) = Inr l"
    if made: "mkdir d2 (True, ss @ [s]) = Inr d3" "l \<in> changed_at d2 d3" for d2 d3
  proof -
    obtain k where "only_new d2 d3" "locate d2 False (True, ss @ [s]) = Inr k" "changed_at d2 d3 = {k}"
      using mkdir_new [OF made(1)] by blast
    moreover from this made(2) have "k = l" by simp
    ultimately have "locate d2 False (True, ss @ [s]) = Inr l" "only_new d2 d3" by simp_all
    then have "locate d3 False (True, ss @ [s]) = Inr l" by (rule locate_new)
    then show ?thesis by (intro exI [of _ "length (ss @ [s])"]) simp
  qed
  have old: "\<exists>i. locate d2 False (True, take i (ss @ [s])) = Inr l" if new: "l \<in> changed_at d d1" "only_new d1 d2" for d2
  proof -
    obtain i where i: "locate d1 False (True, take i ss) = Inr l" using snoc.IH [OF r new(1)] by blast
    then have "locate d2 False (True, take i ss) = Inr l" using new(2) by (rule locate_new)
    then show ?thesis by (intro exI [of _ "min i (length ss)"]) (cases "i \<le> length ss"; simp)
  qed
  from snoc.prems(1) consider "d' = d" | "mkdir d (True, ss @ [s]) = Inr d'" | "d' = d1"
    | "mkdir d1 (True, ss @ [s]) = Inr d'"
    unfolding create_at_snoc r by (auto split: sum.splits option.splits if_splits)
  then show ?case
  proof cases
    case 4
    with snoc.prems(2) changed_trans [of d d' d1] consider "l \<in> changed_at d d1" | "l \<in> changed_at d1 d'" by blast
    then show ?thesis
    proof cases
      case 1
      then show ?thesis using old mkdir_new [OF 4] by blast
    next
      case 2
      then show ?thesis using mk [OF 4] by blast
    qed
  next
    case 2
    then show ?thesis using mk snoc.prems(2) by blast
  next
    case 3
    then show ?thesis using old [of d1] snoc.prems(2) by simp
  qed (use snoc.prems(2) in simp)
qed

lemma create_dirs_make:
  assumes "fst p" and "parent p = Some q" and "create_dir_all d q = (e, d1)"
  shows "only_new d d1" and "l \<in> changed_at d d1 \<Longrightarrow> new_directory d d1 p l"
proof -
  have q: "q = (True, butlast (names p))" using assms(1,2) by (auto simp: parent_abs split: if_splits)
  then have at: "create_at d (butlast (names p)) = (e, d1)"
    using assms(3) names_not_dull [of _ p] by (simp add: create_dir_all_at in_set_butlastD)
  then show new: "only_new d d1" using create_dirs_new by (simp add: create_at_def)
  show "new_directory d d1 p l" if made: "l \<in> changed_at d d1"
  proof -
    obtain i where "locate d1 False (True, take i (butlast (names p))) = Inr l" using create_at_makes [OF at made] by blast
    then have "locate d1 False (True, take (min i (length (names p) - 1)) (names p)) = Inr l"
      by (simp add: butlast_conv_take)
    with new made show ?thesis unfolding only_new_def new_directory_def by blast
  qed
qed

lemma write_to_wrote:
  assumes "wf_disk d" and "wf_disk d1" and "only_new d d1" and "write_to env p c d1 = (r, d')"
  shows "(\<exists>l. resolve d1 p = Inr l \<and> wrote env p c d d' r l \<and> changed_at d1 d' \<subseteq> {l} \<and> extends (nodes d1) (nodes d') \<and> cwd d' = cwd d1) \<or>
    \<not> successful r \<and> d' = d1 \<and> (\<forall>l. resolve d1 p = Inr l \<longrightarrow> nodes d1 l = Some Directory)"
proof (cases "\<exists>l. resolve d1 p = Inr l \<and> nodes d1 l \<noteq> Some Directory")
  case True
  then obtain l where l: "resolve d1 p = Inr l" "nodes d1 l \<noteq> Some Directory" by blast
  note link = locate_lands(2) [OF assms(2) l(1) TrueI]
  have same: "nodes d l = nodes d1 l" using assms(3) l(2) unfolding only_new_iff by metis
  define t where "t = kept_mark (nodes d1 l) @ c"
  have "write_bytes d1 p t = Inr (d1\<lparr>nodes := (nodes d1)(l \<mapsto> File t)\<rparr>)" using l by (simp add: write_bytes_def)
  moreover have "(exists d1 p \<and> file_has_utf8_bom d1 p) = (kept_mark (nodes d1 l) = UTF8_BOM)"
    using l link by (auto simp: exists_def node_at_def file_has_utf8_bom_def read_file_def kept_mark_def is_link_iff UTF8_BOM_def
        split: option.splits node.splits)
  moreover have "kept_mark (nodes d1 l) = UTF8_BOM \<or> kept_mark (nodes d1 l) = []"
    by (auto simp: kept_mark_def split: option.splits node.splits)
  ultimately have w: "write_with_bom_policy d1 p c (exists d1 p \<and> file_has_utf8_bom d1 p) =
      Inr (d1\<lparr>nodes := (nodes d1)(l \<mapsto> File t)\<rparr>)"
    by (auto simp: write_with_bom_policy_def t_def)
  then have d': "d' = d1\<lparr>nodes := (nodes d1)(l \<mapsto> File t)\<rparr>"
    and r: "r = tool_ok ((if nodes d l = None then ''Created'' else ''Updated'') @ '' file: '' @ shown env p @ '' ('' @
       nat_digits (length c) @ '' bytes)'')"
    using assms(4) l(1) same by (auto simp: write_to_def Let_def exists_def node_at_def)
  have ext: "extends (nodes d1) (nodes d')" using l(2) link by (auto simp: extends_def d' is_link_iff)
  have "resolve d' p = Inr l" by (rule locate_extends [OF l(1) ext]) (simp add: d')
  then have "wrote env p c d d' r l" using l(2) same r by (simp add: wrote_def d' t_def)
  then show ?thesis using l(1) ext by (auto simp: d' changed_at_def)
next
  case False
  then have "\<exists>e. write_bytes d1 p t = Inl e" for t by (auto simp: write_bytes_def split: sum.splits)
  then obtain e where "write_with_bom_policy d1 p c (exists d1 p \<and> file_has_utf8_bom d1 p) = Inl e"
    unfolding write_with_bom_policy_def by blast
  then have "r = CallFailed (io_text env e)" "d' = d1" using assms(4) by (simp_all add: write_to_def Let_def)
  with False show ?thesis by (auto simp: successful_def)
qed

lemma parent_directory:
  assumes "fst p" and "resolve d p = Inr l" and "parent p = Some q"
  shows "create_dir_all d q = (None, d)"
proof -
  have q: "q = (True, butlast (names p))" "names p \<noteq> []" using assms(1,3) by (auto simp: parent_abs split: if_splits)
  then obtain ss s where ss: "names p = ss @ [s]" by (metis rev_exhaust)
  obtain k where "walk (nodes d) True MAX_LINKS [] (names p) = Inr (l, k)" using resolve_names [OF assms(1,2)] by blast
  then obtain u m where "walk (nodes d) True MAX_LINKS [] ss = Inr (u, m)" "walk (nodes d) True m u [s] = Inr (l, k)"
    using ss by (auto simp: walk_append split: sum.splits)
  then have "is_dir d (True, ss)" by (auto simp: is_dir_def node_at_def resolve_abs walk_dull split: if_splits)
  moreover from this have "exists d (True, ss)" by (simp add: is_dir_def exists_def)
  moreover have "\<forall>t \<in> set ss. \<not> dull t" using names_not_dull [of _ p] ss by auto
  ultimately show ?thesis using create_dir_all_exists [of d ss] q ss by simp
qed

section \<open>How strict an answer is\<close>

fun severity :: "PolicyDecision \<Rightarrow> nat" where
  "severity Allow = 0"
| "severity (Warn m) = 1"
| "severity (Deny m) = 2"

definition in_mode :: "PolicyMode \<Rightarrow> PolicyGate \<Rightarrow> PolicyGate" where
  "in_mode m g = g\<lparr>pg_mode := m\<rparr>"

lemma command_modes:
  "severity (check_command (in_mode Dev g) x c) \<le> severity (check_command (in_mode Balanced g) x c)"
  "severity (check_command (in_mode Balanced g) x c) \<le> severity (check_command (in_mode Strict g) x c)"
  by (auto simp: check_command_def in_mode_def split: option.splits)

lemma url_modes:
  "severity (check_url (in_mode Dev g) x u) \<le> severity (check_url (in_mode Balanced g) x u)"
  "severity (check_url (in_mode Balanced g) x u) \<le> severity (check_url (in_mode Strict g) x u)"
  by (auto simp: check_url_def in_mode_def split: option.splits)

lemma js_modes:
  "severity (check_browser_js (in_mode Dev g) js) \<le> severity (check_browser_js (in_mode Balanced g) js)"
  "severity (check_browser_js (in_mode Balanced g) js) \<le> severity (check_browser_js (in_mode Strict g) js)"
  by (auto simp: check_browser_js_def in_mode_def)

lemma path_modes [simp]: "check_path (in_mode m g) d p = check_path g d p"
  by (simp add: check_path_def in_mode_def Let_def)

lemma browser_modes:
  "severity (check_browser (in_mode Dev g) x i) \<le> severity (check_browser (in_mode Balanced g) x i)"
  "severity (check_browser (in_mode Balanced g) x i) \<le> severity (check_browser (in_mode Strict g) x i)"
  using url_modes js_modes by (auto simp: check_browser_def split: option.splits)

lemma com_modes:
  "severity (check_com_action (in_mode Dev g) x a i) \<le> severity (check_com_action (in_mode Balanced g) x a i)"
  "severity (check_com_action (in_mode Balanced g) x a i) \<le> severity (check_com_action (in_mode Strict g) x a i)"
  using command_modes by (auto simp: check_com_action_def split: option.splits)

section \<open>Properties\<close>

text \<open>
  C23. What a call of \<^verbatim>\<open>file_write\<close> does. Too long a content changes nothing. When the path leads somewhere, to a
  file or to where there is nothing yet, the call succeeds and just that place changes: it then holds exactly
  the content, after the byte order mark of the file that was there if it had one; when a directory is there
  the call fails without effect. When the path leads nowhere because directories are missing, the call
  either writes the content to where the path then leads or fails, and otherwise only makes directories
  that the path goes through, where there was nothing. The file system stays a tree throughout.
\<close>

theorem file_write_puts_content:
  assumes "wf_disk d" and "fst (workspace_root env)"
    and "str_at input ''path'' = Some s" and "str_at input ''content'' = Some c"
    and "file_write env input d = (r, d')"
  shows "wf_disk d' \<and>
    (if 200000 < count_chars c then \<not> successful r \<and> d' = d
     else case resolve d (tool_path env s) of
            Inr l \<Rightarrow>
              (if nodes d l = Some Directory then \<not> successful r \<and> d' = d
               else wrote env (tool_path env s) c d d' r l \<and> changed_at d d' \<subseteq> {l})
          | Inl e \<Rightarrow>
              (\<exists>l. wrote env (tool_path env s) c d d' r l \<and> changed_at d d' - {l} \<subseteq> {k. new_directory d d' (tool_path env s) k}) \<or>
              \<not> successful r \<and> changed_at d d' \<subseteq> {k. new_directory d d' (tool_path env s) k})"
proof -
  let ?p = "tool_path env s"
  have abs: "fst ?p" using assms(2) by (simp add: tool_path_def)
  have wf: "wf_disk d'" using file_write_wf [OF assms(1), of env input] assms(5) by simp
  show ?thesis
  proof (cases "200000 < count_chars c")
    case True
    with assms(3-5) wf show ?thesis
      by (auto simp: file_write_def MAX_FILE_WRITE_CONTENT_CHARS_def tool_err_def successful_def failed_output_def)
  next
    case False
    obtain e1 d1 where d1: "(case parent ?p of None \<Rightarrow> (None, d) | Some q \<Rightarrow> create_dir_all d q) = (e1, d1)" by force
    have new: "only_new d d1" "changed_at d d1 \<subseteq> {k. new_directory d d1 ?p k}"
      using create_dirs_make [OF abs] d1 by (auto split: option.splits)
    have wf1: "wf_disk d1" using d1 create_dirs_wf assms(1) by (auto simp: create_dir_all_def split: option.splits)
    have run: "(r, d') = (case e1 of Some e \<Rightarrow> (CallFailed (io_text env e), d1) | None \<Rightarrow> write_to env ?p c d1)"
      using assms(3-5) False d1
      by (auto simp: file_write_def MAX_FILE_WRITE_CONTENT_CHARS_def Let_def split: option.splits prod.splits)
    have still: "d1 = d \<and> e1 = None" if "resolve d ?p = Inr l" for l
      using parent_directory [OF abs that] d1 by (auto split: option.splits)
    show ?thesis
    proof (cases e1)
      case (Some e)
      then have "\<not> successful r" "d' = d1" using run by (auto simp: successful_def)
      with Some still new False wf show ?thesis by (cases "resolve d ?p") auto
    next
      case None
      then have "write_to env ?p c d1 = (r, d')" using run by simp
      from write_to_wrote [OF assms(1) wf1 new(1) this]
      show ?thesis
      proof (elim disjE exE conjE)
        fix l
        assume l: "resolve d1 ?p = Inr l" "wrote env ?p c d d' r l" "changed_at d1 d' \<subseteq> {l}"
          "extends (nodes d1) (nodes d')" "cwd d' = cwd d1"
        have keep: "new_directory d d' ?p k" if before: "new_directory d d1 ?p k" for k
        proof -
          obtain i where "locate d1 False (True, take i (names ?p)) = Inr k" using before by (auto simp: new_directory_def)
          from locate_extends [OF this l(4,5)] before l(4) show ?thesis by (auto simp: new_directory_def extends_def)
        qed
        then have "changed_at d d' - {l} \<subseteq> {k. new_directory d d' ?p k}"
          using new(2) l(3) changed_trans [of d d' d1] by blast
        with l still False wf show ?thesis by (cases "resolve d ?p") (auto simp: wrote_def)
      next
        assume no: "\<not> successful r" "d' = d1" "\<forall>l. resolve d1 ?p = Inr l \<longrightarrow> nodes d1 l = Some Directory"
        with still new False wf show ?thesis by (cases "resolve d ?p") auto
      qed
    qed
  qed
qed

theorem file_write_puts_content_witness:
  "nodes (snd (file_write home_env (write_input ''./a.txt'' ''four'') home_disk)) [''home'', ''ws'', ''a.txt''] = Some (File ''four'') \<and>
   changed_at home_disk (snd (file_write home_env (write_input ''./a.txt'' ''four'') home_disk)) \<subseteq> {[''home'', ''ws'', ''a.txt'']}"
proof -
  let ?i = "write_input ''./a.txt'' ''four''" and ?l = "[''home'', ''ws'', ''a.txt'']"
  have root: "fst (workspace_root home_env)" by (simp add: home_env_def home_root_def)
  have arg: "str_at ?i ''path'' = Some ''./a.txt''" "str_at ?i ''content'' = Some ''four''"
    by (simp_all add: write_input_def str_at_def)
  have at: "resolve home_disk (tool_path home_env ''./a.txt'') = Inr ?l" by code_simp
  have before: "nodes home_disk ?l = Some (File ''one two three'')" by (simp add: home_disk_def)
  have "count_chars ''four'' = 4" by code_simp
  then have short: "\<not> 200000 < count_chars ''four''" by simp
  have mark: "kept_mark (Some (File ''one two three'')) = []" by code_simp
  from file_write_puts_content [OF home_wf root arg surjective_pairing] at before short mark
  show ?thesis by (simp add: wrote_def)
qed

text \<open>
  C24. A stricter mode never lets more pass: on the same call the answer in mode strict is at least as severe
  as the one in mode balanced, and that one at least as severe as the one in mode dev.
\<close>

theorem stricter_mode_allows_no_more:
  "severity (gate_tool_call (in_mode Dev g) x d tool input) \<le> severity (gate_tool_call (in_mode Balanced g) x d tool input) \<and>
   severity (gate_tool_call (in_mode Balanced g) x d tool input) \<le> severity (gate_tool_call (in_mode Strict g) x d tool input)"
  using command_modes browser_modes com_modes by (auto simp: gate_tool_call_def split: option.splits)

end
