(* ===== verification/Json_Repair.thy ===== *)
theory Json_Repair
  imports Utf8 Models
begin

text \<open>
  \<^verbatim>\<open>llm/json_repair.rs\<close>: the arguments of a tool call that are no JSON because they carry raw control
  characters and backslashes, or because the stream was cut off. The JSON parser is a parameter.
\<close>

section \<open>Escaping the contents of strings\<close>

definition quote :: char where "quote = CHR 0x22"
definition backslash :: char where "backslash = CHR 0x5C"

definition simple_escape :: "char \<Rightarrow> bool" where
  "simple_escape c \<longleftrightarrow> c \<in> {quote, backslash, CHR ''/'', CHR ''b'', CHR ''f'', CHR ''n'', CHR ''r'', CHR ''t''}"

definition hex_digit :: "char \<Rightarrow> bool" where
  "hex_digit c \<longleftrightarrow> 48 \<le> byte c \<and> byte c \<le> 57 \<or> 65 \<le> byte c \<and> byte c \<le> 70 \<or> 97 \<le> byte c \<and> byte c \<le> 102"

text \<open>\<open>u\<close> and four hexadecimal digits.\<close>

definition unicode_escape :: "string \<Rightarrow> bool" where
  "unicode_escape s \<longleftrightarrow> 5 \<le> length s \<and> hd s = CHR ''u'' \<and> list_all hex_digit (take 4 (tl s))"

definition hex_char :: "nat \<Rightarrow> char" where
  "hex_char n = char_of (if n < 10 then 48 + n else 87 + n)"

definition control_escape :: "char \<Rightarrow> string" where
  "control_escape c =
     (if c = CHR 0x0A then [backslash, CHR ''n''] else if c = CHR 0x0D then [backslash, CHR ''r'']
      else if c = CHR 0x09 then [backslash, CHR ''t'']
      else [backslash, CHR ''u'', CHR ''0'', CHR ''0'', hex_char (byte c div 16), hex_char (byte c mod 16)])"

text \<open>The escaped text, and whether anything changed; the flag says whether it starts in a string.\<close>

function escape_from :: "bool \<Rightarrow> string \<Rightarrow> string \<times> bool" where
  "escape_from in_string [] = ([], False)"
| "escape_from False (c # cs) = apfst (Cons c) (escape_from (c = quote) cs)"
| "escape_from True (c # cs) =
     (if c = quote then apfst (Cons c) (escape_from False cs)
      else if c = backslash then
        (if cs \<noteq> [] \<and> simple_escape (hd cs) then apfst (append [c, hd cs]) (escape_from True (tl cs))
         else if unicode_escape cs then apfst (append (c # take 5 cs)) (escape_from True (drop 5 cs))
         else ([backslash, backslash] @ fst (escape_from True cs), True))
      else if byte c < 32 then (control_escape c @ fst (escape_from True cs), True)
      else apfst (Cons c) (escape_from True cs))"
  by pat_completeness auto
termination
  by (relation "measure (\<lambda>(b, s). length s)") auto

definition escape_string_contents :: "string \<Rightarrow> string option" where
  "escape_string_contents input =
     (let (out, changed) = escape_from False input in if changed then Some out else None)"

section \<open>Closing what was cut off\<close>

text \<open>The open brackets, innermost first, and whether the text ends in a string or after a backslash.\<close>

type_synonym scan_state = "char list \<times> bool \<times> bool"

fun scan :: "scan_state \<Rightarrow> string \<Rightarrow> scan_state option" where
  "scan st [] = Some st"
| "scan (stack, in_string, esc) (c # cs) =
     (if in_string then
        (if esc then scan (stack, True, False) cs
         else if c = backslash then scan (stack, True, True) cs
         else if c = quote then scan (stack, False, False) cs
         else scan (stack, True, False) cs)
      else if c = quote then scan (stack, True, esc) cs
      else if c = CHR 0x7B \<or> c = CHR 0x5B then scan (c # stack, False, esc) cs
      else if c = CHR 0x7D then
        (if stack \<noteq> [] \<and> hd stack = CHR 0x7B then scan (tl stack, False, esc) cs else None)
      else if c = CHR 0x5D then
        (if stack \<noteq> [] \<and> hd stack = CHR 0x5B then scan (tl stack, False, esc) cs else None)
      else scan (stack, False, esc) cs)"

lemma length_trim_end: "length (trim_end s) \<le> length s"
proof -
  have "suffix (dropWhile is_whitespace (rev (chars s))) (rev (chars s))" by (rule suffix_dropWhile)
  then obtain us where "chars s = rev (dropWhile is_whitespace (rev (chars s))) @ us"
    by (metis rev_append rev_rev_ident suffix_def)
  then have "s = trim_end s @ concat us" by (metis concat_append concat_chars trim_end_def)
  then show ?thesis by (metis le_add1 length_append)
qed

function drop_commas :: "string \<Rightarrow> string" where
  "drop_commas s = (if s \<noteq> [] \<and> last s = CHR '','' then drop_commas (trim_end (butlast s)) else s)"
  by pat_completeness auto
termination
proof (relation "measure length")
  fix s :: string
  assume "s \<noteq> [] \<and> last s = CHR '',''"
  moreover have "length (trim_end (butlast s)) \<le> length (butlast s)" by (rule length_trim_end)
  ultimately show "(trim_end (butlast s), s) \<in> measure length" by (cases s) auto
qed simp

declare drop_commas.simps [simp del]

definition closer :: "char \<Rightarrow> char" where
  "closer c = (if c = CHR 0x7B then CHR 0x7D else CHR 0x5D)"

definition closed :: "string \<Rightarrow> string option" where
  "closed input =
     (case scan ([], False, False) input of
        None \<Rightarrow> None
      | Some (stack, in_string, esc) \<Rightarrow>
          if stack = [] \<and> \<not> in_string then None
          else Some ((if in_string then trim_end input @ [quote] else drop_commas (trim_end input)) @ map closer stack))"

definition parsed :: "(string \<Rightarrow> string + json) \<Rightarrow> string \<Rightarrow> json option" where
  "parsed parse s = (case parse s of Inl err \<Rightarrow> None | Inr v \<Rightarrow> Some v)"

definition close_truncation :: "(string \<Rightarrow> string + json) \<Rightarrow> string \<Rightarrow> json option" where
  "close_truncation parse input = Option.bind (closed input) (parsed parse)"

definition try_conservative_repair :: "(string \<Rightarrow> string + json) \<Rightarrow> string \<Rightarrow> json option" where
  "try_conservative_repair parse input =
     (if trim input = [] then None
      else case escape_string_contents input of
             None \<Rightarrow> close_truncation parse input
           | Some fixed \<Rightarrow>
               (case parsed parse fixed of Some v \<Rightarrow> Some v | None \<Rightarrow> close_truncation parse fixed))"

definition parse_tool_arguments :: "(string \<Rightarrow> string + json) \<Rightarrow> string \<Rightarrow> string + json" where
  "parse_tool_arguments parse raw =
     (if trim raw = [] then Inr (JObj [])
      else case parse raw of
             Inr v \<Rightarrow> Inr v
           | Inl err \<Rightarrow> (case try_conservative_repair parse raw of Some v \<Rightarrow> Inr v | None \<Rightarrow> Inl err))"

end
