(* ===== verification/Preprocess.thy ===== *)
theory Preprocess
  imports Receipts Request_View Files
begin

text \<open>
  \<^verbatim>\<open>agent/rule_preprocess.rs\<close>: the rules that fold what says little in the output of tools, before a summary is
  asked for. Texts are compared as a whole, so \<^verbatim>\<open>Cow\<close> disappears.
\<close>

definition MAX_OUT_CHARS :: nat where "MAX_OUT_CHARS = 4096"
definition RLE_MIN_RUN :: nat where "RLE_MIN_RUN = 3"
definition STACK_KEEP_LEADING :: nat where "STACK_KEEP_LEADING = 4"
definition PATH_KEEP_TAIL_SEGMENTS :: nat where "PATH_KEEP_TAIL_SEGMENTS = 3"
definition TABLE_KEEP_ROWS :: nat where "TABLE_KEEP_ROWS = 5"
definition BASE64_MIN_LEN :: nat where "BASE64_MIN_LEN = 64"

datatype Level = L1 | L2

definition LF :: char where "LF = CHR 0x0A"
definition ellipsis :: string where "ellipsis = [CHR 0xE2, CHR 0x80, CHR 0xA6]"
definition times_sign :: string where "times_sign = [CHR 0xC3, CHR 0x97]"

section \<open>Escape sequences\<close>

definition after_letter :: "string list \<Rightarrow> string list" where
  "after_letter cs = drop 1 (dropWhile (\<lambda>c. \<not> list_all ascii_alphabetic c) cs)"

definition after_bell :: "string list \<Rightarrow> string list" where
  "after_bell cs = drop 1 (dropWhile (\<lambda>c. c \<noteq> [CHR 0x07] \<and> c \<noteq> [CHR 0x1B]) cs)"

lemma after_shorter: "length (after_letter cs) \<le> length cs" "length (after_bell cs) \<le> length cs"
  by (auto simp: after_letter_def after_bell_def length_dropWhile_le diff_le_self intro: le_trans [OF diff_le_self])

text \<open>On characters; after an escape that begins no sequence the next character is dropped with it.\<close>

function strip_escapes :: "string list \<Rightarrow> string list" where
  "strip_escapes [] = []"
| "strip_escapes (c # cs) =
     (if c \<noteq> [CHR 0x1B] then c # strip_escapes cs
      else if cs \<noteq> [] \<and> hd cs = ''['' then strip_escapes (after_letter (tl cs))
      else if cs \<noteq> [] \<and> hd cs = '']'' then strip_escapes (after_bell (tl cs))
      else strip_escapes (drop 1 cs))"
  by pat_completeness auto
termination
proof (relation "measure length")
  fix cs :: "string list"
  have "length (after_letter (tl cs)) \<le> length cs" "length (after_bell (tl cs)) \<le> length cs"
    using after_shorter [of "tl cs"] by auto
  then show "(after_letter (tl cs), c # cs) \<in> measure length" "(after_bell (tl cs), c # cs) \<in> measure length" for c
    by auto
qed auto

definition strip_ansi :: "string \<Rightarrow> string" where
  "strip_ansi s = (if CHR 0x1B \<notin> set s then s else concat (strip_escapes (chars s)))"

section \<open>Tokens\<close>

text \<open>Every maximal run of bytes in \<open>P\<close>, the empty ones included, is mapped.\<close>

function map_tokens :: "(char \<Rightarrow> bool) \<Rightarrow> (string \<Rightarrow> string) \<Rightarrow> string \<Rightarrow> string" where
  "map_tokens P f s =
     (case dropWhile P s of
        [] \<Rightarrow> f (takeWhile P s)
      | c # cs \<Rightarrow> f (takeWhile P s) @ c # map_tokens P f cs)"
  by pat_completeness auto
termination
proof (relation "measure (\<lambda>(P, f, s). length s)")
  fix P and f :: "string \<Rightarrow> string" and s cs :: string and c
  assume "dropWhile P s = c # cs"
  then show "((P, f, cs), P, f, s) \<in> measure (\<lambda>(P, f, s). length s)"
    using length_dropWhile_le [of P s] by simp
qed auto

declare map_tokens.simps [simp del]

definition ascii_upper_case :: "char \<Rightarrow> bool" where "ascii_upper_case b \<longleftrightarrow> 65 \<le> byte b \<and> byte b \<le> 90"
definition ascii_lower_case :: "char \<Rightarrow> bool" where "ascii_lower_case b \<longleftrightarrow> 97 \<le> byte b \<and> byte b \<le> 122"
definition ascii_number :: "char \<Rightarrow> bool" where "ascii_number b \<longleftrightarrow> 48 \<le> byte b \<and> byte b \<le> 57"
definition ascii_alnum :: "char \<Rightarrow> bool" where "ascii_alnum b \<longleftrightarrow> ascii_alphabetic b \<or> ascii_number b"

definition looks_base64 :: "string \<Rightarrow> bool" where
  "looks_base64 s \<longleftrightarrow>
     2 \<le> of_bool (list_ex ascii_upper_case s) + of_bool (list_ex ascii_lower_case s) + (of_bool (list_ex ascii_number s) :: nat)"

definition flush_token :: "string \<Rightarrow> string" where
  "flush_token token =
     (if BASE64_MIN_LEN \<le> length token \<and> looks_base64 token
      then ''<base64:'' @ nat_digits (length token * 3 div 4) @ ''B>'' else token)"

definition fold_base64_blobs :: "string \<Rightarrow> string" where
  "fold_base64_blobs s =
     (if \<not> list_ex ascii_alnum s then s
      else map_tokens (\<lambda>b. ascii_alnum b \<or> b \<in> set ''+/='') flush_token s)"

definition maybe_shorten_path :: "string \<Rightarrow> string" where
  "maybe_shorten_path s =
     (let slash = CHR ''/'' \<in> set s; sep = (if slash then CHR ''/'' else CHR 0x5C);
          segments = filter (\<lambda>w. w \<noteq> []) (split_when (\<lambda>b. b = sep) s)
      in if length s \<le> 60 then s
         else if \<not> slash \<and> CHR 0x5C \<notin> set s then s
         else if length segments \<le> PATH_KEEP_TAIL_SEGMENTS + 1 then s
         else (if starts_with s [sep] then [sep] else []) @ ''...'' @ [sep] @
           join [sep] (drop (length segments - PATH_KEEP_TAIL_SEGMENTS) segments))"

definition normalise_line_paths :: "string \<Rightarrow> string" where
  "normalise_line_paths = map_tokens (\<lambda>b. ascii_alnum b \<or> b \<in> set (''/._-:'' @ [CHR 0x5C])) maybe_shorten_path"

definition normalise_long_paths :: "string \<Rightarrow> string" where
  "normalise_long_paths s = join [LF] (map normalise_line_paths (split_when (\<lambda>b. b = LF) s))"

section \<open>Lines\<close>

definition looks_like_error_line :: "string \<Rightarrow> bool" where
  "looks_like_error_line s =
     (let t = map ascii_lower (trim s)
      in list_ex (starts_with t)
        [''error'', ''err:'', ''err '', ''panic'', ''fatal'', ''failed'', ''exception'', ''traceback''])"

definition repeated_marker :: "nat \<Rightarrow> string" where
  "repeated_marker n = ellipsis @ '' <repeated '' @ times_sign @ nat_digits n @ ''>''"

definition fold_run :: "string list \<Rightarrow> string list" where
  "fold_run run =
     (if RLE_MIN_RUN \<le> length run \<and> \<not> looks_like_error_line (hd run)
      then [hd run, repeated_marker (length run - 1)] else run)"

function fold_line_runs :: "string list \<Rightarrow> string list" where
  "fold_line_runs [] = []"
| "fold_line_runs (l # ls) =
     (let same = (\<lambda>x. trim_end x = trim_end l) in fold_run (l # takeWhile same ls) @ fold_line_runs (dropWhile same ls))"
  by pat_completeness auto
termination
  by (relation "measure length") (auto simp: le_imp_less_Suc length_dropWhile_le)

definition fold_repeated_lines :: "string \<Rightarrow> string" where
  "fold_repeated_lines s =
     (let ls = str_lines s in if length ls < RLE_MIN_RUN then s else join [LF] (fold_line_runs ls))"

text \<open>Each maximal run of lines in \<open>P\<close> is folded.\<close>

function fold_runs :: "(string \<Rightarrow> bool) \<Rightarrow> (string list \<Rightarrow> string list) \<Rightarrow> string list \<Rightarrow> string list" where
  "fold_runs P f [] = []"
| "fold_runs P f (l # ls) =
     (if \<not> P l then l # fold_runs P f ls else f (takeWhile P (l # ls)) @ fold_runs P f (dropWhile P ls))"
  by pat_completeness auto
termination
  by (relation "measure (\<lambda>(P, f, ls). length ls)") (auto simp: le_imp_less_Suc length_dropWhile_le)

definition is_stack_frame :: "string \<Rightarrow> bool" where
  "is_stack_frame line =
     (let t = trim_start line
      in if starts_with t (''File '' @ [CHR 0x22]) \<and> contains t '', line '' then True
         else if starts_with t ''at '' \<and> (contains t ''::'' \<or> CHR ''('' \<in> set t) then True
         else if starts_with t ''at '' \<and> (CHR '':'' \<in> set t \<or> CHR ''('' \<in> set t) then True
         else t \<noteq> [] \<and> ascii_number (hd t) \<and>
           (case find_str '': '' t of None \<Rightarrow> False | Some i \<Rightarrow> list_all ascii_number (take i t)))"

definition fold_frames :: "string list \<Rightarrow> string list" where
  "fold_frames run =
     (if length run \<le> STACK_KEEP_LEADING + 2 then run
      else take STACK_KEEP_LEADING run @
        [ellipsis @ '' <'' @ nat_digits (length run - STACK_KEEP_LEADING - 1) @ '' inner frames folded>'', last run])"

definition fold_stack_frames :: "string \<Rightarrow> string" where
  "fold_stack_frames s = join [LF] (fold_runs is_stack_frame fold_frames (str_lines s))"

definition is_table_row :: "string \<Rightarrow> bool" where
  "is_table_row line =
     (let t = trim line in starts_with t ''|'' \<and> ends_with t ''|'' \<and> 2 \<le> length (filter (\<lambda>b. b = CHR ''|'') t))"

definition fold_rows :: "string list \<Rightarrow> string list" where
  "fold_rows run =
     (if length run \<le> TABLE_KEEP_ROWS + 2 then run
      else take (2 + TABLE_KEEP_ROWS) run @
        [''| '' @ ellipsis @ '' <'' @ nat_digits (length run - 2 - TABLE_KEEP_ROWS) @ '' rows folded> |''])"

definition fold_table_rows :: "string \<Rightarrow> string" where
  "fold_table_rows s =
     (let ls = str_lines s
      in if length ls < TABLE_KEEP_ROWS + 3 then s else join [LF] (fold_runs is_table_row fold_rows ls))"

text \<open>Of adjacent blank lines the first is kept; every line ends with a line feed.\<close>

fun squeeze_lines :: "nat \<Rightarrow> string list \<Rightarrow> string" where
  "squeeze_lines blank_run [] = []"
| "squeeze_lines blank_run (l # ls) =
     (if trim l = [] then (if Suc blank_run \<le> 1 then l @ [LF] else []) @ squeeze_lines (Suc blank_run) ls
      else l @ [LF] @ squeeze_lines 0 ls)"

definition squeeze_blank_lines :: "string \<Rightarrow> string" where
  "squeeze_blank_lines s =
     (let out = squeeze_lines 0 (split_when (\<lambda>b. b = LF) s)
      in if \<not> ends_with s [LF] \<and> ends_with out [LF] then butlast out else out)"

definition truncate_bounded :: "string \<Rightarrow> nat \<Rightarrow> string" where
  "truncate_bounded s max_chars =
     (let n = count_chars s; head_keep = max_chars * 2 div 3; tail_keep = max_chars - head_keep - 20
      in if n \<le> max_chars then s
         else take_chars head_keep s @ [LF] @ ellipsis @ '' <'' @ nat_digits (n - max_chars) @ '' chars truncated>'' @ [LF] @
           concat (drop (n - tail_keep) (chars s)))"

section \<open>Contents and messages\<close>

definition preprocess :: "string \<Rightarrow> Level \<Rightarrow> string" where
  "preprocess content level =
     (if content = [] then content
      else if length content < 128 \<and> LF \<notin> set content \<and> CHR 0x1B \<notin> set content then content
      else
        let s = normalise_long_paths (fold_table_rows (fold_stack_frames (fold_repeated_lines
              (fold_base64_blobs (strip_ansi content)))));
            s = (if level = L2 then squeeze_blank_lines s else s);
            s = truncate_bounded s MAX_OUT_CHARS
        in if ends_with content [LF] \<and> \<not> ends_with s [LF] then s @ [LF] else s)"

fun preprocess_block :: "Level \<Rightarrow> ContentBlock \<Rightarrow> ContentBlock" where
  "preprocess_block level (TextBlock text) = TextBlock (preprocess text level)"
| "preprocess_block level (ToolResult i content is_error) = ToolResult i (preprocess content level) is_error"
| "preprocess_block level (Image s) = Image s"
| "preprocess_block level (ToolUse i name input) = ToolUse i name input"

definition preprocess_message :: "LlmMessage \<Rightarrow> Level \<Rightarrow> LlmMessage" where
  "preprocess_message msg level =
     msg\<lparr>lm_content := (case lm_content msg of
        Text t \<Rightarrow> Text (preprocess t level) | Blocks bs \<Rightarrow> Blocks (map (preprocess_block level) bs))\<rparr>"

fun block_flat :: "ContentBlock \<Rightarrow> string option" where
  "block_flat (TextBlock text) = Some (trim text)"
| "block_flat (ToolResult i content is_error) = Some (trim content)"
| "block_flat (Image s) = None"
| "block_flat (ToolUse i name input) = None"

definition content_flat :: "MessageContent \<Rightarrow> string" where
  "content_flat c = (case c of Text t \<Rightarrow> trim t | Blocks bs \<Rightarrow> join [LF] (List.map_filter block_flat bs))"

definition content_text_eq :: "MessageContent \<Rightarrow> MessageContent \<Rightarrow> bool" where
  "content_text_eq a b \<longleftrightarrow> content_flat a = content_flat b"

text \<open>The last message that was kept comes first in \<open>out\<close>.\<close>

fun dedup_onto :: "LlmMessage list \<Rightarrow> LlmMessage list \<Rightarrow> LlmMessage list" where
  "dedup_onto out [] = rev out"
| "dedup_onto out (m # ms) =
     (if out \<noteq> [] \<and> lm_role (hd out) = lm_role m \<and> content_text_eq (lm_content (hd out)) (lm_content m)
      then dedup_onto out ms else dedup_onto (m # out) ms)"

definition dedup_cross_message :: "LlmMessage list \<Rightarrow> LlmMessage list" where
  "dedup_cross_message messages = dedup_onto [] messages"

definition preprocess_messages :: "LlmMessage list \<Rightarrow> Level \<Rightarrow> LlmMessage list" where
  "preprocess_messages messages level =
     (let out = map (\<lambda>m. preprocess_message m level) messages
      in if level = L2 then dedup_cross_message out else out)"

end
