(* ===== verification/Preprocessing.thy ===== *)
theory Preprocessing
  imports Preprocess
begin

text \<open>What the rules keep: error lines, one line of each kind, the calls of a conversation; and what they exceed.\<close>

section \<open>Characters\<close>

lemma chars_take_append: "k < length (chars s) \<Longrightarrow> chars (concat (take k (chars s)) @ t) = take k (chars s) @ chars t"
proof (induction s arbitrary: k rule: chars.induct)
  case (2 b bs)
  show ?case
  proof (cases k)
    case (Suc j)
    with 2(2) have j: "j < length (chars (drop (utf8_len b - 1) bs))" by simp
    then have "drop (utf8_len b - 1) bs \<noteq> []" by (metis chars_eq_Nil length_0_conv not_less_zero)
    then have "length (take (utf8_len b - 1) bs) = utf8_len b - 1" by simp
    with Suc 2(1) [OF j] show ?thesis by simp
  qed simp
qed simp

lemma chars_take: "chars (concat (take k (chars s))) = take k (chars s)"
proof (cases "k < length (chars s)")
  case True
  then show ?thesis using chars_take_append [of k s "[]"] by simp
qed simp

lemma chars_drop: "chars (concat (drop k (chars s))) = drop k (chars s)"
  by (induction s arbitrary: k rule: chars.induct) (simp_all add: drop_Cons')

lemma strip_ends: "rev (dropWhile P (rev (dropWhile P xs))) = dropWhile P (rev (dropWhile P (rev xs)))"
proof (induction xs)
  case (Cons x xs)
  then show ?case
    by (cases "\<forall>y \<in> set (rev xs). P y") (auto simp: dropWhile_append dropWhile_eq_Nil_conv [THEN iffD2])
qed simp

lemma trim_end_take: "\<exists>k. trim_end s = concat (take k (chars s)) \<and> rev (dropWhile is_whitespace (rev (chars s))) = take k (chars s)"
proof -
  have "prefix (rev (dropWhile is_whitespace (rev (chars s)))) (chars s)"
    using suffix_dropWhile [of is_whitespace "rev (chars s)"] by (simp add: suffix_to_prefix)
  then show ?thesis by (metis append_eq_conv_conj prefix_def trim_end_def)
qed

lemma trim_via_end: "trim s = trim_start (trim_end s)"
proof -
  obtain k where k: "trim_end s = concat (take k (chars s))" "rev (dropWhile is_whitespace (rev (chars s))) = take k (chars s)"
    using trim_end_take by blast
  then show ?thesis by (simp add: trim_start_def trim_def strip_ends chars_take)
qed

lemma trim_first: "chars s = c # cs \<Longrightarrow> \<not> is_whitespace c \<Longrightarrow> \<exists>u. trim s = c @ u"
  by (simp add: trim_def dropWhile_append)

section \<open>Runs of equal lines\<close>

lemma error_line_trim_end: "trim_end a = trim_end b \<Longrightarrow> looks_like_error_line a = looks_like_error_line b"
  by (simp add: looks_like_error_line_def trim_via_end)

lemma marker_no_error: "\<not> looks_like_error_line (repeated_marker n)"
proof -
  have "chars (repeated_marker n) = ellipsis # chars (drop 3 (repeated_marker n))"
    by (simp add: repeated_marker_def ellipsis_def utf8_len_def byte_def)
  moreover have "\<not> is_whitespace ellipsis" by (simp add: ellipsis_def is_whitespace_def is_whitespace_cp_def code_point_def byte_def)
  ultimately obtain u where "trim (repeated_marker n) = ellipsis @ u" using trim_first by blast
  then show ?thesis by (simp add: looks_like_error_line_def ellipsis_def starts_with_def ascii_lower_def byte_def)
qed

lemma same_lines:
  assumes "set run \<subseteq> {x. trim_end x = trim_end l}" and "run \<noteq> []"
  shows "filter looks_like_error_line (fold_run run) = filter looks_like_error_line run"
    and "trim_end ` set run \<subseteq> trim_end ` set (fold_run run)" and "length (fold_run run) \<le> length run"
proof -
  have e: "looks_like_error_line x = looks_like_error_line (hd run)" if "x \<in> set run" for x
  proof (rule error_line_trim_end)
    have "hd run \<in> set run" using assms(2) by simp
    with assms(1) that have "trim_end x = trim_end l" "trim_end (hd run) = trim_end l" by auto
    then show "trim_end x = trim_end (hd run)" by simp
  qed
  show "filter looks_like_error_line (fold_run run) = filter looks_like_error_line run"
  proof (cases "RLE_MIN_RUN \<le> length run \<and> \<not> looks_like_error_line (hd run)")
    case True
    then have "\<forall>x \<in> set run. \<not> looks_like_error_line x" using e by blast
    then have "filter looks_like_error_line run = []" by (simp only: filter_empty_conv)
    with True show ?thesis by (simp add: fold_run_def marker_no_error)
  next
    case False
    then have "fold_run run = run" unfolding fold_run_def by (rule if_not_P)
    then show ?thesis by simp
  qed
  have h: "hd run \<in> set run" using assms(2) by (rule hd_in_set)
  have "trim_end (hd run) = trim_end l" using subsetD [OF assms(1) h] by (rule CollectD)
  moreover have "hd run \<in> set (fold_run run)" using h by (simp add: fold_run_def)
  ultimately have "trim_end l \<in> trim_end ` set (fold_run run)" by (metis imageI)
  moreover have "trim_end x = trim_end l" if "x \<in> set run" for x using subsetD [OF assms(1) that] by (rule CollectD)
  ultimately show "trim_end ` set run \<subseteq> trim_end ` set (fold_run run)" by (metis image_subsetI)
  show "length (fold_run run) \<le> length run" by (simp add: fold_run_def RLE_MIN_RUN_def)
qed

text \<open>
  Folding repeated lines loses nothing but repetition: the error lines come out exactly as they went in,
  every other line is still there up to blanks at its end, and there are never more lines than before.
\<close>

theorem repeated_lines_keep_errors:
  "filter looks_like_error_line (fold_line_runs ls) = filter looks_like_error_line ls \<and>
   trim_end ` set ls \<subseteq> trim_end ` set (fold_line_runs ls) \<and> length (fold_line_runs ls) \<le> length ls"
proof (induction ls rule: fold_line_runs.induct)
  case (2 l ls)
  define same where "same = (\<lambda>x. trim_end x = trim_end l)"
  define run rest where "run = l # takeWhile same ls" and "rest = dropWhile same ls"
  have "set run \<subseteq> {x. trim_end x = trim_end l}" "run \<noteq> []"
    by (auto simp: run_def same_def dest: set_takeWhileD)
  note r = same_lines [OF this]
  have ls: "l # ls = run @ rest" by (simp add: run_def rest_def)
  have f: "fold_line_runs (l # ls) = fold_run run @ fold_line_runs rest"
    by (simp add: run_def rest_def same_def Let_def)
  have ih: "filter looks_like_error_line (fold_line_runs rest) = filter looks_like_error_line rest"
    "trim_end ` set rest \<subseteq> trim_end ` set (fold_line_runs rest)" "length (fold_line_runs rest) \<le> length rest"
    using "2.IH" [of same] by (simp_all add: same_def rest_def)
  show ?case unfolding f unfolding ls using r ih by (auto simp: image_Un)
qed simp

section \<open>Truncation\<close>

lemma chars_ascii_append: "is_ascii s \<Longrightarrow> chars (s @ t) = map (\<lambda>b. [b]) s @ chars t"
  by (induction s) (simp_all add: is_ascii_def utf8_len_def)

lemma digits_ascii: "is_ascii (nat_digits n)"
  by (induction n rule: nat_digits.induct) (subst nat_digits.simps, auto simp: is_ascii_def byte_def intro: less_trans [OF mod_less_divisor])

lemma chars_append_ascii: "is_ascii s \<Longrightarrow> chars (s @ t) = chars s @ chars t"
  by (simp add: chars_ascii_append chars_ascii)

lemma chars_marker: "chars ([LF] @ ellipsis @ '' <'' @ nat_digits n @ '' chars truncated>'' @ [LF] @ t) =
    chars ([LF] @ ellipsis @ '' <'') @ map (\<lambda>b. [b]) (nat_digits n) @ chars ('' chars truncated>'' @ [LF]) @ chars t"
proof -
  have "is_ascii ('' chars truncated>'' @ [LF])" by (simp add: is_ascii_def LF_def byte_def)
  from chars_append_ascii [OF this, of t]
  have tail: "chars ('' chars truncated>'' @ [LF] @ t) = chars ('' chars truncated>'' @ [LF]) @ chars t"
    by (simp only: append_assoc)
  have "chars ([LF] @ ellipsis @ '' <'' @ u) = chars ([LF] @ ellipsis @ '' <'') @ chars u" for u
    by (simp add: LF_def ellipsis_def utf8_len_def byte_def)
  then show ?thesis by (simp only: chars_ascii_append [OF digits_ascii] tail)
qed

section \<open>Properties\<close>

text \<open>
  A text that is truncated does not fit the limit it is truncated to: of a text of more than 4096
  characters the head, the tail and the note in between have 4098 characters and the digits of a number.
\<close>

theorem truncation_exceeds_limit:
  assumes "MAX_OUT_CHARS < count_chars s"
  shows "count_chars (truncate_bounded s MAX_OUT_CHARS) = 4098 + length (nat_digits (count_chars s - MAX_OUT_CHARS))"
proof -
  define n where "n = length (chars s)"
  have n: "4096 < n" using assms by (simp add: n_def MAX_OUT_CHARS_def count_chars_def)
  have "truncate_bounded s MAX_OUT_CHARS = concat (take 2730 (chars s)) @ ([LF] @ ellipsis @ '' <'' @ nat_digits (n - 4096) @
      '' chars truncated>'' @ [LF] @ concat (drop (n - 1346) (chars s)))"
    using n by (simp add: truncate_bounded_def Let_def take_chars_def count_chars_def MAX_OUT_CHARS_def flip: n_def)
  moreover have "length (chars ([LF] @ ellipsis @ '' <'')) = 4" "length (chars ('' chars truncated>'' @ [LF])) = 18"
    by (simp_all add: LF_def ellipsis_def utf8_len_def byte_def)
  ultimately show ?thesis
    using n by (simp only: count_chars_def chars_take_append chars_marker chars_drop flip: n_def)
      (simp add: MAX_OUT_CHARS_def n_def)
qed

definition long_text :: string where "long_text = replicate 5000 (CHR ''x'')"

theorem truncation_exceeds_limit_witness: "count_chars (truncate_bounded long_text MAX_OUT_CHARS) = 4101"
proof -
  have "is_ascii long_text" by (simp add: long_text_def is_ascii_def byte_def list_all_iff)
  then have c: "count_chars long_text = 5000" by (simp add: count_chars_def chars_ascii long_text_def)
  have "length (nat_digits 904) = 3" by (simp add: nat_digits.simps)
  then show ?thesis using truncation_exceeds_limit [of long_text] c by (simp add: MAX_OUT_CHARS_def)
qed

text \<open>A block without its text.\<close>

fun skeleton :: "ContentBlock \<Rightarrow> ContentBlock" where
  "skeleton (TextBlock text) = TextBlock []"
| "skeleton (ToolResult i content is_error) = ToolResult i [] is_error"
| "skeleton (Image s) = Image s"
| "skeleton (ToolUse i name input) = ToolUse i name input"

text \<open>
  The rules never touch the structure of a conversation: every message keeps its role, every tool call is
  unchanged, every result still answers its call with the same mark of an error, and images stay.
\<close>

lemma preprocessing_keeps_calls:
  "map lm_role (preprocess_messages ms L1) = map lm_role ms \<and>
   map (map skeleton \<circ> blocks_of \<circ> lm_content) (preprocess_messages ms L1) = map (map skeleton \<circ> blocks_of \<circ> lm_content) ms"
proof -
  have "skeleton (preprocess_block L1 b) = skeleton b" for b by (cases b) simp_all
  then have "map skeleton (blocks_of (lm_content (preprocess_message m L1))) = map skeleton (blocks_of (lm_content m))" for m
    by (simp add: preprocess_message_def split: MessageContent.splits)
  then show ?thesis by (simp add: preprocess_messages_def preprocess_message_def)
qed

end
