(* ===== verification/Repairs.thy ===== *)
theory Repairs
  imports Json_Repair Preprocessing
begin

text \<open>
  What the repair of tool arguments keeps: the escaped text reads as the text did before, and a text that
  was cut off is closed in balance, with only whitespace and commas lost at its end.
\<close>

section \<open>Reading strings\<close>

text \<open>A byte outside of a string, one of its contents, or a code unit above ASCII.\<close>

datatype piece = Outside char | Text char | Unit nat

definition digit_worth :: "char \<Rightarrow> nat" where
  "digit_worth c = (if byte c < 58 then byte c - 48 else if byte c < 97 then byte c - 55 else byte c - 87)"

definition unit_of :: "string \<Rightarrow> piece" where
  "unit_of ds = (let n = foldl (\<lambda>n d. 16 * n + digit_worth d) 0 ds in if n < 128 then Text (char_of n) else Unit n)"

definition escaped_char :: "char \<Rightarrow> char" where
  "escaped_char c =
     (if c = CHR ''b'' then CHR 0x08 else if c = CHR ''f'' then CHR 0x0C else if c = CHR ''n'' then CHR 0x0A
      else if c = CHR ''r'' then CHR 0x0D else if c = CHR ''t'' then CHR 0x09 else c)"

text \<open>
  The lenient reading takes control characters and backslashes that begin no escape as they are; the strict
  one, that of JSON, has no value there.
\<close>

function reading :: "bool \<Rightarrow> bool \<Rightarrow> string \<Rightarrow> piece list option" where
  "reading lenient in_string [] = Some []"
| "reading lenient False (c # cs) = map_option (Cons (Outside c)) (reading lenient (c = quote) cs)"
| "reading lenient True (c # cs) =
     (if c = quote then map_option (Cons (Outside c)) (reading lenient False cs)
      else if c = backslash then
        (if cs \<noteq> [] \<and> simple_escape (hd cs) then
           map_option (Cons (Text (escaped_char (hd cs)))) (reading lenient True (tl cs))
         else if unicode_escape cs then map_option (Cons (unit_of (take 4 (tl cs)))) (reading lenient True (drop 5 cs))
         else if lenient then map_option (Cons (Text c)) (reading lenient True cs) else None)
      else if byte c < 32 \<and> \<not> lenient then None
      else map_option (Cons (Text c)) (reading lenient True cs))"
  by pat_completeness auto
termination
  by (relation "measure (\<lambda>(l, b, s). length s)") auto

lemma lenient_total: "\<exists>ps. reading True b s = Some ps"
  by (induction "True" b s rule: reading.induct) auto

lemma quote_not_backslash [simp]: "quote \<noteq> backslash" "backslash \<noteq> quote"
  by (simp_all add: quote_def backslash_def)

lemma quote_brackets [simp]:
  "quote \<noteq> CHR 0x7B" "quote \<noteq> CHR 0x7D" "quote \<noteq> CHR 0x5B" "quote \<noteq> CHR 0x5D"
  by (simp_all add: quote_def)

lemma simple_backslash [simp]: "simple_escape backslash" "simple_escape quote"
  by (simp_all add: simple_escape_def)

lemma escaped_backslash: "escaped_char backslash = backslash"
  by (simp add: escaped_char_def backslash_def)

lemma unicode_nonempty: "unicode_escape s \<Longrightarrow> s \<noteq> []"
  by (auto simp: unicode_escape_def)

lemma hex_char_props: "n < 16 \<Longrightarrow> hex_digit (hex_char n) \<and> digit_worth (hex_char n) = n"
  by (auto simp: hex_digit_def hex_char_def digit_worth_def byte_def)

lemma byte_inverse [simp]: "char_of (byte c) = c" "byte c < 256"
  by (simp_all add: byte_def)

lemma control_reading:
  assumes "byte c < 32"
  shows "reading False True (control_escape c @ s) = map_option (Cons (Text c)) (reading False True s)"
proof -
  note defs = simple_escape_def escaped_char_def quote_def backslash_def
  have hex: "hex_digit (CHR ''0'')" "digit_worth (CHR ''0'') = 0" by (simp_all add: hex_digit_def digit_worth_def byte_def)
  have u: "\<not> simple_escape (CHR ''u'')" by (simp add: simple_escape_def quote_def backslash_def)
  define x y where "x = hex_char (byte c div 16)" and "y = hex_char (byte c mod 16)"
  have xy: "hex_digit x" "digit_worth x = byte c div 16" "hex_digit y" "digit_worth y = byte c mod 16"
    using hex_char_props [of "byte c div 16"] hex_char_props [of "byte c mod 16"] assms by (simp_all add: x_def y_def)
  have "unit_of [CHR ''0'', CHR ''0'', x, y] = Text c"
    using assms xy hex by (simp add: unit_of_def mult.commute [of 16])
  moreover have "unicode_escape (CHR ''u'' # CHR ''0'' # CHR ''0'' # x # y # s)"
    using xy hex by (simp add: unicode_escape_def)
  ultimately have "reading False True (backslash # CHR ''u'' # CHR ''0'' # CHR ''0'' # x # y # s) =
      map_option (Cons (Text c)) (reading False True s)"
    using u by simp
  then show ?thesis by (simp add: control_escape_def x_def y_def escaped_char_def simple_escape_def)
qed

lemma escape_reading: "reading False b (fst (escape_from b s)) = reading True b s"
proof (induction b s rule: escape_from.induct)
  case (3 c cs)
  show ?case
  proof (cases "c = backslash \<and> unicode_escape cs \<and> \<not> simple_escape (hd cs)")
    case True
    then have len: "5 \<le> length cs" "cs \<noteq> []" by (auto simp: unicode_escape_def)
    define rest where "rest = fst (escape_from True (drop 5 cs))"
    have "hd (take 5 cs @ rest) = hd cs" "take 5 cs @ rest \<noteq> []" using len by (cases cs; simp)+
    moreover have "take 4 (tl (take 5 cs @ rest)) = take 4 (tl cs)" "drop 5 (take 5 cs @ rest) = rest"
      using len by (cases cs; simp add: take_tl tl_append2)+
    moreover from this have "unicode_escape (take 5 cs @ rest)"
      using True len calculation by (auto simp: unicode_escape_def)
    ultimately show ?thesis using True 3 len by (auto simp: rest_def)
  next
    case False
    consider "c = quote" | "c = backslash" "cs \<noteq> []" "simple_escape (hd cs)"
      | "c = backslash" "\<not> (cs \<noteq> [] \<and> simple_escape (hd cs))" "\<not> unicode_escape cs"
      | "c \<noteq> quote" "c \<noteq> backslash" "byte c < 32" | "c \<noteq> quote" "c \<noteq> backslash" "\<not> byte c < 32"
      using False unicode_nonempty by blast
    then show ?thesis
    proof cases
      case 3
      with "3.IH" show ?thesis by (cases "cs = []") (simp_all add: escaped_backslash)
    qed (use "3.IH" in \<open>simp_all add: control_reading\<close>)
  qed
qed auto

text \<open>Text that JSON reads is left as it is.\<close>

lemma escape_unchanged: "reading False b s \<noteq> None \<Longrightarrow> escape_from b s = (s, False)"
proof (induction b s rule: escape_from.induct)
  case (3 c cs)
  have "take 5 cs @ drop 5 cs = cs" by simp
  with 3 show ?case by (auto split: if_splits)
qed auto

lemma escape_changed: "snd (escape_from b s) \<Longrightarrow> reading False b s = None"
  using escape_unchanged by fastforce

lemma escape_same: "\<not> snd (escape_from b s) \<Longrightarrow> fst (escape_from b s) = s"
proof (induction b s rule: escape_from.induct)
  case (3 c cs)
  have "take 5 cs @ drop 5 cs = cs" by simp
  with 3 show ?case by (auto split: if_splits)
qed auto

section \<open>Bytes of characters\<close>

lemma utf8_len_width: "0 < utf8_width b \<Longrightarrow> utf8_len b = utf8_width b"
  by (auto simp: utf8_width_def utf8_len_def Let_def split: if_splits)

lemma width_ascii: "utf8_width b = 1 \<Longrightarrow> byte b < 128" "byte b < 128 \<Longrightarrow> utf8_width b = 1"
  by (auto simp: utf8_width_def Let_def split: if_splits)

lemma valid_chars:
  "valid_utf8 s \<Longrightarrow> c \<in> set (chars s) \<Longrightarrow>
     c \<noteq> [] \<and> \<not> continues (hd c) \<and> ((\<exists>b. c = [b] \<and> byte b < 128) \<or> (\<forall>b \<in> set c. 128 \<le> byte b))"
proof (induction s rule: chars.induct)
  case (2 b bs)
  define w where "w = utf8_width b"
  note h = valid_head [OF "2.prems"(1)]
  note i = utf8_head_iff [of "b # bs", simplified]
  have w: "0 < w" "utf8_len b = w" "fst (utf8_head (b # bs)) = w" "w \<le> Suc (length bs)"
    using h i utf8_len_width [of b] by (simp_all add: w_def)
  have rest: "valid_utf8 (drop (w - 1) bs)" using h w by (cases w) simp_all
  show ?case
  proof (cases "c = b # take (w - 1) bs")
    case True
    have "\<not> continues b" using width_no_continuation w(1) by (simp add: w_def)
    moreover have "(\<exists>d. c = [d] \<and> byte d < 128) \<or> (\<forall>d \<in> set c. 128 \<le> byte d)"
    proof (cases "w = 1")
      case False
      have "128 \<le> byte b" using False w(1) width_ascii(2) [of b] by (cases "byte b < 128") (simp_all add: w_def)
      moreover have "128 \<le> byte (bs ! j)" if "j < w - 1" for j
        using h i that w_def follows_continues [of b "Suc j" "bs ! j"] by (auto simp: continues_def dest: spec [of _ "Suc j"])
      ultimately show ?thesis using True w(4) by (auto simp: in_set_conv_nth)
    qed (use True width_ascii(1) in \<open>auto simp: w_def\<close>)
    ultimately show ?thesis using True by simp
  next
    case False
    with "2.prems"(2) w(2) have "c \<in> set (chars (drop (utf8_len b - 1) bs))" by auto
    with "2.IH" rest w(2) show ?thesis by simp
  qed
qed simp

text \<open>What a cut loses at its end, in characters and in bytes.\<close>

definition droppable :: "string \<Rightarrow> bool" where
  "droppable c \<longleftrightarrow> is_whitespace c \<or> c = '',''"

definition blank :: "char \<Rightarrow> bool" where
  "blank c \<longleftrightarrow> 128 \<le> byte c \<or> ascii_ws c \<or> c = CHR '',''"

lemma blank_chars:
  assumes "valid_utf8 s" and "set ws \<subseteq> set (chars s)" and "\<forall>c \<in> set ws. droppable c"
  shows "list_all blank (concat ws)"
proof -
  have "blank b" if c: "c \<in> set ws" "b \<in> set c" for b c
  proof (cases "128 \<le> byte b")
    case False
    have "c \<in> set (chars s)" using c(1) assms(2) by blast
    from valid_chars [OF assms(1) this] False have "c = [b]" "byte b < 128" using c(2) by auto
    with assms(3) c(1) show ?thesis by (auto simp: blank_def droppable_def is_whitespace_ascii)
  qed (simp add: blank_def)
  then show ?thesis by (auto simp: list_all_iff)
qed

lemma trim_end_taken:
  "\<exists>j \<le> k. trim_end (concat (take k (chars s))) = concat (take j (chars s)) \<and>
     (\<forall>c \<in> set (drop j (take k (chars s))). is_whitespace c)"
proof -
  define ts where "ts = take k (chars s)"
  define us where "us = rev (dropWhile is_whitespace (rev ts))"
  have ts: "ts = us @ rev (takeWhile is_whitespace (rev ts))"
    unfolding us_def by (metis rev_append rev_rev_ident takeWhile_dropWhile_id)
  have "length us \<le> length ts" by (simp add: us_def length_dropWhile_le [of _ "rev ts", simplified])
  then have le: "length us \<le> k" by (simp add: ts_def)
  have "take (length us) ts = us" "drop (length us) ts = rev (takeWhile is_whitespace (rev ts))"
    by (subst ts, simp)+
  moreover have "take (length us) (chars s) = take (length us) ts" using le by (simp add: ts_def min_absorb1)
  moreover have "trim_end (concat ts) = concat us" by (simp add: trim_end_def us_def ts_def chars_take)
  ultimately show ?thesis using le set_takeWhileD unfolding ts_def [symmetric] by (intro exI [of _ "length us"]) fastforce
qed

lemma drop_commas_taken:
  "valid_utf8 s \<Longrightarrow> t = concat (take k (chars s)) \<Longrightarrow>
     \<exists>j \<le> k. drop_commas t = concat (take j (chars s)) \<and> (\<forall>c \<in> set (drop j (take k (chars s))). droppable c)"
proof (induction t arbitrary: k rule: drop_commas.induct)
  case (1 t)
  define ts where "ts = take k (chars s)"
  show ?case
  proof (cases "t \<noteq> [] \<and> last t = CHR '',''")
    case True
    then have "ts \<noteq> []" using "1.prems"(2) by (metis concat.simps(1) ts_def)
    define n where "n = length ts - 1"
    have ts: "ts = butlast ts @ [last ts]" "last ts \<in> set (chars s)"
      using \<open>ts \<noteq> []\<close> in_set_takeD [of "last ts" k] last_in_set [of ts] by (simp_all add: ts_def)
    from valid_chars [OF "1.prems"(1) ts(2)] have c: "last ts \<noteq> []"
      "(\<exists>b. last ts = [b] \<and> byte b < 128) \<or> (\<forall>b \<in> set (last ts). 128 \<le> byte b)" by blast+
    have t: "t = concat (butlast ts) @ last ts"
      using "1.prems"(2) by (metis ts(1) ts_def concat_append concat.simps append_Nil2)
    then have "last (last ts) = CHR '',''" using True c(1) by simp
    moreover have "byte (CHR '','') < 128" by (simp add: byte_def)
    ultimately have comma: "last ts = '',''" using c(2) last_in_set [OF c(1)] by (elim disjE exE conjE) (simp, fastforce)
    have "n < length ts" using \<open>ts \<noteq> []\<close> by (simp add: n_def)
    moreover have "length ts \<le> k" by (simp add: ts_def)
    ultimately have n: "n < length ts" "n \<le> k" by simp_all
    have "butlast ts = take n ts" unfolding n_def by (rule butlast_conv_take)
    then have butlast: "butlast ts = take n (chars s)" using n(2) by (simp add: ts_def min_absorb1)
    then have "butlast t = concat (take n (chars s))" using t comma by simp
    then obtain i where i: "i \<le> n" "trim_end (butlast t) = concat (take i (chars s))"
      "\<forall>c \<in> set (drop i (take n (chars s))). is_whitespace c" using trim_end_taken [of n s] by auto
    from "1.IH" [OF True "1.prems"(1) i(2)] obtain j where j: "j \<le> i"
      "drop_commas (trim_end (butlast t)) = concat (take j (chars s))"
      "\<forall>c \<in> set (drop j (take i (chars s))). droppable c" by blast
    have len: "length (butlast ts) = n" by (simp add: n_def)
    have "take n (chars s) = take i (chars s) @ drop i (take n (chars s))"
      using i(1) by (metis append_take_drop_id min.absorb1 take_take)
    then have all: "ts = take i (chars s) @ drop i (take n (chars s)) @ ['','']" using ts(1) butlast comma by simp
    have "n \<le> length (chars s)" using len unfolding butlast by simp
    then have "length (take i (chars s)) = i" using i(1) by simp
    then have "drop j ts = drop j (take i (chars s)) @ drop i (take n (chars s)) @ ['','']"
      using j(1) by (subst all) simp
    then have "\<forall>c \<in> set (drop j ts). droppable c" using i(3) j(3) by (auto simp: droppable_def)
    moreover have "drop_commas t = drop_commas (trim_end (butlast t))" using True by (simp add: drop_commas.simps [of t])
    ultimately show ?thesis using j(1,2) i(1) n(2) by (auto simp: ts_def intro!: exI [of _ j])
  next
    case False
    then have "drop_commas t = t" by (subst drop_commas.simps) (rule if_not_P)
    then show ?thesis using "1.prems"(2) by (intro exI [of _ k]) simp
  qed
qed

section \<open>Scanning\<close>

lemma scan_append: "scan st (a @ b) = Option.bind (scan st a) (\<lambda>st. scan st b)"
proof (induction a arbitrary: st)
  case (Cons c a)
  then show ?case by (cases st) auto
qed simp

lemma hex_plain: "hex_digit c \<Longrightarrow> c \<noteq> quote \<and> c \<noteq> backslash \<and> \<not> byte c < 32"
  by (auto simp: hex_digit_def quote_def backslash_def byte_def)

lemma unicode_tail: "unicode_escape cs \<Longrightarrow> reading False True (drop 5 cs) \<noteq> None \<Longrightarrow> reading False True (tl cs) \<noteq> None"
proof -
  assume u: "unicode_escape cs" and r: "reading False True (drop 5 cs) \<noteq> None"
  have plain: "list_all hex_digit hs \<Longrightarrow> reading False True s \<noteq> None \<Longrightarrow> reading False True (hs @ s) \<noteq> None" for hs s
    by (induction hs) (auto dest: hex_plain)
  have "tl cs = take 4 (tl cs) @ drop 5 cs" using u by (cases cs) (simp_all add: unicode_escape_def)
  with plain [of "take 4 (tl cs)", OF _ r] u show ?thesis by (metis unicode_escape_def)
qed

text \<open>Only before the rest of an escape does the scan stand after a backslash.\<close>

lemma scan_after_backslash:
  "reading False b (p @ w) \<noteq> None \<Longrightarrow> scan (stack, b, False) p = Some (stack', b', True) \<Longrightarrow>
     w \<noteq> [] \<and> (simple_escape (hd w) \<or> hd w = CHR ''u'')"
proof (induction p arbitrary: b stack rule: length_induct)
  case (1 p)
  show ?case
  proof (cases p)
    case (Cons c q)
    note IH = "1.IH" [rule_format, of q] and IH2 = "1.IH" [rule_format, of "tl q"]
    show ?thesis
    proof (cases "b \<and> c = backslash")
      case True
      show ?thesis
      proof (cases q)
        case Nil
        with "1.prems" Cons True show ?thesis by (auto simp: unicode_escape_def split: if_splits)
      next
        case (Cons d r)
        have "reading False True (r @ w) \<noteq> None"
          using "1.prems"(1) \<open>p = c # q\<close> True Cons unicode_tail [of "q @ w"] by (auto split: if_splits)
        moreover have "scan (stack, True, False) r = Some (stack', b', True)"
          using "1.prems"(2) \<open>p = c # q\<close> True Cons by simp
        ultimately show ?thesis using IH2 \<open>p = c # q\<close> Cons by simp
      qed
    next
      case False
      with "1.prems" Cons IH show ?thesis by (cases b) (auto split: if_splits)
    qed
  qed (use "1.prems" in simp)
qed

lemma blank_plain: "blank c \<Longrightarrow> c \<noteq> quote \<and> c \<noteq> backslash \<and> \<not> simple_escape c \<and> c \<noteq> CHR ''u'' \<and>
    c \<notin> {CHR 0x7B, CHR 0x7D, CHR 0x5B, CHR 0x5D}"
  by (auto simp: blank_def ascii_ws_def simple_escape_def quote_def backslash_def byte_def)

lemma scan_blanks: "list_all blank w \<Longrightarrow> scan (stack, b, False) w = Some (stack, b, False)"
proof (induction w)
  case (Cons c w)
  with blank_plain [of c] show ?case by (cases b) simp_all
qed simp

lemma scan_cut:
  assumes "reading False False (p @ w) \<noteq> None" and "list_all blank w"
    and "scan ([], False, False) (p @ w) = Some (stack, b, e)"
  shows "scan ([], False, False) p = Some (stack, b, False) \<and> \<not> e"
proof -
  obtain stack' b' e' where p: "scan ([], False, False) p = Some (stack', b', e')"
    using assms(3) by (cases "scan ([], False, False) p") (auto simp: scan_append)
  have "\<not> e'"
  proof
    assume "e'"
    then have "w \<noteq> [] \<and> (simple_escape (hd w) \<or> hd w = CHR ''u'')"
      using scan_after_backslash [OF assms(1)] p by simp
    with assms(2) show False by (cases w) (auto dest: blank_plain)
  qed
  with p assms(2,3) show ?thesis by (simp add: scan_append scan_blanks)
qed

lemma scan_closers: "set stack \<subseteq> {CHR 0x7B, CHR 0x5B} \<Longrightarrow> scan (stack, False, False) (map closer stack) = Some ([], False, False)"
  by (induction stack) (auto simp: closer_def quote_def)

lemma scan_stack: "scan (stack, b, e) s = Some (stack', b', e') \<Longrightarrow> set stack \<subseteq> {CHR 0x7B, CHR 0x5B} \<Longrightarrow>
    set stack' \<subseteq> {CHR 0x7B, CHR 0x5B}"
proof (induction s arbitrary: stack b e)
  case (Cons c s)
  have "set (tl stack) \<subseteq> {CHR 0x7B, CHR 0x5B}" using Cons.prems(2) by (cases stack) auto
  with Cons show ?case by (auto split: if_splits)
qed simp

text \<open>The brackets outside of strings, and the texts in which each is closed by its own kind.\<close>

fun brackets :: "piece list \<Rightarrow> char list" where
  "brackets [] = []"
| "brackets (Outside c # ps) =
     (if c \<in> {CHR 0x7B, CHR 0x7D, CHR 0x5B, CHR 0x5D} then c # brackets ps else brackets ps)"
| "brackets (p # ps) = brackets ps"

fun open_string :: "piece list \<Rightarrow> bool" where
  "open_string ps \<longleftrightarrow> odd (length (filter ((=) (Outside quote)) ps))"

inductive balanced :: "char list \<Rightarrow> bool" where
  nothing: "balanced []"
| curly: "balanced a \<Longrightarrow> balanced b \<Longrightarrow> balanced (CHR 0x7B # a @ CHR 0x7D # b)"
| square: "balanced a \<Longrightarrow> balanced b \<Longrightarrow> balanced (CHR 0x5B # a @ CHR 0x5D # b)"

fun nest :: "char list \<Rightarrow> char list \<Rightarrow> char list option" where
  "nest st [] = Some st"
| "nest st (c # cs) =
     (if c = CHR 0x7B \<or> c = CHR 0x5B then nest (c # st) cs
      else if st \<noteq> [] \<and> hd st \<in> {CHR 0x7B, CHR 0x5B} \<and> c = closer (hd st) then nest (tl st) cs else None)"

fun wraps :: "char list \<Rightarrow> char list \<Rightarrow> bool" where
  "wraps [] cs = balanced cs"
| "wraps (x # st) cs = (\<exists>a b. cs = a @ closer x # b \<and> balanced a \<and> wraps st b)"

lemma balanced_bracket: "c \<in> {CHR 0x7B, CHR 0x5B} \<Longrightarrow> balanced a \<Longrightarrow> balanced b \<Longrightarrow> balanced (c # a @ closer c # b)"
  using balanced.intros(2,3) by (auto simp: closer_def)

lemma wraps_bracket:
  assumes "c \<in> {CHR 0x7B, CHR 0x5B}" and "balanced a" and "wraps st b"
  shows "wraps st (c # a @ closer c # b)"
proof (cases st)
  case (Cons x st')
  then obtain a' b' where b: "b = a' @ closer x # b'" "balanced a'" "wraps st' b'" using assms(3) by auto
  then have "balanced (c # a @ closer c # a')" using assms(1,2) balanced_bracket by blast
  moreover have "c # a @ closer c # b = (c # a @ closer c # a') @ closer x # b'" using b(1) by simp
    ultimately show ?thesis using b(3) unfolding Cons wraps.simps by blast
qed (use assms balanced_bracket in simp)

lemma nest_wraps: "nest st cs = Some [] \<Longrightarrow> wraps st cs"
proof (induction cs arbitrary: st)
  case Nil
  then show ?case by (cases st) (simp_all add: balanced.intros)
next
  case (Cons c cs)
  show ?case
  proof (cases "c = CHR 0x7B \<or> c = CHR 0x5B")
    case True
    with Cons.prems have "wraps (c # st) cs" by (intro Cons.IH) simp
    then obtain a b where "cs = a @ closer c # b" "balanced a" "wraps st b" by auto
    with True show ?thesis using wraps_bracket [of c a st b] by auto
  next
    case False
    with Cons.prems have "st \<noteq> []" "c = closer (hd st)" "nest (tl st) cs = Some []" by (auto split: if_splits)
    with Cons.IH [of "tl st"] balanced.intros(1) obtain x st' where
      "st = x # st'" "c = closer x" "wraps st' cs" "balanced []" by (cases st) auto
    moreover from this have "c # cs = [] @ closer x # cs" by simp
    ultimately show ?thesis using wraps.simps(2) [of x st' "c # cs"] by blast
  qed
qed

lemma nest_append: "nest st (a @ b) = Option.bind (nest st a) (\<lambda>st. nest st b)"
  by (induction st a rule: nest.induct) auto

lemma nest_closers: "set st \<subseteq> {CHR 0x7B, CHR 0x5B} \<Longrightarrow> nest st (map closer st) = Some []"
  by (induction st) (auto simp: closer_def)

lemma brackets_append: "brackets (a @ b) = brackets a @ brackets b"
  by (induction a rule: brackets.induct) auto

lemma scan_hex: "list_all hex_digit hs \<Longrightarrow> scan (st, True, False) (hs @ s) = scan (st, True, False) s"
  by (induction hs) (auto dest: hex_plain)

lemma scan_unicode:
  assumes "unicode_escape cs"
  shows "scan (st, True, True) cs = scan (st, True, False) (drop 5 cs)"
proof -
  obtain c ds where cs: "cs = c # ds" "list_all hex_digit (take 4 ds)"
    using assms by (cases cs) (auto simp: unicode_escape_def)
  then show ?thesis using scan_hex [of "take 4 ds" st "drop 4 ds"] by simp
qed

lemma scan_reading:
  "reading False b s = Some ps \<Longrightarrow> scan (st, b, False) s = Some (st', b', e) \<Longrightarrow> set st \<subseteq> {CHR 0x7B, CHR 0x5B} \<Longrightarrow>
     nest st (brackets ps) = Some st' \<and> b' = (b \<noteq> open_string ps) \<and> \<not> e"
proof (induction "False" b s arbitrary: ps st rule: reading.induct)
  case (2 c cs)
  have "set (tl st) \<subseteq> {CHR 0x7B, CHR 0x5B}" using "2.prems"(3) by (cases st) auto
  with 2 show ?case by (fastforce simp: closer_def quote_def split: if_splits)
next
  case (3 c cs)
  show ?case
  proof (cases "c = backslash \<and> \<not> (cs \<noteq> [] \<and> simple_escape (hd cs))")
    case True
    then show ?thesis using 3 by (auto simp: unit_of_def Let_def scan_unicode split: if_splits)
  next
    case False
    have "scan (st, True, True) cs = scan (st, True, False) (tl cs)" if "cs \<noteq> []" for st using that by (cases cs) simp_all
    with False 3 show ?thesis by (auto split: if_splits)
  qed
qed simp

text \<open>A readable text that is cut before a character of no escape has a readable beginning.\<close>

definition breaks :: "string \<Rightarrow> bool" where
  "breaks w \<longleftrightarrow> w = [] \<or> \<not> simple_escape (hd w) \<and> hd w \<noteq> CHR ''u'' \<and> \<not> hex_digit (hd w)"

lemma unicode_cut:
  assumes "unicode_escape (cs @ w)" and "breaks w" and "cs \<noteq> []"
  shows "5 \<le> length cs"
proof (rule ccontr)
  assume short: "\<not> 5 \<le> length cs"
  then have w: "w \<noteq> []" and len: "5 \<le> length (cs @ w)" using assms(1) by (auto simp: unicode_escape_def)
  have hd: "tl (cs @ w) ! (length cs - 1) = hd w" using w assms(3) by (cases cs) (simp_all add: hd_conv_nth nth_append)
  have "list_all hex_digit (take 4 (tl (cs @ w)))" using assms(1) by (simp add: unicode_escape_def)
  then have "\<forall>c \<in> set (take 4 (tl (cs @ w))). hex_digit c" by (simp add: list_all_iff)
  moreover have "tl (cs @ w) ! (length cs - 1) \<in> set (take 4 (tl (cs @ w)))"
    unfolding in_set_conv_nth using short len assms(3) by (intro exI [of _ "length cs - 1"]) (cases cs; simp add: nth_append)
  ultimately have "hex_digit (tl (cs @ w) ! (length cs - 1))" by blast
  then show False using hd assms(2) w by (simp add: breaks_def)
qed

lemma map_Cons_append: "map_option (Cons x) (map_option (append ps) r) = map_option (\<lambda>y. x # ps @ y) r"
    "map_option (append (x # ps)) r = map_option (\<lambda>y. x # ps @ y) r"
  by (cases r; simp)+

lemma reading_cut:
  "reading False b (p @ w) \<noteq> None \<Longrightarrow> breaks w \<Longrightarrow>
     \<exists>ps. \<forall>z. reading False b (p @ z) = map_option (append ps) (reading False (b \<noteq> open_string ps) z)"
proof (induction "False" b p rule: reading.induct)
  case (1 b)
  have "map_option (append []) x = x" for x :: "piece list option" by (cases x) simp_all
  then show ?case by (intro exI [of _ "[]"]) simp
next
  case (2 c cs)
  then obtain ps where "\<forall>z. reading False (c = quote) (cs @ z) =
      map_option (append ps) (reading False ((c = quote) \<noteq> open_string ps) z)" by auto
  then show ?case by (intro exI [of _ "Outside c # ps"]) (auto simp: map_Cons_append)
next
  case (3 c cs)
  have step: ?case if "\<And>z. reading False True (c # cs @ z) = map_option (Cons x) (reading False b (rest @ z))"
    and "\<exists>ps. \<forall>z. reading False b (rest @ z) = map_option (append ps) (reading False (b \<noteq> open_string ps) z)"
    and "b = (x \<noteq> Outside quote)" for x b rest
  proof -
    from that(2) obtain ps where "\<forall>z. reading False b (rest @ z) = map_option (append ps) (reading False (b \<noteq> open_string ps) z)" by blast
    then show ?thesis using that(1,3) by (intro exI [of _ "x # ps"]) (auto simp: map_Cons_append)
  qed
  consider "c = quote" | "c = backslash" "cs \<noteq> [] \<and> simple_escape (hd cs)"
    | "c = backslash" "\<not> (cs \<noteq> [] \<and> simple_escape (hd cs))" | "c \<noteq> quote" "c \<noteq> backslash" by blast
  then show ?case
  proof cases
    case 1
    then show ?thesis using 3 by (intro step [of "Outside c" False cs]) auto
  next
    case 2
    then show ?thesis using 3 by (intro step [of "Text (escaped_char (hd cs))" True "tl cs"]) (auto split: if_splits)
  next
    case c: 3
    with "3.prems" have u: "unicode_escape (cs @ w)" "reading False True (drop 5 (cs @ w)) \<noteq> None" "cs \<noteq> []"
      by (cases "cs = []"; cases "w = []"; auto simp: breaks_def unicode_escape_def split: if_splits)+
    with unicode_cut "3.prems"(2) have len: "5 \<le> length cs" by blast
    then have tl: "take 4 (tl (cs @ z)) = take 4 (tl cs)" "drop 5 (cs @ z) = drop 5 cs @ z" for z using u(3) by (cases cs; simp)+
    then have uz: "unicode_escape (cs @ z)" "unicode_escape cs" for z
      using u len by (auto simp: unicode_escape_def)
    show ?thesis
      using c 3 u uz tl len by (intro step [of "unit_of (take 4 (tl cs))" True "drop 5 cs"]) (auto simp: unit_of_def Let_def)
  next
    case 4
    then show ?thesis using 3 by (intro step [of "Text c" True cs]) (auto split: if_splits)
  qed
qed

lemma blank_breaks: "list_all blank w \<Longrightarrow> breaks w"
  by (cases w) (auto simp: breaks_def blank_def ascii_ws_def hex_digit_def simple_escape_def quote_def backslash_def byte_def)

text \<open>
  A text that is closed: JSON reads it, no string is left open, and its brackets are balanced.
\<close>

definition well_closed :: "string \<Rightarrow> bool" where
  "well_closed s \<longleftrightarrow> (\<exists>ps. reading False False s = Some ps \<and> \<not> open_string ps \<and> balanced (brackets ps))"

lemma reading_closers: "set z \<subseteq> {CHR 0x7D, CHR 0x5D} \<Longrightarrow> reading False False z = Some (map Outside z) \<and>
    brackets (map Outside z) = z \<and> \<not> open_string (map Outside z)"
  by (induction z) (auto simp: quote_def)

lemma closed_in_balance:
  assumes "valid_utf8 s" and "reading False False s \<noteq> None" and "closed s = Some r"
  shows "well_closed r \<and>
    (\<exists>p w z ps. s = p @ w \<and> reading False False p = Some ps \<and>
       (if open_string ps then r = p @ quote # z \<and> list_all is_whitespace (chars w)
        else r = p @ z \<and> list_all droppable (chars w)) \<and> set z \<subseteq> {CHR 0x7D, CHR 0x5D})"
proof -
  obtain stack b e where s: "scan ([], False, False) s = Some (stack, b, e)" and left: "stack \<noteq> [] \<or> b"
    using assms(3) by (auto simp: closed_def split: option.splits if_splits)
  have stack: "set stack \<subseteq> {CHR 0x7B, CHR 0x5B}" using scan_stack [OF s] by simp
  define z where "z = map closer stack"
  have z: "set z \<subseteq> {CHR 0x7D, CHR 0x5D}" by (auto simp: z_def closer_def)
  obtain k where k: "trim_end s = concat (take k (chars s))" "\<forall>c \<in> set (drop k (chars s)). is_whitespace c"
    using trim_end_taken [of "length (chars s)" s] unfolding take_all [OF order_refl] concat_chars by blast
  obtain j where j: "j \<le> k" "drop_commas (trim_end s) = concat (take j (chars s))"
    "\<forall>c \<in> set (drop j (take k (chars s))). droppable c" using drop_commas_taken [OF assms(1) k(1)] by blast
  define i where "i = (if b then k else j)"
  define p w where "p = concat (take i (chars s))" and "w = concat (drop i (chars s))"
  have pw: "s = p @ w" by (simp add: p_def w_def flip: concat_append)
  have chars: "chars w = drop i (chars s)" by (simp add: w_def chars_drop)
  have "drop j (chars s) = drop j (take k (chars s) @ drop k (chars s))" by (simp only: append_take_drop_id)
  then have "set (drop j (chars s)) \<subseteq> set (drop j (take k (chars s))) \<union> set (drop k (chars s))"
    by (metis Un_mono drop_append order_refl set_append set_drop_subset)
  then have lost: "if b then list_all is_whitespace (chars w) else list_all droppable (chars w)"
    using k(2) j(3) unfolding chars by (auto simp: i_def list_all_iff droppable_def)
  then have "\<forall>c \<in> set (chars w). droppable c" by (auto simp: list_all_iff droppable_def split: if_splits)
  then have blank: "list_all blank w" using blank_chars [OF assms(1), of "drop i (chars s)"] chars set_drop_subset
    unfolding w_def by metis
  have r: "r = p @ (if b then quote # z else z)"
    using assms(3) s left k(1) j(2) by (auto simp: closed_def p_def i_def z_def)
  have p: "scan ([], False, False) p = Some (stack, b, False)" using scan_cut [of p w] assms(2) pw s blank by simp
  obtain ps where ps: "reading False False (p @ u) = map_option (append ps) (reading False (open_string ps) u)" for u
    using reading_cut [of False p w] assms(2) pw blank_breaks [OF blank] by auto
  have read: "reading False False p = Some ps" using ps [of "[]"] by simp
  with scan_reading [OF _ p] have nest: "nest [] (brackets ps) = Some stack" and b: "b = open_string ps" by simp_all
  define qs where "qs = (if b then [Outside quote] else []) @ map Outside z"
  have "reading False False r = Some (ps @ qs)"
    unfolding r ps using reading_closers [OF z] b by (auto simp: qs_def)
  moreover have "brackets (ps @ qs) = brackets ps @ z"
    using reading_closers [OF z] by (auto simp: brackets_append qs_def quote_def)
  then have "balanced (brackets (ps @ qs))"
    using nest_wraps [of "[]" "brackets ps @ z"] nest nest_closers [OF stack] by (simp add: nest_append z_def)
  moreover have "\<not> open_string (ps @ qs)" using reading_closers [OF z] b by (auto simp: qs_def)
  ultimately have "well_closed r" unfolding well_closed_def by blast
  moreover have "if open_string ps then r = p @ quote # z \<and> list_all is_whitespace (chars w)
      else r = p @ z \<and> list_all droppable (chars w)" using r lost b by auto
  ultimately show ?thesis using pw read z by blast
qed

section \<open>Escaped text is text\<close>

lemma escape_from_high: "list_all (\<lambda>c. 128 \<le> byte c) h \<Longrightarrow> fst (escape_from b (h @ s)) = h @ fst (escape_from b s)"
proof (induction h)
  case (Cons c h)
  then have "c \<noteq> quote" "c \<noteq> backslash" "\<not> byte c < 32" by (auto simp: quote_def backslash_def byte_def)
  with Cons show ?case by (cases b) simp_all
qed simp

lemma ascii_bytes: "byte quote < 128" "byte backslash < 128" "simple_escape c \<Longrightarrow> byte c < 128" "hex_digit c \<Longrightarrow> byte c < 128"
  by (auto simp: quote_def backslash_def simple_escape_def hex_digit_def byte_def)

lemma control_ascii: "byte c < 32 \<Longrightarrow> list_all (\<lambda>c. byte c < 128) (control_escape c)"
  by (auto simp: control_escape_def backslash_def hex_char_def byte_def)

lemma valid_cons: "byte c < 128 \<Longrightarrow> valid_utf8 (c # s) \<longleftrightarrow> valid_utf8 s"
  using valid_append [of "[c]" s] valid_prefix [of "[c]" s] valid_ascii [of "[c]"] by auto

lemma escape_valid: "valid_utf8 s \<Longrightarrow> valid_utf8 (fst (escape_from b s))"
proof (induction s arbitrary: b rule: length_induct)
  case (1 s)
  show ?case
  proof (cases s)
    case (Cons c cs)
    show ?thesis
    proof (cases "byte c < 128")
      case True
      with "1.prems" Cons have cs: "valid_utf8 cs" by (simp add: valid_cons)
      have IH: "valid_utf8 t \<Longrightarrow> length t \<le> length cs \<Longrightarrow> valid_utf8 (fst (escape_from b t))" for t b
        using "1.IH" Cons by simp
      have tl: "valid_utf8 (tl cs)" if "cs \<noteq> []" "simple_escape (hd cs)"
        using cs that ascii_bytes(3) by (cases cs) (simp_all add: valid_cons)
      have five: "list_all (\<lambda>c. byte c < 128) (take 5 cs)" if "unicode_escape cs"
      proof (cases cs)
        case (Cons d ds)
        with that have "byte d < 128" "list_all hex_digit (take 4 ds)" by (simp_all add: unicode_escape_def byte_def)
        with Cons ascii_bytes(4) show ?thesis by (auto simp: list_all_iff)
      qed simp
      have "valid_utf8 (drop 5 cs)" if "unicode_escape cs"
        using cs valid_prefix [of "take 5 cs" "drop 5 cs"] valid_ascii [OF five [OF that]] by simp
      then show ?thesis
        using True Cons IH cs tl five valid_append [OF valid_ascii] ascii_bytes
          valid_append [OF valid_ascii [OF control_ascii [of c]]] valid_ascii [OF control_ascii [of c]]
        by (cases b) (auto simp: valid_cons)
    next
      case False
      define n where "n = fst (utf8_head s)"
      have s: "s \<noteq> []" using Cons by simp
      have h: "snd (utf8_head s)" "valid_utf8 (drop n s)" using valid_head [OF "1.prems" s] by (simp_all add: n_def)
      note v = utf8_head_valid [OF s h(1), folded n_def]
      have "128 \<le> byte (take n s ! i)" if "i < n" for i
        using v(3) [of i] that False Cons by (cases i) (auto simp: continues_def)
      then have "list_all (\<lambda>c. 128 \<le> byte c) (take n s)" using v(1) by (simp add: list_all_length)
      then have e: "fst (escape_from b (take n s @ drop n s)) = take n s @ fst (escape_from b (drop n s))"
        by (rule escape_from_high)
      have "valid_utf8 (take n s)"
        using valid_split [of "take n s" "drop n s"] "1.prems" valid_hd [OF h(2)] by auto
      moreover have "valid_utf8 (fst (escape_from b (drop n s)))" using "1.IH" h(2) s utf8_head_pos [of s] by (simp add: n_def)
      ultimately show ?thesis using e valid_append by simp
    qed
  qed simp
qed

section \<open>Properties\<close>

text \<open>
  C29. Escaping keeps what was written. Text whose strings JSON can read is left alone; otherwise JSON reads
  the escaped text exactly as the original reads when raw control characters, and backslashes that begin
  no escape, stand for themselves.
\<close>

theorem escaping_keeps_reading:
  "case escape_string_contents s of
     None \<Rightarrow> reading False False s = reading True False s
   | Some t \<Rightarrow> reading False False s = None \<and> reading False False t = reading True False s"
  using escape_reading [of False s] escape_changed [of False s] escape_same [of False s]
  by (auto simp: escape_string_contents_def Let_def split: prod.splits)

text \<open>
  C30. Arguments that were cut off are closed in balance: JSON's strings read the candidate of the repair to
  its end and leave none open, and the brackets outside of strings are balanced, each closed by its own kind.
  The candidate is a beginning of the text, a quote just when that beginning ends within a string, and closing
  brackets; what it leaves out at the end is whitespace, and commas only where no string is open.
\<close>

theorem repair_closes_in_balance:
  assumes "valid_utf8 input" and "text = (case escape_string_contents input of None \<Rightarrow> input | Some t \<Rightarrow> t)"
    and "closed text = Some r"
  shows "well_closed r \<and>
    (\<exists>p w z ps. text = p @ w \<and> reading False False p = Some ps \<and>
       (if open_string ps then r = p @ quote # z \<and> list_all is_whitespace (chars w)
        else r = p @ z \<and> list_all droppable (chars w)) \<and> set z \<subseteq> {CHR 0x7D, CHR 0x5D})"
proof (rule closed_in_balance [OF _ _ assms(3)])
  have esc: "text = fst (escape_from False input)"
    using assms(2) escape_same [of False input] by (auto simp: escape_string_contents_def Let_def split: prod.splits)
  then show "valid_utf8 text" using assms(1) escape_valid by simp
  show "reading False False text \<noteq> None" using esc escape_reading [of False input] lenient_total [of False input] by simp
qed

lemma trim_end_ascii: "is_ascii s \<Longrightarrow> trim_end s = rev (dropWhile ascii_ws (rev s))"
proof -
  assume a: "is_ascii s"
  then have "list_all (\<lambda>b. byte b < 128) (rev s)" by (simp add: is_ascii_def list_all_iff)
  with a show ?thesis by (simp add: trim_end_def chars_ascii rev_map dropWhile_singletons)
qed

theorem repair_closes_in_balance_witness:
  "well_closed [CHR 0x7B, quote, CHR ''a'', quote, CHR '':'', CHR 0x5B, quote, CHR ''x'', quote, CHR 0x5D, CHR 0x7D]"
proof -
  let ?input = "[CHR 0x7B, quote, CHR ''a'', quote, CHR '':'', CHR 0x5B, quote, CHR ''x'', CHR '' '']"
  let ?r = "[CHR 0x7B, quote, CHR ''a'', quote, CHR '':'', CHR 0x5B, quote, CHR ''x'', quote, CHR 0x5D, CHR 0x7D]"
  have u: "valid_utf8 ?input" by (rule valid_ascii) (simp add: byte_def quote_def)
  have t: "?input = (case escape_string_contents ?input of None \<Rightarrow> ?input | Some t \<Rightarrow> t)" by code_simp
  have "trim_end ?input = butlast ?input" by (simp add: trim_end_ascii is_ascii_def byte_def quote_def ascii_ws_def)
  then have c: "closed ?input = Some ?r" by (simp add: closed_def closer_def quote_def backslash_def)
  from repair_closes_in_balance [OF u t c] show ?thesis by blast
qed

end
