(* ===== verification/Attachments.thy ===== *)
theory Attachments
  imports Files Receipts
begin

text \<open>
  The attachments of a chat message (\<^verbatim>\<open>store/db.rs\<close>): which URIs are stable local ones. The branches for
  Unix are modelled; \<^verbatim>\<open>serde_json\<close> is a parameter.
\<close>

section \<open>Bytes\<close>

definition is_control :: "string \<Rightarrow> bool" where
  "is_control c \<longleftrightarrow> code_point c < 32 \<or> 127 \<le> code_point c \<and> code_point c \<le> 159"

definition ascii_digit_byte :: "char \<Rightarrow> bool" where
  "ascii_digit_byte b \<longleftrightarrow> 48 \<le> byte b \<and> byte b \<le> 57"

definition hex_value :: "char \<Rightarrow> nat option" where
  "hex_value b =
     (let n = byte b
      in if 48 \<le> n \<and> n \<le> 57 then Some (n - 48) else if 97 \<le> n \<and> n \<le> 102 then Some (n - 97 + 10)
         else if 65 \<le> n \<and> n \<le> 70 then Some (n - 65 + 10) else None)"

definition SENSITIVE_PARAMETERS :: "string list" where
  "SENSITIVE_PARAMETERS =
     [''token='', ''token%3d'', ''signature='', ''signature%3d'', ''credential='', ''credential%3d'', ''api_key='',
      ''api_key%3d'', ''apikey='', ''apikey%3d'', ''secret='', ''secret%3d'', ''password='', ''password%3d'', ''auth='',
      ''auth%3d'', ''sig='', ''sig%3d'']"

definition contains_sensitive_uri_parameter :: "string \<Rightarrow> bool" where
  "contains_sensitive_uri_parameter uri = list_ex (contains (map ascii_lower uri)) SENSITIVE_PARAMETERS"

section \<open>Internet addresses\<close>

text \<open>
  Rust's parsers of addresses: digits with a limit on their number, octets without leading zeros, groups
  of 16 bits. Each parser returns what it read and the rest.
\<close>

definition digit_of :: "nat \<Rightarrow> char \<Rightarrow> nat option" where
  "digit_of radix b = (case hex_value b of None \<Rightarrow> None | Some d \<Rightarrow> if d < radix then Some d else None)"

definition read_number :: "nat \<Rightarrow> nat \<Rightarrow> bool \<Rightarrow> nat \<Rightarrow> string \<Rightarrow> (nat \<times> string) option" where
  "read_number radix max_digits zero_prefix bound s =
     (let ds = takeWhile (\<lambda>b. digit_of radix b \<noteq> None) s; n = foldl (\<lambda>n b. radix * n + the (digit_of radix b)) 0 ds
      in if ds = [] \<or> max_digits < length ds \<or> bound < n then None
         else if \<not> zero_prefix \<and> hd ds = CHR ''0'' \<and> 1 < length ds then None
         else Some (n, drop (length ds) s))"

definition after_separator :: "char \<Rightarrow> nat \<Rightarrow> string \<Rightarrow> string option" where
  "after_separator sep i s =
     (if i = 0 then Some s else case s of [] \<Rightarrow> None | c # cs \<Rightarrow> if c = sep then Some cs else None)"

fun read_octets :: "nat \<Rightarrow> nat \<Rightarrow> string \<Rightarrow> (nat list \<times> string) option" where
  "read_octets i 0 s = Some ([], s)"
| "read_octets i (Suc n) s =
     Option.bind (after_separator (CHR ''.'') i s) (\<lambda>s.
       Option.bind (read_number 10 3 False 255 s) (\<lambda>(octet, s).
         map_option (apfst (Cons octet)) (read_octets (Suc i) n s)))"

definition read_ipv4 :: "string \<Rightarrow> (nat list \<times> string) option" where
  "read_ipv4 s = read_octets 0 4 s"

definition parse_ipv4 :: "string \<Rightarrow> nat list option" where
  "parse_ipv4 s =
     (if 15 < length s then None
      else case read_ipv4 s of Some (octets, []) \<Rightarrow> Some octets | _ \<Rightarrow> None)"

text \<open>Up to \<open>n\<close> groups, the last two perhaps as an IPv4 address, and whether they were.\<close>

fun read_groups :: "nat \<Rightarrow> nat \<Rightarrow> string \<Rightarrow> nat list \<times> bool \<times> string" where
  "read_groups i 0 s = ([], False, s)"
| "read_groups i (Suc n) s =
     (case (if n = 0 then None else Option.bind (after_separator (CHR '':'') i s) read_ipv4) of
        Some ([a, b, c, d], s') \<Rightarrow> ([256 * a + b, 256 * c + d], True, s')
      | _ \<Rightarrow>
          (case Option.bind (after_separator (CHR '':'') i s) (read_number 16 4 True 65535) of
             None \<Rightarrow> ([], False, s)
           | Some (g, s') \<Rightarrow> (let (gs, v4, rest) = read_groups (Suc i) n s' in (g # gs, v4, rest))))"

definition parse_ipv6 :: "string \<Rightarrow> nat list option" where
  "parse_ipv6 s =
     (let (head, head_ipv4, s) = read_groups 0 8 s
      in if length head = 8 then (if s = [] then Some head else None)
         else if head_ipv4 \<or> \<not> starts_with s ''::'' then None
         else let (tail, _, rest) = read_groups 0 (8 - (length head + 1)) (drop 2 s)
              in if rest = [] then Some (head @ replicate (8 - length head - length tail) 0 @ tail) else None)"

fun hex_digits :: "nat \<Rightarrow> string" where
  "hex_digits n =
     (let d = n mod 16; c = char_of (if d < 10 then 48 + d else 87 + d)
      in if n < 16 then [c] else hex_digits (n div 16) @ [c])"

declare hex_digits.simps [simp del]

text \<open>Where the first longest run of zeros begins, and its length.\<close>

definition zero_run :: "nat list \<Rightarrow> nat \<times> nat" where
  "zero_run gs =
     fold (\<lambda>i (start, len). let n = length (takeWhile (\<lambda>g. g = 0) (drop i gs)) in if len < n then (i, n) else (start, len))
       [0..<length gs] (0, 0)"

definition ipv6_text :: "nat list \<Rightarrow> string" where
  "ipv6_text gs =
     (let (start, len) = zero_run gs
      in if take 5 gs = replicate 5 0 \<and> gs ! 5 = 65535 then
           ''::ffff:'' @ join ''.'' (map nat_digits [gs ! 6 div 256, gs ! 6 mod 256, gs ! 7 div 256, gs ! 7 mod 256])
         else if 1 < len then
           join '':'' (map hex_digits (take start gs)) @ ''::'' @ join '':'' (map hex_digits (drop (start + len) gs))
         else join '':'' (map hex_digits gs))"

section \<open>Hosts\<close>

text \<open>A byte of a percent-encoded text at \<open>%\<close>, with the rest.\<close>

definition percent_byte :: "string \<Rightarrow> (nat \<times> string) option" where
  "percent_byte s =
     (case s of
        _ # h # l # rest \<Rightarrow>
          Option.bind (hex_value h) (\<lambda>high. map_option (\<lambda>low. (high * 16 + low, rest)) (hex_value l))
      | _ \<Rightarrow> None)"

lemma percent_byte_shorter: "percent_byte s = Some (n, rest) \<Longrightarrow> length rest < length s"
  by (auto simp: percent_byte_def split: list.splits bind_splits)

definition reg_name_char :: "char \<Rightarrow> bool" where
  "reg_name_char b \<longleftrightarrow> ascii_alphabetic b \<or> ascii_digit_byte b \<or>
     b \<in> set (''-._~'' @ ''!$&'' @ [CHR 0x27] @ ''()*+,;='')"

function normalize_reg_name_from :: "string \<Rightarrow> string option" where
  "normalize_reg_name_from [] = Some []"
| "normalize_reg_name_from (b # bs) =
     (if b = CHR ''%'' then
        (case percent_byte (b # bs) of
           None \<Rightarrow> None
         | Some (n, rest) \<Rightarrow>
             if n < 32 \<or> n = 127 \<or> char_of n \<in> set (''@:/?#'' @ [CHR 0x5C]) then None
             else map_option (Cons (ascii_lower (char_of n))) (normalize_reg_name_from rest))
      else if \<not> reg_name_char b then None
      else map_option (Cons (ascii_lower b)) (normalize_reg_name_from bs))"
  by pat_completeness auto
termination
proof (relation "measure length")
  fix b bs y :: "string" and x n rest
  show "percent_byte (c # cs) = Some y \<Longrightarrow> (n, rest) = y \<Longrightarrow> (rest, c # cs) \<in> measure length" for c cs n rest y
    using percent_byte_shorter [of "c # cs" n rest] by simp
qed auto

definition normalize_file_uri_reg_name :: "string \<Rightarrow> string option" where
  "normalize_file_uri_reg_name host = (if host = [] then None else normalize_reg_name_from host)"

definition between_brackets :: "string \<Rightarrow> string option" where
  "between_brackets s =
     (if 2 \<le> length s \<and> hd s = CHR ''['' \<and> last s = CHR '']'' then Some (butlast (tl s)) else None)"

definition normalize_file_uri_host :: "string \<Rightarrow> string option" where
  "normalize_file_uri_host host =
     (case between_brackets host of
        Some ipv6 \<Rightarrow> map_option (\<lambda>gs. ''['' @ ipv6_text gs @ '']'') (parse_ipv6 ipv6)
      | None \<Rightarrow>
          if host = [] \<or> list_ex (\<lambda>b. b \<in> set ''[]:'') host then None
          else (case parse_ipv4 host of
                  Some octets \<Rightarrow> Some (join ''.'' (map nat_digits octets))
                | None \<Rightarrow> normalize_file_uri_reg_name host))"

section \<open>File URIs\<close>

text \<open>The decoded bytes; those that come from a percent code may be no slash.\<close>

function percent_decode_bytes :: "string \<Rightarrow> string option" where
  "percent_decode_bytes [] = Some []"
| "percent_decode_bytes (b # bs) =
     (case (if b = CHR ''%'' then percent_byte (b # bs) else Some (byte b, bs)) of
        None \<Rightarrow> None
      | Some (n, rest) \<Rightarrow>
          if n < 32 \<or> n = 127 \<or> n = 92 then None
          else if b = CHR ''%'' \<and> n = 47 then None
          else map_option (Cons (char_of n)) (percent_decode_bytes rest))"
  by pat_completeness auto
termination
proof (relation "measure length")
  fix b :: char and bs rest :: string and x n
  show "(if b = CHR ''%'' then percent_byte (b # bs) else Some (byte b, bs)) = Some x \<Longrightarrow> (n, rest) = x \<Longrightarrow>
      (rest, b # bs) \<in> measure length"
    using percent_byte_shorter [of "b # bs" n rest] by (auto split: if_splits)
qed auto

definition percent_decode_file_uri_path :: "string \<Rightarrow> string option" where
  "percent_decode_file_uri_path path =
     (case percent_decode_bytes path of
        None \<Rightarrow> None
      | Some decoded \<Rightarrow>
          if \<not> valid_utf8 decoded then None
          else if list_ex is_control (chars decoded) \<or> contains_sensitive_uri_parameter decoded then None
          else Some decoded)"

section \<open>Windows paths\<close>

definition DEVICES :: "string list" where
  "DEVICES = [''CON'', ''PRN'', ''AUX'', ''NUL'', ''CLOCK$'', ''CONIN$'', ''CONOUT$'']"

definition device_digit :: "string \<Rightarrow> bool" where
  "device_digit c \<longleftrightarrow> 49 \<le> code_point c \<and> code_point c \<le> 57 \<or> code_point c \<in> {185, 178, 179}"

definition is_windows_dos_device_component :: "string \<Rightarrow> bool" where
  "is_windows_dos_device_component component =
     (let basename = takeWhile (\<lambda>b. b \<noteq> CHR ''.'') component;
          start = take_chars 3 basename; rest = drop 3 (chars basename)
      in list_ex (eq_ignore_ascii_case basename) DEVICES \<or>
         (eq_ignore_ascii_case start ''COM'' \<or> eq_ignore_ascii_case start ''LPT'') \<and>
         (case rest of [c] \<Rightarrow> device_digit c | _ \<Rightarrow> False))"

definition windows_forbidden :: "char \<Rightarrow> bool" where
  "windows_forbidden b \<longleftrightarrow> b \<in> set ([CHR 0x22, CHR 0x5C] @ ''<>:/|?*'')"

definition is_valid_windows_component :: "string \<Rightarrow> bool" where
  "is_valid_windows_component component \<longleftrightarrow>
     component \<noteq> [] \<and> component \<noteq> ''.'' \<and> component \<noteq> ''..'' \<and> last component \<notin> set '' .'' \<and>
     \<not> list_ex is_control (chars component) \<and> \<not> list_ex windows_forbidden component \<and>
     \<not> is_windows_dos_device_component component"

definition valid_windows_path_components :: "string \<Rightarrow> nat \<Rightarrow> bool" where
  "valid_windows_path_components path minimum_components =
     (if path = [] then minimum_components = 0
      else let components = split_when (\<lambda>b. b = CHR ''/'' \<or> b = CHR 0x5C) path
           in minimum_components \<le> length components \<and> list_all is_valid_windows_component components)"

definition looks_like_windows_drive_path :: "string \<Rightarrow> bool" where
  "looks_like_windows_drive_path path \<longleftrightarrow> 2 \<le> length path \<and> ascii_alphabetic (path ! 0) \<and> path ! 1 = CHR '':''"

definition is_valid_windows_drive_path :: "string \<Rightarrow> bool" where
  "is_valid_windows_drive_path path \<longleftrightarrow>
     looks_like_windows_drive_path path \<and> 3 \<le> length path \<and> (path ! 2 = CHR ''/'' \<or> path ! 2 = CHR 0x5C) \<and>
     valid_windows_path_components (drop 3 path) 0"

definition looks_like_windows_unc_path :: "string \<Rightarrow> bool" where
  "looks_like_windows_unc_path path \<longleftrightarrow> starts_with path [CHR 0x5C, CHR 0x5C] \<or> starts_with path ''//''"

definition is_valid_windows_unc_path :: "string \<Rightarrow> bool" where
  "is_valid_windows_unc_path path \<longleftrightarrow>
     looks_like_windows_unc_path path \<and> \<not> starts_with (drop 2 path) ''?'' \<and> \<not> starts_with (drop 2 path) ''.'' \<and>
     valid_windows_path_components (drop 2 path) 2"

section \<open>Stable local URIs\<close>

definition valid_explicit_uri_components :: "string \<Rightarrow> bool \<Rightarrow> bool" where
  "valid_explicit_uri_components path windows_rules =
     (let components = split_when (\<lambda>b. b = CHR ''/'') path
      in components \<noteq> [] \<and>
         list_all (\<lambda>c. c \<noteq> [] \<and> c \<noteq> ''.'' \<and> c \<noteq> ''..'' \<and> (\<not> windows_rules \<or> is_valid_windows_component c)) components)"

definition is_valid_local_file_uri_path :: "string \<Rightarrow> bool" where
  "is_valid_local_file_uri_path path =
     (if \<not> starts_with path ''/'' \<or> length path \<le> 1 \<or> starts_with path ''//'' then False
      else if looks_like_windows_drive_path (drop 1 path) then is_valid_windows_drive_path (drop 1 path)
      else valid_explicit_uri_components (drop 1 path) False)"

definition is_valid_file_uri_unc_path :: "string \<Rightarrow> bool" where
  "is_valid_file_uri_unc_path path \<longleftrightarrow> starts_with path ''/'' \<and> valid_explicit_uri_components (drop 1 path) True"

definition is_valid_file_uri :: "string \<Rightarrow> bool" where
  "is_valid_file_uri uri =
     (if list_ex is_control (chars uri) \<or> list_ex (\<lambda>b. b \<in> {CHR 0x3F, CHR 0x23, CHR 0x5C}) uri then False
      else let scheme_path = drop 5 uri; hierarchy = drop 2 scheme_path;
               decoded_local = (\<lambda>p. case percent_decode_file_uri_path p of
                   None \<Rightarrow> False | Some path \<Rightarrow> is_valid_local_file_uri_path path)
           in if \<not> starts_with scheme_path ''//'' then decoded_local scheme_path
              else if starts_with hierarchy ''/'' then decoded_local hierarchy
              else case find_str ''/'' hierarchy of
                     None \<Rightarrow> False
                   | Some path_start \<Rightarrow>
                       (case percent_decode_file_uri_path (drop path_start hierarchy) of
                          None \<Rightarrow> False
                        | Some path \<Rightarrow>
                            (case normalize_file_uri_host (take path_start hierarchy) of
                               None \<Rightarrow> False
                             | Some authority \<Rightarrow>
                                 if authority = ''.'' \<or> authority = ''..'' then False
                                 else if eq_ignore_ascii_case authority ''localhost'' then is_valid_local_file_uri_path path
                                 else is_valid_file_uri_unc_path path)))"

definition has_uri_scheme :: "string \<Rightarrow> bool" where
  "has_uri_scheme value =
     (case find_str '':'' value of
        None \<Rightarrow> False
      | Some colon \<Rightarrow>
          let scheme = take colon value
          in scheme \<noteq> [] \<and>
             list_all (\<lambda>(i, b). ascii_alphabetic b \<or> 0 < i \<and> (ascii_digit_byte b \<or> b \<in> set ''+-.'')) (enumerate 0 scheme))"

definition is_stable_local_attachment_uri :: "string \<Rightarrow> bool" where
  "is_stable_local_attachment_uri uri =
     (if uri = [] \<or> list_ex is_control (chars uri) \<or> contains_sensitive_uri_parameter uri then False
      else if starts_with (map ascii_lower uri) ''file:'' then is_valid_file_uri uri
      else if looks_like_windows_drive_path uri then is_valid_windows_drive_path uri
      else if looks_like_windows_unc_path uri then is_valid_windows_unc_path uri \<or> is_absolute (parse_path uri)
      else \<not> has_uri_scheme uri \<and> is_absolute (parse_path uri))"

section \<open>The attachments of a message\<close>

record StoredAttachmentMetadata =
  at_media_type :: string
  at_filename :: string
  at_uri :: string
  at_size :: nat
  at_sha256 :: string

definition MAX_ATTACHMENTS_JSON_BYTES :: nat where "MAX_ATTACHMENTS_JSON_BYTES = 64 * 1024"

definition attachment_error :: "nat \<Rightarrow> StoredAttachmentMetadata \<Rightarrow> string option" where
  "attachment_error i a =
     (if length (at_sha256 a) \<noteq> 64 \<or> \<not> list_all (\<lambda>b. hex_value b \<noteq> None) (at_sha256 a) then
        Some (''attachment '' @ nat_digits i @ '' field sha256 must be 64 hexadecimal characters'')
      else if \<not> is_stable_local_attachment_uri (at_uri a) then
        Some (''attachment '' @ nat_digits i @ '' uri must be a stable absolute local path or file URI'')
      else None)"

fun first_attachment_error :: "nat \<Rightarrow> StoredAttachmentMetadata list \<Rightarrow> string option" where
  "first_attachment_error i [] = None"
| "first_attachment_error i (a # as) =
     (case attachment_error i a of Some err \<Rightarrow> Some err | None \<Rightarrow> first_attachment_error (Suc i) as)"

text \<open>The error of a text that is no attachments; \<open>decode\<close> is the strict JSON decoder.\<close>

definition validate_attachments_json ::
  "(string \<Rightarrow> StoredAttachmentMetadata list option) \<Rightarrow> string \<Rightarrow> string option" where
  "validate_attachments_json decode s =
     (if s = [] then Some ''attachments_json must not be empty''
      else if MAX_ATTACHMENTS_JSON_BYTES < length s then Some ''attachments_json exceeds the 64 KiB limit''
      else case decode s of
             None \<Rightarrow> Some ''attachments_json must be an array of strict attachment objects''
           | Some [] \<Rightarrow> Some ''attachments_json must contain at least one attachment''
           | Some as \<Rightarrow> first_attachment_error 0 as)"

end
