(* ===== verification/Attachment_Uris.thy ===== *)
theory Attachment_Uris
  imports Attachments
begin

text \<open>A file URI that is accepted as an attachment names a path without steps, hidden ones included.\<close>

section \<open>Splitting\<close>

lemma split_when_cong: "(\<And>c. c \<in> set s \<Longrightarrow> P c \<longleftrightarrow> Q c) \<Longrightarrow> split_when P s = split_when Q s"
  by (induction s) auto

section \<open>Decoded paths\<close>

definition hidden :: "char \<Rightarrow> bool" where
  "hidden b \<longleftrightarrow> byte b < 32 \<or> byte b = 127 \<or> b = CHR 0x5C"

lemma byte_char_of: "byte (char_of n) = n mod 256"
  by (simp add: byte_def)

lemma hex_value_small: "hex_value b = Some n \<Longrightarrow> n < 16"
  by (auto simp: hex_value_def Let_def split: if_splits)

lemma percent_byte_small: "percent_byte s = Some (n, rest) \<Longrightarrow> n < 256"
  by (auto simp: percent_byte_def split: list.splits bind_splits dest!: hex_value_small)

lemma byte_less [simp]: "byte b < 256"
  by (simp add: byte_def)

text \<open>No percent code hides a control character, a backslash or a slash.\<close>

lemma percent_decode_bytes_plain: "percent_decode_bytes s = Some t \<Longrightarrow> b \<in> set t \<Longrightarrow> \<not> hidden b"
proof (induction s arbitrary: t rule: percent_decode_bytes.induct)
  case (2 c cs)
  obtain n rest u where n: "(if c = CHR ''%'' then percent_byte (c # cs) else Some (byte c, cs)) = Some (n, rest)"
    "\<not> (n < 32 \<or> n = 127 \<or> n = 92)" "\<not> (c = CHR ''%'' \<and> n = 47)" "percent_decode_bytes rest = Some u" "t = char_of n # u"
    using "2.prems"(1) that by (cases "c = CHR ''%''") (auto split: option.splits prod.splits if_splits)
  have "n < 256" using n(1) percent_byte_small by (auto split: if_splits)
  moreover have "char_of n \<noteq> CHR 0x5C"
  proof
    assume e: "char_of n = CHR 0x5C"
    have "byte (char_of n) = 92" unfolding e by (simp add: byte_def)
    then show False using \<open>n < 256\<close> n(2) by (simp add: byte_char_of)
  qed
  ultimately have "\<not> hidden (char_of n)" using n(2) by (auto simp: hidden_def byte_char_of)
  with "2.IH" [OF n(1) refl n(2,3) n(4)] n(5) "2.prems"(2) show ?case by auto
qed simp

lemma percent_decode_plain:
  assumes "percent_decode_file_uri_path raw = Some p"
  shows "list_all (\<lambda>b. \<not> hidden b) p" and "valid_utf8 p" and "\<not> contains_sensitive_uri_parameter p"
    and "\<not> list_ex is_control (chars p)"
  using assms percent_decode_bytes_plain
  by (auto simp: percent_decode_file_uri_path_def list_all_iff split: option.splits if_splits)

section \<open>Components\<close>

definition steps :: "string list" where "steps = [''.'', ''..'']"

definition stays :: "string \<Rightarrow> bool" where
  "stays p \<longleftrightarrow> starts_with p ''/'' \<and> list_all (\<lambda>c. c \<notin> set steps) (snd (parse_path p))"

lemma parse_slash: "starts_with p ''/'' \<Longrightarrow> parse_path p = (True, split_when (\<lambda>b. b = CHR ''/'') (drop 1 p))"
  by (cases p) (auto simp: starts_with_def parse_path_def)

lemma windows_component_steps: "is_valid_windows_component c \<Longrightarrow> c \<notin> set steps"
  by (simp add: is_valid_windows_component_def steps_def)

lemma explicit_stays:
  "starts_with p ''/'' \<Longrightarrow> valid_explicit_uri_components (drop 1 p) w \<Longrightarrow> stays p"
  by (auto simp: stays_def parse_slash valid_explicit_uri_components_def list_all_iff steps_def Let_def)

lemma drive_stays:
  assumes "starts_with p ''/''" and "list_all (\<lambda>b. \<not> hidden b) p" and "is_valid_windows_drive_path (drop 1 p)"
  shows "stays p"
proof -
  obtain a q where p: "p = CHR ''/'' # a # CHR '':'' # CHR ''/'' # q" and a: "ascii_alphabetic a"
    and q: "valid_windows_path_components q 0"
  proof -
    have "3 \<le> length (drop 1 p)" using assms(3) unfolding is_valid_windows_drive_path_def by blast
    then have "4 \<le> length p" by simp
    then obtain s a c e q where p: "p = s # a # c # e # q"
      by (auto simp: Suc_le_length_iff eval_nat_numeral)
    then have "s = CHR ''/''" "c = CHR '':''" "ascii_alphabetic a" "e = CHR ''/'' \<or> e = CHR 0x5C"
      "valid_windows_path_components q 0"
      using assms(1,3) by (simp_all add: starts_with_def is_valid_windows_drive_path_def looks_like_windows_drive_path_def)
    moreover have "e \<noteq> CHR 0x5C" using assms(2) p by (auto simp: hidden_def)
    ultimately show thesis using that p by auto
  qed
  have slash: "split_when (\<lambda>b. b = CHR ''/'' \<or> b = CHR 0x5C) q = split_when (\<lambda>b. b = CHR ''/'') q"
    using assms(2) p by (intro split_when_cong) (auto simp: hidden_def list_all_iff)
  have "\<forall>c \<in> set (split_when (\<lambda>b. b = CHR ''/'') q). c \<notin> set steps"
    using q slash windows_component_steps
    by (cases "q = []") (auto simp: valid_windows_path_components_def Let_def list_all_iff steps_def)
  moreover have "a \<noteq> CHR ''/''" "a \<noteq> CHR ''.''" using a by (auto simp: ascii_alphabetic_def byte_def)
  ultimately show ?thesis
    using assms(1) p by (auto simp: stays_def parse_slash list_all_iff steps_def)
qed

lemma local_stays:
  "list_all (\<lambda>b. \<not> hidden b) p \<Longrightarrow> is_valid_local_file_uri_path p \<Longrightarrow> stays p"
  using drive_stays explicit_stays by (auto simp: is_valid_local_file_uri_path_def split: if_splits)

lemma unc_stays: "is_valid_file_uri_unc_path p \<Longrightarrow> stays p"
  using explicit_stays by (auto simp: is_valid_file_uri_unc_path_def)

section \<open>The path of a URI\<close>

text \<open>
  The path of a file URI as RFC 8089 has it: what follows the scheme or, when two slashes announce an
  authority, what follows that from its next slash on. Percent codes stand for bytes.
\<close>

definition uri_path :: "string \<Rightarrow> string" where
  "uri_path uri =
     (let rest = drop 5 uri
      in if take 2 rest = ''//'' then dropWhile (\<lambda>b. b \<noteq> CHR ''/'') (drop 2 rest) else rest)"

fun unescape :: "string \<Rightarrow> string" where
  "unescape (c # h # l # cs) =
     (case (hex_value h, hex_value l) of
        (Some m, Some n) \<Rightarrow> if c = CHR ''%'' then char_of (16 * m + n) # unescape cs else c # unescape (h # l # cs)
      | _ \<Rightarrow> c # unescape (h # l # cs))"
| "unescape (c # cs) = c # unescape cs"
| "unescape [] = []"

lemma unescape_plain: "c \<noteq> CHR ''%'' \<Longrightarrow> unescape (c # cs) = c # unescape cs"
  by (cases "c # cs" rule: unescape.cases) (auto split: option.split)

lemma percent_decode_bytes_unescape: "percent_decode_bytes s = Some t \<Longrightarrow> t = unescape s"
proof (induction s arbitrary: t rule: percent_decode_bytes.induct)
  case (2 c cs)
  obtain n rest u where n: "(if c = CHR ''%'' then percent_byte (c # cs) else Some (byte c, cs)) = Some (n, rest)"
    "\<not> (n < 32 \<or> n = 127 \<or> n = 92)" "\<not> (c = CHR ''%'' \<and> n = 47)" "percent_decode_bytes rest = Some u" "t = char_of n # u"
    using "2.prems" that by (cases "c = CHR ''%''") (auto split: option.splits prod.splits if_splits)
  note u = "2.IH" [OF n(1) refl n(2,3) n(4)]
  show ?case
  proof (cases "c = CHR ''%''")
    case True
    then obtain h l a b where "cs = h # l # rest" "hex_value h = Some a" "hex_value l = Some b" "n = a * 16 + b"
      using n(1) by (auto simp: percent_byte_def split: list.splits bind_splits)
    with True n(5) u show ?thesis by (simp add: mult.commute)
  next
    case False
    with n(1) have "char_of n = c" "rest = cs" by (auto simp: byte_def)
    with n(5) u False show ?thesis by (simp add: unescape_plain)
  qed
qed simp

lemma percent_decode_unescape: "percent_decode_file_uri_path raw = Some p \<Longrightarrow> p = unescape raw"
  by (auto simp: percent_decode_file_uri_path_def dest: percent_decode_bytes_unescape split: option.splits if_splits)

lemma find_slash: "find_str ''/'' s = Some n \<Longrightarrow> drop n s = dropWhile (\<lambda>b. b \<noteq> CHR ''/'') s"
  by (induction s arbitrary: n) (auto split: if_splits)

lemma take_starts: "take 2 s = ''//'' \<longleftrightarrow> starts_with s ''//''"
  by (cases s; cases "tl s") (auto simp: starts_with_def)

lemma accepted_path:
  assumes "is_valid_file_uri uri"
  shows "\<exists>p. percent_decode_file_uri_path (uri_path uri) = Some p \<and>
    (is_valid_local_file_uri_path p \<or> is_valid_file_uri_unc_path p)"
proof (cases "starts_with (drop 5 uri) ''//''")
  case True
  define h where "h = drop 2 (drop 5 uri)"
  have path: "uri_path uri = dropWhile (\<lambda>b. b \<noteq> CHR ''/'') h"
    using True by (simp only: uri_path_def Let_def take_starts h_def if_True)
  show ?thesis
  proof (cases "starts_with h ''/''")
    case local: True
    then have "uri_path uri = h" unfolding path by (cases h) (auto simp: starts_with_def)
    with assms True local show ?thesis
      by (auto simp: is_valid_file_uri_def h_def Let_def simp del: drop_drop split: if_splits option.splits)
  next
    case False
    with assms True obtain n where "find_str ''/'' h = Some n"
      by (auto simp: is_valid_file_uri_def h_def Let_def simp del: drop_drop split: if_splits option.splits)
    with assms True False path find_slash [OF this] show ?thesis
      by (auto simp: is_valid_file_uri_def h_def Let_def simp del: drop_drop split: if_splits option.splits)
  qed
next
  case False
  with assms show ?thesis
    by (auto simp: is_valid_file_uri_def uri_path_def Let_def take_starts simp del: drop_drop split: if_splits option.splits)
qed

section \<open>Properties\<close>

text \<open>
  C28. A file URI that is accepted as an attachment names with its whole path, percent codes decoded, an
  absolute path in which no component is a dot or two dots, no control character or backslash occurs and no
  secret is given as a parameter; so no percent code smuggles in a step to another directory.
\<close>

theorem accepted_file_uri_stays:
  assumes "is_stable_local_attachment_uri uri" and "starts_with (map ascii_lower uri) ''file:''"
  shows "stays (unescape (uri_path uri)) \<and> list_all (\<lambda>b. \<not> hidden b) (unescape (uri_path uri)) \<and>
    \<not> contains_sensitive_uri_parameter (unescape (uri_path uri))"
proof -
  have "is_valid_file_uri uri" using assms by (simp add: is_stable_local_attachment_uri_def split: if_splits)
  then obtain p where p: "percent_decode_file_uri_path (uri_path uri) = Some p"
    "is_valid_local_file_uri_path p \<or> is_valid_file_uri_unc_path p" using accepted_path by blast
  then have "stays p" using local_stays unc_stays percent_decode_plain(1) by blast
  with percent_decode_plain [OF p(1)] percent_decode_unescape [OF p(1)] show ?thesis by blast
qed

definition sample_uri :: string where "sample_uri = ''file:///a''"

lemma sample_plain:
  "\<not> list_ex is_control (chars ''file:///a'')" "\<not> list_ex is_control (chars ''/a'')"
  by (simp_all add: is_control_def utf8_len_def code_point_def byte_def)

lemma sample_secretless:
  "\<not> contains_sensitive_uri_parameter ''file:///a''" "\<not> contains_sensitive_uri_parameter ''/a''"
  by code_simp+

lemma sample_decoded: "percent_decode_file_uri_path ''/a'' = Some ''/a''"
proof -
  have "percent_decode_bytes ''/a'' = Some ''/a''" "valid_utf8 ''/a''" by code_simp+
  then show ?thesis
    by (simp add: percent_decode_file_uri_path_def sample_plain sample_secretless del: percent_decode_bytes.simps chars.simps)
qed

theorem accepted_file_uri_stays_witness:
  "unescape (uri_path sample_uri) = ''/a'' \<and> stays (unescape (uri_path sample_uri))"
proof -
  have local: "is_valid_local_file_uri_path ''/a''" and scheme: "starts_with (map ascii_lower ''file:///a'') ''file:''"
    by code_simp+
  have "is_valid_file_uri ''file:///a''"
    using sample_plain sample_decoded local
    by (simp add: is_valid_file_uri_def starts_with_def Let_def del: chars.simps)
  then have "is_stable_local_attachment_uri ''file:///a''"
    using sample_plain sample_secretless scheme by (simp add: is_stable_local_attachment_uri_def del: chars.simps)
  from accepted_file_uri_stays [OF this scheme] show ?thesis
    by (simp add: sample_uri_def) (simp add: uri_path_def)
qed

end
