(* ===== verification/Store_Chat.thy ===== *)
theory Store_Chat
  imports Store_Pool Attachments
begin

text \<open>
  The tables of \<^verbatim>\<open>store/db.rs\<close> around a chat session: sessions, messages, bindings to messengers,
  artifacts, usage of models, checkpoints, the audit log and plan snapshots. No foreign key joins them to
  the tables of pools. The clock and the fresh identifiers an operation reads are its arguments; a table is
  the list of its rows in the order of \<^verbatim>\<open>rowid\<close>; rows with equal sort keys come in table order.
\<close>

section \<open>Rows\<close>

record 't Session =
  se_id :: string
  se_title :: "string option"
  se_status :: string
  se_source :: string
  se_created_at :: 't
  se_updated_at :: 't
  se_message_count :: int
  se_rolling_summary :: string
  se_rolling_summary_version :: int
  se_total_input_tokens :: int
  se_total_output_tokens :: int
  se_last_compacted_at :: "'t option"
  se_workspace_root :: "string option"
  se_pinned_at :: "'t option"
  se_archived_at :: "'t option"
  se_pool_session_id :: "string option"
  se_policy_mode :: "string option"
  se_allow_outside_workspace :: "bool option"

record session_row = "stamp Session" +
  se_state_frame_json :: "string option"

record 't ChatMessage =
  cm_id :: string
  cm_session_id :: string
  cm_role :: string
  cm_content :: string
  cm_created_at :: 't
  cm_tool_calls_json :: "string option"
  cm_tool_results_json :: "string option"
  cm_turn_index :: "int option"
  cm_attachments_json :: "string option"

record AgentTurnMessage =
  am_role :: string
  am_content :: string
  am_tool_calls_json :: "string option"
  am_tool_results_json :: "string option"

record 't ImSessionBinding =
  im_binding_key :: string
  im_channel :: string
  im_external_conversation_key :: string
  im_session_id :: string
  im_peer_id :: string
  im_peer_name :: "string option"
  im_is_group :: bool
  im_group_name :: "string option"
  im_latest_reply_target :: string
  im_routing_state_json :: "string option"
  im_created_at :: 't
  im_updated_at :: 't
  im_last_inbound_at :: 't

record 't SessionArtifact =
  sa_id :: string
  sa_session_id :: string
  sa_name :: string
  sa_artifact_type :: string
  sa_uri :: "string option"
  sa_content_summary :: string
  sa_source_tool :: "string option"
  sa_tool_use_id :: "string option"
  sa_metadata_json :: "string option"
  sa_created_at :: 't

record usage_row =
  mu_session_id :: string
  mu_model :: string
  mu_input_tokens :: int
  mu_output_tokens :: int

record checkpoint_row =
  ck_id :: string
  ck_session_id :: string
  ck_iteration :: int
  ck_messages_json :: string
  ck_status :: string
  ck_created_at :: stamp
  ck_updated_at :: stamp

record 't AuditEntry =
  ae_id :: string
  ae_session_id :: string
  ae_timestamp :: 't
  ae_tool_name :: string
  ae_action :: string
  ae_input_summary :: "string option"
  ae_result_summary :: "string option"
  ae_is_error :: bool

record 't PlanSnapshot =
  sn_id :: string
  sn_session_id :: string
  sn_label :: string
  sn_items_json :: string
  sn_created_at :: 't

record chat_db =
  sessions :: "session_row list"
  messages :: "stamp ChatMessage list"
  im_session_bindings :: "stamp ImSessionBinding list"
  session_artifacts :: "stamp SessionArtifact list"
  model_usage :: "usage_row list"
  agent_checkpoints :: "checkpoint_row list"
  audit_log :: "stamp AuditEntry list"
  plan_snapshots :: "stamp PlanSnapshot list"

type_synonym 'a outcome = "(error + 'a) \<times> chat_db"

section \<open>Reading and writing rows\<close>

definition datetime_or_now :: "DateTime \<Rightarrow> stamp \<Rightarrow> DateTime" where
  "datetime_or_now now s = (case parse_datetime s of Some t \<Rightarrow> t | None \<Rightarrow> now)"

definition parse_optional_datetime :: "stamp option \<Rightarrow> DateTime option" where
  "parse_optional_datetime s = Option.bind s parse_datetime"

definition map_session_row :: "DateTime \<Rightarrow> session_row \<Rightarrow> DateTime Session" where
  "map_session_row now r = \<lparr>
     se_id = se_id r, se_title = se_title r, se_status = se_status r, se_source = se_source r,
     se_created_at = datetime_or_now now (se_created_at r), se_updated_at = datetime_or_now now (se_updated_at r),
     se_message_count = se_message_count r, se_rolling_summary = se_rolling_summary r,
     se_rolling_summary_version = se_rolling_summary_version r, se_total_input_tokens = se_total_input_tokens r,
     se_total_output_tokens = se_total_output_tokens r,
     se_last_compacted_at = parse_optional_datetime (se_last_compacted_at r), se_workspace_root = se_workspace_root r,
     se_pinned_at = parse_optional_datetime (se_pinned_at r), se_archived_at = parse_optional_datetime (se_archived_at r),
     se_pool_session_id = se_pool_session_id r, se_policy_mode = se_policy_mode r,
     se_allow_outside_workspace = se_allow_outside_workspace r\<rparr>"

definition map_message_row :: "DateTime \<Rightarrow> stamp ChatMessage \<Rightarrow> DateTime ChatMessage" where
  "map_message_row now r = \<lparr>
     cm_id = cm_id r, cm_session_id = cm_session_id r, cm_role = cm_role r, cm_content = cm_content r,
     cm_created_at = datetime_or_now now (cm_created_at r), cm_tool_calls_json = cm_tool_calls_json r,
     cm_tool_results_json = cm_tool_results_json r, cm_turn_index = cm_turn_index r,
     cm_attachments_json = cm_attachments_json r\<rparr>"

definition map_im_session_binding_row :: "DateTime \<Rightarrow> stamp ImSessionBinding \<Rightarrow> DateTime ImSessionBinding" where
  "map_im_session_binding_row now r = \<lparr>
     im_binding_key = im_binding_key r, im_channel = im_channel r,
     im_external_conversation_key = im_external_conversation_key r, im_session_id = im_session_id r,
     im_peer_id = im_peer_id r, im_peer_name = im_peer_name r, im_is_group = im_is_group r,
     im_group_name = im_group_name r, im_latest_reply_target = im_latest_reply_target r,
     im_routing_state_json = im_routing_state_json r, im_created_at = datetime_or_now now (im_created_at r),
     im_updated_at = datetime_or_now now (im_updated_at r),
     im_last_inbound_at = datetime_or_now now (im_last_inbound_at r)\<rparr>"

definition session_exists :: "chat_db \<Rightarrow> string \<Rightarrow> bool" where
  "session_exists d i \<longleftrightarrow> i \<in> set (map se_id (sessions d))"

definition update_session :: "string \<Rightarrow> (session_row \<Rightarrow> session_row) \<Rightarrow> chat_db \<Rightarrow> chat_db" where
  "update_session i f d = d\<lparr>sessions := update_rows (\<lambda>r. se_id r = i) f (sessions d)\<rparr>"

text \<open>\<^verbatim>\<open>LIMIT\<close> and \<^verbatim>\<open>OFFSET\<close>; a negative limit is none.\<close>

definition sql_page :: "int \<Rightarrow> int \<Rightarrow> 'a list \<Rightarrow> 'a list" where
  "sql_page limit offset xs = sql_limit limit (drop (nat offset) xs)"

section \<open>Sessions\<close>

definition new_session :: "string \<Rightarrow> string option \<Rightarrow> string \<Rightarrow> 't \<Rightarrow> 't Session" where
  "new_session i title source now = \<lparr>
     se_id = i, se_title = title, se_status = ''idle'', se_source = source, se_created_at = now, se_updated_at = now,
     se_message_count = 0, se_rolling_summary = [], se_rolling_summary_version = 0, se_total_input_tokens = 0,
     se_total_output_tokens = 0, se_last_compacted_at = None, se_workspace_root = None, se_pinned_at = None,
     se_archived_at = None, se_pool_session_id = None, se_policy_mode = None, se_allow_outside_workspace = None\<rparr>"

definition insert_session :: "string \<Rightarrow> string option \<Rightarrow> string \<Rightarrow> DateTime \<Rightarrow> chat_db \<Rightarrow> chat_db" where
  "insert_session i title source now d =
     d\<lparr>sessions := sessions d @ [Session.extend (new_session i title source (to_rfc3339 now)) \<lparr>se_state_frame_json = None\<rparr>]\<rparr>"

definition create_session_with_source ::
  "string option \<Rightarrow> string \<Rightarrow> string \<Rightarrow> DateTime \<Rightarrow> chat_db \<Rightarrow> DateTime Session outcome" where
  "create_session_with_source title source i now d =
     (if session_exists d i then (Inl UniqueFailed, d)
      else (Inr (new_session i title source now), insert_session i title source now d))"

definition create_session :: "string option \<Rightarrow> string \<Rightarrow> DateTime \<Rightarrow> chat_db \<Rightarrow> DateTime Session outcome" where
  "create_session title = create_session_with_source title ''chat''"

definition pin_session :: "string \<Rightarrow> DateTime \<Rightarrow> chat_db \<Rightarrow> chat_db" where
  "pin_session i now = update_session i (\<lambda>r. r\<lparr>se_pinned_at := Some (to_rfc3339 now), se_updated_at := to_rfc3339 now\<rparr>)"

definition unpin_session :: "string \<Rightarrow> DateTime \<Rightarrow> chat_db \<Rightarrow> chat_db" where
  "unpin_session i now = update_session i (\<lambda>r. r\<lparr>se_pinned_at := None, se_updated_at := to_rfc3339 now\<rparr>)"

definition archive_session :: "string \<Rightarrow> DateTime \<Rightarrow> chat_db \<Rightarrow> chat_db" where
  "archive_session i now = update_session i (\<lambda>r. r\<lparr>se_archived_at := Some (to_rfc3339 now), se_updated_at := to_rfc3339 now\<rparr>)"

definition restore_session :: "string \<Rightarrow> DateTime \<Rightarrow> chat_db \<Rightarrow> chat_db" where
  "restore_session i now = update_session i (\<lambda>r. r\<lparr>se_archived_at := None, se_updated_at := to_rfc3339 now\<rparr>)"

text \<open>\<^verbatim>\<open>NULL\<close> is smaller than every value, as \<^verbatim>\<open>None\<close> is.\<close>

definition list_archived_sessions :: "int \<Rightarrow> int \<Rightarrow> DateTime \<Rightarrow> chat_db \<Rightarrow> DateTime Session list" where
  "list_archived_sessions limit offset now d =
     map (map_session_row now) (sql_page limit offset
       (order_desc (\<lambda>r. the (se_archived_at r)) (filter (\<lambda>r. se_archived_at r \<noteq> None) (sessions d))))"

definition get_session :: "string \<Rightarrow> DateTime \<Rightarrow> chat_db \<Rightarrow> DateTime Session option" where
  "get_session i now d = map_option (map_session_row now) (find_row se_id i (sessions d))"

definition ensure_fixed_session ::
  "string \<Rightarrow> string \<Rightarrow> string \<Rightarrow> DateTime \<Rightarrow> chat_db \<Rightarrow> DateTime Session outcome" where
  "ensure_fixed_session session_id title source now d =
     (let d = (if session_exists d session_id then d else insert_session session_id (Some title) source now d)
      in case get_session session_id now d of
           Some s \<Rightarrow> (Inr s, d)
         | None \<Rightarrow> (Inl (Anyhow (''Session '' @ sq session_id @ '' missing after ensure'')), d))"

definition ensure_im_session ::
  "string \<Rightarrow> string \<Rightarrow> string \<Rightarrow> DateTime \<Rightarrow> chat_db \<Rightarrow> DateTime Session outcome" where
  "ensure_im_session = ensure_fixed_session"

text \<open>Pinned sessions come first, the one pinned last before the others.\<close>

definition list_sessions :: "int \<Rightarrow> int \<Rightarrow> DateTime \<Rightarrow> chat_db \<Rightarrow> DateTime Session list" where
  "list_sessions limit offset now d =
     (let rows = order_desc se_updated_at (filter (\<lambda>r. se_archived_at r = None) (sessions d));
          rows = order_desc (\<lambda>r. case se_pinned_at r of Some t \<Rightarrow> t | None \<Rightarrow> se_updated_at r) rows;
          rows = sort_key (\<lambda>r. if se_pinned_at r \<noteq> None then 0 else 1 :: nat) rows
      in map (map_session_row now) (sql_page limit offset rows))"

definition count_running_sessions :: "chat_db \<Rightarrow> nat" where
  "count_running_sessions d = count_rows (\<lambda>r. se_status r = ''running'') (sessions d)"

definition latest_activity :: "chat_db \<Rightarrow> stamp option" where
  "latest_activity d = (case map se_updated_at (sessions d) of [] \<Rightarrow> None | t # ts \<Rightarrow> Some (fold max ts t))"

text \<open>Whole hours between two times, towards zero.\<close>

definition num_hours :: "int \<Rightarrow> int" where
  "num_hours nanos = (let h = 3600000000000 in if 0 \<le> nanos then nanos div h else - (- nanos div h))"

definition is_system_idle_for_hours :: "nat \<Rightarrow> DateTime \<Rightarrow> chat_db \<Rightarrow> bool" where
  "is_system_idle_for_hours min_hours now d =
     (if 0 < count_running_sessions d then False
      else case latest_activity d of
             None \<Rightarrow> True
           | Some latest \<Rightarrow> int min_hours \<le> num_hours (now - datetime_or_now now latest))"

definition rename_session :: "string \<Rightarrow> string \<Rightarrow> DateTime \<Rightarrow> chat_db \<Rightarrow> chat_db" where
  "rename_session i title now = update_session i (\<lambda>r. r\<lparr>se_title := Some title, se_updated_at := to_rfc3339 now\<rparr>)"

definition set_session_workspace :: "string \<Rightarrow> string option \<Rightarrow> DateTime \<Rightarrow> chat_db \<Rightarrow> chat_db" where
  "set_session_workspace i root now = update_session i (\<lambda>r. r\<lparr>se_workspace_root := root, se_updated_at := to_rfc3339 now\<rparr>)"

definition set_session_pool_id :: "string \<Rightarrow> string option \<Rightarrow> DateTime \<Rightarrow> chat_db \<Rightarrow> chat_db" where
  "set_session_pool_id i pool now = update_session i (\<lambda>r. r\<lparr>se_pool_session_id := pool, se_updated_at := to_rfc3339 now\<rparr>)"

definition set_session_policy_mode :: "string \<Rightarrow> string option \<Rightarrow> DateTime \<Rightarrow> chat_db \<Rightarrow> chat_db" where
  "set_session_policy_mode i mode now = update_session i (\<lambda>r. r\<lparr>se_policy_mode := mode, se_updated_at := to_rfc3339 now\<rparr>)"

definition set_session_allow_outside_workspace :: "string \<Rightarrow> bool option \<Rightarrow> DateTime \<Rightarrow> chat_db \<Rightarrow> chat_db" where
  "set_session_allow_outside_workspace i allowed now =
     update_session i (\<lambda>r. r\<lparr>se_allow_outside_workspace := allowed, se_updated_at := to_rfc3339 now\<rparr>)"

definition update_session_status :: "string \<Rightarrow> string \<Rightarrow> DateTime \<Rightarrow> chat_db \<Rightarrow> chat_db" where
  "update_session_status i status now = update_session i (\<lambda>r. r\<lparr>se_status := status, se_updated_at := to_rfc3339 now\<rparr>)"

record SessionContextState =
  cx_session_id :: string
  cx_rolling_summary :: string
  cx_rolling_summary_version :: int
  cx_total_input_tokens :: int
  cx_total_output_tokens :: int
  cx_last_compacted_at :: "DateTime option"

definition get_session_context_state :: "string \<Rightarrow> chat_db \<Rightarrow> SessionContextState option" where
  "get_session_context_state i d = map_option (\<lambda>r. \<lparr>
     cx_session_id = se_id r, cx_rolling_summary = se_rolling_summary r,
     cx_rolling_summary_version = se_rolling_summary_version r, cx_total_input_tokens = se_total_input_tokens r,
     cx_total_output_tokens = se_total_output_tokens r,
     cx_last_compacted_at = parse_optional_datetime (se_last_compacted_at r)\<rparr>) (find_row se_id i (sessions d))"

definition update_session_usage_totals :: "string \<Rightarrow> nat \<Rightarrow> nat \<Rightarrow> chat_db \<Rightarrow> chat_db" where
  "update_session_usage_totals i input_delta output_delta = update_session i (\<lambda>r.
     r\<lparr>se_total_input_tokens := se_total_input_tokens r + int input_delta,
       se_total_output_tokens := se_total_output_tokens r + int output_delta\<rparr>)"

definition update_session_rolling_summary :: "string \<Rightarrow> string \<Rightarrow> int \<Rightarrow> DateTime \<Rightarrow> chat_db \<Rightarrow> chat_db" where
  "update_session_rolling_summary i summary version now = update_session i (\<lambda>r.
     r\<lparr>se_rolling_summary := summary, se_rolling_summary_version := version,
       se_last_compacted_at := Some (to_rfc3339 now), se_updated_at := to_rfc3339 now\<rparr>)"

definition get_session_state_frame_json :: "string \<Rightarrow> chat_db \<Rightarrow> string option" where
  "get_session_state_frame_json i d =
     (case Option.bind (find_row se_id i (sessions d)) se_state_frame_json of
        Some raw \<Rightarrow> if trim raw \<noteq> [] then Some raw else None
      | None \<Rightarrow> None)"

definition update_session_state_frame_json :: "string \<Rightarrow> string option \<Rightarrow> DateTime \<Rightarrow> chat_db \<Rightarrow> chat_db" where
  "update_session_state_frame_json i frame_json now =
     update_session i (\<lambda>r. r\<lparr>se_state_frame_json := frame_json, se_updated_at := to_rfc3339 now\<rparr>)"

text \<open>\<^verbatim>\<open>DELETE FROM sessions\<close> removes what refers to the session; usage of models has no foreign key.\<close>

definition delete_session :: "string \<Rightarrow> chat_db \<Rightarrow> chat_db" where
  "delete_session i d =
     d\<lparr>agent_checkpoints := filter (\<lambda>r. ck_session_id r \<noteq> i) (agent_checkpoints d),
       audit_log := filter (\<lambda>r. ae_session_id r \<noteq> i) (audit_log d),
       sessions := filter (\<lambda>r. se_id r \<noteq> i) (sessions d),
       messages := filter (\<lambda>r. cm_session_id r \<noteq> i) (messages d),
       im_session_bindings := filter (\<lambda>r. im_session_id r \<noteq> i) (im_session_bindings d),
       plan_snapshots := filter (\<lambda>r. sn_session_id r \<noteq> i) (plan_snapshots d),
       session_artifacts := filter (\<lambda>r. sa_session_id r \<noteq> i) (session_artifacts d)\<rparr>"

text \<open>Sessions that were running when the program stopped; the comparison is one of texts.\<close>

definition recover_stale_running_sessions :: "int \<Rightarrow> DateTime \<Rightarrow> chat_db \<Rightarrow> nat \<times> chat_db" where
  "recover_stale_running_sessions max_age_secs now d =
     (let stale = (\<lambda>r. se_status r = ''running'' \<and> stale_before now max_age_secs (se_updated_at r))
      in (count_rows stale (sessions d),
          d\<lparr>sessions := update_rows stale (\<lambda>r. r\<lparr>se_status := ''idle'', se_updated_at := sql_datetime_now now\<rparr>) (sessions d)\<rparr>))"

end
