(* ===== verification/Store_Messages.thy ===== *)
theory Store_Messages
  imports Store_Chat
begin

text \<open>
  Messages and what else hangs on a session: the rest of the session tables of \<^verbatim>\<open>store/db.rs\<close>, with the
  statement of \<^verbatim>\<open>migrate\<close> that removes duplicate messages whenever the database is opened.
\<close>

section \<open>Messages\<close>

text \<open>A transaction of inserts and the update of the counter: all or nothing.\<close>

definition insert_messages ::
  "string \<Rightarrow> stamp ChatMessage list \<Rightarrow> DateTime \<Rightarrow> chat_db \<Rightarrow> error + chat_db" where
  "insert_messages session_id rows now d =
     (if \<not> distinct (map cm_id (messages d @ rows)) then Inl UniqueFailed
      else if rows \<noteq> [] \<and> \<not> session_exists d session_id then Inl ForeignKeyFailed
      else Inr (update_session session_id
        (\<lambda>r. r\<lparr>se_message_count := se_message_count r + int (length rows), se_updated_at := to_rfc3339 now\<rparr>)
        (d\<lparr>messages := messages d @ rows\<rparr>)))"

definition new_message ::
  "string \<Rightarrow> string \<Rightarrow> string \<Rightarrow> string \<Rightarrow> string option \<Rightarrow> string option \<Rightarrow> int option \<Rightarrow> string option \<Rightarrow> 't \<Rightarrow> 't ChatMessage"
  where
  "new_message i session_id role content calls results turn attachments now = \<lparr>
     cm_id = i, cm_session_id = session_id, cm_role = role, cm_content = content, cm_created_at = now,
     cm_tool_calls_json = calls, cm_tool_results_json = results, cm_turn_index = turn,
     cm_attachments_json = attachments\<rparr>"

type_synonym decoder = "string \<Rightarrow> StoredAttachmentMetadata list option"

definition append_message_full_with_attachments ::
  "decoder \<Rightarrow> string \<Rightarrow> string \<Rightarrow> string \<Rightarrow> string option \<Rightarrow> string option \<Rightarrow> int option \<Rightarrow> string option \<Rightarrow>
   string \<Rightarrow> DateTime \<Rightarrow> chat_db \<Rightarrow> DateTime ChatMessage outcome" where
  "append_message_full_with_attachments decode session_id role content calls results turn attachments i now d =
     (case Option.bind attachments (validate_attachments_json decode) of
        Some err \<Rightarrow> (Inl (Anyhow err), d)
      | None \<Rightarrow>
          (case insert_messages session_id
                  [new_message i session_id role content calls results turn attachments (to_rfc3339 now)] now d of
             Inl e \<Rightarrow> (Inl e, d)
           | Inr d' \<Rightarrow> (Inr (new_message i session_id role content calls results turn attachments now), d')))"

definition append_message_with_attachments ::
  "decoder \<Rightarrow> string \<Rightarrow> string \<Rightarrow> string \<Rightarrow> string option \<Rightarrow> string \<Rightarrow> DateTime \<Rightarrow> chat_db \<Rightarrow>
   DateTime ChatMessage outcome" where
  "append_message_with_attachments decode session_id role content =
     append_message_full_with_attachments decode session_id role content None None None"

definition append_message ::
  "decoder \<Rightarrow> string \<Rightarrow> string \<Rightarrow> string \<Rightarrow> string \<Rightarrow> DateTime \<Rightarrow> chat_db \<Rightarrow> DateTime ChatMessage outcome" where
  "append_message decode session_id role content =
     append_message_with_attachments decode session_id role content None"

definition append_message_full ::
  "decoder \<Rightarrow> string \<Rightarrow> string \<Rightarrow> string \<Rightarrow> string option \<Rightarrow> string option \<Rightarrow> int option \<Rightarrow>
   string \<Rightarrow> DateTime \<Rightarrow> chat_db \<Rightarrow> DateTime ChatMessage outcome" where
  "append_message_full decode session_id role content calls results turn =
     append_message_full_with_attachments decode session_id role content calls results turn None"

text \<open>The rows of a turn of the agent; \<open>ids\<close> are the fresh identifiers, one for each.\<close>

definition turn_rows :: "string \<Rightarrow> int \<Rightarrow> AgentTurnMessage list \<Rightarrow> string list \<Rightarrow> 't \<Rightarrow> 't ChatMessage list" where
  "turn_rows session_id turn ms ids now =
     map (\<lambda>(m, i). new_message i session_id (am_role m) (am_content m) (am_tool_calls_json m) (am_tool_results_json m)
       (Some turn) None now) (zip ms ids)"

definition append_agent_turn_atomic ::
  "string \<Rightarrow> int \<Rightarrow> AgentTurnMessage list \<Rightarrow> string list \<Rightarrow> DateTime \<Rightarrow> chat_db \<Rightarrow> DateTime ChatMessage list outcome" where
  "append_agent_turn_atomic session_id turn ms ids now d =
     (if ms = [] then (Inr [], d)
      else case insert_messages session_id (turn_rows session_id turn ms ids (to_rfc3339 now)) now d of
             Inl e \<Rightarrow> (Inl e, d)
           | Inr d' \<Rightarrow> (Inr (turn_rows session_id turn ms ids now), d'))"

definition delete_messages_by_turn_index :: "string \<Rightarrow> int \<Rightarrow> chat_db \<Rightarrow> nat \<times> chat_db" where
  "delete_messages_by_turn_index session_id turn d =
     (let P = (\<lambda>r. cm_session_id r = session_id \<and> cm_turn_index r = Some turn)
      in (count_rows P (messages d), d\<lparr>messages := filter (\<lambda>r. \<not> P r) (messages d)\<rparr>))"

definition session_messages :: "string \<Rightarrow> chat_db \<Rightarrow> stamp ChatMessage list" where
  "session_messages session_id d = filter (\<lambda>r. cm_session_id r = session_id) (messages d)"

definition recompute_session_message_count :: "string \<Rightarrow> DateTime \<Rightarrow> chat_db \<Rightarrow> chat_db" where
  "recompute_session_message_count session_id now d =
     update_session session_id (\<lambda>r. r\<lparr>se_message_count := int (length (session_messages session_id d)),
       se_updated_at := to_rfc3339 now\<rparr>) d"

definition get_messages :: "string \<Rightarrow> int \<Rightarrow> int \<Rightarrow> DateTime \<Rightarrow> chat_db \<Rightarrow> DateTime ChatMessage list" where
  "get_messages session_id limit offset now d =
     map (map_message_row now) (sql_page limit offset (session_messages session_id d))"

definition get_messages_older :: "string \<Rightarrow> int \<Rightarrow> int \<Rightarrow> DateTime \<Rightarrow> chat_db \<Rightarrow> DateTime ChatMessage list" where
  "get_messages_older session_id limit offset now d =
     map (map_message_row now) (rev (sql_page limit offset (rev (session_messages session_id d))))"

definition get_messages_latest :: "string \<Rightarrow> int \<Rightarrow> DateTime \<Rightarrow> chat_db \<Rightarrow> DateTime ChatMessage list" where
  "get_messages_latest session_id limit now d =
     rev (map (map_message_row now) (sql_limit limit (rev (session_messages session_id d))))"

section \<open>Opening the database\<close>

text \<open>What two messages share that count as duplicates; a missing text counts as an empty one.\<close>

definition or_empty :: "string option \<Rightarrow> string" where
  "or_empty s = (case s of None \<Rightarrow> [] | Some t \<Rightarrow> t)"

definition message_key :: "'t ChatMessage \<Rightarrow> string \<times> string \<times> string \<times> string \<times> string \<times> string" where
  "message_key r = (cm_session_id r, cm_role r, cm_content r, or_empty (cm_tool_calls_json r),
     or_empty (cm_tool_results_json r), or_empty (cm_attachments_json r))"

fun first_of_each :: "('r \<Rightarrow> 'k) \<Rightarrow> 'k set \<Rightarrow> 'r list \<Rightarrow> 'r list" where
  "first_of_each key seen [] = []"
| "first_of_each key seen (r # rs) =
     (if key r \<in> seen then first_of_each key seen rs else r # first_of_each key (insert (key r) seen) rs)"

definition remove_duplicate_messages :: "chat_db \<Rightarrow> chat_db" where
  "remove_duplicate_messages d = d\<lparr>messages := first_of_each message_key {} (messages d)\<rparr>"

section \<open>Bindings to messengers\<close>

definition latest_binding ::
  "(stamp ImSessionBinding \<Rightarrow> bool) \<Rightarrow> DateTime \<Rightarrow> chat_db \<Rightarrow> DateTime ImSessionBinding option" where
  "latest_binding P now d =
     (case order_desc im_updated_at (filter P (im_session_bindings d)) of
        [] \<Rightarrow> None | r # rs \<Rightarrow> Some (map_im_session_binding_row now r))"

definition get_im_session_binding :: "string \<Rightarrow> DateTime \<Rightarrow> chat_db \<Rightarrow> DateTime ImSessionBinding option" where
  "get_im_session_binding binding_key now d =
     map_option (map_im_session_binding_row now) (find_row im_binding_key binding_key (im_session_bindings d))"

definition get_im_session_binding_by_session ::
  "string \<Rightarrow> string \<Rightarrow> DateTime \<Rightarrow> chat_db \<Rightarrow> DateTime ImSessionBinding option" where
  "get_im_session_binding_by_session session_id channel =
     latest_binding (\<lambda>r. im_session_id r = session_id \<and> im_channel r = channel)"

definition find_im_session_binding_for_channel_recipient ::
  "string \<Rightarrow> string \<Rightarrow> DateTime \<Rightarrow> chat_db \<Rightarrow> DateTime ImSessionBinding option" where
  "find_im_session_binding_for_channel_recipient channel recipient =
     latest_binding (\<lambda>r. im_channel r = channel \<and> (im_latest_reply_target r = recipient \<or> im_peer_id r = recipient))"

definition find_im_session_binding_for_session ::
  "string \<Rightarrow> DateTime \<Rightarrow> chat_db \<Rightarrow> DateTime ImSessionBinding option" where
  "find_im_session_binding_for_session session_id = latest_binding (\<lambda>r. im_session_id r = session_id)"

definition find_im_session_binding_for_pool ::
  "db \<Rightarrow> string \<Rightarrow> DateTime \<Rightarrow> chat_db \<Rightarrow> DateTime ImSessionBinding option" where
  "find_im_session_binding_for_pool pools pool_id now d =
     Option.bind (find_row ps_id pool_id (tb_pool_sessions pools)) (\<lambda>p.
       Option.bind (ps_origin_im_binding_key p) (\<lambda>k. get_im_session_binding k now d))"

definition list_im_session_bindings ::
  "string option \<Rightarrow> nat \<Rightarrow> DateTime \<Rightarrow> chat_db \<Rightarrow> DateTime ImSessionBinding list" where
  "list_im_session_bindings channel limit now d =
     map (map_im_session_binding_row now) (take (max limit 1) (order_desc im_updated_at
       (filter (\<lambda>r. case channel of None \<Rightarrow> True | Some c \<Rightarrow> im_channel r = c) (im_session_bindings d))))"

text \<open>The input has no times; they are filled in. An existing row keeps its creation time.\<close>

definition upsert_im_session_binding ::
  "unit ImSessionBinding \<Rightarrow> DateTime \<Rightarrow> chat_db \<Rightarrow> DateTime ImSessionBinding outcome" where
  "upsert_im_session_binding input now d =
     (let t = to_rfc3339 now;
          row = (\<lambda>created. \<lparr>
            im_binding_key = im_binding_key input, im_channel = im_channel input,
            im_external_conversation_key = im_external_conversation_key input, im_session_id = im_session_id input,
            im_peer_id = im_peer_id input, im_peer_name = im_peer_name input, im_is_group = im_is_group input,
            im_group_name = im_group_name input, im_latest_reply_target = im_latest_reply_target input,
            im_routing_state_json = im_routing_state_json input, im_created_at = created, im_updated_at = t,
            im_last_inbound_at = t\<rparr>);
          bindings = (if find_row im_binding_key (im_binding_key input) (im_session_bindings d) = None
            then im_session_bindings d @ [row t]
            else update_rows (\<lambda>r. im_binding_key r = im_binding_key input) (\<lambda>r. row (im_created_at r)) (im_session_bindings d))
      in if \<not> session_exists d (im_session_id input) then (Inl ForeignKeyFailed, d)
         else let d = d\<lparr>im_session_bindings := bindings\<rparr>
              in case get_im_session_binding (im_binding_key input) now d of
                   Some b \<Rightarrow> (Inr b, d)
                 | None \<Rightarrow>
                     (Inl (Anyhow (''IM session binding '' @ sq (im_binding_key input) @ '' missing after upsert'')), d))"

section \<open>Usage of models\<close>

definition add_model_usage :: "string \<Rightarrow> string \<Rightarrow> nat \<Rightarrow> nat \<Rightarrow> chat_db \<Rightarrow> chat_db" where
  "add_model_usage session_id model input_delta output_delta d =
     (let same = (\<lambda>r. mu_session_id r = session_id \<and> mu_model r = model)
      in if list_ex same (model_usage d) then
           d\<lparr>model_usage := update_rows same (\<lambda>r. r\<lparr>mu_input_tokens := mu_input_tokens r + int input_delta,
               mu_output_tokens := mu_output_tokens r + int output_delta\<rparr>) (model_usage d)\<rparr>
         else d\<lparr>model_usage := model_usage d @ [\<lparr>mu_session_id = session_id, mu_model = model,
             mu_input_tokens = int input_delta, mu_output_tokens = int output_delta\<rparr>]\<rparr>)"

record ModelUsageRow =
  mr_model :: string
  mr_input_tokens :: int
  mr_output_tokens :: int

definition session_model_usage :: "string \<Rightarrow> chat_db \<Rightarrow> ModelUsageRow list" where
  "session_model_usage session_id d =
     map (\<lambda>r. \<lparr>mr_model = mu_model r, mr_input_tokens = mu_input_tokens r, mr_output_tokens = mu_output_tokens r\<rparr>)
       (filter (\<lambda>r. mu_session_id r = session_id) (model_usage d))"

definition project_model_usage :: "chat_db \<Rightarrow> ModelUsageRow list" where
  "project_model_usage d =
     map (\<lambda>m. let rows = filter (\<lambda>r. mu_model r = m) (model_usage d)
       in \<lparr>mr_model = m, mr_input_tokens = sum_list (map mu_input_tokens rows),
           mr_output_tokens = sum_list (map mu_output_tokens rows)\<rparr>) (remdups (map mu_model (model_usage d)))"

section \<open>Artifacts\<close>

definition artifact_of ::
  "string \<Rightarrow> string \<Rightarrow> string \<Rightarrow> string \<Rightarrow> string option \<Rightarrow> string \<Rightarrow> string option \<Rightarrow> string option \<Rightarrow> string option \<Rightarrow>
   't \<Rightarrow> 't SessionArtifact" where
  "artifact_of i session_id name artifact_type uri content_summary source_tool tool_use_id metadata_json now =
     (let t = map ascii_lower (trim artifact_type)
      in \<lparr>sa_id = i, sa_session_id = session_id, sa_name = trim name,
          sa_artifact_type = (if t = [] then ''file'' else t), sa_uri = uri, sa_content_summary = trim content_summary,
          sa_source_tool = source_tool, sa_tool_use_id = tool_use_id, sa_metadata_json = metadata_json,
          sa_created_at = now\<rparr>)"

definition add_session_artifact ::
  "string \<Rightarrow> string \<Rightarrow> string \<Rightarrow> string option \<Rightarrow> string \<Rightarrow> string option \<Rightarrow> string option \<Rightarrow> string option \<Rightarrow>
   string \<Rightarrow> DateTime \<Rightarrow> chat_db \<Rightarrow> DateTime SessionArtifact outcome" where
  "add_session_artifact session_id name artifact_type uri content_summary source_tool tool_use_id metadata_json i now d =
     (if trim name = [] then (Inl (Anyhow ''artifact name is required''), d)
      else if get_session session_id now d = None then (Inl (Anyhow (''session '' @ sq session_id @ '' not found'')), d)
      else if i \<in> set (map sa_id (session_artifacts d)) then (Inl UniqueFailed, d)
      else let row = (\<lambda>t. artifact_of i session_id name artifact_type uri content_summary source_tool tool_use_id
             metadata_json t)
           in (Inr (row now),
               d\<lparr>session_artifacts := session_artifacts d @
                  [artifact_of i session_id name artifact_type uri content_summary source_tool tool_use_id metadata_json
                     (to_rfc3339 now)]\<rparr>))"

definition map_artifact_row :: "DateTime \<Rightarrow> stamp SessionArtifact \<Rightarrow> DateTime SessionArtifact" where
  "map_artifact_row now r = \<lparr>
     sa_id = sa_id r, sa_session_id = sa_session_id r, sa_name = sa_name r, sa_artifact_type = sa_artifact_type r,
     sa_uri = sa_uri r, sa_content_summary = sa_content_summary r, sa_source_tool = sa_source_tool r,
     sa_tool_use_id = sa_tool_use_id r, sa_metadata_json = sa_metadata_json r,
     sa_created_at = datetime_or_now now (sa_created_at r)\<rparr>"

definition list_session_artifacts :: "string \<Rightarrow> int \<Rightarrow> DateTime \<Rightarrow> chat_db \<Rightarrow> DateTime SessionArtifact list" where
  "list_session_artifacts session_id limit now d =
     map (map_artifact_row now) (take (nat (max limit 1))
       (rev (filter (\<lambda>r. sa_session_id r = session_id) (session_artifacts d))))"

definition list_all_artifacts :: "int \<Rightarrow> DateTime \<Rightarrow> chat_db \<Rightarrow> DateTime SessionArtifact list" where
  "list_all_artifacts limit now d = map (map_artifact_row now) (take (nat (max limit 1)) (rev (session_artifacts d)))"

section \<open>Checkpoints\<close>

definition upsert_checkpoint ::
  "string \<Rightarrow> nat \<Rightarrow> string \<Rightarrow> string \<Rightarrow> DateTime \<Rightarrow> chat_db \<Rightarrow> string outcome" where
  "upsert_checkpoint session_id iteration messages_json i now d =
     (let kept = filter (\<lambda>r. \<not> (ck_session_id r = session_id \<and> ck_status r = ''running'')) (agent_checkpoints d)
      in if i \<in> set (map ck_id kept) then (Inl UniqueFailed, d\<lparr>agent_checkpoints := kept\<rparr>)
         else (Inr i, d\<lparr>agent_checkpoints := kept @ [\<lparr>ck_id = i, ck_session_id = session_id, ck_iteration = int iteration,
             ck_messages_json = messages_json, ck_status = ''running'', ck_created_at = to_rfc3339 now,
             ck_updated_at = to_rfc3339 now\<rparr>]\<rparr>))"

definition finish_checkpoint :: "string \<Rightarrow> string \<Rightarrow> DateTime \<Rightarrow> chat_db \<Rightarrow> chat_db" where
  "finish_checkpoint session_id status now d =
     d\<lparr>agent_checkpoints := update_rows (\<lambda>r. ck_session_id r = session_id \<and> ck_status r = ''running'')
         (\<lambda>r. r\<lparr>ck_status := status, ck_updated_at := to_rfc3339 now\<rparr>) (agent_checkpoints d)\<rparr>"

definition load_checkpoint :: "string \<Rightarrow> chat_db \<Rightarrow> (int \<times> string) option" where
  "load_checkpoint session_id d =
     (case order_desc ck_updated_at
             (filter (\<lambda>r. ck_session_id r = session_id \<and> ck_status r = ''running'') (agent_checkpoints d)) of
        [] \<Rightarrow> None | r # rs \<Rightarrow> Some (ck_iteration r, ck_messages_json r))"

definition prune_checkpoints :: "int \<Rightarrow> DateTime \<Rightarrow> chat_db \<Rightarrow> nat \<times> chat_db" where
  "prune_checkpoints older_than_hours now d =
     (let old = (\<lambda>r. ck_created_at r < to_rfc3339 (now - older_than_hours * 3600000000000))
      in (count_rows old (agent_checkpoints d),
          d\<lparr>agent_checkpoints := filter (\<lambda>r. \<not> old r) (agent_checkpoints d)\<rparr>))"

section \<open>Audit log and plan snapshots\<close>

definition append_audit ::
  "string \<Rightarrow> string \<Rightarrow> string \<Rightarrow> string option \<Rightarrow> string option \<Rightarrow> bool \<Rightarrow> string \<Rightarrow> DateTime \<Rightarrow> chat_db \<Rightarrow> unit outcome" where
  "append_audit session_id tool action input_summary result_summary is_error i now d =
     (if i \<in> set (map ae_id (audit_log d)) then (Inl UniqueFailed, d)
      else (Inr (), d\<lparr>audit_log := audit_log d @ [\<lparr>ae_id = i, ae_session_id = session_id,
          ae_timestamp = to_rfc3339 now, ae_tool_name = tool, ae_action = action, ae_input_summary = input_summary,
          ae_result_summary = result_summary, ae_is_error = is_error\<rparr>]\<rparr>))"

definition map_audit_row :: "DateTime \<Rightarrow> stamp AuditEntry \<Rightarrow> DateTime AuditEntry" where
  "map_audit_row now r = \<lparr>ae_id = ae_id r, ae_session_id = ae_session_id r,
     ae_timestamp = datetime_or_now now (ae_timestamp r), ae_tool_name = ae_tool_name r, ae_action = ae_action r,
     ae_input_summary = ae_input_summary r, ae_result_summary = ae_result_summary r, ae_is_error = ae_is_error r\<rparr>"

definition get_audit_log ::
  "string option \<Rightarrow> string option \<Rightarrow> int \<Rightarrow> int \<Rightarrow> DateTime \<Rightarrow> chat_db \<Rightarrow> DateTime AuditEntry list" where
  "get_audit_log session_id tool limit offset now d =
     map (map_audit_row now) (sql_page limit offset (order_desc ae_timestamp (filter (\<lambda>r.
       (case session_id of None \<Rightarrow> True | Some s \<Rightarrow> ae_session_id r = s) \<and>
       (case tool of None \<Rightarrow> True | Some t \<Rightarrow> ae_tool_name r = t)) (audit_log d))))"

definition clear_audit_log :: "string option \<Rightarrow> chat_db \<Rightarrow> chat_db" where
  "clear_audit_log session_id d =
     d\<lparr>audit_log := (case session_id of None \<Rightarrow> [] | Some s \<Rightarrow> filter (\<lambda>r. ae_session_id r \<noteq> s) (audit_log d))\<rparr>"

definition insert_plan_snapshot ::
  "string \<Rightarrow> string \<Rightarrow> string \<Rightarrow> string \<Rightarrow> DateTime \<Rightarrow> chat_db \<Rightarrow> DateTime PlanSnapshot outcome" where
  "insert_plan_snapshot session_id label items_json i now d =
     (if i \<in> set (map sn_id (plan_snapshots d)) then (Inl UniqueFailed, d)
      else if \<not> session_exists d session_id then (Inl ForeignKeyFailed, d)
      else (Inr \<lparr>sn_id = i, sn_session_id = session_id, sn_label = label, sn_items_json = items_json, sn_created_at = now\<rparr>,
        d\<lparr>plan_snapshots := plan_snapshots d @ [\<lparr>sn_id = i, sn_session_id = session_id, sn_label = label,
          sn_items_json = items_json, sn_created_at = to_rfc3339 now\<rparr>]\<rparr>))"

definition list_plan_snapshots_for_session :: "string \<Rightarrow> int \<Rightarrow> DateTime \<Rightarrow> chat_db \<Rightarrow> DateTime PlanSnapshot list" where
  "list_plan_snapshots_for_session session_id limit now d =
     map (\<lambda>r. \<lparr>sn_id = sn_id r, sn_session_id = sn_session_id r, sn_label = sn_label r, sn_items_json = sn_items_json r,
         sn_created_at = datetime_or_now now (sn_created_at r)\<rparr>)
       (sql_limit limit (sort_key sn_created_at (filter (\<lambda>r. sn_session_id r = session_id) (plan_snapshots d))))"

definition activities :: "chat_db \<Rightarrow> (string \<times> stamp) list" where
  "activities d =
     map (\<lambda>r. (ae_session_id r, ae_timestamp r)) (audit_log d) @
     map (\<lambda>r. (sn_session_id r, sn_created_at r)) (plan_snapshots d) @
     map (\<lambda>r. (sa_session_id r, sa_created_at r)) (session_artifacts d)"

definition list_activity_session_ids :: "int \<Rightarrow> chat_db \<Rightarrow> string list" where
  "list_activity_session_ids limit d =
     (let acts = activities d;
          latest = (\<lambda>s. Max (set (map snd (filter (\<lambda>(i, t). i = s) acts))))
      in sql_limit limit (order_desc latest (remdups (map fst acts))))"

end
