(* ===== verification/Chats.thy ===== *)
theory Chats
  imports Store_Messages
begin

text \<open>
  The messages of a session: what every sequence of operations keeps, how the pages of a conversation fit
  together, and what opening the database again does to repeated messages.
\<close>

section \<open>Integrity\<close>

text \<open>
  Identifiers are unique, each message belongs to a session, no session counts fewer messages than it has,
  and one outside the set \<open>stale\<close> counts exactly those it has; stored attachments are valid.
\<close>

definition chat_ok :: "decoder \<Rightarrow> string set \<Rightarrow> chat_db \<Rightarrow> bool" where
  "chat_ok decode stale d \<longleftrightarrow>
     distinct (map se_id (sessions d)) \<and> distinct (map cm_id (messages d)) \<and>
     (\<forall>m \<in> set (messages d). session_exists d (cm_session_id m)) \<and>
     (\<forall>s \<in> set (sessions d). int (length (session_messages (se_id s) d)) \<le> se_message_count s \<and>
        (se_id s \<notin> stale \<longrightarrow> se_message_count s = int (length (session_messages (se_id s) d)))) \<and>
     (\<forall>m \<in> set (messages d). \<forall>a. cm_attachments_json m = Some a \<longrightarrow> validate_attachments_json decode a = None)"

lemma update_session_simps [simp]:
  "messages (update_session i f d) = messages d"
  "session_messages j (update_session i f d) = session_messages j d"
  by (simp_all add: update_session_def session_messages_def)

lemma session_exists_update [simp]:
  "(\<And>r. se_id (f r) = se_id r) \<Longrightarrow> session_exists (update_session i f d) j \<longleftrightarrow> session_exists d j"
  by (simp add: session_exists_def update_session_def map_key_update_rows)

text \<open>An update that keeps the identifier and the counter keeps integrity.\<close>

lemma chat_ok_update:
  assumes "\<And>r. se_id (f r) = se_id r" and "\<And>r. se_message_count (f r) = se_message_count r"
  shows "chat_ok decode stale d \<Longrightarrow> chat_ok decode stale (update_session i f d)"
  using assms by (auto simp: chat_ok_def update_session_def set_update_rows map_key_update_rows session_exists_def
      session_messages_def)

lemma insert_messages_ok:
  assumes "chat_ok decode stale d" and "insert_messages session_id rows now d = Inr d'"
    and "\<forall>m \<in> set rows. cm_session_id m = session_id"
    and "\<forall>m \<in> set rows. \<forall>a. cm_attachments_json m = Some a \<longrightarrow> validate_attachments_json decode a = None"
  shows "chat_ok decode stale d'"
    and "session_messages session_id d' = session_messages session_id d @ rows"
    and "j \<noteq> session_id \<Longrightarrow> session_messages j d' = session_messages j d"
proof -
  let ?f = "\<lambda>r. r\<lparr>se_message_count := se_message_count r + int (length rows), se_updated_at := to_rfc3339 now\<rparr>"
  have d': "d' = update_session session_id ?f (d\<lparr>messages := messages d @ rows\<rparr>)"
    and distinct: "distinct (map cm_id (messages d @ rows))" and ex: "m \<in> set rows \<Longrightarrow> session_exists d session_id" for m
    using assms(2) by (auto simp: insert_messages_def split: if_splits)
  have all: "filter (\<lambda>r. cm_session_id r = session_id) rows = rows" using assms(3) by (auto intro: filter_True)
  have none: "filter (\<lambda>r. cm_session_id r = j) rows = []" if "j \<noteq> session_id" for j
    using assms(3) that by (auto simp: filter_empty_conv)
  show mine: "session_messages session_id d' = session_messages session_id d @ rows"
    using all by (simp add: d' session_messages_def)
  show others: "j \<noteq> session_id \<Longrightarrow> session_messages j d' = session_messages j d" for j
    using none by (simp add: d' session_messages_def)
  have "\<forall>s \<in> set (sessions d'). int (length (session_messages (se_id s) d')) \<le> se_message_count s \<and>
      (se_id s \<notin> stale \<longrightarrow> se_message_count s = int (length (session_messages (se_id s) d')))"
    using assms(1) mine others by (auto simp: chat_ok_def d' update_session_def set_update_rows split: if_splits)
  moreover have "session_exists d' i \<longleftrightarrow> session_exists d i" for i
    by (simp add: d' session_exists_def update_session_def map_key_update_rows)
  moreover have "distinct (map se_id (sessions d'))"
    using assms(1) by (simp add: chat_ok_def d' update_session_def map_key_update_rows)
  moreover have "messages d' = messages d @ rows" by (simp add: d')
  ultimately show "chat_ok decode stale d'"
    using assms(1,3,4) distinct ex by (auto simp: chat_ok_def)
qed

lemma append_message_Inr:
  assumes "append_message_full_with_attachments decode s role content calls results turn attachments i now d = (Inr m, d')"
  shows "insert_messages s [new_message i s role content calls results turn attachments (to_rfc3339 now)] now d = Inr d'"
    and "\<forall>a. attachments = Some a \<longrightarrow> validate_attachments_json decode a = None"
  using assms by (auto simp: append_message_full_with_attachments_def split: option.splits sum.splits)

lemma append_message_Inl:
  "append_message_full_with_attachments decode s role content calls results turn attachments i now d = (Inl e, d') \<Longrightarrow> d' = d"
  by (auto simp: append_message_full_with_attachments_def split: option.splits sum.splits)

lemma append_message_ok:
  assumes "chat_ok decode stale d"
    and "append_message_full_with_attachments decode s role content calls results turn attachments i now d = (r, d')"
  shows "chat_ok decode stale d'"
proof (cases r)
  case (Inr m)
  note a = append_message_Inr [OF assms(2) [unfolded Inr]]
  show ?thesis by (rule insert_messages_ok(1) [OF assms(1) a(1)]) (use a(2) in \<open>simp_all add: new_message_def\<close>)
qed (use append_message_Inl assms in fastforce)

lemma append_turn_ok:
  assumes "chat_ok decode stale d" and "append_agent_turn_atomic s turn ms ids now d = (r, d')"
  shows "chat_ok decode stale d'"
proof -
  have rows: "\<forall>m \<in> set (turn_rows s turn ms ids t). cm_session_id m = s \<and> cm_attachments_json m = None" for t :: stamp
    by (auto simp: turn_rows_def new_message_def)
  from assms show ?thesis
    using insert_messages_ok(1) [OF assms(1)] rows
    by (auto simp: append_agent_turn_atomic_def split: if_splits sum.splits)
qed

lemma removal_ok:
  assumes "chat_ok decode stale d" and "\<And>r. r \<in> set (messages d) \<Longrightarrow> \<not> P r \<Longrightarrow> cm_session_id r \<in> touched"
  shows "chat_ok decode (stale \<union> touched) (d\<lparr>messages := filter P (messages d)\<rparr>)"
proof -
  let ?d = "d\<lparr>messages := filter P (messages d)\<rparr>"
  have sub: "session_messages j ?d = filter P (session_messages j d)" for j
    by (simp add: session_messages_def conj_commute)
  have le: "length (session_messages j ?d) \<le> length (session_messages j d)" for j
    unfolding sub by (rule length_filter_le)
  have same: "session_messages j ?d = session_messages j d" if "j \<notin> touched" for j
    unfolding sub using assms(2) that by (intro filter_True) (auto simp: session_messages_def)
  have "int (length (session_messages (se_id s) ?d)) \<le> se_message_count s \<and>
      (se_id s \<notin> stale \<union> touched \<longrightarrow> se_message_count s = int (length (session_messages (se_id s) ?d)))"
    if "s \<in> set (sessions d)" for s
    using assms(1) that le [of "se_id s"] same [of "se_id s"] by (fastforce simp: chat_ok_def)
  with assms(1) show ?thesis by (auto simp: chat_ok_def session_exists_def distinct_map_filter)
qed

lemma drop_turn_ok:
  assumes "chat_ok decode stale d"
  shows "chat_ok decode (insert s stale) (snd (delete_messages_by_turn_index s turn d))"
  using removal_ok [OF assms, of "\<lambda>r. \<not> (cm_session_id r = s \<and> cm_turn_index r = Some turn)" "{s}"]
  by (simp add: delete_messages_by_turn_index_def Let_def)

lemma recompute_ok:
  "chat_ok decode stale d \<Longrightarrow> chat_ok decode (stale - {s}) (recompute_session_message_count s now d)"
  by (auto simp: chat_ok_def recompute_session_message_count_def update_session_def set_update_rows
      map_key_update_rows session_exists_def session_messages_def)

lemma delete_session_ok: "chat_ok decode stale d \<Longrightarrow> chat_ok decode stale (delete_session i d)"
proof -
  assume ok: "chat_ok decode stale d"
  have "session_messages j (delete_session i d) = session_messages j d" if "j \<noteq> i" for j
    using that by (auto simp: delete_session_def session_messages_def intro!: filter_cong)
  with ok show ?thesis
    by (auto simp: chat_ok_def session_exists_def distinct_map_filter delete_session_def)
qed

lemma create_session_ok:
  assumes "chat_ok decode stale d" and "\<not> session_exists d i"
  shows "chat_ok decode stale (insert_session i title source now d)"
proof -
  have none: "session_messages i d = []" using assms by (auto simp: chat_ok_def session_messages_def filter_empty_conv)
  have same: "session_messages j (insert_session i title source now d) = session_messages j d" for j
    by (simp add: insert_session_def session_messages_def)
  have id: "se_id (Session.extend (new_session i title source t) \<lparr>se_state_frame_json = None\<rparr>) = i"
    "se_message_count (Session.extend (new_session i title source t) \<lparr>se_state_frame_json = None\<rparr>) = 0" for t
    by (simp_all add: new_session_def Session.extend_def)
  show ?thesis
    using assms none id by (auto simp: chat_ok_def same session_exists_def) (auto simp: insert_session_def id)
qed

lemma recover_ok: "chat_ok decode stale d \<Longrightarrow> chat_ok decode stale (snd (recover_stale_running_sessions age now d))"
  by (auto simp: chat_ok_def recover_stale_running_sessions_def Let_def set_update_rows map_key_update_rows
      session_exists_def session_messages_def)

section \<open>What happens to the sessions\<close>

text \<open>The operations on sessions and messages that leave the counters as good as they were.\<close>

inductive chat_op :: "decoder \<Rightarrow> chat_db \<Rightarrow> chat_db \<Rightarrow> bool" for decode where
  create: "chat_op decode d (snd (create_session_with_source title source i now d))"
| ensure: "chat_op decode d (snd (ensure_fixed_session i title source now d))"
| add: "chat_op decode d
    (snd (append_message_full_with_attachments decode s role content calls results turn attachments i now d))"
| turn: "chat_op decode d (snd (append_agent_turn_atomic s turn ms ids now d))"
| delete: "chat_op decode d (delete_session i d)"
| status: "chat_op decode d (update_session_status i status now d)"
| summary: "chat_op decode d (update_session_rolling_summary i text_of version now d)"
| frame: "chat_op decode d (update_session_state_frame_json i json now d)"
| usage: "chat_op decode d (update_session_usage_totals i input output d)"
| pin: "chat_op decode d (pin_session i now d)"
| unpin: "chat_op decode d (unpin_session i now d)"
| archive: "chat_op decode d (archive_session i now d)"
| restore: "chat_op decode d (restore_session i now d)"
| rename: "chat_op decode d (rename_session i title now d)"
| workspace: "chat_op decode d (set_session_workspace i root now d)"
| pool: "chat_op decode d (set_session_pool_id i p now d)"
| mode: "chat_op decode d (set_session_policy_mode i m now d)"
| outside: "chat_op decode d (set_session_allow_outside_workspace i allowed now d)"
| recover: "chat_op decode d (snd (recover_stale_running_sessions age now d))"

lemmas session_updates = update_session_status_def update_session_rolling_summary_def update_session_state_frame_json_def
  update_session_usage_totals_def pin_session_def unpin_session_def archive_session_def restore_session_def
  rename_session_def set_session_workspace_def set_session_pool_id_def set_session_policy_mode_def
  set_session_allow_outside_workspace_def

lemma chat_op_ok: "chat_op decode d d' \<Longrightarrow> chat_ok decode stale d \<Longrightarrow> chat_ok decode stale d'"
proof (induction rule: chat_op.cases)
  case (create d title source i now)
  then show ?case by (simp add: create_session_with_source_def create_session_ok)
next
  case (ensure d i title source now)
  then show ?case by (simp add: ensure_fixed_session_def Let_def create_session_ok split: option.splits)
next
  case (add d s role content calls results turn attachments i now)
  then show ?case using append_message_ok [OF _ surjective_pairing] by simp
next
  case (turn d s turn ms ids now)
  then show ?case using append_turn_ok [OF _ surjective_pairing] by simp
qed (simp_all add: session_updates chat_ok_update delete_session_ok recover_ok)

definition empty_chat :: chat_db where
  "empty_chat = \<lparr>sessions = [], messages = [], im_session_bindings = [], session_artifacts = [], model_usage = [],
     agent_checkpoints = [], audit_log = [], plan_snapshots = []\<rparr>"

lemma empty_chat_ok: "chat_ok decode stale empty_chat"
  by (simp add: chat_ok_def empty_chat_def)

section \<open>Pages\<close>

lemma take_rev_split: "rev (take k (rev xs)) = drop (length xs - k) xs"
  by (metis rev_rev_ident take_rev)

lemma older_then_latest:
  "rev (take l (drop k (rev xs))) @ rev (take k (rev xs)) = rev (take (k + l) (rev xs))"
  by (metis rev_append take_add)

section \<open>Duplicates\<close>

lemma first_of_each_seen: "key r \<in> seen \<Longrightarrow> r \<notin> set (first_of_each key seen rs)"
  by (induction rs arbitrary: seen) auto

lemma first_of_each_subset: "set (first_of_each key seen rs) \<subseteq> set rs"
  by (induction rs arbitrary: seen) auto

lemma distinct_first_of_each: "distinct rs \<Longrightarrow> distinct (first_of_each key seen rs)"
  using first_of_each_subset by (induction rs arbitrary: seen) fastforce+

lemma first_of_each_filter: "distinct xs \<Longrightarrow> first_of_each key seen xs = filter (\<lambda>x. x \<in> set (first_of_each key seen xs)) xs"
proof (induction xs arbitrary: seen)
  case (Cons x xs)
  have sub: "set (first_of_each key seen' xs) \<subseteq> set xs" for seen' by (rule first_of_each_subset)
  have "x \<notin> set xs" using Cons.prems by simp
  then have drop: "filter (\<lambda>y. y \<in> insert x (set (first_of_each key seen' xs))) xs = filter (\<lambda>y. y \<in> set (first_of_each key seen' xs)) xs" for seen'
    by (intro filter_cong) auto
  show ?case using Cons sub drop \<open>x \<notin> set xs\<close> by auto
qed simp

lemma first_of_each_later:
  "r \<in> set rs \<Longrightarrow> key r = key r' \<Longrightarrow> r' \<notin> set rs \<Longrightarrow> r' \<notin> set (first_of_each key seen (rs @ [r']))"
proof (induction rs arbitrary: seen)
  case (Cons a rs)
  show ?case
  proof (cases "r = a")
    case True
    then show ?thesis using Cons.prems first_of_each_seen [of key r' "insert (key a) seen" "rs @ [r']"]
        first_of_each_seen [of key r' seen "rs @ [r']"] by auto
  next
    case False
    with Cons show ?thesis by auto
  qed
qed simp

lemma reopening_ok:
  assumes "chat_ok decode stale d"
  shows "chat_ok decode UNIV (remove_duplicate_messages d)"
proof -
  have "distinct (messages d)" using assms by (simp add: chat_ok_def distinct_map)
  then have "remove_duplicate_messages d =
      d\<lparr>messages := filter (\<lambda>m. m \<in> set (first_of_each message_key {} (messages d))) (messages d)\<rparr>"
    by (simp add: remove_duplicate_messages_def flip: first_of_each_filter)
  then show ?thesis using removal_ok [OF assms, of _ UNIV] by simp
qed

text \<open>
  The sessions whose counters may be too high, next to the database: removing the messages of a turn does
  not correct the counter of its session, and opening the database may remove messages of any.
\<close>

inductive chat_step :: "decoder \<Rightarrow> chat_db \<times> string set \<Rightarrow> chat_db \<times> string set \<Rightarrow> bool" for decode where
  op: "chat_op decode d d' \<Longrightarrow> chat_step decode (d, stale) (d', stale)"
| drop_turn: "chat_step decode (d, stale) (snd (delete_messages_by_turn_index s turn d), insert s stale)"
| recompute: "chat_step decode (d, stale) (recompute_session_message_count s now d, stale - {s})"
| reopen: "chat_step decode (d, stale) (remove_duplicate_messages d, UNIV)"

lemma chat_step_ok: "chat_step decode (d, stale) (d', stale') \<Longrightarrow> chat_ok decode stale d \<Longrightarrow> chat_ok decode stale' d'"
  by (erule chat_step.cases) (auto intro: chat_op_ok drop_turn_ok recompute_ok reopening_ok)

section \<open>Properties\<close>

text \<open>
  C26. Whatever operations run on the sessions and their messages, in whatever order and with whatever
  result, reopening the database included: identifiers stay unique, every message belongs to a session,
  every attachment that was stored passes the validation, and no session counts fewer messages than it
  has. Its counter is exact unless messages of a turn were removed from it, or the database was opened
  again, and its counter was not computed anew since.
\<close>

theorem chats_keep_integrity:
  assumes "(chat_step decode)\<^sup>*\<^sup>* (d, stale) (d', stale')" and "chat_ok decode stale d"
  shows "chat_ok decode stale' d'"
  using assms by (induction rule: rtranclp_induct2) (auto intro: chat_step_ok)

theorem chats_keep_integrity_witness:
  "chat_ok (\<lambda>s. None) {''s''} (snd (delete_messages_by_turn_index ''s'' 1
     (snd (append_message (\<lambda>s. None) ''s'' ''user'' ''hello'' ''m'' 5
       (snd (create_session None ''s'' 4 empty_chat))))))"
proof -
  let ?d = "snd (create_session None ''s'' 4 empty_chat)"
  let ?e = "snd (append_message (\<lambda>s. None) ''s'' ''user'' ''hello'' ''m'' 5 ?d)"
  have "chat_step (\<lambda>s. None) (empty_chat, {}) (?d, {})"
    unfolding create_session_def by (intro chat_step.op chat_op.create)
  moreover have "chat_step (\<lambda>s. None) (?d, {}) (?e, {})"
    unfolding append_message_def append_message_with_attachments_def by (intro chat_step.op chat_op.add)
  moreover have "chat_step (\<lambda>s. None) (?e, {}) (snd (delete_messages_by_turn_index ''s'' 1 ?e), {''s''})"
    by (rule chat_step.drop_turn)
  ultimately have "(chat_step (\<lambda>s. None))\<^sup>*\<^sup>* (empty_chat, {}) (snd (delete_messages_by_turn_index ''s'' 1 ?e), {''s''})"
    by (rule rtranclp.rtrancl_into_rtrancl [OF rtranclp.rtrancl_into_rtrancl [OF r_into_rtranclp]])
  from chats_keep_integrity [OF this empty_chat_ok] show ?thesis .
qed

text \<open>
  Scrolling back shows the conversation without gaps or repetitions: the page of older messages, put
  before the latest ones, gives exactly the latest ones of the larger number, in order.
\<close>

theorem pages_fit_together:
  "get_messages_older s (int l) (int k) now d @ get_messages_latest s (int k) now d = get_messages_latest s (int (k + l)) now d"
  using older_then_latest [of l k "session_messages s d"]
  by (simp add: get_messages_older_def get_messages_latest_def sql_page_def sql_limit_def rev_map nat_int_add flip: map_append)

text \<open>
  Opening the database loses what was said twice. When a message without calls repeats an earlier one
  of its session in role and text, the statement that is meant to remove duplicates once, but runs at every
  start, deletes it, and the counter of the session goes on counting it.
\<close>

theorem reopening_drops_repeats:
  assumes "chat_ok decode {} d" and "append_message decode s role content i now d = (Inr m, d1)"
    and "append_message decode s role content j now' d1 = (Inr m', d2)"
  defines "d3 \<equiv> remove_duplicate_messages d2"
  shows "j \<in> set (map cm_id (messages d2)) \<and> j \<notin> set (map cm_id (messages d3)) \<and>
    (\<forall>r \<in> set (sessions d3). se_id r = s \<longrightarrow> int (length (session_messages s d3)) < se_message_count r)"
proof -
  define m1 m2 where "m1 = new_message i s role content None None None None (to_rfc3339 now)"
    and "m2 = new_message j s role content None None None None (to_rfc3339 now')"
  note defs = append_message_def append_message_with_attachments_def
  have a1: "insert_messages s [m1] now d = Inr d1" and a2: "insert_messages s [m2] now' d1 = Inr d2"
    using append_message_Inr(1) [OF assms(2) [unfolded defs]] append_message_Inr(1) [OF assms(3) [unfolded defs]]
    by (simp_all add: m1_def m2_def)
  have ok2: "chat_ok decode {} d2"
    using append_message_ok [OF append_message_ok [OF assms(1) assms(2) [unfolded defs]] assms(3) [unfolded defs]] .
  have ms: "messages d1 = messages d @ [m1]" "messages d2 = messages d1 @ [m2]"
    using a1 a2 by (auto simp: insert_messages_def split: if_splits)
  have fresh: "j \<notin> cm_id ` set (messages d1)" and id: "cm_id m2 = j"
    using a2 by (auto simp: insert_messages_def m2_def new_message_def split: if_splits)
  have key: "message_key m1 = message_key m2" by (simp add: message_key_def m1_def m2_def new_message_def)
  have "m1 \<in> set (messages d1)" "m2 \<notin> set (messages d1)" using ms(1) fresh id by auto
  then have gone: "m2 \<notin> set (messages d3)"
    using first_of_each_later [where key = message_key and r = m1 and r' = m2] key ms(2)
    by (simp add: d3_def remove_duplicate_messages_def)
  have sub: "set (messages d3) \<subseteq> set (messages d2)"
    unfolding d3_def remove_duplicate_messages_def using first_of_each_subset by fastforce
  have "j \<notin> cm_id ` set (messages d3)" using gone sub ms fresh id by auto
  moreover have "j \<in> cm_id ` set (messages d2)" using ms id by auto
  moreover have "int (length (session_messages s d3)) < se_message_count r" if "r \<in> set (sessions d3)" "se_id r = s" for r
  proof -
    have dm: "distinct (messages d2)" using ok2 by (simp add: chat_ok_def distinct_map)
    have in2: "m2 \<in> set (messages d2)" "cm_session_id m2 = s" using ms(2) by (simp_all add: m2_def new_message_def)
    have d2: "distinct (session_messages s d2)" "m2 \<in> set (session_messages s d2)"
      using dm in2 by (simp_all add: session_messages_def)
    have d3: "distinct (session_messages s d3)"
      using dm by (simp add: session_messages_def d3_def remove_duplicate_messages_def distinct_first_of_each)
    have "set (session_messages s d3) \<subset> set (session_messages s d2)"
      using sub gone d2(2) by (auto simp: session_messages_def)
    then have "card (set (session_messages s d3)) < card (set (session_messages s d2))" by (simp add: psubset_card_mono)
    then have "length (session_messages s d3) < length (session_messages s d2)"
      using d2(1) d3 by (simp add: distinct_card)
    with ok2 that show ?thesis by (simp add: chat_ok_def d3_def remove_duplicate_messages_def)
  qed
  ultimately show ?thesis by auto
qed

theorem reopening_drops_repeats_witness:
  "\<exists>d2. append_message (\<lambda>s. None) ''s'' ''user'' ''yes'' ''b'' 6 (snd (append_message (\<lambda>s. None) ''s'' ''user'' ''yes'' ''a'' 5
       (snd (create_session None ''s'' 4 empty_chat)))) =
     (Inr (new_message ''b'' ''s'' ''user'' ''yes'' None None None None 6), d2) \<and>
     ''b'' \<notin> set (map cm_id (messages (remove_duplicate_messages d2)))"
proof -
  let ?d = "snd (create_session None ''s'' 4 empty_chat)"
  have ok: "chat_ok (\<lambda>s. None) {} ?d"
    by (simp add: create_session_def create_session_with_source_def session_exists_def create_session_ok empty_chat_ok
        flip: session_exists_def)
  have 1: "append_message (\<lambda>s. None) ''s'' ''user'' ''yes'' ''a'' 5 ?d =
      (Inr (new_message ''a'' ''s'' ''user'' ''yes'' None None None None 5), snd (append_message (\<lambda>s. None) ''s'' ''user'' ''yes'' ''a'' 5 ?d))"
    by code_simp
  let ?d1 = "snd (append_message (\<lambda>s. None) ''s'' ''user'' ''yes'' ''a'' 5 ?d)"
  have 2: "append_message (\<lambda>s. None) ''s'' ''user'' ''yes'' ''b'' 6 ?d1 =
      (Inr (new_message ''b'' ''s'' ''user'' ''yes'' None None None None 6), snd (append_message (\<lambda>s. None) ''s'' ''user'' ''yes'' ''b'' 6 ?d1))"
    by code_simp
  from reopening_drops_repeats [OF ok 1 2] 2 show ?thesis by blast
qed

text \<open>
  A checkpoint that was written is the one that is read after a crash: loading the checkpoint of a
  session gives the iteration and the messages that were stored last, and no other session is affected.
\<close>

theorem checkpoint_roundtrip:
  assumes "upsert_checkpoint s iteration json i now d = (Inr i', d')"
  shows "load_checkpoint s d' = Some (int iteration, json) \<and> (\<forall>t. t \<noteq> s \<longrightarrow> load_checkpoint t d' = load_checkpoint t d)"
proof -
  define kept where "kept = filter (\<lambda>r. \<not> (ck_session_id r = s \<and> ck_status r = ''running'')) (agent_checkpoints d)"
  define row where "row = \<lparr>ck_id = i, ck_session_id = s, ck_iteration = int iteration, ck_messages_json = json,
    ck_status = ''running'', ck_created_at = to_rfc3339 now, ck_updated_at = to_rfc3339 now\<rparr>"
  have d': "agent_checkpoints d' = kept @ [row]"
    using assms by (auto simp: upsert_checkpoint_def kept_def row_def Let_def split: if_splits)
  have "filter (\<lambda>r. ck_session_id r = s \<and> ck_status r = ''running'') kept = []" by (auto simp: kept_def filter_empty_conv)
  then have "load_checkpoint s d' = Some (int iteration, json)" by (simp add: load_checkpoint_def d' row_def order_desc_def)
  moreover have "load_checkpoint t d' = load_checkpoint t d" if "t \<noteq> s" for t
  proof -
    have "filter (\<lambda>r. ck_session_id r = t \<and> ck_status r = ''running'') (kept @ [row]) =
        filter (\<lambda>r. ck_session_id r = t \<and> ck_status r = ''running'') (agent_checkpoints d)"
      using that by (auto simp: kept_def row_def intro: filter_cong)
    then show ?thesis by (simp add: load_checkpoint_def d')
  qed
  ultimately show ?thesis by blast
qed

theorem checkpoint_roundtrip_witness:
  "load_checkpoint ''s'' (snd (upsert_checkpoint ''s'' 3 ''log'' ''c'' 7 empty_chat)) = Some (3, ''log'')"
proof -
  have "upsert_checkpoint ''s'' 3 ''log'' ''c'' 7 empty_chat = (Inr ''c'', snd (upsert_checkpoint ''s'' 3 ''log'' ''c'' 7 empty_chat))"
    by (simp add: upsert_checkpoint_def empty_chat_def)
  from checkpoint_roundtrip [OF this] show ?thesis by simp
qed

end
