(* ===== verification/Store_Memory.thy ===== *)
theory Store_Memory
  imports Complex_Main Store_Chat
begin

text \<open>
  Memories of agents (\<^verbatim>\<open>store/db.rs\<close>): saving with the merge of similar ones, listing and searching.
  Confidences are reals, rounded by a parameter where the code adds; full-text search is a parameter that
  gives the matching rows, best first. Search by embeddings is not modelled.
\<close>

record 't Memory =
  me_id :: string
  me_content :: string
  me_category :: string
  me_confidence :: real
  me_source_session_id :: "string option"
  me_owner_id :: string
  me_scope_type :: string
  me_scope_id :: string
  me_project_scope_id :: "string option"
  me_kind :: string
  me_evidence_session_id :: "string option"
  me_evidence_tool_use_id :: "string option"
  me_last_seen_at :: "'t option"
  me_created_at :: 't
  me_updated_at :: 't

record memory_row = "stamp Memory" +
  me_embedding :: "string option"

record memory_db =
  memories :: "memory_row list"
  embedding_cache :: "(string \<times> string \<times> stamp) list"

record MemorySaveExtras =
  ex_kind :: "string option"
  ex_evidence_session_id :: "string option"
  ex_evidence_tool_use_id :: "string option"

definition default_memory_kind :: string where "default_memory_kind = ''fact''"

text \<open>
  Some statements do not select the last four columns; the row is then read with defaults for them.
\<close>

definition map_memory :: "bool \<Rightarrow> DateTime \<Rightarrow> memory_row \<Rightarrow> DateTime Memory" where
  "map_memory all_columns now r = \<lparr>
     me_id = me_id r, me_content = me_content r, me_category = me_category r, me_confidence = me_confidence r,
     me_source_session_id = me_source_session_id r, me_owner_id = me_owner_id r, me_scope_type = me_scope_type r,
     me_scope_id = me_scope_id r, me_project_scope_id = me_project_scope_id r,
     me_kind = (if all_columns then me_kind r else ''fact''),
     me_evidence_session_id = (if all_columns then me_evidence_session_id r else None),
     me_evidence_tool_use_id = (if all_columns then me_evidence_tool_use_id r else None),
     me_last_seen_at = (if all_columns then parse_optional_datetime (me_last_seen_at r) else None),
     me_created_at = datetime_or_now now (me_created_at r), me_updated_at = datetime_or_now now (me_updated_at r)\<rparr>"

definition by_confidence :: "memory_row list \<Rightarrow> memory_row list" where
  "by_confidence rs = order_desc me_confidence (order_desc me_updated_at rs)"

definition list_memories :: "DateTime \<Rightarrow> memory_db \<Rightarrow> DateTime Memory list" where
  "list_memories now d = map (map_memory True now) (by_confidence (memories d))"

definition list_memories_for_owner :: "string \<Rightarrow> DateTime \<Rightarrow> memory_db \<Rightarrow> DateTime Memory list" where
  "list_memories_for_owner owner now d =
     map (map_memory True now) (by_confidence (filter (\<lambda>r. me_owner_id r = owner) (memories d)))"

section \<open>Saving\<close>

text \<open>
  At least three fifths of all words of both are shared. The quotient the code compares is a double; for
  word counts below \<open>2 ^ 50\<close> it is at least the double \<open>0.6\<close> exactly when this holds.
\<close>

definition similar_words :: "string \<Rightarrow> string \<Rightarrow> bool" where
  "similar_words a b \<longleftrightarrow>
     (let x = set (split_whitespace a); y = set (split_whitespace b) in 3 * card (x \<union> y) \<le> 5 * card (x \<inter> y))"

definition find_similar_memory :: "string \<Rightarrow> string \<Rightarrow> string \<Rightarrow> DateTime \<Rightarrow> memory_db \<Rightarrow> DateTime Memory option" where
  "find_similar_memory content category owner now d =
     (let rows = take 50 (order_desc me_updated_at
            (filter (\<lambda>r. me_category r = category \<and> me_owner_id r = owner) (memories d)))
      in if split_whitespace content = [] then None
         else map_option (map_memory False now)
           (List.find (\<lambda>r. split_whitespace (me_content r) \<noteq> [] \<and> similar_words content (me_content r)) rows))"

definition update_memory :: "string \<Rightarrow> (memory_row \<Rightarrow> memory_row) \<Rightarrow> memory_db \<Rightarrow> memory_db" where
  "update_memory i f d = d\<lparr>memories := update_rows (\<lambda>r. me_id r = i) f (memories d)\<rparr>"

definition bumped :: "(real \<Rightarrow> real) \<Rightarrow> real \<Rightarrow> real \<Rightarrow> real" where
  "bumped f64 old new = max (min (f64 (old + 1 / 10)) 1) new"

definition save_memory_structured ::
  "(real \<Rightarrow> real) \<Rightarrow> string \<Rightarrow> string \<Rightarrow> real \<Rightarrow> string option \<Rightarrow> string \<Rightarrow> string \<Rightarrow> string \<Rightarrow> string option \<Rightarrow>
   MemorySaveExtras \<Rightarrow> string \<Rightarrow> DateTime \<Rightarrow> memory_db \<Rightarrow> (error + DateTime Memory) \<times> memory_db" where
  "save_memory_structured f64 content category confidence source owner scope_type scope_id project extras i now d =
     (let t = to_rfc3339 now
      in case find_similar_memory content category owner now d of
           Some old \<Rightarrow>
             let c = bumped f64 (me_confidence old) confidence; changed = me_content old \<noteq> content
             in (Inr (old\<lparr>me_content := content, me_category := category, me_confidence := c,
                   me_last_seen_at := Some now, me_updated_at := (if changed then now else me_updated_at old)\<rparr>),
                 update_memory (me_id old) (\<lambda>r.
                   if changed then r\<lparr>me_content := content, me_confidence := c, me_updated_at := t, me_last_seen_at := Some t\<rparr>
                   else r\<lparr>me_confidence := c, me_last_seen_at := Some t\<rparr>) d)
         | None \<Rightarrow>
             let kind = (case ex_kind extras of Some k \<Rightarrow> k | None \<Rightarrow> ''fact'');
                 row = (\<lambda>x. \<lparr>me_id = i, me_content = content, me_category = category, me_confidence = confidence,
                   me_source_session_id = source, me_owner_id = owner, me_scope_type = scope_type, me_scope_id = scope_id,
                   me_project_scope_id = project, me_kind = kind, me_evidence_session_id = ex_evidence_session_id extras,
                   me_evidence_tool_use_id = ex_evidence_tool_use_id extras, me_last_seen_at = Some x,
                   me_created_at = x, me_updated_at = x\<rparr>)
             in if i \<in> set (map me_id (memories d)) then (Inl UniqueFailed, d)
                else (Inr (\<lparr>me_id = i, me_content = content, me_category = category, me_confidence = confidence,
                   me_source_session_id = source, me_owner_id = owner, me_scope_type = scope_type, me_scope_id = scope_id,
                   me_project_scope_id = project, me_kind = kind, me_evidence_session_id = ex_evidence_session_id extras,
                   me_evidence_tool_use_id = ex_evidence_tool_use_id extras, me_last_seen_at = Some now,
                   me_created_at = now, me_updated_at = now\<rparr>),
                  d\<lparr>memories := memories d @ [Memory.extend (row t) \<lparr>me_embedding = None\<rparr>]\<rparr>))"

definition save_memory ::
  "(real \<Rightarrow> real) \<Rightarrow> string \<Rightarrow> string \<Rightarrow> real \<Rightarrow> string option \<Rightarrow> string \<Rightarrow> string \<Rightarrow> string \<Rightarrow> string option \<Rightarrow>
   string \<Rightarrow> DateTime \<Rightarrow> memory_db \<Rightarrow> (error + DateTime Memory) \<times> memory_db" where
  "save_memory f64 content category confidence source owner scope_type scope_id project =
     save_memory_structured f64 content category confidence source owner scope_type scope_id project
       \<lparr>ex_kind = None, ex_evidence_session_id = None, ex_evidence_tool_use_id = None\<rparr>"

definition delete_memory :: "string \<Rightarrow> memory_db \<Rightarrow> memory_db" where
  "delete_memory i d = d\<lparr>memories := filter (\<lambda>r. me_id r \<noteq> i) (memories d)\<rparr>"

definition clear_memories :: "memory_db \<Rightarrow> memory_db" where
  "clear_memories d = d\<lparr>memories := []\<rparr>"

definition count_memories_for_owner :: "string \<Rightarrow> memory_db \<Rightarrow> nat" where
  "count_memories_for_owner owner d = count_rows (\<lambda>r. me_owner_id r = owner) (memories d)"

section \<open>Embeddings\<close>

definition update_memory_embedding :: "string \<Rightarrow> string \<Rightarrow> memory_db \<Rightarrow> memory_db" where
  "update_memory_embedding i bytes = update_memory i (\<lambda>r. r\<lparr>me_embedding := Some bytes\<rparr>)"

definition save_embedding_cache :: "string \<Rightarrow> string \<Rightarrow> DateTime \<Rightarrow> memory_db \<Rightarrow> memory_db" where
  "save_embedding_cache hash bytes now d =
     d\<lparr>embedding_cache := filter (\<lambda>r. fst r \<noteq> hash) (embedding_cache d) @ [(hash, bytes, to_rfc3339 now)]\<rparr>"

definition get_embedding_cache :: "string \<Rightarrow> memory_db \<Rightarrow> string option" where
  "get_embedding_cache hash d = map_option (fst \<circ> snd) (find_row fst hash (embedding_cache d))"

section \<open>Searching\<close>

text \<open>The rows that match a query, best first.\<close>

type_synonym full_text = "string \<Rightarrow> memory_row list \<Rightarrow> memory_row list"

definition search_memories_fts :: "full_text \<Rightarrow> string \<Rightarrow> int \<Rightarrow> DateTime \<Rightarrow> memory_db \<Rightarrow> DateTime Memory list" where
  "search_memories_fts fts query_text limit now d =
     map (map_memory False now) (sql_limit limit (fts query_text (memories d)))"

definition search_layer ::
  "full_text \<Rightarrow> string \<Rightarrow> (memory_row \<Rightarrow> bool) \<Rightarrow> int \<Rightarrow> DateTime \<Rightarrow> memory_db \<Rightarrow> DateTime Memory list" where
  "search_layer fts query_text P limit now d =
     map (map_memory False now) (sql_limit limit (filter P (fts query_text (memories d))))"

text \<open>A later layer fills up what is left, without what was found before.\<close>

definition add_layer ::
  "full_text \<Rightarrow> string \<Rightarrow> (memory_row \<Rightarrow> bool) \<Rightarrow> int \<Rightarrow> DateTime \<Rightarrow> memory_db \<Rightarrow> DateTime Memory list \<Rightarrow>
   DateTime Memory list" where
  "add_layer fts query_text P limit now d results =
     (let remaining = max (limit - int (length results)) 0
      in if 0 < remaining then
           results @ filter (\<lambda>m. me_id m \<notin> me_id ` set results) (search_layer fts query_text P remaining now d)
         else results)"

definition search_memories_scoped ::
  "full_text \<Rightarrow> string \<Rightarrow> string \<Rightarrow> string option \<Rightarrow> int \<Rightarrow> DateTime \<Rightarrow> memory_db \<Rightarrow> DateTime Memory list" where
  "search_memories_scoped fts query_text owner pool limit now d =
     (let private = (\<lambda>project r. me_owner_id r = owner \<and> me_scope_type r = ''private'' \<and> me_project_scope_id r = project);
          results = (case pool of None \<Rightarrow> [] | Some p \<Rightarrow> search_layer fts query_text (private (Some p)) limit now d);
          results = add_layer fts query_text (private None) limit now d results;
          results = (case pool of None \<Rightarrow> results | Some p \<Rightarrow>
            add_layer fts query_text (\<lambda>r. me_scope_type r = ''project'' \<and> me_scope_id r = p) limit now d results);
          results = add_layer fts query_text (\<lambda>r. me_scope_type r = ''global'') limit now d results
      in if limit < 0 then results else take (nat limit) results)"

end
