(* ===== verification/Memories.thy ===== *)
theory Memories
  imports Store_Memory
begin

text \<open>Who sees which memory, and what saving one does to the others.\<close>

section \<open>Searching\<close>

definition visible :: "string \<Rightarrow> string option \<Rightarrow> memory_row \<Rightarrow> bool" where
  "visible owner pool r \<longleftrightarrow>
     me_owner_id r = owner \<and> me_scope_type r = ''private'' \<and>
       (me_project_scope_id r = None \<or> pool \<noteq> None \<and> me_project_scope_id r = pool) \<or>
     (\<exists>p. pool = Some p \<and> me_scope_type r = ''project'' \<and> me_scope_id r = p) \<or> me_scope_type r = ''global''"

definition selects :: "(memory_row \<Rightarrow> bool) \<Rightarrow> DateTime \<Rightarrow> memory_db \<Rightarrow> DateTime Memory list \<Rightarrow> bool" where
  "selects P now d ms \<longleftrightarrow> (\<forall>m \<in> set ms. \<exists>r \<in> set (memories d). P r \<and> m = map_memory False now r) \<and> distinct (map me_id ms)"

text \<open>A full-text index finds rows of the table, each at most once.\<close>

definition finds_rows :: "full_text \<Rightarrow> memory_db \<Rightarrow> bool" where
  "finds_rows fts d \<longleftrightarrow> (\<forall>q. set (fts q (memories d)) \<subseteq> set (memories d) \<and> distinct (map me_id (fts q (memories d))))"

lemma map_memory_id [simp]: "me_id (map_memory a now r) = me_id r"
  by (simp add: map_memory_def)

lemma sql_limit_sublist: "set (sql_limit n xs) \<subseteq> set xs" "distinct xs \<Longrightarrow> distinct (sql_limit n xs)"
  by (auto simp: sql_limit_def dest: in_set_takeD)

lemma sql_limit_map: "map f (sql_limit n xs) = sql_limit n (map f xs)"
  by (simp add: sql_limit_def take_map)

lemma search_layer_selects: "finds_rows fts d \<Longrightarrow> selects P now d (search_layer fts q P n now d)"
proof -
  assume f: "finds_rows fts d"
  then have "set (sql_limit n (filter P (fts q (memories d)))) \<subseteq> {r \<in> set (memories d). P r}"
    using sql_limit_sublist(1) [of n "filter P (fts q (memories d))"] by (auto simp: finds_rows_def)
  moreover have "distinct (map me_id (sql_limit n (filter P (fts q (memories d)))))"
    using f by (simp add: sql_limit_map sql_limit_sublist(2) distinct_map_filter finds_rows_def)
  ultimately show ?thesis by (auto simp: selects_def search_layer_def comp_def)
qed

lemma selects_weaken: "selects P now d ms \<Longrightarrow> (\<And>r. P r \<Longrightarrow> Q r) \<Longrightarrow> selects Q now d ms"
  by (fastforce simp: selects_def)

lemma selects_append:
  assumes "selects Q now d ms" and "selects Q now d ns"
  shows "selects Q now d (ms @ filter (\<lambda>m. me_id m \<notin> me_id ` set ms) ns)"
proof -
  have "distinct (map me_id (ms @ filter (\<lambda>m. me_id m \<notin> me_id ` set ms) ns))"
  proof -
    let ?new = "filter (\<lambda>m. me_id m \<notin> me_id ` set ms) ns"
    have "me_id ` set ms \<inter> me_id ` set ?new = {}" by (auto intro: rev_image_eqI)
    with assms show ?thesis by (simp add: selects_def distinct_map_filter)
  qed
  with assms show ?thesis by (auto simp: selects_def)
qed

lemma add_layer_selects:
  assumes "finds_rows fts d" and "selects Q now d ms" and "\<And>r. P r \<Longrightarrow> Q r"
  shows "selects Q now d (add_layer fts q P n now d ms)"
proof -
  have "selects Q now d (search_layer fts q P k now d)" for k
    using selects_weaken [OF search_layer_selects [OF assms(1)]] assms(3) by blast
  then show ?thesis using assms(2) by (simp add: add_layer_def Let_def selects_append)
qed

lemma selects_take: "selects Q now d ms \<Longrightarrow> selects Q now d (take n ms)"
  by (auto simp: selects_def take_map [symmetric] dest: in_set_takeD)

section \<open>Properties\<close>

text \<open>
  C27. A scoped search returns only what its caller may see: own private memories of the current project or of
  none, memories shared in that project, and global ones; none twice, and no more than the limit.
\<close>

theorem search_sees_only_visible:
  assumes "finds_rows fts d" and "0 \<le> limit"
  shows "(\<forall>m \<in> set (search_memories_scoped fts q owner pool limit now d).
      \<exists>r \<in> set (memories d). visible owner pool r \<and> m = map_memory False now r) \<and>
    distinct (map me_id (search_memories_scoped fts q owner pool limit now d)) \<and>
    int (length (search_memories_scoped fts q owner pool limit now d)) \<le> limit"
proof -
  note first = selects_weaken [OF search_layer_selects [OF assms(1)]]
  have "selects (visible owner pool) now d (search_memories_scoped fts q owner pool limit now d)"
  proof (cases pool)
    case None
    have "selects (visible owner pool) now d []" by (simp add: selects_def)
    with None assms(2) show ?thesis
      by (simp add: search_memories_scoped_def Let_def not_less del: max.absorb1)
        (intro selects_take add_layer_selects [OF assms(1)]; simp add: visible_def)
  next
    case (Some p)
    with assms(2) show ?thesis
      by (simp add: search_memories_scoped_def Let_def not_less)
        (intro selects_take add_layer_selects [OF assms(1)] first; simp add: visible_def)
  qed
  moreover have "int (length (search_memories_scoped fts q owner pool limit now d)) \<le> limit"
    using assms(2) by (simp add: search_memories_scoped_def Let_def split: option.splits)
  ultimately show ?thesis by (auto simp: selects_def)
qed

text \<open>
  Merging similar memories ignores who may see them. When the memory that a new one is merged into is
  shared in a project, a private memory of its owner takes its place there: no row is added, the shared row
  holds the private text, and every other row stays as it was.
\<close>

theorem private_memory_becomes_shared:
  assumes "distinct (map me_id (memories d))" and "r \<in> set (memories d)" and "me_scope_type r = ''project''"
    and "find_similar_memory content category owner now d = Some (map_memory False now r)"
    and "save_memory f64 content category c source owner ''private'' owner project i now d = (res, d')"
  shows "\<exists>r'. set (memories d') = insert r' (set (memories d) - {r}) \<and> length (memories d') = length (memories d) \<and>
    me_content r' = content \<and> me_scope_type r' = ''project'' \<and> me_scope_id r' = me_scope_id r \<and> me_id r' = me_id r"
proof -
  let ?t = "to_rfc3339 now"
  define f where "f = (\<lambda>x :: memory_row. if me_content r \<noteq> content
    then x\<lparr>me_content := content, me_confidence := bumped f64 (me_confidence r) c, me_updated_at := ?t, me_last_seen_at := Some ?t\<rparr>
    else x\<lparr>me_confidence := bumped f64 (me_confidence r) c, me_last_seen_at := Some ?t\<rparr>)"
  have d': "memories d' = update_rows (\<lambda>x. me_id x = me_id r) f (memories d)"
    using assms(4,5)
    by (auto simp: save_memory_def save_memory_structured_def Let_def update_memory_def f_def map_memory_def)
  have only: "x = r" if "x \<in> set (memories d)" "me_id x = me_id r" for x
    using assms(1,2) that by (auto simp: distinct_map dest: inj_onD)
  have "set (memories d') = insert (f r) (set (memories d) - {r})"
  proof -
    let ?g = "\<lambda>x. if me_id x = me_id r then f x else x"
    have "?g x = x" if "x \<in> set (memories d) - {r}" for x using only that by auto
    then have rest: "?g ` (set (memories d) - {r}) = set (memories d) - {r}" by simp
    have "insert r (set (memories d) - {r}) = set (memories d)" using assms(2) by blast
    with image_insert [of ?g r "set (memories d) - {r}"] rest show ?thesis by (simp only: d' set_update_rows refl if_True)
  qed
  moreover have "length (memories d') = length (memories d)" by (simp add: d' update_rows_def)
  moreover have "me_content (f r) = content" "me_scope_type (f r) = ''project''" "me_scope_id (f r) = me_scope_id r" "me_id (f r) = me_id r"
    using assms(3) by (auto simp: f_def)
  ultimately show ?thesis by (intro exI conjI)
qed

definition shared_row :: memory_row where
  "shared_row = \<lparr>me_id = ''m'', me_content = ''deploy on monday'', me_category = ''plan'', me_confidence = 0,
     me_source_session_id = None, me_owner_id = ''k'', me_scope_type = ''project'', me_scope_id = ''p'',
     me_project_scope_id = None, me_kind = ''fact'', me_evidence_session_id = None, me_evidence_tool_use_id = None,
     me_last_seen_at = None, me_created_at = to_rfc3339 1, me_updated_at = to_rfc3339 1, me_embedding = None\<rparr>"

definition shared_db :: memory_db where
  "shared_db = \<lparr>memories = [shared_row], embedding_cache = []\<rparr>"

lemma shared_similar:
  "find_similar_memory ''deploy on monday secretly'' ''plan'' ''k'' 5 shared_db = Some (map_memory False 5 shared_row)"
proof -
  have "split_whitespace ''deploy on monday secretly'' = [''deploy'', ''on'', ''monday'', ''secretly'']"
    "split_whitespace ''deploy on monday'' = [''deploy'', ''on'', ''monday'']"
    by (simp_all add: split_whitespace_def utf8_len_def is_whitespace_ascii byte_def ascii_ws_def)
  then show ?thesis
    by (simp add: find_similar_memory_def shared_db_def shared_row_def order_desc_def similar_words_def insert_commute)
qed

theorem private_memory_becomes_shared_witness:
  "\<exists>r'. set (memories (snd (save_memory (\<lambda>c. c) ''deploy on monday secretly'' ''plan'' 0 None ''k'' ''private'' ''k'' None ''n'' 5
      shared_db))) = {r'} \<and> me_content r' = ''deploy on monday secretly'' \<and> me_scope_type r' = ''project''"
proof -
  have "distinct (map me_id (memories shared_db))" "shared_row \<in> set (memories shared_db)" "me_scope_type shared_row = ''project''"
    by (simp_all add: shared_db_def shared_row_def)
  note h = private_memory_becomes_shared [OF this shared_similar surjective_pairing]
  from h [of "\<lambda>c. c" 0 None None "''n''"] show ?thesis by (auto simp: shared_db_def)
qed

theorem search_sees_only_visible_witness:
  "list_all (\<lambda>m. m = map_memory False 5 shared_row)
     (search_memories_scoped (\<lambda>q rs. rs) ''monday'' ''x'' (Some ''p'') 10 5 shared_db)"
proof -
  have f: "finds_rows (\<lambda>q rs. rs) shared_db" by (simp add: finds_rows_def shared_db_def)
  show ?thesis
    using search_sees_only_visible [OF f, of 10 "''monday''" "''x''" "Some ''p''" 5] by (auto simp: list_all_iff shared_db_def)
qed

end
