(* ===== verification/Heartbeat.thy ===== *)
theory Heartbeat
  imports Project_State
begin

text \<open>
  \<^verbatim>\<open>piscis-core/src/heartbeat.rs\<close>: what a patrol of Piscis looks at in a pool, and the texts it is given.
\<close>

section \<open>Attention\<close>

record PoolAttention =
  at_pool_id :: string
  at_pool_name :: string
  at_latest_message_id :: int
  at_session_id :: string
  at_summary :: string
  at_assessment :: ProjectAssessment
  at_org_spec_excerpt :: "string option"

definition assessment_requires_coordination :: "ProjectAssessment \<Rightarrow> bool" where
  "assessment_requires_coordination a \<longleftrightarrow>
     pa_decision a \<noteq> Continue \<or> 0 < pa_needs_review_count a \<or> 0 < pa_blocked_todo_count a"

definition is_heartbeat_ack_only :: "string \<Rightarrow> bool" where
  "is_heartbeat_ack_only response =
     (let trimmed = trim response; lower = to_lowercase trimmed
      in if trimmed = [] then True
         else count_chars trimmed \<le> 240 \<and>
           (contains lower ''heartbeat_ok'' \<or>
            contains lower [CHR 0xE6, CHR 0x97, CHR 0xA0, CHR 0xE9, CHR 0x9C, CHR 0x80, CHR 0xE5, CHR 0xB9, CHR 0xB2, CHR 0xE9, CHR 0xA2, CHR 0x84] \<or>
            contains lower ''no intervention'' \<or> contains lower ''no change''))"

fun decision_str :: "ProjectDecision \<Rightarrow> string" where
  "decision_str Continue = ''Continue''"
| "decision_str SupervisorDecisionRequired = ''SupervisorDecisionRequired''"
| "decision_str EscalateToHuman = ''EscalateToHuman''"
| "decision_str ReadyForPiscisReview = ''ReadyForPiscisReview''"

definition build_heartbeat_coordination_gap_notice :: "PoolAttention \<Rightarrow> string" where
  "build_heartbeat_coordination_gap_notice attention =
     (let a = at_assessment attention;
          reasons = (if pa_attention_reasons a = [] then pa_summary a else join ''; '' (pa_attention_reasons a))
      in (''[Heartbeat patrol '' @ [CHR 0xC2, CHR 0xB7] @ '' state trigger]'') @ [CHR 0x0A] @
         ''Decision: '' @ decision_str (pa_decision a) @ [CHR 0x0A] @
         ''Assessment: '' @ pa_summary a @ [CHR 0x0A] @
         ''Attention: '' @ reasons @ [CHR 0x0A] @
         (''This note was posted because the heartbeat turn did not produce any new Piscis pool activity. '' @
         ''Compare org_spec against board evidence and coordinate via pool_org (post_status / create_todo / '' @
         ''assign_koi) as appropriate.''))"

definition preview_chars :: "string \<Rightarrow> nat \<Rightarrow> string" where
  "preview_chars content max_chars =
     (if count_chars content \<le> max_chars then content else take_chars max_chars content @ ''...'')"

definition ATTENTION_EVENTS :: "string list" where
  "ATTENTION_EVENTS =
     [''task_completed'', ''task_failed'', ''task_claimed'', ''task_blocked'', ''task_cancelled'',
      ''protocol_reminder'', ''task_progress'']"

definition is_attention_event :: "PoolMessage \<Rightarrow> string list \<Rightarrow> bool" where
  "is_attention_event msg koi_ids =
     (if pm_sender_id msg = ''piscis'' then False
      else if contains_piscis_mention (pm_content msg) then True
      else if pm_sender_id msg \<in> set koi_ids \<and> extract_project_status_signal (pm_content msg) \<noteq> None then True
      else case pm_event_type msg of None \<Rightarrow> False | Some e \<Rightarrow> e \<in> set ATTENTION_EVENTS)"

definition pool_piscis_session_id :: "string \<Rightarrow> string" where
  "pool_piscis_session_id pool_id = ''piscis_pool_'' @ pool_id"

section \<open>The message of a patrol\<close>

definition continue_guidance :: "ProjectAssessment \<Rightarrow> string list" where
  "continue_guidance a =
     [(''The project snapshot still shows active coordination pressure. Inspect pool_org(get_messages), the '' @
         ''task board, and the org_spec before deciding whether Piscis should act now or continue waiting.'')] @
     (if pa_active_todo_count a = 0 \<and> (0 < pa_follow_up_signal_count a \<or> 0 < pa_task_failed_count a) then
       [(''There is coordination pressure without a clear active owner. Treat this as an attention gap to '' @
         ''investigate, not as permission to pick a specific next actor automatically.'')]
      else []) @
     [(''Do not assume a fixed reviewer or handoff target. Use the current pool evidence and org_spec to '' @
         ''decide the smallest effective coordination action.'')]"

definition supervisor_guidance :: "string list" where
  "supervisor_guidance =
      [''Workers look locally finished; the task board alone is NOT proof the project converged under org_spec.'',
       (''Mandatory before HEARTBEAT_OK: pool_org(action='' @ [CHR 0x22] @ ''read'' @ [CHR 0x22] @
         '') for this pool, then get_todos + get_messages. Compare all org_spec requirements (phases, '' @
         ''milestones, roles, deliverables '' @ [CHR 0xE2, CHR 0x80, CHR 0x94] @
         '' whatever the spec text says) against board evidence.''),
       (''If org_spec still has uncovered work (e.g. early milestones done but later ones never decomposed '' @
         ''into todos): pool_org(post_status) stating the gap, then create_todo / assign_koi for the next '' @
         ''concrete steps. Do NOT reply HEARTBEAT_OK while the spec is unfinished.''),
       (''If you decide the user should weigh in before the project moves forward, call `app_control` with action='' @
         [CHR 0x27] @ ''notify_user'' @ [CHR 0x27] @ '' (level='' @ [CHR 0x27] @ ''warning'' @ [CHR 0x27] @ '' or '' @
         [CHR 0x27] @ ''info'' @ [CHR 0x27] @
         '', include pool_id) to surface a toast in the main UI. Do this only when user input genuinely helps, '' @
         ''not as a routine status update.'')]"

definition escalation_guidance :: "string list" where
  "escalation_guidance =
      [(''The project reached a state that should NOT be resolved by further autonomous retries or automatic '' @
         ''routing.''),
       (''Treat this as a human-escalation state: inspect the failure evidence, summarize what became '' @
         ''impossible or unsafe to decide automatically, and stop short of inventing a new worker plan unless '' @
         ''the user explicitly approves it.''),
       (''Your role here is to surface the situation clearly for the user, not to silently convert an '' @
         ''unrecoverable failure into a normal project continuation.''),
       (''Raise a user-visible toast via `app_control` with action='' @ [CHR 0x27] @ ''notify_user'' @ [CHR 0x27] @
         '', level='' @ [CHR 0x27] @ ''critical'' @ [CHR 0x27] @
         '', duration_ms=0, and include pool_id plus a 1-2 sentence summary of why human judgment is needed. '' @
         ''The system may have auto-posted a baseline toast already; your call adds the diagnostic summary.'')]"

definition review_guidance :: "ProjectAssessment \<Rightarrow> string list" where
  "review_guidance a =
     [(''The snapshot is compatible with Piscis review, but HEARTBEAT_OK is forbidden as the only action '' @
         ''when needs_review todos exist.'')] @
     (if 0 < pa_integration_ready_count a then
       [nat_digits (pa_integration_ready_count a) @
         ('' branch(es) are done on the board but not merged. Prefer pool_org(merge_branches, branch=<one '' @
         ''branch>) incrementally after reviewing get_messages/get_todos '' @ [CHR 0xE2, CHR 0x80, CHR 0x94] @
         '' do not wait for a final batch merge of every koi/* branch.'')]
      else []) @
      [(''Mandatory closeout: call pool_org(action='' @ [CHR 0x22] @ ''get_messages'' @ [CHR 0x22] @
         '') and pool_org(action='' @ [CHR 0x22] @ ''get_todos'' @ [CHR 0x22] @
         '') for this pool, inspect the reported deliverables, then choose exactly one outcome: merge_branches '' @
         ''if the work is acceptable, resume_todo/replace_todo/assign_koi if rework is needed, or post_status '' @
         ''plus notify_user when human review is required.''),
       (''Do not say '' @ [CHR 0x22] @ ''no change'' @ [CHR 0x22] @ '', '' @
         [CHR 0x22, CHR 0xE6, CHR 0x97, CHR 0xA0, CHR 0xE9, CHR 0x9C, CHR 0x80, CHR 0xE5, CHR 0xB9, CHR 0xB2, CHR 0xE9, CHR 0xA2, CHR 0x84, CHR 0x22] @
         '', or HEARTBEAT_OK until you have taken a concrete closeout action or written a clear '' @
         ''pool_org(post_status) explanation of why no autonomous action is safe.''),
       (''During heartbeat, do NOT archive the project automatically. Leave the pool active until the user '' @
         ''explicitly asks to archive it.''),
       ''If you discover unresolved work, keep the project open and coordinate the next step explicitly.'']"

definition guidance :: "ProjectAssessment \<Rightarrow> string list" where
  "guidance a =
     (case pa_decision a of
        Continue \<Rightarrow> continue_guidance a
      | SupervisorDecisionRequired \<Rightarrow> supervisor_guidance
      | EscalateToHuman \<Rightarrow> escalation_guidance
      | ReadyForPiscisReview \<Rightarrow> review_guidance a)"

definition build_pool_heartbeat_message :: "string \<Rightarrow> PoolAttention \<Rightarrow> string" where
  "build_pool_heartbeat_message base_prompt attention =
     (let a = at_assessment attention
      in join [CHR 0x0A]
        ([base_prompt, [], ''## Heartbeat Inbox'', at_summary attention, [], ''## Current Project State'',
          ''- The fields below are a host-generated snapshot of observable state, not a final project judgment.'',
          ''- Decision: '' @ decision_str (pa_decision a),
          ''- Active todos: '' @ nat_digits (pa_active_todo_count a),
          ''- Blocked todos: '' @ nat_digits (pa_blocked_todo_count a),
          ''- Needs-review todos: '' @ nat_digits (pa_needs_review_count a),
          ''- Integration-ready branches: '' @ nat_digits (pa_integration_ready_count a),
          ''- Dependency-blocked todos: '' @ nat_digits (pa_dependency_blocked_count a),
          ''- task_failed events: '' @ nat_digits (pa_task_failed_count a),
          ''- Follow-up signals: '' @ nat_digits (pa_follow_up_signal_count a),
          ''- Assessment: '' @ pa_summary a, [], ''## Attention Reasons''] @
         (if pa_attention_reasons a = [] then
            [''- No explicit attention reason was derived; inspect the latest pool state before acting.'']
          else map (\<lambda>reason. ''- '' @ reason) (pa_attention_reasons a)) @
         (case at_org_spec_excerpt attention of
            None \<Rightarrow> []
          | Some org_spec \<Rightarrow>
              [[], ''## Project org_spec (convergence reference)'',
               (''- Compare ALL phases/milestones/deliverables in this text against pool_org evidence '' @
         [CHR 0xE2, CHR 0x80, CHR 0x94] @ '' not just whether todos are done.''),
               org_spec]) @
         [[], ''## Guidance''] @ guidance a @
         [[], (''Do not treat a quiet board as success. Read org_spec via pool_org(read), then act or document why '' @
         ''HEARTBEAT_OK is justified.'')]))"

section \<open>Collecting\<close>

text \<open>The events a patrol has not seen, and the last six of them, which it is shown.\<close>

definition new_attention_messages :: "PoolMessage list \<Rightarrow> string list \<Rightarrow> int \<Rightarrow> PoolMessage list" where
  "new_attention_messages messages koi_ids last_seen =
     filter (\<lambda>m. last_seen < pm_id m \<and> is_attention_event m koi_ids) messages"

definition recent_events :: "PoolMessage list \<Rightarrow> PoolMessage list" where
  "recent_events ms = rev (take 6 (rev ms))"

definition event_line :: "PoolMessage \<Rightarrow> string" where
  "event_line msg =
     ''- #'' @ int_str (pm_id msg) @ '' ['' @
     (case pm_event_type msg of Some e \<Rightarrow> e | None \<Rightarrow> pm_msg_type msg) @ ''] '' @ pm_sender_id msg @ '': '' @
     preview_chars (replace_str [CHR 0x0A] '' '' (pm_content msg)) 240"

definition attention_of ::
  "PoolSession \<Rightarrow> ProjectAssessment \<Rightarrow> int \<Rightarrow> PoolMessage list \<Rightarrow> PoolAttention" where
  "attention_of pool assessment latest new =
     \<lparr>at_pool_id = ps_id pool, at_pool_name = ps_name pool, at_latest_message_id = latest,
      at_session_id = pool_piscis_session_id (ps_id pool),
      at_summary = join [CHR 0x0A]
        ([''Pool: '' @ ps_name pool @ '' ('' @ ps_id pool @ '')'', ''Status: '' @ ps_status pool,
          ''Recent attention events: '' @ nat_digits (length new), ''Assessment: '' @ pa_summary assessment] @
         (case ps_project_dir pool of None \<Rightarrow> [] | Some dir \<Rightarrow> [''Project dir: '' @ dir]) @
         [''Recent pool events:''] @ map event_line (recent_events new)),
      at_assessment = assessment,
      at_org_spec_excerpt =
        (let trimmed = trim (ps_org_spec pool)
         in if trimmed = [] then None else Some (preview_chars trimmed 4000))\<rparr>"

definition collect_pool_attention ::
  "(string \<Rightarrow> json option) \<Rightarrow> PoolSession \<Rightarrow> PoolMessage list \<Rightarrow> KoiTodo list \<Rightarrow> string list \<Rightarrow> int \<Rightarrow>
   PoolAttention option" where
  "collect_pool_attention parse pool messages todos koi_ids last_seen =
     (let latest = (if messages = [] then last_seen else pm_id (last messages));
          new = new_attention_messages messages koi_ids last_seen;
          assessment = assess_project_state parse messages todos koi_ids;
          has_historic_piscis_route = list_ex (\<lambda>m. contains_piscis_mention (pm_content m)) messages
      in if new = [] \<and> pa_decision assessment = EscalateToHuman \<and> has_historic_piscis_route then None
         else if new = [] \<and> pa_decision assessment = Continue \<and> pa_attention_reasons assessment = [] then None
         else Some (attention_of pool assessment latest new))"

text \<open>Saturating subtraction on \<^verbatim>\<open>i64\<close>.\<close>

definition before_id :: "int \<Rightarrow> int" where
  "before_id i = max (i - 1) (- (2 ^ 63))"

definition build_forced_mention_attention ::
  "(string \<Rightarrow> json option) \<Rightarrow> PoolSession \<Rightarrow> PoolMessage list \<Rightarrow> KoiTodo list \<Rightarrow> string list \<Rightarrow> PoolAttention option"
  where
  "build_forced_mention_attention parse pool messages todos koi_ids =
     Option.bind (List.find (\<lambda>m. contains_delegated_piscis_mention (pm_content m)) (rev messages)) (\<lambda>trigger.
       collect_pool_attention parse pool messages todos koi_ids (before_id (pm_id trigger)))"

section \<open>When a patrol looks at a pool, and what it is shown of an explicit mention\<close>

subsection \<open>Reasons\<close>

lemma reasons_unfinished: "0 < u \<Longrightarrow> build_attention_reasons u b n t s f r e i d \<noteq> []"
  by (simp add: build_attention_reasons_def)

lemma reasons_follow_up: "0 < f \<Longrightarrow> build_attention_reasons u b n t s f r e i d \<noteq> []"
  by (simp add: build_attention_reasons_def)

lemma continues_with_reason:
  assumes "messages \<noteq> [] \<or> todos \<noteq> []"
    and "pa_decision (assess_project_state parse messages todos kois) = Continue"
  shows "pa_attention_reasons (assess_project_state parse messages todos kois) \<noteq> []"
proof -
  obtain ls ts where loop: "signal_loop parse (ordered_messages messages) ([], []) = (ls, ts)"
    by (cases "signal_loop parse (ordered_messages messages) ([], [])")
  have "\<exists>u b n t s f r e i d.
      pa_attention_reasons (assess_project_state parse messages todos kois) = build_attention_reasons u b n t s f r e i d \<and>
      (pa_decision (assess_project_state parse messages todos kois) = Continue \<longrightarrow> 0 < u \<or> 0 < f)"
    using assms(1)
    by (simp only: assess_project_state_def Let_def loop prod.case if_False de_Morgan_conj [symmetric] if_distrib [of pa_decision]
        if_distrib [of pa_attention_reasons] ProjectAssessment.simps if_cancel)
      (intro exI conjI, rule refl, auto)
  with assms(2) show ?thesis using reasons_unfinished reasons_follow_up by metis
qed

lemma quiet_iff:
  "pa_decision (assess_project_state parse messages todos kois) = Continue \<and>
     pa_attention_reasons (assess_project_state parse messages todos kois) = [] \<longleftrightarrow> messages = [] \<and> todos = []"
proof (cases "messages = [] \<and> todos = []")
  case True
  then show ?thesis by (simp add: assess_project_state_def)
next
  case False
  then show ?thesis using continues_with_reason [of messages todos parse kois] by blast
qed

section \<open>Events\<close>

lemma in_last_six: "x \<in> set (rev (take 6 (rev (x # xs)))) \<longleftrightarrow> length xs < 6 \<or> x \<in> set (rev (take 6 (rev xs)))"
  by (auto simp: take_Cons' dest: in_set_takeD)

definition events :: "string list \<Rightarrow> PoolMessage list \<Rightarrow> PoolMessage list" where
  "events kois ms = filter (\<lambda>x. is_attention_event x kois) ms"

lemma forced_events:
  assumes "messages = older @ m # newer" and "sorted_wrt (<) (map pm_id messages)" and "- (2 ^ 63) < pm_id m"
  shows "new_attention_messages messages kois (before_id (pm_id m)) = events kois (m # newer)"
proof -
  have b: "before_id (pm_id m) = pm_id m - 1" using assms(3) by (simp add: before_id_def)
  have "pm_id x < pm_id m" if "x \<in> set older" for x using assms(1,2) that by (simp add: sorted_wrt_append)
  then have "filter (\<lambda>x. pm_id m - 1 < pm_id x \<and> is_attention_event x kois) older = []" by (force simp: filter_empty_conv)
  moreover have "pm_id m < pm_id x" if "x \<in> set newer" for x using assms(1,2) that by (simp add: sorted_wrt_append)
  then have "filter (\<lambda>x. pm_id m - 1 < pm_id x \<and> is_attention_event x kois) newer = filter (\<lambda>x. is_attention_event x kois) newer"
    by (force intro!: filter_cong)
  ultimately show ?thesis using assms(1) by (simp add: new_attention_messages_def events_def b)
qed

section \<open>Properties\<close>

text \<open>
  A patrol passes a pool by exactly when there is no new event in it and either it has no messages and
  no todos at all or the assessment escalates to the human and somebody has ever mentioned Piscis; so open
  work, signals and finished branches are looked at on every patrol, and a failure that was reported once
  is not reported again.
\<close>

theorem pool_passed_by_iff:
  "collect_pool_attention parse pool messages todos kois seen = None \<longleftrightarrow>
     new_attention_messages messages kois seen = [] \<and>
     (messages = [] \<and> todos = [] \<or>
      pa_decision (assess_project_state parse messages todos kois) = EscalateToHuman \<and>
      (\<exists>m \<in> set messages. contains_piscis_mention (pm_content m)))"
  using quiet_iff [of parse messages todos kois]
  by (auto simp: collect_pool_attention_def Let_def list_ex_iff)

text \<open>
  What a forced patrol is shown of the mention that triggered it. Unless Piscis wrote it itself there is
  a patrol, which gets the events from the mention on; but it is shown the mention only if fewer than six
  events came after it.
\<close>

theorem forced_mention_shown_iff:
  assumes "messages = older @ m # newer" and "sorted_wrt (<) (map pm_id messages)" and "- (2 ^ 63) < pm_id m"
    and "contains_delegated_piscis_mention (pm_content m)"
    and "list_all (\<lambda>x. \<not> contains_delegated_piscis_mention (pm_content x)) newer"
  shows "(pm_sender_id m \<noteq> ''piscis'' \<longrightarrow> build_forced_mention_attention parse pool messages todos kois =
      Some (attention_of pool (assess_project_state parse messages todos kois) (pm_id (last messages)) (events kois (m # newer)))) \<and>
    (m \<in> set (recent_events (events kois (m # newer))) \<longleftrightarrow>
      pm_sender_id m \<noteq> ''piscis'' \<and> length (events kois newer) < 6)"
proof -
  have event: "is_attention_event m kois \<longleftrightarrow> pm_sender_id m \<noteq> ''piscis''"
    using assms(4) by (simp add: is_attention_event_def contains_piscis_mention_def)
  have "List.find (\<lambda>x. contains_delegated_piscis_mention (pm_content x)) (rev newer) = None"
    using assms(5) by (simp add: find_None_iff list_all_iff)
  then have trigger: "List.find (\<lambda>x. contains_delegated_piscis_mention (pm_content x)) (rev messages) = Some m"
    using assms(1,4) by (simp add: find_append)
  have forced: "build_forced_mention_attention parse pool messages todos kois =
      Some (attention_of pool (assess_project_state parse messages todos kois) (pm_id (last messages)) (events kois (m # newer)))"
    if "pm_sender_id m \<noteq> ''piscis''"
  proof -
    have "events kois (m # newer) \<noteq> []" "messages \<noteq> []" using that event assms(1) by (simp_all add: events_def)
    then show ?thesis
      by (simp add: build_forced_mention_attention_def trigger collect_pool_attention_def forced_events [OF assms(1-3)])
  qed
  have fresh: "m \<notin> set newer" using assms(1,2) by (auto simp: sorted_wrt_append)
  have "m \<in> set (recent_events (events kois (m # newer))) \<longleftrightarrow>
      pm_sender_id m \<noteq> ''piscis'' \<and> length (events kois newer) < 6"
  proof (cases "is_attention_event m kois")
    case True
    with event fresh show ?thesis
      using in_last_six [of m "events kois newer"]
      by (auto simp: recent_events_def events_def dest: in_set_takeD)
  next
    case False
    with event fresh show ?thesis by (auto simp: recent_events_def events_def dest: in_set_takeD)
  qed
  with forced show ?thesis by blast
qed

definition sample_mention :: PoolMessage where
  "sample_mention = message_of 1 ''k'' ''@!piscis'' None 5"

theorem forced_mention_shown_iff_witness:
  "sample_mention \<notin> set (recent_events (events []
     (sample_mention # map (\<lambda>i. message_of i ''k'' ''x'' (Some ''task_claimed'') 6) [2, 3, 4, 5, 6, 7])))"
proof -
  let ?newer = "map (\<lambda>i. message_of i ''k'' ''x'' (Some ''task_claimed'') 6) [2, 3, 4, 5, 6, 7]"
  have mention: "contains_delegated_piscis_mention (pm_content sample_mention)"
    and plain: "\<not> contains_delegated_piscis_mention ''x''"
    by (simp_all add: sample_mention_def message_of_def contains_delegated_piscis_mention_def delegates_to_piscis_def
        str_lines_def Let_def starts_with_def str_eval utf8_len_def)
  have event: "is_attention_event (message_of i ''k'' ''x'' (Some ''task_claimed'') 6) []" for i
    by (simp add: is_attention_event_def message_of_def ATTENTION_EVENTS_def)
  have "\<not> (pm_sender_id sample_mention \<noteq> ''piscis'' \<and> length (events [] ?newer) < 6)"
    by (simp add: events_def event)
  moreover have "sorted_wrt (<) (map pm_id ([] @ sample_mention # ?newer))" "- (2 ^ 63) < pm_id sample_mention"
    by (simp_all add: sample_mention_def message_of_def)
  moreover have "list_all (\<lambda>x. \<not> contains_delegated_piscis_mention (pm_content x)) ?newer"
    using plain by (simp add: message_of_def)
  ultimately show ?thesis
    using forced_mention_shown_iff [OF refl _ _ mention, where older = "[]" and newer = ?newer and kois = "[]"] by blast
qed

end
