(* ===== verification/Store_Tasks.thy ===== *)
theory Store_Tasks
  imports Store_Chat "HOL-Library.List_Lexorder" "HOL-Library.Char_ord"
begin

text \<open>
  Skills with their revisions and usage, scheduled tasks, background tasks and task states: the remaining
  tables of \<^verbatim>\<open>store/db.rs\<close>. No foreign key joins them to other tables.
\<close>

section \<open>Rows\<close>

record Skill =
  sk_id :: string
  sk_name :: string
  sk_description :: string
  sk_enabled :: bool
  sk_icon :: string
  sk_config :: string

record 't SkillRevision =
  sv_id :: string
  sv_skill_id :: string
  sv_session_id :: "string option"
  sv_origin :: string
  sv_diff_summary :: "string option"
  sv_content_before_hash :: "string option"
  sv_content_after_hash :: "string option"
  sv_created_at :: 't

record 't SkillUsage =
  su_skill_id :: string
  su_view_count :: int
  su_use_count :: int
  su_patch_count :: int
  su_last_used_at :: "'t option"
  su_last_patched_at :: "'t option"
  su_state :: string
  su_pinned :: bool
  su_created_by :: "string option"

record 't ScheduledTask =
  st_id :: string
  st_name :: string
  st_description :: "string option"
  st_cron_expression :: string
  st_task_prompt :: string
  st_notify_targets_json :: "string option"
  st_status :: string
  st_last_run_status :: "string option"
  st_run_count :: int
  st_last_run_at :: "'t option"
  st_next_run_at :: "'t option"
  st_created_at :: 't

record 't TaskState =
  ts_id :: string
  ts_scope_type :: string
  ts_scope_id :: string
  ts_goal :: string
  ts_state_json :: string
  ts_summary :: string
  ts_status :: string
  ts_version :: int
  ts_created_at :: 't
  ts_updated_at :: 't

record TaskSpine =
  sp_goal :: string
  sp_current_step :: string
  sp_done :: "string list"
  sp_pending :: "string list"
  sp_blockers :: "string list"
  sp_facts :: "string list"
  sp_decisions :: "string list"
  sp_next_questions :: "string list"

record background_row =
  bt_bg_id :: string
  bt_session_id :: string
  bt_label :: string
  bt_status :: string
  bt_exit_code :: "int option"
  bt_last_kind :: string
  bt_updated_unix_ms :: int

record continuation_row =
  pc_bg_id :: string
  pc_session_id :: string
  pc_prompt :: string
  pc_display_prompt :: string
  pc_session_source :: "string option"
  pc_prefer_zh :: bool
  pc_created_unix_ms :: int

record task_db =
  skills :: "Skill list"
  skill_revisions :: "stamp SkillRevision list"
  skill_usage :: "stamp SkillUsage list"
  scheduled_tasks :: "stamp ScheduledTask list"
  background_tasks :: "background_row list"
  pending_bg_continuations :: "continuation_row list"
  task_states :: "stamp TaskState list"

text \<open>\<^verbatim>\<open>INSERT \<dots> ON CONFLICT DO UPDATE\<close> by a primary key: the row in place, or a new one at the end.\<close>

definition upsert_row :: "('r \<Rightarrow> 'k) \<Rightarrow> 'r \<Rightarrow> ('r \<Rightarrow> 'r) \<Rightarrow> 'r list \<Rightarrow> 'r list" where
  "upsert_row key new f rs =
     (if key new \<in> set (map key rs) then update_rows (\<lambda>r. key r = key new) f rs else rs @ [new])"

section \<open>Skills\<close>

definition list_skills :: "task_db \<Rightarrow> Skill list" where
  "list_skills d = sort_key sk_name (skills d)"

definition set_skill_enabled :: "string \<Rightarrow> bool \<Rightarrow> task_db \<Rightarrow> task_db" where
  "set_skill_enabled i enabled d = d\<lparr>skills := update_rows (\<lambda>r. sk_id r = i) (\<lambda>r. r\<lparr>sk_enabled := enabled\<rparr>) (skills d)\<rparr>"

definition delete_skill :: "string \<Rightarrow> task_db \<Rightarrow> task_db" where
  "delete_skill i d = d\<lparr>skills := filter (\<lambda>r. sk_id r \<noteq> i) (skills d)\<rparr>"

definition empty_object :: string where "empty_object = [CHR 0x7B, CHR 0x7D]"

definition upsert_skill_with_config ::
  "string \<Rightarrow> string \<Rightarrow> string \<Rightarrow> string \<Rightarrow> string option \<Rightarrow> task_db \<Rightarrow> task_db" where
  "upsert_skill_with_config i name description icon config d =
     (let config_json = (case config of Some c \<Rightarrow> c | None \<Rightarrow> empty_object)
      in d\<lparr>skills := upsert_row sk_id
           \<lparr>sk_id = i, sk_name = name, sk_description = description, sk_enabled = True, sk_icon = icon, sk_config = config_json\<rparr>
           (\<lambda>r. r\<lparr>sk_name := name, sk_description := description, sk_icon := icon,
              sk_config := (if config_json \<noteq> empty_object then config_json else sk_config r)\<rparr>) (skills d)\<rparr>)"

definition upsert_skill :: "string \<Rightarrow> string \<Rightarrow> string \<Rightarrow> string \<Rightarrow> task_db \<Rightarrow> task_db" where
  "upsert_skill i name description icon = upsert_skill_with_config i name description icon None"

definition update_skill_config :: "string \<Rightarrow> string \<Rightarrow> task_db \<Rightarrow> task_db" where
  "update_skill_config i config d = d\<lparr>skills := update_rows (\<lambda>r. sk_id r = i) (\<lambda>r. r\<lparr>sk_config := config\<rparr>) (skills d)\<rparr>"

definition get_skill :: "string \<Rightarrow> task_db \<Rightarrow> Skill option" where
  "get_skill i d = find_row sk_id i (skills d)"

definition SEED_SKILLS :: "(string \<times> string \<times> string \<times> string) list" where
  "SEED_SKILLS =
     [(''web-search'', ''Web Search'', ''Search the web for information'', [CHR 0xF0, CHR 0x9F, CHR 0x94, CHR 0x8D]),
      (''shell'', ''Shell / PowerShell'', ''Execute shell commands via PowerShell'', [CHR 0xF0, CHR 0x9F, CHR 0x92, CHR 0xBB]),
      (''file-ops'', ''File Operations'', ''Read, write and edit files'', [CHR 0xF0, CHR 0x9F, CHR 0x93, CHR 0x81]),
      (''uia'', ''Windows UI Automation'', ''Control Windows desktop apps via UIA'', [CHR 0xF0, CHR 0x9F, CHR 0x96, CHR 0xA5, CHR 0xEF, CHR 0xB8, CHR 0x8F]),
      (''screen-vision'', ''Screen Vision'', ''Screenshot + Vision AI fallback'', [CHR 0xF0, CHR 0x9F, CHR 0x91, CHR 0x81, CHR 0xEF, CHR 0xB8, CHR 0x8F]),
      (''scheduled-tasks'', ''Scheduled Tasks'', ''Recurring automated tasks'', [CHR 0xE2, CHR 0x8F, CHR 0xB0]),
      (''docx'', ''Word Document'', ''Generate .docx documents'', [CHR 0xF0, CHR 0x9F, CHR 0x93, CHR 0x84]),
      (''xlsx'', ''Excel Spreadsheet'', ''Generate .xlsx spreadsheets'', [CHR 0xF0, CHR 0x9F, CHR 0x93, CHR 0x8A])]"

text \<open>\<^verbatim>\<open>INSERT OR IGNORE\<close> of the default skills.\<close>

definition seed_skills :: "task_db \<Rightarrow> task_db" where
  "seed_skills d = d\<lparr>skills := fold (\<lambda>(i, name, desc, icon).
     upsert_row sk_id \<lparr>sk_id = i, sk_name = name, sk_description = desc, sk_enabled = True, sk_icon = icon,
       sk_config = empty_object\<rparr> (\<lambda>r. r)) SEED_SKILLS (skills d)\<rparr>"

definition seed_if_empty :: "task_db \<Rightarrow> task_db" where
  "seed_if_empty d = (if skills d = [] then seed_skills d else d)"

section \<open>Revisions\<close>

definition new_revision ::
  "string \<Rightarrow> string \<Rightarrow> string option \<Rightarrow> string \<Rightarrow> string option \<Rightarrow> string option \<Rightarrow> string option \<Rightarrow> 't \<Rightarrow> 't SkillRevision" where
  "new_revision i skill session origin diff_summary before_hash after_hash t = \<lparr>
     sv_id = i, sv_skill_id = skill, sv_session_id = session, sv_origin = origin, sv_diff_summary = diff_summary,
     sv_content_before_hash = before_hash, sv_content_after_hash = after_hash, sv_created_at = t\<rparr>"

definition insert_skill_revision ::
  "string \<Rightarrow> string option \<Rightarrow> string \<Rightarrow> string option \<Rightarrow> string option \<Rightarrow> string option \<Rightarrow> string \<Rightarrow> DateTime \<Rightarrow> task_db \<Rightarrow>
   (error + DateTime SkillRevision) \<times> task_db" where
  "insert_skill_revision skill session origin diff_summary before_hash after_hash i now d =
     (if i \<in> set (map sv_id (skill_revisions d)) then (Inl UniqueFailed, d)
      else (Inr (new_revision i skill session origin diff_summary before_hash after_hash now),
            d\<lparr>skill_revisions := skill_revisions d @
              [new_revision i skill session origin diff_summary before_hash after_hash (to_rfc3339 now)]\<rparr>))"

definition map_revision_row :: "DateTime \<Rightarrow> stamp SkillRevision \<Rightarrow> DateTime SkillRevision" where
  "map_revision_row now r =
     new_revision (sv_id r) (sv_skill_id r) (sv_session_id r) (sv_origin r) (sv_diff_summary r)
       (sv_content_before_hash r) (sv_content_after_hash r) (datetime_or_now now (sv_created_at r))"

definition list_skill_revisions_for_skill :: "string \<Rightarrow> int \<Rightarrow> DateTime \<Rightarrow> task_db \<Rightarrow> DateTime SkillRevision list" where
  "list_skill_revisions_for_skill skill limit now d =
     map (map_revision_row now) (sql_limit limit
       (order_desc sv_created_at (filter (\<lambda>r. sv_skill_id r = skill) (skill_revisions d))))"

definition list_skill_revisions_for_session :: "string \<Rightarrow> int \<Rightarrow> DateTime \<Rightarrow> task_db \<Rightarrow> DateTime SkillRevision list" where
  "list_skill_revisions_for_session session limit now d =
     map (map_revision_row now) (sql_limit limit
       (order_desc sv_created_at (filter (\<lambda>r. sv_session_id r = Some session) (skill_revisions d))))"

section \<open>Usage of skills\<close>

text \<open>A row with the defaults of the table.\<close>

definition new_usage :: "string \<Rightarrow> string option \<Rightarrow> stamp SkillUsage" where
  "new_usage skill created_by = \<lparr>
     su_skill_id = skill, su_view_count = 0, su_use_count = 0, su_patch_count = 0, su_last_used_at = None,
     su_last_patched_at = None, su_state = ''active'', su_pinned = False, su_created_by = created_by\<rparr>"

definition ensure_skill_usage :: "string \<Rightarrow> string option \<Rightarrow> task_db \<Rightarrow> task_db" where
  "ensure_skill_usage skill created_by d =
     d\<lparr>skill_usage := upsert_row su_skill_id (new_usage skill created_by) (\<lambda>r. r) (skill_usage d)\<rparr>"

definition row_to_skill_usage :: "stamp SkillUsage \<Rightarrow> DateTime SkillUsage" where
  "row_to_skill_usage r = \<lparr>
     su_skill_id = su_skill_id r, su_view_count = su_view_count r, su_use_count = su_use_count r,
     su_patch_count = su_patch_count r, su_last_used_at = parse_optional_datetime (su_last_used_at r),
     su_last_patched_at = parse_optional_datetime (su_last_patched_at r), su_state = su_state r,
     su_pinned = su_pinned r, su_created_by = su_created_by r\<rparr>"

definition get_skill_usage :: "string \<Rightarrow> task_db \<Rightarrow> DateTime SkillUsage option" where
  "get_skill_usage skill d = map_option row_to_skill_usage (find_row su_skill_id skill (skill_usage d))"

definition list_skill_usage :: "task_db \<Rightarrow> DateTime SkillUsage list" where
  "list_skill_usage d = map row_to_skill_usage (order_desc su_use_count (order_desc su_view_count (skill_usage d)))"

text \<open>One more of something: a new row counts one, a known row one more.\<close>

definition bump :: "(stamp SkillUsage \<Rightarrow> stamp SkillUsage) \<Rightarrow> string \<Rightarrow> task_db \<Rightarrow> task_db" where
  "bump f skill d = d\<lparr>skill_usage := upsert_row su_skill_id (f (new_usage skill None)) f (skill_usage d)\<rparr>"

definition bump_skill_view :: "string \<Rightarrow> DateTime \<Rightarrow> task_db \<Rightarrow> task_db" where
  "bump_skill_view skill now =
     bump (\<lambda>r. r\<lparr>su_view_count := su_view_count r + 1, su_last_used_at := Some (to_rfc3339 now)\<rparr>) skill"

definition bump_skill_use :: "string \<Rightarrow> DateTime \<Rightarrow> task_db \<Rightarrow> task_db" where
  "bump_skill_use skill now =
     bump (\<lambda>r. r\<lparr>su_use_count := su_use_count r + 1, su_last_used_at := Some (to_rfc3339 now)\<rparr>) skill"

definition bump_skill_patch :: "string \<Rightarrow> DateTime \<Rightarrow> task_db \<Rightarrow> task_db" where
  "bump_skill_patch skill now =
     bump (\<lambda>r. r\<lparr>su_patch_count := su_patch_count r + 1, su_last_patched_at := Some (to_rfc3339 now)\<rparr>) skill"

definition update_usage :: "string \<Rightarrow> (stamp SkillUsage \<Rightarrow> stamp SkillUsage) \<Rightarrow> task_db \<Rightarrow> task_db" where
  "update_usage skill f d = d\<lparr>skill_usage := update_rows (\<lambda>r. su_skill_id r = skill) f (skill_usage d)\<rparr>"

definition set_skill_usage_state :: "string \<Rightarrow> string \<Rightarrow> task_db \<Rightarrow> task_db" where
  "set_skill_usage_state skill state d =
     update_usage skill (\<lambda>r. r\<lparr>su_state := state\<rparr>) (ensure_skill_usage skill None d)"

definition set_skill_pinned :: "string \<Rightarrow> bool \<Rightarrow> task_db \<Rightarrow> task_db" where
  "set_skill_pinned skill pinned d =
     update_usage skill (\<lambda>r. r\<lparr>su_pinned := pinned\<rparr>) (ensure_skill_usage skill None d)"

section \<open>Scheduled tasks\<close>

definition map_task_row :: "DateTime \<Rightarrow> stamp ScheduledTask \<Rightarrow> DateTime ScheduledTask" where
  "map_task_row now r = \<lparr>
     st_id = st_id r, st_name = st_name r, st_description = st_description r, st_cron_expression = st_cron_expression r,
     st_task_prompt = st_task_prompt r, st_notify_targets_json = st_notify_targets_json r, st_status = st_status r,
     st_last_run_status = st_last_run_status r, st_run_count = st_run_count r,
     st_last_run_at = parse_optional_datetime (st_last_run_at r), st_next_run_at = parse_optional_datetime (st_next_run_at r),
     st_created_at = datetime_or_now now (st_created_at r)\<rparr>"

definition list_tasks :: "DateTime \<Rightarrow> task_db \<Rightarrow> DateTime ScheduledTask list" where
  "list_tasks now d = map (map_task_row now) (order_desc st_created_at (scheduled_tasks d))"

definition get_task :: "string \<Rightarrow> DateTime \<Rightarrow> task_db \<Rightarrow> DateTime ScheduledTask option" where
  "get_task i now d = map_option (map_task_row now) (find_row st_id i (scheduled_tasks d))"

definition new_task ::
  "string \<Rightarrow> string \<Rightarrow> string option \<Rightarrow> string \<Rightarrow> string \<Rightarrow> string option \<Rightarrow> 't \<Rightarrow> 't ScheduledTask" where
  "new_task i name description cron prompt targets t = \<lparr>
     st_id = i, st_name = name, st_description = description, st_cron_expression = cron, st_task_prompt = prompt,
     st_notify_targets_json = targets, st_status = ''active'', st_last_run_status = None, st_run_count = 0,
     st_last_run_at = None, st_next_run_at = None, st_created_at = t\<rparr>"

definition create_task ::
  "string \<Rightarrow> string option \<Rightarrow> string \<Rightarrow> string \<Rightarrow> string option \<Rightarrow> string \<Rightarrow> DateTime \<Rightarrow> task_db \<Rightarrow>
   (error + DateTime ScheduledTask) \<times> task_db" where
  "create_task name description cron prompt targets i now d =
     (if i \<in> set (map st_id (scheduled_tasks d)) then (Inl UniqueFailed, d)
      else (Inr (new_task i name description cron prompt targets now),
            d\<lparr>scheduled_tasks := scheduled_tasks d @ [new_task i name description cron prompt targets (to_rfc3339 now)]\<rparr>))"

definition update_scheduled :: "string \<Rightarrow> (stamp ScheduledTask \<Rightarrow> stamp ScheduledTask) \<Rightarrow> task_db \<Rightarrow> task_db" where
  "update_scheduled i f d = d\<lparr>scheduled_tasks := update_rows (\<lambda>r. st_id r = i) f (scheduled_tasks d)\<rparr>"

definition update_task ::
  "string \<Rightarrow> string option \<Rightarrow> string option \<Rightarrow> string option \<Rightarrow> string option \<Rightarrow> string option \<Rightarrow> task_db \<Rightarrow> task_db" where
  "update_task i name cron prompt targets status d =
     (let d = (case name of None \<Rightarrow> d | Some n \<Rightarrow> update_scheduled i (\<lambda>r. r\<lparr>st_name := n\<rparr>) d);
          d = (case cron of None \<Rightarrow> d | Some c \<Rightarrow> update_scheduled i (\<lambda>r. r\<lparr>st_cron_expression := c\<rparr>) d);
          d = (case prompt of None \<Rightarrow> d | Some p \<Rightarrow> update_scheduled i (\<lambda>r. r\<lparr>st_task_prompt := p\<rparr>) d);
          d = (case targets of None \<Rightarrow> d | Some t \<Rightarrow> update_scheduled i (\<lambda>r. r\<lparr>st_notify_targets_json := Some t\<rparr>) d)
      in case status of None \<Rightarrow> d | Some s \<Rightarrow> update_scheduled i (\<lambda>r. r\<lparr>st_status := s\<rparr>) d)"

definition delete_task :: "string \<Rightarrow> task_db \<Rightarrow> task_db" where
  "delete_task i d = d\<lparr>scheduled_tasks := filter (\<lambda>r. st_id r \<noteq> i) (scheduled_tasks d)\<rparr>"

definition record_task_run :: "string \<Rightarrow> DateTime \<Rightarrow> task_db \<Rightarrow> task_db" where
  "record_task_run i now =
     update_scheduled i (\<lambda>r. r\<lparr>st_run_count := st_run_count r + 1, st_last_run_at := Some (to_rfc3339 now),
       st_last_run_status := Some ''running''\<rparr>)"

definition update_task_run_status :: "string \<Rightarrow> string \<Rightarrow> task_db \<Rightarrow> task_db" where
  "update_task_run_status i run_status = update_scheduled i (\<lambda>r. r\<lparr>st_last_run_status := Some run_status\<rparr>)"

definition set_scheduled_task_notify_targets :: "string \<Rightarrow> string option \<Rightarrow> task_db \<Rightarrow> task_db" where
  "set_scheduled_task_notify_targets i targets = update_scheduled i (\<lambda>r. r\<lparr>st_notify_targets_json := targets\<rparr>)"

definition get_scheduled_task_notify_targets :: "string \<Rightarrow> task_db \<Rightarrow> string option" where
  "get_scheduled_task_notify_targets i d = Option.bind (find_row st_id i (scheduled_tasks d)) st_notify_targets_json"

section \<open>Background tasks\<close>

text \<open>\<^verbatim>\<open>u64 as i64\<close>.\<close>

definition as_i64 :: "nat \<Rightarrow> int" where
  "as_i64 n = (if n < 2 ^ 63 then int n else int n - 2 ^ 64)"

definition upsert_background_task ::
  "string \<Rightarrow> string \<Rightarrow> string \<Rightarrow> string \<Rightarrow> int option \<Rightarrow> string \<Rightarrow> nat \<Rightarrow> task_db \<Rightarrow> task_db" where
  "upsert_background_task bg_id session label status exit_code last_kind ms d =
     (let row = \<lparr>bt_bg_id = bg_id, bt_session_id = session, bt_label = label, bt_status = status,
            bt_exit_code = exit_code, bt_last_kind = last_kind, bt_updated_unix_ms = as_i64 ms\<rparr>
      in d\<lparr>background_tasks := upsert_row bt_bg_id row (\<lambda>r. row) (background_tasks d)\<rparr>)"

definition list_running_background_task_ids :: "task_db \<Rightarrow> string list" where
  "list_running_background_task_ids d = map bt_bg_id (filter (\<lambda>r. bt_status r = ''running'') (background_tasks d))"

definition mark_background_task_status :: "string \<Rightarrow> string \<Rightarrow> task_db \<Rightarrow> task_db" where
  "mark_background_task_status bg_id status d =
     d\<lparr>background_tasks := update_rows (\<lambda>r. bt_bg_id r = bg_id) (\<lambda>r. r\<lparr>bt_status := status\<rparr>) (background_tasks d)\<rparr>"

definition upsert_pending_bg_continuation ::
  "string \<Rightarrow> string \<Rightarrow> string \<Rightarrow> string \<Rightarrow> string option \<Rightarrow> bool \<Rightarrow> nat \<Rightarrow> task_db \<Rightarrow> task_db" where
  "upsert_pending_bg_continuation bg_id session prompt display_prompt source prefer_zh ms d =
     d\<lparr>pending_bg_continuations := upsert_row pc_bg_id
         \<lparr>pc_bg_id = bg_id, pc_session_id = session, pc_prompt = prompt, pc_display_prompt = display_prompt,
          pc_session_source = source, pc_prefer_zh = prefer_zh, pc_created_unix_ms = as_i64 ms\<rparr>
         (\<lambda>r. r\<lparr>pc_prompt := prompt, pc_display_prompt := display_prompt, pc_session_source := source,
            pc_prefer_zh := prefer_zh\<rparr>) (pending_bg_continuations d)\<rparr>"

definition list_pending_bg_continuations ::
  "task_db \<Rightarrow> (string \<times> string \<times> string \<times> string \<times> string option \<times> bool) list" where
  "list_pending_bg_continuations d =
     map (\<lambda>r. (pc_bg_id r, pc_session_id r, pc_prompt r, pc_display_prompt r, pc_session_source r, pc_prefer_zh r))
       (sort_key pc_created_unix_ms (pending_bg_continuations d))"

definition delete_pending_bg_continuation :: "string \<Rightarrow> task_db \<Rightarrow> task_db" where
  "delete_pending_bg_continuation bg_id d =
     d\<lparr>pending_bg_continuations := filter (\<lambda>r. pc_bg_id r \<noteq> bg_id) (pending_bg_continuations d)\<rparr>"

section \<open>Task states\<close>

definition map_task_state_row :: "DateTime \<Rightarrow> stamp TaskState \<Rightarrow> DateTime TaskState" where
  "map_task_state_row now r = \<lparr>
     ts_id = ts_id r, ts_scope_type = ts_scope_type r, ts_scope_id = ts_scope_id r, ts_goal = ts_goal r,
     ts_state_json = ts_state_json r, ts_summary = ts_summary r, ts_status = ts_status r, ts_version = ts_version r,
     ts_created_at = datetime_or_now now (ts_created_at r), ts_updated_at = datetime_or_now now (ts_updated_at r)\<rparr>"

definition load_task_state :: "string \<Rightarrow> string \<Rightarrow> DateTime \<Rightarrow> task_db \<Rightarrow> DateTime TaskState option" where
  "load_task_state scope_type scope_id now d =
     (case order_desc ts_updated_at
             (filter (\<lambda>r. ts_scope_type r = scope_type \<and> ts_scope_id r = scope_id) (task_states d)) of
        [] \<Rightarrow> None | r # rs \<Rightarrow> Some (map_task_state_row now r))"

definition new_task_state :: "string \<Rightarrow> string \<Rightarrow> string \<Rightarrow> 't \<Rightarrow> 't TaskState" where
  "new_task_state i scope_type scope_id t = \<lparr>
     ts_id = i, ts_scope_type = scope_type, ts_scope_id = scope_id, ts_goal = [], ts_state_json = empty_object,
     ts_summary = [], ts_status = ''active'', ts_version = 1, ts_created_at = t, ts_updated_at = t\<rparr>"

text \<open>The clock of one call stands still.\<close>

definition get_or_create_task_state ::
  "string \<Rightarrow> string \<Rightarrow> string \<Rightarrow> DateTime \<Rightarrow> task_db \<Rightarrow> (error + DateTime TaskState) \<times> task_db" where
  "get_or_create_task_state scope_type scope_id i now d =
     (case load_task_state scope_type scope_id now d of
        Some s \<Rightarrow> (Inr s, d)
      | None \<Rightarrow>
          if i \<in> set (map ts_id (task_states d)) then (Inl UniqueFailed, d)
          else (Inr (new_task_state i scope_type scope_id now),
                d\<lparr>task_states := task_states d @ [new_task_state i scope_type scope_id (to_rfc3339 now)]\<rparr>))"

definition coalesce :: "'a option \<Rightarrow> 'a \<Rightarrow> 'a" where
  "coalesce x y = (case x of Some v \<Rightarrow> v | None \<Rightarrow> y)"

definition update_task_state ::
  "string \<Rightarrow> string option \<Rightarrow> string option \<Rightarrow> string option \<Rightarrow> string option \<Rightarrow> DateTime \<Rightarrow> task_db \<Rightarrow> task_db" where
  "update_task_state i goal state_json summary status now d =
     d\<lparr>task_states := update_rows (\<lambda>r. ts_id r = i)
         (\<lambda>r. r\<lparr>ts_goal := coalesce goal (ts_goal r), ts_state_json := coalesce state_json (ts_state_json r),
            ts_summary := coalesce summary (ts_summary r), ts_status := coalesce status (ts_status r),
            ts_version := ts_version r + 1, ts_updated_at := to_rfc3339 now\<rparr>) (task_states d)\<rparr>"

definition list_recent_task_states :: "int \<Rightarrow> DateTime \<Rightarrow> task_db \<Rightarrow> DateTime TaskState list" where
  "list_recent_task_states limit now d =
     map (map_task_state_row now) (sql_limit limit (order_desc ts_updated_at (task_states d)))"

definition empty_spine :: TaskSpine where
  "empty_spine = \<lparr>sp_goal = [], sp_current_step = [], sp_done = [], sp_pending = [], sp_blockers = [], sp_facts = [],
     sp_decisions = [], sp_next_questions = []\<rparr>"

text \<open>\<open>decode\<close> reads the JSON of a spine.\<close>

definition to_task_spine :: "(string \<Rightarrow> TaskSpine option) \<Rightarrow> 't TaskState \<Rightarrow> TaskSpine" where
  "to_task_spine decode s =
     (let spine = (case decode (ts_state_json s) of Some v \<Rightarrow> v | None \<Rightarrow> empty_spine);
          spine = (if trim (sp_goal spine) = [] then spine\<lparr>sp_goal := ts_goal s\<rparr> else spine)
      in if trim (sp_current_step spine) = [] \<and> trim (ts_summary s) \<noteq> [] then spine\<lparr>sp_current_step := ts_summary s\<rparr>
         else spine)"

end
