(* ===== verification/Tasks.thy ===== *)
theory Tasks
  imports Store_Tasks
begin

text \<open>
  What holds of the tables of skills and tasks whatever operations run on them: keys stay unique, a scope has
  one task state, and the counters of a skill say how often it was used.
\<close>

section \<open>Upserts\<close>

lemma distinct_upsert:
  "distinct (map key rs) \<Longrightarrow> (\<And>r. key r = key new \<Longrightarrow> key (f r) = key r) \<Longrightarrow> distinct (map key (upsert_row key new f rs))"
  using map_key_update_rows [of "\<lambda>r. key r = key new" key f rs] by (auto simp: upsert_row_def)

lemma find_upsert:
  assumes "\<And>r. key (f r) = key r"
  shows "find_row key k (upsert_row key new f rs) =
    (if key new = k then Some (case find_row key k rs of None \<Rightarrow> new | Some r \<Rightarrow> f r) else find_row key k rs)"
proof (cases "key new \<in> set (map key rs)")
  case True
  then obtain r where "find_row key (key new) rs = Some r"
    by (cases "find_row key (key new) rs") (auto simp: find_row_def find_None_iff)
  moreover have "key r = k" if "find_row key k rs = Some r" for r k using that by (auto simp: find_row_def find_Some_iff)
  ultimately show ?thesis using True assms
    by (auto simp: upsert_row_def find_row_update_rows option.map_ident split: option.splits intro!: map_option_idI)
next
  case False
  then have "key r \<noteq> key new" if "r \<in> set rs" for r using that by (metis image_eqI set_map)
  then have "find_row key (key new) rs = None" by (auto simp: find_row_def find_None_iff)
  with False show ?thesis by (auto simp: upsert_row_def find_row_append find_row_Cons split: option.splits)
qed

lemma order_desc_Nil: "order_desc key rs = [] \<longleftrightarrow> rs = []"
  by (metis set_empty set_order_desc)

section \<open>Usage of skills\<close>

datatype usage_op = Ensure string "string option" | View string DateTime | Use string DateTime | Patch string DateTime
  | Set_state string string | Set_pinned string bool

fun apply_usage :: "usage_op \<Rightarrow> task_db \<Rightarrow> task_db" where
  "apply_usage (Ensure s by_whom) = ensure_skill_usage s by_whom"
| "apply_usage (View s t) = bump_skill_view s t"
| "apply_usage (Use s t) = bump_skill_use s t"
| "apply_usage (Patch s t) = bump_skill_patch s t"
| "apply_usage (Set_state s state) = set_skill_usage_state s state"
| "apply_usage (Set_pinned s b) = set_skill_pinned s b"

definition usage_of :: "string \<Rightarrow> task_db \<Rightarrow> int \<times> int \<times> int" where
  "usage_of s d = (case find_row su_skill_id s (skill_usage d) of
     None \<Rightarrow> (0, 0, 0) | Some r \<Rightarrow> (su_view_count r, su_use_count r, su_patch_count r))"

definition times :: "(usage_op \<Rightarrow> bool) \<Rightarrow> usage_op list \<Rightarrow> int" where
  "times P ops = int (length (filter P ops))"

definition counted :: "string \<Rightarrow> usage_op list \<Rightarrow> int \<times> int \<times> int \<Rightarrow> int \<times> int \<times> int" where
  "counted s ops = (\<lambda>(v, u, p).
     (v + times (\<lambda>x. \<exists>t. x = View s t) ops, u + times (\<lambda>x. \<exists>t. x = Use s t) ops, p + times (\<lambda>x. \<exists>t. x = Patch s t) ops))"

lemma counted_Cons: "counted s (x # ops) c = counted s ops (counted s [x] c)"
  by (simp add: counted_def times_def split: prod.splits)

lemma find_update_usage:
  "(\<And>r. su_skill_id (f r) = su_skill_id r) \<Longrightarrow> find_row su_skill_id s (skill_usage (update_usage i f d)) =
     map_option (\<lambda>r. if su_skill_id r = i then f r else r) (find_row su_skill_id s (skill_usage d))"
  by (simp add: update_usage_def find_row_update_rows)

lemma usage_of_apply: "usage_of s (apply_usage x d) = counted s [x] (usage_of s d)"
  by (cases x) (auto simp: usage_of_def counted_def times_def ensure_skill_usage_def bump_skill_view_def bump_skill_use_def
    bump_skill_patch_def bump_def set_skill_usage_state_def set_skill_pinned_def find_upsert find_update_usage new_usage_def
    split: option.splits)

section \<open>Steps\<close>

definition tasks_ok :: "task_db \<Rightarrow> bool" where
  "tasks_ok d \<longleftrightarrow> distinct (map sk_id (skills d)) \<and> distinct (map sv_id (skill_revisions d)) \<and>
     distinct (map su_skill_id (skill_usage d)) \<and> distinct (map st_id (scheduled_tasks d)) \<and>
     distinct (map bt_bg_id (background_tasks d)) \<and> distinct (map pc_bg_id (pending_bg_continuations d)) \<and>
     distinct (map ts_id (task_states d)) \<and> distinct (map (\<lambda>r. (ts_scope_type r, ts_scope_id r)) (task_states d))"

inductive task_step :: "task_db \<Rightarrow> task_db \<Rightarrow> bool" where
  enable: "task_step d (set_skill_enabled i b d)"
| delete: "task_step d (delete_skill i d)"
| upsert: "task_step d (upsert_skill_with_config i name desc icon config d)"
| configure: "task_step d (update_skill_config i config d)"
| seed: "task_step d (seed_if_empty d)"
| revise: "task_step d (snd (insert_skill_revision skill session origin diff h1 h2 i now d))"
| usage: "task_step d (apply_usage x d)"
| create: "task_step d (snd (create_task name desc cron prompt targets i now d))"
| update: "task_step d (update_task i name' cron' prompt' targets status d)"
| delete_task: "task_step d (delete_task i d)"
| record_run: "task_step d (record_task_run i now d)"
| run_status: "task_step d (update_task_run_status i status' d)"
| notify: "task_step d (set_scheduled_task_notify_targets i targets d)"
| background: "task_step d (upsert_background_task bg s label st code kind ms d)"
| mark: "task_step d (mark_background_task_status bg st d)"
| continuation: "task_step d (upsert_pending_bg_continuation bg s prompt display source zh ms d)"
| delete_continuation: "task_step d (delete_pending_bg_continuation bg d)"
| state: "task_step d (snd (get_or_create_task_state sc si i now d))"
| update_state: "task_step d (update_task_state i goal json summary status' now d)"

lemma distinct_map_filter: "distinct (map f xs) \<Longrightarrow> distinct (map f (filter P xs))"
  by (induction xs) auto

lemmas keep_keys = tasks_ok_def map_key_update_rows distinct_map_filter distinct_upsert

lemma seed_keeps: "distinct (map sk_id rs) \<Longrightarrow> distinct (map sk_id (fold (\<lambda>(i, name, desc, icon).
     upsert_row sk_id \<lparr>sk_id = i, sk_name = name, sk_description = desc, sk_enabled = True, sk_icon = icon,
       sk_config = empty_object\<rparr> (\<lambda>r. r)) xs rs))"
  by (induction xs arbitrary: rs) (auto simp: distinct_upsert split: prod.splits)

lemma ok_update_scheduled: "tasks_ok d \<Longrightarrow> (\<And>r. st_id (f r) = st_id r) \<Longrightarrow> tasks_ok (update_scheduled i f d)"
  by (simp add: update_scheduled_def keep_keys)

lemma ok_update_task: "tasks_ok d \<Longrightarrow> tasks_ok (update_task i name cron prompt targets status d)"
  by (auto simp: update_task_def Let_def ok_update_scheduled split: option.splits)

lemma ok_usage: "tasks_ok d \<Longrightarrow> tasks_ok (apply_usage x d)"
  by (cases x) (simp_all add: keep_keys ensure_skill_usage_def bump_skill_view_def bump_skill_use_def
    bump_skill_patch_def bump_def set_skill_usage_state_def set_skill_pinned_def update_usage_def)

lemma ok_get_or_create: "tasks_ok d \<Longrightarrow> tasks_ok (snd (get_or_create_task_state sc si i now d))"
proof (cases "load_task_state sc si now d")
  case None
  then have "filter (\<lambda>r. ts_scope_type r = sc \<and> ts_scope_id r = si) (task_states d) = []"
    by (auto simp: load_task_state_def order_desc_Nil split: list.splits)
  then have "(sc, si) \<notin> (\<lambda>r. (ts_scope_type r, ts_scope_id r)) ` set (task_states d)" by (auto simp: filter_empty_conv)
  moreover assume "tasks_ok d"
  ultimately show ?thesis
    using None by (auto simp: get_or_create_task_state_def tasks_ok_def new_task_state_def)
qed (simp add: get_or_create_task_state_def)

lemma task_step_ok: "task_step d d' \<Longrightarrow> tasks_ok d \<Longrightarrow> tasks_ok d'"
proof (induction rule: task_step.induct)
  case (seed d)
  then show ?case using seed_keeps [of "[]" SEED_SKILLS] by (simp add: seed_if_empty_def seed_skills_def keep_keys)
next
  case (update_state d i goal json summary status' now)
  then show ?case by (simp add: update_task_state_def keep_keys)
qed (simp_all add: keep_keys ok_usage [unfolded tasks_ok_def] ok_update_task [unfolded tasks_ok_def]
    ok_get_or_create [unfolded tasks_ok_def] set_skill_enabled_def delete_skill_def upsert_skill_with_config_def
    update_skill_config_def insert_skill_revision_def new_revision_def create_task_def new_task_def delete_task_def
    record_task_run_def update_task_run_status_def set_scheduled_task_notify_targets_def update_scheduled_def
    upsert_background_task_def mark_background_task_status_def upsert_pending_bg_continuation_def
    delete_pending_bg_continuation_def Let_def)

section \<open>Properties\<close>

text \<open>
  C31. The usage counters of a skill are exact: after any sequence of operations on the usage of skills they have
  grown by the number of views, uses and patches of this skill among them, whatever happened to other skills.
\<close>

theorem usage_is_counted: "usage_of s (fold apply_usage ops d) = counted s ops (usage_of s d)"
proof (induction ops arbitrary: d)
  case (Cons x ops)
  then show ?case by (simp add: usage_of_apply counted_Cons [of s x ops])
qed (simp add: counted_def times_def split: prod.splits)

text \<open>
  C32. Whatever operations run on skills, schedules, background tasks and task states, every table keeps its key
  and no scope ever gets a second task state, although no constraint of the table forbids it.
\<close>

theorem one_state_per_scope:
  assumes "task_step\<^sup>*\<^sup>* d d'" and "tasks_ok d"
  shows "tasks_ok d'"
  using assms by (induction rule: rtranclp_induct) (auto intro: task_step_ok)

definition no_tasks :: task_db where
  "no_tasks = \<lparr>skills = [], skill_revisions = [], skill_usage = [], scheduled_tasks = [], background_tasks = [],
     pending_bg_continuations = [], task_states = []\<rparr>"

theorem one_state_per_scope_witness:
  "tasks_ok (snd (get_or_create_task_state ''session'' ''s'' ''b'' 6
     (snd (get_or_create_task_state ''session'' ''s'' ''a'' 5 no_tasks))))"
proof -
  let ?d = "snd (get_or_create_task_state ''session'' ''s'' ''a'' 5 no_tasks)"
  have "task_step\<^sup>*\<^sup>* no_tasks (snd (get_or_create_task_state ''session'' ''s'' ''b'' 6 ?d))"
    by (rule rtranclp.rtrancl_into_rtrancl [OF r_into_rtranclp]) (rule task_step.state)+
  moreover have "tasks_ok no_tasks" by (simp add: tasks_ok_def no_tasks_def)
  ultimately show ?thesis by (rule one_state_per_scope)
qed

end
