(* ===== verification/Summaries.thy ===== *)
theory Summaries
  imports Complex_Main Compaction Preprocess
begin

text \<open>
  The structured rolling summary of \<^verbatim>\<open>agent/summary_worker.rs\<close> with its merge instructions and the breaker, and
  the incremental compaction of \<^verbatim>\<open>agent/loop_.rs\<close> built on it. The arithmetic of \<^verbatim>\<open>f32\<close> is the rounding \<open>f32\<close>, an
  argument; JSON is encoded and decoded by arguments.
\<close>

section \<open>The summary\<close>

record EvidenceRef =
  er_tool_use_id :: string
  er_note :: string

record FactItem =
  fa_id :: string
  fa_text :: string
  fa_evidence :: "EvidenceRef option"
  fa_confidence :: real

record DecisionItem =
  di_id :: string
  di_text :: string
  di_rationale :: string
  di_evidence :: "EvidenceRef option"

record OpenItem =
  oi_id :: string
  oi_text :: string
  oi_assignee :: "string option"
  oi_deadline :: "string option"

record StructuredRollingSummary =
  rs_task_contract :: string
  rs_facts :: "FactItem list"
  rs_decisions :: "DecisionItem list"
  rs_open_items :: "OpenItem list"
  rs_tool_evidence :: "EvidenceRef list"
  rs_errors_learned :: "string list"
  rs_version :: nat
  rs_last_msg_idx_covered :: nat

definition empty_summary :: StructuredRollingSummary where
  "empty_summary = \<lparr>rs_task_contract = [], rs_facts = [], rs_decisions = [], rs_open_items = [], rs_tool_evidence = [],
     rs_errors_learned = [], rs_version = 0, rs_last_msg_idx_covered = 0\<rparr>"

definition rolling_from_prose :: "string \<Rightarrow> StructuredRollingSummary" where
  "rolling_from_prose s =
     (let t = trim s in if t \<noteq> [] then empty_summary\<lparr>rs_task_contract := t\<rparr> else empty_summary)"

definition to_prose ::
  "(StructuredRollingSummary \<Rightarrow> string option) \<Rightarrow> StructuredRollingSummary \<Rightarrow> string" where
  "to_prose encode s = (case encode s of Some json \<Rightarrow> json | None \<Rightarrow> rs_task_contract s)"

definition parse_rolling ::
  "(string \<Rightarrow> StructuredRollingSummary option) \<Rightarrow> string \<Rightarrow> StructuredRollingSummary" where
  "parse_rolling decode s =
     (let t = trim s
      in if t = [] then empty_summary
         else if starts_with t [CHR 0x7B] then
           (case decode t of Some v \<Rightarrow> v | None \<Rightarrow> rolling_from_prose t)
         else rolling_from_prose t)"

definition is_empty_summary :: "StructuredRollingSummary \<Rightarrow> bool" where
  "is_empty_summary s \<longleftrightarrow>
     rs_task_contract s = [] \<and> rs_facts s = [] \<and> rs_decisions s = [] \<and> rs_open_items s = [] \<and> rs_errors_learned s = []"

section \<open>The prompt\<close>

definition decision_line :: "DecisionItem \<Rightarrow> string" where
  "decision_line d =
     ''- '' @ di_text d @
     (if di_rationale d \<noteq> [] then [CHR 0xEF, CHR 0xBC, CHR 0x88, CHR 0xE7, CHR 0x90, CHR 0x86, CHR 0xE7, CHR 0x94, CHR 0xB1, CHR 0xEF, CHR 0xBC, CHR 0x9A] @ di_rationale d @ [CHR 0xEF, CHR 0xBC, CHR 0x89] else []) @ [LF]"

definition open_item_line :: "OpenItem \<Rightarrow> string" where
  "open_item_line i = ''- '' @ oi_text i @ (case oi_assignee i of Some a \<Rightarrow> '' @'' @ a | None \<Rightarrow> []) @ [LF]"

definition fact_line :: "FactItem \<Rightarrow> string" where
  "fact_line f =
     ''- '' @ fa_text f @
     (case fa_evidence f of
        Some ev \<Rightarrow> if er_tool_use_id ev \<noteq> [] then '' [recall:'' @ er_tool_use_id ev @ '']'' else []
      | None \<Rightarrow> []) @ [LF]"

text \<open>The shards that are always emitted.\<close>

definition fixed_shards :: "StructuredRollingSummary \<Rightarrow> string" where
  "fixed_shards s =
     (if rs_task_contract s \<noteq> [] then [CHR 0xE3, CHR 0x80, CHR 0x90, CHR 0xE4, CHR 0xBB, CHR 0xBB, CHR 0xE5, CHR 0x8A, CHR 0xA1, CHR 0xE5, CHR 0xA5, CHR 0x91, CHR 0xE7, CHR 0xBA, CHR 0xA6, CHR 0xE3, CHR 0x80, CHR 0x91] @ [LF] @ rs_task_contract s @ [LF] else []) @
     (if rs_decisions s \<noteq> [] then [CHR 0xE3, CHR 0x80, CHR 0x90, CHR 0xE5, CHR 0xB7, CHR 0xB2, CHR 0xE5, CHR 0x86, CHR 0xB3, CHR 0xE7, CHR 0xAD, CHR 0x96, CHR 0xE3, CHR 0x80, CHR 0x91] @ [LF] @ concat (map decision_line (rs_decisions s)) else []) @
     (if rs_open_items s \<noteq> [] then [CHR 0xE3, CHR 0x80, CHR 0x90, CHR 0xE5, CHR 0xBE, CHR 0x85, CHR 0xE5, CHR 0x8A, CHR 0x9E, CHR 0xE3, CHR 0x80, CHR 0x91] @ [LF] @ concat (map open_item_line (rs_open_items s)) else []) @
     (if rs_errors_learned s \<noteq> [] then
        [CHR 0xE3, CHR 0x80, CHR 0x90, CHR 0xE5, CHR 0xB7, CHR 0xB2, CHR 0xE7, CHR 0x9F, CHR 0xA5, CHR 0xE5, CHR 0x9D, CHR 0x91, CHR 0xE3, CHR 0x80, CHR 0x91] @ [LF] @ concat (map (\<lambda>e. ''- '' @ e @ [LF]) (rs_errors_learned s)) else [])"

text \<open>Facts until the budget is reached, and a stable sort with the highest confidence first.\<close>

fun emit_facts :: "nat \<Rightarrow> string \<Rightarrow> FactItem list \<Rightarrow> string" where
  "emit_facts max_chars out [] = out"
| "emit_facts max_chars out (f # fs) =
     (if max_chars \<le> count_chars out then out else emit_facts max_chars (out @ fact_line f) fs)"

definition ranked :: "FactItem list \<Rightarrow> FactItem list" where
  "ranked fs = sort_key (\<lambda>f. - fa_confidence f) fs"

definition facts_heading :: string where
  "facts_heading = [CHR 0xE3, CHR 0x80, CHR 0x90, CHR 0xE5, CHR 0x85, CHR 0xB3, CHR 0xE9, CHR 0x94, CHR 0xAE, CHR 0xE4, CHR 0xBA, CHR 0x8B, CHR 0xE5, CHR 0xAE, CHR 0x9E, CHR 0xE3, CHR 0x80, CHR 0x91] @ [LF]"

definition rendered :: "StructuredRollingSummary \<Rightarrow> nat \<Rightarrow> string" where
  "rendered s max_chars =
     (if rs_facts s = [] then fixed_shards s
      else emit_facts max_chars (fixed_shards s @ facts_heading) (ranked (rs_facts s)))"

definition render_for_prompt :: "StructuredRollingSummary \<Rightarrow> nat \<Rightarrow> string" where
  "render_for_prompt s max_chars = (if is_empty_summary s then [] else trim_end (rendered s max_chars))"

section \<open>Merging\<close>

datatype MergeInstruction =
    SetTaskContract string
  | AddFact string real "EvidenceRef option"
  | UpdateFact string "string option" "real option"
  | InvalidateFact string
  | AddDecision string string "EvidenceRef option"
  | AddOpenItem string "string option"
  | CloseOpenItem string
  | AddError string
  | AddEvidence string string
  | Noop

definition clamp01 :: "real \<Rightarrow> real" where
  "clamp01 c = min (max c 0) 1"

text \<open>The first item that satisfies \<open>P\<close> is changed.\<close>

fun update_first :: "('a \<Rightarrow> bool) \<Rightarrow> ('a \<Rightarrow> 'a) \<Rightarrow> 'a list \<Rightarrow> 'a list" where
  "update_first P f [] = []"
| "update_first P f (x # xs) = (if P x then f x # xs else x # update_first P f xs)"

fun apply_single ::
  "(real \<Rightarrow> real) \<Rightarrow> MergeInstruction \<Rightarrow> StructuredRollingSummary \<Rightarrow> string + StructuredRollingSummary" where
  "apply_single f32 (SetTaskContract text) s =
     (if trim text = [] then Inl ''empty task_contract'' else Inr (s\<lparr>rs_task_contract := trim text\<rparr>))"
| "apply_single f32 (AddFact text confidence evidence) s =
     (let t = trim text
      in if t = [] then Inl ''empty fact text''
         else if list_ex (\<lambda>f. fa_text f = t) (rs_facts s) then
           Inr (s\<lparr>rs_facts := update_first (\<lambda>f. fa_text f = t)
             (\<lambda>f. f\<lparr>fa_confidence := min (f32 (fa_confidence f + f32 (1 / 10))) 1,
                fa_evidence := (if fa_evidence f = None then evidence else fa_evidence f)\<rparr>) (rs_facts s)\<rparr>)
         else Inr (s\<lparr>rs_facts := rs_facts s @ [\<lparr>fa_id = ''f'' @ nat_digits (length (rs_facts s) + 1), fa_text = t,
           fa_evidence = evidence, fa_confidence = clamp01 confidence\<rparr>]\<rparr>))"
| "apply_single f32 (UpdateFact i text confidence) s =
     Inr (s\<lparr>rs_facts := update_first (\<lambda>f. fa_id f = i)
       (\<lambda>f. f\<lparr>fa_text := (case text of Some t \<Rightarrow> if trim t \<noteq> [] then trim t else fa_text f | None \<Rightarrow> fa_text f),
          fa_confidence := (case confidence of Some c \<Rightarrow> clamp01 c | None \<Rightarrow> fa_confidence f)\<rparr>) (rs_facts s)\<rparr>)"
| "apply_single f32 (InvalidateFact i) s = Inr (s\<lparr>rs_facts := filter (\<lambda>f. fa_id f \<noteq> i) (rs_facts s)\<rparr>)"
| "apply_single f32 (AddDecision text rationale evidence) s =
     (let t = trim text
      in if t = [] then Inl ''empty decision text''
         else if list_ex (\<lambda>d. di_text d = t) (rs_decisions s) then Inr s
         else Inr (s\<lparr>rs_decisions := rs_decisions s @ [\<lparr>di_id = ''d'' @ nat_digits (length (rs_decisions s) + 1),
           di_text = t, di_rationale = trim rationale, di_evidence = evidence\<rparr>]\<rparr>))"
| "apply_single f32 (AddOpenItem text assignee) s =
     (let t = trim text
      in if t = [] then Inl ''empty open_item text''
         else if list_ex (\<lambda>i. oi_text i = t) (rs_open_items s) then Inr s
         else Inr (s\<lparr>rs_open_items := rs_open_items s @ [\<lparr>oi_id = ''o'' @ nat_digits (length (rs_open_items s) + 1),
           oi_text = t, oi_assignee = assignee, oi_deadline = None\<rparr>]\<rparr>))"
| "apply_single f32 (CloseOpenItem i) s = Inr (s\<lparr>rs_open_items := filter (\<lambda>x. oi_id x \<noteq> i) (rs_open_items s)\<rparr>)"
| "apply_single f32 (AddError text) s =
     (let t = trim text
      in if t = [] then Inl ''empty error text''
         else if t \<in> set (rs_errors_learned s) then Inr s
         else Inr (s\<lparr>rs_errors_learned := rs_errors_learned s @ [t]\<rparr>))"
| "apply_single f32 (AddEvidence i note) s =
     (if trim i = [] then Inl ''empty tool_use_id''
      else if list_ex (\<lambda>e. er_tool_use_id e = i) (rs_tool_evidence s) then Inr s
      else Inr (s\<lparr>rs_tool_evidence := rs_tool_evidence s @ [\<lparr>er_tool_use_id = i, er_note = trim note\<rparr>]\<rparr>))"
| "apply_single f32 Noop s = Inr s"

fun apply_from ::
  "(real \<Rightarrow> real) \<Rightarrow> nat \<Rightarrow> MergeInstruction list \<Rightarrow> StructuredRollingSummary \<Rightarrow> string + StructuredRollingSummary" where
  "apply_from f32 i [] s = Inr s"
| "apply_from f32 i (x # xs) s =
     (case apply_single f32 x s of
        Inl e \<Rightarrow> Inl (''instruction #'' @ nat_digits i @ '' failed: '' @ e)
      | Inr s' \<Rightarrow> apply_from f32 (Suc i) xs s')"

definition MAX_FACTS :: nat where "MAX_FACTS = 40"
definition MAX_DECISIONS :: nat where "MAX_DECISIONS = 20"
definition MAX_OPEN_ITEMS :: nat where "MAX_OPEN_ITEMS = 30"
definition MAX_ERRORS :: nat where "MAX_ERRORS = 20"
definition MAX_EVIDENCE :: nat where "MAX_EVIDENCE = 60"

text \<open>The last \<open>n\<close> items.\<close>

definition keep_last :: "nat \<Rightarrow> 'a list \<Rightarrow> 'a list" where
  "keep_last n xs = (if n < length xs then drop (length xs - n) xs else xs)"

definition bounded :: "StructuredRollingSummary \<Rightarrow> StructuredRollingSummary" where
  "bounded s =
     s\<lparr>rs_facts := (if MAX_FACTS < length (rs_facts s) then take MAX_FACTS (ranked (rs_facts s)) else rs_facts s),
       rs_decisions := keep_last MAX_DECISIONS (rs_decisions s), rs_open_items := keep_last MAX_OPEN_ITEMS (rs_open_items s),
       rs_errors_learned := keep_last MAX_ERRORS (rs_errors_learned s),
       rs_tool_evidence := keep_last MAX_EVIDENCE (rs_tool_evidence s)\<rparr>"

definition apply_merge_instructions ::
  "(real \<Rightarrow> real) \<Rightarrow> StructuredRollingSummary \<Rightarrow> MergeInstruction list \<Rightarrow> nat \<Rightarrow> string + StructuredRollingSummary" where
  "apply_merge_instructions f32 prev instructions last_msg_idx_covered =
     (case apply_from f32 0 instructions prev of
        Inl e \<Rightarrow> Inl e
      | Inr s \<Rightarrow> Inr (bounded (s\<lparr>rs_version := min (rs_version prev + 1) (2 ^ 32 - 1),
          rs_last_msg_idx_covered := max last_msg_idx_covered (rs_last_msg_idx_covered prev)\<rparr>)))"

definition parse_merge_instructions ::
  "(string \<Rightarrow> string + MergeInstruction list) \<Rightarrow> string \<Rightarrow> string + MergeInstruction list" where
  "parse_merge_instructions decode raw =
     (case extract_json_array raw of None \<Rightarrow> Inl ''no JSON array found'' | Some arr \<Rightarrow> decode arr)"

section \<open>The breaker\<close>

text \<open>Instants and durations in nanoseconds.\<close>

record CircuitBreaker =
  cb_max_consecutive_failures :: nat
  cb_min_interval_on_failure :: nat
  cb_consecutive_failures :: nat
  cb_last_failure_at :: "nat option"

definition new_breaker :: "nat \<Rightarrow> nat \<Rightarrow> CircuitBreaker" where
  "new_breaker failures interval = \<lparr>cb_max_consecutive_failures = failures, cb_min_interval_on_failure = interval,
     cb_consecutive_failures = 0, cb_last_failure_at = None\<rparr>"

definition default_breaker :: CircuitBreaker where
  "default_breaker = new_breaker 2 20000000000"

definition is_closed_at :: "CircuitBreaker \<Rightarrow> nat \<Rightarrow> bool" where
  "is_closed_at b now =
     (if cb_max_consecutive_failures b \<le> cb_consecutive_failures b then False
      else case cb_last_failure_at b of
             Some t \<Rightarrow> \<not> now - t < cb_min_interval_on_failure b | None \<Rightarrow> True)"

definition record_success :: "CircuitBreaker \<Rightarrow> CircuitBreaker" where
  "record_success b = b\<lparr>cb_consecutive_failures := 0, cb_last_failure_at := None\<rparr>"

definition record_failure_at :: "nat \<Rightarrow> CircuitBreaker \<Rightarrow> CircuitBreaker" where
  "record_failure_at now b =
     b\<lparr>cb_consecutive_failures := min (cb_consecutive_failures b + 1) (2 ^ 32 - 1), cb_last_failure_at := Some now\<rparr>"

definition reset_breaker :: "CircuitBreaker \<Rightarrow> CircuitBreaker" where
  "reset_breaker b = b\<lparr>cb_consecutive_failures := 0, cb_last_failure_at := None\<rparr>"

section \<open>Incremental compaction\<close>

definition INCREMENTAL_MERGE_PROMPT_SUFFIX :: string where
  "INCREMENTAL_MERGE_PROMPT_SUFFIX = ([CHR 0x0A, CHR 0x0A, CHR 0xE4, CHR 0xB8, CHR 0xA5, CHR 0xE6, CHR 0xA0, CHR 0xBC, CHR 0xE6, CHR 0x8C, CHR 0x89] @
      '' JSON '' @
      [CHR 0xE6, CHR 0x95, CHR 0xB0, CHR 0xE7, CHR 0xBB, CHR 0x84, CHR 0xE5, CHR 0xBD, CHR 0xA2, CHR 0xE5, CHR 0xBC, CHR 0x8F, CHR 0xE8, CHR 0xBF, CHR 0x94, CHR 0xE5, CHR 0x9B, CHR 0x9E] @
      '' merge '' @
      [CHR 0xE6, CHR 0x8C, CHR 0x87, CHR 0xE4, CHR 0xBB, CHR 0xA4, CHR 0xE5, CHR 0x88, CHR 0x97, CHR 0xE8, CHR 0xA1, CHR 0xA8, CHR 0xEF, CHR 0xBC, CHR 0x8C, CHR 0xE4, CHR 0xB8, CHR 0x94, CHR 0xE5, CHR 0x8F, CHR 0xAA, CHR 0xE8, CHR 0xBF, CHR 0x94, CHR 0xE5, CHR 0x9B, CHR 0x9E, CHR 0xE8, CHR 0xBF, CHR 0x99, CHR 0xE6, CHR 0xAE, CHR 0xB5] @
      '' JSON'' @
      [CHR 0xE3, CHR 0x80, CHR 0x82, CHR 0x0A, CHR 0xE5, CHR 0x8F, CHR 0xAF, CHR 0xE7, CHR 0x94, CHR 0xA8] @
      '' op '' @
      [CHR 0xE7, CHR 0xB1, CHR 0xBB, CHR 0xE5, CHR 0x9E, CHR 0x8B, CHR 0xEF, CHR 0xBC, CHR 0x9A, CHR 0x0A] @
      ''- {'' @ [CHR 0x22] @ ''op'' @ [CHR 0x22] @ '':'' @ [CHR 0x22] @ ''set_task_contract'' @ [CHR 0x22] @ '','' @
      [CHR 0x22] @ ''text'' @ [CHR 0x22] @ '':'' @ [CHR 0x22, CHR 0xE2, CHR 0x80, CHR 0xA6, CHR 0x22] @ ''}'' @
      [CHR 0x0A] @ ''- {'' @ [CHR 0x22] @ ''op'' @ [CHR 0x22] @ '':'' @ [CHR 0x22] @ ''add_fact'' @ [CHR 0x22] @
      '','' @ [CHR 0x22] @ ''text'' @ [CHR 0x22] @ '':'' @ [CHR 0x22, CHR 0xE2, CHR 0x80, CHR 0xA6, CHR 0x22] @
      '','' @ [CHR 0x22] @ ''confidence'' @ [CHR 0x22] @ '':0.9,'' @ [CHR 0x22] @ ''evidence'' @ [CHR 0x22] @
      '':{'' @ [CHR 0x22] @ ''tool_use_id'' @ [CHR 0x22] @ '':'' @
      [CHR 0x22, CHR 0xE2, CHR 0x80, CHR 0xA6, CHR 0x22] @ '','' @ [CHR 0x22] @ ''note'' @ [CHR 0x22] @ '':'' @
      [CHR 0x22, CHR 0xE2, CHR 0x80, CHR 0xA6, CHR 0x22] @ ''}}'' @ [CHR 0x0A] @ ''- {'' @ [CHR 0x22] @ ''op'' @
      [CHR 0x22] @ '':'' @ [CHR 0x22] @ ''update_fact'' @ [CHR 0x22] @ '','' @ [CHR 0x22] @ ''id'' @ [CHR 0x22] @
      '':'' @ [CHR 0x22] @ ''fN'' @ [CHR 0x22] @ '','' @ [CHR 0x22] @ ''text'' @ [CHR 0x22] @ '':'' @
      [CHR 0x22, CHR 0xE2, CHR 0x80, CHR 0xA6, CHR 0x22] @ '','' @ [CHR 0x22] @ ''confidence'' @ [CHR 0x22] @
      '':0.7}'' @ [CHR 0x0A] @ ''- {'' @ [CHR 0x22] @ ''op'' @ [CHR 0x22] @ '':'' @ [CHR 0x22] @
      ''invalidate_fact'' @ [CHR 0x22] @ '','' @ [CHR 0x22] @ ''id'' @ [CHR 0x22] @ '':'' @ [CHR 0x22] @ ''fN'' @
      [CHR 0x22] @ ''}'' @ [CHR 0x0A] @ ''- {'' @ [CHR 0x22] @ ''op'' @ [CHR 0x22] @ '':'' @ [CHR 0x22] @
      ''add_decision'' @ [CHR 0x22] @ '','' @ [CHR 0x22] @ ''text'' @ [CHR 0x22] @ '':'' @
      [CHR 0x22, CHR 0xE2, CHR 0x80, CHR 0xA6, CHR 0x22] @ '','' @ [CHR 0x22] @ ''rationale'' @ [CHR 0x22] @ '':'' @
      [CHR 0x22, CHR 0xE2, CHR 0x80, CHR 0xA6, CHR 0x22] @ ''}'' @ [CHR 0x0A] @ ''- {'' @ [CHR 0x22] @ ''op'' @
      [CHR 0x22] @ '':'' @ [CHR 0x22] @ ''add_open_item'' @ [CHR 0x22] @ '','' @ [CHR 0x22] @ ''text'' @
      [CHR 0x22] @ '':'' @ [CHR 0x22, CHR 0xE2, CHR 0x80, CHR 0xA6, CHR 0x22] @ '','' @ [CHR 0x22] @ ''assignee'' @
      [CHR 0x22] @ '':'' @ [CHR 0x22, CHR 0xE2, CHR 0x80, CHR 0xA6, CHR 0x22] @ ''}'' @ [CHR 0x0A] @ ''- {'' @
      [CHR 0x22] @ ''op'' @ [CHR 0x22] @ '':'' @ [CHR 0x22] @ ''close_open_item'' @ [CHR 0x22] @ '','' @
      [CHR 0x22] @ ''id'' @ [CHR 0x22] @ '':'' @ [CHR 0x22] @ ''oN'' @ [CHR 0x22] @ ''}'' @ [CHR 0x0A] @ ''- {'' @
      [CHR 0x22] @ ''op'' @ [CHR 0x22] @ '':'' @ [CHR 0x22] @ ''add_error'' @ [CHR 0x22] @ '','' @ [CHR 0x22] @
      ''text'' @ [CHR 0x22] @ '':'' @ [CHR 0x22, CHR 0xE2, CHR 0x80, CHR 0xA6, CHR 0x22] @ ''}'' @ [CHR 0x0A] @
      ''- {'' @ [CHR 0x22] @ ''op'' @ [CHR 0x22] @ '':'' @ [CHR 0x22] @ ''add_evidence'' @ [CHR 0x22] @ '','' @
      [CHR 0x22] @ ''tool_use_id'' @ [CHR 0x22] @ '':'' @ [CHR 0x22, CHR 0xE2, CHR 0x80, CHR 0xA6, CHR 0x22] @
      '','' @ [CHR 0x22] @ ''note'' @ [CHR 0x22] @ '':'' @ [CHR 0x22, CHR 0xE2, CHR 0x80, CHR 0xA6, CHR 0x22] @
      ''}'' @ [CHR 0x0A] @ ''- {'' @ [CHR 0x22] @ ''op'' @ [CHR 0x22] @ '':'' @ [CHR 0x22] @ ''noop'' @ [CHR 0x22] @
      ''}'' @
      [CHR 0x0A, CHR 0xE5, CHR 0x8E, CHR 0x9F, CHR 0xE5, CHR 0x88, CHR 0x99, CHR 0xEF, CHR 0xBC, CHR 0x9A, CHR 0xE5, CHR 0x8F, CHR 0xAA, CHR 0xE5, CHR 0xA4, CHR 0x84, CHR 0xE7, CHR 0x90, CHR 0x86] @
      ''**'' @
      [CHR 0xE6, CHR 0x96, CHR 0xB0, CHR 0xE5, CHR 0xA2, CHR 0x9E, CHR 0xE4, CHR 0xBF, CHR 0xA1, CHR 0xE6, CHR 0x81, CHR 0xAF] @
      ''**'' @
      [CHR 0xEF, CHR 0xBC, CHR 0x9B, CHR 0xE5, CHR 0xB7, CHR 0xB2, CHR 0xE5, CHR 0x9C, CHR 0xA8, CHR 0xE5, CHR 0x85, CHR 0x88, CHR 0xE9, CHR 0xAA, CHR 0x8C, CHR 0xE4, CHR 0xB8, CHR 0xAD, CHR 0xE5, CHR 0x87, CHR 0xBA, CHR 0xE7, CHR 0x8E, CHR 0xB0, CHR 0xE7, CHR 0x9A, CHR 0x84, CHR 0xE4, CHR 0xBA, CHR 0x8B, CHR 0xE5, CHR 0xAE, CHR 0x9E] @
      ''/'' @
      [CHR 0xE5, CHR 0x86, CHR 0xB3, CHR 0xE7, CHR 0xAD, CHR 0x96, CHR 0xE4, CHR 0xB8, CHR 0x8D, CHR 0xE8, CHR 0xA6, CHR 0x81, CHR 0xE9, CHR 0x87, CHR 0x8D, CHR 0xE5, CHR 0xA4, CHR 0x8D, CHR 0xEF, CHR 0xBC, CHR 0x9B, CHR 0x0A, CHR 0xE4, CHR 0xB8, CHR 0x8D, CHR 0xE5, CHR 0xBE, CHR 0x97, CHR 0xE8, CHR 0xBE, CHR 0x93, CHR 0xE5, CHR 0x87, CHR 0xBA, CHR 0xE4, CHR 0xBB, CHR 0xBB, CHR 0xE4, CHR 0xBD, CHR 0x95] @
      '' JSON '' @
      [CHR 0xE4, CHR 0xBB, CHR 0xA5, CHR 0xE5, CHR 0xA4, CHR 0x96, CHR 0xE7, CHR 0x9A, CHR 0x84, CHR 0xE6, CHR 0x96, CHR 0x87, CHR 0xE6, CHR 0x9C, CHR 0xAC, CHR 0xEF, CHR 0xBC, CHR 0x8C, CHR 0xE4, CHR 0xB8, CHR 0x8D, CHR 0xE8, CHR 0xA6, CHR 0x81] @
      '' markdown '' @ [CHR 0xE5, CHR 0x9B, CHR 0xB4, CHR 0xE6, CHR 0xA0, CHR 0x8F, CHR 0xE3, CHR 0x80, CHR 0x82])"

fun block_for_summariser :: "(json \<Rightarrow> string) \<Rightarrow> ContentBlock \<Rightarrow> string option" where
  "block_for_summariser js (TextBlock text) = (if text = [] then None else Some text)"
| "block_for_summariser js (ToolUse i name input) = Some (([CHR 0xE8, CHR 0xB0, CHR 0x83, CHR 0xE7, CHR 0x94, CHR 0xA8, CHR 0xE5, CHR 0xB7, CHR 0xA5, CHR 0xE5, CHR 0x85, CHR 0xB7] @
         '' '') @ name @ '': '' @ take_chars 200 (js input))"
| "block_for_summariser js (ToolResult i content e) = Some (''['' @ i @ (''] '' @
         [CHR 0xE5, CHR 0xB7, CHR 0xA5, CHR 0xE5, CHR 0x85, CHR 0xB7, CHR 0xE7, CHR 0xBB, CHR 0x93, CHR 0xE6, CHR 0x9E, CHR 0x9C] @
         '': '') @ take_chars 200 content)"
| "block_for_summariser js (Image s) = None"

definition format_message_for_summariser :: "(json \<Rightarrow> string) \<Rightarrow> LlmMessage \<Rightarrow> string" where
  "format_message_for_summariser js m =
     (let role = (if lm_role m = ''user'' then ([CHR 0xE7, CHR 0x94, CHR 0xA8, CHR 0xE6, CHR 0x88, CHR 0xB7] @ ''/'' @
         [CHR 0xE5, CHR 0xB7, CHR 0xA5, CHR 0xE5, CHR 0x85, CHR 0xB7, CHR 0xE7, CHR 0xBB, CHR 0x93, CHR 0xE6, CHR 0x9E, CHR 0x9C]) else [CHR 0xE6, CHR 0x99, CHR 0xBA, CHR 0xE8, CHR 0x83, CHR 0xBD, CHR 0xE4, CHR 0xBD, CHR 0x93]);
          text = (case lm_content m of
                    Text t \<Rightarrow> t | Blocks bs \<Rightarrow> join [LF] (List.map_filter (block_for_summariser js) bs))
      in if text = [] \<or> is_compaction_summary_text text then []
         else ''['' @ role @ '']: '' @ (if 500 < count_chars text then take_chars 500 text @ ''...'' else text))"

definition prior_block :: "StructuredRollingSummary option \<Rightarrow> string" where
  "prior_block prev =
     (case prev of
        Some p \<Rightarrow> if is_empty_summary p then [] else ([CHR 0xE3, CHR 0x80, CHR 0x90, CHR 0xE5, CHR 0x85, CHR 0x88, CHR 0xE9, CHR 0xAA, CHR 0x8C, CHR 0xE6, CHR 0x91, CHR 0x98, CHR 0xE8, CHR 0xA6, CHR 0x81, CHR 0xEF, CHR 0xBC, CHR 0x88, CHR 0xE5, CHR 0xB7, CHR 0xB2, CHR 0xE7, CHR 0x9F, CHR 0xA5, CHR 0xE4, CHR 0xBA, CHR 0x8B, CHR 0xE5, CHR 0xAE, CHR 0x9E] @
         ''/'' @ [CHR 0xE5, CHR 0x86, CHR 0xB3, CHR 0xE7, CHR 0xAD, CHR 0x96] @ ''/'' @
         [CHR 0xE5, CHR 0xBE, CHR 0x85, CHR 0xE5, CHR 0x8A, CHR 0x9E, CHR 0xEF, CHR 0xBC, CHR 0x8C, CHR 0xE4, CHR 0xB8, CHR 0x8D, CHR 0xE8, CHR 0xA6, CHR 0x81, CHR 0xE9, CHR 0x87, CHR 0x8D, CHR 0xE5, CHR 0xA4, CHR 0x8D, CHR 0xEF, CHR 0xBC, CHR 0x89, CHR 0xE3, CHR 0x80, CHR 0x91]) @ [LF] @ render_for_prompt p 4096 @ [LF, LF]
      | None \<Rightarrow> [])"

definition memory_block :: "string list \<Rightarrow> string" where
  "memory_block memory_snapshot =
     (if memory_snapshot = [] then []
      else [CHR 0xE3, CHR 0x80, CHR 0x90, CHR 0xE9, CHR 0x95, CHR 0xBF, CHR 0xE6, CHR 0x9C, CHR 0x9F, CHR 0xE8, CHR 0xAE, CHR 0xB0, CHR 0xE5, CHR 0xBF, CHR 0x86, CHR 0xE7, CHR 0xA0, CHR 0x81, CHR 0xE6, CHR 0x9C, CHR 0xAC, CHR 0xEF, CHR 0xBC, CHR 0x88, CHR 0xE5, CHR 0xB7, CHR 0xB2, CHR 0xE5, CHR 0x9B, CHR 0xBA, CHR 0xE5, CHR 0x8C, CHR 0x96, CHR 0xE7, CHR 0x9A, CHR 0x84, CHR 0xE4, CHR 0xBA, CHR 0x8B, CHR 0xE5, CHR 0xAE, CHR 0x9E, CHR 0xEF, CHR 0xBC, CHR 0x8C, CHR 0xE4, CHR 0xB8, CHR 0x8D, CHR 0xE8, CHR 0xA6, CHR 0x81, CHR 0xE9, CHR 0x87, CHR 0x8D, CHR 0xE5, CHR 0xA4, CHR 0x8D, CHR 0xEF, CHR 0xBC, CHR 0x89, CHR 0xE3, CHR 0x80, CHR 0x91] @ [LF] @ join [LF] (map (\<lambda>s. ''- '' @ s) (take 40 memory_snapshot)) @ [LF, LF])"

definition incremental_prompt ::
  "StructuredRollingSummary option \<Rightarrow> string list \<Rightarrow> string \<Rightarrow> string" where
  "incremental_prompt prev memory_snapshot delta_text =
     ([CHR 0xE4, CHR 0xBD, CHR 0xA0, CHR 0xE6, CHR 0xAD, CHR 0xA3, CHR 0xE5, CHR 0x9C, CHR 0xA8, CHR 0xE7, CHR 0xBB, CHR 0xB4, CHR 0xE6, CHR 0x8A, CHR 0xA4, CHR 0xE4, CHR 0xB8, CHR 0x80, CHR 0xE4, CHR 0xBB, CHR 0xBD, CHR 0xE7, CHR 0xBB, CHR 0x93, CHR 0xE6, CHR 0x9E, CHR 0x84, CHR 0xE5, CHR 0x8C, CHR 0x96, CHR 0xE7, CHR 0x9A, CHR 0x84, CHR 0xE4, CHR 0xBC, CHR 0x9A, CHR 0xE8, CHR 0xAF, CHR 0x9D, CHR 0xE6, CHR 0xBB, CHR 0x9A, CHR 0xE5, CHR 0x8A, CHR 0xA8, CHR 0xE6, CHR 0x91, CHR 0x98, CHR 0xE8, CHR 0xA6, CHR 0x81, CHR 0xE3, CHR 0x80, CHR 0x82, CHR 0xE8, CHR 0xAF, CHR 0xB7, CHR 0xE9, CHR 0x98, CHR 0x85, CHR 0xE8, CHR 0xAF, CHR 0xBB, CHR 0xE4, CHR 0xB8, CHR 0x8B, CHR 0xE9, CHR 0x9D, CHR 0xA2, CHR 0xE7, CHR 0x9A, CHR 0x84, CHR 0xE5, CHR 0x85, CHR 0x88, CHR 0xE9, CHR 0xAA, CHR 0x8C] @
         '' + '' @
         [CHR 0xE6, CHR 0x96, CHR 0xB0, CHR 0xE5, CHR 0xA2, CHR 0x9E, CHR 0xE7, CHR 0x89, CHR 0x87, CHR 0xE6, CHR 0xAE, CHR 0xB5, CHR 0xEF, CHR 0xBC, CHR 0x8C, CHR 0xE4, CHR 0xBB, CHR 0x85, CHR 0xE9, CHR 0x92, CHR 0x88, CHR 0xE5, CHR 0xAF, CHR 0xB9] @
         ''**'' @
         [CHR 0xE6, CHR 0x96, CHR 0xB0, CHR 0xE5, CHR 0xA2, CHR 0x9E, CHR 0xE4, CHR 0xBF, CHR 0xA1, CHR 0xE6, CHR 0x81, CHR 0xAF] @
         ''**'' @ [CHR 0xE7, CHR 0xBB, CHR 0x99, CHR 0xE5, CHR 0x87, CHR 0xBA] @ '' merge '' @
         [CHR 0xE6, CHR 0x8C, CHR 0x87, CHR 0xE4, CHR 0xBB, CHR 0xA4, CHR 0xEF, CHR 0xBC, CHR 0x88] @ ''JSON '' @
         [CHR 0xE6, CHR 0x95, CHR 0xB0, CHR 0xE7, CHR 0xBB, CHR 0x84, CHR 0xEF, CHR 0xBC, CHR 0x89, CHR 0xE3, CHR 0x80, CHR 0x82]) @ [LF, LF] @ prior_block prev @ memory_block memory_snapshot @ [CHR 0xE3, CHR 0x80, CHR 0x90, CHR 0xE6, CHR 0x96, CHR 0xB0, CHR 0xE5, CHR 0xA2, CHR 0x9E, CHR 0xE5, CHR 0xAF, CHR 0xB9, CHR 0xE8, CHR 0xAF, CHR 0x9D, CHR 0xE7, CHR 0x89, CHR 0x87, CHR 0xE6, CHR 0xAE, CHR 0xB5, CHR 0xE3, CHR 0x80, CHR 0x91] @ [LF] @
     delta_text @ [LF] @ INCREMENTAL_MERGE_PROMPT_SUFFIX"

record summary_env =
  se_f32 :: "real \<Rightarrow> real"
  se_decode :: "string \<Rightarrow> string + MergeInstruction list"
  se_encode :: "StructuredRollingSummary \<Rightarrow> string option"

definition delta_text_of :: "(json \<Rightarrow> string) \<Rightarrow> LlmMessage list \<Rightarrow> string" where
  "delta_text_of js delta =
     join [LF, LF] (filter (\<lambda>s. s \<noteq> []) (map (format_message_for_summariser js) (preprocess_messages delta L2)))"

definition merged_outcome ::
  "summary_env \<Rightarrow> LlmMessage list \<Rightarrow> nat \<Rightarrow> LlmResponse \<Rightarrow> StructuredRollingSummary \<Rightarrow> CompactionOutcome" where
  "merged_outcome v messages split_idx resp s =
     \<lparr>oc_messages = rolling_summary_message (render_for_prompt s 4096) # drop split_idx messages,
      oc_summary = to_prose (se_encode v) s, oc_input_tokens = rs_input_tokens resp,
      oc_output_tokens = rs_output_tokens resp, oc_plan_items = map oi_text (rs_open_items s),
      oc_next_step_hint = None\<rparr>"

text \<open>The outcome comes with the new summary.\<close>

definition compact_summarise_incremental ::
  "compaction_env \<Rightarrow> summary_env \<Rightarrow> LlmMessage list \<Rightarrow> nat \<Rightarrow> string \<Rightarrow> u32 \<Rightarrow> StructuredRollingSummary option \<Rightarrow>
   string list \<Rightarrow> (CompactionOutcome \<times> StructuredRollingSummary) option" where
  "compact_summarise_incremental e v messages keep_tokens model max_tokens prev memory_snapshot =
     (let split_idx = summary_split_index (ce_js e) messages keep_tokens;
          last_covered = (case prev of Some p \<Rightarrow> rs_last_msg_idx_covered p | None \<Rightarrow> 0);
          delta_start = min last_covered split_idx;
          delta = drop delta_start (take split_idx messages);
          delta_text = delta_text_of (ce_js e) delta
      in if length messages < 2 then None
         else if split_idx = 0 then None
         else if delta = [] then None
         else if trim delta_text = [] then None
         else case ce_complete e (summary_request model max_tokens (incremental_prompt prev memory_snapshot delta_text)) of
                Inl err \<Rightarrow> None
              | Inr resp \<Rightarrow>
                  if rs_content resp = [] then None
                  else case parse_merge_instructions (se_decode v) (rs_content resp) of
                         Inl err \<Rightarrow> None
                       | Inr instructions \<Rightarrow>
                           (case apply_merge_instructions (se_f32 v) (case prev of Some p \<Rightarrow> p | None \<Rightarrow> empty_summary)
                                   instructions split_idx of
                              Inl err \<Rightarrow> None
                            | Inr s \<Rightarrow> Some (merged_outcome v messages split_idx resp s, s)))"

end
