(* ===== verification/Summary_Merges.thy ===== *)
theory Summary_Merges
  imports Summaries
begin

text \<open>What merging keeps of a summary, what the prompt shows of it, and how identifiers are reused.\<close>

section \<open>Merging\<close>

definition merge_ok :: "StructuredRollingSummary \<Rightarrow> bool" where
  "merge_ok s \<longleftrightarrow> distinct (map di_text (rs_decisions s)) \<and> distinct (map oi_text (rs_open_items s)) \<and>
     distinct (rs_errors_learned s) \<and> distinct (map er_tool_use_id (rs_tool_evidence s)) \<and>
     list_all (\<lambda>f. 0 \<le> fa_confidence f \<and> fa_confidence f \<le> 1) (rs_facts s)"

definition good_rounding :: "(real \<Rightarrow> real) \<Rightarrow> bool" where
  "good_rounding f32 \<longleftrightarrow> (\<forall>x. 0 \<le> x \<longrightarrow> 0 \<le> f32 x)"

lemma update_first_all: "list_all P xs \<Longrightarrow> (\<And>x. P x \<Longrightarrow> P (f x)) \<Longrightarrow> list_all P (update_first Q f xs)"
  by (induction xs) auto

lemma clamp01_range: "0 \<le> clamp01 c" "clamp01 c \<le> 1"
  by (simp_all add: clamp01_def)

lemma distinct_filter_map: "distinct (map f xs) \<Longrightarrow> distinct (map f (filter P xs))"
  by (induction xs) auto

lemma apply_single_ok:
  "good_rounding f32 \<Longrightarrow> merge_ok s \<Longrightarrow> apply_single f32 x s = Inr s' \<Longrightarrow> merge_ok s'"
proof (cases x)
  case (AddFact w c ev)
  assume f32: "good_rounding f32" and ok: "merge_ok s" and s': "apply_single f32 x s = Inr s'"
  define P where "P = (\<lambda>f :: FactItem. 0 \<le> fa_confidence f \<and> fa_confidence f \<le> 1)"
  have facts: "list_all P (rs_facts s)" using ok by (simp add: merge_ok_def P_def)
  have bump: "P (f\<lparr>fa_confidence := min (f32 (fa_confidence f + f32 (1 / 10))) 1, fa_evidence := e\<rparr>)" if "P f" for f :: FactItem and e
    using f32 that by (simp add: P_def good_rounding_def)
  have "\<exists>fs. s' = s\<lparr>rs_facts := fs\<rparr> \<and> list_all P fs"
    using s' AddFact facts update_first_all [OF facts, of _ "\<lambda>f. fa_text f = trim w"] bump
    by (auto simp: Let_def P_def clamp01_range split: if_splits)
  then show ?thesis using ok by (auto simp: merge_ok_def P_def)
next
  case (UpdateFact i t c)
  assume "merge_ok s" "apply_single f32 x s = Inr s'"
  with UpdateFact show ?thesis by (auto simp: merge_ok_def clamp01_range split: option.splits intro!: update_first_all)
next
  case (InvalidateFact i)
  assume "merge_ok s" "apply_single f32 x s = Inr s'"
  with InvalidateFact show ?thesis by (auto simp: merge_ok_def list_all_iff)
next
  case (AddDecision w r ev)
  assume "merge_ok s" "apply_single f32 x s = Inr s'"
  with AddDecision show ?thesis by (auto simp: merge_ok_def Let_def list_ex_iff split: if_splits) blast
next
  case (AddOpenItem w a)
  assume "merge_ok s" "apply_single f32 x s = Inr s'"
  with AddOpenItem show ?thesis by (auto simp: merge_ok_def Let_def list_ex_iff split: if_splits) blast
qed (auto simp: merge_ok_def Let_def list_ex_iff distinct_filter_map split: if_splits)

lemma apply_from_ok: "good_rounding f32 \<Longrightarrow> merge_ok s \<Longrightarrow> apply_from f32 i xs s = Inr s' \<Longrightarrow> merge_ok s'"
  by (induction xs arbitrary: i s) (auto split: sum.splits dest: apply_single_ok)

lemma distinct_keep_last: "distinct (map f xs) \<Longrightarrow> distinct (map f (keep_last n xs))"
  by (simp add: keep_last_def flip: drop_map)

lemma length_keep_last: "length (keep_last n xs) \<le> n"
  by (simp add: keep_last_def)

lemma bounded_ok: "merge_ok s \<Longrightarrow> merge_ok (bounded s)"
  using distinct_keep_last [of id "rs_errors_learned s"]
  by (auto simp: merge_ok_def bounded_def distinct_keep_last list_all_iff ranked_def dest!: in_set_takeD)

lemma length_without_key: "distinct (map key xs) \<Longrightarrow> x \<in> set xs \<Longrightarrow> length (filter (\<lambda>y. key y \<noteq> key x) xs) = length xs - 1"
proof (induction xs)
  case (Cons y ys)
  show ?case
  proof (cases "y = x")
    case True
    then have "filter (\<lambda>z. key z \<noteq> key x) ys = ys" using Cons.prems(1) by (intro filter_True) (auto simp: image_iff)
    with True show ?thesis by simp
  next
    case False
    then have x: "x \<in> set ys" and "key y \<noteq> key x" using Cons.prems by auto
    moreover have "length (filter (\<lambda>z. key z \<noteq> key x) ys) = length ys - 1" using Cons x by simp
    moreover have "0 < length ys" using x by (cases ys) auto
    ultimately show ?thesis by simp
  qed
qed simp

section \<open>Rendering\<close>

lemma emit_facts_prefix:
  "\<exists>k \<le> length fs. emit_facts n out fs = out @ concat (map fact_line (take k fs)) \<and>
     (k < length fs \<longrightarrow> n \<le> count_chars (emit_facts n out fs))"
proof (induction fs arbitrary: out)
  case (Cons f fs)
  show ?case
  proof (cases "n \<le> count_chars out")
    case True
    then show ?thesis by (intro exI [of _ 0]) simp
  next
    case False
    obtain k where "k \<le> length fs" "emit_facts n (out @ fact_line f) fs = (out @ fact_line f) @ concat (map fact_line (take k fs))"
      "k < length fs \<longrightarrow> n \<le> count_chars (emit_facts n (out @ fact_line f) fs)" using Cons by blast
    with False show ?thesis by (intro exI [of _ "Suc k"]) simp
  qed
qed simp

section \<open>Properties\<close>

text \<open>
  C33. A merge either fails, and then the summary is as it was, or it counts the version up, never forgets what
  was covered, keeps decisions, open items, errors and evidence free of repetitions and every confidence
  between 0 and 1, and leaves no list longer than its bound, whatever instructions the model sends. Nothing
  is said of repetitions among the facts: an update can make a fact the same as another one.
\<close>

theorem merge_keeps_bounds:
  assumes "good_rounding f32" and "merge_ok prev" and "apply_merge_instructions f32 prev xs k = Inr s"
  shows "merge_ok s \<and> rs_version s = min (rs_version prev + 1) (2 ^ 32 - 1) \<and>
    rs_last_msg_idx_covered s = max k (rs_last_msg_idx_covered prev) \<and>
    length (rs_facts s) \<le> 40 \<and> length (rs_decisions s) \<le> 20 \<and> length (rs_open_items s) \<le> 30 \<and>
    length (rs_errors_learned s) \<le> 20 \<and> length (rs_tool_evidence s) \<le> 60"
proof -
  obtain t where t: "apply_from f32 0 xs prev = Inr t" and s: "s = bounded (t\<lparr>rs_version := min (rs_version prev + 1) (2 ^ 32 - 1),
      rs_last_msg_idx_covered := max k (rs_last_msg_idx_covered prev)\<rparr>)" (is "s = bounded ?u")
    using assms(3) by (auto simp: apply_merge_instructions_def split: sum.splits)
  have "merge_ok t" using apply_from_ok assms(1,2) t by blast
  then have "merge_ok ?u" by (simp add: merge_ok_def)
  then have "merge_ok s" using bounded_ok s by blast
  moreover have "length (rs_facts s) \<le> 40" by (simp add: s bounded_def MAX_FACTS_def)
  moreover have "length (rs_decisions s) \<le> 20" "length (rs_open_items s) \<le> 30" "length (rs_errors_learned s) \<le> 20"
    "length (rs_tool_evidence s) \<le> 60"
    using length_keep_last by (simp_all add: s bounded_def MAX_DECISIONS_def MAX_OPEN_ITEMS_def MAX_ERRORS_def MAX_EVIDENCE_def)
  ultimately show ?thesis by (simp add: s bounded_def)
qed

text \<open>
  Only facts are dropped from the prompt, and only when it is full: what is rendered is every other shard in
  full, then the facts with the highest confidence in order, and a fact is missing only when the budget is used up.
\<close>

theorem only_facts_are_dropped:
  assumes "rs_facts s \<noteq> []"
  shows "\<exists>k \<le> length (rs_facts s). rendered s n = fixed_shards s @ facts_heading @ concat (map fact_line (take k (ranked (rs_facts s)))) \<and>
    (k < length (rs_facts s) \<longrightarrow> n \<le> count_chars (rendered s n))"
proof -
  have h: "rendered s n = emit_facts n (fixed_shards s @ facts_heading) (ranked (rs_facts s))"
    using assms by (simp add: rendered_def)
  have "length (ranked (rs_facts s)) = length (rs_facts s)" by (simp add: ranked_def)
  then show ?thesis using emit_facts_prefix [of "ranked (rs_facts s)" n "fixed_shards s @ facts_heading"] h by auto
qed

definition sample_summary :: StructuredRollingSummary where
  "sample_summary = empty_summary\<lparr>
     rs_facts := [\<lparr>fa_id = ''f1'', fa_text = ''low'', fa_evidence = None, fa_confidence = 1 / 2\<rparr>],
     rs_open_items := [\<lparr>oi_id = ''o1'', oi_text = ''test'', oi_assignee = None, oi_deadline = None\<rparr>,
       \<lparr>oi_id = ''o2'', oi_text = ''ship'', oi_assignee = None, oi_deadline = None\<rparr>]\<rparr>"

theorem only_facts_are_dropped_witness:
  "\<exists>k. rendered sample_summary 1 = fixed_shards sample_summary @ facts_heading @
     concat (map fact_line (take k (ranked (rs_facts sample_summary))))"
  using only_facts_are_dropped [of sample_summary 1] by (auto simp: sample_summary_def)

theorem merge_keeps_bounds_witness:
  "merge_ok (bounded (sample_summary\<lparr>rs_version := 1, rs_last_msg_idx_covered := 7\<rparr>))"
proof -
  have "good_rounding (\<lambda>x. x)" "merge_ok sample_summary"
    by (simp_all add: good_rounding_def merge_ok_def sample_summary_def empty_summary_def)
  moreover have "apply_merge_instructions (\<lambda>x. x) sample_summary [Noop] 7 =
      Inr (bounded (sample_summary\<lparr>rs_version := 1, rs_last_msg_idx_covered := 7\<rparr>))"
    by (simp add: apply_merge_instructions_def sample_summary_def empty_summary_def)
  ultimately show ?thesis using merge_keeps_bounds by blast
qed

text \<open>
  Identifiers of open items are reused. When the items of a summary are numbered through and any but the
  last is closed, the next item that is added gets the number of the last one; closing either of the two
  then closes both, and work that was never closed is gone.
\<close>

theorem closing_one_item_closes_two:
  assumes "map oi_id (rs_open_items s) = map (\<lambda>n. ''o'' @ nat_digits n) [1..<Suc (length (rs_open_items s))]"
    and "rs_open_items s = items @ [final]" and "ended \<in> set items" and "oi_id ended \<noteq> oi_id final"
    and "distinct (map oi_id (rs_open_items s))" and "trim words \<noteq> []" and "\<forall>i \<in> set (rs_open_items s). oi_text i \<noteq> trim words"
  shows "\<exists>t u added. apply_from f32 0 [CloseOpenItem (oi_id ended), AddOpenItem words assignee] s = Inr t \<and>
    final \<in> set (rs_open_items t) \<and> added \<in> set (rs_open_items t) \<and> oi_text added = trim words \<and> oi_id added = oi_id final \<and>
    apply_from f32 0 [CloseOpenItem (oi_id added)] t = Inr u \<and> final \<notin> set (rs_open_items u) \<and> added \<notin> set (rs_open_items u)"
proof -
  define n where "n = length (rs_open_items s)"
  have n: "n = Suc (length items)" by (simp add: n_def assms(2))
  define kept where "kept = filter (\<lambda>x. oi_id x \<noteq> oi_id ended) (rs_open_items s)"
  have "distinct (map oi_id items)" using assms(2,5) by simp
  from length_without_key [OF this assms(3)]
  have "length (filter (\<lambda>x. oi_id x \<noteq> oi_id ended) items) = length items - 1" .
  moreover have "items \<noteq> []" using assms(3) by auto
  ultimately have len: "length kept = n - 1" using assms(2,4) n by (cases items) (auto simp: kept_def)
  have "oi_id final = ''o'' @ nat_digits n"
  proof -
    have "last (map oi_id (rs_open_items s)) = oi_id final" by (simp add: assms(2))
    then show ?thesis using assms(1) n by (simp add: n_def [symmetric])
  qed
  then have id: "''o'' @ nat_digits (length kept + 1) = oi_id final" using len n by simp
  define added where "added = \<lparr>oi_id = oi_id final, oi_text = trim words, oi_assignee = assignee, oi_deadline = None\<rparr>"
  define t where "t = s\<lparr>rs_open_items := kept @ [added]\<rparr>"
  have "\<not> list_ex (\<lambda>i. oi_text i = trim words) kept" using assms(7) by (auto simp: kept_def list_ex_iff)
  then have step: "apply_from f32 0 [CloseOpenItem (oi_id ended), AddOpenItem words assignee] s = Inr t"
    using assms(6) id by (simp add: t_def added_def Let_def flip: kept_def)
  have "final \<in> set (rs_open_items t)" using assms(2,4) by (simp add: t_def kept_def)
  moreover have "added \<in> set (rs_open_items t)" "oi_text added = trim words" "oi_id added = oi_id final"
    by (simp_all add: t_def added_def)
  ultimately show ?thesis using step
    by (intro exI [of _ t] exI [of _ "t\<lparr>rs_open_items := filter (\<lambda>x. oi_id x \<noteq> oi_id added) (rs_open_items t)\<rparr>"] exI [of _ added])
      simp
qed

theorem closing_one_item_closes_two_witness:
  "\<exists>t u added. apply_from (\<lambda>x. x) 0 [CloseOpenItem ''o1'', AddOpenItem ''write'' None] sample_summary = Inr t \<and>
     oi_text added = ''write'' \<and> oi_id added = ''o2'' \<and> apply_from (\<lambda>x. x) 0 [CloseOpenItem (oi_id added)] t = Inr u \<and>
     added \<notin> set (rs_open_items u)"
proof -
  let ?first = "\<lparr>oi_id = ''o1'', oi_text = ''test'', oi_assignee = None, oi_deadline = None\<rparr> :: OpenItem"
  let ?final = "\<lparr>oi_id = ''o2'', oi_text = ''ship'', oi_assignee = None, oi_deadline = None\<rparr> :: OpenItem"
  have w: "trim ''write'' = ''write''" by (simp add: str_eval)
  have items: "rs_open_items sample_summary = [?first] @ [?final]" by (simp add: sample_summary_def)
  have "map oi_id (rs_open_items sample_summary) = map (\<lambda>n. ''o'' @ nat_digits n) [1..<Suc (length (rs_open_items sample_summary))]"
    by (simp add: items nat_digits.simps upt_rec char_of_def bit_one_0)
  from closing_one_item_closes_two [OF this items, of ?first "''write''" "\<lambda>x. x" None] w
  show ?thesis by (auto simp: items)
qed

section \<open>Messages that no summary covers\<close>

text \<open>
  The mark of what a summary covers counts positions of the log before it was cut, and is used on the log
  after. So a second incremental compaction reads none of the messages before that position: two logs that
  differ only there, in messages no summary has seen, give the same result, from which they are gone.
\<close>

theorem uncovered_messages_are_lost:
  assumes "length ms = length ms'"
    and "summary_split_index (ce_js e) ms keep = summary_split_index (ce_js e) ms' keep"
    and "drop (min (rs_last_msg_idx_covered s) (summary_split_index (ce_js e) ms keep)) ms =
      drop (min (rs_last_msg_idx_covered s) (summary_split_index (ce_js e) ms keep)) ms'"
  shows "compact_summarise_incremental e v ms keep model mt (Some s) mem =
    compact_summarise_incremental e v ms' keep model mt (Some s) mem"
proof -
  define i j where "i = summary_split_index (ce_js e) ms keep" and "j = min (rs_last_msg_idx_covered s) i"
  have i': "summary_split_index (ce_js e) ms' keep = i" using assms(2) by (simp add: i_def)
  have d: "drop j ms = drop j ms'" using assms(3) by (simp add: i_def j_def)
  have "drop j (take i ms) = drop j (take i ms')" using d by (simp add: drop_take)
  moreover have "drop i ms = drop i ms'"
  proof -
    have "drop (i - j) (drop j ms) = drop (i - j) (drop j ms')" using d by simp
    then show ?thesis by (simp add: j_def)
  qed
  then have "merged_outcome v ms i = merged_outcome v ms' i" by (intro ext) (simp add: merged_outcome_def)
  ultimately show ?thesis using assms(1) i'
    by (simp only: compact_summarise_incremental_def Let_def option.case flip: i_def j_def)
qed

definition say :: "string \<Rightarrow> string \<Rightarrow> LlmMessage" where
  "say role words = \<lparr>lm_role = role, lm_content = Text words\<rparr>"

lemma plain_split: "summary_split_index js [say ''user'' a, say ''assistant'' b, say ''user'' c, say ''assistant'' d] 0 = 3"
proof -
  have "snap_loop 16 ms i = (if i = 0 then i else if is_result_message (ms ! i) \<or> has_tool_use (ms ! (i - 1))
      then snap_loop 15 ms (i - 1) else i)" for ms i
    using snap_loop.simps(2) [of 15 ms i] by simp
  then show ?thesis
    by (simp add: summary_split_index_def Let_def snap_to_pair_boundary_def say_def is_result_message_def has_tool_use_def)
qed

theorem uncovered_messages_are_lost_witness:
  "\<forall>e v model mt. compact_summarise_incremental e v [say ''user'' ''(summary)'', say ''assistant'' ''use port 80'', say ''user'' ''ok'', say ''assistant'' ''x'']
     0 model mt (Some (empty_summary\<lparr>rs_last_msg_idx_covered := 2\<rparr>)) [] =
   compact_summarise_incremental e v [say ''user'' ''(summary)'', say ''assistant'' ''use port 99'', say ''user'' ''ok'', say ''assistant'' ''x'']
     0 model mt (Some (empty_summary\<lparr>rs_last_msg_idx_covered := 2\<rparr>)) []"
  by (intro allI uncovered_messages_are_lost) (simp_all add: plain_split)

end
