(* ===== verification/Openai.thy ===== *)
theory Openai
  imports Llm_Calls Compaction Json_Repair
begin

text \<open>
  The client of OpenAI-compatible providers (\<^verbatim>\<open>llm/openai.rs\<close>): how a request becomes the JSON body of
  \<^verbatim>\<open>/chat/completions\<close>, how it is sent, and how a whole or streamed answer is read. The HTTP library is
  the parameter \<open>http\<close>, \<^verbatim>\<open>serde_json\<close>'s printer and parser are \<open>js\<close> and \<open>parse\<close>.
\<close>

section \<open>Indexing JSON\<close>

text \<open>\<^verbatim>\<open>v[k]\<close> reads a missing entry as null; \<^verbatim>\<open>v[k].as_str()\<close> and its kin.\<close>

definition json_at :: "json \<Rightarrow> string \<Rightarrow> json" where
  "json_at j k = (case json_get j k of None \<Rightarrow> JNull | Some v \<Rightarrow> v)"

definition str_in :: "json \<Rightarrow> string \<Rightarrow> string option" where
  "str_in j k = json_as_str (json_at j k)"

definition arr_in :: "json \<Rightarrow> string \<Rightarrow> json list option" where
  "arr_in j k = json_as_array (json_at j k)"

definition or_blank :: "string option \<Rightarrow> string" where
  "or_blank s = (case s of None \<Rightarrow> [] | Some t \<Rightarrow> t)"

text \<open>\<^verbatim>\<open>as_u64().unwrap_or(0) as u32\<close>: the low 32 bits.\<close>

definition tokens_at :: "json \<Rightarrow> string \<Rightarrow> u32" where
  "tokens_at j k = word_of_nat (case json_as_u64 (json_at j k) of None \<Rightarrow> 0 | Some n \<Rightarrow> n)"

section \<open>Clients\<close>

text \<open>An option of type \<^verbatim>\<open>f32\<close> is the JSON number it is written as.\<close>

record ClientOptions =
  co_temperature :: "json option"
  co_top_p :: "json option"
  co_thinking :: "bool option"
  co_session_id :: "string option"

definition default_options :: ClientOptions where
  "default_options = \<lparr>co_temperature = None, co_top_p = None, co_thinking = None, co_session_id = None\<rparr>"

record OpenAiClient =
  oc_api_key :: string
  oc_base_url :: string
  oc_read_timeout :: u32
  oc_options :: ClientOptions
  oc_headers :: "(string \<times> string) list"

definition without_slashes :: "string \<Rightarrow> string" where
  "without_slashes s = rev (dropWhile (\<lambda>c. c = CHR 0x2F) (rev s))"

definition openai_with_timeout :: "string \<Rightarrow> string \<Rightarrow> u32 \<Rightarrow> OpenAiClient" where
  "openai_with_timeout api_key base_url read_timeout_secs = \<lparr>
     oc_api_key = api_key, oc_base_url = without_slashes base_url,
     oc_read_timeout = max read_timeout_secs 30, oc_options = default_options, oc_headers = []\<rparr>"

definition model_supports_vision :: "string \<Rightarrow> bool" where
  "model_supports_vision model =
     mentions (to_lowercase model)
       [''gpt-4o'', ''gpt-4-vision'', ''gpt-4-turbo'', ''o3'', ''o4'', ''qwen-vl'', ''qwen3-vl'', ''qwen2.5-vl'', ''qvq'',
        ''qwen3.6-plus'', ''qwen3-plus'', ''qwen-omni'', ''claude-3'', ''claude-4'', ''claude-sonnet'', ''claude-haiku'',
        ''claude-opus'', ''gemini'', ''abab6.5'']"

definition is_dashscope_qwen_endpoint :: "string \<Rightarrow> string \<Rightarrow> bool" where
  "is_dashscope_qwen_endpoint base_url model \<longleftrightarrow>
     contains (to_lowercase base_url) ''dashscope.aliyuncs.com'' \<and>
     mentions (to_lowercase model) [''qwen'', ''qvq'']"

definition is_deepseek_thinking_model :: "string \<Rightarrow> bool" where
  "is_deepseek_thinking_model model \<longleftrightarrow>
     (let m = to_lowercase model
      in contains m ''deepseek'' \<and>
         (contains m ''v4'' \<or> ends_with m ''deepseek-flash'' \<or> mentions m [''reasoner'', ''think'', ''-r1'']))"

section \<open>Images\<close>

definition image_placeholder :: "bool \<Rightarrow> ContentBlock" where
  "image_placeholder is_latest = TextBlock
     (if is_latest
      then (''['' @ [CHR 0xE5, CHR 0x9B, CHR 0xBE, CHR 0xE7, CHR 0x89, CHR 0x87] @ ''/'' @
           [CHR 0xE6, CHR 0x88, CHR 0xAA, CHR 0xE5, CHR 0x9B, CHR 0xBE, CHR 0xE5, CHR 0xB7, CHR 0xB2, CHR 0xE6, CHR 0x8D, CHR 0x95, CHR 0xE8, CHR 0x8E, CHR 0xB7] @
           '' '' @ [CHR 0xE2, CHR 0x80, CHR 0x94] @ '' '' @
           [CHR 0xE5, CHR 0xA6, CHR 0x82, CHR 0xE9, CHR 0x9C, CHR 0x80, CHR 0xE6, CHR 0x9F, CHR 0xA5, CHR 0xE7, CHR 0x9C, CHR 0x8B, CHR 0xE8, CHR 0xAF, CHR 0xB7, CHR 0xE4, CHR 0xBD, CHR 0xBF, CHR 0xE7, CHR 0x94, CHR 0xA8] @
           '' browser screenshot '' @
           [CHR 0xE5, CHR 0xB7, CHR 0xA5, CHR 0xE5, CHR 0x85, CHR 0xB7, CHR 0xE9, CHR 0x87, CHR 0x8D, CHR 0xE6, CHR 0x96, CHR 0xB0, CHR 0xE6, CHR 0x88, CHR 0xAA, CHR 0xE5, CHR 0x9B, CHR 0xBE] @
           '']'')
      else (''['' @
           [CHR 0xE5, CHR 0x8E, CHR 0x86, CHR 0xE5, CHR 0x8F, CHR 0xB2, CHR 0xE6, CHR 0x88, CHR 0xAA, CHR 0xE5, CHR 0x9B, CHR 0xBE, CHR 0xE5, CHR 0xB7, CHR 0xB2, CHR 0xE7, CHR 0x9C, CHR 0x81, CHR 0xE7, CHR 0x95, CHR 0xA5] @
           '' '' @ [CHR 0xE2, CHR 0x80, CHR 0x94] @ '' '' @
           [CHR 0xE4, CHR 0xBB, CHR 0x85, CHR 0xE4, CHR 0xBF, CHR 0x9D, CHR 0xE7, CHR 0x95, CHR 0x99, CHR 0xE6, CHR 0x9C, CHR 0x80, CHR 0xE8, CHR 0xBF, CHR 0x91, CHR 0xE4, CHR 0xB8, CHR 0x80, CHR 0xE8, CHR 0xBD, CHR 0xAE, CHR 0xE6, CHR 0x88, CHR 0xAA, CHR 0xE5, CHR 0x9B, CHR 0xBE, CHR 0xE4, CHR 0xBB, CHR 0xA5, CHR 0xE8, CHR 0x8A, CHR 0x82, CHR 0xE7, CHR 0x9C, CHR 0x81, CHR 0xE4, CHR 0xB8, CHR 0x8A, CHR 0xE4, CHR 0xB8, CHR 0x8B, CHR 0xE6, CHR 0x96, CHR 0x87] @
           '']''))"

fun placed :: "bool \<Rightarrow> ContentBlock \<Rightarrow> ContentBlock" where
  "placed keep (Image s) = (if keep then Image s else image_placeholder False)"
| "placed keep b = b"

definition strip_images :: "LlmMessage list \<Rightarrow> bool \<Rightarrow> LlmMessage list" where
  "strip_images messages vision =
     (if \<not> vision then map (map_blocks (placed False)) messages
      else let last_image_msg = rposition (\<lambda>m. list_ex is_image (blocks m)) messages
           in map (\<lambda>(i, m). map_blocks (placed (last_image_msg = Some i)) m)
                (zip [0..<length messages] messages))"

section \<open>Messages on the wire\<close>

definition has_result :: "LlmMessage \<Rightarrow> bool" where
  "has_result m = list_ex is_tool_result (blocks m)"

definition has_use :: "LlmMessage \<Rightarrow> bool" where
  "has_use m = list_ex is_tool_use (blocks m)"

text \<open>
  The first pass: a message with calls is left out unless the result messages that follow it answer all
  of them, and those result messages are left out with it. The flag says that the previous message was
  left out.
\<close>

definition unanswered :: "LlmMessage \<Rightarrow> LlmMessage list \<Rightarrow> bool" where
  "unanswered m ms \<longleftrightarrow>
     \<not> list_all (\<lambda>k. k \<in> set (concat (map result_ids (takeWhile has_result ms)))) (collect_tool_use_ids m)"

fun left_out :: "bool \<Rightarrow> LlmMessage list \<Rightarrow> bool list" where
  "left_out prev [] = []"
| "left_out prev (m # ms) =
     (let skip = prev \<and> has_result m \<or> unanswered m ms in skip # left_out skip ms)"

definition text_part :: "string \<Rightarrow> json" where
  "text_part t = JObj [(''type'', JStr ''text''), (''text'', JStr t)]"

definition image_part :: "ImageSource \<Rightarrow> json" where
  "image_part s =
     JObj [(''type'', JStr ''image_url''),
       (''image_url'', JObj [(''url'', JStr (''data:'' @ is_media_type s @ '';base64,'' @ is_data s))])]"

definition has_type :: "string \<Rightarrow> json \<Rightarrow> bool" where
  "has_type t v \<longleftrightarrow> json_at v ''type'' = JStr t"

definition with_text :: "string \<Rightarrow> json list \<Rightarrow> json list" where
  "with_text placeholder items =
     (if list_ex (has_type ''text'') items then items else text_part placeholder # items)"

definition wire_message :: "string \<Rightarrow> json \<Rightarrow> json" where
  "wire_message role content = JObj [(''role'', JStr role), (''content'', content)]"

definition image_message :: "json list \<Rightarrow> json" where
  "image_message images = wire_message ''user'' (JArr (with_text ''[Tool-generated image(s)]'' images))"

definition tool_message :: "string \<Rightarrow> string \<Rightarrow> json" where
  "tool_message tool_use_id content =
     JObj [(''role'', JStr ''tool''), (''tool_call_id'', JStr tool_use_id), (''content'', JStr content)]"

definition call_json :: "(json \<Rightarrow> string) \<Rightarrow> string \<Rightarrow> string \<Rightarrow> json \<Rightarrow> json" where
  "call_json js k name input =
     JObj [(''id'', JStr k), (''type'', JStr ''function''),
       (''function'', JObj [(''name'', JStr name), (''arguments'', JStr (js input))])]"

text \<open>
  The loop's state: the messages written, the images that wait, and the calls without a result. A result
  message becomes one message per result.
\<close>

type_synonym conversion = "json list \<times> json list \<times> string set"

fun result_block :: "bool \<Rightarrow> ContentBlock \<Rightarrow> conversion \<Rightarrow> conversion" where
  "result_block vision (ToolResult k content e) (out, images, waiting) =
     (out @ [tool_message k content], images, waiting - {k})"
| "result_block vision (Image s) (out, images, waiting) =
     (out, (if vision then images @ [image_part s] else images), waiting)"
| "result_block vision _ st = st"

text \<open>A message with calls: its text, and the calls that have a name.\<close>

fun use_block :: "(json \<Rightarrow> string) \<Rightarrow> ContentBlock \<Rightarrow> string \<times> json list \<times> string set \<Rightarrow> string \<times> json list \<times> string set" where
  "use_block js (TextBlock t) (text, calls, waiting) = (text @ t, calls, waiting)"
| "use_block js (ToolUse k name input) (text, calls, waiting) =
     (if trim name = [] then (text, calls, waiting)
      else (text, calls @ [call_json js k name input], insert k waiting))"
| "use_block js _ st = st"

definition call_message :: "string \<Rightarrow> json list \<Rightarrow> json list" where
  "call_message text calls =
     (if calls = [] then (if text = [] then [] else [wire_message ''assistant'' (JStr text)])
      else [JObj [(''role'', JStr ''assistant''), (''tool_calls'', JArr calls),
              (''content'', (if text = [] then JNull else JStr text))]])"

fun plain_part :: "bool \<Rightarrow> ContentBlock \<Rightarrow> json option" where
  "plain_part vision (TextBlock t) = (if t = [] then None else Some (text_part t))"
| "plain_part vision (Image s) = (if vision then Some (image_part s) else None)"
| "plain_part vision _ = None"

definition plain_message :: "bool \<Rightarrow> string \<Rightarrow> ContentBlock list \<Rightarrow> json list" where
  "plain_message vision role bs =
     (let parts = List.map_filter (plain_part vision) bs
      in if parts = [] then []
         else case (if length parts = 1 then str_in (hd parts) ''text'' else None) of
                Some t \<Rightarrow> [wire_message role (JStr t)]
              | None \<Rightarrow> [wire_message role (JArr (with_text ''[Image(s)]'' parts))])"

definition convert_message :: "(json \<Rightarrow> string) \<Rightarrow> bool \<Rightarrow> LlmMessage \<Rightarrow> conversion \<Rightarrow> conversion" where
  "convert_message js vision m st =
     (case st of (out0, images0, waiting) \<Rightarrow>
        let (out, images) =
              (if images0 \<noteq> [] \<and> lm_role m \<noteq> ''tool'' \<and> \<not> has_result m
               then (out0 @ [image_message images0], []) else (out0, images0))
        in if has_result m \<and> \<not> list_ex (\<lambda>k. k \<in> waiting) (result_ids m) then (out, images, waiting)
           else case lm_content m of
                  Text t \<Rightarrow> (out @ [wire_message (lm_role m) (JStr t)], images, waiting)
                | Blocks bs \<Rightarrow>
                    if has_result m then fold (result_block vision) bs (out, images, waiting)
                    else if has_use m then
                      let (text, calls, waiting') = fold (use_block js) bs ([], [], waiting)
                      in (out @ call_message text calls, images, waiting')
                    else (out @ plain_message vision (lm_role m) bs, images, waiting))"

definition convert_messages :: "(json \<Rightarrow> string) \<Rightarrow> LlmMessage list \<Rightarrow> bool \<Rightarrow> json list" where
  "convert_messages js messages vision =
     (let (out, images, waiting) =
            fold (\<lambda>(skip, m) st. if skip then st else convert_message js vision m st)
              (zip (left_out False messages) messages) ([], [], {})
      in if images = [] then out else out @ [image_message images])"

section \<open>The body of a request\<close>

text \<open>Content arrays without an image become text; those with one get a text item.\<close>

definition tidy_content :: "json \<Rightarrow> json" where
  "tidy_content msg =
     (case arr_in msg ''content'' of
        None \<Rightarrow> msg
      | Some items \<Rightarrow>
          if \<not> list_ex (has_type ''image_url'') items then
            let text = join [CHR 0x0A]
                  (List.map_filter (\<lambda>v. if has_type ''text'' v then str_in v ''text'' else None) items)
            in if text = [] then msg else json_set msg ''content'' (JStr text)
          else if list_ex (has_type ''text'') items then msg
          else json_set msg ''content'' (JArr (text_part ''[Image(s)]'' # items)))"

definition has_assistant_tool_calls :: "json \<Rightarrow> bool" where
  "has_assistant_tool_calls body =
     (case arr_in body ''messages'' of
        None \<Rightarrow> False
      | Some msgs \<Rightarrow> list_ex (\<lambda>m. json_at m ''role'' = JStr ''assistant'' \<and>
          (case arr_in m ''tool_calls'' of None \<Rightarrow> False | Some ts \<Rightarrow> ts \<noteq> [])) msgs)"

definition tool_json :: "ToolDef \<Rightarrow> json" where
  "tool_json t =
     JObj [(''type'', JStr ''function''),
       (''function'', JObj [(''name'', JStr (tool_name t)), (''description'', JStr (tool_description t)),
          (''parameters'', tool_input_schema t)])]"

definition thinking_block_key :: "OpenAiClient \<Rightarrow> string \<Rightarrow> string" where
  "thinking_block_key client model = oc_base_url client @ ''|'' @ to_lowercase model"

definition set_some :: "string \<Rightarrow> json option \<Rightarrow> json \<Rightarrow> json" where
  "set_some k v body = (case v of None \<Rightarrow> body | Some j \<Rightarrow> json_set body k j)"

text \<open>The messages of the body, the system prompt first.\<close>

definition body_messages :: "(json \<Rightarrow> string) \<Rightarrow> LlmRequest \<Rightarrow> json list" where
  "body_messages js req =
     (let vision = (case rq_vision_override req of None \<Rightarrow> model_supports_vision (rq_model req) | Some v \<Rightarrow> v);
          converted = convert_messages js (strip_images (rq_messages req) vision) vision
      in map tidy_content
           ((case rq_system req of None \<Rightarrow> [] | Some sys \<Rightarrow> [wire_message ''system'' (JStr sys)]) @ converted))"

text \<open>\<open>blocked\<close> is the set of endpoints and models for which thinking was switched off.\<close>

definition thinking_on :: "OpenAiClient \<Rightarrow> string set \<Rightarrow> string \<Rightarrow> json \<Rightarrow> bool" where
  "thinking_on client blocked model body \<longleftrightarrow>
     co_thinking (oc_options client) = Some True \<and> thinking_block_key client model \<notin> blocked \<and>
     \<not> has_assistant_tool_calls body"

definition thinking_mode :: "bool \<Rightarrow> json" where
  "thinking_mode enabled = JObj [(''type'', JStr (if enabled then ''enabled'' else ''disabled''))]"

definition set_thinking :: "OpenAiClient \<Rightarrow> string set \<Rightarrow> string \<Rightarrow> json \<Rightarrow> json" where
  "set_thinking client blocked model body0 =
     (let thinking_blocked = thinking_block_key client model \<in> blocked;
          qwen = is_dashscope_qwen_endpoint (oc_base_url client) model;
          on = thinking_on client blocked model body0;
          body1 = (if thinking_blocked \<and> \<not> qwen then json_set body0 ''thinking'' (thinking_mode False) else body0);
          body2 = (if qwen then json_set body1 ''enable_thinking'' (JBool on) else body1)
      in if is_deepseek_thinking_model model then json_set body2 ''thinking'' (thinking_mode on) else body2)"

definition openai_body :: "(json \<Rightarrow> string) \<Rightarrow> OpenAiClient \<Rightarrow> string set \<Rightarrow> LlmRequest \<Rightarrow> json" where
  "openai_body js client blocked req =
     (let body0 = JObj [(''model'', JStr (rq_model req)), (''max_tokens'', JInt (uint (rq_max_tokens req))),
            (''messages'', JArr (body_messages js req)), (''stream'', JBool (rq_stream req))];
          body1 = (if rq_tools req = [] then body0
                   else json_set (json_set body0 ''tools'' (JArr (map tool_json (rq_tools req))))
                          ''tool_choice'' (JStr ''auto''));
          body2 = set_some ''top_p'' (co_top_p (oc_options client))
                    (set_some ''temperature'' (co_temperature (oc_options client)) body1)
      in set_thinking client blocked (rq_model req) body2)"

end
