(* ===== verification/Openai_Calls.thy ===== *)
theory Openai_Calls
  imports Openai
begin

text \<open>
  Requests to OpenAI-compatible providers and their answers: sending with one retry, whole answers, and
  answers as a stream of server-sent events, whose tool calls arrive in pieces.
\<close>

section \<open>Answers of the HTTP library\<close>

text \<open>
  A request fails before an answer, or is answered with a status and the chunks of a body, of which one
  may be an error. How a body that is text is decoded, how a status is named and in which order a hash
  map is walked is the library's.
\<close>

record send_failure =
  sf_timeout :: bool
  sf_connect :: bool
  sf_request :: bool
  sf_body :: bool
  sf_sources :: "string list"
  sf_display :: string
  sf_debug :: string

datatype http_reply = NoReply send_failure | HttpReply nat "(string + string) list"

record provider_env =
  pe_js :: "json \<Rightarrow> string"
  pe_parse :: "string \<Rightarrow> string + json"
  pe_decode :: "string \<Rightarrow> string"
  pe_reason :: "nat \<Rightarrow> string"
  pe_shuffle :: "(string \<times> string \<times> string) list \<Rightarrow> (string \<times> string \<times> string) list"

fun body_bytes :: "(string + string) list \<Rightarrow> string + string" where
  "body_bytes [] = Inr []"
| "body_bytes (Inl e # cs) = Inl e"
| "body_bytes (Inr c # cs) = (case body_bytes cs of Inl e \<Rightarrow> Inl e | Inr bs \<Rightarrow> Inr (c @ bs))"

text \<open>\<^verbatim>\<open>response.text().await.unwrap_or_default()\<close>.\<close>

definition body_text :: "provider_env \<Rightarrow> (string + string) list \<Rightarrow> string" where
  "body_text env cs = (case body_bytes cs of Inl e \<Rightarrow> [] | Inr bs \<Rightarrow> pe_decode env bs)"

definition is_success :: "nat \<Rightarrow> bool" where
  "is_success status \<longleftrightarrow> 200 \<le> status \<and> status < 300"

definition status_str :: "provider_env \<Rightarrow> nat \<Rightarrow> string" where
  "status_str env status = nat_digits status @ '' '' @ pe_reason env status"

definition api_error :: "provider_env \<Rightarrow> nat \<Rightarrow> string \<Rightarrow> string" where
  "api_error env status text = ''OpenAI API error '' @ status_str env status @ '': '' @ text"

definition request_send_error :: "string \<Rightarrow> send_failure \<Rightarrow> string" where
  "request_send_error url err =
     (let flags = (if sf_timeout err then [''timeout''] else []) @ (if sf_connect err then [''connect''] else []) @
            (if sf_request err then [''request''] else []) @ (if sf_body err then [''body''] else [])
      in ''OpenAI-compatible request failed before HTTP response: url='' @ url @ '' flags='' @
         (if flags = [] then ''none'' else join '','' flags) @ '' error='' @ sf_display err @ '' sources=['' @
         join '' | '' (sf_sources err) @ ''] debug='' @ sf_debug err)"

section \<open>Sending\<close>

text \<open>
  \<open>http n body\<close> is the answer to the \<open>n\<close>-th request of a call. The result is the set of blocked models,
  the bodies that were sent, and an error or the body of the answer.
\<close>

definition openai_url :: "OpenAiClient \<Rightarrow> string" where
  "openai_url client = oc_base_url client @ ''/chat/completions''"

function post_chat_loop ::
  "provider_env \<Rightarrow> OpenAiClient \<Rightarrow> (nat \<Rightarrow> json \<Rightarrow> http_reply) \<Rightarrow> LlmRequest \<Rightarrow> bool \<Rightarrow> string set \<Rightarrow>
     string set \<times> json list \<times> (string + (string + string) list)" where
  "post_chat_loop env client http req downgraded blocked =
     (let body = openai_body (pe_js env) client blocked req
      in case http (if downgraded then 1 else 0) body of
           NoReply err \<Rightarrow> (blocked, [body], Inl (request_send_error (openai_url client) err))
         | HttpReply status chunks \<Rightarrow>
             if is_success status then (blocked, [body], Inr chunks)
             else let text = body_text env chunks
               in if \<not> downgraded \<and> status = 400 \<and> is_reasoning_replay_error text
                  then let (b, sent, r) = post_chat_loop env client http req True
                             (insert (thinking_block_key client (rq_model req)) blocked)
                       in (b, body # sent, r)
                  else (blocked, [body], Inl (api_error env status text)))"
  by pat_completeness auto
termination
  by (relation "measure (\<lambda>(env, client, http, req, downgraded, blocked). if downgraded then 0 else 1)") auto

declare post_chat_loop.simps [simp del]

definition post_chat ::
  "provider_env \<Rightarrow> OpenAiClient \<Rightarrow> (nat \<Rightarrow> json \<Rightarrow> http_reply) \<Rightarrow> LlmRequest \<Rightarrow> string set \<Rightarrow>
     string set \<times> json list \<times> (string + (string + string) list)" where
  "post_chat env client http req blocked = post_chat_loop env client http req False blocked"

section \<open>Arguments of tool calls\<close>

definition args_invalid :: "string \<Rightarrow> string \<Rightarrow> string \<Rightarrow> string \<Rightarrow> string" where
  "args_invalid name k args_str parse_err =
     ''tool_args_invalid: failed to parse arguments for tool '' @ [CHR 0x22] @ name @ [CHR 0x22] @ '' (id='' @ k @
     '', args_len='' @ nat_digits (length args_str) @ ''): '' @ parse_err"

definition parse_or_repair :: "provider_env \<Rightarrow> string \<Rightarrow> string + json" where
  "parse_or_repair env args_str =
     (case pe_parse env args_str of
        Inr input \<Rightarrow> Inr input
      | Inl err \<Rightarrow> (case try_conservative_repair (pe_parse env) args_str of Some v \<Rightarrow> Inr v | None \<Rightarrow> Inl err))"

text \<open>A synthetic identifier counts the calls taken so far.\<close>

fun parse_calls :: "provider_env \<Rightarrow> json list \<Rightarrow> ToolCall list \<Rightarrow> string + ToolCall list" where
  "parse_calls env [] taken = Inr taken"
| "parse_calls env (tc # tcs) taken =
     (let id0 = or_blank (str_in tc ''id''); name = or_blank (str_in (json_at tc ''function'') ''name'');
          k = (if id0 = [] then ''call_synth_'' @ nat_digits (length taken) else id0);
          args_str = or_blank (str_in (json_at tc ''function'') ''arguments'')
      in if trim name = [] then parse_calls env tcs taken
         else case parse_or_repair env args_str of
                Inr input \<Rightarrow> parse_calls env tcs (taken @ [\<lparr>tc_id = k, tc_name = name, tc_input = input\<rparr>])
              | Inl err \<Rightarrow> Inl (args_invalid name k args_str err))"

definition parse_tool_calls :: "provider_env \<Rightarrow> json \<Rightarrow> string + ToolCall list" where
  "parse_tool_calls env message =
     (case arr_in message ''tool_calls'' of None \<Rightarrow> Inr [] | Some tcs \<Rightarrow> parse_calls env tcs [])"

section \<open>Whole answers\<close>

definition decode_error :: "string \<Rightarrow> string \<Rightarrow> string \<Rightarrow> string" where
  "decode_error provider e body =
     provider @ '' response JSON decode error: '' @ e @ '' (body preview: '' @ take_chars 200 (from_utf8_lossy body) @ '')''"

definition read_openai_answer :: "provider_env \<Rightarrow> string \<Rightarrow> string + LlmResponse" where
  "read_openai_answer env body =
     (case pe_parse env body of
        Inl e \<Rightarrow> Inl (decode_error ''OpenAI'' e body)
      | Inr val \<Rightarrow>
          (case arr_in val ''choices'' of
             None \<Rightarrow> Inl (''OpenAI response missing '' @ sq ''choices'' @ '' field'')
           | Some [] \<Rightarrow> Inl ''OpenAI response returned empty choices''
           | Some (choice # rest) \<Rightarrow>
               let message = json_at choice ''message''
               in case parse_tool_calls env message of
                    Inl e \<Rightarrow> Inl e
                  | Inr calls \<Rightarrow> Inr \<lparr>
                      rs_content = or_blank (str_in message ''content''), rs_tool_calls = calls,
                      rs_input_tokens = tokens_at (json_at val ''usage'') ''prompt_tokens'',
                      rs_output_tokens = tokens_at (json_at val ''usage'') ''completion_tokens''\<rparr>))"

definition openai_complete ::
  "provider_env \<Rightarrow> OpenAiClient \<Rightarrow> (nat \<Rightarrow> json \<Rightarrow> http_reply) \<Rightarrow> LlmRequest \<Rightarrow> string set \<Rightarrow> string set \<times> (string + LlmResponse)" where
  "openai_complete env client http req blocked =
     (let (blocked', sent, r) = post_chat env client http (req\<lparr>rq_stream := False\<rparr>) blocked
      in (blocked',
          case r of
            Inl e \<Rightarrow> Inl e
          | Inr chunks \<Rightarrow> (case body_bytes chunks of Inl e \<Rightarrow> Inl e | Inr body \<Rightarrow> read_openai_answer env body)))"

section \<open>Streams\<close>

text \<open>
  The calls in pieces: for each index the identifier, the name and the arguments so far, in the order of
  the indices.
\<close>

type_synonym call_piece = "string \<times> string \<times> string"

fun at_piece :: "nat \<Rightarrow> (call_piece \<Rightarrow> call_piece) \<Rightarrow> (nat \<times> call_piece) list \<Rightarrow> (nat \<times> call_piece) list" where
  "at_piece idx f [] = [(idx, f ([], [], []))]"
| "at_piece idx f ((k, p) # ps) =
     (if k = idx then (k, f p) # ps
      else if idx < k then (idx, f ([], [], [])) # (k, p) # ps
      else (k, p) # at_piece idx f ps)"

definition parse_streamed_tool_call :: "provider_env \<Rightarrow> string \<Rightarrow> string \<Rightarrow> string \<Rightarrow> LlmChunk" where
  "parse_streamed_tool_call env k name args_buf =
     (case parse_or_repair env args_buf of
        Inr input \<Rightarrow> ChunkToolUse k name input
      | Inl err \<Rightarrow> ChunkError (args_invalid name k args_buf err))"

fun emitted_call :: "provider_env \<Rightarrow> nat \<times> call_piece \<Rightarrow> LlmChunk option" where
  "emitted_call env (idx, k, name, args_buf) =
     (if trim name = [] then None
      else Some (parse_streamed_tool_call env
             (if k = [] then ''call_synth_'' @ nat_digits idx else k) name args_buf))"

definition emit_buffered_tool_calls :: "provider_env \<Rightarrow> (nat \<times> call_piece) list \<Rightarrow> LlmChunk list" where
  "emit_buffered_tool_calls env bufs = List.map_filter (emitted_call env) bufs"

definition undrained_tool_bufs_message :: "provider_env \<Rightarrow> (nat \<times> call_piece) list \<Rightarrow> string" where
  "undrained_tool_bufs_message env bufs =
     ''protocol_error: stream ended with '' @ nat_digits (length bufs) @
     '' undrained tool call(s) still buffered ['' @
     join '', '' (map (\<lambda>(k, name, args_buf). name @ ''(id='' @ k @ '', args_len='' @ nat_digits (length args_buf) @ '')'')
       (pe_shuffle env (map snd bufs))) @ ''] '' @ [CHR 0xE2, CHR 0x80, CHR 0x94] @
     '' the connection likely closed mid tool-call''"

record stream_state =
  ss_bufs :: "(nat \<times> call_piece) list"
  ss_in :: u32
  ss_out :: u32
  ss_any :: bool
  ss_sent :: "LlmChunk list"
  ss_done :: bool

definition stream_start :: stream_state where
  "stream_start = \<lparr>ss_bufs = [], ss_in = 0, ss_out = 0, ss_any = False, ss_sent = [], ss_done = False\<rparr>"

definition send_chunks :: "LlmChunk list \<Rightarrow> stream_state \<Rightarrow> stream_state" where
  "send_chunks cs st = st\<lparr>ss_sent := ss_sent st @ cs\<rparr>"

definition drain_calls :: "provider_env \<Rightarrow> stream_state \<Rightarrow> stream_state" where
  "drain_calls env st = send_chunks (emit_buffered_tool_calls env (ss_bufs st)) (st\<lparr>ss_bufs := []\<rparr>)"

definition add_piece :: "json \<Rightarrow> call_piece \<Rightarrow> call_piece" where
  "add_piece tc = (\<lambda>(k, name, args).
     (if k = [] then or_blank (str_in tc ''id'') else k,
      if name = [] then or_blank (str_in (json_at tc ''function'') ''name'') else name,
      args @ or_blank (str_in (json_at tc ''function'') ''arguments'')))"

definition take_piece :: "json \<Rightarrow> stream_state \<Rightarrow> stream_state" where
  "take_piece tc st =
     (let idx = (case json_as_u64 (json_at tc ''index'') of None \<Rightarrow> 0 | Some n \<Rightarrow> n)
      in st\<lparr>ss_any := True, ss_bufs := at_piece idx (add_piece tc) (ss_bufs st)\<rparr>)"

definition take_choice :: "provider_env \<Rightarrow> json \<Rightarrow> stream_state \<Rightarrow> stream_state" where
  "take_choice env choice st0 =
     (let delta = json_at choice ''delta''; text = or_blank (str_in delta ''content'');
          st1 = (if text = [] then st0 else send_chunks [ChunkText text] (st0\<lparr>ss_any := True\<rparr>));
          st2 = (case arr_in delta ''tool_calls'' of None \<Rightarrow> st1 | Some tcs \<Rightarrow> fold take_piece tcs st1)
      in if str_in choice ''finish_reason'' = Some ''tool_calls'' then drain_calls env st2 else st2)"

definition take_event :: "provider_env \<Rightarrow> json \<Rightarrow> stream_state \<Rightarrow> stream_state" where
  "take_event env val st0 =
     (let st1 = (case json_get val ''usage'' of
                   None \<Rightarrow> st0
                 | Some usage \<Rightarrow> st0\<lparr>ss_in := tokens_at usage ''prompt_tokens'',
                                    ss_out := tokens_at usage ''completion_tokens''\<rparr>)
      in case arr_in val ''choices'' of None \<Rightarrow> st1 | Some choices \<Rightarrow> fold (take_choice env) choices st1)"

text \<open>A line without its line feed. After \<^verbatim>\<open>[DONE]\<close> nothing is read.\<close>

definition take_line :: "provider_env \<Rightarrow> string \<Rightarrow> stream_state \<Rightarrow> stream_state" where
  "take_line env line st =
     (if ss_done st then st
      else case strip_prefix ''data: '' (trim line) of
             None \<Rightarrow> st
           | Some data \<Rightarrow>
               if data = ''[DONE]'' then
                 (let st1 = drain_calls env st in send_chunks [ChunkDone (ss_in st1) (ss_out st1)] (st1\<lparr>ss_done := True\<rparr>))
               else case pe_parse env data of Inl e \<Rightarrow> st | Inr val \<Rightarrow> take_event env val st)"

text \<open>The complete lines of a buffer, and what is left of it.\<close>

fun complete_lines :: "string \<Rightarrow> string \<Rightarrow> string list \<times> string" where
  "complete_lines acc [] = ([], rev acc)"
| "complete_lines acc (b # bs) =
     (if b = CHR 0x0A then (let (ls, rest) = complete_lines [] bs in (rev acc # ls, rest))
      else complete_lines (b # acc) bs)"

definition take_chunk :: "provider_env \<Rightarrow> string \<Rightarrow> string \<times> stream_state \<Rightarrow> string \<times> stream_state" where
  "take_chunk env chunk = (\<lambda>(buffer, st).
     let (ls, rest) = complete_lines [] (buffer @ from_utf8_lossy chunk)
     in (rest, fold (take_line env) ls st))"

text \<open>The chunks of the body until it is done, ends or fails: the state and the error.\<close>

fun read_stream :: "provider_env \<Rightarrow> (string + string) list \<Rightarrow> string \<times> stream_state \<Rightarrow> stream_state \<times> string option" where
  "read_stream env [] (buffer, st) = (st, None)"
| "read_stream env (c # cs) (buffer, st) =
     (if ss_done st then (st, None)
      else case c of
             Inl e \<Rightarrow> (st, Some (''error decoding response body: '' @ e))
           | Inr chunk \<Rightarrow> read_stream env cs (take_chunk env chunk (buffer, st)))"

definition NO_OUTPUT :: string where
  "NO_OUTPUT = (''protocol_error: stream ended with no text, no tool calls, and no [DONE] sentinel '' @
     [CHR 0xE2, CHR 0x80, CHR 0x94] @ '' connection likely closed before the response started'')"

definition end_stream :: "provider_env \<Rightarrow> stream_state \<times> string option \<Rightarrow> LlmChunk list \<times> string option" where
  "end_stream env = (\<lambda>(st, failure).
     if failure \<noteq> None \<or> ss_done st then (ss_sent st, failure)
     else if ss_bufs st \<noteq> [] then
       (let msg = undrained_tool_bufs_message env (ss_bufs st) in (ss_sent st @ [ChunkError msg], Some msg))
     else if \<not> ss_any st then (ss_sent st @ [ChunkError NO_OUTPUT], Some NO_OUTPUT)
     else (ss_sent st, None))"

definition read_openai_stream :: "provider_env \<Rightarrow> (string + string) list \<Rightarrow> LlmChunk list \<times> string option" where
  "read_openai_stream env cs = end_stream env (read_stream env cs ([], stream_start))"

definition openai_stream ::
  "provider_env \<Rightarrow> OpenAiClient \<Rightarrow> (nat \<Rightarrow> json \<Rightarrow> http_reply) \<Rightarrow> LlmRequest \<Rightarrow> string set \<Rightarrow>
     string set \<times> LlmChunk list \<times> string option" where
  "openai_stream env client http req blocked =
     (let (blocked', sent, r) = post_chat env client http (req\<lparr>rq_stream := True\<rparr>) blocked
      in (blocked', case r of Inl e \<Rightarrow> ([], Some e) | Inr cs \<Rightarrow> read_openai_stream env cs))"

end
