(* ===== verification/Wire_Calls.thy ===== *)
theory Wire_Calls
  imports Openai_Calls Requests
begin

text \<open>
  The messages that reach an OpenAI-compatible provider: calls are answered, replies belong to calls,
  content arrays are well formed, and thinking stays off where it could not be replayed.
\<close>

section \<open>Reading the wire\<close>

text \<open>The identifiers of the calls of a message, and of the call a tool message replies to.\<close>

definition wire_calls :: "json \<Rightarrow> string list" where
  "wire_calls m = List.map_filter (\<lambda>c. str_in c ''id'') (case arr_in m ''tool_calls'' of None \<Rightarrow> [] | Some cs \<Rightarrow> cs)"

definition wire_reply :: "json \<Rightarrow> string option" where
  "wire_reply m = str_in m ''tool_call_id''"

fun replies :: "json list \<Rightarrow> string list" where
  "replies [] = []"
| "replies (m # ms) = (case wire_reply m of None \<Rightarrow> [] | Some k \<Rightarrow> k # replies ms)"

text \<open>Every call is answered by the tool messages directly after it.\<close>

fun calls_answered :: "json list \<Rightarrow> bool" where
  "calls_answered [] \<longleftrightarrow> True"
| "calls_answered (m # ms) \<longleftrightarrow> set (wire_calls m) \<subseteq> set (replies ms) \<and> calls_answered ms"

text \<open>Every tool message replies to one of the calls that are open.\<close>

fun replies_belong :: "string set \<Rightarrow> json list \<Rightarrow> bool" where
  "replies_belong ks [] \<longleftrightarrow> True"
| "replies_belong ks (m # ms) \<longleftrightarrow>
     (case wire_reply m of
        None \<Rightarrow> replies_belong (set (wire_calls m)) ms
      | Some k \<Rightarrow> k \<in> ks \<and> replies_belong ks ms)"

lemmas json_reads = str_in_def arr_in_def json_at_def

lemma wire_message_read [simp]: "wire_reply (wire_message r c) = None" "wire_calls (wire_message r c) = []"
  by (simp_all add: wire_reply_def wire_calls_def wire_message_def json_reads List.map_filter_simps)

lemma tool_message_read [simp]: "wire_reply (tool_message k c) = Some k" "wire_calls (tool_message k c) = []"
  by (simp_all add: wire_reply_def wire_calls_def tool_message_def json_reads List.map_filter_simps)

lemma image_message_read [simp]: "wire_reply (image_message is) = None" "wire_calls (image_message is) = []"
  by (simp_all add: image_message_def)

lemma call_json_id [simp]: "str_in (call_json js k n i) ''id'' = Some k"
  by (simp add: call_json_def json_reads)

section \<open>One message\<close>

text \<open>The calls of a message that have a name.\<close>

fun named_use :: "ContentBlock \<Rightarrow> string option" where
  "named_use (ToolUse k name input) = (if trim name = [] then None else Some k)"
| "named_use _ = None"

definition named_uses :: "LlmMessage \<Rightarrow> string list" where
  "named_uses m = List.map_filter named_use (blocks m)"

lemma named_uses_subset: "set (named_uses m) \<subseteq> set (collect_tool_use_ids m)"
proof
  fix k assume "k \<in> set (named_uses m)"
  then obtain b where "b \<in> set (blocks m)" "named_use b = Some k" by (auto simp: named_uses_def set_map_filter)
  moreover from this(2) obtain n i where "b = ToolUse k n i" by (cases b) (auto split: if_splits)
  ultimately show "k \<in> set (collect_tool_use_ids m)" by (auto simp: set_use_ids)
qed

lemma has_result_iff: "has_result m \<longleftrightarrow> result_ids m \<noteq> []"
proof -
  have "is_tool_result b \<longleftrightarrow> result_id b \<noteq> None" for b by (cases b) auto
  then show ?thesis
    by (auto simp: has_result_def result_ids_def List.map_filter_def list_ex_iff filter_empty_conv)
qed

lemma fold_results:
  "\<exists>im' rs. fold (result_block v) bs (out, im, w) =
       (out @ map (\<lambda>(k, c). tool_message k c) rs, im', w - set (List.map_filter result_id bs)) \<and>
     map fst rs = List.map_filter result_id bs"
proof (induction bs arbitrary: out im w)
  case (Cons b bs)
  show ?case
  proof (cases b)
    case (ToolResult k c e)
    from Cons [of "out @ [tool_message k c]" im "w - {k}"] obtain im' rs where
      "fold (result_block v) bs (out @ [tool_message k c], im, w - {k}) =
         ((out @ [tool_message k c]) @ map (\<lambda>(k, c). tool_message k c) rs, im',
          w - {k} - set (List.map_filter result_id bs))"
      "map fst rs = List.map_filter result_id bs" by blast
    then show ?thesis using ToolResult
      by (intro exI [of _ im'] exI [of _ "(k, c) # rs"]) (auto simp: List.map_filter_simps)
  qed (use Cons in \<open>auto simp: List.map_filter_simps\<close>)
qed (simp add: List.map_filter_simps)

lemma fold_uses:
  "\<exists>s' calls'. fold (use_block js) bs (s, calls, w) =
       (s @ s', calls @ calls', w \<union> set (List.map_filter named_use bs)) \<and>
     List.map_filter (\<lambda>c. str_in c ''id'') calls' = List.map_filter named_use bs"
proof (induction bs arbitrary: s calls w)
  case (Cons b bs)
  show ?case
  proof (cases b)
    case (TextBlock t)
    with Cons [of "s @ t" calls w] show ?thesis by (auto simp: List.map_filter_simps)
  next
    case (ToolUse k n i)
    show ?thesis
    proof (cases "trim n = []")
      case False
      from Cons [of s "calls @ [call_json js k n i]" "insert k w"] obtain t' c' where
        "fold (use_block js) bs (s, calls @ [call_json js k n i], insert k w) =
           (s @ t', (calls @ [call_json js k n i]) @ c', insert k w \<union> set (List.map_filter named_use bs))"
        "List.map_filter (\<lambda>c. str_in c ''id'') c' = List.map_filter named_use bs" by blast
      then show ?thesis using ToolUse False
        by (intro exI [of _ t'] exI [of _ "call_json js k n i # c'"]) (auto simp: List.map_filter_simps)
    qed (use Cons ToolUse in \<open>auto simp: List.map_filter_simps\<close>)
  qed (use Cons in \<open>auto simp: List.map_filter_simps\<close>)
qed (simp add: List.map_filter_simps)

text \<open>A message that is no reply, with the calls given.\<close>

definition speaks :: "string list \<Rightarrow> json list \<Rightarrow> bool" where
  "speaks ks out \<longleftrightarrow> out = [] \<and> ks = [] \<or> (\<exists>x. out = [x] \<and> wire_reply x = None \<and> wire_calls x = ks)"

lemma call_message_speaks: "speaks (List.map_filter (\<lambda>c. str_in c ''id'') calls) (call_message text calls)"
proof (cases "calls = []")
  case True
  then show ?thesis by (simp add: speaks_def call_message_def List.map_filter_simps)
next
  case False
  then show ?thesis
    by (simp add: speaks_def call_message_def wire_reply_def wire_calls_def json_reads)
qed

lemma plain_message_speaks: "speaks [] (plain_message v r bs)"
  by (auto simp: speaks_def plain_message_def Let_def split: option.splits)

section \<open>The whole conversion\<close>

text \<open>What one message adds, and the waiting calls after it.\<close>

lemma convert_answer:
  assumes "has_result m" and "list_ex (\<lambda>k. k \<in> w) (result_ids m)"
  shows "\<exists>im' rs. convert_message js v m (out, im, w) =
      (out @ map (\<lambda>(k, c). tool_message k c) rs, im', w - set (result_ids m)) \<and> map fst rs = result_ids m"
proof -
  from assms(1) obtain bs where bs: "lm_content m = Blocks bs"
    by (cases "lm_content m") (auto simp: has_result_def)
  then have "blocks m = bs" by simp
  with fold_results [of v bs out im w] assms bs show ?thesis
    by (auto simp: convert_message_def result_ids_def)
qed

lemma convert_orphan:
  "has_result m \<Longrightarrow> \<not> list_ex (\<lambda>k. k \<in> w) (result_ids m) \<Longrightarrow> convert_message js v m (out, im, w) = (out, im, w)"
  by (simp add: convert_message_def)

lemma convert_speech:
  assumes "\<not> has_result m"
  shows "\<exists>im' flush spoken. convert_message js v m (out, im, w) =
      (out @ flush @ spoken, im', w \<union> set (named_uses m)) \<and> speaks [] flush \<and> speaks (named_uses m) spoken"
proof -
  define flush where "flush = (if im \<noteq> [] \<and> lm_role m \<noteq> ''tool'' then [image_message im] else [])"
  define im' where "im' = (if im \<noteq> [] \<and> lm_role m \<noteq> ''tool'' then [] else im)"
  have f: "speaks [] flush" by (simp add: flush_def speaks_def)
  have none: "named_uses m = []" if "\<not> has_use m"
  proof -
    have "named_use b = None" if "b \<in> set (blocks m)" for b
    proof -
      from that \<open>\<not> has_use m\<close> have "\<not> is_tool_use b" by (auto simp: has_use_def list_ex_iff)
      then show ?thesis by (cases b) simp_all
    qed
    then show ?thesis by (auto simp: named_uses_def List.map_filter_def filter_empty_conv)
  qed
  show ?thesis
  proof (cases "lm_content m")
    case (Text t)
    then have "convert_message js v m (out, im, w) = (out @ flush @ [wire_message (lm_role m) (JStr t)], im', w)"
      using assms by (simp add: convert_message_def flush_def im'_def)
    moreover have "named_uses m = []" using Text by (simp add: named_uses_def List.map_filter_simps)
    ultimately show ?thesis using f
      by (intro exI [of _ im'] exI [of _ flush] exI [of _ "[wire_message (lm_role m) (JStr t)]"])
        (auto simp: speaks_def)
  next
    case (Blocks bs)
    show ?thesis
    proof (cases "has_use m")
      case True
      from fold_uses [of js bs "[]" "[]" w] obtain s calls where
        fold: "fold (use_block js) bs ([], [], w) = (s, calls, w \<union> set (named_uses m))" and
        ids: "List.map_filter (\<lambda>c. str_in c ''id'') calls = named_uses m"
        using Blocks by (auto simp: named_uses_def)
      then have "convert_message js v m (out, im, w) =
          (out @ flush @ call_message s calls, im', w \<union> set (named_uses m))"
        using assms Blocks True by (simp add: convert_message_def flush_def im'_def)
      with f call_message_speaks [of calls s] ids show ?thesis by auto
    next
      case False
      then have "convert_message js v m (out, im, w) = (out @ flush @ plain_message v (lm_role m) bs, im', w)"
        using assms Blocks by (simp add: convert_message_def flush_def im'_def)
      with f plain_message_speaks [of v "lm_role m" bs] none [OF False] show ?thesis by auto
    qed
  qed
qed

text \<open>The conversion as a recursion that yields the messages it adds.\<close>

fun conversion_from :: "(json \<Rightarrow> string) \<Rightarrow> bool \<Rightarrow> json list \<Rightarrow> string set \<Rightarrow> (bool \<times> LlmMessage) list \<Rightarrow> json list" where
  "conversion_from js v im w [] = (if im = [] then [] else [image_message im])"
| "conversion_from js v im w ((skip, m) # ms) =
     (if skip then conversion_from js v im w ms
      else let (out, im', w') = convert_message js v m ([], im, w) in out @ conversion_from js v im' w' ms)"

lemma convert_message_prefix:
  "convert_message js v m (out, im, w) = (let (o', im', w') = convert_message js v m ([], im, w) in (out @ o', im', w'))"
proof -
  have "fold (result_block v) bs (out @ o1, im, w) = (let (o', im', w') = fold (result_block v) bs (o1, im, w) in (out @ o', im', w'))"
    for bs o1 im w
  proof (induction bs arbitrary: o1 im w)
    case (Cons b bs)
    then show ?case by (cases b) simp_all
  qed simp
  from this [where ?o1.0 = "[]"] this show ?thesis
    by (auto simp: convert_message_def split: prod.splits MessageContent.splits)
qed

lemma convert_messages_from:
  "convert_messages js ms v = conversion_from js v [] {} (zip (left_out False ms) ms)"
proof -
  have "(let (out', im', w') = fold (\<lambda>(skip, m) st. if skip then st else convert_message js v m st) xs (out, im, w)
      in if im' = [] then out' else out' @ [image_message im']) = out @ conversion_from js v im w xs" for xs out im w
  proof (induction xs arbitrary: out im w)
    case (Cons x xs)
    obtain skip m where x: "x = (skip, m)" by (cases x)
    show ?case
    proof (cases skip)
      case False
      obtain o' im' w' where c: "convert_message js v m ([], im, w) = (o', im', w')" by (cases "convert_message js v m ([], im, w)")
      then have "convert_message js v m (out, im, w) = (out @ o', im', w')"
        by (subst convert_message_prefix) simp
      with Cons [of "out @ o'" im' w'] x False c show ?thesis by simp
    qed (use Cons x in simp)
  qed simp
  from this [of "zip (left_out False ms) ms" "[]" "[]" "{}"] show ?thesis by (simp add: convert_messages_def)
qed

section \<open>Calls and replies\<close>

lemma replies_tools:
  "replies (map (\<lambda>(k, c). tool_message k c) rs @ ms) = map fst rs @ replies ms"
  by (induction rs) auto

lemma answered_tools: "calls_answered (map (\<lambda>(k, c). tool_message k c) rs @ ms) = calls_answered ms"
  by (induction rs) auto

lemma answered_speech:
  assumes "speaks [] flush" and "speaks ks spoken"
  shows "calls_answered (flush @ spoken @ ms) \<longleftrightarrow> set ks \<subseteq> set (replies ms) \<and> calls_answered ms"
  using assms by (auto simp: speaks_def)

text \<open>No message holds both calls and results.\<close>

definition separate :: "LlmMessage \<Rightarrow> bool" where
  "separate m \<longleftrightarrow> collect_tool_use_ids m = [] \<or> result_ids m = []"

abbreviation next_results :: "LlmMessage list \<Rightarrow> string list" where
  "next_results ms \<equiv> concat (map result_ids (takeWhile has_result ms))"

lemma conversion_answers:
  assumes "list_all separate ms" and "w \<subseteq> set (next_results ms)" and "w \<noteq> {} \<Longrightarrow> \<not> b"
  shows "w \<subseteq> set (replies (conversion_from js v im w (zip (left_out b ms) ms))) \<and>
    calls_answered (conversion_from js v im w (zip (left_out b ms) ms))"
  using assms
proof (induction ms arbitrary: b im w)
  case Nil
  then show ?case by simp
next
  case (Cons m ms)
  have sep: "list_all separate ms" using Cons.prems(1) by simp
  show ?case
  proof (cases "has_result m")
    case True
    then have "collect_tool_use_ids m = []"
      using Cons.prems(1) by (simp add: separate_def has_result_iff)
    then have full: "\<not> unanswered m ms" by (simp add: unanswered_def)
    show ?thesis
    proof (cases b)
      case True
      with Cons.prems(3) have "w = {}" by blast
      with Cons.IH [OF sep, of w b im] True \<open>has_result m\<close> full show ?thesis by (simp add: Let_def)
    next
      case b: False
      show ?thesis
      proof (cases "list_ex (\<lambda>k. k \<in> w) (result_ids m)")
        case ans: True
        obtain im' rs where c: "convert_message js v m ([], im, w) =
            (map (\<lambda>(k, c). tool_message k c) rs, im', w - set (result_ids m))" and "map fst rs = result_ids m"
          using convert_answer [OF True ans, of js v "[]" im] by auto
        then have rs: "set (result_ids m) = fst ` set rs" by (metis list.set_map)
        have w: "w - set (result_ids m) \<subseteq> set (next_results ms)" using Cons.prems(2) True by auto
        from Cons.IH [OF sep w, of False im'] b True full c rs show ?thesis
          by (auto simp: Let_def replies_tools answered_tools)
      next
        case orphan: False
        then have "w \<subseteq> set (next_results ms)" using Cons.prems(2) True by (auto simp: list_ex_iff)
        from Cons.IH [OF sep this, of False im] b True full convert_orphan [OF True orphan, of js v "[]" im]
        show ?thesis by (simp add: Let_def)
      qed
    qed
  next
    case False
    then have w: "w = {}" using Cons.prems(2) by simp
    show ?thesis
    proof (cases "unanswered m ms")
      case True
      with Cons.IH [OF sep, of w True im] w show ?thesis by (simp add: Let_def)
    next
      case full: False
      obtain im' flush spoken where c: "convert_message js v m ([], im, w) = (flush @ spoken, im', w \<union> set (named_uses m))"
        and s: "speaks [] flush" "speaks (named_uses m) spoken"
        using convert_speech [OF False, of js v "[]" im w] by auto
      have "set (named_uses m) \<subseteq> set (next_results ms)"
        using full named_uses_subset [of m] by (auto simp: unanswered_def list_all_iff)
      with Cons.IH [OF sep, of "set (named_uses m)" False im'] w False full c s show ?thesis
        by (simp add: Let_def answered_speech [OF s])
    qed
  qed
qed

text \<open>A result message that answers some of the named calls answers no others.\<close>

fun all_or_none :: "LlmMessage option \<Rightarrow> LlmMessage list \<Rightarrow> bool" where
  "all_or_none p [] \<longleftrightarrow> True"
| "all_or_none p (m # ms) \<longleftrightarrow>
     (let named = (case p of None \<Rightarrow> {} | Some a \<Rightarrow> set (named_uses a))
      in set (result_ids m) \<inter> named = {} \<or> set (result_ids m) \<subseteq> named) \<and> all_or_none (Some m) ms"

text \<open>Only assistant messages call.\<close>

definition only_assistants_call :: "LlmMessage list \<Rightarrow> bool" where
  "only_assistants_call ms \<longleftrightarrow> list_all (\<lambda>m. lm_role m = ''assistant'' \<or> collect_tool_use_ids m = []) ms"

lemma next_results_eq: "next_results ms = collect_satisfied_tool_ids ms"
proof -
  have "has_result = is_tool_result_carrier" by (rule ext) (simp add: has_result_iff carrier_iff)
  then show ?thesis by (simp add: collect_satisfied_tool_ids_def)
qed

lemma belong_tools:
  "replies_belong ks (map (\<lambda>(k, c). tool_message k c) rs @ ms) \<longleftrightarrow> set (map fst rs) \<subseteq> ks \<and> replies_belong ks ms"
  by (induction rs) auto

lemma belong_speech:
  assumes "speaks [] flush" and "speaks ns spoken"
  obtains ks' where "ns \<noteq> [] \<Longrightarrow> ks' = set ns"
    and "\<And>xs. replies_belong ks (flush @ spoken @ xs) = replies_belong ks' xs"
proof (cases "spoken = []")
  case True
  with assms(2) have "ns = []" by (auto simp: speaks_def)
  moreover have "\<exists>ks'. \<forall>xs. replies_belong ks (flush @ xs) = replies_belong ks' xs"
    using assms(1) by (cases flush) (auto simp: speaks_def)
  ultimately show ?thesis using that True by auto
next
  case False
  with assms(2) obtain x where x: "spoken = [x]" "wire_reply x = None" "wire_calls x = ns"
    by (auto simp: speaks_def)
  show ?thesis
  proof (rule that [of "set ns"])
    show "replies_belong ks (flush @ spoken @ xs) = replies_belong (set ns) xs" for xs
      using assms(1) x by (cases flush) (auto simp: speaks_def)
  qed simp
qed

lemma conversion_belongs:
  assumes "log_ok p ms" and "paired ms" and "only_assistants_call ms"
    and "w \<subseteq> set (next_results ms)"
    and "ms \<noteq> [] \<Longrightarrow> has_result (hd ms) \<Longrightarrow>
      \<exists>a. p = Some a \<and> w = set (named_uses a) \<and> (w \<noteq> {} \<longrightarrow> ks = w)"
  shows "replies_belong ks (conversion_from js v im w (zip (left_out False ms) ms)) \<longleftrightarrow> all_or_none p ms"
  using assms
proof (induction ms arbitrary: p im w ks)
  case (Cons m ms)
  have rest: "log_ok (Some m) ms" "paired ms" "only_assistants_call ms"
    using Cons.prems(1,2,3) by (auto simp: only_assistants_call_def)
  have full: "\<not> unanswered m ms"
    using Cons.prems(2,3) by (auto simp: unanswered_def next_results_eq only_assistants_call_def list_all_iff)
  show ?case
  proof (cases "has_result m")
    case True
    then obtain a where a: "p = Some a" "w = set (named_uses a)" "w \<noteq> {} \<Longrightarrow> ks = w"
      using Cons.prems(5) by auto
    have alone: "ms = [] \<or> \<not> has_result (hd ms)"
      using rest(1) True by (cases ms) (auto simp: has_result_iff answers_call_def)
    then have "next_results ms = []" by (cases ms) auto
    with Cons.prems(4) True have w: "w \<subseteq> set (result_ids m)" by simp
    from Cons.IH [OF rest, of "{}"] alone
    have IH: "replies_belong ks (conversion_from js v im' {} (zip (left_out False ms) ms)) = all_or_none (Some m) ms" for im'
      by auto
    show ?thesis
    proof (cases "list_ex (\<lambda>k. k \<in> w) (result_ids m)")
      case ans: True
      obtain im' rs where c: "convert_message js v m ([], im, w) =
          (map (\<lambda>(k, c). tool_message k c) rs, im', w - set (result_ids m))" and rs: "map fst rs = result_ids m"
        using convert_answer [OF True ans, of js v "[]" im] by auto
      have "w - set (result_ids m) = {}" "w \<noteq> {}" using w ans by (auto simp: list_ex_iff)
      with IH [of im'] full c rs a ans show ?thesis
        by (auto simp: Let_def belong_tools list_ex_iff)
    next
      case orphan: False
      then have "w = {}" using w by (auto simp: list_ex_iff)
      with IH [of im] full a convert_orphan [OF True orphan, of js v "[]" im] show ?thesis
        by (simp add: Let_def)
    qed
  next
    case False
    then have w: "w = {}" using Cons.prems(4) by simp
    obtain im' flush spoken where c: "convert_message js v m ([], im, w) = (flush @ spoken, im', w \<union> set (named_uses m))"
      and s: "speaks [] flush" "speaks (named_uses m) spoken"
      using convert_speech [OF False, of js v "[]" im w] by auto
    obtain ks' where ks': "named_uses m \<noteq> [] \<Longrightarrow> ks' = set (named_uses m)"
      "\<And>xs. replies_belong ks (flush @ spoken @ xs) = replies_belong ks' xs"
      by (rule belong_speech [OF s, of ks]) blast
    have sub: "set (named_uses m) \<subseteq> set (next_results ms)"
      using full named_uses_subset [of m] by (auto simp: unanswered_def list_all_iff)
    from Cons.IH [OF rest sub, of ks' im'] ks'(1)
    have "replies_belong ks' (conversion_from js v im' (set (named_uses m)) (zip (left_out False ms) ms)) =
        all_or_none (Some m) ms" by auto
    then show ?thesis using w False full c ks'(2) by (simp add: Let_def has_result_iff)
  qed
qed simp

end
