(* ===== verification/Provider_Requests.thy ===== *)
theory Provider_Requests
  imports Wire_Calls
begin

text \<open>
  What holds of the bodies sent to an OpenAI-compatible provider: of their messages, of their content
  arrays, and of thinking when a request is sent again.
\<close>

section \<open>Images and tidying keep calls and replies\<close>

lemma placed_ids [simp]:
  "use_id (placed keep b) = use_id b" "result_id (placed keep b) = result_id b"
  "named_use (placed keep b) = named_use b"
  by (cases b; simp add: image_placeholder_def)+

definition same_ids :: "LlmMessage \<Rightarrow> LlmMessage \<Rightarrow> bool" where
  "same_ids m m' \<longleftrightarrow> msg_key m = msg_key m' \<and> named_uses m = named_uses m'"

lemma map_filter_map: "List.map_filter f (map g xs) = List.map_filter (\<lambda>x. f (g x)) xs"
  by (induction xs) (auto simp: List.map_filter_simps split: option.splits)

lemma placed_same: "same_ids (map_blocks (placed keep) m) m"
  by (cases "lm_content m")
    (simp_all add: same_ids_def msg_key_def map_blocks_def named_uses_def collect_tool_use_ids_def result_ids_def
      map_filter_map)

lemma strip_same: "list_all2 same_ids (strip_images ms v) ms"
proof -
  have "list_all2 same_ids (map (\<lambda>(i, m). map_blocks (placed (last = Some i)) m) (zip [0..<length ms] ms)) ms" for last
    by (auto simp: list_all2_conv_all_nth placed_same)
  moreover have "list_all2 same_ids (map (map_blocks (placed False)) ms) ms"
    by (auto simp: list_all2_conv_all_nth placed_same)
  ultimately show ?thesis by (simp add: strip_images_def Let_def)
qed

lemma same_keys: "list_all2 same_ids ms ms' \<Longrightarrow> map msg_key ms = map msg_key ms'"
  by (induction rule: list_all2_induct) (auto simp: same_ids_def)

lemma separate_same: "list_all2 same_ids ms ms' \<Longrightarrow> list_all separate ms = list_all separate ms'"
  by (induction rule: list_all2_induct) (auto simp: same_ids_def separate_def msg_key_def)

lemma only_assistants_same:
  "list_all2 same_ids ms ms' \<Longrightarrow> only_assistants_call ms = only_assistants_call ms'"
  by (induction rule: list_all2_induct) (auto simp: same_ids_def only_assistants_call_def msg_key_def)

lemma all_or_none_same:
  "list_all2 same_ids ms ms' \<Longrightarrow> rel_option same_ids p p' \<Longrightarrow> all_or_none p ms = all_or_none p' ms'"
proof (induction arbitrary: p p' rule: list_all2_induct)
  case (Cons m ms m' ms')
  then have "all_or_none (Some m) ms = all_or_none (Some m') ms'" by simp
  with Cons.prems Cons.hyps(1) show ?case
    by (cases p; cases p') (simp_all add: same_ids_def msg_key_def)
qed simp

lemma tidy_content_reads [simp]:
  "wire_reply (tidy_content m) = wire_reply m" "wire_calls (tidy_content m) = wire_calls m"
proof -
  have "json_at (tidy_content m) k = json_at m k" if "k \<noteq> ''content''" for k
    using that by (auto simp: tidy_content_def Let_def json_at_def json_get_set_other split: option.splits)
  then show "wire_reply (tidy_content m) = wire_reply m" "wire_calls (tidy_content m) = wire_calls m"
    by (simp_all add: wire_reply_def wire_calls_def str_in_def arr_in_def)
qed

lemma replies_tidy [simp]: "replies (map tidy_content ms) = replies ms"
  by (induction ms) (auto split: option.splits)

lemma answered_tidy: "calls_answered (map tidy_content ms) = calls_answered ms"
  by (induction ms) auto

lemma belong_tidy: "replies_belong ks (map tidy_content ms) = replies_belong ks ms"
  by (induction ms arbitrary: ks) (auto split: option.splits)

text \<open>The body's messages are the conversion of the stripped ones, tidied, after the system prompt.\<close>

lemma body_messages_conversion:
  obtains pre v where "body_messages js req =
      map tidy_content (pre @ conversion_from js v [] {} (zip (left_out False (strip_images (rq_messages req) v))
        (strip_images (rq_messages req) v)))"
    and "speaks [] pre"
  by (rule that [of "case rq_system req of None \<Rightarrow> [] | Some sys \<Rightarrow> [wire_message ''system'' (JStr sys)]"])
    (auto simp: body_messages_def convert_messages_from Let_def speaks_def split: option.splits)

section \<open>Properties of the messages\<close>

text \<open>
  C34. When no message of the log holds both calls and results, then in the request that is sent every tool
  call is answered by the tool messages directly after it: calls without results are left out with what
  answers them, in whatever order calls and results stand and whichever are missing.
\<close>

theorem openai_calls_are_answered:
  assumes "list_all separate (rq_messages req)"
  shows "calls_answered (body_messages js req)"
proof -
  obtain pre v where b: "body_messages js req =
      map tidy_content (pre @ conversion_from js v [] {} (zip (left_out False (strip_images (rq_messages req) v))
        (strip_images (rq_messages req) v)))" and pre: "speaks [] pre"
    by (rule body_messages_conversion)
  have "list_all separate (strip_images (rq_messages req) v)"
    using assms separate_same [OF strip_same] by blast
  from conversion_answers [OF this, of "{}" False js v "[]"] pre show ?thesis
    by (auto simp only: b answered_tidy speaks_def) auto
qed

text \<open>A log in which two calls were made, one of them without a name, and both answered.\<close>

definition half_named_log :: "LlmMessage list" where
  "half_named_log = [
     \<lparr>lm_role = ''user'', lm_content = Text ''hi''\<rparr>,
     \<lparr>lm_role = ''assistant'', lm_content = Blocks [ToolUse ''a'' ''f'' JNull, ToolUse ''b'' [] JNull]\<rparr>,
     \<lparr>lm_role = ''user'', lm_content = Blocks [ToolResult ''a'' ''x'' False, ToolResult ''b'' ''y'' True]\<rparr>]"

definition request_of_log :: "LlmMessage list \<Rightarrow> LlmRequest" where
  "request_of_log ms = \<lparr>rq_messages = ms, rq_system = None, rq_tools = [], rq_model = ''m'',
     rq_max_tokens = 64, rq_stream = False, rq_vision_override = Some False\<rparr>"

lemmas sample_log_simps = half_named_log_def request_of_log_def collect_tool_use_ids_def result_ids_def
  named_uses_def List.map_filter_simps str_eval

theorem openai_calls_are_answered_witness:
  "\<forall>js. calls_answered (body_messages js (request_of_log half_named_log))"
proof
  fix js
  show "calls_answered (body_messages js (request_of_log half_named_log))"
    by (rule openai_calls_are_answered) (simp add: sample_log_simps separate_def)
qed

text \<open>
  With a message that holds both it need not be so: of the following log the call \<open>a\<close> is sent, and no answer.
\<close>

definition mixed_log :: "LlmMessage list" where
  "mixed_log = [
     \<lparr>lm_role = ''assistant'', lm_content = Blocks [ToolUse ''a'' ''f'' JNull]\<rparr>,
     \<lparr>lm_role = ''user'', lm_content = Blocks [ToolResult ''x'' ''r'' False, ToolUse ''b'' ''f'' JNull]\<rparr>,
     \<lparr>lm_role = ''user'', lm_content = Blocks [ToolResult ''a'' ''r'' False]\<rparr>]"

lemma mixed_log_unanswered: "\<not> calls_answered (body_messages (\<lambda>_. []) (request_of_log mixed_log))"
  by code_simp

text \<open>
  C35. When the log of a request matches, the tool messages that are sent reply to calls that are sent
  if and only if no result message answers calls with and calls without a name: a call without a name is
  dropped, but its result is dropped only when it stands in a message with no other result.
\<close>

theorem unnamed_calls_leave_replies:
  assumes "log_ok None (rq_messages req)" and "paired (rq_messages req)"
    and "only_assistants_call (rq_messages req)"
  shows "replies_belong {} (body_messages js req) \<longleftrightarrow> all_or_none None (rq_messages req)"
proof -
  obtain pre v where b: "body_messages js req =
      map tidy_content (pre @ conversion_from js v [] {} (zip (left_out False (strip_images (rq_messages req) v))
        (strip_images (rq_messages req) v)))" and pre: "speaks [] pre"
    by (rule body_messages_conversion)
  let ?ms = "strip_images (rq_messages req) v"
  note keys = same_keys [OF strip_same [of "rq_messages req" v]]
  have ok: "log_ok None ?ms" "paired ?ms" "only_assistants_call ?ms"
    using assms log_ok_keys [OF keys, of None None] paired_keys [OF keys] only_assistants_same [OF strip_same] by simp_all
  have "replies_belong {} (body_messages js req) =
      replies_belong {} (conversion_from js v [] {} (zip (left_out False ?ms) ?ms))"
    using pre by (auto simp only: b belong_tidy speaks_def) simp_all
  also have "\<dots> = all_or_none None ?ms"
    by (rule conversion_belongs [OF ok]) (use ok(1) in \<open>cases ?ms; auto simp: has_result_iff answers_call_def\<close>)+
  also have "\<dots> = all_or_none None (rq_messages req)"
    by (rule all_or_none_same [OF strip_same]) simp
  finally show ?thesis .
qed

theorem unnamed_calls_leave_replies_witness:
  "\<forall>js. \<not> replies_belong {} (body_messages js (request_of_log half_named_log))"
proof
  fix js
  have "trim ''f'' \<noteq> []" "trim [] = []" by (simp_all add: str_eval)
  then have "\<not> all_or_none None (rq_messages (request_of_log half_named_log))"
    by (simp add: sample_log_simps)
  moreover have "log_ok None (rq_messages (request_of_log half_named_log))"
    "paired (rq_messages (request_of_log half_named_log))"
    "only_assistants_call (rq_messages (request_of_log half_named_log))"
    by (simp_all add: sample_log_simps answers_call_def satisfied_Cons only_assistants_call_def)
  ultimately show "\<not> replies_belong {} (body_messages js (request_of_log half_named_log))"
    using unnamed_calls_leave_replies [of "request_of_log half_named_log" js] by blast
qed

section \<open>Content arrays\<close>

text \<open>What the conversion writes: text, or items of which one is an image or text that is not empty.\<close>

definition item_ok :: "json \<Rightarrow> bool" where
  "item_ok v \<longleftrightarrow> has_type ''image_url'' v \<or>
     has_type ''text'' v \<and> (case str_in v ''text'' of None \<Rightarrow> False | Some s \<Rightarrow> s \<noteq> [])"

definition content_ok :: "json \<Rightarrow> bool" where
  "content_ok m \<longleftrightarrow> json_is_object m \<and> (case arr_in m ''content'' of None \<Rightarrow> True | Some items \<Rightarrow> list_ex item_ok items)"

lemma content_ok_message [simp]:
  "content_ok (wire_message r c) \<longleftrightarrow> (case json_as_array c of None \<Rightarrow> True | Some items \<Rightarrow> list_ex item_ok items)"
  "content_ok (tool_message k s)"
  by (simp_all add: content_ok_def wire_message_def tool_message_def json_reads)

lemma item_ok_parts [simp]: "item_ok (image_part s)" "s' \<noteq> [] \<Longrightarrow> item_ok (text_part s')"
  by (simp_all add: item_ok_def has_type_def image_part_def text_part_def json_reads)

lemma with_text_ok: "list_ex item_ok items \<Longrightarrow> list_ex item_ok (with_text p items)"
  by (simp add: with_text_def)

lemma plain_part_ok: "plain_part v b = Some j \<Longrightarrow> item_ok j"
  by (cases b) (auto split: if_splits)

lemma plain_message_ok: "list_all content_ok (plain_message v r bs)"
proof -
  have "list_ex item_ok (List.map_filter (plain_part v) bs)" if "List.map_filter (plain_part v) bs \<noteq> []"
  proof -
    from that obtain j where j: "j \<in> set (List.map_filter (plain_part v) bs)" by (meson last_in_set)
    then obtain b where "plain_part v b = Some j" by (auto simp: set_map_filter)
    with j plain_part_ok show ?thesis by (auto simp: list_ex_iff)
  qed
  then show ?thesis by (auto simp: plain_message_def Let_def with_text_ok split: option.splits)
qed

lemma call_message_ok: "list_all content_ok (call_message s calls)"
  by (auto simp: call_message_def content_ok_def wire_message_def json_reads)

lemma image_message_ok: "list_ex item_ok im \<Longrightarrow> content_ok (image_message im)"
  by (simp add: image_message_def with_text_ok)

text \<open>The images that wait are items.\<close>

lemma fold_results_ok:
  "list_all content_ok out \<Longrightarrow> list_all item_ok im \<Longrightarrow>
     (case fold (result_block v) bs (out, im, w) of (out', im', w') \<Rightarrow> list_all content_ok out' \<and> list_all item_ok im')"
proof (induction bs arbitrary: out im w)
  case (Cons b bs)
  then show ?case by (cases b) simp_all
qed simp

lemma convert_message_ok:
  assumes "list_all content_ok out" and "list_all item_ok im"
  shows "case convert_message js v m (out, im, w) of (out', im', w') \<Rightarrow> list_all content_ok out' \<and> list_all item_ok im'"
proof -
  define f where "f = (im \<noteq> [] \<and> lm_role m \<noteq> ''tool'' \<and> \<not> has_result m)"
  define o1 where "o1 = (if f then out @ [image_message im] else out)"
  define i1 where "i1 = (if f then [] else im)"
  have ok: "list_all content_ok o1" "list_all item_ok i1"
    using assms by (cases im; auto simp: o1_def i1_def f_def image_message_ok)+
  have "(if f then (out @ [image_message im], []) else (out, im)) = (o1, i1)" by (simp add: o1_def i1_def)
  then show ?thesis
    using ok fold_results_ok [OF ok, of v "blocks m" w]
    by (cases "lm_content m")
      (simp_all add: convert_message_def f_def [symmetric] plain_message_ok call_message_ok split: prod.splits)
qed

lemma conversion_ok: "list_all item_ok im \<Longrightarrow> list_all content_ok (conversion_from js v im w xs)"
proof (induction xs arbitrary: im w)
  case Nil
  then show ?case by (cases im) (simp_all add: image_message_ok)
next
  case (Cons x xs)
  obtain skip m where x: "x = (skip, m)" by (cases x)
  with Cons convert_message_ok [of "[]" im js v m w] show ?case by (auto split: prod.splits)
qed

text \<open>After tidying, an array holds an image and text.\<close>

definition array_complete :: "json \<Rightarrow> bool" where
  "array_complete m \<longleftrightarrow> (case arr_in m ''content'' of
      None \<Rightarrow> True | Some items \<Rightarrow> list_ex (has_type ''image_url'') items \<and> list_ex (has_type ''text'') items)"

lemma join_nonempty: "x \<in> set xs \<Longrightarrow> x \<noteq> [] \<Longrightarrow> join sep xs \<noteq> []"
  by (induction sep xs rule: join.induct) auto

lemma array_set: "json_is_object m \<Longrightarrow> arr_in (json_set m ''content'' c) ''content'' = json_as_array c"
  by (simp add: arr_in_def json_at_def json_get_set_same)

lemma tidy_complete:
  assumes "content_ok m"
  shows "array_complete (tidy_content m)"
proof (cases "arr_in m ''content''")
  case None
  then show ?thesis by (simp add: tidy_content_def array_complete_def)
next
  case (Some items)
  note obj = assms [unfolded content_ok_def, THEN conjunct1]
  let ?texts = "List.map_filter (\<lambda>v. if has_type ''text'' v then str_in v ''text'' else None) items"
  show ?thesis
  proof (cases "list_ex (has_type ''image_url'') items")
    case True
    then show ?thesis using Some obj
      by (auto simp: tidy_content_def array_complete_def array_set)
        (simp add: has_type_def text_part_def json_at_def)
  next
    case False
    then obtain v s where "v \<in> set items" "has_type ''text'' v" "str_in v ''text'' = Some s" "s \<noteq> []"
      using assms Some by (auto simp: content_ok_def list_ex_iff item_ok_def split: option.splits)
    then have "s \<in> set ?texts" by (force simp: set_map_filter)
    with \<open>s \<noteq> []\<close> have "join [CHR 0x0A] ?texts \<noteq> []" by (rule join_nonempty [rotated])
    then show ?thesis using Some False obj
      by (simp add: tidy_content_def array_complete_def array_set)
  qed
qed

text \<open>In the body every content that is an array holds an image and text.\<close>

theorem content_arrays_are_complete: "list_all array_complete (body_messages js req)"
proof -
  obtain pre v where b: "body_messages js req =
      map tidy_content (pre @ conversion_from js v [] {} (zip (left_out False (strip_images (rq_messages req) v))
        (strip_images (rq_messages req) v)))" and pre: "list_all content_ok pre"
    by (rule that [of "case rq_system req of None \<Rightarrow> [] | Some sys \<Rightarrow> [wire_message ''system'' (JStr sys)]"])
      (auto simp: body_messages_def convert_messages_from Let_def split: option.splits)
  moreover have "list_all content_ok (conversion_from js v [] {} xs)" for v xs
    by (rule conversion_ok) simp
  ultimately show ?thesis by (auto simp: list_all_iff tidy_complete)
qed

section \<open>Thinking\<close>

definition asks_to_think :: "json \<Rightarrow> bool" where
  "asks_to_think body \<longleftrightarrow>
     str_in (json_at body ''thinking'') ''type'' = Some ''enabled'' \<or> json_at body ''enable_thinking'' = JBool True"

lemma json_at_set:
  "json_is_object j \<Longrightarrow> json_at (json_set j k v) k' = (if k = k' then v else json_at j k')"
  by (cases j) (simp_all add: json_at_def)

lemma thinking_mode_type [simp]: "str_in (thinking_mode e) ''type'' = Some ''enabled'' \<longleftrightarrow> e"
  by (simp add: thinking_mode_def json_reads)

lemma null_type [simp]: "str_in JNull k = None"
  by (simp add: json_reads)

lemma set_some_at:
  "json_is_object j \<Longrightarrow> json_is_object (set_some k v j) \<and> (k \<noteq> k' \<longrightarrow> json_at (set_some k v j) k' = json_at j k')"
  by (cases v) (simp_all add: set_some_def json_at_set)

lemma set_thinking_at:
  assumes "json_is_object body" and "json_at body ''thinking'' = JNull" and "json_at body ''enable_thinking'' = JNull"
  shows "json_at (set_thinking client blocked model body) ''messages'' = json_at body ''messages''"
    and "asks_to_think (set_thinking client blocked model body) \<Longrightarrow> thinking_on client blocked model body"
  using assms by (auto simp: set_thinking_def Let_def json_at_set asks_to_think_def split: if_splits)

lemma openai_body_at:
  "json_at (openai_body js client blocked req) ''messages'' = JArr (body_messages js req)"
  "asks_to_think (openai_body js client blocked req) \<Longrightarrow>
     co_thinking (oc_options client) = Some True \<and> thinking_block_key client (rq_model req) \<notin> blocked \<and>
     \<not> has_assistant_tool_calls (openai_body js client blocked req)"
proof -
  define b0 where "b0 = JObj [(''model'', JStr (rq_model req)), (''max_tokens'', JInt (uint (rq_max_tokens req))),
    (''messages'', JArr (body_messages js req)), (''stream'', JBool (rq_stream req))]"
  define b1 where "b1 = (if rq_tools req = [] then b0
    else json_set (json_set b0 ''tools'' (JArr (map tool_json (rq_tools req)))) ''tool_choice'' (JStr ''auto''))"
  define b2 where "b2 = set_some ''top_p'' (co_top_p (oc_options client))
    (set_some ''temperature'' (co_temperature (oc_options client)) b1)"
  have b0: "json_is_object b0" "json_at b0 ''messages'' = JArr (body_messages js req)"
    "json_at b0 ''thinking'' = JNull" "json_at b0 ''enable_thinking'' = JNull"
    by (simp_all add: b0_def json_at_def)
  have b1: "json_is_object b1" "json_at b1 ''messages'' = JArr (body_messages js req)"
    "json_at b1 ''thinking'' = JNull" "json_at b1 ''enable_thinking'' = JNull"
    using b0 by (simp_all add: b1_def json_at_set)
  have b2: "json_is_object b2" "json_at b2 ''messages'' = JArr (body_messages js req)"
    "json_at b2 ''thinking'' = JNull" "json_at b2 ''enable_thinking'' = JNull"
    using b1 by (simp_all add: b2_def set_some_at)
  have body: "openai_body js client blocked req = set_thinking client blocked (rq_model req) b2"
    by (simp add: openai_body_def Let_def b0_def b1_def b2_def)
  show m: "json_at (openai_body js client blocked req) ''messages'' = JArr (body_messages js req)"
    using set_thinking_at(1) [OF b2(1,3,4)] b2(2) body by simp
  assume "asks_to_think (openai_body js client blocked req)"
  with set_thinking_at(2) [OF b2(1,3,4)] have "thinking_on client blocked (rq_model req) b2" by (simp add: body)
  moreover have "has_assistant_tool_calls b2 = has_assistant_tool_calls (openai_body js client blocked req)"
    using m b2(2) by (simp add: has_assistant_tool_calls_def arr_in_def)
  ultimately show "co_thinking (oc_options client) = Some True \<and> thinking_block_key client (rq_model req) \<notin> blocked \<and>
     \<not> has_assistant_tool_calls (openai_body js client blocked req)"
    by (simp add: thinking_on_def)
qed

text \<open>What a request was sent as: at most twice, the second time with the same messages and without thinking.\<close>

definition sent_well :: "json list \<Rightarrow> bool" where
  "sent_well sent \<longleftrightarrow>
     (case sent of
        [a] \<Rightarrow> \<not> (asks_to_think a \<and> has_assistant_tool_calls a)
      | [a, b] \<Rightarrow> \<not> (asks_to_think a \<and> has_assistant_tool_calls a) \<and> \<not> asks_to_think b \<and>
          json_at b ''messages'' = json_at a ''messages''
      | _ \<Rightarrow> False)"

lemma second_post:
  "\<exists>r. post_chat_loop env client http req True blocked =
     (blocked, [openai_body (pe_js env) client blocked req], r)"
  by (subst post_chat_loop.simps) (auto simp: Let_def split: http_reply.splits)

text \<open>
  C36. A request is sent at most twice, whatever is answered. Thinking is never asked for when the
  messages hold tool calls of the assistant, whose reasoning could not be replayed. The second request
  has the messages of the first and does not ask for thinking, nor does a later one to the same model.
\<close>

theorem replay_error_turns_thinking_off:
  "case post_chat env client http req blocked of (blocked', sent, r) \<Rightarrow>
     sent_well sent \<and> blocked \<subseteq> blocked' \<and>
     \<not> (length sent \<noteq> 1 \<and> asks_to_think (openai_body (pe_js env) client blocked' req))"
proof -
  let ?key = "thinking_block_key client (rq_model req)"
  let ?body = "\<lambda>b. openai_body (pe_js env) client b req"
  have off: "\<not> asks_to_think (?body (insert ?key blocked))"
    using openai_body_at(2) [of "pe_js env" client "insert ?key blocked" req] by auto
  have on: "\<not> (asks_to_think (?body blocked) \<and> has_assistant_tool_calls (?body blocked))"
    using openai_body_at(2) [of "pe_js env" client blocked req] by auto
  obtain r where two: "post_chat_loop env client http req True (insert ?key blocked) =
      (insert ?key blocked, [?body (insert ?key blocked)], r)"
    using second_post by blast
  show ?thesis
    unfolding post_chat_def
    by (subst post_chat_loop.simps)
      (use on off two in \<open>auto simp: Let_def sent_well_def openai_body_at(1) split: http_reply.splits\<close>)
qed

end
