(* ===== verification/Claude.thy ===== *)
theory Claude
  imports Openai_Calls
begin

text \<open>
  The client of the Anthropic Messages API (\<^verbatim>\<open>llm/claude.rs\<close>), and which client a provider gets
  (\<^verbatim>\<open>llm/mod.rs\<close>).
\<close>

section \<open>Clients\<close>

record ClaudeClient =
  cc_api_key :: string
  cc_read_timeout :: u32
  cc_messages_url :: string
  cc_options :: ClientOptions

definition CLAUDE_API_URL :: string where
  "CLAUDE_API_URL = ''https://api.anthropic.com/v1/messages''"

definition claude_with_timeout :: "string \<Rightarrow> u32 \<Rightarrow> ClaudeClient" where
  "claude_with_timeout api_key read_timeout_secs = \<lparr>
     cc_api_key = api_key, cc_read_timeout = max read_timeout_secs 30,
     cc_messages_url = CLAUDE_API_URL, cc_options = default_options\<rparr>"

definition claude_with_base_url :: "string option \<Rightarrow> ClaudeClient \<Rightarrow> ClaudeClient" where
  "claude_with_base_url base_url client =
     (case map_option (\<lambda>u. without_slashes (trim u)) base_url of
        None \<Rightarrow> client
      | Some u \<Rightarrow>
          if u = [] then client
          else client\<lparr>cc_messages_url :=
                 (if ends_with u ''/messages'' then u
                  else if ends_with u ''/v1'' then u @ ''/messages''
                  else u @ ''/v1/messages'')\<rparr>)"

definition valid_session_id :: "string \<Rightarrow> bool" where
  "valid_session_id s \<longleftrightarrow>
     s \<noteq> [] \<and> length s \<le> 200 \<and>
     list_all (\<lambda>c. 33 \<le> byte c \<and> byte c \<le> 126 \<and> c \<noteq> CHR 0x22 \<and> c \<noteq> CHR 0x5C) s"

definition with_session :: "string \<Rightarrow> ClientOptions \<Rightarrow> ClientOptions" where
  "with_session session_id options =
     (if valid_session_id (trim session_id) then options\<lparr>co_session_id := Some (trim session_id)\<rparr> else options)"

text \<open>A fresh identifier and the version of the package come from outside.\<close>

definition provider_headers :: "string \<Rightarrow> string \<Rightarrow> string \<Rightarrow> string option \<Rightarrow> (string \<times> string) list" where
  "provider_headers fresh_uuid version provider session_id =
     (if provider = ''opencode'' then
        [(''x-opencode-session'',
          (case map_option trim session_id of
             None \<Rightarrow> ''agentz-'' @ fresh_uuid
           | Some s \<Rightarrow> if valid_session_id s then s else ''agentz-'' @ fresh_uuid)),
         (''user-agent'', ''AgentZ/'' @ version)]
      else [])"

definition default_base_url :: "string \<Rightarrow> string option" where
  "default_base_url provider =
     (if provider \<in> {''openai'', ''custom'', ''ollama''} then Some ''https://api.openai.com/v1''
      else if provider = ''deepseek'' then Some ''https://api.deepseek.com/v1''
      else if provider \<in> {''qwen'', ''tongyi''} then Some ''https://dashscope.aliyuncs.com/compatible-mode/v1''
      else if provider = ''minimax'' then Some ''https://api.minimax.io/v1''
      else if provider = ''zhipu'' then Some ''https://api.z.ai/api/paas/v4''
      else if provider \<in> {''kimi'', ''moonshot''} then Some ''https://api.moonshot.cn/v1''
      else if provider = ''opencode'' then Some ''https://opencode.ai/inference/go/openai/v1''
      else None)"

datatype llm_client = OpenAiProvider OpenAiClient | ClaudeProvider ClaudeClient

definition build_client_with_options ::
  "string \<Rightarrow> string \<Rightarrow> string \<Rightarrow> string \<Rightarrow> string option \<Rightarrow> u32 \<Rightarrow> ClientOptions \<Rightarrow> llm_client" where
  "build_client_with_options fresh_uuid version provider api_key base_url read_timeout_secs options =
     (let url = trimmed_nonempty base_url
      in case default_base_url provider of
           Some standard \<Rightarrow> OpenAiProvider
             ((openai_with_timeout api_key (case url of None \<Rightarrow> standard | Some u \<Rightarrow> u) read_timeout_secs)
               \<lparr>oc_headers := provider_headers fresh_uuid version provider (co_session_id options), oc_options := options\<rparr>)
         | None \<Rightarrow> ClaudeProvider
             ((claude_with_base_url url (claude_with_timeout api_key read_timeout_secs))\<lparr>cc_options := options\<rparr>))"

section \<open>Bodies\<close>

fun claude_block :: "ContentBlock \<Rightarrow> json" where
  "claude_block (TextBlock t) = JObj [(''type'', JStr ''text''), (''text'', JStr t)]"
| "claude_block (Image s) =
     JObj [(''type'', JStr ''image''),
       (''source'', JObj [(''type'', JStr (is_source_type s)), (''media_type'', JStr (is_media_type s)),
          (''data'', JStr (is_data s))])]"
| "claude_block (ToolUse k name input) =
     JObj [(''type'', JStr ''tool_use''), (''id'', JStr k), (''name'', JStr name), (''input'', input)]"
| "claude_block (ToolResult k content e) =
     JObj [(''type'', JStr ''tool_result''), (''tool_use_id'', JStr k), (''content'', JStr content), (''is_error'', JBool e)]"

definition claude_message :: "LlmMessage \<Rightarrow> json" where
  "claude_message m =
     JObj [(''role'', JStr (lm_role m)),
       (''content'', (case lm_content m of Text t \<Rightarrow> JStr t | Blocks bs \<Rightarrow> JArr (map claude_block bs)))]"

definition claude_tool :: "ToolDef \<Rightarrow> json" where
  "claude_tool t =
     JObj [(''name'', JStr (tool_name t)), (''description'', JStr (tool_description t)),
       (''input_schema'', tool_input_schema t)]"

definition claude_body :: "ClaudeClient \<Rightarrow> LlmRequest \<Rightarrow> json" where
  "claude_body client req =
     (let body0 = JObj [(''model'', JStr (rq_model req)), (''max_tokens'', JInt (uint (rq_max_tokens req))),
            (''messages'', JArr (map claude_message (rq_messages req))), (''stream'', JBool (rq_stream req))];
          body1 = set_some ''system'' (map_option JStr (rq_system req)) body0;
          body2 = set_some ''top_p'' (co_top_p (cc_options client))
                    (set_some ''temperature'' (co_temperature (cc_options client)) body1)
      in if rq_tools req = [] then body2 else json_set body2 ''tools'' (JArr (map claude_tool (rq_tools req))))"

section \<open>Events\<close>

record Delta =
  d_type :: "string option"
  d_text :: "string option"
  d_partial_json :: "string option"

record ContentBlockStart =
  cb_type :: string
  cb_id :: "string option"
  cb_name :: "string option"

record Usage =
  u_input_tokens :: u32
  u_output_tokens :: u32

record SseEvent =
  sse_type :: string
  sse_delta :: "Delta option"
  sse_index :: "nat option"
  sse_content_block :: "ContentBlockStart option"
  sse_message :: "Usage option option"
  sse_usage :: "Usage option"

text \<open>
  The derived \<^verbatim>\<open>Deserialize\<close> on objects: an optional field may be missing or null, a field of the wrong
  type makes the whole event unreadable.
\<close>

definition opt_field :: "(json \<Rightarrow> 'a option) \<Rightarrow> json \<Rightarrow> string \<Rightarrow> 'a option option" where
  "opt_field read j k =
     (case json_get j k of None \<Rightarrow> Some None | Some JNull \<Rightarrow> Some None | Some v \<Rightarrow> map_option Some (read v))"

definition req_field :: "(json \<Rightarrow> 'a option) \<Rightarrow> json \<Rightarrow> string \<Rightarrow> 'a option" where
  "req_field read j k = Option.bind (json_get j k) read"

definition read_u32 :: "json \<Rightarrow> u32 option" where
  "read_u32 j =
     (case json_as_u64 j of None \<Rightarrow> None | Some n \<Rightarrow> if n < 2 ^ 32 then Some (word_of_nat n) else None)"

definition default_field :: "(json \<Rightarrow> 'a option) \<Rightarrow> 'a \<Rightarrow> json \<Rightarrow> string \<Rightarrow> 'a option" where
  "default_field read d j k = (case json_get j k of None \<Rightarrow> Some d | Some v \<Rightarrow> read v)"

definition read_delta :: "json \<Rightarrow> Delta option" where
  "read_delta j =
     (if json_is_object j then
        case (opt_field json_as_str j ''type'', opt_field json_as_str j ''text'', opt_field json_as_str j ''partial_json'') of
          (Some t, Some x, Some p) \<Rightarrow> Some \<lparr>d_type = t, d_text = x, d_partial_json = p\<rparr>
        | _ \<Rightarrow> None
      else None)"

definition read_content_block :: "json \<Rightarrow> ContentBlockStart option" where
  "read_content_block j =
     (if json_is_object j then
        case (req_field json_as_str j ''type'', opt_field json_as_str j ''id'', opt_field json_as_str j ''name'') of
          (Some t, Some k, Some n) \<Rightarrow> Some \<lparr>cb_type = t, cb_id = k, cb_name = n\<rparr>
        | _ \<Rightarrow> None
      else None)"

definition read_usage :: "json \<Rightarrow> Usage option" where
  "read_usage j =
     (if json_is_object j then
        case (default_field read_u32 0 j ''input_tokens'', default_field read_u32 0 j ''output_tokens'') of
          (Some i, Some out) \<Rightarrow> Some \<lparr>u_input_tokens = i, u_output_tokens = out\<rparr>
        | _ \<Rightarrow> None
      else None)"

definition read_message_start :: "json \<Rightarrow> Usage option option" where
  "read_message_start j = (if json_is_object j then opt_field read_usage j ''usage'' else None)"

definition read_event :: "json \<Rightarrow> SseEvent option" where
  "read_event j =
     (if json_is_object j then
        case (req_field json_as_str j ''type'', opt_field read_delta j ''delta'', opt_field json_as_u64 j ''index'',
              opt_field read_content_block j ''content_block'', opt_field read_message_start j ''message'',
              opt_field read_usage j ''usage'') of
          (Some t, Some d, Some i, Some cb, Some m, Some u) \<Rightarrow>
            Some \<lparr>sse_type = t, sse_delta = d, sse_index = i, sse_content_block = cb, sse_message = m, sse_usage = u\<rparr>
        | _ \<Rightarrow> None
      else None)"

section \<open>Streams\<close>

text \<open>The tokens counted, the tool calls that are open, by index, and the chunks sent.\<close>

record claude_state =
  cl_in :: u32
  cl_out :: u32
  cl_bufs :: "nat \<rightharpoonup> call_piece"
  cl_sent :: "LlmChunk list"

definition claude_start :: claude_state where
  "claude_start = \<lparr>cl_in = 0, cl_out = 0, cl_bufs = Map.empty, cl_sent = []\<rparr>"

definition claude_send :: "LlmChunk \<Rightarrow> claude_state \<Rightarrow> claude_state" where
  "claude_send c st = st\<lparr>cl_sent := cl_sent st @ [c]\<rparr>"

definition block_start :: "SseEvent \<Rightarrow> claude_state \<Rightarrow> claude_state" where
  "block_start ev st =
     (case (sse_index ev, sse_content_block ev) of
        (Some idx, Some cb) \<Rightarrow>
          if cb_type cb = ''tool_use''
          then st\<lparr>cl_bufs := (cl_bufs st)(idx \<mapsto> (or_blank (cb_id cb), or_blank (cb_name cb), []))\<rparr> else st
      | _ \<Rightarrow> st)"

definition block_delta :: "SseEvent \<Rightarrow> claude_state \<Rightarrow> claude_state" where
  "block_delta ev st =
     (case sse_delta ev of
        None \<Rightarrow> st
      | Some d \<Rightarrow>
          if d_type d = Some ''text_delta'' then
            (case d_text d of None \<Rightarrow> st | Some text \<Rightarrow> claude_send (ChunkText text) st)
          else if d_type d = Some ''input_json_delta'' then
            (case (sse_index ev, d_partial_json d) of
               (Some idx, Some partial) \<Rightarrow>
                 (case cl_bufs st idx of
                    None \<Rightarrow> st
                  | Some (k, name, json_buf) \<Rightarrow> st\<lparr>cl_bufs := (cl_bufs st)(idx \<mapsto> (k, name, json_buf @ partial))\<rparr>)
             | _ \<Rightarrow> st)
          else st)"

definition finished_call :: "provider_env \<Rightarrow> call_piece \<Rightarrow> LlmChunk" where
  "finished_call env = (\<lambda>(k, name, json_buf).
     case parse_tool_arguments (pe_parse env) json_buf of
       Inr input \<Rightarrow> ChunkToolUse k name input
     | Inl e \<Rightarrow> ChunkError (args_invalid name k json_buf e))"

definition block_stop :: "provider_env \<Rightarrow> SseEvent \<Rightarrow> claude_state \<Rightarrow> claude_state" where
  "block_stop env ev st =
     (case sse_index ev of
        None \<Rightarrow> st
      | Some idx \<Rightarrow>
          (case cl_bufs st idx of
             None \<Rightarrow> st
           | Some piece \<Rightarrow> claude_send (finished_call env piece) (st\<lparr>cl_bufs := (cl_bufs st)(idx := None)\<rparr>)))"

definition claude_event :: "provider_env \<Rightarrow> SseEvent \<Rightarrow> claude_state \<Rightarrow> claude_state" where
  "claude_event env ev st =
     (if sse_type ev = ''message_start'' then
        (case sse_message ev of Some (Some u) \<Rightarrow> st\<lparr>cl_in := u_input_tokens u\<rparr> | _ \<Rightarrow> st)
      else if sse_type ev = ''content_block_start'' then block_start ev st
      else if sse_type ev = ''content_block_delta'' then block_delta ev st
      else if sse_type ev = ''content_block_stop'' then block_stop env ev st
      else if sse_type ev = ''message_delta'' then
        (case sse_usage ev of Some u \<Rightarrow> st\<lparr>cl_out := u_output_tokens u\<rparr> | None \<Rightarrow> st)
      else if sse_type ev = ''message_stop'' then claude_send (ChunkDone (cl_in st) (cl_out st)) st
      else st)"

text \<open>The lines of a block, up to the one that says it is done.\<close>

fun claude_lines :: "provider_env \<Rightarrow> string list \<Rightarrow> claude_state \<Rightarrow> claude_state" where
  "claude_lines env [] st = st"
| "claude_lines env (line # ls) st =
     (case strip_prefix ''data: '' line of
        None \<Rightarrow> claude_lines env ls st
      | Some data \<Rightarrow>
          if data = ''[DONE]'' then st
          else case pe_parse env data of
                 Inl e \<Rightarrow> claude_lines env ls st
               | Inr j \<Rightarrow>
                   (case read_event j of
                      None \<Rightarrow> claude_lines env ls st
                    | Some ev \<Rightarrow> claude_lines env ls (claude_event env ev st)))"

text \<open>The blocks that end with an empty line, and what is left of the buffer.\<close>

fun complete_blocks :: "string \<Rightarrow> string \<Rightarrow> string list \<times> string" where
  "complete_blocks acc [] = ([], rev acc)"
| "complete_blocks acc [b] = ([], rev acc @ [b])"
| "complete_blocks acc (b # c # bs) =
     (if b = CHR 0x0A \<and> c = CHR 0x0A
      then (let (blks, rest) = complete_blocks [] bs in (rev acc # blks, rest))
      else complete_blocks (b # acc) (c # bs))"

definition claude_chunk :: "provider_env \<Rightarrow> string \<Rightarrow> string \<times> claude_state \<Rightarrow> string \<times> claude_state" where
  "claude_chunk env chunk = (\<lambda>(buffer, st).
     let (blks, rest) = complete_blocks [] (buffer @ from_utf8_lossy chunk)
     in (rest, fold (\<lambda>blk. claude_lines env (str_lines blk)) blks st))"

text \<open>The end of the body ends the call, whatever is open.\<close>

fun read_claude :: "provider_env \<Rightarrow> (string + string) list \<Rightarrow> string \<times> claude_state \<Rightarrow> LlmChunk list \<times> string option" where
  "read_claude env [] (buffer, st) = (cl_sent st, None)"
| "read_claude env (Inl e # cs) (buffer, st) = (cl_sent st, Some e)"
| "read_claude env (Inr chunk # cs) (buffer, st) = read_claude env cs (claude_chunk env chunk (buffer, st))"

section \<open>Calls\<close>

text \<open>One request is sent; a transport error is its own text.\<close>

definition claude_post ::
  "provider_env \<Rightarrow> ClaudeClient \<Rightarrow> (json \<Rightarrow> http_reply) \<Rightarrow> LlmRequest \<Rightarrow> string + (string + string) list" where
  "claude_post env client http req =
     (case http (claude_body client req) of
        NoReply err \<Rightarrow> Inl (sf_display err)
      | HttpReply status chunks \<Rightarrow>
          if is_success status then Inr chunks
          else Inl (''Claude API error '' @ status_str env status @ '': '' @ body_text env chunks))"

definition claude_stream ::
  "provider_env \<Rightarrow> ClaudeClient \<Rightarrow> (json \<Rightarrow> http_reply) \<Rightarrow> LlmRequest \<Rightarrow> LlmChunk list \<times> string option" where
  "claude_stream env client http req =
     (case claude_post env client http (req\<lparr>rq_stream := True\<rparr>) of
        Inl e \<Rightarrow> ([], Some e)
      | Inr chunks \<Rightarrow> read_claude env chunks ([], claude_start))"

definition answer_block :: "json \<Rightarrow> string \<times> ToolCall list \<Rightarrow> string \<times> ToolCall list" where
  "answer_block blk = (\<lambda>(text, calls).
     if str_in blk ''type'' = Some ''text'' then (text @ or_blank (str_in blk ''text''), calls)
     else if str_in blk ''type'' = Some ''tool_use'' then
       (text, calls @ [\<lparr>tc_id = or_blank (str_in blk ''id''), tc_name = or_blank (str_in blk ''name''),
                         tc_input = json_at blk ''input''\<rparr>])
     else (text, calls))"

definition read_claude_answer :: "provider_env \<Rightarrow> string \<Rightarrow> string + LlmResponse" where
  "read_claude_answer env body =
     (case pe_parse env body of
        Inl e \<Rightarrow> Inl (decode_error ''Claude'' e body)
      | Inr val \<Rightarrow>
          let (text, calls) = fold answer_block (case arr_in val ''content'' of None \<Rightarrow> [] | Some bs \<Rightarrow> bs) ([], [])
          in Inr \<lparr>rs_content = text, rs_tool_calls = calls,
                  rs_input_tokens = tokens_at (json_at val ''usage'') ''input_tokens'',
                  rs_output_tokens = tokens_at (json_at val ''usage'') ''output_tokens''\<rparr>)"

definition claude_complete ::
  "provider_env \<Rightarrow> ClaudeClient \<Rightarrow> (json \<Rightarrow> http_reply) \<Rightarrow> LlmRequest \<Rightarrow> string + LlmResponse" where
  "claude_complete env client http req =
     (case claude_post env client http (req\<lparr>rq_stream := False\<rparr>) of
        Inl e \<Rightarrow> Inl e
      | Inr chunks \<Rightarrow> (case body_bytes chunks of Inl e \<Rightarrow> Inl e | Inr body \<Rightarrow> read_claude_answer env body))"

end
