(* ===== verification/Provider_Streams.thy ===== *)
theory Provider_Streams
  imports Claude
begin

text \<open>
  What holds of streamed answers: how the body is cut into chunks does not matter as long as no
  character is cut, and which ends of a stream count as failures.
\<close>

section \<open>Lines and chunks\<close>

lemma complete_lines_append:
  "complete_lines acc (xs @ ys) =
     (let (ls, rest) = complete_lines acc xs; (ls', rest') = complete_lines (rev rest) ys in (ls @ ls', rest'))"
  by (induction acc xs rule: complete_lines.induct) (auto simp: Let_def split: prod.splits)

lemma complete_lines_rest: "CHR 0x0A \<notin> set acc \<Longrightarrow> CHR 0x0A \<notin> set (snd (complete_lines acc xs))"
  by (induction acc xs rule: complete_lines.induct) (auto simp: Let_def split: prod.splits)

lemma complete_lines_prefix:
  "CHR 0x0A \<notin> set xs \<Longrightarrow> complete_lines acc (xs @ ys) = complete_lines (rev xs @ acc) ys"
  by (induction xs arbitrary: acc) auto

text \<open>Reading line by line what a chunk adds to the buffer.\<close>

lemma complete_lines_buffer:
  assumes "CHR 0x0A \<notin> set buffer" and "complete_lines [] (buffer @ xs) = (ls, rest)"
  shows "complete_lines [] (buffer @ xs @ ys) = (ls @ fst (complete_lines [] (rest @ ys)), snd (complete_lines [] (rest @ ys)))"
    and "CHR 0x0A \<notin> set rest"
proof -
  show rest: "CHR 0x0A \<notin> set rest"
    using complete_lines_rest [of "[]" "buffer @ xs"] assms(2) by simp
  have "complete_lines [] ((buffer @ xs) @ ys) =
      (ls @ fst (complete_lines (rev rest) ys), snd (complete_lines (rev rest) ys))"
    by (subst complete_lines_append) (simp add: assms(2) Let_def split: prod.splits)
  then show "complete_lines [] (buffer @ xs @ ys) =
      (ls @ fst (complete_lines [] (rest @ ys)), snd (complete_lines [] (rest @ ys)))"
    using complete_lines_prefix [OF rest, of "[]" ys] by simp
qed

lemma take_lines_done: "ss_done st \<Longrightarrow> fold (take_line env) ls st = st"
  by (induction ls) (simp_all add: take_line_def)

text \<open>A body is read as the lines of what its decoded chunks add up to.\<close>

lemma read_stream_lines:
  assumes "CHR 0x0A \<notin> set buffer"
  shows "read_stream env (map Inr cs) (buffer, st) =
    (fold (take_line env) (fst (complete_lines [] (buffer @ concat (map from_utf8_lossy cs)))) st, None)"
  using assms
proof (induction cs arbitrary: buffer st)
  case Nil
  from complete_lines_prefix [OF Nil.prems, of "[]" "[]"] show ?case by simp
next
  case (Cons c cs)
  obtain ls rest where l: "complete_lines [] (buffer @ from_utf8_lossy c) = (ls, rest)"
    by (cases "complete_lines [] (buffer @ from_utf8_lossy c)")
  note more = complete_lines_buffer [OF Cons.prems l]
  show ?case
  proof (cases "ss_done st")
    case True
    then show ?thesis by (simp add: take_lines_done)
  next
    case False
    have "take_chunk env c (buffer, st) = (rest, fold (take_line env) ls st)"
      using l by (simp add: take_chunk_def)
    with Cons.IH [OF more(2), of "fold (take_line env) ls st"] False more(1) [of "concat (map from_utf8_lossy cs)"]
    show ?thesis by simp
  qed
qed

lemma read_openai_stream_text:
  "concat (map from_utf8_lossy cs) = concat (map from_utf8_lossy ds) \<Longrightarrow>
     read_openai_stream env (map Inr cs) = read_openai_stream env (map Inr ds)"
  by (simp add: read_openai_stream_def read_stream_lines)

lemma lossy_all_valid: "list_all valid_utf8 cs \<Longrightarrow> map from_utf8_lossy cs = cs"
  by (induction cs) (simp_all add: lossy_valid)

text \<open>
  C37. An answer that is streamed does not depend on how its bytes were cut into chunks, provided that
  no chunk ends inside a character: text, tool calls, counts and errors are the same.
\<close>

theorem stream_ignores_chunks:
  assumes "list_all valid_utf8 cs" and "list_all valid_utf8 ds" and "concat cs = concat ds"
  shows "read_openai_stream env (map Inr cs) = read_openai_stream env (map Inr ds)"
  using assms by (intro read_openai_stream_text) (simp add: lossy_all_valid)

theorem stream_ignores_chunks_witness:
  "\<forall>env. read_openai_stream env (map Inr [''data: [DO'', ''NE]'' @ [CHR 0x0A]]) =
     read_openai_stream env (map Inr [''data: [DONE]'' @ [CHR 0x0A]])"
proof
  fix env
  show "read_openai_stream env (map Inr [''data: [DO'', ''NE]'' @ [CHR 0x0A]]) =
     read_openai_stream env (map Inr [''data: [DONE]'' @ [CHR 0x0A]])"
    by (rule stream_ignores_chunks) (simp_all add: valid_ascii is_ascii_def byte_def)
qed

section \<open>Characters cut in two\<close>

abbreviation replacement :: string where
  "replacement \<equiv> [CHR 0xEF, CHR 0xBF, CHR 0xBD]"

definition one_char :: "string \<Rightarrow> bool" where
  "one_char c \<longleftrightarrow> c \<noteq> [] \<and> snd (utf8_head c) \<and> fst (utf8_head c) = length c"

lemma lossy_after_valid: "valid_utf8 s \<Longrightarrow> from_utf8_lossy (s @ t) = s @ from_utf8_lossy t"
proof (induction s rule: valid_utf8.induct)
  case (1 s)
  show ?case
  proof (cases "s = []")
    case False
    with "1.prems" have h: "snd (utf8_head s)" "valid_utf8 (drop (fst (utf8_head s)) s)"
      by (subst (asm) valid_utf8.simps; simp)+
    have n: "fst (utf8_head s) \<le> length s" by (rule utf8_head_valid(1) [OF False h(1)])
    show ?thesis
      using False h n "1.IH" [OF False h(2)]
      by (subst from_utf8_lossy.simps) (simp add: utf8_head_append append_assoc [symmetric])
  qed simp
qed

lemma lossy_continuations:
  "list_all continues ds \<Longrightarrow> from_utf8_lossy (ds @ t) = concat (replicate (length ds) replacement) @ from_utf8_lossy t"
proof (induction ds)
  case (Cons d ds)
  then have "utf8_width d = 0" using width_no_continuation by force
  then have "utf8_head (d # ds @ t) = (1, False)" by (simp add: utf8_head_def Let_def)
  with Cons show ?case by (subst from_utf8_lossy.simps) simp
qed simp

lemma lossy_begun:
  assumes "one_char c" and "0 < k" and "k < length c"
  shows "from_utf8_lossy (take k c) = replacement"
proof -
  let ?w = "utf8_width (hd c)"
  have c: "c \<noteq> []" "?w = length c" "\<And>i. 0 < i \<Longrightarrow> i < ?w \<Longrightarrow> follows (hd c) (i, c ! i)"
    using assms(1) utf8_head_iff [of c] by (auto simp: one_char_def)
  define z where "z = zip [1..<?w] (tl (take k c))"
  have len: "length z = k - 1" using assms c by (simp add: z_def)
  have "follows (hd c) x" if "x \<in> set z" for x
  proof -
    from that obtain j where "j < length z" "x = z ! j" by (metis in_set_conv_nth)
    moreover from this have "z ! j = (Suc j, c ! Suc j)" using len c assms(3) by (simp add: z_def nth_tl)
    ultimately show ?thesis using c(3) [of "Suc j"] len c(2) assms(3) by simp
  qed
  then have "takeWhile (follows (hd c)) z = z" by (simp add: takeWhile_eq_all_conv)
  then have "length (takeWhile (follows (hd c)) z) = k - 1" using len by (simp only:)
  then have "utf8_head (take k c) = (k, False)"
    using assms(2,3) c(1,2) unfolding utf8_head_def Let_def z_def hd_take [OF assms(2)] by simp
  with assms(2,3) c(1) show ?thesis by (subst from_utf8_lossy.simps) (auto simp: from_utf8_lossy.simps [of "[]"])
qed

text \<open>A replacement character is text.\<close>

lemma lossy_replacements:
  "from_utf8_lossy (concat (replicate n replacement) @ t) = concat (replicate n replacement) @ from_utf8_lossy t"
proof (induction n)
  case (Suc n)
  have "utf8_head replacement = (3, True)"
    by (simp add: utf8_head_def utf8_width_def byte_def follows_def continues_def Let_def upt_conv_Cons)
  then have "valid_utf8 replacement"
    by (subst valid_utf8.simps) (simp add: valid_utf8.simps [of "[]"])
  from lossy_after_valid [OF this] Suc show ?case by simp
qed simp

text \<open>
  C38. A character that is cut by the end of a chunk is lost: the stream is read as if the provider had
  sent a replacement character for its first part and one for every byte of the rest.
\<close>

theorem cut_characters_are_replaced:
  assumes "valid_utf8 s" and "valid_utf8 t" and "one_char c" and "0 < k" and "k < length c"
  shows "read_openai_stream env (map Inr [s @ take k c, drop k c @ t]) =
    read_openai_stream env [Inr (s @ concat (replicate (Suc (length c - k)) replacement) @ t)]"
proof -
  have "list_all continues (drop k c)"
    using assms(3-5) utf8_head_valid(3) [of c] by (auto simp: list_all_length one_char_def)
  from lossy_continuations [OF this, of t] lossy_begun [OF assms(3-5)]
  have "concat (map from_utf8_lossy [s @ take k c, drop k c @ t]) =
      s @ concat (replicate (Suc (length c - k)) replacement) @ t"
    using assms(1,2) by (simp add: lossy_after_valid lossy_valid)
  also have "\<dots> = concat (map from_utf8_lossy [s @ concat (replicate (Suc (length c - k)) replacement) @ t])"
    using assms(1,2) lossy_replacements [of "Suc (length c - k)" t]
    by (simp only: lossy_after_valid lossy_valid list.map concat.simps append_Nil2)
  finally have "read_openai_stream env (map Inr [s @ take k c, drop k c @ t]) =
      read_openai_stream env (map Inr [s @ concat (replicate (Suc (length c - k)) replacement) @ t])"
    by (rule read_openai_stream_text)
  then show ?thesis by (simp only: list.map)
qed

theorem cut_characters_are_replaced_witness:
  "\<forall>env. read_openai_stream env [Inr (''data: '' @ [CHR 0xC3]), Inr ([CHR 0xA9] @ [CHR 0x0A])] =
     read_openai_stream env [Inr (''data: '' @ [CHR 0xEF, CHR 0xBF, CHR 0xBD, CHR 0xEF, CHR 0xBF, CHR 0xBD] @ [CHR 0x0A])]"
proof
  fix env
  have "one_char [CHR 0xC3, CHR 0xA9]"
    by (simp add: one_char_def utf8_head_def utf8_width_def byte_def follows_def continues_def Let_def upt_conv_Cons)
  moreover have "valid_utf8 (''data: '')" "valid_utf8 [CHR 0x0A]" by (simp_all add: valid_ascii is_ascii_def byte_def)
  ultimately show "read_openai_stream env [Inr (''data: '' @ [CHR 0xC3]), Inr ([CHR 0xA9] @ [CHR 0x0A])] =
     read_openai_stream env [Inr (''data: '' @ [CHR 0xEF, CHR 0xBF, CHR 0xBD, CHR 0xEF, CHR 0xBF, CHR 0xBD] @ [CHR 0x0A])]"
    using cut_characters_are_replaced [of "''data: ''" "[CHR 0x0A]" "[CHR 0xC3, CHR 0xA9]" 1 env]
    by (simp add: numeral_eq_Suc)
qed

section \<open>How a stream ends\<close>

fun is_chunk_error :: "LlmChunk \<Rightarrow> bool" where
  "is_chunk_error (ChunkError e) = True"
| "is_chunk_error _ = False"

fun chunk_call :: "LlmChunk \<Rightarrow> ToolCall option" where
  "chunk_call (ChunkToolUse k name input) = Some \<lparr>tc_id = k, tc_name = name, tc_input = input\<rparr>"
| "chunk_call _ = None"

lemma fold_chunks:
  "rs_tool_calls (fst (fold fold_chunk cs (r, e))) = rs_tool_calls r @ List.map_filter chunk_call cs"
  "snd (fold fold_chunk cs (r, e)) = None \<longleftrightarrow> e = None \<and> \<not> list_ex is_chunk_error cs"
proof (induction cs arbitrary: r e)
  case (Cons c cs)
  { case 1 show ?case by (cases c) (simp_all add: Cons List.map_filter_simps) }
  { case 2 show ?case by (cases c) (simp_all add: Cons) }
qed (simp_all add: List.map_filter_simps)

lemma stream_result_ok:
  "\<not> list_ex is_chunk_error cs \<Longrightarrow>
     \<exists>r. stream_result cs None = Inr r \<and> rs_tool_calls r = List.map_filter chunk_call cs"
  using fold_chunks [of cs no_response None]
  by (auto simp: stream_result_def no_response_def split: prod.splits)

text \<open>The state of a Claude stream after some chunks.\<close>

definition claude_after :: "provider_env \<Rightarrow> string list \<Rightarrow> string \<times> claude_state" where
  "claude_after env cs = fold (claude_chunk env) cs ([], claude_start)"

lemma read_claude_fold:
  "read_claude env (map Inr cs) (buffer, st) = (cl_sent (snd (fold (claude_chunk env) cs (buffer, st))), None)"
proof (induction cs arbitrary: buffer st)
  case (Cons c cs)
  then show ?case by (cases "claude_chunk env c (buffer, st)") simp
qed simp

text \<open>
  A Claude stream that stops anywhere, even inside a tool call, counts as a complete answer with the
  calls that were finished, unless arguments could not be read.
\<close>

theorem claude_stream_may_stop_anywhere:
  assumes "\<not> list_ex is_chunk_error (cl_sent (snd (claude_after env cs)))"
  shows "\<exists>r. (case read_claude env (map Inr cs) ([], claude_start) of (sent, failure) \<Rightarrow> stream_result sent failure) = Inr r \<and>
    rs_tool_calls r = List.map_filter chunk_call (cl_sent (snd (claude_after env cs)))"
  using stream_result_ok [OF assms] by (simp add: read_claude_fold claude_after_def)

text \<open>A stream that stops after a tool call was opened.\<close>

definition opening_event :: json where
  "opening_event = JObj [(''type'', JStr ''content_block_start''), (''index'', JInt 0),
     (''content_block'', JObj [(''type'', JStr ''tool_use''), (''id'', JStr ''t''), (''name'', JStr ''f'')])]"

definition sample_provider :: provider_env where
  "sample_provider = \<lparr>pe_js = \<lambda>j. [], pe_parse = \<lambda>s. Inr opening_event, pe_decode = \<lambda>s. s,
     pe_reason = \<lambda>n. [], pe_shuffle = \<lambda>ps. ps\<rparr>"

definition opening_chunk :: string where
  "opening_chunk = ''data: x'' @ [CHR 0x0A, CHR 0x0A]"

lemma opening_state:
  "claude_after sample_provider [opening_chunk] = ([], claude_start\<lparr>cl_bufs := [0 \<mapsto> (''t'', ''f'', [])]\<rparr>)"
proof -
  have "from_utf8_lossy opening_chunk = opening_chunk"
    by (rule lossy_valid, rule valid_ascii) (simp add: opening_chunk_def is_ascii_def byte_def)
  moreover have "complete_blocks [] opening_chunk = ([''data: x''], [])"
    by (simp add: opening_chunk_def)
  moreover have "read_event opening_event = Some \<lparr>sse_type = ''content_block_start'', sse_delta = None, sse_index = Some 0,
      sse_content_block = Some \<lparr>cb_type = ''tool_use'', cb_id = Some ''t'', cb_name = Some ''f''\<rparr>,
      sse_message = None, sse_usage = None\<rparr>"
    by (simp add: opening_event_def read_event_def read_content_block_def req_field_def opt_field_def)
  ultimately show ?thesis
    by (simp add: claude_after_def claude_chunk_def str_lines_def strip_prefix_def starts_with_def sample_provider_def
        claude_event_def block_start_def or_blank_def claude_start_def)
qed

theorem claude_stream_may_stop_anywhere_witness:
  "snd (claude_after sample_provider [opening_chunk]) = claude_start\<lparr>cl_bufs := [0 \<mapsto> (''t'', ''f'', [])]\<rparr> \<and>
   (\<exists>r. (case read_claude sample_provider [Inr opening_chunk] ([], claude_start) of
           (sent, failure) \<Rightarrow> stream_result sent failure) = Inr r \<and> rs_tool_calls r = [])"
  using claude_stream_may_stop_anywhere [of sample_provider "[opening_chunk]"]
  by (simp add: opening_state claude_start_def List.map_filter_simps)

text \<open>
  A stream of an OpenAI-compatible provider fails when it ends without being done while a tool call is
  open, or with no output at all.
\<close>

theorem openai_stream_must_end:
  "case read_stream env cs ([], stream_start) of (st, failure) \<Rightarrow>
     ss_done st \<or> (ss_bufs st = [] \<and> ss_any st) \<or>
     (\<exists>e. stream_result (fst (read_openai_stream env cs)) (snd (read_openai_stream env cs)) = Inl e)"
  by (auto simp: read_openai_stream_def end_stream_def stream_result_def Let_def split: prod.splits option.splits)

end
