(* ===== verification/Model_Choice.thy ===== *)
theory Model_Choice
  imports Llm_Calls Compaction "HOL-Library.List_Lexorder" "HOL-Library.Product_Lexorder" "HOL-Library.Char_ord"
begin

text \<open>
  The choice of a model for \<^verbatim>\<open>auto\<close> (\<^verbatim>\<open>llm/auto_select.rs\<close>): the pins of sessions, what the candidates can
  take, the question to a cheap model and how its answer is read, and the resolution of a request.
  The parser of JSON is the parameter \<open>parse\<close>, the call of the picker is \<open>complete\<close>.
\<close>

section \<open>Candidates and pins\<close>

record Modality =
  need_vision :: bool
  need_audio :: bool
  need_video :: bool

record ModelCandidate =
  mc_id :: string
  mc_supports_vision :: bool
  mc_supports_audio :: bool

type_synonym session_pins = "string \<rightharpoonup> string"

definition get_pin :: "session_pins \<Rightarrow> string \<Rightarrow> string option" where
  "get_pin pins session_id = (if session_id = [] then None else pins session_id)"

definition set_pin :: "string \<Rightarrow> string \<Rightarrow> session_pins \<Rightarrow> session_pins" where
  "set_pin session_id model_id pins =
     (if session_id = [] \<or> model_id = [] then pins else pins(session_id \<mapsto> model_id))"

definition reserved_key :: "string \<Rightarrow> bool" where
  "reserved_key key \<longleftrightarrow>
     key \<in> {''auto'', ''__auto__'', ''default'', ''tier:auto''} \<or> starts_with key ''auto:'' \<or> starts_with key ''tier:''"

definition is_auto_alias :: "string \<Rightarrow> bool" where
  "is_auto_alias model = (let key = map ascii_lower (trim model) in key = [] \<or> reserved_key key)"

definition is_reserved_catalogue_id :: "string \<Rightarrow> bool" where
  "is_reserved_catalogue_id k = reserved_key (map ascii_lower (trim k))"

section \<open>What a request needs\<close>

definition is_first_user_turn :: "LlmMessage list \<Rightarrow> bool" where
  "is_first_user_turn messages =
     (case rposition (\<lambda>m. lm_role m = ''user'') messages of
        None \<Rightarrow> True
      | Some last_user \<Rightarrow>
          \<not> list_ex (\<lambda>m. lm_role m \<in> {''assistant'', ''tool'', ''function''}) (drop (Suc last_user) messages))"

definition needs_vision :: "LlmMessage \<Rightarrow> bool" where
  "needs_vision m =
     (case lm_content m of Text t \<Rightarrow> starts_with t ''data:image'' | Blocks bs \<Rightarrow> list_ex is_image bs)"

definition inspect_modality :: "LlmMessage list \<Rightarrow> Modality" where
  "inspect_modality messages =
     \<lparr>need_vision = list_ex needs_vision messages, need_audio = False, need_video = False\<rparr>"

definition supports_vision_heuristic :: "string \<Rightarrow> bool" where
  "supports_vision_heuristic k =
     mentions (map ascii_lower k)
       [''gpt-4o'', ''gpt-4.1'', ''gpt-5'', ''claude'', ''gemini'', ''qwen-vl'', ''qwen2.5-vl'', ''qwen3-vl'', ''vision'',
        ''-vl'', ''4o-mini'']"

definition score_tokens :: "(string \<times> int) list" where
  "score_tokens =
     [(''nano'', -30), (''mini'', -25), (''flash'', -22), (''lite'', -20), (''turbo'', -18), (''haiku'', -18),
      (''small'', -15), (''fast'', -12), (''pro'', 10), (''plus'', 8), (''max'', 12), (''opus'', 16), (''ultra'', 18)]"

definition cheapest_score :: "string \<Rightarrow> int" where
  "cheapest_score k =
     fold (\<lambda>(token, delta) score. if contains (map ascii_lower k) token then score + delta else score) score_tokens 50"

definition model_fits :: "ModelCandidate \<Rightarrow> Modality \<Rightarrow> bool" where
  "model_fits c m \<longleftrightarrow>
     \<not> (need_vision m \<and> \<not> mc_supports_vision c) \<and> \<not> (need_audio m \<and> \<not> mc_supports_audio c) \<and>
     \<not> (need_video m \<and> \<not> mc_supports_vision c)"

definition live :: "ModelCandidate list \<Rightarrow> ModelCandidate list" where
  "live cs = filter (\<lambda>c. \<not> is_reserved_catalogue_id (mc_id c)) cs"

definition first_id :: "ModelCandidate list \<Rightarrow> string option" where
  "first_id cs = (case cs of [] \<Rightarrow> None | c # rest \<Rightarrow> Some (mc_id c))"

definition cheapest_fitting :: "ModelCandidate list \<Rightarrow> Modality \<Rightarrow> string option" where
  "cheapest_fitting cs m =
     (let fitting0 = filter (\<lambda>c. \<not> is_reserved_catalogue_id (mc_id c) \<and> model_fits c m) cs;
          fitting = (if fitting0 = [] then live cs else fitting0)
      in first_id (sort_key (\<lambda>c. (cheapest_score (mc_id c), mc_id c)) fitting))"

section \<open>Asking a cheap model\<close>

definition USER_EXCERPT_CHARS :: nat where
  "USER_EXCERPT_CHARS = 1500"

definition user_excerpt :: "LlmMessage list \<Rightarrow> string" where
  "user_excerpt messages =
     (case filter (\<lambda>m. lm_role m = ''user'') (rev messages) of
        [] \<Rightarrow> []
      | m # ms \<Rightarrow>
          let excerpt = as_text (lm_content m)
          in if count_chars excerpt > USER_EXCERPT_CHARS
             then take_chars USER_EXCERPT_CHARS excerpt @ [CHR 0xE2, CHR 0x80, CHR 0xA6] else excerpt)"

definition yes_no :: "bool \<Rightarrow> string" where
  "yes_no b = (if b then ''yes'' else ''no'')"

definition classifier_messages :: "ModelCandidate list \<Rightarrow> LlmMessage list \<Rightarrow> string" where
  "classifier_messages cs messages =
     (let cards = map (\<lambda>c. ''id='' @ mc_id c @ '' vision='' @ yes_no (mc_supports_vision c) @
            '' audio='' @ yes_no (mc_supports_audio c)) cs;
          excerpt = user_excerpt messages
      in ''Live catalogue (each line is one model you may name):'' @ [CHR 0x0A] @ join [CHR 0x0A] cards @
         [CHR 0x0A, CHR 0x0A] @ ''User request:'' @ [CHR 0x0A] @ (if excerpt = [] then ''(empty)'' else excerpt) @
         [CHR 0x0A, CHR 0x0A] @ ''Reply with JSON only: {'' @ [CHR 0x22] @ ''model'' @ [CHR 0x22] @ '':'' @ [CHR 0x22] @
         ''<id>'' @ [CHR 0x22] @ ''}. The id must be one of the catalogue ids above.'')"

text \<open>
  The objects in an answer: the whole answer, and what stands between a closing brace and the last
  opening brace before it. The second argument is that text so far, reversed.
\<close>

definition object_of :: "(string \<Rightarrow> string + json) \<Rightarrow> string \<Rightarrow> json list" where
  "object_of parse s = (case parse s of Inl e \<Rightarrow> [] | Inr v \<Rightarrow> if json_is_object v then [v] else [])"

fun brace_objects :: "(string \<Rightarrow> string + json) \<Rightarrow> string option \<Rightarrow> string \<Rightarrow> json list" where
  "brace_objects parse cur [] = []"
| "brace_objects parse cur (b # bs) =
     (if b = CHR 0x7B then brace_objects parse (Some [b]) bs
      else case cur of
             None \<Rightarrow> brace_objects parse None bs
           | Some r \<Rightarrow>
               if b = CHR 0x7D then object_of parse (rev (b # r)) @ brace_objects parse None bs
               else brace_objects parse (Some (b # r)) bs)"

definition extract_json_objects :: "(string \<Rightarrow> string + json) \<Rightarrow> string \<Rightarrow> json list" where
  "extract_json_objects parse blob = object_of parse (trim blob) @ brace_objects parse None blob"

definition named_model :: "json \<Rightarrow> string" where
  "named_model blob =
     trim (case Option.bind (case json_get blob ''model'' of Some v \<Rightarrow> Some v | None \<Rightarrow> json_get blob ''id'') json_as_str of
             None \<Rightarrow> [] | Some s \<Rightarrow> s)"

definition parse_model_choice :: "(string \<Rightarrow> string + json) \<Rightarrow> string \<Rightarrow> string list \<Rightarrow> string option" where
  "parse_model_choice parse answer allowed =
     (if trim answer = [] \<or> allowed = [] then None
      else case filter (\<lambda>m. m \<in> set allowed) (map named_model (extract_json_objects parse answer)) of
             m # ms \<Rightarrow> Some m
           | [] \<Rightarrow> List.find (\<lambda>k. contains answer k) (sort_key (\<lambda>k. - int (length k)) allowed))"

definition classifier_request :: "string \<Rightarrow> ModelCandidate list \<Rightarrow> LlmMessage list \<Rightarrow> LlmRequest" where
  "classifier_request picker_model cs messages = \<lparr>
     rq_messages =
       [\<lparr>lm_role = ''system'', lm_content = Text
           (''You choose which catalogue model should answer this request. '' @
            ''Use the catalogue facts. Do not invent ids.'')\<rparr>,
        \<lparr>lm_role = ''user'', lm_content = Text (classifier_messages cs messages)\<rparr>],
     rq_system = None, rq_tools = [], rq_model = picker_model, rq_max_tokens = 48, rq_stream = False,
     rq_vision_override = Some False\<rparr>"

definition classify_model ::
  "(string \<Rightarrow> string + json) \<Rightarrow> (LlmRequest \<Rightarrow> string + LlmResponse) \<Rightarrow> string \<Rightarrow> ModelCandidate list \<Rightarrow>
     LlmMessage list \<Rightarrow> string option" where
  "classify_model parse complete picker_model cs messages =
     (if trim picker_model = [] \<or> cs = [] then None
      else case complete (classifier_request picker_model cs messages) of
             Inl e \<Rightarrow> None
           | Inr r \<Rightarrow> parse_model_choice parse (rs_content r) (map mc_id (live cs)))"

section \<open>Resolving a request\<close>

definition candidate :: "ModelCandidate list \<Rightarrow> string \<Rightarrow> ModelCandidate option" where
  "candidate cs k = List.find (\<lambda>c. mc_id c = k) cs"

definition usable :: "ModelCandidate list \<Rightarrow> Modality \<Rightarrow> string \<Rightarrow> bool" where
  "usable cs m k = (case candidate cs k of None \<Rightarrow> False | Some c \<Rightarrow> model_fits c m)"

definition resolve_selection ::
  "string \<Rightarrow> string \<Rightarrow> session_pins \<Rightarrow> ModelCandidate list \<Rightarrow> bool \<Rightarrow> Modality \<Rightarrow> string option \<Rightarrow>
     string \<times> session_pins" where
  "resolve_selection requested session_id pins cs first_turn m classified =
     (if \<not> is_auto_alias requested then (trim requested, pins)
      else let allowed = map mc_id (live cs);
               kept = (if first_turn then None
                       else case get_pin pins session_id of
                              None \<Rightarrow> None | Some pin \<Rightarrow> if usable cs m pin then Some pin else None);
               picked = (case classified of
                           None \<Rightarrow> None | Some k \<Rightarrow> if k \<in> set allowed \<and> usable cs m k then Some k else None)
           in case kept of
                Some pin \<Rightarrow> (pin, pins)
              | None \<Rightarrow>
                  (case picked of
                     Some k \<Rightarrow> (k, set_pin session_id k pins)
                   | None \<Rightarrow>
                       let fallback = (case cheapest_fitting cs m of
                             Some k \<Rightarrow> k
                           | None \<Rightarrow> (case allowed of k # ks \<Rightarrow> k | [] \<Rightarrow> trim requested))
                       in (fallback, set_pin session_id fallback pins)))"

section \<open>Properties\<close>

lemma first_id_sorted:
  assumes "first_id (sort_key f cs) = Some k"
  obtains c where "c \<in> set cs" and "mc_id c = k"
proof -
  from assms obtain c rest where "sort_key f cs = c # rest" "mc_id c = k"
    by (auto simp: first_id_def split: list.splits)
  then show ?thesis using that [of c] by (metis list.set_intros(1) set_sort)
qed

lemma candidate_mem: "candidate cs k = Some c \<Longrightarrow> c \<in> set cs \<and> mc_id c = k"
  by (auto simp: candidate_def find_Some_iff)

lemma candidate_distinct: "distinct (map mc_id cs) \<Longrightarrow> c \<in> set cs \<Longrightarrow> candidate cs (mc_id c) = Some c"
  by (induction cs) (auto simp: candidate_def)

lemma cheapest_fitting_fits:
  assumes "c0 \<in> set cs" and "\<not> is_reserved_catalogue_id (mc_id c0)" and "model_fits c0 m"
  obtains c where "c \<in> set cs" and "\<not> is_reserved_catalogue_id (mc_id c)" and "model_fits c m"
    and "cheapest_fitting cs m = Some (mc_id c)"
proof -
  let ?f = "\<lambda>c. (cheapest_score (mc_id c), mc_id c)"
  let ?cs = "filter (\<lambda>c. \<not> is_reserved_catalogue_id (mc_id c) \<and> model_fits c m) cs"
  have "c0 \<in> set ?cs" using assms by simp
  then have ne: "?cs \<noteq> []" by (metis list.distinct(1) list.set_cases)
  then have f: "cheapest_fitting cs m = first_id (sort_key ?f ?cs)" by (simp add: cheapest_fitting_def Let_def)
  from ne have "sort_key ?f ?cs \<noteq> []" by (metis set_empty set_sort)
  then obtain k where k: "first_id (sort_key ?f ?cs) = Some k"
    by (cases "sort_key ?f ?cs") (simp_all add: first_id_def)
  then obtain c where "c \<in> set ?cs" "mc_id c = k" by (rule first_id_sorted)
  then show ?thesis using that [of c] f k by simp
qed

text \<open>A live candidate with this identifier takes the modality.\<close>

definition good_choice :: "ModelCandidate list \<Rightarrow> Modality \<Rightarrow> string \<Rightarrow> bool" where
  "good_choice cs m k \<longleftrightarrow> (\<exists>c \<in> set cs. mc_id c = k \<and> \<not> is_reserved_catalogue_id k \<and> model_fits c m)"

lemma good_choice_usable: "distinct (map mc_id cs) \<Longrightarrow> good_choice cs m k \<Longrightarrow> usable cs m k"
  by (auto simp: good_choice_def usable_def candidate_distinct)

lemma usable_good: "usable cs m k \<Longrightarrow> \<not> is_reserved_catalogue_id k \<Longrightarrow> good_choice cs m k"
  by (auto simp: good_choice_def usable_def dest!: candidate_mem split: option.splits)

lemma resolve_good:
  assumes "is_auto_alias requested" and "good_choice cs m k0"
    and "\<And>pin. get_pin pins session_id = Some pin \<Longrightarrow> \<not> is_reserved_catalogue_id pin"
    and "resolve_selection requested session_id pins cs first_turn m classified = (k, pins')"
  shows "good_choice cs m k" and "pins' = pins \<and> get_pin pins session_id = Some k \<or> pins' = set_pin session_id k pins"
proof -
  obtain c0 where c0: "c0 \<in> set cs" "\<not> is_reserved_catalogue_id (mc_id c0)" "model_fits c0 m"
    using assms(2) by (auto simp: good_choice_def)
  obtain c where c: "c \<in> set cs" "\<not> is_reserved_catalogue_id (mc_id c)" "model_fits c m"
    and cheap: "cheapest_fitting cs m = Some (mc_id c)"
    by (rule cheapest_fitting_fits [OF c0])
  have cheap_good: "good_choice cs m (mc_id c)" using c by (auto simp: good_choice_def)
  have picked: "good_choice cs m j" if "j \<in> set (map mc_id (live cs))" "usable cs m j" for j
    using that usable_good [of cs m j] by (auto simp: live_def)
  show "good_choice cs m k" and "pins' = pins \<and> get_pin pins session_id = Some k \<or> pins' = set_pin session_id k pins"
    using assms(1,3,4) cheap cheap_good picked usable_good
    by (auto simp: resolve_selection_def Let_def split: option.splits if_splits)
qed

text \<open>
  C39. When a live candidate can take what is attached, \<^verbatim>\<open>auto\<close> becomes such a candidate, whatever the
  classifier says; and the calls that follow in the same turn keep it, whatever the classifier says then.
\<close>

theorem auto_fits_and_stays:
  assumes "is_auto_alias requested" and "is_auto_alias again" and "session_id \<noteq> []"
    and "distinct (map mc_id cs)" and "[] \<notin> set (map mc_id cs)" and "good_choice cs m k0"
    and "\<And>pin. get_pin pins session_id = Some pin \<Longrightarrow> \<not> is_reserved_catalogue_id pin"
    and "resolve_selection requested session_id pins cs first_turn m classified = (k, pins')"
  shows "good_choice cs m k \<and> resolve_selection again session_id pins' cs False m classified' = (k, pins')"
proof -
  note r = resolve_good [OF assms(1,6,7,8)]
  have "k \<in> set (map mc_id cs)" using r(1) by (auto simp: good_choice_def)
  with assms(5) have "k \<noteq> []" by metis
  then have pin: "get_pin pins' session_id = Some k"
    using r(2) assms(3) by (auto simp: get_pin_def set_pin_def)
  have "usable cs m k" by (rule good_choice_usable [OF assms(4) r(1)])
  then show ?thesis using r(1) pin assms(2) by (simp add: resolve_selection_def)
qed

definition two_models :: "ModelCandidate list" where
  "two_models = [\<lparr>mc_id = ''qwen-max'', mc_supports_vision = False, mc_supports_audio = False\<rparr>,
     \<lparr>mc_id = ''gpt-4o-mini'', mc_supports_vision = True, mc_supports_audio = False\<rparr>]"

definition an_image :: Modality where
  "an_image = \<lparr>need_vision = True, need_audio = False, need_video = False\<rparr>"

lemma sample_names:
  "is_auto_alias ''auto''" "\<not> is_reserved_catalogue_id ''qwen-max''" "\<not> is_reserved_catalogue_id ''gpt-4o-mini''"
  by (simp_all add: is_auto_alias_def is_reserved_catalogue_id_def reserved_key_def str_eval ascii_lower_def starts_with_def)

theorem auto_fits_and_stays_witness:
  "resolve_selection ''auto'' ''s1'' [''s1'' \<mapsto> ''qwen-max''] two_models False an_image (Some ''qwen-max'') =
     (''gpt-4o-mini'', [''s1'' \<mapsto> ''gpt-4o-mini'']) \<and>
   good_choice two_models an_image ''gpt-4o-mini'' \<and>
   resolve_selection ''auto'' ''s1'' [''s1'' \<mapsto> ''gpt-4o-mini''] two_models False an_image (Some ''qwen-max'') =
     (''gpt-4o-mini'', [''s1'' \<mapsto> ''gpt-4o-mini''])"
proof -
  have one: "resolve_selection ''auto'' ''s1'' [''s1'' \<mapsto> ''qwen-max''] two_models False an_image (Some ''qwen-max'') =
     (''gpt-4o-mini'', [''s1'' \<mapsto> ''gpt-4o-mini''])"
    by (simp add: resolve_selection_def sample_names get_pin_def set_pin_def usable_def candidate_def two_models_def
        an_image_def model_fits_def cheapest_fitting_def first_id_def live_def Let_def)
  have "good_choice two_models an_image ''gpt-4o-mini''"
    by (simp add: good_choice_def two_models_def an_image_def model_fits_def sample_names)
  from auto_fits_and_stays [OF sample_names(1) sample_names(1) _ _ _ this _ one, of "Some ''qwen-max''"] one
  show ?thesis by (simp add: two_models_def get_pin_def sample_names)
qed

text \<open>Without a live candidate the alias itself is the result, and becomes the pin of the session.\<close>

theorem alias_is_the_last_resort:
  assumes "is_auto_alias requested" and "live cs = []" and "get_pin pins session_id = None"
  shows "resolve_selection requested session_id pins cs first_turn m classified =
    (trim requested, set_pin session_id (trim requested) pins)"
proof -
  have "cheapest_fitting cs m = None"
    using assms(2) by (auto simp: cheapest_fitting_def live_def filter_empty_conv first_id_def Let_def)
  then show ?thesis using assms by (auto simp: resolve_selection_def Let_def split: option.splits)
qed

end
