(* ===== verification/Pool_Tools.thy ===== *)
theory Pool_Tools
  imports Permissions File_Tools Store_Messages Openai
begin

text \<open>
  The tools \<^verbatim>\<open>pool_org\<close> (\<^verbatim>\<open>tools/pool_org.rs\<close>) and \<^verbatim>\<open>pool_chat\<close> (\<^verbatim>\<open>tools/pool_chat.rs\<close>): how the JSON that a model
  writes becomes a call of a service, and how the service's answer becomes text. The formats of
  \<^verbatim>\<open>chrono\<close> are the parameter \<open>fmt\<close>.
\<close>

section \<open>Contexts and answers\<close>

record ToolContext =
  tx_session_id :: string
  tx_memory_owner_id :: string
  tx_pool_session_id :: "string option"
  tx_cancel :: cancel_flag

text \<open>What the host wires into the tools: whether there is a subagent runtime, and the rest of the database.\<close>

record tool_host =
  th_ext :: ext
  th_subagent :: bool
  th_chats :: chat_db
  th_fmt :: "string \<Rightarrow> DateTime \<Rightarrow> string"

definition tool_caller :: "ToolContext \<Rightarrow> string option \<Rightarrow> CallerContext" where
  "tool_caller ctx source = \<lparr>cx_memory_owner_id = tx_memory_owner_id ctx, cx_session_id = tx_session_id ctx,
     cx_session_source = source, cx_pool_session_id = tx_pool_session_id ctx, cx_cancel = tx_cancel ctx\<rparr>"

definition session_source_at :: "chat_db \<Rightarrow> string \<Rightarrow> DateTime \<Rightarrow> string option" where
  "session_source_at chats session_id now =
     (case get_session session_id now chats of
        None \<Rightarrow> None | Some s \<Rightarrow> if se_source s = [] then None else Some (se_source s))"

definition session_source :: "tool_host \<Rightarrow> string \<Rightarrow> string option M" where
  "session_source h session_id =
     bindM (utc_now (th_ext h)) (\<lambda>now. ret (session_source_at (th_chats h) session_id now))"

definition lookup_origin_im_binding :: "tool_host \<Rightarrow> string \<Rightarrow> string option M" where
  "lookup_origin_im_binding h session_id =
     bindM (utc_now (th_ext h)) (\<lambda>now.
     ret (map_option im_binding_key (find_im_session_binding_for_session session_id now (th_chats h))))"

definition reply_summary :: "ext \<Rightarrow> json \<Rightarrow> string" where
  "reply_summary x v =
     (case Option.bind (json_get v ''summary'') json_as_str of Some s \<Rightarrow> s | None \<Rightarrow> ex_json_to_string x v)"

text \<open>The answer of a service as a tool result; a panic goes on unwinding.\<close>

definition answer_with :: "('a \<Rightarrow> string) \<Rightarrow> 'a M \<Rightarrow> call_outcome M" where
  "answer_with f m =
     bindM (catch_err m) (\<lambda>r. ret (case r of Inl e \<Rightarrow> tool_err (error_text e) | Inr v \<Rightarrow> tool_ok (f v)))"

definition text_or :: "string \<Rightarrow> json \<Rightarrow> string \<Rightarrow> string" where
  "text_or d input k = (case str_in input k of None \<Rightarrow> d | Some s \<Rightarrow> s)"

definition u64_in :: "json \<Rightarrow> string \<Rightarrow> nat option" where
  "u64_in input k = json_as_u64 (json_at input k)"

definition u64_or :: "nat \<Rightarrow> json \<Rightarrow> string \<Rightarrow> nat" where
  "u64_or d input k = (case u64_in input k of None \<Rightarrow> d | Some n \<Rightarrow> n)"

fun json_as_i64 :: "json \<Rightarrow> int option" where
  "json_as_i64 (JInt i) = (if - (2 ^ 63) \<le> i \<and> i < 2 ^ 63 then Some i else None)"
| "json_as_i64 _ = None"

definition i64_or :: "int \<Rightarrow> json \<Rightarrow> string \<Rightarrow> int" where
  "i64_or d input k = (case json_as_i64 (json_at input k) of None \<Rightarrow> d | Some i \<Rightarrow> i)"

definition not_blank_at :: "json \<Rightarrow> string \<Rightarrow> string option" where
  "not_blank_at input k = (case str_in input k of None \<Rightarrow> None | Some s \<Rightarrow> if trim s = [] then None else Some s)"

definition is_required :: "string \<Rightarrow> string \<Rightarrow> string" where
  "is_required field action = sq field @ '' is required for action '' @ sq action"

section \<open>Rendering\<close>

text \<open>\<^verbatim>\<open>from_value\<close> on what a service has embedded.\<close>

fun as_pool :: "json \<Rightarrow> PoolSession option" where
  "as_pool (JPoolStruct s) = Some s"
| "as_pool _ = None"

fun as_koi :: "json \<Rightarrow> KoiDefinition option" where
  "as_koi (JKoiStruct k) = Some k"
| "as_koi _ = None"

fun as_message :: "json \<Rightarrow> PoolMessage option" where
  "as_message (JMessageStruct m) = Some m"
| "as_message _ = None"

fun as_todo :: "json \<Rightarrow> KoiTodo option" where
  "as_todo (JTodoStruct t) = Some t"
| "as_todo _ = None"

definition listed :: "(json \<Rightarrow> 'a option) \<Rightarrow> json \<Rightarrow> string \<Rightarrow> 'a list" where
  "listed read v k = List.map_filter read (case arr_in v k of None \<Rightarrow> [] | Some js \<Rightarrow> js)"

definition minute :: string where
  "minute = ''%Y-%m-%d %H:%M''"

definition last_active :: "tool_host \<Rightarrow> PoolSession \<Rightarrow> string" where
  "last_active h s = (case ps_last_active_at s of None \<Rightarrow> ''never'' | Some d \<Rightarrow> th_fmt h minute d)"

definition pool_line :: "tool_host \<Rightarrow> PoolSession \<Rightarrow> string" where
  "pool_line h s =
     ''- '' @ ps_name s @ '' (id: '' @ short (ps_id s) @ '') ['' @
     (if ps_org_spec s = [] then ''no spec'' else ''has spec'') @ ''] status: '' @ ps_status s @
     '' | last active: '' @ last_active h s @ '' | updated: '' @ th_fmt h minute (ps_updated_at s) @
     (case ps_project_dir s of None \<Rightarrow> [] | Some d \<Rightarrow> '' | dir: '' @ d) @
     (if ps_task_timeout_secs s > 0 then '' | timeout: '' @ nat_digits (unat (ps_task_timeout_secs s)) @ ''s'' else [])"

definition koi_line :: "string \<Rightarrow> KoiDefinition \<Rightarrow> string" where
  "koi_line bullet k =
     bullet @ kd_icon k @ '' '' @ kd_name k @ '' (id: '' @ short (kd_id k) @ '') ['' @ kd_status k @ ''] role: '' @
     (if trim (kd_role k) = [] then ''unspecified'' else kd_role k)"

definition render_list_pools :: "tool_host \<Rightarrow> json \<Rightarrow> string" where
  "render_list_pools h v =
     (let sessions = listed as_pool v ''raw_sessions''; kois = listed as_koi v ''kois''
      in if sessions = [] then
           ''No project pools exist yet.'' @ [CHR 0x0A] @ ''Use '' @ sq ''create'' @
           '' to set up a new project pool with an org_spec.''
         else ''Project Pools ('' @ nat_digits (length sessions) @ ''):'' @ [CHR 0x0A] @
           join [CHR 0x0A] (map (pool_line h) sessions) @ [CHR 0x0A, CHR 0x0A] @
           ''Available Koi ('' @ nat_digits (length kois) @ ''):'' @ [CHR 0x0A] @
           (if kois = [] then ''  (none)'' else join [CHR 0x0A] (map (koi_line ''  '') kois)))"

definition render_members :: "json \<Rightarrow> string" where
  "render_members v =
     (let pool_id = text_or [] v ''pool_id''; members = listed as_koi v ''members''
      in if members = [] then
           ''Project '' @ sq (short pool_id) @ '' has no member Koi yet. Use '' @ sq ''add_member'' @
           '' to build the team before assigning work.''
         else ''Project '' @ sq (short pool_id) @ '' members ('' @ nat_digits (length members) @ ''):'' @ [CHR 0x0A] @
           join [CHR 0x0A] (map (koi_line ''- '') members))"

definition related_line :: "tool_host \<Rightarrow> PoolSession \<Rightarrow> string" where
  "related_line h s =
     ''- '' @ ps_name s @ '' (id: '' @ short (ps_id s) @ '') ['' @ ps_status s @ ''] last active: '' @ last_active h s @
     (if ps_org_spec s = [] then [] else '' | has org_spec'')"

definition render_find_related :: "tool_host \<Rightarrow> json \<Rightarrow> string \<Rightarrow> string" where
  "render_find_related h v keywords =
     (let results = listed as_pool v ''sessions''
      in if results = [] then
           ''No existing projects match keywords '' @ sq keywords @ ''. Consider creating a new project.''
         else ''Found '' @ nat_digits (length results) @ '' related project(s) for '' @ sq keywords @ '':'' @ [CHR 0x0A] @
           join [CHR 0x0A] (map (related_line h) results))"

definition clipped :: "nat \<Rightarrow> string \<Rightarrow> string" where
  "clipped n s = (if count_chars s > n then take_chars n s @ ''...'' else s)"

definition message_line :: "tool_host \<Rightarrow> PoolMessage \<Rightarrow> string" where
  "message_line h m =
     ''- '' @ pm_sender_id m @ '' | '' @ pm_msg_type m @ '' | '' @ clipped 200 (pm_content m) @ '' | '' @
     th_fmt h minute (pm_created_at m)"

text \<open>The pool of the answer is a snapshot and not a \<^verbatim>\<open>PoolSession\<close>, so its identifier is not shown.\<close>

definition render_messages :: "tool_host \<Rightarrow> json \<Rightarrow> string" where
  "render_messages h v =
     (let session = Option.bind (json_get v ''pool'') as_pool; msgs = listed as_message v ''messages''
      in ''Pool '' @ sq (case session of None \<Rightarrow> ''?'' | Some s \<Rightarrow> short (ps_id s)) @ '' messages ('' @
         nat_digits (length msgs) @ ''):'' @ [CHR 0x0A] @
         (if msgs = [] then ''(none)'' else join [CHR 0x0A] (map (message_line h) msgs)))"

definition todo_line :: "KoiTodo \<Rightarrow> string" where
  "todo_line t =
     ''- '' @ short (td_id t) @ '' | '' @ td_title t @ '' | '' @ td_status t @ '' | '' @ td_priority t @ '' | '' @
     td_owner_id t @ '' | '' @ (case td_claimed_by t of None \<Rightarrow> ''-'' | Some c \<Rightarrow> c)"

definition render_todos :: "json \<Rightarrow> string" where
  "render_todos v =
     (let todos = listed as_todo v ''todos''
      in ''Pool '' @ sq (short (text_or [] v ''pool_id'')) @ '' todos ('' @ nat_digits (length todos) @ ''):'' @ [CHR 0x0A] @
         (if todos = [] then ''(none)'' else join [CHR 0x0A] (map todo_line todos)))"

definition bool_str :: "bool \<Rightarrow> string" where
  "bool_str b = (if b then ''true'' else ''false'')"

definition render_wait_for_koi :: "ext \<Rightarrow> json \<Rightarrow> string" where
  "render_wait_for_koi x v =
     (let flag = (\<lambda>k. case Option.bind (json_get v k) json_as_bool of None \<Rightarrow> False | Some b \<Rightarrow> b)
      in ''Waited '' @ nat_digits (u64_or 0 v ''elapsed_ms'') @ ''ms for Koi work. terminal_reached='' @
         bool_str (flag ''terminal_reached'') @ '', timed_out='' @ bool_str (flag ''timed_out'') @
         '', matched_todos='' @ nat_digits (u64_or 0 v ''matched_todo_count'') @ '', status_counts='' @
         (case json_get v ''status_counts'' of None \<Rightarrow> ''{}'' | Some c \<Rightarrow> ex_json_to_string x c) @ ''. '' @
         text_or [] v ''summary'')"

definition render_org_spec :: "json \<Rightarrow> string" where
  "render_org_spec v =
     (let name = text_or [] v ''name''; spec = text_or [] v ''org_spec''
      in if spec = [] then
           ''Pool '' @ sq name @ '' has no org_spec set yet.'' @ [CHR 0x0A] @ ''Use '' @ sq ''update'' @
           '' to create one with project goals, Koi roles, collaboration rules, and success metrics.''
         else ''Pool: '' @ name @ '' ('' @ text_or [] v ''pool_id'' @ '')'' @ [CHR 0x0A, CHR 0x0A] @ ''---'' @ [CHR 0x0A] @ spec)"

section \<open>The tool pool_org\<close>

definition update_args :: "json \<Rightarrow> UpdateOrgSpecArgs" where
  "update_args input = \<lparr>uo_pool_id = text_or [] input ''pool_id'', uo_org_spec = str_in input ''org_spec'',
     uo_task_timeout_secs = map_option word_of_nat (u64_in input ''task_timeout_secs'')\<rparr>"

definition assign_args :: "json \<Rightarrow> AssignKoiArgs" where
  "assign_args input = \<lparr>
     as_pool_id = text_or [] input ''pool_id'', as_koi_id = text_or [] input ''koi_id'', as_task = text_or [] input ''task'',
     as_priority = text_or ''medium'' input ''priority'', as_timeout_secs = word_of_nat (u64_or 0 input ''timeout_secs''),
     as_context = (case str_in input ''context'' of None \<Rightarrow> None | Some s \<Rightarrow> if s = [] then None else Some s),
     as_depends_on = not_blank_at input ''depends_on''\<rparr>"

definition status_args :: "json \<Rightarrow> PostStatusArgs" where
  "status_args input = \<lparr>po_pool_id = text_or [] input ''pool_id'', po_content = text_or [] input ''content'',
     po_event_type = str_in input ''event_type''\<rparr>"

definition wait_args :: "json \<Rightarrow> WaitForKoiArgs" where
  "wait_args input = \<lparr>wk_pool_id = text_or [] input ''pool_id'', wk_koi_id = str_in input ''koi_id'',
     wk_todo_id = str_in input ''todo_id'', wk_min_wait_secs = u64_or 0 input ''min_wait_secs'',
     wk_timeout_secs = u64_or 60 input ''timeout_secs'', wk_initial_backoff_ms = u64_or 250 input ''initial_backoff_ms'',
     wk_max_backoff_ms = u64_or 2000 input ''max_backoff_ms''\<rparr>"

definition create_todo_args :: "json \<Rightarrow> CreateTodoArgs" where
  "create_todo_args input = \<lparr>ct_pool_id = text_or [] input ''pool_id'', ct_title = text_or [] input ''title'',
     ct_description = text_or [] input ''description'', ct_priority = text_or ''medium'' input ''priority'',
     ct_timeout_secs = word_of_nat (u64_or 0 input ''timeout_secs''), ct_depends_on = not_blank_at input ''depends_on''\<rparr>"

definition replace_args :: "json \<Rightarrow> ReplaceTodoArgs" where
  "replace_args input = \<lparr>rp_todo_id = text_or [] input ''todo_id'', rp_new_owner_id = text_or [] input ''new_owner_id'',
     rp_task = text_or [] input ''task'', rp_reason = text_or [] input ''reason'',
     rp_timeout_secs = map_option word_of_nat (u64_in input ''timeout_secs'')\<rparr>"

definition delete_args :: "json \<Rightarrow> DeleteTodoArgs" where
  "delete_args input = \<lparr>dt_todo_id = str_in input ''todo_id'', dt_pool_id = str_in input ''pool_id'',
     dt_status = str_in input ''delete_status'', dt_owner_id = str_in input ''delete_owner_id''\<rparr>"

definition merge_branches_args :: "json \<Rightarrow> MergeBranchesArgs" where
  "merge_branches_args input = \<lparr>mg_pool_id = text_or [] input ''pool_id'', mg_branch = not_blank_at input ''branch''\<rparr>"

definition create_pool_args :: "json \<Rightarrow> string option \<Rightarrow> CreatePoolArgs" where
  "create_pool_args input binding = \<lparr>cp_name = text_or [] input ''name'', cp_project_dir = str_in input ''project_dir'',
     cp_org_spec = str_in input ''org_spec'', cp_task_timeout_secs = word_of_nat (u64_or 0 input ''task_timeout_secs''),
     cp_origin_im_binding_key = binding\<rparr>"

text \<open>Answers given before a service is called.\<close>

definition no_runtime :: "string \<Rightarrow> call_outcome M" where
  "no_runtime action = ret (tool_err (action @ '' is not available in this host (no subagent runtime bound).''))"

definition unknown_action :: "string \<Rightarrow> string \<Rightarrow> call_outcome M" where
  "unknown_action action known = ret (tool_err (''Unknown action '' @ sq action @ ''. Use: '' @ known))"

definition ORG_ACTIONS :: string where
  "ORG_ACTIONS =
     ''create, read, update, list, add_member, remove_member, list_members, assign_koi, pause, resume, archive, '' @
     ''find_related, get_messages, get_todos, post_status, wait_for_koi, create_todo, claim_todo, complete_todo, '' @
     ''cancel_todo, resume_todo, replace_todo, delete_todo, update_todo_status, merge_branches''"

text \<open>The actions on pools, members and messages.\<close>

definition pool_action :: "tool_host \<Rightarrow> string \<Rightarrow> CallerContext \<Rightarrow> string \<Rightarrow> json \<Rightarrow> call_outcome M option" where
  "pool_action h session_id caller action input =
     (let x = th_ext h; pool_id = text_or [] input ''pool_id''; koi_id = text_or [] input ''koi_id'';
          summary = answer_with (reply_summary x)
      in if action = ''create'' then
           Some (bindM (lookup_origin_im_binding h session_id) (\<lambda>binding.
             summary (create_pool x caller (create_pool_args input binding))))
         else if action = ''read'' then Some (answer_with render_org_spec (read_org_spec x caller pool_id))
         else if action = ''update'' then Some (summary (update_org_spec x caller (update_args input)))
         else if action = ''list'' then Some (answer_with (render_list_pools h) (list_pools x))
         else if action = ''add_member'' then Some (summary (add_member x caller pool_id koi_id))
         else if action = ''remove_member'' then Some (summary (remove_member x caller pool_id koi_id))
         else if action = ''list_members'' then Some (answer_with render_members (list_members x caller pool_id))
         else if action = ''pause'' then Some (summary (set_pool_status x caller pool_id ''paused''))
         else if action = ''resume'' then Some (summary (set_pool_status x caller pool_id ''active''))
         else if action = ''archive'' then Some (summary (set_pool_status x caller pool_id ''archived''))
         else if action = ''find_related'' then
           (let k = text_or [] input ''keywords''
            in Some (answer_with (\<lambda>v. render_find_related h v k) (find_related x k)))
         else if action = ''get_messages'' then
           Some (answer_with (render_messages h) (service_get_pool_messages x caller pool_id (i64_or 50 input ''limit'')))
         else if action = ''get_todos'' then Some (answer_with render_todos (get_pool_todos x caller pool_id))
         else if action = ''post_status'' then Some (summary (post_status x caller (status_args input)))
         else if action = ''merge_branches'' then Some (summary (merge_branches x caller (merge_branches_args input)))
         else None)"

text \<open>The actions on todos.\<close>

definition todo_action :: "tool_host \<Rightarrow> CallerContext \<Rightarrow> string \<Rightarrow> json \<Rightarrow> call_outcome M" where
  "todo_action h caller action input =
     (let x = th_ext h; todo_id = text_or [] input ''todo_id''; summary = answer_with (reply_summary x);
          named = (\<lambda>m. if todo_id = [] then ret (tool_err (is_required ''todo_id'' action)) else m)
      in if action = ''assign_koi'' then summary (assign_koi x (th_subagent h) caller (assign_args input))
         else if action = ''create_todo'' then summary (create_todo x caller (create_todo_args input))
         else if action = ''claim_todo'' then named (summary (claim_todo x caller todo_id))
         else if action = ''complete_todo'' then
           named (let s = text_or [] input ''summary''
             in if trim s = [] then ret (tool_err (is_required ''summary'' action @
                  ''. Provide a concise description of what was accomplished.''))
                else summary (complete_todo x caller todo_id s))
         else if action = ''cancel_todo'' then
           named (summary (cancel_todo x caller todo_id (text_or ''Cancelled'' input ''reason'')))
         else if action = ''resume_todo'' then
           named (if \<not> th_subagent h then no_runtime action else summary (resume_todo x caller todo_id))
         else if action = ''replace_todo'' then
           (if \<not> th_subagent h then no_runtime action else summary (replace_todo x caller (replace_args input)))
         else if action = ''delete_todo'' then summary (delete_todo x caller (delete_args input))
         else if action = ''update_todo_status'' then
           summary (update_todo_status x caller \<lparr>us_todo_id = todo_id, us_new_status = text_or [] input ''status''\<rparr>)
         else unknown_action action ORG_ACTIONS)"

text \<open>Waiting may never return, so the whole call yields an option; all other actions return.\<close>

definition pool_org_call ::
  "tool_host \<Rightarrow> surroundings \<Rightarrow> ToolContext \<Rightarrow> json \<Rightarrow> world \<Rightarrow> ((error + call_outcome) \<times> world) option" where
  "pool_org_call h sr ctx input w =
     (let action = text_or ''list'' input ''action''
      in case session_source h (tx_session_id ctx) w of
           (Inl e, w1) \<Rightarrow> Some (Inl e, w1)
         | (Inr source, w1) \<Rightarrow>
             let caller = tool_caller ctx source
             in if action = ''wait_for_koi'' then
                  (case wait_for_koi (th_ext h) sr caller (wait_args input) w1 of
                     None \<Rightarrow> None
                   | Some (r, w2) \<Rightarrow>
                       Some (answer_with (render_wait_for_koi (th_ext h)) (\<lambda>w. (r, w)) w2))
                else Some
                  ((case pool_action h (tx_session_id ctx) caller action input of
                      Some m \<Rightarrow> m | None \<Rightarrow> todo_action h caller action input) w1))"

section \<open>The tool pool_chat\<close>

definition sender_of :: "KoiDefinition list \<Rightarrow> string \<Rightarrow> string" where
  "sender_of kois sender =
     (case map_of (rev (map (\<lambda>k. (kd_id k, kd_icon k @ '' '' @ kd_name k)) kois)) sender of
        None \<Rightarrow> sender | Some s \<Rightarrow> s)"

definition chat_line :: "tool_host \<Rightarrow> KoiDefinition list \<Rightarrow> PoolMessage \<Rightarrow> string" where
  "chat_line h kois m =
     ''['' @ th_fmt h ''%m-%d %H:%M'' (pm_created_at m) @ ''] #'' @ int_str (pm_id m) @ '' '' @
     sender_of kois (pm_sender_id m) @ '' ('' @ pm_msg_type m @ ''): '' @ clipped 500 (pm_content m)"

definition render_read :: "tool_host \<Rightarrow> json \<Rightarrow> string" where
  "render_read h v =
     (let kois = listed as_koi v ''kois''; msgs = listed as_message v ''messages''
      in if msgs = [] then ''No messages in this pool yet.''
         else ''Pool messages ('' @ nat_digits (length msgs) @ '' shown):'' @ [CHR 0x0A] @
           join [CHR 0x0A] (map (chat_line h kois) msgs))"

definition send_as :: "tool_host \<Rightarrow> ToolContext \<Rightarrow> json \<Rightarrow> int option \<Rightarrow> (PoolMessage \<Rightarrow> string) \<Rightarrow> call_outcome M" where
  "send_as h ctx input reply_to f =
     answer_with f (send_pool_message (th_ext h) (th_subagent h) (tool_caller ctx None)
       \<lparr>sm_pool_id = text_or [] input ''pool_id'', sm_sender_id = tx_memory_owner_id ctx,
        sm_content = text_or [] input ''content'', sm_reply_to_message_id = reply_to\<rparr>)"

definition pool_chat_call :: "tool_host \<Rightarrow> ToolContext \<Rightarrow> json \<Rightarrow> call_outcome M" where
  "pool_chat_call h ctx input =
     (let caller = tool_caller ctx None; action = text_or ''read'' input ''action'';
          blank = trim (text_or [] input ''content'') = []
      in if action = ''send'' then
           (if is_piscis caller then ret (tool_err
              (''Piscis cannot send pool_chat messages directly. Use pool_org actions such as assign_koi, '' @
               ''post_status, or get_messages instead.''))
            else if blank then ret (tool_err (is_required ''content'' action))
            else send_as h ctx input None (\<lambda>m. ''Message sent to pool (id: '' @ int_str (pm_id m) @ '').''))
         else if action = ''reply'' then
           (if is_piscis caller then ret (tool_err
              (''Piscis cannot reply in pool_chat directly. Use pool_org actions such as post_status or '' @
               ''get_messages instead.''))
            else if blank then ret (tool_err (is_required ''content'' action))
            else case json_as_i64 (json_at input ''message_id'') of
                   None \<Rightarrow> ret (tool_err (is_required ''message_id'' action))
                 | Some message_id \<Rightarrow> send_as h ctx input (Some message_id)
                     (\<lambda>m. ''Reply sent (id: '' @ int_str (pm_id m) @ '', replying to #'' @ int_str message_id @ '').''))
         else if action = ''read'' then
           answer_with (render_read h) (read_pool_messages (th_ext h) caller (text_or [] input ''pool_id'')
             (i64_or 20 input ''limit''))
         else unknown_action action ''send, read, reply'')"

end
