(* ===== verification/Tool_Permissions.thy ===== *)
theory Tool_Permissions
  imports Pool_Tools Chats Waiting
begin

text \<open>
  What a model can do to the board through the pool tools, whatever JSON it writes: composed from what
  the services do. Merging is the one action that touches the todos of others.
\<close>

section \<open>Rows of which only the integration changes\<close>

definition spared :: "(todo_row \<Rightarrow> bool) \<Rightarrow> db \<Rightarrow> db \<Rightarrow> bool" where
  "spared Q d d' \<longleftrightarrow> (wf_db d \<longrightarrow> wf_db d' \<and>
     (\<forall>i r. todo_at d i = Some r \<and> Q r \<longrightarrow>
        (\<exists>s u. todo_at d' i = Some (r\<lparr>td_integration_status := s, td_updated_at := u\<rparr>))))"

lemma spared_refl: "spared Q d d"
proof -
  have "r = r\<lparr>td_integration_status := td_integration_status r, td_updated_at := td_updated_at r\<rparr>" for r :: todo_row
    by simp
  then show ?thesis unfolding spared_def by metis
qed

interpretation spared: effect "spared (protected c)" for c
proof unfold_locales
  show "spared (protected c) d d" for d by (rule spared_refl)
next
  fix a b d
  assume ab: "spared (protected c) a b" and bd: "spared (protected c) b d"
  have same: "protected c (r\<lparr>td_integration_status := s, td_updated_at := u\<rparr>) = protected c r" for r s u
    by (simp add: protected_def)
  show "spared (protected c) a d"
    unfolding spared_def
  proof (intro impI conjI allI)
    assume a: "wf_db a"
    with ab have b: "wf_db b" by (simp add: spared_def)
    with bd show "wf_db d" by (simp add: spared_def)
    fix i r assume r: "todo_at a i = Some r \<and> protected c r"
    with ab a obtain s u where su: "todo_at b i = Some (r\<lparr>td_integration_status := s, td_updated_at := u\<rparr>)"
      unfolding spared_def by blast
    moreover have "protected c (r\<lparr>td_integration_status := s, td_updated_at := u\<rparr>)" using r same by blast
    ultimately obtain s' u' where "todo_at d i =
        Some (r\<lparr>td_integration_status := s, td_updated_at := u\<rparr>\<lparr>td_integration_status := s', td_updated_at := u'\<rparr>)"
      using bd b unfolding spared_def by blast
    then show "\<exists>s u. todo_at d i = Some (r\<lparr>td_integration_status := s, td_updated_at := u\<rparr>)" by auto
  qed
qed

lemma spared_kept: "effects (kept Q) m \<Longrightarrow> effects (spared Q) m"
proof -
  have "kept Q d d' \<Longrightarrow> spared Q d d'" for d d'
    using spared_refl [of Q d] unfolding kept_def spared_def by metis
  then show "effects (kept Q) m \<Longrightarrow> effects (spared Q) m" unfolding effects_def by blast
qed

lemma spared_same: "effects same_todos m \<Longrightarrow> effects keeps_wf m \<Longrightarrow> effects (spared Q) m"
  by (intro spared_kept kept_same)

lemma spared_integration [effect_intros]:
  "effects (spared (protected c)) (set_koi_todo_integration_status_by_branch x p b s)"
proof -
  have one: "spared (protected c) d (update_todos P (\<lambda>r. r\<lparr>td_integration_status := Some s, td_updated_at := u\<rparr>) d)"
    for P d u
  proof -
    have wf: "wf_db (update_todos P (\<lambda>r. r\<lparr>td_integration_status := Some s, td_updated_at := u\<rparr>) d)" if "wf_db d"
      using that by (intro wf_update_todos) (auto simp: todo_refs_def)
    have "\<exists>s' u'. (if P r then r\<lparr>td_integration_status := Some s, td_updated_at := u\<rparr> else r) =
        r\<lparr>td_integration_status := s', td_updated_at := u'\<rparr>" for r :: todo_row
    proof (cases "P r")
      case False
      then have "(if P r then r\<lparr>td_integration_status := Some s, td_updated_at := u\<rparr> else r) =
          r\<lparr>td_integration_status := td_integration_status r, td_updated_at := td_updated_at r\<rparr>" by simp
      then show ?thesis by blast
    qed auto
    with wf show ?thesis by (auto simp: spared_def todo_at_update_todos)
  qed
  show ?thesis
    unfolding set_koi_todo_integration_status_by_branch_def
    by (intro effect_intros) (simp add: effects_execute_iff one Let_def)
qed

lemma spared_merge: "effects (spared (protected c)) (merge_branches x cl args)"
  unfolding merge_branches_def
  by (intro effect_intros; rule spared_same; intro effect_intros)

section \<open>Services that leave the todos alone\<close>

lemma same_todos_delete_member [effect_intros]:
  "effects same_todos (execute (\<lambda>d. Inr (n d, delete_member i k d)))"
  by (rule same_todos_execute) (auto simp: delete_member_def)

lemma same_todos_pool_statements [effect_intros]:
  "effects same_todos (update_pool_org_spec x i s)" "effects same_todos (update_pool_session_config x i t)"
  "effects same_todos (update_pool_session_status x i s)" "effects same_todos (set_pool_origin_im_binding x i ok)"
  "effects same_todos (create_pool_session_with_dir x n d tt)"
  "effects same_todos (add_pool_member x i k)" "effects same_todos (remove_pool_member i k)"
  "effects same_todos (list_pool_sessions x)" "effects same_todos (list_kois x)"
  "effects same_todos (list_pool_members x i)" "effects same_todos (get_pool_messages x i l off)"
  "effects same_todos (find_related_pool_sessions x kw)" "effects same_todos (is_pool_member i k)"
  "effects same_todos (count_active_todos_for_member i k)"
  unfolding update_pool_org_spec_def update_pool_session_config_def update_pool_session_status_def
    set_pool_origin_im_binding_def create_pool_session_with_dir_def
    create_pool_session_with_meta_def add_pool_member_def remove_pool_member_def
    list_pool_sessions_def list_kois_def list_pool_members_def get_pool_messages_def
    find_related_pool_sessions_def is_pool_member_def count_active_todos_for_member_def Let_def
  by (intro effect_intros; auto intro: effect_intros)+

lemma same_todos_services:
  "effects same_todos (create_pool x c cp)" "effects same_todos (read_org_spec x c p)"
  "effects same_todos (update_org_spec x c uo)" "effects same_todos (list_pools x)"
  "effects same_todos (find_related x kw)" "effects same_todos (list_members x c p)"
  "effects same_todos (add_member x c p k)" "effects same_todos (remove_member x c p k)"
  "effects same_todos (set_pool_status x c p s)" "effects same_todos (read_pool_messages x c p l)"
  "effects same_todos (get_pool_todos x c p)" "effects same_todos (post_status x c po)"
  unfolding create_pool_def read_org_spec_def update_org_spec_def list_pools_def find_related_def
    list_members_def add_member_def remove_member_def set_pool_status_def read_pool_messages_def
    get_pool_todos_def post_status_def Let_def
  by (intro effect_intros)+

section \<open>What an action does\<close>

context effect
begin

lemma answer_with [effect_intros]: "effects R m \<Longrightarrow> effects R (answer_with f m)"
  unfolding answer_with_def by (intro effect_intros bind ret)

lemma tool_lookups [effect_intros]:
  "effects R (session_source h i)" "effects R (lookup_origin_im_binding h i)"
  unfolding session_source_def lookup_origin_im_binding_def by (intro effect_intros bind ret utc_now)+

lemma tool_refusals [effect_intros]:
  "effects R (no_runtime a)" "effects R (unknown_action a k)"
  unfolding no_runtime_def unknown_action_def by (intro ret)+

end

lemma kept_service_of_pools:
  "effects (kept Q) (create_pool x c cp)" "effects (kept Q) (read_org_spec x c p)"
  "effects (kept Q) (update_org_spec x c uo)" "effects (kept Q) (list_pools x)"
  "effects (kept Q) (find_related x kw)" "effects (kept Q) (list_members x c p)"
  "effects (kept Q) (add_member x c p k)" "effects (kept Q) (remove_member x c p k)"
  "effects (kept Q) (set_pool_status x c p s)" "effects (kept Q) (read_pool_messages x c p l)"
  "effects (kept Q) (get_pool_todos x c p)" "effects (kept Q) (post_status x c po)"
  by (rule kept_same; rule same_todos_services wf_services_pool wf_services_messages)+

lemmas kept_todo_services = kept_create_services kept_claim_todo kept_complete_todo kept_cancel_todo
  kept_update_todo_status kept_resume_todo kept_replace_todo kept_send_pool_message

lemma kept_pool_action:
  assumes "pool_action h i c a input = Some m" and "a \<noteq> ''merge_branches''"
  shows "effects (kept Q) m"
  using assms unfolding pool_action_def Let_def service_get_pool_messages_def
  by (auto split: if_splits intro!: effect_intros kept_service_of_pools)

lemma spared_pool_action:
  assumes "pool_action h i c a input = Some m"
  shows "effects (spared (protected c)) m"
proof (cases "a = ''merge_branches''")
  case True
  with assms have "m = answer_with (reply_summary (th_ext h)) (merge_branches (th_ext h) c (merge_branches_args input))"
    by (simp add: pool_action_def Let_def)
  then show ?thesis by (simp add: effect_intros spared_merge)
next
  case False
  then show ?thesis by (rule spared_kept [OF kept_pool_action [OF assms]])
qed

lemma kept_todo_action:
  "\<not> is_piscis c \<Longrightarrow> effects (kept (protected c)) (todo_action h c a input)"
  unfolding todo_action_def Let_def
  by (auto intro!: effect_intros kept_todo_services kept_delete_todo)

lemma kept_pool_chat_call: "effects (kept Q) (pool_chat_call h ctx input)"
  unfolding pool_chat_call_def send_as_def Let_def
  by (auto split: option.split intro!: effect_intros kept_todo_services kept_service_of_pools)

text \<open>The whole call: only Piscis may wait, so a call of anybody else returns.\<close>

lemma pool_org_call_effect:
  assumes c: "tx_memory_owner_id ctx \<noteq> ''piscis''"
  shows "\<exists>r w'. pool_org_call h sr ctx input w = Some (r, w') \<and>
    (if text_or ''list'' input ''action'' = ''merge_branches''
     then \<exists>caller. cx_memory_owner_id caller = tx_memory_owner_id ctx \<and> spared (protected caller) (w_db w) (w_db w')
     else \<exists>caller. cx_memory_owner_id caller = tx_memory_owner_id ctx \<and> kept (protected caller) (w_db w) (w_db w'))"
proof -
  let ?a = "text_or ''list'' input ''action''"
  obtain r1 w1 where run: "session_source h (tx_session_id ctx) w = (r1, w1)"
    by (cases "session_source h (tx_session_id ctx) w")
  have db: "w_db w1 = w_db w" and r1: "\<exists>v. r1 = Inr v"
    using run by (auto simp: session_source_def bindM_def utc_now_def reading_def ret_def split: prod.splits sum.splits)
  from r1 obtain source where source: "r1 = Inr source" by blast
  let ?c = "tool_caller ctx source"
  have owner: "cx_memory_owner_id ?c = tx_memory_owner_id ctx" and piscis: "\<not> is_piscis ?c"
    using c by (simp_all add: tool_caller_def is_piscis_def)
  show ?thesis
  proof (cases "?a = ''wait_for_koi''")
    case True
    have "wait_for_koi (th_ext h) sr ?c (wait_args input) w1 = Some
        (Inl (Anyhow ''Only Piscis may wait on Koi execution through wait_for_koi.''), w1)"
      using piscis by (simp add: wait_for_koi_def bail_def)
    moreover have "answer_with f (\<lambda>w. (Inl (Anyhow e), w)) w1 =
        (Inr (tool_err (error_text (Anyhow e))), w1)" for f :: "json \<Rightarrow> string" and e
      by (simp add: answer_with_def bindM_def catch_err_run ret_def)
    ultimately have "\<exists>r. pool_org_call h sr ctx input w = Some (r, w1)"
      using run source True by (simp add: pool_org_call_def Let_def)
    then obtain r where "pool_org_call h sr ctx input w = Some (r, w1)" by blast
    moreover have "kept (protected ?c) (w_db w) (w_db w1)" using db by (simp add: kept.R_refl)
    ultimately show ?thesis using True owner by auto
  next
    case False
    let ?m = "case pool_action h (tx_session_id ctx) ?c ?a input of
        Some m \<Rightarrow> m | None \<Rightarrow> todo_action h ?c ?a input"
    have call: "pool_org_call h sr ctx input w = Some (?m w1)"
      using run source False by (simp add: pool_org_call_def Let_def)
    obtain r w' where m: "?m w1 = (r, w')" by (cases "?m w1")
    have "effects (kept (protected ?c)) ?m" if "?a \<noteq> ''merge_branches''"
      using kept_pool_action [OF _ that] kept_todo_action [OF piscis]
      by (auto split: option.split)
    moreover have "effects (spared (protected ?c)) ?m"
      using spared_pool_action spared_kept [OF kept_todo_action [OF piscis]] by (auto split: option.split)
    moreover have "R (w_db w) (w_db w')" if "effects R ?m" for R
      using that m db unfolding effects_def by (metis snd_conv)
    ultimately show ?thesis using call m owner by auto
  qed
qed

section \<open>Properties\<close>

text \<open>
  C40. Whatever JSON an agent other than Piscis passes to the pool tools, both return, and every todo that
  another agent owns or that is settled is afterwards exactly as it was; only the action that merges
  branches, which is open to everybody, may write its integration status and the time of its last change.
\<close>

theorem tools_spare_the_todos_of_others:
  assumes "tx_memory_owner_id ctx \<noteq> ''piscis''" and "wf_db (w_db w)"
    and "todo_at (w_db w) i = Some t"
    and "td_owner_id t \<noteq> tx_memory_owner_id ctx \<or> td_status t = ''done'' \<or> td_status t = ''cancelled''"
  shows "(\<exists>r w'. pool_org_call h sr ctx input w = Some (r, w') \<and>
      (if text_or ''list'' input ''action'' = ''merge_branches''
       then \<exists>s u. todo_at (w_db w') i = Some (t\<lparr>td_integration_status := s, td_updated_at := u\<rparr>)
       else todo_at (w_db w') i = Some t)) \<and>
    todo_at (w_db (snd (pool_chat_call h ctx input w))) i = Some t"
proof -
  have p: "protected caller t" if "cx_memory_owner_id caller = tx_memory_owner_id ctx" for caller
    using that assms(1,4) by (auto simp: protected_def is_piscis_def)
  have "todo_at (w_db (snd (pool_chat_call h ctx input w))) i = Some t"
    using kept_pool_chat_call [of "\<lambda>_. True" h ctx input] assms(2,3)
    unfolding effects_def kept_def by blast
  moreover obtain r w' where "pool_org_call h sr ctx input w = Some (r, w')"
    and e: "if text_or ''list'' input ''action'' = ''merge_branches''
     then \<exists>caller. cx_memory_owner_id caller = tx_memory_owner_id ctx \<and> spared (protected caller) (w_db w) (w_db w')
     else \<exists>caller. cx_memory_owner_id caller = tx_memory_owner_id ctx \<and> kept (protected caller) (w_db w) (w_db w')"
    using pool_org_call_effect [OF assms(1)] by blast
  moreover have "if text_or ''list'' input ''action'' = ''merge_branches''
       then \<exists>s u. todo_at (w_db w') i = Some (t\<lparr>td_integration_status := s, td_updated_at := u\<rparr>)
       else todo_at (w_db w') i = Some t"
    using e p assms(2,3) unfolding spared_def kept_def by (auto split: if_splits)
  ultimately show ?thesis by blast
qed

definition sample_host :: tool_host where
  "sample_host = \<lparr>th_ext = sample_ext, th_subagent = False, th_chats = empty_chat, th_fmt = (\<lambda>f d. f)\<rparr>"

definition beta_tools :: ToolContext where
  "beta_tools = \<lparr>tx_session_id = ''s1'', tx_memory_owner_id = ''k2'', tx_pool_session_id = Some ''p1'', tx_cancel = None\<rparr>"

theorem tools_spare_the_todos_of_others_witness:
  "\<exists>r w'. pool_org_call sample_host slow_clock beta_tools
     (JObj [(''action'', JStr ''cancel_todo''), (''todo_id'', JStr ''t1'')]) (start_world sample_db) = Some (r, w') \<and>
     todo_at (w_db w') ''t1'' = Some (todo_row_of ''t1'' ''k1'' ''todo'' (Some ''p1'') None)"
proof -
  have t: "todo_at (w_db (start_world sample_db)) ''t1'' = Some (todo_row_of ''t1'' ''k1'' ''todo'' (Some ''p1'') None)"
    by code_simp
  have a: "text_or ''list'' (JObj [(''action'', JStr ''cancel_todo''), (''todo_id'', JStr ''t1'')]) ''action'' = ''cancel_todo''"
    by code_simp
  show ?thesis
    using tools_spare_the_todos_of_others [of beta_tools "start_world sample_db" "''t1''", OF _ _ t,
        where h = sample_host and sr = slow_clock
          and input = "JObj [(''action'', JStr ''cancel_todo''), (''todo_id'', JStr ''t1'')]"]
    by (simp add: beta_tools_def a) (simp add: row_defs)
qed

end
