(* ===== verification/Spec2Isabelle.thy ===== *)
theory Spec2Isabelle
  imports Dispatch Permissions Waiting Merging Coordination Mentions Requests
    Loop_Bounds Run_Properties Edits File_Safety File_Modes Repairs Attachment_Uris
    Chats Memories Heartbeat Tasks Summary_Merges Preprocessing
    Provider_Requests Provider_Streams Model_Choice Tool_Permissions
begin

text \<open>
  A verification of the core of \<^verbatim>\<open>piscis-engine\<close>: the pool, in which several agents (Kois) and a
  project manager (Piscis) share a board of todos, and the agent loop's view of a conversation.

  \<^bold>\<open>The program.\<close> A pool session (\<^verbatim>\<open>pool_sessions\<close>) has members, messages and todos, kept in SQLite
  (\<^verbatim>\<open>store/db.rs\<close>). The services (\<^verbatim>\<open>pool/services.rs\<close>) are what agents and users call: they check
  permissions, change rows, post messages and emit events. The coordinator (\<^verbatim>\<open>pool/coordinator.rs\<close>)
  decides which todo starts when, and runs one turn of a Koi as a subagent (\<^verbatim>\<open>pool/subagent.rs\<close>); each
  Koi works on a git branch of its own (\<^verbatim>\<open>pool/git.rs\<close>), which a merge service integrates, and the
  dependency gate (\<^verbatim>\<open>integration.rs\<close>) holds todos back until what they depend on is done and merged.
  \<^verbatim>\<open>project_state.rs\<close> assesses the board from its messages. An agent's turn is a loop over an LLM
  (\<^verbatim>\<open>agent/loop_.rs\<close>, \<^verbatim>\<open>agent/message_utils.rs\<close>) that sends requests built from a message log.

  \<^bold>\<open>Foundations.\<close> \<open>Rust_Str\<close> and \<open>Rust_Alnum\<close> are Rust's strings as UTF-8 byte lists with the library
  functions the source calls (slices off a character boundary panic, as \<open>None\<close>); \<open>Timestamps\<close> is
  \<^verbatim>\<open>chrono\<close> and SQLite's \<^verbatim>\<open>datetime\<close>. \<open>World\<close> is the state of the program with its effects: the
  database, the clock, the source of identifiers, the events, the queued closures, and the monad of
  operations that may fail, with the locale \<open>effects\<close> of what an operation may change. What is not
  under \<^verbatim>\<open>src/\<close> is a parameter: the git binary and the file system (\<open>ext\<close>), the subagent runtime
  (\<open>runtime\<close>), the rendering of JSON (\<open>js\<close>), the pauses of a wait (\<open>slow\<close>).

  \<^bold>\<open>Data and store.\<close> \<open>Models\<close> has the records of \<^verbatim>\<open>models.rs\<close> and \<^verbatim>\<open>host.rs\<close>. \<open>Store_Schema\<close> is the pool
  part of \<^verbatim>\<open>migrate\<close>: tables, keys, cascades, with \<open>wf_db\<close> and the locale \<open>keeps_wf\<close>, interpreted for
  the statements; \<open>Store_Koi\<close>, \<open>Store_Todo\<close>, \<open>Store_Pool\<close> are the operations of \<^verbatim>\<open>db.rs\<close> on them, one
  definition each; \<open>Board\<close> says what an operation on a todo means for the board.

  \<^bold>\<open>Pool.\<close> \<open>Integration\<close>, \<open>Project_State\<close> and \<open>Git\<close> are their files, with their properties. \<open>Subagent\<close>
  is the contract of a runtime and the in-memory runtime. \<open>Coordinator\<close> is \<^verbatim>\<open>coordinator.rs\<close>;
  \<open>Turns\<close> shows what a turn does to its todo, \<open>Dispatch\<close> that interleaved dispatchers never give a
  Koi two todos in progress, \<open>Coordination\<close> and \<open>Mentions\<close> the limits of the watchdog, of replacements
  and of mentions. \<open>Services\<close> and \<open>Service_Todos\<close> are \<^verbatim>\<open>services.rs\<close>; \<open>Runs\<close> has the rules that step
  through their success paths, and \<open>Permissions\<close>, \<open>Pool_Lifecycle\<close>, \<open>Assignment\<close>, \<open>Waiting\<close> and \<open>Merging\<close>
  their properties. \<open>Samples\<close> is a small database on which the witnesses evaluate.

  \<^bold>\<open>Agent.\<close> \<open>Llm_Messages\<close> is the message log with its estimates and repairs, \<open>Request_View\<close> the request
  built from it; \<open>Requests\<close> shows that calls and results always match in it and that trimming fits.
  \<open>Receipts\<close> is \<^verbatim>\<open>tool_receipt.rs\<close>, \<open>Vision\<close> \<^verbatim>\<open>vision.rs\<close> with the delegation of images, and \<open>Wire\<close> shows when a
  request on the wire still matches. \<open>Loop_Guard\<close> has the detectors of repeated calls, \<open>Loop_Bounds\<close> what
  they can block. \<open>Tools\<close> is the registry with the texts of errors and audits, \<open>Plan\<close> the plan board.
  \<open>Tool_Phase\<close> is \<^verbatim>\<open>execute_single_tool\<close> and the half of an iteration after the answer; \<open>Tool_Turns\<close> shows
  which calls start there and that the log stays good. \<open>Compaction\<close> has the strategies that shorten the
  log, \<open>State_Frame\<close> the snapshot they leave, \<open>Compaction_Logs\<close> the locale \<open>compaction_strategy\<close> of what they
  keep, interpreted for the default one. \<open>Llm_Calls\<close> classifies errors and builds requests. \<open>Agent_Run\<close> is
  \<^verbatim>\<open>AgentLoop::run\<close>; \<open>Agent_Runs\<close> follows a run step by step, and \<open>Run_Properties\<close> states what holds of it.
  The interactions of a run with the outside (the model, the tools, the user, cancellation) are
  numbered by \<open>tick\<close>, and the outside is a function of that number: what the models answer, the JSON
  printer and parser, hashes and tools are parameters.

  \<^bold>\<open>Tools on files.\<close> \<open>Utf8\<close> is the decoding of bytes, \<open>Files\<close> Rust's paths, a file system as a map from
  locations to directories, files and symbolic links, with the walk of the system along a path, and
  \<^verbatim>\<open>path_text.rs\<close>. \<open>Policy_Gate\<close> is \<^verbatim>\<open>policy/gate.rs\<close> with \<^verbatim>\<open>security/injection.rs\<close>,
  \<open>File_Tools\<close> the three tools \<^verbatim>\<open>file_read\<close>, \<^verbatim>\<open>file_write\<close> and \<^verbatim>\<open>file_edit\<close>. \<open>File_Safety\<close> shows where a write that
  the gate allows can go, \<open>Edits\<close> what an edit does to a text, and \<open>File_Modes\<close> what a write
  does to the file system and that the modes of the gate are ordered, on the small file system at the end of \<open>File_Tools\<close>.
  Regular expressions, base64, the encodings other than UTF-8 and the texts of I/O errors are parameters.

  \<^bold>\<open>Chats and memories.\<close> \<open>Store_Chat\<close> and \<open>Store_Messages\<close> are the tables of \<^verbatim>\<open>db.rs\<close> around a session, as one
  record \<open>chat_db\<close> with one definition per operation; \<open>Chats\<close> shows that every sequence of operations keeps
  identifiers, counters and attachments good, how pages fit together and what opening the database loses.
  \<open>Attachments\<close> is the validation of attachments with its grammar of URIs; \<open>Attachment_Uris\<close> shows what an
  accepted one names. \<open>Store_Memory\<close> and \<open>Memories\<close> are the memories, who finds and who overwrites them.
  \<open>Store_Tasks\<close> and \<open>Tasks\<close> are skills, schedules, background tasks and task states. \<open>Json_Repair\<close> is \<^verbatim>\<open>llm/json_repair.rs\<close>; \<open>Repairs\<close> shows that it keeps what was written. JSON decoders, the
  rounding of a double and the full-text index are parameters.

  \<^bold>\<open>Patrols and summaries.\<close> \<open>Heartbeat\<close> is \<^verbatim>\<open>heartbeat.rs\<close>, on top of the assessment of \<open>Project_State\<close>, and shows
  which pools a patrol passes by and which events it is shown. \<open>Preprocess\<close> is \<^verbatim>\<open>rule_preprocess.rs\<close>, and
  \<open>Preprocessing\<close> shows what its rules keep. \<open>Summaries\<close> is the structured summary of \<^verbatim>\<open>summary_worker.rs\<close> with
  the incremental compaction of \<^verbatim>\<open>loop_.rs\<close>; \<open>Summary_Merges\<close> shows what merging keeps, what the prompt drops
  and which messages get lost.

  \<^bold>\<open>Providers.\<close> \<open>Openai\<close> is how \<^verbatim>\<open>llm/openai.rs\<close> builds the body of a request, \<open>Openai_Calls\<close> how it sends it and reads
  whole and streamed answers; \<open>Claude\<close> is \<^verbatim>\<open>llm/claude.rs\<close> with the choice of a client from \<^verbatim>\<open>llm/mod.rs\<close>. \<open>Wire_Calls\<close>
  turns the conversion of messages into a recursion that yields what is sent, \<open>Provider_Requests\<close> shows which
  calls and replies match in it and when thinking is asked for, \<open>Provider_Streams\<close> how streams depend on their
  chunks and their ends. \<open>Model_Choice\<close> is \<^verbatim>\<open>llm/auto_select.rs\<close>. The HTTP library is a function from the number of
  an attempt and its body to a reply.

  \<^bold>\<open>Pool tools.\<close> \<open>Pool_Tools\<close> is \<^verbatim>\<open>tools/pool_org.rs\<close> and \<^verbatim>\<open>tools/pool_chat.rs\<close>, the services as models call them with JSON;
  \<open>Tool_Permissions\<close> shows for each action which todos it cannot touch, with the effects of \<open>Permissions\<close>.

  \<^bold>\<open>Bounds and fuel.\<close> Nothing runs on fuel of ours. \<open>wait_loop\<close> may run on, so it is a partial function
  that need not have a value, and \<open>wait_for_koi_returns\<close> shows that it has one; the walk of \<open>snap_loop\<close> has
  the source's own 16 steps, and the walk along a path follows 40 links, as Linux does. All other recursions are structural or come with a measure.

  \<^bold>\<open>Not modelled.\<close> The search by embeddings; of a run the observers of hooks, the turn index of stored messages and the layers of the
  usage event, and that read-only calls of a batch run at the same time; of the file system
  permissions, hard links and Windows paths; the other tools, settings, secrets and sandbox (operating-system I/O); the CLI, the RPC server and the LSP client. Log
  lines are dropped.
\<close>

end
